(* ===== verification/Prelude.thy ===== *)
theory Prelude
  imports Main "HOL-Library.Word" "HOL-Library.Sublist" "HOL-Library.AList"
begin

text \<open>
  The vocabulary every component shares.
  \<^item> Rust's integers: \<open>u8\<close>, \<open>u16\<close>, \<open>u32\<close>, \<open>u64\<close> are words, with the saturating operations
    written out; \<open>usize\<close> values that count the elements of a collection are \<open>nat\<close>.
  \<^item> Time: an \<open>Instant\<close> is a number of nanoseconds since an arbitrary origin and a
    \<open>Duration\<close> a number of nanoseconds, both \<open>nat\<close>, so that subtraction saturates
    at zero as \<open>Instant::duration_since\<close> does. A \<open>chrono::DateTime<Utc>\<close> is an \<open>int\<close> number
    of nanoseconds since the epoch. The clock is an argument of every operation that reads it.
  \<^item> Strings are lists of \<open>char\<close>, one per UTF-8 byte, so that \<open>length\<close> is \<open>str::len\<close>. The
    operations of the standard library that look at Unicode classes (\<open>trim\<close>,
    \<open>to_lowercase\<close>) are given on the ASCII range, all other bytes being left alone.
  \<^item> The standard library's \<open>HashMap\<close> is a map \<open>'k \<rightharpoonup> 'v\<close>, or an association list where the
    code iterates over it or asks for its size.
  The lemmas declared \<open>[simp]\<close> or put into the collections \<open>arith_word\<close>, \<open>op_defs\<close> and
  \<open>inv_rules\<close> carry the proofs of the components.
\<close>

named_theorems arith_word \<open>reading word arithmetic as arithmetic on nat\<close>
named_theorems op_defs \<open>unfolding rules of a component's operations\<close>
named_theorems inv_rules \<open>introduction rules: an operation keeps an invariant\<close>

section \<open>Machine integers\<close>

type_synonym u8 = "8 word"
type_synonym u16 = "16 word"
type_synonym u32 = "32 word"
type_synonym u64 = "64 word"

definition sat_add :: "'a::len word \<Rightarrow> 'a word \<Rightarrow> 'a word" where
  "sat_add a b = (if unat a + unat b < 2 ^ LENGTH('a) then a + b else - 1)"

definition sat_sub :: "'a::len word \<Rightarrow> 'a word \<Rightarrow> 'a word" where
  "sat_sub a b = (if b \<le> a then a - b else 0)"

definition sat_mul :: "'a::len word \<Rightarrow> 'a word \<Rightarrow> 'a word" where
  "sat_mul a b = (if unat a * unat b < 2 ^ LENGTH('a) then a * b else - 1)"

text \<open>\<open>saturating_pow\<close>: the exact power, clamped to the largest value of the type.\<close>

definition sat_pow :: "'a::len word \<Rightarrow> nat \<Rightarrow> 'a word" where
  "sat_pow a n = (if unat a ^ n < 2 ^ LENGTH('a) then a ^ n else - 1)"

lemma unat_less_pow [simp]: "unat (a :: 'a::len word) < 2 ^ LENGTH('a)"
  by (rule unsigned_less)

lemma unat_le_max: "unat (a :: 'a::len word) \<le> 2 ^ LENGTH('a) - 1"
  using unat_less_pow [of a] by linarith

lemma unat_minus_one_word: "unat (- 1 :: 'a::len word) = 2 ^ LENGTH('a) - 1"
  by (simp add: unsigned_minus_1_eq_mask mask_eq_exp_minus_1)

lemma unat_sat_add [arith_word]:
  "unat (sat_add a (b :: 'a::len word)) = min (unat a + unat b) (2 ^ LENGTH('a) - 1)"
  by (auto simp: sat_add_def unat_minus_one_word unat_word_ariths)

lemma unat_sat_sub [arith_word]: "unat (sat_sub a (b :: 'a::len word)) = unat a - unat b"
  by (auto simp: sat_sub_def unat_sub word_le_nat_alt)

lemma unat_sat_mul [arith_word]:
  "unat (sat_mul a (b :: 'a::len word)) = min (unat a * unat b) (2 ^ LENGTH('a) - 1)"
  by (auto simp: sat_mul_def unat_minus_one_word unat_word_ariths)

lemma unat_power_small:
  "unat a ^ n < 2 ^ LENGTH('a) \<Longrightarrow> unat ((a :: 'a::len word) ^ n) = unat a ^ n"
proof (induction n)
  case 0
  then show ?case by simp
next
  case (Suc n)
  show ?case
  proof (cases "unat a = 0")
    case True
    then have "a = 0" by (simp add: unat_eq_0)
    then show ?thesis by simp
  next
    case False
    then have "unat a ^ n \<le> unat a ^ Suc n" by simp
    with Suc show ?thesis by (simp add: unat_word_ariths)
  qed
qed

lemma unat_sat_pow [arith_word]:
  "unat (sat_pow (a :: 'a::len word) n) = min (unat a ^ n) (2 ^ LENGTH('a) - 1)"
  by (auto simp: sat_pow_def unat_minus_one_word unat_power_small)

text \<open>A counter below some other value can be incremented without wrapping.\<close>

lemma unat_inc [arith_word]: "a < b \<Longrightarrow> unat (a + 1 :: 'a::len word) = Suc (unat a)"
  proof -
  assume "a < b"
  then have "unat a < unat b" by (simp add: word_less_nat_alt)
  moreover have "unat b < 2 ^ LENGTH('a)" by simp
  ultimately have "Suc (unat a) < 2 ^ LENGTH('a)" by linarith
  then show ?thesis by (simp add: unat_word_ariths)
qed

lemma inc_le: "a < b \<Longrightarrow> a + 1 \<le> (b :: 'a::len word)"
  by (simp add: word_le_nat_alt word_less_nat_alt unat_inc)

lemma inc_less_iff: "a < b \<Longrightarrow> a + 1 < b \<longleftrightarrow> Suc (unat a) < unat (b :: 'a::len word)"
  by (simp add: word_less_nat_alt unat_inc)

lemma unat_of_nat_small: "n < 2 ^ LENGTH('a) \<Longrightarrow> unat (of_nat n :: 'a::len word) = n"
  by (simp add: unat_of_nat)

section \<open>Time\<close>

type_synonym instant = nat
type_synonym duration = nat
type_synonym datetime = int

definition secs :: "nat \<Rightarrow> duration" where
  "secs n = n * 1000000000"

definition millis :: "nat \<Rightarrow> duration" where
  "millis n = n * 1000000"

definition as_secs :: "duration \<Rightarrow> nat" where
  "as_secs d = d div 1000000000"

text \<open>\<open>now.duration_since(t)\<close>, and \<open>t.elapsed()\<close> read at \<open>now\<close>.\<close>

definition duration_since :: "instant \<Rightarrow> instant \<Rightarrow> duration" where
  "duration_since now t = now - t"

lemma secs_mono [simp]: "secs a \<le> secs b \<longleftrightarrow> a \<le> b"
  by (simp add: secs_def)

lemma secs_less [simp]: "secs a < secs b \<longleftrightarrow> a < b"
  by (simp add: secs_def)

lemma secs_add: "secs (a + b) = secs a + secs b"
  by (simp add: secs_def algebra_simps)

lemma as_secs_secs [simp]: "as_secs (secs n) = n"
  by (simp add: as_secs_def secs_def)

lemma as_secs_le_iff: "n \<le> as_secs d \<longleftrightarrow> secs n \<le> d"
  by (simp add: as_secs_def secs_def less_eq_div_iff_mult_less_eq)

section \<open>Checks in sequence\<close>

text \<open>Checks joined by \<open>?\<close>: the first error is the result.\<close>

fun first_error :: "('e + unit) list \<Rightarrow> 'e + unit" where
  "first_error [] = Inr ()"
| "first_error (Inl e # rs) = Inl e"
| "first_error (Inr _ # rs) = first_error rs"

definition check :: "bool \<Rightarrow> 'e \<Rightarrow> 'e + unit" where
  "check ok e = (if ok then Inr () else Inl e)"

lemma first_error_ok [simp]: "first_error rs = Inr () \<longleftrightarrow> (\<forall>r\<in>set rs. r = Inr ())"
  by (induction rs rule: first_error.induct) auto

lemma check_ok [simp]: "check ok e = Inr () \<longleftrightarrow> ok"
  by (simp add: check_def)

section \<open>Vectors\<close>

text \<open>\<open>iter().position(..)\<close> and \<open>Vec::remove\<close> at an index below the length.\<close>

fun position :: "('a \<Rightarrow> bool) \<Rightarrow> 'a list \<Rightarrow> nat option" where
  "position P [] = None"
| "position P (x # xs) = (if P x then Some 0 else map_option Suc (position P xs))"

definition remove_at :: "nat \<Rightarrow> 'a list \<Rightarrow> 'a list" where
  "remove_at i xs = take i xs @ drop (Suc i) xs"

lemma position_Some:
  "position P xs = Some i \<Longrightarrow> i < length xs \<and> P (xs ! i) \<and> (\<forall>j<i. \<not> P (xs ! j))"
proof (induction xs arbitrary: i)
  case (Cons x xs)
  then show ?case by (cases i) (auto split: if_splits simp: less_Suc_eq_0_disj)
qed simp

lemma position_None [simp]: "position P xs = None \<longleftrightarrow> (\<forall>x\<in>set xs. \<not> P x)"
  by (induction xs) auto

lemma remove_at_length [simp]: "i < length xs \<Longrightarrow> length (remove_at i xs) = length xs - 1"
  by (simp add: remove_at_def)

lemma find_append: "find P (xs @ ys) = (case find P xs of Some x \<Rightarrow> Some x | None \<Rightarrow> find P ys)"
  by (induction xs) auto

lemma set_remove_at: "set (remove_at i xs) \<subseteq> set xs"
  by (auto simp: remove_at_def dest: in_set_takeD in_set_dropD)

section \<open>Components as machines\<close>

text \<open>
  Most components are a lock around some state and a set of operations. Whatever order the
  callers take the lock in, the component runs a list of operations one after the other:
  \<open>foldl step s es\<close>. An invariant that every operation keeps holds after any such list, and
  so does a relation to an abstract machine that every operation keeps.
\<close>

locale component =
  fixes step :: "'s \<Rightarrow> 'e \<Rightarrow> 's"
    and inv :: "'s \<Rightarrow> bool"
  assumes inv_step: "inv s \<Longrightarrow> inv (step s e)"
begin

lemma inv_run: "inv s \<Longrightarrow> inv (foldl step s es)"
  by (induction es arbitrary: s) (auto simp: inv_step)

lemma inv_run_prefix: "inv s \<Longrightarrow> inv (foldl step s (take n es))"
  by (rule inv_run)

end

locale refined_component = component step inv
  for step :: "'s \<Rightarrow> 'e \<Rightarrow> 's" and inv :: "'s \<Rightarrow> bool" +
  fixes astep :: "'a \<Rightarrow> 'e \<Rightarrow> 'a"
    and abs :: "'s \<Rightarrow> 'a"
  assumes simulates: "inv s \<Longrightarrow> abs (step s e) = astep (abs s) e"
begin

lemma run_simulates: "inv s \<Longrightarrow> abs (foldl step s es) = foldl astep (abs s) es"
  by (induction es arbitrary: s) (auto simp: inv_step simulates)

end

end
