(* ===== verification/Core_Types.thy ===== *)
theory Core_Types
  imports Rust_Text
begin

text \<open>
  The shared types of the crate \<open>frankclaw-core\<close>: identifiers and session keys
  (\<open>types.rs\<close>), the session scoping (\<open>session.rs\<close>), the messages, requests and responses of
  a model (\<open>model.rs\<close>), the authentication types (\<open>auth.rs\<close>) and the error hierarchy
  (\<open>error.rs\<close>). Lemmas: session keys parse back to their components, and the status code and
  retry flag of every error.
\<close>

section \<open>Identifiers (types.rs)\<close>

text \<open>
  A string slice \<open>s[..n]\<close> panics unless \<open>n\<close> is a character boundary: \<open>None\<close> is the panic. The
  bytes of a UTF-8 string that continue a character are those from 0x80 to 0xBF.
\<close>

definition is_continuation :: "char \<Rightarrow> bool" where
  "is_continuation c = (let n = (of_char c :: nat) in 128 \<le> n \<and> n \<le> 191)"

definition is_char_boundary :: "string \<Rightarrow> nat \<Rightarrow> bool" where
  "is_char_boundary s n \<longleftrightarrow>
     n = 0 \<or> n = length s \<or> (n < length s \<and> \<not> is_continuation (s ! n))"

definition slice_to :: "string \<Rightarrow> nat \<Rightarrow> string option" where
  "slice_to s n = (if is_char_boundary s n then Some (take n s) else None)"

definition max_id_len :: nat where
  "max_id_len = 255"

definition clamp_id :: "string \<Rightarrow> string option" where
  "clamp_id s = (if length s \<le> max_id_len then Some s else slice_to s max_id_len)"

datatype channel_id = ChannelId string
datatype agent_id = AgentId string
datatype session_key = SessionKey string

primrec channel_str :: "channel_id \<Rightarrow> string" where
  "channel_str (ChannelId s) = s"

primrec agent_str :: "agent_id \<Rightarrow> string" where
  "agent_str (AgentId s) = s"

primrec key_str :: "session_key \<Rightarrow> string" where
  "key_str (SessionKey s) = s"

definition channel_new :: "string \<Rightarrow> channel_id option" where
  "channel_new s = map_option ChannelId (clamp_id s)"

definition agent_new :: "string \<Rightarrow> agent_id option" where
  "agent_new s = map_option AgentId (clamp_id s)"

definition default_agent :: agent_id where
  "default_agent = AgentId ''default''"

abbreviation colon :: char where
  "colon \<equiv> CHR '':''"

definition session_key_new :: "agent_id \<Rightarrow> channel_id \<Rightarrow> string \<Rightarrow> session_key" where
  "session_key_new a c account =
     SessionKey (agent_str a @ [colon] @ channel_str c @ [colon] @ account)"

definition from_raw :: "string \<Rightarrow> session_key option" where
  "from_raw k = map_option SessionKey (if length k > 800 then slice_to k 800 else Some k)"

text \<open>\<open>parse\<close>: the outer option is the panic of \<open>clamp_id\<close>, the inner one the code's.\<close>

definition session_key_parse ::
  "session_key \<Rightarrow> (agent_id \<times> channel_id \<times> string) option option" where
  "session_key_parse k =
     (case splitn 3 colon (key_str k) of
        agent # channel # account # _ \<Rightarrow>
          (case (agent_new agent, channel_new channel) of
             (Some a, Some c) \<Rightarrow> Some (Some (a, c, account))
           | _ \<Rightarrow> None)
      | _ \<Rightarrow> Some None)"

definition plain_id :: "string \<Rightarrow> bool" where
  "plain_id s \<longleftrightarrow> length s \<le> max_id_len \<and> colon \<notin> set s"

lemma clamp_id_short [simp]: "length s \<le> max_id_len \<Longrightarrow> clamp_id s = Some s"
  by (simp add: clamp_id_def)

lemma clamp_id_length: "clamp_id s = Some t \<Longrightarrow> length t \<le> max_id_len"
  by (auto simp: clamp_id_def slice_to_def split: if_splits)

lemma clamp_id_prefix: "clamp_id s = Some t \<Longrightarrow> t = take max_id_len s"
  by (auto simp: clamp_id_def slice_to_def split: if_splits)

text \<open>No ASCII string makes the clamp panic.\<close>

lemma clamp_id_ascii: "\<forall>c\<in>set s. of_char c < (128 :: nat) \<Longrightarrow> clamp_id s = Some (take max_id_len s)"
proof (cases "length s \<le> max_id_len")
  case False
  assume "\<forall>c\<in>set s. of_char c < (128 :: nat)"
  with False have "of_char (s ! max_id_len) < (128 :: nat)" by simp
  with False show ?thesis
    by (simp add: clamp_id_def slice_to_def is_char_boundary_def is_continuation_def Let_def)
qed simp

lemma splitn3_parts:
  "colon \<notin> set a \<Longrightarrow> colon \<notin> set c \<Longrightarrow> splitn 3 colon (a @ colon # c @ colon # r) = [a, c, r]"
  by (simp add: numeral_3_eq_3)

text \<open>
  A session key built from an agent and a channel whose identifiers are free of colons
  (and within the length limit every identifier has) parses back to exactly its three
  components, whatever the account is, colons included.
\<close>

lemma session_key_roundtrip:
  assumes "plain_id a" "plain_id c"
  shows "session_key_parse (session_key_new (AgentId a) (ChannelId c) account) =
           Some (Some (AgentId a, ChannelId c, account))"
  using assms
  by (simp add: session_key_parse_def session_key_new_def plain_id_def splitn3_parts
      agent_new_def channel_new_def)

lemma session_key_roundtrip_witness:
  "session_key_parse (session_key_new (AgentId ''default'') (ChannelId ''telegram'') ''bot:42'') =
     Some (Some (AgentId ''default'', ChannelId ''telegram'', ''bot:42''))"
  by (rule session_key_roundtrip) (simp_all add: plain_id_def max_id_len_def)

text \<open>Without the premise the components can change: the second colon of the key decides.\<close>

lemma session_key_colon_agent:
  "session_key_new (AgentId ''a:b'') (ChannelId ''c'') ''d'' =
   session_key_new (AgentId ''a'') (ChannelId ''b'') ''c:d''"
  by (simp add: session_key_new_def)

text \<open>A slice inside a multi-byte character panics.\<close>

lemma from_raw_panics:
  "from_raw (replicate 799 (CHR ''a'') @ [char_of (195 :: nat), char_of (169 :: nat)]) = None"
  by (simp add: from_raw_def slice_to_def is_char_boundary_def is_continuation_def nth_append)

section \<open>Roles and session scoping (types.rs, session.rs)\<close>

datatype role = System | User | Assistant | Tool

datatype session_scoping = Main | PerPeer | PerChannelPeer | Global

definition default_scoping :: session_scoping where
  "default_scoping = PerChannelPeer"

fun resolve_inbound_account_scope ::
  "session_scoping \<Rightarrow> string \<Rightarrow> string \<Rightarrow> string option \<Rightarrow> bool \<Rightarrow> string" where
  "resolve_inbound_account_scope Main account sender thread is_group =
     (if is_group then (case thread of Some t \<Rightarrow> t | None \<Rightarrow> ''main'') else ''main'')"
| "resolve_inbound_account_scope PerPeer account sender thread is_group =
     (if is_group then (case thread of Some t \<Rightarrow> t | None \<Rightarrow> sender) else sender)"
| "resolve_inbound_account_scope PerChannelPeer account sender thread is_group =
     (let peer = (if is_group then (case thread of Some t \<Rightarrow> t | None \<Rightarrow> sender) else sender)
      in account @ [colon] @ peer)"
| "resolve_inbound_account_scope Global account sender thread is_group = ''global''"

text \<open>
  With the default scoping, two direct messages land in the same session scope only if
  they came through the same account from the same sender, provided the account names carry
  no colon: no conversation leaks into another peer's session.
\<close>

lemma default_scope_separates_peers:
  assumes "colon \<notin> set acc1" "colon \<notin> set acc2"
  shows "resolve_inbound_account_scope default_scoping acc1 s1 t1 False =
           resolve_inbound_account_scope default_scoping acc2 s2 t2 False
         \<longleftrightarrow> acc1 = acc2 \<and> s1 = s2"
proof -
  have "acc1 @ colon # s1 = acc2 @ colon # s2 \<longleftrightarrow> acc1 = acc2 \<and> s1 = s2"
    using assms by (metis option.inject prod.inject split_once_append)
  then show ?thesis by (simp add: default_scoping_def)
qed

lemma default_scope_separates_peers_witness:
  "resolve_inbound_account_scope default_scoping ''acc'' ''u1'' None False \<noteq>
   resolve_inbound_account_scope default_scoping ''acc'' ''u2'' None False"
  using default_scope_separates_peers [of "''acc''" "''acc''" "''u1''" None "''u2''" None] by simp

text \<open>With the scoping \<open>Main\<close> all direct messages share one session, whoever sends them.\<close>

lemma main_scope_shared:
  "resolve_inbound_account_scope Main a s t False = resolve_inbound_account_scope Main a' s' t' False"
  by simp

section \<open>Messages, requests and responses (model.rs)\<close>

record image_content =
  img_mime :: string
  img_data :: string

record tool_call =
  tc_id :: string
  tc_name :: string
  tc_arguments :: string

record completion_message =
  msg_role :: role
  msg_content :: string
  msg_tool_calls :: "tool_call list"
  msg_tool_call_id :: "string option"
  msg_images :: "image_content list"

definition message_text :: "role \<Rightarrow> string \<Rightarrow> completion_message" where
  "message_text r c =
     \<lparr>msg_role = r, msg_content = c, msg_tool_calls = [], msg_tool_call_id = None, msg_images = []\<rparr>"

definition message_with_images :: "string \<Rightarrow> image_content list \<Rightarrow> completion_message" where
  "message_with_images c imgs =
     \<lparr>msg_role = User, msg_content = c, msg_tool_calls = [], msg_tool_call_id = None,
      msg_images = imgs\<rparr>"

definition assistant_tool_calls :: "string \<Rightarrow> tool_call list \<Rightarrow> completion_message" where
  "assistant_tool_calls c tcs =
     \<lparr>msg_role = Assistant, msg_content = c, msg_tool_calls = tcs, msg_tool_call_id = None,
      msg_images = []\<rparr>"

definition tool_result :: "string \<Rightarrow> string \<Rightarrow> completion_message" where
  "tool_result i c =
     \<lparr>msg_role = Tool, msg_content = c, msg_tool_calls = [], msg_tool_call_id = Some i,
      msg_images = []\<rparr>"

definition tool_result_with_images ::
  "string \<Rightarrow> string \<Rightarrow> image_content list \<Rightarrow> completion_message" where
  "tool_result_with_images i c imgs =
     \<lparr>msg_role = Tool, msg_content = c, msg_tool_calls = [], msg_tool_call_id = Some i,
      msg_images = imgs\<rparr>"

datatype tool_risk_level = ReadOnly | Mutating | Destructive

text \<open>The derived order of the enum: the order of its variants.\<close>

primrec risk_rank :: "tool_risk_level \<Rightarrow> nat" where
  "risk_rank ReadOnly = 0"
| "risk_rank Mutating = 1"
| "risk_rank Destructive = 2"

lemma risk_rank_inj: "risk_rank a = risk_rank b \<Longrightarrow> a = b"
  by (cases a; cases b) auto

instantiation tool_risk_level :: linorder
begin

definition less_eq_tool_risk_level :: "tool_risk_level \<Rightarrow> tool_risk_level \<Rightarrow> bool" where
  "less_eq_tool_risk_level a b \<longleftrightarrow> risk_rank a \<le> risk_rank b"

definition less_tool_risk_level :: "tool_risk_level \<Rightarrow> tool_risk_level \<Rightarrow> bool" where
  "less_tool_risk_level a b \<longleftrightarrow> risk_rank a < risk_rank b"

instance
  by standard
    (auto simp: less_eq_tool_risk_level_def less_tool_risk_level_def intro: risk_rank_inj)

end

record tool_def =
  td_name :: string
  td_description :: string
  td_parameters :: string \<comment> \<open>the serialized JSON schema\<close>
  td_risk_level :: tool_risk_level

datatype response_format = FormatText | FormatJsonObject

text \<open>An \<open>f32\<close> value is its bit pattern.\<close>

record completion_request =
  rq_model_id :: string
  rq_messages :: "completion_message list"
  rq_max_tokens :: "u32 option"
  rq_temperature :: "u32 option"
  rq_system :: "string option"
  rq_tools :: "tool_def list"
  rq_thinking_budget :: "u32 option"
  rq_parallel_tool_calls :: "bool option"
  rq_seed :: "u64 option"
  rq_response_format :: "response_format option"
  rq_reasoning_effort :: "string option"

record usage =
  us_input_tokens :: u32
  us_output_tokens :: u32
  us_cache_read_tokens :: "u32 option"
  us_cache_write_tokens :: "u32 option"

datatype finish_reason = Stop | MaxTokens | ToolUse | ContentFilter

record completion_response =
  rs_content :: string
  rs_tool_calls :: "tool_call list"
  rs_usage :: usage
  rs_finish_reason :: finish_reason

record model_def =
  md_id :: string
  md_context_window :: u32
  md_max_output_tokens :: u32

section \<open>Authentication types (auth.rs)\<close>

datatype auth_mode =
    AuthNone
  | AuthToken "string option"
  | AuthPassword string
  | AuthTrustedProxy string
  | AuthTailscale

datatype auth_role = Viewer | Editor | Admin | AiOnly | Node

primrec auth_rank :: "auth_role \<Rightarrow> nat" where
  "auth_rank Viewer = 0"
| "auth_rank Editor = 1"
| "auth_rank Admin = 2"
| "auth_rank AiOnly = 3"
| "auth_rank Node = 4"

lemma auth_rank_inj: "auth_rank a = auth_rank b \<Longrightarrow> a = b"
  by (cases a; cases b) auto

instantiation auth_role :: linorder
begin

definition less_eq_auth_role :: "auth_role \<Rightarrow> auth_role \<Rightarrow> bool" where
  "less_eq_auth_role a b \<longleftrightarrow> auth_rank a \<le> auth_rank b"

definition less_auth_role :: "auth_role \<Rightarrow> auth_role \<Rightarrow> bool" where
  "less_auth_role a b \<longleftrightarrow> auth_rank a < auth_rank b"

instance
  by standard (auto simp: less_eq_auth_role_def less_auth_role_def intro: auth_rank_inj)

end

record rate_limit_config =
  max_attempts :: u32
  window_secs :: u64
  lockout_secs :: u64

definition default_rate_limit_config :: rate_limit_config where
  "default_rate_limit_config = \<lparr>max_attempts = 5, window_secs = 60, lockout_secs = 300\<rparr>"

section \<open>The error hierarchy (error.rs)\<close>

datatype (plugins only: size code) frank_error =
    AuthRequired
  | AuthFailed
  | RateLimited nat
  | Forbidden string
  | SessionNotFound session_key
  | SessionStorage string
  | ChannelError channel_id string
  | ChannelNotConfigured channel_id
  | ChannelDisabled channel_id
  | SenderBlocked channel_id
  | AgentNotFound agent_id
  | AgentRuntime string
  | TurnCancelled
  | Sandbox string
  | ModelProvider string
  | AllProvidersFailed
  | ModelNotFound string
  | ConfigValidation string
  | ConfigIo string
  | InvalidRequest string
  | UnknownMethod string
  | RequestTooLarge nat
  | MediaTooLarge nat
  | MediaFetchBlocked string
  | UnsupportedMediaType string
  | MalwareDetected string string
  | Crypto string
  | MemoryStore string
  | EmbeddingProvider string
  | InternalError string
  | ShuttingDown

primrec error_text :: "frank_error \<Rightarrow> string" where
  "error_text AuthRequired = ''authentication required''"
| "error_text AuthFailed = ''authentication failed''"
| "error_text (RateLimited n) = ''rate limited (retry after '' @ show_nat n @ ''s)''"
| "error_text (Forbidden m) = ''insufficient permissions for method '' @ m"
| "error_text (SessionNotFound k) = ''session not found: '' @ key_str k"
| "error_text (SessionStorage m) = ''session storage error: '' @ m"
| "error_text (ChannelError c m) = ''channel '' @ channel_str c @ '' error: '' @ m"
| "error_text (ChannelNotConfigured c) = ''channel '' @ channel_str c @ '' not configured''"
| "error_text (ChannelDisabled c) = ''channel '' @ channel_str c @ '' is disabled''"
| "error_text (SenderBlocked c) = ''sender blocked by policy on channel '' @ channel_str c"
| "error_text (AgentNotFound a) = ''agent '' @ agent_str a @ '' not found''"
| "error_text (AgentRuntime m) = ''agent runtime error: '' @ m"
| "error_text TurnCancelled = ''agent turn cancelled''"
| "error_text (Sandbox m) = ''sandbox error: '' @ m"
| "error_text (ModelProvider m) = ''model provider error: '' @ m"
| "error_text AllProvidersFailed = ''all model providers failed''"
| "error_text (ModelNotFound m) = ''model not found: '' @ m"
| "error_text (ConfigValidation m) = ''config validation error: '' @ m"
| "error_text (ConfigIo m) = ''config I/O error: '' @ m"
| "error_text (InvalidRequest m) = ''invalid request: '' @ m"
| "error_text (UnknownMethod m) = ''unknown method: '' @ m"
| "error_text (RequestTooLarge n) = ''request too large (max '' @ show_nat n @ '' bytes)''"
| "error_text (MediaTooLarge n) = ''media file too large (max '' @ show_nat n @ '' bytes)''"
| "error_text (MediaFetchBlocked r) = ''media fetch blocked: '' @ r"
| "error_text (UnsupportedMediaType m) = ''unsupported media type: '' @ m"
| "error_text (MalwareDetected f d) =
     ''malware detected in file '' @ [CHR 0x27] @ f @ [CHR 0x27] @ '': '' @ d"
| "error_text (Crypto m) = ''cryptographic operation failed: '' @ m"
| "error_text (MemoryStore m) = ''memory store error: '' @ m"
| "error_text (EmbeddingProvider m) = ''embedding provider error: '' @ m"
| "error_text (InternalError m) = ''internal error: '' @ m"
| "error_text ShuttingDown = ''shutdown in progress''"

definition is_retryable :: "frank_error \<Rightarrow> bool" where
  "is_retryable e =
     (case e of
        RateLimited _ \<Rightarrow> True
      | ModelProvider _ \<Rightarrow> True
      | AllProvidersFailed \<Rightarrow> True
      | InternalError _ \<Rightarrow> True
      | _ \<Rightarrow> False)"

definition status_code :: "frank_error \<Rightarrow> u16" where
  "status_code e =
     (case e of
        AuthRequired \<Rightarrow> 401
      | AuthFailed \<Rightarrow> 401
      | RateLimited _ \<Rightarrow> 429
      | Forbidden _ \<Rightarrow> 403
      | SessionNotFound _ \<Rightarrow> 404
      | AgentNotFound _ \<Rightarrow> 404
      | ModelNotFound _ \<Rightarrow> 404
      | ChannelNotConfigured _ \<Rightarrow> 404
      | InvalidRequest _ \<Rightarrow> 400
      | UnknownMethod _ \<Rightarrow> 400
      | RequestTooLarge _ \<Rightarrow> 413
      | MediaTooLarge _ \<Rightarrow> 413
      | MediaFetchBlocked _ \<Rightarrow> 403
      | MalwareDetected _ _ \<Rightarrow> 403
      | ConfigValidation _ \<Rightarrow> 422
      | SenderBlocked _ \<Rightarrow> 403
      | TurnCancelled \<Rightarrow> 499
      | _ \<Rightarrow> 500)"

text \<open>A retryable error is a 429 or a server error: no client error is retried.\<close>

lemma retryable_status: "is_retryable e \<Longrightarrow> status_code e = 429 \<or> status_code e = 500"
  by (cases e) (auto simp: is_retryable_def status_code_def)

lemma status_code_range: "400 \<le> unat (status_code e) \<and> unat (status_code e) \<le> 500"
  by (cases e) (auto simp: status_code_def)

end
