(* ===== verification/Circuit_Breaker.thy ===== *)
theory Circuit_Breaker
  imports Core_Types
begin

text \<open>
  The circuit breaker of \<open>frankclaw-models/src/circuit_breaker.rs\<close>: its state, the lazy
  transition from open to half-open, and the three operations a caller uses. The counters are
  32-bit words, as in the code. The lemmas show the invariant that ties the counters to the
  state, that the word machine refines a machine on natural numbers (so that no increment
  wraps), and the contract \<open>breaker_contract\<close> that the failover chain relies on.
\<close>

section \<open>The breaker (circuit_breaker.rs)\<close>

datatype circuit_state = Closed | Open | HalfOpen

record breaker_config =
  failure_threshold :: u32
  recovery_timeout :: duration
  half_open_successes_needed :: u32

definition default_breaker_config :: breaker_config where
  "default_breaker_config =
     \<lparr>failure_threshold = 5, recovery_timeout = secs 30, half_open_successes_needed = 2\<rparr>"

record breaker_state =
  cb_state :: circuit_state
  consecutive_failures :: u32
  opened_at :: "instant option"
  half_open_successes :: u32

definition breaker_new :: breaker_state where
  "breaker_new =
     \<lparr>cb_state = Closed, consecutive_failures = 0, opened_at = None, half_open_successes = 0\<rparr>"

definition maybe_transition_to_half_open ::
  "breaker_config \<Rightarrow> instant \<Rightarrow> breaker_state \<Rightarrow> breaker_state" where
  "maybe_transition_to_half_open cfg now s =
     (if cb_state s = Open \<and>
         (case opened_at s of None \<Rightarrow> False
          | Some t \<Rightarrow> recovery_timeout cfg \<le> duration_since now t)
      then s\<lparr>cb_state := HalfOpen, half_open_successes := 0\<rparr>
      else s)"

definition circuit_state_at ::
  "breaker_config \<Rightarrow> instant \<Rightarrow> breaker_state \<Rightarrow> circuit_state \<times> breaker_state" where
  "circuit_state_at cfg now s =
     (let s' = maybe_transition_to_half_open cfg now s in (cb_state s', s'))"

definition check_allowed ::
  "breaker_config \<Rightarrow> instant \<Rightarrow> breaker_state \<Rightarrow> bool \<times> breaker_state" where
  "check_allowed cfg now s =
     (let s' = maybe_transition_to_half_open cfg now s in (cb_state s' \<noteq> Open, s'))"

definition record_success :: "breaker_config \<Rightarrow> breaker_state \<Rightarrow> breaker_state" where
  "record_success cfg s =
     (case cb_state s of
        Closed \<Rightarrow> s\<lparr>consecutive_failures := 0\<rparr>
      | HalfOpen \<Rightarrow>
          (let s1 = s\<lparr>half_open_successes := half_open_successes s + 1\<rparr>
           in if half_open_successes_needed cfg \<le> half_open_successes s1
              then s1\<lparr>cb_state := Closed, consecutive_failures := 0,
                      half_open_successes := 0, opened_at := None\<rparr>
              else s1)
      | Open \<Rightarrow> s)"

definition record_failure ::
  "breaker_config \<Rightarrow> instant \<Rightarrow> breaker_state \<Rightarrow> breaker_state" where
  "record_failure cfg now s =
     (case cb_state s of
        Closed \<Rightarrow>
          (let s1 = s\<lparr>consecutive_failures := consecutive_failures s + 1\<rparr>
           in if failure_threshold cfg \<le> consecutive_failures s1
              then s1\<lparr>cb_state := Open, opened_at := Some now, half_open_successes := 0\<rparr>
              else s1)
      | HalfOpen \<Rightarrow> s\<lparr>cb_state := Open, opened_at := Some now, half_open_successes := 0\<rparr>
      | Open \<Rightarrow> s)"

lemmas breaker_ops = maybe_transition_to_half_open_def check_allowed_def record_success_def
  record_failure_def Let_def

section \<open>The breaker as a machine\<close>

datatype breaker_event = Check instant | Success | Failure instant

primrec breaker_step :: "breaker_config \<Rightarrow> breaker_state \<Rightarrow> breaker_event \<Rightarrow> breaker_state" where
  "breaker_step cfg s (Check now) = snd (check_allowed cfg now s)"
| "breaker_step cfg s Success = record_success cfg s"
| "breaker_step cfg s (Failure now) = record_failure cfg now s"

definition breaker_inv :: "breaker_config \<Rightarrow> breaker_state \<Rightarrow> bool" where
  "breaker_inv cfg s \<longleftrightarrow>
     (case cb_state s of
        Closed \<Rightarrow> opened_at s = None \<and> half_open_successes s = 0 \<and>
          (consecutive_failures s = 0 \<or> consecutive_failures s < failure_threshold cfg)
      | Open \<Rightarrow> opened_at s \<noteq> None \<and> half_open_successes s = 0
      | HalfOpen \<Rightarrow> opened_at s \<noteq> None \<and>
          (half_open_successes s = 0 \<or> half_open_successes s < half_open_successes_needed cfg))"

lemma breaker_inv_new: "breaker_inv cfg breaker_new"
  by (simp add: breaker_inv_def breaker_new_def)

lemma breaker_inv_half_open [inv_rules]:
  "breaker_inv cfg s \<Longrightarrow> breaker_inv cfg (maybe_transition_to_half_open cfg now s)"
  by (auto simp: breaker_inv_def maybe_transition_to_half_open_def split: option.splits)

lemma breaker_inv_check [inv_rules]:
  "breaker_inv cfg s \<Longrightarrow> breaker_inv cfg (snd (check_allowed cfg now s))"
  by (simp add: check_allowed_def Let_def breaker_inv_half_open)

lemma breaker_inv_success [inv_rules]: "breaker_inv cfg s \<Longrightarrow> breaker_inv cfg (record_success cfg s)"
  by (auto simp: breaker_inv_def record_success_def Let_def not_le split: circuit_state.splits)

lemma breaker_inv_failure [inv_rules]:
  "breaker_inv cfg s \<Longrightarrow> breaker_inv cfg (record_failure cfg now s)"
  by (auto simp: breaker_inv_def record_failure_def Let_def not_le split: circuit_state.splits)

lemma breaker_inv_step [inv_rules]: "breaker_inv cfg s \<Longrightarrow> breaker_inv cfg (breaker_step cfg s e)"
  by (cases e) (auto intro: inv_rules)

section \<open>Refinement of the machine on natural numbers\<close>

datatype abs_breaker = AClosed nat | AOpen instant | AHalfOpen instant nat

primrec abs_admit :: "breaker_config \<Rightarrow> instant \<Rightarrow> abs_breaker \<Rightarrow> abs_breaker" where
  "abs_admit cfg now (AClosed n) = AClosed n"
| "abs_admit cfg now (AOpen t) =
     (if recovery_timeout cfg \<le> duration_since now t then AHalfOpen t 0 else AOpen t)"
| "abs_admit cfg now (AHalfOpen t k) = AHalfOpen t k"

primrec abs_success :: "breaker_config \<Rightarrow> abs_breaker \<Rightarrow> abs_breaker" where
  "abs_success cfg (AClosed n) = AClosed 0"
| "abs_success cfg (AOpen t) = AOpen t"
| "abs_success cfg (AHalfOpen t k) =
     (if unat (half_open_successes_needed cfg) \<le> Suc k then AClosed 0 else AHalfOpen t (Suc k))"

primrec abs_failure :: "breaker_config \<Rightarrow> instant \<Rightarrow> abs_breaker \<Rightarrow> abs_breaker" where
  "abs_failure cfg now (AClosed n) =
     (if unat (failure_threshold cfg) \<le> Suc n then AOpen now else AClosed (Suc n))"
| "abs_failure cfg now (AOpen t) = AOpen t"
| "abs_failure cfg now (AHalfOpen t k) = AOpen now"

primrec abs_step :: "breaker_config \<Rightarrow> abs_breaker \<Rightarrow> breaker_event \<Rightarrow> abs_breaker" where
  "abs_step cfg a (Check now) = abs_admit cfg now a"
| "abs_step cfg a Success = abs_success cfg a"
| "abs_step cfg a (Failure now) = abs_failure cfg now a"

definition breaker_abs :: "breaker_state \<Rightarrow> abs_breaker" where
  "breaker_abs s =
     (case cb_state s of
        Closed \<Rightarrow> AClosed (unat (consecutive_failures s))
      | Open \<Rightarrow> AOpen (the (opened_at s))
      | HalfOpen \<Rightarrow> AHalfOpen (the (opened_at s)) (unat (half_open_successes s)))"

lemma counter_inc: "(c = 0 \<or> c < t) \<Longrightarrow> unat (c + 1 :: u32) = Suc (unat c)"
  using unat_inc [of c t] by auto

lemma abs_check: "breaker_inv cfg s \<Longrightarrow>
    breaker_abs (maybe_transition_to_half_open cfg now s) = abs_admit cfg now (breaker_abs s)"
  by (auto simp: breaker_inv_def breaker_abs_def maybe_transition_to_half_open_def
      split: circuit_state.splits)

lemma abs_succ: "breaker_inv cfg s \<Longrightarrow>
    breaker_abs (record_success cfg s) = abs_success cfg (breaker_abs s)"
  by (cases "cb_state s")
    (auto simp: breaker_inv_def breaker_abs_def record_success_def Let_def word_le_nat_alt
      counter_inc [where t = "half_open_successes_needed cfg"])

lemma abs_fail: "breaker_inv cfg s \<Longrightarrow>
    breaker_abs (record_failure cfg now s) = abs_failure cfg now (breaker_abs s)"
  by (cases "cb_state s")
    (auto simp: breaker_inv_def breaker_abs_def record_failure_def Let_def word_le_nat_alt
      counter_inc [where t = "failure_threshold cfg"])

lemma abs_simulates:
  "breaker_inv cfg s \<Longrightarrow> breaker_abs (breaker_step cfg s e) = abs_step cfg (breaker_abs s) e"
  by (cases e) (simp_all add: check_allowed_def Let_def abs_check abs_succ abs_fail)

interpretation breaker: refined_component
  "breaker_step cfg" "breaker_inv cfg" "abs_step cfg" breaker_abs
  for cfg
  by unfold_locales (auto intro: breaker_inv_step abs_simulates)

lemma breaker_run_abs:
  "breaker_abs (foldl (breaker_step cfg) breaker_new es) = foldl (abs_step cfg) (AClosed 0) es"
proof -
  have "breaker_abs breaker_new = AClosed 0"
    by (simp add: breaker_abs_def breaker_new_def)
  then show ?thesis
    using breaker.run_simulates [OF breaker_inv_new, of cfg es] by simp
qed

lemma breaker_run_inv: "breaker_inv cfg (foldl (breaker_step cfg) breaker_new es)"
  by (rule breaker.inv_run) (rule breaker_inv_new)

text \<open>
  C1. Whatever the calls and their times, the breaker behaves as a machine that counts with
  natural numbers: no 32-bit counter ever wraps, and the state reached by the code's word
  arithmetic is the one of the specification; and it stays within its invariant (a closed
  circuit has fewer consecutive failures than the threshold, an open one has the time at which
  it opened, a half-open one fewer successful probes than are needed to close it).
\<close>

theorem breaker_refines_spec:
  "breaker_abs (foldl (breaker_step cfg) breaker_new es) = foldl (abs_step cfg) (AClosed 0) es \<and>
   breaker_inv cfg (foldl (breaker_step cfg) breaker_new es)"
  using breaker_run_abs breaker_run_inv by blast

section \<open>When the breaker opens, admits and closes\<close>

lemma abs_failures_count:
  "length ts < unat (failure_threshold cfg) - n \<Longrightarrow>
     foldl (abs_step cfg) (AClosed n) (map Failure ts) = AClosed (n + length ts)"
  by (induction ts arbitrary: n) auto

lemma breaker_abs_Closed: "breaker_abs s = AClosed n \<Longrightarrow> cb_state s = Closed"
  by (auto simp: breaker_abs_def split: circuit_state.splits)

lemma breaker_abs_Open:
  "breaker_abs s = AOpen t \<Longrightarrow> breaker_inv cfg s \<Longrightarrow> cb_state s = Open \<and> opened_at s = Some t"
  by (auto simp: breaker_abs_def breaker_inv_def split: circuit_state.splits)

text \<open>
  From a fresh breaker, fewer consecutive failures than the threshold leave the circuit
  closed, and the failure that reaches the threshold opens it at the time of that failure.
\<close>

lemma breaker_opens_at_threshold:
  assumes "Suc (length ts) = unat (failure_threshold cfg)"
  shows "cb_state (foldl (breaker_step cfg) breaker_new (map Failure (take n ts))) = Closed \<and>
         cb_state (foldl (breaker_step cfg) breaker_new (map Failure (ts @ [t]))) = Open \<and>
         opened_at (foldl (breaker_step cfg) breaker_new (map Failure (ts @ [t]))) = Some t"
proof -
  let ?s = "foldl (breaker_step cfg) breaker_new (map Failure (ts @ [t]))"
  have "breaker_abs (foldl (breaker_step cfg) breaker_new (map Failure (take n ts))) =
          AClosed (length (take n ts))"
    unfolding breaker_run_abs using assms abs_failures_count [of "take n ts" cfg 0] by simp
  moreover have "breaker_abs ?s = AOpen t"
    unfolding breaker_run_abs using assms abs_failures_count [of ts cfg 0] by simp
  ultimately show ?thesis
    using breaker_abs_Open [OF _ breaker_run_inv [of cfg "map Failure (ts @ [t])"]]
    by (simp add: breaker_abs_Closed del: map_append foldl_append)
qed

lemma breaker_opens_at_threshold_witness:
  "cb_state (foldl (breaker_step default_breaker_config) breaker_new
     (map Failure (take 3 [1, 2, 3, 4]))) = Closed \<and>
   cb_state (foldl (breaker_step default_breaker_config) breaker_new
     (map Failure ([1, 2, 3, 4] @ [5]))) = Open \<and>
   opened_at (foldl (breaker_step default_breaker_config) breaker_new
     (map Failure ([1, 2, 3, 4] @ [5]))) = Some 5"
  by (rule breaker_opens_at_threshold) (simp add: default_breaker_config_def)

text \<open>
  An open breaker refuses a call exactly while less than the recovery timeout has passed
  since it opened; from then on it admits every call, and then either the needed number of
  successful probes closes it with its failure count cleared, or the first failed probe opens
  it again for a whole timeout.
\<close>

lemma breaker_recovery:
  assumes "breaker_inv cfg s" "cb_state s = Open" "opened_at s = Some t"
  shows "(fst (check_allowed cfg now s) \<longleftrightarrow> t + recovery_timeout cfg \<le> now \<or> recovery_timeout cfg = 0) \<and>
    (fst (check_allowed cfg now s) \<longrightarrow>
       (let probe = snd (check_allowed cfg now s) in
        breaker_abs ((record_success cfg ^^ max 1 (unat (half_open_successes_needed cfg))) probe)
          = AClosed 0 \<and>
        (\<forall>k < unat (half_open_successes_needed cfg).
           breaker_abs (record_failure cfg now ((record_success cfg ^^ k) probe)) = AOpen now)))"
proof -
  let ?p = "snd (check_allowed cfg now s)"
  have allowed: "fst (check_allowed cfg now s) \<longleftrightarrow> recovery_timeout cfg \<le> duration_since now t"
    using assms by (simp add: check_allowed_def maybe_transition_to_half_open_def Let_def)
  have inv: "breaker_inv cfg ?p" by (rule breaker_inv_check [OF assms(1)])
  have runs: "breaker_inv cfg ((record_success cfg ^^ k) ?p) \<and>
      breaker_abs ((record_success cfg ^^ k) ?p) = (abs_success cfg ^^ k) (breaker_abs ?p)" for k
    by (induction k) (auto simp: inv abs_succ breaker_inv_success)
  have half: "k < unat (half_open_successes_needed cfg) \<Longrightarrow>
      (abs_success cfg ^^ k) (AHalfOpen t 0) = AHalfOpen t k" for k
    by (induction k) auto
  have close: "(abs_success cfg ^^ max 1 (unat (half_open_successes_needed cfg))) (AHalfOpen t 0)
      = AClosed 0"
    using half [of "unat (half_open_successes_needed cfg) - 1"]
    by (cases "unat (half_open_successes_needed cfg)") auto
  have "fst (check_allowed cfg now s) \<Longrightarrow> breaker_abs ?p = AHalfOpen t 0"
    using assms allowed
    by (simp add: check_allowed_def maybe_transition_to_half_open_def Let_def breaker_abs_def)
  then show ?thesis
    using allowed runs close half
    by (auto simp: Let_def abs_fail duration_since_def)
qed

lemma breaker_recovery_witness:
  "fst (check_allowed default_breaker_config (secs 40)
     \<lparr>cb_state = Open, consecutive_failures = 5, opened_at = Some (secs 10),
      half_open_successes = 0\<rparr>)"
  using breaker_recovery [of default_breaker_config
      "\<lparr>cb_state = Open, consecutive_failures = 5, opened_at = Some (secs 10),
        half_open_successes = 0\<rparr>" "secs 10" "secs 40"]
  by (simp add: breaker_inv_def default_breaker_config_def secs_def)

section \<open>The contract of a breaker\<close>

text \<open>
  What the failover chain relies on: admitting a call and recording its outcome keep the
  breaker well-formed, a refusal changes nothing, and a breaker that admitted a call that
  then succeeded admits calls at any time.
\<close>

locale breaker_contract =
  fixes binv :: "'b \<Rightarrow> bool"
    and check :: "instant \<Rightarrow> 'b \<Rightarrow> bool \<times> 'b"
    and success :: "'b \<Rightarrow> 'b"
    and failure :: "instant \<Rightarrow> 'b \<Rightarrow> 'b"
  assumes binv_check: "binv b \<Longrightarrow> binv (snd (check now b))"
    and binv_success: "binv b \<Longrightarrow> binv (success b)"
    and binv_failure: "binv b \<Longrightarrow> binv (failure now b)"
    and refused_unchanged: "\<not> fst (check now b) \<Longrightarrow> snd (check now b) = b"
    and success_admits: "fst (check now b) \<Longrightarrow> fst (check later (success (snd (check now b))))"

interpretation circuit_breaker: breaker_contract
  "breaker_inv cfg" "check_allowed cfg" "record_success cfg" "record_failure cfg"
  for cfg
proof unfold_locales
  show "\<not> fst (check_allowed cfg now b) \<Longrightarrow> snd (check_allowed cfg now b) = b" for now b
    by (auto simp: check_allowed_def maybe_transition_to_half_open_def Let_def split: if_splits)
  show "fst (check_allowed cfg now b) \<Longrightarrow>
      fst (check_allowed cfg later (record_success cfg (snd (check_allowed cfg now b))))"
    for now later b
    by (cases "cb_state b")
      (auto simp: check_allowed_def maybe_transition_to_half_open_def record_success_def Let_def
        split: if_splits option.splits)
qed (auto intro: inv_rules)

end
