(* ===== verification/Retry.thy ===== *)
theory Retry
  imports Core_Types
begin

text \<open>
  \<open>frankclaw-models/src/retry.rs\<close>: the exponential backoff with its jitter, in 64-bit words
  as the code computes it, and the classification of error messages. The random generator is
  a parameter: \<open>gen_range u\<close> stands for \<open>rand::thread_rng().gen_range(0..=u)\<close>, which
  returns a value of that range. The lemmas bound the delay, show where the arithmetic leaves
  the documented range, and show that permanent errors are never retried.
\<close>

section \<open>Configuration and backoff (retry.rs)\<close>

record retry_config =
  max_retries :: u32

definition default_retry_config :: retry_config where
  "default_retry_config = \<lparr>max_retries = 3\<rparr>"

definition retry_base_ms :: "u32 \<Rightarrow> u64" where
  "retry_base_ms attempt = sat_mul 1000 (sat_pow 2 (unat attempt))"

text \<open>The sum of two \<open>i64\<close> is the word sum; \<open>max(100)\<close> compares as signed.\<close>

definition retry_backoff_delay :: "(u64 \<Rightarrow> u64) \<Rightarrow> u32 \<Rightarrow> duration" where
  "retry_backoff_delay gen_range attempt =
     (let base_ms = retry_base_ms attempt;
          jitter_range = base_ms div 4;
          jitter = (if 0 < jitter_range then gen_range (jitter_range * 2) - jitter_range else 0);
          total = base_ms + jitter
      in millis (unat (if sint total < 100 then 100 else total)))"

definition in_range :: "(u64 \<Rightarrow> u64) \<Rightarrow> bool" where
  "in_range gen_range \<longleftrightarrow> (\<forall>u. gen_range u \<le> u)"

definition base_nat :: "u32 \<Rightarrow> nat" where
  "base_nat attempt = 1000 * 2 ^ unat attempt"

lemma base_nat_bound: "unat a \<le> 52 \<Longrightarrow> base_nat a \<le> 1000 * 2 ^ 52"
  unfolding base_nat_def by (intro mult_left_mono power_increasing) auto

lemma base_nat_ge: "1000 \<le> base_nat a"
  by (simp add: base_nat_def)

lemma base_nat_div4: "base_nat a = 4 * (base_nat a div 4)"
proof -
  have "4 dvd (1000 * 2 ^ unat a :: nat)" by (intro dvd_mult2) simp
  then show ?thesis by (simp add: base_nat_def)
qed

lemma unat_retry_base: "unat a \<le> 52 \<Longrightarrow> unat (retry_base_ms a) = base_nat a"
  using base_nat_bound [of a]
  by (simp add: retry_base_ms_def unat_sat_mul unat_sat_pow base_nat_def)

lemma sint_small: "unat (w :: u64) < 2 ^ 63 \<Longrightarrow> sint w = int (unat w)"
proof -
  assume "unat w < 2 ^ 63"
  then have "uint w < 2 ^ 63" by (metis of_nat_less_numeral_power_cancel_iff of_nat_unat)
  then have "signed_take_bit 63 (uint w) = uint w"
    by (intro signed_take_bit_int_eq_self) (auto intro: order_trans [of _ 0])
  then show ?thesis by (simp add: sint_uint)
qed

lemma unat_add_sub:
  assumes "unat a + unat b < 2 ^ LENGTH('a)" "unat c \<le> unat a + unat b"
  shows "unat (a + (b - c) :: 'a::len word) = unat a + unat b - unat c"
proof -
  have s: "unat (a + b) = unat a + unat b" using assms(1) by (simp add: unat_word_ariths)
  have "c \<le> a + b" using assms(2) unfolding word_le_nat_alt s .
  then have "unat ((a + b) - c) = unat (a + b) - unat c" by (rule unat_sub)
  moreover have "a + (b - c) = (a + b) - c" by simp
  ultimately show ?thesis using s by argo
qed

lemma within_quarter:
  "(g::nat) \<le> 2 * r \<Longrightarrow> r \<le> B \<Longrightarrow>
     (B - r) * m \<le> (B + g - r) * m \<and> (B + g - r) * m \<le> (B + r) * m"
  by (intro conjI mult_right_mono) auto

lemma backoff_total:
  assumes "in_range gen_range" "unat attempt \<le> 52"
  defines "r \<equiv> retry_base_ms attempt div 4"
  shows "unat (retry_base_ms attempt + (gen_range (r * 2) - r)) =
           base_nat attempt + unat (gen_range (r * 2)) - base_nat attempt div 4"
    and "unat (gen_range (r * 2)) \<le> 2 * (base_nat attempt div 4)"
    and "0 < r"
proof -
  have b: "base_nat attempt \<le> 1000 * 2 ^ 52" using assms(2) by (rule base_nat_bound)
  have u: "unat (retry_base_ms attempt) = base_nat attempt"
    using assms(2) by (rule unat_retry_base)
  have r: "unat r = base_nat attempt div 4" by (simp add: r_def unat_div u)
  have r2: "unat (r * 2) = 2 * (base_nat attempt div 4)"
    using b by (simp add: unat_word_ariths r)
  show g: "unat (gen_range (r * 2)) \<le> 2 * (base_nat attempt div 4)"
    using assms(1) r2 by (metis in_range_def word_le_nat_alt)
  show "unat (retry_base_ms attempt + (gen_range (r * 2) - r)) =
           base_nat attempt + unat (gen_range (r * 2)) - base_nat attempt div 4"
    using unat_add_sub [of "retry_base_ms attempt" "gen_range (r * 2)" r] b g
    by (simp add: u r)
  have "0 < base_nat attempt div 4" using base_nat_ge [of attempt] by simp
  then show "0 < r" by (simp add: word_less_nat_alt r)
qed

text \<open>
  For every attempt up to the 53rd the delay is within 25 percent of one second doubled
  once per earlier attempt (so it is at least 750 ms, and the documented floor of 100 ms
  never acts), whatever value of its range the random generator returns; no step of the
  64-bit computation overflows.
\<close>

lemma retry_backoff_bounds:
  assumes "in_range gen_range" "unat attempt \<le> 52"
  shows "millis (base_nat attempt - base_nat attempt div 4) \<le> retry_backoff_delay gen_range attempt \<and>
         retry_backoff_delay gen_range attempt \<le> millis (base_nat attempt + base_nat attempt div 4)"
proof -
  let ?r = "retry_base_ms attempt div 4"
  let ?g = "unat (gen_range (?r * 2))"
  let ?B = "base_nat attempt"
  note t = backoff_total [OF assms]
  have ge: "1000 \<le> ?B" and le: "?B \<le> 1000 * 2 ^ 52"
    using base_nat_ge base_nat_bound [OF assms(2)] by simp_all
  have tot: "unat (retry_base_ms attempt + (gen_range (?r * 2) - ?r)) = ?B + ?g - ?B div 4"
    by (rule t(1))
  then have "sint (retry_base_ms attempt + (gen_range (?r * 2) - ?r)) = int (?B + ?g - ?B div 4)"
    using t(2) le by (subst sint_small) (simp_all)
  moreover have "100 \<le> ?B + ?g - ?B div 4" using ge by simp
  ultimately have "retry_backoff_delay gen_range attempt = millis (?B + ?g - ?B div 4)"
    using t(3) tot unfolding retry_backoff_delay_def Let_def
    by (simp del: of_nat_diff add_diff_eq)
  then show ?thesis
    using within_quarter [OF t(2), of ?B 1000000] unfolding millis_def by simp
qed

lemma retry_backoff_bounds_witness:
  "millis 6000 \<le> retry_backoff_delay (\<lambda>u. u) 3 \<and> retry_backoff_delay (\<lambda>u. u) 3 \<le> millis 10000"
  using retry_backoff_bounds [of "\<lambda>u. u" 3] by (simp add: in_range_def base_nat_def)

text \<open>
  Beyond that the \<open>u64\<close> base no longer fits the \<open>i64\<close> it is cast to: at attempt 64 it
  saturates, the cast gives -1, and the delay collapses to the floor of 100 ms.
\<close>

lemma retry_backoff_collapses:
  "retry_backoff_delay (\<lambda>u. u div 2) 64 = millis 100"
  by (simp add: retry_backoff_delay_def retry_base_ms_def sat_mul_def sat_pow_def Let_def)

section \<open>Which errors are retried\<close>

definition retryable_patterns :: "string list" where
  "retryable_patterns =
     [''timeout'', ''connection'', ''rate limit'', ''429'', ''500'', ''502'', ''503'', ''504'',
      ''temporary'', ''unavailable'', ''overloaded'', ''try again'']"

definition non_retryable_patterns :: "string list" where
  "non_retryable_patterns =
     [''auth'', ''unauthorized'', ''forbidden'', ''context length'', ''model not found'',
      ''invalid api key'', ''not found'', ''invalid_request'']"

definition is_retryable_error :: "string \<Rightarrow> bool" where
  "is_retryable_error error_msg =
     (let lower = to_lower error_msg
      in if list_ex (contains lower) non_retryable_patterns then False
         else list_ex (contains lower) retryable_patterns)"

lemma to_lower_append: "to_lower (a @ b) = to_lower a @ to_lower b"
  by (simp add: to_lower_def)

lemma contains_mid: "contains (u @ p @ v) p"
  by (auto simp: contains_iff)

lemma not_retryable_pattern:
  "p \<in> set non_retryable_patterns \<Longrightarrow> contains (to_lower m) p \<Longrightarrow> \<not> is_retryable_error m"
  by (auto simp: is_retryable_error_def Let_def list_ex_iff)

text \<open>A provider that reports a missing model is never retried, whatever the model is.\<close>

lemma model_not_found_permanent: "\<not> is_retryable_error (error_text (ModelNotFound m))"
proof -
  have "to_lower (error_text (ModelNotFound m)) = [] @ ''model not found'' @ (to_lower ('': '' @ m))"
    by (simp add: to_lower_def ascii_lower_def)
  then have "contains (to_lower (error_text (ModelNotFound m))) ''model not found''"
    by (metis contains_mid)
  then show ?thesis
    by (rule not_retryable_pattern [rotated]) (simp add: non_retryable_patterns_def)
qed

end
