(* ===== verification/Failover.thy ===== *)
theory Failover
  imports Circuit_Breaker Retry
begin

text \<open>
  The failover chain of \<open>frankclaw-models/src/failover.rs\<close>. The providers are trait objects,
  the clock, the timer and the random generator belong to the runtime: they are the fields of
  an \<open>environment\<close> over an arbitrary world, and a provider's call may change the world as it
  likes. The chain is written over the operations of a breaker, so that its lemmas rest on
  \<open>breaker_contract\<close> alone; \<open>failover_complete\<close> is the chain on the circuit breaker.
  The model runs one call of \<open>complete\<close>: the await points at which other calls may use
  the same breakers are not interleaved.
\<close>

section \<open>Types\<close>

text \<open>
  A call returns its result, and whether any delta reached the proxy of the caller's stream
  before it returned.
\<close>

record ('p, 'w) environment =
  env_call :: "'p \<Rightarrow> completion_request \<Rightarrow> bool \<Rightarrow> 'w \<Rightarrow>
    (frank_error + completion_response) \<times> bool \<times> 'w"
  env_clock :: "'w \<Rightarrow> instant"
  env_sleep :: "duration \<Rightarrow> 'w \<Rightarrow> 'w"
  env_rng :: "'w \<Rightarrow> u64 \<Rightarrow> u64"

record 'b breaker_ops =
  op_check :: "instant \<Rightarrow> 'b \<Rightarrow> bool \<times> 'b"
  op_success :: "'b \<Rightarrow> 'b"
  op_failure :: "instant \<Rightarrow> 'b \<Rightarrow> 'b"

record ('p, 'b) provider_entry =
  pe_provider :: 'p
  pe_breaker :: 'b
  pe_model_ids :: "string list"

section \<open>The chain (failover.rs)\<close>

definition with_model_routing ::
  "('p \<times> string list) list \<Rightarrow> u64 \<Rightarrow> ('p, breaker_state) provider_entry list \<times> breaker_config" where
  "with_model_routing providers cooldown_secs =
     (map (\<lambda>(p, ms). \<lparr>pe_provider = p, pe_breaker = breaker_new, pe_model_ids = ms\<rparr>) providers,
      default_breaker_config\<lparr>recovery_timeout := secs (unat cooldown_secs)\<rparr>)"

definition chain_new ::
  "'p list \<Rightarrow> u64 \<Rightarrow> ('p, breaker_state) provider_entry list \<times> breaker_config" where
  "chain_new providers cooldown_secs =
     with_model_routing (map (\<lambda>p. (p, [])) providers) cooldown_secs"

text \<open>
  The retry loop, over the number of attempts that remain after this one: the attempt is the
  last one when \<open>left = 0\<close>.
\<close>

datatype attempt_outcome =
    Answered completion_response
  | Aborted frank_error
  | GaveUp frank_error

fun attempts ::
  "('p, 'w) environment \<Rightarrow> u32 \<Rightarrow> 'p \<Rightarrow> completion_request \<Rightarrow> bool \<Rightarrow> nat \<Rightarrow> 'w \<Rightarrow>
     attempt_outcome \<times> 'w" where
  "attempts env maxr p rq streaming left w =
     (case env_call env p rq streaming w of
        (Inr response, _, w1) \<Rightarrow> (Answered response, w1)
      | (Inl e, streamed, w1) \<Rightarrow>
          if streaming \<and> streamed then (Aborted e, w1)
          else if \<not> is_retryable_error (error_text e) then (GaveUp e, w1)
          else (case left of
                  0 \<Rightarrow> (GaveUp e, w1)
                | Suc n \<Rightarrow>
                    (let delay = retry_backoff_delay (env_rng env w1) (maxr - of_nat left)
                     in attempts env maxr p rq streaming n (env_sleep env delay w1))))"

declare attempts.simps [simp del]

definition serves :: "completion_request \<Rightarrow> ('p, 'b) provider_entry \<Rightarrow> bool" where
  "serves rq e \<longleftrightarrow> pe_model_ids e = [] \<or> rq_model_id rq \<in> set (pe_model_ids e)"

fun complete_from ::
  "('p, 'w) environment \<Rightarrow> 'b breaker_ops \<Rightarrow> retry_config \<Rightarrow> completion_request \<Rightarrow> bool \<Rightarrow>
     ('p, 'b) provider_entry list \<Rightarrow> frank_error option \<Rightarrow> 'w \<Rightarrow>
     (frank_error + completion_response) \<times> ('p, 'b) provider_entry list \<times> 'w" where
  "complete_from env ops rc rq streaming [] last_error w =
     (Inl (case last_error of Some e \<Rightarrow> e | None \<Rightarrow> AllProvidersFailed), [], w)"
| "complete_from env ops rc rq streaming (e # es) last_error w =
     (if \<not> serves rq e
      then (case complete_from env ops rc rq streaming es last_error w of
              (r, es', w') \<Rightarrow> (r, e # es', w'))
      else (case op_check ops (env_clock env w) (pe_breaker e) of (ok, b) \<Rightarrow>
        if \<not> ok
        then (case complete_from env ops rc rq streaming es last_error w of
                (r, es', w') \<Rightarrow> (r, e\<lparr>pe_breaker := b\<rparr> # es', w'))
        else (case attempts env (max_retries rc) (pe_provider e) rq streaming
                     (unat (max_retries rc)) w of
                (Answered response, w1) \<Rightarrow>
                  (Inr response, e\<lparr>pe_breaker := op_success ops b\<rparr> # es, w1)
              | (Aborted err, w1) \<Rightarrow>
                  (Inl err, e\<lparr>pe_breaker := op_failure ops (env_clock env w1) b\<rparr> # es, w1)
              | (GaveUp err, w1) \<Rightarrow>
                  (let b' = (if is_retryable_error (error_text err)
                             then op_failure ops (env_clock env w1) b else b)
                   in case complete_from env ops rc rq streaming es (Some err) w1 of
                        (r, es', w') \<Rightarrow> (r, e\<lparr>pe_breaker := b'\<rparr> # es', w')))))"

definition circuit_ops :: "breaker_config \<Rightarrow> breaker_state breaker_ops" where
  "circuit_ops cfg =
     \<lparr>op_check = check_allowed cfg, op_success = record_success cfg,
      op_failure = record_failure cfg\<rparr>"

definition failover_complete ::
  "('p, 'w) environment \<Rightarrow> breaker_config \<Rightarrow> completion_request \<Rightarrow> bool \<Rightarrow>
     ('p, breaker_state) provider_entry list \<Rightarrow> 'w \<Rightarrow>
     (frank_error + completion_response) \<times> ('p, breaker_state) provider_entry list \<times> 'w" where
  "failover_complete env cfg rq streaming es w =
     complete_from env (circuit_ops cfg) default_retry_config rq streaming es None w"

section \<open>Observing the calls\<close>

text \<open>An environment that also logs which provider is called.\<close>

definition logged :: "('p, 'w) environment \<Rightarrow> ('p, 'w \<times> 'p list) environment" where
  "logged env =
     \<lparr>env_call = (\<lambda>p rq st (w, log). case env_call env p rq st w of
                    (r, s, w') \<Rightarrow> (r, s, (w', log @ [p]))),
      env_clock = (\<lambda>(w, log). env_clock env w),
      env_sleep = (\<lambda>d (w, log). (env_sleep env d w, log)),
      env_rng = (\<lambda>(w, log). env_rng env w)\<rparr>"

lemma attempts_log:
  "\<exists>k. attempts (logged env) maxr p rq st left (w, log) = (out, w', log') \<longrightarrow>
     k \<le> left \<and> log' = log @ replicate (Suc k) p"
proof (induction left arbitrary: w log)
  case 0
  show ?case
    by (rule exI [of _ 0])
      (subst attempts.simps, auto simp: logged_def split: prod.splits sum.splits if_splits)
next
  case (Suc n)
  obtain r s w1 where c: "env_call env p rq st w = (r, s, w1)" by (metis prod_cases3)
  show ?case
  proof (cases "\<exists>e. r = Inl e \<and> \<not> (st \<and> s) \<and> is_retryable_error (error_text e)")
    case True
    let ?d = "retry_backoff_delay (env_rng env w1) (maxr - of_nat (Suc n))"
    obtain k where k: "attempts (logged env) maxr p rq st n (env_sleep env ?d w1, log @ [p]) =
        (out, w', log') \<longrightarrow> k \<le> n \<and> log' = (log @ [p]) @ replicate (Suc k) p"
      using Suc.IH [of "env_sleep env ?d w1" "log @ [p]"] by blast
    have "attempts (logged env) maxr p rq st (Suc n) (w, log) =
        attempts (logged env) maxr p rq st n (env_sleep env ?d w1, log @ [p])"
      using True c by (subst attempts.simps) (auto simp: logged_def Let_def)
    with k show ?thesis by (intro exI [of _ "Suc k"]) auto
  next
    case False
    then show ?thesis
      using c by (intro exI [of _ 0], subst attempts.simps)
        (auto simp: logged_def split: sum.splits if_splits)
  qed
qed

lemma attempts_calls:
  "attempts (logged env) maxr p rq st left (w, log) = (out, w', log') \<Longrightarrow>
     \<exists>k\<le>left. log' = log @ replicate (Suc k) p"
  using attempts_log [of env maxr p rq st left w log out w' log'] by blast

text \<open>A permanent error ends the attempts at the first call.\<close>

lemma attempts_permanent:
  "env_call env p rq st w = (Inl e, False, w1) \<Longrightarrow> \<not> is_retryable_error (error_text e) \<Longrightarrow>
     attempts env maxr p rq st left w = (GaveUp e, w1)"
  by (subst attempts.simps) simp

lemma attempts_streamed:
  "env_call env p rq True w = (Inl e, True, w1) \<Longrightarrow>
     attempts env maxr p rq True left w = (Aborted e, w1)"
  by (subst attempts.simps) simp

section \<open>What the chain promises, over any breaker\<close>

definition same_provider :: "('p, 'b) provider_entry \<Rightarrow> ('p, 'b) provider_entry \<Rightarrow> bool" where
  "same_provider e e' \<longleftrightarrow>
     pe_provider e' = pe_provider e \<and> pe_model_ids e' = pe_model_ids e"

text \<open>An entry that a call at time \<open>now\<close> may use.\<close>

definition admitted ::
  "'b breaker_ops \<Rightarrow> completion_request \<Rightarrow> instant \<Rightarrow> ('p, 'b) provider_entry \<Rightarrow> bool" where
  "admitted ops rq now e \<longleftrightarrow> serves rq e \<and> fst (op_check ops now (pe_breaker e))"

lemma complete_shape:
  "complete_from env ops rc rq st es lerr w = (r, es', w') \<Longrightarrow> list_all2 same_provider es es'"
proof (induction es arbitrary: lerr w r es' w')
  case (Cons e es)
  then show ?case
    by (auto simp: same_provider_def list_all2_refl Let_def
        split: prod.splits if_splits attempt_outcome.splits)
qed simp

context breaker_contract
begin

abbreviation ops where
  "ops \<equiv> \<lparr>op_check = check, op_success = success, op_failure = failure\<rparr>"

lemma complete_binv:
  "complete_from env ops rc rq st es lerr w = (r, es', w') \<Longrightarrow>
     \<forall>e\<in>set es. binv (pe_breaker e) \<Longrightarrow> \<forall>e\<in>set es'. binv (pe_breaker e)"
proof (induction es arbitrary: lerr w r es' w')
  case (Cons e es)
  have "binv b" if "check now (pe_breaker e) = (ok, b)" for now ok b
    using Cons.prems(2) that binv_check [of "pe_breaker e" now] by simp
  with Cons show ?case
    by (auto simp: Let_def binv_success binv_failure
        split: prod.splits if_splits attempt_outcome.splits)
qed simp

text \<open>When nothing is admitted nothing is called, and nothing changes.\<close>

lemma complete_none_admitted:
  "\<forall>e\<in>set es. \<not> admitted ops rq (env_clock env w) e \<Longrightarrow>
     complete_from env ops rc rq st es lerr w =
       (Inl (case lerr of Some e \<Rightarrow> e | None \<Rightarrow> AllProvidersFailed), es, w)"
proof (induction es)
  case (Cons e es)
  have "snd (check (env_clock env w) (pe_breaker e)) = pe_breaker e"
    if "serves rq e" using Cons.prems that by (intro refused_unchanged) (auto simp: admitted_def)
  with Cons show ?case by (auto simp: admitted_def split: prod.splits)
qed simp

text \<open>Every provider that is called serves the model.\<close>

lemma complete_calls_serving:
  "complete_from (logged env) ops rc rq st es lerr (w, log) = (r, es', w', log') \<Longrightarrow>
     \<exists>calls. log' = log @ calls \<and>
       set calls \<subseteq> pe_provider ` {e \<in> set es. serves rq e} \<and>
       length calls \<le> length es * Suc (unat (max_retries rc))"
proof (induction es arbitrary: lerr w log r es' w' log')
  case (Cons e es)
  let ?n = "unat (max_retries rc)"
  show ?case
  proof (cases "serves rq e \<and> fst (check (env_clock (logged env) (w, log)) (pe_breaker e))")
    case False
    then obtain es'' where
      "complete_from (logged env) ops rc rq st es lerr (w, log) = (r, es'', w', log')"
      using Cons.prems by (auto split: prod.splits if_splits)
    from Cons.IH [OF this] show ?thesis by (fastforce simp: trans_le_add2)
  next
    case True
    obtain out w1 log1 where a:
      "attempts (logged env) (max_retries rc) (pe_provider e) rq st ?n (w, log) = (out, w1, log1)"
      by (metis prod_cases3)
    obtain k where k: "k \<le> ?n" "log1 = log @ replicate (Suc k) (pe_provider e)"
      using attempts_calls [OF a] by blast
    have serv: "pe_provider e \<in> pe_provider ` {e' \<in> set (e # es). serves rq e'}"
      using True by auto
    show ?thesis
    proof (cases out)
      case (GaveUp err)
      then obtain es'' where
        "complete_from (logged env) ops rc rq st es (Some err) (w1, log1) = (r, es'', w', log')"
        using Cons.prems True a by (auto simp: Let_def split: prod.splits if_splits)
      from Cons.IH [OF this] obtain calls where "log' = log1 @ calls"
        "set calls \<subseteq> pe_provider ` {e \<in> set es. serves rq e}"
        "length calls \<le> length es * Suc ?n" by blast
      with k serv show ?thesis
        by (intro exI [of _ "replicate (Suc k) (pe_provider e) @ calls"]) auto
    qed (use Cons.prems True a k serv in
        \<open>auto split: prod.splits intro!: exI [of _ "replicate (Suc k) (pe_provider e)"]\<close>)
  qed
qed simp

text \<open>After an answer some entry admits calls at any time: the one that answered.\<close>

lemma complete_answer_admits:
  "complete_from env ops rc rq st es lerr w = (Inr resp, es', w') \<Longrightarrow>
     \<exists>e\<in>set es'. admitted ops rq later e"
proof (induction es arbitrary: lerr w es' w')
  case (Cons e es)
  have "admitted ops rq later (e\<lparr>pe_breaker := success b\<rparr>)"
    if "serves rq e" "check now (pe_breaker e) = (True, b)" for now b
    using that success_admits [of now "pe_breaker e" later]
    by (simp add: admitted_def serves_def)
  with Cons show ?case
    by (auto simp: Let_def split: prod.splits if_splits attempt_outcome.splits)
qed simp

end

lemma circuit_ops_eq: "circuit_ops cfg =
    \<lparr>op_check = check_allowed cfg, op_success = record_success cfg,
     op_failure = record_failure cfg\<rparr>"
  by (simp add: circuit_ops_def)

lemmas chain_facts = circuit_breaker.complete_binv [folded circuit_ops_eq]
  circuit_breaker.complete_none_admitted [folded circuit_ops_eq]
  circuit_breaker.complete_calls_serving [folded circuit_ops_eq]
  circuit_breaker.complete_answer_admits [folded circuit_ops_eq]

section \<open>The chain on the circuit breaker\<close>

text \<open>A world for the witnesses: provider 0 is overloaded, provider 1 answers.\<close>

definition sample_response :: completion_response where
  "sample_response =
     \<lparr>rs_content = ''hello'', rs_tool_calls = [],
      rs_usage = \<lparr>us_input_tokens = 1, us_output_tokens = 1, us_cache_read_tokens = None,
                  us_cache_write_tokens = None\<rparr>,
      rs_finish_reason = Stop\<rparr>"

definition sample_request :: completion_request where
  "sample_request =
     \<lparr>rq_model_id = ''m'', rq_messages = [], rq_max_tokens = None, rq_temperature = None,
      rq_system = None, rq_tools = [], rq_thinking_budget = None, rq_parallel_tool_calls = None,
      rq_seed = None, rq_response_format = None, rq_reasoning_effort = None\<rparr>"

definition sample_env :: "(nat, nat) environment" where
  "sample_env =
     \<lparr>env_call = (\<lambda>p rq st w. if p = 0 then (Inl (ModelProvider ''overloaded''), st, Suc w)
                             else (Inr sample_response, st, Suc w)),
      env_clock = (\<lambda>w. w), env_sleep = (\<lambda>d w. w + d), env_rng = (\<lambda>w u. u)\<rparr>"

definition sample_entry :: "nat \<Rightarrow> (nat, breaker_state) provider_entry" where
  "sample_entry p = \<lparr>pe_provider = p, pe_breaker = breaker_new, pe_model_ids = [''m'']\<rparr>"

lemma overloaded_retryable [simp]: "is_retryable_error (error_text (ModelProvider ''overloaded''))"
  by code_simp

lemma sample_run:
  "failover_complete (logged sample_env) default_breaker_config sample_request False
     [sample_entry 0, sample_entry 1] (0, []) =
   (Inr sample_response,
    [(sample_entry 0)\<lparr>pe_breaker := breaker_new\<lparr>consecutive_failures := 1\<rparr>\<rparr>, sample_entry 1],
    8750000005, [0, 0, 0, 0, 1])"
  by (simp add: failover_complete_def sample_entry_def serves_def sample_request_def circuit_ops_def
      breaker_ops breaker_new_def default_breaker_config_def default_retry_config_def
      attempts.simps logged_def sample_env_def retry_backoff_delay_def
      retry_base_ms_def sat_mul_def sat_pow_def millis_def word_le_nat_alt
      overloaded_retryable [unfolded error_text.simps append.simps])



text \<open>
  When every provider is skipped, because it does not serve the model or its breaker
  is open, the call fails with \<open>AllProvidersFailed\<close> without calling anybody and leaves
  the chain as it was.
\<close>

lemma failover_all_skipped:
  assumes "\<forall>e\<in>set es. \<not> admitted (circuit_ops cfg) rq (env_clock env w) e"
  shows "failover_complete env cfg rq st es w = (Inl AllProvidersFailed, es, w)"
  using chain_facts(2) [OF assms, of default_retry_config st None]
  by (simp add: failover_complete_def)

lemma failover_all_skipped_witness:
  "failover_complete sample_env default_breaker_config sample_request False
     [(sample_entry 1)\<lparr>pe_model_ids := [''other'']\<rparr>] 0 =
   (Inl AllProvidersFailed, [(sample_entry 1)\<lparr>pe_model_ids := [''other'']\<rparr>], 0)"
  by (rule failover_all_skipped)
    (simp add: admitted_def serves_def sample_entry_def sample_request_def)

text \<open>
  A call keeps every provider, its models and the invariant of its breaker; and when it
  returns an answer, some provider that serves the model is admitted at any later time.
\<close>

lemma failover_preserves:
  assumes "failover_complete env cfg rq st es w = (r, es', w')"
    and "\<forall>e\<in>set es. breaker_inv cfg (pe_breaker e)"
  shows "list_all2 same_provider es es' \<and> (\<forall>e\<in>set es'. breaker_inv cfg (pe_breaker e)) \<and>
    (\<forall>resp later. r = Inr resp \<longrightarrow> (\<exists>e\<in>set es'. admitted (circuit_ops cfg) rq later e))"
proof -
  note run = assms(1) [unfolded failover_complete_def]
  have "\<exists>e\<in>set es'. admitted (circuit_ops cfg) rq later e" if "r = Inr resp" for resp later
    using run that by (intro chain_facts(4)) simp
  then show ?thesis
    using complete_shape [OF run] chain_facts(1) [OF run assms(2)]
    by blast
qed

lemma failover_preserves_witness:
  "fst (failover_complete (logged sample_env) default_breaker_config sample_request False
     [sample_entry 0, sample_entry 1] (0, [])) = Inr sample_response \<and>
   (\<exists>e\<in>set (fst (snd (failover_complete (logged sample_env) default_breaker_config
       sample_request False [sample_entry 0, sample_entry 1] (0, [])))).
     admitted (circuit_ops default_breaker_config) sample_request 7 e)"
  using failover_preserves [OF sample_run] sample_run
  by (simp add: sample_entry_def breaker_inv_new)

text \<open>
  Once deltas of a failed call reached the caller's stream, the error is returned at
  once: no retry, and no later provider is asked or changed.
\<close>

lemma failover_streamed_error_final:
  assumes "env_call env (pe_provider e) rq True w = (Inl err, True, w1)"
    and "admitted (circuit_ops cfg) rq (env_clock env w) e"
  shows "\<exists>b. failover_complete env cfg rq True (e # es) w =
           (Inl err, e\<lparr>pe_breaker := b\<rparr> # es, w1)"
  using assms
  by (auto simp: failover_complete_def admitted_def attempts_streamed split: prod.splits)

lemma failover_streamed_error_final_witness:
  "\<exists>b. failover_complete sample_env default_breaker_config sample_request True
     [sample_entry 0, sample_entry 1] 0 =
     (Inl (ModelProvider ''overloaded''), (sample_entry 0)\<lparr>pe_breaker := b\<rparr> # [sample_entry 1], 1)"
  by (rule failover_streamed_error_final)
    (simp_all add: sample_env_def sample_entry_def sample_request_def admitted_def serves_def
      circuit_ops_def check_allowed_def maybe_transition_to_half_open_def breaker_new_def)

end
