(* ===== verification/Rate_Limit.thy ===== *)
theory Rate_Limit
  imports Core_Types
begin

text \<open>
  The per-address limiter of failed authentications, \<open>frankclaw-gateway/src/rate_limit.rs\<close>:
  a map from addresses to their attempts, and the four operations under its lock. The
  attempt counter is a 32-bit word. The lemmas show that an address is locked by exactly the
  failure that reaches the limit, that the periodic cleanup never releases a lock, and the
  contract \<open>rate_limiter_contract\<close> that the authentication relies on.
\<close>

section \<open>The limiter (rate_limit.rs)\<close>

record ip_attempts =
  at_count :: u32
  first_attempt :: instant
  locked_until :: "instant option"

type_synonym 'ip limiter = "'ip \<rightharpoonup> ip_attempts"

text \<open>
  \<open>is_locked\<close> reads the clock twice, for the comparison and for the remaining time: \<open>now1\<close>
  and \<open>now2\<close>.
\<close>

definition is_locked :: "instant \<Rightarrow> instant \<Rightarrow> 'ip \<Rightarrow> 'ip limiter \<Rightarrow> duration option" where
  "is_locked now1 now2 ip attempts =
     (case attempts ip of
        Some entry \<Rightarrow>
          (case locked_until entry of
             Some until \<Rightarrow> if now1 < until then Some (duration_since until now2) else None
           | None \<Rightarrow> None)
      | None \<Rightarrow> None)"

definition fresh_attempts :: "instant \<Rightarrow> ip_attempts" where
  "fresh_attempts now = \<lparr>at_count = 0, first_attempt = now, locked_until = None\<rparr>"

definition entry_failure :: "rate_limit_config \<Rightarrow> instant \<Rightarrow> ip_attempts \<Rightarrow> ip_attempts" where
  "entry_failure cfg now e =
     (let e1 = (if secs (unat (window_secs cfg)) < duration_since now (first_attempt e)
                then e\<lparr>at_count := 0, first_attempt := now, locked_until := None\<rparr> else e);
          e2 = e1\<lparr>at_count := at_count e1 + 1\<rparr>
      in if max_attempts cfg \<le> at_count e2
         then e2\<lparr>locked_until := Some (now + secs (unat (lockout_secs cfg)))\<rparr>
         else e2)"

definition limiter_failure ::
  "rate_limit_config \<Rightarrow> instant \<Rightarrow> 'ip \<Rightarrow> 'ip limiter \<Rightarrow> 'ip limiter" where
  "limiter_failure cfg now ip attempts =
     (let entry = (case attempts ip of Some e \<Rightarrow> e | None \<Rightarrow> fresh_attempts now)
      in attempts(ip \<mapsto> entry_failure cfg now entry))"

definition limiter_success :: "'ip \<Rightarrow> 'ip limiter \<Rightarrow> 'ip limiter" where
  "limiter_success ip attempts = attempts(ip := None)"

text \<open>The window of the cleanup is a 64-bit sum.\<close>

definition limiter_cleanup ::
  "rate_limit_config \<Rightarrow> instant \<Rightarrow> 'ip limiter \<Rightarrow> 'ip limiter" where
  "limiter_cleanup cfg now attempts =
     (let window = secs (unat (window_secs cfg + lockout_secs cfg))
      in (\<lambda>ip. case attempts ip of
                 Some v \<Rightarrow> if duration_since now (first_attempt v) < window then Some v else None
               | None \<Rightarrow> None))"

lemmas limiter_ops = is_locked_def limiter_failure_def limiter_success_def limiter_cleanup_def
  entry_failure_def fresh_attempts_def Let_def

section \<open>The limiter as a machine\<close>

datatype 'ip limiter_event = Failed instant 'ip | Succeeded 'ip | Cleanup instant

primrec limiter_step ::
  "rate_limit_config \<Rightarrow> 'ip limiter \<Rightarrow> 'ip limiter_event \<Rightarrow> 'ip limiter" where
  "limiter_step cfg m (Failed now ip) = limiter_failure cfg now ip m"
| "limiter_step cfg m (Succeeded ip) = limiter_success ip m"
| "limiter_step cfg m (Cleanup now) = limiter_cleanup cfg now m"

text \<open>A lock never outlives the first attempt of its window by more than both periods.\<close>

definition limiter_inv :: "rate_limit_config \<Rightarrow> 'ip limiter \<Rightarrow> bool" where
  "limiter_inv cfg m \<longleftrightarrow>
     (\<forall>ip e until. m ip = Some e \<longrightarrow> locked_until e = Some until \<longrightarrow>
        until \<le> first_attempt e + secs (unat (window_secs cfg)) + secs (unat (lockout_secs cfg)))"

lemma limiter_inv_empty: "limiter_inv cfg (\<lambda>_. None)"
  by (simp add: limiter_inv_def)

lemma limiter_inv_step: "limiter_inv cfg m \<Longrightarrow> limiter_inv cfg (limiter_step cfg m e)"
proof (cases e)
  case (Failed now ip)
  moreover assume "limiter_inv cfg m"
  ultimately show ?thesis
    by (fastforce simp: limiter_inv_def limiter_ops duration_since_def not_less
        split: option.splits if_splits)
qed (auto simp: limiter_inv_def limiter_ops split: option.splits if_splits)

interpretation limiter: component "limiter_step cfg" "limiter_inv cfg" for cfg
  by unfold_locales (rule limiter_inv_step)

lemma cleanup_keeps:
  assumes "unat (window_secs cfg) + unat (lockout_secs cfg) < 2 ^ 64"
    and "0 < window_secs cfg" "now \<le> t1"
    and inv: "limiter_inv cfg m"
  shows "is_locked t1 t2 ip (limiter_cleanup cfg now m) = is_locked t1 t2 ip m"
proof (cases "m ip")
  case (Some e)
  have w: "unat (window_secs cfg + lockout_secs cfg) =
      unat (window_secs cfg) + unat (lockout_secs cfg)"
    using assms(1) by (simp add: unat_word_ariths)
  have pos: "0 < secs (unat (window_secs cfg))"
    using assms(2) by (simp add: secs_def word_less_nat_alt)
  show ?thesis
  proof (cases "locked_until e")
    case (Some u)
    with inv \<open>m ip = Some e\<close>
    have "u \<le> first_attempt e + secs (unat (window_secs cfg)) + secs (unat (lockout_secs cfg))"
      by (auto simp: limiter_inv_def)
    with assms(3) pos w Some \<open>m ip = Some e\<close> show ?thesis
      by (auto simp: is_locked_def limiter_cleanup_def Let_def secs_add duration_since_def)
  qed (simp add: is_locked_def limiter_cleanup_def Let_def Some)
qed (simp add: is_locked_def limiter_cleanup_def Let_def)

text \<open>
  Whatever operations ran before, the periodic cleanup at time \<open>now\<close> keeps every lock:
  an address is locked at a later time after the cleanup exactly if it was before it (the
  window must not be zero and the two periods must not overflow their 64-bit sum).
\<close>

lemma cleanup_keeps_locks:
  assumes "unat (window_secs cfg) + unat (lockout_secs cfg) < 2 ^ 64"
    and "0 < window_secs cfg" "now \<le> t1"
  shows "is_locked t1 t2 ip (limiter_cleanup cfg now (foldl (limiter_step cfg) (\<lambda>_. None) es)) =
         is_locked t1 t2 ip (foldl (limiter_step cfg) (\<lambda>_. None) es)"
  using assms by (intro cleanup_keeps limiter.inv_run limiter_inv_empty)

lemma cleanup_keeps_locks_witness:
  "is_locked (secs 200) (secs 200) 7
     (limiter_cleanup default_rate_limit_config (secs 100)
       (foldl (limiter_step default_rate_limit_config) (\<lambda>_. None) [Failed 0 (7 :: nat), Succeeded 3])) =
   is_locked (secs 200) (secs 200) 7
     (foldl (limiter_step default_rate_limit_config) (\<lambda>_. None) [Failed 0 (7 :: nat), Succeeded 3])"
  by (rule cleanup_keeps_locks) (simp_all add: default_rate_limit_config_def)

section \<open>When an address is locked\<close>

lemma limiter_failure_at: "limiter_failure cfg now ip m ip =
    Some (entry_failure cfg now (case m ip of Some e \<Rightarrow> e | None \<Rightarrow> fresh_attempts now))"
  by (simp add: limiter_failure_def Let_def)

lemma limiter_other [simp]:
  "ip' \<noteq> ip \<Longrightarrow> limiter_failure cfg now ip m ip' = m ip'"
  "ip' \<noteq> ip \<Longrightarrow> limiter_success ip m ip' = m ip'"
  by (simp_all add: limiter_ops)

lemma is_locked_cong: "m ip = m' ip \<Longrightarrow> is_locked t1 t2 ip m = is_locked t1 t2 ip m'"
  by (simp add: is_locked_def)

text \<open>Failures at times \<open>ts\<close>, all within the window that the first of them opens.\<close>

lemma failures_count:
  assumes "\<forall>t\<in>set ts. t \<le> t0 + secs (unat (window_secs cfg))"
    and "length ts < unat (max_attempts cfg)"
  shows "foldl (\<lambda>m t. limiter_failure cfg t ip m) ((\<lambda>_. None)(ip \<mapsto> fresh_attempts t0)) ts ip =
         Some \<lparr>at_count = of_nat (length ts), first_attempt = t0, locked_until = None\<rparr>"
  using assms
proof (induction ts rule: rev_induct)
  case (snoc t ts)
  have len: "Suc (length ts) < unat (max_attempts cfg)" using snoc.prems(2) by simp
  moreover have "unat (max_attempts cfg) < 2 ^ 32"
    using unsigned_less [of "max_attempts cfg"] by simp
  ultimately have n: "Suc (length ts) < 2 ^ 32" by linarith
  then have "unat (of_nat (Suc (length ts)) :: u32) = Suc (length ts)"
    by (intro unat_of_nat_small) simp
  then have "\<not> max_attempts cfg \<le> 1 + of_nat (length ts)"
    using len by (simp add: word_le_nat_alt)
  with snoc show ?case
    by (simp add: limiter_failure_at entry_failure_def Let_def duration_since_def not_less
        less_diff_conv add.commute)
qed (simp add: fresh_attempts_def)

lemma first_failure:
  "limiter_failure cfg t0 ip (\<lambda>_. None) =
   limiter_failure cfg t0 ip ((\<lambda>_. None)(ip \<mapsto> fresh_attempts t0))"
  by (simp add: limiter_failure_def fun_upd_twist)

lemma failures_unlocked:
  assumes "length ts < unat (max_attempts cfg)"
    and "\<forall>t\<in>set ts. t \<le> hd ts + secs (unat (window_secs cfg))"
  shows "is_locked t1 t2 ip (foldl (\<lambda>m t. limiter_failure cfg t ip m) (\<lambda>_. None) ts) = None"
proof (cases ts)
  case (Cons t0 rest)
  then have "foldl (\<lambda>m t. limiter_failure cfg t ip m) (\<lambda>_. None) ts =
      foldl (\<lambda>m t. limiter_failure cfg t ip m) ((\<lambda>_. None)(ip \<mapsto> fresh_attempts t0)) ts"
    by (simp add: first_failure)
  moreover have "foldl (\<lambda>m t. limiter_failure cfg t ip m) ((\<lambda>_. None)(ip \<mapsto> fresh_attempts t0)) ts ip =
      Some \<lparr>at_count = of_nat (length ts), first_attempt = t0, locked_until = None\<rparr>"
    by (rule failures_count) (use assms Cons in auto)
  ultimately show ?thesis by (simp add: is_locked_def)
qed (simp add: is_locked_def)

lemma lockout_run:
  assumes "Suc (length ts) = unat (max_attempts cfg)" "ts = t0 # rest \<or> (ts = [] \<and> t = t0)"
    and "\<forall>t'\<in>set (ts @ [t]). t' \<le> t0 + secs (unat (window_secs cfg))"
  shows "is_locked t1 t2 ip (foldl (\<lambda>m t. limiter_failure cfg t ip m) (\<lambda>_. None) ts) = None \<and>
         is_locked t1 t2 ip (foldl (\<lambda>m t. limiter_failure cfg t ip m) (\<lambda>_. None) (ts @ [t])) =
           (if t1 < t + secs (unat (lockout_secs cfg))
            then Some (duration_since (t + secs (unat (lockout_secs cfg))) t2) else None)"
proof -
  let ?run = "\<lambda>ts m. foldl (\<lambda>m t. limiter_failure cfg t ip m) m ts"
  let ?fresh = "(\<lambda>_. None)(ip \<mapsto> fresh_attempts t0)"
  have cnt: "?run ts ?fresh ip =
      Some \<lparr>at_count = of_nat (length ts), first_attempt = t0, locked_until = None\<rparr>"
    by (rule failures_count) (use assms in auto)
  have start: "?run (ts @ [t]) (\<lambda>_. None) = ?run (ts @ [t]) ?fresh"
    using assms(2) by (auto simp: first_failure)
  have before: "is_locked t1 t2 ip (?run ts (\<lambda>_. None)) = None"
    by (rule failures_unlocked) (use assms in auto)
  have "(of_nat (Suc (length ts)) :: u32) = max_attempts cfg"
    unfolding assms(1) by simp
  then have "limiter_failure cfg t ip (?run ts ?fresh) ip =
      Some \<lparr>at_count = max_attempts cfg, first_attempt = t0,
            locked_until = Some (t + secs (unat (lockout_secs cfg)))\<rparr>"
    using assms(3) cnt
    by (simp add: limiter_failure_at entry_failure_def Let_def duration_since_def not_less
        less_diff_conv add.commute)
  with before start show ?thesis by (simp add: is_locked_def)
qed

text \<open>
  From a clean limiter, failures of one address within one window leave it unlocked as
  long as they are fewer than the limit, and the failure that reaches the limit, at time
  \<open>t\<close>, locks it for the whole lockout period from \<open>t\<close>, and no longer.
\<close>

lemma lockout_at_limit:
  assumes "Suc (length ts) = unat (max_attempts cfg)" "ts = t0 # rest \<or> (ts = [] \<and> t = t0)"
    and "\<forall>t'\<in>set (ts @ [t]). t' \<le> t0 + secs (unat (window_secs cfg))"
  shows "is_locked t1 t2 ip (foldl (\<lambda>m t. limiter_failure cfg t ip m) (\<lambda>_. None) ts) = None \<and>
         is_locked t1 t2 ip (foldl (\<lambda>m t. limiter_failure cfg t ip m) (\<lambda>_. None) (ts @ [t])) =
           (if t1 < t + secs (unat (lockout_secs cfg))
            then Some (duration_since (t + secs (unat (lockout_secs cfg))) t2) else None)"
  using assms by (rule lockout_run)

lemma lockout_at_limit_witness:
  "is_locked (secs 20) (secs 20) ''ip''
     (foldl (\<lambda>m t. limiter_failure default_rate_limit_config t ''ip'' m) (\<lambda>_. None)
       ([0, secs 1, secs 2, secs 3] @ [secs 4])) = Some (secs 284)"
  using lockout_at_limit [of "[0, secs 1, secs 2, secs 3]" default_rate_limit_config 0
      "[secs 1, secs 2, secs 3]" "secs 4" "secs 20" "secs 20" "''ip''"]
  by (simp add: default_rate_limit_config_def secs_def duration_since_def)

section \<open>The contract of a limiter\<close>

text \<open>
  What the authentication relies on: a success clears the address, and neither a success nor
  a failure of one address concerns another.
\<close>

locale rate_limiter_contract =
  fixes locked :: "instant \<Rightarrow> instant \<Rightarrow> 'ip \<Rightarrow> 's \<Rightarrow> duration option"
    and failure :: "instant \<Rightarrow> 'ip \<Rightarrow> 's \<Rightarrow> 's"
    and success :: "'ip \<Rightarrow> 's \<Rightarrow> 's"
  assumes success_clears: "locked t1 t2 ip (success ip s) = None"
    and success_other: "ip' \<noteq> ip \<Longrightarrow> locked t1 t2 ip' (success ip s) = locked t1 t2 ip' s"
    and failure_other: "ip' \<noteq> ip \<Longrightarrow> locked t1 t2 ip' (failure t ip s) = locked t1 t2 ip' s"

interpretation limiter_ifc: rate_limiter_contract is_locked "limiter_failure cfg" limiter_success
  for cfg
  by unfold_locales (simp_all add: is_locked_def limiter_ops)

end
