(* ===== verification/Media_Types.thy ===== *)
theory Media_Types
  imports Core_Types
begin

text \<open>
  The media classification of \<open>frankclaw-core/src/media.rs\<close>: MIME types, file extensions and
  the two tables between them. The lemmas show that the extension a stored file is given leads
  back to the MIME type it came from, and that both classifications agree on it.
\<close>

section \<open>Classification (media.rs)\<close>

datatype media_kind = MediaImage | MediaAudio | MediaVideo | MediaDocument | MediaUnknown

abbreviation semicolon :: char where
  "semicolon \<equiv> CHR '';''"

abbreviation dot :: char where
  "dot \<equiv> CHR ''.''"

definition normalize_mime :: "string \<Rightarrow> string" where
  "normalize_mime mime = trim (hd (split_all semicolon mime))"

definition document_mimes :: "string list" where
  "document_mimes =
     [''application/pdf'', ''application/json'', ''application/zip'', ''text/plain'', ''text/csv'',
      ''text/markdown'', ''text/html'']"

definition classify_mime :: "string \<Rightarrow> media_kind" where
  "classify_mime mime =
     (let normalized = normalize_mime mime
      in if starts_with normalized ''image/'' then MediaImage
         else if starts_with normalized ''audio/'' then MediaAudio
         else if starts_with normalized ''video/'' then MediaVideo
         else if normalized \<in> set document_mimes then MediaDocument
         else MediaUnknown)"

definition image_exts :: "string list" where
  "image_exts = [''jpg'', ''jpeg'', ''png'', ''gif'', ''webp'', ''svg'', ''bmp'', ''tiff'']"

definition audio_exts :: "string list" where
  "audio_exts =
     [''mp3'', ''m4a'', ''ogg'', ''wav'', ''flac'', ''weba'', ''oga'', ''aac'', ''opus'']"

definition video_exts :: "string list" where
  "video_exts = [''mp4'', ''webm'', ''mov'', ''avi'', ''mkv'']"

definition document_exts :: "string list" where
  "document_exts = [''pdf'', ''json'', ''txt'', ''csv'', ''md'', ''html'', ''xml'', ''zip'']"

definition classify_extension :: "string \<Rightarrow> media_kind" where
  "classify_extension filename =
     (let ext = to_lower (last (split_all dot filename))
      in if ext \<in> set image_exts then MediaImage
         else if ext \<in> set audio_exts then MediaAudio
         else if ext \<in> set video_exts then MediaVideo
         else if ext \<in> set document_exts then MediaDocument
         else MediaUnknown)"

section \<open>The extension and MIME tables (media.rs)\<close>

definition extension_table :: "(string \<times> string) list" where
  "extension_table =
     [(''image/jpeg'', ''jpg''), (''image/png'', ''png''), (''image/gif'', ''gif''),
      (''image/webp'', ''webp''), (''image/svg+xml'', ''svg''), (''audio/mpeg'', ''mp3''),
      (''audio/mp4'', ''m4a''), (''audio/ogg'', ''ogg''), (''audio/wav'', ''wav''),
      (''audio/webm'', ''weba''), (''audio/flac'', ''flac''), (''video/mp4'', ''mp4''),
      (''video/webm'', ''webm''), (''video/quicktime'', ''mov''), (''application/pdf'', ''pdf''),
      (''application/json'', ''json''), (''application/zip'', ''zip''), (''text/plain'', ''txt''),
      (''text/csv'', ''csv''), (''text/markdown'', ''md'')]"

definition safe_extension_for_mime :: "string \<Rightarrow> string" where
  "safe_extension_for_mime mime =
     (case map_of extension_table (normalize_mime mime) of Some e \<Rightarrow> e | None \<Rightarrow> ''bin'')"

definition mime_table :: "(string \<times> string) list" where
  "mime_table =
     [(''jpg'', ''image/jpeg''), (''jpeg'', ''image/jpeg''), (''png'', ''image/png''),
      (''gif'', ''image/gif''), (''webp'', ''image/webp''), (''svg'', ''image/svg+xml''),
      (''mp3'', ''audio/mpeg''), (''m4a'', ''audio/mp4''), (''ogg'', ''audio/ogg''),
      (''oga'', ''audio/ogg''), (''wav'', ''audio/wav''), (''weba'', ''audio/webm''),
      (''flac'', ''audio/flac''), (''mp4'', ''video/mp4''), (''webm'', ''video/webm''),
      (''mov'', ''video/quicktime''), (''pdf'', ''application/pdf''),
      (''json'', ''application/json''), (''zip'', ''application/zip''),
      (''txt'', ''text/plain; charset=utf-8''), (''csv'', ''text/csv''),
      (''md'', ''text/markdown'')]"

definition octet_stream :: string where
  "octet_stream = ''application/octet-stream''"

definition mime_for_safe_extension :: "string \<Rightarrow> string" where
  "mime_for_safe_extension ext =
     (case map_of mime_table (to_lower (trim ext)) of Some m \<Rightarrow> m | None \<Rightarrow> octet_stream)"

definition infer_mime_from_name :: "string \<Rightarrow> string option" where
  "infer_mime_from_name name =
     (let ext = trim (last (split_all dot (trim name)));
          mime = mime_for_safe_extension ext
      in if mime = octet_stream then None else Some mime)"

section \<open>Round trips\<close>

lemma extension_table_roundtrip:
  "list_all (\<lambda>(m, e). normalize_mime (mime_for_safe_extension e) = m \<and>
      classify_extension (''f.'' @ e) = classify_mime m) extension_table"
  by code_simp

lemma safe_extension_known:
  "map_of extension_table (normalize_mime mime) = Some e \<Longrightarrow>
     normalize_mime (mime_for_safe_extension (safe_extension_for_mime mime)) = normalize_mime mime"
  using extension_table_roundtrip
  by (auto simp: safe_extension_for_mime_def list_all_iff dest: map_of_SomeD)

lemma octet_normal: "normalize_mime (mime_for_safe_extension ''bin'') = octet_stream"
  by code_simp

text \<open>
  The extension under which a MIME type is stored leads back to that MIME type, whatever
  parameters or white space it came with; a type outside the table leads to
  \<open>application/octet-stream\<close>.
\<close>

lemma mime_extension_roundtrip:
  "normalize_mime (mime_for_safe_extension (safe_extension_for_mime mime)) =
     (if normalize_mime mime \<in> fst ` set extension_table then normalize_mime mime
      else octet_stream)"
proof (cases "map_of extension_table (normalize_mime mime)")
  case None
  then have "normalize_mime mime \<notin> fst ` set extension_table"
    by (rule map_of_eq_None_iff [THEN iffD1])
  moreover from None have "safe_extension_for_mime mime = ''bin''"
    by (simp only: safe_extension_for_mime_def option.case)
  ultimately show ?thesis by (simp add: octet_normal)
next
  case (Some e)
  then have "normalize_mime mime \<in> fst ` set extension_table"
    by (metis map_of_eq_None_iff option.distinct(1))
  with safe_extension_known [OF Some] show ?thesis by simp
qed

lemma classify_mime_normal: "normalize_mime a = normalize_mime b \<Longrightarrow> classify_mime a = classify_mime b"
  by (simp add: classify_mime_def)

text \<open>The classification compares the case of a MIME type, which RFC 2045 does not.\<close>

lemma classify_mime_case: "classify_mime ''IMAGE/PNG'' = MediaUnknown"
  by code_simp

end
