(* ===== verification/Net_Safety.thy ===== *)
theory Net_Safety
  imports Core_Types
begin

unbundle bit_operations_syntax

text \<open>
  The protection against server-side request forgery: the address check \<open>is_safe_ip\<close> of
  \<open>frankclaw-core/src/media.rs\<close> and the fetcher of \<open>frankclaw-media/src/fetch.rs\<close>. URLs,
  name resolution and HTTP are the fields of a \<open>net_env\<close> over an arbitrary world. The lemmas
  show that the IPv4 check is exactly the list of blocked networks, what the IPv6 check lets
  through, and that no request is sent before a resolution of its URL to safe addresses only.
\<close>

section \<open>Addresses\<close>

datatype ip_addr =
    V4 u8 u8 u8 u8
  | V6 u16 u16 u16 u16 u16 u16 u16 u16

text \<open>The predicates of \<open>std::net::Ipv4Addr\<close> and \<open>Ipv6Addr\<close> that the code calls.\<close>

fun v4_private :: "u8 \<Rightarrow> u8 \<Rightarrow> bool" where
  "v4_private a b \<longleftrightarrow>
     a = 10 \<or> (a = 172 \<and> 16 \<le> b \<and> b \<le> 31) \<or> (a = 192 \<and> b = 168)"

definition v4_link_local :: "u8 \<Rightarrow> u8 \<Rightarrow> bool" where
  "v4_link_local a b \<longleftrightarrow> a = 169 \<and> b = 254"

definition v6_unique_local :: "u16 \<Rightarrow> bool" where
  "v6_unique_local s0 \<longleftrightarrow> s0 AND 0xfe00 = 0xfc00"

definition v6_link_local :: "u16 \<Rightarrow> bool" where
  "v6_link_local s0 \<longleftrightarrow> s0 AND 0xffc0 = 0xfe80"

section \<open>The check (media.rs)\<close>

definition is_cgnat_v4 :: "u8 \<Rightarrow> u8 \<Rightarrow> bool" where
  "is_cgnat_v4 a b \<longleftrightarrow> a = 100 \<and> b AND 0xC0 = 64"

definition is_documentation_v4 :: "u8 \<Rightarrow> u8 \<Rightarrow> u8 \<Rightarrow> bool" where
  "is_documentation_v4 a b c \<longleftrightarrow>
     (a = 192 \<and> b = 0 \<and> c = 2) \<or> (a = 198 \<and> b = 51 \<and> c = 100) \<or> (a = 203 \<and> b = 0 \<and> c = 113)"

definition is_benchmarking_v4 :: "u8 \<Rightarrow> u8 \<Rightarrow> bool" where
  "is_benchmarking_v4 a b \<longleftrightarrow> a = 198 \<and> b AND 0xFE = 18"

definition is_safe_v4 :: "u8 \<Rightarrow> u8 \<Rightarrow> u8 \<Rightarrow> u8 \<Rightarrow> bool" where
  "is_safe_v4 a b c d \<longleftrightarrow>
     \<not> a = 127 \<and>
     \<not> v4_private a b \<and>
     \<not> v4_link_local a b \<and>
     \<not> (a = 255 \<and> b = 255 \<and> c = 255 \<and> d = 255) \<and>
     \<not> (224 \<le> a \<and> a \<le> 239) \<and>
     \<not> (a = 0 \<and> b = 0 \<and> c = 0 \<and> d = 0) \<and>
     \<not> is_cgnat_v4 a b \<and>
     \<not> is_documentation_v4 a b c \<and>
     \<not> is_benchmarking_v4 a b"

text \<open>\<open>to_ipv4_mapped\<close>: the address \<open>::ffff:a.b.c.d\<close>, its octets from the last two segments.\<close>

fun to_ipv4_mapped :: "ip_addr \<Rightarrow> (u8 \<times> u8 \<times> u8 \<times> u8) option" where
  "to_ipv4_mapped (V6 s0 s1 s2 s3 s4 s5 s6 s7) =
     (if s0 = 0 \<and> s1 = 0 \<and> s2 = 0 \<and> s3 = 0 \<and> s4 = 0 \<and> s5 = 0xffff
      then Some (ucast (drop_bit 8 s6), ucast s6, ucast (drop_bit 8 s7), ucast s7) else None)"
| "to_ipv4_mapped (V4 a b c d) = None"

definition is_private_mapped_v6 :: "ip_addr \<Rightarrow> bool" where
  "is_private_mapped_v6 ip =
     (case to_ipv4_mapped ip of Some (a, b, c, d) \<Rightarrow> \<not> is_safe_v4 a b c d | None \<Rightarrow> False)"

fun is_safe_ip :: "ip_addr \<Rightarrow> bool" where
  "is_safe_ip (V4 a b c d) = is_safe_v4 a b c d"
| "is_safe_ip (V6 s0 s1 s2 s3 s4 s5 s6 s7) \<longleftrightarrow>
     \<not> (s0 = 0 \<and> s1 = 0 \<and> s2 = 0 \<and> s3 = 0 \<and> s4 = 0 \<and> s5 = 0 \<and> s6 = 0 \<and> s7 = 1) \<and>
     \<not> s0 AND 0xff00 = 0xff00 \<and>
     \<not> (s0 = 0 \<and> s1 = 0 \<and> s2 = 0 \<and> s3 = 0 \<and> s4 = 0 \<and> s5 = 0 \<and> s6 = 0 \<and> s7 = 0) \<and>
     \<not> is_private_mapped_v6 (V6 s0 s1 s2 s3 s4 s5 s6 s7)"

section \<open>The IPv4 check as a list of networks\<close>

definition v4_number :: "u8 \<Rightarrow> u8 \<Rightarrow> u8 \<Rightarrow> u8 \<Rightarrow> nat" where
  "v4_number a b c d = ((unat a * 256 + unat b) * 256 + unat c) * 256 + unat d"

text \<open>A network in CIDR notation: an address and the length of its prefix.\<close>

definition in_network :: "nat \<Rightarrow> nat \<times> nat \<Rightarrow> bool" where
  "in_network n net = (n div 2 ^ (32 - snd net) = fst net div 2 ^ (32 - snd net))"

definition blocked_networks :: "(nat \<times> nat) list" where
  "blocked_networks =
     [(v4_number 127 0 0 0, 8), (v4_number 10 0 0 0, 8), (v4_number 172 16 0 0, 12),
      (v4_number 192 168 0 0, 16), (v4_number 169 254 0 0, 16), (v4_number 255 255 255 255, 32),
      (v4_number 224 0 0 0, 4), (v4_number 0 0 0 0, 32), (v4_number 100 64 0 0, 10),
      (v4_number 192 0 2 0, 24), (v4_number 198 51 100 0, 24), (v4_number 203 0 113 0, 24),
      (v4_number 198 18 0 0, 15)]"

lemma high_bits: "(b :: 'a::len word) AND NOT (mask k) = push_bit k (drop_bit k b)"
  by (rule bit_word_eqI) (auto simp: bit_simps)

lemma high_bits_eq:
  assumes "drop_bit k (push_bit k q) = q"
  shows "(b :: 'a::len word) AND NOT (mask k) = push_bit k q \<longleftrightarrow> drop_bit k b = q"
proof
  assume e: "b AND NOT (mask k) = push_bit k q"
  have "drop_bit k (b AND NOT (mask k)) = drop_bit k b"
    by (rule bit_word_eqI) (auto simp: bit_simps dest: bit_imp_le_length)
  with e assms show "drop_bit k b = q" by simp
qed (simp add: high_bits)

lemma octet_masks:
  "(b :: u8) AND 0xC0 = 64 \<longleftrightarrow> unat b div 64 = 1"
  "(b :: u8) AND 0xFE = 18 \<longleftrightarrow> unat b div 2 = 9"
proof -
  have "(0xC0 :: u8) = NOT (mask 6)" "(0xFE :: u8) = NOT (mask 1)"
    by (simp_all add: mask_eq_exp_minus_1)
  then show "b AND 0xC0 = 64 \<longleftrightarrow> unat b div 64 = 1" "b AND 0xFE = 18 \<longleftrightarrow> unat b div 2 = 9"
    using high_bits_eq [of 6 1 b] high_bits_eq [of 1 9 b]
    by (simp_all only:) (simp_all add: word_unat_eq_iff drop_bit_eq_div unat_div)
qed

lemma v4_div:
  "v4_number a b c d div 2 ^ 24 = unat a"
  "v4_number a b c d div 2 ^ 16 = unat a * 256 + unat b"
  "v4_number a b c d div 2 ^ 8 = (unat a * 256 + unat b) * 256 + unat c"
proof -
  have o: "unat (x :: u8) < 256" for x using unsigned_less [of x] by simp
  show e8: "v4_number a b c d div 2 ^ 8 = (unat a * 256 + unat b) * 256 + unat c"
    using o [of d] by (simp add: v4_number_def)
  have "v4_number a b c d div 2 ^ 16 = v4_number a b c d div 2 ^ 8 div 2 ^ 8"
    by (simp add: div_mult2_eq [symmetric])
  then show e16: "v4_number a b c d div 2 ^ 16 = unat a * 256 + unat b"
    unfolding e8 using o [of c] by simp
  have "v4_number a b c d div 2 ^ 24 = v4_number a b c d div 2 ^ 16 div 2 ^ 8"
    by (simp add: div_mult2_eq [symmetric])
  then show "v4_number a b c d div 2 ^ 24 = unat a"
    unfolding e16 using o [of b] by simp
qed

lemma v4_div_between:
  "v4_number a b c d div 2 ^ 28 = unat a div 16"
  "v4_number a b c d div 2 ^ 22 = (unat a * 256 + unat b) div 64"
  "v4_number a b c d div 2 ^ 20 = (unat a * 256 + unat b) div 16"
  "v4_number a b c d div 2 ^ 17 = (unat a * 256 + unat b) div 2"
proof -
  have split: "v4_number a b c d div 2 ^ (j + k) = v4_number a b c d div 2 ^ j div 2 ^ k" for j k
    by (simp add: div_mult2_eq power_add)
  show "v4_number a b c d div 2 ^ 28 = unat a div 16"
    using split [of 24 4] by (simp add: v4_div [simplified])
  show "v4_number a b c d div 2 ^ 22 = (unat a * 256 + unat b) div 64"
    using split [of 16 6] by (simp add: v4_div [simplified])
  show "v4_number a b c d div 2 ^ 20 = (unat a * 256 + unat b) div 16"
    using split [of 16 4] by (simp add: v4_div [simplified])
  show "v4_number a b c d div 2 ^ 17 = (unat a * 256 + unat b) div 2"
    using split [of 16 1] by (simp add: v4_div [simplified])
qed

lemma octet_eq: "(x :: u8) = y \<longleftrightarrow> unat x = unat y"
  by (simp add: word_unat_eq_iff)

lemma v4_number_inj:
  "v4_number a b c d = v4_number a' b' c' d' \<longleftrightarrow> a = a' \<and> b = b' \<and> c = c' \<and> d = d'"
proof
  assume e: "v4_number a b c d = v4_number a' b' c' d'"
  then have "unat a = unat a'" by (metis v4_div(1))
  moreover from this e have "unat b = unat b'" by (metis v4_div(2) add_left_cancel)
  moreover from calculation e have "unat c = unat c'" by (metis v4_div(3) add_left_cancel)
  moreover from calculation e have "unat d = unat d'" by (simp add: v4_number_def)
  ultimately show "a = a' \<and> b = b' \<and> c = c' \<and> d = d'" by (simp add: octet_eq)
qed simp

lemma octet_bound: "unat (x :: u8) < 256"
  using unsigned_less [of x] by simp

lemma digits2:
  assumes "(x::nat) < k" "y < k"
  shows "a * k + x = b * k + y \<longleftrightarrow> a = b \<and> x = y"
proof
  assume e: "a * k + x = b * k + y"
  have "(a * k + x) div k = a" "(a * k + x) mod k = x" "(b * k + y) div k = b" "(b * k + y) mod k = y"
    using assms by simp_all
  with e show "a = b \<and> x = y" by simp
qed simp

lemma in_network_8:
  "in_network (v4_number a b c d) (v4_number a' b' c' d', 8) \<longleftrightarrow> a = a'"
  by (simp add: in_network_def v4_div [simplified] octet_eq)

lemma in_network_16:
  "in_network (v4_number a b c d) (v4_number a' b' c' d', 16) \<longleftrightarrow> a = a' \<and> b = b'"
  using digits2 [OF octet_bound octet_bound, of "unat a" b "unat a'" b']
  by (simp add: in_network_def v4_div [simplified] octet_eq)

lemma in_network_24:
  "in_network (v4_number a b c d) (v4_number a' b' c' d', 24) \<longleftrightarrow> a = a' \<and> b = b' \<and> c = c'"
  using digits2 [OF octet_bound octet_bound, of "unat a" b "unat a'" b']
    digits2 [OF octet_bound octet_bound, of "unat a * 256 + unat b" c "unat a' * 256 + unat b'" c']
  by (simp add: in_network_def v4_div [simplified] octet_eq)

lemma in_network_32:
  "in_network (v4_number a b c d) (v4_number a' b' c' d', 32) \<longleftrightarrow>
     a = a' \<and> b = b' \<and> c = c' \<and> d = d'"
  by (simp add: in_network_def v4_number_inj)

lemma group_div:
  assumes "k * m = (256 :: nat)" "0 < k" "r < m" "B < 256"
  shows "(A * 256 + B) div k = q * m + r \<longleftrightarrow> A = q \<and> B div k = r"
proof -
  have "A * 256 + B = (A * m) * k + B" using assms(1) by (simp add: mult.assoc mult.commute)
  also have "\<dots> div k = A * m + B div k"
    using assms(2) by (intro div_mult_self3) simp
  finally have "(A * 256 + B) div k = A * m + B div k" .
  moreover have "B div k < m" using assms by (simp add: div_less_iff_less_mult mult.commute)
  ultimately show ?thesis using assms(3) digits2 [of "B div k" m r A q] by simp
qed

lemma div_eq_range:
  assumes "0 < k"
  shows "(n::nat) div k = q \<longleftrightarrow> q * k \<le> n \<and> n < Suc q * k"
proof -
  have "n div k = q \<longleftrightarrow> q \<le> n div k \<and> n div k < Suc q" by auto
  then show ?thesis
    by (simp only: less_eq_div_iff_mult_less_eq [OF assms] div_less_iff_less_mult [OF assms])
qed

lemma in_network_between:
  "in_network (v4_number a b c d) (v4_number 172 16 0 0, 12) \<longleftrightarrow> a = 172 \<and> 16 \<le> b \<and> b \<le> 31"
  "in_network (v4_number a b c d) (v4_number 224 0 0 0, 4) \<longleftrightarrow> 224 \<le> a \<and> a \<le> 239"
  "in_network (v4_number a b c d) (v4_number 100 64 0 0, 10) \<longleftrightarrow> is_cgnat_v4 a b"
  "in_network (v4_number a b c d) (v4_number 198 18 0 0, 15) \<longleftrightarrow> is_benchmarking_v4 a b"
proof -
  have "B div 16 = 1 \<longleftrightarrow> 16 \<le> B \<and> B \<le> 31" for B :: nat
    by (simp only: div_eq_range) auto
  then show "in_network (v4_number a b c d) (v4_number 172 16 0 0, 12) \<longleftrightarrow>
      a = 172 \<and> 16 \<le> b \<and> b \<le> 31"
    using group_div [of 16 16 1 "unat b" "unat a" 172] octet_bound [of b]
    by (simp add: in_network_def v4_div_between [simplified] octet_eq word_le_nat_alt)
  have "A div 16 = 14 \<longleftrightarrow> 224 \<le> A \<and> A \<le> 239" for A :: nat
    by (simp only: div_eq_range) auto
  then show "in_network (v4_number a b c d) (v4_number 224 0 0 0, 4) \<longleftrightarrow> 224 \<le> a \<and> a \<le> 239"
    by (simp add: in_network_def v4_div_between [simplified] word_le_nat_alt)
  show "in_network (v4_number a b c d) (v4_number 100 64 0 0, 10) \<longleftrightarrow> is_cgnat_v4 a b"
    using group_div [of 64 4 1 "unat b" "unat a" 100] octet_bound [of b] octet_masks [of b]
    by (simp add: in_network_def v4_div_between [simplified] octet_eq is_cgnat_v4_def)
  show "in_network (v4_number a b c d) (v4_number 198 18 0 0, 15) \<longleftrightarrow> is_benchmarking_v4 a b"
    using group_div [of 2 128 9 "unat b" "unat a" 198] octet_bound [of b] octet_masks [of b]
    by (simp add: in_network_def v4_div_between [simplified] octet_eq is_benchmarking_v4_def)
qed

lemmas network_members = in_network_8 in_network_16 in_network_24 in_network_32 in_network_between

text \<open>
  An IPv4 address passes the check exactly when it lies in none of the thirteen blocked
  networks, read as CIDR prefixes of the 32-bit address.
\<close>

lemma is_safe_v4_networks:
  "is_safe_ip (V4 a b c d) \<longleftrightarrow> \<not> (\<exists>net\<in>set blocked_networks. in_network (v4_number a b c d) net)"
  by (auto simp: blocked_networks_def network_members is_safe_v4_def v4_link_local_def
      is_documentation_v4_def)

text \<open>
  The IPv6 check lets unique-local (\<open>fc00::/7\<close>) and link-local (\<open>fe80::/10\<close>) addresses
  through: every such address passes, although the check is documented to block all private
  and link-local ranges.
\<close>

lemma v6_local_ranges_pass:
  assumes "v6_unique_local s0 \<or> v6_link_local s0"
  shows "is_safe_ip (V6 s0 s1 s2 s3 s4 s5 s6 s7)"
proof -
  have "s0 \<noteq> 0" using assms by (auto simp: v6_unique_local_def v6_link_local_def)
  moreover have "s0 AND 0xff00 \<noteq> 0xff00"
  proof
    assume ff: "s0 AND 0xff00 = 0xff00"
    have "s0 AND 0xfe00 = (s0 AND 0xff00) AND 0xfe00" "(s0 AND 0xffc0) AND 0xff00 = s0 AND 0xff00"
      by (simp_all add: and.assoc)
    with ff assms show False by (auto simp: v6_unique_local_def v6_link_local_def)
  qed
  ultimately show ?thesis by (simp add: is_private_mapped_v6_def)
qed

lemma v6_local_ranges_pass_witness: "is_safe_ip (V6 0xfd00 0 0 0 0 0 0 1)"
  by (rule v6_local_ranges_pass) (simp add: v6_unique_local_def)

section \<open>The fetcher (fetch.rs)\<close>

record http_response =
  rsp_status :: nat
  rsp_location :: "string option"
  rsp_content_length :: "u64 option"
  rsp_content_type :: "string option"
  rsp_body :: "string + string"

record ('u, 'w) net_env =
  url_scheme :: "'u \<Rightarrow> string"
  url_host :: "'u \<Rightarrow> string option"
  url_port :: "'u \<Rightarrow> u16 option"
  url_join :: "'u \<Rightarrow> string \<Rightarrow> string + 'u"
  dns_lookup :: "string \<Rightarrow> 'w \<Rightarrow> (string + ip_addr list) \<times> 'w"
  http_get :: "'u \<Rightarrow> 'w \<Rightarrow> (string + http_response) \<times> 'w"
  show_ip :: "ip_addr \<Rightarrow> string"

definition max_redirects :: nat where
  "max_redirects = 5"

definition blocked :: "string \<Rightarrow> frank_error + 'a" where
  "blocked reason = Inl (MediaFetchBlocked reason)"

text \<open>The first unsafe address of the list stops the loop over all of them.\<close>

fun check_addrs :: "(ip_addr \<Rightarrow> string) \<Rightarrow> ip_addr list \<Rightarrow> frank_error + unit" where
  "check_addrs shw [] = Inr ()"
| "check_addrs shw (a # as) =
     (if \<not> is_safe_ip a then blocked (''URL resolves to blocked IP range: '' @ shw a)
      else check_addrs shw as)"

definition validate_url_ssrf ::
  "('u, 'w) net_env \<Rightarrow> 'u \<Rightarrow> 'w \<Rightarrow> (frank_error + unit) \<times> 'w" where
  "validate_url_ssrf env u w =
     (if url_scheme env u \<notin> {''http'', ''https''}
      then (blocked (''unsupported scheme: '' @ url_scheme env u), w)
      else (case url_host env u of
        None \<Rightarrow> (blocked ''no host in URL'', w)
      | Some host \<Rightarrow>
          (let port = (case url_port env u of Some p \<Rightarrow> p | None \<Rightarrow> 443)
           in case dns_lookup env (host @ '':'' @ show_word port) w of
                (Inl e, w1) \<Rightarrow> (blocked (''DNS resolution failed: '' @ e), w1)
              | (Inr addrs, w1) \<Rightarrow>
                  if addrs = [] then (blocked ''DNS resolved to no addresses'', w1)
                  else (check_addrs (show_ip env) addrs, w1))))"

record fetched_content =
  fc_bytes :: string
  fc_content_type :: string

definition is_redirection :: "nat \<Rightarrow> bool" where
  "is_redirection status \<longleftrightarrow> 300 \<le> status \<and> status \<le> 399"

definition is_success :: "nat \<Rightarrow> bool" where
  "is_success status \<longleftrightarrow> 200 \<le> status \<and> status \<le> 299"

text \<open>The part of the loop body after a response that is no redirection.\<close>

definition read_response ::
  "u64 \<Rightarrow> http_response \<Rightarrow> frank_error + fetched_content" where
  "read_response max_bytes r =
     (if \<not> is_success (rsp_status r) then blocked (''HTTP '' @ show_nat (rsp_status r))
      else if (case rsp_content_length r of Some n \<Rightarrow> max_bytes < n | None \<Rightarrow> False)
      then Inl (MediaTooLarge (unat max_bytes))
      else (let content_type = (case rsp_content_type r of
                                  Some t \<Rightarrow> t | None \<Rightarrow> ''application/octet-stream'')
            in case rsp_body r of
                 Inl e \<Rightarrow> blocked (''body read failed: '' @ e)
               | Inr bytes \<Rightarrow>
                   if unat max_bytes < length bytes then Inl (MediaTooLarge (unat max_bytes))
                   else Inr \<lparr>fc_bytes = bytes, fc_content_type = content_type\<rparr>))"

definition too_many_redirects :: "frank_error + fetched_content" where
  "too_many_redirects = blocked (''too many redirects ('' @ show_nat max_redirects @ '')'')"

text \<open>\<open>left\<close> is the number of rounds after this one: \<open>redirect_count = max_redirects - left\<close>.\<close>

fun fetch_from ::
  "('u, 'w) net_env \<Rightarrow> u64 \<Rightarrow> nat \<Rightarrow> 'u \<Rightarrow> 'w \<Rightarrow> (frank_error + fetched_content) \<times> 'w" where
  "fetch_from env max_bytes left u w =
     (case validate_url_ssrf env u w of
        (Inl e, w1) \<Rightarrow> (Inl e, w1)
      | (Inr _, w1) \<Rightarrow>
          (case http_get env u w1 of
             (Inl e, w2) \<Rightarrow> (blocked (''fetch failed: '' @ e), w2)
           | (Inr r, w2) \<Rightarrow>
               if is_redirection (rsp_status r)
               then (case left of
                       0 \<Rightarrow> (too_many_redirects, w2)
                     | Suc n \<Rightarrow>
                         (case rsp_location r of
                            None \<Rightarrow> (blocked ''redirect without Location header'', w2)
                          | Some location \<Rightarrow>
                              (case url_join env u location of
                                 Inl e \<Rightarrow> (blocked (''invalid redirect URL: '' @ e), w2)
                               | Inr u' \<Rightarrow> fetch_from env max_bytes n u' w2)))
               else (read_response max_bytes r, w2)))"

declare fetch_from.simps [simp del]

definition fetch ::
  "('u, 'w) net_env \<Rightarrow> u64 \<Rightarrow> 'u \<Rightarrow> 'w \<Rightarrow> (frank_error + fetched_content) \<times> 'w" where
  "fetch env max_bytes u w = fetch_from env max_bytes max_redirects u w"

section \<open>Observing resolutions and requests\<close>

datatype 'u net_event = Resolved string "ip_addr list" | Requested 'u

definition net_logged :: "('u, 'w) net_env \<Rightarrow> ('u, 'w \<times> 'u net_event list) net_env" where
  "net_logged env =
     \<lparr>url_scheme = url_scheme env, url_host = url_host env, url_port = url_port env,
      url_join = url_join env,
      dns_lookup = (\<lambda>h (w, log). case dns_lookup env h w of
          (Inl e, w') \<Rightarrow> (Inl e, (w', log))
        | (Inr as, w') \<Rightarrow> (Inr as, (w', log @ [Resolved h as]))),
      http_get = (\<lambda>u (w, log). case http_get env u w of (r, w') \<Rightarrow> (r, (w', log @ [Requested u]))),
      show_ip = show_ip env\<rparr>"

text \<open>
  The logs that respect the protection: requests come right after a resolution, of the host
  of their URL, to at least one address and to safe addresses only.
\<close>

definition safe_resolution :: "('u, 'w) net_env \<Rightarrow> 'u \<Rightarrow> 'u net_event \<Rightarrow> bool" where
  "safe_resolution env u e =
     (case e of
        Resolved h as \<Rightarrow>
          url_host env u \<noteq> None \<and> url_scheme env u \<in> {''http'', ''https''} \<and>
          h = the (url_host env u) @ '':'' @
              show_word (case url_port env u of Some p \<Rightarrow> p | None \<Rightarrow> (443 :: u16)) \<and>
          as \<noteq> [] \<and> list_all is_safe_ip as
      | Requested _ \<Rightarrow> False)"

fun guarded :: "('u, 'w) net_env \<Rightarrow> 'u net_event list \<Rightarrow> bool" where
  "guarded env (r # Requested u # es) \<longleftrightarrow> safe_resolution env u r \<and> guarded env es"
| "guarded env [Resolved h as] \<longleftrightarrow> True"
| "guarded env [] \<longleftrightarrow> True"
| "guarded env _ \<longleftrightarrow> False"

definition requests :: "'u net_event list \<Rightarrow> nat" where
  "requests log = length (filter (\<lambda>e. case e of Requested _ \<Rightarrow> True | _ \<Rightarrow> False) log)"

lemma check_addrs_safe: "check_addrs shw as = Inr () \<longleftrightarrow> list_all is_safe_ip as"
  by (induction as) (auto simp: blocked_def)

lemma guarded_append: "guarded env xs \<Longrightarrow> even (length xs) \<Longrightarrow> guarded env (xs @ ys) = guarded env ys"
proof (induction xs rule: guarded.induct)
  case (1 env r u es)
  then show ?case by simp
qed auto

lemma requests_append [simp]: "requests (xs @ ys) = requests xs + requests ys"
  by (simp add: requests_def)

lemma validate_logged:
  assumes "validate_url_ssrf (net_logged env) u (w, log) = (r, w1, log1)"
  shows "(r = Inr () \<longrightarrow> (\<exists>e. log1 = log @ [e] \<and> safe_resolution env u e)) \<and>
         (log1 = log \<or> (\<exists>h as. log1 = log @ [Resolved h as]))"
  using assms
  by (auto simp: validate_url_ssrf_def net_logged_def safe_resolution_def blocked_def Let_def
      check_addrs_safe split: if_splits option.splits prod.splits sum.splits)

lemma fetch_from_step:
  assumes run: "fetch_from (net_logged env) max_bytes left u (w, log) = (r, w1, log1)"
  shows "(\<exists>evs. log1 = log @ evs \<and> guarded env evs \<and> requests evs \<le> 1) \<or>
    (\<exists>n u' wg evs. left = Suc n \<and> guarded env evs \<and> even (length evs) \<and> requests evs = 1 \<and>
       fetch_from (net_logged env) max_bytes n u' (wg, log @ evs) = (r, w1, log1))"
proof -
  obtain v wv lv where v: "validate_url_ssrf (net_logged env) u (w, log) = (v, wv, lv)"
    by (metis prod_cases3)
  note vl = validate_logged [OF v]
  show ?thesis
  proof (cases v)
    case (Inl e)
    with run v have "log1 = lv" by (subst (asm) fetch_from.simps) simp
    with vl show ?thesis by (auto simp: requests_def)
  next
    case (Inr x)
    with vl obtain e where e: "lv = log @ [e]" "safe_resolution env u e" by auto
    obtain g wg where g: "http_get env u wv = (g, wg)" by fastforce
    let ?evs = "[e, Requested u]"
    have ge: "guarded env ?evs" "requests ?evs = 1"
      using e(2) by (auto simp: requests_def safe_resolution_def split: net_event.splits)
    have get: "http_get (net_logged env) u (wv, lv) = (g, wg, log @ ?evs)"
      by (simp add: net_logged_def g e)
    have "log1 = log @ ?evs \<or>
      (\<exists>n u'. left = Suc n \<and>
         fetch_from (net_logged env) max_bytes n u' (wg, log @ ?evs) = (r, w1, log1))"
      using run v get Inr
      by (subst (asm) fetch_from.simps)
        (auto simp: blocked_def split: sum.splits if_splits option.splits nat.splits)
    with ge show ?thesis by fastforce
  qed
qed

lemma fetch_from_logged:
  assumes "fetch_from (net_logged env) max_bytes left u (w, log) = (r, w1, log1)"
  shows "\<exists>evs. log1 = log @ evs \<and> guarded env evs \<and> requests evs \<le> Suc left"
  using assms
proof (induction left arbitrary: u w log)
  case 0
  then show ?case using fetch_from_step by fastforce
next
  case (Suc n)
  from fetch_from_step [OF Suc.prems] show ?case
  proof (elim disjE exE conjE)
    fix evs assume "log1 = log @ evs" "guarded env evs" "requests evs \<le> 1"
    then show ?thesis by (intro exI [of _ evs]) simp
  next
    fix m u' wg evs
    assume a: "Suc n = Suc m" "guarded env evs" "even (length evs)" "requests evs = 1"
      and "fetch_from (net_logged env) max_bytes m u' (wg, log @ evs) = (r, w1, log1)"
    then obtain evs' where "log1 = (log @ evs) @ evs'" "guarded env evs'" "requests evs' \<le> Suc n"
      using Suc.IH by blast
    with a show ?thesis by (intro exI [of _ "evs @ evs'"]) (simp add: guarded_append)
  qed
qed

lemma read_response_bounded: "read_response m r = Inr c \<Longrightarrow> length (fc_bytes c) \<le> unat m"
  by (auto simp: read_response_def blocked_def Let_def split: if_splits sum.splits)

lemma fetch_from_bounded:
  "fetch_from env m left u w = (Inr c, w') \<Longrightarrow> length (fc_bytes c) \<le> unat m"
proof (induction left arbitrary: u w)
  case 0
  then show ?case
    by (subst (asm) fetch_from.simps)
      (auto simp: blocked_def too_many_redirects_def dest: read_response_bounded
        split: prod.splits sum.splits if_splits)
next
  case (Suc n)
  then show ?case
    by (subst (asm) fetch_from.simps)
      (auto simp: blocked_def dest: read_response_bounded
        split: prod.splits sum.splits if_splits option.splits)
qed

text \<open>
  C5. However the servers and the name service answer, a fetch sends at most six requests,
  and each of them comes right after a resolution of the host of its own URL, redirect targets
  included, to a non-empty list of addresses that are all safe; and a successful fetch returns
  at most \<open>max_bytes\<close> bytes.
\<close>

theorem fetch_guarded:
  assumes "fetch (net_logged env) max_bytes u (w, []) = (r, w', log)"
  shows "guarded env log \<and> requests log \<le> 6 \<and>
    (\<forall>c. r = Inr c \<longrightarrow> length (fc_bytes c) \<le> unat max_bytes)"
  using fetch_from_logged [OF assms [unfolded fetch_def]] fetch_from_bounded
    assms [unfolded fetch_def]
  by (auto simp: max_redirects_def)

text \<open>A world for the witness: the first URL redirects to the second one.\<close>

definition sample_net :: "(nat, unit) net_env" where
  "sample_net =
     \<lparr>url_scheme = (\<lambda>u. ''https''), url_host = (\<lambda>u. Some ''h''), url_port = (\<lambda>u. None),
      url_join = (\<lambda>u l. Inr (Suc u)),
      dns_lookup = (\<lambda>h w. (Inr [V4 93 184 216 34], w)),
      http_get = (\<lambda>u w. (Inr \<lparr>rsp_status = (if u = 0 then 302 else 200),
          rsp_location = Some ''/next'', rsp_content_length = None, rsp_content_type = None,
          rsp_body = Inr ''ok''\<rparr>, w)),
      show_ip = (\<lambda>_. [])\<rparr>"

lemma show_443: "show_word (443 :: u16) = ''443''"
  by code_simp

lemma sample_fetch:
  "fetch (net_logged sample_net) 10 0 ((), []) =
     (Inr \<lparr>fc_bytes = ''ok'', fc_content_type = ''application/octet-stream''\<rparr>, (),
      [Resolved ''h:443'' [V4 93 184 216 34], Requested 0,
       Resolved ''h:443'' [V4 93 184 216 34], Requested 1])"
  by (simp add: fetch_def max_redirects_def fetch_from.simps validate_url_ssrf_def net_logged_def
      sample_net_def is_safe_v4_def v4_link_local_def is_cgnat_v4_def is_documentation_v4_def
      is_benchmarking_v4_def is_redirection_def is_success_def read_response_def show_443
      word_le_nat_alt)

theorem fetch_guarded_witness:
  "guarded sample_net
     [Resolved ''h:443'' [V4 93 184 216 34], Requested 0,
      Resolved ''h:443'' [V4 93 184 216 34], Requested 1]"
  using fetch_guarded [OF sample_fetch] by blast

end
