(* ===== verification/Json.thy ===== *)
theory Json
  imports Rust_Text
begin

text \<open>
  The JSON values that the configuration, the webhooks and the tools inspect
  (\<open>serde_json::Value\<close>), with the accessors the code calls on them. A number is kept as a
  \<open>u64\<close> when it is one and as its text otherwise.
\<close>

datatype json =
    JNull
  | JBool bool
  | JUInt u64
  | JNumber string
  | JString string
  | JArray "json list"
  | JObject "(string \<times> json) list"

fun json_get :: "json \<Rightarrow> string \<Rightarrow> json option" where
  "json_get (JObject fields) k = map_of fields k"
| "json_get _ k = None"

fun as_str :: "json \<Rightarrow> string option" where
  "as_str (JString s) = Some s"
| "as_str _ = None"

fun as_bool :: "json \<Rightarrow> bool option" where
  "as_bool (JBool b) = Some b"
| "as_bool _ = None"

fun as_u64 :: "json \<Rightarrow> u64 option" where
  "as_u64 (JUInt n) = Some n"
| "as_u64 _ = None"

fun as_array :: "json \<Rightarrow> json list option" where
  "as_array (JArray xs) = Some xs"
| "as_array _ = None"

definition get_str :: "json \<Rightarrow> string \<Rightarrow> string option" where
  "get_str v k = Option.bind (json_get v k) as_str"

text \<open>Insertion into an object; any other value is replaced by an object.\<close>

fun json_set :: "string \<Rightarrow> json \<Rightarrow> json \<Rightarrow> json" where
  "json_set k v (JObject kvs) = JObject (AList.update k v kvs)"
| "json_set k v _ = JObject [(k, v)]"

lemma json_get_set [simp]: "json_get (json_set k v j) k = Some v"
  by (cases j) (simp_all add: update_Some_unfold update_conv)

lemma json_get_set_other: "k' \<noteq> k \<Longrightarrow> json_get (json_set k v (JObject kvs)) k' = map_of kvs k'"
  by (simp add: update_conv)

text \<open>\<open>collect\<close> of an iterator of results: the first error, or all the values.\<close>

fun collect_results :: "('e + 'a) list \<Rightarrow> 'e + 'a list" where
  "collect_results [] = Inr []"
| "collect_results (Inl e # rs) = Inl e"
| "collect_results (Inr x # rs) =
     (case collect_results rs of Inl e \<Rightarrow> Inl e | Inr xs \<Rightarrow> Inr (x # xs))"

lemma collect_results_map_Inr [simp]: "collect_results (map Inr xs) = Inr xs"
  by (induction xs) auto

lemma collect_results_Inr:
  "collect_results rs = Inr xs \<longleftrightarrow> rs = map Inr xs"
proof
  show "collect_results rs = Inr xs \<Longrightarrow> rs = map Inr xs"
    by (induction rs arbitrary: xs rule: collect_results.induct) (auto split: sum.splits)
qed simp

end
