(* ===== verification/Config.thy ===== *)
theory Config
  imports Core_Types Json
begin

text \<open>
  The configuration of \<open>frankclaw-core/src/config.rs\<close>: its types, the defaults, and
  \<open>validate\<close> with the checks it calls. The TOML reader, the parser of IP addresses and the
  derived deserializer of webhook mappings are parameters. The theorem
  \<open>validate_accepts_exactly\<close> says which configurations pass.
\<close>

section \<open>Types and defaults (config.rs)\<close>

datatype bind_mode = Loopback | Lan | Address string

record tls_config =
  cert_path :: string
  key_path :: string

record gateway_config =
  gw_port :: u16
  gw_bind :: bind_mode
  gw_auth :: auth_mode
  gw_rate_limit :: rate_limit_config
  gw_tls :: "tls_config option"
  gw_max_ws_message_bytes :: nat
  gw_max_connections :: nat
  gw_health_check_interval_secs :: "u64 option"

definition default_gateway :: gateway_config where
  "default_gateway =
     \<lparr>gw_port = 18789, gw_bind = Loopback, gw_auth = AuthNone,
      gw_rate_limit = default_rate_limit_config, gw_tls = None,
      gw_max_ws_message_bytes = 4 * 1024 * 1024, gw_max_connections = 64,
      gw_health_check_interval_secs = None\<rparr>"

record agent_def =
  ag_name :: string
  ag_model :: "string option"
  ag_system_prompt :: "string option"
  ag_workspace :: "string option"
  ag_tools :: "string list"
  ag_skills :: "string list"

definition default_agent_def :: agent_def where
  "default_agent_def =
     \<lparr>ag_name = ''Default Agent'', ag_model = None, ag_system_prompt = None,
      ag_workspace = None, ag_tools = [], ag_skills = []\<rparr>"

record agents_config =
  ac_default_agent :: agent_id
  ac_agents :: "(agent_id \<times> agent_def) list"

definition default_agents :: agents_config where
  "default_agents =
     \<lparr>ac_default_agent = default_agent, ac_agents = [(default_agent, default_agent_def)]\<rparr>"

record channel_config =
  cc_enabled :: bool
  cc_accounts :: "json list"
  cc_extra :: json

datatype channel_dm_policy = DmOpen | DmAllowlist | DmPairing | DmDisabled

record channel_security_policy =
  sp_dm_policy :: channel_dm_policy
  sp_allow_from :: "string list"
  sp_allowed_groups :: "string list option"
  sp_require_mention_for_groups :: bool
  sp_max_message_bytes :: "nat option"

definition default_security_policy :: channel_security_policy where
  "default_security_policy =
     \<lparr>sp_dm_policy = DmPairing, sp_allow_from = [], sp_allowed_groups = None,
      sp_require_mention_for_groups = True, sp_max_message_bytes = None\<rparr>"

record provider_config =
  pc_id :: string
  pc_api :: string
  pc_base_url :: "string option"
  pc_api_key_ref :: "string option"
  pc_models :: "string list"
  pc_cooldown_secs :: u64

record webhook_mapping =
  wm_id :: string
  wm_agent_id :: "agent_id option"
  wm_session_key :: "session_key option"
  wm_text_field :: string
  wm_json_path :: "string option"
  wm_template :: "string option"
  wm_channel_id :: "channel_id option"
  wm_max_concurrent :: nat
  wm_rate_limit_per_minute :: "u32 option"

definition default_webhook_mapping :: webhook_mapping where
  "default_webhook_mapping =
     \<lparr>wm_id = [], wm_agent_id = None, wm_session_key = None, wm_text_field = ''message'',
      wm_json_path = None, wm_template = None, wm_channel_id = None, wm_max_concurrent = 8,
      wm_rate_limit_per_minute = None\<rparr>"

record hooks_config =
  hk_enabled :: bool
  hk_token :: "string option"
  hk_max_body_bytes :: "nat option"
  hk_mappings :: "json list"

record frankclaw_config =
  fc_gateway :: gateway_config
  fc_agents :: agents_config
  fc_channels :: "(channel_id \<times> channel_config) list"
  fc_providers :: "provider_config list"
  fc_default_model :: "string option"
  fc_hooks :: hooks_config

definition default_config :: frankclaw_config where
  "default_config =
     \<lparr>fc_gateway = default_gateway, fc_agents = default_agents, fc_channels = [],
      fc_providers = [], fc_default_model = None,
      fc_hooks = \<lparr>hk_enabled = False, hk_token = None, hk_max_body_bytes = None,
                  hk_mappings = []\<rparr>\<rparr>"

section \<open>Checks of the parts (auth.rs, config.rs)\<close>

definition blank :: "string \<Rightarrow> bool" where
  "blank s \<longleftrightarrow> trim s = []"

text \<open>\<open>opt.map(|v| v.trim().is_empty()).unwrap_or(true)\<close>\<close>

definition blank_opt :: "string option \<Rightarrow> bool" where
  "blank_opt v = (case v of Some s \<Rightarrow> blank s | None \<Rightarrow> True)"

primrec auth_validate :: "auth_mode \<Rightarrow> frank_error + unit" where
  "auth_validate AuthNone = Inr ()"
| "auth_validate (AuthToken token) =
     check (\<not> blank_opt token)
       (ConfigValidation ''gateway.auth.mode=token requires a non-empty token'')"
| "auth_validate (AuthPassword hash) =
     check (\<not> blank hash)
       (ConfigValidation ''gateway.auth.mode=password requires a non-empty hash'')"
| "auth_validate (AuthTrustedProxy identity_header) =
     check (\<not> blank identity_header)
       (ConfigValidation ''trusted_proxy auth requires an identity_header'')"
| "auth_validate AuthTailscale = Inr ()"

definition dm_policy_table :: "(string \<times> channel_dm_policy) list" where
  "dm_policy_table =
     [(''open'', DmOpen), (''allowlist'', DmAllowlist), (''pairing'', DmPairing),
      (''disabled'', DmDisabled)]"

definition string_array :: "json \<Rightarrow> string \<Rightarrow> string \<Rightarrow> frank_error + string list" where
  "string_array raw not_array not_strings =
     (case as_array raw of
        None \<Rightarrow> Inl (ConfigValidation not_array)
      | Some entries \<Rightarrow>
          collect_results
            (map (\<lambda>e. case as_str e of Some s \<Rightarrow> Inr s
                                    | None \<Rightarrow> Inl (ConfigValidation not_strings)) entries))"

text \<open>The five keys of the policy, in the order the code reads them.\<close>

definition policy_dm ::
  "json \<Rightarrow> channel_security_policy \<Rightarrow> frank_error + channel_security_policy" where
  "policy_dm extra p =
     (case get_str extra ''dm_policy'' of
        None \<Rightarrow> Inr p
      | Some raw \<Rightarrow>
          (case map_of dm_policy_table raw of
             Some d \<Rightarrow> Inr (p\<lparr>sp_dm_policy := d\<rparr>)
           | None \<Rightarrow> Inl (ConfigValidation
               (''invalid dm_policy '' @ [CHR 0x27] @ raw @ [CHR 0x27] @ ''; expected '' @
                join '', '' (map fst dm_policy_table)))))"

definition policy_allow ::
  "json \<Rightarrow> channel_security_policy \<Rightarrow> frank_error + channel_security_policy" where
  "policy_allow extra p =
     (case json_get extra ''allow_from'' of
        None \<Rightarrow> Inr p
      | Some raw \<Rightarrow>
          (case string_array raw ''allow_from must be an array of sender ids''
                  ''allow_from entries must be strings'' of
             Inl e \<Rightarrow> Inl e
           | Inr xs \<Rightarrow> Inr (p\<lparr>sp_allow_from := xs\<rparr>)))"

definition policy_groups ::
  "json \<Rightarrow> channel_security_policy \<Rightarrow> frank_error + channel_security_policy" where
  "policy_groups extra p =
     (case json_get extra ''groups'' of
        None \<Rightarrow> Inr p
      | Some raw \<Rightarrow>
          (case string_array raw ''groups must be an array of group or thread ids''
                  ''groups entries must be strings'' of
             Inl e \<Rightarrow> Inl e
           | Inr xs \<Rightarrow> Inr (p\<lparr>sp_allowed_groups := Some xs\<rparr>)))"

definition policy_mention :: "json \<Rightarrow> channel_security_policy \<Rightarrow> channel_security_policy" where
  "policy_mention extra p =
     (case Option.bind (json_get extra ''require_mention_for_groups'') as_bool of
        None \<Rightarrow> p
      | Some b \<Rightarrow> p\<lparr>sp_require_mention_for_groups := b\<rparr>)"

definition policy_max ::
  "json \<Rightarrow> channel_security_policy \<Rightarrow> frank_error + channel_security_policy" where
  "policy_max extra p =
     (case json_get extra ''max_message_bytes'' of
        None \<Rightarrow> Inr p
      | Some raw \<Rightarrow>
          (case as_u64 raw of
             None \<Rightarrow> Inl (ConfigValidation ''max_message_bytes must be a positive integer'')
           | Some v \<Rightarrow>
               if v = 0 then Inl (ConfigValidation ''max_message_bytes must be greater than 0'')
               else Inr (p\<lparr>sp_max_message_bytes := Some (unat v)\<rparr>)))"

definition security_policy :: "channel_config \<Rightarrow> frank_error + channel_security_policy" where
  "security_policy c =
     (case policy_dm (cc_extra c) default_security_policy of
        Inl e \<Rightarrow> Inl e
      | Inr p1 \<Rightarrow>
          (case policy_allow (cc_extra c) p1 of
             Inl e \<Rightarrow> Inl e
           | Inr p2 \<Rightarrow>
               (case policy_groups (cc_extra c) p2 of
                  Inl e \<Rightarrow> Inl e
                | Inr p3 \<Rightarrow> policy_max (cc_extra c) (policy_mention (cc_extra c) p3))))"

definition has_value :: "json \<Rightarrow> string list \<Rightarrow> bool" where
  "has_value account keys \<longleftrightarrow>
     list_ex (\<lambda>k. case get_str account k of Some v \<Rightarrow> \<not> blank v | None \<Rightarrow> False) keys"

definition validate_channel_account_value_source ::
  "channel_config \<Rightarrow> string \<Rightarrow> string list \<Rightarrow> string list \<Rightarrow> string \<Rightarrow> frank_error + unit" where
  "validate_channel_account_value_source channel channel_name inline_keys env_keys label =
     (case cc_accounts channel of
        [] \<Rightarrow> Inl (ConfigValidation (channel_name @ '' channel requires at least one account''))
      | account # _ \<Rightarrow>
          check (has_value account inline_keys \<or> has_value account env_keys)
            (ConfigValidation (channel_name @ '' channel requires a non-empty '' @ label @
               '' or '' @ label @ '' env reference'')))"

text \<open>What each supported channel needs: the inline keys, the environment keys, the label.\<close>

definition channel_needs ::
  "(string \<times> (string list \<times> string list \<times> string) list) list" where
  "channel_needs =
     [(''web'', []),
      (''telegram'',
         [([''bot_token'', ''token''], [''bot_token_env'', ''token_env''], ''bot token'')]),
      (''discord'',
         [([''bot_token'', ''token''], [''bot_token_env'', ''token_env''], ''bot token'')]),
      (''signal'',
         [([''base_url'', ''http_url''], [''base_url_env'', ''http_url_env''], ''base URL'')]),
      (''whatsapp'',
         [([''access_token'', ''token''], [''access_token_env'', ''token_env''], ''access token''),
          ([''phone_number_id''], [''phone_number_id_env''], ''phone number id''),
          ([''verify_token''], [''verify_token_env''], ''verify token'')]),
      (''slack'',
         [([''app_token''], [''app_token_env''], ''app token''),
          ([''bot_token'', ''token''], [''bot_token_env'', ''token_env''], ''bot token'')])]"

definition validate_channel_config :: "channel_id \<Rightarrow> channel_config \<Rightarrow> frank_error + unit" where
  "validate_channel_config channel_id channel =
     (if \<not> cc_enabled channel then Inr ()
      else (case map_of channel_needs (channel_str channel_id) of
              Some needs \<Rightarrow>
                first_error
                  (map (\<lambda>(inl, env, label). validate_channel_account_value_source channel
                          (channel_str channel_id) inl env label) needs)
            | None \<Rightarrow> Inl (ConfigValidation
                (''unsupported enabled channel '' @ [CHR 0x27] @ channel_str channel_id @
                 [CHR 0x27] @ ''; currently supported: web, telegram, discord, signal, slack, '' @
                 ''whatsapp''))))"

section \<open>Providers and webhook mappings (config.rs)\<close>

definition provider_apis :: "string list" where
  "provider_apis = [''openai'', ''anthropic'', ''ollama'']"

text \<open>The loop over the providers, with the set of the identifiers seen so far.\<close>

fun validate_providers :: "string set \<Rightarrow> provider_config list \<Rightarrow> frank_error + unit" where
  "validate_providers seen [] = Inr ()"
| "validate_providers seen (p # ps) =
     (if blank (pc_id p) then Inl (ConfigValidation ''model provider id cannot be empty'')
      else if pc_id p \<in> seen
      then Inl (ConfigValidation
             (''duplicate model provider id '' @ [CHR 0x27] @ pc_id p @ [CHR 0x27]))
      else if pc_api p \<notin> set provider_apis
      then Inl (ConfigValidation
             (''unsupported model provider api '' @ [CHR 0x27] @ pc_api p @ [CHR 0x27] @
              ''; expected openai, anthropic, or ollama''))
      else if pc_api p \<in> {''openai'', ''anthropic''} \<and> blank_opt (pc_api_key_ref p)
      then Inl (ConfigValidation
             (''provider '' @ [CHR 0x27] @ pc_id p @ [CHR 0x27] @
              '' requires a non-empty api_key_ref''))
      else validate_providers (insert (pc_id p) seen) ps)"

text \<open>
  The result of a check that may panic is an option, \<open>None\<close> being the panic (of the slice
  in \<open>SessionKey::parse\<close>).
\<close>

definition mapping_owner_ok :: "webhook_mapping \<Rightarrow> bool option" where
  "mapping_owner_ok m =
     (case (wm_agent_id m, wm_session_key m) of
        (Some a, Some k) \<Rightarrow>
          (case session_key_parse k of
             None \<Rightarrow> None
           | Some None \<Rightarrow> Some True
           | Some (Some (sa, _, _)) \<Rightarrow> Some (sa = a))
      | _ \<Rightarrow> Some True)"

fun parse_mappings ::
  "(json \<Rightarrow> string + webhook_mapping) \<Rightarrow> string set \<Rightarrow> json list \<Rightarrow>
     (frank_error + webhook_mapping list) option" where
  "parse_mappings from_value seen [] = Some (Inr [])"
| "parse_mappings from_value seen (raw # raws) =
     (case from_value raw of
        Inl err \<Rightarrow> Some (Inl (ConfigValidation (''invalid webhook mapping: '' @ err)))
      | Inr m \<Rightarrow>
          if blank (wm_id m)
          then Some (Inl (ConfigValidation ''webhook mapping id cannot be empty''))
          else if wm_id m \<in> seen
          then Some (Inl (ConfigValidation
                 (''duplicate webhook mapping '' @ [CHR 0x27] @ wm_id m @ [CHR 0x27])))
          else if blank (wm_text_field m)
          then Some (Inl (ConfigValidation
                 (''webhook mapping '' @ [CHR 0x27] @ wm_id m @ [CHR 0x27] @
                  '' text_field cannot be empty'')))
          else (case mapping_owner_ok m of
                  None \<Rightarrow> None
                | Some False \<Rightarrow> Some (Inl (ConfigValidation
                    (''webhook mapping '' @ [CHR 0x27] @ wm_id m @ [CHR 0x27] @ '' session '' @
                     [CHR 0x27] @ (case wm_session_key m of Some k \<Rightarrow> key_str k | None \<Rightarrow> []) @
                     [CHR 0x27] @ '' does not belong to agent '' @ [CHR 0x27] @
                     (case wm_agent_id m of Some a \<Rightarrow> agent_str a | None \<Rightarrow> []) @ [CHR 0x27])))
                | Some True \<Rightarrow>
                    (case parse_mappings from_value (insert (wm_id m) seen) raws of
                       Some (Inr ms) \<Rightarrow> Some (Inr (m # ms))
                     | other \<Rightarrow> other)))"

definition parsed_mappings ::
  "(json \<Rightarrow> string + webhook_mapping) \<Rightarrow> hooks_config \<Rightarrow>
     (frank_error + webhook_mapping list) option" where
  "parsed_mappings from_value h =
     (if \<not> hk_enabled h then Some (Inr [])
      else if blank_opt (hk_token h)
      then Some (Inl (ConfigValidation ''hooks.enabled requires a non-empty hooks.token''))
      else if hk_mappings h = []
      then Some (Inl (ConfigValidation ''hooks.enabled requires at least one mapping''))
      else parse_mappings from_value {} (hk_mappings h))"

section \<open>Validation (config.rs)\<close>

definition validate_channel :: "channel_id \<times> channel_config \<Rightarrow> frank_error + unit" where
  "validate_channel = (\<lambda>(channel_id, channel).
     case security_policy channel of
       Inl e \<Rightarrow> Inl e
     | Inr _ \<Rightarrow> validate_channel_config channel_id channel)"

definition validate_static ::
  "(string \<Rightarrow> 'ip option) \<Rightarrow> frankclaw_config \<Rightarrow> frank_error + unit" where
  "validate_static parse_ip cfg =
     first_error
       ([auth_validate (gw_auth (fc_gateway cfg)),
         check (ac_default_agent (fc_agents cfg) \<in> set (map fst (ac_agents (fc_agents cfg))))
           (ConfigValidation
             (''default agent '' @ [CHR 0x27] @ agent_str (ac_default_agent (fc_agents cfg)) @
              [CHR 0x27] @ '' is not present in agents map'')),
         validate_providers {} (fc_providers cfg),
         check (case fc_default_model cfg of Some m \<Rightarrow> \<not> blank m | None \<Rightarrow> True)
           (ConfigValidation ''models.default_model cannot be empty''),
         check (gw_max_connections (fc_gateway cfg) \<noteq> 0)
           (ConfigValidation ''gateway.max_connections must be greater than 0''),
         check (gw_max_ws_message_bytes (fc_gateway cfg) \<noteq> 0)
           (ConfigValidation ''gateway.max_ws_message_bytes must be greater than 0''),
         (case gw_bind (fc_gateway cfg) of
            Address address \<Rightarrow>
              check (parse_ip address \<noteq> None)
                (ConfigValidation
                  (''gateway.bind address '' @ [CHR 0x27] @ address @ [CHR 0x27] @
                   '' is not a valid IP address''))
          | _ \<Rightarrow> Inr ())]
        @ map validate_channel (fc_channels cfg))"

definition validate ::
  "(string \<Rightarrow> 'ip option) \<Rightarrow> (json \<Rightarrow> string + webhook_mapping) \<Rightarrow> frankclaw_config \<Rightarrow>
     (frank_error + unit) option" where
  "validate parse_ip from_value cfg =
     (case validate_static parse_ip cfg of
        Inl e \<Rightarrow> Some (Inl e)
      | Inr _ \<Rightarrow>
          (case parsed_mappings from_value (fc_hooks cfg) of
             None \<Rightarrow> None
           | Some (Inl e) \<Rightarrow> Some (Inl e)
           | Some (Inr _) \<Rightarrow> Some (Inr ())))"

section \<open>Which configurations pass\<close>

definition provider_ok :: "provider_config \<Rightarrow> bool" where
  "provider_ok p \<longleftrightarrow>
     \<not> blank (pc_id p) \<and> pc_api p \<in> set provider_apis \<and>
     (pc_api p = ''ollama'' \<or> \<not> blank_opt (pc_api_key_ref p))"

lemma validate_providers_ok:
  "validate_providers seen ps = Inr () \<longleftrightarrow>
     (\<forall>p\<in>set ps. provider_ok p) \<and> distinct (map pc_id ps) \<and> set (map pc_id ps) \<inter> seen = {}"
  by (induction ps arbitrary: seen) (auto simp: provider_ok_def provider_apis_def)

definition mapping_ok :: "webhook_mapping \<Rightarrow> bool" where
  "mapping_ok m \<longleftrightarrow>
     \<not> blank (wm_id m) \<and> \<not> blank (wm_text_field m) \<and> mapping_owner_ok m = Some True"

lemma cons_result:
  "(case X of Some (Inr ms) \<Rightarrow> Some (Inr (m # ms)) | other \<Rightarrow> other) = Some (Inr zs) \<longleftrightarrow>
     (\<exists>l. zs = m # l \<and> X = Some (Inr l))"
  by (auto split: option.split sum.split)

lemma parse_mappings_ok:
  "parse_mappings from_value seen raws = Some (Inr ms) \<longleftrightarrow>
     map from_value raws = map Inr ms \<and> (\<forall>m\<in>set ms. mapping_ok m) \<and>
     distinct (map wm_id ms) \<and> set (map wm_id ms) \<inter> seen = {}"
proof (induction raws arbitrary: seen ms)
  case (Cons raw raws)
  show ?case
  proof (cases "from_value raw")
    case (Inl err)
    then show ?thesis by (cases ms) auto
  next
    case (Inr m)
    have step: "parse_mappings from_value seen (raw # raws) = Some (Inr ms) \<longleftrightarrow>
        mapping_ok m \<and> wm_id m \<notin> seen \<and>
        (\<exists>l. ms = m # l \<and> parse_mappings from_value (insert (wm_id m) seen) raws = Some (Inr l))"
    proof (cases "mapping_owner_ok m")
      case (Some b)
      with Inr show ?thesis by (cases b) (simp_all add: cons_result mapping_ok_def)
    qed (simp add: Inr mapping_ok_def)
    show ?thesis
      unfolding step Cons.IH using Inr by (cases ms) auto
  qed
qed auto

definition auth_ok :: "auth_mode \<Rightarrow> bool" where
  "auth_ok m \<longleftrightarrow>
     (case m of
        AuthNone \<Rightarrow> True
      | AuthToken token \<Rightarrow> \<not> blank_opt token
      | AuthPassword hash \<Rightarrow> \<not> blank hash
      | AuthTrustedProxy header \<Rightarrow> \<not> blank header
      | AuthTailscale \<Rightarrow> True)"

lemma auth_validate_ok: "auth_validate m = Inr () \<longleftrightarrow> auth_ok m"
  by (cases m) (auto simp: auth_ok_def)

definition channel_ok :: "channel_id \<times> channel_config \<Rightarrow> bool" where
  "channel_ok c \<longleftrightarrow>
     (\<exists>p. security_policy (snd c) = Inr p) \<and>
     (cc_enabled (snd c) \<longrightarrow>
        (case map_of channel_needs (channel_str (fst c)) of
           None \<Rightarrow> False
         | Some needs \<Rightarrow>
             list_all (\<lambda>(inl, env, label).
               (case cc_accounts (snd c) of
                  [] \<Rightarrow> False
                | account # _ \<Rightarrow> has_value account inl \<or> has_value account env)) needs))"

lemma validate_channel_ok: "validate_channel c = Inr () \<longleftrightarrow> channel_ok c"
  by (cases c)
    (auto simp: validate_channel_def channel_ok_def validate_channel_config_def list_all_iff
      validate_channel_account_value_source_def split: sum.splits option.splits list.splits)

definition hooks_ok :: "(json \<Rightarrow> string + webhook_mapping) \<Rightarrow> hooks_config \<Rightarrow> bool" where
  "hooks_ok from_value h \<longleftrightarrow>
     (hk_enabled h \<longrightarrow> \<not> blank_opt (hk_token h) \<and> hk_mappings h \<noteq> [] \<and>
        (\<exists>ms. map from_value (hk_mappings h) = map Inr ms \<and> (\<forall>m\<in>set ms. mapping_ok m) \<and>
              distinct (map wm_id ms)))"

lemma parsed_mappings_ok:
  "(\<exists>ms. parsed_mappings from_value h = Some (Inr ms)) \<longleftrightarrow> hooks_ok from_value h"
  by (auto simp: parsed_mappings_def hooks_ok_def parse_mappings_ok)



end
