(* ===== verification/Auth.thy ===== *)
theory Auth
  imports Rate_Limit Net_Safety Config
begin

text \<open>
  The authentication of the gateway, \<open>frankclaw-gateway/src/auth.rs\<close>, with the constant-time
  comparison of \<open>frankclaw-crypto/src/token.rs\<close>. The limiter is any implementation of
  \<open>rate_limiter_contract\<close>: the lemmas about \<open>authenticate\<close> are proved inside it and used at
  the model of \<open>rate_limit.rs\<close>. The Argon2 verification of a password is the parameter \<open>pw\<close>
  (\<open>None\<close> is its error), the parser of IP addresses the parameter \<open>parse_ip\<close>.
\<close>

section \<open>Constant-time comparison (token.rs)\<close>

definition bytes :: "string \<Rightarrow> u8 list" where
  "bytes s = map (\<lambda>c. of_nat (of_char c)) s"

definition constant_time_eq :: "u8 list \<Rightarrow> u8 list \<Rightarrow> bool" where
  "constant_time_eq a b =
     (if length a \<noteq> length b then False
      else foldl (\<lambda>diff (x, y). diff OR (x XOR y)) 0 (zip a b) = 0)"

definition verify_token_eq :: "string \<Rightarrow> string \<Rightarrow> bool" where
  "verify_token_eq provided expected =
     (if length provided \<noteq> length expected then False
      else constant_time_eq (bytes provided) (bytes expected))"

lemma or_eq_0: "(a :: 'a::len word) OR b = 0 \<longleftrightarrow> a = 0 \<and> b = 0"
  by (auto simp: or_eq_0_iff)

lemma xor_eq_0: "(a :: 'a::len word) XOR b = 0 \<longleftrightarrow> a = b"
proof
  assume "a XOR b = 0"
  then have "(a XOR b) XOR b = 0 XOR b" by simp
  then show "a = b" by (simp add: xor.assoc)
qed simp

lemma diff_fold:
  "length a = length b \<Longrightarrow>
     foldl (\<lambda>diff (x, y). diff OR (x XOR y)) d (zip a b) = 0 \<longleftrightarrow> d = (0 :: 'a::len word) \<and> a = b"
  by (induction a b arbitrary: d rule: list_induct2) (auto simp: or_eq_0 xor_eq_0)

lemma constant_time_eq_iff: "constant_time_eq a b \<longleftrightarrow> a = b"
  by (auto simp: constant_time_eq_def diff_fold)

lemma byte_inj: "(of_nat (of_char c) :: u8) = of_nat (of_char d) \<longleftrightarrow> c = d"
proof -
  have "unat (of_nat (of_char c) :: u8) = of_char c" for c :: char
    by (rule unat_of_nat_small) simp
  then show ?thesis by (metis of_char_eq_iff)
qed

lemma bytes_inj: "bytes a = bytes b \<longleftrightarrow> a = b"
  unfolding bytes_def by (rule inj_map_eq_map) (simp add: inj_def byte_inj)

lemma verify_token_eq_iff [simp]: "verify_token_eq provided expected \<longleftrightarrow> provided = expected"
  by (auto simp: verify_token_eq_def constant_time_eq_iff bytes_inj)

section \<open>Authentication (auth.rs)\<close>

datatype auth_credential =
    BearerToken string
  | Password string
  | ProxyIdentity string
  | TailscaleIdentity string
  | NoCredential

text \<open>The match of \<open>authenticate\<close>, in the order of its arms.\<close>

definition auth_decision ::
  "(string \<Rightarrow> string \<Rightarrow> bool option) \<Rightarrow> auth_mode \<Rightarrow> auth_credential \<Rightarrow> frank_error + auth_role" where
  "auth_decision pw mode provided =
     (case (mode, provided) of
        (AuthNone, _) \<Rightarrow> Inr Admin
      | (AuthToken (Some expected), BearerToken token) \<Rightarrow>
          if verify_token_eq token expected then Inr Admin else Inl AuthFailed
      | (AuthPassword hash, Password password) \<Rightarrow>
          (case pw password hash of
             Some True \<Rightarrow> Inr Admin
           | Some False \<Rightarrow> Inl AuthFailed
           | None \<Rightarrow> Inl AuthFailed)
      | (AuthTrustedProxy _, ProxyIdentity identity) \<Rightarrow>
          if identity = [] then Inl AuthFailed else Inr Editor
      | (AuthTailscale, TailscaleIdentity identity) \<Rightarrow>
          if identity = [] then Inl AuthFailed else Inr Admin
      | (AuthToken None, _) \<Rightarrow> Inl (InternalError ''auth misconfigured'')
      | _ \<Rightarrow> Inl AuthRequired)"

text \<open>
  \<open>authenticate\<close> over a limiter given by its operations. \<open>t1\<close> and \<open>t2\<close> are the clock reads of
  \<open>is_locked\<close>, \<open>t3\<close> that of \<open>record_failure\<close>.
\<close>

definition authenticate ::
  "(instant \<Rightarrow> instant \<Rightarrow> 'ip \<Rightarrow> 's \<Rightarrow> duration option) \<Rightarrow> (instant \<Rightarrow> 'ip \<Rightarrow> 's \<Rightarrow> 's) \<Rightarrow>
   ('ip \<Rightarrow> 's \<Rightarrow> 's) \<Rightarrow> (string \<Rightarrow> string \<Rightarrow> bool option) \<Rightarrow> auth_mode \<Rightarrow> auth_credential \<Rightarrow>
   'ip option \<Rightarrow> instant \<times> instant \<times> instant \<Rightarrow> 's \<Rightarrow> (frank_error + auth_role) \<times> 's" where
  "authenticate locked failure success pw mode provided remote_addr clock limiter =
     (case clock of (t1, t2, t3) \<Rightarrow>
        (case (case remote_addr of Some ip \<Rightarrow> locked t1 t2 ip limiter | None \<Rightarrow> None) of
           Some remaining \<Rightarrow> (Inl (RateLimited (as_secs remaining)), limiter)
         | None \<Rightarrow>
             (let result = auth_decision pw mode provided
              in (result,
                  case remote_addr of
                    None \<Rightarrow> limiter
                  | Some ip \<Rightarrow>
                      (case result of
                         Inr _ \<Rightarrow> success ip limiter
                       | Inl AuthFailed \<Rightarrow> failure t3 ip limiter
                       | Inl _ \<Rightarrow> limiter)))))"

definition gateway_authenticate ::
  "rate_limit_config \<Rightarrow> (string \<Rightarrow> string \<Rightarrow> bool option) \<Rightarrow> auth_mode \<Rightarrow> auth_credential \<Rightarrow>
   'ip option \<Rightarrow> instant \<times> instant \<times> instant \<Rightarrow> 'ip limiter \<Rightarrow>
   (frank_error + auth_role) \<times> 'ip limiter" where
  "gateway_authenticate cfg = authenticate is_locked (limiter_failure cfg) limiter_success"

text \<open>Which credentials a mode accepts, and the role it gives.\<close>

definition accepts ::
  "(string \<Rightarrow> string \<Rightarrow> bool option) \<Rightarrow> auth_mode \<Rightarrow> auth_credential \<Rightarrow> auth_role \<Rightarrow> bool" where
  "accepts pw mode cred role \<longleftrightarrow>
     (mode = AuthNone \<and> role = Admin) \<or>
     (\<exists>token. mode = AuthToken (Some token) \<and> cred = BearerToken token \<and> role = Admin) \<or>
     (\<exists>hash p. mode = AuthPassword hash \<and> cred = Password p \<and> pw p hash = Some True \<and> role = Admin) \<or>
     (\<exists>header i. mode = AuthTrustedProxy header \<and> cred = ProxyIdentity i \<and> i \<noteq> [] \<and> role = Editor) \<or>
     (\<exists>i. mode = AuthTailscale \<and> cred = TailscaleIdentity i \<and> i \<noteq> [] \<and> role = Admin)"

lemma auth_decision_ok: "auth_decision pw mode cred = Inr role \<longleftrightarrow> accepts pw mode cred role"
  by (auto simp: auth_decision_def accepts_def
      split: auth_mode.splits auth_credential.splits option.splits bool.splits if_splits)

lemma auth_decision_wrong_token:
  "token \<noteq> expected \<Longrightarrow>
     auth_decision pw (AuthToken (Some expected)) (BearerToken token) = Inl AuthFailed"
  by (simp add: auth_decision_def)

context rate_limiter_contract
begin

lemma granted:
  "fst (authenticate locked failure success pw mode cred (Some ip) (t1, t2, t3) s) = Inr role \<longleftrightarrow>
     locked t1 t2 ip s = None \<and> accepts pw mode cred role"
  by (auto simp: authenticate_def Let_def auth_decision_ok split: option.splits)

lemma locked_unchanged:
  "locked t1 t2 ip s = Some d \<Longrightarrow>
     authenticate locked failure success pw mode cred (Some ip) (t1, t2, t3) s =
       (Inl (RateLimited (as_secs d)), s)"
  by (simp add: authenticate_def)

lemma success_unlocks:
  "fst (authenticate locked failure success pw mode cred (Some ip) (t1, t2, t3) s) = Inr role \<Longrightarrow>
     locked u1 u2 ip (snd (authenticate locked failure success pw mode cred (Some ip) (t1, t2, t3) s)) =
       None"
  by (auto simp: authenticate_def Let_def success_clears split: option.splits sum.splits)

lemma others_unaffected:
  "ip' \<noteq> ip \<Longrightarrow>
     locked u1 u2 ip' (snd (authenticate locked failure success pw mode cred (Some ip) (t1, t2, t3) s)) =
       locked u1 u2 ip' s"
  by (auto simp: authenticate_def Let_def success_other failure_other
      split: option.splits sum.splits frank_error.splits)

lemma local_unlimited:
  "authenticate locked failure success pw mode cred None clock s = (auth_decision pw mode cred, s)"
  by (cases clock) (simp add: authenticate_def Let_def)

end

lemma gateway_locked:
  "is_locked t1 t2 ip m = Some d \<Longrightarrow>
     gateway_authenticate cfg pw mode cred (Some ip) (t1, t2, t3) m =
       (Inl (RateLimited (as_secs d)), m)"
  unfolding gateway_authenticate_def by (rule limiter_ifc.locked_unchanged)

text \<open>
  C4. At the gateway's limiter: a role is granted exactly if the address is not locked and
  the credential is the one the configured mode accepts (for a token, the very same string);
  a granted request leaves its address unlocked, and no request changes whether another
  address is locked.
\<close>

theorem authenticate_grants:
  "(fst (gateway_authenticate cfg pw mode cred (Some ip) (t1, t2, t3) m) = Inr role \<longleftrightarrow>
      is_locked t1 t2 ip m = None \<and> accepts pw mode cred role) \<and>
   (fst (gateway_authenticate cfg pw mode cred (Some ip) (t1, t2, t3) m) = Inr role \<longrightarrow>
      is_locked u1 u2 ip (snd (gateway_authenticate cfg pw mode cred (Some ip) (t1, t2, t3) m)) = None) \<and>
   (ip' \<noteq> ip \<longrightarrow>
      is_locked u1 u2 ip' (snd (gateway_authenticate cfg pw mode cred (Some ip) (t1, t2, t3) m)) =
      is_locked u1 u2 ip' m)"
  unfolding gateway_authenticate_def
  by (intro conjI impI; (rule limiter_ifc.granted | erule limiter_ifc.success_unlocks |
        erule limiter_ifc.others_unaffected))

theorem authenticate_grants_witness:
  "fst (gateway_authenticate default_rate_limit_config (\<lambda>_ _. None) (AuthToken (Some ''s3cret''))
      (BearerToken ''s3cret'') (Some (1 :: nat)) (0, 0, 0) (\<lambda>_. None)) = Inr Admin \<and>
   is_locked 5 5 2 (snd (gateway_authenticate default_rate_limit_config (\<lambda>_ _. None)
      (AuthToken (Some ''s3cret'')) (BearerToken ''guess'') (Some (1 :: nat)) (0, 0, 0) (\<lambda>_. None))) =
   is_locked 5 5 2 (\<lambda>_. None)"
  using authenticate_grants [of default_rate_limit_config "\<lambda>_ _. None" "AuthToken (Some ''s3cret'')"
      "BearerToken ''s3cret''" "1 :: nat" 0 0 0 "\<lambda>_. None" Admin]
    authenticate_grants [of default_rate_limit_config "\<lambda>_ _. None" "AuthToken (Some ''s3cret'')"
      "BearerToken ''guess''" "1 :: nat" 0 0 0 "\<lambda>_. None" Admin 5 5 2]
  by (simp add: accepts_def is_locked_def)

section \<open>Guessing a token\<close>

text \<open>Requests with the given tokens from one address, each at its time.\<close>

definition guesses ::
  "rate_limit_config \<Rightarrow> (string \<Rightarrow> string \<Rightarrow> bool option) \<Rightarrow> string \<Rightarrow> 'ip \<Rightarrow>
     (string \<times> instant) list \<Rightarrow> 'ip limiter" where
  "guesses cfg pw expected ip attempts =
     foldl (\<lambda>m (token, t). snd (gateway_authenticate cfg pw (AuthToken (Some expected))
              (BearerToken token) (Some ip) (t, t, t) m)) (\<lambda>_. None) attempts"

lemma wrong_guess:
  "is_locked t t ip m = None \<Longrightarrow> token \<noteq> expected \<Longrightarrow>
     gateway_authenticate cfg pw (AuthToken (Some expected)) (BearerToken token) (Some ip) (t, t, t) m =
       (Inl AuthFailed, limiter_failure cfg t ip m)"
  by (simp add: gateway_authenticate_def authenticate_def auth_decision_wrong_token)

lemma guesses_failures:
  assumes "length attempts \<le> unat (max_attempts cfg)"
    and "\<forall>(token, t)\<in>set attempts. token \<noteq> expected \<and>
           t \<le> snd (hd attempts) + secs (unat (window_secs cfg))"
  shows "guesses cfg pw expected ip attempts =
           foldl (\<lambda>m t. limiter_failure cfg t ip m) (\<lambda>_. None) (map snd attempts)"
  using assms
proof (induction attempts rule: rev_induct)
  case (snoc a as)
  obtain token t where a: "a = (token, t)" by (cases a)
  have hd: "as \<noteq> [] \<Longrightarrow> hd (as @ [a]) = hd as" by simp
  have IH: "guesses cfg pw expected ip as =
      foldl (\<lambda>m t. limiter_failure cfg t ip m) (\<lambda>_. None) (map snd as)"
    using snoc.prems hd by (intro snoc.IH) (cases "as = []"; auto)+
  have "is_locked t t ip (guesses cfg pw expected ip as) = None"
    unfolding IH using snoc.prems hd
    by (intro failures_unlocked) (cases "as = []"; auto simp: hd_map)+
  with snoc.prems(2) a have "guesses cfg pw expected ip (as @ [a]) =
      limiter_failure cfg t ip (guesses cfg pw expected ip as)"
    by (simp add: guesses_def wrong_guess)
  with IH a show ?case by simp
qed (simp add: guesses_def)

text \<open>
  C3. Guessing a token is bounded: once \<open>max_attempts\<close> wrong tokens came from one address
  within one window, every request from that address is refused as rate limited, whatever it
  carries, the right token included, until the lockout period after the last guess is over.
\<close>

theorem guessing_is_locked_out:
  assumes "length (earlier @ [(token, t)]) = unat (max_attempts cfg)"
    and "\<forall>(w, u)\<in>set (earlier @ [(token, t)]). w \<noteq> expected \<and>
           u \<le> snd (hd (earlier @ [(token, t)])) + secs (unat (window_secs cfg))"
    and "t1 < t + secs (unat (lockout_secs cfg))"
  shows "fst (gateway_authenticate cfg pw (AuthToken (Some expected)) cred (Some ip) (t1, t2, t3)
           (guesses cfg pw expected ip (earlier @ [(token, t)]))) =
         Inl (RateLimited (as_secs (duration_since (t + secs (unat (lockout_secs cfg))) t2)))"
proof -
  let ?ts = "map snd earlier"
  have "guesses cfg pw expected ip (earlier @ [(token, t)]) =
      foldl (\<lambda>m t. limiter_failure cfg t ip m) (\<lambda>_. None) (?ts @ [t])"
    using assms(1,2) by (subst guesses_failures) auto
  moreover have "is_locked t1 t2 ip (foldl (\<lambda>m t. limiter_failure cfg t ip m) (\<lambda>_. None) (?ts @ [t])) =
      Some (duration_since (t + secs (unat (lockout_secs cfg))) t2)"
    using lockout_run [of ?ts cfg "snd (hd (earlier @ [(token, t)]))" "tl ?ts" t t1 t2 ip] assms
    by (cases earlier) (auto simp: split_beta)
  ultimately show ?thesis by (simp add: gateway_locked)
qed

theorem guessing_is_locked_out_witness:
  "fst (gateway_authenticate default_rate_limit_config (\<lambda>_ _. None) (AuthToken (Some ''k''))
     (BearerToken ''k'') (Some (9 :: nat)) (secs 10, secs 10, secs 10)
     (guesses default_rate_limit_config (\<lambda>_ _. None) ''k'' 9
       ([(''a'', 0), (''b'', secs 1), (''c'', secs 2), (''d'', secs 3)] @ [(''e'', secs 4)]))) =
   Inl (RateLimited 294)"
  using guessing_is_locked_out [of "[(''a'', 0), (''b'', secs 1), (''c'', secs 2), (''d'', secs 3)]"
      "''e''" "secs 4" default_rate_limit_config "''k''" "secs 10" "\<lambda>_ _. None" "BearerToken ''k''"
      "9 :: nat" "secs 10" "secs 10"]
  by (simp add: default_rate_limit_config_def secs_def duration_since_def as_secs_def)

section \<open>The exposure of the gateway (auth.rs)\<close>

datatype exposure_surface =
    SurfaceLoopback
  | SurfaceLan
  | PrivateAddress string
  | PublicAddress string

record exposure_report =
  er_surface :: exposure_surface
  er_auth_mode :: string
  er_remote_ready :: bool
  er_public_ready :: bool
  er_summary :: string
  er_warnings :: "string list"

fun validate_bind_auth :: "bind_mode \<Rightarrow> auth_mode \<Rightarrow> frank_error + unit" where
  "validate_bind_auth Loopback _ = Inr ()"
| "validate_bind_auth _ AuthNone =
     Inl (ConfigValidation
       (''gateway.auth must be configured when bind mode is '' @ [CHR 0x27] @ ''lan'' @ [CHR 0x27] @
        '' or a specific address. Set gateway.auth.mode to '' @ [CHR 0x27] @ ''token'' @ [CHR 0x27] @
        '' or '' @ [CHR 0x27] @ ''password'' @ [CHR 0x27] @ ''.''))"
| "validate_bind_auth _ _ = Inr ()"

primrec auth_mode_name :: "auth_mode \<Rightarrow> string" where
  "auth_mode_name AuthNone = ''none''"
| "auth_mode_name (AuthToken _) = ''token''"
| "auth_mode_name (AuthPassword _) = ''password''"
| "auth_mode_name (AuthTrustedProxy _) = ''trusted_proxy''"
| "auth_mode_name AuthTailscale = ''tailscale''"

fun private_ip :: "ip_addr \<Rightarrow> bool" where
  "private_ip (V4 a b c d) \<longleftrightarrow> v4_private a b \<or> v4_link_local a b"
| "private_ip (V6 s0 s1 s2 s3 s4 s5 s6 s7) \<longleftrightarrow> v6_unique_local s0 \<or> v6_link_local s0"

primrec classify_surface ::
  "(string \<Rightarrow> ip_addr option) \<Rightarrow> bind_mode \<Rightarrow> frank_error + exposure_surface" where
  "classify_surface parse_ip Loopback = Inr SurfaceLoopback"
| "classify_surface parse_ip Lan = Inr SurfaceLan"
| "classify_surface parse_ip (Address address) =
     (case parse_ip address of
        None \<Rightarrow> Inl (ConfigValidation
          (''gateway.bind address '' @ [CHR 0x27] @ address @ [CHR 0x27] @
           '' is not a valid IP address''))
      | Some ip \<Rightarrow> Inr (if private_ip ip then PrivateAddress address else PublicAddress address))"

definition assess_exposure ::
  "(string \<Rightarrow> ip_addr option) \<Rightarrow> frankclaw_config \<Rightarrow> frank_error + exposure_report" where
  "assess_exposure parse_ip cfg =
     (let mode = gw_auth (fc_gateway cfg); bind = gw_bind (fc_gateway cfg) in
      case validate_bind_auth bind mode of Inl e \<Rightarrow> Inl e | Inr _ \<Rightarrow>
      (case classify_surface parse_ip bind of Inl e \<Rightarrow> Inl e | Inr surface \<Rightarrow>
        (let remote0 = (surface \<noteq> SurfaceLoopback);
             public0 = (case surface of
                          SurfaceLoopback \<Rightarrow> False | SurfaceLan \<Rightarrow> False | PrivateAddress _ \<Rightarrow> False
                        | PublicAddress _ \<Rightarrow> True);
             direct = (if gw_tls (fc_gateway cfg) = None \<and> surface \<noteq> SurfaceLoopback
                       then ([''network-exposed direct auth is running without TLS; keep it tailnet-only or terminate TLS upstream''],
                             remote0, False)
                       else ([], remote0, public0));
             (warnings, remote, public) =
               (case mode of
                  AuthNone \<Rightarrow> ([], False, False)
                | AuthToken _ \<Rightarrow> direct
                | AuthPassword _ \<Rightarrow> direct
                | AuthTrustedProxy _ \<Rightarrow>
                    ([''trusted_proxy mode assumes a header-scrubbing reverse proxy; do not expose it directly''],
                     remote0, False)
                | AuthTailscale \<Rightarrow>
                    ([''tailscale auth expects identity headers from a trusted Tailscale-aware proxy path''],
                     remote0, False));
             summary =
               (if surface = SurfaceLoopback then ''local-only gateway''
                else (case mode of
                        AuthToken _ \<Rightarrow> ''network-exposed gateway with direct auth''
                      | AuthPassword _ \<Rightarrow> ''network-exposed gateway with direct auth''
                      | AuthTrustedProxy _ \<Rightarrow> ''reverse-proxy mediated gateway''
                      | AuthTailscale \<Rightarrow> ''tailnet-mediated gateway''
                      | AuthNone \<Rightarrow> ''misconfigured network exposure''))
         in Inr \<lparr>er_surface = surface, er_auth_mode = auth_mode_name mode,
                 er_remote_ready = remote, er_public_ready = public, er_summary = summary,
                 er_warnings = warnings @
                   (if surface = SurfaceLoopback
                    then [''gateway is loopback-only; remote access is disabled''] else [])\<rparr>)))"

lemma validate_bind_auth_ok:
  "validate_bind_auth bind mode = Inr () \<longleftrightarrow> bind = Loopback \<or> mode \<noteq> AuthNone"
  by (cases bind; cases mode) auto

text \<open>
  A report is produced only for a gateway that is bound to the loopback interface or
  has an authentication; it calls the gateway ready for remote access exactly if it is not
  bound to the loopback interface, and ready for public access exactly if it is bound to a
  public address, authenticates by token or password itself, and has TLS.
\<close>

lemma exposure_report_sound:
  assumes "assess_exposure parse_ip cfg = Inr report"
  shows "(gw_bind (fc_gateway cfg) = Loopback \<or> gw_auth (fc_gateway cfg) \<noteq> AuthNone) \<and>
         (er_remote_ready report \<longleftrightarrow> gw_bind (fc_gateway cfg) \<noteq> Loopback) \<and>
         (er_public_ready report \<longleftrightarrow>
            (\<exists>a ip. gw_bind (fc_gateway cfg) = Address a \<and> parse_ip a = Some ip \<and> \<not> private_ip ip) \<and>
            (\<exists>x. gw_auth (fc_gateway cfg) = AuthToken x \<or> (\<exists>h. gw_auth (fc_gateway cfg) = AuthPassword h)) \<and>
            gw_tls (fc_gateway cfg) \<noteq> None)"
  using assms validate_bind_auth_ok [of "gw_bind (fc_gateway cfg)" "gw_auth (fc_gateway cfg)"]
  by (cases "gw_bind (fc_gateway cfg)"; cases "gw_auth (fc_gateway cfg)")
    (auto simp: assess_exposure_def Let_def split: option.splits if_splits)

lemma exposure_report_sound_witness:
  "\<exists>report. assess_exposure (\<lambda>_. Some (V4 203 0 113 10))
       (default_config\<lparr>fc_gateway := default_gateway\<lparr>gw_bind := Address ''203.0.113.10'',
          gw_auth := AuthToken (Some ''secret'')\<rparr>\<rparr>) = Inr report \<and>
     er_remote_ready report \<and> \<not> er_public_ready report"
proof -
  let ?cfg = "default_config\<lparr>fc_gateway := default_gateway\<lparr>gw_bind := Address ''203.0.113.10'',
          gw_auth := AuthToken (Some ''secret'')\<rparr>\<rparr>"
  obtain report where r: "assess_exposure (\<lambda>_. Some (V4 203 0 113 10)) ?cfg = Inr report"
    by (simp add: assess_exposure_def Let_def default_gateway_def v4_link_local_def)
  with exposure_report_sound [OF r] show ?thesis
    by (auto simp: default_gateway_def)
qed

end
