(* ===== verification/Webhook_Limiter.thy ===== *)
theory Webhook_Limiter
  imports Prelude
begin

text \<open>
  The limiter of incoming webhooks, \<open>frankclaw-gateway/src/webhook_limiter.rs\<close>: a rate counter
  over fixed windows of one minute and a semaphore for each mapping. The semaphores of the
  asynchronous runtime are the parameters \<open>sem_new\<close> and \<open>sem_acquire\<close>. The theorem bounds how
  many requests pass within any minute, whatever ran before it.
\<close>

section \<open>The rate counters (webhook_limiter.rs)\<close>

record rate_counter =
  rc_count :: u32
  rc_limit :: u32
  rc_window_start :: instant

type_synonym rate_counters = "string \<rightharpoonup> rate_counter"

definition count_call :: "instant \<Rightarrow> rate_counter \<Rightarrow> bool \<times> rate_counter" where
  "count_call now counter =
     (let c = (if 60 \<le> as_secs (duration_since now (rc_window_start counter))
               then counter\<lparr>rc_count := 0, rc_window_start := now\<rparr> else counter)
      in if rc_limit c \<le> rc_count c then (False, c)
         else (True, c\<lparr>rc_count := rc_count c + 1\<rparr>))"

definition check_rate ::
  "instant \<Rightarrow> string \<Rightarrow> u32 \<Rightarrow> rate_counters \<Rightarrow> bool \<times> rate_counters" where
  "check_rate now mapping_id limit_per_minute counters =
     (if limit_per_minute = 0 then (True, counters)
      else (let entry = (case counters mapping_id of
                           Some c \<Rightarrow> c
                         | None \<Rightarrow> \<lparr>rc_count = 0, rc_limit = limit_per_minute,
                                    rc_window_start = now\<rparr>);
                (allowed, entry') = count_call now entry
            in (allowed, counters(mapping_id \<mapsto> entry'))))"

definition acquire_concurrency ::
  "(nat \<Rightarrow> 'sem) \<Rightarrow> ('sem \<Rightarrow> 'permit option \<times> 'sem) \<Rightarrow> string \<Rightarrow> nat \<Rightarrow> (string \<rightharpoonup> 'sem) \<Rightarrow>
     'permit option \<times> (string \<rightharpoonup> 'sem)" where
  "acquire_concurrency sem_new sem_acquire mapping_id max_concurrent semaphores =
     (if max_concurrent = 0 then (None, semaphores)
      else (let sem = (case semaphores mapping_id of Some s \<Rightarrow> s | None \<Rightarrow> sem_new max_concurrent);
                (permit, sem') = sem_acquire sem
            in (permit, semaphores(mapping_id \<mapsto> sem'))))"

section \<open>Calls in sequence\<close>

text \<open>The calls of other requests before the ones looked at: a mapping, a limit and a time.\<close>

definition rate_history :: "(string \<times> u32 \<times> instant) list \<Rightarrow> rate_counters" where
  "rate_history calls =
     foldl (\<lambda>m (i, l, t). snd (check_rate t i l m)) (\<lambda>_. None) calls"

fun allowed_calls :: "string \<Rightarrow> u32 \<Rightarrow> instant list \<Rightarrow> rate_counters \<Rightarrow> nat" where
  "allowed_calls i l [] m = 0"
| "allowed_calls i l (t # ts) m =
     (case check_rate t i l m of
        (ok, m') \<Rightarrow> (if ok then 1 else 0) + allowed_calls i l ts m')"

definition counter_le :: "u32 \<Rightarrow> rate_counter \<Rightarrow> bool" where
  "counter_le l c \<longleftrightarrow> rc_limit c = l \<and> rc_count c \<le> l"

text \<open>A stored counter has counted the call that opened its window.\<close>

definition counter_ok :: "u32 \<Rightarrow> rate_counter \<Rightarrow> bool" where
  "counter_ok l c \<longleftrightarrow> counter_le l c \<and> rc_count c \<noteq> 0"

definition counters_ok :: "(string \<Rightarrow> u32) \<Rightarrow> rate_counters \<Rightarrow> bool" where
  "counters_ok lim m \<longleftrightarrow> (\<forall>i c. m i = Some c \<longrightarrow> counter_ok (lim i) c)"

lemma word_pos_le: "0 < (a :: 'a::len word) \<Longrightarrow> 1 \<le> a"
  by (simp add: word_le_nat_alt word_less_nat_alt)

lemma count_call_ok:
  assumes "l \<noteq> 0" "counter_le l c"
  shows "counter_ok l (snd (count_call now c))"
proof -
  have "0 < l" using assms(1) word_gt_0 by blast
  moreover have "a < l \<Longrightarrow> a + 1 \<noteq> 0" for a
    using unat_inc [of a l] by (metis Zero_not_Suc unat_0)
  ultimately show ?thesis
    using assms by (auto simp: counter_ok_def counter_le_def count_call_def Let_def not_le word_pos_le
      intro: inc_le)
qed

lemma fresh_counter: "counter_le l \<lparr>rc_count = 0, rc_limit = l, rc_window_start = now\<rparr>"
  by (simp add: counter_le_def)

lemma check_rate_ok:
  assumes "counters_ok lim m"
  shows "counters_ok lim (snd (check_rate now i (lim i) m))"
proof (cases "lim i = 0")
  case False
  then have "counter_ok (lim i) (snd (count_call now
      (case m i of Some c \<Rightarrow> c | None \<Rightarrow> \<lparr>rc_count = 0, rc_limit = lim i, rc_window_start = now\<rparr>)))"
    using assms by (intro count_call_ok)
      (auto simp: counters_ok_def counter_ok_def fresh_counter split: option.split)
  with False assms show ?thesis
    by (auto simp: counters_ok_def check_rate_def Let_def split: prod.splits)
qed (simp add: check_rate_def assms)

text \<open>Without a change of window, the remaining count bounds what passes.\<close>

lemma allowed_same_window:
  assumes "l \<noteq> 0" "m i = Some c" "counter_le l c"
    and "\<forall>t\<in>set ts. as_secs (duration_since t (rc_window_start c)) < 60"
  shows "allowed_calls i l ts m \<le> unat l - unat (rc_count c)"
  using assms(2-4)
proof (induction ts arbitrary: m c)
  case (Cons t ts)
  have same: "\<not> 60 \<le> as_secs (duration_since t (rc_window_start c))"
    using Cons.prems(3) by auto
  show ?case
  proof (cases "l \<le> rc_count c")
    case True
    with same Cons.prems assms(1) have "check_rate t i l m = (False, m)"
      by (auto simp: check_rate_def count_call_def counter_le_def Let_def fun_upd_idem)
    with Cons show ?thesis by simp
  next
    case False
    let ?c = "c\<lparr>rc_count := rc_count c + 1\<rparr>"
    have step: "check_rate t i l m = (True, m(i \<mapsto> ?c))"
      using False same Cons.prems assms(1)
      by (auto simp: check_rate_def count_call_def counter_le_def Let_def)
    have inc: "unat (rc_count c + 1) = Suc (unat (rc_count c))" "unat (rc_count c) < unat l"
      using False by (simp_all add: not_le unat_inc word_less_nat_alt)
    have "counter_le l ?c"
      using False Cons.prems(2) by (simp add: counter_le_def not_le inc_le)
    then have "allowed_calls i l ts (m(i \<mapsto> ?c)) \<le> unat l - unat (rc_count ?c)"
      using Cons.prems(3) by (intro Cons.IH) auto
    with step inc show ?thesis by simp
  qed
qed simp

lemma same_minute:
  "T \<le> t \<Longrightarrow> t < T + secs 60 \<Longrightarrow> T \<le> t' \<Longrightarrow> t' < T + secs 60 \<Longrightarrow>
     as_secs (duration_since t' t) < 60"
  by (auto simp: duration_since_def as_secs_le_iff not_le [symmetric])

text \<open>A minute meets at most two windows.\<close>

lemma allowed_minute:
  assumes "l \<noteq> 0" "m i = Some c" "counter_le l c" "\<forall>t\<in>set ts. T \<le> t \<and> t < T + secs 60"
  shows "allowed_calls i l ts m \<le> 2 * unat l - unat (rc_count c)"
  using assms(2-4)
proof (induction ts arbitrary: m c)
  case (Cons t ts)
  obtain ok c' where step: "count_call t c = (ok, c')" by fastforce
  have ok': "counter_le l c'"
    using count_call_ok [OF assms(1) Cons.prems(2), of t] step by (simp add: counter_ok_def)
  have chk: "check_rate t i l m = (ok, m(i \<mapsto> c'))"
    using step assms(1) Cons.prems(1) by (simp add: check_rate_def)
  have pos: "0 < unat l" using assms(1) by (simp add: unat_gt_0)
  have le: "unat (rc_count c) \<le> unat l"
    using Cons.prems(2) by (simp add: counter_le_def word_le_nat_alt)
  show ?case
  proof (cases "60 \<le> as_secs (duration_since t (rc_window_start c))")
    case True
    then have c': "ok" "rc_window_start c' = t" "rc_count c' = 1"
      using step Cons.prems(2) assms(1)
      by (auto simp: count_call_def counter_le_def Let_def split: if_splits)
    have "allowed_calls i l ts (m(i \<mapsto> c')) \<le> unat l - unat (rc_count c')"
      using ok' c' Cons.prems(3) same_minute
      by (intro allowed_same_window [OF assms(1)]) auto
    with chk c' le pos show ?thesis by simp
  next
    case False
    have IH: "allowed_calls i l ts (m(i \<mapsto> c')) \<le> 2 * unat l - unat (rc_count c')"
      using ok' Cons.prems(3) by (intro Cons.IH) auto
    show ?thesis
    proof (cases "l \<le> rc_count c")
      case True
      with False step Cons.prems(2) have "\<not> ok" "c' = c"
        by (auto simp: count_call_def counter_le_def Let_def split: if_splits)
      with IH chk show ?thesis by simp
    next
      case less: False
      with False step Cons.prems(2) have "ok" "c' = c\<lparr>rc_count := rc_count c + 1\<rparr>"
        by (auto simp: count_call_def counter_le_def Let_def split: if_splits)
      moreover have "unat (rc_count c + 1) = Suc (unat (rc_count c))" "unat (rc_count c) < unat l"
        using less by (simp_all add: not_le unat_inc word_less_nat_alt)
      ultimately show ?thesis using IH chk by simp
    qed
  qed
qed simp

lemma rate_history_ok:
  "\<forall>(i, l, t)\<in>set calls. l = lim i \<Longrightarrow> counters_ok lim (rate_history calls)"
proof (induction calls rule: rev_induct)
  case (snoc call calls)
  then show ?case
    using check_rate_ok [of lim "rate_history calls"]
    by (cases call) (auto simp: rate_history_def)
qed (simp add: rate_history_def counters_ok_def)

lemma allowed_minute_any:
  assumes "lim i \<noteq> 0" "counters_ok lim m" "\<forall>t\<in>set ts. T \<le> t \<and> t < T + secs 60"
  shows "allowed_calls i (lim i) ts m \<le> 2 * unat (lim i) - 1"
proof (cases "m i")
  case (Some c)
  with assms(2) have c: "counter_le (lim i) c" "0 < unat (rc_count c)"
    by (auto simp: counters_ok_def counter_ok_def unat_gt_0)
  have "allowed_calls i (lim i) ts m \<le> 2 * unat (lim i) - unat (rc_count c)"
    using assms c Some by (intro allowed_minute)
  with c show ?thesis by simp
next
  case None
  show ?thesis
  proof (cases ts)
    case (Cons t rest)
    let ?c = "\<lparr>rc_count = 0, rc_limit = lim i, rc_window_start = t\<rparr>"
    have "check_rate t i (lim i) m = check_rate t i (lim i) (m(i \<mapsto> ?c))"
      using None assms(1) by (auto simp: check_rate_def)
    then have "allowed_calls i (lim i) ts m = allowed_calls i (lim i) ts (m(i \<mapsto> ?c))"
      using Cons by simp
    also have "\<dots> \<le> unat (lim i) - unat (rc_count ?c)"
      using assms Cons same_minute
      by (intro allowed_same_window) (auto simp: counter_le_def)
    finally show ?thesis using assms(1) by simp
  qed simp
qed

text \<open>
  However requests to any mappings came in before, within any span of one minute fewer
  than twice a mapping's limit of its requests pass, provided each mapping is always asked for
  with the same, non-zero, limit: the fixed windows double the rate at most.
\<close>

lemma webhook_rate_bound:
  assumes "\<forall>(i, l, t)\<in>set calls. l = lim i" "lim mapping \<noteq> 0"
    and "\<forall>t\<in>set ts. T \<le> t \<and> t < T + secs 60"
  shows "allowed_calls mapping (lim mapping) ts (rate_history calls) \<le> 2 * unat (lim mapping) - 1"
  using assms by (intro allowed_minute_any rate_history_ok)

lemma webhook_rate_bound_witness:
  "allowed_calls ''m'' 2 [secs 59, secs 60, secs 61, secs 62] (rate_history [(''m'', 2, secs 0)]) \<le> 3"
  using webhook_rate_bound [of "[(''m'', 2, secs 0)]" "\<lambda>_. 2" "''m''"
      "[secs 59, secs 60, secs 61, secs 62]" "secs 59"]
  by (simp add: secs_def)

text \<open>The bound is attained: one request at the end of a window, two in the next.\<close>

lemma webhook_burst:
  "allowed_calls ''m'' 2 [secs 59, secs 60, secs 61, secs 62] (rate_history [(''m'', 2, secs 0)]) = 3"
  by (simp add: rate_history_def check_rate_def count_call_def duration_since_def secs_def as_secs_def
      Let_def word_le_nat_alt)

text \<open>The limit is the one of the first call: a later, lower one is ignored.\<close>

lemma webhook_limit_sticks: "fst (check_rate 1 ''m'' 1 (rate_history [(''m'', 2, 0)]))"
  by (simp add: rate_history_def check_rate_def count_call_def duration_since_def secs_def as_secs_def
      Let_def word_le_nat_alt)

end
