(* ===== verification/Pairing.thy ===== *)
theory Pairing
  imports Core_Types
begin

text \<open>
  The pairing of unknown senders, \<open>frankclaw-gateway/src/pairing.rs\<close>: a sender without access
  gets a code, and the operator approves the code. The random bytes, the clock and the outcome
  of writing the file are arguments of the operations; as in the code, the state in memory is
  changed before it is written. The theorem shows that a sender is approved only by the
  approval of a code issued to that sender.
\<close>

section \<open>The store (pairing.rs)\<close>

record pending_pairing =
  pp_channel :: string
  pp_account_id :: string
  pp_sender_id :: string
  pp_code :: string
  pp_created_at :: datetime

record pairing_state =
  pr_approved :: "string \<rightharpoonup> string set"
  pr_pending :: "pending_pairing list"

definition empty_pairing :: pairing_state where
  "empty_pairing = \<lparr>pr_approved = (\<lambda>_. None), pr_pending = []\<rparr>"

definition approval_key :: "string \<Rightarrow> string \<Rightarrow> string" where
  "approval_key channel account_id = channel @ [colon] @ account_id"

definition code_alphabet :: string where
  "code_alphabet = ''23456789ABCDEFGHJKLMNPQRSTUVWXYZ''"

definition generate_code :: "u8 list \<Rightarrow> string" where
  "generate_code random =
     map (\<lambda>byte. code_alphabet ! (unat byte mod length code_alphabet)) random"

definition is_approved :: "string \<Rightarrow> string \<Rightarrow> string \<Rightarrow> pairing_state \<Rightarrow> bool" where
  "is_approved channel account_id sender_id state =
     (case pr_approved state (approval_key channel account_id) of
        Some approved \<Rightarrow> sender_id \<in> approved
      | None \<Rightarrow> False)"

definition ensure_pending ::
  "u8 list \<Rightarrow> datetime \<Rightarrow> (pairing_state \<Rightarrow> frank_error + unit) \<Rightarrow> string \<Rightarrow> string \<Rightarrow> string \<Rightarrow>
     pairing_state \<Rightarrow> (frank_error + pending_pairing) \<times> pairing_state" where
  "ensure_pending random now save channel account_id sender_id state =
     (case find (\<lambda>p. pp_channel p = channel \<and> pp_account_id p = account_id \<and>
                     pp_sender_id p = sender_id) (pr_pending state) of
        Some existing \<Rightarrow> (Inr existing, state)
      | None \<Rightarrow>
          (let pending = \<lparr>pp_channel = channel, pp_account_id = account_id,
                          pp_sender_id = sender_id, pp_code = generate_code random,
                          pp_created_at = now\<rparr>;
               state' = state\<lparr>pr_pending := pr_pending state @ [pending]\<rparr>
           in case save state' of
                Inl e \<Rightarrow> (Inl e, state')
              | Inr _ \<Rightarrow> (Inr pending, state')))"

definition list_pending :: "string option \<Rightarrow> pairing_state \<Rightarrow> pending_pairing list" where
  "list_pending channel state =
     filter (\<lambda>p. case channel of Some c \<Rightarrow> c = pp_channel p | None \<Rightarrow> True) (pr_pending state)"

definition approve ::
  "(pairing_state \<Rightarrow> frank_error + unit) \<Rightarrow> string option \<Rightarrow> string option \<Rightarrow> string \<Rightarrow>
     pairing_state \<Rightarrow> (frank_error + pending_pairing) \<times> pairing_state" where
  "approve save channel account_id code state =
     (case position (\<lambda>p. pp_code p = code \<and>
               (case channel of Some c \<Rightarrow> c = pp_channel p | None \<Rightarrow> True) \<and>
               (case account_id of Some a \<Rightarrow> a = pp_account_id p | None \<Rightarrow> True)) (pr_pending state) of
        None \<Rightarrow>
          (Inl (ConfigValidation
             (''no pending pairing found for code '' @ [CHR 0x27] @ code @ [CHR 0x27])), state)
      | Some index \<Rightarrow>
          (let pending = pr_pending state ! index;
               key = approval_key (pp_channel pending) (pp_account_id pending);
               approved = (case pr_approved state key of Some s \<Rightarrow> s | None \<Rightarrow> {});
               state' = state\<lparr>pr_pending := remove_at index (pr_pending state),
                              pr_approved := (pr_approved state)(key \<mapsto> insert (pp_sender_id pending) approved)\<rparr>
           in case save state' of
                Inl e \<Rightarrow> (Inl e, state')
              | Inr _ \<Rightarrow> (Inr pending, state')))"

lemma approval_key_inj:
  "colon \<notin> set c \<Longrightarrow> colon \<notin> set c' \<Longrightarrow>
     approval_key c a = approval_key c' a' \<longleftrightarrow> c = c' \<and> a = a'"
  unfolding approval_key_def by (metis append_Cons append_Nil option.inject prod.inject split_once_append)

section \<open>The codes\<close>

lemma code_alphabet_length [simp]: "length code_alphabet = 32"
  by (simp add: code_alphabet_def)

lemma residue_count:
  "i < 32 \<Longrightarrow> length (filter (\<lambda>n. n mod 32 = i) [0..<256]) = (8 :: nat)"
proof -
  assume i: "i < 32"
  have "{n. n < 256 \<and> n mod 32 = i} = (\<lambda>k. 32 * k + i) ` {..<8}"
  proof (intro set_eqI iffI)
    fix n :: nat assume "n \<in> {n. n < 256 \<and> n mod 32 = i}"
    then have "n = 32 * (n div 32) + i" "n div 32 \<in> {..<8}"
      by (auto simp: less_mult_imp_div_less)
    then show "n \<in> (\<lambda>k. 32 * k + i) ` {..<8}" by blast
  qed (use i in auto)
  moreover have "card ((\<lambda>k. 32 * k + i) ` {..<8}) = (8 :: nat)"
    by (subst card_image) (auto simp: inj_on_def)
  moreover have "length (filter (\<lambda>n. n mod 32 = i) [0..<256]) = card {n. n < 256 \<and> n mod 32 = i}"
    by (subst distinct_card [symmetric]) (auto intro: arg_cong [where f = card])
  ultimately show ?thesis by simp
qed

lemma code_symbol:
  assumes "i < 32" "n < 256"
  shows "generate_code [of_nat n] = [code_alphabet ! i] \<longleftrightarrow> n mod 32 = i"
proof -
  have d: "distinct code_alphabet" by (simp add: code_alphabet_def)
  have "unat (of_nat n :: u8) = n" using assms(2) by (intro unat_of_nat_small) simp
  with nth_eq_iff_index_eq [OF d, of "n mod 32" i] assms(1) show ?thesis
    by (simp add: generate_code_def)
qed

text \<open>
  A code has one symbol of the alphabet for each random byte, and no symbol is more
  likely than another: each is the image of exactly 8 of the 256 bytes. The alphabet has no
  symbol that is easily confused with another (no 0, 1, I or O).
\<close>

lemma code_uniform:
  "length (generate_code random) = length random \<and>
   set (generate_code random) \<subseteq> set code_alphabet \<and>
   distinct code_alphabet \<and> set ''01IO'' \<inter> set code_alphabet = {} \<and>
   list_all (\<lambda>c. length (filter (\<lambda>n. generate_code [of_nat n] = [c]) [0..<256]) = 8) code_alphabet"
proof (intro conjI)
  show "set (generate_code random) \<subseteq> set code_alphabet"
    by (auto simp: generate_code_def)
  have "filter (\<lambda>n. generate_code [of_nat n] = [code_alphabet ! i]) [0..<256] =
      filter (\<lambda>n. n mod 32 = i) [0..<256]" if "i < 32" for i
    by (rule filter_cong) (auto simp: code_symbol that)
  then show "list_all (\<lambda>c. length (filter (\<lambda>n. generate_code [of_nat n] = [c]) [0..<256]) = 8) code_alphabet"
    by (simp add: list_all_length residue_count)
qed (simp_all add: generate_code_def code_alphabet_def)

section \<open>Only an approved code gives access\<close>

datatype pairing_event =
    Ensure "u8 list" datetime "pairing_state \<Rightarrow> frank_error + unit" string string string
  | Approve "pairing_state \<Rightarrow> frank_error + unit" "string option" "string option" string

primrec pairing_step :: "pairing_state \<Rightarrow> pairing_event \<Rightarrow> pairing_state" where
  "pairing_step st (Ensure random now save c a s) = snd (ensure_pending random now save c a s st)"
| "pairing_step st (Approve save c a code) = snd (approve save c a code st)"

abbreviation pairing_run :: "pairing_event list \<Rightarrow> pairing_state" where
  "pairing_run es \<equiv> foldl pairing_step empty_pairing es"

primrec plain_event :: "pairing_event \<Rightarrow> bool" where
  "plain_event (Ensure _ _ _ c _ _) \<longleftrightarrow> colon \<notin> set c"
| "plain_event (Approve _ _ _ _) \<longleftrightarrow> True"

definition plain_pending :: "pairing_state \<Rightarrow> bool" where
  "plain_pending st \<longleftrightarrow> (\<forall>p\<in>set (pr_pending st). colon \<notin> set (pp_channel p))"

lemma ensure_pending_state:
  "snd (ensure_pending random now save c a s st) =
     (if \<exists>p\<in>set (pr_pending st). pp_channel p = c \<and> pp_account_id p = a \<and> pp_sender_id p = s
      then st
      else st\<lparr>pr_pending := pr_pending st @
             [\<lparr>pp_channel = c, pp_account_id = a, pp_sender_id = s,
               pp_code = generate_code random, pp_created_at = now\<rparr>]\<rparr>)"
  by (auto simp: ensure_pending_def Let_def find_None_iff find_Some_iff
      split: option.split sum.split)

lemma ensure_pending_approved [simp]:
  "is_approved c' a' s' (snd (ensure_pending random now save c a s st)) = is_approved c' a' s' st"
  by (simp add: ensure_pending_state is_approved_def)

text \<open>What an approval does: nothing, or exactly one more sender is approved.\<close>

lemma approve_state:
  "snd (approve save c a code st) = st \<or>
   (\<exists>p\<in>set (pr_pending st). pp_code p = code \<and>
      set (pr_pending (snd (approve save c a code st))) \<subseteq> set (pr_pending st) \<and>
      (\<forall>c' a' s'. is_approved c' a' s' (snd (approve save c a code st)) \<longleftrightarrow>
         is_approved c' a' s' st \<or>
         (approval_key c' a' = approval_key (pp_channel p) (pp_account_id p) \<and> s' = pp_sender_id p)))"
proof (cases "position (\<lambda>p. pp_code p = code \<and>
          (case c of Some c \<Rightarrow> c = pp_channel p | None \<Rightarrow> True) \<and>
          (case a of Some a \<Rightarrow> a = pp_account_id p | None \<Rightarrow> True)) (pr_pending st)")
  case None
  then show ?thesis by (auto simp only: approve_def option.case snd_conv)
next
  case (Some i)
  let ?p = "pr_pending st ! i"
  have "?p \<in> set (pr_pending st)" "pp_code ?p = code"
    using position_Some [OF Some] by auto
  moreover have "set (pr_pending (snd (approve save c a code st))) \<subseteq> set (pr_pending st)"
    using Some set_remove_at [of i "pr_pending st"] by (simp add: approve_def Let_def split: sum.split)
  moreover have "is_approved c' a' s' (snd (approve save c a code st)) \<longleftrightarrow>
      is_approved c' a' s' st \<or>
      (approval_key c' a' = approval_key (pp_channel ?p) (pp_account_id ?p) \<and> s' = pp_sender_id ?p)"
    for c' a' s'
    using Some by (auto simp: approve_def Let_def is_approved_def split: sum.splits option.splits)
  ultimately show ?thesis by blast
qed

lemma plain_pending_step:
  "plain_pending st \<Longrightarrow> plain_event e \<Longrightarrow> plain_pending (pairing_step st e)"
proof (cases e)
  case (Approve save c a code)
  assume "plain_pending st"
  with Approve approve_state [of save c a code st] show ?thesis
    by (auto simp: plain_pending_def)
qed (auto simp: plain_pending_def ensure_pending_state)

lemma plain_pending_run: "\<forall>e\<in>set es. plain_event e \<Longrightarrow> plain_pending (pairing_run es)"
  by (induction es rule: rev_induct)
    (auto simp: plain_pending_step, simp add: plain_pending_def empty_pairing_def)

lemma pairing_step_approves:
  assumes "is_approved c a s (pairing_step st e)" "\<not> is_approved c a s st"
    and "plain_pending st" "colon \<notin> set c"
  shows "\<exists>save ch ac p. e = Approve save ch ac (pp_code p) \<and> p \<in> set (pr_pending st) \<and>
           pp_channel p = c \<and> pp_account_id p = a \<and> pp_sender_id p = s"
proof (cases e)
  case (Approve save ch ac code)
  with assms approve_state [of save ch ac code st] obtain p
    where p: "p \<in> set (pr_pending st)" "pp_code p = code" "s = pp_sender_id p"
      "approval_key c a = approval_key (pp_channel p) (pp_account_id p)"
    by auto
  with assms(3,4) have "pp_channel p = c" "pp_account_id p = a"
    by (auto simp: plain_pending_def approval_key_inj)
  with p Approve show ?thesis by blast
next
  case Ensure
  with assms show ?thesis by simp
qed

lemma approved_by_code:
  assumes "\<forall>e\<in>set es. plain_event e" "colon \<notin> set c" "is_approved c a s (pairing_run es)"
  shows "\<exists>before save ch ac p after. es = before @ Approve save ch ac (pp_code p) # after \<and>
           p \<in> set (pr_pending (pairing_run before)) \<and>
           pp_channel p = c \<and> pp_account_id p = a \<and> pp_sender_id p = s"
  using assms(1,3)
proof (induction es rule: rev_induct)
  case (snoc e es)
  show ?case
  proof (cases "is_approved c a s (pairing_run es)")
    case True
    with snoc obtain before save ch ac p after where
      "es = before @ Approve save ch ac (pp_code p) # after"
      and p: "p \<in> set (pr_pending (pairing_run before))" "pp_channel p = c" "pp_account_id p = a"
        "pp_sender_id p = s"
      by auto
    then have "es @ [e] = before @ Approve save ch ac (pp_code p) # (after @ [e])" by simp
    with p show ?thesis by blast
  next
    case False
    with snoc.prems plain_pending_run [of es] assms(2) obtain save ch ac p where
      "e = Approve save ch ac (pp_code p)" "p \<in> set (pr_pending (pairing_run es))"
      "pp_channel p = c" "pp_account_id p = a" "pp_sender_id p = s"
      using pairing_step_approves [of c a s "pairing_run es" e] by auto
    then show ?thesis by blast
  qed
qed (simp add: is_approved_def empty_pairing_def)

text \<open>
  C31. However codes are issued and approved, whether or not the file could be written, a
  sender is approved for a channel and an account only if the operator approved a code that
  was, at that moment, pending for exactly this channel, account and sender (channel names
  being free of colons).
\<close>

theorem pairing_needs_approval:
  assumes "\<forall>e\<in>set es. plain_event e" "colon \<notin> set c" "is_approved c a s (pairing_run es)"
  shows "\<exists>before save ch ac p after. es = before @ Approve save ch ac (pp_code p) # after \<and>
           p \<in> set (pr_pending (pairing_run before)) \<and>
           pp_channel p = c \<and> pp_account_id p = a \<and> pp_sender_id p = s"
  using assms by (rule approved_by_code)

definition sample_pairing :: "pairing_event list" where
  "sample_pairing =
     [Ensure [0, 1, 2, 3, 4, 5] 0 (\<lambda>_. Inr ()) ''telegram'' ''default'' ''user-1'',
      Approve (\<lambda>_. Inr ()) (Some ''telegram'') None ''234567'']"

theorem pairing_needs_approval_witness:
  "\<exists>before save ch ac p after.
     sample_pairing = before @ Approve save ch ac (pp_code p) # after \<and>
     p \<in> set (pr_pending (pairing_run before)) \<and>
     pp_channel p = ''telegram'' \<and> pp_account_id p = ''default'' \<and> pp_sender_id p = ''user-1''"
  by (rule pairing_needs_approval)
    (simp_all add: sample_pairing_def empty_pairing_def ensure_pending_def approve_def is_approved_def
      generate_code_def code_alphabet_def approval_key_def Let_def)

text \<open>With a colon in a channel name, two accounts share their approvals.\<close>

lemma approval_key_collision: "approval_key ''a:b'' ''c'' = approval_key ''a'' ''b:c''"
  by (simp add: approval_key_def)

end
