(* ===== verification/Job.thy ===== *)
theory Job
  imports Rust_Text
begin

text \<open>
  The state machine of background jobs, \<open>frankclaw-cron/src/job.rs\<close>. The clock is read where
  the code reads it: \<open>t1\<close> for the recorded transition, \<open>t2\<close> for the timestamps of the job.
  The lemmas show that the history of a job is a path of the state machine that ends in its
  state, that recoveries are bounded, and that a finished job never changes again.
\<close>

section \<open>States and jobs (job.rs)\<close>

datatype job_state =
  Pending | InProgress | Completed | Submitted | Accepted | Failed | Stuck | Cancelled

fun can_transition_to :: "job_state \<Rightarrow> job_state \<Rightarrow> bool" where
  "can_transition_to Pending InProgress = True"
| "can_transition_to Pending Cancelled = True"
| "can_transition_to InProgress Completed = True"
| "can_transition_to InProgress Failed = True"
| "can_transition_to InProgress Stuck = True"
| "can_transition_to InProgress Cancelled = True"
| "can_transition_to Completed Submitted = True"
| "can_transition_to Completed Failed = True"
| "can_transition_to Submitted Accepted = True"
| "can_transition_to Submitted Failed = True"
| "can_transition_to Stuck InProgress = True"
| "can_transition_to Stuck Failed = True"
| "can_transition_to Stuck Cancelled = True"
| "can_transition_to _ _ = False"

definition is_terminal :: "job_state \<Rightarrow> bool" where
  "is_terminal s \<longleftrightarrow> s = Accepted \<or> s = Failed \<or> s = Cancelled"

primrec state_name :: "job_state \<Rightarrow> string" where
  "state_name Pending = ''pending''"
| "state_name InProgress = ''in_progress''"
| "state_name Completed = ''completed''"
| "state_name Submitted = ''submitted''"
| "state_name Accepted = ''accepted''"
| "state_name Failed = ''failed''"
| "state_name Stuck = ''stuck''"
| "state_name Cancelled = ''cancelled''"

record state_transition =
  tr_from :: job_state
  tr_to :: job_state
  tr_timestamp :: datetime
  tr_reason :: "string option"

record job_context =
  job_id :: string
  job_state :: job_state
  job_title :: string
  job_description :: string
  total_tokens_used :: u64
  max_tokens :: u64
  repair_attempts :: u32
  max_repair_attempts :: u32
  created_at :: datetime
  started_at :: "datetime option"
  completed_at :: "datetime option"
  transitions :: "state_transition list"

definition max_transitions :: nat where
  "max_transitions = 200"

definition default_max_repair_attempts :: u32 where
  "default_max_repair_attempts = 3"

definition job_new :: "datetime \<Rightarrow> string \<Rightarrow> string \<Rightarrow> string \<Rightarrow> job_context" where
  "job_new now i title description =
     \<lparr>job_id = i, job_state = Pending, job_title = title, job_description = description,
      total_tokens_used = 0, max_tokens = 0, repair_attempts = 0,
      max_repair_attempts = default_max_repair_attempts, created_at = now,
      started_at = None, completed_at = None, transitions = []\<rparr>"

text \<open>The timestamps that entering a state sets.\<close>

definition stamp :: "datetime \<Rightarrow> job_state \<Rightarrow> job_context \<Rightarrow> job_context" where
  "stamp now s j =
     (case s of
        InProgress \<Rightarrow> if started_at j = None then j\<lparr>started_at := Some now\<rparr> else j
      | Completed \<Rightarrow> j\<lparr>completed_at := Some now\<rparr>
      | Accepted \<Rightarrow> j\<lparr>completed_at := Some now\<rparr>
      | Failed \<Rightarrow> j\<lparr>completed_at := Some now\<rparr>
      | Cancelled \<Rightarrow> j\<lparr>completed_at := Some now\<rparr>
      | _ \<Rightarrow> j)"

definition transition_to ::
  "datetime \<Rightarrow> datetime \<Rightarrow> job_state \<Rightarrow> string option \<Rightarrow> job_context \<Rightarrow> (string + unit) \<times> job_context"
where
  "transition_to t1 t2 new_state reason j =
     (if \<not> can_transition_to (job_state j) new_state
      then (Inl (''cannot transition from '' @ state_name (job_state j) @ '' to '' @
                 state_name new_state), j)
      else (let ts = transitions j @ [\<lparr>tr_from = job_state j, tr_to = new_state,
                                       tr_timestamp = t1, tr_reason = reason\<rparr>];
                ts' = (if max_transitions < length ts then drop (length ts - max_transitions) ts
                       else ts)
            in (Inr (), stamp t2 new_state (j\<lparr>transitions := ts', job_state := new_state\<rparr>))))"

definition mark_stuck ::
  "datetime \<Rightarrow> datetime \<Rightarrow> string \<Rightarrow> job_context \<Rightarrow> (string + unit) \<times> job_context" where
  "mark_stuck t1 t2 reason j = transition_to t1 t2 Stuck (Some reason) j"

definition attempt_recovery ::
  "datetime \<Rightarrow> datetime \<Rightarrow> job_context \<Rightarrow> (string + unit) \<times> job_context" where
  "attempt_recovery t1 t2 j =
     (if job_state j \<noteq> Stuck
      then (Inl (''job is not stuck (state: '' @ state_name (job_state j) @ '')''), j)
      else if max_repair_attempts j \<le> repair_attempts j
      then (Inl (''exceeded max repair attempts ('' @ show_word (repair_attempts j) @ ''/'' @
                 show_word (max_repair_attempts j) @ '')''), j)
      else (let j' = j\<lparr>repair_attempts := repair_attempts j + 1\<rparr>
            in transition_to t1 t2 InProgress
                 (Some (''recovery attempt '' @ show_word (repair_attempts j'))) j'))"

definition transition_count :: "job_context \<Rightarrow> nat" where
  "transition_count j = length (transitions j)"

definition add_tokens :: "u64 \<Rightarrow> job_context \<Rightarrow> job_context" where
  "add_tokens tokens j = j\<lparr>total_tokens_used := sat_add (total_tokens_used j) tokens\<rparr>"

definition is_over_budget :: "job_context \<Rightarrow> bool" where
  "is_over_budget j \<longleftrightarrow> 0 < max_tokens j \<and> max_tokens j < total_tokens_used j"

datatype repair_result =
    RepairSuccess string
  | RepairRetry string
  | RepairFailed string
  | ManualRequired string

definition repair_stuck_job ::
  "datetime \<Rightarrow> datetime \<Rightarrow> job_context \<Rightarrow> repair_result \<times> job_context" where
  "repair_stuck_job t1 t2 j =
     (if job_state j \<noteq> Stuck
      then (RepairFailed (''job '' @ job_id j @ '' is not stuck (state: '' @
              state_name (job_state j) @ '')''), j)
      else if max_repair_attempts j \<le> repair_attempts j
      then (ManualRequired (''job '' @ job_id j @ '' exceeded '' @
              show_word (max_repair_attempts j) @ '' repair attempts''), j)
      else (case attempt_recovery t1 t2 j of
              (Inr _, j') \<Rightarrow>
                (RepairSuccess (''job '' @ job_id j' @ '' recovered to in_progress (attempt '' @
                   show_word (repair_attempts j') @ '')''), j')
            | (Inl e, j') \<Rightarrow>
                (RepairFailed (''failed to recover job '' @ job_id j' @ '': '' @ e), j')))"

section \<open>Jobs as a machine\<close>

datatype job_event =
    TransitionTo datetime datetime job_state "string option"
  | MarkStuck datetime datetime string
  | AttemptRecovery datetime datetime
  | RepairStuck datetime datetime
  | AddTokens u64

primrec job_step :: "job_context \<Rightarrow> job_event \<Rightarrow> job_context" where
  "job_step j (TransitionTo t1 t2 s r) = snd (transition_to t1 t2 s r j)"
| "job_step j (MarkStuck t1 t2 r) = snd (mark_stuck t1 t2 r j)"
| "job_step j (AttemptRecovery t1 t2) = snd (attempt_recovery t1 t2 j)"
| "job_step j (RepairStuck t1 t2) = snd (repair_stuck_job t1 t2 j)"
| "job_step j (AddTokens n) = add_tokens n j"

text \<open>A list of transitions that are legal and follow one another, up to the state \<open>s\<close>.\<close>

fun legal_path :: "state_transition list \<Rightarrow> job_state \<Rightarrow> bool" where
  "legal_path [] s \<longleftrightarrow> True"
| "legal_path [t] s \<longleftrightarrow> can_transition_to (tr_from t) (tr_to t) \<and> tr_to t = s"
| "legal_path (t # u # ts) s \<longleftrightarrow>
     can_transition_to (tr_from t) (tr_to t) \<and> tr_to t = tr_from u \<and> legal_path (u # ts) s"

definition job_inv :: "job_context \<Rightarrow> bool" where
  "job_inv j \<longleftrightarrow>
     legal_path (transitions j) (job_state j) \<and>
     (transitions j = [] \<longrightarrow> job_state j = Pending) \<and>
     length (transitions j) \<le> max_transitions \<and>
     repair_attempts j \<le> max_repair_attempts j \<and>
     (is_terminal (job_state j) \<longrightarrow> completed_at j \<noteq> None) \<and>
     (job_state j \<notin> {Pending, Cancelled} \<longrightarrow> started_at j \<noteq> None)"

lemma legal_path_snoc:
  "legal_path ts s \<Longrightarrow> can_transition_to s s' \<Longrightarrow>
     legal_path (ts @ [\<lparr>tr_from = s, tr_to = s', tr_timestamp = t, tr_reason = r\<rparr>]) s'"
  by (induction ts s rule: legal_path.induct) auto

lemma legal_path_drop: "legal_path ts s \<Longrightarrow> legal_path (drop n ts) s"
proof (induction ts s arbitrary: n rule: legal_path.induct)
  case (2 t s)
  then show ?case by (cases n) auto
next
  case (3 t u ts s)
  then show ?case by (cases n) auto
qed simp

lemma stamp_fields [simp]:
  "job_state (stamp now s j) = job_state j"
  "transitions (stamp now s j) = transitions j"
  "repair_attempts (stamp now s j) = repair_attempts j"
  "max_repair_attempts (stamp now s j) = max_repair_attempts j"
  "started_at (stamp now s j) =
     (if s = InProgress \<and> started_at j = None then Some now else started_at j)"
  "completed_at (stamp now s j) =
     (if s = Completed \<or> is_terminal s then Some now else completed_at j)"
  by (auto simp: stamp_def is_terminal_def split: job_state.split)

lemma terminal_no_transition: "is_terminal s \<Longrightarrow> \<not> can_transition_to s s'"
  by (cases s; cases s') (auto simp: is_terminal_def)

lemma started_states: "can_transition_to s s' \<Longrightarrow> s' \<notin> {InProgress, Cancelled} \<Longrightarrow> s \<notin> {Pending, Cancelled}"
  by (cases s; cases s') auto

lemma job_inv_transition: "job_inv j \<Longrightarrow> job_inv (snd (transition_to t1 t2 s r j))"
  using started_states [of "job_state j" s]
  by (auto simp: job_inv_def transition_to_def Let_def legal_path_drop legal_path_snoc
      max_transitions_def)

lemma job_inv_repair_count:
  "job_inv j \<Longrightarrow> repair_attempts j < max_repair_attempts j \<Longrightarrow>
     job_inv (j\<lparr>repair_attempts := repair_attempts j + 1\<rparr>)"
  by (auto simp: job_inv_def inc_le)

lemma job_inv_recovery: "job_inv j \<Longrightarrow> job_inv (snd (attempt_recovery t1 t2 j))"
  by (auto simp: attempt_recovery_def Let_def not_le intro!: job_inv_transition job_inv_repair_count)

lemma repair_state:
  "snd (repair_stuck_job t1 t2 j) =
     (if job_state j \<noteq> Stuck \<or> max_repair_attempts j \<le> repair_attempts j then j
      else snd (attempt_recovery t1 t2 j))"
  by (auto simp: repair_stuck_job_def split: prod.split sum.split)

lemma job_inv_step: "job_inv j \<Longrightarrow> job_inv (job_step j e)"
proof (cases e)
  case (AddTokens n)
  assume "job_inv j"
  with AddTokens show ?thesis by (simp add: add_tokens_def job_inv_def)
qed (auto simp: mark_stuck_def repair_state job_inv_transition job_inv_recovery)

interpretation jobs: component job_step job_inv
  by unfold_locales (rule job_inv_step)

lemma job_inv_new: "job_inv (job_new now i title description)"
  by (simp add: job_inv_def job_new_def is_terminal_def)

text \<open>
  C39. Whatever operations run on a new job, legal or refused: its history is a chain of legal
  transitions that ends in its current state and never exceeds the cap, its recoveries never
  exceed their maximum, a terminal job has its completion time and a job that ever ran its
  start time.
\<close>

theorem job_history_legal:
  "job_inv (foldl job_step (job_new now i title description) es)"
  by (intro jobs.inv_run job_inv_new)

lemma terminal_step:
  assumes "is_terminal (job_state j)"
  shows "job_state (job_step j e) = job_state j \<and> transitions (job_step j e) = transitions j \<and>
         completed_at (job_step j e) = completed_at j"
  using assms terminal_no_transition [OF assms]
  by (cases e)
    (auto simp: mark_stuck_def repair_state transition_to_def attempt_recovery_def add_tokens_def
      is_terminal_def)

lemma terminal_run:
  "is_terminal (job_state j) \<Longrightarrow>
     job_state (foldl job_step j es) = job_state j \<and>
     transitions (foldl job_step j es) = transitions j \<and>
     completed_at (foldl job_step j es) = completed_at j"
proof (induction es arbitrary: j)
  case (Cons e es)
  with terminal_step [OF Cons.prems, of e] Cons.IH [of "job_step j e"] show ?case by simp
qed simp

text \<open>
  A terminal state is final: whatever operations run on a job that was accepted, failed
  or cancelled, its state, history and completion time stay as they are.
\<close>

lemma terminal_is_final:
  assumes "is_terminal (job_state j)"
  shows "job_state (foldl job_step j es) = job_state j \<and>
         transitions (foldl job_step j es) = transitions j \<and>
         completed_at (foldl job_step j es) = completed_at j"
  using assms by (rule terminal_run)

lemma terminal_is_final_witness:
  "job_state (foldl job_step (snd (transition_to 5 6 Cancelled None (job_new 0 ''j'' [] [])))
     [TransitionTo 7 8 InProgress None, RepairStuck 9 9]) = Cancelled"
  using terminal_is_final [of "snd (transition_to 5 6 Cancelled None (job_new 0 ''j'' [] []))"
      "[TransitionTo 7 8 InProgress None, RepairStuck 9 9]"]
  by (simp add: is_terminal_def job_new_def transition_to_def Let_def)

section \<open>Self-repair\<close>

text \<open>
  Repairing a stuck job never fails: with recoveries left it puts the job back in
  progress, with one attempt more on the count and the start time unchanged; otherwise it
  leaves the job as it is and asks for a manual intervention. A job that is not stuck is
  refused and left as it is.
\<close>

lemma repair_outcome:
  "(job_state j \<noteq> Stuck \<longrightarrow>
      (\<exists>msg. repair_stuck_job t1 t2 j = (RepairFailed msg, j))) \<and>
   (job_state j = Stuck \<and> max_repair_attempts j \<le> repair_attempts j \<longrightarrow>
      (\<exists>msg. repair_stuck_job t1 t2 j = (ManualRequired msg, j))) \<and>
   (job_state j = Stuck \<and> repair_attempts j < max_repair_attempts j \<and> started_at j \<noteq> None \<longrightarrow>
      (\<exists>msg j'. repair_stuck_job t1 t2 j = (RepairSuccess msg, j') \<and> job_state j' = InProgress \<and>
         unat (repair_attempts j') = Suc (unat (repair_attempts j)) \<and>
         started_at j' = started_at j))"
  by (auto simp: repair_stuck_job_def attempt_recovery_def transition_to_def Let_def unat_inc
      split: prod.splits sum.splits)

definition stuck_job :: job_context where
  "stuck_job = foldl job_step (job_new 0 ''j'' [] [])
     [TransitionTo 1 1 InProgress None, MarkStuck 2 2 ''idle'']"

lemma repair_outcome_witness:
  "\<exists>msg j'. repair_stuck_job 3 3 stuck_job = (RepairSuccess msg, j') \<and> job_state j' = InProgress \<and>
     unat (repair_attempts j') = 1 \<and> started_at j' = Some 1"
  using repair_outcome [of stuck_job 3 3]
  by (auto simp: stuck_job_def job_new_def mark_stuck_def transition_to_def stamp_def
      default_max_repair_attempts_def max_transitions_def Let_def)

end
