(* ===== verification/Triggers.thy ===== *)
theory Triggers
  imports Core_Types Json
begin

text \<open>
  The triggers of routines, \<open>frankclaw-cron/src/triggers.rs\<close>: the trigger types, the guardrails
  and the matching of messages and system events. The engine of regular expressions is the
  parameter \<open>regex\<close> (\<open>None\<close>: the pattern does not compile). The lemmas show that a routine
  that is fired only when \<open>can_fire\<close> allows it never exceeds its concurrency and keeps its
  cooldown, and when an event matches.
\<close>

section \<open>Types (triggers.rs)\<close>

datatype trigger_type =
    CronTrigger string "string option"
  | EventTrigger "string option" string
  | SystemEventTrigger string string "(string \<times> string) list"
  | ManualTrigger

record trigger_guardrails =
  cooldown_secs :: u64
  max_concurrent :: u32
  dedup_window_secs :: "u64 option"

definition default_guardrails :: trigger_guardrails where
  "default_guardrails = \<lparr>cooldown_secs = 300, max_concurrent = 1, dedup_window_secs = None\<rparr>"

datatype routine_action =
    Lightweight string "string list" u32
  | FullJob string string u32 "string list"

record system_event =
  se_source :: string
  se_event_type :: string
  se_payload :: json
  se_timestamp :: datetime

definition system_event_new :: "datetime \<Rightarrow> string \<Rightarrow> string \<Rightarrow> system_event" where
  "system_event_new now source event_type =
     \<lparr>se_source = source, se_event_type = event_type, se_payload = JNull, se_timestamp = now\<rparr>"

definition with_payload :: "json \<Rightarrow> system_event \<Rightarrow> system_event" where
  "with_payload payload e = e\<lparr>se_payload := payload\<rparr>"

record trigger_state =
  last_fired_at :: "datetime option"
  active_count :: u32
  fire_count :: u64
  consecutive_failures :: u32
  last_event_hash :: "u64 option"

definition trigger_state_new :: trigger_state where
  "trigger_state_new =
     \<lparr>last_fired_at = None, active_count = 0, fire_count = 0, consecutive_failures = 0,
      last_event_hash = None\<rparr>"

datatype fire_check = Allowed | Blocked string

section \<open>Guardrails (triggers.rs)\<close>

text \<open>
  \<open>chrono::Duration::seconds\<close> of a number of seconds read as an \<open>i64\<close>: it panics (\<open>None\<close>)
  beyond the milliseconds that fit an \<open>i64\<close>. A time difference is an \<open>int\<close> of nanoseconds.
\<close>

definition chrono_seconds :: "u64 \<Rightarrow> int option" where
  "chrono_seconds n =
     (if abs (sint n) \<le> (2 ^ 63 - 1) div 1000 then Some (sint n * 1000000000) else None)"

definition can_fire ::
  "datetime \<Rightarrow> trigger_guardrails \<Rightarrow> trigger_state \<Rightarrow> fire_check option" where
  "can_fire now guardrails st =
     (if max_concurrent guardrails \<le> active_count st
      then Some (Blocked (''max concurrent executions reached ('' @ show_word (active_count st) @
                   ''/'' @ show_word (max_concurrent guardrails) @ '')''))
      else case last_fired_at st of
             None \<Rightarrow> Some Allowed
           | Some last_fired \<Rightarrow>
               (let elapsed = now - last_fired in
                case chrono_seconds (cooldown_secs guardrails) of
                  None \<Rightarrow> None
                | Some cooldown \<Rightarrow>
                    if elapsed < cooldown
                    then Some (Blocked (''cooldown active ('' @
                           show_nat (nat ((cooldown - elapsed) div 1000000000)) @ ''s remaining)''))
                    else Some Allowed))"

definition record_fire :: "datetime \<Rightarrow> trigger_state \<Rightarrow> trigger_state" where
  "record_fire now st =
     st\<lparr>last_fired_at := Some now, active_count := active_count st + 1,
        fire_count := fire_count st + 1\<rparr>"

definition record_completion :: "bool \<Rightarrow> trigger_state \<Rightarrow> trigger_state" where
  "record_completion success st =
     (let st1 = st\<lparr>active_count := sat_sub (active_count st) 1\<rparr>
      in if success then st1\<lparr>consecutive_failures := 0\<rparr>
         else st1\<lparr>consecutive_failures := consecutive_failures st1 + 1\<rparr>)"

text \<open>
  The use of the guardrails: an attempt at time \<open>c\<close> that is allowed fires at time \<open>t\<close>. The
  firing times are collected.
\<close>

datatype trigger_event = Attempt datetime datetime | Complete bool

fun trigger_step ::
  "trigger_guardrails \<Rightarrow> trigger_state \<times> datetime list \<Rightarrow> trigger_event \<Rightarrow>
     trigger_state \<times> datetime list" where
  "trigger_step gr (st, fired) (Attempt c t) =
     (if can_fire c gr st = Some Allowed then (record_fire t st, fired @ [t]) else (st, fired))"
| "trigger_step gr (st, fired) (Complete success) = (record_completion success st, fired)"

fun apart :: "int \<Rightarrow> int list \<Rightarrow> bool" where
  "apart d (a # b # xs) \<longleftrightarrow> a + d \<le> b \<and> apart d (b # xs)"
| "apart d _ \<longleftrightarrow> True"

definition trigger_inv :: "trigger_guardrails \<Rightarrow> trigger_state \<times> datetime list \<Rightarrow> bool" where
  "trigger_inv gr s \<longleftrightarrow>
     active_count (fst s) \<le> max_concurrent gr \<and>
     last_fired_at (fst s) = (if snd s = [] then None else Some (last (snd s))) \<and>
     fire_count (fst s) = of_nat (length (snd s)) \<and>
     apart (sint (cooldown_secs gr) * 1000000000) (snd s)"

lemma apart_snoc: "apart d xs \<Longrightarrow> xs = [] \<or> last xs + d \<le> t \<Longrightarrow> apart d (xs @ [t])"
  by (induction d xs rule: apart.induct) auto

lemma can_fire_allowed:
  "can_fire now gr st = Some Allowed \<longleftrightarrow>
     active_count st < max_concurrent gr \<and>
     (\<forall>t. last_fired_at st = Some t \<longrightarrow>
        (\<exists>d. chrono_seconds (cooldown_secs gr) = Some d \<and> t + d \<le> now))"
  by (auto simp: can_fire_def Let_def not_le not_less split: option.splits)

lemma trigger_inv_attempt:
  assumes "trigger_inv gr (st, fired)" "c \<le> t" "can_fire c gr st = Some Allowed"
  shows "trigger_inv gr (record_fire t st, fired @ [t])"
proof -
  from assms(3) have a: "active_count st < max_concurrent gr" by (simp add: can_fire_allowed)
  have "fired = [] \<or> last fired + sint (cooldown_secs gr) * 1000000000 \<le> t"
    using assms by (auto simp: can_fire_allowed trigger_inv_def chrono_seconds_def split: if_splits)
  with assms(1) have "apart (sint (cooldown_secs gr) * 1000000000) (fired @ [t])"
    by (intro apart_snoc) (auto simp: trigger_inv_def)
  with assms(1) inc_le [OF a] show ?thesis
    by (simp add: trigger_inv_def record_fire_def)
qed

lemma trigger_inv_complete:
  "trigger_inv gr (st, fired) \<Longrightarrow> trigger_inv gr (record_completion b st, fired)"
proof -
  assume i: "trigger_inv gr (st, fired)"
  then have "sat_sub (active_count st) 1 \<le> max_concurrent gr"
    by (auto simp: trigger_inv_def word_le_nat_alt unat_sat_sub intro: le_trans [OF diff_le_self])
  with i show ?thesis by (simp add: trigger_inv_def record_completion_def Let_def)
qed

definition clock_ok :: "trigger_event \<Rightarrow> bool" where
  "clock_ok e \<longleftrightarrow> (case e of Attempt c t \<Rightarrow> c \<le> t | Complete _ \<Rightarrow> True)"

lemma trigger_inv_run:
  "\<forall>e\<in>set es. clock_ok e \<Longrightarrow> trigger_inv gr (foldl (trigger_step gr) (trigger_state_new, []) es)"
proof (induction es rule: rev_induct)
  case Nil
  then show ?case by (simp add: trigger_inv_def trigger_state_new_def)
next
  case (snoc e es)
  obtain st fired where s: "foldl (trigger_step gr) (trigger_state_new, []) es = (st, fired)"
    by fastforce
  with snoc have "trigger_inv gr (st, fired)" by simp
  with snoc.prems s show ?case
    by (cases e) (auto simp: clock_ok_def trigger_inv_attempt trigger_inv_complete)
qed

text \<open>
  A routine that fires only when \<open>can_fire\<close> allows it never has more active executions
  than its guardrails permit, and any two of its firings, in whatever order attempts and
  completions come, are separated by at least the cooldown.
\<close>

lemma trigger_guardrails_hold:
  assumes "\<forall>e\<in>set es. clock_ok e"
    and "foldl (trigger_step gr) (trigger_state_new, []) es = (st, fired)"
  shows "active_count st \<le> max_concurrent gr \<and> fire_count st = of_nat (length fired) \<and>
         apart (sint (cooldown_secs gr) * 1000000000) fired"
  using trigger_inv_run [OF assms(1), of gr] assms(2) by (simp add: trigger_inv_def)

lemma trigger_guardrails_hold_witness:
  "\<exists>st fired. foldl (trigger_step default_guardrails) (trigger_state_new, [])
       [Attempt 0 0, Complete True, Attempt 299000000000 299000000000,
        Attempt 300000000000 300000000000] = (st, fired) \<and>
     active_count st \<le> 1 \<and> fire_count st = of_nat (length fired) \<and> apart 300000000000 fired"
proof -
  let ?es = "[Attempt 0 0, Complete True, Attempt 299000000000 299000000000,
        Attempt 300000000000 300000000000]"
  obtain st fired where r: "foldl (trigger_step default_guardrails) (trigger_state_new, []) ?es = (st, fired)"
    by fastforce
  have "\<forall>e\<in>set ?es. clock_ok e" by (simp add: clock_ok_def)
  from trigger_guardrails_hold [OF this r] r show ?thesis
    by (simp add: default_guardrails_def)
qed

section \<open>Matching (triggers.rs)\<close>

definition matches_event_trigger ::
  "(string \<Rightarrow> string \<Rightarrow> bool option) \<Rightarrow> trigger_type \<Rightarrow> string \<Rightarrow> string option \<Rightarrow> bool" where
  "matches_event_trigger regex trigger content message_channel =
     (case trigger of
        EventTrigger channel pattern \<Rightarrow>
          (case channel of
             Some required \<Rightarrow>
               (case message_channel of
                  Some actual \<Rightarrow> eq_ignore_ascii_case required actual
                | None \<Rightarrow> False)
           | None \<Rightarrow> True) \<and>
          (case regex pattern content of Some b \<Rightarrow> b | None \<Rightarrow> False)
      | _ \<Rightarrow> False)"

fun filters_match :: "(string \<times> json) list \<Rightarrow> (string \<times> string) list \<Rightarrow> bool" where
  "filters_match obj [] = True"
| "filters_match obj ((key, expected) # fs) =
     (case map_of obj key of
        Some (JString actual) \<Rightarrow> actual = expected \<and> filters_match obj fs
      | _ \<Rightarrow> False)"

definition matches_system_event :: "trigger_type \<Rightarrow> system_event \<Rightarrow> bool" where
  "matches_system_event trigger event =
     (case trigger of
        SystemEventTrigger source event_type filters \<Rightarrow>
          if \<not> eq_ignore_ascii_case source (se_source event) then False
          else if \<not> eq_ignore_ascii_case event_type (se_event_type event) then False
          else if filters \<noteq> []
          then (case se_payload event of JObject obj \<Rightarrow> filters_match obj filters | _ \<Rightarrow> False)
          else True
      | _ \<Rightarrow> False)"

lemma filters_match_iff:
  "filters_match obj fs \<longleftrightarrow> (\<forall>(k, v)\<in>set fs. map_of obj k = Some (JString v))"
  by (induction obj fs rule: filters_match.induct) (auto split: option.splits json.splits)

text \<open>
  A system event matches exactly the system-event triggers of its source and type,
  compared without regard to case, whose every filter is a top-level string field of its
  payload with exactly the expected value; without filters the payload does not matter.
\<close>

lemma system_event_matches:
  "matches_system_event trigger event \<longleftrightarrow>
     (\<exists>source event_type filters. trigger = SystemEventTrigger source event_type filters \<and>
        to_lower source = to_lower (se_source event) \<and>
        to_lower event_type = to_lower (se_event_type event) \<and>
        (filters = [] \<or>
         (\<exists>obj. se_payload event = JObject obj \<and>
            (\<forall>k v. (k, v) \<in> set filters \<longrightarrow> map_of obj k = Some (JString v)))))"
  by (cases trigger)
    (auto simp: matches_system_event_def eq_ignore_ascii_case_def filters_match_iff
      split: json.splits)

lemma system_event_matches_witness:
  "matches_system_event (SystemEventTrigger ''GitHub'' ''issue.opened'' [(''repo'', ''frankclaw'')])
     (with_payload (JObject [(''repo'', JString ''frankclaw''), (''n'', JNull)])
       (system_event_new 0 ''github'' ''Issue.Opened''))"
  unfolding system_event_matches
  by (simp add: with_payload_def system_event_new_def to_lower_def ascii_lower_def) code_simp

end
