(* ===== verification/Cost_Guard.thy ===== *)
theory Cost_Guard
  imports Rust_Text
begin

text \<open>
  The price table of \<open>frankclaw-models/src/costs.rs\<close> and the spending guard of
  \<open>frankclaw-models/src/cost_guard.rs\<close>. An amount of money is an exact number of units of
  10^-8 US dollars, the unit in which every price of the table is a whole number: the rounding
  of the code's \<open>f64\<close> sums is not modelled. The lemmas show what the check answers in every
  reachable state, that the fast path never changes the answer, that guarded calls respect both
  limits, and that a spent budget is never released by checks alone.
\<close>

section \<open>Prices (costs.rs)\<close>

type_synonym money = nat

definition local_prefixes :: "string list" where
  "local_prefixes =
     [''llama'', ''mistral'', ''mixtral'', ''phi'', ''gemma'', ''qwen'', ''codellama'',
      ''deepseek'', ''starcoder'', ''vicuna'', ''yi'']"

definition is_local_model :: "string \<Rightarrow> bool" where
  "is_local_model model_id =
     (let lower = to_lower model_id
      in list_ex (starts_with lower) local_prefixes \<or>
         contains lower '':latest'' \<or> contains lower '':instruct'')"

text \<open>The prices of a token of the input and of the output, for each group of names.\<close>

definition price_table :: "(string list \<times> money \<times> money) list" where
  "price_table =
     [([''gpt-4.1''], 200, 800),
      ([''gpt-4.1-mini''], 40, 160),
      ([''gpt-4.1-nano''], 10, 40),
      ([''gpt-4o'', ''gpt-4o-2024-11-20'', ''gpt-4o-2024-08-06''], 250, 1000),
      ([''gpt-4o-mini'', ''gpt-4o-mini-2024-07-18''], 15, 60),
      ([''gpt-4-turbo'', ''gpt-4-turbo-2024-04-09''], 1000, 3000),
      ([''gpt-4'', ''gpt-4-0613''], 3000, 6000),
      ([''gpt-3.5-turbo'', ''gpt-3.5-turbo-0125''], 50, 150),
      ([''o3''], 200, 800),
      ([''o3-mini'', ''o3-mini-2025-01-31''], 110, 440),
      ([''o4-mini''], 110, 440),
      ([''o1'', ''o1-2024-12-17''], 1500, 6000),
      ([''o1-mini'', ''o1-mini-2024-09-12''], 300, 1200),
      ([''claude-opus-4-6'', ''claude-opus-4-5'', ''claude-opus-4-5-20251101'',
        ''claude-opus-4-1'', ''claude-opus-4-1-20250805'', ''claude-opus-4-0'',
        ''claude-opus-4-20250514'', ''claude-3-opus-20240229'', ''claude-3-opus-latest''],
       1500, 7500),
      ([''claude-sonnet-4-6'', ''claude-sonnet-4-5'', ''claude-sonnet-4-5-20250929'',
        ''claude-sonnet-4-0'', ''claude-sonnet-4-20250514'', ''claude-3-7-sonnet-20250219'',
        ''claude-3-7-sonnet-latest'', ''claude-3-5-sonnet-20241022'',
        ''claude-3-5-sonnet-latest''], 300, 1500),
      ([''claude-haiku-4-5'', ''claude-haiku-4-5-20251001'', ''claude-3-5-haiku-20241022'',
        ''claude-3-5-haiku-latest''], 80, 400),
      ([''claude-3-haiku-20240307''], 25, 125)]"

definition model_cost :: "string \<Rightarrow> (money \<times> money) option" where
  "model_cost model_id =
     (if ends_with model_id '':free'' \<or> model_id = ''openrouter/free'' \<or> model_id = ''free''
      then Some (0, 0)
      else (let name = (case rsplit_once (CHR ''/'') model_id of
                          Some (_, name) \<Rightarrow> name
                        | None \<Rightarrow> model_id)
            in case find (\<lambda>(names, _). name \<in> set names) price_table of
                 Some (_, rates) \<Rightarrow> Some rates
               | None \<Rightarrow> if is_local_model name then Some (0, 0) else None))"

definition default_cost :: "money \<times> money" where
  "default_cost = (250, 1000)"

text \<open>A model that is not in the table costs what GPT-4o costs.\<close>

lemma default_cost_gpt_4o: "model_cost ''gpt-4o'' = Some default_cost"
  by code_simp

definition rates :: "string \<Rightarrow> money \<times> money" where
  "rates model = (case model_cost model of Some r \<Rightarrow> r | None \<Rightarrow> default_cost)"

definition call_cost :: "string \<Rightarrow> u32 \<Rightarrow> u32 \<Rightarrow> money" where
  "call_cost model input_tokens output_tokens =
     (case rates model of (i, out) \<Rightarrow> i * unat input_tokens + out * unat output_tokens)"

lemma price_bounds:
  "list_all (\<lambda>(_, i, out). i \<le> 3000 \<and> out \<le> 7500 \<and> i \<le> out) price_table"
  by (simp add: price_table_def)

lemma rates_bounds: "rates model = (i, out) \<Longrightarrow> i \<le> 3000 \<and> out \<le> 7500 \<and> i \<le> out"
proof -
  assume r: "rates model = (i, out)"
  have "find P price_table = Some (ns, i', out') \<Longrightarrow> i' \<le> 3000 \<and> out' \<le> 7500 \<and> i' \<le> out'"
    for P ns i' out'
    using price_bounds by (auto simp: find_Some_iff list_all_length)
  with r show ?thesis
    by (fastforce simp: rates_def model_cost_def default_cost_def Let_def split: option.splits if_splits)
qed

text \<open>The price of a call is bounded by the dearest model.\<close>

lemma call_cost_bound: "call_cost model a b \<le> 3000 * unat a + 7500 * unat b"
proof -
  obtain i out where r: "rates model = (i, out)" by fastforce
  with rates_bounds [OF r] show ?thesis
    by (simp add: call_cost_def add_mono mult_le_mono)
qed

section \<open>The guard (cost_guard.rs)\<close>

record cost_guard_config =
  max_cost_per_day_cents :: "u64 option"
  max_actions_per_hour :: "u64 option"

datatype cost_limit_exceeded =
    DailyBudget u64 u64
  | HourlyRate u64 u64

record model_tokens =
  mt_input_tokens :: u64
  mt_output_tokens :: u64
  mt_cost :: money

type_synonym date = int

record cost_guard =
  cg_config :: cost_guard_config
  total_usd :: money
  reset_date :: date
  action_window :: "instant list"
  budget_exceeded :: bool
  cg_model_tokens :: "string \<rightharpoonup> model_tokens"

definition guard_new :: "cost_guard_config \<Rightarrow> date \<Rightarrow> cost_guard" where
  "guard_new config today =
     \<lparr>cg_config = config, total_usd = 0, reset_date = today, action_window = [],
      budget_exceeded = False, cg_model_tokens = (\<lambda>_. None)\<rparr>"

text \<open>The conversion to \<open>u64\<close> saturates.\<close>

definition to_cents :: "money \<Rightarrow> u64" where
  "to_cents usd = of_nat (min (usd div 1000000) (2 ^ 64 - 1))"

text \<open>The pruning of the window; \<open>checked_sub\<close> fails within the first hour of the clock.\<close>

definition prune :: "instant \<Rightarrow> instant list \<Rightarrow> instant list" where
  "prune now window =
     (if secs 3600 \<le> now then dropWhile (\<lambda>t. t < now - secs 3600) window else window)"

definition check_allowed :: "instant \<Rightarrow> cost_guard \<Rightarrow> (cost_limit_exceeded + unit) \<times> cost_guard" where
  "check_allowed now g =
     (if budget_exceeded g
      then (Inl (DailyBudget (to_cents (total_usd g))
              (case max_cost_per_day_cents (cg_config g) of Some l \<Rightarrow> l | None \<Rightarrow> 0)), g)
      else case (case max_cost_per_day_cents (cg_config g) of
                   Some limit_cents \<Rightarrow>
                     if limit_cents \<le> to_cents (total_usd g) then Some limit_cents else None
                 | None \<Rightarrow> None) of
             Some limit_cents \<Rightarrow>
               (Inl (DailyBudget (to_cents (total_usd g)) limit_cents), g\<lparr>budget_exceeded := True\<rparr>)
           | None \<Rightarrow>
               (case max_actions_per_hour (cg_config g) of
                  None \<Rightarrow> (Inr (), g)
                | Some limit \<Rightarrow>
                    (let window = prune now (action_window g); g' = g\<lparr>action_window := window\<rparr>
                     in if limit \<le> of_nat (length window)
                        then (Inl (HourlyRate (of_nat (length window)) limit), g')
                        else (Inr (), g'))))"

definition record_llm_call ::
  "date \<Rightarrow> instant \<Rightarrow> string \<Rightarrow> u32 \<Rightarrow> u32 \<Rightarrow> cost_guard \<Rightarrow> money \<times> cost_guard" where
  "record_llm_call today now model input_tokens output_tokens g =
     (let cost = call_cost model input_tokens output_tokens;
          g1 = (if today \<noteq> reset_date g
                then g\<lparr>total_usd := 0, reset_date := today, budget_exceeded := False\<rparr> else g);
          g2 = g1\<lparr>total_usd := total_usd g1 + cost\<rparr>;
          g3 = (case max_cost_per_day_cents (cg_config g2) of
                  Some limit_cents \<Rightarrow>
                    if limit_cents \<le> to_cents (total_usd g2) then g2\<lparr>budget_exceeded := True\<rparr> else g2
                | None \<Rightarrow> g2);
          g4 = g3\<lparr>action_window := action_window g3 @ [now]\<rparr>;
          entry = (case cg_model_tokens g4 model of
                     Some e \<Rightarrow> e
                   | None \<Rightarrow> \<lparr>mt_input_tokens = 0, mt_output_tokens = 0, mt_cost = 0\<rparr>);
          entry' = entry\<lparr>mt_input_tokens := mt_input_tokens entry + ucast input_tokens,
                         mt_output_tokens := mt_output_tokens entry + ucast output_tokens,
                         mt_cost := mt_cost entry + cost\<rparr>
      in (cost, g4\<lparr>cg_model_tokens := (cg_model_tokens g4)(model \<mapsto> entry')\<rparr>))"

definition daily_spend :: "date \<Rightarrow> cost_guard \<Rightarrow> money" where
  "daily_spend today g = (if today \<noteq> reset_date g then 0 else total_usd g)"

definition actions_this_hour :: "instant \<Rightarrow> cost_guard \<Rightarrow> u64 \<times> cost_guard" where
  "actions_this_hour now g =
     (let window = prune now (action_window g)
      in (of_nat (length window), g\<lparr>action_window := window\<rparr>))"

section \<open>The guard as a machine\<close>

datatype guard_event =
    CheckAllowed instant
  | RecordCall date instant string u32 u32
  | ActionsThisHour instant

primrec guard_step :: "cost_guard \<Rightarrow> guard_event \<Rightarrow> cost_guard" where
  "guard_step g (CheckAllowed now) = snd (check_allowed now g)"
| "guard_step g (RecordCall today now m i out) = snd (record_llm_call today now m i out g)"
| "guard_step g (ActionsThisHour now) = snd (actions_this_hour now g)"

definition over_budget :: "cost_guard \<Rightarrow> bool" where
  "over_budget g \<longleftrightarrow>
     (\<exists>limit. max_cost_per_day_cents (cg_config g) = Some limit \<and> limit \<le> to_cents (total_usd g))"

definition guard_inv :: "cost_guard_config \<Rightarrow> cost_guard \<Rightarrow> bool" where
  "guard_inv config g \<longleftrightarrow> cg_config g = config \<and> (budget_exceeded g \<longrightarrow> over_budget g)"

lemma unat_to_cents: "unat (to_cents a) = min (a div 1000000) (2 ^ 64 - 1)"
  unfolding to_cents_def by (rule unat_of_nat_small) (simp add: min_def)

lemma to_cents_mono: "a \<le> b \<Longrightarrow> to_cents a \<le> to_cents b"
  by (simp add: word_le_nat_alt unat_to_cents div_le_mono min.coboundedI1)

lemma guard_inv_step: "guard_inv config g \<Longrightarrow> guard_inv config (guard_step g e)"
proof (cases e)
  case (CheckAllowed now)
  assume "guard_inv config g"
  with CheckAllowed show ?thesis
    by (auto simp: check_allowed_def guard_inv_def over_budget_def Let_def split: option.splits if_splits)
next
  case (RecordCall today now m i out)
  assume "guard_inv config g"
  moreover have "to_cents a \<le> to_cents (a + b)" for a b
    by (rule to_cents_mono) simp
  ultimately show ?thesis using RecordCall
    by (auto simp: record_llm_call_def guard_inv_def over_budget_def Let_def
        split: option.splits if_splits intro: order_trans)
qed (auto simp: actions_this_hour_def guard_inv_def over_budget_def Let_def)

interpretation guard: component guard_step "guard_inv config" for config
  by unfold_locales (rule guard_inv_step)

lemma guard_inv_new: "guard_inv config (guard_new config today)"
  by (simp add: guard_inv_def guard_new_def)

lemma guard_inv_run: "guard_inv config (foldl guard_step (guard_new config today) es)"
  by (intro guard.inv_run guard_inv_new)

text \<open>
  In every reachable state the answer of the check is that of the ledgers, the fast path
  included: a refusal for the daily budget, with the exact amount and limit, if the recorded
  spending has reached the limit; otherwise a refusal for the hourly rate if the actions of
  the last hour have reached theirs; otherwise the call is allowed.
\<close>

lemma check_allowed_exact:
  "fst (check_allowed now (foldl guard_step (guard_new config today) es)) =
     (let g = foldl guard_step (guard_new config today) es in
      case max_cost_per_day_cents config of
        Some limit \<Rightarrow>
          if limit \<le> to_cents (total_usd g) then Inl (DailyBudget (to_cents (total_usd g)) limit)
          else (case max_actions_per_hour config of
                  Some n \<Rightarrow>
                    if n \<le> of_nat (length (prune now (action_window g)))
                    then Inl (HourlyRate (of_nat (length (prune now (action_window g)))) n)
                    else Inr ()
                | None \<Rightarrow> Inr ())
      | None \<Rightarrow>
          (case max_actions_per_hour config of
             Some n \<Rightarrow>
               if n \<le> of_nat (length (prune now (action_window g)))
               then Inl (HourlyRate (of_nat (length (prune now (action_window g)))) n)
               else Inr ()
           | None \<Rightarrow> Inr ()))"
  using guard_inv_run [of config today es]
  by (auto simp: check_allowed_def guard_inv_def over_budget_def Let_def split: option.splits)

section \<open>A spent budget\<close>

lemma over_budget_refused:
  assumes "max_cost_per_day_cents (cg_config g) = Some limit" "limit \<le> to_cents (total_usd g)"
  shows "fst (check_allowed now g) = Inl (DailyBudget (to_cents (total_usd g)) limit) \<and>
         snd (check_allowed now g) = g\<lparr>budget_exceeded := True\<rparr>"
  using assms by (auto simp: check_allowed_def)

text \<open>
  Checks alone never release a spent budget: once the recorded spending has reached the
  daily limit, every later check is refused with the old amount, on whatever day it is asked,
  although the spending of a new day is reported as zero. Only recording a call, which the
  check forbids, starts the new day.
\<close>

lemma spent_budget_blocks:
  assumes "max_cost_per_day_cents (cg_config g) = Some limit" "limit \<le> to_cents (total_usd g)"
    and "today \<noteq> reset_date g"
  shows "fst (check_allowed now (foldl guard_step g (map CheckAllowed ts))) =
           Inl (DailyBudget (to_cents (total_usd g)) limit) \<and>
         daily_spend today (foldl guard_step g (map CheckAllowed ts)) = 0"
  using assms
proof (induction ts arbitrary: g)
  case Nil
  then show ?case by (simp add: over_budget_refused daily_spend_def)
next
  case (Cons t ts)
  from Cons.IH [of "g\<lparr>budget_exceeded := True\<rparr>"] Cons.prems show ?case
    by (simp add: over_budget_refused)
qed

definition spent_guard :: cost_guard where
  "spent_guard = snd (record_llm_call 0 0 ''gpt-4o'' 10000 10000
     (guard_new \<lparr>max_cost_per_day_cents = Some 1, max_actions_per_hour = None\<rparr> 0))"

lemma spent_guard_state:
  "cg_config spent_guard = \<lparr>max_cost_per_day_cents = Some 1, max_actions_per_hour = None\<rparr>"
  "total_usd spent_guard = 12500000" "reset_date spent_guard = 0"
  by (simp_all add: spent_guard_def record_llm_call_def guard_new_def call_cost_def rates_def
      default_cost_gpt_4o default_cost_def Let_def split: option.split)

lemma spent_budget_blocks_witness:
  "fst (check_allowed (secs 90000) (foldl guard_step spent_guard (map CheckAllowed [secs 86400]))) =
     Inl (DailyBudget 12 1) \<and>
   daily_spend 1 (foldl guard_step spent_guard (map CheckAllowed [secs 86400])) = 0"
  using spent_budget_blocks [of spent_guard 1 1 "secs 90000" "[secs 86400]"]
  by (simp add: spent_guard_state to_cents_def)

section \<open>Guarded calls\<close>

text \<open>
  A guarded call: the check at time \<open>c\<close> and, if it allows the call, its record at time \<open>r\<close> of
  day \<open>d\<close>. The times of the records are collected.
\<close>

type_synonym guarded_call = "instant \<times> instant \<times> date \<times> string \<times> u32 \<times> u32"

fun guarded_step :: "cost_guard \<times> instant list \<Rightarrow> guarded_call \<Rightarrow> cost_guard \<times> instant list" where
  "guarded_step (g, admitted) (c, r, d, m, i, out) =
     (case check_allowed c g of
        (Inl _, g') \<Rightarrow> (g', admitted)
      | (Inr _, g') \<Rightarrow> (snd (record_llm_call d r m i out g'), admitted @ [r]))"

abbreviation guarded_run :: "cost_guard_config \<Rightarrow> date \<Rightarrow> guarded_call list \<Rightarrow> cost_guard \<times> instant list"
where
  "guarded_run config d calls \<equiv> foldl guarded_step (guard_new config d, []) calls"

lemma guard_fields [simp]:
  "cg_config (snd (check_allowed c g)) = cg_config g"
  "total_usd (snd (check_allowed c g)) = total_usd g"
  "cg_config (snd (record_llm_call d r m i out g)) = cg_config g"
  "action_window (snd (record_llm_call d r m i out g)) = action_window g @ [r]"
  by (auto simp: check_allowed_def record_llm_call_def Let_def split: option.splits)

lemma record_total:
  "total_usd (snd (record_llm_call d r m i out g)) \<le> total_usd g + call_cost m i out"
  by (auto simp: record_llm_call_def Let_def split: option.splits)

lemma guarded_config: "cg_config (fst (guarded_run config d calls)) = config"
proof (induction calls rule: rev_induct)
  case (snoc call calls)
  obtain g adm where ga: "guarded_run config d calls = (g, adm)" by fastforce
  obtain c r d' m i out where call: "call = (c, r, d', m, i, out)" by (cases call)
  obtain res g' where chk: "check_allowed c g = (res, g')" by fastforce
  from chk guard_fields(1) [of c g] ga snoc have "cg_config g' = config" by simp
  with ga call chk show ?case by (cases res) simp_all
qed (simp add: guard_new_def)

lemma allowed_below_limit:
  assumes "check_allowed c g = (Inr u, g')" "max_cost_per_day_cents (cg_config g) = Some limit"
  shows "total_usd g < unat limit * 1000000"
proof -
  have "\<not> limit \<le> to_cents (total_usd g)"
    using assms by (auto simp: check_allowed_def split: if_splits)
  then have "total_usd g div 1000000 < unat limit"
    using unat_le_max [of limit] by (auto simp: word_le_nat_alt unat_to_cents min_def split: if_splits)
  then show ?thesis by (simp add: div_less_iff_less_mult)
qed

lemma guarded_spend:
  assumes "max_cost_per_day_cents config = Some limit"
    and "\<forall>(c, r, d, m, i, out)\<in>set calls. call_cost m i out \<le> dearest"
  shows "total_usd (fst (guarded_run config d calls)) \<le> unat limit * 1000000 + dearest"
  using assms(2)
proof (induction calls rule: rev_induct)
  case (snoc call calls)
  obtain g adm where ga: "guarded_run config d calls = (g, adm)" by fastforce
  obtain c r d' m i out where call: "call = (c, r, d', m, i, out)" by (cases call)
  obtain res g' where chk: "check_allowed c g = (res, g')" by fastforce
  have cfg: "cg_config g = config" using guarded_config [of config d calls] ga by simp
  have tot: "total_usd g' = total_usd g" using chk guard_fields(2) [of c g] by simp
  show ?case
  proof (cases res)
    case (Inl e)
    with snoc ga call chk tot show ?thesis by simp
  next
    case (Inr u)
    have "total_usd g < unat limit * 1000000"
      using allowed_below_limit [of c g u g' limit] chk Inr cfg assms(1) by simp
    moreover have "call_cost m i out \<le> dearest" using snoc.prems call by simp
    ultimately show ?thesis
      using record_total [of d' r m i out g'] ga call chk Inr tot by simp
  qed
qed (simp add: guard_new_def)

text \<open>
  When every call is checked first, the spending of a day exceeds the daily limit by at
  most the price of one call, whatever the sequence of calls and the days they run on.
\<close>

lemma guarded_spend_bound:
  assumes "max_cost_per_day_cents config = Some limit"
    and "\<forall>(c, r, d, m, i, out)\<in>set calls. call_cost m i out \<le> dearest"
  shows "daily_spend today (fst (guarded_run config d calls)) \<le> unat limit * 1000000 + dearest"
  using guarded_spend [OF assms, of d] by (simp add: daily_spend_def)

lemma guarded_spend_bound_witness:
  "daily_spend 0 (fst (guarded_run \<lparr>max_cost_per_day_cents = Some 1, max_actions_per_hour = None\<rparr> 0
     [(0, 1, 0, ''gpt-4o'', 10000, 10000), (2, 3, 0, ''gpt-4o'', 10000, 10000)])) \<le> 13500000"
  using guarded_spend_bound
    [of "\<lparr>max_cost_per_day_cents = Some 1, max_actions_per_hour = None\<rparr>" 1
      "[(0, 1, 0, ''gpt-4o'', 10000, 10000), (2, 3, 0, ''gpt-4o'', 10000, 10000)]" 12500000 0 0]
  by (simp add: call_cost_def rates_def default_cost_gpt_4o default_cost_def)

section \<open>The sliding hour\<close>

definition call_times :: "guarded_call list \<Rightarrow> instant list" where
  "call_times calls = concat (map (\<lambda>(c, r, _). [c, r]) calls)"

lemma dropWhile_suffix: "\<exists>k. dropWhile P xs = drop k xs \<and> (\<forall>x\<in>set (take k xs). P x)"
  by (metis append_eq_conv_conj dropWhile_eq_drop set_takeWhileD takeWhile_eq_take)

lemma prune_suffix:
  "\<exists>k. prune now xs = drop k xs \<and> (\<forall>t\<in>set (take k xs). t + secs 3600 < now)"
proof (cases "secs 3600 \<le> now")
  case True
  with dropWhile_suffix [of "\<lambda>t. t < now - secs 3600" xs] show ?thesis
    by (auto simp: prune_def less_diff_conv)
next
  case False
  then show ?thesis by (auto simp: prune_def intro: exI [of _ 0])
qed

lemma prune_length: "length (prune now xs) \<le> length xs"
  by (simp add: prune_def length_dropWhile_le)

lemma check_window:
  assumes "max_actions_per_hour (cg_config g) = Some n" "check_allowed c g = (res, g')"
  shows "(action_window g' = action_window g \<or> action_window g' = prune c (action_window g)) \<and>
         (res = Inr u \<longrightarrow> action_window g' = prune c (action_window g) \<and>
            \<not> n \<le> of_nat (length (prune c (action_window g))))"
  using assms by (auto simp: check_allowed_def Let_def split: option.splits if_splits)

text \<open>
  The window is what is left of the admitted calls after dropping some of more than an hour
  ago, and it never holds more than the limit.
\<close>

definition window_inv :: "nat \<Rightarrow> instant \<Rightarrow> cost_guard \<Rightarrow> instant list \<Rightarrow> bool" where
  "window_inv n now g admitted \<longleftrightarrow>
     (\<exists>k. action_window g = drop k admitted \<and> (\<forall>t\<in>set (take k admitted). t + secs 3600 < now)) \<and>
     length (action_window g) \<le> n \<and>
     (\<forall>T. length (filter (\<lambda>t. T \<le> t \<and> t \<le> T + secs 3600) admitted) \<le> n)"

lemma window_inv_later: "window_inv n now g admitted \<Longrightarrow> now \<le> now' \<Longrightarrow> window_inv n now' g admitted"
  unfolding window_inv_def by (meson order.strict_trans2)

lemma window_inv_prune:
  assumes "window_inv n now g admitted" "now \<le> c" "action_window g' = prune c (action_window g)"
  shows "window_inv n c g' admitted"
proof -
  from assms(1) obtain k where k: "action_window g = drop k admitted"
    "\<forall>t\<in>set (take k admitted). t + secs 3600 < now"
    by (auto simp: window_inv_def)
  obtain k' where k': "prune c (drop k admitted) = drop k' (drop k admitted)"
    "\<forall>t\<in>set (take k' (drop k admitted)). t + secs 3600 < c"
    using prune_suffix by blast
  have "action_window g' = drop (k + k') admitted"
    using assms(3) k(1) k'(1) by (simp add: add.commute)
  moreover have "take (k + k') admitted = take k admitted @ take k' (drop k admitted)"
    by (rule take_add)
  then have "\<forall>t\<in>set (take (k + k') admitted). t + secs 3600 < c"
    using k(2) k'(2) assms(2) by auto
  moreover have "length (action_window g') \<le> n"
    using assms(1,3) prune_length [of c "action_window g"] by (simp add: window_inv_def)
  ultimately show ?thesis using assms(1) unfolding window_inv_def by blast
qed

lemma window_inv_record:
  assumes "window_inv n c g admitted" "length (action_window g) < n" "c \<le> r"
    and "action_window g' = action_window g @ [r]"
  shows "window_inv n r g' (admitted @ [r])"
proof -
  from assms(1) obtain k where k: "action_window g = drop k admitted"
    "\<forall>t\<in>set (take k admitted). t + secs 3600 < c"
    by (auto simp: window_inv_def)
  let ?k = "min k (length admitted)"
  have k': "drop k admitted = drop ?k admitted" "take k admitted = take ?k admitted"
    by (simp_all add: min_def)
  have "action_window g' = drop ?k (admitted @ [r])" "take ?k (admitted @ [r]) = take k admitted"
    using assms(4) k(1) k' by (simp_all add: min_def)
  moreover have "length (filter (\<lambda>t. T \<le> t \<and> t \<le> T + secs 3600) (admitted @ [r])) \<le> n" for T
  proof (cases "T \<le> r \<and> r \<le> T + secs 3600")
    case True
    then have "filter (\<lambda>t. T \<le> t \<and> t \<le> T + secs 3600) (take k admitted) = []"
      using k(2) assms(3) by (fastforce simp: filter_empty_conv)
    then have "filter (\<lambda>t. T \<le> t \<and> t \<le> T + secs 3600) admitted =
        filter (\<lambda>t. T \<le> t \<and> t \<le> T + secs 3600) (drop k admitted)"
      using filter_append [of "\<lambda>t. T \<le> t \<and> t \<le> T + secs 3600" "take k admitted" "drop k admitted"]
      by (simp only: append_take_drop_id append_Nil)
    then have "length (filter (\<lambda>t. T \<le> t \<and> t \<le> T + secs 3600) admitted) \<le> length (action_window g)"
      unfolding k(1) by (simp only: length_filter_le)
    with True assms(2) show ?thesis by simp
  next
    case False
    with assms(1) show ?thesis by (auto simp: window_inv_def)
  qed
  moreover have "length (action_window g') \<le> n" using assms(2,4) by simp
  moreover have "\<forall>t\<in>set (take k admitted). t + secs 3600 < r"
    using k(2) assms(3) by (auto intro: order.strict_trans2)
  ultimately show ?thesis
    unfolding window_inv_def by (intro conjI exI [of _ ?k]) simp_all
qed

lemma guarded_window:
  assumes "max_actions_per_hour config = Some n" "sorted (call_times calls)"
    and "\<forall>t\<in>set (call_times calls). t \<le> last_time"
  shows "window_inv (unat n) last_time (fst (guarded_run config d calls)) (snd (guarded_run config d calls))"
  using assms(2,3)
proof (induction calls arbitrary: last_time rule: rev_induct)
  case Nil
  then show ?case by (simp add: window_inv_def guard_new_def)
next
  case (snoc call calls)
  obtain g adm where ga: "guarded_run config d calls = (g, adm)" by fastforce
  obtain c r d' m i out where call: "call = (c, r, d', m, i, out)" by (cases call)
  obtain res g' where chk: "check_allowed c g = (res, g')" by fastforce
  have times: "sorted (call_times calls)" "\<forall>t\<in>set (call_times calls). t \<le> c" "c \<le> r" "r \<le> last_time"
    using snoc.prems call by (auto simp: call_times_def sorted_append)
  have cfg: "max_actions_per_hour (cg_config g) = Some n"
    using guarded_config [of config d calls] ga assms(1) by simp
  have inv: "window_inv (unat n) c g adm"
    using snoc.IH [OF times(1,2)] ga by simp
  note w = check_window [OF cfg chk]
  from w have inv': "window_inv (unat n) c g' adm"
    using inv window_inv_prune [OF inv, of c g'] by (auto simp: window_inv_def)
  show ?case
  proof (cases res)
    case (Inl e)
    with ga call chk window_inv_later [OF inv', of last_time] times show ?thesis by simp
  next
    case (Inr u)
    have "length (action_window g') \<le> unat n" using inv' by (simp add: window_inv_def)
    then have "unat (of_nat (length (action_window g')) :: u64) = length (action_window g')"
      using unat_less_pow [of n] by (intro unat_of_nat_small) simp
    with w Inr have "length (action_window g') < unat n"
      by (auto simp: word_le_nat_alt)
    then have "window_inv (unat n) r (snd (record_llm_call d' r m i out g')) (adm @ [r])"
      using inv' times(3) by (intro window_inv_record) auto
    with ga call chk Inr window_inv_later times(4) show ?thesis by simp
  qed
qed



end
