(* ===== verification/Cache.thy ===== *)
theory Cache
  imports Core_Types
begin

text \<open>
  The response cache, \<open>frankclaw-models/src/cache.rs\<close>: entries under a hash of the request,
  with a time to live and the eviction of the least recently used. The table is an association
  list whose order stands for the unspecified iteration order of the code's hash map; SHA-256
  is the parameter \<open>hash\<close>. The theorems show that a hit is the answer most recently stored
  under the request's key and not older than its time to live, that a stored answer is found
  again, and that the table never grows beyond its capacity.
\<close>

section \<open>Configuration and state (cache.rs)\<close>

record cache_config =
  ttl :: duration
  max_entries :: nat

definition default_cache_config :: cache_config where
  "default_cache_config = \<lparr>ttl = secs 3600, max_entries = 1000\<rparr>"

record cache_entry =
  ce_response :: completion_response
  ce_created_at :: instant
  ce_last_accessed :: instant
  ce_hit_count :: u64

record response_cache =
  rcache :: "(string \<times> cache_entry) list"
  request_count :: u64
  total_hit_count :: u64

definition cache_new :: response_cache where
  "cache_new = \<lparr>rcache = [], request_count = 0, total_hit_count = 0\<rparr>"

section \<open>The key (cache.rs)\<close>

primrec role_debug :: "role \<Rightarrow> string" where
  "role_debug System = ''System''"
| "role_debug User = ''User''"
| "role_debug Assistant = ''Assistant''"
| "role_debug Tool = ''Tool''"

definition le_bytes4 :: "u32 \<Rightarrow> string" where
  "le_bytes4 w = map (\<lambda>i. char_of (unat w div 256 ^ i mod 256)) [0..<4]"

definition bar :: string where
  "bar = ''|''"

definition key_material :: "completion_request \<Rightarrow> string" where
  "key_material request =
     rq_model_id request @ bar @
     concat (map (\<lambda>m. role_debug (msg_role m) @ '':'' @ msg_content m @ bar) (rq_messages request)) @
     (case rq_max_tokens request of Some n \<Rightarrow> le_bytes4 n | None \<Rightarrow> []) @ bar @
     (case rq_temperature request of Some t \<Rightarrow> le_bytes4 t | None \<Rightarrow> []) @ bar @
     (case rq_system request of Some s \<Rightarrow> s | None \<Rightarrow> [])"

definition cache_key :: "(string \<Rightarrow> string) \<Rightarrow> completion_request \<Rightarrow> string" where
  "cache_key hash request = hash (key_material request)"

section \<open>Operations (cache.rs)\<close>

definition lookup ::
  "(string \<Rightarrow> string) \<Rightarrow> cache_config \<Rightarrow> instant \<Rightarrow> completion_request \<Rightarrow> response_cache \<Rightarrow>
     completion_response option \<times> response_cache" where
  "lookup hash config now request c =
     (if rq_tools request \<noteq> [] then (None, c)
      else (let key = cache_key hash request;
                c1 = c\<lparr>request_count := request_count c + 1\<rparr>
            in case map_of (rcache c1) key of
                 Some entry \<Rightarrow>
                   if duration_since now (ce_created_at entry) < ttl config
                   then (Some (ce_response entry),
                         c1\<lparr>rcache := AList.update key (entry\<lparr>ce_last_accessed := now,
                                        ce_hit_count := ce_hit_count entry + 1\<rparr>) (rcache c1),
                            total_hit_count := total_hit_count c1 + 1\<rparr>)
                   else (None, c1\<lparr>rcache := AList.delete key (rcache c1)\<rparr>)
               | None \<Rightarrow> (None, c1)))"

text \<open>\<open>iter().min_by_key(..)\<close>: the first entry with the least time of access.\<close>

fun oldest_key :: "(string \<times> cache_entry) list \<Rightarrow> string option" where
  "oldest_key [] = None"
| "oldest_key ((k, e) # es) =
     (if \<forall>e'\<in>set (map snd es). ce_last_accessed e \<le> ce_last_accessed e' then Some k
      else oldest_key es)"

lemma oldest_key_in: "oldest_key c = Some k \<Longrightarrow> k \<in> fst ` set c"
  by (induction c rule: oldest_key.induct) (auto split: if_splits)

lemma oldest_key_None [simp]: "oldest_key c = None \<longleftrightarrow> c = []"
proof (induction c rule: oldest_key.induct)
  case (2 k e es)
  then show ?case by (cases es) auto
qed simp

lemma delete_shorter: "k \<in> fst ` set c \<Longrightarrow> length (AList.delete k c) < length c"
  unfolding AList.delete_eq by (force intro: length_filter_less)

function evict :: "nat \<Rightarrow> (string \<times> cache_entry) list \<Rightarrow> (string \<times> cache_entry) list" where
  "evict capacity c =
     (if capacity \<le> length c
      then (case oldest_key c of
              Some k \<Rightarrow> evict capacity (AList.delete k c)
            | None \<Rightarrow> c)
      else c)"
  by pat_completeness auto
termination
  by (relation "measure (\<lambda>(_, c). length c)") (auto intro: delete_shorter oldest_key_in)

declare evict.simps [simp del]

definition store ::
  "(string \<Rightarrow> string) \<Rightarrow> cache_config \<Rightarrow> instant \<Rightarrow> completion_request \<Rightarrow> completion_response \<Rightarrow>
     response_cache \<Rightarrow> response_cache" where
  "store hash config now request response c =
     (if rq_tools request \<noteq> [] then c
      else (let key = cache_key hash request;
                live = filter (\<lambda>(_, e). duration_since now (ce_created_at e) < ttl config) (rcache c);
                kept = evict (max_entries config) live
            in c\<lparr>rcache := AList.update key
                   \<lparr>ce_response = response, ce_created_at = now, ce_last_accessed = now,
                    ce_hit_count = 0\<rparr> kept\<rparr>))"

definition cache_len :: "response_cache \<Rightarrow> nat" where
  "cache_len c = length (rcache c)"

definition cache_is_empty :: "response_cache \<Rightarrow> bool" where
  "cache_is_empty c \<longleftrightarrow> rcache c = []"

definition total_hits :: "response_cache \<Rightarrow> u64" where
  "total_hits c = total_hit_count c"

definition cache_clear :: "response_cache \<Rightarrow> response_cache" where
  "cache_clear c = c\<lparr>rcache := []\<rparr>"

section \<open>Eviction\<close>

lemma evict_map_of: "map_of (evict n c) k = Some e \<Longrightarrow> map_of c k = Some e"
proof (induction n c rule: evict.induct)
  case (1 n c)
  then show ?case
    by (auto simp: evict.simps [of n c] delete_conv' split: if_splits option.splits)
qed

lemma evict_distinct: "distinct (map fst c) \<Longrightarrow> distinct (map fst (evict n c))"
proof (induction n c rule: evict.induct)
  case (1 n c)
  then show ?case
    by (auto simp: evict.simps [of n c] distinct_delete split: option.splits)
qed

lemma evict_length: "length (evict n c) \<le> n - 1 \<or> evict n c = []"
proof (induction n c rule: evict.induct)
  case (1 n c)
  then show ?case
    by (auto simp: evict.simps [of n c] split: option.splits)
qed

lemma evict_room: "length c < n \<Longrightarrow> evict n c = c"
  by (subst evict.simps) simp

text \<open>The entry that is evicted was not accessed later than any other.\<close>

lemma oldest_key_least:
  "distinct (map fst c) \<Longrightarrow> oldest_key c = Some k \<Longrightarrow>
     \<exists>e. map_of c k = Some e \<and> (\<forall>(k', e')\<in>set c. ce_last_accessed e \<le> ce_last_accessed e')"
proof (induction c rule: oldest_key.induct)
  case (2 k0 e0 es)
  show ?case
  proof (cases "\<forall>e'\<in>set (map snd es). ce_last_accessed e0 \<le> ce_last_accessed e'")
    case True
    with "2.prems"(2) show ?thesis by auto
  next
    case False
    with "2.prems"(2) have "oldest_key es = Some k" by (simp only: oldest_key.simps if_False)
    with False "2.IH" "2.prems"(1) obtain e where e: "map_of es k = Some e"
      "\<forall>(k', e')\<in>set es. ce_last_accessed e \<le> ce_last_accessed e'" by auto
    moreover have "k \<noteq> k0" using e(1) "2.prems"(1) by (auto dest: map_of_SomeD simp: image_iff)
    moreover have "ce_last_accessed e \<le> ce_last_accessed e0"
    proof -
      obtain p where "p \<in> set es" "\<not> ce_last_accessed e0 \<le> ce_last_accessed (snd p)"
        using False by auto
      with e(2) show ?thesis by fastforce
    qed
    ultimately show ?thesis by auto
  qed
qed simp

section \<open>The cache as a machine\<close>

datatype cache_event =
    Lookup instant completion_request
  | Store instant completion_request completion_response
  | Clear

primrec cache_step ::
  "(string \<Rightarrow> string) \<Rightarrow> cache_config \<Rightarrow> response_cache \<Rightarrow> cache_event \<Rightarrow> response_cache" where
  "cache_step hash config c (Lookup now rq) = snd (lookup hash config now rq c)"
| "cache_step hash config c (Store now rq rs) = store hash config now rq rs c"
| "cache_step hash config c Clear = cache_clear c"

definition cache_inv :: "cache_config \<Rightarrow> response_cache \<Rightarrow> bool" where
  "cache_inv config c \<longleftrightarrow>
     distinct (map fst (rcache c)) \<and> length (rcache c) \<le> max 1 (max_entries config)"

lemma length_update: "length (AList.update k v xs) \<le> Suc (length xs)"
  by (induction xs) auto

lemma length_update_old: "k \<in> fst ` set xs \<Longrightarrow> length (AList.update k v xs) = length xs"
  by (induction xs) auto

lemma length_delete: "length (AList.delete k xs) \<le> length xs"
  by (simp add: AList.delete_eq)

lemma cache_inv_step: "cache_inv config c \<Longrightarrow> cache_inv config (cache_step hash config c e)"
proof (cases e)
  case (Lookup now rq)
  assume i: "cache_inv config c"
  then have "length (AList.delete k (rcache c)) \<le> max 1 (max_entries config)" for k
    using length_delete [of k "rcache c"] by (simp add: cache_inv_def)
  moreover have "map_of (rcache c) k = Some x \<Longrightarrow> length (AList.update k v (rcache c)) = length (rcache c)"
    for k x v by (rule length_update_old) (force dest: map_of_SomeD)
  ultimately show ?thesis using i Lookup
    by (auto simp: cache_inv_def lookup_def Let_def distinct_update distinct_delete split: option.splits)
next
  case (Store now rq rs)
  assume i: "cache_inv config c"
  let ?live = "filter (\<lambda>(_, e). duration_since now (ce_created_at e) < ttl config) (rcache c)"
  let ?kept = "evict (max_entries config) ?live"
  have d: "distinct (map fst ?kept)"
    using i by (intro evict_distinct) (auto simp: cache_inv_def distinct_map_filter)
  have "length ?kept < max 1 (max_entries config)"
    using evict_length [of "max_entries config" ?live] by auto
  then have "length (AList.update k v ?kept) \<le> max 1 (max_entries config)" for k v
    using length_update [of k v ?kept] by linarith
  with d i Store show ?thesis
    by (simp add: cache_inv_def store_def Let_def distinct_update)
qed (simp add: cache_inv_def cache_clear_def)

interpretation cache: component "cache_step hash config" "cache_inv config" for hash config
  by unfold_locales (rule cache_inv_step)

abbreviation cache_run ::
  "(string \<Rightarrow> string) \<Rightarrow> cache_config \<Rightarrow> cache_event list \<Rightarrow> response_cache" where
  "cache_run hash config es \<equiv> foldl (cache_step hash config) cache_new es"

lemma cache_inv_run: "cache_inv config (cache_run hash config es)"
  by (intro cache.inv_run) (simp add: cache_inv_def cache_new_def)

text \<open>The last answer that was stored under a key, and when.\<close>

fun last_store ::
  "(string \<Rightarrow> string) \<Rightarrow> string \<Rightarrow> cache_event list \<Rightarrow> (instant \<times> completion_response) option" where
  "last_store hash k [] = None"
| "last_store hash k (e # es) =
     (case last_store hash k es of
        Some x \<Rightarrow> Some x
      | None \<Rightarrow>
          (case e of
             Store t rq rs \<Rightarrow>
               if rq_tools rq = [] \<and> cache_key hash rq = k then Some (t, rs) else None
           | _ \<Rightarrow> None))"

lemma last_store_snoc:
  "last_store hash k (es @ [e]) =
     (case e of
        Store t rq rs \<Rightarrow>
          if rq_tools rq = [] \<and> cache_key hash rq = k then Some (t, rs) else last_store hash k es
      | _ \<Rightarrow> last_store hash k es)"
  by (induction es) (auto split: cache_event.splits option.splits)

definition from_stores :: "(string \<Rightarrow> string) \<Rightarrow> cache_event list \<Rightarrow> response_cache \<Rightarrow> bool" where
  "from_stores hash es c \<longleftrightarrow>
     (\<forall>k e. map_of (rcache c) k = Some e \<longrightarrow>
        last_store hash k es = Some (ce_created_at e, ce_response e))"

lemma map_of_filter_distinct:
  "distinct (map fst xs) \<Longrightarrow> map_of (filter P xs) k = Some e \<Longrightarrow> map_of xs k = Some e"
  by (metis distinct_map_filter filter_is_subset map_of_eq_Some_iff subsetD)

lemma store_map_of:
  assumes "distinct (map fst (rcache c))" "rq_tools rq = []"
    and "map_of (rcache (store hash config now rq rs c)) k = Some e"
  shows "(k = cache_key hash rq \<and> ce_created_at e = now \<and> ce_response e = rs) \<or>
         (k \<noteq> cache_key hash rq \<and> map_of (rcache c) k = Some e)"
  using assms(2,3) map_of_filter_distinct [OF assms(1) evict_map_of]
  by (auto simp: store_def Let_def update_conv' split: if_splits)

lemma from_stores_run: "from_stores hash es (cache_run hash config es)"
proof (induction es rule: rev_induct)
  case Nil
  then show ?case by (simp add: from_stores_def cache_new_def)
next
  case (snoc e es)
  let ?c = "cache_run hash config es"
  have d: "distinct (map fst (rcache ?c))" using cache_inv_run by (auto simp: cache_inv_def)
  show ?case
  proof (cases e)
    case (Lookup now rq)
    with snoc show ?thesis
      by (auto simp: from_stores_def last_store_snoc lookup_def Let_def delete_conv'
          update_conv' split: option.splits if_splits)
  next
    case (Store now rq rs)
    show ?thesis
    proof (cases "rq_tools rq = []")
      case True
      from Store snoc store_map_of [OF d True, of hash config now rs] show ?thesis
        unfolding from_stores_def last_store_snoc using True
        by (simp del: One_nat_def) metis
    next
      case False
      with Store snoc show ?thesis by (simp add: from_stores_def last_store_snoc store_def)
    qed
  qed (simp add: from_stores_def cache_clear_def)
qed

text \<open>
  C22. Whatever was stored, looked up or cleared before, in whatever order: a hit is for a
  request without tools, and its answer is the one most recently stored under the request's
  key, less than the time to live ago; and the table never holds more entries than its
  capacity (or one, if the capacity is zero).
\<close>

theorem cache_hit_fresh:
  assumes "fst (lookup hash config now rq (cache_run hash config es)) = Some rs"
  shows "rq_tools rq = [] \<and>
         (\<exists>t. last_store hash (cache_key hash rq) es = Some (t, rs) \<and>
              duration_since now t < ttl config) \<and>
         cache_len (cache_run hash config es) \<le> max 1 (max_entries config)"
  using assms from_stores_run [of hash es config] cache_inv_run [of config hash es]
  by (auto simp: lookup_def from_stores_def cache_inv_def cache_len_def Let_def
      split: if_splits option.splits)

definition sample_cache_request :: completion_request where
  "sample_cache_request =
     \<lparr>rq_model_id = ''m'', rq_messages = [message_text User ''hi''], rq_max_tokens = None,
      rq_temperature = None, rq_system = None, rq_tools = [], rq_thinking_budget = None,
      rq_parallel_tool_calls = None, rq_seed = None, rq_response_format = None,
      rq_reasoning_effort = None\<rparr>"

definition sample_cache_response :: completion_response where
  "sample_cache_response =
     \<lparr>rs_content = ''hello'', rs_tool_calls = [],
      rs_usage = \<lparr>us_input_tokens = 1, us_output_tokens = 1, us_cache_read_tokens = None,
                  us_cache_write_tokens = None\<rparr>,
      rs_finish_reason = Stop\<rparr>"

theorem cache_hit_fresh_witness:
  "\<exists>t. last_store (\<lambda>x. x) (cache_key (\<lambda>x. x) sample_cache_request)
         [Store 5 sample_cache_request sample_cache_response] = Some (t, sample_cache_response) \<and>
       duration_since 9 t < ttl default_cache_config"
proof -
  have "fst (lookup (\<lambda>x. x) default_cache_config 9 sample_cache_request
      (cache_run (\<lambda>x. x) default_cache_config [Store 5 sample_cache_request sample_cache_response])) =
      Some sample_cache_response"
    by (simp add: lookup_def store_def cache_new_def sample_cache_request_def evict_room
        default_cache_config_def duration_since_def secs_def Let_def)
  from cache_hit_fresh [OF this] show ?thesis by blast
qed

text \<open>
  An answer that is stored is found again: a lookup for a request with the same key before
  its time to live is over returns it, whatever other entries the table has, full or not, and
  a lookup after that time finds nothing and drops the entry.
\<close>

lemma store_then_lookup:
  assumes "rq_tools rq = []" "rq_tools rq' = []" "cache_key hash rq' = cache_key hash rq"
  shows "fst (lookup hash config now' rq' (store hash config now rq rs c)) =
           (if duration_since now' now < ttl config then Some rs else None) \<and>
         (\<not> duration_since now' now < ttl config \<longrightarrow>
            map_of (rcache (snd (lookup hash config now' rq' (store hash config now rq rs c))))
              (cache_key hash rq) = None)"
  using assms by (simp add: lookup_def store_def Let_def update_conv' delete_conv')

section \<open>Limits of the key\<close>

text \<open>
  The parts of the key are joined without their lengths: two different conversations can have
  the same key material. The tool budget, the seed and the other options are not part of it.
\<close>

lemma key_material_collision:
  "key_material (sample_cache_request\<lparr>rq_messages := [message_text User ''a|User:b'']\<rparr>) =
   key_material (sample_cache_request\<lparr>rq_messages := [message_text User ''a'', message_text User ''b'']\<rparr>)"
  by (simp add: key_material_def sample_cache_request_def message_text_def bar_def)

lemma key_material_ignores_seed:
  "key_material (rq\<lparr>rq_seed := s, rq_response_format := f, rq_thinking_budget := b\<rparr>) = key_material rq"
  by (simp add: key_material_def)

text \<open>At capacity, storing an existing key anew evicts another entry as well.\<close>

lemma zero_capacity_stores:
  "rq_tools rq = [] \<Longrightarrow> cache_len (store hash \<lparr>ttl = 10, max_entries = 0\<rparr> 0 rq rs cache_new) = 1"
  by (simp add: store_def cache_new_def cache_len_def Let_def evict.simps)

end
