(* ===== verification/Context.thy ===== *)
theory Context
  imports Core_Types
begin

text \<open>
  The context engine of the runtime, \<open>frankclaw-runtime/src/context.rs\<close>, with the template
  renderer of \<open>prompts.rs\<close>: the token estimates, the repair of the pairing of tool calls and
  results, the merge of messages, and the pruning of a conversation to the budget of a model.
  The loops over an index are functions with a measure, proved equal to structural ones.
  The quotients by 3.5 and by 1.2, which the code computes in \<open>f64\<close>, are the exact ones. The
  theorems show that the messages sent to a model never contain an orphaned tool result,
  what is kept, and how far the pruning goes.
\<close>

section \<open>Budgets (context.rs)\<close>

definition min_keep_messages :: nat where
  "min_keep_messages = 4"

definition system_overhead_tokens :: u32 where
  "system_overhead_tokens = 2048"

text \<open>\<open>(len / 3.5).ceil() as u32\<close>; the conversion saturates.\<close>

definition estimate_tokens :: "string \<Rightarrow> u32" where
  "estimate_tokens text = of_nat (min ((2 * length text + 6) div 7) (2 ^ 32 - 1))"

definition estimate_messages_tokens :: "completion_message list \<Rightarrow> u32" where
  "estimate_messages_tokens messages =
     sum_list (map (\<lambda>m. estimate_tokens (msg_content m) + 4) messages)"

definition available_input_budget :: "model_def \<Rightarrow> string option \<Rightarrow> u32" where
  "available_input_budget model system_prompt =
     (let system_tokens = (case system_prompt of Some s \<Rightarrow> estimate_tokens s | None \<Rightarrow> 0);
          overhead = system_overhead_tokens + system_tokens;
          raw_budget = sat_sub (sat_sub (md_context_window model) (md_max_output_tokens model)) overhead
      in of_nat (unat raw_budget * 5 div 6))"

lemma estimate_tokens_bounds:
  assumes "length text < 2 ^ 32"
  shows "2 * length text \<le> 7 * unat (estimate_tokens text) \<and>
         7 * unat (estimate_tokens text) < 2 * length text + 7"
proof -
  have "(2 * length text + 6) div 7 \<le> 2 ^ 32 - 1" using assms by simp
  then have "unat (estimate_tokens text) = (2 * length text + 6) div 7"
    unfolding estimate_tokens_def by (subst unat_of_nat_small) (simp_all add: min_def)
  moreover have "2 * n \<le> 7 * ((2 * n + 6) div 7) \<and> 7 * ((2 * n + 6) div 7) < 2 * n + 7" for n :: nat
    by presburger
  ultimately show ?thesis by metis
qed

section \<open>The pairing of tool calls and results (context.rs)\<close>

definition has_call :: "completion_message \<Rightarrow> bool" where
  "has_call m \<longleftrightarrow> msg_tool_calls m \<noteq> [] \<or> contains (msg_content m) ''[tool_call:''"

text \<open>What may precede a tool result: an assistant message with a call, or another result.\<close>

definition may_precede :: "completion_message \<Rightarrow> bool" where
  "may_precede p \<longleftrightarrow> (msg_role p = Assistant \<and> has_call p) \<or> msg_role p = Tool"

text \<open>The message at \<open>i\<close> is a tool result without such a predecessor.\<close>

definition orphan_at :: "nat \<Rightarrow> completion_message list \<Rightarrow> bool" where
  "orphan_at i messages \<longleftrightarrow>
     msg_role (messages ! i) = Tool \<and>
     (let has_preceding_tool_call =
            (0 < i \<and> msg_role (messages ! (i - 1)) = Assistant \<and> has_call (messages ! (i - 1)));
          follows_valid_tool = (0 < i \<and> msg_role (messages ! (i - 1)) = Tool)
      in \<not> has_preceding_tool_call \<and> \<not> follows_valid_tool)"

function repair_scan :: "nat \<Rightarrow> completion_message list \<Rightarrow> completion_message list" where
  "repair_scan i messages =
     (if i < length messages
      then if orphan_at i messages
           then repair_scan i (remove_at i messages)
           else repair_scan (Suc i) messages
      else messages)"
  by pat_completeness auto
termination by (relation "measure (\<lambda>(i, ms). length ms - i)") auto

declare repair_scan.simps [simp del]

definition pop_calls :: "completion_message list \<Rightarrow> completion_message list" where
  "pop_calls messages =
     rev (dropWhile (\<lambda>m. msg_role m = Assistant \<and> has_call m) (rev messages))"

definition repair_tool_pairing :: "completion_message list \<Rightarrow> completion_message list" where
  "repair_tool_pairing messages = pop_calls (repair_scan 0 messages)"

text \<open>The scan as a structural recursion over the rest, given the message before it.\<close>

fun repair_from :: "completion_message option \<Rightarrow> completion_message list \<Rightarrow> completion_message list" where
  "repair_from prev [] = []"
| "repair_from prev (m # ms) =
     (if msg_role m = Tool \<and> \<not> (\<exists>p. prev = Some p \<and> may_precede p)
      then repair_from prev ms else m # repair_from (Some m) ms)"

fun paired_from :: "completion_message option \<Rightarrow> completion_message list \<Rightarrow> bool" where
  "paired_from prev [] \<longleftrightarrow> True"
| "paired_from prev (m # ms) \<longleftrightarrow>
     (msg_role m = Tool \<longrightarrow> (\<exists>p. prev = Some p \<and> may_precede p)) \<and> paired_from (Some m) ms"

abbreviation tools_paired :: "completion_message list \<Rightarrow> bool" where
  "tools_paired \<equiv> paired_from None"

definition message_before :: "nat \<Rightarrow> completion_message list \<Rightarrow> completion_message option" where
  "message_before i ms = (if i = 0 then None else Some (ms ! (i - 1)))"

lemma repair_scan_from:
  "i \<le> length ms \<Longrightarrow>
     repair_scan i ms = take i ms @ repair_from (message_before i ms) (drop i ms)"
proof (induction i ms rule: repair_scan.induct)
  case (1 i ms)
  show ?case
  proof (cases "i < length ms")
    case False
    with "1.prems" have "i = length ms" by simp
    then show ?thesis by (simp add: repair_scan.simps [of "length ms" ms])
  next
    case True
    then have d: "drop i ms = ms ! i # drop (Suc i) ms" by (rule Cons_nth_drop_Suc [symmetric])
    have o: "orphan_at i ms \<longleftrightarrow> msg_role (ms ! i) = Tool \<and>
        \<not> (\<exists>p. message_before i ms = Some p \<and> may_precede p)"
      by (auto simp: orphan_at_def message_before_def may_precede_def)
    show ?thesis
    proof (cases "orphan_at i ms")
      case orphan: True
      have "repair_scan i ms = repair_scan i (remove_at i ms)"
        using True orphan by (subst repair_scan.simps) simp
      also have "\<dots> = take i (remove_at i ms) @
          repair_from (message_before i (remove_at i ms)) (drop i (remove_at i ms))"
        using True orphan by (intro "1.IH"(1)) (auto simp: remove_at_def)
      also have "\<dots> = take i ms @ repair_from (message_before i ms) (drop (Suc i) ms)"
        using True by (auto simp: remove_at_def message_before_def nth_append)
      finally show ?thesis using orphan o d by simp
    next
      case False
      have "repair_scan i ms = repair_scan (Suc i) ms"
        using True False by (subst repair_scan.simps) simp
      also have "\<dots> = take (Suc i) ms @
          repair_from (message_before (Suc i) ms) (drop (Suc i) ms)"
        using True False by (intro "1.IH"(2)) auto
      also have "message_before (Suc i) ms = Some (ms ! i)" by (simp add: message_before_def)
      also have "take (Suc i) ms = take i ms @ [ms ! i]"
        using True by (rule take_Suc_conv_app_nth)
      finally show ?thesis
        unfolding d repair_from.simps using False [unfolded o]
        by (simp only: if_False append.assoc append.simps)
    qed
  qed
qed

lemma repair_scan_0: "repair_scan 0 ms = repair_from None ms"
  using repair_scan_from [of 0 ms] by (simp add: message_before_def)

lemma repair_from_paired: "paired_from prev (repair_from prev ms)"
  by (induction prev ms rule: repair_from.induct) auto

lemma repair_from_id: "paired_from prev ms \<Longrightarrow> repair_from prev ms = ms"
  by (induction prev ms rule: paired_from.induct) auto

lemma repair_from_subseq: "subseq (repair_from prev ms) ms"
  by (induction prev ms rule: repair_from.induct) auto

lemma repair_from_others:
  "filter (\<lambda>m. msg_role m = User \<or> msg_role m = System) (repair_from prev ms) =
   filter (\<lambda>m. msg_role m = User \<or> msg_role m = System) ms"
  by (induction prev ms rule: repair_from.induct) auto

lemma paired_append: "paired_from prev (xs @ ys) \<Longrightarrow> paired_from prev xs"
  by (induction prev xs rule: paired_from.induct) auto

lemma pop_calls_prefix: "\<exists>r. ms = pop_calls ms @ r \<and> (\<forall>m\<in>set r. msg_role m = Assistant \<and> has_call m)"
proof -
  let ?P = "\<lambda>m. msg_role m = Assistant \<and> has_call m"
  have "ms = rev (takeWhile ?P (rev ms) @ dropWhile ?P (rev ms))" by simp
  then have "ms = pop_calls ms @ rev (takeWhile ?P (rev ms))"
    by (simp only: pop_calls_def rev_append)
  moreover have "\<forall>m\<in>set (rev (takeWhile ?P (rev ms))). ?P m" by (auto dest: set_takeWhileD)
  ultimately show ?thesis by blast
qed

lemma pop_calls_last: "pop_calls ms \<noteq> [] \<Longrightarrow> \<not> (msg_role (last (pop_calls ms)) = Assistant \<and> has_call (last (pop_calls ms)))"
  unfolding pop_calls_def by (metis (mono_tags, lifting) dropWhile_not_hd last_rev rev_is_Nil_conv)

lemma pop_calls_paired: "paired_from prev ms \<Longrightarrow> paired_from prev (pop_calls ms)"
  using pop_calls_prefix [of ms] paired_append by metis

lemma repair_paired: "tools_paired (repair_tool_pairing ms)"
  by (simp add: repair_tool_pairing_def repair_scan_0 pop_calls_paired repair_from_paired)

lemma pop_calls_id:
  "ms = [] \<or> \<not> (msg_role (last ms) = Assistant \<and> has_call (last ms)) \<Longrightarrow> pop_calls ms = ms"
  by (cases ms rule: rev_cases) (auto simp: pop_calls_def)

text \<open>
  After the repair every tool result follows an assistant message with a call, directly
  or through other results, and the conversation does not end with an unanswered call; the
  repair only drops messages, never a user or system message, and leaves a conversation that
  is already in this form as it is (so repairing twice is repairing once).
\<close>

lemma repair_restores_pairing:
  "tools_paired (repair_tool_pairing ms) \<and>
   (repair_tool_pairing ms \<noteq> [] \<longrightarrow>
      \<not> (msg_role (last (repair_tool_pairing ms)) = Assistant \<and>
         has_call (last (repair_tool_pairing ms)))) \<and>
   subseq (repair_tool_pairing ms) ms \<and>
   filter (\<lambda>m. msg_role m = User \<or> msg_role m = System) (repair_tool_pairing ms) =
     filter (\<lambda>m. msg_role m = User \<or> msg_role m = System) ms \<and>
   repair_tool_pairing (repair_tool_pairing ms) = repair_tool_pairing ms"
proof (intro conjI impI)
  let ?us = "\<lambda>m. msg_role m = User \<or> msg_role m = System"
  let ?r = "repair_from None ms"
  obtain r where r: "?r = pop_calls ?r @ r" "\<forall>m\<in>set r. msg_role m = Assistant \<and> has_call m"
    using pop_calls_prefix by blast
  have eq: "repair_tool_pairing ms = pop_calls ?r"
    by (simp add: repair_tool_pairing_def repair_scan_0)
  show paired: "tools_paired (repair_tool_pairing ms)" by (rule repair_paired)
  show last: "\<not> (msg_role (last (repair_tool_pairing ms)) = Assistant \<and>
         has_call (last (repair_tool_pairing ms)))" if "repair_tool_pairing ms \<noteq> []"
    using that unfolding eq by (rule pop_calls_last)
  have "subseq (pop_calls ?r) ?r" using r(1) by (metis list_emb_append2 prefixI prefix_imp_subseq)
  then show "subseq (repair_tool_pairing ms) ms"
    unfolding eq using repair_from_subseq subseq_order.trans by blast
  have "filter ?us ?r = filter ?us ms" by (rule repair_from_others)
  moreover have "filter ?us ?r = filter ?us (pop_calls ?r)"
    using arg_cong [OF r(1), of "filter ?us"] r(2) by (simp add: filter_empty_conv)
  ultimately show "filter ?us (repair_tool_pairing ms) = filter ?us ms"
    unfolding eq by simp
  show "repair_tool_pairing (repair_tool_pairing ms) = repair_tool_pairing ms"
    using paired last repair_from_id [OF paired]
    by (subst repair_tool_pairing_def) (auto simp: repair_scan_0 intro: pop_calls_id)
qed

lemma repair_restores_pairing_witness:
  "\<not> (msg_role (last (repair_tool_pairing
         [tool_result ''c1'' ''old'', message_text User ''hi'',
          assistant_tool_calls [] [\<lparr>tc_id = ''c2'', tc_name = ''f'', tc_arguments = []\<rparr>]])) = Assistant \<and>
       has_call (last (repair_tool_pairing
         [tool_result ''c1'' ''old'', message_text User ''hi'',
          assistant_tool_calls [] [\<lparr>tc_id = ''c2'', tc_name = ''f'', tc_arguments = []\<rparr>]])))"
  using repair_restores_pairing
    [of "[tool_result ''c1'' ''old'', message_text User ''hi'',
          assistant_tool_calls [] [\<lparr>tc_id = ''c2'', tc_name = ''f'', tc_arguments = []\<rparr>]]"]
  by (auto simp: tool_result_def message_text_def assistant_tool_calls_def)

section \<open>Merging neighbours (context.rs)\<close>

definition mergeable :: "completion_message \<Rightarrow> completion_message \<Rightarrow> bool" where
  "mergeable p m \<longleftrightarrow>
     msg_role m = msg_role p \<and> msg_role m \<noteq> Tool \<and> msg_tool_calls p = [] \<and> msg_tool_calls m = []"

definition absorb :: "completion_message \<Rightarrow> completion_message \<Rightarrow> completion_message" where
  "absorb p m = p\<lparr>msg_content := msg_content p @ [newline] @ msg_content m\<rparr>"

function merge_scan :: "nat \<Rightarrow> completion_message list \<Rightarrow> completion_message list" where
  "merge_scan i messages =
     (if i < length messages
      then if mergeable (messages ! (i - 1)) (messages ! i)
           then merge_scan i
                  ((remove_at i messages)[i - 1 := absorb (messages ! (i - 1)) (messages ! i)])
           else merge_scan (Suc i) messages
      else messages)"
  by pat_completeness auto
termination by (relation "measure (\<lambda>(i, ms). length ms - i)") auto

declare merge_scan.simps [simp del]

definition merge_consecutive_same_role :: "completion_message list \<Rightarrow> completion_message list" where
  "merge_consecutive_same_role messages = merge_scan 1 messages"

fun merge_from :: "completion_message \<Rightarrow> completion_message list \<Rightarrow> completion_message list" where
  "merge_from p [] = [p]"
| "merge_from p (m # ms) =
     (if mergeable p m then merge_from (absorb p m) ms else p # merge_from m ms)"

fun normal :: "completion_message list \<Rightarrow> bool" where
  "normal (a # b # ms) \<longleftrightarrow> \<not> mergeable a b \<and> normal (b # ms)"
| "normal _ \<longleftrightarrow> True"

lemma merge_scan_from:
  "0 < i \<Longrightarrow> i \<le> length ms \<Longrightarrow>
     merge_scan i ms = take (i - 1) ms @ merge_from (ms ! (i - 1)) (drop i ms)"
proof (induction i ms rule: merge_scan.induct)
  case (1 i ms)
  from "1.prems"(1) obtain j where j: "i = Suc j" by (cases i) auto
  show ?case
  proof (cases "i < length ms")
    case False
    with "1.prems" j have "length ms = Suc j" by simp
    moreover from this have "take j ms @ [ms ! j] = ms"
      using take_Suc_conv_app_nth [of j ms] by simp
    ultimately show ?thesis using j by (subst merge_scan.simps) simp
  next
    case True
    then have d: "drop i ms = ms ! i # drop (Suc i) ms" by (rule Cons_nth_drop_Suc [symmetric])
    show ?thesis
    proof (cases "mergeable (ms ! (i - 1)) (ms ! i)")
      case m: True
      let ?ms = "(remove_at i ms)[i - 1 := absorb (ms ! (i - 1)) (ms ! i)]"
      have "merge_scan i ms = merge_scan i ?ms"
        using True m by (subst merge_scan.simps) simp
      also have "\<dots> = take (i - 1) ?ms @ merge_from (?ms ! (i - 1)) (drop i ?ms)"
        using True m "1.prems" by (intro "1.IH"(1)) auto
      also have "take (i - 1) ?ms = take j ms" using True j by (simp add: remove_at_def)
      also have "?ms ! (i - 1) = absorb (ms ! (i - 1)) (ms ! i)"
        using True j by (simp add: remove_at_def)
      also have "drop i ?ms = drop (Suc i) ms" using True j by (simp add: remove_at_def)
      finally show ?thesis using m d j by simp
    next
      case False
      have "merge_scan i ms = merge_scan (Suc i) ms"
        using True False by (subst merge_scan.simps) simp
      also have "\<dots> = take i ms @ merge_from (ms ! i) (drop (Suc i) ms)"
        using True False "1.IH"(2) by simp
      also have "take i ms = take j ms @ [ms ! j]"
        using True j by (simp add: take_Suc_conv_app_nth)
      finally show ?thesis using False d j by simp
    qed
  qed
qed

lemma merge_cases:
  "merge_consecutive_same_role [] = []"
  "merge_consecutive_same_role (m # ms) = merge_from m ms"
  using merge_scan_from [of 1 "m # ms"]
  by (simp_all add: merge_consecutive_same_role_def merge_scan.simps [of "Suc 0" "[]"])

lemma absorb_fields [simp]:
  "msg_role (absorb p m) = msg_role p" "msg_tool_calls (absorb p m) = msg_tool_calls p"
  "msg_content (absorb p m) = msg_content p @ [newline] @ msg_content m"
  by (simp_all add: absorb_def)

lemma merge_from_ne [simp]: "merge_from p ms \<noteq> []"
  by (induction p ms rule: merge_from.induct) auto

lemma merge_from_hd: "msg_role (hd (merge_from p ms)) = msg_role p \<and>
    msg_tool_calls (hd (merge_from p ms)) = msg_tool_calls p"
  by (induction p ms rule: merge_from.induct) auto

lemma normal_Cons: "ms \<noteq> [] \<Longrightarrow> normal (p # ms) \<longleftrightarrow> \<not> mergeable p (hd ms) \<and> normal ms"
  by (cases ms) auto

lemma merge_from_normal: "normal (merge_from p ms)"
proof (induction p ms rule: merge_from.induct)
  case (2 p m ms)
  have "mergeable p (hd (merge_from m ms)) \<longleftrightarrow> mergeable p m"
    using merge_from_hd [of m ms] by (simp add: mergeable_def)
  with 2 show ?case by (simp add: normal_Cons)
qed simp

lemma merge_from_id: "normal (p # ms) \<Longrightarrow> merge_from p ms = p # ms"
  by (induction p ms rule: merge_from.induct) auto

lemma merge_from_text:
  "join [newline] (map msg_content (merge_from p ms)) = join [newline] (map msg_content (p # ms))"
proof (induction p ms rule: merge_from.induct)
  case (2 p m ms)
  then show ?case by (cases ms) (auto simp: join_Cons)
qed simp

lemma contains_append2: "contains b p \<Longrightarrow> contains (a @ b) p"
  unfolding contains_iff by (metis append.assoc)

lemma absorb_may_precede: "mergeable p m \<Longrightarrow> may_precede m \<Longrightarrow> may_precede (absorb p m)"
  using contains_append2 [of "msg_content m" "''[tool_call:''" "msg_content p @ [newline]"]
  by (auto simp: mergeable_def may_precede_def has_call_def)

lemma paired_weaken:
  "paired_from (Some m) ms \<Longrightarrow> (may_precede m \<longrightarrow> may_precede p) \<Longrightarrow> paired_from (Some p) ms"
  by (cases ms) auto

lemma merge_from_paired:
  "(msg_role p = Tool \<longrightarrow> (\<exists>q. prev = Some q \<and> may_precede q)) \<Longrightarrow> paired_from (Some p) ms \<Longrightarrow>
     paired_from prev (merge_from p ms)"
proof (induction p ms arbitrary: prev rule: merge_from.induct)
  case (2 p m ms)
  show ?case
  proof (cases "mergeable p m")
    case True
    have "paired_from (Some (absorb p m)) ms"
      using "2.prems"(2) absorb_may_precede [OF True] by (auto intro: paired_weaken)
    with True 2 show ?thesis by simp
  next
    case False
    with 2 show ?thesis by simp
  qed
qed simp

lemma merge_paired: "tools_paired ms \<Longrightarrow> tools_paired (merge_consecutive_same_role ms)"
  by (cases ms) (auto simp: merge_cases intro: merge_from_paired)

text \<open>
  Merging leaves no two neighbours that could still be merged, keeps the text of the
  conversation (the contents joined by line feeds are the same), keeps tool results paired,
  and changes nothing when run again.
\<close>

lemma merge_normalises:
  "normal (merge_consecutive_same_role ms) \<and>
   join [newline] (map msg_content (merge_consecutive_same_role ms)) =
     join [newline] (map msg_content ms) \<and>
   (tools_paired ms \<longrightarrow> tools_paired (merge_consecutive_same_role ms)) \<and>
   merge_consecutive_same_role (merge_consecutive_same_role ms) = merge_consecutive_same_role ms"
proof (intro conjI impI)
  show n: "normal (merge_consecutive_same_role ms)"
    by (cases ms) (simp_all add: merge_cases merge_from_normal)
  show "join [newline] (map msg_content (merge_consecutive_same_role ms)) =
      join [newline] (map msg_content ms)"
    by (cases ms) (simp_all add: merge_cases merge_from_text)
  show "merge_consecutive_same_role (merge_consecutive_same_role ms) = merge_consecutive_same_role ms"
    using n by (cases "merge_consecutive_same_role ms") (simp_all add: merge_cases merge_from_id)
qed (rule merge_paired)

lemma merge_normalises_witness:
  "tools_paired (merge_consecutive_same_role
     [message_text Assistant ''a'', message_text Assistant ''[tool_call:1]'', tool_result ''1'' ''r''])"
  using merge_normalises
    [of "[message_text Assistant ''a'', message_text Assistant ''[tool_call:1]'', tool_result ''1'' ''r'']"]
  by (simp add: message_text_def tool_result_def may_precede_def has_call_def)

text \<open>The images of a message that is merged into the one before it are lost.\<close>

lemma merge_drops_images:
  "merge_consecutive_same_role [message_text User ''look'', message_with_images ''this'' [img]] =
     [message_text User (''look'' @ [newline] @ ''this'')]"
  by (simp add: merge_cases mergeable_def absorb_def message_text_def message_with_images_def)

section \<open>Pruning (context.rs, prompts.rs)\<close>

record context_window =
  cw_messages :: "completion_message list"
  cw_estimated_tokens :: u32
  cw_pruned_count :: nat
  cw_compacted :: bool

definition render :: "string \<Rightarrow> (string \<times> string) list \<Rightarrow> string" where
  "render template vars =
     foldl (\<lambda>result (key, value). str_replace (''{'' @ key @ ''}'') value result) template vars"

definition context_compaction :: string where
  "context_compaction =
     ''[Previous conversation summary]'' @ [newline] @
     ''({pruned_count} earlier messages were pruned to fit the context window. The conversation continues from this point.)''"

definition compaction_marker :: "nat \<Rightarrow> completion_message" where
  "compaction_marker pruned_count =
     message_text User (render context_compaction [(''pruned_count'', show_nat pruned_count)])"

text \<open>
  The two nested loops: drop the first message, then the tool results that are now at the
  front; the number of dropped messages is counted.
\<close>

function prune_loop :: "u32 \<Rightarrow> completion_message list \<Rightarrow> nat \<Rightarrow> completion_message list \<times> nat" where
  "prune_loop budget kept pruned_count =
     (if budget < estimate_messages_tokens kept \<and> min_keep_messages < length kept
      then (let rest = tl kept; results = takeWhile (\<lambda>m. msg_role m = Tool) rest
            in prune_loop budget (drop (length results) rest) (pruned_count + 1 + length results))
      else (kept, pruned_count))"
  by pat_completeness auto
termination by (relation "measure (\<lambda>(_, kept, _). length kept)") (auto simp: Let_def)

declare prune_loop.simps [simp del]

definition optimize_context ::
  "completion_message list \<Rightarrow> model_def \<Rightarrow> string option \<Rightarrow> context_window" where
  "optimize_context messages model system_prompt =
     (let budget = available_input_budget model system_prompt;
          messages = merge_consecutive_same_role (repair_tool_pairing messages);
          total_tokens = estimate_messages_tokens messages
      in if total_tokens \<le> budget
         then \<lparr>cw_messages = messages, cw_estimated_tokens = total_tokens, cw_pruned_count = 0,
               cw_compacted = False\<rparr>
         else (let (kept, pruned_count) = prune_loop budget messages 0;
                   kept' = compaction_marker pruned_count # kept
               in \<lparr>cw_messages = kept', cw_estimated_tokens = estimate_messages_tokens kept',
                   cw_pruned_count = pruned_count, cw_compacted = 0 < pruned_count\<rparr>))"

lemma paired_drop:
  "paired_from prev ms \<Longrightarrow> n \<le> length ms \<Longrightarrow> drop n ms = [] \<or> msg_role (hd (drop n ms)) \<noteq> Tool \<Longrightarrow>
     n \<noteq> 0 \<Longrightarrow> paired_from q (drop n ms)"
proof (induction prev ms arbitrary: n rule: paired_from.induct)
  case (2 prev m ms)
  then show ?case
  proof (cases "n = 1")
    case True
    with 2 show ?thesis by (cases ms) auto
  next
    case False
    with 2 show ?thesis by (cases n) auto
  qed
qed simp

text \<open>
  What the pruning returns: the messages from the \<open>n\<close>-th on, which fit the budget or are at
  most the four that are always kept, and start with no tool result if anything was dropped;
  and the last message dropped, at \<open>j\<close>, together with the tool results after it, was dropped
  because from it on the messages were too many.
\<close>

definition pruned_to :: "u32 \<Rightarrow> completion_message list \<Rightarrow> nat \<Rightarrow> bool" where
  "pruned_to budget ms n \<longleftrightarrow>
     n = 0 \<or>
     ((drop n ms = [] \<or> msg_role (ms ! n) \<noteq> Tool) \<and>
      (\<exists>j<n. budget < estimate_messages_tokens (drop j ms) \<and> min_keep_messages < length (drop j ms) \<and>
         (\<forall>i. j < i \<longrightarrow> i < n \<longrightarrow> msg_role (ms ! i) = Tool)))"

definition prune_result :: "u32 \<Rightarrow> completion_message list \<Rightarrow> nat \<Rightarrow> bool" where
  "prune_result budget ms n \<longleftrightarrow>
     n \<le> length ms \<and> pruned_to budget ms n \<and>
     (estimate_messages_tokens (drop n ms) \<le> budget \<or> length (drop n ms) \<le> min_keep_messages)"

lemma prune_step:
  assumes "budget < estimate_messages_tokens (drop n ms)" "min_keep_messages < length (drop n ms)"
  obtains n' where "prune_loop budget (drop n ms) n = prune_loop budget (drop n' ms) n'"
    "n < n'" "n' \<le> length ms" "pruned_to budget ms n'"
proof -
  let ?P = "\<lambda>m. msg_role m = Tool"
  let ?rest = "drop (Suc n) ms"
  obtain k where kdef: "k = length (takeWhile ?P ?rest)" by simp
  have len: "n < length ms" using assms by (auto simp: min_keep_messages_def)
  have k: "k \<le> length ?rest" unfolding kdef by (rule length_takeWhile_le)
  then have bound: "Suc n + k \<le> length ms" using len by simp
  have step: "prune_loop budget (drop n ms) n = prune_loop budget (drop (Suc n + k) ms) (Suc n + k)"
    using assms by (subst prune_loop.simps) (simp add: Let_def drop_Suc tl_drop kdef add.commute)
  have tools: "msg_role (ms ! i) = Tool" if "n < i" "i < Suc n + k" for i
  proof -
    have "i - Suc n < length (takeWhile ?P ?rest)" using that kdef by simp
    from set_takeWhileD [OF nth_mem [OF this]] takeWhile_nth [OF this]
    have "msg_role (?rest ! (i - Suc n)) = Tool" by simp
    with that len show ?thesis by simp
  qed
  have "drop (Suc n + k) ms = [] \<or> msg_role (ms ! (Suc n + k)) \<noteq> Tool"
  proof (cases "k < length ?rest")
    case True
    then have "msg_role (?rest ! k) \<noteq> Tool" unfolding kdef by (rule nth_length_takeWhile)
    with True show ?thesis by simp
  qed simp
  moreover have "\<exists>j<Suc n + k. budget < estimate_messages_tokens (drop j ms) \<and>
      min_keep_messages < length (drop j ms) \<and>
      (\<forall>i. j < i \<longrightarrow> i < Suc n + k \<longrightarrow> msg_role (ms ! i) = Tool)"
    using assms tools by (intro exI [of _ n]) auto
  ultimately have "pruned_to budget ms (Suc n + k)"
    unfolding pruned_to_def by blast
  with step bound show ?thesis by (intro that [of "Suc n + k"]) simp_all
qed

lemma prune_loop_result:
  assumes "n \<le> length ms" "pruned_to budget ms n"
  shows "\<exists>n'. prune_loop budget (drop n ms) n = (drop n' ms, n') \<and> prune_result budget ms n'"
  using assms
proof (induction "length ms - n" arbitrary: n rule: less_induct)
  case less
  show ?case
  proof (cases "budget < estimate_messages_tokens (drop n ms) \<and> min_keep_messages < length (drop n ms)")
    case False
    then have "prune_loop budget (drop n ms) n = (drop n ms, n)"
      by (subst prune_loop.simps) auto
    with False less.prems show ?thesis
      by (intro exI [of _ n]) (auto simp: prune_result_def not_less)
  next
    case True
    then obtain n' where n': "prune_loop budget (drop n ms) n = prune_loop budget (drop n' ms) n'"
      "n < n'" "n' \<le> length ms" "pruned_to budget ms n'"
      using prune_step by blast
    then have "\<exists>m. prune_loop budget (drop n' ms) n' = (drop m ms, m) \<and> prune_result budget ms m"
      by (intro less.hyps) auto
    with n'(1) show ?thesis by simp
  qed
qed

lemma prune_paired:
  assumes "tools_paired ms" "prune_result budget ms n"
  shows "paired_from (Some (compaction_marker k)) (drop n ms)"
proof (cases "n = 0")
  case True
  with assms(1) show ?thesis by (cases ms) auto
next
  case False
  with assms show ?thesis
    by (intro paired_drop) (auto simp: prune_result_def pruned_to_def hd_drop_conv_nth)
qed

lemma optimize_context_paired: "tools_paired (cw_messages (optimize_context messages m system_prompt))"
proof -
  let ?ms = "merge_consecutive_same_role (repair_tool_pairing messages)"
  let ?budget = "available_input_budget m system_prompt"
  have paired: "tools_paired ?ms" by (intro merge_paired repair_paired)
  obtain n where n: "prune_loop ?budget ?ms 0 = (drop n ?ms, n)" "prune_result ?budget ?ms n"
    using prune_loop_result [of 0 ?ms ?budget] by (auto simp: pruned_to_def)
  have "msg_role (compaction_marker n) = User" by (simp add: compaction_marker_def message_text_def)
  with prune_paired [OF paired n(2)] have "tools_paired (compaction_marker n # drop n ?ms)" by simp
  with paired n show ?thesis by (simp add: optimize_context_def Let_def)
qed


end
