(* ===== verification/Sanitize.thy ===== *)
theory Sanitize
  imports Core_Types
begin

text \<open>
  The input sanitizer, \<open>frankclaw-core/src/sanitize.rs\<close>, on byte strings: the characters of a
  string are its UTF-8 decoding to code points, given here with the encoding and the proof
  that decoding inverts it. The theorems show which characters survive, that sanitizing twice
  is sanitizing once, and what the size check does not count.
\<close>

section \<open>UTF-8\<close>

definition byte :: "nat \<Rightarrow> char" where
  "byte n = char_of n"

definition encode_char :: "nat \<Rightarrow> string" where
  "encode_char c =
     (if c < 0x80 then [byte c]
      else if c < 0x800 then [byte (0xC0 + c div 64), byte (0x80 + c mod 64)]
      else if c < 0x10000
      then [byte (0xE0 + c div 4096), byte (0x80 + c div 64 mod 64), byte (0x80 + c mod 64)]
      else [byte (0xF0 + c div 262144), byte (0x80 + c div 4096 mod 64),
            byte (0x80 + c div 64 mod 64), byte (0x80 + c mod 64)])"

definition encode :: "nat list \<Rightarrow> string" where
  "encode cs = concat (map encode_char cs)"

text \<open>The code point that starts a valid string, and the number of its bytes.\<close>

definition low6 :: "char \<Rightarrow> nat" where
  "low6 b = of_char b mod 64"

definition decode_char :: "string \<Rightarrow> nat \<times> nat" where
  "decode_char s =
     (let b = of_char (s ! 0) in
      if b < 0x80 then (b, 1)
      else if b < 0xE0 then ((b - 0xC0) * 64 + low6 (s ! 1), 2)
      else if b < 0xF0 then ((b - 0xE0) * 4096 + low6 (s ! 2) + low6 (s ! 1) * 64, 3)
      else ((b - 0xF0) * 262144 + low6 (s ! 3) + low6 (s ! 2) * 64 + low6 (s ! 1) * 4096, 4))"

function decode :: "string \<Rightarrow> nat list" where
  "decode s =
     (if s = [] then []
      else (case decode_char s of (c, n) \<Rightarrow> c # decode (drop n s)))"
  by pat_completeness auto
termination
  by (relation "measure length") (auto simp: decode_char_def Let_def split: if_splits)

declare decode.simps [simp del]

definition valid_char :: "nat \<Rightarrow> bool" where
  "valid_char c \<longleftrightarrow> c < 0x110000 \<and> \<not> (0xD800 \<le> c \<and> c \<le> 0xDFFF)"

lemma of_char_byte: "n < 256 \<Longrightarrow> of_char (byte n) = (n :: nat)"
  by (simp add: byte_def)

lemma low6_byte: "n < 64 \<Longrightarrow> low6 (byte (128 + n)) = n"
proof -
  assume n: "n < 64"
  have "(128 + n) mod 64 = (n + 64 * 2) mod 64" by (simp add: add.commute)
  then have "(128 + n) mod 64 = n" using n by (simp only: mod_mult_self2 mod_less)
  with n show ?thesis by (simp add: low6_def of_char_byte)
qed

lemma encode_char_length: "length (encode_char c) =
    (if c < 0x80 then 1 else if c < 0x800 then 2 else if c < 0x10000 then 3 else 4)"
  by (simp add: encode_char_def)

lemma split_64: "c div 4096 * 4096 + c div 64 mod 64 * 64 + c mod 64 = (c :: nat)"
proof -
  have "c div 4096 = c div 64 div 64" by (simp add: div_mult2_eq)
  then have "c div 4096 * 64 + c div 64 mod 64 = c div 64" by simp
  then have "(c div 4096 * 64 + c div 64 mod 64) * 64 + c mod 64 = c" by simp
  then show ?thesis by (simp add: algebra_simps)
qed

lemma split_64_4:
  "c div 262144 * 262144 + c div 4096 mod 64 * 4096 + c div 64 mod 64 * 64 + c mod 64 = (c :: nat)"
proof -
  have "c div 262144 = c div 4096 div 64" by (simp add: div_mult2_eq)
  then have "c div 262144 * 64 + c div 4096 mod 64 = c div 4096" by simp
  then have "c div 262144 * 262144 + c div 4096 mod 64 * 4096 = c div 4096 * 4096" by simp
  with split_64 [of c] show ?thesis by simp
qed

lemma decode_encode_char:
  assumes "valid_char c"
  shows "decode_char (encode_char c @ s) = (c, length (encode_char c))"
proof -
  consider "c < 0x80" | "0x80 \<le> c" "c < 0x800" | "0x800 \<le> c" "c < 0x10000" | "0x10000 \<le> c"
    by linarith
  then show ?thesis
  proof cases
    case 2
    then have "c div 64 < 32" by simp
    with 2 show ?thesis
      by (simp add: encode_char_def decode_char_def Let_def low6_byte of_char_byte)
  next
    case 3
    then have "c div 4096 < 16" by simp
    with 3 split_64 [of c] show ?thesis
      by (simp add: encode_char_def decode_char_def Let_def low6_byte of_char_byte)
  next
    case 4
    with assms have "c div 262144 < 5" by (simp add: valid_char_def)
    with 4 split_64_4 [of c] show ?thesis
      by (simp add: encode_char_def decode_char_def Let_def low6_byte of_char_byte)
  qed (simp add: encode_char_def decode_char_def Let_def of_char_byte)
qed

lemma decode_Nil [simp]: "decode [] = []"
  by (simp add: decode.simps)

lemma decode_encode: "\<forall>c\<in>set cs. valid_char c \<Longrightarrow> decode (encode cs) = cs"
proof (induction cs)
  case (Cons c cs)
  have "encode_char c \<noteq> []" by (simp add: encode_char_def)
  with Cons show ?case
    by (subst decode.simps) (simp add: encode_def decode_encode_char)
qed (simp add: encode_def)

text \<open>A valid string is the encoding of code points; Rust's strings are always valid.\<close>

definition valid_utf8 :: "string \<Rightarrow> bool" where
  "valid_utf8 s \<longleftrightarrow> (\<exists>cs. (\<forall>c\<in>set cs. valid_char c) \<and> s = encode cs)"

text \<open>\<open>chars().take(n).collect()\<close>\<close>

definition take_chars :: "nat \<Rightarrow> string \<Rightarrow> string" where
  "take_chars n s = encode (take n (decode s))"

section \<open>Sanitizing (sanitize.rs)\<close>

definition max_prompt_bytes :: nat where
  "max_prompt_bytes = 2 * 1024 * 1024"

definition is_control :: "nat \<Rightarrow> bool" where
  "is_control c \<longleftrightarrow> c \<le> 0x1F \<or> (0x7F \<le> c \<and> c \<le> 0x9F)"

definition is_format_char :: "nat \<Rightarrow> bool" where
  "is_format_char c \<longleftrightarrow>
     c \<in> {0x00AD, 0x200B, 0x200C, 0x200D, 0x200E, 0x200F, 0x202A, 0x202B, 0x202C, 0x202D, 0x202E,
          0x2060, 0x2066, 0x2067, 0x2068, 0x2069, 0xFEFF, 0xFFF9, 0xFFFA, 0xFFFB, 0xFFFC}"

definition keep_char :: "nat \<Rightarrow> bool" where
  "keep_char c \<longleftrightarrow> (if c = 9 \<or> c = 10 \<or> c = 13 then True else \<not> is_control c \<and> \<not> is_format_char c)"

definition sanitize_for_prompt :: "string \<Rightarrow> string" where
  "sanitize_for_prompt input = encode (filter keep_char (decode input))"

definition wrap_untrusted_text :: "string \<Rightarrow> string" where
  "wrap_untrusted_text text =
     ''<untrusted-text>'' @ [newline] @ sanitize_for_prompt text @ [newline] @ ''</untrusted-text>''"

definition wrap_external_content :: "string \<Rightarrow> string \<Rightarrow> string" where
  "wrap_external_content source content =
     ''<external-content source='' @ [CHR 0x22] @ sanitize_for_prompt source @ [CHR 0x22] @ ''>'' @
     [newline] @ sanitize_for_prompt content @ [newline] @ ''</external-content>''"

text \<open>The loop returns at the first message that takes the total over the limit.\<close>

fun sizes_within :: "nat \<Rightarrow> completion_message list \<Rightarrow> bool" where
  "sizes_within sofar [] = True"
| "sizes_within sofar (m # ms) =
     (let sum = sofar + length (msg_content m)
      in if max_prompt_bytes < sum then False else sizes_within sum ms)"

definition check_prompt_size :: "completion_message list \<Rightarrow> string option \<Rightarrow> bool" where
  "check_prompt_size messages system =
     sizes_within (case system of Some s \<Rightarrow> length s | None \<Rightarrow> 0) messages"

lemma sanitize_encode:
  "\<forall>c\<in>set cs. valid_char c \<Longrightarrow> sanitize_for_prompt (encode cs) = encode (filter keep_char cs)"
  by (simp add: sanitize_for_prompt_def decode_encode)

lemma sanitize_decode:
  assumes "valid_utf8 s"
  shows "decode (sanitize_for_prompt s) = filter keep_char (decode s) \<and>
         valid_utf8 (sanitize_for_prompt s)"
proof -
  obtain cs where cs: "\<forall>c\<in>set cs. valid_char c" "s = encode cs"
    using assms by (auto simp: valid_utf8_def)
  then have "\<forall>c\<in>set (filter keep_char cs). valid_char c" by simp
  with cs show ?thesis
    by (auto simp: sanitize_encode decode_encode valid_utf8_def intro!: exI [of _ "filter keep_char cs"])
qed

lemma sanitize_length: "valid_utf8 s \<Longrightarrow> length (sanitize_for_prompt s) \<le> length s"
proof -
  assume "valid_utf8 s"
  then obtain cs where cs: "\<forall>c\<in>set cs. valid_char c" "s = encode cs"
    by (auto simp: valid_utf8_def)
  have "length (encode (filter keep_char cs)) \<le> length (encode cs)"
    by (induction cs) (auto simp: encode_def)
  with cs show ?thesis by (simp add: sanitize_encode)
qed

text \<open>
  The characters of a sanitized string are those of the input, in order, without the
  control characters (other than tab, line feed and carriage return) and the invisible format
  characters; the result is a valid string, never longer than the input, and sanitizing it
  again changes nothing.
\<close>

lemma sanitize_strips_controls:
  assumes "valid_utf8 s"
  shows "decode (sanitize_for_prompt s) = filter keep_char (decode s) \<and>
         (\<forall>c\<in>set (decode (sanitize_for_prompt s)).
            \<not> is_format_char c \<and> (is_control c \<longrightarrow> c = 9 \<or> c = 10 \<or> c = 13)) \<and>
         valid_utf8 (sanitize_for_prompt s) \<and>
         length (sanitize_for_prompt s) \<le> length s \<and>
         sanitize_for_prompt (sanitize_for_prompt s) = sanitize_for_prompt s"
proof -
  have "sanitize_for_prompt (sanitize_for_prompt s) = sanitize_for_prompt s"
    unfolding sanitize_for_prompt_def [of "sanitize_for_prompt s"]
    using sanitize_decode [OF assms] by (simp add: sanitize_for_prompt_def)
  moreover have "keep_char c \<Longrightarrow> \<not> is_format_char c \<and> (is_control c \<longrightarrow> c = 9 \<or> c = 10 \<or> c = 13)" for c
    by (auto simp: keep_char_def is_format_char_def split: if_splits)
  ultimately show ?thesis using sanitize_decode [OF assms] sanitize_length [OF assms] by auto
qed

lemma sanitize_strips_controls_witness:
  "decode (sanitize_for_prompt (encode [0x61, 0x202E, 0x1F600, 0x200B, 10, 7])) = [0x61, 0x1F600, 10]"
proof -
  have v: "\<forall>c\<in>set [0x61, 0x202E, 0x1F600, 0x200B, 10, 7]. valid_char c" by (simp add: valid_char_def)
  then have "valid_utf8 (encode [0x61, 0x202E, 0x1F600, 0x200B, 10, 7])"
    unfolding valid_utf8_def by blast
  from sanitize_strips_controls [OF this] show ?thesis
    unfolding decode_encode [OF v] by (simp add: keep_char_def is_control_def is_format_char_def)
qed

section \<open>The size check\<close>

lemma sizes_within_iff:
  "sizes_within sofar ms \<longleftrightarrow> ms = [] \<or> sofar + sum_list (map (length \<circ> msg_content) ms) \<le> max_prompt_bytes"
  by (induction sofar ms rule: sizes_within.induct) (auto simp: Let_def)

text \<open>With at least one message the check is exact; a system prompt alone is never checked.\<close>

lemma check_prompt_size_iff:
  "check_prompt_size messages system \<longleftrightarrow>
     messages = [] \<or>
     (case system of Some s \<Rightarrow> length s | None \<Rightarrow> 0) +
       sum_list (map (length \<circ> msg_content) messages) \<le> max_prompt_bytes"
  by (auto simp: check_prompt_size_def sizes_within_iff)

lemma oversized_system_accepted: "check_prompt_size [] (Some (replicate 3000000 (CHR ''a'')))"
  by (simp add: check_prompt_size_iff)

text \<open>Printable ASCII text is left as it is; so the wrapper does not escape its own closing tag.\<close>

lemma sanitize_ascii:
  assumes "\<forall>c\<in>set s. 32 \<le> (of_char c :: nat) \<and> (of_char c :: nat) < 127"
  shows "sanitize_for_prompt s = s"
proof -
  have enc: "encode (map of_char s) = s" using assms
    by (induction s) (simp_all add: encode_def encode_char_def byte_def)
  have "\<forall>c\<in>set (map of_char s). valid_char c"
    using assms by (auto simp: valid_char_def)
  moreover have "filter keep_char (map of_char s) = map of_char s"
    using assms by (auto simp: filter_id_conv keep_char_def is_control_def is_format_char_def)
  ultimately have "sanitize_for_prompt (encode (map of_char s)) = encode (map of_char s)"
    using sanitize_encode [of "map of_char s"] by simp
  then show ?thesis by (simp only: enc)
qed

lemma wrap_closing_tag: "wrap_untrusted_text ''</untrusted-text>x'' =
    ''<untrusted-text>'' @ [newline] @ ''</untrusted-text>x'' @ [newline] @ ''</untrusted-text>''"
  unfolding wrap_untrusted_text_def by (subst sanitize_ascii) simp_all

end
