(* ===== verification/Subagent.thy ===== *)
theory Subagent
  imports Sanitize
begin

text \<open>
  The registry of subagents, \<open>frankclaw-runtime/src/subagent.rs\<close>: runs under their
  identifiers, with the limits on depth and on concurrent children, and the completion
  channels of waiting parents. A run table is an association list whose order stands for the
  unspecified one of the code's hash map; the fresh identifier and the clock are arguments.
  The theorem shows that the limits hold in every reachable state as long as a finished run
  is not started again, which the code does not prevent.
\<close>

section \<open>Types (subagent.rs)\<close>

type_synonym run_id = string

record spawn_request =
  sp_task :: string
  sp_label :: "string option"
  sp_agent_id :: agent_id
  sp_model_override :: "string option"
  sp_timeout_secs :: "u64 option"
  sp_parent_session_key :: session_key
  sp_parent_depth :: u32

datatype spawn_result =
    SpawnAccepted run_id session_key
  | SpawnRejected string

datatype run_state = RunPending | RunRunning | RunCompleted | RunFailed | RunTimedOut | RunKilled

record run_record =
  rr_run_id :: run_id
  rr_child_session_key :: session_key
  rr_parent_session_key :: session_key
  rr_agent_id :: agent_id
  rr_task :: string
  rr_label :: "string option"
  rr_model_override :: "string option"
  rr_depth :: u32
  rr_state :: run_state
  rr_created_at :: datetime
  rr_started_at :: "datetime option"
  rr_ended_at :: "datetime option"
  rr_result_text :: "string option"
  rr_error :: "string option"
  rr_timeout_secs :: u64

record completion_notice =
  cn_run_id :: run_id
  cn_state :: run_state
  cn_result_text :: "string option"
  cn_error :: "string option"

text \<open>A completion channel is named by a number.\<close>

record registry =
  rg_runs :: "(run_id \<times> run_record) list"
  rg_completions :: "run_id \<rightharpoonup> nat"
  rg_max_depth :: u32
  rg_max_children :: nat

definition default_max_depth :: u32 where
  "default_max_depth = 3"

definition default_max_children :: nat where
  "default_max_children = 5"

definition default_run_timeout_secs :: u64 where
  "default_run_timeout_secs = 300"

definition with_limits :: "u32 \<Rightarrow> nat \<Rightarrow> registry" where
  "with_limits max_depth max_children =
     \<lparr>rg_runs = [], rg_completions = (\<lambda>_. None), rg_max_depth = max_depth,
      rg_max_children = max_children\<rparr>"

definition registry_new :: registry where
  "registry_new = with_limits default_max_depth default_max_children"

section \<open>Operations (subagent.rs)\<close>

definition is_active :: "run_record \<Rightarrow> bool" where
  "is_active r \<longleftrightarrow> rr_state r = RunPending \<or> rr_state r = RunRunning"

definition active_children :: "session_key \<Rightarrow> registry \<Rightarrow> nat" where
  "active_children parent rg =
     length (filter (\<lambda>(_, r). rr_parent_session_key r = parent \<and> is_active r) (rg_runs rg))"

text \<open>
  \<open>register_spawn\<close> with the fresh identifier \<open>run_id\<close>; \<open>None\<close> is a panic of
  \<open>SessionKey::from_raw\<close>.
\<close>

definition register_spawn ::
  "run_id \<Rightarrow> datetime \<Rightarrow> spawn_request \<Rightarrow> registry \<Rightarrow> (spawn_result \<times> registry) option" where
  "register_spawn run_id now request rg =
     (let child_depth = sp_parent_depth request + 1 in
      if rg_max_depth rg < child_depth
      then Some (SpawnRejected (''spawn depth limit exceeded: depth '' @ show_word child_depth @
                   '' > max '' @ show_word (rg_max_depth rg)), rg)
      else (let active = active_children (sp_parent_session_key request) rg in
        if rg_max_children rg \<le> active
        then Some (SpawnRejected (''concurrent children limit exceeded: '' @ show_nat active @
                     '' active >= max '' @ show_nat (rg_max_children rg)), rg)
        else (case from_raw (''subagent:'' @ agent_str (sp_agent_id request) @ [colon] @ run_id) of
                None \<Rightarrow> None
              | Some child_session_key \<Rightarrow>
                  (let record =
                     \<lparr>rr_run_id = run_id, rr_child_session_key = child_session_key,
                      rr_parent_session_key = sp_parent_session_key request,
                      rr_agent_id = sp_agent_id request, rr_task = sp_task request,
                      rr_label = sp_label request, rr_model_override = sp_model_override request,
                      rr_depth = child_depth, rr_state = RunPending, rr_created_at = now,
                      rr_started_at = None, rr_ended_at = None, rr_result_text = None,
                      rr_error = None,
                      rr_timeout_secs = (case sp_timeout_secs request of
                                           Some t \<Rightarrow> t | None \<Rightarrow> default_run_timeout_secs)\<rparr>
                   in Some (SpawnAccepted run_id child_session_key,
                            rg\<lparr>rg_runs := (run_id, record) # AList.delete run_id (rg_runs rg)\<rparr>)))))"

text \<open>\<open>get_mut\<close> of a run and an update of its record.\<close>

definition on_run :: "run_id \<Rightarrow> (run_record \<Rightarrow> run_record) \<Rightarrow> registry \<Rightarrow> (frank_error + unit) \<times> registry"
where
  "on_run run_id f rg =
     (if run_id \<in> fst ` set (rg_runs rg)
      then (Inr (), rg\<lparr>rg_runs := map (\<lambda>(k, r). (k, if k = run_id then f r else r)) (rg_runs rg)\<rparr>)
      else (Inl (InternalError (''subagent run not found: '' @ run_id)), rg))"

definition mark_running :: "datetime \<Rightarrow> run_id \<Rightarrow> registry \<Rightarrow> (frank_error + unit) \<times> registry" where
  "mark_running now run_id rg =
     on_run run_id (\<lambda>r. r\<lparr>rr_state := RunRunning, rr_started_at := Some now\<rparr>) rg"

text \<open>\<open>complete\<close> also returns the channel that received the notice, if any.\<close>

definition complete_run ::
  "datetime \<Rightarrow> completion_notice \<Rightarrow> registry \<Rightarrow> (frank_error + nat option) \<times> registry" where
  "complete_run now notice rg =
     (case on_run (cn_run_id notice)
             (\<lambda>r. r\<lparr>rr_state := cn_state notice, rr_ended_at := Some now,
                    rr_result_text := cn_result_text notice, rr_error := cn_error notice\<rparr>) rg of
        (Inl e, rg') \<Rightarrow> (Inl e, rg')
      | (Inr _, rg') \<Rightarrow>
          (Inr (rg_completions rg' (cn_run_id notice)),
           rg'\<lparr>rg_completions := (rg_completions rg')(cn_run_id notice := None)\<rparr>))"

definition listen_completion :: "nat \<Rightarrow> run_id \<Rightarrow> registry \<Rightarrow> registry" where
  "listen_completion tx run_id rg =
     rg\<lparr>rg_completions := (rg_completions rg)(run_id \<mapsto> tx)\<rparr>"

definition get_run :: "run_id \<Rightarrow> registry \<Rightarrow> run_record option" where
  "get_run run_id rg = map_of (rg_runs rg) run_id"

definition list_children :: "session_key \<Rightarrow> registry \<Rightarrow> run_record list" where
  "list_children parent rg = filter (\<lambda>r. rr_parent_session_key r = parent) (map snd (rg_runs rg))"

definition active_runs :: "registry \<Rightarrow> run_record list" where
  "active_runs rg = filter is_active (map snd (rg_runs rg))"

definition kill :: "datetime \<Rightarrow> run_id \<Rightarrow> registry \<Rightarrow> (frank_error + nat option) \<times> registry" where
  "kill now run_id rg =
     complete_run now \<lparr>cn_run_id = run_id, cn_state = RunKilled, cn_result_text = None,
                       cn_error = Some ''killed by parent''\<rparr> rg"

definition cleanup_old_runs :: "datetime \<Rightarrow> duration \<Rightarrow> registry \<Rightarrow> registry" where
  "cleanup_old_runs now max_age rg =
     (let cutoff = now - int max_age in
      rg\<lparr>rg_runs := filter (\<lambda>(_, r).
           if rr_state r \<in> {RunCompleted, RunFailed, RunTimedOut, RunKilled}
           then (case rr_ended_at r of Some t \<Rightarrow> cutoff < t | None \<Rightarrow> True)
           else True) (rg_runs rg)\<rparr>)"

definition depth_of :: "session_key \<Rightarrow> registry \<Rightarrow> u32" where
  "depth_of key rg =
     (case find (\<lambda>r. rr_child_session_key r = key) (map snd (rg_runs rg)) of
        None \<Rightarrow> 0
      | Some r \<Rightarrow> rr_depth r)"

section \<open>The registry as a machine\<close>

datatype registry_event =
    Spawn run_id datetime spawn_request
  | MarkRunning datetime run_id
  | Finish datetime completion_notice
  | Listen nat run_id
  | Kill datetime run_id
  | CleanupRuns datetime duration

text \<open>A panic leaves the registry as it was.\<close>

primrec registry_step :: "registry \<Rightarrow> registry_event \<Rightarrow> registry" where
  "registry_step rg (Spawn i now rq) =
     (case register_spawn i now rq rg of Some (_, rg') \<Rightarrow> rg' | None \<Rightarrow> rg)"
| "registry_step rg (MarkRunning now i) = snd (mark_running now i rg)"
| "registry_step rg (Finish now n) = snd (complete_run now n rg)"
| "registry_step rg (Listen tx i) = listen_completion tx i rg"
| "registry_step rg (Kill now i) = snd (kill now i rg)"
| "registry_step rg (CleanupRuns now age) = cleanup_old_runs now age rg"

text \<open>
  The use the limits rely on: only an active run is marked as running, and a completion notice
  carries a final state.
\<close>

fun proper_event :: "registry \<Rightarrow> registry_event \<Rightarrow> bool" where
  "proper_event rg (MarkRunning now i) \<longleftrightarrow> (\<forall>(k, r)\<in>set (rg_runs rg). k = i \<longrightarrow> is_active r)"
| "proper_event rg (Finish now n) \<longleftrightarrow> cn_state n \<notin> {RunPending, RunRunning}"
| "proper_event rg _ \<longleftrightarrow> True"

fun proper_run :: "registry \<Rightarrow> registry_event list \<Rightarrow> bool" where
  "proper_run rg [] \<longleftrightarrow> True"
| "proper_run rg (e # es) \<longleftrightarrow> proper_event rg e \<and> proper_run (registry_step rg e) es"

definition limits_inv :: "u32 \<Rightarrow> nat \<Rightarrow> registry \<Rightarrow> bool" where
  "limits_inv d n rg \<longleftrightarrow>
     rg_max_depth rg = d \<and> rg_max_children rg = n \<and>
     (\<forall>parent. active_children parent rg \<le> n) \<and>
     (\<forall>r\<in>snd ` set (rg_runs rg). rr_depth r \<le> d)"

lemma filter_le: "(\<And>x. x \<in> set xs \<Longrightarrow> P x \<Longrightarrow> Q x) \<Longrightarrow> length (filter P xs) \<le> length (filter Q xs)"
  by (induction xs) (auto intro: le_SucI)

lemma on_run_limits:
  assumes "limits_inv d n rg"
    and "\<And>r. rr_parent_session_key (f r) = rr_parent_session_key r" "\<And>r. rr_depth (f r) = rr_depth r"
    and "\<And>r. (i, r) \<in> set (rg_runs rg) \<Longrightarrow> is_active (f r) \<Longrightarrow> is_active r"
  shows "limits_inv d n (snd (on_run i f rg))"
proof -
  let ?g = "\<lambda>(k, r). (k, if k = i then f r else r)"
  have "active_children p (snd (on_run i f rg)) \<le> active_children p rg" for p
    unfolding active_children_def on_run_def using assms(2,4)
    by (auto intro!: filter_le split: if_splits)
  moreover have "\<forall>r\<in>snd ` set (rg_runs (snd (on_run i f rg))). rr_depth r \<le> d"
    using assms(1) by (auto simp: limits_inv_def on_run_def assms(3))
  moreover have "rg_max_depth (snd (on_run i f rg)) = rg_max_depth rg"
    "rg_max_children (snd (on_run i f rg)) = rg_max_children rg"
    by (simp_all add: on_run_def)
  ultimately show ?thesis using assms(1) unfolding limits_inv_def by (metis le_trans)
qed

lemma limits_completions [simp]: "limits_inv d n (rg\<lparr>rg_completions := c\<rparr>) = limits_inv d n rg"
  by (simp add: limits_inv_def active_children_def)

lemma complete_limits:
  "limits_inv d n rg \<Longrightarrow> cn_state m \<notin> {RunPending, RunRunning} \<Longrightarrow>
     limits_inv d n (snd (complete_run now m rg))"
  using on_run_limits [of d n rg "\<lambda>r. r\<lparr>rr_state := cn_state m, rr_ended_at := Some now,
                    rr_result_text := cn_result_text m, rr_error := cn_error m\<rparr>" "cn_run_id m"]
  by (auto simp: complete_run_def is_active_def split: prod.splits sum.splits)

lemma spawn_limits:
  assumes "limits_inv d n rg" "register_spawn i now rq rg = Some (res, rg')"
  shows "limits_inv d n rg'"
proof (cases "rg' = rg")
  case False
  with assms(2) obtain rec where rg': "rg' = rg\<lparr>rg_runs := (i, rec) # AList.delete i (rg_runs rg)\<rparr>"
    and rec: "rr_parent_session_key rec = sp_parent_session_key rq" "rr_depth rec \<le> rg_max_depth rg"
    and few: "active_children (sp_parent_session_key rq) rg < rg_max_children rg"
    by (auto simp: register_spawn_def Let_def not_le not_less split: if_splits option.splits)
  have "active_children p rg' \<le> n" for p
  proof -
    have "length (filter (\<lambda>(_, r). rr_parent_session_key r = p \<and> is_active r) (AList.delete i (rg_runs rg)))
        \<le> active_children p rg"
      unfolding active_children_def AList.delete_eq by (auto intro!: filter_le)
    moreover have "active_children p rg \<le> n" "p = sp_parent_session_key rq \<Longrightarrow> active_children p rg < n"
      using assms(1) few by (auto simp: limits_inv_def)
    ultimately show ?thesis
      using rg' rec(1) by (auto simp: active_children_def)
  qed
  moreover have "\<forall>r\<in>snd ` set (rg_runs rg'). rr_depth r \<le> d"
    using assms(1) rg' rec(2) by (auto simp: limits_inv_def AList.delete_eq)
  ultimately show ?thesis using assms(1) rg' by (simp add: limits_inv_def)
qed (use assms in simp)

lemma limits_step: "limits_inv d n rg \<Longrightarrow> proper_event rg e \<Longrightarrow> limits_inv d n (registry_step rg e)"
proof (cases e)
  case (Spawn i now rq)
  assume "limits_inv d n rg"
  with Spawn spawn_limits show ?thesis by (auto split: option.split)
next
  case (MarkRunning now i)
  assume "limits_inv d n rg" "proper_event rg e"
  with MarkRunning show ?thesis
    by (auto simp: mark_running_def intro!: on_run_limits)
next
  case (CleanupRuns now age)
  assume i: "limits_inv d n rg"
  have "active_children p (cleanup_old_runs now age rg) \<le> active_children p rg" for p
    unfolding active_children_def cleanup_old_runs_def Let_def by (auto intro!: filter_le)
  moreover have "snd ` set (rg_runs (cleanup_old_runs now age rg)) \<subseteq> snd ` set (rg_runs rg)"
    "rg_max_depth (cleanup_old_runs now age rg) = rg_max_depth rg"
    "rg_max_children (cleanup_old_runs now age rg) = rg_max_children rg"
    by (auto simp: cleanup_old_runs_def Let_def)
  ultimately show ?thesis using i unfolding CleanupRuns limits_inv_def registry_step.simps
    by (meson le_trans subsetD)
qed (simp_all add: complete_limits kill_def listen_completion_def)

lemma limits_run: "limits_inv d n rg \<Longrightarrow> proper_run rg es \<Longrightarrow> limits_inv d n (foldl registry_step rg es)"
  by (induction es arbitrary: rg) (auto simp: limits_step)


definition sample_spawn :: spawn_request where
  "sample_spawn =
     \<lparr>sp_task = ''t'', sp_label = None, sp_agent_id = AgentId ''a'', sp_model_override = None,
      sp_timeout_secs = None, sp_parent_session_key = SessionKey ''p'', sp_parent_depth = 0\<rparr>"


text \<open>Marking a finished run as running exceeds the limit.\<close>

lemma restart_exceeds_limit:
  "active_children (SessionKey ''p'') (foldl registry_step (with_limits 3 1)
     [Spawn ''r1'' 0 sample_spawn, Kill 1 ''r1'', Spawn ''r2'' 2 sample_spawn, MarkRunning 3 ''r1'']) = 2"
  by (simp add: with_limits_def sample_spawn_def register_spawn_def active_children_def from_raw_def
      is_active_def kill_def complete_run_def on_run_def mark_running_def Let_def)

text \<open>The cleanup never removes an active run.\<close>

lemma cleanup_keeps_active: "active_runs (cleanup_old_runs now age rg) = active_runs rg"
proof -
  have "filter is_active (map snd (filter (\<lambda>(_, r).
           if rr_state r \<in> {RunCompleted, RunFailed, RunTimedOut, RunKilled}
           then (case rr_ended_at r of Some t \<Rightarrow> c < t | None \<Rightarrow> True) else True) xs)) =
        filter is_active (map snd xs)" for c and xs :: "(run_id \<times> run_record) list"
    by (induction xs) (auto simp: is_active_def)
  then show ?thesis by (simp add: active_runs_def cleanup_old_runs_def Let_def)
qed

text \<open>A waiting parent gets the notice of its run once.\<close>

lemma notice_once:
  assumes "run_id \<in> fst ` set (rg_runs rg)" "cn_run_id m = run_id" "cn_run_id m' = run_id"
  shows "fst (complete_run t m (listen_completion tx run_id rg)) = Inr (Some tx) \<and>
         fst (complete_run t' m' (snd (complete_run t m (listen_completion tx run_id rg)))) = Inr None"
  using assms by (force simp: complete_run_def listen_completion_def on_run_def)

section \<open>The prompt of a subagent (subagent.rs)\<close>

definition max_task_len :: nat where
  "max_task_len = 2000"

text \<open>The slice panics (\<open>None\<close>) inside a character.\<close>

definition shorten :: "string \<Rightarrow> string option" where
  "shorten s = (if max_task_len < length s then slice_to s max_task_len else Some s)"

definition subagent_identity :: "u32 \<Rightarrow> u32 \<Rightarrow> string" where
  "subagent_identity depth max_depth =
     ''You are a subagent (depth '' @ show_word depth @ ''/'' @ show_word max_depth @
     '') spawned to complete a specific task.''"

definition build_subagent_context :: "run_record \<Rightarrow> u32 \<Rightarrow> string option" where
  "build_subagent_context record max_depth =
     (case (case rr_label record of
              None \<Rightarrow> Some []
            | Some label \<Rightarrow> map_option (\<lambda>l. [''Task label: '' @ l]) (shorten (sanitize_for_prompt label))) of
        None \<Rightarrow> None
      | Some label_part \<Rightarrow>
          (case shorten (sanitize_for_prompt (rr_task record)) of
             None \<Rightarrow> None
           | Some task \<Rightarrow>
               Some (join [newline]
                 ([subagent_identity (rr_depth record) max_depth] @ label_part @ [''Task: '' @ task] @
                  [''Timeout: '' @ show_word (rr_timeout_secs record) @
                   '' seconds. Complete the task and report your findings concisely.''] @
                  [if rr_depth record < max_depth
                   then ''You may spawn sub-subagents if needed, but prefer completing the task directly.''
                   else ''You are at maximum spawn depth and cannot spawn further subagents.'']))))"

end
