(* ===== verification/Utf8_Text.thy ===== *)
theory Utf8_Text
  imports Core_Types
begin

text \<open>
  Text counted and cut by characters: \<open>chars().count()\<close>, the prefix that holds the first
  \<open>n\<close> characters, and the visible part of a text, which is what is left when the white space
  is removed. A character of a UTF-8 string is a byte that continues no other, with the
  bytes that continue it.
\<close>

definition char_count :: "string \<Rightarrow> nat" where
  "char_count s = length (filter (\<lambda>c. \<not> is_continuation c) s)"

fun prefix_chars :: "nat \<Rightarrow> string \<Rightarrow> string" where
  "prefix_chars n [] = []"
| "prefix_chars n (c # s) =
     (if is_continuation c then c # prefix_chars n s
      else (case n of 0 \<Rightarrow> [] | Suc m \<Rightarrow> c # prefix_chars m s))"

definition last_position :: "('a \<Rightarrow> bool) \<Rightarrow> 'a list \<Rightarrow> nat option" where
  "last_position P xs = map_option (\<lambda>i. length xs - 1 - i) (position P (rev xs))"

definition visible :: "string \<Rightarrow> string" where
  "visible s = filter (\<lambda>c. \<not> is_ws c) s"

lemma char_count_simps [simp]:
  "char_count [] = 0"
  "char_count (c # s) = (if is_continuation c then char_count s else Suc (char_count s))"
  "char_count (a @ b) = char_count a + char_count b"
  by (simp_all add: char_count_def)

lemma char_count_le_length: "char_count s \<le> length s"
  by (simp add: char_count_def)

lemma char_count_prefix_chars: "char_count (prefix_chars n s) = min n (char_count s)"
  by (induction n s rule: prefix_chars.induct) (auto split: nat.splits)

lemma prefix_chars_take: "prefix_chars n s = take (length (prefix_chars n s)) s"
  by (induction n s rule: prefix_chars.induct) (auto split: nat.splits)

lemma prefix_chars_length: "length (prefix_chars n s) \<le> length s"
  by (induction n s rule: prefix_chars.induct) (auto split: nat.splits)

lemma prefix_chars_all: "char_count s \<le> n \<Longrightarrow> prefix_chars n s = s"
  by (induction n s rule: prefix_chars.induct) (auto split: nat.splits if_splits)

lemma prefix_chars_ne: "s \<noteq> [] \<Longrightarrow> 0 < n \<Longrightarrow> prefix_chars n s \<noteq> []"
  by (cases s; cases n) auto

lemma char_count_take_le: "char_count (take i s) \<le> char_count s"
  by (metis append_take_drop_id char_count_simps(3) le_add1)

lemma last_position_bound:
  "last_position P xs = Some i \<Longrightarrow> i < length xs"
  by (auto simp: last_position_def dest!: position_Some)

lemma last_position_Some: "last_position P xs = Some i \<Longrightarrow> P (xs ! i)"
  by (auto simp: last_position_def rev_nth dest!: position_Some)

lemma visible_simps [simp]:
  "visible [] = []"
  "visible (c # s) = (if is_ws c then visible s else c # visible s)"
  "visible (a @ b) = visible a @ visible b"
  by (simp_all add: visible_def)

lemma visible_ws: "\<forall>c\<in>set s. is_ws c \<Longrightarrow> visible s = []"
  by (simp add: visible_def filter_empty_conv)

lemma visible_trim_start [simp]: "visible (trim_start s) = visible s"
  by (induction s) (auto simp: trim_start_def)

lemma visible_rev: "visible (rev s) = rev (visible s)"
  by (simp add: visible_def rev_filter)

lemma visible_trim_end [simp]: "visible (trim_end s) = visible s"
proof -
  have "visible (dropWhile is_ws (rev s)) = visible (rev s)"
    using visible_trim_start [of "rev s"] by (simp add: trim_start_def)
  then show ?thesis by (simp add: trim_end_def visible_rev)
qed

lemma visible_trim [simp]: "visible (trim s) = visible s"
  by (simp add: trim_def)

lemma char_count_trim_start: "char_count (trim_start s) \<le> char_count s"
  by (induction s) (auto simp: trim_start_def)

lemma char_count_rev [simp]: "char_count (rev s) = char_count s"
  by (simp add: char_count_def rev_filter [symmetric])

lemma char_count_trim_end: "char_count (trim_end s) \<le> char_count s"
  using char_count_trim_start [of "rev s"] by (simp add: trim_end_def trim_start_def)

lemma char_count_trim: "char_count (trim s) \<le> char_count s"
  using char_count_trim_end [of "trim_start s"] char_count_trim_start [of s]
  by (simp add: trim_def)

lemma length_trim_start: "length (trim_start s) \<le> length s"
  by (simp add: trim_start_def length_dropWhile_le)

lemma trim_start_not_hd: "trim_start s = [] \<or> \<not> is_ws (hd (trim_start s))"
  using trim_start_hd by blast

lemma trim_not_hd: "trim s = [] \<or> \<not> is_ws (hd (trim s))"
  using trim_hd by blast

lemma trim_Nil_iff: "trim s = [] \<longleftrightarrow> (\<forall>c\<in>set s. is_ws c)"
proof
  assume "trim s = []"
  then have "visible s = []" using visible_trim [of s] by simp
  then show "\<forall>c\<in>set s. is_ws c" by (simp add: visible_def filter_empty_conv)
next
  assume "\<forall>c\<in>set s. is_ws c"
  then have "trim_start s = []" by (simp add: trim_start_def)
  then show "trim s = []" by (simp add: trim_def trim_end_def)
qed

end
