(* ===== verification/Canvas.thy ===== *)
theory Canvas
  imports Json Core_Types
begin

text \<open>
  The canvas (\<open>frankclaw-core/src/canvas.rs\<close>, \<open>frankclaw-gateway/src/canvas.rs\<close>): the
  documents that an agent and its user share, kept in a map behind one lock, with patches that
  may name the revision they were made for. Revisions are \<open>u64\<close> and wrap as in a release
  build. The events sent to the broadcast channel are kept in a log, as values; the rendering
  of a time stamp (\<open>to_rfc3339\<close>) and of JSON (\<open>serde_json\<close>) are parameters.
\<close>

section \<open>Data\<close>

definition max_document_size :: nat where
  "max_document_size = 1024 * 1024"

definition max_blocks_per_document :: nat where
  "max_blocks_per_document = 200"

datatype block_kind =
    KindMarkdown
  | KindCode
  | KindNote
  | KindChecklist
  | KindStatus
  | KindMetric
  | KindAction

record canvas_block =
  cb_kind :: block_kind
  cb_text :: string
  cb_meta :: "json option"

record canvas_document =
  cd_id :: string
  cd_title :: string
  cd_body :: string
  cd_session_key :: "string option"
  cd_blocks :: "canvas_block list"
  cd_revision :: u64
  cd_updated_at :: datetime

record canvas_patch =
  cp_title :: "string option"
  cp_body :: "string option"
  cp_session_key :: "string option option"
  cp_append_blocks :: "canvas_block list"
  cp_expected_revision :: "u64 option"

datatype export_format = ExportJson | ExportMarkdown

definition parse_format :: "string option \<Rightarrow> export_format" where
  "parse_format value =
     (case map_option trim value of
        Some v \<Rightarrow> if v = ''markdown'' \<or> v = ''md'' then ExportMarkdown else ExportJson
      | None \<Rightarrow> ExportJson)"

primrec mime_type :: "export_format \<Rightarrow> string" where
  "mime_type ExportJson = ''application/json; charset=utf-8''"
| "mime_type ExportMarkdown = ''text/markdown; charset=utf-8''"

primrec extension :: "export_format \<Rightarrow> string" where
  "extension ExportJson = ''json''"
| "extension ExportMarkdown = ''md''"

primrec format_label :: "export_format \<Rightarrow> string" where
  "format_label ExportJson = ''json''"
| "format_label ExportMarkdown = ''markdown''"

text \<open>The store: the documents, and the events sent when there is a broadcast channel (the
  identifier of the canvas and its document, or \<open>None\<close> when it was removed).\<close>

type_synonym documents = "string \<rightharpoonup> canvas_document"

record canvas_store =
  cs_documents :: documents
  cs_broadcast :: "(string \<times> canvas_document option) list option"

definition canvas_new :: canvas_store where
  "canvas_new = \<lparr>cs_documents = Map.empty, cs_broadcast = None\<rparr>"

definition with_broadcast :: canvas_store where
  "with_broadcast = \<lparr>cs_documents = Map.empty, cs_broadcast = Some []\<rparr>"

definition notify :: "string \<Rightarrow> canvas_document option \<Rightarrow> canvas_store \<Rightarrow> canvas_store" where
  "notify canvas_id doc st =
     (case cs_broadcast st of
        None \<Rightarrow> st
      | Some sent \<Rightarrow> st\<lparr>cs_broadcast := Some (sent @ [(canvas_id, doc)])\<rparr>)"

definition non_blank :: "string option \<Rightarrow> string option" where
  "non_blank v = (case map_option trim v of Some t \<Rightarrow> if t = [] then None else Some t | None \<Rightarrow> None)"

definition key_for :: "string option \<Rightarrow> string option \<Rightarrow> string" where
  "key_for canvas_id session_key =
     (case non_blank canvas_id of
        Some c \<Rightarrow> c
      | None \<Rightarrow>
          (case non_blank session_key of
             Some k \<Rightarrow> ''session:'' @ k
           | None \<Rightarrow> ''main''))"

section \<open>Operations\<close>

definition document_size :: "canvas_document \<Rightarrow> nat" where
  "document_size d =
     length (cd_title d) + length (cd_body d) + (\<Sum>b\<leftarrow>cd_blocks d. length (cb_text b))"

definition validate_document_size :: "canvas_document \<Rightarrow> frank_error + unit" where
  "validate_document_size d =
     (if max_document_size < document_size d
      then Inl (InvalidRequest (''canvas document size exceeds limit ('' @ show_nat (document_size d) @
             '' bytes > '' @ show_nat max_document_size @ '')''))
      else Inr ())"

definition canvas_get :: "string \<Rightarrow> documents \<Rightarrow> canvas_document option" where
  "canvas_get canvas_id docs = docs canvas_id"

definition canvas_set ::
  "canvas_document \<Rightarrow> documents \<Rightarrow> documents \<times> (frank_error + canvas_document)" where
  "canvas_set d docs =
     (case validate_document_size d of
        Inl e \<Rightarrow> (docs, Inl e)
      | Inr _ \<Rightarrow>
          (let next = (case docs (cd_id d) of Some existing \<Rightarrow> cd_revision existing + 1 | None \<Rightarrow> 1);
               d1 = d\<lparr>cd_revision := next\<rparr>
           in (docs(cd_id d1 \<mapsto> d1), Inr d1)))"

definition blank_document :: "string \<Rightarrow> datetime \<Rightarrow> canvas_document" where
  "blank_document canvas_id now =
     \<lparr>cd_id = canvas_id, cd_title = [], cd_body = [], cd_session_key = None, cd_blocks = [],
      cd_revision = 0, cd_updated_at = now\<rparr>"

definition apply_patch :: "canvas_patch \<Rightarrow> canvas_document \<Rightarrow> canvas_document" where
  "apply_patch p d =
     (let d1 = (case cp_title p of Some t \<Rightarrow> d\<lparr>cd_title := t\<rparr> | None \<Rightarrow> d);
          d2 = (case cp_body p of Some b \<Rightarrow> d1\<lparr>cd_body := b\<rparr> | None \<Rightarrow> d1);
          d3 = (case cp_session_key p of Some k \<Rightarrow> d2\<lparr>cd_session_key := k\<rparr> | None \<Rightarrow> d2)
      in d3\<lparr>cd_blocks := cd_blocks d3 @ cp_append_blocks p\<rparr>)"

definition revision_conflict :: "canvas_patch \<Rightarrow> canvas_document \<Rightarrow> frank_error + unit" where
  "revision_conflict p d =
     (case cp_expected_revision p of
        None \<Rightarrow> Inr ()
      | Some expected \<Rightarrow>
          if cd_revision d \<noteq> expected
          then Inl (InvalidRequest (''canvas revision conflict: expected '' @ show_word expected @
                 '', current is '' @ show_word (cd_revision d)))
          else Inr ())"

definition block_limit :: "canvas_document \<Rightarrow> frank_error + unit" where
  "block_limit d =
     (if max_blocks_per_document < length (cd_blocks d)
      then Inl (InvalidRequest (''canvas block count exceeds limit ('' @
             show_nat (length (cd_blocks d)) @ '' > '' @ show_nat max_blocks_per_document @ '')''))
      else Inr ())"

definition canvas_patch_doc ::
  "datetime \<Rightarrow> string \<Rightarrow> canvas_patch \<Rightarrow> documents
    \<Rightarrow> documents \<times> (frank_error + canvas_document)" where
  "canvas_patch_doc now canvas_id p docs =
     (let existing = (case docs canvas_id of Some d \<Rightarrow> d | None \<Rightarrow> blank_document canvas_id now);
          d = apply_patch p existing
      in case first_error [revision_conflict p existing, block_limit d, validate_document_size d] of
           Inl e \<Rightarrow> (docs, Inl e)
         | Inr _ \<Rightarrow>
             (let d1 = d\<lparr>cd_revision := cd_revision d + 1, cd_updated_at := now\<rparr>
              in (docs(cd_id d1 \<mapsto> d1), Inr d1)))"

definition canvas_clear :: "string \<Rightarrow> documents \<Rightarrow> documents" where
  "canvas_clear canvas_id docs = docs(canvas_id := None)"

section \<open>The interface for the tools (CanvasService)\<close>

record core_block =
  kb_kind :: string
  kb_text :: string
  kb_meta :: "json option"

record core_document =
  kd_id :: string
  kd_title :: string
  kd_body :: string
  kd_session_key :: "string option"
  kd_blocks :: "core_block list"
  kd_revision :: u64
  kd_updated_at :: datetime

primrec kind_name :: "block_kind \<Rightarrow> string" where
  "kind_name KindMarkdown = ''markdown''"
| "kind_name KindCode = ''code''"
| "kind_name KindNote = ''note''"
| "kind_name KindChecklist = ''checklist''"
| "kind_name KindStatus = ''status''"
| "kind_name KindMetric = ''metric''"
| "kind_name KindAction = ''action''"

definition kind_of_name :: "string \<Rightarrow> block_kind option" where
  "kind_of_name s =
     find (\<lambda>k. kind_name k = s)
       [KindMarkdown, KindCode, KindNote, KindChecklist, KindStatus, KindMetric, KindAction]"

definition core_block_to_local :: "core_block \<Rightarrow> canvas_block" where
  "core_block_to_local b =
     \<lparr>cb_kind = (case kind_of_name (kb_kind b) of Some k \<Rightarrow> k | None \<Rightarrow> KindMarkdown),
      cb_text = kb_text b, cb_meta = kb_meta b\<rparr>"

definition local_block_to_core :: "canvas_block \<Rightarrow> core_block" where
  "local_block_to_core b =
     \<lparr>kb_kind = kind_name (cb_kind b), kb_text = cb_text b, kb_meta = cb_meta b\<rparr>"

definition local_doc_to_core :: "canvas_document \<Rightarrow> core_document" where
  "local_doc_to_core d =
     \<lparr>kd_id = cd_id d, kd_title = cd_title d, kd_body = cd_body d,
      kd_session_key = cd_session_key d, kd_blocks = map local_block_to_core (cd_blocks d),
      kd_revision = cd_revision d, kd_updated_at = cd_updated_at d\<rparr>"

definition core_doc_to_local :: "core_document \<Rightarrow> canvas_document" where
  "core_doc_to_local d =
     \<lparr>cd_id = kd_id d, cd_title = kd_title d, cd_body = kd_body d,
      cd_session_key = kd_session_key d, cd_blocks = map core_block_to_local (kd_blocks d),
      cd_revision = kd_revision d, cd_updated_at = kd_updated_at d\<rparr>"

definition service_get :: "string \<Rightarrow> canvas_store \<Rightarrow> core_document option" where
  "service_get canvas_id st =
     map_option local_doc_to_core (canvas_get canvas_id (cs_documents st))"

definition service_result ::
  "canvas_store \<Rightarrow> documents \<times> (frank_error + canvas_document)
    \<Rightarrow> canvas_store \<times> (frank_error + core_document)" where
  "service_result st r =
     (let st1 = st\<lparr>cs_documents := fst r\<rparr>
      in case snd r of
           Inl e \<Rightarrow> (st1, Inl e)
         | Inr d \<Rightarrow> (notify (cd_id d) (Some d) st1, Inr (local_doc_to_core d)))"

definition service_set ::
  "core_document \<Rightarrow> canvas_store \<Rightarrow> canvas_store \<times> (frank_error + core_document)" where
  "service_set d st = service_result st (canvas_set (core_doc_to_local d) (cs_documents st))"

definition service_patch ::
  "datetime \<Rightarrow> string \<Rightarrow> string option \<Rightarrow> string option \<Rightarrow> core_block list \<Rightarrow> canvas_store
    \<Rightarrow> canvas_store \<times> (frank_error + core_document)" where
  "service_patch now canvas_id title body append_blocks st =
     service_result st
       (canvas_patch_doc now canvas_id
          \<lparr>cp_title = title, cp_body = body, cp_session_key = None,
           cp_append_blocks = map core_block_to_local append_blocks,
           cp_expected_revision = None\<rparr>
          (cs_documents st))"

definition service_clear :: "string \<Rightarrow> canvas_store \<Rightarrow> canvas_store" where
  "service_clear canvas_id st =
     notify canvas_id None (st\<lparr>cs_documents := canvas_clear canvas_id (cs_documents st)\<rparr>)"

section \<open>Export\<close>

fun strip_tags :: "bool \<Rightarrow> string \<Rightarrow> string" where
  "strip_tags in_tag [] = []"
| "strip_tags in_tag (ch # s) =
     (if ch = CHR ''<'' then strip_tags True s
      else if ch = CHR ''>'' \<and> in_tag then strip_tags False s
      else if \<not> in_tag then ch # strip_tags False s
      else strip_tags True s)"

definition strip_html_tags :: "string \<Rightarrow> string" where
  "strip_html_tags s = strip_tags False s"

definition meta_str :: "canvas_block \<Rightarrow> string \<Rightarrow> string option" where
  "meta_str b k = Option.bind (Option.bind (cb_meta b) (\<lambda>m. json_get m k)) as_str"

definition checklist_line :: "string \<Rightarrow> string" where
  "checklist_line l =
     (let line = trim l
      in if starts_with line ''- ['' then line else ''- [ ] '' @ line)"

definition render_markdown_block :: "(json \<Rightarrow> string) \<Rightarrow> canvas_block \<Rightarrow> string" where
  "render_markdown_block show_json b =
     (let text = strip_html_tags (trim (cb_text b))
      in case cb_kind b of
           KindMarkdown \<Rightarrow> text
         | KindCode \<Rightarrow> ''```text'' @ [newline] @ text @ [newline] @ ''```''
         | KindNote \<Rightarrow> join [newline] (map (\<lambda>line. ''> '' @ trim line) (lines text))
         | KindChecklist \<Rightarrow>
             join [newline] (map checklist_line (filter (\<lambda>line. trim line \<noteq> []) (lines text)))
         | KindStatus \<Rightarrow>
             (let level = (case meta_str b ''level'' of Some l \<Rightarrow> l | None \<Rightarrow> ''info'')
              in ''**Status ('' @ level @ '')**'' @ [newline] @ text)
         | KindMetric \<Rightarrow>
             (let value =
                (case Option.bind (cb_meta b) (\<lambda>m. json_get m ''value'') of
                   Some v \<Rightarrow> (case as_str v of Some s \<Rightarrow> s | None \<Rightarrow> show_json v)
                 | None \<Rightarrow> text)
              in if text = [] \<or> text = value then ''**Metric:** '' @ value
                 else ''**Metric:** '' @ text @ '' = '' @ value)
         | KindAction \<Rightarrow>
             (let action = (case meta_str b ''action'' of Some a \<Rightarrow> a | None \<Rightarrow> ''noop'');
                  target = (case meta_str b ''target'' of Some t \<Rightarrow> t | None \<Rightarrow> [])
              in ''**Action ('' @ action @ '')**'' @ [newline] @ text @ [newline] @ target))"

definition render_markdown ::
  "(datetime \<Rightarrow> string) \<Rightarrow> (json \<Rightarrow> string) \<Rightarrow> canvas_document \<Rightarrow> string" where
  "render_markdown rfc3339 show_json d =
     (let title = (if trim (cd_title d) \<noteq> [] then [''# '' @ trim (cd_title d)] else []);
          metadata =
            [''Canvas: '' @ cd_id d, ''Revision: '' @ show_word (cd_revision d),
             ''Updated: '' @ rfc3339 (cd_updated_at d)] @
            (case non_blank (cd_session_key d) of Some k \<Rightarrow> [''Session: '' @ k] | None \<Rightarrow> []);
          body = (if trim (cd_body d) \<noteq> [] then [trim (cd_body d)] else []);
          blocks =
            (if cd_blocks d \<noteq> []
             then [join [newline, newline] (map (render_markdown_block show_json) (cd_blocks d))]
             else [])
      in join [newline, newline] (title @ [join [newline] metadata] @ body @ blocks))"

definition export_document ::
  "(datetime \<Rightarrow> string) \<Rightarrow> (json \<Rightarrow> string) \<Rightarrow> (canvas_document \<Rightarrow> string option)
    \<Rightarrow> canvas_document \<Rightarrow> export_format \<Rightarrow> string" where
  "export_document rfc3339 show_json to_string_pretty d format =
     (case format of
        ExportJson \<Rightarrow> (case to_string_pretty d of Some s \<Rightarrow> s | None \<Rightarrow> ''{}'')
      | ExportMarkdown \<Rightarrow> render_markdown rfc3339 show_json d)"

section \<open>Well-formed stores\<close>

text \<open>Every document is stored under its own identifier and within the size limit.\<close>

definition documents_ok :: "documents \<Rightarrow> bool" where
  "documents_ok docs \<longleftrightarrow>
     (\<forall>i d. docs i = Some d \<longrightarrow> cd_id d = i \<and> document_size d \<le> max_document_size)"

lemma documents_okD:
  "documents_ok docs \<Longrightarrow> docs i = Some d \<Longrightarrow> cd_id d = i \<and> document_size d \<le> max_document_size"
  by (simp add: documents_ok_def)

lemma documents_ok_empty [simp]: "documents_ok Map.empty"
  by (simp add: documents_ok_def)

lemma documents_ok_upd [inv_rules]:
  "documents_ok docs \<Longrightarrow> document_size d \<le> max_document_size \<Longrightarrow> cd_id d = i
    \<Longrightarrow> documents_ok (docs(i \<mapsto> d))"
  by (simp add: documents_ok_def)

lemma documents_ok_clear [inv_rules]: "documents_ok docs \<Longrightarrow> documents_ok (canvas_clear i docs)"
  by (simp add: documents_ok_def canvas_clear_def)

lemma validate_size_ok [simp]:
  "validate_document_size d = Inr () \<longleftrightarrow> document_size d \<le> max_document_size"
  by (auto simp: validate_document_size_def)

lemma document_size_update [simp]:
  "document_size (d\<lparr>cd_revision := r\<rparr>) = document_size d"
  "document_size (d\<lparr>cd_updated_at := t\<rparr>) = document_size d"
  by (simp_all add: document_size_def)

lemma apply_patch_id [simp]:
  "cd_id (apply_patch p d) = cd_id d" "cd_revision (apply_patch p d) = cd_revision d"
  by (auto simp: apply_patch_def Let_def split: option.splits)

text \<open>What an accepted write stores, and when a write is refused.\<close>

lemma canvas_set_cases:
  obtains (refused) e where "document_size d > max_document_size" "canvas_set d docs = (docs, Inl e)"
  | (stored) d1 where "document_size d \<le> max_document_size"
      "canvas_set d docs = (docs(cd_id d1 \<mapsto> d1), Inr d1)"
      "d1 = d\<lparr>cd_revision := (case docs (cd_id d) of Some x \<Rightarrow> cd_revision x + 1 | None \<Rightarrow> 1)\<rparr>"
proof (cases "document_size d \<le> max_document_size")
  case True
  then show ?thesis by (intro stored) (simp_all add: canvas_set_def validate_document_size_def Let_def)
next
  case False
  then show ?thesis by (intro refused) (auto simp: canvas_set_def validate_document_size_def)
qed

definition patched :: "datetime \<Rightarrow> string \<Rightarrow> canvas_patch \<Rightarrow> documents \<Rightarrow> canvas_document" where
  "patched now i p docs =
     (let d = apply_patch p (case docs i of Some d \<Rightarrow> d | None \<Rightarrow> blank_document i now)
      in d\<lparr>cd_revision := cd_revision d + 1, cd_updated_at := now\<rparr>)"

definition revision_of :: "string \<Rightarrow> documents \<Rightarrow> u64" where
  "revision_of i docs = (case docs i of Some d \<Rightarrow> cd_revision d | None \<Rightarrow> 0)"

lemma canvas_patch_cases:
  obtains (refused) e where "canvas_patch_doc now i p docs = (docs, Inl e)"
  | (stored) d1 where "canvas_patch_doc now i p docs = (docs(cd_id d1 \<mapsto> d1), Inr d1)"
      "d1 = patched now i p docs" "document_size d1 \<le> max_document_size"
      "length (cd_blocks d1) \<le> max_blocks_per_document"
      "\<forall>r. cp_expected_revision p = Some r \<longrightarrow> revision_of i docs = r"
proof -
  let ?ex = "case docs i of Some d \<Rightarrow> d | None \<Rightarrow> blank_document i now"
  let ?d = "apply_patch p ?ex"
  let ?checks = "[revision_conflict p ?ex, block_limit ?d, validate_document_size ?d]"
  show ?thesis
  proof (cases "first_error ?checks")
    case (Inl e)
    then show ?thesis by (intro refused) (simp add: canvas_patch_doc_def Let_def)
  next
    case (Inr u)
    then have ok: "\<forall>r\<in>set ?checks. r = Inr ()" by (simp only: first_error_ok [symmetric]) simp
    then have size: "document_size ?d \<le> max_document_size"
      and blocks: "length (cd_blocks ?d) \<le> max_blocks_per_document"
      by (auto simp: block_limit_def split: if_splits)
    have "revision_conflict p ?ex = Inr ()" using ok by simp
    then have "\<forall>r. cp_expected_revision p = Some r \<longrightarrow> cd_revision ?ex = r"
      by (auto simp: revision_conflict_def split: if_splits)
    then have rev: "\<forall>r. cp_expected_revision p = Some r \<longrightarrow> revision_of i docs = r"
      by (auto simp: revision_of_def blank_document_def split: option.splits)
    have "canvas_patch_doc now i p docs =
        (docs(cd_id (patched now i p docs) \<mapsto> patched now i p docs), Inr (patched now i p docs))"
      by (simp only: canvas_patch_doc_def patched_def Let_def Inr sum.case)
    then show ?thesis
      by (rule stored) (use size blocks rev in \<open>simp_all add: patched_def Let_def\<close>)
  qed
qed

lemma patched_id: "documents_ok docs \<Longrightarrow> cd_id (patched now i p docs) = i"
  by (auto simp: patched_def Let_def blank_document_def documents_ok_def split: option.splits)

lemma patched_revision: "cd_revision (patched now i p docs) = revision_of i docs + 1"
  by (auto simp: patched_def Let_def revision_of_def blank_document_def split: option.splits)

lemma stale_patch_refused:
  assumes "cp_expected_revision p = Some r" "revision_of i docs \<noteq> r"
  shows "\<exists>msg. canvas_patch_doc now i p docs = (docs, Inl (InvalidRequest msg))"
proof -
  let ?ex = "case docs i of Some d \<Rightarrow> d | None \<Rightarrow> blank_document i now"
  have "cd_revision ?ex \<noteq> r"
    using assms(2) by (auto simp: revision_of_def blank_document_def split: option.splits)
  with assms(1) show ?thesis
    by (simp add: canvas_patch_doc_def Let_def revision_conflict_def)
qed

section \<open>Runs of writes\<close>

datatype canvas_op =
    OpSet canvas_document
  | OpPatch datetime string canvas_patch
  | OpClear string

primrec canvas_step :: "documents \<Rightarrow> canvas_op \<Rightarrow> documents" where
  "canvas_step docs (OpSet d) = fst (canvas_set d docs)"
| "canvas_step docs (OpPatch now i p) = fst (canvas_patch_doc now i p docs)"
| "canvas_step docs (OpClear i) = canvas_clear i docs"

text \<open>A write of the canvas \<open>i\<close> that is accepted.\<close>

primrec write_accepted :: "string \<Rightarrow> documents \<Rightarrow> canvas_op \<Rightarrow> bool" where
  "write_accepted i docs (OpSet d) \<longleftrightarrow> cd_id d = i \<and> \<not> isl (snd (canvas_set d docs))"
| "write_accepted i docs (OpPatch now j p) \<longleftrightarrow> j = i \<and> \<not> isl (snd (canvas_patch_doc now j p docs))"
| "write_accepted i docs (OpClear j) \<longleftrightarrow> False"

primrec accepted_writes :: "string \<Rightarrow> canvas_op list \<Rightarrow> documents \<Rightarrow> nat" where
  "accepted_writes i [] docs = 0"
| "accepted_writes i (op # ops) docs =
     (if write_accepted i docs op then 1 else 0) + accepted_writes i ops (canvas_step docs op)"

lemma canvas_step_ok [inv_rules]: "documents_ok docs \<Longrightarrow> documents_ok (canvas_step docs op)"
proof (cases op)
  case (OpSet d)
  assume ok: "documents_ok docs"
  show ?thesis
    by (rule canvas_set_cases [of d docs]) (use ok OpSet in \<open>auto intro!: documents_ok_upd\<close>)
next
  case (OpPatch now i p)
  assume ok: "documents_ok docs"
  show ?thesis
    by (rule canvas_patch_cases [of now i p docs]) (use ok OpPatch in \<open>auto intro!: documents_ok_upd\<close>)
qed (auto simp: documents_ok_clear)

interpretation canvas: component canvas_step documents_ok
  by unfold_locales (rule canvas_step_ok)

lemma revision_step:
  assumes ok: "documents_ok docs" and nc: "op \<noteq> OpClear i"
  shows "revision_of i (canvas_step docs op) =
    revision_of i docs + (if write_accepted i docs op then 1 else 0)"
proof (cases op)
  case (OpSet d)
  show ?thesis
    by (rule canvas_set_cases [of d docs])
      (use OpSet in \<open>auto simp: revision_of_def split: option.splits\<close>)
next
  case (OpPatch now j p)
  show ?thesis
  proof (cases rule: canvas_patch_cases [of now j p docs])
    case (refused e)
    with OpPatch show ?thesis by simp
  next
    case (stored d1)
    then have "cd_id d1 = j" "cd_revision d1 = revision_of j docs + 1"
      using ok by (simp_all add: patched_id patched_revision)
    with stored(1) OpPatch show ?thesis by (auto simp: revision_of_def)
  qed
next
  case (OpClear j)
  with nc show ?thesis by (auto simp: revision_of_def canvas_clear_def)
qed

lemma revision_run:
  "documents_ok docs \<Longrightarrow> OpClear i \<notin> set ops \<Longrightarrow>
   revision_of i (foldl canvas_step docs ops) = revision_of i docs + of_nat (accepted_writes i ops docs)"
proof (induction ops arbitrary: docs)
  case (Cons op ops)
  then have "op \<noteq> OpClear i" by auto
  with Cons.prems(1) have "revision_of i (canvas_step docs op) =
      revision_of i docs + (if write_accepted i docs op then 1 else 0)"
    by (rule revision_step)
  with Cons show ?case by (simp add: canvas_step_ok algebra_simps)
qed simp


definition example_patch :: canvas_patch where
  "example_patch =
     \<lparr>cp_title = Some ''Plan'', cp_body = None, cp_session_key = None, cp_append_blocks = [],
      cp_expected_revision = Some 0\<rparr>"


text \<open>
  C33. From the empty store, after any sequence of writes, patches and removals, every document
  is stored under its own identifier and its title, body and blocks have at most a mebibyte.
\<close>

theorem canvas_store_typed:
  "documents_ok (foldl canvas_step Map.empty ops)"
  by (rule canvas.inv_run) simp

text \<open>The revision starts again after a removal: a patch made for the document before it is
  then accepted on the new one.\<close>

definition untitled :: "string \<Rightarrow> canvas_document" where
  "untitled body =
     \<lparr>cd_id = ''main'', cd_title = [], cd_body = body, cd_session_key = None, cd_blocks = [],
      cd_revision = 0, cd_updated_at = 0\<rparr>"

lemma clear_reuses_revision:
  "\<not> isl (snd (canvas_patch_doc 9 ''main'' (example_patch\<lparr>cp_expected_revision := Some 1\<rparr>)
     (foldl canvas_step Map.empty
        [OpSet (untitled ''old''), OpClear ''main'', OpSet (untitled ''new'')])))"
  by (simp add: example_patch_def untitled_def canvas_set_def canvas_clear_def
      canvas_patch_doc_def apply_patch_def revision_conflict_def block_limit_def
      max_blocks_per_document_def validate_document_size_def document_size_def
      max_document_size_def Let_def)

text \<open>\<open>set\<close> does not look at the number of blocks, and no patch of such a document is
  accepted any more.\<close>

lemma set_exceeds_block_limit:
  assumes "document_size d \<le> max_document_size"
    and "max_blocks_per_document < length (cd_blocks d)"
  shows "\<exists>d1. snd (canvas_set d docs) = Inr d1 \<and> cd_blocks d1 = cd_blocks d"
    and "\<exists>e. snd (canvas_patch_doc now (cd_id d) p (fst (canvas_set d docs))) = Inl e"
proof -
  have set_result: "\<exists>r. canvas_set d docs = (docs(cd_id d \<mapsto> d\<lparr>cd_revision := r\<rparr>), Inr (d\<lparr>cd_revision := r\<rparr>))"
    by (rule canvas_set_cases [of d docs]) (use assms(1) in auto)
  then show "\<exists>d1. snd (canvas_set d docs) = Inr d1 \<and> cd_blocks d1 = cd_blocks d" by auto
  obtain r where r: "fst (canvas_set d docs) = docs(cd_id d \<mapsto> d\<lparr>cd_revision := r\<rparr>)"
    using set_result by auto
  show "\<exists>e. snd (canvas_patch_doc now (cd_id d) p (fst (canvas_set d docs))) = Inl e"
  proof (cases rule: canvas_patch_cases [of now "cd_id d" p "fst (canvas_set d docs)"])
    case (refused e)
    then show ?thesis by auto
  next
    case (stored d1)
    have "length (cd_blocks d) \<le> length (cd_blocks d1)"
      by (simp add: stored(2) r patched_def apply_patch_def Let_def split: option.splits)
    with stored(4) assms(2) show ?thesis by simp
  qed
qed

section \<open>Conversions and export\<close>

lemma kind_of_kind_name [simp]: "kind_of_name (kind_name k) = Some k"
  by (cases k) (simp_all add: kind_of_name_def)

lemma core_block_roundtrip [simp]: "core_block_to_local (local_block_to_core b) = b"
  by (simp add: core_block_to_local_def local_block_to_core_def)

lemma core_document_roundtrip [simp]: "core_doc_to_local (local_doc_to_core d) = d"
  by (simp add: core_doc_to_local_def local_doc_to_core_def o_def)

lemma service_get_after_set:
  assumes "service_set d st = (st1, Inr k)"
  shows "service_get (kd_id d) st1 = Some k"
proof -
  have nd: "cs_documents (notify i x s) = cs_documents s" for i x s
    by (simp add: notify_def split: option.splits)
  show ?thesis
    using assms
    by (cases rule: canvas_set_cases [of "core_doc_to_local d" "cs_documents st"])
      (auto simp: service_set_def service_result_def service_get_def canvas_get_def nd Let_def
        core_doc_to_local_def)
qed

lemma strip_tags_no_lt: "CHR ''<'' \<notin> set (strip_tags b s)"
  by (induction b s rule: strip_tags.induct) auto

lemma strip_tags_subset: "set (strip_tags b s) \<subseteq> set s"
  by (induction b s rule: strip_tags.induct) auto

lemma strip_html_plain: "CHR ''<'' \<notin> set s \<Longrightarrow> strip_html_tags s = s"
  by (induction s) (auto simp: strip_html_tags_def)

lemma strip_html_tags_idem [simp]: "strip_html_tags (strip_html_tags s) = strip_html_tags s"
  by (rule strip_html_plain) (simp add: strip_html_tags_def strip_tags_no_lt)

text \<open>An opening bracket that is never closed takes the rest of the text with it.\<close>

lemma strip_html_unclosed:
  "CHR ''<'' \<notin> set a \<Longrightarrow> CHR ''>'' \<notin> set b \<Longrightarrow> strip_html_tags (a @ CHR ''<'' # b) = a"
proof (induction a)
  case Nil
  then have "strip_tags True b = []" by (induction b) auto
  then show ?case by (simp add: strip_html_tags_def)
qed (auto simp: strip_html_tags_def)

end
