(* ===== verification/Channel_Types.thy ===== *)
theory Channel_Types
  imports Core_Types
begin

text \<open>
  What the gateway and a channel exchange (\<open>frankclaw-core/src/channel.rs\<close>): the capabilities,
  the health, inbound and outbound messages, the outcome of a send and the handle of a stream.
  A channel adapter is a record of its operations, each of which may change the world \<open>'w\<close> it
  acts on; the operations that the trait gives a default have their default here.
\<close>

type_synonym media_id = string

record channel_capabilities =
  cap_threads :: bool
  cap_groups :: bool
  cap_attachments :: bool
  cap_edit :: bool
  cap_delete :: bool
  cap_reactions :: bool
  cap_streaming :: bool
  cap_voice :: bool
  cap_inline_buttons :: bool

definition no_capabilities :: channel_capabilities where
  "no_capabilities =
     \<lparr>cap_threads = False, cap_groups = False, cap_attachments = False, cap_edit = False,
      cap_delete = False, cap_reactions = False, cap_streaming = False, cap_voice = False,
      cap_inline_buttons = False\<rparr>"

datatype health_status =
    Connected
  | Degraded string
  | Disconnected string
  | NotConfigured

record inbound_attachment =
  ia_media_id :: "media_id option"
  ia_mime_type :: string
  ia_filename :: "string option"
  ia_size_bytes :: "u64 option"
  ia_url :: "string option"

record inbound_message =
  im_channel :: channel_id
  im_account_id :: string
  im_sender_id :: string
  im_sender_name :: "string option"
  im_thread_id :: "string option"
  im_is_group :: bool
  im_is_mention :: bool
  im_text :: "string option"
  im_attachments :: "inbound_attachment list"
  im_platform_message_id :: "string option"
  im_timestamp :: datetime

record outbound_attachment =
  oa_media_id :: media_id
  oa_mime_type :: string
  oa_filename :: "string option"
  oa_url :: "string option"
  oa_bytes :: "u8 list"

record outbound_message =
  om_channel :: channel_id
  om_account_id :: string
  om_to :: string
  om_thread_id :: "string option"
  om_text :: string
  om_attachments :: "outbound_attachment list"
  om_reply_to :: "string option"

definition has_inline_bytes :: "outbound_attachment \<Rightarrow> bool" where
  "has_inline_bytes a \<longleftrightarrow> oa_bytes a \<noteq> []"

datatype send_result =
    Sent string
  | RateLimitedFor "u64 option"
  | Failed string

record edit_message_target =
  et_account_id :: string
  et_to :: string
  et_thread_id :: "string option"
  et_platform_message_id :: string

record delete_message_target =
  dt_account_id :: string
  dt_to :: string
  dt_thread_id :: "string option"
  dt_platform_message_id :: string

record stream_handle =
  sh_channel :: channel_id
  sh_account_id :: string
  sh_to :: string
  sh_thread_id :: "string option"
  sh_draft_message_id :: string

type_synonym ('w, 'a) effect = "'w \<Rightarrow> (frank_error + 'a) \<times> 'w"

record 'w channel_plugin =
  ch_id :: channel_id
  ch_capabilities :: channel_capabilities
  ch_label :: string
  ch_start :: "('w, unit) effect"
  ch_stop :: "('w, unit) effect"
  ch_health :: "'w \<Rightarrow> health_status \<times> 'w"
  ch_send :: "outbound_message \<Rightarrow> ('w, send_result) effect"
  ch_edit_message :: "edit_message_target \<Rightarrow> string \<Rightarrow> ('w, unit) effect"
  ch_delete_message :: "delete_message_target \<Rightarrow> ('w, unit) effect"
  ch_send_typing :: "string \<Rightarrow> string \<Rightarrow> string option \<Rightarrow> ('w, unit) effect"
  ch_send_reaction :: "string \<Rightarrow> string \<Rightarrow> string option \<Rightarrow> string \<Rightarrow> string \<Rightarrow> ('w, unit) effect"
  ch_stream_start :: "outbound_message \<Rightarrow> ('w, stream_handle) effect"
  ch_stream_update :: "stream_handle \<Rightarrow> string \<Rightarrow> ('w, unit) effect"
  ch_stream_end :: "stream_handle \<Rightarrow> string \<Rightarrow> ('w, unit) effect"

definition channel_err :: "channel_id \<Rightarrow> string \<Rightarrow> frank_error" where
  "channel_err channel msg = ChannelError channel msg"

text \<open>An adapter that implements only what the trait requires.\<close>

definition default_plugin ::
  "channel_id \<Rightarrow> channel_capabilities \<Rightarrow> string \<Rightarrow> ('w, unit) effect \<Rightarrow> ('w, unit) effect
    \<Rightarrow> ('w \<Rightarrow> health_status \<times> 'w) \<Rightarrow> (outbound_message \<Rightarrow> ('w, send_result) effect)
    \<Rightarrow> 'w channel_plugin" where
  "default_plugin cid caps label start stop health send =
     \<lparr>ch_id = cid, ch_capabilities = caps, ch_label = label, ch_start = start, ch_stop = stop,
      ch_health = health, ch_send = send,
      ch_edit_message = (\<lambda>_ _ w. (Inl (channel_err cid ''edit not supported''), w)),
      ch_delete_message = (\<lambda>_ w. (Inl (channel_err cid ''delete not supported''), w)),
      ch_send_typing = (\<lambda>_ _ _ w. (Inr (), w)),
      ch_send_reaction = (\<lambda>_ _ _ _ _ w. (Inl (ChannelError cid ''reactions not supported''), w)),
      ch_stream_start = (\<lambda>_ w. (Inl (channel_err cid ''streaming not supported''), w)),
      ch_stream_update = (\<lambda>_ _ w. (Inl (channel_err cid ''streaming not supported''), w)),
      ch_stream_end = (\<lambda>_ _ w. (Inl (channel_err cid ''streaming not supported''), w))\<rparr>"

end
