(* ===== verification/Channel_Text.thy ===== *)
theory Channel_Text
  imports Utf8_Text Channel_Types
begin

text \<open>
  The texts that the channel adapters exchange: the normalisation of an outgoing text
  (\<open>frankclaw-channels/src/outbound_text.rs\<close>) and the text that stands for a message with
  attachments only (\<open>frankclaw-channels/src/media_text.rs\<close>).
\<close>

section \<open>Outgoing text\<close>

datatype text_flavor = Plain | WhatsApp

definition strip_prefix_opt :: "string \<Rightarrow> string \<Rightarrow> string option" where
  "strip_prefix_opt p s = (if starts_with s p then Some (drop (length p) s) else None)"

text \<open>The first line that is not blank and follows a blank one.\<close>

fun split_index :: "string list \<Rightarrow> nat option" where
  "split_index (a # b # ls) =
     (if trim a = [] \<and> trim b \<noteq> [] then Some 1 else map_option Suc (split_index (b # ls)))"
| "split_index _ = None"

definition strip_reasoning_prefix :: "string \<Rightarrow> string" where
  "strip_reasoning_prefix text =
     (case strip_prefix_opt ''Reasoning:'' (trim_start text) of
        None \<Rightarrow> text
      | Some rest0 \<Rightarrow>
          (let rest = trim_start rest0
           in if rest = [] then text
              else (let ls = lines rest
                    in case split_index ls of
                         Some i \<Rightarrow> if i < length ls then join [newline] (drop i ls) else text
                       | None \<Rightarrow> text)))"

fun normalize_whatsapp_text :: "string \<Rightarrow> string" where
  "normalize_whatsapp_text (a # b # s) =
     (if a = CHR ''*'' \<and> b = CHR ''*'' then CHR ''*'' # normalize_whatsapp_text s
      else if a = CHR ''~'' \<and> b = CHR ''~'' then CHR ''~'' # normalize_whatsapp_text s
      else a # normalize_whatsapp_text (b # s))"
| "normalize_whatsapp_text s = s"

definition normalize_outbound_text :: "string \<Rightarrow> text_flavor \<Rightarrow> string" where
  "normalize_outbound_text text flavor =
     (let normalized =
        str_replace [CHR 0x0D, newline] [newline] (trim (strip_reasoning_prefix text))
      in case flavor of Plain \<Rightarrow> normalized | WhatsApp \<Rightarrow> normalize_whatsapp_text normalized)"

section \<open>Placeholders\<close>

definition normalize_mime_type :: "string \<Rightarrow> string" where
  "normalize_mime_type value =
     (let first = trim (hd (split_all CHR '';'' value))
      in to_lower (if first = [] then ''application/octet-stream'' else first))"

definition attachment_placeholder :: "inbound_attachment list \<Rightarrow> string" where
  "attachment_placeholder attachments =
     (if 1 < length attachments then ''<media:attachments>''
      else (let mime = (case attachments of
                          a # _ \<Rightarrow> normalize_mime_type (ia_mime_type a)
                        | [] \<Rightarrow> ''application/octet-stream'')
            in if starts_with mime ''image/'' then ''<media:image>''
               else if starts_with mime ''audio/'' then ''<media:audio>''
               else if starts_with mime ''video/'' then ''<media:video>''
               else ''<media:attachment>''))"

definition non_blank_text :: "string option \<Rightarrow> string option" where
  "non_blank_text v = (case map_option trim v of Some t \<Rightarrow> if t = [] then None else Some t | None \<Rightarrow> None)"

definition text_or_attachment_placeholder ::
  "string option \<Rightarrow> inbound_attachment list \<Rightarrow> string option" where
  "text_or_attachment_placeholder text attachments =
     (case non_blank_text text of
        Some t \<Rightarrow> Some t
      | None \<Rightarrow> if attachments = [] then None else Some (attachment_placeholder attachments))"

definition text_quote_or_attachment_placeholder ::
  "string option \<Rightarrow> string option \<Rightarrow> inbound_attachment list \<Rightarrow> string option" where
  "text_quote_or_attachment_placeholder text quote attachments =
     (case text_or_attachment_placeholder text attachments of
        Some t \<Rightarrow> Some t
      | None \<Rightarrow> non_blank_text quote)"

section \<open>Properties\<close>

lemma split_index_bound: "split_index ls = Some i \<Longrightarrow> 0 < i \<and> i < length ls \<and> trim (ls ! i) \<noteq> []"
  by (induction ls arbitrary: i rule: split_index.induct) (fastforce split: if_splits)+

text \<open>A text without a doubled marker is not changed; normalising never makes it longer, and a
  marker is never removed completely.\<close>

lemma whatsapp_length: "length (normalize_whatsapp_text s) \<le> length s"
  by (induction s rule: normalize_whatsapp_text.induct) auto

lemma whatsapp_unmarked:
  "\<not> contains s ''**'' \<Longrightarrow> \<not> contains s ''~~'' \<Longrightarrow> normalize_whatsapp_text s = s"
  by (induction s rule: normalize_whatsapp_text.induct) auto

lemma whatsapp_set: "set (normalize_whatsapp_text s) = set s"
  by (induction s rule: normalize_whatsapp_text.induct) auto

text \<open>Three markers in a row give two: the normalised text can still hold a doubled marker.\<close>

lemma whatsapp_triple: "normalize_whatsapp_text ''***bold***'' = ''**bold**''"
  by simp

text \<open>A message is given a text exactly when it has some: its own, or a placeholder for its
  attachments, or the quote.\<close>

lemma placeholder_total:
  "text_quote_or_attachment_placeholder text quote attachments = None \<longleftrightarrow>
     non_blank_text text = None \<and> attachments = [] \<and> non_blank_text quote = None"
  by (auto simp: text_quote_or_attachment_placeholder_def text_or_attachment_placeholder_def
      split: option.splits)

lemma placeholder_not_empty:
  "text_quote_or_attachment_placeholder text quote attachments = Some t \<Longrightarrow> t \<noteq> []"
  by (auto simp: text_quote_or_attachment_placeholder_def text_or_attachment_placeholder_def
      non_blank_text_def attachment_placeholder_def Let_def split: option.splits if_splits list.splits)

end
