(* ===== verification/Delivery.thy ===== *)
theory Delivery
  imports Utf8_Text Channel_Types Json
begin

text \<open>
  Delivery of replies (\<open>frankclaw-gateway/src/delivery.rs\<close>): a reply is cut into the messages
  its channel accepts, each message is sent with the retries of the channel or written step
  by step as a stream, and what happened is recorded. The channel adapter, the waiting and
  the media store are arguments; the audit log is left out.
\<close>

section \<open>Data\<close>

definition max_outbound_attempts :: nat where
  "max_outbound_attempts = 3"

definition max_retry_delay_secs :: u64 where
  "max_retry_delay_secs = 30"

definition pseudo_stream_min_chars :: nat where
  "pseudo_stream_min_chars = 240"

record chunk_record =
  kr_text :: string
  kr_status :: string
  kr_platform_message_id :: "string option"
  kr_attempts :: nat
  kr_retry_after_secs :: "u64 option"
  kr_error :: "string option"

record delivery_record =
  dr_status :: string
  dr_platform_message_id :: "string option"
  dr_attempts :: nat
  dr_retry_after_secs :: "u64 option"
  dr_error :: "string option"
  dr_chunks :: "chunk_record list"

record stored_reply_chunk =
  rc_content :: string
  rc_platform_message_id :: "string option"
  rc_status :: string
  rc_attempts :: nat
  rc_retry_after_secs :: "u64 option"
  rc_error :: "string option"

record stored_reply =
  sr_channel :: string
  sr_account_id :: string
  sr_recipient_id :: string
  sr_thread_id :: "string option"
  sr_reply_to :: "string option"
  sr_content :: string
  sr_platform_message_id :: "string option"
  sr_status :: string
  sr_attempts :: nat
  sr_retry_after_secs :: "u64 option"
  sr_error :: "string option"
  sr_chunks :: "stored_reply_chunk list"
  sr_recorded_at :: datetime

section \<open>Attachments from the media store\<close>

record stored_media =
  sm_bytes :: "u8 list"
  sm_filename :: string
  sm_mime_type :: string

definition hydrate_attachment ::
  "stored_media \<Rightarrow> outbound_attachment \<Rightarrow> outbound_attachment" where
  "hydrate_attachment stored a =
     a\<lparr>oa_bytes := sm_bytes stored,
       oa_filename := (case oa_filename a of None \<Rightarrow> Some (sm_filename stored) | Some f \<Rightarrow> Some f),
       oa_url := (case oa_url a of None \<Rightarrow> Some (''/api/media/'' @ oa_media_id a) | Some u \<Rightarrow> Some u),
       oa_mime_type := (if trim (oa_mime_type a) = [] then sm_mime_type stored else oa_mime_type a)\<rparr>"

fun hydrate_all ::
  "(media_id \<Rightarrow> frank_error + stored_media option) \<Rightarrow> outbound_attachment list
    \<Rightarrow> frank_error + outbound_attachment list" where
  "hydrate_all read [] = Inr []"
| "hydrate_all read (a # as) =
     (if has_inline_bytes a then map_sum id ((#) a) (hydrate_all read as)
      else (case read (oa_media_id a) of
              Inl e \<Rightarrow> Inl e
            | Inr None \<Rightarrow> Inl (InvalidRequest (''missing outbound media '' @ oa_media_id a))
            | Inr (Some stored) \<Rightarrow>
                map_sum id ((#) (hydrate_attachment stored a)) (hydrate_all read as)))"

definition hydrate_outbound_attachments ::
  "(media_id \<Rightarrow> frank_error + stored_media option) option \<Rightarrow> outbound_message
    \<Rightarrow> frank_error + outbound_message" where
  "hydrate_outbound_attachments media outbound =
     (case media of
        None \<Rightarrow> Inr outbound
      | Some read \<Rightarrow>
          map_sum id (\<lambda>as. outbound\<lparr>om_attachments := as\<rparr>)
            (hydrate_all read (om_attachments outbound)))"

section \<open>Cutting a reply into messages\<close>

datatype batch_kind = Visual | Audio | Document

definition telegram_kind :: "string \<Rightarrow> batch_kind" where
  "telegram_kind mime =
     (let m = to_lower (trim mime)
      in if starts_with m ''image/'' \<or> starts_with m ''video/'' then Visual
         else if starts_with m ''audio/'' then Audio
         else Document)"

text \<open>The loop over the attachments, with the finished batches, the current batch and its kind.\<close>

fun telegram_loop ::
  "outbound_attachment list list \<Rightarrow> outbound_attachment list \<Rightarrow> batch_kind option
    \<Rightarrow> outbound_attachment list \<Rightarrow> outbound_attachment list list" where
  "telegram_loop batches current kind [] =
     (if current \<noteq> [] then batches @ [current] else batches)"
| "telegram_loop batches current kind (a # as) =
     (let k = telegram_kind (oa_mime_type a);
          compatible = (case kind of Some k0 \<Rightarrow> k0 = k | None \<Rightarrow> True)
      in if \<not> compatible \<or> 10 \<le> length current
         then telegram_loop (if current \<noteq> [] then batches @ [current] else batches) [a] (Some k) as
         else telegram_loop batches (current @ [a])
                (case kind of None \<Rightarrow> Some k | Some k0 \<Rightarrow> Some k0) as)"

definition split_telegram_batches :: "outbound_attachment list \<Rightarrow> outbound_attachment list list" where
  "split_telegram_batches as = telegram_loop [] [] None as"

function split_attachment_vec :: "'a list \<Rightarrow> nat \<Rightarrow> 'a list list" where
  "split_attachment_vec as n =
     (if take n as = [] then [] else take n as # split_attachment_vec (drop n as) n)"
  by pat_completeness auto
termination by (relation "measure (\<lambda>(as, n). length as)") auto

declare split_attachment_vec.simps [simp del]

text \<open>Only the first message of a batch keeps the text and the reply.\<close>

fun batch_messages ::
  "outbound_message \<Rightarrow> bool \<Rightarrow> outbound_attachment list list \<Rightarrow> outbound_message list" where
  "batch_messages m is_first [] = []"
| "batch_messages m is_first (as # ass) =
     m\<lparr>om_text := (if is_first then om_text m else []), om_attachments := as,
       om_reply_to := (if is_first then om_reply_to m else None)\<rparr>
     # batch_messages m False ass"

definition split_attachment_batches :: "outbound_message \<Rightarrow> outbound_message list" where
  "split_attachment_batches m =
     (if om_attachments m = [] then [m]
      else (let ch = channel_str (om_channel m);
                grouped =
                  (if ch = ''whatsapp'' then Some (split_attachment_vec (om_attachments m) 1)
                   else if ch = ''telegram'' then Some (split_telegram_batches (om_attachments m))
                   else None)
            in case grouped of
                 None \<Rightarrow> [m]
               | Some g \<Rightarrow> if length g \<le> 1 then [m] else batch_messages m True g))"

definition max_chars_for_channel :: "string \<Rightarrow> nat option" where
  "max_chars_for_channel ch =
     (if ch = ''whatsapp'' then Some 4000
      else if ch = ''discord'' then Some 1900
      else if ch = ''telegram'' \<or> ch = ''slack'' then Some 3500
      else if ch = ''signal'' then Some 3000
      else None)"

text \<open>Where the first piece of a text ends: before the last white space among the first
  \<open>max_chars\<close> characters, and after these characters when there is none.\<close>

definition split_point :: "nat \<Rightarrow> string \<Rightarrow> nat" where
  "split_point max_chars remaining =
     (let window = prefix_chars max_chars remaining
      in case last_position is_ws window of
           Some i \<Rightarrow> if 0 < i then i else length window
         | None \<Rightarrow> length window)"

definition split_chunk :: "nat \<Rightarrow> string \<Rightarrow> string" where
  "split_chunk max_chars remaining =
     (let chunk = trim (take (split_point max_chars remaining) remaining)
      in if chunk = [] then trim (prefix_chars max_chars remaining) else chunk)"

definition split_consumed :: "nat \<Rightarrow> string \<Rightarrow> nat" where
  "split_consumed max_chars remaining =
     (if 0 < split_point max_chars remaining then split_point max_chars remaining
      else length (prefix_chars max_chars remaining))"

lemma split_consumed_pos: "split_chunk n s \<noteq> [] \<Longrightarrow> 0 < split_consumed n s"
  by (auto simp: split_chunk_def split_consumed_def split: if_splits)

function split_loop :: "nat \<Rightarrow> string \<Rightarrow> string list" where
  "split_loop max_chars remaining =
     (if remaining = [] then []
      else if char_count remaining \<le> max_chars then [remaining]
      else (let chunk = split_chunk max_chars remaining
            in if chunk = [] then []
               else chunk # split_loop max_chars
                      (trim_start (drop (split_consumed max_chars remaining) remaining))))"
  by pat_completeness auto
termination
proof (relation "measure (\<lambda>(_, s). length s)", goal_cases)
  case (2 n s x)
  then have "0 < split_consumed n s" by (simp add: split_consumed_pos)
  moreover have "length (trim_start (drop (split_consumed n s) s)) \<le> length s - split_consumed n s"
    using length_trim_start [of "drop (split_consumed n s) s"] by simp
  ultimately show ?case using 2 by (cases s) auto
qed simp

declare split_loop.simps [simp del]

definition split_text :: "string \<Rightarrow> nat \<Rightarrow> string list" where
  "split_text text max_chars =
     (let chunks = split_loop max_chars (trim text) in if chunks = [] then [text] else chunks)"

fun text_messages :: "outbound_message \<Rightarrow> bool \<Rightarrow> string list \<Rightarrow> outbound_message list" where
  "text_messages m is_first [] = []"
| "text_messages m is_first (t # ts) =
     m\<lparr>om_text := t, om_reply_to := (if is_first then om_reply_to m else None)\<rparr>
     # text_messages m False ts"

definition split_outbound_message :: "outbound_message \<Rightarrow> outbound_message list" where
  "split_outbound_message outbound =
     (let batches = split_attachment_batches outbound
      in if 1 < length batches then batches
         else (let m = hd batches
               in case max_chars_for_channel (channel_str (om_channel m)) of
                    None \<Rightarrow> [m]
                  | Some max_chars \<Rightarrow>
                      if om_attachments m \<noteq> [] \<or> char_count (om_text m) \<le> max_chars then [m]
                      else text_messages m True (split_text (om_text m) max_chars)))"

section \<open>Sending with retries\<close>

definition max_attempts_for_channel :: "string \<Rightarrow> nat" where
  "max_attempts_for_channel ch =
     (if ch = ''slack'' \<or> ch = ''discord'' \<or> ch = ''whatsapp'' then 4 else max_outbound_attempts)"

definition clamp :: "'a::linorder \<Rightarrow> 'a \<Rightarrow> 'a \<Rightarrow> 'a" where
  "clamp x lo hi = max lo (min hi x)"

definition retry_delay_secs :: "string \<Rightarrow> nat \<Rightarrow> u64 option \<Rightarrow> u64" where
  "retry_delay_secs ch attempts retry_after =
     (case retry_after of
        Some r \<Rightarrow> clamp r 1 max_retry_delay_secs
      | None \<Rightarrow>
          (let base :: u64 =
             (if ch = ''slack'' then 2 else if ch = ''discord'' then 2 else if ch = ''whatsapp'' then 3
              else if ch = ''signal'' then 2 else 1);
             exponent :: u32 = of_nat (attempts - 1)
           in clamp (sat_mul base (sat_pow 2 (unat exponent))) 1 max_retry_delay_secs))"

definition permanent_markers :: "string list" where
  "permanent_markers =
     [''invalid_auth'', ''unauthorized'', ''forbidden'', ''not_in_channel'', ''channel_not_found'',
      ''chat not found'', ''message_not_found'', ''authentication failed'', ''auth failed'',
      ''invalid token'', ''permission denied'']"

definition transient_markers :: "string list" where
  "transient_markers =
     [''timeout'', ''temporarily_unavailable'', ''temporarily unavailable'', ''internal'',
      ''server error'', ''connection reset'', ''connection refused'', ''rate limit'', ''try again'']"

definition should_retry_send_failure :: "string \<Rightarrow> string \<Rightarrow> bool" where
  "should_retry_send_failure ch reason =
     (let normalized = to_lower (trim reason)
      in if normalized = [] then True
         else if list_ex (\<lambda>m. contains normalized m) permanent_markers then False
         else if list_ex (\<lambda>m. contains normalized m) transient_markers then True
         else \<not> (ch = ''whatsapp'' \<or> ch = ''slack'' \<or> ch = ''discord''))"

definition sent_record :: "string \<Rightarrow> string \<Rightarrow> nat \<Rightarrow> u64 option \<Rightarrow> chunk_record" where
  "sent_record text pid attempts retry_after =
     \<lparr>kr_text = text, kr_status = ''sent'', kr_platform_message_id = Some pid,
      kr_attempts = attempts, kr_retry_after_secs = retry_after, kr_error = None\<rparr>"

definition failed_record :: "string \<Rightarrow> string \<Rightarrow> nat \<Rightarrow> u64 option \<Rightarrow> string \<Rightarrow> chunk_record" where
  "failed_record text status attempts retry_after err =
     \<lparr>kr_text = text, kr_status = status, kr_platform_message_id = None,
      kr_attempts = attempts, kr_retry_after_secs = retry_after, kr_error = Some err\<rparr>"

text \<open>The loop of attempts: \<open>attempts\<close> sends were made, the next one is number \<open>Suc attempts\<close>.\<close>

function send_loop ::
  "'w channel_plugin \<Rightarrow> (u64 \<Rightarrow> 'w \<Rightarrow> 'w) \<Rightarrow> outbound_message \<Rightarrow> nat \<Rightarrow> u64 option
    \<Rightarrow> 'w \<Rightarrow> (frank_error + chunk_record) \<times> 'w" where
  "send_loop ch sleep m attempts last_retry w =
     (let name = channel_str (om_channel m);
          max_attempts = max_attempts_for_channel name;
          n = Suc attempts
      in case ch_send ch m w of
           (Inr (Sent pid), w1) \<Rightarrow> (Inr (sent_record (om_text m) pid n last_retry), w1)
         | (Inr (RateLimitedFor retry_after), w1) \<Rightarrow>
             if max_attempts \<le> n
             then (Inr (failed_record (om_text m) ''rate_limited'' n retry_after ''rate limited''), w1)
             else send_loop ch sleep m n retry_after (sleep (retry_delay_secs name n retry_after) w1)
         | (Inr (Failed reason), w1) \<Rightarrow>
             if max_attempts \<le> n \<or> \<not> should_retry_send_failure name reason
             then (Inr (failed_record (om_text m) ''failed'' n None reason), w1)
             else send_loop ch sleep m n last_retry (sleep (retry_delay_secs name n None) w1)
         | (Inl err, w1) \<Rightarrow>
             if max_attempts \<le> n \<or> \<not> should_retry_send_failure name (error_text err)
             then (Inl err, w1)
             else send_loop ch sleep m n last_retry (sleep (retry_delay_secs name n None) w1))"
  by pat_completeness auto
termination
  by (relation "measure (\<lambda>(ch, sleep, m, attempts, last_retry, w).
        max_attempts_for_channel (channel_str (om_channel m)) - attempts)") auto

declare send_loop.simps [simp del]

definition send_outbound_chunk ::
  "'w channel_plugin \<Rightarrow> (u64 \<Rightarrow> 'w \<Rightarrow> 'w) \<Rightarrow> outbound_message \<Rightarrow> ('w, chunk_record) effect" where
  "send_outbound_chunk ch sleep m = send_loop ch sleep m 0 None"

section \<open>Streaming\<close>

definition should_pseudo_stream :: "channel_capabilities \<Rightarrow> outbound_message \<Rightarrow> bool" where
  "should_pseudo_stream caps m \<longleftrightarrow>
     cap_streaming caps \<and> cap_edit caps \<and> om_attachments m = [] \<and>
     pseudo_stream_min_chars \<le> char_count (om_text m)"

fun boundary_end :: "nat \<Rightarrow> nat \<Rightarrow> string \<Rightarrow> nat option" where
  "boundary_end target count [] = None"
| "boundary_end target count (c # s) =
     (let n = (if is_continuation c then count else Suc count)
      in if target \<le> n \<and> (is_ws c \<or> c \<in> set ''.!?,;:'') then Some 1
         else map_option Suc (boundary_end target n s))"

definition preview_slice :: "string \<Rightarrow> nat \<Rightarrow> string option" where
  "preview_slice text target =
     (if text = [] then None
      else (let candidate =
              trim (take (case boundary_end target 0 text of Some e \<Rightarrow> e | None \<Rightarrow> length text) text)
            in if candidate = [] \<or> candidate = text then None else Some candidate))"

definition add_step :: "string list \<Rightarrow> string \<Rightarrow> string list" where
  "add_step steps s = (if steps \<noteq> [] \<and> last steps = s then steps else steps @ [s])"

definition pseudo_stream_steps :: "string \<Rightarrow> string list" where
  "pseudo_stream_steps text0 =
     (let text = trim text0; total = char_count text
      in if total < pseudo_stream_min_chars then [text]
         else (let steps =
                 fold (\<lambda>ratio steps.
                   case preview_slice text (total * ratio div 3) of
                     Some candidate \<Rightarrow> add_step steps candidate
                   | None \<Rightarrow> steps) [1, 2] []
               in add_step steps text))"

fun stream_updates ::
  "'w channel_plugin \<Rightarrow> (u64 \<Rightarrow> 'w \<Rightarrow> 'w) \<Rightarrow> stream_handle \<Rightarrow> string list \<Rightarrow> 'w \<Rightarrow> bool \<times> 'w" where
  "stream_updates ch sleep_ms h [] w = (True, w)"
| "stream_updates ch sleep_ms h (s # ss) w =
     (case ch_stream_update ch h s w of
        (Inl err, w1) \<Rightarrow> (False, w1)
      | (Inr _, w1) \<Rightarrow> stream_updates ch sleep_ms h ss (sleep_ms 75 w1))"

definition send_streamed_chunk ::
  "'w channel_plugin \<Rightarrow> (u64 \<Rightarrow> 'w \<Rightarrow> 'w) \<Rightarrow> (u64 \<Rightarrow> 'w \<Rightarrow> 'w) \<Rightarrow> outbound_message
    \<Rightarrow> ('w, chunk_record) effect" where
  "send_streamed_chunk ch sleep sleep_ms m w =
     (let steps = pseudo_stream_steps (om_text m)
      in if length steps < 2 then send_outbound_chunk ch sleep m w
         else (case ch_stream_start ch (m\<lparr>om_text := hd steps\<rparr>) w of
                 (Inl err, w1) \<Rightarrow> send_outbound_chunk ch sleep m w1
               | (Inr handle, w1) \<Rightarrow>
                   (let w2 = snd (stream_updates ch sleep_ms handle
                              (drop 1 (take (length steps - 1) steps)) w1)
                    in case ch_stream_end ch handle (om_text m) w2 of
                         (Inl err, w3) \<Rightarrow> (Inl err, w3)
                       | (Inr _, w3) \<Rightarrow>
                           (Inr (sent_record (om_text m) (sh_draft_message_id handle) 1 None), w3))))"

section \<open>Delivery of a reply\<close>

definition send_chunk ::
  "'w channel_plugin \<Rightarrow> (u64 \<Rightarrow> 'w \<Rightarrow> 'w) \<Rightarrow> (u64 \<Rightarrow> 'w \<Rightarrow> 'w) \<Rightarrow> outbound_message
    \<Rightarrow> ('w, chunk_record) effect" where
  "send_chunk ch sleep sleep_ms m =
     (if should_pseudo_stream (ch_capabilities ch) m
      then send_streamed_chunk ch sleep sleep_ms m
      else send_outbound_chunk ch sleep m)"

text \<open>The loop over the messages, with the record built so far.\<close>

fun deliver_loop ::
  "'w channel_plugin \<Rightarrow> (u64 \<Rightarrow> 'w \<Rightarrow> 'w) \<Rightarrow> (u64 \<Rightarrow> 'w \<Rightarrow> 'w) \<Rightarrow> delivery_record
    \<Rightarrow> outbound_message list \<Rightarrow> ('w, delivery_record) effect" where
  "deliver_loop ch sleep sleep_ms r [] w = (Inr (r\<lparr>dr_status := ''sent'', dr_error := None\<rparr>), w)"
| "deliver_loop ch sleep sleep_ms r (m # ms) w =
     (case send_chunk ch sleep sleep_ms m w of
        (Inl e, w1) \<Rightarrow> (Inl e, w1)
      | (Inr k, w1) \<Rightarrow>
          (let r1 = r\<lparr>dr_attempts := dr_attempts r + kr_attempts k,
                      dr_platform_message_id :=
                        (case kr_platform_message_id k of
                           Some pid \<Rightarrow> Some pid | None \<Rightarrow> dr_platform_message_id r),
                      dr_retry_after_secs := kr_retry_after_secs k,
                      dr_chunks := dr_chunks r @ [k]\<rparr>
           in if kr_status k \<noteq> ''sent''
              then (Inr (r1\<lparr>dr_status := kr_status k, dr_error := kr_error k\<rparr>), w1)
              else deliver_loop ch sleep sleep_ms r1 ms w1))"

definition deliver_outbound_message ::
  "'w channel_plugin \<Rightarrow> (u64 \<Rightarrow> 'w \<Rightarrow> 'w) \<Rightarrow> (u64 \<Rightarrow> 'w \<Rightarrow> 'w)
    \<Rightarrow> (media_id \<Rightarrow> frank_error + stored_media option) option \<Rightarrow> outbound_message
    \<Rightarrow> ('w, delivery_record) effect" where
  "deliver_outbound_message ch sleep sleep_ms media outbound w =
     (case hydrate_outbound_attachments media outbound of
        Inl e \<Rightarrow> (Inl e, w)
      | Inr m \<Rightarrow>
          deliver_loop ch sleep sleep_ms
            \<lparr>dr_status = ''sent'', dr_platform_message_id = None, dr_attempts = 0,
             dr_retry_after_secs = None, dr_error = None, dr_chunks = []\<rparr>
            (split_outbound_message m) w)"

section \<open>The last reply in the metadata of a session\<close>

definition last_reply_from_metadata ::
  "(json \<Rightarrow> stored_reply option) \<Rightarrow> json \<Rightarrow> stored_reply option" where
  "last_reply_from_metadata from_value metadata =
     Option.bind (Option.bind (json_get metadata ''delivery'') (\<lambda>d. json_get d ''last_reply'')) from_value"

definition set_last_reply_in_metadata ::
  "(stored_reply \<Rightarrow> json option) \<Rightarrow> stored_reply \<Rightarrow> json \<Rightarrow> json option" where
  "set_last_reply_in_metadata to_value reply metadata =
     (case to_value reply of
        None \<Rightarrow> None
      | Some v \<Rightarrow>
          (case metadata of
             JObject kvs \<Rightarrow>
               (let delivery = (case map_of kvs ''delivery'' of Some d \<Rightarrow> d | None \<Rightarrow> JObject [])
                in Some (json_set ''delivery'' (json_set ''last_reply'' v delivery) metadata))
           | _ \<Rightarrow> Some (JObject [(''delivery'', JObject [(''last_reply'', v)])])))"

section \<open>Cutting loses nothing\<close>

lemma split_point_le: "split_point n s \<le> length (prefix_chars n s)"
  by (auto simp: split_point_def Let_def split: option.splits dest: last_position_bound)

lemma split_point_prefix: "take (split_point n s) s = take (split_point n s) (prefix_chars n s)"
  using split_point_le [of n s] prefix_chars_take [of n s]
  by (metis min.absorb1 take_take)

lemma split_point_pos: "s \<noteq> [] \<Longrightarrow> 0 < n \<Longrightarrow> 0 < split_point n s"
  using prefix_chars_ne [of s n] by (auto simp: split_point_def Let_def split: option.splits)

lemma split_chunk_count: "char_count (split_chunk n s) \<le> n"
proof -
  have "char_count (take (split_point n s) s) \<le> n"
    using char_count_take_le [of "split_point n s" "prefix_chars n s"]
    by (simp add: split_point_prefix char_count_prefix_chars)
  then show ?thesis
    using char_count_trim [of "take (split_point n s) s"] char_count_trim [of "prefix_chars n s"]
    by (simp add: split_chunk_def Let_def char_count_prefix_chars)
qed

lemma split_chunk_first:
  assumes "s \<noteq> []" "\<not> is_ws (hd s)" "0 < n"
  shows "split_chunk n s = trim (take (split_point n s) s)" and "split_chunk n s \<noteq> []"
proof -
  have "hd s \<in> set (take (split_point n s) s)"
    using assms split_point_pos [of s n] by (cases s) (auto simp: take_Cons')
  with assms(2) have "trim (take (split_point n s) s) \<noteq> []" by (auto simp: trim_Nil_iff)
  then show "split_chunk n s = trim (take (split_point n s) s)" "split_chunk n s \<noteq> []"
    by (simp_all add: split_chunk_def)
qed

text \<open>The pieces hold all the visible text, in order, each within the limit, none empty.\<close>

lemma split_loop_visible:
  "0 < n \<Longrightarrow> s = [] \<or> \<not> is_ws (hd s) \<Longrightarrow> visible (concat (split_loop n s)) = visible s"
proof (induction n s rule: split_loop.induct)
  case (1 n s)
  show ?case
  proof (cases "s = [] \<or> char_count s \<le> n")
    case True
    then show ?thesis by (subst split_loop.simps) auto
  next
    case False
    let ?i = "split_point n s"
    let ?rest = "trim_start (drop ?i s)"
    have first: "split_chunk n s = trim (take ?i s)" "split_chunk n s \<noteq> []"
      using False 1(2,3) split_chunk_first [of s n] by auto
    have consumed: "split_consumed n s = ?i"
      using False 1(2) split_point_pos [of s n] by (simp add: split_consumed_def)
    have "visible (concat (split_loop n ?rest)) = visible ?rest"
      using 1(1) [OF _ _ refl] False first(2) 1(2) trim_start_not_hd [of "drop ?i s"] consumed by auto
    then have "visible (concat (split_loop n s)) = visible (take ?i s) @ visible (drop ?i s)"
      using False first consumed by (subst split_loop.simps) (simp add: Let_def)
    also have "\<dots> = visible s" by (metis append_take_drop_id visible_simps(3))
    finally show ?thesis .
  qed
qed

lemma split_loop_bounds:
  "\<forall>c\<in>set (split_loop n s). char_count c \<le> n \<and> c \<noteq> []"
proof (induction n s rule: split_loop.induct)
  case (1 n s)
  then show ?case
    by (subst split_loop.simps) (auto simp: Let_def split_chunk_count)
qed

lemma split_loop_Nil: "0 < n \<Longrightarrow> s \<noteq> [] \<Longrightarrow> \<not> is_ws (hd s) \<Longrightarrow> split_loop n s \<noteq> []"
  using split_chunk_first(2) [of s n] by (subst split_loop.simps) (simp add: Let_def)

lemma split_text_visible: "0 < n \<Longrightarrow> visible (concat (split_text t n)) = visible t"
  using split_loop_visible [of n "trim t"] trim_not_hd [of t] by (auto simp: split_text_def Let_def)

lemma split_text_bounds:
  "0 < n \<Longrightarrow> trim t \<noteq> [] \<Longrightarrow> \<forall>c\<in>set (split_text t n). char_count c \<le> n \<and> c \<noteq> []"
  using split_loop_bounds [of n "trim t"] split_loop_Nil [of n "trim t"] trim_not_hd [of t]
  by (auto simp: split_text_def Let_def)

lemma concat_split_attachment_vec: "0 < n \<Longrightarrow> concat (split_attachment_vec as n) = as"
proof (induction as n rule: split_attachment_vec.induct)
  case (1 as n)
  then show ?case by (subst split_attachment_vec.simps) auto
qed

lemma split_attachment_vec_bounds:
  "\<forall>b\<in>set (split_attachment_vec as n). b \<noteq> [] \<and> length b \<le> n"
proof (induction as n rule: split_attachment_vec.induct)
  case (1 as n)
  then show ?case by (subst split_attachment_vec.simps) auto
qed

lemma concat_telegram_loop:
  "concat (telegram_loop batches current kind as) = concat batches @ current @ as"
  by (induction batches current kind as rule: telegram_loop.induct) (auto simp: Let_def)

text \<open>The two ways an attachment joins the batches.\<close>

lemma telegram_loop_Cons:
  obtains (next_batch) "telegram_loop batches current kind (a # as) =
      telegram_loop (if current \<noteq> [] then batches @ [current] else batches) [a]
        (Some (telegram_kind (oa_mime_type a))) as"
  | (same_batch) "length current < 10"
      "kind = None \<or> kind = Some (telegram_kind (oa_mime_type a))"
      "telegram_loop batches current kind (a # as) =
        telegram_loop batches (current @ [a]) (Some (telegram_kind (oa_mime_type a))) as"
proof (cases "kind = None \<or> kind = Some (telegram_kind (oa_mime_type a))")
  case compatible: True
  show ?thesis
  proof (cases "10 \<le> length current")
    case True
    then show ?thesis by (intro next_batch) (simp add: Let_def)
  next
    case False
    with compatible show ?thesis by (intro same_batch) (auto simp: Let_def)
  qed
next
  case False
  then show ?thesis by (intro next_batch) (auto simp: Let_def)
qed

lemma telegram_loop_bounds:
  "\<forall>b\<in>set batches. b \<noteq> [] \<and> length b \<le> 10 \<Longrightarrow> length current \<le> 10 \<Longrightarrow>
   \<forall>b\<in>set (telegram_loop batches current kind as). b \<noteq> [] \<and> length b \<le> 10"
proof (induction as arbitrary: batches current kind)
  case (Cons a as)
  show ?case
  proof (cases rule: telegram_loop_Cons [of batches current kind a as])
    case next_batch
    show ?thesis unfolding next_batch by (rule Cons.IH) (use Cons.prems in auto)
  next
    case same_batch
    show ?thesis unfolding same_batch(3) by (rule Cons.IH) (use Cons.prems same_batch(1) in auto)
  qed
qed simp

text \<open>A batch for Telegram holds attachments of one kind.\<close>

definition all_kind :: "batch_kind \<Rightarrow> outbound_attachment list \<Rightarrow> bool" where
  "all_kind k as \<longleftrightarrow> (\<forall>a\<in>set as. telegram_kind (oa_mime_type a) = k)"

lemma all_kind_simps [simp]:
  "all_kind k []"
  "all_kind k (a # as) \<longleftrightarrow> telegram_kind (oa_mime_type a) = k \<and> all_kind k as"
  "all_kind k (as @ bs) \<longleftrightarrow> all_kind k as \<and> all_kind k bs"
  by (auto simp: all_kind_def)

lemma telegram_loop_one_kind:
  "\<forall>b\<in>set batches. \<exists>k. all_kind k b \<Longrightarrow>
   (case kind of Some k \<Rightarrow> all_kind k current | None \<Rightarrow> current = []) \<Longrightarrow>
   \<forall>b\<in>set (telegram_loop batches current kind as). \<exists>k. all_kind k b"
proof (induction as arbitrary: batches current kind)
  case (Cons a as)
  show ?case
  proof (cases rule: telegram_loop_Cons [of batches current kind a as])
    case next_batch
    show ?thesis
      unfolding next_batch by (rule Cons.IH) (use Cons.prems in \<open>auto split: option.splits\<close>)
  next
    case same_batch
    show ?thesis
      unfolding same_batch(3)
      by (rule Cons.IH) (use Cons.prems same_batch(2) in \<open>auto split: option.splits\<close>)
  qed
qed (auto split: option.splits)

lemma batch_messages_texts:
  "concat (map om_text (batch_messages m b ass)) = (if b \<and> ass \<noteq> [] then om_text m else [])"
  by (induction m b ass rule: batch_messages.induct) auto

lemma batch_messages_attachments: "map om_attachments (batch_messages m b ass) = ass"
  by (induction m b ass rule: batch_messages.induct) auto

lemma text_messages_texts: "map om_text (text_messages m b ts) = ts"
  by (induction m b ts rule: text_messages.induct) auto

lemma text_messages_same:
  "x \<in> set (text_messages m b ts) \<Longrightarrow>
   om_channel x = om_channel m \<and> om_account_id x = om_account_id m \<and> om_to x = om_to m \<and>
   om_thread_id x = om_thread_id m \<and> om_attachments x = om_attachments m"
  by (induction m b ts rule: text_messages.induct) auto

lemma batch_messages_same:
  "x \<in> set (batch_messages m b ass) \<Longrightarrow>
   om_channel x = om_channel m \<and> om_account_id x = om_account_id m \<and> om_to x = om_to m \<and>
   om_thread_id x = om_thread_id m"
  by (induction m b ass rule: batch_messages.induct) auto

lemma text_messages_reply:
  "x \<in> set (text_messages m False ts) \<Longrightarrow> om_reply_to x = None"
  "x \<in> set (tl (text_messages m b ts)) \<Longrightarrow> om_reply_to x = None"
proof -
  show *: "x \<in> set (text_messages m False ts) \<Longrightarrow> om_reply_to x = None" for ts
    by (induction ts) auto
  show "x \<in> set (tl (text_messages m b ts)) \<Longrightarrow> om_reply_to x = None"
    by (cases ts) (auto dest: *)
qed

lemma batch_messages_reply:
  "x \<in> set (batch_messages m False ass) \<Longrightarrow> om_reply_to x = None"
  "x \<in> set (tl (batch_messages m b ass)) \<Longrightarrow> om_reply_to x = None"
proof -
  show *: "x \<in> set (batch_messages m False ass) \<Longrightarrow> om_reply_to x = None" for ass
    by (induction ass) auto
  show "x \<in> set (tl (batch_messages m b ass)) \<Longrightarrow> om_reply_to x = None"
    by (cases ass) (auto dest: *)
qed

lemma split_attachment_batches_sound:
  fixes m
  defines "ms \<equiv> split_attachment_batches m"
  shows "ms \<noteq> []" "concat (map om_text ms) = om_text m"
    "concat (map om_attachments ms) = om_attachments m"
    "om_reply_to (hd ms) = om_reply_to m" "list_all (\<lambda>x. om_reply_to x = None) (tl ms)"
    "list_all (\<lambda>x. om_channel x = om_channel m \<and> om_account_id x = om_account_id m \<and>
       om_to x = om_to m \<and> om_thread_id x = om_thread_id m) ms"
proof -
  let ?P = "\<lambda>ms. ms \<noteq> [] \<and> concat (map om_text ms) = om_text m \<and>
    concat (map om_attachments ms) = om_attachments m \<and> om_reply_to (hd ms) = om_reply_to m \<and>
    list_all (\<lambda>x. om_reply_to x = None) (tl ms) \<and>
    list_all (\<lambda>x. om_channel x = om_channel m \<and> om_account_id x = om_account_id m \<and>
       om_to x = om_to m \<and> om_thread_id x = om_thread_id m) ms"
  have single: "?P [m]" by simp
  have grouped: "?P (batch_messages m True g)" if "1 < length g" "concat g = om_attachments m" for g
  proof -
    have "batch_messages m True g \<noteq> []" "om_reply_to (hd (batch_messages m True g)) = om_reply_to m"
      using that(1) by (cases g; simp)+
    moreover have "g \<noteq> []" using that(1) by auto
    ultimately show ?thesis
      using that(2)
      by (auto simp: batch_messages_texts batch_messages_attachments list_all_iff
          dest: batch_messages_reply batch_messages_same)
  qed
  have "concat (split_attachment_vec as 1) = as" "concat (split_telegram_batches as) = as" for as
    by (simp_all add: concat_split_attachment_vec split_telegram_batches_def concat_telegram_loop)
  then have "?P ms"
    using single grouped unfolding ms_def split_attachment_batches_def Let_def
    by (auto simp: not_le)
  then show "ms \<noteq> []" "concat (map om_text ms) = om_text m"
    "concat (map om_attachments ms) = om_attachments m"
    "om_reply_to (hd ms) = om_reply_to m" "list_all (\<lambda>x. om_reply_to x = None) (tl ms)"
    "list_all (\<lambda>x. om_channel x = om_channel m \<and> om_account_id x = om_account_id m \<and>
       om_to x = om_to m \<and> om_thread_id x = om_thread_id m) ms"
    by blast+
qed

lemma single_batch: "length (split_attachment_batches m) \<le> 1 \<Longrightarrow> split_attachment_batches m = [m]"
proof -
  assume le: "length (split_attachment_batches m) \<le> 1"
  have len: "length (batch_messages m b g) = length g" for b g
    using batch_messages_attachments [of m b g] length_map by metis
  from le show ?thesis
    by (auto simp: split_attachment_batches_def Let_def len split: if_splits)
qed

lemma max_chars_pos: "max_chars_for_channel ch = Some n \<Longrightarrow> 0 < n"
  by (auto simp: max_chars_for_channel_def split: if_splits)

text \<open>The two forms of the result: batches of attachments, or pieces of one text.\<close>

lemma split_outbound_cases:
  obtains (batches) "split_outbound_message m = split_attachment_batches m"
      "1 < length (split_attachment_batches m)"
  | (whole) "split_outbound_message m = [m]"
      "om_attachments m \<noteq> [] \<or> (\<forall>n. max_chars_for_channel (channel_str (om_channel m)) = Some n
         \<longrightarrow> char_count (om_text m) \<le> n)"
  | (pieces) n where "split_outbound_message m = text_messages m True (split_text (om_text m) n)"
      "max_chars_for_channel (channel_str (om_channel m)) = Some n" "0 < n" "om_attachments m = []"
proof (cases "1 < length (split_attachment_batches m)")
  case True
  then show ?thesis by (intro batches) (simp_all add: split_outbound_message_def Let_def)
next
  case False
  then have m: "split_attachment_batches m = [m]" by (intro single_batch) simp
  show ?thesis
  proof (cases "max_chars_for_channel (channel_str (om_channel m))")
    case None
    then show ?thesis by (intro whole) (simp_all add: split_outbound_message_def Let_def m)
  next
    case (Some n)
    show ?thesis
    proof (cases "om_attachments m \<noteq> [] \<or> char_count (om_text m) \<le> n")
      case True
      then show ?thesis
        using Some by (intro whole) (auto simp: split_outbound_message_def Let_def m)
    next
      case False
      then show ?thesis
        using Some max_chars_pos [OF Some]
        by (intro pieces [of n]) (auto simp: split_outbound_message_def Let_def m)
    qed
  qed
qed

text \<open>
  C34. Cutting a reply loses and repeats nothing: the visible text of the messages, taken in
  order, is the visible text of the reply, their attachments are its attachments, all of them go
  to the recipient of the reply, and only the first answers the message it replies to.
\<close>

theorem split_keeps_reply:
  "split_outbound_message m \<noteq> [] \<and>
   visible (concat (map om_text (split_outbound_message m))) = visible (om_text m) \<and>
   concat (map om_attachments (split_outbound_message m)) = om_attachments m \<and>
   om_reply_to (hd (split_outbound_message m)) = om_reply_to m \<and>
   list_all (\<lambda>x. om_reply_to x = None) (tl (split_outbound_message m)) \<and>
   list_all (\<lambda>x. om_channel x = om_channel m \<and> om_account_id x = om_account_id m \<and>
     om_to x = om_to m \<and> om_thread_id x = om_thread_id m) (split_outbound_message m)"
proof (cases rule: split_outbound_cases [of m])
  case batches
  then show ?thesis using split_attachment_batches_sound [of m] by simp
next
  case whole
  then show ?thesis by simp
next
  case (pieces n)
  let ?ts = "split_text (om_text m) n"
  have "?ts \<noteq> []" by (auto simp: split_text_def Let_def)
  then have "text_messages m True ?ts \<noteq> []"
    and "om_reply_to (hd (text_messages m True ?ts)) = om_reply_to m" by (cases ?ts; simp)+
  moreover have "concat (map om_attachments (text_messages m True ?ts)) = []"
    using pieces(4) by (auto dest: text_messages_same)
  ultimately show ?thesis
    using pieces(3,4) unfolding pieces(1)
    by (auto simp: text_messages_texts split_text_visible list_all_iff
        dest: text_messages_same text_messages_reply)
qed

text \<open>
  On a channel with a limit, every message made from a reply without attachments has at
  most that number of characters, when the reply has some visible text.
\<close>

lemma split_within_limit:
  assumes "max_chars_for_channel (channel_str (om_channel m)) = Some n"
    and "om_attachments m = []" and "trim (om_text m) \<noteq> []"
  shows "list_all (\<lambda>x. char_count (om_text x) \<le> n) (split_outbound_message m)"
proof (cases rule: split_outbound_cases [of m])
  case batches
  with assms(2) show ?thesis by (simp add: split_attachment_batches_def)
next
  case whole
  with assms(1,2) show ?thesis by simp
next
  case (pieces k)
  then have k: "k = n" "0 < n" using assms(1) by auto
  have "list_all (\<lambda>t. char_count t \<le> n) (map om_text (split_outbound_message m))"
    using split_text_bounds [OF k(2) assms(3)] unfolding pieces(1) k(1)
    by (simp add: text_messages_texts list_all_iff)
  then show ?thesis by (simp add: list_all_iff)
qed

lemma split_within_limit_witness:
  "list_all (\<lambda>x. char_count (om_text x) \<le> 1900)
     (split_outbound_message
        \<lparr>om_channel = ChannelId ''discord'', om_account_id = ''default'', om_to = ''c'',
         om_thread_id = None, om_text = replicate 4000 CHR ''x'', om_attachments = [],
         om_reply_to = None\<rparr>)"
proof (rule split_within_limit)
  have "CHR ''x'' \<in> set (replicate 4000 CHR ''x'')" by simp
  then show "trim (om_text \<lparr>om_channel = ChannelId ''discord'', om_account_id = ''default'',
      om_to = ''c'', om_thread_id = None, om_text = replicate 4000 CHR ''x'', om_attachments = [],
      om_reply_to = None\<rparr>) \<noteq> []"
    by (auto simp: trim_Nil_iff is_ws_def Let_def)
qed (simp_all add: max_chars_for_channel_def)

text \<open>With attachments the text is sent whole, whatever the limit of the channel.\<close>

lemma attachments_bypass_limit:
  assumes "om_channel m = ChannelId ''discord''" "om_attachments m \<noteq> []"
  shows "split_outbound_message m = [m]"
  using assms by (simp add: split_outbound_message_def split_attachment_batches_def
      max_chars_for_channel_def Let_def)

section \<open>Retries\<close>

lemma retry_delay_bounds:
  "1 \<le> retry_delay_secs ch n r \<and> retry_delay_secs ch n r \<le> max_retry_delay_secs"
proof -
  have "1 \<le> clamp x 1 max_retry_delay_secs \<and> clamp x 1 max_retry_delay_secs \<le> max_retry_delay_secs"
    for x :: u64
    by (auto simp: clamp_def max_retry_delay_secs_def max_def min_def)
  then show ?thesis by (simp add: retry_delay_secs_def Let_def split: option.splits)
qed

lemma max_attempts_range:
  "3 \<le> max_attempts_for_channel ch \<and> max_attempts_for_channel ch \<le> 4"
  by (simp add: max_attempts_for_channel_def max_outbound_attempts_def)

text \<open>A channel that follows a script, and a log of what the delivery does to it.\<close>

datatype delivery_event = SendEvent outbound_message | SleepEvent u64

definition sends :: "delivery_event list \<Rightarrow> nat" where
  "sends log = length (filter (\<lambda>e. case e of SendEvent _ \<Rightarrow> True | SleepEvent _ \<Rightarrow> False) log)"

definition scripted ::
  "(nat \<Rightarrow> frank_error + send_result) \<Rightarrow> delivery_event list channel_plugin" where
  "scripted outcome =
     default_plugin (ChannelId ''scripted'') no_capabilities ''Scripted''
       (\<lambda>log. (Inr (), log)) (\<lambda>log. (Inr (), log)) (\<lambda>log. (Connected, log))
       (\<lambda>m log. (outcome (sends log), log @ [SendEvent m]))"

definition log_sleep :: "u64 \<Rightarrow> delivery_event list \<Rightarrow> delivery_event list" where
  "log_sleep d log = log @ [SleepEvent d]"

lemma sends_simps [simp]:
  "sends [] = 0" "sends (SendEvent m # log) = Suc (sends log)"
  "sends (SleepEvent d # log) = sends log" "sends (a @ b) = sends a + sends b"
  by (simp_all add: sends_def)

text \<open>What the log of a delivery looks like: only sends of the message, only waits within the
  bounds, and no send after an acknowledged one.\<close>

definition log_ok ::
  "(nat \<Rightarrow> frank_error + send_result) \<Rightarrow> outbound_message \<Rightarrow> delivery_event list \<Rightarrow> bool" where
  "log_ok outcome m log \<longleftrightarrow>
     list_all (\<lambda>e. case e of SendEvent x \<Rightarrow> x = m | SleepEvent d \<Rightarrow> 1 \<le> d \<and> d \<le> max_retry_delay_secs) log \<and>
     list_all (\<lambda>i. \<nexists>pid. outcome i = Inr (Sent pid)) [0..<sends log - 1]"

definition result_ok ::
  "(nat \<Rightarrow> frank_error + send_result) \<Rightarrow> outbound_message \<Rightarrow> frank_error + chunk_record
    \<Rightarrow> delivery_event list \<Rightarrow> bool" where
  "result_ok outcome m r log =
     (case r of
        Inr k \<Rightarrow>
          kr_text k = om_text m \<and> kr_attempts k = sends log \<and>
          (kr_status k = ''sent'') = (\<exists>pid. outcome (sends log - 1) = Inr (Sent pid))
      | Inl e \<Rightarrow> outcome (sends log - 1) = Inl e)"

lemma log_ok_step:
  assumes "log_ok outcome m log" "list_all (\<lambda>i. \<nexists>pid. outcome i = Inr (Sent pid)) [0..<sends log]"
  shows "log_ok outcome m (log @ [SendEvent m])"
  using assms by (simp add: log_ok_def)

lemma send_loop_scripted:
  assumes "log_ok outcome m log" "list_all (\<lambda>i. \<nexists>pid. outcome i = Inr (Sent pid)) [0..<sends log]"
    and "sends log = attempts" "attempts < max_attempts_for_channel (channel_str (om_channel m))"
    and "send_loop (scripted outcome) log_sleep m attempts last_retry log = (r, log1)"
  shows "log_ok outcome m log1 \<and> attempts < sends log1 \<and>
    sends log1 \<le> max_attempts_for_channel (channel_str (om_channel m)) \<and> result_ok outcome m r log1"
  using assms
proof (induction "max_attempts_for_channel (channel_str (om_channel m)) - attempts"
    arbitrary: attempts last_retry log rule: less_induct)
  case less
  let ?max = "max_attempts_for_channel (channel_str (om_channel m))"
  let ?log = "log @ [SendEvent m]"
  have ok: "log_ok outcome m ?log" using less.prems(1,2) by (rule log_ok_step)
  have out: "ch_send (scripted outcome) m log = (outcome attempts, ?log)"
    using less.prems(3) by (simp add: scripted_def default_plugin_def)
  have retry: ?case
    if unsent: "\<nexists>pid. outcome attempts = Inr (Sent pid)" and more: "\<not> ?max \<le> Suc attempts"
      and step: "send_loop (scripted outcome) log_sleep m (Suc attempts) retry1
        (log_sleep (retry_delay_secs (channel_str (om_channel m)) (Suc attempts) retry2) ?log) = (r, log1)"
    for retry1 retry2
  proof -
    let ?log2 = "log_sleep (retry_delay_secs (channel_str (om_channel m)) (Suc attempts) retry2) ?log"
    have "log_ok outcome m ?log2"
      using ok retry_delay_bounds by (simp add: log_ok_def log_sleep_def)
    moreover have "list_all (\<lambda>i. \<nexists>pid. outcome i = Inr (Sent pid)) [0..<sends ?log2]"
      using less.prems(2,3) unsent by (simp add: log_sleep_def)
    moreover have "sends ?log2 = Suc attempts" using less.prems(3) by (simp add: log_sleep_def)
    ultimately have "log_ok outcome m log1 \<and> Suc attempts < sends log1 \<and> sends log1 \<le> ?max \<and>
        result_ok outcome m r log1"
      using step more less.prems(4) by (intro less.hyps [of "Suc attempts"]) auto
    then show ?thesis by simp
  qed
  show ?case
  proof (cases "outcome attempts")
    case (Inl e)
    then show ?thesis
      using less.prems(3-5) ok out retry
      by (subst (asm) send_loop.simps)
        (auto simp: Let_def result_ok_def split: if_splits)
  next
    case (Inr s)
    then show ?thesis
      using less.prems(3-5) ok out retry
      by (subst (asm) send_loop.simps)
        (auto simp: Let_def result_ok_def sent_record_def failed_record_def
          split: if_splits send_result.splits)
  qed
qed

text \<open>
  Whatever a channel answers, sending a message ends: the message is sent at least once and
  at most as often as its channel allows (four times), with waits of one to thirty seconds in
  between, never again after it was acknowledged, and the record tells the number of sends and
  whether the last one was acknowledged.
\<close>

lemma send_chunk_bounded:
  "(case send_outbound_chunk (scripted outcome) log_sleep m [] of
      (r, log) \<Rightarrow>
        1 \<le> sends log \<and> sends log \<le> max_attempts_for_channel (channel_str (om_channel m)) \<and>
        sends log \<le> 4 \<and> log_ok outcome m log \<and> result_ok outcome m r log)"
proof -
  obtain r log where run: "send_loop (scripted outcome) log_sleep m 0 None [] = (r, log)"
    by (metis surj_pair)
  have "log_ok outcome m log \<and> 0 < sends log \<and>
    sends log \<le> max_attempts_for_channel (channel_str (om_channel m)) \<and> result_ok outcome m r log"
    by (rule send_loop_scripted [OF _ _ _ _ run])
      (use max_attempts_range [of "channel_str (om_channel m)"] in \<open>auto simp: log_ok_def\<close>)
  then show ?thesis
    using run max_attempts_range [of "channel_str (om_channel m)"]
    by (simp add: send_outbound_chunk_def)
qed

section \<open>The record of a delivery\<close>

lemma send_loop_text:
  "send_loop ch sleep m n l w = (Inr k, w1) \<Longrightarrow> kr_text k = om_text m"
proof (induction ch sleep m n l w rule: send_loop.induct)
  case (1 ch sleep m n l w)
  show ?case
    using 1(4) 1(1-3) [OF refl refl refl]
    by (subst (asm) send_loop.simps)
      (auto simp: Let_def sent_record_def failed_record_def
        split: prod.splits sum.splits send_result.splits if_splits)
qed

lemma send_chunk_text:
  assumes "send_chunk ch sleep sleep_ms m w = (Inr k, w1)"
  shows "kr_text k = om_text m"
  using assms
  by (auto simp: send_chunk_def send_streamed_chunk_def send_outbound_chunk_def Let_def sent_record_def
      dest: send_loop_text split: if_splits prod.splits sum.splits)

definition record_ok :: "outbound_message list \<Rightarrow> delivery_record \<Rightarrow> bool" where
  "record_ok ms r \<longleftrightarrow>
     dr_attempts r = (\<Sum>k\<leftarrow>dr_chunks r. kr_attempts k) \<and>
     map kr_text (dr_chunks r) = map om_text (take (length (dr_chunks r)) ms) \<and>
     list_all (\<lambda>k. kr_status k = ''sent'') (butlast (dr_chunks r)) \<and>
     (dr_chunks r \<noteq> [] \<longrightarrow> dr_status r = kr_status (last (dr_chunks r))) \<and>
     (dr_status r = ''sent'' \<longrightarrow> length (dr_chunks r) = length ms)"

lemma deliver_loop_record:
  assumes "deliver_loop ch sleep sleep_ms r ms w = (Inr r1, w1)"
    and "dr_attempts r = (\<Sum>k\<leftarrow>dr_chunks r. kr_attempts k)"
    and "map kr_text (dr_chunks r) = map om_text done_ms"
    and "list_all (\<lambda>k. kr_status k = ''sent'') (dr_chunks r)"
  shows "record_ok (done_ms @ ms) r1"
  using assms
proof (induction ms arbitrary: r w done_ms)
  case Nil
  have "length (dr_chunks r) = length done_ms" using Nil(3) by (metis length_map)
  moreover have "dr_chunks r \<noteq> [] \<Longrightarrow> kr_status (last (dr_chunks r)) = ''sent''"
    using Nil(4) by (simp add: list_all_iff)
  moreover have "list_all (\<lambda>k. kr_status k = ''sent'') (butlast (dr_chunks r))"
    using Nil(4) by (auto simp: list_all_iff dest: in_set_butlastD)
  ultimately show ?case using Nil by (auto simp: record_ok_def)
next
  case (Cons m ms)
  have len: "length (dr_chunks r) = length done_ms" using Cons.prems(3) by (metis length_map)
  obtain k w2 where k: "send_chunk ch sleep sleep_ms m w = (Inr k, w2)"
    using Cons.prems(1) by (auto split: prod.splits sum.splits)
  have kt: "kr_text k = om_text m" by (rule send_chunk_text [OF k])
  show ?case
  proof (cases "kr_status k = ''sent''")
    case True
    let ?r = "r\<lparr>dr_attempts := dr_attempts r + kr_attempts k,
      dr_platform_message_id :=
        (case kr_platform_message_id k of Some pid \<Rightarrow> Some pid | None \<Rightarrow> dr_platform_message_id r),
      dr_retry_after_secs := kr_retry_after_secs k, dr_chunks := dr_chunks r @ [k]\<rparr>"
    have "deliver_loop ch sleep sleep_ms ?r ms w2 = (Inr r1, w1)"
      using Cons.prems(1) k True by (simp add: Let_def)
    then have "record_ok ((done_ms @ [m]) @ ms) r1"
      by (rule Cons.IH) (use Cons.prems kt True in auto)
    then show ?thesis by simp
  next
    case False
    with Cons.prems k kt len show ?thesis
      by (auto simp: record_ok_def Let_def)
  qed
qed

text \<open>
  The record of a delivery that returns describes a prefix of the messages: their texts in
  order, all of them sent but possibly the last one, whose status is that of the delivery, with
  the number of attempts added up; the status is sent only when every message was sent.
\<close>

lemma delivery_record_sound:
  assumes "deliver_outbound_message ch sleep sleep_ms media outbound w = (Inr r, w1)"
  shows "\<exists>m. hydrate_outbound_attachments media outbound = Inr m \<and>
    record_ok (split_outbound_message m) r"
proof (cases "hydrate_outbound_attachments media outbound")
  case (Inl e)
  with assms show ?thesis by (simp add: deliver_outbound_message_def)
next
  case (Inr m)
  let ?r = "\<lparr>dr_status = ''sent'', dr_platform_message_id = None, dr_attempts = 0,
    dr_retry_after_secs = None, dr_error = None, dr_chunks = []\<rparr>"
  have "deliver_loop ch sleep sleep_ms ?r (split_outbound_message m) w = (Inr r, w1)"
    using assms Inr by (simp add: deliver_outbound_message_def)
  then have "record_ok ([] @ split_outbound_message m) r"
    by (rule deliver_loop_record) simp_all
  with Inr show ?thesis by auto
qed

definition example_reply :: outbound_message where
  "example_reply =
     \<lparr>om_channel = ChannelId ''slack'', om_account_id = ''default'', om_to = ''c'',
      om_thread_id = None, om_text = ''hello'', om_attachments = [], om_reply_to = None\<rparr>"

lemma example_delivery:
  "fst (deliver_outbound_message (scripted (\<lambda>i. if i = 0 then Inr (RateLimitedFor (Some 1))
      else Inr (Failed ''invalid_auth''))) log_sleep log_sleep None example_reply []) =
    Inr \<lparr>dr_status = ''failed'', dr_platform_message_id = None, dr_attempts = 2,
      dr_retry_after_secs = None, dr_error = Some ''invalid_auth'',
      dr_chunks = [failed_record ''hello'' ''failed'' 2 None ''invalid_auth'']\<rparr>"
proof -
  have "\<not> should_retry_send_failure ''slack'' ''invalid_auth''" by code_simp
  moreover have "char_count ''hello'' \<le> 3500"
    using char_count_le_length [of "''hello''"] by simp
  ultimately show ?thesis
    by (simp add: deliver_outbound_message_def hydrate_outbound_attachments_def example_reply_def
        split_outbound_message_def split_attachment_batches_def max_chars_for_channel_def
        send_chunk_def should_pseudo_stream_def scripted_def default_plugin_def no_capabilities_def
        send_outbound_chunk_def send_loop.simps max_attempts_for_channel_def log_sleep_def
        failed_record_def Let_def)
qed

lemma delivery_record_sound_witness:
  "\<exists>r w m. deliver_outbound_message (scripted (\<lambda>i. if i = 0 then Inr (RateLimitedFor (Some 1))
      else Inr (Failed ''invalid_auth''))) log_sleep log_sleep None example_reply [] = (Inr r, w) \<and>
    hydrate_outbound_attachments None example_reply = Inr m \<and>
    record_ok (split_outbound_message m) r \<and> dr_status r = ''failed''"
proof -
  let ?run = "deliver_outbound_message (scripted (\<lambda>i. if i = 0 then Inr (RateLimitedFor (Some 1))
      else Inr (Failed ''invalid_auth''))) log_sleep log_sleep None example_reply []"
  obtain r w where run: "?run = (Inr r, w)" and st: "dr_status r = ''failed''"
    using example_delivery by (cases ?run) auto
  from delivery_record_sound [OF run] run st show ?thesis by blast
qed

section \<open>Streams and metadata\<close>

text \<open>The last step of a stream is the whole text.\<close>

lemma add_step_last: "last (add_step steps s) = s"
  by (simp add: add_step_def)

lemma pseudo_stream_last: "last (pseudo_stream_steps text) = trim text"
  by (simp add: pseudo_stream_steps_def Let_def add_step_last)

lemma preview_slice_bounds:
  "preview_slice text n = Some c \<Longrightarrow> c \<noteq> [] \<and> c \<noteq> text \<and> char_count c \<le> char_count text"
  using char_count_trim char_count_take_le order_trans
  by (fastforce simp: preview_slice_def Let_def split: if_splits)

text \<open>A stored reply is read back, when \<open>serde_json\<close> reads back what it wrote, and the other
  fields of the metadata keep their values.\<close>

lemma last_reply_roundtrip:
  assumes "to_value reply = Some v" "from_value v = Some reply"
    and "set_last_reply_in_metadata to_value reply metadata = Some metadata1"
  shows "last_reply_from_metadata from_value metadata1 = Some reply"
    and "metadata = JObject kvs \<Longrightarrow> k \<noteq> ''delivery'' \<Longrightarrow> json_get metadata1 k = map_of kvs k"
  using assms
  by (auto simp: set_last_reply_in_metadata_def last_reply_from_metadata_def Let_def update_conv
      split: json.splits)

end
