(* ===== verification/Health_Monitor.thy ===== *)
theory Health_Monitor
  imports Channel_Types
begin

text \<open>
  The health monitor of the channels (\<open>frankclaw-gateway/src/health_monitor.rs\<close>): the tracking
  state of a channel, the guard of the restarts, and one round over all channels. The adapters
  are arguments; the clock is read once for each channel.
\<close>

section \<open>The state of a channel\<close>

definition default_check_interval_secs :: nat where
  "default_check_interval_secs = 5 * 60"

definition restart_cooldown_secs :: nat where
  "restart_cooldown_secs = 10 * 60"

definition max_restarts_per_hour :: nat where
  "max_restarts_per_hour = 6"

record channel_health =
  hm_last_status :: "health_status option"
  hm_last_restart_at :: "instant option"
  hm_restart_history :: "instant list"

definition channel_health_new :: channel_health where
  "channel_health_new =
     \<lparr>hm_last_status = None, hm_last_restart_at = None, hm_restart_history = []\<rparr>"

text \<open>\<open>t > now - 1 hour\<close>, which holds for every \<open>t\<close> in the first hour of the clock.\<close>

definition within_hour :: "instant \<Rightarrow> instant \<Rightarrow> bool" where
  "within_hour now t \<longleftrightarrow> now < t + secs 3600"

definition try_restart :: "instant \<Rightarrow> channel_health \<Rightarrow> bool \<times> channel_health" where
  "try_restart now h =
     (if (case hm_last_restart_at h of
            Some prev \<Rightarrow> duration_since now prev < secs restart_cooldown_secs
          | None \<Rightarrow> False)
      then (False, h)
      else (let h1 = h\<lparr>hm_restart_history := filter (within_hour now) (hm_restart_history h)\<rparr>
            in if max_restarts_per_hour \<le> length (hm_restart_history h1) then (False, h1)
               else (True, h1\<lparr>hm_last_restart_at := Some now,
                             hm_restart_history := hm_restart_history h1 @ [now]\<rparr>)))"

fun same_status :: "health_status \<Rightarrow> health_status \<Rightarrow> bool" where
  "same_status Connected Connected = True"
| "same_status NotConfigured NotConfigured = True"
| "same_status (Degraded old) (Degraded new) = (old = new)"
| "same_status (Disconnected old) (Disconnected new) = (old = new)"
| "same_status _ _ = False"

definition status_changed :: "channel_health \<Rightarrow> health_status \<Rightarrow> bool" where
  "status_changed h new_status =
     (case hm_last_status h of None \<Rightarrow> True | Some old \<Rightarrow> \<not> same_status old new_status)"

fun is_unhealthy :: "health_status \<Rightarrow> bool" where
  "is_unhealthy (Disconnected _) = True"
| "is_unhealthy _ = False"

section \<open>One round over the channels\<close>

type_synonym tracker = "channel_id \<rightharpoonup> channel_health"

definition tracked :: "tracker \<Rightarrow> channel_id \<Rightarrow> channel_health" where
  "tracked tr cid = (case tr cid of Some h \<Rightarrow> h | None \<Rightarrow> channel_health_new)"

text \<open>A restart stops the channel and starts it again when the stop succeeded.\<close>

definition restart :: "'w channel_plugin \<Rightarrow> 'w \<Rightarrow> 'w" where
  "restart ch w =
     (case ch_stop ch w of
        (Inr _, w1) \<Rightarrow> snd (ch_start ch w1)
      | (Inl _, w1) \<Rightarrow> w1)"

definition check_channel ::
  "instant \<Rightarrow> channel_id \<Rightarrow> 'w channel_plugin
    \<Rightarrow> tracker \<times> (channel_id \<times> health_status) list \<times> 'w
    \<Rightarrow> tracker \<times> (channel_id \<times> health_status) list \<times> 'w" where
  "check_channel now cid ch st =
     (case st of (tr, events, w) \<Rightarrow>
        (let (status, w1) = ch_health ch w;
             entry = tracked tr cid;
             events1 = (if status_changed entry status then events @ [(cid, status)] else events);
             (allowed, entry1) = (if is_unhealthy status then try_restart now entry else (False, entry));
             w2 = (if allowed then restart ch w1 else w1)
         in (tr(cid \<mapsto> entry1\<lparr>hm_last_status := Some status\<rparr>), events1, w2)))"

definition check_all_channels ::
  "(channel_id \<times> 'w channel_plugin \<times> instant) list
    \<Rightarrow> tracker \<times> (channel_id \<times> health_status) list \<times> 'w
    \<Rightarrow> tracker \<times> (channel_id \<times> health_status) list \<times> 'w" where
  "check_all_channels channels st = fold (\<lambda>(cid, ch, now). check_channel now cid ch) channels st"

text \<open>The interval of the checks: \<open>None\<close> when the monitor is disabled.\<close>

definition monitor_interval :: "nat option \<Rightarrow> nat option" where
  "monitor_interval configured =
     (let i = (case configured of Some s \<Rightarrow> s | None \<Rightarrow> default_check_interval_secs)
      in if i = 0 then None else Some i)"

section \<open>Restarts are spaced\<close>

text \<open>The history of a channel: restarts at least a cooldown apart, the last one remembered.\<close>

fun spaced :: "instant list \<Rightarrow> bool" where
  "spaced [] = True"
| "spaced [t] = True"
| "spaced (t # u # ts) \<longleftrightarrow> t + secs restart_cooldown_secs \<le> u \<and> spaced (u # ts)"

definition health_inv :: "instant \<Rightarrow> channel_health \<Rightarrow> bool" where
  "health_inv now h \<longleftrightarrow>
     spaced (hm_restart_history h) \<and>
     (hm_restart_history h \<noteq> [] \<longrightarrow> hm_last_restart_at h = Some (last (hm_restart_history h))) \<and>
     (\<forall>t. hm_last_restart_at h = Some t \<longrightarrow> t \<le> now)"

lemma spaced_Cons:
  "spaced (t # ts) \<longleftrightarrow> (ts = [] \<or> t + secs restart_cooldown_secs \<le> hd ts) \<and> spaced ts"
  by (cases ts) auto

lemma spaced_tl: "spaced ts \<Longrightarrow> spaced (tl ts)"
  by (cases ts) (auto simp: spaced_Cons)

lemma spaced_snoc:
  "spaced ts \<Longrightarrow> (ts \<noteq> [] \<Longrightarrow> last ts + secs restart_cooldown_secs \<le> u) \<Longrightarrow> spaced (ts @ [u])"
  by (induction ts) (auto simp: spaced_Cons hd_append split: if_splits)

lemma spaced_lower: "spaced (t # ts) \<Longrightarrow> u \<in> set ts \<Longrightarrow> t + secs restart_cooldown_secs \<le> u"
proof (induction ts arbitrary: t)
  case (Cons v ts)
  then have "t + secs restart_cooldown_secs \<le> v" "u = v \<or> v + secs restart_cooldown_secs \<le> u"
    by (auto simp: spaced_Cons)
  then show ?case by auto
qed simp

text \<open>Dropping the entries older than an hour drops a prefix of the history.\<close>

lemma spaced_filter_recent:
  assumes "spaced ts" shows "\<exists>old. ts = old @ filter (within_hour now) ts"
  using assms
proof (induction ts)
  case (Cons t ts)
  show ?case
  proof (cases "within_hour now t")
    case True
    then have "filter (within_hour now) ts = ts"
      using spaced_lower [OF Cons.prems] by (fastforce simp: filter_id_conv within_hour_def)
    with True show ?thesis by simp
  next
    case False
    with Cons obtain old where "ts = old @ filter (within_hour now) ts" by (auto simp: spaced_Cons)
    with False have "t # ts = (t # old) @ filter (within_hour now) (t # ts)" by simp
    then show ?thesis by blast
  qed
qed simp

lemma spaced_append: "spaced (a @ b) \<Longrightarrow> spaced b"
  by (induction a) (auto simp: spaced_Cons)

lemma spaced_span: "spaced (t # ts) \<Longrightarrow> t + length ts * secs restart_cooldown_secs \<le> last (t # ts)"
proof (induction ts arbitrary: t)
  case (Cons u ts)
  then have "u + length ts * secs restart_cooldown_secs \<le> last (u # ts)" "t + secs restart_cooldown_secs \<le> u"
    by (simp_all add: spaced_Cons)
  then show ?case by simp
qed simp

lemma try_restart_inv [inv_rules]:
  assumes "health_inv now0 h" "now0 \<le> now"
  shows "health_inv now (snd (try_restart now h))"
proof -
  let ?recent = "filter (within_hour now) (hm_restart_history h)"
  obtain old where old: "hm_restart_history h = old @ ?recent"
    using assms(1) spaced_filter_recent health_inv_def by blast
  then have recent: "spaced ?recent"
    using assms(1) spaced_append by (metis health_inv_def)
  have last: "hm_last_restart_at h = Some (last ?recent)" if "?recent \<noteq> []"
  proof -
    have "last (hm_restart_history h) = last ?recent" using old that by (metis last_appendR)
    moreover have "hm_restart_history h \<noteq> []" using that by auto
    ultimately show ?thesis using assms(1) by (simp add: health_inv_def)
  qed
  have times: "\<forall>t. hm_last_restart_at h = Some t \<longrightarrow> t \<le> now"
    using assms by (auto simp: health_inv_def)
  show ?thesis
  proof (cases "case hm_last_restart_at h of
      Some prev \<Rightarrow> duration_since now prev < secs restart_cooldown_secs | None \<Rightarrow> False")
    case True
    then show ?thesis using assms times by (simp add: try_restart_def health_inv_def)
  next
    case False
    have "last ?recent + secs restart_cooldown_secs \<le> now" if "?recent \<noteq> []"
      using False last [OF that] times by (auto simp: duration_since_def)
    then have "spaced (?recent @ [now])" using recent by (intro spaced_snoc)
    with False recent last times show ?thesis
      by (auto simp: try_restart_def health_inv_def Let_def)
  qed
qed

text \<open>The limit of six restarts an hour never refuses what the cooldown allows.\<close>

lemma recent_below_limit:
  assumes "health_inv now0 h" "now0 \<le> now"
    and "\<not> (case hm_last_restart_at h of
      Some prev \<Rightarrow> duration_since now prev < secs restart_cooldown_secs | None \<Rightarrow> False)"
  shows "length (filter (within_hour now) (hm_restart_history h)) < max_restarts_per_hour"
proof (rule ccontr)
  let ?recent = "filter (within_hour now) (hm_restart_history h)"
  assume "\<not> ?thesis"
  then have six: "6 \<le> length ?recent" by (simp add: max_restarts_per_hour_def)
  then obtain t ts where r: "?recent = t # ts" by (cases ?recent) auto
  obtain old where old: "hm_restart_history h = old @ ?recent"
    using assms(1) spaced_filter_recent health_inv_def by blast
  then have sp: "spaced (t # ts)" using assms(1) spaced_append r by (metis health_inv_def)
  have "last (hm_restart_history h) = last ?recent" using old r by (metis last_appendR list.distinct(1))
  moreover have "hm_restart_history h \<noteq> []" using old r by auto
  ultimately have "hm_last_restart_at h = Some (last (t # ts))"
    using assms(1) r by (simp add: health_inv_def)
  then have "last (t # ts) + secs restart_cooldown_secs \<le> now"
    using assms by (auto simp: duration_since_def health_inv_def)
  with spaced_span [OF sp] have "t + (length ts + 1) * secs restart_cooldown_secs \<le> now" by simp
  moreover have "6 * secs restart_cooldown_secs \<le> (length ts + 1) * secs restart_cooldown_secs"
    using six r by (intro mult_right_mono) auto
  ultimately have "t + 6 * secs restart_cooldown_secs \<le> now" by linarith
  moreover have "now < t + secs 3600"
    using r by (auto simp: filter_eq_Cons_iff within_hour_def)
  ultimately show False by (simp add: restart_cooldown_secs_def secs_def)
qed

text \<open>
  The guard of the restarts: on a history that its own earlier calls made, a restart is
  granted exactly when none was granted in the last ten minutes; the limit of six restarts an
  hour never decides.
\<close>

lemma restart_granted_iff:
  assumes "health_inv now0 h" "now0 \<le> now"
  shows "fst (try_restart now h) \<longleftrightarrow>
    (case hm_last_restart_at h of
       Some t \<Rightarrow> t + secs restart_cooldown_secs \<le> now
     | None \<Rightarrow> True)"
proof (cases "case hm_last_restart_at h of
    Some prev \<Rightarrow> duration_since now prev < secs restart_cooldown_secs | None \<Rightarrow> False")
  case True
  then show ?thesis by (auto simp: try_restart_def duration_since_def split: option.splits)
next
  case False
  with recent_below_limit [OF assms False] assms show ?thesis
    by (auto simp: try_restart_def duration_since_def health_inv_def Let_def split: option.splits)
qed

lemma restart_granted_iff_witness:
  "\<not> fst (try_restart (secs 100) (snd (try_restart 0 channel_health_new))) \<and>
   fst (try_restart (secs 700) (snd (try_restart 0 channel_health_new)))"
proof -
  have "health_inv 0 channel_health_new" by (simp add: health_inv_def channel_health_new_def)
  then have inv: "health_inv 0 (snd (try_restart 0 channel_health_new))"
    by (rule try_restart_inv) simp
  have last: "hm_last_restart_at (snd (try_restart 0 channel_health_new)) = Some 0"
    by (simp add: try_restart_def channel_health_new_def max_restarts_per_hour_def Let_def)
  show ?thesis
    using restart_granted_iff [OF inv, of "secs 100"] restart_granted_iff [OF inv, of "secs 700"]
    by (simp add: last restart_cooldown_secs_def)
qed

section \<open>Events\<close>

lemma same_status_iff: "same_status a b \<longleftrightarrow> a = b"
  by (cases a; cases b) auto

text \<open>A round reports a channel exactly when its status is not the one of the round before,
  and remembers the status.\<close>

lemma check_channel_events:
  assumes "ch_health ch w = (status, w1)"
    and "check_channel now cid ch (tr, events, w) = (tr1, events1, w2)"
  shows "events1 = events @ (if map_option hm_last_status (tr cid) = Some (Some status)
      then [] else [(cid, status)])"
    and "\<exists>h. tr1 cid = Some h \<and> hm_last_status h = Some status"
    and "c \<noteq> cid \<Longrightarrow> tr1 c = tr c"
  using assms
  by (auto simp: check_channel_def status_changed_def tracked_def channel_health_new_def
      same_status_iff Let_def split: option.splits prod.splits if_splits)

end
