(* ===== verification/Webhooks.thy ===== *)
theory Webhooks
  imports Config
begin

text \<open>
  Incoming webhooks (\<open>frankclaw-gateway/src/webhooks.rs\<close>): the choice of the mapping, the
  signature, the time stamp and the message taken out of the payload. HMAC-SHA256 and the
  rendering of JSON are parameters, a body is a list of bytes. The call of the runtime is not
  part of this theory.
\<close>

section \<open>Hexadecimal digits\<close>

definition decode_nibble :: "char \<Rightarrow> u8 option" where
  "decode_nibble c =
     (let n = (of_char c :: nat)
      in if 48 \<le> n \<and> n \<le> 57 then Some (of_nat (n - 48))
         else if 97 \<le> n \<and> n \<le> 102 then Some (of_nat (n - 97 + 10))
         else if 65 \<le> n \<and> n \<le> 70 then Some (of_nat (n - 65 + 10))
         else None)"

fun decode_pairs :: "string \<Rightarrow> u8 list option" where
  "decode_pairs (a # b # s) =
     (case decode_nibble a of
        None \<Rightarrow> None
      | Some hi \<Rightarrow>
          (case decode_nibble b of
             None \<Rightarrow> None
           | Some lo \<Rightarrow> map_option ((#) (or (push_bit 4 hi) lo)) (decode_pairs s)))"
| "decode_pairs _ = Some []"

definition decode_hex :: "string \<Rightarrow> u8 list option" where
  "decode_hex value =
     (let v = trim value in if length v mod 2 \<noteq> 0 then None else decode_pairs v)"

definition hex_digit :: "nat \<Rightarrow> char" where
  "hex_digit d = (if d < 10 then char_of (48 + d) else char_of (87 + d))"

text \<open>\<open>{byte:02x}\<close>\<close>

definition hex_byte :: "u8 \<Rightarrow> string" where
  "hex_byte b = [hex_digit (unat b div 16), hex_digit (unat b mod 16)]"

section \<open>The signature and the time stamp\<close>

definition max_webhook_age_secs :: int where
  "max_webhook_age_secs = 300"

definition strip_prefix :: "string \<Rightarrow> string \<Rightarrow> string option" where
  "strip_prefix p s = (if starts_with s p then Some (drop (length p) s) else None)"

definition encode_signature :: "(string \<Rightarrow> u8 list \<Rightarrow> u8 list) \<Rightarrow> string \<Rightarrow> u8 list \<Rightarrow> string" where
  "encode_signature hmac secret body = ''sha256='' @ concat (map hex_byte (hmac secret body))"

definition hooks_secret :: "hooks_config \<Rightarrow> string option" where
  "hooks_secret h =
     (case hk_token h of Some v \<Rightarrow> if trim v = [] then None else Some v | None \<Rightarrow> None)"

definition verify_signature ::
  "(string \<Rightarrow> u8 list \<Rightarrow> u8 list) \<Rightarrow> frankclaw_config \<Rightarrow> u8 list \<Rightarrow> string option
    \<Rightarrow> frank_error + unit" where
  "verify_signature hmac cfg body header =
     (if \<not> hk_enabled (fc_hooks cfg) then Inl (Forbidden ''webhooks'')
      else case hooks_secret (fc_hooks cfg) of
             None \<Rightarrow> Inl (ConfigValidation ''hooks.token is required when hooks are enabled'')
           | Some secret \<Rightarrow>
               (case header of
                  None \<Rightarrow> Inl AuthRequired
                | Some signature \<Rightarrow>
                    (let s = (case strip_prefix ''sha256='' signature of Some r \<Rightarrow> r | None \<Rightarrow> signature)
                     in case decode_hex s of
                          None \<Rightarrow> Inl AuthFailed
                        | Some provided \<Rightarrow>
                            if hmac secret body = provided then Inr () else Inl AuthFailed)))"

text \<open>\<open>str::parse::<i64>\<close>: an optional sign and decimal digits, within the range of the type.\<close>

definition parse_digits :: "string \<Rightarrow> nat option" where
  "parse_digits s =
     (if s = [] \<or> \<not> list_all is_digit s then None
      else Some (foldl (\<lambda>n c. 10 * n + (of_char c - 48)) 0 s))"

definition parse_i64 :: "string \<Rightarrow> int option" where
  "parse_i64 s =
     (let v = (if starts_with s ''-'' then map_option (\<lambda>n. - int n) (parse_digits (drop 1 s))
               else if starts_with s ''+'' then map_option int (parse_digits (drop 1 s))
               else map_option int (parse_digits s))
      in case v of
           Some i \<Rightarrow> if - (2 ^ 63) \<le> i \<and> i < 2 ^ 63 then Some i else None
         | None \<Rightarrow> None)"

text \<open>The difference of two \<open>i64\<close> values, wrapped as in a release build.\<close>

definition i64_sub :: "int \<Rightarrow> int \<Rightarrow> int" where
  "i64_sub a b = (a - b + 2 ^ 63) mod 2 ^ 64 - 2 ^ 63"

definition verify_timestamp :: "int \<Rightarrow> string option \<Rightarrow> frank_error + unit" where
  "verify_timestamp now header =
     (case map_option trim header of
        None \<Rightarrow> Inr ()
      | Some ts \<Rightarrow>
          if ts = [] then Inr ()
          else (case parse_i64 ts of
                  None \<Rightarrow> Inl (InvalidRequest (''invalid webhook timestamp: '' @ [CHR 0x27] @ ts @ [CHR 0x27]))
                | Some ts_secs \<Rightarrow>
                    (let age = i64_sub now ts_secs
                     in if max_webhook_age_secs < age then Inl AuthFailed
                        else if age < - max_webhook_age_secs then Inl AuthFailed
                        else Inr ())))"

section \<open>The message\<close>

definition resolve_mapping ::
  "(json \<Rightarrow> string + webhook_mapping) \<Rightarrow> frankclaw_config \<Rightarrow> string
    \<Rightarrow> (frank_error + webhook_mapping) option" where
  "resolve_mapping from_value cfg mapping_id =
     (case parsed_mappings from_value (fc_hooks cfg) of
        None \<Rightarrow> None
      | Some (Inl e) \<Rightarrow> Some (Inl e)
      | Some (Inr ms) \<Rightarrow>
          (case find (\<lambda>m. wm_id m = mapping_id) ms of
             Some m \<Rightarrow> Some (Inr m)
           | None \<Rightarrow>
               Some (Inl (InvalidRequest
                 (''unknown webhook mapping '' @ [CHR 0x27] @ mapping_id @ [CHR 0x27])))))"

fun walk_path :: "json \<Rightarrow> string list \<Rightarrow> json option" where
  "walk_path current [] = Some current"
| "walk_path current (key # keys) =
     (if trim key = [] then None
      else (case json_get current (trim key) of
              None \<Rightarrow> None
            | Some v \<Rightarrow> walk_path v keys))"

definition extract_by_path :: "(json \<Rightarrow> string) \<Rightarrow> json \<Rightarrow> string \<Rightarrow> string option" where
  "extract_by_path show_json v path =
     (case walk_path v (split_all CHR ''.'' path) of
        None \<Rightarrow> None
      | Some current \<Rightarrow>
          (case as_str current of
             Some s \<Rightarrow> Some s
           | None \<Rightarrow> if current = JNull then None else Some (show_json current)))"

definition extract_message ::
  "(json \<Rightarrow> string) \<Rightarrow> webhook_mapping \<Rightarrow> json \<Rightarrow> frank_error + string" where
  "extract_message show_json m payload =
     (let raw = (case wm_json_path m of
                   Some path \<Rightarrow> extract_by_path show_json payload path
                 | None \<Rightarrow> get_str payload (wm_text_field m))
      in case map_option trim raw of
           None \<Rightarrow> Inl (InvalidRequest (''webhook payload must include a non-empty '' @ [CHR 0x27] @
             (case wm_json_path m of Some p \<Rightarrow> p | None \<Rightarrow> wm_text_field m) @ [CHR 0x27] @ '' field''))
         | Some text \<Rightarrow>
             if text = []
             then Inl (InvalidRequest (''webhook payload must include a non-empty '' @ [CHR 0x27] @
               (case wm_json_path m of Some p \<Rightarrow> p | None \<Rightarrow> wm_text_field m) @ [CHR 0x27] @ '' field''))
             else (case wm_template m of
                     Some template \<Rightarrow> Inr (str_replace ''{text}'' text template)
                   | None \<Rightarrow> Inr text))"

record resolved_request =
  rr_mapping :: webhook_mapping
  rr_message :: string

definition resolve_request ::
  "(json \<Rightarrow> string) \<Rightarrow> (json \<Rightarrow> string + webhook_mapping) \<Rightarrow> frankclaw_config \<Rightarrow> string \<Rightarrow> json
    \<Rightarrow> (frank_error + resolved_request) option" where
  "resolve_request show_json from_value cfg mapping_id payload =
     (case resolve_mapping from_value cfg mapping_id of
        None \<Rightarrow> None
      | Some (Inl e) \<Rightarrow> Some (Inl e)
      | Some (Inr m) \<Rightarrow>
          (case extract_message show_json m payload of
             Inl e \<Rightarrow> Some (Inl e)
           | Inr msg \<Rightarrow> Some (Inr \<lparr>rr_mapping = m, rr_message = msg\<rparr>)))"

section \<open>Signatures\<close>

lemma hex_digit_nat: "d < 16 \<Longrightarrow> (of_char (hex_digit d) :: nat) = (if d < 10 then 48 + d else 87 + d)"
  by (simp add: hex_digit_def of_char_of)

lemma decode_hex_digit: "d < 16 \<Longrightarrow> decode_nibble (hex_digit d) = Some (of_nat d)"
  by (auto simp: decode_nibble_def hex_digit_nat Let_def)

lemma join_nibbles: "or (push_bit 4 (of_nat (unat b div 16))) (of_nat (unat b mod 16)) = (b :: u8)"
proof -
  have "unat b div 16 < 256" using unat_less_pow [of b] by simp
  then have "(of_nat (unat b div 16) :: u8) = drop_bit 4 b"
    by (simp add: word_unat_eq_iff drop_bit_eq_div unat_of_nat unat_div)
  moreover have "(of_nat (unat b mod 16) :: u8) = take_bit 4 b"
    by (simp add: word_unat_eq_iff take_bit_eq_mod unat_of_nat unat_mod)
  ultimately show ?thesis
    by (simp add: bit_eq_iff bit_simps) auto
qed

lemma decode_pairs_hex: "decode_pairs (concat (map hex_byte bs)) = Some bs"
proof (induction bs)
  case (Cons b bs)
  have "unat b < 256" using unat_less_pow [of b] by simp
  with Cons show ?case
    by (simp add: hex_byte_def decode_hex_digit join_nibbles)
qed simp

lemma hex_digit_not_ws: "d < 16 \<Longrightarrow> \<not> is_ws (hex_digit d)"
  by (simp add: is_ws_def hex_digit_nat Let_def)

lemma hex_chars: "c \<in> set (concat (map hex_byte bs)) \<Longrightarrow> \<exists>d<16. c = hex_digit d"
proof -
  assume "c \<in> set (concat (map hex_byte bs))"
  then obtain b where "c = hex_digit (unat b div 16) \<or> c = hex_digit (unat (b :: u8) mod 16)"
    by (auto simp: hex_byte_def)
  moreover have "unat b div 16 < 16" using unat_less_pow [of b] by simp
  moreover have "unat b mod 16 < 16" by simp
  ultimately show ?thesis by blast
qed

lemma decode_hex_encode: "decode_hex (concat (map hex_byte bs)) = Some bs"
proof -
  let ?s = "concat (map hex_byte bs)"
  have ws: "\<forall>c\<in>set ?s. \<not> is_ws c" using hex_chars hex_digit_not_ws by fast
  have "?s = [] \<or> \<not> is_ws (hd ?s) \<and> \<not> is_ws (last ?s)"
    using ws hd_in_set last_in_set by blast
  then have "trim ?s = ?s" by (rule trim_id)
  moreover have "length ?s mod 2 = 0" by (induction bs) (auto simp: hex_byte_def)
  ultimately show ?thesis by (simp add: decode_hex_def Let_def decode_pairs_hex)
qed

text \<open>
  With a secret configured, a body is accepted exactly with a header that decodes to its
  HMAC; the header that \<open>encode_signature\<close> makes is one of them, for every body.
\<close>

lemma webhook_signature_exact:
  assumes "hk_enabled (fc_hooks cfg)" and "hooks_secret (fc_hooks cfg) = Some secret"
  shows "(verify_signature hmac cfg body header = Inr ()) =
      (case header of
         None \<Rightarrow> False
       | Some s \<Rightarrow>
           decode_hex (case strip_prefix ''sha256='' s of Some r \<Rightarrow> r | None \<Rightarrow> s) =
             Some (hmac secret body)) \<and>
    verify_signature hmac cfg body (Some (encode_signature hmac secret body)) = Inr ()"
  using assms
  by (auto simp: verify_signature_def encode_signature_def strip_prefix_def decode_hex_encode Let_def
      split: option.splits)

lemma webhook_signature_exact_witness:
  "verify_signature (\<lambda>k b. b) (default_config\<lparr>fc_hooks := \<lparr>hk_enabled = True,
       hk_token = Some ''k'', hk_max_body_bytes = None, hk_mappings = []\<rparr>\<rparr>) [0x1F]
     (Some (encode_signature (\<lambda>k b. b) ''k'' [0x1F])) = Inr ()"
  by (rule webhook_signature_exact [THEN conjunct2])
    (simp_all add: hooks_secret_def trim_id is_ws_def)

section \<open>Time stamps\<close>

lemma i64_sub_exact:
  "- (2 ^ 63) \<le> a - b \<Longrightarrow> a - b < 2 ^ 63 \<Longrightarrow> i64_sub a b = a - b"
  by (simp add: i64_sub_def)

lemma parse_i64_range: "parse_i64 s = Some i \<Longrightarrow> - (2 ^ 63) \<le> i \<and> i < 2 ^ 63"
  by (auto simp: parse_i64_def Let_def split: option.splits if_splits)

lemma i64_sub_wraps:
  assumes "0 \<le> now" "now < 2 ^ 62" "- (2 ^ 63) \<le> ts" "2 ^ 63 \<le> now - ts"
  shows "i64_sub now ts = now - ts - 2 ^ 64"
proof -
  have "(now - ts + 2 ^ 63) mod 2 ^ 64 = (now - ts + 2 ^ 63 - 2 ^ 64) mod 2 ^ 64"
    by (simp only: minus_mod_self2)
  also have "\<dots> = now - ts + 2 ^ 63 - 2 ^ 64"
    using assms by (intro mod_pos_pos_trivial) simp_all
  finally show ?thesis by (simp add: i64_sub_def)
qed

text \<open>
  A time stamp that is given is accepted exactly when it is an \<open>i64\<close> within five minutes
  of the clock, before or after; the wrap-around of the difference admits none of the distant
  ones.
\<close>

lemma webhook_timestamp_window:
  assumes "0 \<le> now" "now < 2 ^ 62" and "trim header \<noteq> []"
  shows "(verify_timestamp now (Some header) = Inr ()) =
    (case parse_i64 (trim header) of Some ts \<Rightarrow> \<bar>now - ts\<bar> \<le> 300 | None \<Rightarrow> False)"
proof (cases "parse_i64 (trim header)")
  case None
  with assms(3) show ?thesis by (simp add: verify_timestamp_def)
next
  case (Some ts)
  have range: "- (2 ^ 63) \<le> ts" "ts < 2 ^ 63" using parse_i64_range [OF Some] by auto
  have "(\<bar>i64_sub now ts\<bar> \<le> 300) = (\<bar>now - ts\<bar> \<le> 300)"
  proof (cases "now - ts < 2 ^ 63")
    case True
    then show ?thesis using assms range by (simp add: i64_sub_exact)
  next
    case False
    then have "i64_sub now ts = now - ts - 2 ^ 64" using assms range by (intro i64_sub_wraps) auto
    with False assms range show ?thesis by simp
  qed
  with Some assms(3) show ?thesis
    by (auto simp: verify_timestamp_def max_webhook_age_secs_def Let_def)
qed

lemma webhook_timestamp_window_witness:
  "verify_timestamp 1000 (Some ''1300'') = Inr () \<and> verify_timestamp 1000 (Some ''1301'') \<noteq> Inr () \<and>
   verify_timestamp 1000 (Some ''-9223372036854775808'') \<noteq> Inr ()"
proof -
  have w: "trim ''1300'' = ''1300''" "trim ''1301'' = ''1301''"
    "trim ''-9223372036854775808'' = ''-9223372036854775808''"
    by (simp_all add: trim_id is_ws_def)
  have p: "parse_i64 ''1300'' = Some 1300" "parse_i64 ''1301'' = Some 1301"
    "parse_i64 ''-9223372036854775808'' = Some (-9223372036854775808)"
    by (simp_all add: parse_i64_def parse_digits_def is_digit_def starts_with_def)
  show ?thesis
    using webhook_timestamp_window [of 1000 "''1300''"] webhook_timestamp_window [of 1000 "''1301''"]
      webhook_timestamp_window [of 1000 "''-9223372036854775808''"]
    by (simp add: w p)
qed

text \<open>A request without a time stamp is accepted whatever its age.\<close>

lemma missing_timestamp_accepted: "verify_timestamp now None = Inr ()"
  by (simp add: verify_timestamp_def)

section \<open>Messages\<close>

lemma extract_message_plain:
  assumes "wm_json_path m = None" "wm_template m = None"
    and "get_str payload (wm_text_field m) = Some t" "trim t \<noteq> []"
  shows "extract_message show_json m payload = Inr (trim t)"
  using assms by (simp add: extract_message_def Let_def)

lemma walk_path_append:
  "walk_path v (ks @ ls) = Option.bind (walk_path v ks) (\<lambda>u. walk_path u ls)"
  by (induction v ks rule: walk_path.induct) (auto split: option.splits)

end
