(* ===== verification/Hooks.thy ===== *)
theory Hooks
  imports Json
begin

text \<open>
  The hook registry (\<open>frankclaw-core/src/hooks.rs\<close>): handlers registered for a type of event or
  for a type and an action, and the tasks that an event starts. A handler is a value of an
  arbitrary type; the tasks run concurrently and their results are not used, so that an event
  is described by the list of the tasks it starts. The values of a context are JSON.
\<close>

section \<open>Events\<close>

datatype event_type =
    EvCommand
  | EvSession
  | EvAgent
  | EvGateway
  | EvMessage
  | EvTool

primrec event_type_name :: "event_type \<Rightarrow> string" where
  "event_type_name EvCommand = ''command''"
| "event_type_name EvSession = ''session''"
| "event_type_name EvAgent = ''agent''"
| "event_type_name EvGateway = ''gateway''"
| "event_type_name EvMessage = ''message''"
| "event_type_name EvTool = ''tool''"

record hook_event =
  he_event_type :: event_type
  he_action :: string
  he_context :: "string \<rightharpoonup> json"

definition hook_event_new :: "event_type \<Rightarrow> string \<Rightarrow> hook_event" where
  "hook_event_new ty action = \<lparr>he_event_type = ty, he_action = action, he_context = Map.empty\<rparr>"

definition with_context :: "string \<Rightarrow> json \<Rightarrow> hook_event \<Rightarrow> hook_event" where
  "with_context k v e = e\<lparr>he_context := (he_context e)(k \<mapsto> v)\<rparr>"

definition specific_key :: "hook_event \<Rightarrow> string" where
  "specific_key e = event_type_name (he_event_type e) @ '':'' @ he_action e"

section \<open>The registry\<close>

record 'h handler_entry =
  hh_name :: string
  hh_handler :: 'h

type_synonym 'h hook_registry = "(string \<times> 'h handler_entry list) list"

definition hooks_new :: "'h hook_registry" where
  "hooks_new = []"

definition handlers_of :: "'h hook_registry \<Rightarrow> string \<Rightarrow> 'h handler_entry list" where
  "handlers_of reg k = (case map_of reg k of Some hs \<Rightarrow> hs | None \<Rightarrow> [])"

definition register_hook :: "string \<Rightarrow> string \<Rightarrow> 'h \<Rightarrow> 'h hook_registry \<Rightarrow> 'h hook_registry" where
  "register_hook key name handler reg =
     AList.update key (handlers_of reg key @ [\<lparr>hh_name = name, hh_handler = handler\<rparr>]) reg"

definition on_event :: "event_type \<Rightarrow> string \<Rightarrow> 'h \<Rightarrow> 'h hook_registry \<Rightarrow> 'h hook_registry" where
  "on_event ty name handler reg = register_hook (event_type_name ty) name handler reg"

definition on_action ::
  "event_type \<Rightarrow> string \<Rightarrow> string \<Rightarrow> 'h \<Rightarrow> 'h hook_registry \<Rightarrow> 'h hook_registry" where
  "on_action ty action name handler reg =
     register_hook (event_type_name ty @ '':'' @ action) name handler reg"

text \<open>The tasks that an event starts, each with its own copy of the event.\<close>

definition fire :: "hook_event \<Rightarrow> 'h hook_registry \<Rightarrow> (string \<times> 'h \<times> hook_event) list" where
  "fire e reg =
     (let general = map_of reg (event_type_name (he_event_type e));
          specific = map_of reg (specific_key e);
          total = (case general of Some h \<Rightarrow> length h | None \<Rightarrow> 0) +
                  (case specific of Some h \<Rightarrow> length h | None \<Rightarrow> 0);
          task = (\<lambda>h. (hh_name h, hh_handler h, e))
      in if total = 0 then []
         else (case general of Some hs \<Rightarrow> map task hs | None \<Rightarrow> []) @
              (case specific of Some hs \<Rightarrow> map task hs | None \<Rightarrow> []))"

definition handler_count :: "'h hook_registry \<Rightarrow> nat" where
  "handler_count reg = (\<Sum>(k, hs)\<leftarrow>reg. length hs)"

definition hooks_clear :: "event_type \<Rightarrow> 'h hook_registry \<Rightarrow> 'h hook_registry" where
  "hooks_clear ty reg = AList.delete (event_type_name ty) reg"

section \<open>Constructors of common events\<close>

definition command_executed :: "string \<Rightarrow> string \<Rightarrow> hook_event" where
  "command_executed command args =
     with_context ''args'' (JString args)
       (with_context ''command'' (JString command) (hook_event_new EvCommand command))"

definition session_created :: "string \<Rightarrow> hook_event" where
  "session_created key =
     with_context ''session_key'' (JString key) (hook_event_new EvSession ''created'')"

definition session_reset :: "string \<Rightarrow> hook_event" where
  "session_reset key =
     with_context ''session_key'' (JString key) (hook_event_new EvSession ''reset'')"

definition message_received :: "string \<Rightarrow> string \<Rightarrow> string \<Rightarrow> hook_event" where
  "message_received channel sender content =
     with_context ''content'' (JString content)
       (with_context ''sender'' (JString sender)
         (with_context ''channel'' (JString channel) (hook_event_new EvMessage ''received'')))"

definition message_sent :: "string \<Rightarrow> string \<Rightarrow> hook_event" where
  "message_sent channel recipient =
     with_context ''recipient'' (JString recipient)
       (with_context ''channel'' (JString channel) (hook_event_new EvMessage ''sent''))"

definition gateway_started :: "u16 \<Rightarrow> hook_event" where
  "gateway_started port =
     with_context ''port'' (JUInt (ucast port)) (hook_event_new EvGateway ''started'')"

definition gateway_stopped :: hook_event where
  "gateway_stopped = hook_event_new EvGateway ''stopped''"

definition tool_before :: "string \<Rightarrow> string \<Rightarrow> string \<Rightarrow> hook_event" where
  "tool_before tool agent key =
     with_context ''session_key'' (JString key)
       (with_context ''agent_id'' (JString agent)
         (with_context ''tool_name'' (JString tool) (hook_event_new EvTool ''before'')))"

definition tool_after :: "string \<Rightarrow> string \<Rightarrow> string \<Rightarrow> bool \<Rightarrow> hook_event" where
  "tool_after tool agent key success =
     with_context ''success'' (JBool success)
       (with_context ''session_key'' (JString key)
         (with_context ''agent_id'' (JString agent)
           (with_context ''tool_name'' (JString tool) (hook_event_new EvTool ''after''))))"

definition agent_turn_started :: "string \<Rightarrow> string \<Rightarrow> hook_event" where
  "agent_turn_started agent key =
     with_context ''session_key'' (JString key)
       (with_context ''agent_id'' (JString agent) (hook_event_new EvAgent ''turn_started''))"

definition agent_turn_completed :: "string \<Rightarrow> string \<Rightarrow> hook_event" where
  "agent_turn_completed agent key =
     with_context ''session_key'' (JString key)
       (with_context ''agent_id'' (JString agent) (hook_event_new EvAgent ''turn_completed''))"

section \<open>An event reaches its handlers\<close>

text \<open>The registrations as a list, the specification of the registry: an event starts the
  handlers of its type, then those of its type and action, in the order of registration.\<close>

datatype 'h registration = OnType event_type string 'h | OnAction event_type string string 'h

primrec apply_registration :: "'h registration \<Rightarrow> 'h hook_registry \<Rightarrow> 'h hook_registry" where
  "apply_registration (OnType ty name h) reg = on_event ty name h reg"
| "apply_registration (OnAction ty action name h) reg = on_action ty action name h reg"

fun type_handler :: "event_type \<Rightarrow> 'h registration \<Rightarrow> (string \<times> 'h) option" where
  "type_handler ty (OnType ty' name h) = (if ty' = ty then Some (name, h) else None)"
| "type_handler ty _ = None"

fun action_handler :: "event_type \<Rightarrow> string \<Rightarrow> 'h registration \<Rightarrow> (string \<times> 'h) option" where
  "action_handler ty action (OnAction ty' action' name h) =
     (if ty' = ty \<and> action' = action then Some (name, h) else None)"
| "action_handler ty action _ = None"

lemma event_type_name_inj [simp]: "event_type_name a = event_type_name b \<longleftrightarrow> a = b"
  by (cases a; cases b) simp_all

lemma event_type_name_colon: "CHR '':'' \<notin> set (event_type_name ty)"
  by (cases ty) simp_all

lemma keys_disjoint [simp]:
  "event_type_name a \<noteq> event_type_name b @ CHR '':'' # action"
  "event_type_name b @ CHR '':'' # action \<noteq> event_type_name a"
proof -
  show "event_type_name a \<noteq> event_type_name b @ CHR '':'' # action"
  proof
    assume "event_type_name a = event_type_name b @ CHR '':'' # action"
    then have "CHR '':'' \<in> set (event_type_name a)" by simp
    with event_type_name_colon show False by blast
  qed
  then show "event_type_name b @ CHR '':'' # action \<noteq> event_type_name a" by metis
qed

lemma specific_keys_inj [simp]:
  "event_type_name a @ CHR '':'' # x = event_type_name b @ CHR '':'' # y \<longleftrightarrow> a = b \<and> x = y"
proof
  assume eq: "event_type_name a @ CHR '':'' # x = event_type_name b @ CHR '':'' # y"
  show "a = b \<and> x = y"
    using arg_cong [OF eq, of "split_once CHR '':''"]
    by (simp add: split_once_append [OF event_type_name_colon])
qed simp

lemma handlers_of_register [simp]:
  "handlers_of (register_hook k name h reg) k' =
     (if k' = k then handlers_of reg k @ [\<lparr>hh_name = name, hh_handler = h\<rparr>] else handlers_of reg k')"
  by (auto simp: handlers_of_def register_hook_def update_conv)

lemma handlers_of_new [simp]: "handlers_of hooks_new k = []"
  by (simp add: handlers_of_def hooks_new_def)

lemma fire_handlers:
  "fire e reg = map (\<lambda>h. (hh_name h, hh_handler h, e))
     (handlers_of reg (event_type_name (he_event_type e)) @ handlers_of reg (specific_key e))"
  by (auto simp: fire_def handlers_of_def Let_def split: option.splits)

lemma handlers_of_run:
  defines "run \<equiv> foldl (\<lambda>reg r. apply_registration r reg) hooks_new"
  shows "map (\<lambda>h. (hh_name h, hh_handler h)) (handlers_of (run rs) (event_type_name ty)) =
      List.map_filter (type_handler ty) rs"
    and "map (\<lambda>h. (hh_name h, hh_handler h)) (handlers_of (run rs) (event_type_name ty @ CHR '':'' # action)) =
      List.map_filter (action_handler ty action) rs"
proof (induction rs rule: rev_induct)
  case (snoc r rs)
  {
    case 1
    then show ?case
      using snoc(1) by (cases r) (auto simp: run_def on_event_def on_action_def map_filter_simps
          List.map_filter_def)
  next
    case 2
    then show ?case
      using snoc(2) by (cases r) (auto simp: run_def on_event_def on_action_def map_filter_simps
          List.map_filter_def)
  }
qed (simp_all add: run_def map_filter_simps)

text \<open>
  The registry is the list of its registrations: an event starts exactly the handlers
  registered for its type, followed by those registered for its type and its action, each once
  and in the order of registration.
\<close>

lemma hooks_fire_exact:
  "fire e (foldl (\<lambda>reg r. apply_registration r reg) hooks_new rs) =
     map (\<lambda>(name, h). (name, h, e))
       (List.map_filter (type_handler (he_event_type e)) rs @
        List.map_filter (action_handler (he_event_type e) (he_action e)) rs)"
proof -
  have split: "map (\<lambda>h. (hh_name h, hh_handler h, e)) hs =
      map (\<lambda>(name, h). (name, h, e)) (map (\<lambda>h. (hh_name h, hh_handler h)) hs)"
    for hs :: "'h handler_entry list"
    by simp
  show ?thesis
    unfolding fire_handlers map_append split
    by (simp only: handlers_of_run specific_key_def append.simps)
qed

text \<open>Clearing a type of event leaves the handlers of its actions.\<close>

lemma clear_keeps_actions:
  "handlers_of (hooks_clear ty reg) (event_type_name ty) = []"
  "handlers_of (hooks_clear ty reg) (event_type_name ty @ CHR '':'' # action) =
     handlers_of reg (event_type_name ty @ CHR '':'' # action)"
  by (simp_all add: handlers_of_def hooks_clear_def delete_conv')

end
