(* ===== verification/Api_Keys.thy ===== *)
theory Api_Keys
  imports Prelude "HOL-Library.Option_ord"
begin

text \<open>
  The rotation of API keys (\<open>frankclaw-core/src/api_keys.rs\<close>): the statistics of a key, the
  selection of the key that rested longest among those not cooling down, and the cooldown
  after a failure. The clock is an argument; a panic is \<open>None\<close>.
\<close>

section \<open>State\<close>

definition max_cooldown :: duration where
  "max_cooldown = secs 3600"

definition base_cooldown :: duration where
  "base_cooldown = secs 60"

datatype failure_reason = RateLimit | AuthError | Overloaded | TimeoutFailure | Billing | UnknownFailure

record key_stats =
  ks_last_used :: "instant option"
  ks_cooldown_until :: "instant option"
  ks_consecutive_failures :: u32
  ks_last_failure_reason :: "failure_reason option"

definition key_stats_new :: key_stats where
  "key_stats_new =
     \<lparr>ks_last_used = None, ks_cooldown_until = None, ks_consecutive_failures = 0,
      ks_last_failure_reason = None\<rparr>"

definition key_available :: "instant \<Rightarrow> key_stats \<Rightarrow> bool" where
  "key_available now s = (case ks_cooldown_until s of Some until \<Rightarrow> until \<le> now | None \<Rightarrow> True)"

definition cooldown_remaining :: "instant \<Rightarrow> key_stats \<Rightarrow> duration option" where
  "cooldown_remaining now s =
     (case ks_cooldown_until s of
        Some until \<Rightarrow> if now \<le> until then Some (until - now) else None
      | None \<Rightarrow> None)"

record key_rotator =
  kr_keys :: "string list"
  kr_stats :: "key_stats list"

definition rotator_new :: "string list \<Rightarrow> key_rotator option" where
  "rotator_new keys =
     (if keys = [] then None
      else Some \<lparr>kr_keys = keys, kr_stats = map (\<lambda>_. key_stats_new) keys\<rparr>)"

section \<open>Operations\<close>

text \<open>\<open>Iterator::min_by_key\<close> (the first of equal minima) and \<open>max_by_key\<close> (the last maximum).\<close>

fun min_by_key :: "('a \<Rightarrow> 'b::linorder) \<Rightarrow> 'a list \<Rightarrow> 'a option" where
  "min_by_key f [] = None"
| "min_by_key f (x # xs) =
     (case min_by_key f xs of None \<Rightarrow> Some x | Some y \<Rightarrow> if f x \<le> f y then Some x else Some y)"

fun max_by_key :: "('a \<Rightarrow> 'b::linorder) \<Rightarrow> 'a list \<Rightarrow> 'a option" where
  "max_by_key f [] = None"
| "max_by_key f (x # xs) =
     (case max_by_key f xs of None \<Rightarrow> Some x | Some y \<Rightarrow> if f x \<le> f y then Some y else Some x)"

definition clear_expired :: "instant \<Rightarrow> key_stats \<Rightarrow> key_stats" where
  "clear_expired now s =
     (case ks_cooldown_until s of
        Some until \<Rightarrow>
          if until \<le> now
          then s\<lparr>ks_cooldown_until := None, ks_consecutive_failures := 0, ks_last_failure_reason := None\<rparr>
          else s
      | None \<Rightarrow> s)"

definition best_key :: "instant \<Rightarrow> key_stats list \<Rightarrow> nat option" where
  "best_key now stats =
     map_option fst
       (min_by_key (\<lambda>(i, s). ks_last_used s) (filter (\<lambda>(i, s). key_available now s) (enumerate 0 stats)))"

definition select_key :: "instant \<Rightarrow> key_rotator \<Rightarrow> string option \<times> key_rotator" where
  "select_key now r =
     (let stats = map (clear_expired now) (kr_stats r)
      in case best_key now stats of
           Some i \<Rightarrow>
             (Some (kr_keys r ! i),
              r\<lparr>kr_stats := stats[i := (stats ! i)\<lparr>ks_last_used := Some now\<rparr>]\<rparr>)
         | None \<Rightarrow> (None, r\<lparr>kr_stats := stats\<rparr>))"

definition most_recent :: "key_stats list \<Rightarrow> nat option" where
  "most_recent stats =
     map_option fst
       (max_by_key (\<lambda>(i, s). ks_last_used s)
          (filter (\<lambda>(i, s). ks_last_used s \<noteq> None) (enumerate 0 stats)))"

definition update_recent :: "(key_stats \<Rightarrow> key_stats) \<Rightarrow> key_rotator \<Rightarrow> key_rotator" where
  "update_recent f r =
     (case most_recent (kr_stats r) of
        Some i \<Rightarrow> r\<lparr>kr_stats := (kr_stats r)[i := f (kr_stats r ! i)]\<rparr>
      | None \<Rightarrow> r)"

definition mark_success :: "key_rotator \<Rightarrow> key_rotator" where
  "mark_success r =
     update_recent (\<lambda>s. s\<lparr>ks_consecutive_failures := 0, ks_cooldown_until := None,
       ks_last_failure_reason := None\<rparr>) r"

text \<open>The cooldown; the multiplier fits \<open>u32\<close> and the product the duration type.\<close>

definition compute_cooldown :: "u32 \<Rightarrow> failure_reason \<Rightarrow> duration" where
  "compute_cooldown failures reason =
     (let base = (if reason = AuthError \<or> reason = Billing then secs 300 else base_cooldown);
          exponent = min (unat (sat_sub failures 1)) 5
      in min (base * 5 ^ exponent) max_cooldown)"

definition mark_failure :: "instant \<Rightarrow> failure_reason \<Rightarrow> key_rotator \<Rightarrow> key_rotator" where
  "mark_failure now reason r =
     update_recent (\<lambda>s.
       let n = ks_consecutive_failures s + 1
       in s\<lparr>ks_consecutive_failures := n, ks_last_failure_reason := Some reason,
            ks_cooldown_until := Some (now + compute_cooldown n reason)\<rparr>) r"

definition available_count :: "instant \<Rightarrow> key_rotator \<Rightarrow> nat" where
  "available_count now r = length (filter (key_available now) (kr_stats r))"

definition total_count :: "key_rotator \<Rightarrow> nat" where
  "total_count r = length (kr_keys r)"

definition next_available_in :: "instant \<Rightarrow> key_rotator \<Rightarrow> duration option" where
  "next_available_in now r = min_by_key id (List.map_filter (cooldown_remaining now) (kr_stats r))"

section \<open>The keys of several providers\<close>

type_synonym key_manager = "(string \<times> key_rotator) list"

definition manager_new :: key_manager where
  "manager_new = []"

definition register_keys :: "string \<Rightarrow> string list \<Rightarrow> key_manager \<Rightarrow> key_manager" where
  "register_keys provider keys m =
     (case rotator_new keys of Some r \<Rightarrow> AList.update provider r m | None \<Rightarrow> m)"

definition rotator_of :: "string \<Rightarrow> key_manager \<Rightarrow> key_rotator option" where
  "rotator_of provider m = map_of m provider"

definition manager_select :: "instant \<Rightarrow> string \<Rightarrow> key_manager \<Rightarrow> string option \<times> key_manager" where
  "manager_select now provider m =
     (case rotator_of provider m of
        None \<Rightarrow> (None, m)
      | Some r \<Rightarrow> (case select_key now r of (k, r1) \<Rightarrow> (k, AList.update provider r1 m)))"

definition manager_success :: "string \<Rightarrow> key_manager \<Rightarrow> key_manager" where
  "manager_success provider m =
     (case rotator_of provider m of
        None \<Rightarrow> m | Some r \<Rightarrow> AList.update provider (mark_success r) m)"

definition manager_failure ::
  "instant \<Rightarrow> string \<Rightarrow> failure_reason \<Rightarrow> key_manager \<Rightarrow> key_manager" where
  "manager_failure now provider reason m =
     (case rotator_of provider m of
        None \<Rightarrow> m | Some r \<Rightarrow> AList.update provider (mark_failure now reason r) m)"

definition providers :: "key_manager \<Rightarrow> string list" where
  "providers m = map fst m"

section \<open>Selection\<close>

lemma min_by_key_None [simp]: "min_by_key f xs = None \<longleftrightarrow> xs = []"
  by (cases xs) (auto split: option.splits)

lemma max_by_key_None [simp]: "max_by_key f xs = None \<longleftrightarrow> xs = []"
  by (cases xs) (auto split: option.splits)

lemma min_by_key_Some:
  "min_by_key f xs = Some x \<Longrightarrow> x \<in> set xs \<and> (\<forall>y\<in>set xs. f x \<le> f y)"
  by (induction f xs arbitrary: x rule: min_by_key.induct) (fastforce split: option.splits if_splits)+

lemma max_by_key_Some:
  "max_by_key f xs = Some x \<Longrightarrow> x \<in> set xs \<and> (\<forall>y\<in>set xs. f y \<le> f x)"
  by (induction f xs arbitrary: x rule: max_by_key.induct) (fastforce split: option.splits if_splits)+

lemma in_enumerate: "(i, s) \<in> set (enumerate 0 xs) \<longleftrightarrow> i < length xs \<and> s = xs ! i"
  by (auto simp: in_set_enumerate_eq)

lemma best_key_None: "best_key now stats = None \<longleftrightarrow> (\<forall>s\<in>set stats. \<not> key_available now s)"
proof -
  have "(\<forall>s\<in>set (map snd (enumerate 0 stats)). \<not> key_available now s) \<longleftrightarrow>
    (\<forall>x\<in>set (enumerate 0 stats). \<not> key_available now (snd x))"
    unfolding set_map by blast
  then show ?thesis by (auto simp: best_key_def filter_empty_conv case_prod_unfold)
qed

lemma best_key_Some:
  assumes "best_key now stats = Some i"
  shows "i < length stats" "key_available now (stats ! i)"
    "\<And>j. j < length stats \<Longrightarrow> key_available now (stats ! j) \<Longrightarrow>
       ks_last_used (stats ! i) \<le> ks_last_used (stats ! j)"
proof -
  let ?avail = "filter (\<lambda>(i, s). key_available now s) (enumerate 0 stats)"
  obtain s where m: "min_by_key (\<lambda>(i, s). ks_last_used s) ?avail = Some (i, s)"
    using assms by (auto simp: best_key_def)
  from min_by_key_Some [OF m] show "i < length stats" "key_available now (stats ! i)"
    by (auto simp: in_enumerate)
  fix j assume "j < length stats" "key_available now (stats ! j)"
  then have "(j, stats ! j) \<in> set ?avail" by (simp add: in_enumerate)
  with min_by_key_Some [OF m] show "ks_last_used (stats ! i) \<le> ks_last_used (stats ! j)"
    by (fastforce simp: in_enumerate)
qed

lemma clear_expired_available [simp]: "key_available now (clear_expired now s) = key_available now s"
  by (auto simp: key_available_def clear_expired_def split: option.splits)

lemma clear_expired_last_used [simp]: "ks_last_used (clear_expired now s) = ks_last_used s"
  by (auto simp: clear_expired_def split: option.splits)

definition rotator_ok :: "key_rotator \<Rightarrow> bool" where
  "rotator_ok r \<longleftrightarrow> length (kr_stats r) = length (kr_keys r)"

text \<open>What a selection does, as a rule for the proofs below.\<close>

lemma select_key_cases:
  obtains (none) "\<forall>s\<in>set (kr_stats r). \<not> key_available now s" "fst (select_key now r) = None"
  | (some) i where "i < length (kr_stats r)" "key_available now (kr_stats r ! i)"
      "\<forall>j<length (kr_stats r). key_available now (kr_stats r ! j) \<longrightarrow>
         ks_last_used (kr_stats r ! i) \<le> ks_last_used (kr_stats r ! j)"
      "best_key now (map (clear_expired now) (kr_stats r)) = Some i"
      "select_key now r = (Some (kr_keys r ! i),
         r\<lparr>kr_stats := (map (clear_expired now) (kr_stats r))
            [i := (clear_expired now (kr_stats r ! i))\<lparr>ks_last_used := Some now\<rparr>]\<rparr>)"
proof (cases "best_key now (map (clear_expired now) (kr_stats r))")
  case None
  then have "fst (select_key now r) = None" by (simp add: select_key_def)
  with None show ?thesis by (intro none) (simp_all add: best_key_None)
next
  case (Some i)
  then show ?thesis
    using best_key_Some [OF Some]
    by (intro some [of i]) (auto simp: select_key_def Let_def)
qed

text \<open>
  A key is selected exactly when some key is not cooling down, and then it is one that was
  used longest ago (or never) among these.
\<close>

lemma select_key_least_recent:
  assumes "rotator_ok r"
  shows "(case fst (select_key now r) of
      None \<Rightarrow> \<not> list_ex (key_available now) (kr_stats r)
    | Some k \<Rightarrow>
        list_ex (\<lambda>(key, s). key = k \<and> key_available now s \<and>
          list_all (\<lambda>s'. \<not> key_available now s' \<or> ks_last_used s \<le> ks_last_used s') (kr_stats r))
          (zip (kr_keys r) (kr_stats r)))"
proof (cases rule: select_key_cases [of r now])
  case none
  then show ?thesis by (simp add: list_ex_iff)
next
  case (some i)
  have "(kr_keys r ! i, kr_stats r ! i) \<in> set (zip (kr_keys r) (kr_stats r))"
    using some(1) assms by (auto simp: in_set_zip rotator_ok_def)
  moreover have "\<forall>s'\<in>set (kr_stats r). \<not> key_available now s' \<or>
      ks_last_used (kr_stats r ! i) \<le> ks_last_used s'"
    using some(3) by (auto simp: in_set_conv_nth)
  ultimately show ?thesis using some(2,5) by (fastforce simp: list_ex_iff list_all_iff)
qed

definition two_keys :: key_rotator where
  "two_keys =
     \<lparr>kr_keys = [''a'', ''b''],
      kr_stats = [key_stats_new\<lparr>ks_last_used := Some 5\<rparr>, key_stats_new\<lparr>ks_last_used := Some 3\<rparr>]\<rparr>"

lemma select_key_least_recent_witness:
  "fst (select_key 9 two_keys) = Some ''b'' \<and>
   list_ex (\<lambda>(key, s). key = ''b'' \<and> key_available 9 s \<and>
     list_all (\<lambda>s'. \<not> key_available 9 s' \<or> ks_last_used s \<le> ks_last_used s') (kr_stats two_keys))
     (zip (kr_keys two_keys) (kr_stats two_keys))"
proof -
  have "rotator_ok two_keys" by (simp add: rotator_ok_def two_keys_def)
  moreover have "fst (select_key 9 two_keys) = Some ''b''"
    by (simp add: select_key_def two_keys_def key_stats_new_def clear_expired_def best_key_def
        key_available_def Let_def)
  ultimately show ?thesis using select_key_least_recent [of two_keys 9] by simp
qed

section \<open>Every key has its turn\<close>

text \<open>The keys that go before the key \<open>i\<close>: those used before it, and of those used at the same
  time (or never) the ones before it in the list.\<close>

definition before :: "key_stats list \<Rightarrow> nat \<Rightarrow> nat set" where
  "before stats i =
     {j. j < length stats \<and> j \<noteq> i \<and> ks_last_used (stats ! j) \<le> ks_last_used (stats ! i)}"

lemma before_bound: "i < length stats \<Longrightarrow> card (before stats i) < length stats"
proof -
  assume i: "i < length stats"
  have "before stats i \<subseteq> {..<length stats} - {i}" by (auto simp: before_def)
  then have "card (before stats i) \<le> card ({..<length stats} - {i})" by (intro card_mono) simp_all
  with i show ?thesis by simp
qed

text \<open>The indices that a run of selections at the given times picks.\<close>

primrec select_run :: "instant list \<Rightarrow> key_rotator \<Rightarrow> nat option list" where
  "select_run [] r = []"
| "select_run (t # ts) r =
     best_key t (map (clear_expired t) (kr_stats r)) # select_run ts (snd (select_key t r))"

definition used_by :: "instant \<Rightarrow> key_rotator \<Rightarrow> bool" where
  "used_by t r \<longleftrightarrow> list_all (\<lambda>s. ks_last_used s \<le> Some t) (kr_stats r)"

lemma used_by_nth: "used_by t r \<Longrightarrow> i < length (kr_stats r) \<Longrightarrow> ks_last_used (kr_stats r ! i) \<le> Some t"
  by (simp add: used_by_def list_all_length)

lemma key_available_later: "key_available t s \<Longrightarrow> t \<le> u \<Longrightarrow> key_available u s"
  by (auto simp: key_available_def split: option.splits)

lemma key_available_used [simp]: "key_available t (s\<lparr>ks_last_used := u\<rparr>) = key_available t s"
  by (simp add: key_available_def)

lemma select_run_reaches:
  assumes "i < length (kr_stats r)" "key_available t0 (kr_stats r ! i)"
    and "sorted_wrt (<) (t0 # ts)" "used_by t0 r"
    and "card (before (kr_stats r) i) < length ts"
  shows "Some i \<in> set (select_run ts r)"
  using assms
proof (induction ts arbitrary: r t0)
  case (Cons t ts)
  let ?stats = "kr_stats r"
  have avail: "key_available t (?stats ! i)"
    using Cons.prems(2,3) by (auto intro: key_available_later)
  show ?case
  proof (cases rule: select_key_cases [of r t])
    case none
    with avail Cons.prems(1) show ?thesis by simp
  next
    case (some j)
    show ?thesis
    proof (cases "j = i")
      case True
      with some(4) show ?thesis by simp
    next
      case False
      let ?r = "snd (select_key t r)"
      let ?new = "kr_stats ?r"
      have new: "?new = (map (clear_expired t) ?stats)
          [j := (clear_expired t (?stats ! j))\<lparr>ks_last_used := Some t\<rparr>]"
        using some(5) by simp
      have len: "length ?new = length ?stats" by (simp add: new)
      have last_i: "ks_last_used (?new ! i) = ks_last_used (?stats ! i)"
        using False Cons.prems(1) by (simp add: new)
      have last_j: "ks_last_used (?new ! j) = Some t"
        using some(1) by (simp add: new)
      have "ks_last_used (?stats ! i) \<le> Some t0" using Cons.prems(1,4) by (simp add: used_by_nth)
      moreover have "t0 < t" using Cons.prems(3) by simp
      ultimately have earlier: "\<not> Some t \<le> ks_last_used (?stats ! i)"
        using order_trans [of "Some t" "ks_last_used (?stats ! i)" "Some t0"] by auto
      have "before ?new i \<subseteq> before ?stats i - {j}"
      proof
        fix k assume k: "k \<in> before ?new i"
        then have "k \<noteq> j" using last_i last_j earlier by (auto simp: before_def)
        with k show "k \<in> before ?stats i - {j}"
          using last_i by (auto simp: before_def len) (simp add: new)
      qed
      moreover have "j \<in> before ?stats i"
        using some(1,3) avail Cons.prems(1) False by (auto simp: before_def)
      moreover have "finite (before ?stats i)" by (simp add: before_def)
      ultimately have "card (before ?new i) < card (before ?stats i)"
        by (meson card_Diff1_less card_mono finite_Diff le_less_trans)
      then have "card (before ?new i) < length ts" using Cons.prems(5) by simp
      moreover have "key_available t (?new ! i)"
        using avail False Cons.prems(1) by (simp add: new)
      moreover have "used_by t ?r"
      proof -
        have "ks_last_used (?new ! k) \<le> Some t" if k: "k < length ?new" for k
        proof (cases "k = j")
          case True
          with last_j show ?thesis by simp
        next
          case False
          with k have "ks_last_used (?new ! k) = ks_last_used (?stats ! k)" by (simp add: new)
          also have "\<dots> \<le> Some t0" using Cons.prems(4) k len by (simp add: used_by_nth)
          also have "\<dots> \<le> Some t" using Cons.prems(3) by simp
          finally show ?thesis .
        qed
        then show ?thesis by (simp add: used_by_def list_all_length)
      qed
      moreover have "sorted_wrt (<) (t # ts)" using Cons.prems(3) by simp
      ultimately have "Some i \<in> set (select_run ts ?r)"
        using Cons.prems(1) len by (intro Cons.IH) simp_all
      then show ?thesis by simp
    qed
  qed
qed simp

text \<open>
  C35. Every key has its turn: a key that is not cooling down is selected at least once in any
  sequence of as many selections as there are keys, at increasing times, when nothing is marked
  in between.
\<close>

theorem every_key_has_its_turn:
  assumes "i < length (kr_stats r)" and "key_available t0 (kr_stats r ! i)"
    and "used_by t0 r" and "sorted_wrt (<) (t0 # ts)" and "length (kr_stats r) \<le> length ts"
  shows "Some i \<in> set (select_run ts r)"
proof (rule select_run_reaches)
  show "card (before (kr_stats r) i) < length ts"
    using before_bound [OF assms(1)] assms(5) by simp
qed (use assms in auto)

theorem every_key_has_its_turn_witness: "Some 0 \<in> set (select_run [6, 7] two_keys)"
  by (rule every_key_has_its_turn [where ?t0.0 = 5])
    (simp_all add: two_keys_def key_stats_new_def key_available_def used_by_def)

section \<open>Cooldowns\<close>

lemma compute_cooldown_bounds:
  "secs 60 \<le> compute_cooldown n reason \<and> compute_cooldown n reason \<le> secs 3600"
proof -
  have "(1::nat) \<le> 5 ^ k" for k :: nat by simp
  then have "secs 60 \<le> secs 60 * 5 ^ k" "secs 60 \<le> secs 300 * 5 ^ k" for k :: nat
    by (simp_all add: secs_def)
  then show ?thesis
    by (simp add: compute_cooldown_def max_cooldown_def base_cooldown_def Let_def)
qed

lemma compute_cooldown_first:
  "compute_cooldown 1 reason = (if reason = AuthError \<or> reason = Billing then secs 300 else secs 60)"
  by (simp add: compute_cooldown_def base_cooldown_def max_cooldown_def Let_def sat_sub_def)

text \<open>A key that is not on cooldown has no failures counted.\<close>

definition cooldown_inv :: "key_rotator \<Rightarrow> bool" where
  "cooldown_inv r \<longleftrightarrow>
     list_all (\<lambda>s. ks_cooldown_until s = None \<longrightarrow> ks_consecutive_failures s = 0) (kr_stats r)"

datatype key_op = SelectAt instant | Success | FailureAt instant failure_reason

primrec key_step :: "key_rotator \<Rightarrow> key_op \<Rightarrow> key_rotator" where
  "key_step r (SelectAt t) = snd (select_key t r)"
| "key_step r Success = mark_success r"
| "key_step r (FailureAt t reason) = mark_failure t reason r"

lemma cooldown_inv_clear:
  "cooldown_inv r \<Longrightarrow>
   list_all (\<lambda>s. ks_cooldown_until s = None \<longrightarrow> ks_consecutive_failures s = 0)
     (map (clear_expired now) (kr_stats r))"
  by (auto simp: cooldown_inv_def list_all_iff clear_expired_def split: option.splits)

lemma list_all_update: "list_all P xs \<Longrightarrow> P y \<Longrightarrow> list_all P (xs[i := y])"
  by (auto simp: list_all_iff dest!: set_update_subset_insert [THEN subsetD])

lemma cooldown_inv_select [inv_rules]: "cooldown_inv r \<Longrightarrow> cooldown_inv (snd (select_key now r))"
proof (cases rule: select_key_cases [of r now])
  case none
  assume inv: "cooldown_inv r"
  have "best_key now (map (clear_expired now) (kr_stats r)) = None"
    using none(1) by (simp add: best_key_None)
  then show ?thesis
    using cooldown_inv_clear [OF inv, of now] by (simp add: select_key_def cooldown_inv_def)
next
  case (some i)
  assume inv: "cooldown_inv r"
  let ?s = "clear_expired now (kr_stats r ! i)"
  have "ks_cooldown_until ?s = None \<longrightarrow> ks_consecutive_failures ?s = 0"
    using cooldown_inv_clear [OF inv, of now] some(1) by (auto simp: list_all_length)
  then show ?thesis
    using cooldown_inv_clear [OF inv, of now] some(5)
    by (auto simp: cooldown_inv_def intro!: list_all_update)
qed

lemma cooldown_inv_update:
  assumes "cooldown_inv r"
    and "\<And>s. ks_cooldown_until (f s) = None \<longrightarrow> ks_consecutive_failures (f s) = 0"
  shows "cooldown_inv (update_recent f r)"
  using assms by (auto simp: update_recent_def cooldown_inv_def intro!: list_all_update split: option.splits)

interpretation rotation: component key_step cooldown_inv
proof
  fix r :: key_rotator and op
  assume "cooldown_inv r"
  then show "cooldown_inv (key_step r op)"
    by (cases op)
      (auto simp: mark_success_def mark_failure_def Let_def intro: cooldown_inv_select cooldown_inv_update)
qed

lemma most_recent_unique:
  assumes "i < length stats" "ks_last_used (stats ! i) = Some t"
    and "\<And>j. j < length stats \<Longrightarrow> j \<noteq> i \<Longrightarrow> ks_last_used (stats ! j) < Some t"
  shows "most_recent stats = Some i"
proof -
  let ?used = "filter (\<lambda>(i, s). ks_last_used s \<noteq> None) (enumerate 0 stats)"
  have i: "(i, stats ! i) \<in> set ?used" using assms(1,2) by (simp add: in_enumerate)
  then obtain j s where m: "max_by_key (\<lambda>(i, s). ks_last_used s) ?used = Some (j, s)"
    by (metis list.set_intros empty_iff list.set(1) max_by_key_None not_Some_eq surj_pair)
  from max_by_key_Some [OF m] have "(j, s) \<in> set ?used" and "ks_last_used (stats ! i) \<le> ks_last_used s"
    using i by auto
  then have "j < length stats" "Some t \<le> ks_last_used (stats ! j)"
    using assms(2) by (auto simp: in_enumerate)
  then have "j = i" using assms(3) [of j] by (metis leD)
  with m show ?thesis by (simp add: most_recent_def)
qed

text \<open>
  The backoff does not grow with the failures: whatever happened before, a key that is
  selected and then fails rests for the first cooldown only, because its count of failures was
  set back when its last cooldown ended.
\<close>

lemma backoff_stays_at_base:
  assumes "rotator_new keys = Some r0"
    and "select_key now (foldl key_step r0 ops) = (Some k, r1)"
    and "list_all (\<lambda>s. ks_last_used s < Some now) (kr_stats (foldl key_step r0 ops))"
  shows "\<exists>i<length (kr_stats r1).
    ks_cooldown_until (kr_stats (mark_failure later reason r1) ! i) =
      Some (later + (if reason = AuthError \<or> reason = Billing then secs 300 else secs 60)) \<and>
    ks_consecutive_failures (kr_stats (mark_failure later reason r1) ! i) = 1 \<and>
    k = kr_keys (foldl key_step r0 ops) ! i"
proof -
  let ?r = "foldl key_step r0 ops"
  have "cooldown_inv r0"
    using assms(1) by (auto simp: rotator_new_def cooldown_inv_def list_all_iff key_stats_new_def
        split: if_splits)
  then have inv: "cooldown_inv ?r" by (rule rotation.inv_run)
  show ?thesis
  proof (cases rule: select_key_cases [of ?r now])
    case none
    with assms(2) show ?thesis by simp
  next
    case (some i)
    have r1: "kr_stats r1 = (map (clear_expired now) (kr_stats ?r))
        [i := (clear_expired now (kr_stats ?r ! i))\<lparr>ks_last_used := Some now\<rparr>]"
      and k: "k = kr_keys ?r ! i"
      using assms(2) some(5) by auto
    have recent: "most_recent (kr_stats r1) = Some i"
    proof (rule most_recent_unique)
      show "ks_last_used (kr_stats r1 ! i) = Some now" using some(1) by (simp add: r1)
      fix j assume "j < length (kr_stats r1)" "j \<noteq> i"
      then show "ks_last_used (kr_stats r1 ! j) < Some now"
        using assms(3) by (simp add: r1 list_all_length)
    qed (use some(1) in \<open>simp add: r1\<close>)
    have "ks_cooldown_until (clear_expired now (kr_stats ?r ! i)) = None"
      using some(2) by (auto simp: clear_expired_def key_available_def split: option.splits)
    then have "ks_consecutive_failures (clear_expired now (kr_stats ?r ! i)) = 0"
      using cooldown_inv_clear [OF inv, of now] some(1) by (simp add: list_all_length)
    then have "ks_consecutive_failures (kr_stats r1 ! i) = 0" using some(1) by (simp add: r1)
    with recent k some(1) show ?thesis
      by (intro exI [of _ i])
        (simp add: mark_failure_def update_recent_def Let_def r1 compute_cooldown_first)
  qed
qed

lemma backoff_stays_at_base_witness:
  "\<exists>r0 r1 i. rotator_new [''a''] = Some r0 \<and>
    select_key (secs 100) (foldl key_step r0
      [SelectAt 1, FailureAt 2 RateLimit, SelectAt (secs 90), FailureAt (secs 91) RateLimit])
      = (None, r1) \<and>
    ks_cooldown_until (kr_stats (foldl key_step r0
      [SelectAt 1, FailureAt 2 RateLimit, SelectAt (secs 90), FailureAt (secs 91) RateLimit]) ! i) =
      Some (secs 151)"
proof -
  define r0 where "r0 = \<lparr>kr_keys = [''a''], kr_stats = [key_stats_new]\<rparr>"
  let ?r = "foldl key_step r0 [SelectAt 1, FailureAt 2 RateLimit]"
  have new: "rotator_new [''a''] = Some r0" by (simp add: rotator_new_def r0_def)
  have r: "?r = \<lparr>kr_keys = [''a''], kr_stats = [\<lparr>ks_last_used = Some 1,
      ks_cooldown_until = Some (2 + secs 60), ks_consecutive_failures = 1,
      ks_last_failure_reason = Some RateLimit\<rparr>]\<rparr>"
    using compute_cooldown_first [of RateLimit]
    by (simp add: r0_def select_key_def best_key_def key_stats_new_def clear_expired_def
        key_available_def mark_failure_def update_recent_def most_recent_def Let_def)
  have ready: "2 + secs 60 \<le> secs 90" by (simp add: secs_def)
  obtain r1 where sel: "select_key (secs 90) ?r = (Some ''a'', r1)" and len: "length (kr_stats r1) = 1"
    unfolding r using ready
    by (simp add: select_key_def best_key_def clear_expired_def key_available_def Let_def)
  have "\<exists>i<length (kr_stats r1).
      ks_cooldown_until (kr_stats (mark_failure (secs 91) RateLimit r1) ! i) =
        Some (secs 91 + (if RateLimit = AuthError \<or> RateLimit = Billing then secs 300 else secs 60)) \<and>
      ks_consecutive_failures (kr_stats (mark_failure (secs 91) RateLimit r1) ! i) = 1 \<and>
      ''a'' = kr_keys ?r ! i"
    by (rule backoff_stays_at_base [OF new sel]) (unfold r, simp add: secs_def)
  then have cool: "ks_cooldown_until (kr_stats (mark_failure (secs 91) RateLimit r1) ! 0) = Some (secs 151)"
    using len by (auto simp: secs_def)
  let ?r2 = "mark_failure (secs 91) RateLimit r1"
  have run: "foldl key_step r0
      [SelectAt 1, FailureAt 2 RateLimit, SelectAt (secs 90), FailureAt (secs 91) RateLimit] = ?r2"
    using sel by simp
  have len2: "length (kr_stats ?r2) = 1"
    using len by (simp add: mark_failure_def update_recent_def split: option.splits)
  have "\<not> key_available (secs 100) (kr_stats ?r2 ! 0)"
    using cool by (simp add: key_available_def)
  then have "\<forall>s\<in>set (kr_stats ?r2). \<not> key_available (secs 100) s"
    using len2 by (auto simp: in_set_conv_nth)
  then have "fst (select_key (secs 100) ?r2) = None"
    by (cases rule: select_key_cases [of ?r2 "secs 100"]) auto
  then show ?thesis
    using new run cool by (metis prod.collapse)
qed

end
