(* ===== verification/Commands.thy ===== *)
theory Commands
  imports Rust_Text
begin

text \<open>
  The commands in messages (\<open>frankclaw-runtime/src/commands.rs\<close>): the registered commands and
  their aliases, the detection of a command at the start of a message, the directives inside a
  message, and the help text. A slice whose start is after its end panics: \<open>None\<close>.
\<close>

section \<open>Data\<close>

record command_result =
  cr_reply :: "string option"
  cr_continue_to_model :: bool

definition handled :: "string \<Rightarrow> command_result" where
  "handled reply = \<lparr>cr_reply = Some reply, cr_continue_to_model = False\<rparr>"

definition handled_silent :: command_result where
  "handled_silent = \<lparr>cr_reply = None, cr_continue_to_model = False\<rparr>"

definition pass_command :: command_result where
  "pass_command = \<lparr>cr_reply = None, cr_continue_to_model = True\<rparr>"

datatype command_category = CatSession | CatOptions | CatStatus

record command_def =
  cd_name :: string
  cd_aliases :: "string list"
  cd_description :: string
  cd_accepts_args :: bool
  cd_category :: command_category

record parsed_command =
  pcmd_name :: string
  pcmd_args :: string

record inline_directives =
  id_think :: "string option"
  id_model :: "string option"
  id_cleaned_body :: string

definition command :: "string \<Rightarrow> string list \<Rightarrow> string \<Rightarrow> bool \<Rightarrow> command_category \<Rightarrow> command_def" where
  "command name aliases description accepts_args category =
     \<lparr>cd_name = name, cd_aliases = aliases, cd_description = description,
      cd_accepts_args = accepts_args, cd_category = category\<rparr>"

definition commands :: "command_def list" where
  "commands =
     [command ''help'' [''h''] ''Show available commands'' False CatStatus,
      command ''status'' [] ''Show current session and agent status'' False CatStatus,
      command ''reset'' [''new''] ''Reset the current session'' False CatSession,
      command ''compact'' [] ''Force context compaction'' False CatSession,
      command ''stop'' [] ''Cancel the current generation'' False CatSession,
      command ''model'' [''m''] ''Switch or show the current model'' True CatOptions,
      command ''think'' [''t''] ''Set thinking level (off, low, medium, high)'' True CatOptions,
      command ''usage'' [] ''Show token usage for this session'' False CatStatus]"

section \<open>Detection\<close>

definition named :: "string \<Rightarrow> command_def \<Rightarrow> bool" where
  "named name d \<longleftrightarrow> cd_name d = name \<or> name \<in> set (cd_aliases d)"

definition resolve_alias :: "string \<Rightarrow> string" where
  "resolve_alias name = (case find (named name) commands of Some d \<Rightarrow> cd_name d | None \<Rightarrow> name)"

definition word_of :: "string \<Rightarrow> string" where
  "word_of s = takeWhile (\<lambda>c. \<not> is_ws c) s"

definition detect_command :: "string \<Rightarrow> parsed_command option" where
  "detect_command message =
     (let trimmed = trim message
      in if \<not> starts_with trimmed ''/'' then None
         else (let after_slash = drop 1 trimmed;
                   cmd_name = word_of after_slash;
                   args = trim (drop (length cmd_name) after_slash);
                   cmd_clean = hd (split_all CHR ''@'' (to_lower cmd_name))
               in if list_ex (named cmd_clean) commands
                  then Some \<lparr>pcmd_name = resolve_alias cmd_clean, pcmd_args = args\<rparr>
                  else None))"

section \<open>Directives\<close>

definition slice :: "string \<Rightarrow> nat \<Rightarrow> nat \<Rightarrow> string option" where
  "slice s a b = (if a \<le> b \<and> b \<le> length s then Some (take (b - a) (drop a s)) else None)"

definition directive_start :: "string \<Rightarrow> nat \<Rightarrow> bool" where
  "directive_start m i \<longleftrightarrow> m ! i = CHR ''/'' \<and> (i = 0 \<or> is_ws (m ! (i - 1)))"

text \<open>The word after the slash at \<open>i\<close>, its argument and the byte at which the argument ends.\<close>

definition directive_word :: "string \<Rightarrow> nat \<Rightarrow> string" where
  "directive_word m i = word_of (drop (i + 1) m)"

definition directive_rest :: "string \<Rightarrow> nat \<Rightarrow> string" where
  "directive_rest m i = trim_start (drop (i + 1 + length (directive_word m i)) m)"

definition directive_arg :: "string \<Rightarrow> nat \<Rightarrow> string" where
  "directive_arg m i = word_of (directive_rest m i)"

definition directive_end :: "string \<Rightarrow> nat \<Rightarrow> nat" where
  "directive_end m i = length m - length (directive_rest m i) + length (directive_arg m i)"

definition skip_word :: "string \<Rightarrow> nat \<Rightarrow> nat" where
  "skip_word m i = i + length (word_of (drop i m))"

definition thinking_levels :: "string list" where
  "thinking_levels = [''off'', ''low'', ''medium'', ''high'', ''minimal'']"

datatype directive = NoDirective | ThinkDirective string | ModelDirective string

definition directive_at :: "string \<Rightarrow> nat \<Rightarrow> directive" where
  "directive_at m i =
     (if \<not> directive_start m i then NoDirective
      else (let w = to_lower (directive_word m i); arg = directive_arg m i
            in if w = ''think'' \<or> w = ''t''
               then (if arg \<in> set thinking_levels then ThinkDirective arg else NoDirective)
               else if w = ''model'' \<or> w = ''m''
               then (if arg \<noteq> [] then ModelDirective arg else NoDirective)
               else NoDirective))"

lemma skip_word_directive:
  "i < length m \<Longrightarrow> directive_at m i = ModelDirective a \<Longrightarrow> i < skip_word m i"
  by (auto simp: directive_at_def directive_start_def skip_word_def word_of_def is_ws_def Let_def
      Cons_nth_drop_Suc [symmetric] split: if_splits)

text \<open>The scan: the position, the end of the last directive, the directives and the text parts.\<close>

function scan ::
  "string \<Rightarrow> nat \<Rightarrow> nat \<Rightarrow> inline_directives \<Rightarrow> string list
    \<Rightarrow> (nat \<times> inline_directives \<times> string list) option" where
  "scan m i last_end d parts =
     (if length m \<le> i then Some (last_end, d, parts)
      else (case directive_at m i of
              NoDirective \<Rightarrow> scan m (i + 1) last_end d parts
            | ThinkDirective level \<Rightarrow>
                (case slice m last_end i of
                   None \<Rightarrow> None
                 | Some part \<Rightarrow>
                     scan m (skip_word m (i + length (directive_word m i) + 1 + length level))
                       (directive_end m i) (d\<lparr>id_think := Some level\<rparr>) (parts @ [part]))
            | ModelDirective model_id \<Rightarrow>
                (case slice m last_end i of
                   None \<Rightarrow> None
                 | Some part \<Rightarrow>
                     scan m (skip_word m i)
                       (directive_end m i) (d\<lparr>id_model := Some model_id\<rparr>) (parts @ [part]))))"
  by pat_completeness auto
termination
  apply (relation "measure (\<lambda>(m, i, last_end, d, parts). length m - i)")
     apply simp
    apply simp
   apply (simp add: skip_word_def)
  apply (simp add: diff_less_mono2 skip_word_directive)
  done

declare scan.simps [simp del]

definition extract_directives :: "string \<Rightarrow> inline_directives option" where
  "extract_directives message =
     (case scan message 0 0 \<lparr>id_think = None, id_model = None, id_cleaned_body = []\<rparr> [] of
        None \<Rightarrow> None
      | Some (last_end, d, parts) \<Rightarrow>
          (case slice message last_end (length message) of
             None \<Rightarrow> None
           | Some part \<Rightarrow> Some (d\<lparr>id_cleaned_body := trim (concat (parts @ [part]))\<rparr>)))"

section \<open>Help\<close>

definition em_dash :: string where
  "em_dash = [CHR 0xE2, CHR 0x80, CHR 0x94]"

definition help_line :: "command_def \<Rightarrow> string" where
  "help_line d =
     (let aliases = (if cd_aliases d = [] then []
                     else '' ('' @ join '', '' (map (\<lambda>a. ''/'' @ a) (cd_aliases d)) @ '')'')
      in ''  `/'' @ cd_name d @ ''`'' @ aliases @ '' '' @ em_dash @ '' '' @ cd_description d)"

definition help_section :: "command_category \<times> string \<Rightarrow> string list" where
  "help_section = (\<lambda>(cat, label).
     let cmds = filter (\<lambda>d. cd_category d = cat) commands
     in if cmds = [] then [] else [''*'' @ label @ ''*''] @ map help_line cmds @ [[]])"

definition help_text :: string where
  "help_text =
     join [newline]
       ([''**Available Commands**'' @ [newline]] @
        concat (map help_section [(CatSession, ''Session''), (CatOptions, ''Options''), (CatStatus, ''Status'')]))"

section \<open>What is detected\<close>

definition command_names :: "string list" where
  "command_names = map cd_name commands"

lemma names_unambiguous: "distinct (concat (map (\<lambda>d. cd_name d # cd_aliases d) commands))"
  by code_simp

lemma resolve_alias_known:
  "list_ex (named n) commands \<Longrightarrow> resolve_alias n \<in> set command_names"
  by (auto simp: resolve_alias_def command_names_def list_ex_iff find_None_iff find_Some_iff
      split: option.splits)

lemma resolve_alias_canonical: "d \<in> set commands \<Longrightarrow> named n d \<Longrightarrow> resolve_alias n = cd_name d"
proof -
  assume d: "d \<in> set commands" "named n d"
  have "\<forall>d\<in>set commands. \<forall>n\<in>set (cd_name d # cd_aliases d). resolve_alias n = cd_name d"
    by code_simp
  with d show ?thesis by (auto simp: named_def)
qed

text \<open>A command is recognised in any case, under an alias, with the name of the tag after it and
  with arguments.\<close>

lemma word_of_append: "\<forall>c\<in>set w. \<not> is_ws c \<Longrightarrow> rest = [] \<or> is_ws (hd rest) \<Longrightarrow> word_of (w @ rest) = w"
  by (cases rest) (auto simp: word_of_def takeWhile_append)

lemma hd_split_all: "c \<notin> set a \<Longrightarrow> hd (split_all c (a @ c # b)) = a" "c \<notin> set a \<Longrightarrow> hd (split_all c a) = a"
  by (simp_all add: split_all_append split_all_notin)

text \<open>
  Every registered command is recognised wherever its name or an alias, in any mixture of
  cases and possibly with the name of the tag, is the first word after the slash; the result
  names the command itself and keeps the arguments.
\<close>

lemma command_recognised:
  assumes "d \<in> set commands" and "named name d" and "to_lower word = name"
    and "tag = [] \<or> hd tag = CHR ''@''" and "\<forall>c\<in>set (word @ tag). \<not> is_ws c"
    and "CHR ''@'' \<notin> set word" and "word \<noteq> []"
    and "args = [] \<or> (\<not> is_ws (hd args) \<and> \<not> is_ws (last args))"
  shows "detect_command (''/'' @ word @ tag @ (if args = [] then [] else '' '' @ args)) =
    Some \<lparr>pcmd_name = cd_name d, pcmd_args = args\<rparr>"
proof -
  let ?m = "''/'' @ word @ tag @ (if args = [] then [] else '' '' @ args)"
  have "\<not> is_ws (last ?m)"
    using assms(5,7,8) by (cases "tag = []") (auto simp: last_append)
  then have m: "trim ?m = ?m" by (intro trim_id) (simp add: is_ws_def)
  have word: "word_of (drop 1 ?m) = word @ tag"
    using word_of_append [of "word @ tag" "if args = [] then [] else '' '' @ args"] assms(5)
    by (simp add: is_ws_def)
  have rest: "trim (drop (length (word @ tag)) (drop 1 ?m)) = args"
  proof (cases "args = []")
    case False
    then have "trim args = args" using assms(8) by (intro trim_id) simp
    then show ?thesis using False by (simp add: trim_def trim_start_def is_ws_def)
  qed simp
  have lower: "CHR ''@'' \<notin> set (to_lower word)"
  proof
    assume "CHR ''@'' \<in> set (to_lower word)"
    then obtain c where "c \<in> set word" "ascii_lower c = CHR ''@''" by (auto simp: to_lower_def)
    moreover have "c = CHR ''@''" if "ascii_lower c = CHR ''@''" for c
    proof -
      have "(of_char (ascii_lower c) :: nat) = 64" using that by simp
      then have "\<not> (65 \<le> (of_char c :: nat) \<and> of_char c \<le> (90 :: nat))"
        by (auto simp: ascii_lower_def Let_def split: if_splits)
      with that show ?thesis by (simp add: ascii_lower_def Let_def split: if_splits)
    qed
    ultimately show False using assms(6) by blast
  qed
  have "hd (split_all CHR ''@'' (to_lower (word @ tag))) = to_lower word"
  proof (cases tag)
    case Nil
    with lower show ?thesis by (simp add: hd_split_all)
  next
    case (Cons b bs)
    with assms(4) have "to_lower (word @ tag) = to_lower word @ CHR ''@'' # to_lower bs"
      by (simp add: to_lower_def ascii_lower_def)
    with lower show ?thesis by (simp add: hd_split_all)
  qed
  then have "hd (split_all CHR ''@'' (to_lower (word @ tag))) = name" using assms(3) by simp
  moreover have "list_ex (named name) commands" using assms(1,2) by (auto simp: list_ex_iff)
  moreover have "starts_with ?m ''/''" by simp
  ultimately show ?thesis
    unfolding detect_command_def Let_def m word rest
    using resolve_alias_canonical [OF assms(1,2)] by simp
qed

lemma command_recognised_witness:
  "detect_command ''/H@mybot now please'' = Some \<lparr>pcmd_name = ''help'', pcmd_args = ''now please''\<rparr>"
proof -
  have "detect_command (''/'' @ ''H'' @ ''@mybot'' @ (if ''now please'' = [] then [] else '' '' @ ''now please'')) =
    Some \<lparr>pcmd_name = cd_name (hd commands), pcmd_args = ''now please''\<rparr>"
    by (rule command_recognised [where name = "''h''"])
      (simp_all add: commands_def command_def named_def to_lower_def ascii_lower_def is_ws_def
        char_of_def bit_iff_odd_drop_bit drop_bit_eq_div)
  then show ?thesis by (simp add: commands_def command_def)
qed

text \<open>What is detected is a registered command, and only after a slash.\<close>

lemma detected_is_registered:
  "detect_command m = Some c \<Longrightarrow> pcmd_name c \<in> set command_names \<and> starts_with (trim m) ''/''"
  by (auto simp: detect_command_def Let_def resolve_alias_known split: if_splits)

lemma scan_plain:
  "\<forall>c\<in>set m. c \<noteq> CHR ''/'' \<Longrightarrow> scan m i e d parts = Some (e, d, parts)"
proof (induction m i e d parts rule: scan.induct)
  case (1 m i e d parts)
  show ?case
  proof (cases "length m \<le> i")
    case True
    then show ?thesis by (simp add: scan.simps)
  next
    case False
    then have "m ! i \<noteq> CHR ''/''" using 1(4) by simp
    then have "directive_at m i = NoDirective" by (simp add: directive_at_def directive_start_def)
    with 1(1) False 1(4) show ?thesis by (subst scan.simps) simp
  qed
qed

lemma plain_message:
  "\<forall>c\<in>set m. c \<noteq> CHR ''/'' \<Longrightarrow>
   extract_directives m = Some \<lparr>id_think = None, id_model = None, id_cleaned_body = trim m\<rparr>"
  by (simp add: extract_directives_def scan_plain slice_def)

text \<open>
  The argument of a model directive is scanned again: when it is a directive itself, the
  slice of the text before it starts after its end and the extraction panics.
\<close>

lemma nested_directive_panics:
  "extract_directives ''/model /think high'' = None \<and>
   extract_directives ''use /model gpt-4o and /think high please'' =
     Some \<lparr>id_think = Some ''high'', id_model = Some ''gpt-4o'', id_cleaned_body = ''use  and  please''\<rparr>"
proof
  show "extract_directives ''/model /think high'' = None" by code_simp
  show "extract_directives ''use /model gpt-4o and /think high please'' =
     Some \<lparr>id_think = Some ''high'', id_model = Some ''gpt-4o'', id_cleaned_body = ''use  and  please''\<rparr>"
    by code_simp
qed

end
