(* ===== verification/File_Tools.thy ===== *)
theory File_Tools
  imports Json Core_Types
begin

text \<open>
  The file tools (\<open>frankclaw-tools/src/file.rs\<close>): the check of a path against the workspace, and
  the tools that read, write and edit a file. A path is the list of its components below the
  root, without empty and \<open>.\<close> components; the operations of the file system are arguments. The
  outcome \<open>None\<close> of a tool is a panic.
\<close>

section \<open>The file system\<close>

definition max_read_bytes :: nat where
  "max_read_bytes = 200 * 1024"

definition max_write_bytes :: nat where
  "max_write_bytes = 1024 * 1024"

type_synonym path = "string list"

record 'w file_system =
  fs_exists :: "path \<Rightarrow> 'w \<Rightarrow> bool"
  fs_canonicalize :: "path \<Rightarrow> 'w \<Rightarrow> string + path"
  fs_read :: "path \<Rightarrow> 'w \<Rightarrow> (string + string) \<times> 'w"
  fs_create_dir_all :: "path \<Rightarrow> 'w \<Rightarrow> (string + unit) \<times> 'w"
  fs_write :: "path \<Rightarrow> string \<Rightarrow> 'w \<Rightarrow> (string + unit) \<times> 'w"
  fs_set_owner_only :: "path \<Rightarrow> 'w \<Rightarrow> 'w"

definition components :: "string \<Rightarrow> path" where
  "components s = filter (\<lambda>c. c \<noteq> [] \<and> c \<noteq> ''.'') (split_all CHR ''/'' s)"

definition parent :: "path \<Rightarrow> path option" where
  "parent p = (if p = [] then None else Some (butlast p))"

definition inside :: "path \<Rightarrow> path \<Rightarrow> bool" where
  "inside ws p \<longleftrightarrow> take (length ws) p = ws"

section \<open>The check of a path\<close>

definition canonical_inside ::
  "'w file_system \<Rightarrow> path \<Rightarrow> path \<Rightarrow> string \<Rightarrow> string \<Rightarrow> 'w \<Rightarrow> frank_error + path" where
  "canonical_inside fs workspace p what escape w =
     (case fs_canonicalize fs p w of
        Inl e \<Rightarrow> Inl (AgentRuntime (what @ e))
      | Inr canonical \<Rightarrow>
          (case fs_canonicalize fs workspace w of
             Inl e \<Rightarrow> Inl (AgentRuntime (''failed to resolve workspace: '' @ e))
           | Inr ws \<Rightarrow> if inside ws canonical then Inr canonical else Inl (InvalidRequest escape)))"

definition validate_workspace_path ::
  "'w file_system \<Rightarrow> path \<Rightarrow> string \<Rightarrow> 'w \<Rightarrow> frank_error + path" where
  "validate_workspace_path fs workspace requested0 w =
     (let requested = trim requested0
      in if requested = [] then Inl (InvalidRequest ''file path must not be empty'')
         else if starts_with requested ''/'' \<or> starts_with requested [CHR 0x5C]
         then Inl (InvalidRequest ''file path must be relative to the workspace directory'')
         else if ''..'' \<in> set (components requested)
         then Inl (InvalidRequest (''file path must not contain '' @ [CHR 0x27] @ ''..'' @ [CHR 0x27] @ '' components''))
         else (let resolved = workspace @ components requested
               in if fs_exists fs resolved w
                  then canonical_inside fs workspace resolved ''failed to resolve path: ''
                         ''file path escapes the workspace directory (symlink?)'' w
                  else (case parent resolved of
                          None \<Rightarrow> Inr resolved
                        | Some p \<Rightarrow>
                            if fs_exists fs p w
                            then (case canonical_inside fs workspace p
                                         ''failed to resolve parent directory: ''
                                         ''file path escapes the workspace directory'' w of
                                    Inl e \<Rightarrow> Inl e
                                  | Inr _ \<Rightarrow> Inr resolved)
                            else Inr resolved)))"

section \<open>Arguments\<close>

definition require_workspace :: "path option \<Rightarrow> frank_error + path" where
  "require_workspace ws =
     (case ws of
        Some p \<Rightarrow> Inr p
      | None \<Rightarrow> Inl (AgentRuntime ''tool requires a workspace directory but none is configured''))"

definition require_str :: "json \<Rightarrow> string \<Rightarrow> string \<Rightarrow> frank_error + string" where
  "require_str args key msg =
     (case get_str args key of Some s \<Rightarrow> Inr s | None \<Rightarrow> Inl (InvalidRequest msg))"

definition get_u64 :: "json \<Rightarrow> string \<Rightarrow> u64 option" where
  "get_u64 v k = Option.bind (json_get v k) as_u64"

section \<open>file_read\<close>

definition pad6 :: "string \<Rightarrow> string" where
  "pad6 s = replicate (6 - length s) CHR '' '' @ s"

fun number_lines :: "nat \<Rightarrow> string list \<Rightarrow> string list" where
  "number_lines n [] = []"
| "number_lines n (l # ls) = (pad6 (show_nat n) @ [CHR 0x09] @ l) # number_lines (Suc n) ls"

definition read_result :: "string \<Rightarrow> nat \<Rightarrow> nat \<Rightarrow> string \<Rightarrow> json option" where
  "read_result path_str offset limit content =
     (let all = lines content;
          selected = number_lines (offset + 1) (take limit (drop offset all));
          output = join [newline] selected;
          truncated = (max_read_bytes < length output);
          final = (if truncated then slice_to output max_read_bytes else Some output)
      in map_option (\<lambda>text. JObject
           [(''path'', JString path_str), (''content'', JString text),
            (''total_lines'', JUInt (of_nat (length all))), (''offset'', JUInt (of_nat offset)),
            (''lines_returned'', JUInt (of_nat
               (min (length selected) (if truncated then limit else length selected)))),
            (''truncated'', JBool truncated)]) final)"

definition file_read ::
  "'w file_system \<Rightarrow> path option \<Rightarrow> json \<Rightarrow> 'w \<Rightarrow> (frank_error + json) option \<times> 'w" where
  "file_read fs ws args w =
     (case require_workspace ws of
        Inl e \<Rightarrow> (Some (Inl e), w)
      | Inr workspace \<Rightarrow>
     (case require_str args ''path'' ''file.read requires a path'' of
        Inl e \<Rightarrow> (Some (Inl e), w)
      | Inr path_str \<Rightarrow>
     (case validate_workspace_path fs workspace path_str w of
        Inl e \<Rightarrow> (Some (Inl e), w)
      | Inr resolved \<Rightarrow>
          (let offset = unat (case get_u64 args ''offset'' of Some n \<Rightarrow> n | None \<Rightarrow> 0);
               limit = unat (max 1 (min 10000 (case get_u64 args ''limit'' of Some n \<Rightarrow> n | None \<Rightarrow> 2000)))
           in case fs_read fs resolved w of
                (Inl e, w1) \<Rightarrow>
                  (Some (Inl (AgentRuntime (''failed to read file '' @ [CHR 0x27] @ path_str @ [CHR 0x27] @ '': '' @ e))), w1)
              | (Inr content, w1) \<Rightarrow>
                  (map_option Inr (read_result path_str offset limit content), w1)))))"

section \<open>file_write\<close>

definition file_write ::
  "'w file_system \<Rightarrow> path option \<Rightarrow> json \<Rightarrow> 'w \<Rightarrow> (frank_error + json) \<times> 'w" where
  "file_write fs ws args w =
     (case require_workspace ws of
        Inl e \<Rightarrow> (Inl e, w)
      | Inr workspace \<Rightarrow>
     (case require_str args ''path'' ''file.write requires a path'' of
        Inl e \<Rightarrow> (Inl e, w)
      | Inr path_str \<Rightarrow>
     (case require_str args ''content'' ''file.write requires content'' of
        Inl e \<Rightarrow> (Inl e, w)
      | Inr content \<Rightarrow>
          if max_write_bytes < length content
          then (Inl (InvalidRequest (''file.write content exceeds '' @ show_nat max_write_bytes @ '' byte limit'')), w)
          else (case validate_workspace_path fs workspace path_str w of
                  Inl e \<Rightarrow> (Inl e, w)
                | Inr resolved \<Rightarrow>
                    (case (case parent resolved of
                             Some p \<Rightarrow> fs_create_dir_all fs p w | None \<Rightarrow> (Inr (), w)) of
                       (Inl e, w1) \<Rightarrow>
                         (Inl (AgentRuntime (''failed to create directories for '' @ [CHR 0x27] @ path_str @
                            [CHR 0x27] @ '': '' @ e)), w1)
                     | (Inr _, w1) \<Rightarrow>
                         (case fs_write fs resolved content w1 of
                            (Inl e, w2) \<Rightarrow>
                              (Inl (AgentRuntime (''failed to write file '' @ [CHR 0x27] @ path_str @ [CHR 0x27] @
                                 '': '' @ e)), w2)
                          | (Inr _, w2) \<Rightarrow>
                              (Inr (JObject [(''path'', JString path_str),
                                 (''bytes_written'', JUInt (of_nat (length content))),
                                 (''status'', JString ''ok'')]), fs_set_owner_only fs resolved w2)))))))"

section \<open>file_edit\<close>

text \<open>The first match of a pattern: the text before and after it.\<close>

fun find_match :: "string \<Rightarrow> string \<Rightarrow> (string \<times> string) option" where
  "find_match pat [] = (if pat = [] then Some ([], []) else None)"
| "find_match pat (c # s) =
     (if starts_with (c # s) pat then Some ([], drop (length pat) (c # s))
      else map_option (\<lambda>(u, v). (c # u, v)) (find_match pat s))"

lemma find_match_Some: "find_match pat s = Some (u, v) \<Longrightarrow> s = u @ pat @ v"
  by (induction pat s arbitrary: u rule: find_match.induct) (auto simp: starts_with_iff split: if_splits)

lemma find_match_None [simp]: "find_match pat s = None \<longleftrightarrow> \<not> contains s pat"
  by (induction pat s rule: find_match.induct) auto

text \<open>\<open>matches(..).count()\<close>: the matches of a non-empty pattern that do not overlap.\<close>

function count_matches :: "string \<Rightarrow> string \<Rightarrow> nat" where
  "count_matches pat s =
     (if pat = [] then 0
      else (case find_match pat s of None \<Rightarrow> 0 | Some (u, v) \<Rightarrow> Suc (count_matches pat v)))"
  by pat_completeness auto
termination
  by (relation "measure (\<lambda>(pat, s). length s)") (auto dest!: find_match_Some)

declare count_matches.simps [simp del]

text \<open>\<open>replacen(old, new, 1)\<close>\<close>

definition replace_first :: "string \<Rightarrow> string \<Rightarrow> string \<Rightarrow> string" where
  "replace_first old new s = (case find_match old s of Some (u, v) \<Rightarrow> u @ new @ v | None \<Rightarrow> s)"

definition file_edit ::
  "'w file_system \<Rightarrow> path option \<Rightarrow> json \<Rightarrow> 'w \<Rightarrow> (frank_error + json) \<times> 'w" where
  "file_edit fs ws args w =
     (case require_workspace ws of
        Inl e \<Rightarrow> (Inl e, w)
      | Inr workspace \<Rightarrow>
     (case require_str args ''path'' ''file.edit requires a path'' of
        Inl e \<Rightarrow> (Inl e, w)
      | Inr path_str \<Rightarrow>
     (case require_str args ''old_text'' ''file.edit requires old_text'' of
        Inl e \<Rightarrow> (Inl e, w)
      | Inr old_text \<Rightarrow>
     (case require_str args ''new_text'' ''file.edit requires new_text'' of
        Inl e \<Rightarrow> (Inl e, w)
      | Inr new_text \<Rightarrow>
          if old_text = [] then (Inl (InvalidRequest ''file.edit old_text must not be empty''), w)
          else (case validate_workspace_path fs workspace path_str w of
                  Inl e \<Rightarrow> (Inl e, w)
                | Inr resolved \<Rightarrow>
                    (case fs_read fs resolved w of
                       (Inl e, w1) \<Rightarrow>
                         (Inl (AgentRuntime (''failed to read file '' @ [CHR 0x27] @ path_str @ [CHR 0x27] @ '': '' @ e)), w1)
                     | (Inr content, w1) \<Rightarrow>
                         (let n = count_matches old_text content;
                              new_content = replace_first old_text new_text content
                          in if n = 0
                             then (Inl (AgentRuntime (''file.edit: old_text not found in '' @ [CHR 0x27] @ path_str @
                                    [CHR 0x27])), w1)
                             else if 1 < n
                             then (Inl (AgentRuntime (''file.edit: old_text matches '' @ show_nat n @ '' times in '' @
                                    [CHR 0x27] @ path_str @ [CHR 0x27] @ '' (must match exactly once)'')), w1)
                             else if max_write_bytes < length new_content
                             then (Inl (InvalidRequest (''file.edit result would exceed '' @
                                    show_nat max_write_bytes @ '' byte limit'')), w1)
                             else (case fs_write fs resolved new_content w1 of
                                     (Inl e, w2) \<Rightarrow>
                                       (Inl (AgentRuntime (''failed to write file '' @ [CHR 0x27] @ path_str @
                                          [CHR 0x27] @ '': '' @ e)), w2)
                                   | (Inr _, w2) \<Rightarrow>
                                       (Inr (JObject [(''path'', JString path_str), (''status'', JString ''ok''),
                                          (''bytes_written'', JUInt (of_nat (length new_content)))]), w2)))))))))"

section \<open>Accesses stay in the workspace\<close>

lemma canonical_inside_ok:
  "canonical_inside fs workspace p what escape w = Inr c \<Longrightarrow>
   fs_canonicalize fs p w = Inr c \<and> (\<exists>ws. fs_canonicalize fs workspace w = Inr ws \<and> inside ws c)"
  by (auto simp: canonical_inside_def split: sum.splits if_splits)

definition contained :: "'w file_system \<Rightarrow> path \<Rightarrow> path \<Rightarrow> 'w \<Rightarrow> bool" where
  "contained fs workspace p w \<longleftrightarrow>
     (\<exists>c ws. fs_canonicalize fs p w = Inr c \<and> fs_canonicalize fs workspace w = Inr ws \<and> inside ws c)"

text \<open>
  A path is accepted in two cases only: it exists, and the accepted path is its canonical
  form, inside the canonical workspace; or it does not exist, has no parent component, and its
  directory, when that exists, is inside the canonical workspace.
\<close>

lemma workspace_path_accepted:
  assumes "validate_workspace_path fs workspace requested w = Inr p"
  shows "\<exists>cs. cs = components (trim requested) \<and> ''..'' \<notin> set cs \<and>
    (if fs_exists fs (workspace @ cs) w
     then fs_canonicalize fs (workspace @ cs) w = Inr p \<and> contained fs workspace (workspace @ cs) w
     else p = workspace @ cs \<and>
       (case parent p of
          None \<Rightarrow> True
        | Some d \<Rightarrow> \<not> fs_exists fs d w \<or> contained fs workspace d w))"
  using assms
  by (auto simp: validate_workspace_path_def contained_def Let_def
      dest!: canonical_inside_ok split: if_splits option.splits sum.splits)

text \<open>A file system for examples: one file in the workspace and a link to a directory outside.\<close>

definition linked_fs :: "(path \<times> string) list file_system" where
  "linked_fs =
     \<lparr>fs_exists = (\<lambda>p w. p \<in> {[''ws''], [''ws'', ''a.txt''], [''ws'', ''link'']}),
      fs_canonicalize = (\<lambda>p w.
        if p = [''ws'', ''link''] then Inr [''etc'']
        else if p = [''ws''] \<or> p = [''ws'', ''a.txt''] then Inr p else Inl ''not found''),
      fs_read = (\<lambda>p w. (case map_of w p of Some c \<Rightarrow> Inr c | None \<Rightarrow> Inl ''not found'', w)),
      fs_create_dir_all = (\<lambda>p w. (Inr (), w)),
      fs_write = (\<lambda>p c w. (Inr (), AList.update p c w)),
      fs_set_owner_only = (\<lambda>p w. w)\<rparr>"

lemma workspace_path_accepted_witness:
  "validate_workspace_path linked_fs [''ws''] ''a.txt'' [] = Inr [''ws'', ''a.txt''] \<and>
   contained linked_fs [''ws''] [''ws'', ''a.txt''] [] \<and>
   validate_workspace_path linked_fs [''ws''] ''link'' [] \<noteq> Inr [''etc'']"
proof -
  have t: "trim ''a.txt'' = ''a.txt''" "trim ''link'' = ''link''"
    by (simp_all add: trim_id is_ws_def)
  have ok: "validate_workspace_path linked_fs [''ws''] ''a.txt'' [] = Inr [''ws'', ''a.txt'']"
    by (simp add: validate_workspace_path_def canonical_inside_def t components_def linked_fs_def
        inside_def Let_def)
  have "validate_workspace_path linked_fs [''ws''] ''link'' [] \<noteq> Inr [''etc'']"
    by (simp add: validate_workspace_path_def canonical_inside_def t components_def linked_fs_def
        inside_def Let_def)
  then show ?thesis
    using workspace_path_accepted [OF ok] ok
    by (simp add: t components_def linked_fs_def split: if_splits)
qed

text \<open>A new file two levels below a link that leaves the workspace is accepted, and written
  where the link leads: only the directory of the new file is looked at, and it does not exist.\<close>

lemma new_file_below_link_accepted:
  "validate_workspace_path linked_fs [''ws''] ''link/new/file'' w = Inr [''ws'', ''link'', ''new'', ''file''] \<and>
   \<not> contained linked_fs [''ws''] [''ws'', ''link''] w"
proof
  have t: "trim ''link/new/file'' = ''link/new/file''" by (simp add: trim_id is_ws_def)
  show "validate_workspace_path linked_fs [''ws''] ''link/new/file'' w = Inr [''ws'', ''link'', ''new'', ''file'']"
    by (simp add: validate_workspace_path_def t components_def linked_fs_def parent_def Let_def)
  show "\<not> contained linked_fs [''ws''] [''ws'', ''link''] w"
    by (simp add: contained_def linked_fs_def inside_def)
qed

section \<open>Edits are exact\<close>

lemma count_one:
  "pat \<noteq> [] \<Longrightarrow> count_matches pat s = 1 \<longleftrightarrow>
   (\<exists>u v. find_match pat s = Some (u, v) \<and> \<not> contains v pat)"
proof -
  assume pat: "pat \<noteq> []"
  have zero: "count_matches pat v = 0 \<longleftrightarrow> find_match pat v = None" for v
    using pat by (subst count_matches.simps) (auto simp del: find_match_None split: option.splits)
  show ?thesis
  proof (cases "find_match pat s")
    case None
    then show ?thesis using zero [of s] by (simp del: find_match_None)
  next
    case (Some uv)
    obtain u v where uv: "uv = (u, v)" by (cases uv)
    have "count_matches pat s = Suc (count_matches pat v)"
      using pat Some uv by (subst count_matches.simps) simp
    then show ?thesis using Some uv zero [of v] by simp
  qed
qed

text \<open>
  An edit that succeeds read the file, found the old text once, with no further match after
  it, and wrote the file with exactly that match replaced.
\<close>

lemma file_edit_exact:
  assumes "file_edit fs ws args w = (Inr out, w2)"
  shows "\<exists>workspace path_str old new p w1 u v.
    ws = Some workspace \<and> get_str args ''path'' = Some path_str \<and>
    get_str args ''old_text'' = Some old \<and> get_str args ''new_text'' = Some new \<and>
    validate_workspace_path fs workspace path_str w = Inr p \<and>
    fs_read fs p w = (Inr (u @ old @ v), w1) \<and> find_match old (u @ old @ v) = Some (u, v) \<and>
    \<not> contains v old \<and> length (u @ new @ v) \<le> max_write_bytes \<and>
    fs_write fs p (u @ new @ v) w1 = (Inr (), w2)"
proof -
  obtain workspace path_str old new p content w1 where
    args: "ws = Some workspace" "get_str args ''path'' = Some path_str"
      "get_str args ''old_text'' = Some old" "get_str args ''new_text'' = Some new" and
    old: "old \<noteq> []" and p: "validate_workspace_path fs workspace path_str w = Inr p" and
    content: "fs_read fs p w = (Inr content, w1)" and
    once: "count_matches old content = 1" and
    size: "length (replace_first old new content) \<le> max_write_bytes" and
    written: "fs_write fs p (replace_first old new content) w1 = (Inr (), w2)"
    using assms
    by (auto simp: file_edit_def require_workspace_def require_str_def Let_def
        split: option.splits sum.splits prod.splits if_splits)
  obtain u v where m: "find_match old content = Some (u, v)" and v: "\<not> contains v old"
    using once count_one [OF old] by blast
  have "content = u @ old @ v" by (rule find_match_Some [OF m])
  moreover have "replace_first old new content = u @ new @ v" by (simp add: replace_first_def m)
  ultimately show ?thesis using args p content m v size written by metis
qed

lemma file_edit_exact_witness:
  "\<exists>u v. ''one two'' = u @ ''two'' @ v \<and> find_match ''two'' (u @ ''two'' @ v) = Some (u, v) \<and>
    snd (file_edit linked_fs (Some [''ws''])
      (JObject [(''path'', JString ''a.txt''), (''old_text'', JString ''two''), (''new_text'', JString ''three'')])
      [([''ws'', ''a.txt''], ''one two'')]) = [([''ws'', ''a.txt''], u @ ''three'' @ v)]"
proof -
  let ?args = "JObject [(''path'', JString ''a.txt''), (''old_text'', JString ''two''), (''new_text'', JString ''three'')]"
  let ?w = "[([''ws'', ''a.txt''], ''one two'')]"
  have t: "trim ''a.txt'' = ''a.txt''" by (simp add: trim_id is_ws_def)
  have p: "validate_workspace_path linked_fs [''ws''] ''a.txt'' ?w = Inr [''ws'', ''a.txt'']"
    by (simp add: validate_workspace_path_def canonical_inside_def t components_def linked_fs_def
        inside_def Let_def)
  have r: "fs_read linked_fs [''ws'', ''a.txt''] ?w = (Inr ''one two'', ?w)"
    by (simp add: linked_fs_def)
  have "\<exists>out. file_edit linked_fs (Some [''ws'']) ?args ?w = (Inr out, [([''ws'', ''a.txt''], ''one three'')])"
    by (simp add: file_edit_def require_workspace_def require_str_def get_str_def p r
        count_matches.simps replace_first_def max_write_bytes_def Let_def)
      (simp add: linked_fs_def)
  then obtain out where e: "file_edit linked_fs (Some [''ws'']) ?args ?w = (Inr out, [([''ws'', ''a.txt''], ''one three'')])"
    by blast
  from file_edit_exact [OF e] obtain u v where uv:
    "''one two'' = u @ ''two'' @ v" "find_match ''two'' (u @ ''two'' @ v) = Some (u, v)"
    "fs_write linked_fs [''ws'', ''a.txt''] (u @ ''three'' @ v) ?w = (Inr (), [([''ws'', ''a.txt''], ''one three'')])"
    by (auto simp: get_str_def p r)
  from uv(3) have "''one three'' = u @ ''three'' @ v" by (simp add: linked_fs_def)
  then have "snd (file_edit linked_fs (Some [''ws'']) ?args ?w) = [([''ws'', ''a.txt''], u @ ''three'' @ v)]"
    by (simp only: e snd_conv)
  with uv(1,2) show ?thesis by blast
qed

text \<open>Occurrences that overlap are counted once: the first one is replaced.\<close>

lemma overlapping_matches:
  "count_matches ''aa'' ''aaa'' = 1 \<and> replace_first ''aa'' ''b'' ''aaa'' = ''ba''"
  by (simp add: count_matches.simps replace_first_def)

text \<open>A long output whose cut falls inside a character panics.\<close>

lemma read_result_panics:
  assumes "output = join [newline] (number_lines (offset + 1) (take limit (drop offset (lines content))))"
    and "max_read_bytes < length output" and "is_continuation (output ! max_read_bytes)"
  shows "read_result path offset limit content = None"
  using assms
  by (simp add: read_result_def slice_to_def is_char_boundary_def Let_def max_read_bytes_def)

end
