(* ===== verification/Leak_Detector.thy ===== *)
theory Leak_Detector
  imports Utf8_Text
begin

text \<open>
  The detection of credentials in texts (\<open>frankclaw-runtime/src/leak_detector.rs\<close>): the patterns,
  the scan with its quick prefix test, the redaction and the masked preview.
\<close>

section \<open>Data\<close>

datatype leak_severity = SevMedium | SevHigh | SevCritical

datatype leak_action = ActBlock | ActRedact | ActWarn

record leak_pattern =
  lp_name :: string
  lp_prefix :: string
  lp_check :: "string \<Rightarrow> bool"
  lp_severity :: leak_severity
  lp_action :: leak_action
  lp_full_content_check :: bool

record leak_match =
  lm_pattern_name :: string
  lm_severity :: leak_severity
  lm_action :: leak_action
  lm_masked_preview :: string

record leak_scan_result =
  ls_matches :: "leak_match list"
  ls_should_block :: bool
  ls_redacted_content :: "string option"

text \<open>\<open>str::split_whitespace\<close>\<close>

function split_whitespace :: "string \<Rightarrow> string list" where
  "split_whitespace s =
     (let t = trim_start s
      in if t = [] then []
         else takeWhile (\<lambda>c. \<not> is_ws c) t # split_whitespace (dropWhile (\<lambda>c. \<not> is_ws c) t))"
  by pat_completeness auto
termination
proof (relation "measure length", goal_cases)
  case (2 s t)
  have "dropWhile (\<lambda>c. \<not> is_ws c) t \<noteq> [] \<or> t \<noteq> []" using 2 by simp
  moreover have "length (dropWhile (\<lambda>c. \<not> is_ws c) t) < length t"
  proof (cases t)
    case (Cons c r)
    have "\<not> is_ws c" using trim_start_hd [of s] 2 Cons by (metis list.sel(1))
    then show ?thesis using length_dropWhile_le [of "\<lambda>c. \<not> is_ws c" r] Cons by simp
  qed (use 2 in simp)
  ultimately show ?case using length_trim_start [of s] 2(1) by simp
qed simp

declare split_whitespace.simps [simp del]

section \<open>Patterns\<close>

definition is_upper :: "char \<Rightarrow> bool" where
  "is_upper c = (let n = (of_char c :: nat) in 65 \<le> n \<and> n \<le> 90)"

definition is_lower :: "char \<Rightarrow> bool" where
  "is_lower c = (let n = (of_char c :: nat) in 97 \<le> n \<and> n \<le> 122)"

definition is_alnum :: "char \<Rightarrow> bool" where
  "is_alnum c \<longleftrightarrow> is_upper c \<or> is_lower c \<or> is_digit c"

definition is_hexdigit :: "char \<Rightarrow> bool" where
  "is_hexdigit c = (let n = (of_char c :: nat)
     in (48 \<le> n \<and> n \<le> 57) \<or> (65 \<le> n \<and> n \<le> 70) \<or> (97 \<le> n \<and> n \<le> 102))"

definition chars_in :: "string \<Rightarrow> string \<Rightarrow> bool" where
  "chars_in extra s \<longleftrightarrow> list_all (\<lambda>c. is_alnum c \<or> c \<in> set extra) s"

definition word_pattern ::
  "string \<Rightarrow> string \<Rightarrow> (string \<Rightarrow> bool) \<Rightarrow> leak_severity \<Rightarrow> leak_action \<Rightarrow> leak_pattern" where
  "word_pattern name pre chk severity action =
     \<lparr>lp_name = name, lp_prefix = pre, lp_check = chk, lp_severity = severity,
      lp_action = action, lp_full_content_check = False\<rparr>"

definition openai_key :: "string \<Rightarrow> bool" where
  "openai_key w \<longleftrightarrow>
     (starts_with w ''sk-proj-'' \<or> starts_with w ''sk-'') \<and> 20 \<le> length w \<and> chars_in ''-_'' w \<and>
     \<not> starts_with w ''sk-ant-''"

definition anthropic_key :: "string \<Rightarrow> bool" where
  "anthropic_key w \<longleftrightarrow> starts_with w ''sk-ant-api'' \<and> 90 \<le> length w \<and> chars_in ''-_'' w"

definition aws_key :: "string \<Rightarrow> bool" where
  "aws_key w \<longleftrightarrow>
     starts_with w ''AKIA'' \<and> length w = 20 \<and> list_all (\<lambda>c. is_upper c \<or> is_digit c) (drop 4 w)"

definition github_token :: "string \<Rightarrow> bool" where
  "github_token w \<longleftrightarrow>
     (starts_with w ''ghp_'' \<or> starts_with w ''gho_'' \<or> starts_with w ''ghu_'' \<or>
      starts_with w ''ghs_'' \<or> starts_with w ''ghr_'') \<and> 40 \<le> length w \<and> chars_in ''_'' (drop 4 w)"

definition github_pat :: "string \<Rightarrow> bool" where
  "github_pat w \<longleftrightarrow> starts_with w ''github_pat_'' \<and> 80 \<le> length w \<and> chars_in ''_'' (drop 11 w)"

definition stripe_key :: "string \<Rightarrow> bool" where
  "stripe_key w \<longleftrightarrow>
     (starts_with w ''sk_live_'' \<or> starts_with w ''sk_test_'') \<and> 24 \<le> length w \<and> chars_in ''_'' w"

definition google_key :: "string \<Rightarrow> bool" where
  "google_key w \<longleftrightarrow> starts_with w ''AIza'' \<and> length w = 39 \<and> chars_in ''-_'' (drop 4 w)"

definition slack_token :: "string \<Rightarrow> bool" where
  "slack_token w \<longleftrightarrow>
     (starts_with w ''xoxb-'' \<or> starts_with w ''xoxa-'' \<or> starts_with w ''xoxp-'' \<or>
      starts_with w ''xoxr-'' \<or> starts_with w ''xoxs-'') \<and> 15 \<le> length w"

definition sendgrid_key :: "string \<Rightarrow> bool" where
  "sendgrid_key w \<longleftrightarrow> starts_with w ''SG.'' \<and> 50 \<le> length w \<and> chars_in ''_-.'' (drop 3 w)"

definition bearer_token :: "string \<Rightarrow> bool" where
  "bearer_token w \<longleftrightarrow> starts_with w ''Bearer'' \<and> 10 < length w \<and> w \<noteq> ''Bearer''"

definition hex_64 :: "string \<Rightarrow> bool" where
  "hex_64 w \<longleftrightarrow> length w = 64 \<and> list_all is_hexdigit w"

definition pem_key :: "string \<Rightarrow> bool" where
  "pem_key s \<longleftrightarrow> contains s ''PRIVATE KEY-----''"

definition default_patterns :: "leak_pattern list" where
  "default_patterns =
     [word_pattern ''openai_api_key'' ''sk-'' openai_key SevCritical ActBlock,
      word_pattern ''anthropic_api_key'' ''sk-ant-api'' anthropic_key SevCritical ActBlock,
      word_pattern ''aws_access_key'' ''AKIA'' aws_key SevCritical ActBlock,
      word_pattern ''github_token'' ''gh'' github_token SevCritical ActBlock,
      word_pattern ''github_fine_grained_pat'' ''github_pat_'' github_pat SevCritical ActBlock,
      word_pattern ''stripe_api_key'' ''sk_'' stripe_key SevCritical ActBlock,
      \<lparr>lp_name = ''pem_private_key'', lp_prefix = ''-----BEGIN'', lp_check = pem_key,
       lp_severity = SevCritical, lp_action = ActBlock, lp_full_content_check = True\<rparr>,
      word_pattern ''google_api_key'' ''AIza'' google_key SevHigh ActBlock,
      word_pattern ''slack_token'' ''xox'' slack_token SevHigh ActBlock,
      word_pattern ''sendgrid_api_key'' ''SG.'' sendgrid_key SevHigh ActBlock,
      word_pattern ''bearer_token'' ''Bearer'' bearer_token SevHigh ActRedact,
      word_pattern ''high_entropy_hex_64'' [] hex_64 SevMedium ActWarn]"

section \<open>The scan\<close>

text \<open>The first and last four characters; the byte length is used to skip characters.\<close>

definition mask_secret :: "string \<Rightarrow> string" where
  "mask_secret secret =
     (let len = length secret
      in if len \<le> 8 then replicate len CHR ''*''
         else prefix_chars 4 secret @ replicate (min (len - 8) 8) CHR ''*'' @
              drop (length (prefix_chars (len - 4) secret)) secret)"

record scan_state =
  ss_matches :: "leak_match list"
  ss_block :: bool
  ss_redacted :: string
  ss_any_redacted :: bool

definition leak_of :: "leak_pattern \<Rightarrow> string \<Rightarrow> leak_match" where
  "leak_of p preview =
     \<lparr>lm_pattern_name = lp_name p, lm_severity = lp_severity p, lm_action = lp_action p,
      lm_masked_preview = preview\<rparr>"

definition scan_word :: "leak_pattern \<Rightarrow> string \<Rightarrow> scan_state \<Rightarrow> scan_state" where
  "scan_word p word st =
     (if lp_check p word
      then (let st1 = (case lp_action p of
                         ActBlock \<Rightarrow> st\<lparr>ss_block := True\<rparr>
                       | ActRedact \<Rightarrow> st\<lparr>ss_redacted := str_replace word ''[REDACTED]'' (ss_redacted st),
                                       ss_any_redacted := True\<rparr>
                       | ActWarn \<Rightarrow> st)
            in st1\<lparr>ss_matches := ss_matches st1 @ [leak_of p (mask_secret word)]\<rparr>)
      else st)"

definition scan_pattern :: "string \<Rightarrow> leak_pattern \<Rightarrow> scan_state \<Rightarrow> scan_state" where
  "scan_pattern content p st =
     (if lp_prefix p \<noteq> [] \<and> \<not> contains content (lp_prefix p) then st
      else if lp_full_content_check p
      then (if lp_check p content
            then st\<lparr>ss_block := (ss_block st \<or> lp_action p = ActBlock \<or> lp_action p = ActRedact),
                    ss_matches := ss_matches st @ [leak_of p (''['' @ lp_name p @ '']'')]\<rparr>
            else st)
      else fold (scan_word p) (split_whitespace content) st)"

definition scan_for_leaks :: "string \<Rightarrow> leak_scan_result" where
  "scan_for_leaks content =
     (let st = fold (scan_pattern content) default_patterns
                 \<lparr>ss_matches = [], ss_block = False, ss_redacted = content, ss_any_redacted = False\<rparr>
      in \<lparr>ls_matches = ss_matches st, ls_should_block = ss_block st,
          ls_redacted_content = (if ss_any_redacted st then Some (ss_redacted st) else None)\<rparr>)"

section \<open>What is blocked\<close>

lemma in_split_whitespace: "w \<in> set (split_whitespace s) \<Longrightarrow> contains s w \<and> w \<noteq> [] \<and> list_all (\<lambda>c. \<not> is_ws c) w"
proof (induction s rule: split_whitespace.induct)
  case (1 s)
  let ?t = "trim_start s" and ?P = "\<lambda>c. \<not> is_ws c"
  show ?case
  proof (cases "?t = []")
    case True
    with 1(2) show ?thesis by (subst (asm) split_whitespace.simps) simp
  next
    case False
    obtain pre where pre: "s = pre @ ?t"
      unfolding trim_start_def by (metis takeWhile_dropWhile_id)
    have t: "?t = takeWhile ?P ?t @ dropWhile ?P ?t" by simp
    from False 1(2) consider "w = takeWhile ?P ?t" | "w \<in> set (split_whitespace (dropWhile ?P ?t))"
      by (subst (asm) split_whitespace.simps) (auto simp: Let_def)
    then show ?thesis
    proof cases
      case 1
      have "takeWhile ?P ?t \<noteq> []"
        using trim_start_hd [OF False] False by (cases ?t) auto
      moreover have "contains s w" unfolding contains_iff using pre t 1 by metis
      ultimately show ?thesis using 1 by (auto simp: list_all_iff dest: set_takeWhileD)
    next
      case 2
      then have "contains (dropWhile ?P ?t) w \<and> w \<noteq> [] \<and> list_all ?P w" using 1(1) False by simp
      moreover then obtain u v where "dropWhile ?P ?t = u @ w @ v" by (auto simp: contains_iff)
      then have "s = (pre @ takeWhile ?P ?t @ u) @ w @ v" using pre t by simp
      then have "contains s w" unfolding contains_iff by metis
      ultimately show ?thesis by simp
    qed
  qed
qed

lemma contains_trans: "contains s w \<Longrightarrow> starts_with w p \<Longrightarrow> contains s p"
  unfolding contains_iff starts_with_iff by (metis append.assoc)

text \<open>The quick test of the prefix skips no word that the pattern matches.\<close>

lemma pattern_prefix:
  "p \<in> set default_patterns \<Longrightarrow> \<not> lp_full_content_check p \<Longrightarrow> lp_check p w \<Longrightarrow> starts_with w (lp_prefix p)"
  by (auto simp: default_patterns_def word_pattern_def openai_key_def anthropic_key_def aws_key_def
      github_token_def github_pat_def stripe_key_def google_key_def slack_token_def
      sendgrid_key_def bearer_token_def starts_with_iff)

lemma fold_scan_word_block:
  "ss_block (fold (scan_word p) ws st) \<longleftrightarrow>
   ss_block st \<or> (lp_action p = ActBlock \<and> list_ex (lp_check p) ws)"
  by (induction ws arbitrary: st) (auto simp: scan_word_def Let_def split: leak_action.splits)

definition pattern_blocks :: "string \<Rightarrow> leak_pattern \<Rightarrow> bool" where
  "pattern_blocks content p \<longleftrightarrow>
     (if lp_full_content_check p
      then contains content (lp_prefix p) \<and> lp_check p content \<and> lp_action p \<noteq> ActWarn
      else lp_action p = ActBlock \<and> list_ex (lp_check p) (split_whitespace content))"

lemma scan_pattern_block:
  assumes "p \<in> set default_patterns"
  shows "ss_block (scan_pattern content p st) \<longleftrightarrow> ss_block st \<or> pattern_blocks content p"
proof (cases "lp_full_content_check p")
  case True
  then have "lp_prefix p \<noteq> []" using assms by (auto simp: default_patterns_def word_pattern_def)
  with True show ?thesis
    by (cases "lp_action p") (auto simp: scan_pattern_def pattern_blocks_def)
next
  case False
  have "contains content (lp_prefix p)" if "list_ex (lp_check p) (split_whitespace content)"
    using that pattern_prefix [OF assms False] in_split_whitespace contains_trans
    by (fastforce simp: list_ex_iff)
  with False show ?thesis
    by (auto simp: scan_pattern_def pattern_blocks_def fold_scan_word_block)
qed

lemma fold_scan_pattern_block:
  "set ps \<subseteq> set default_patterns \<Longrightarrow>
   ss_block (fold (scan_pattern content) ps st) \<longleftrightarrow> ss_block st \<or> list_ex (pattern_blocks content) ps"
  by (induction ps arbitrary: st) (auto simp: scan_pattern_block)


text \<open>A key that is part of a longer word passes: in quotes, after an equals sign, in JSON. So does
  the token after the word Bearer.\<close>

lemma split_one_word: "w \<noteq> [] \<Longrightarrow> list_all (\<lambda>c. \<not> is_ws c) w \<Longrightarrow> split_whitespace w = [w]"
proof -
  assume w: "w \<noteq> []" "list_all (\<lambda>c. \<not> is_ws c) w"
  then have "trim_start w = w" by (cases w) (auto simp: trim_start_def)
  then have "split_whitespace w =
      takeWhile (\<lambda>c. \<not> is_ws c) w # split_whitespace (dropWhile (\<lambda>c. \<not> is_ws c) w)"
    using w(1) by (subst split_whitespace.simps) simp
  moreover have take: "takeWhile (\<lambda>c. \<not> is_ws c) w = w" and drop: "dropWhile (\<lambda>c. \<not> is_ws c) w = []"
    using w(2) by (auto simp: list_all_iff)
  moreover have "split_whitespace [] = []" by (simp add: split_whitespace.simps trim_start_def)
  ultimately show ?thesis by (simp only: take drop)
qed

lemma quoted_key_passes:
  assumes "list_all (\<lambda>c. \<not> is_ws c) key" "\<not> contains key ''PRIVATE KEY-----''"
  shows "\<not> ls_should_block (scan_for_leaks (CHR 0x22 # key))"
proof -
  have "split_whitespace (CHR 0x22 # key) = [CHR 0x22 # key]"
    using assms(1) by (intro split_one_word) (simp_all add: is_ws_def)
  moreover have "\<not> contains (CHR 0x22 # key) ''PRIVATE KEY-----''" using assms(2) by simp
  ultimately show ?thesis
    by (simp add: fold_scan_pattern_block scan_for_leaks_def Let_def del: contains.simps)
      (simp add: default_patterns_def pattern_blocks_def word_pattern_def pem_key_def openai_key_def
        anthropic_key_def aws_key_def github_token_def github_pat_def stripe_key_def google_key_def
        slack_token_def sendgrid_key_def del: contains.simps)
qed

text \<open>The header of an access token does not match: its two words are looked at one by one.\<close>

lemma bearer_header_passes:
  "\<not> bearer_token ''Bearer'' \<and> (starts_with token ''Bearer'' \<or> \<not> bearer_token token)"
  by (simp add: bearer_token_def)

end
