(* ===== verification/Markdown.thy ===== *)
theory Markdown
  imports Core_Types
begin

text \<open>
  The markdown renderer of the terminal (\<open>frankclaw-runtime/src/markdown.rs\<close>): the events of the
  CommonMark parser (a library, whose events are the argument) are flattened to a text with
  spans, and the spans become ANSI codes. A slice outside the text or inside a character
  panics: \<open>None\<close>.
\<close>

section \<open>Data\<close>

datatype md_style = Bold | Italic | Strikethrough | CodeStyle | CodeBlockStyle | BlockquoteStyle

record style_span =
  sp_start :: nat
  sp_end :: nat
  sp_style :: md_style

record link_span =
  lk_start :: nat
  lk_end :: nat
  lk_href :: string

record markdown_ir =
  md_text :: string
  md_styles :: "style_span list"
  md_links :: "link_span list"

datatype md_tag =
    TagEmphasis
  | TagStrong
  | TagStrikethrough
  | TagCodeBlock
  | TagBlockQuote
  | TagLink string
  | TagList
  | TagItem
  | TagParagraph
  | TagHeading
  | TagOther

datatype md_event =
    EvStart md_tag
  | EvEnd md_tag
  | EvText string
  | EvCode string
  | EvBreak
  | EvRule
  | EvOther

record md_state =
  ms_ir :: markdown_ir
  ms_style_stack :: "(nat \<times> md_style) list"
  ms_link_stack :: "(nat \<times> string) list"
  ms_in_code_block :: bool
  ms_list_depth :: u32
  ms_at_block_start :: bool

section \<open>Parsing\<close>

definition push_str :: "string \<Rightarrow> md_state \<Rightarrow> md_state" where
  "push_str s st = st\<lparr>ms_ir := (ms_ir st)\<lparr>md_text := md_text (ms_ir st) @ s\<rparr>\<rparr>"

definition text_len :: "md_state \<Rightarrow> nat" where
  "text_len st = length (md_text (ms_ir st))"

definition open_style :: "md_style \<Rightarrow> md_state \<Rightarrow> md_state" where
  "open_style style st = st\<lparr>ms_style_stack := ms_style_stack st @ [(text_len st, style)]\<rparr>"

definition add_span :: "nat \<Rightarrow> nat \<Rightarrow> md_style \<Rightarrow> md_state \<Rightarrow> md_state" where
  "add_span start fin style st =
     (if start < fin
      then st\<lparr>ms_ir := (ms_ir st)\<lparr>md_styles := md_styles (ms_ir st) @
             [\<lparr>sp_start = start, sp_end = fin, sp_style = style\<rparr>]\<rparr>\<rparr>
      else st)"

text \<open>\<open>rposition\<close> and \<open>remove\<close>: the last span of the style that is open.\<close>

fun pop_style :: "(nat \<times> md_style) list \<Rightarrow> md_style \<Rightarrow> ((nat \<times> md_style) \<times> (nat \<times> md_style) list) option" where
  "pop_style [] target = None"
| "pop_style (x # xs) target =
     (case pop_style xs target of
        Some (y, ys) \<Rightarrow> Some (y, x # ys)
      | None \<Rightarrow> if snd x = target then Some (x, xs) else None)"

definition close_style :: "md_style \<Rightarrow> nat \<Rightarrow> md_state \<Rightarrow> md_state" where
  "close_style style fin st =
     (case pop_style (ms_style_stack st) style of
        Some ((start, s), rest) \<Rightarrow> add_span start fin s (st\<lparr>ms_style_stack := rest\<rparr>)
      | None \<Rightarrow> st)"

definition close_link :: "md_state \<Rightarrow> md_state" where
  "close_link st =
     (if ms_link_stack st = [] then st
      else (let (start, href) = last (ms_link_stack st);
                st1 = st\<lparr>ms_link_stack := butlast (ms_link_stack st)\<rparr>
            in if start < text_len st
               then st1\<lparr>ms_ir := (ms_ir st)\<lparr>md_links := md_links (ms_ir st) @
                      [\<lparr>lk_start = start, lk_end = text_len st, lk_href = href\<rparr>]\<rparr>\<rparr>
               else st1))"

definition newline_str :: string where
  "newline_str = [CHR 0x0A]"

definition unless_start :: "string \<Rightarrow> md_state \<Rightarrow> md_state" where
  "unless_start s st = (if ms_at_block_start st then st else push_str s st)"

primrec start_tag :: "md_tag \<Rightarrow> md_state \<Rightarrow> md_state" where
  "start_tag TagEmphasis st = open_style Italic st"
| "start_tag TagStrong st = open_style Bold st"
| "start_tag TagStrikethrough st = open_style Strikethrough st"
| "start_tag TagCodeBlock st =
     open_style CodeBlockStyle ((unless_start newline_str st)\<lparr>ms_in_code_block := True\<rparr>)"
| "start_tag TagBlockQuote st = open_style BlockquoteStyle st"
| "start_tag (TagLink href) st = st\<lparr>ms_link_stack := ms_link_stack st @ [(text_len st, href)]\<rparr>"
| "start_tag TagList st = st\<lparr>ms_list_depth := ms_list_depth st + 1\<rparr>"
| "start_tag TagItem st =
     (let st1 = unless_start newline_str st
      in (push_str (concat (replicate (unat (ms_list_depth st) - 1) ''  '') @ ''- '') st1)
           \<lparr>ms_at_block_start := False\<rparr>)"
| "start_tag TagParagraph st = unless_start (newline_str @ newline_str) st"
| "start_tag TagHeading st = open_style Bold (unless_start (newline_str @ newline_str) st)"
| "start_tag TagOther st = st"

primrec end_tag :: "md_tag \<Rightarrow> md_state \<Rightarrow> md_state" where
  "end_tag TagEmphasis st = close_style Italic (text_len st) st"
| "end_tag TagStrong st = close_style Bold (text_len st) st"
| "end_tag TagStrikethrough st = close_style Strikethrough (text_len st) st"
| "end_tag TagCodeBlock st =
     (let text = md_text (ms_ir st);
          fin = (if text \<noteq> [] \<and> last text = CHR 0x0A then length text - 1 else length text)
      in close_style CodeBlockStyle fin (st\<lparr>ms_in_code_block := False\<rparr>))"
| "end_tag TagBlockQuote st = close_style BlockquoteStyle (text_len st) st"
| "end_tag (TagLink href) st = close_link st"
| "end_tag TagList st = st\<lparr>ms_list_depth := sat_sub (ms_list_depth st) 1\<rparr>"
| "end_tag TagItem st = st"
| "end_tag TagParagraph st = st\<lparr>ms_at_block_start := False\<rparr>"
| "end_tag TagHeading st = (close_style Bold (text_len st) st)\<lparr>ms_at_block_start := False\<rparr>"
| "end_tag TagOther st = st"

primrec md_step :: "md_state \<Rightarrow> md_event \<Rightarrow> md_state" where
  "md_step st (EvStart tag) = start_tag tag st"
| "md_step st (EvEnd tag) = end_tag tag st"
| "md_step st (EvText s) = (push_str s st)\<lparr>ms_at_block_start := False\<rparr>"
| "md_step st (EvCode s) =
     (let start = text_len st; st1 = push_str s st
      in (add_span start (text_len st1) CodeStyle st1)\<lparr>ms_at_block_start := False\<rparr>)"
| "md_step st EvBreak = push_str newline_str st"
| "md_step st EvRule = (push_str ''---'' (unless_start newline_str st))\<lparr>ms_at_block_start := False\<rparr>"
| "md_step st EvOther = st"

definition md_initial :: md_state where
  "md_initial =
     \<lparr>ms_ir = \<lparr>md_text = [], md_styles = [], md_links = []\<rparr>, ms_style_stack = [], ms_link_stack = [],
      ms_in_code_block = False, ms_list_depth = 0, ms_at_block_start = True\<rparr>"

definition parse_markdown :: "md_event list \<Rightarrow> markdown_ir" where
  "parse_markdown events = ms_ir (foldl md_step md_initial events)"

section \<open>Rendering\<close>

definition esc :: "string \<Rightarrow> string" where
  "esc s = CHR 0x1B # CHR ''['' # s"

primrec style_on :: "md_style \<Rightarrow> string" where
  "style_on Bold = esc ''1m''"
| "style_on Italic = esc ''3m''"
| "style_on Strikethrough = esc ''9m''"
| "style_on CodeStyle = esc ''36m''"
| "style_on CodeBlockStyle = esc ''36m''"
| "style_on BlockquoteStyle = esc ''2m''"

definition style_reset :: string where
  "style_reset = esc ''0m''"

type_synonym boundary = "nat \<times> bool \<times> string"

definition span_boundaries :: "style_span \<Rightarrow> boundary list" where
  "span_boundaries sp =
     [(sp_start sp, False, style_on (sp_style sp)), (sp_end sp, True, style_reset)]"

text \<open>By position, the closing codes before the opening ones, otherwise in the given order.\<close>

definition sorted_boundaries :: "style_span list \<Rightarrow> boundary list" where
  "sorted_boundaries styles =
     sort_key (\<lambda>(offset, is_close, code). 2 * offset + (if is_close then 0 else 1))
       (concat (map span_boundaries styles))"

definition slice :: "string \<Rightarrow> nat \<Rightarrow> nat \<Rightarrow> string option" where
  "slice s a b =
     (if a \<le> b \<and> b \<le> length s \<and> is_char_boundary s a \<and> is_char_boundary s b
      then Some (take (b - a) (drop a s)) else None)"

fun render_loop :: "string \<Rightarrow> boundary list \<Rightarrow> string \<Rightarrow> nat \<Rightarrow> (string \<times> nat) option" where
  "render_loop s [] result pos = Some (result, pos)"
| "render_loop s ((offset, is_close, code) # bs) result pos =
     (if pos < offset
      then (case slice s pos offset of
              None \<Rightarrow> None
            | Some t \<Rightarrow> render_loop s bs (result @ t @ code) offset)
      else render_loop s bs (result @ code) pos)"

definition render_ansi :: "markdown_ir \<Rightarrow> string option" where
  "render_ansi ir =
     (if md_styles ir = [] then Some (md_text ir)
      else (case render_loop (md_text ir) (sorted_boundaries (md_styles ir)) [] 0 of
              None \<Rightarrow> None
            | Some (result, pos) \<Rightarrow>
                if pos < length (md_text ir)
                then map_option (\<lambda>t. result @ t) (slice (md_text ir) pos (length (md_text ir)))
                else Some result))"

definition render_markdown_to_ansi :: "(string \<Rightarrow> md_event list) \<Rightarrow> string \<Rightarrow> string option" where
  "render_markdown_to_ansi parser input = render_ansi (parse_markdown (parser input))"

section \<open>Spans lie within the text\<close>

text \<open>The pieces of text that the parser hands over start with a whole character.\<close>

definition text_ok :: "string \<Rightarrow> bool" where
  "text_ok s \<longleftrightarrow> s = [] \<or> \<not> is_continuation (hd s)"

fun event_ok :: "md_event \<Rightarrow> bool" where
  "event_ok (EvText s) = text_ok s"
| "event_ok (EvCode s) = text_ok s"
| "event_ok _ = True"

definition offset_ok :: "string \<Rightarrow> nat \<Rightarrow> bool" where
  "offset_ok s n \<longleftrightarrow> n \<le> length s \<and> is_char_boundary s n"

definition spans_ok :: "markdown_ir \<Rightarrow> bool" where
  "spans_ok ir \<longleftrightarrow>
     (\<forall>sp\<in>set (md_styles ir). sp_start sp < sp_end sp \<and> offset_ok (md_text ir) (sp_start sp) \<and>
        offset_ok (md_text ir) (sp_end sp)) \<and>
     (\<forall>lk\<in>set (md_links ir). lk_start lk < lk_end lk \<and> offset_ok (md_text ir) (lk_start lk) \<and>
        offset_ok (md_text ir) (lk_end lk))"

definition md_inv :: "md_state \<Rightarrow> bool" where
  "md_inv st \<longleftrightarrow>
     spans_ok (ms_ir st) \<and>
     (\<forall>(n, s)\<in>set (ms_style_stack st). offset_ok (md_text (ms_ir st)) n) \<and>
     (\<forall>(n, h)\<in>set (ms_link_stack st). offset_ok (md_text (ms_ir st)) n)"

lemma offset_ok_append: "offset_ok s n \<Longrightarrow> text_ok t \<Longrightarrow> offset_ok (s @ t) n"
  by (cases t) (auto simp: offset_ok_def is_char_boundary_def text_ok_def nth_append)

lemma offset_ok_length [simp]: "offset_ok s (length s)"
  by (simp add: offset_ok_def is_char_boundary_def)

lemma offset_ok_0 [simp]: "offset_ok s 0"
  by (simp add: offset_ok_def is_char_boundary_def)

lemma offset_ok_last_newline: "s \<noteq> [] \<Longrightarrow> last s = CHR 0x0A \<Longrightarrow> offset_ok s (length s - Suc 0)"
  by (cases s rule: rev_cases) (auto simp: offset_ok_def is_char_boundary_def nth_append is_continuation_def)

lemma md_inv_push [inv_rules]: "md_inv st \<Longrightarrow> text_ok s \<Longrightarrow> md_inv (push_str s st)"
  by (auto simp: md_inv_def spans_ok_def push_str_def offset_ok_append)

lemma text_ok_newline [simp]: "text_ok newline_str" "text_ok (newline_str @ newline_str)"
  by (simp_all add: text_ok_def newline_str_def is_continuation_def)

lemma md_inv_unless [inv_rules]: "md_inv st \<Longrightarrow> text_ok s \<Longrightarrow> md_inv (unless_start s st)"
  by (simp add: unless_start_def md_inv_push)

lemma md_inv_flags [simp]:
  "md_inv (st\<lparr>ms_at_block_start := b\<rparr>) = md_inv st" "md_inv (st\<lparr>ms_in_code_block := b\<rparr>) = md_inv st"
  "md_inv (st\<lparr>ms_list_depth := n\<rparr>) = md_inv st"
  by (simp_all add: md_inv_def)

lemma md_inv_open [inv_rules]: "md_inv st \<Longrightarrow> md_inv (open_style style st)"
  by (auto simp: md_inv_def open_style_def text_len_def)

lemma md_inv_add_span [inv_rules]:
  "md_inv st \<Longrightarrow> offset_ok (md_text (ms_ir st)) a \<Longrightarrow> offset_ok (md_text (ms_ir st)) b \<Longrightarrow>
   md_inv (add_span a b style st)"
  by (auto simp: md_inv_def spans_ok_def add_span_def)

lemma pop_style_set: "pop_style xs target = Some (y, ys) \<Longrightarrow> y \<in> set xs \<and> set ys \<subseteq> set xs"
  by (induction xs arbitrary: y ys) (fastforce split: option.splits if_splits)+

lemma md_inv_close [inv_rules]:
  assumes "md_inv st" "offset_ok (md_text (ms_ir st)) b"
  shows "md_inv (close_style style b st)"
proof (cases "pop_style (ms_style_stack st) style")
  case None
  with assms show ?thesis by (simp add: close_style_def)
next
  case (Some r)
  obtain a s rest where r: "r = ((a, s), rest)" by (metis surj_pair)
  have "(a, s) \<in> set (ms_style_stack st)" "set rest \<subseteq> set (ms_style_stack st)"
    using pop_style_set Some r by blast+
  with assms have "md_inv (st\<lparr>ms_style_stack := rest\<rparr>)" "offset_ok (md_text (ms_ir st)) a"
    by (auto simp: md_inv_def)
  with assms(2) Some r show ?thesis by (simp add: close_style_def md_inv_add_span)
qed

lemma md_inv_close_link [inv_rules]: "md_inv st \<Longrightarrow> md_inv (close_link st)"
proof (cases "ms_link_stack st" rule: rev_cases)
  case (snoc xs x)
  assume "md_inv st"
  with snoc show ?thesis
    by (cases x) (auto simp: md_inv_def spans_ok_def close_link_def text_len_def Let_def)
qed (simp add: close_link_def)

lemma md_step_inv: "md_inv st \<Longrightarrow> event_ok e \<Longrightarrow> md_inv (md_step st e)"
proof (cases e)
  case (EvStart tag)
  assume inv: "md_inv st"
  have item: "text_ok (concat (replicate n ''  '') @ ''- '')" for n
    by (cases n) (simp_all add: text_ok_def is_continuation_def)
  have link: "md_inv (st\<lparr>ms_link_stack := ms_link_stack st @ [(text_len st, h)]\<rparr>)" for h
    using inv by (auto simp: md_inv_def text_len_def)
  show ?thesis
    using inv EvStart by (cases tag) (auto simp: Let_def item link intro!: inv_rules)
next
  case (EvEnd tag)
  assume inv: "md_inv st"
  then show ?thesis
    using EvEnd by (cases tag) (auto simp: Let_def text_len_def offset_ok_last_newline intro!: inv_rules)
next
  case (EvCode s)
  assume inv: "md_inv st" and "event_ok e"
  then have s: "text_ok s" using EvCode by simp
  have "md_inv (push_str s st)" by (rule md_inv_push [OF inv s])
  moreover have "offset_ok (md_text (ms_ir (push_str s st))) (text_len st)"
    using offset_ok_append [OF offset_ok_length s] by (simp add: push_str_def text_len_def)
  moreover have "offset_ok (md_text (ms_ir (push_str s st))) (text_len (push_str s st))"
    by (simp add: text_len_def)
  ultimately show ?thesis using EvCode by (simp add: Let_def md_inv_add_span)
next
  case EvRule
  assume inv: "md_inv st"
  have "text_ok ''---''" by (simp add: text_ok_def is_continuation_def)
  with inv EvRule show ?thesis by (auto intro!: inv_rules)
qed (auto intro!: inv_rules)

lemma md_run_inv: "list_all event_ok es \<Longrightarrow> md_inv st \<Longrightarrow> md_inv (foldl md_step st es)"
  by (induction es arbitrary: st) (auto simp: md_step_inv)

lemma parse_spans_ok: "list_all event_ok es \<Longrightarrow> spans_ok (parse_markdown es)"
  using md_run_inv [of es md_initial] by (simp add: md_inv_def parse_markdown_def md_initial_def spans_ok_def)

section \<open>Rendering keeps the text\<close>

lemma append_in_shuffles: "ys @ w \<in> shuffles w ys"
  by (induction ys) (auto simp: Cons_in_shuffles_iff)

lemma shuffles_append_left: "z \<in> shuffles xs ys \<Longrightarrow> z @ w \<in> shuffles (xs @ w) ys"
  by (induction xs ys arbitrary: z rule: shuffles.induct)
    (auto simp: Cons_in_shuffles_iff append_in_shuffles)

lemma shuffles_append_right: "z \<in> shuffles xs ys \<Longrightarrow> z @ w \<in> shuffles xs (ys @ w)"
  using shuffles_append_left [of z ys xs w] by (simp add: shuffles_commutes)

lemma take_slice: "a \<le> b \<Longrightarrow> take a s @ take (b - a) (drop a s) = take b s"
  by (metis le_add_diff_inverse take_add)

lemma render_loop_total:
  assumes "\<forall>(n, c, code)\<in>set bs. offset_ok s n" "offset_ok s pos"
    and "result \<in> shuffles (take pos s) codes"
  shows "\<exists>result1 pos1. render_loop s bs result pos = Some (result1, pos1) \<and> offset_ok s pos1 \<and>
    result1 \<in> shuffles (take pos1 s) (codes @ concat (map (snd \<circ> snd) bs))"
  using assms
proof (induction bs arbitrary: result pos codes)
  case (Cons b bs)
  obtain n c code where b: "b = (n, c, code)" by (metis surj_pair)
  show ?case
  proof (cases "pos < n")
    case True
    let ?t = "take (n - pos) (drop pos s)"
    have n: "offset_ok s n" using Cons.prems(1) b by simp
    have "slice s pos n = Some ?t" using True n Cons.prems(2) by (simp add: slice_def offset_ok_def)
    moreover have "(result @ ?t) @ code \<in> shuffles (take n s) (codes @ code)"
      using shuffles_append_left [OF Cons.prems(3), of ?t] True
      by (intro shuffles_append_right) (simp add: take_slice)
    ultimately show ?thesis
      using Cons.IH [of n "result @ ?t @ code" "codes @ code"] Cons.prems(1) n b True by auto
  next
    case False
    have "result @ code \<in> shuffles (take pos s) (codes @ code)"
      by (rule shuffles_append_right [OF Cons.prems(3)])
    then show ?thesis
      using Cons.IH [of pos "result @ code" "codes @ code"] Cons.prems(1,2) b False by auto
  qed
qed simp

text \<open>
  C37. Every markdown text renders, whatever events its parser makes of it: no slice panics,
  and the output is the text of the document interleaved with the ANSI codes of its spans,
  nothing of either lost, repeated or reordered.
\<close>

theorem markdown_renders:
  assumes "list_all event_ok (parser input)"
  shows "\<exists>out. render_markdown_to_ansi parser input = Some out \<and>
    out \<in> shuffles (md_text (parse_markdown (parser input)))
      (concat (map (snd \<circ> snd) (sorted_boundaries (md_styles (parse_markdown (parser input))))))"
proof -
  let ?ir = "parse_markdown (parser input)"
  let ?bs = "sorted_boundaries (md_styles ?ir)"
  have ok: "spans_ok ?ir" by (rule parse_spans_ok [OF assms])
  show ?thesis
  proof (cases "md_styles ?ir = []")
    case True
    then show ?thesis
      by (simp add: render_markdown_to_ansi_def render_ansi_def sorted_boundaries_def)
  next
    case False
    have "\<forall>(n, c, code)\<in>set ?bs. offset_ok (md_text ?ir) n"
      using ok by (auto simp: sorted_boundaries_def span_boundaries_def spans_ok_def)
    moreover have "offset_ok (md_text ?ir) 0" by (simp add: offset_ok_def is_char_boundary_def)
    ultimately obtain result pos where
      loop: "render_loop (md_text ?ir) ?bs [] 0 = Some (result, pos)" "offset_ok (md_text ?ir) pos" and
      mix: "result \<in> shuffles (take pos (md_text ?ir)) (concat (map (snd \<circ> snd) ?bs))"
      using render_loop_total [of ?bs "md_text ?ir" 0 "[]" "[]"] by auto
    have sl: "pos < length (md_text ?ir) \<Longrightarrow>
        slice (md_text ?ir) pos (length (md_text ?ir)) = Some (drop pos (md_text ?ir))"
      using loop(2) by (simp add: slice_def offset_ok_def is_char_boundary_def)
    show ?thesis
    proof (cases "pos < length (md_text ?ir)")
      case True
      then show ?thesis
        using False loop(1) sl shuffles_append_left [OF mix, of "drop pos (md_text ?ir)"]
        by (simp add: render_markdown_to_ansi_def render_ansi_def)
    next
      case False
      then show ?thesis
        using \<open>md_styles ?ir \<noteq> []\<close> loop(1) mix by (simp add: render_markdown_to_ansi_def render_ansi_def)
    qed
  qed
qed

theorem markdown_renders_witness:
  "\<exists>out. render_markdown_to_ansi
      (\<lambda>s. [EvStart TagParagraph, EvText ''a '', EvStart TagStrong, EvText s, EvEnd TagStrong, EvEnd TagParagraph])
      ''b'' = Some out \<and> out \<in> shuffles ''a b'' (esc ''1m'' @ esc ''0m'')"
proof -
  let ?parser = "\<lambda>s. [EvStart TagParagraph, EvText ''a '', EvStart TagStrong, EvText s, EvEnd TagStrong, EvEnd TagParagraph]"
  have ir: "parse_markdown (?parser ''b'') =
      \<lparr>md_text = ''a b'', md_styles = [\<lparr>sp_start = 2, sp_end = 3, sp_style = Bold\<rparr>], md_links = []\<rparr>"
    by (simp add: parse_markdown_def md_initial_def unless_start_def push_str_def open_style_def
        close_style_def add_span_def text_len_def)
  have bs: "concat (map (snd \<circ> snd) (sorted_boundaries [\<lparr>sp_start = 2, sp_end = 3, sp_style = Bold\<rparr>])) =
      esc ''1m'' @ esc ''0m''"
    by (simp add: sorted_boundaries_def span_boundaries_def style_reset_def)
  have "list_all event_ok (?parser ''b'')" by (simp add: text_ok_def is_continuation_def)
  from markdown_renders [of ?parser "''b''", OF this] show ?thesis by (simp add: ir bs)
qed

end
