(* ===== verification/Sse.thy ===== *)
theory Sse
  imports Rust_Text
begin

text \<open>
  The decoder of server-sent events that the provider clients stream through
  (\<open>frankclaw-models/src/sse.rs\<close>). The conversion of the bytes of a network chunk to text
  (\<open>String::from_utf8_lossy\<close>) is the parameter \<open>lossy\<close>, which leaves a chunk of whole
  characters as it is.
\<close>

section \<open>The decoder\<close>

record sse_event =
  se_event :: "string option"
  se_data :: string

record sse_decoder =
  sd_buffer :: string
  sd_event :: "string option"
  sd_data_lines :: "string list"

definition sse_new :: sse_decoder where
  "sse_new = \<lparr>sd_buffer = [], sd_event = None, sd_data_lines = []\<rparr>"

definition flush_event :: "sse_decoder \<Rightarrow> sse_event option \<times> sse_decoder" where
  "flush_event d =
     (if sd_event d = None \<and> sd_data_lines d = [] then (None, d)
      else (Some \<lparr>se_event = sd_event d, se_data = join [newline] (sd_data_lines d)\<rparr>,
            d\<lparr>sd_event := None, sd_data_lines := []\<rparr>))"

definition split_field :: "string \<Rightarrow> string \<times> string" where
  "split_field line =
     (case split_once CHR '':'' line of
        Some (field, value) \<Rightarrow> (field, if starts_with value '' '' then drop 1 value else value)
      | None \<Rightarrow> (line, []))"

definition take_field :: "string \<Rightarrow> sse_decoder \<Rightarrow> sse_decoder" where
  "take_field line d =
     (case split_field line of (field, value) \<Rightarrow>
        if field = ''event'' then d\<lparr>sd_event := Some value\<rparr>
        else if field = ''data'' then d\<lparr>sd_data_lines := sd_data_lines d @ [value]\<rparr>
        else d)"

definition handle_line :: "string \<Rightarrow> sse_decoder \<Rightarrow> sse_event list \<times> sse_decoder" where
  "handle_line line0 d =
     (let line = strip_cr line0
      in if line = [] then (case flush_event d of (Some e, d1) \<Rightarrow> ([e], d1) | (None, d1) \<Rightarrow> ([], d1))
         else if starts_with line '':'' then ([], d)
         else ([], take_field line d))"

lemma handle_line_buffer [simp]: "sd_buffer (snd (handle_line line d)) = sd_buffer d"
  by (auto simp: handle_line_def flush_event_def take_field_def Let_def split: prod.splits if_splits)

function drain :: "sse_decoder \<Rightarrow> sse_event list \<times> sse_decoder" where
  "drain d =
     (case split_once newline (sd_buffer d) of
        None \<Rightarrow> ([], d)
      | Some (line, rest) \<Rightarrow>
          (let (es, d1) = handle_line line (d\<lparr>sd_buffer := rest\<rparr>);
               (es', d2) = drain d1
           in (es @ es', d2)))"
  by pat_completeness auto
termination
proof (relation "measure (\<lambda>d. length (sd_buffer d))", goal_cases)
  case (2 d lr line rest r es d1)
  then have "sd_buffer d1 = rest"
    using handle_line_buffer [of line "d\<lparr>sd_buffer := rest\<rparr>"] by (metis select_convs(1) snd_conv surjective update_convs(1))
  moreover have "sd_buffer d = line @ newline # rest" using 2(1,2) by (auto simp: split_once_Some)
  ultimately show ?case by simp
qed simp

declare drain.simps [simp del]

definition sse_push :: "(string \<Rightarrow> string) \<Rightarrow> string \<Rightarrow> sse_decoder \<Rightarrow> sse_event list \<times> sse_decoder" where
  "sse_push lossy chunk d = drain (d\<lparr>sd_buffer := sd_buffer d @ lossy chunk\<rparr>)"

definition sse_finish :: "sse_decoder \<Rightarrow> sse_event option \<times> sse_decoder" where
  "sse_finish d =
     (if trim (sd_buffer d) \<noteq> []
      then flush_event (take_field (strip_cr (sd_buffer d)) (d\<lparr>sd_buffer := []\<rparr>))
      else flush_event d)"

primrec push_all :: "(string \<Rightarrow> string) \<Rightarrow> string list \<Rightarrow> sse_decoder \<Rightarrow> sse_event list \<times> sse_decoder" where
  "push_all lossy [] d = ([], d)"
| "push_all lossy (c # cs) d =
     (let (es, d1) = sse_push lossy c d; (es', d2) = push_all lossy cs d1 in (es @ es', d2))"

section \<open>The chunks do not matter\<close>

lemma handle_line_upd:
  "handle_line line (d\<lparr>sd_buffer := b\<rparr>) =
   (fst (handle_line line d), (snd (handle_line line d))\<lparr>sd_buffer := b\<rparr>)"
  by (auto simp: handle_line_def flush_event_def take_field_def Let_def split: prod.splits if_splits)

lemma drain_none: "newline \<notin> set (sd_buffer d) \<Longrightarrow> drain d = ([], d)"
  by (subst drain.simps) (simp add: split_once_None [THEN iffD2])

lemma drain_line:
  assumes "sd_buffer d = line @ newline # rest" "newline \<notin> set line"
  shows "drain d =
    (let (es', d2) = drain ((snd (handle_line line d))\<lparr>sd_buffer := rest\<rparr>)
     in (fst (handle_line line d) @ es', d2))"
  using assms by (subst drain.simps) (simp add: handle_line_upd Let_def split_beta)

lemma drain_append:
  "drain (d\<lparr>sd_buffer := a @ b\<rparr>) =
   (let (es, d1) = drain (d\<lparr>sd_buffer := a\<rparr>);
        (es', d2) = drain (d1\<lparr>sd_buffer := sd_buffer d1 @ b\<rparr>)
    in (es @ es', d2))"
proof (induction "length a" arbitrary: a d rule: less_induct)
  case less
  show ?case
  proof (cases "newline \<in> set a")
    case False
    then have "drain (d\<lparr>sd_buffer := a\<rparr>) = ([], d\<lparr>sd_buffer := a\<rparr>)" by (intro drain_none) simp
    then show ?thesis by simp
  next
    case True
    then obtain line rest where a: "a = line @ newline # rest" "newline \<notin> set line"
      by (metis split_list_first)
    let ?d1 = "snd (handle_line line (d\<lparr>sd_buffer := a\<rparr>))"
    have IH: "drain (?d1\<lparr>sd_buffer := rest @ b\<rparr>) =
       (let (es, d1) = drain (?d1\<lparr>sd_buffer := rest\<rparr>);
            (es', d2) = drain (d1\<lparr>sd_buffer := sd_buffer d1 @ b\<rparr>)
        in (es @ es', d2))"
      using less(1) [of rest ?d1] a by simp
    have "drain (d\<lparr>sd_buffer := a @ b\<rparr>) =
      (let (es', d2) = drain ((snd (handle_line line (d\<lparr>sd_buffer := a @ b\<rparr>)))\<lparr>sd_buffer := rest @ b\<rparr>)
       in (fst (handle_line line (d\<lparr>sd_buffer := a @ b\<rparr>)) @ es', d2))"
      by (rule drain_line) (simp_all add: a)
    moreover have "drain (d\<lparr>sd_buffer := a\<rparr>) =
      (let (es', d2) = drain (?d1\<lparr>sd_buffer := rest\<rparr>)
       in (fst (handle_line line (d\<lparr>sd_buffer := a\<rparr>)) @ es', d2))"
      by (rule drain_line) (simp_all add: a)
    ultimately show ?thesis
      using IH by (simp add: handle_line_upd Let_def split_beta)
  qed
qed

lemma drain_drained: "drain d = (es, d1) \<Longrightarrow> newline \<notin> set (sd_buffer d1)"
proof (induction "length (sd_buffer d)" arbitrary: d es d1 rule: less_induct)
  case less
  show ?case
  proof (cases "newline \<in> set (sd_buffer d)")
    case False
    with less.prems show ?thesis by (simp add: drain_none)
  next
    case True
    then obtain line rest where l: "sd_buffer d = line @ newline # rest" "newline \<notin> set line"
      by (metis split_list_first)
    let ?d = "(snd (handle_line line d))\<lparr>sd_buffer := rest\<rparr>"
    obtain e2 d2 where dr: "drain ?d = (e2, d2)" by (metis surj_pair)
    then have "newline \<notin> set (sd_buffer d2)" using less.hyps [of ?d] l(1) by simp
    moreover have "d1 = d2" using less.prems dr drain_line [OF l] by simp
    ultimately show ?thesis by simp
  qed
qed

lemma push_all_concat:
  "list_all (\<lambda>c. lossy c = c) cs \<Longrightarrow> newline \<notin> set (sd_buffer d) \<Longrightarrow>
   push_all lossy cs d = drain (d\<lparr>sd_buffer := sd_buffer d @ concat cs\<rparr>)"
proof (induction cs arbitrary: d)
  case Nil
  then show ?case by (simp add: drain_none)
next
  case (Cons c cs)
  obtain es d1 where p: "drain (d\<lparr>sd_buffer := sd_buffer d @ c\<rparr>) = (es, d1)" by (metis surj_pair)
  have "newline \<notin> set (sd_buffer d1)" by (rule drain_drained [OF p])
  with Cons have IH: "push_all lossy cs d1 = drain (d1\<lparr>sd_buffer := sd_buffer d1 @ concat cs\<rparr>)" by simp
  have "drain (d\<lparr>sd_buffer := (sd_buffer d @ c) @ concat cs\<rparr>) =
    (let (es', d2) = drain (d1\<lparr>sd_buffer := sd_buffer d1 @ concat cs\<rparr>) in (es @ es', d2))"
    using p by (subst drain_append) simp
  with Cons.prems p IH show ?case by (simp add: sse_push_def)
qed

section \<open>Encoded events are decoded\<close>

definition encode_line :: "string \<Rightarrow> string \<Rightarrow> string" where
  "encode_line field value = field @ '': '' @ value @ [newline]"

definition encode_event :: "string option \<times> string list \<Rightarrow> string" where
  "encode_event = (\<lambda>(ev, ds).
     (case ev of Some e \<Rightarrow> encode_line ''event'' e | None \<Rightarrow> []) @
     concat (map (encode_line ''data'') ds) @ [newline])"

text \<open>A value of a field: one line that does not end with a carriage return.\<close>

definition value_ok :: "string \<Rightarrow> bool" where
  "value_ok v \<longleftrightarrow> newline \<notin> set v \<and> (v = [] \<or> last v \<noteq> CHR 0x0D)"

definition event_ok :: "string option \<times> string list \<Rightarrow> bool" where
  "event_ok = (\<lambda>(ev, ds).
     (ev \<noteq> None \<or> ds \<noteq> []) \<and> (case ev of Some e \<Rightarrow> value_ok e | None \<Rightarrow> True) \<and> list_all value_ok ds)"

lemma handle_field:
  assumes "value_ok v" "field = ''event'' \<or> field = ''data''"
  shows "handle_line (field @ '': '' @ v) d =
    ([], if field = ''event'' then d\<lparr>sd_event := Some v\<rparr> else d\<lparr>sd_data_lines := sd_data_lines d @ [v]\<rparr>)"
proof -
  let ?line = "field @ '': '' @ v"
  have "last ?line \<noteq> CHR 0x0D" using assms(1) by (cases v) (auto simp: value_ok_def)
  then have s: "strip_cr ?line = ?line" by (simp add: strip_cr_def)
  have f: "split_field ?line = (field, v)"
    using assms(2) by (auto simp: split_field_def)
  have "\<not> starts_with ?line '':''" using assms(2) by auto
  with s f assms(2) show ?thesis by (auto simp: handle_line_def take_field_def Let_def)
qed

lemma drain_field:
  assumes "value_ok v" "field = ''event'' \<or> field = ''data''"
  shows "drain (d\<lparr>sd_buffer := encode_line field v @ rest\<rparr>) =
    drain ((if field = ''event'' then d\<lparr>sd_event := Some v\<rparr>
            else d\<lparr>sd_data_lines := sd_data_lines d @ [v]\<rparr>)\<lparr>sd_buffer := rest\<rparr>)"
proof -
  let ?line = "field @ '': '' @ v"
  let ?d = "d\<lparr>sd_buffer := ?line @ newline # rest\<rparr>"
  have "newline \<notin> set ?line" using assms by (auto simp: value_ok_def)
  then have "drain ?d =
      (let (es', d2) = drain ((snd (handle_line ?line ?d))\<lparr>sd_buffer := rest\<rparr>)
       in (fst (handle_line ?line ?d) @ es', d2))"
    by (intro drain_line) simp_all
  then have "drain ?d = drain ((snd (handle_line ?line d))\<lparr>sd_buffer := rest\<rparr>)"
    by (simp only: handle_line_upd handle_field [OF assms] fst_conv snd_conv append_Nil
        Let_def split_beta prod.collapse) simp
  then show ?thesis unfolding handle_field [OF assms] encode_line_def by simp
qed

lemma drain_data:
  "list_all value_ok ds \<Longrightarrow>
   drain (d\<lparr>sd_buffer := concat (map (encode_line ''data'') ds) @ rest\<rparr>) =
   drain (d\<lparr>sd_data_lines := sd_data_lines d @ ds, sd_buffer := rest\<rparr>)"
proof (induction ds arbitrary: d)
  case (Cons v ds)
  then have "drain (d\<lparr>sd_buffer := encode_line ''data'' v @ concat (map (encode_line ''data'') ds) @ rest\<rparr>) =
    drain (d\<lparr>sd_data_lines := sd_data_lines d @ [v], sd_buffer := concat (map (encode_line ''data'') ds) @ rest\<rparr>)"
    by (subst drain_field) simp_all
  with Cons.IH [of "d\<lparr>sd_data_lines := sd_data_lines d @ [v]\<rparr>"] Cons.prems show ?case by simp
qed simp

definition decoded :: "string option \<times> string list \<Rightarrow> sse_event" where
  "decoded = (\<lambda>(ev, ds). \<lparr>se_event = ev, se_data = join [newline] ds\<rparr>)"

lemma drain_event:
  assumes "event_ok e" "sd_event d = None" "sd_data_lines d = []"
  shows "drain (d\<lparr>sd_buffer := encode_event e @ rest\<rparr>) =
    (let (es, d1) = drain (d\<lparr>sd_buffer := rest\<rparr>) in (decoded e # es, d1))"
proof -
  obtain ev ds where e: "e = (ev, ds)" by (cases e)
  have ok: "ev \<noteq> None \<or> ds \<noteq> []" "list_all value_ok ds" "\<And>v. ev = Some v \<Longrightarrow> value_ok v"
    using assms(1) e by (auto simp: event_ok_def)
  let ?d = "d\<lparr>sd_event := ev, sd_data_lines := ds\<rparr>"
  have fields: "drain (d\<lparr>sd_buffer := encode_event e @ rest\<rparr>) = drain (?d\<lparr>sd_buffer := newline # rest\<rparr>)"
  proof (cases ev)
    case None
    then have "d\<lparr>sd_event := ev\<rparr> = d" using assms(2) by (cases d) simp
    then show ?thesis using None drain_data [OF ok(2), where d = d] assms(3) e by (simp add: encode_event_def)
  next
    case (Some v)
    have "drain (d\<lparr>sd_buffer := encode_line ''event'' v @ concat (map (encode_line ''data'') ds) @ newline # rest\<rparr>) =
      drain (d\<lparr>sd_event := Some v, sd_buffer := concat (map (encode_line ''data'') ds) @ newline # rest\<rparr>)"
      using ok(3) [OF Some] by (subst drain_field) simp_all
    then show ?thesis
      using Some drain_data [OF ok(2), where d = "d\<lparr>sd_event := Some v\<rparr>"] assms(3) e
      by (simp add: encode_event_def)
  qed
  let ?e = "?d\<lparr>sd_buffer := newline # rest\<rparr>"
  have h: "handle_line [] ?e = ([decoded e], d\<lparr>sd_buffer := newline # rest\<rparr>)"
    using ok(1) assms(2,3) e
    by (cases d) (auto simp: handle_line_def strip_cr_def flush_event_def decoded_def)
  have "drain ?e = (let (es', d2) = drain ((snd (handle_line [] ?e))\<lparr>sd_buffer := rest\<rparr>)
      in (fst (handle_line [] ?e) @ es', d2))"
    by (rule drain_line) simp_all
  then show ?thesis unfolding fields h by simp
qed

lemma drain_events:
  "list_all event_ok es \<Longrightarrow> fst (drain (sse_new\<lparr>sd_buffer := concat (map encode_event es)\<rparr>)) = map decoded es"
proof (induction es)
  case Nil
  then show ?case by (simp add: drain_none)
next
  case (Cons e es)
  then show ?case
    using drain_event [of e sse_new "concat (map encode_event es)"]
    by (simp add: sse_new_def split_beta Let_def)
qed



text \<open>A character that the network cuts in two is not decoded as it was sent.\<close>

lemma cut_character_lost:
  assumes "lossy [CHR 0xC3] = [CHR 0xEF, CHR 0xBF, CHR 0xBD]" "lossy [CHR 0xA9] = [CHR 0xEF, CHR 0xBF, CHR 0xBD]"
  shows "sd_buffer (snd (push_all lossy [[CHR 0xC3], [CHR 0xA9]] sse_new)) \<noteq> [CHR 0xC3, CHR 0xA9]"
  using assms by (simp add: sse_push_def sse_new_def drain_none)

end
