(* ===== verification/Chunking.thy ===== *)
theory Chunking
  imports Utf8_Text
begin

text \<open>
  The chunks of a document for the memory (\<open>frankclaw-memory/src/chunking.rs\<close>): paragraphs are
  collected until a blank line comes after the target size was reached. Line numbers are
  \<open>usize\<close> counters that start at one.
\<close>

record chunk =
  ck_text :: string
  ck_line_start :: nat
  ck_line_end :: nat
  ck_index :: nat

record chunk_state =
  cs_chunks :: "chunk list"
  cs_text :: string
  cs_line :: nat
  cs_start :: nat
  cs_index :: nat

definition flush_chunk :: "chunk_state \<Rightarrow> chunk list" where
  "flush_chunk st =
     cs_chunks st @
       [\<lparr>ck_text = trim (cs_text st), ck_line_start = cs_start st,
         ck_line_end = max (cs_line st - 1) (cs_start st), ck_index = cs_index st\<rparr>]"

definition chunk_line :: "nat \<Rightarrow> string \<Rightarrow> chunk_state \<Rightarrow> chunk_state" where
  "chunk_line target line st0 =
     (let is_blank = (trim line = []);
          st1 = (if is_blank \<and> trim (cs_text st0) \<noteq> [] \<and> target \<le> length (cs_text st0)
                 then st0\<lparr>cs_chunks := flush_chunk st0, cs_index := cs_index st0 + 1, cs_text := [],
                          cs_start := cs_line st0 + 1\<rparr>
                 else st0);
          st2 = (if cs_text st1 = [] \<and> \<not> is_blank then st1\<lparr>cs_start := cs_line st1\<rparr> else st1);
          st3 = (if cs_text st2 \<noteq> [] \<or> \<not> is_blank
                 then st2\<lparr>cs_text := cs_text st2 @ (if cs_text st2 \<noteq> [] then [newline] else []) @ line\<rparr>
                 else st2)
      in st3\<lparr>cs_line := cs_line st3 + 1\<rparr>)"

definition chunk_text :: "string \<Rightarrow> nat \<Rightarrow> chunk list" where
  "chunk_text text wanted =
     (let target = (if wanted = 0 then 1500 else wanted);
          st = fold (chunk_line target) (lines text)
                 \<lparr>cs_chunks = [], cs_text = [], cs_line = 1, cs_start = 1, cs_index = 0\<rparr>
      in if trim (cs_text st) \<noteq> [] then flush_chunk st else cs_chunks st)"

section \<open>Chunks keep the text\<close>

lemma visible_Nil_iff: "visible s = [] \<longleftrightarrow> trim s = []"
  by (simp add: trim_Nil_iff visible_def filter_empty_conv)

definition chunks_visible :: "chunk list \<Rightarrow> string" where
  "chunks_visible cks = visible (concat (map ck_text cks))"

lemma chunks_visible_flush: "chunks_visible (flush_chunk st) = chunks_visible (cs_chunks st) @ visible (cs_text st)"
  by (simp add: chunks_visible_def flush_chunk_def)

lemma newline_ws [simp]: "is_ws newline"
  by (simp add: is_ws_def)

text \<open>What the loop keeps: the chunks are numbered, well placed and not empty, and together with
  the pending text hold the visible text of the lines read so far.\<close>

definition chunk_inv :: "string \<Rightarrow> chunk_state \<Rightarrow> bool" where
  "chunk_inv seen st \<longleftrightarrow>
     chunks_visible (cs_chunks st) @ visible (cs_text st) = seen \<and>
     map ck_index (cs_chunks st) = [0..<length (cs_chunks st)] \<and> cs_index st = length (cs_chunks st) \<and>
     list_all (\<lambda>c. ck_text c \<noteq> [] \<and> ck_line_start c \<le> ck_line_end c \<and> 1 \<le> ck_line_start c \<and>
       ck_line_end c \<le> cs_line st) (cs_chunks st) \<and>
     1 \<le> cs_start st \<and> cs_start st \<le> cs_line st \<and> (cs_text st \<noteq> [] \<longrightarrow> cs_start st < cs_line st)"

lemma chunk_inv_flush:
  assumes "chunk_inv seen st" "trim (cs_text st) \<noteq> []"
  shows "chunks_visible (flush_chunk st) = seen"
    and "map ck_index (flush_chunk st) = [0..<length (flush_chunk st)]"
    and "length (flush_chunk st) = cs_index st + 1"
    and "list_all (\<lambda>c. ck_text c \<noteq> [] \<and> ck_line_start c \<le> ck_line_end c \<and> 1 \<le> ck_line_start c \<and>
       ck_line_end c \<le> cs_line st) (flush_chunk st)"
proof -
  show "chunks_visible (flush_chunk st) = seen"
    using assms(1) by (simp add: chunks_visible_flush chunk_inv_def)
  show "map ck_index (flush_chunk st) = [0..<length (flush_chunk st)]"
    and "length (flush_chunk st) = cs_index st + 1"
    using assms(1) by (simp_all add: flush_chunk_def chunk_inv_def)
  show "list_all (\<lambda>c. ck_text c \<noteq> [] \<and> ck_line_start c \<le> ck_line_end c \<and> 1 \<le> ck_line_start c \<and>
       ck_line_end c \<le> cs_line st) (flush_chunk st)"
    using assms by (auto simp: flush_chunk_def chunk_inv_def)
qed

lemma chunk_line_inv [inv_rules]:
  assumes "chunk_inv seen st"
  shows "chunk_inv (seen @ visible line) (chunk_line target line st)"
proof (cases "trim line = []")
  case False
  then have v: "chunk_line target line st =
    st\<lparr>cs_start := (if cs_text st = [] then cs_line st else cs_start st),
       cs_text := cs_text st @ (if cs_text st \<noteq> [] then [newline] else []) @ line,
       cs_line := cs_line st + 1\<rparr>"
    by (simp add: chunk_line_def Let_def)
  show ?thesis
    using assms by (auto simp: v chunk_inv_def list_all_iff)
next
  case blank: True
  then have vis: "visible line = []" by (simp add: visible_Nil_iff)
  show ?thesis
  proof (cases "trim (cs_text st) \<noteq> [] \<and> target \<le> length (cs_text st)")
    case True
    then have v: "chunk_line target line st =
      st\<lparr>cs_chunks := flush_chunk st, cs_index := cs_index st + 1, cs_text := [],
         cs_start := cs_line st + 1, cs_line := cs_line st + 1\<rparr>"
      using blank by (simp add: chunk_line_def Let_def)
    note fl = chunk_inv_flush [OF assms conjunct1 [OF True]]
    show ?thesis
      using fl vis by (auto simp: v chunk_inv_def list_all_iff)
  next
    case False
    then have v: "chunk_line target line st =
      st\<lparr>cs_text := (if cs_text st \<noteq> [] then cs_text st @ [newline] @ line else []),
         cs_line := cs_line st + 1\<rparr>"
      using blank by (auto simp: chunk_line_def Let_def)
    show ?thesis
      using assms vis by (auto simp: v chunk_inv_def list_all_iff)
  qed
qed

lemma chunk_lines_inv:
  "chunk_inv seen st \<Longrightarrow> chunk_inv (seen @ visible (concat ls)) (fold (chunk_line target) ls st)"
proof (induction ls arbitrary: seen st)
  case (Cons l ls)
  from Cons.IH [OF chunk_line_inv [OF Cons.prems, of l target]] show ?case by simp
qed simp

lemma visible_strip_cr [simp]: "visible (strip_cr s) = visible s"
  by (cases s rule: rev_cases) (auto simp: strip_cr_def is_ws_def)

lemma visible_concat_map: "visible (concat ss) = concat (map visible ss)"
  by (induction ss) auto

lemma visible_split_all: "visible (concat (split_all newline s)) = visible s"
proof -
  have "visible (join [newline] ss) = visible (concat ss)" for ss
    by (induction "[newline]" ss rule: join.induct) (auto simp: is_ws_def)
  then show ?thesis by (metis join_split_all)
qed

lemma visible_lines: "visible (concat (lines s)) = visible s"
proof -
  let ?ps = "split_all newline s"
  have ne: "?ps \<noteq> []" by simp
  let ?qs = "if last ?ps = [] then butlast ?ps else ?ps"
  have "concat (map visible ?qs) = concat (map visible ?ps)"
    using ne by (cases ?ps rule: rev_cases) auto
  moreover have "concat (map visible (lines s)) = concat (map visible ?qs)"
  proof (cases ?qs rule: rev_cases)
    case (snoc qs q)
    have vs: "visible \<circ> strip_cr = visible" by (rule ext) simp
    show ?thesis using snoc by (auto simp: lines_def Let_def vs)
  qed (simp add: lines_def Let_def)
  ultimately show ?thesis using visible_split_all [of s] by (simp add: visible_concat_map)
qed

text \<open>
  Chunking a document loses nothing: the visible text of the chunks in order is that of the
  document; the chunks are numbered from zero, none is empty, and each gives a range of lines.
\<close>

lemma chunk_text_complete:
  "chunks_visible (chunk_text text target) = visible text \<and>
   map ck_index (chunk_text text target) = [0..<length (chunk_text text target)] \<and>
   list_all (\<lambda>c. ck_text c \<noteq> [] \<and> 1 \<le> ck_line_start c \<and> ck_line_start c \<le> ck_line_end c)
     (chunk_text text target)"
proof -
  let ?t = "if target = 0 then 1500 else target"
  let ?st = "fold (chunk_line ?t) (lines text)
    \<lparr>cs_chunks = [], cs_text = [], cs_line = 1, cs_start = 1, cs_index = 0\<rparr>"
  have "chunk_inv [] \<lparr>cs_chunks = [], cs_text = [], cs_line = 1, cs_start = 1, cs_index = 0\<rparr>"
    by (simp add: chunk_inv_def chunks_visible_def)
  from chunk_lines_inv [OF this, of "lines text" ?t]
  have inv: "chunk_inv (visible text) ?st" by (simp add: visible_lines)
  show ?thesis
  proof (cases "trim (cs_text ?st) = []")
    case True
    then have "visible (cs_text ?st) = []" by (simp add: visible_Nil_iff)
    with True inv show ?thesis by (auto simp: chunk_text_def Let_def chunk_inv_def list_all_iff)
  next
    case False
    note fl = chunk_inv_flush [OF inv False]
    from False fl show ?thesis by (auto simp: chunk_text_def Let_def list_all_iff)
  qed
qed

end
