(* ===== verification/Effects.thy ===== *)
theory Effects
  imports Core_Types
begin

text \<open>
  Fallible operations over a world: an \<open>async fn\<close> that returns \<open>Result\<close> is a function from the
  world to a result and the world it leaves. \<open>andthen\<close> is the operator \<open>?\<close> followed by the rest of
  the body.
\<close>

type_synonym ('w, 'a) action = "'w \<Rightarrow> (frank_error + 'a) \<times> 'w"

definition succeed :: "'a \<Rightarrow> ('w, 'a) action" where
  "succeed x w = (Inr x, w)"

definition fail :: "frank_error \<Rightarrow> ('w, 'a) action" where
  "fail e w = (Inl e, w)"

definition of_result :: "(frank_error + 'a) \<Rightarrow> ('w, 'a) action" where
  "of_result r w = (r, w)"

definition andthen :: "('w, 'a) action \<Rightarrow> ('a \<Rightarrow> ('w, 'b) action) \<Rightarrow> ('w, 'b) action" where
  "andthen m f w = (case m w of (Inl e, w1) \<Rightarrow> (Inl e, w1) | (Inr x, w1) \<Rightarrow> f x w1)"

text \<open>An operation that cannot fail.\<close>

definition always :: "('w \<Rightarrow> 'a \<times> 'w) \<Rightarrow> ('w, 'a) action" where
  "always m w = (case m w of (x, w1) \<Rightarrow> (Inr x, w1))"

text \<open>A \<open>match\<close> on the result, both branches going on.\<close>

definition attempt :: "('w, 'a) action \<Rightarrow> ((frank_error + 'a) \<Rightarrow> ('w, 'b) action) \<Rightarrow> ('w, 'b) action" where
  "attempt m f w = (case m w of (r, w1) \<Rightarrow> f r w1)"

definition require :: "bool \<Rightarrow> frank_error \<Rightarrow> ('w, unit) action" where
  "require ok e = of_result (check ok e)"

lemma succeed_apply [simp]: "succeed x w = (Inr x, w)"
  by (simp add: succeed_def)

lemma fail_apply [simp]: "fail e w = (Inl e, w)"
  by (simp add: fail_def)

lemma of_result_apply [simp]: "of_result r w = (r, w)"
  by (simp add: of_result_def)

lemma require_apply: "require ok e w = (if ok then Inr () else Inl e, w)"
  by (simp add: require_def check_def)

lemma andthen_succeed [simp]: "andthen (succeed x) f = f x"
  by (simp add: andthen_def fun_eq_iff)

lemma andthen_fail [simp]: "andthen (fail e) f = fail e"
  by (simp add: andthen_def fun_eq_iff)

lemma andthen_Inr:
  "andthen m f w = (Inr y, w2) \<longleftrightarrow> (\<exists>x w1. m w = (Inr x, w1) \<and> f x w1 = (Inr y, w2))"
  by (auto simp: andthen_def split: prod.splits sum.splits)

lemma andthen_Inl:
  "andthen m f w = (Inl e, w2) \<longleftrightarrow>
     m w = (Inl e, w2) \<or> (\<exists>x w1. m w = (Inr x, w1) \<and> f x w1 = (Inl e, w2))"
  by (auto simp: andthen_def split: prod.splits sum.splits)

text \<open>
  Reasoning about what an action leaves behind: \<open>leaves m P Q w\<close> says that the error case ends in
  a world with \<open>P\<close> and the other case in a result and a world with \<open>Q\<close>.
\<close>

definition leaves ::
  "('w, 'a) action \<Rightarrow> ('w \<Rightarrow> bool) \<Rightarrow> ('a \<Rightarrow> 'w \<Rightarrow> bool) \<Rightarrow> 'w \<Rightarrow> bool" where
  "leaves m P Q w \<longleftrightarrow> (case m w of (Inl e, w1) \<Rightarrow> P w1 | (Inr x, w1) \<Rightarrow> Q x w1)"

lemma leaves_succeed [simp]: "leaves (succeed x) P Q w \<longleftrightarrow> Q x w"
  by (simp add: leaves_def)

lemma leaves_fail [simp]: "leaves (fail e) P Q w \<longleftrightarrow> P w"
  by (simp add: leaves_def)

lemma leaves_require [simp]: "leaves (require ok e) P Q w \<longleftrightarrow> (if ok then Q () w else P w)"
  by (simp add: leaves_def require_apply)

lemma leaves_of_result [simp]:
  "leaves (of_result r) P Q w \<longleftrightarrow> (case r of Inl e \<Rightarrow> P w | Inr x \<Rightarrow> Q x w)"
  by (auto simp: leaves_def split: sum.split)

lemma leaves_andthen [simp]:
  "leaves (andthen m f) P Q w \<longleftrightarrow> leaves m P (\<lambda>x. leaves (f x) P Q) w"
  by (auto simp: leaves_def andthen_def split: prod.splits sum.splits)

lemma leaves_always [simp]: "leaves (always m) P Q w \<longleftrightarrow> (case m w of (x, w1) \<Rightarrow> Q x w1)"
  by (auto simp: leaves_def always_def split: prod.splits)

lemma leaves_attempt [simp]:
  "leaves (attempt m f) P Q w \<longleftrightarrow>
     leaves m (\<lambda>w1. \<forall>e. m w = (Inl e, w1) \<longrightarrow> leaves (f (Inl e)) P Q w1)
       (\<lambda>x w1. leaves (f (Inr x)) P Q w1) w"
  by (auto simp: leaves_def attempt_def split: prod.splits sum.splits)

lemma leaves_mono:
  "leaves m P Q w \<Longrightarrow> (\<And>w1. P w1 \<Longrightarrow> P' w1) \<Longrightarrow> (\<And>x w1. Q x w1 \<Longrightarrow> Q' x w1) \<Longrightarrow> leaves m P' Q' w"
  by (auto simp: leaves_def split: prod.splits sum.splits)

end
