(* ===== verification/Tool_Registry.thy ===== *)
theory Tool_Registry
  imports Effects Json
begin

text \<open>
  The registry of tools and its policy (\<open>frankclaw-tools/src/lib.rs\<close>): which tool calls of an agent
  reach a tool. A tool is its definition and an action over an arbitrary world, in which the
  services of the tool context live.
\<close>

section \<open>Approval\<close>

datatype approval_level = ApproveReadOnly | ApproveMutating | ApproveDestructive

primrec approval_name :: "approval_level \<Rightarrow> string" where
  "approval_name ApproveReadOnly = ''readonly''"
| "approval_name ApproveMutating = ''mutating''"
| "approval_name ApproveDestructive = ''destructive''"

fun approves :: "approval_level \<Rightarrow> tool_risk_level \<Rightarrow> bool" where
  "approves level ReadOnly \<longleftrightarrow> True"
| "approves level Mutating \<longleftrightarrow> level = ApproveMutating \<or> level = ApproveDestructive"
| "approves level Destructive \<longleftrightarrow> level = ApproveDestructive"

text \<open>The serialization of the enum in lower case.\<close>

primrec risk_name :: "tool_risk_level \<Rightarrow> string" where
  "risk_name ReadOnly = ''readonly''"
| "risk_name Mutating = ''mutating''"
| "risk_name Destructive = ''destructive''"

record tool_policy =
  tp_approval_level :: approval_level
  tp_approved_tools :: "string list"

definition truthy_env :: "(string \<rightharpoonup> string) \<Rightarrow> string \<Rightarrow> bool" where
  "truthy_env env name =
     (case env name of
        Some v \<Rightarrow> to_lower (trim v) \<in> {''1'', ''true'', ''yes'', ''on''}
      | None \<Rightarrow> False)"

definition tool_policy_from_env :: "(string \<rightharpoonup> string) \<Rightarrow> tool_policy" where
  "tool_policy_from_env env =
     \<lparr>tp_approval_level =
        (case env ''FRANKCLAW_TOOL_APPROVAL'' of
           Some v \<Rightarrow>
             (let level = to_lower (trim v)
              in if level = ''mutating'' then ApproveMutating
                 else if level = ''destructive'' then ApproveDestructive
                 else ApproveReadOnly)
         | None \<Rightarrow>
             if truthy_env env ''FRANKCLAW_ALLOW_BROWSER_MUTATIONS'' then ApproveMutating
             else ApproveReadOnly),
      tp_approved_tools = []\<rparr>"

definition policy_approves :: "tool_policy \<Rightarrow> string \<Rightarrow> tool_risk_level \<Rightarrow> bool" where
  "policy_approves p tool_name risk \<longleftrightarrow>
     tool_name \<in> set (tp_approved_tools p) \<or> approves (tp_approval_level p) risk"

definition tool_risk :: "string \<Rightarrow> tool_risk_level" where
  "tool_risk name =
     (if name \<in> {''browser_click'', ''browser_type'', ''browser_press'', ''browser_select_option'',
          ''bash'', ''file_write'', ''file_edit'', ''message_send'', ''message_react'', ''cron_add''}
      then Mutating
      else if name = ''cron_remove'' then Destructive
      else ReadOnly)"

section \<open>The registry\<close>

record tool_context =
  tx_agent_id :: agent_id
  tx_session_key :: "session_key option"

record 'w tool =
  tl_definition :: tool_def
  tl_invoke :: "json \<Rightarrow> tool_context \<Rightarrow> ('w, json) action"

record 'w tool_registry =
  tr_tools :: "string \<rightharpoonup> 'w tool"
  tr_policy :: tool_policy

record tool_output =
  ot_name :: string
  ot_output :: json
  ot_image_content :: "image_content list"

definition register_tool :: "'w tool \<Rightarrow> 'w tool_registry \<Rightarrow> 'w tool_registry" where
  "register_tool t reg = reg\<lparr>tr_tools := (tr_tools reg)(td_name (tl_definition t) \<mapsto> t)\<rparr>"

definition with_policy :: "'w tool list \<Rightarrow> tool_policy \<Rightarrow> 'w tool_registry" where
  "with_policy builtins policy =
     fold register_tool builtins \<lparr>tr_tools = Map.empty, tr_policy = policy\<rparr>"

definition with_builtins :: "'w tool list \<Rightarrow> (string \<rightharpoonup> string) \<Rightarrow> 'w tool_registry" where
  "with_builtins builtins env = with_policy builtins (tool_policy_from_env env)"

text \<open>The tools that \<open>with_policy\<close> registers, with the risk level of their definitions.\<close>

definition builtin_risks :: "(string \<times> tool_risk_level) list" where
  "builtin_risks =
     [(''session_inspect'', ReadOnly), (''canvas_get'', ReadOnly), (''canvas_set'', ReadOnly),
      (''canvas_append'', ReadOnly), (''canvas_clear'', ReadOnly), (''browser_open'', ReadOnly),
      (''browser_extract'', ReadOnly), (''browser_snapshot'', ReadOnly),
      (''browser_click'', Mutating), (''browser_type'', Mutating), (''browser_wait'', ReadOnly),
      (''browser_press'', Mutating), (''browser_sessions'', ReadOnly),
      (''browser_screenshot'', ReadOnly), (''browser_aria_snapshot'', ReadOnly),
      (''browser_close'', ReadOnly), (''bash'', Mutating), (''web_fetch'', ReadOnly),
      (''web_search'', ReadOnly), (''sessions_list'', ReadOnly), (''sessions_history'', ReadOnly),
      (''file_read'', ReadOnly), (''file_write'', Mutating), (''file_edit'', Mutating),
      (''message_send'', Mutating), (''message_react'', Mutating), (''cron_list'', ReadOnly),
      (''cron_add'', Mutating), (''cron_remove'', Destructive), (''config_get'', ReadOnly),
      (''agents_list'', ReadOnly), (''memory_get'', ReadOnly), (''memory_search'', ReadOnly),
      (''pdf_read'', ReadOnly), (''image_describe'', ReadOnly), (''audio_transcribe'', ReadOnly)]"

fun validate_names :: "'w tool_registry \<Rightarrow> string list \<Rightarrow> frank_error + unit" where
  "validate_names reg [] = Inr ()"
| "validate_names reg (n # ns) =
     (if tr_tools reg n = None
      then Inl (ConfigValidation (''unknown tool '' @ [CHR 0x27] @ n @ [CHR 0x27]))
      else validate_names reg ns)"

definition definitions :: "'w tool_registry \<Rightarrow> string list \<Rightarrow> frank_error + tool_def list" where
  "definitions reg names =
     (case validate_names reg names of
        Inl e \<Rightarrow> Inl e
      | Inr _ \<Rightarrow> Inr (map tl_definition (List.map_filter (tr_tools reg) names)))"

definition image_of :: "json \<Rightarrow> image_content option" where
  "image_of v =
     (case (get_str v ''mime_type'', get_str v ''data'') of
        (Some mime, Some d) \<Rightarrow> Some \<lparr>img_mime = mime, img_data = d\<rparr>
      | _ \<Rightarrow> None)"

text \<open>The images and the output without them.\<close>

fun extract_image_content :: "json \<Rightarrow> image_content list \<times> json" where
  "extract_image_content (JObject members) =
     ((case map_of members ''_image_content'' of
         Some (JArray xs) \<Rightarrow> List.map_filter image_of xs
       | _ \<Rightarrow> []),
      JObject (filter (\<lambda>(k, v). k \<noteq> ''_image_content'') members))"
| "extract_image_content v = ([], v)"

definition tool_output_of :: "string \<Rightarrow> json \<Rightarrow> tool_output" where
  "tool_output_of name output =
     (case extract_image_content output of
        (images, rest) \<Rightarrow> \<lparr>ot_name = name, ot_output = rest, ot_image_content = images\<rparr>)"

definition not_allowed :: "string \<Rightarrow> tool_context \<Rightarrow> frank_error" where
  "not_allowed name ctx =
     AgentRuntime (''tool '' @ [CHR 0x27] @ name @ [CHR 0x27] @ '' is not allowed for agent '' @
       [CHR 0x27] @ agent_str (tx_agent_id ctx) @ [CHR 0x27])"

definition approval_required :: "string \<Rightarrow> tool_risk_level \<Rightarrow> frank_error" where
  "approval_required name risk =
     AgentRuntime (''tool '' @ [CHR 0x27] @ name @ [CHR 0x27] @ '' requires '' @ risk_name risk @
       '' approval. Set FRANKCLAW_TOOL_APPROVAL='' @ risk_name risk @ '' to enable.'')"

definition invoke_allowed ::
  "'w tool_registry \<Rightarrow> string list \<Rightarrow> string \<Rightarrow> json \<Rightarrow> tool_context \<Rightarrow> ('w, tool_output) action" where
  "invoke_allowed reg allowed name args ctx =
     andthen (require (name \<in> set allowed) (not_allowed name ctx)) (\<lambda>_.
     case tr_tools reg name of
       None \<Rightarrow> fail (InvalidRequest (''unknown tool '' @ [CHR 0x27] @ name @ [CHR 0x27]))
     | Some tool \<Rightarrow>
         andthen (require (policy_approves (tr_policy reg) name (td_risk_level (tl_definition tool)))
                    (approval_required name (td_risk_level (tl_definition tool)))) (\<lambda>_.
         andthen (tl_invoke tool args ctx) (\<lambda>output.
         succeed (tool_output_of name output))))"

section \<open>Which calls reach a tool\<close>

definition matches_builtins :: "'w tool list \<Rightarrow> bool" where
  "matches_builtins builtins \<longleftrightarrow>
     map (\<lambda>t. (td_name (tl_definition t), td_risk_level (tl_definition t))) builtins = builtin_risks"

lemma register_policy [simp]: "tr_policy (fold register_tool ts reg) = tr_policy reg"
proof (induction ts arbitrary: reg)
  case (Cons a ts)
  then show ?case by (simp add: register_tool_def)
qed simp

lemma registered:
  "tr_tools (fold register_tool ts reg) n = Some t \<Longrightarrow>
     tr_tools reg n = Some t \<or> (t \<in> set ts \<and> td_name (tl_definition t) = n)"
proof (induction ts arbitrary: reg)
  case (Cons a ts)
  then have "tr_tools (register_tool a reg) n = Some t \<or> (t \<in> set ts \<and> td_name (tl_definition t) = n)"
    by simp
  then show ?case by (auto simp: register_tool_def split: if_splits)
qed simp

lemma registered_builtin:
  "tr_tools (with_builtins ts env) n = Some t \<Longrightarrow> t \<in> set ts \<and> td_name (tl_definition t) = n"
  using registered [of ts _ n t] by (fastforce simp: with_builtins_def with_policy_def)

text \<open>The table of risks by name, which the interactive approval uses, agrees with the definitions.\<close>

lemma tool_risk_builtin: "list_all (\<lambda>(n, risk). tool_risk n = risk) builtin_risks"
  by (simp add: builtin_risks_def tool_risk_def)

lemma builtin_risk:
  assumes "matches_builtins ts" "t \<in> set ts"
  shows "td_risk_level (tl_definition t) = tool_risk (td_name (tl_definition t))"
proof -
  have "(td_name (tl_definition t), td_risk_level (tl_definition t)) \<in> set builtin_risks"
    using assms unfolding matches_builtins_def by (metis (mono_tags, lifting) image_eqI set_map)
  with tool_risk_builtin show ?thesis by (auto simp: list_all_iff)
qed

lemma invoke_refused:
  "name \<notin> set allowed \<or> (\<forall>t. tr_tools reg name = Some t \<longrightarrow>
       \<not> policy_approves (tr_policy reg) name (td_risk_level (tl_definition t))) \<Longrightarrow>
     \<exists>e. invoke_allowed reg allowed name args ctx w = (Inl e, w)"
  by (auto simp: invoke_allowed_def andthen_def require_apply split: option.split)

lemma invoke_reaches:
  assumes "name \<in> set allowed" "tr_tools reg name = Some t"
    and "policy_approves (tr_policy reg) name (td_risk_level (tl_definition t))"
  shows "invoke_allowed reg allowed name args ctx w =
    (case tl_invoke t args ctx w of
       (Inl e, w1) \<Rightarrow> (Inl e, w1)
     | (Inr output, w1) \<Rightarrow> (Inr (tool_output_of name output), w1))"
  using assms by (simp add: invoke_allowed_def andthen_def require_apply split: prod.split sum.split)


definition named_tool :: "string \<times> tool_risk_level \<Rightarrow> unit tool" where
  "named_tool p =
     \<lparr>tl_definition = \<lparr>td_name = fst p, td_description = [], td_parameters = [], td_risk_level = snd p\<rparr>,
      tl_invoke = (\<lambda>_ _. succeed JNull)\<rparr>"

lemma named_tools_match: "matches_builtins (map named_tool builtin_risks)"
  by (simp add: matches_builtins_def named_tool_def o_def)


text \<open>The policy is monotone: what a level approves every higher level approves.\<close>

lemma approves_mono: "approves ApproveReadOnly r \<Longrightarrow> approves ApproveMutating r"
  "approves ApproveMutating r \<Longrightarrow> approves ApproveDestructive r"
  by (cases r; simp)+

text \<open>The images leave the output, so that they are not sent as text as well.\<close>

lemma extract_removes_images: "json_get (snd (extract_image_content v)) ''_image_content'' = None"
proof (cases v)
  case (JObject members)
  have "map_of (filter (\<lambda>(k, v). k \<noteq> ''_image_content'') members) ''_image_content'' = None"
    by (auto simp: map_of_eq_None_iff)
  with JObject show ?thesis by simp
qed simp_all

text \<open>Tools that overwrite or delete a canvas count as read-only.\<close>

lemma canvas_clear_read_only: "tool_risk ''canvas_clear'' = ReadOnly"
  by (simp add: tool_risk_def)

end
