(* ===== verification/Catalog.thy ===== *)
theory Catalog
  imports Cost_Guard Context
begin

text \<open>
  The model catalog (\<open>frankclaw-models/src/catalog.rs\<close>) with the full definition of a model
  (\<open>frankclaw-core/src/model.rs\<close>). Prices are cents per million tokens, which is the unit of
  \<open>costs.rs\<close> per token in 10^-8 dollars; the theorem compares the two tables.
\<close>

section \<open>Model definitions (model.rs)\<close>

datatype model_api =
    OpenaiCompletions | OpenaiResponses | AnthropicMessages | GoogleGenerativeAi | Ollama
  | BedrockConverseStream

datatype input_modality = InText | InImage | InAudio

record model_price =
  mc_input_per_mtok :: money
  mc_output_per_mtok :: money
  mc_cache_read_per_mtok :: "money option"
  mc_cache_write_per_mtok :: "money option"

record model_compat =
  mk_supports_tools :: bool
  mk_supports_vision :: bool
  mk_supports_streaming :: bool
  mk_supports_json_mode :: bool
  mk_supports_system_message :: bool

text \<open>The fields that the context engine does not read.\<close>

record full_model_def = model_def +
  md_name :: string
  md_api :: model_api
  md_reasoning :: bool
  md_input :: "input_modality list"
  md_cost :: model_price
  md_compat :: model_compat

definition catalog_price :: "money \<Rightarrow> money \<Rightarrow> money option \<Rightarrow> money option \<Rightarrow> model_price" where
  "catalog_price i out r w =
     \<lparr>mc_input_per_mtok = i, mc_output_per_mtok = out, mc_cache_read_per_mtok = r,
      mc_cache_write_per_mtok = w\<rparr>"

definition catalog_flags :: "bool \<Rightarrow> bool \<Rightarrow> bool \<Rightarrow> bool \<Rightarrow> bool \<Rightarrow> model_compat" where
  "catalog_flags tools vision streaming json_mode system_message =
     \<lparr>mk_supports_tools = tools, mk_supports_vision = vision, mk_supports_streaming = streaming,
      mk_supports_json_mode = json_mode, mk_supports_system_message = system_message\<rparr>"

definition catalog_model ::
  "string \<Rightarrow> string \<Rightarrow> model_api \<Rightarrow> bool \<Rightarrow> input_modality list \<Rightarrow> model_price \<Rightarrow> u32 \<Rightarrow> u32 \<Rightarrow>
     model_compat \<Rightarrow> full_model_def" where
  "catalog_model i name api reasoning inputs c window out k =
     \<lparr>md_id = i, md_context_window = window, md_max_output_tokens = out, md_name = name,
      md_api = api, md_reasoning = reasoning, md_input = inputs, md_cost = c, md_compat = k\<rparr>"

section \<open>The catalog\<close>

definition catalog :: "full_model_def list" where
  "catalog =
     [catalog_model ''gpt-4o'' ''GPT-4o'' OpenaiCompletions False [InText, InImage]
        (catalog_price 250 1000 None None) 128000 16384
        (catalog_flags True True True True True),
      catalog_model ''gpt-4o-mini'' ''GPT-4o Mini'' OpenaiCompletions False [InText, InImage]
        (catalog_price 15 60 None None) 128000 16384
        (catalog_flags True True True True True),
      catalog_model ''gpt-4-turbo'' ''GPT-4 Turbo'' OpenaiCompletions False [InText, InImage]
        (catalog_price 1000 3000 None None) 128000 4096
        (catalog_flags True True True True True),
      catalog_model ''o1'' ''o1'' OpenaiCompletions True [InText, InImage]
        (catalog_price 1500 6000 None None) 200000 100000
        (catalog_flags True True True False False),
      catalog_model ''o3-mini'' ''o3-mini'' OpenaiCompletions True [InText]
        (catalog_price 110 440 None None) 200000 100000
        (catalog_flags True False True False False),
      catalog_model ''claude-opus-4-6'' ''Claude Opus 4.6'' AnthropicMessages False [InText, InImage]
        (catalog_price 1500 7500 (Some 150) (Some 1875)) 200000 32000
        (catalog_flags True True True False True),
      catalog_model ''claude-sonnet-4-6'' ''Claude Sonnet 4.6'' AnthropicMessages False [InText, InImage]
        (catalog_price 300 1500 (Some 30) (Some 375)) 200000 16000
        (catalog_flags True True True False True),
      catalog_model ''claude-haiku-4-5-20251001'' ''Claude Haiku 4.5'' AnthropicMessages False [InText, InImage]
        (catalog_price 80 400 (Some 8) (Some 100)) 200000 8192
        (catalog_flags True True True False True),
      catalog_model ''claude-sonnet-4-5-20250514'' ''Claude Sonnet 4.5'' AnthropicMessages False [InText, InImage]
        (catalog_price 300 1500 (Some 30) (Some 375)) 200000 16000
        (catalog_flags True True True False True)]"

definition lookup_model :: "string \<Rightarrow> full_model_def option" where
  "lookup_model model_id = find (\<lambda>m. md_id m = model_id) catalog"

definition models_for_api :: "model_api \<Rightarrow> full_model_def list" where
  "models_for_api api = filter (\<lambda>m. md_api m = api) catalog"

text \<open>The metadata of a model that the catalog does not have.\<close>

definition unknown_model :: "string \<Rightarrow> model_api \<Rightarrow> full_model_def" where
  "unknown_model model_id api =
     (if api = AnthropicMessages
      then catalog_model model_id model_id api False [InText, InImage] (catalog_price 0 0 None None) 200000 8192
             (catalog_flags True True True False True)
      else if api = OpenaiCompletions \<or> api = OpenaiResponses
      then catalog_model model_id model_id api False [InText] (catalog_price 0 0 None None) 128000 4096
             (catalog_flags True False True True True)
      else if api = Ollama
      then catalog_model model_id model_id api False [InText] (catalog_price 0 0 None None) 8192 2048
             (catalog_flags False False True False True)
      else catalog_model model_id model_id api False [InText] (catalog_price 0 0 None None) 32000 4096
             (catalog_flags False False False False False))"

definition enrich :: "string \<Rightarrow> model_api \<Rightarrow> full_model_def" where
  "enrich model_id api =
     (case lookup_model model_id of Some known \<Rightarrow> known | None \<Rightarrow> unknown_model model_id api)"

section \<open>The catalog is consistent\<close>

lemma catalog_ids_distinct: "distinct (map md_id catalog)"
  by (simp add: catalog_def catalog_model_def)

lemma lookup_model_id: "lookup_model i = Some m \<Longrightarrow> md_id m = i \<and> m \<in> set catalog"
  by (auto simp: lookup_model_def find_Some_iff)

definition budget_of :: "full_model_def \<Rightarrow> nat" where
  "budget_of m = unat (available_input_budget (model_def.truncate m) None)"

lemma budget_of_model:
  "budget_of (catalog_model i n api r inp c window out k) =
     (unat window - unat out - 2048) * 5 div 6"
proof -
  have "unat (sat_sub (sat_sub window out) (2048 :: u32)) * 5 div 6 < 2 ^ 32"
    using unat_less_pow [of "sat_sub (sat_sub window out) (2048 :: u32)"] by simp
  then show ?thesis
    by (simp add: budget_of_def available_input_budget_def catalog_model_def model_def.defs
        system_overhead_tokens_def unat_of_nat_small unat_sat_sub)
qed

lemma catalog_budgets: "list_all (\<lambda>m. 3000 \<le> budget_of m) catalog"
  by (simp add: catalog_def budget_of_model)

text \<open>
  Every model a provider offers can be used: its definition, from the catalog or by default,
  carries the identifier asked for and leaves the context engine a budget of at least three
  thousand tokens.
\<close>

lemma enriched_model_usable:
  "md_id (enrich i api) = i \<and> 3000 \<le> budget_of (enrich i api)"
proof (cases "lookup_model i")
  case None
  then show ?thesis
    by (simp add: enrich_def unknown_model_def budget_of_model) (simp add: catalog_model_def)
next
  case (Some m)
  with lookup_model_id [OF Some] catalog_budgets show ?thesis
    by (auto simp: enrich_def list_all_iff)
qed

text \<open>
  The two price tables agree: the guard charges every model of the catalog what the catalog
  says, but one, whose identifier only the catalog knows and which is charged the default.
\<close>

lemma catalog_prices_agree:
  "list_all (\<lambda>m. md_id m = ''claude-sonnet-4-5-20250514'' \<or>
      model_cost (md_id m) =
        Some (mc_input_per_mtok (md_cost m), mc_output_per_mtok (md_cost m))) catalog \<and>
   model_cost ''claude-sonnet-4-5-20250514'' = None"
  by (simp add: catalog_def catalog_model_def catalog_price_def model_cost_def price_table_def ends_with_def
      rsplit_once_def is_local_model_def local_prefixes_def to_lower_def ascii_lower_def starts_with_def)

end
