(* ===== verification/Session_Types.thy ===== *)
theory Session_Types
  imports Effects Json
begin

text \<open>
  The records of the session store and its interface (\<open>frankclaw-core/src/session.rs\<close>). A store is
  a record of actions over an arbitrary world.
\<close>

record session_reset_policy =
  rp_daily_at_hour :: "u8 option"
  rp_idle_timeout_secs :: "u64 option"
  rp_max_entries :: "nat option"

definition default_reset_policy :: session_reset_policy where
  "default_reset_policy =
     \<lparr>rp_daily_at_hour = None, rp_idle_timeout_secs = None, rp_max_entries = Some 500\<rparr>"

record pruning_config =
  pn_max_age_days :: u32
  pn_max_sessions_per_agent :: nat
  pn_disk_budget_bytes :: u64

definition default_pruning :: pruning_config where
  "default_pruning =
     \<lparr>pn_max_age_days = 30, pn_max_sessions_per_agent = 500, pn_disk_budget_bytes = 10 * 1024 * 1024\<rparr>"

record session_entry =
  se_key :: session_key
  se_agent_id :: agent_id
  se_channel :: channel_id
  se_account_id :: string
  se_scoping :: session_scoping
  se_created_at :: datetime
  se_last_message_at :: "datetime option"
  se_thread_id :: "string option"
  se_metadata :: json

record transcript_entry =
  tn_seq :: u64
  tn_role :: role
  tn_content :: string
  tn_timestamp :: datetime
  tn_metadata :: "json option"

record 'w session_store =
  st_get :: "session_key \<Rightarrow> ('w, session_entry option) action"
  st_upsert :: "session_entry \<Rightarrow> ('w, unit) action"
  st_delete :: "session_key \<Rightarrow> ('w, unit) action"
  st_list :: "agent_id \<Rightarrow> nat \<Rightarrow> nat \<Rightarrow> ('w, session_entry list) action"
  st_append_transcript :: "session_key \<Rightarrow> transcript_entry \<Rightarrow> ('w, unit) action"
  st_get_transcript :: "session_key \<Rightarrow> nat \<Rightarrow> u64 option \<Rightarrow> ('w, transcript_entry list) action"
  st_clear_transcript :: "session_key \<Rightarrow> ('w, unit) action"
  st_maintenance :: "pruning_config \<Rightarrow> ('w, u64) action"

end
