(* ===== verification/Turn_Support.thy ===== *)
theory Turn_Support
  imports Session_Types Sanitize Utf8_Text File_Tools
begin

text \<open>
  What a turn of the runtime is made of (\<open>frankclaw-runtime/src/lib.rs\<close>): the detection of repeated
  tool calls, the accumulation of usage, the front matter and truncation of texts, and the
  conversions between transcript entries and messages. The hash of a call's arguments and the
  parser and printer of JSON are parameters.
\<close>

section \<open>Limits\<close>

definition max_tool_rounds :: nat where
  "max_tool_rounds = 4"

definition max_tool_calls_per_turn :: nat where
  "max_tool_calls_per_turn = 8"

definition max_tool_result_chars :: nat where
  "max_tool_result_chars = 400000"

definition tool_repeat_block_threshold :: nat where
  "tool_repeat_block_threshold = 6"

definition turn_safety_timeout_secs :: nat where
  "turn_safety_timeout_secs = 600"

section \<open>Repeated tool calls\<close>

type_synonym tool_call_tracker = "string \<times> u64 \<Rightarrow> nat"

definition tracker_new :: tool_call_tracker where
  "tracker_new = (\<lambda>_. 0)"

definition repeat_message :: "string \<Rightarrow> nat \<Rightarrow> string" where
  "repeat_message name count =
     ''tool '' @ [CHR 0x27] @ name @ [CHR 0x27] @ '' called '' @ show_nat count @
     '' times with identical arguments '' @ [CHR 0xE2, CHR 0x80, CHR 0x94] @ '' possible infinite loop''"

definition tracker_record ::
  "(string \<Rightarrow> u64) \<Rightarrow> string \<Rightarrow> string \<Rightarrow> tool_call_tracker \<Rightarrow> (frank_error + unit) \<times> tool_call_tracker" where
  "tracker_record hash name arguments seen =
     (let key = (name, hash arguments); count = seen key + 1; seen1 = seen(key := count)
      in (if tool_repeat_block_threshold \<le> count
          then Inl (AgentRuntime (repeat_message name count)) else Inr (), seen1))"

text \<open>The calls that are recorded before the first one that is refused.\<close>

fun record_calls ::
  "(string \<Rightarrow> u64) \<Rightarrow> (string \<times> string) list \<Rightarrow> tool_call_tracker \<Rightarrow> nat \<times> tool_call_tracker" where
  "record_calls hash [] seen = (0, seen)"
| "record_calls hash ((n, a) # calls) seen =
     (case tracker_record hash n a seen of
        (Inl e, seen1) \<Rightarrow> (0, seen1)
      | (Inr _, seen1) \<Rightarrow> (case record_calls hash calls seen1 of (k, seen2) \<Rightarrow> (Suc k, seen2)))"

lemma record_calls_bound:
  "length (filter (\<lambda>c. c = (n, a)) (take (fst (record_calls hash calls seen)) calls))
     \<le> 5 - seen (n, hash a)"
proof (induction hash calls seen rule: record_calls.induct)
  case (2 hash m b calls seen)
  show ?case
  proof (cases "fst (tracker_record hash m b seen)")
    case (Inl e)
    then show ?thesis by (cases "tracker_record hash m b seen") auto
  next
    case (Inr u)
    obtain seen1 where rec: "tracker_record hash m b seen = (Inr (), seen1)"
      and below: "seen (m, hash b) < 5"
      and seen1: "\<And>k. seen1 k = (if k = (m, hash b) then Suc (seen k) else seen k)"
      using Inr by (auto simp: tracker_record_def Let_def tool_repeat_block_threshold_def split: if_splits)
    have "length (filter (\<lambda>c. c = (n, a)) (take (fst (record_calls hash calls seen1)) calls))
        \<le> 5 - seen1 (n, hash a)" using 2 rec by auto
    moreover have "fst (record_calls hash ((m, b) # calls) seen) = Suc (fst (record_calls hash calls seen1))"
      using rec by (simp split: prod.split)
    ultimately show ?thesis
      using below seen1 [of "(n, hash a)"]
      by (cases "m = n \<and> b = a") (auto split: if_splits)
  qed
qed simp

text \<open>
  No tool is called more than five times with the same arguments in one turn, whatever the hash.
\<close>

lemma repeated_calls_blocked:
  "length (filter (\<lambda>c. c = (n, a)) (take (fst (record_calls hash calls tracker_new)) calls)) \<le> 5"
  using record_calls_bound [of n a hash calls tracker_new] by (simp add: tracker_new_def)

section \<open>Usage\<close>

fun add_opt :: "u32 option \<Rightarrow> u32 option \<Rightarrow> u32 option" where
  "add_opt (Some t) (Some d) = Some (t + d)"
| "add_opt None (Some d) = Some d"
| "add_opt t None = t"

definition zero_usage :: usage where
  "zero_usage =
     \<lparr>us_input_tokens = 0, us_output_tokens = 0, us_cache_read_tokens = None,
      us_cache_write_tokens = None\<rparr>"

definition accumulate_usage :: "usage \<Rightarrow> usage \<Rightarrow> usage" where
  "accumulate_usage acc delta =
     \<lparr>us_input_tokens = us_input_tokens acc + us_input_tokens delta,
      us_output_tokens = us_output_tokens acc + us_output_tokens delta,
      us_cache_read_tokens = add_opt (us_cache_read_tokens acc) (us_cache_read_tokens delta),
      us_cache_write_tokens = add_opt (us_cache_write_tokens acc) (us_cache_write_tokens delta)\<rparr>"

lemma accumulate_assoc:
  "accumulate_usage (accumulate_usage a b) c = accumulate_usage a (accumulate_usage b c)"
proof -
  have "add_opt (add_opt x y) z = add_opt x (add_opt y z)" for x y z
    by (cases x; cases y; cases z) (auto simp: add.assoc)
  then show ?thesis by (simp add: accumulate_usage_def add.assoc)
qed

section \<open>Workspace files\<close>

definition bootstrap_files :: "string list" where
  "bootstrap_files = [''SOUL.md'', ''IDENTITY.md'', ''USER.md'', ''BOOTSTRAP.md'', ''MEMORY.md'']"

definition max_bootstrap_total_bytes :: nat where
  "max_bootstrap_total_bytes = 150 * 1024"

definition max_bootstrap_file_bytes :: nat where
  "max_bootstrap_file_bytes = 50 * 1024"

definition strip_yaml_front_matter :: "string \<Rightarrow> string" where
  "strip_yaml_front_matter content =
     (let trimmed = trim_start content
      in if \<not> starts_with trimmed ''---'' then content
         else (case find_match (newline # ''---'') (drop 3 trimmed) of
                 Some (_, after) \<Rightarrow> dropWhile (\<lambda>c. c = newline) after
               | None \<Rightarrow> content))"

definition shorten_file :: "string \<Rightarrow> string" where
  "shorten_file content =
     (if max_bootstrap_file_bytes < length content
      then prefix_chars max_bootstrap_file_bytes content @ [newline, newline] @
           ''[... truncated, file too large ...]''
      else content)"

text \<open>The loop over the files: a file that would exceed the total ends it.\<close>

fun bootstrap_loop :: "(string \<Rightarrow> string option) \<Rightarrow> string list \<Rightarrow> nat \<Rightarrow> string list" where
  "bootstrap_loop read [] used = []"
| "bootstrap_loop read (f # fs) used =
     (case read f of
        None \<Rightarrow> bootstrap_loop read fs used
      | Some raw \<Rightarrow>
          if trim raw = [] then bootstrap_loop read fs used
          else (let content = shorten_file (strip_yaml_front_matter raw)
                in if max_bootstrap_total_bytes < used + length content then []
                   else (''## '' @ f @ [newline, newline] @ sanitize_for_prompt content) #
                        bootstrap_loop read fs (used + length content)))"

definition read_workspace_bootstrap_files :: "(string \<Rightarrow> string option) \<Rightarrow> string" where
  "read_workspace_bootstrap_files read =
     (let parts = bootstrap_loop read bootstrap_files 0
      in if parts = [] then []
         else ''# Workspace Context'' @ [newline, newline] @ join [newline, newline] parts)"

text \<open>The per-file limit in bytes cuts at as many characters, so that a file of multi-byte
  characters can keep several times the limit.\<close>

lemma prefix_chars_ascii: "\<forall>c\<in>set s. \<not> is_continuation c \<Longrightarrow> prefix_chars n s = take n s"
  by (induction n s rule: prefix_chars.induct) (auto split: nat.splits)

lemma shorten_file_ascii:
  "\<forall>c\<in>set content. \<not> is_continuation c \<Longrightarrow>
     length (shorten_file content) \<le> max_bootstrap_file_bytes + 38"
  by (simp add: shorten_file_def prefix_chars_ascii)

section \<open>Tool output\<close>

definition omission_marker :: "nat \<Rightarrow> string" where
  "omission_marker omitted =
     [newline, newline] @ ''... ('' @ show_nat omitted @ '' characters omitted) ...'' @
     [newline, newline]"

text \<open>\<open>chars().skip(n)\<close>\<close>

definition skip_chars :: "nat \<Rightarrow> string \<Rightarrow> string" where
  "skip_chars n s = drop (length (prefix_chars n s)) s"

definition truncate_tool_output :: "string \<Rightarrow> string" where
  "truncate_tool_output output =
     (let sanitized = sanitize_for_prompt output;
          count = char_count sanitized
      in if count \<le> max_tool_result_chars then sanitized
         else (let head_chars = max_tool_result_chars * 4 div 5;
                   tail_chars = max_tool_result_chars div 5;
                   omitted = count - head_chars - tail_chars
               in prefix_chars head_chars sanitized @ omission_marker omitted @
                  skip_chars (count - tail_chars) sanitized))"

lemma char_count_skip: "char_count (skip_chars n s) = char_count s - n"
proof -
  have "char_count s = char_count (prefix_chars n s) + char_count (skip_chars n s)"
    unfolding skip_chars_def by (metis append_take_drop_id char_count_simps(3) prefix_chars_take)
  then show ?thesis by (simp add: char_count_prefix_chars)
qed

text \<open>The output is cut to the limit; only the marker comes on top.\<close>

lemma truncate_bounded:
  "char_count (truncate_tool_output output) \<le>
     max_tool_result_chars + char_count (omission_marker (char_count (sanitize_for_prompt output)
       - max_tool_result_chars))"
  by (simp add: truncate_tool_output_def Let_def char_count_prefix_chars char_count_skip
      max_tool_result_chars_def)

lemma truncate_short:
  "char_count (sanitize_for_prompt output) \<le> max_tool_result_chars \<Longrightarrow>
     truncate_tool_output output = sanitize_for_prompt output"
  by (simp add: truncate_tool_output_def Let_def)

section \<open>Transcripts and messages\<close>

definition call_of_json :: "json \<Rightarrow> tool_call option" where
  "call_of_json c =
     (case (get_str c ''id'', get_str c ''name'') of
        (Some i, Some n) \<Rightarrow>
          Some \<lparr>tc_id = i, tc_name = n,
                tc_arguments = (case get_str c ''arguments'' of Some a \<Rightarrow> a | None \<Rightarrow> ''{}'')\<rparr>
      | _ \<Rightarrow> None)"

definition json_of_call :: "tool_call \<Rightarrow> json" where
  "json_of_call c =
     JObject [(''id'', JString (tc_id c)), (''name'', JString (tc_name c)),
              (''arguments'', JString (tc_arguments c))]"

definition entry_calls :: "transcript_entry \<Rightarrow> tool_call list" where
  "entry_calls e =
     (case Option.bind (Option.bind (tn_metadata e) (\<lambda>m. json_get m ''tool_calls'')) as_array of
        Some calls \<Rightarrow> List.map_filter call_of_json calls
      | None \<Rightarrow> [])"

definition transcript_entry_to_message :: "transcript_entry \<Rightarrow> completion_message" where
  "transcript_entry_to_message e =
     (if tn_role e = Assistant \<and> entry_calls e \<noteq> []
      then assistant_tool_calls (tn_content e) (entry_calls e)
      else (case Option.bind (tn_metadata e) (\<lambda>m. get_str m ''tool_call_id'') of
              Some call_id \<Rightarrow>
                if tn_role e = Tool then tool_result call_id (tn_content e)
                else message_text (tn_role e) (tn_content e)
            | None \<Rightarrow> message_text (tn_role e) (tn_content e)))"

definition build_tool_request_message :: "string \<Rightarrow> tool_call list \<Rightarrow> string" where
  "build_tool_request_message content calls =
     join [newline]
       ((if trim content = [] then [] else [trim content]) @
        map (\<lambda>c. ''[tool_call:'' @ tc_name c @ '' '' @ tc_arguments c @ '']'') calls)"

definition summarize_tool_output ::
  "(string \<Rightarrow> json option) \<Rightarrow> (json \<Rightarrow> string) \<Rightarrow> string \<Rightarrow> string" where
  "summarize_tool_output parse_json print_json content =
     (let preview = (case Option.bind (parse_json content) (\<lambda>v. json_get v ''output'') of
                       Some v \<Rightarrow> print_json v
                     | None \<Rightarrow> content);
          line = map (\<lambda>c. if c = newline then CHR '' '' else c) preview
      in if 120 < char_count line then prefix_chars 120 line @ ''...'' else line)"

lemma call_roundtrip [simp]: "call_of_json (json_of_call c) = Some c"
  by (simp add: call_of_json_def json_of_call_def get_str_def)

lemma calls_roundtrip: "List.map_filter call_of_json (map json_of_call calls) = calls"
  by (induction calls) (simp_all add: List.map_filter_def)

text \<open>
  Stored calls and results come back: the entries that a turn writes for a round of tool calls
  turn into the messages that the turn itself sent.
\<close>

lemma stored_calls_roundtrip:
  "calls \<noteq> [] \<Longrightarrow>
     transcript_entry_to_message
       \<lparr>tn_seq = n, tn_role = Assistant, tn_content = c, tn_timestamp = t,
        tn_metadata = Some (JObject [(''tool_calls'', JArray (map json_of_call calls))])\<rparr> =
     assistant_tool_calls c calls"
  by (simp add: transcript_entry_to_message_def entry_calls_def calls_roundtrip)

end
