(* ===== verification/Agent_Prompt.thy ===== *)
theory Agent_Prompt
  imports Context Config Channel_Types
begin

text \<open>
  The system prompt of an agent (\<open>build_system_prompt\<close> of \<open>frankclaw-runtime/src/lib.rs\<close>), with the
  templates of \<open>frankclaw-runtime/prompts\<close>. The workspace files, the skills, the date and the locale
  are read by the caller.
\<close>

definition agent_identity_template :: string where
  "agent_identity_template =
     ''You are {agent_name}, a personal AI assistant running inside FrankClaw.''"

definition agent_tools_template :: string where
  "agent_tools_template =
     ''You have access to the following tools. Use them proactively when they would help answer the user'' @
     [CHR 0x27] @ ''s request. Do not claim you cannot do something if a tool can help.'' @
     [newline, newline] @ ''{tool_descriptions}'' @ [newline, newline] @
     ''Use tools when they would help. Do not call tools unnecessarily or repeatedly with the same arguments.''"

definition agent_safety_template :: string where
  "agent_safety_template =
     ''Do not attempt to bypass security measures, access unauthorized resources, or execute actions beyond what the user explicitly requests.''"

definition agent_context_template :: string where
  "agent_context_template =
     ''Runtime: agent={agent_id}, model={model_id}, date={date}, tools={tool_count}''"

definition agent_channel_template :: string where
  "agent_channel_template =
     ''You are responding via the {channel} channel. Available features: {features}. Do not attempt to use features not listed here.''"

record skill_prompt =
  sk_name :: string
  sk_prompt :: string

record prompt_inputs =
  pi_bootstrap :: string
  pi_skills :: "skill_prompt list"
  pi_date :: string
  pi_frankclaw_lang :: "string option"
  pi_lang :: "string option"

text \<open>The chain of lookups: the first part of \<open>LANG\<close> with \<open>_\<close> turned into \<open>-\<close>.\<close>

definition locale_of :: "prompt_inputs \<Rightarrow> string" where
  "locale_of inp =
     (case pi_frankclaw_lang inp of
        Some l \<Rightarrow> l
      | None \<Rightarrow>
          (case pi_lang inp of
             Some l \<Rightarrow> map (\<lambda>c. if c = CHR ''_'' then CHR ''-'' else c) (hd (split_all (CHR ''.'') l))
           | None \<Rightarrow> ''en''))"

definition language_name :: "string \<Rightarrow> string" where
  "language_name l =
     (if l = ''pt-BR'' then ''Brazilian Portuguese''
      else if l = ''pt-PT'' then ''European Portuguese''
      else if l = ''es'' then ''Spanish''
      else if l = ''fr'' then ''French''
      else if l = ''de'' then ''German''
      else if l = ''it'' then ''Italian''
      else if l = ''ja'' then ''Japanese''
      else if l = ''ko'' then ''Korean''
      else l)"

definition language_section :: "string \<Rightarrow> string list" where
  "language_section l =
     (if l \<noteq> [] \<and> l \<noteq> ''en''
      then [''IMPORTANT: Always respond in '' @ language_name l @
            ''. All your replies must be in '' @ language_name l @ ''.'']
      else [])"

definition channel_features :: "channel_capabilities \<Rightarrow> string list" where
  "channel_features caps =
     map snd (filter fst
       [(cap_threads caps, ''threads''), (cap_groups caps, ''group messages''),
        (cap_attachments caps, ''file attachments''), (cap_edit caps, ''message editing''),
        (cap_delete caps, ''message deletion''), (cap_reactions caps, ''reactions''),
        (cap_voice caps, ''voice messages''), (cap_inline_buttons caps, ''inline buttons'')])"

definition channel_section :: "channel_id option \<Rightarrow> channel_capabilities option \<Rightarrow> string list" where
  "channel_section channel caps =
     (case (channel, caps) of
        (Some c, Some k) \<Rightarrow>
          [render agent_channel_template
             [(''channel'', channel_str c),
              (''features'',
               if channel_features k = [] then ''text messages only''
               else join '', '' (channel_features k))]]
      | _ \<Rightarrow> [])"

definition own_prompt :: "agent_def \<Rightarrow> string list" where
  "own_prompt agent =
     (case ag_system_prompt agent of
        Some p \<Rightarrow> if trim p = [] then [] else [trim p]
      | None \<Rightarrow> [])"

definition tools_section :: "tool_def list \<Rightarrow> string list" where
  "tools_section tools =
     (if tools = [] then []
      else [render agent_tools_template
              [(''tool_descriptions'',
                join [newline] (map (\<lambda>t. ''- **'' @ td_name t @ ''**: '' @ td_description t) tools))]])"

definition skills_section :: "skill_prompt list \<Rightarrow> string list" where
  "skills_section skills =
     (if skills = [] then []
      else [join [newline, newline]
              (map (\<lambda>s. ''[Skill: '' @ sk_name s @ '']'' @ [newline] @ trim (sk_prompt s)) skills)])"

definition prompt_sections ::
  "prompt_inputs \<Rightarrow> agent_id \<Rightarrow> agent_def \<Rightarrow> string \<Rightarrow> tool_def list \<Rightarrow> channel_id option \<Rightarrow>
     channel_capabilities option \<Rightarrow> string list" where
  "prompt_sections inp agent_id agent model_id tools channel caps =
     [render agent_identity_template [(''agent_name'', ag_name agent)]] @
     own_prompt agent @
     (if pi_bootstrap inp = [] then [] else [pi_bootstrap inp]) @
     tools_section tools @
     skills_section (pi_skills inp) @
     [trim agent_safety_template] @
     [render agent_context_template
        [(''agent_id'', agent_str agent_id), (''model_id'', model_id), (''date'', pi_date inp),
         (''tool_count'', show_nat (length tools))]] @
     channel_section channel caps @
     language_section (locale_of inp)"

definition build_system_prompt ::
  "prompt_inputs \<Rightarrow> agent_id \<Rightarrow> agent_def \<Rightarrow> string \<Rightarrow> tool_def list \<Rightarrow> channel_id option \<Rightarrow>
     channel_capabilities option \<Rightarrow> string option" where
  "build_system_prompt inp agent_id agent model_id tools channel caps =
     (let sections = prompt_sections inp agent_id agent model_id tools channel caps
      in if sections = [] then None else Some (join [newline, newline] sections))"

lemma join_contains: "s \<in> set ss \<Longrightarrow> contains (join sep ss) s"
proof (induction sep ss rule: join.induct)
  case (3 sep s1 s2 ss)
  show ?case
  proof (cases "s = s1")
    case True
    then have "join sep (s1 # s2 # ss) = [] @ s @ (sep @ join sep (s2 # ss))" by simp
    then show ?thesis unfolding contains_iff by blast
  next
    case False
    with 3 obtain u v where "join sep (s2 # ss) = u @ s @ v" by (auto simp: contains_iff)
    then have "join sep (s1 # s2 # ss) = (s1 @ sep @ u) @ s @ v" by simp
    then show ?thesis unfolding contains_iff by blast
  qed
qed (auto simp: contains_iff intro: exI [of _ "[]"])

text \<open>
  The prompt always exists, and always carries the safety instructions, whatever the agent, its
  skills and its workspace files say.
\<close>

lemma system_prompt_safe:
  "\<exists>p. build_system_prompt inp agent_id agent model_id tools channel caps = Some p \<and>
     contains p agent_safety_template"
proof -
  have "trim agent_safety_template = agent_safety_template"
    by (simp add: agent_safety_template_def trim_id is_ws_def)
  then have "agent_safety_template \<in> set (prompt_sections inp agent_id agent model_id tools channel caps)"
    by (simp add: prompt_sections_def)
  from join_contains [OF this] show ?thesis
    by (auto simp: build_system_prompt_def Let_def prompt_sections_def)
qed

end
