(* ===== verification/Chat_Turn.thy ===== *)
theory Chat_Turn
  imports Turn_Support Tool_Registry Leak_Detector Agent_Prompt Catalog Hooks Subagent
begin

text \<open>
  A turn of an agent: \<open>Runtime::chat\<close> of \<open>frankclaw-runtime/src/lib.rs\<close>, with the choice of agent,
  model and session, the user message, the rounds of tool calls with their approval, leak scan and
  truncation, and the compaction between rounds. The failover chain, the session store, the tools,
  the clock, the approval channel and the subagents are actions of an environment over an arbitrary
  world.
\<close>

section \<open>Types\<close>

record chat_request =
  cq_agent_id :: "agent_id option"
  cq_session_key :: "session_key option"
  cq_message :: string
  cq_attachments :: "inbound_attachment list"
  cq_model_id :: "string option"
  cq_max_tokens :: "u32 option"
  cq_temperature :: "u32 option"
  cq_streaming :: bool \<comment> \<open>a stream is attached\<close>
  cq_thinking_budget :: "u32 option"
  cq_channel_id :: "channel_id option"
  cq_channel_capabilities :: "channel_capabilities option"
  cq_cancellable :: bool \<comment> \<open>a cancellation token is attached\<close>
  cq_approval :: bool \<comment> \<open>an approval channel is attached\<close>

record chat_response =
  cy_session_key :: session_key
  cy_model_id :: string
  cy_content :: string
  cy_usage :: usage

datatype approval_decision = AllowOnce | AllowAlways | Deny

record approval_request =
  ar_approval_id :: string
  ar_tool_name :: string
  ar_tool_args :: json
  ar_risk_level :: string
  ar_session_key :: string
  ar_agent_id :: string

datatype approval_reply = ApprovalClosed | ApprovalDropped | Decided approval_decision

text \<open>
  \<open>re_interrupted\<close> says whether the token is cancelled before the model answers, and the world then;
  \<open>re_print_cost\<close> adds the cost of a turn, a sum of \<open>f64\<close>, to the stored one.
\<close>

record 'w runtime_env =
  re_store :: "'w session_store"
  re_tools :: "'w tool_registry"
  re_complete :: "completion_request \<Rightarrow> bool \<Rightarrow> ('w, completion_response) action"
  re_interrupted :: "completion_request \<Rightarrow> 'w \<Rightarrow> 'w option"
  re_cancelled :: "'w \<Rightarrow> bool"
  re_clock :: "'w \<Rightarrow> instant"
  re_now :: "'w \<Rightarrow> datetime"
  re_fire :: "hook_event \<Rightarrow> 'w \<Rightarrow> 'w"
  re_stream :: "string \<Rightarrow> 'w \<Rightarrow> 'w"
  re_approve :: "approval_request \<Rightarrow> 'w \<Rightarrow> approval_reply \<times> 'w"
  re_spawn :: "json \<Rightarrow> agent_id \<Rightarrow> session_key \<Rightarrow> u32 \<Rightarrow> ('w, string) action"
  re_depth :: "session_key \<Rightarrow> 'w \<Rightarrow> u32"
  re_fresh_id :: "'w \<Rightarrow> string"
  re_fetch_images :: "inbound_attachment list \<Rightarrow> 'w \<Rightarrow> image_content list \<times> 'w"
  re_describe :: "inbound_attachment list \<Rightarrow> 'w \<Rightarrow> string \<times> 'w"
  re_prompt_inputs :: "agent_id \<Rightarrow> 'w \<Rightarrow> prompt_inputs"
  re_parse_json :: "string \<Rightarrow> string + json"
  re_print_json :: "json \<Rightarrow> string"
  re_print_attachments :: "inbound_attachment list \<Rightarrow> json"
  re_print_cost :: "string \<Rightarrow> usage \<Rightarrow> json option \<Rightarrow> json"
  re_hash :: "string \<Rightarrow> u64"

record runtime =
  rt_config :: frankclaw_config
  rt_scoping :: session_scoping
  rt_model_defs :: "full_model_def list"

text \<open>What stays the same during the rounds of a turn, and what changes.\<close>

record turn_scope =
  tu_request :: chat_request
  tu_agent_id :: agent_id
  tu_agent :: agent_def
  tu_session_key :: session_key
  tu_model_id :: string
  tu_model :: model_def
  tu_system :: "string option"
  tu_tools :: "tool_def list"
  tu_depth :: u32
  tu_deadline :: instant

record turn_state =
  tw_messages :: "completion_message list"
  tw_next_seq :: u64
  tw_tracker :: tool_call_tracker
  tw_usage :: usage
  tw_remaining :: nat

section \<open>Agent, model and session\<close>

definition resolve_agent :: "frankclaw_config \<Rightarrow> agent_id option \<Rightarrow> frank_error + agent_id \<times> agent_def" where
  "resolve_agent cfg requested =
     (let i = (case requested of Some a \<Rightarrow> a | None \<Rightarrow> ac_default_agent (fc_agents cfg))
      in case map_of (ac_agents (fc_agents cfg)) i of
           Some agent \<Rightarrow> Inr (i, agent)
         | None \<Rightarrow> Inl (AgentNotFound i))"

definition resolve_model_id :: "runtime \<Rightarrow> agent_def \<Rightarrow> string option \<Rightarrow> frank_error + string" where
  "resolve_model_id rt agent requested =
     (case requested of
        Some m \<Rightarrow> Inr m
      | None \<Rightarrow>
          (case ag_model agent of
             Some m \<Rightarrow> Inr m
           | None \<Rightarrow>
               (case fc_default_model (rt_config rt) of
                  Some m \<Rightarrow> Inr m
                | None \<Rightarrow>
                    (case rt_model_defs rt of
                       m # _ \<Rightarrow> Inr (md_id m)
                     | [] \<Rightarrow> Inl (ConfigValidation ''no model providers are configured'')))))"

text \<open>The outer option is the panic of parsing a session key.\<close>

definition resolve_session_key ::
  "agent_id \<Rightarrow> session_key option \<Rightarrow> (frank_error + session_key) option" where
  "resolve_session_key agent explicit =
     (case explicit of
        Some key \<Rightarrow>
          (case session_key_parse key of
             None \<Rightarrow> None
           | Some (Some (a, _, _)) \<Rightarrow>
               if a \<noteq> agent
               then Some (Inl (InvalidRequest (''session '' @ [CHR 0x27] @ key_str key @ [CHR 0x27] @
                      '' does not belong to agent '' @ [CHR 0x27] @ agent_str agent @ [CHR 0x27])))
               else Some (Inr key)
           | Some None \<Rightarrow> Some (Inr key))
      | None \<Rightarrow> Some (Inr (session_key_new agent (ChannelId ''web'') ''control'')))"

definition session_key_for_inbound :: "runtime \<Rightarrow> inbound_message \<Rightarrow> session_key" where
  "session_key_for_inbound rt m =
     session_key_new (ac_default_agent (fc_agents (rt_config rt))) (im_channel m)
       (resolve_inbound_account_scope (rt_scoping rt) (im_account_id m) (im_sender_id m)
          (im_thread_id m) (im_is_group m))"

text \<open>The definition of a model that no provider lists.\<close>

definition fallback_model :: "string \<Rightarrow> full_model_def" where
  "fallback_model i =
     catalog_model i i OpenaiCompletions False [InText] (catalog_price 0 0 None None) 128000 4096
       (catalog_flags False False False False False)"

definition model_for :: "runtime \<Rightarrow> string \<Rightarrow> full_model_def" where
  "model_for rt i =
     (case find (\<lambda>m. md_id m = i) (rt_model_defs rt) of Some m \<Rightarrow> m | None \<Rightarrow> fallback_model i)"

definition spawn_tool_name :: string where
  "spawn_tool_name = ''spawn_subagent''"

definition spawn_tool_def :: "string \<Rightarrow> tool_def" where
  "spawn_tool_def schema =
     \<lparr>td_name = spawn_tool_name,
      td_description = ''Spawn a subagent to handle a complex subtask. The subagent runs independently and returns its result.'',
      td_parameters = schema, td_risk_level = Mutating\<rparr>"

section \<open>The store\<close>

definition append_entry ::
  "'w runtime_env \<Rightarrow> session_key \<Rightarrow> u64 \<Rightarrow> role \<Rightarrow> string \<Rightarrow> json option \<Rightarrow> ('w, unit) action" where
  "append_entry env key seq r content metadata w =
     st_append_transcript (re_store env) key
       \<lparr>tn_seq = seq, tn_role = r, tn_content = content, tn_timestamp = re_now env w,
        tn_metadata = metadata\<rparr> w"

text \<open>The key was parsed before (\<open>resolve_session_key\<close>) without a panic.\<close>

definition ensure_session ::
  "'w runtime_env \<Rightarrow> runtime \<Rightarrow> session_key \<Rightarrow> agent_id \<Rightarrow> ('w, unit) action" where
  "ensure_session env rt key agent =
     andthen (st_get (re_store env) key) (\<lambda>found.
       case found of
         Some _ \<Rightarrow> succeed ()
       | None \<Rightarrow> (\<lambda>w.
           let (channel, account) =
                 (case session_key_parse key of
                    Some (Some (_, c, a)) \<Rightarrow> (c, a)
                  | _ \<Rightarrow> (ChannelId ''web'', ''control''))
           in st_upsert (re_store env)
                \<lparr>se_key = key, se_agent_id = agent, se_channel = channel, se_account_id = account,
                 se_scoping = rt_scoping rt, se_created_at = re_now env w, se_last_message_at = None,
                 se_thread_id = None, se_metadata = JObject []\<rparr> w))"

definition stored_u64 :: "json \<Rightarrow> string \<Rightarrow> u64" where
  "stored_u64 m k = (case get_u64 m k of Some n \<Rightarrow> n | None \<Rightarrow> 0)"

definition usage_metadata :: "(json option \<Rightarrow> json) \<Rightarrow> usage \<Rightarrow> string \<Rightarrow> json \<Rightarrow> json" where
  "usage_metadata add_cost u model_id m =
     (let m1 = json_set ''last_model'' (JString model_id)
                (json_set ''total_turns'' (JUInt (stored_u64 m ''total_turns'' + 1))
                (json_set ''total_output_tokens''
                  (JUInt (stored_u64 m ''total_output_tokens'' + ucast (us_output_tokens u)))
                (json_set ''total_input_tokens''
                  (JUInt (stored_u64 m ''total_input_tokens'' + ucast (us_input_tokens u))) m)))
      in if model_cost model_id \<noteq> None
         then json_set ''total_cost_usd'' (add_cost (json_get m ''total_cost_usd'')) m1
         else m1)"

text \<open>Errors of the store are ignored here.\<close>

definition update_session_usage ::
  "'w runtime_env \<Rightarrow> session_key \<Rightarrow> usage \<Rightarrow> string \<Rightarrow> 'w \<Rightarrow> 'w" where
  "update_session_usage env key u model_id w =
     (case st_get (re_store env) key w of
        (Inr (Some s), w1) \<Rightarrow>
          snd (st_upsert (re_store env)
                 (s\<lparr>se_metadata :=
                     usage_metadata (re_print_cost env model_id u) u model_id (se_metadata s)\<rparr>) w1)
      | (_, w1) \<Rightarrow> w1)"

section \<open>One tool call\<close>

definition error_content :: "string \<Rightarrow> string" where
  "error_content msg =
     ''{'' @ [CHR 0x22] @ ''error'' @ [CHR 0x22] @ '': '' @ [CHR 0x22] @ msg @ [CHR 0x22] @ ''}''"

definition call_metadata :: "string \<Rightarrow> tool_call \<Rightarrow> (string \<times> json) list \<Rightarrow> json" where
  "call_metadata name call extra =
     JObject ([(''tool_name'', JString name), (''tool_call_id'', JString (tc_id call))] @ extra)"

text \<open>A tool entry is appended to the transcript and its result to the messages.\<close>

definition answer ::
  "'w runtime_env \<Rightarrow> turn_scope \<Rightarrow> tool_call \<Rightarrow> string \<Rightarrow> json \<Rightarrow> image_content list \<Rightarrow> turn_state \<Rightarrow>
     ('w, turn_state) action" where
  "answer env sc call content metadata images st =
     andthen (append_entry env (tu_session_key sc) (tw_next_seq st) Tool content (Some metadata)) (\<lambda>_.
     succeed (st\<lparr>tw_messages := tw_messages st @
                  [if images = [] then tool_result (tc_id call) content
                   else tool_result_with_images (tc_id call) content images],
                tw_next_seq := tw_next_seq st + 1\<rparr>))"

definition answer_error ::
  "'w runtime_env \<Rightarrow> turn_scope \<Rightarrow> tool_call \<Rightarrow> string \<Rightarrow> (string \<times> json) list \<Rightarrow> turn_state \<Rightarrow>
     ('w, turn_state) action" where
  "answer_error env sc call msg extra =
     answer env sc call (error_content msg)
       (call_metadata (tc_name call) call ((''is_error'', JBool True) # extra)) []"

primrec risk_debug :: "tool_risk_level \<Rightarrow> string" where
  "risk_debug ReadOnly = ''ReadOnly''"
| "risk_debug Mutating = ''Mutating''"
| "risk_debug Destructive = ''Destructive''"

definition approval_for :: "turn_scope \<Rightarrow> tool_call \<Rightarrow> json \<Rightarrow> string \<Rightarrow> approval_request" where
  "approval_for sc call arguments fresh_id =
     \<lparr>ar_approval_id = fresh_id, ar_tool_name = tc_name call, ar_tool_args = arguments,
      ar_risk_level = risk_debug (tool_risk (tc_name call)),
      ar_session_key = key_str (tu_session_key sc), ar_agent_id = agent_str (tu_agent_id sc)\<rparr>"

text \<open>Whether the call may go on.\<close>

definition ask_approval ::
  "'w runtime_env \<Rightarrow> turn_scope \<Rightarrow> tool_call \<Rightarrow> json \<Rightarrow> ('w, bool) action" where
  "ask_approval env sc call arguments w =
     (if \<not> cq_approval (tu_request sc) \<or> tool_risk (tc_name call) = ReadOnly then (Inr True, w)
      else (case re_approve env (approval_for sc call arguments (re_fresh_id env w)) w of
              (ApprovalClosed, w1) \<Rightarrow> (Inl (AgentRuntime ''tool approval channel closed''), w1)
            | (ApprovalDropped, w1) \<Rightarrow>
                (Inl (AgentRuntime ''tool approval response channel dropped''), w1)
            | (Decided d, w1) \<Rightarrow> (Inr (d \<noteq> Deny), w1)))"

definition leak_names :: "leak_scan_result \<Rightarrow> string" where
  "leak_names r =
     join '', '' (map (\<lambda>m. lm_pattern_name m @ ''('' @ lm_masked_preview m @ '')'') (ls_matches r))"

text \<open>The content that enters the context, or the error of a blocked output.\<close>

definition scanned_content :: "string \<Rightarrow> string \<Rightarrow> frank_error + string" where
  "scanned_content name raw =
     (let leak = scan_for_leaks raw
      in if ls_should_block leak
         then Inl (AgentRuntime (''tool '' @ squoted name @ '' output contained credential(s): '' @
                leak_names leak @ ''. Output blocked.''))
         else Inr (truncate_tool_output
                (case ls_redacted_content leak of Some r \<Rightarrow> r | None \<Rightarrow> raw)))"

definition raw_content :: "'w runtime_env \<Rightarrow> tool_output \<Rightarrow> string" where
  "raw_content env out =
     re_print_json env (JObject [(''output'', ot_output out), (''tool'', JString (ot_name out))])"

definition fire_after :: "'w runtime_env \<Rightarrow> turn_scope \<Rightarrow> tool_call \<Rightarrow> bool \<Rightarrow> ('w, unit) action" where
  "fire_after env sc call success w =
     (Inr (), re_fire env (tool_after (tc_name call) (agent_str (tu_agent_id sc))
        (key_str (tu_session_key sc)) success) w)"

definition fire_before :: "'w runtime_env \<Rightarrow> turn_scope \<Rightarrow> tool_call \<Rightarrow> ('w, unit) action" where
  "fire_before env sc call w =
     (Inr (), re_fire env (tool_before (tc_name call) (agent_str (tu_agent_id sc))
        (key_str (tu_session_key sc))) w)"

definition run_tool ::
  "'w runtime_env \<Rightarrow> turn_scope \<Rightarrow> tool_call \<Rightarrow> json \<Rightarrow> turn_state \<Rightarrow> ('w, turn_state) action" where
  "run_tool env sc call arguments st =
     andthen (fire_before env sc call) (\<lambda>_.
     attempt (invoke_allowed (re_tools env) (ag_tools (tu_agent sc)) (tc_name call) arguments
                \<lparr>tx_agent_id = tu_agent_id sc, tx_session_key = Some (tu_session_key sc)\<rparr>) (\<lambda>r.
     case r of
       Inl e \<Rightarrow>
         andthen (fire_after env sc call False) (\<lambda>_.
         answer_error env sc call
           (''tool '' @ squoted (tc_name call) @ '' failed: '' @ error_text e) [] st)
     | Inr out \<Rightarrow>
         andthen (fire_after env sc call True) (\<lambda>_.
         andthen (of_result (scanned_content (tc_name call) (raw_content env out))) (\<lambda>content.
         answer env sc call content (call_metadata (tc_name call) call [])
           (ot_image_content out) st))))"

definition run_spawn ::
  "'w runtime_env \<Rightarrow> turn_scope \<Rightarrow> tool_call \<Rightarrow> json \<Rightarrow> turn_state \<Rightarrow> ('w, turn_state) action" where
  "run_spawn env sc call arguments st =
     attempt (re_spawn env arguments (tu_agent_id sc) (tu_session_key sc) (tu_depth sc)) (\<lambda>r.
     answer env sc call
       (case r of
          Inr text \<Rightarrow>
            re_print_json env (JObject [(''output'', JString text), (''tool'', JString spawn_tool_name)])
        | Inl e \<Rightarrow> error_content (''subagent failed: '' @ error_text e))
       (call_metadata spawn_tool_name call []) [] st)"

definition guarded_tool ::
  "'w runtime_env \<Rightarrow> turn_scope \<Rightarrow> tool_call \<Rightarrow> json \<Rightarrow> turn_state \<Rightarrow> ('w, turn_state) action" where
  "guarded_tool env sc call arguments st =
     andthen (ask_approval env sc call arguments) (\<lambda>go_on.
     if go_on then run_tool env sc call arguments st
     else answer_error env sc call (''tool '' @ squoted (tc_name call) @ '' was denied by the user'')
            [(''denied'', JBool True)] st)"

definition invalid_arguments :: "tool_call \<Rightarrow> string \<Rightarrow> string" where
  "invalid_arguments call err =
     ''invalid arguments for tool '' @ squoted (tc_name call) @ '': '' @
     error_text (AgentRuntime (''model produced invalid arguments for tool '' @
       squoted (tc_name call) @ '': '' @ err))"

definition handle_call ::
  "'w runtime_env \<Rightarrow> turn_scope \<Rightarrow> tool_call \<Rightarrow> turn_state \<Rightarrow> ('w, turn_state) action" where
  "handle_call env sc call st w =
     (if cq_cancellable (tu_request sc) \<and> re_cancelled env w then (Inl TurnCancelled, w)
      else (case tracker_record (re_hash env) (tc_name call) (tc_arguments call) (tw_tracker st) of
              (Inl e, _) \<Rightarrow> (Inl e, w)
            | (Inr _, seen) \<Rightarrow>
                (let st1 = st\<lparr>tw_tracker := seen\<rparr>
                 in case re_parse_json env (tc_arguments call) of
                      Inl err \<Rightarrow> answer_error env sc call (invalid_arguments call err) [] st1 w
                    | Inr arguments \<Rightarrow>
                        if tc_name call = spawn_tool_name then run_spawn env sc call arguments st1 w
                        else guarded_tool env sc call arguments st1 w)))"

fun handle_calls ::
  "'w runtime_env \<Rightarrow> turn_scope \<Rightarrow> tool_call list \<Rightarrow> turn_state \<Rightarrow> ('w, turn_state) action" where
  "handle_calls env sc [] st = succeed st"
| "handle_calls env sc (call # calls) st =
     andthen (handle_call env sc call st) (\<lambda>st1. handle_calls env sc calls st1)"

section \<open>One round\<close>

definition request_of :: "turn_scope \<Rightarrow> turn_state \<Rightarrow> completion_request" where
  "request_of sc st =
     \<lparr>rq_model_id = tu_model_id sc, rq_messages = tw_messages st,
      rq_max_tokens = cq_max_tokens (tu_request sc), rq_temperature = cq_temperature (tu_request sc),
      rq_system = tu_system sc, rq_tools = tu_tools sc,
      rq_thinking_budget = cq_thinking_budget (tu_request sc), rq_parallel_tool_calls = None,
      rq_seed = None, rq_response_format = None, rq_reasoning_effort = None\<rparr>"

definition ask_model ::
  "'w runtime_env \<Rightarrow> turn_scope \<Rightarrow> turn_state \<Rightarrow> ('w, completion_response) action" where
  "ask_model env sc st w =
     (case (if cq_cancellable (tu_request sc) then re_interrupted env (request_of sc st) w else None) of
        Some w1 \<Rightarrow> (Inl TurnCancelled, w1)
      | None \<Rightarrow> re_complete env (request_of sc st) (cq_streaming (tu_request sc)) w)"

definition finish_turn ::
  "'w runtime_env \<Rightarrow> turn_scope \<Rightarrow> turn_state \<Rightarrow> completion_response \<Rightarrow> ('w, chat_response) action" where
  "finish_turn env sc st response =
     andthen (append_entry env (tu_session_key sc) (tw_next_seq st) Assistant (rs_content response) None)
       (\<lambda>_ w.
         (Inr \<lparr>cy_session_key = tu_session_key sc, cy_model_id = tu_model_id sc,
               cy_content = rs_content response, cy_usage = tw_usage st\<rparr>,
          re_fire env (message_sent ''runtime'' (agent_str (tu_agent_id sc)))
            (update_session_usage env (tu_session_key sc) (tw_usage st) (tu_model_id sc) w)))"

definition stream_text :: "'w runtime_env \<Rightarrow> turn_scope \<Rightarrow> string \<Rightarrow> ('w, unit) action" where
  "stream_text env sc text w =
     (Inr (), if cq_streaming (tu_request sc) \<and> trim text \<noteq> [] then re_stream env text w else w)"

text \<open>The tool calls of a response are recorded as a message of the assistant.\<close>

definition record_request ::
  "'w runtime_env \<Rightarrow> turn_scope \<Rightarrow> completion_response \<Rightarrow> turn_state \<Rightarrow> ('w, turn_state) action" where
  "record_request env sc response st =
     (let msg = build_tool_request_message (rs_content response) (rs_tool_calls response)
      in andthen (append_entry env (tu_session_key sc) (tw_next_seq st) Assistant msg
                   (Some (JObject [(''tool_calls'', JArray (map json_of_call (rs_tool_calls response)))])))
           (\<lambda>_. succeed (st\<lparr>tw_messages := tw_messages st @
                             [assistant_tool_calls msg (rs_tool_calls response)],
                           tw_next_seq := tw_next_seq st + 1\<rparr>)))"

definition compact_turn :: "turn_scope \<Rightarrow> turn_state \<Rightarrow> frank_error + turn_state" where
  "compact_turn sc st =
     (let budget = available_input_budget (tu_model sc) (tu_system sc)
      in if estimate_messages_tokens (tw_messages st) \<le> budget then Inr st
         else (let ms = cw_messages (optimize_context (tw_messages st) (tu_model sc) (tu_system sc));
                   post = estimate_messages_tokens ms
               in if budget < post
                  then Inl (AgentRuntime (''context too large after compaction ('' @ show_word post @
                         '' tokens, budget '' @ show_word budget @ '')''))
                  else Inr (st\<lparr>tw_messages := ms\<rparr>)))"

definition run_calls ::
  "'w runtime_env \<Rightarrow> turn_scope \<Rightarrow> completion_response \<Rightarrow> turn_state \<Rightarrow> ('w, turn_state) action" where
  "run_calls env sc response st =
     andthen (stream_text env sc (rs_content response)) (\<lambda>_.
     andthen (require (length (rs_tool_calls response) \<le> tw_remaining st)
                (AgentRuntime (''model requested too many tool calls in one turn (max '' @
                   show_nat max_tool_calls_per_turn @ '')''))) (\<lambda>_.
     andthen (record_request env sc response st) (\<lambda>st1.
     andthen (handle_calls env sc (rs_tool_calls response) st1) (\<lambda>st2.
     of_result (compact_turn sc
       (st2\<lparr>tw_remaining := tw_remaining st2 - length (rs_tool_calls response)\<rparr>))))))"

definition too_slow :: frank_error where
  "too_slow =
     AgentRuntime (''turn safety timeout exceeded ('' @ show_nat turn_safety_timeout_secs @ ''s)'')"

text \<open>\<open>Inl\<close> the response of the turn, \<open>Inr\<close> the state of the next round.\<close>

definition turn_round ::
  "'w runtime_env \<Rightarrow> turn_scope \<Rightarrow> turn_state \<Rightarrow> ('w, chat_response + turn_state) action" where
  "turn_round env sc st w =
     (if cq_cancellable (tu_request sc) \<and> re_cancelled env w then (Inl TurnCancelled, w)
      else if tu_deadline sc \<le> re_clock env w then (Inl too_slow, w)
      else andthen (ask_model env sc st) (\<lambda>response.
             let st1 = st\<lparr>tw_usage := accumulate_usage (tw_usage st) (rs_usage response)\<rparr>
             in if rs_tool_calls response = []
                then andthen (finish_turn env sc st1 response) (\<lambda>r. succeed (Inl r))
                else andthen (run_calls env sc response st1) (\<lambda>st2. succeed (Inr st2))) w)"

fun turn_rounds ::
  "'w runtime_env \<Rightarrow> turn_scope \<Rightarrow> nat \<Rightarrow> turn_state \<Rightarrow> ('w, chat_response) action" where
  "turn_rounds env sc 0 st =
     fail (AgentRuntime (''tool round limit exceeded (max '' @ show_nat max_tool_rounds @ '')''))"
| "turn_rounds env sc (Suc n) st =
     andthen (turn_round env sc st) (\<lambda>r.
       case r of Inl response \<Rightarrow> succeed response | Inr st1 \<Rightarrow> turn_rounds env sc n st1)"

section \<open>The whole turn\<close>

definition attachment_note :: "inbound_attachment \<Rightarrow> string" where
  "attachment_note a =
     ''[Image attached: '' @ (case ia_filename a of Some f \<Rightarrow> f | None \<Rightarrow> ''image'') @ '']''"

definition image_notes :: "inbound_attachment list \<Rightarrow> string list" where
  "image_notes attachments =
     map attachment_note (filter (\<lambda>a. starts_with (ia_mime_type a) ''image/'') attachments)"

text \<open>\<open>re_describe\<close> is the description of the attachments by the understanding providers, empty when
  there are none.\<close>

definition user_message ::
  "'w runtime_env \<Rightarrow> chat_request \<Rightarrow> bool \<Rightarrow> string \<Rightarrow> ('w, completion_message) action" where
  "user_message env rq supports_vision text w =
     (case (if supports_vision then re_fetch_images env (cq_attachments rq) w else ([], w)) of
        (images, w1) \<Rightarrow>
          if images \<noteq> [] then (Inr (message_with_images text images), w1)
          else if cq_attachments rq \<noteq> [] \<and> \<not> supports_vision
          then (case re_describe env (cq_attachments rq) w1 of
                  (described, w2) \<Rightarrow>
                    (Inr (message_text User
                       (if described \<noteq> [] then described @ [newline, newline] @ text
                        else if image_notes (cq_attachments rq) = [] then text
                        else join [newline] (image_notes (cq_attachments rq)) @
                             [newline, newline] @ text)), w2))
          else (Inr (message_text User text), w1))"

definition next_seq_after :: "transcript_entry list \<Rightarrow> u64" where
  "next_seq_after history = (if history = [] then 1 else tn_seq (last history) + 1)"

definition prompt_too_large :: frank_error where
  "prompt_too_large =
     InvalidRequest (''total prompt size exceeds maximum ('' @ show_nat max_prompt_bytes @ '' bytes)'')"

definition user_metadata :: "'w runtime_env \<Rightarrow> chat_request \<Rightarrow> json option" where
  "user_metadata env rq =
     (if cq_attachments rq = [] then None
      else Some (JObject [(''attachments'', re_print_attachments env (cq_attachments rq))]))"

definition initial_state :: "transcript_entry list \<Rightarrow> completion_message list \<Rightarrow> turn_state" where
  "initial_state history ms =
     \<lparr>tw_messages = ms, tw_next_seq = next_seq_after history + 1, tw_tracker = tracker_new,
      tw_usage = zero_usage, tw_remaining = max_tool_calls_per_turn\<rparr>"

definition read_depth :: "'w runtime_env \<Rightarrow> session_key \<Rightarrow> ('w, u32) action" where
  "read_depth env key w = (Inr (re_depth env key w), w)"

definition system_prompt ::
  "'w runtime_env \<Rightarrow> chat_request \<Rightarrow> agent_id \<Rightarrow> agent_def \<Rightarrow> string \<Rightarrow> tool_def list \<Rightarrow>
     ('w, string option) action" where
  "system_prompt env rq aid agent model_id tools w =
     (Inr (build_system_prompt (re_prompt_inputs env aid w) aid agent model_id tools
             (cq_channel_id rq) (cq_channel_capabilities rq)), w)"

text \<open>From the recorded user message on.\<close>

definition start_rounds ::
  "'w runtime_env \<Rightarrow> turn_scope \<Rightarrow> turn_state \<Rightarrow> ('w, chat_response) action" where
  "start_rounds env sc st w =
     turn_rounds env (sc\<lparr>tu_deadline := re_clock env w + secs turn_safety_timeout_secs\<rparr>)
       (Suc max_tool_rounds) st w"

definition chat_in_session ::
  "'w runtime_env \<Rightarrow> runtime \<Rightarrow> string \<Rightarrow> chat_request \<Rightarrow> agent_id \<Rightarrow> agent_def \<Rightarrow> string \<Rightarrow> session_key
     \<Rightarrow> ('w, chat_response) action" where
  "chat_in_session env rt schema rq aid agent model_id key =
     (let text = sanitize_for_prompt (cq_message rq);
          full = model_for rt model_id;
          mdl = model_def.truncate full
      in
      andthen (\<lambda>w. (Inr (), re_fire env (message_received ''runtime'' (agent_str aid) text) w)) (\<lambda>_.
      andthen (st_get_transcript (re_store env) key 200 None) (\<lambda>history.
      andthen (of_result (definitions (re_tools env) (ag_tools agent))) (\<lambda>defs.
      andthen (read_depth env key) (\<lambda>depth.
      andthen (ensure_session env rt key aid) (\<lambda>_.
      andthen (user_message env rq (mk_supports_vision (md_compat full)) text) (\<lambda>um.
      let tools = defs @ (if depth < default_max_depth then [spawn_tool_def schema] else []) in
      andthen (system_prompt env rq aid agent model_id tools) (\<lambda>system.
      let ms = cw_messages (optimize_context (map transcript_entry_to_message history @ [um]) mdl system) in
      andthen (require (check_prompt_size ms system) prompt_too_large) (\<lambda>_.
      andthen (append_entry env key (next_seq_after history) User text (user_metadata env rq)) (\<lambda>_.
      start_rounds env
        \<lparr>tu_request = rq, tu_agent_id = aid, tu_agent = agent, tu_session_key = key,
         tu_model_id = model_id, tu_model = mdl, tu_system = system, tu_tools = tools,
         tu_depth = depth, tu_deadline = 0\<rparr>
        (initial_state history ms)))))))))))"

text \<open>\<open>None\<close> is the panic of parsing an explicit session key.\<close>

definition chat ::
  "'w runtime_env \<Rightarrow> runtime \<Rightarrow> string \<Rightarrow> chat_request \<Rightarrow> 'w \<Rightarrow>
     ((frank_error + chat_response) \<times> 'w) option" where
  "chat env rt schema rq w =
     (if trim (cq_message rq) = [] then Some (Inl (InvalidRequest ''message is required''), w)
      else (case resolve_agent (rt_config rt) (cq_agent_id rq) of
        Inl e \<Rightarrow> Some (Inl e, w)
      | Inr (aid, agent) \<Rightarrow>
      (case resolve_model_id rt agent (cq_model_id rq) of
        Inl e \<Rightarrow> Some (Inl e, w)
      | Inr model_id \<Rightarrow>
      (case resolve_session_key aid (cq_session_key rq) of
        None \<Rightarrow> None
      | Some (Inl e) \<Rightarrow> Some (Inl e, w)
      | Some (Inr key) \<Rightarrow> Some (chat_in_session env rt schema rq aid agent model_id key w)))))"

end
