(* ===== verification/Chat_Safety.thy ===== *)
theory Chat_Safety
  imports Chat_Turn
begin

text \<open>
  What a turn of \<open>Chat_Turn\<close> does to its environment, observed through a log: the requests to the
  model, the approvals, the tools that run, the subagents and the transcript entries. Every
  operation keeps the invariant \<open>log_ok\<close>; the theorems read it off for the whole turn.
\<close>

section \<open>The log\<close>

datatype turn_event =
    Asked completion_request
  | Approval approval_request approval_reply
  | Invoked string json
  | Spawned json
  | Recorded transcript_entry

definition noted :: "turn_event \<Rightarrow> ('w, 'a) action \<Rightarrow> ('w \<times> turn_event list, 'a) action" where
  "noted ev m = (\<lambda>(w, log). case m w of (r, w1) \<Rightarrow> (r, (w1, log @ [ev])))"

definition silent :: "('w, 'a) action \<Rightarrow> ('w \<times> turn_event list, 'a) action" where
  "silent m = (\<lambda>(w, log). case m w of (r, w1) \<Rightarrow> (r, (w1, log)))"

definition noted_tool :: "string \<Rightarrow> 'w tool \<Rightarrow> ('w \<times> turn_event list) tool" where
  "noted_tool n t =
     \<lparr>tl_definition = tl_definition t,
      tl_invoke = (\<lambda>args ctx. noted (Invoked n args) (tl_invoke t args ctx))\<rparr>"

definition noted_store :: "'w session_store \<Rightarrow> ('w \<times> turn_event list) session_store" where
  "noted_store st =
     \<lparr>st_get = (\<lambda>k. silent (st_get st k)), st_upsert = (\<lambda>e. silent (st_upsert st e)),
      st_delete = (\<lambda>k. silent (st_delete st k)), st_list = (\<lambda>a n m. silent (st_list st a n m)),
      st_append_transcript = (\<lambda>k e. noted (Recorded e) (st_append_transcript st k e)),
      st_get_transcript = (\<lambda>k n b. silent (st_get_transcript st k n b)),
      st_clear_transcript = (\<lambda>k. silent (st_clear_transcript st k)),
      st_maintenance = (\<lambda>c. silent (st_maintenance st c))\<rparr>"

definition noted_env :: "'w runtime_env \<Rightarrow> ('w \<times> turn_event list) runtime_env" where
  "noted_env env =
     \<lparr>re_store = noted_store (re_store env),
      re_tools = \<lparr>tr_tools = (\<lambda>n. map_option (noted_tool n) (tr_tools (re_tools env) n)),
                  tr_policy = tr_policy (re_tools env)\<rparr>,
      re_complete = (\<lambda>rq b. noted (Asked rq) (re_complete env rq b)),
      re_interrupted = (\<lambda>rq (w, log). map_option (\<lambda>w1. (w1, log @ [Asked rq])) (re_interrupted env rq w)),
      re_cancelled = (\<lambda>(w, log). re_cancelled env w),
      re_clock = (\<lambda>(w, log). re_clock env w),
      re_now = (\<lambda>(w, log). re_now env w),
      re_fire = (\<lambda>e (w, log). (re_fire env e w, log)),
      re_stream = (\<lambda>t (w, log). (re_stream env t w, log)),
      re_approve = (\<lambda>rq (w, log). case re_approve env rq w of (r, w1) \<Rightarrow> (r, (w1, log @ [Approval rq r]))),
      re_spawn = (\<lambda>args a k d. noted (Spawned args) (re_spawn env args a k d)),
      re_depth = (\<lambda>k (w, log). re_depth env k w),
      re_fresh_id = (\<lambda>(w, log). re_fresh_id env w),
      re_fetch_images = (\<lambda>a (w, log). case re_fetch_images env a w of (r, w1) \<Rightarrow> (r, (w1, log))),
      re_describe = (\<lambda>a (w, log). case re_describe env a w of (r, w1) \<Rightarrow> (r, (w1, log))),
      re_prompt_inputs = (\<lambda>a (w, log). re_prompt_inputs env a w),
      re_parse_json = re_parse_json env, re_print_json = re_print_json env,
      re_print_attachments = re_print_attachments env, re_print_cost = re_print_cost env,
      re_hash = re_hash env\<rparr>"

section \<open>Good logs\<close>

definition matching_approval :: "string \<Rightarrow> json \<Rightarrow> turn_event \<Rightarrow> bool" where
  "matching_approval n args ev \<longleftrightarrow>
     (\<exists>rq d. ev = Approval rq (Decided d) \<and> d \<noteq> Deny \<and> ar_tool_name rq = n \<and> ar_tool_args rq = args)"

text \<open>A tool that is not read-only runs right after its approval.\<close>

fun approved_event :: "turn_event option \<Rightarrow> turn_event \<Rightarrow> bool" where
  "approved_event prev (Invoked n args) \<longleftrightarrow>
     tool_risk n = ReadOnly \<or> (\<exists>ev. prev = Some ev \<and> matching_approval n args ev)"
| "approved_event prev ev \<longleftrightarrow> True"

fun approved_from :: "turn_event option \<Rightarrow> turn_event list \<Rightarrow> bool" where
  "approved_from prev [] \<longleftrightarrow> True"
| "approved_from prev (ev # evs) \<longleftrightarrow> approved_event prev ev \<and> approved_from (Some ev) evs"

text \<open>What a tool entry of the transcript may hold.\<close>

definition scanned_entry :: "transcript_entry \<Rightarrow> bool" where
  "scanned_entry e \<longleftrightarrow>
     (\<exists>name raw. scanned_content name raw = Inr (tn_content e)) \<or>
     (\<exists>msg. tn_content e = error_content msg) \<or>
     Option.bind (tn_metadata e) (\<lambda>m. get_str m ''tool_name'') = Some spawn_tool_name"

fun sound_event :: "turn_event \<Rightarrow> bool" where
  "sound_event (Asked rq) \<longleftrightarrow> tools_paired (rq_messages rq)"
| "sound_event (Recorded e) \<longleftrightarrow> (tn_role e = Tool \<longrightarrow> scanned_entry e)"
| "sound_event ev \<longleftrightarrow> True"

fun recorded_of :: "turn_event \<Rightarrow> transcript_entry option" where
  "recorded_of (Recorded e) = Some e"
| "recorded_of ev = None"

definition recorded :: "turn_event list \<Rightarrow> transcript_entry list" where
  "recorded log = List.map_filter recorded_of log"

fun is_asked :: "turn_event \<Rightarrow> bool" where
  "is_asked (Asked rq) \<longleftrightarrow> True"
| "is_asked ev \<longleftrightarrow> False"

fun is_call :: "turn_event \<Rightarrow> bool" where
  "is_call (Invoked n args) \<longleftrightarrow> True"
| "is_call (Spawned args) \<longleftrightarrow> True"
| "is_call ev \<longleftrightarrow> False"

definition asked_count :: "turn_event list \<Rightarrow> nat" where
  "asked_count log = length (filter is_asked log)"

definition call_count :: "turn_event list \<Rightarrow> nat" where
  "call_count log = length (filter is_call log)"

text \<open>The entries are numbered one after the other.\<close>

definition numbered :: "u64 \<Rightarrow> turn_event list \<Rightarrow> bool" where
  "numbered n0 log \<longleftrightarrow>
     map tn_seq (recorded log) = map (\<lambda>i. n0 + of_nat i) [0..<length (recorded log)]"

definition log_ok :: "bool \<Rightarrow> u64 \<Rightarrow> turn_event list \<Rightarrow> bool" where
  "log_ok approval n0 log \<longleftrightarrow>
     list_all sound_event log \<and> (approval \<longrightarrow> approved_from None log) \<and> numbered n0 log"

lemma recorded_simps [simp]:
  "recorded [] = []"
  "recorded (a @ b) = recorded a @ recorded b"
  "recorded [Recorded e] = [e]" "recorded [Asked rq] = []" "recorded [Invoked n args] = []"
  "recorded [Approval ar r] = []" "recorded [Spawned args] = []"
  by (simp_all add: recorded_def List.map_filter_def)

lemma count_simps [simp]:
  "asked_count [] = 0" "call_count [] = 0"
  "asked_count (log @ [ev]) = asked_count log + (if is_asked ev then 1 else 0)"
  "call_count (log @ [ev]) = call_count log + (if is_call ev then 1 else 0)"
  by (simp_all add: asked_count_def call_count_def)

lemma approved_snoc:
  "approved_from prev (log @ [ev]) \<longleftrightarrow>
     approved_from prev log \<and> approved_event (if log = [] then prev else Some (last log)) ev"
  by (induction prev log rule: approved_from.induct) auto

lemma numbered_snoc:
  "numbered n0 (log @ [Recorded e]) \<longleftrightarrow>
     numbered n0 log \<and> tn_seq e = n0 + of_nat (length (recorded log))"
  by (simp add: numbered_def)

lemma numbered_other [simp]:
  "recorded_of ev = None \<Longrightarrow> numbered n0 (log @ [ev]) = numbered n0 log"
  by (cases ev) (simp_all add: numbered_def)

lemma log_ok_snoc:
  "log_ok a n0 (log @ [ev]) \<longleftrightarrow>
     log_ok a n0 log \<and> sound_event ev \<and>
     (a \<longrightarrow> approved_event (if log = [] then None else Some (last log)) ev) \<and>
     (\<forall>e. recorded_of ev = Some e \<longrightarrow> tn_seq e = n0 + of_nat (length (recorded log)))"
  by (cases ev) (auto simp: log_ok_def approved_snoc numbered_snoc)

lemma log_ok_Nil [simp]: "log_ok a n0 []"
  by (simp add: log_ok_def numbered_def)

section \<open>The operations keep the log good\<close>

definition bounded_log :: "bool \<Rightarrow> u64 \<Rightarrow> nat \<Rightarrow> nat \<Rightarrow> turn_event list \<Rightarrow> bool" where
  "bounded_log a n0 k c log \<longleftrightarrow> log_ok a n0 log \<and> asked_count log \<le> k \<and> call_count log \<le> c"

definition good_state :: "u64 \<Rightarrow> turn_event list \<Rightarrow> turn_state \<Rightarrow> bool" where
  "good_state n0 log st \<longleftrightarrow>
     tools_paired (tw_messages st) \<and> tw_next_seq st = n0 + of_nat (length (recorded log))"

text \<open>The state while the calls of a round are answered.\<close>

definition open_state :: "u64 \<Rightarrow> turn_event list \<Rightarrow> turn_state \<Rightarrow> bool" where
  "open_state n0 log st \<longleftrightarrow>
     good_state n0 log st \<and> tw_messages st \<noteq> [] \<and> may_precede (last (tw_messages st))"

definition error_post :: "bool \<Rightarrow> u64 \<Rightarrow> nat \<Rightarrow> nat \<Rightarrow> 'w \<times> turn_event list \<Rightarrow> bool" where
  "error_post a n0 k c wl \<longleftrightarrow> bounded_log a n0 k c (snd wl)"

definition open_post ::
  "bool \<Rightarrow> u64 \<Rightarrow> nat \<Rightarrow> nat \<Rightarrow> nat \<Rightarrow> turn_state \<Rightarrow> 'w \<times> turn_event list \<Rightarrow> bool" where
  "open_post a n0 k c r st wl \<longleftrightarrow>
     bounded_log a n0 k c (snd wl) \<and> open_state n0 (snd wl) st \<and> tw_remaining st = r"

lemma leaves_noted [simp]:
  "leaves (noted ev m) P Q (w, log) \<longleftrightarrow>
     leaves m (\<lambda>w1. P (w1, log @ [ev])) (\<lambda>x w1. Q x (w1, log @ [ev])) w"
  by (simp add: leaves_def noted_def split: prod.split sum.split)

lemma leaves_Pair [simp]: "leaves (Pair (Inr x)) P Q w \<longleftrightarrow> Q x w"
  by (simp add: leaves_def)

lemma leaves_succeed_eta [simp]: "leaves (succeed x) P Q = Q x"
  by (simp add: fun_eq_iff)

lemma leaves_Pair_Inl [simp]: "leaves (Pair (Inl e)) P Q w \<longleftrightarrow> P w"
  by (simp add: leaves_def)

lemma noted_env_simps [simp]:
  "re_cancelled (noted_env env) (w, log) = re_cancelled env w"
  "re_clock (noted_env env) (w, log) = re_clock env w"
  "re_depth (noted_env env) key (w, log) = re_depth env key w"
  "re_prompt_inputs (noted_env env) ag (w, log) = re_prompt_inputs env ag w"
  "re_fire (noted_env env) ev (w, log) = (re_fire env ev w, log)"
  "re_stream (noted_env env) text (w, log) = (re_stream env text w, log)"
  "re_interrupted (noted_env env) rq (w, log) =
     map_option (\<lambda>w1. (w1, log @ [Asked rq])) (re_interrupted env rq w)"
  "re_complete (noted_env env) rq b = noted (Asked rq) (re_complete env rq b)"
  "re_spawn (noted_env env) args ag key d = noted (Spawned args) (re_spawn env args ag key d)"
  "re_store (noted_env env) = noted_store (re_store env)"
  "re_hash (noted_env env) = re_hash env"
  "re_parse_json (noted_env env) = re_parse_json env"
  "re_print_json (noted_env env) = re_print_json env"
  "re_print_attachments (noted_env env) = re_print_attachments env"
  "re_print_cost (noted_env env) = re_print_cost env"
  by (simp_all add: noted_env_def)

lemma leavesI: "(\<And>w1. P w1) \<Longrightarrow> (\<And>x w1. Q x w1) \<Longrightarrow> leaves m P Q w"
  by (simp add: leaves_def split: prod.split sum.split)

lemma leaves_attemptI:
  "leaves m (\<lambda>w1. \<forall>e. leaves (f (Inl e)) P Q w1) (\<lambda>x w1. leaves (f (Inr x)) P Q w1) w \<Longrightarrow>
     leaves (attempt m f) P Q w"
  unfolding leaves_attempt by (erule leaves_mono) auto

lemma leaves_append:
  "(\<And>w1 t. let log1 = log @ [Recorded \<lparr>tn_seq = seq, tn_role = r, tn_content = content,
        tn_timestamp = t, tn_metadata = md\<rparr>] in P (w1, log1) \<and> Q () (w1, log1)) \<Longrightarrow>
     leaves (append_entry (noted_env env) key seq r content md) P Q (w, log)"
  by (simp add: leaves_def append_entry_def noted_env_def noted_store_def noted_def Let_def
      split: prod.split sum.split)

lemma paired_snoc:
  "paired_from prev (ms @ [m]) \<longleftrightarrow>
     paired_from prev ms \<and>
     (msg_role m = Tool \<longrightarrow>
        (\<exists>p. (if ms = [] then prev else Some (last ms)) = Some p \<and> may_precede p))"
  by (induction prev ms rule: paired_from.induct) auto

lemma answer_ok:
  assumes "bounded_log a n0 k c log" "open_state n0 log st"
    and "\<And>n t. scanned_entry \<lparr>tn_seq = n, tn_role = Tool, tn_content = content, tn_timestamp = t,
           tn_metadata = Some md\<rparr>"
  shows "leaves (answer (noted_env env) sc call content md imgs st)
    (error_post a n0 k c) (open_post a n0 k c (tw_remaining st)) (w, log)"
  using assms unfolding answer_def leaves_andthen
  by (intro leaves_append)
    (auto simp: Let_def error_post_def open_post_def bounded_log_def open_state_def good_state_def
      log_ok_snoc paired_snoc tool_result_def tool_result_with_images_def may_precede_def)

lemma scanned_error: "scanned_entry \<lparr>tn_seq = n, tn_role = r, tn_content = error_content msg,
    tn_timestamp = t, tn_metadata = md\<rparr>"
  by (auto simp: scanned_entry_def)

lemma answer_error_ok:
  "bounded_log a n0 k c log \<Longrightarrow> open_state n0 log st \<Longrightarrow>
     leaves (answer_error (noted_env env) sc call msg extra st)
       (error_post a n0 k c) (open_post a n0 k c (tw_remaining st)) (w, log)"
  unfolding answer_error_def by (rule answer_ok) (auto intro: scanned_error)

lemma invoke_noted:
  assumes "P (w, log)" "\<And>w1. P (w1, log @ [Invoked n args])"
    and "\<And>x w1. Q x (w1, log @ [Invoked n args])"
  shows "leaves (invoke_allowed (re_tools (noted_env env)) allowed n args ctx) P Q (w, log)"
  using assms
  by (auto simp: invoke_allowed_def noted_env_def noted_tool_def split: option.split intro!: leavesI)

text \<open>A call of the tool fits the log when its approval was just given, or is not needed.\<close>

definition may_invoke :: "bool \<Rightarrow> turn_event list \<Rightarrow> string \<Rightarrow> json \<Rightarrow> bool" where
  "may_invoke a log n args \<longleftrightarrow>
     (a \<longrightarrow> tool_risk n = ReadOnly \<or> (log \<noteq> [] \<and> matching_approval n args (last log)))"

lemma bounded_invoke:
  "bounded_log a n0 k c log \<Longrightarrow> may_invoke a log n args \<Longrightarrow>
     bounded_log a n0 k (Suc c) (log @ [Invoked n args])"
  by (auto simp: bounded_log_def log_ok_snoc may_invoke_def)

lemma bounded_mono: "bounded_log a n0 k c log \<Longrightarrow> k \<le> k' \<Longrightarrow> c \<le> c' \<Longrightarrow> bounded_log a n0 k' c' log"
  by (auto simp: bounded_log_def)

lemma fire_leaves [simp]:
  "leaves (fire_before (noted_env env) sc call) P Q (w, log) \<longleftrightarrow>
     Q () (re_fire env (tool_before (tc_name call) (agent_str (tu_agent_id sc)) (key_str (tu_session_key sc))) w, log)"
  "leaves (fire_after (noted_env env) sc call b) P Q (w, log) \<longleftrightarrow>
     Q () (re_fire env (tool_after (tc_name call) (agent_str (tu_agent_id sc)) (key_str (tu_session_key sc)) b) w, log)"
  by (simp_all add: leaves_def fire_before_def fire_after_def noted_env_def)

lemma run_tool_ok:
  assumes "bounded_log a n0 k c log" "open_state n0 log st"
    and "may_invoke a log (tc_name call) arguments"
  shows "leaves (run_tool (noted_env env) sc call arguments st)
    (error_post a n0 k (Suc c)) (open_post a n0 k (Suc c) (tw_remaining st)) (w, log)"
proof -
  let ?log1 = "log @ [Invoked (tc_name call) arguments]"
  have 1: "bounded_log a n0 k (Suc c) log" using assms(1) by (rule bounded_mono) simp_all
  have 2: "bounded_log a n0 k (Suc c) ?log1" using assms(1,3) by (rule bounded_invoke)
  have 3: "open_state n0 ?log1 st" using assms(2) by (simp add: open_state_def good_state_def)
  have scanned: "scanned_content name raw = Inr content \<Longrightarrow>
      scanned_entry \<lparr>tn_seq = n, tn_role = Tool, tn_content = content, tn_timestamp = t, tn_metadata = md\<rparr>"
    for name raw content n t md by (auto simp: scanned_entry_def)
  show ?thesis
    unfolding run_tool_def leaves_andthen fire_leaves
    using 1 2 3 assms(2)
    by (intro leaves_attemptI invoke_noted)
      (auto simp: error_post_def split: sum.split intro!: answer_error_ok answer_ok intro: scanned)
qed

lemma bounded_approval:
  "bounded_log a n0 k c log \<Longrightarrow> bounded_log a n0 k c (log @ [Approval rq r])"
  by (auto simp: bounded_log_def log_ok_snoc)

lemma ask_approval_ok:
  assumes log: "bounded_log (cq_approval (tu_request sc)) n0 k c log"
    and st: "open_state n0 log st"
    and err: "\<And>w1 log1. bounded_log (cq_approval (tu_request sc)) n0 k c log1 \<Longrightarrow> P (w1, log1)"
    and ok: "\<And>w1 log1 go_on. bounded_log (cq_approval (tu_request sc)) n0 k c log1 \<Longrightarrow>
      open_state n0 log1 st \<Longrightarrow>
      (go_on \<Longrightarrow> may_invoke (cq_approval (tu_request sc)) log1 (tc_name call) arguments) \<Longrightarrow>
      Q go_on (w1, log1)"
  shows "leaves (ask_approval (noted_env env) sc call arguments) P Q (w, log)"
proof (cases "\<not> cq_approval (tu_request sc) \<or> tool_risk (tc_name call) = ReadOnly")
  case True
  with log st show ?thesis by (auto simp: leaves_def ask_approval_def may_invoke_def intro!: ok)
next
  case False
  let ?rq = "approval_for sc call arguments (re_fresh_id env w)"
  obtain r w1 where r: "re_approve env ?rq w = (r, w1)" by (cases "re_approve env ?rq w")
  have "open_state n0 (log @ [Approval ?rq r]) st"
    using st by (simp add: open_state_def good_state_def)
  with False log r show ?thesis
    by (cases r)
      (auto simp: leaves_def ask_approval_def noted_env_def may_invoke_def matching_approval_def
        approval_for_def intro!: ok err bounded_approval)
qed

lemma guarded_tool_ok:
  assumes "bounded_log (cq_approval (tu_request sc)) n0 k c log" "open_state n0 log st"
  shows "leaves (guarded_tool (noted_env env) sc call arguments st)
    (error_post (cq_approval (tu_request sc)) n0 k (Suc c))
    (open_post (cq_approval (tu_request sc)) n0 k (Suc c) (tw_remaining st)) (w, log)"
  unfolding guarded_tool_def leaves_andthen using assms
  by (rule ask_approval_ok)
    (auto simp: error_post_def intro!: run_tool_ok answer_error_ok intro: bounded_mono)

lemma run_spawn_ok:
  assumes "bounded_log a n0 k c log" "open_state n0 log st"
  shows "leaves (run_spawn (noted_env env) sc call arguments st)
    (error_post a n0 k (Suc c)) (open_post a n0 k (Suc c) (tw_remaining st)) (w, log)"
proof -
  let ?log1 = "log @ [Spawned arguments]"
  have 1: "bounded_log a n0 k (Suc c) ?log1" using assms(1) by (auto simp: bounded_log_def log_ok_snoc)
  have 2: "open_state n0 ?log1 st" using assms(2) by (simp add: open_state_def good_state_def)
  have scanned: "scanned_entry \<lparr>tn_seq = n, tn_role = Tool, tn_content = content, tn_timestamp = t,
      tn_metadata = Some (call_metadata spawn_tool_name call [])\<rparr>" for n content t
    by (simp add: scanned_entry_def call_metadata_def get_str_def)
  show ?thesis
    unfolding run_spawn_def noted_env_simps
    by (intro leaves_attemptI, unfold leaves_noted) (intro leavesI allI answer_ok 1 2 scanned)
qed

lemma handle_call_ok:
  assumes "bounded_log (cq_approval (tu_request sc)) n0 k c log" "open_state n0 log st"
  shows "leaves (handle_call (noted_env env) sc call st)
    (error_post (cq_approval (tu_request sc)) n0 k (Suc c))
    (open_post (cq_approval (tu_request sc)) n0 k (Suc c) (tw_remaining st)) (w, log)"
proof -
  have err: "error_post (cq_approval (tu_request sc)) n0 k (Suc c) (w, log)"
    using assms(1) by (auto simp: error_post_def intro: bounded_mono)
  show ?thesis
  proof (cases "cq_cancellable (tu_request sc) \<and> re_cancelled env w")
    case True
    with err show ?thesis by (simp add: leaves_def handle_call_def)
  next
    case False
    obtain r seen where rec: "tracker_record (re_hash env) (tc_name call) (tc_arguments call)
        (tw_tracker st) = (r, seen)" by fastforce
    let ?st = "st\<lparr>tw_tracker := seen\<rparr>"
    have st: "open_state n0 log ?st" "tw_remaining ?st = tw_remaining st"
      using assms(2) by (simp_all add: open_state_def good_state_def)
    have log: "bounded_log (cq_approval (tu_request sc)) n0 k (Suc c) log"
      using assms(1) by (rule bounded_mono) simp_all
    have eq: "handle_call (noted_env env) sc call st (w, log) =
      (case r of Inl e \<Rightarrow> (Inl e, (w, log))
       | Inr _ \<Rightarrow>
          (case re_parse_json env (tc_arguments call) of
             Inl err \<Rightarrow> answer_error (noted_env env) sc call (invalid_arguments call err) [] ?st (w, log)
           | Inr arguments \<Rightarrow>
               if tc_name call = spawn_tool_name
               then run_spawn (noted_env env) sc call arguments ?st (w, log)
               else guarded_tool (noted_env env) sc call arguments ?st (w, log)))"
      using False rec by (auto simp: handle_call_def Let_def split: sum.split)
    note ok = answer_error_ok [OF log st(1), of env sc] run_spawn_ok [OF assms(1) st(1), of env sc]
      guarded_tool_ok [OF assms(1) st(1), of env]
    show ?thesis
      using err ok unfolding leaves_def eq st(2) by (auto split: sum.splits)
  qed
qed

lemma handle_calls_ok:
  "bounded_log (cq_approval (tu_request sc)) n0 k c log \<Longrightarrow> open_state n0 log st \<Longrightarrow>
     leaves (handle_calls (noted_env env) sc calls st)
       (error_post (cq_approval (tu_request sc)) n0 k (c + length calls))
       (open_post (cq_approval (tu_request sc)) n0 k (c + length calls) (tw_remaining st)) (w, log)"
proof (induction calls arbitrary: st c w log)
  case Nil
  then show ?case by (simp add: open_post_def)
next
  case (Cons call calls)
  show ?case unfolding handle_calls.simps leaves_andthen
  proof (rule leaves_mono [OF handle_call_ok [OF Cons.prems, of env call w]])
    show "error_post (cq_approval (tu_request sc)) n0 k (Suc c) w1 \<Longrightarrow>
        error_post (cq_approval (tu_request sc)) n0 k (c + length (call # calls)) w1" for w1 :: "'a \<times> turn_event list"
      by (auto simp: error_post_def intro: bounded_mono)
    fix st1 and w1 :: "'a \<times> turn_event list"
    assume "open_post (cq_approval (tu_request sc)) n0 k (Suc c) (tw_remaining st) st1 w1"
    then have "bounded_log (cq_approval (tu_request sc)) n0 k (Suc c) (snd w1)"
      and "open_state n0 (snd w1) st1" and rem: "tw_remaining st1 = tw_remaining st"
      by (simp_all add: open_post_def)
    from Cons.IH [OF this(1,2), of "fst w1"] rem
    show "leaves (handle_calls (noted_env env) sc calls st1)
        (error_post (cq_approval (tu_request sc)) n0 k (c + length (call # calls)))
        (open_post (cq_approval (tu_request sc)) n0 k (c + length (call # calls)) (tw_remaining st)) w1"
      by simp
  qed
qed

section \<open>The rounds\<close>

lemma stream_leaves [simp]:
  "leaves (stream_text (noted_env env) sc text) P Q (w, log) \<longleftrightarrow>
     Q () (if cq_streaming (tu_request sc) \<and> trim text \<noteq> [] then re_stream env text w else w, log)"
  by (simp add: leaves_def stream_text_def)

lemma record_request_ok:
  assumes "bounded_log a n0 k c log" "good_state n0 log st" "rs_tool_calls response \<noteq> []"
  shows "leaves (record_request (noted_env env) sc response st)
    (error_post a n0 k c) (open_post a n0 k c (tw_remaining st)) (w, log)"
  using assms unfolding record_request_def Let_def leaves_andthen
  by (intro leaves_append)
    (auto simp: Let_def error_post_def open_post_def bounded_log_def open_state_def good_state_def
      log_ok_snoc paired_snoc assistant_tool_calls_def may_precede_def has_call_def)

definition round_post ::
  "bool \<Rightarrow> u64 \<Rightarrow> nat \<Rightarrow> nat \<Rightarrow> turn_state \<Rightarrow> 'w \<times> turn_event list \<Rightarrow> bool" where
  "round_post a n0 k m st wl \<longleftrightarrow>
     bounded_log a n0 k (m - tw_remaining st) (snd wl) \<and> good_state n0 (snd wl) st \<and>
     tw_remaining st \<le> m"

lemma compact_turn_good:
  "good_state n0 log st \<Longrightarrow> compact_turn sc st = Inr st1 \<Longrightarrow>
     good_state n0 log st1 \<and> tw_remaining st1 = tw_remaining st"
  by (auto simp: compact_turn_def Let_def good_state_def optimize_context_paired split: if_splits)

lemma run_calls_ok:
  assumes log: "bounded_log (cq_approval (tu_request sc)) n0 k (m - tw_remaining st) log"
    and st: "good_state n0 log st" "tw_remaining st \<le> m" and calls: "rs_tool_calls response \<noteq> []"
  shows "leaves (run_calls (noted_env env) sc response st)
    (error_post (cq_approval (tu_request sc)) n0 k m)
    (round_post (cq_approval (tu_request sc)) n0 k m) (w, log)"
proof (cases "length (rs_tool_calls response) \<le> tw_remaining st")
  case False
  with log show ?thesis
    by (auto simp: run_calls_def error_post_def intro: bounded_mono)
next
  case True
  let ?a = "cq_approval (tu_request sc)" and ?c = "m - tw_remaining st"
  let ?n = "length (rs_tool_calls response)"
  define w0 where "w0 = (if cq_streaming (tu_request sc) \<and> trim (rs_content response) \<noteq> []
    then re_stream env (rs_content response) w else w)"
  have m: "?c + ?n \<le> m" "?c \<le> m" using True st(2) by simp_all
  have "leaves (record_request (noted_env env) sc response st)
      (error_post ?a n0 k m)
      (\<lambda>st1. leaves (handle_calls (noted_env env) sc (rs_tool_calls response) st1)
         (error_post ?a n0 k m)
         (\<lambda>st2. leaves (of_result (compact_turn sc (st2\<lparr>tw_remaining := tw_remaining st2 - ?n\<rparr>)))
           (error_post ?a n0 k m) (round_post ?a n0 k m))) (w0, log)"
  proof (rule leaves_mono [OF record_request_ok [OF log st(1) calls]])
    show "error_post ?a n0 k m w1" if "error_post ?a n0 k ?c w1" for w1 :: "'a \<times> turn_event list"
      using that m by (auto simp: error_post_def intro: bounded_mono)
    fix st1 and w1 :: "'a \<times> turn_event list"
    assume "open_post ?a n0 k ?c (tw_remaining st) st1 w1"
    then have 1: "bounded_log ?a n0 k ?c (snd w1)" "open_state n0 (snd w1) st1"
      and rem: "tw_remaining st1 = tw_remaining st" by (simp_all add: open_post_def)
    show "leaves (handle_calls (noted_env env) sc (rs_tool_calls response) st1) (error_post ?a n0 k m)
         (\<lambda>st2. leaves (of_result (compact_turn sc (st2\<lparr>tw_remaining := tw_remaining st2 - ?n\<rparr>)))
           (error_post ?a n0 k m) (round_post ?a n0 k m)) w1"
    proof (rule leaves_mono [OF handle_calls_ok [OF 1, of env "rs_tool_calls response" "fst w1",
            unfolded prod.collapse]])
      show "error_post ?a n0 k m w2" if "error_post ?a n0 k (?c + ?n) w2" for w2 :: "'a \<times> turn_event list"
        using that m by (auto simp: error_post_def intro: bounded_mono)
      fix st2 and w2 :: "'a \<times> turn_event list"
      assume "open_post ?a n0 k (?c + ?n) (tw_remaining st1) st2 w2"
      then have 2: "bounded_log ?a n0 k (?c + ?n) (snd w2)" and
        3: "good_state n0 (snd w2) (st2\<lparr>tw_remaining := tw_remaining st2 - ?n\<rparr>)"
        and rem2: "tw_remaining st2 = tw_remaining st"
        using rem by (simp_all add: open_post_def open_state_def good_state_def)
      have eq: "?c + ?n = m - (tw_remaining st - ?n)" using True st(2) by simp
      have err: "error_post ?a n0 k m w2"
        unfolding error_post_def using 2 m(1) by (rule bounded_mono [OF _ order_refl])
      show "leaves (of_result (compact_turn sc (st2\<lparr>tw_remaining := tw_remaining st2 - ?n\<rparr>)))
           (error_post ?a n0 k m) (round_post ?a n0 k m) w2"
      proof (cases "compact_turn sc (st2\<lparr>tw_remaining := tw_remaining st2 - ?n\<rparr>)")
        case (Inl e)
        with err show ?thesis by simp
      next
        case (Inr st3)
        from compact_turn_good [OF 3 this] rem2
        have "good_state n0 (snd w2) st3" "tw_remaining st3 = tw_remaining st - ?n" by simp_all
        with 2 st(2) eq show ?thesis
          unfolding Inr leaves_of_result sum.case round_post_def by (metis diff_le_self le_trans)
      qed
    qed
  qed
  with True show ?thesis unfolding run_calls_def leaves_andthen stream_leaves leaves_require w0_def
    by simp
qed

lemma good_usage [simp]: "good_state n0 log (st\<lparr>tw_usage := u\<rparr>) = good_state n0 log st"
  by (simp add: good_state_def)

lemma bounded_asked:
  "bounded_log a n0 k c log \<Longrightarrow> tools_paired (rq_messages rq) \<Longrightarrow>
     bounded_log a n0 (Suc k) c (log @ [Asked rq])"
  by (auto simp: bounded_log_def log_ok_snoc)

lemma ask_model_ok:
  assumes "\<And>w1. P (w1, log @ [Asked (request_of sc st)])"
    and "\<And>x w1. Q x (w1, log @ [Asked (request_of sc st)])"
  shows "leaves (ask_model (noted_env env) sc st) P Q (w, log)"
proof (cases "if cq_cancellable (tu_request sc) then re_interrupted env (request_of sc st) w else None")
  case None
  then have "ask_model (noted_env env) sc st (w, log) =
      noted (Asked (request_of sc st)) (re_complete env (request_of sc st) (cq_streaming (tu_request sc))) (w, log)"
    by (simp add: ask_model_def split: if_splits)
  moreover have "leaves (noted (Asked (request_of sc st))
      (re_complete env (request_of sc st) (cq_streaming (tu_request sc)))) P Q (w, log)"
    unfolding leaves_noted using assms by (rule leavesI)
  ultimately show ?thesis by (simp add: leaves_def)
next
  case (Some w1)
  then have "ask_model (noted_env env) sc st (w, log) = (Inl TurnCancelled, (w1, log @ [Asked (request_of sc st)]))"
    by (simp add: ask_model_def split: if_splits)
  with assms(1) show ?thesis by (simp add: leaves_def)
qed

lemma usage_silent [simp]:
  "update_session_usage (noted_env env) key u i (w, log) = (update_session_usage env key u i w, log)"
  by (auto simp: update_session_usage_def noted_store_def silent_def split: prod.split sum.split option.split)

lemma finish_turn_ok:
  assumes "bounded_log a n0 k c log" "good_state n0 log st"
  shows "leaves (finish_turn (noted_env env) sc st response) (error_post a n0 k c)
    (\<lambda>_. error_post a n0 k c) (w, log)"
  using assms unfolding finish_turn_def leaves_andthen
  by (intro leaves_append)
    (auto simp: Let_def leaves_def error_post_def bounded_log_def good_state_def log_ok_snoc)

lemma turn_round_ok:
  assumes log: "bounded_log (cq_approval (tu_request sc)) n0 k (m - tw_remaining st) log"
    and st: "good_state n0 log st" "tw_remaining st \<le> m"
  shows "leaves (turn_round (noted_env env) sc st)
    (error_post (cq_approval (tu_request sc)) n0 (Suc k) m)
    (\<lambda>r. case r of Inl _ \<Rightarrow> error_post (cq_approval (tu_request sc)) n0 (Suc k) m
        | Inr st1 \<Rightarrow> round_post (cq_approval (tu_request sc)) n0 (Suc k) m st1) (w, log)"
proof -
  let ?a = "cq_approval (tu_request sc)" and ?log = "log @ [Asked (request_of sc st)]"
  have log1: "bounded_log ?a n0 (Suc k) (m - tw_remaining st) ?log"
    using log st(1) by (intro bounded_asked) (simp_all add: good_state_def request_of_def)
  have err: "error_post ?a n0 (Suc k) m (w1, log)" "error_post ?a n0 (Suc k) m (w1, ?log)" for w1 :: 'a
    unfolding error_post_def snd_conv by (rule bounded_mono [OF log], simp_all) (rule bounded_mono [OF log1], simp_all)
  have st1: "good_state n0 ?log (st\<lparr>tw_usage := u\<rparr>)" "tw_remaining (st\<lparr>tw_usage := u\<rparr>) = tw_remaining st" for u
    using st(1) by (simp_all add: good_state_def)
  have finish: "leaves (finish_turn (noted_env env) sc (st\<lparr>tw_usage := u\<rparr>) response)
      (error_post ?a n0 (Suc k) m) (\<lambda>_. error_post ?a n0 (Suc k) m) (w1, ?log)" for u response w1
    by (rule finish_turn_ok [OF bounded_mono [OF log1] st1(1)]) simp_all
  have calls: "rs_tool_calls response \<noteq> [] \<Longrightarrow>
      leaves (run_calls (noted_env env) sc response (st\<lparr>tw_usage := u\<rparr>))
        (error_post ?a n0 (Suc k) m) (round_post ?a n0 (Suc k) m) (w1, ?log)" for u response w1
    by (rule run_calls_ok) (use log1 st1 st(2) in simp_all)
  have "leaves (ask_model (noted_env env) sc st) (error_post ?a n0 (Suc k) m)
      (\<lambda>response. leaves (let st1 = st\<lparr>tw_usage := accumulate_usage (tw_usage st) (rs_usage response)\<rparr>
         in if rs_tool_calls response = []
            then andthen (finish_turn (noted_env env) sc st1 response) (\<lambda>r. succeed (Inl r))
            else andthen (run_calls (noted_env env) sc response st1) (\<lambda>st2. succeed (Inr st2)))
        (error_post ?a n0 (Suc k) m)
        (\<lambda>r. case r of Inl _ \<Rightarrow> error_post ?a n0 (Suc k) m | Inr st1 \<Rightarrow> round_post ?a n0 (Suc k) m st1))
      (w, log)"
    by (rule ask_model_ok) (simp_all add: Let_def err finish calls)
  with err show ?thesis
    unfolding turn_round_def leaves_andthen [symmetric] by (simp add: leaves_def)
qed

lemma turn_rounds_ok:
  "bounded_log (cq_approval (tu_request sc)) n0 k (m - tw_remaining st) log \<Longrightarrow> good_state n0 log st \<Longrightarrow>
     tw_remaining st \<le> m \<Longrightarrow>
     leaves (turn_rounds (noted_env env) sc n st)
       (error_post (cq_approval (tu_request sc)) n0 (k + n) m)
       (\<lambda>_. error_post (cq_approval (tu_request sc)) n0 (k + n) m) (w, log)"
proof (induction n arbitrary: k st w log)
  case 0
  then have "bounded_log (cq_approval (tu_request sc)) n0 k m log" by (elim bounded_mono) simp_all
  then show ?case by (simp add: error_post_def)
next
  case (Suc n)
  let ?a = "cq_approval (tu_request sc)"
  have up: "error_post ?a n0 (Suc k) m w1 \<Longrightarrow> error_post ?a n0 (k + Suc n) m w1" for w1 :: "'a \<times> turn_event list"
    unfolding error_post_def by (erule bounded_mono) simp_all
  show ?case unfolding turn_rounds.simps leaves_andthen
  proof (rule leaves_mono [OF turn_round_ok [OF Suc.prems]])
    fix r :: "chat_response + turn_state" and w1 :: "'a \<times> turn_event list"
    assume r: "(case r of Inl _ \<Rightarrow> error_post ?a n0 (Suc k) m | Inr st1 \<Rightarrow> round_post ?a n0 (Suc k) m st1) w1"
    show "leaves (case r of Inl response \<Rightarrow> succeed response | Inr st1 \<Rightarrow> turn_rounds (noted_env env) sc n st1)
        (error_post ?a n0 (k + Suc n) m) (\<lambda>_. error_post ?a n0 (k + Suc n) m) w1"
    proof (cases r)
      case (Inl response)
      with r up show ?thesis by simp
    next
      case (Inr st1)
      with r have "bounded_log ?a n0 (Suc k) (m - tw_remaining st1) (snd w1)" "good_state n0 (snd w1) st1"
        "tw_remaining st1 \<le> m" by (simp_all add: round_post_def)
      from Suc.IH [OF this, of "fst w1"] Inr show ?thesis by simp
    qed
  qed (rule up)
qed

section \<open>The whole turn\<close>

lemma leaves_silent [simp]:
  "leaves (silent m) P Q (w, log) \<longleftrightarrow> leaves m (\<lambda>w1. P (w1, log)) (\<lambda>x w1. Q x (w1, log)) w"
  by (simp add: leaves_def silent_def split: prod.split sum.split)

lemma ensure_session_ok:
  assumes "\<And>w1. P (w1, log)" "\<And>w1. Q () (w1, log)"
  shows "leaves (ensure_session (noted_env env) rt key aid) P Q (w, log)"
  using assms unfolding ensure_session_def leaves_andthen noted_env_simps noted_store_def
  by (auto simp: Let_def leaves_def silent_def noted_env_def split: prod.split sum.split option.split)

lemma user_message_ok:
  assumes "\<And>x w1. Q x (w1, log)"
  shows "leaves (user_message (noted_env env) rq vision text) P Q (w, log)"
  using assms
  by (auto simp: leaves_def user_message_def noted_env_def split: prod.split)

text \<open>The messages already stored, as the turn reads them.\<close>

definition history_read :: "'w runtime_env \<Rightarrow> chat_request \<Rightarrow> agent_id \<Rightarrow> session_key \<Rightarrow> 'w \<Rightarrow>
    frank_error + transcript_entry list" where
  "history_read env rq aid key w =
     fst (st_get_transcript (re_store env) key 200 None
            (re_fire env (message_received ''runtime'' (agent_str aid)
               (sanitize_for_prompt (cq_message rq))) w))"

definition turn_log_ok ::
  "'w runtime_env \<Rightarrow> chat_request \<Rightarrow> agent_id \<Rightarrow> session_key \<Rightarrow> 'w \<Rightarrow> turn_event list \<Rightarrow> bool" where
  "turn_log_ok env rq aid key w log \<longleftrightarrow>
     log = [] \<or>
     (\<exists>h. history_read env rq aid key w = Inr h \<and>
          bounded_log (cq_approval rq) (next_seq_after h) (Suc max_tool_rounds) max_tool_calls_per_turn log)"

lemma start_rounds_ok:
  assumes "bounded_log (cq_approval (tu_request sc)) n0 0 0 log" "good_state n0 log st"
    and "tw_remaining st = max_tool_calls_per_turn"
  shows "leaves (start_rounds (noted_env env) sc st)
    (error_post (cq_approval (tu_request sc)) n0 (Suc max_tool_rounds) max_tool_calls_per_turn)
    (\<lambda>_. error_post (cq_approval (tu_request sc)) n0 (Suc max_tool_rounds) max_tool_calls_per_turn) (w, log)"
  using turn_rounds_ok [of "sc\<lparr>tu_deadline := re_clock env w + secs turn_safety_timeout_secs\<rparr>" n0 0
      max_tool_calls_per_turn st log env "Suc max_tool_rounds" w] assms
  by (simp add: leaves_def start_rounds_def)

lemma recorded_user_ok:
  assumes sc: "tu_request sc = rq"
    and h: "history_read env rq aid key w = Inr h" and paired: "tools_paired ms"
  shows "leaves (append_entry (noted_env env) key (next_seq_after h) User text md)
    (turn_log_ok env rq aid key w \<circ> snd)
    (\<lambda>_. leaves (start_rounds (noted_env env) sc (initial_state h ms))
       (turn_log_ok env rq aid key w \<circ> snd) (\<lambda>_. turn_log_ok env rq aid key w \<circ> snd)) (w1, [])"
proof (rule leaves_append, unfold Let_def, intro conjI)
  fix w2 :: 'a and t
  let ?log = "[] @ [Recorded \<lparr>tn_seq = next_seq_after h, tn_role = User, tn_content = text,
    tn_timestamp = t, tn_metadata = md\<rparr>]" and ?n = "next_seq_after h"
  have log: "bounded_log (cq_approval rq) ?n 0 0 ?log"
    unfolding bounded_log_def log_ok_snoc by (simp add: asked_count_def call_count_def)
  then have "bounded_log (cq_approval rq) ?n (Suc max_tool_rounds) max_tool_calls_per_turn ?log"
    by (rule bounded_mono) simp_all
  with h show "(turn_log_ok env rq aid key w \<circ> snd) (w2, ?log)" by (simp add: turn_log_ok_def)
  have "good_state ?n ?log (initial_state h ms)"
    using paired by (simp add: good_state_def initial_state_def)
  from start_rounds_ok [of sc ?n ?log, unfolded sc, OF log this, of env w2]
  have "leaves (start_rounds (noted_env env) sc (initial_state h ms))
      (error_post (cq_approval rq) ?n (Suc max_tool_rounds) max_tool_calls_per_turn)
      (\<lambda>_. error_post (cq_approval rq) ?n (Suc max_tool_rounds) max_tool_calls_per_turn) (w2, ?log)"
    by (simp add: initial_state_def)
  then show "leaves (start_rounds (noted_env env) sc (initial_state h ms))
       (turn_log_ok env rq aid key w \<circ> snd) (\<lambda>_. turn_log_ok env rq aid key w \<circ> snd) (w2, ?log)"
    by (rule leaves_mono) (use h in \<open>auto simp: error_post_def turn_log_ok_def\<close>)
qed

lemma leaves_pure: "leaves (\<lambda>w. (Inr (f w), g w)) P Q w \<longleftrightarrow> Q (f w) (g w)"
  by (simp add: leaves_def)

lemma leaves_reads:
  "leaves (read_depth env key) P Q w \<longleftrightarrow> Q (re_depth env key w) w"
  "leaves (system_prompt env rq aid agent model_id tools) P R w \<longleftrightarrow>
     R (build_system_prompt (re_prompt_inputs env aid w) aid agent model_id tools
          (cq_channel_id rq) (cq_channel_capabilities rq)) w"
  by (simp_all add: leaves_def read_depth_def system_prompt_def)

lemma noted_store_history:
  "st_get_transcript (noted_store st) key n b = silent (st_get_transcript st key n b)"
  by (simp add: noted_store_def)

lemma turn_log_Nil [simp]: "turn_log_ok env rq aid key w []"
  by (simp add: turn_log_ok_def)

lemma chat_in_session_ok:
  "leaves (chat_in_session (noted_env env) rt schema rq aid agent model_id key)
     (turn_log_ok env rq aid key w \<circ> snd) (\<lambda>_. turn_log_ok env rq aid key w \<circ> snd) (w, [])"
proof -
  let ?P = "turn_log_ok env rq aid key w \<circ> snd" and ?text = "sanitize_for_prompt (cq_message rq)"
  let ?fired = "re_fire env (message_received ''runtime'' (agent_str aid) ?text) w"
  have P: "?P (w1, [])" for w1 by simp
  obtain r w1 where hist: "st_get_transcript (re_store env) key 200 None ?fired = (r, w1)"
    by fastforce
  show ?thesis
  proof (cases r)
    case (Inl e)
    with hist have "chat_in_session (noted_env env) rt schema rq aid agent model_id key (w, []) = (Inl e, (w1, []))"
      by (simp add: chat_in_session_def Let_def andthen_def noted_store_def silent_def)
    then show ?thesis by (simp add: leaves_def)
  next
    case (Inr h)
    with hist have h: "history_read env rq aid key w = Inr h" by (simp add: history_read_def)
    note user = recorded_user_ok [OF _ h optimize_context_paired]
    have read: "leaves (st_get_transcript (re_store env) key 200 None) P' Q' ?fired = Q' h w1" for P' Q'
      using hist Inr by (simp add: leaves_def)
    show ?thesis
      unfolding chat_in_session_def Let_def leaves_andthen
      by (simp only: leaves_pure noted_env_simps noted_store_history leaves_silent read leaves_of_result)
        (use P in \<open>auto simp: leaves_reads simp del: o_apply split: sum.split
          intro!: ensure_session_ok user_message_ok user\<close>)
  qed
qed

text \<open>The log of a call of \<open>chat\<close>; it is empty when the turn does not start.\<close>

definition turn_log ::
  "'w runtime_env \<Rightarrow> runtime \<Rightarrow> string \<Rightarrow> chat_request \<Rightarrow> 'w \<Rightarrow> turn_event list" where
  "turn_log env rt schema rq w =
     (case chat (noted_env env) rt schema rq (w, []) of Some (_, (_, log)) \<Rightarrow> log | None \<Rightarrow> [])"

lemma turn_log_good:
  "turn_log env rt schema rq w = [] \<or>
   (\<exists>aid agent key h. resolve_agent (rt_config rt) (cq_agent_id rq) = Inr (aid, agent) \<and>
      resolve_session_key aid (cq_session_key rq) = Some (Inr key) \<and>
      history_read env rq aid key w = Inr h \<and>
      bounded_log (cq_approval rq) (next_seq_after h) (Suc max_tool_rounds) max_tool_calls_per_turn
        (turn_log env rt schema rq w))"
proof (cases "chat (noted_env env) rt schema rq (w, []) = None \<or> turn_log env rt schema rq w = []")
  case True
  then show ?thesis by (auto simp: turn_log_def)
next
  case False
  then obtain aid agent model_id key where
      r: "resolve_agent (rt_config rt) (cq_agent_id rq) = Inr (aid, agent)"
      "resolve_session_key aid (cq_session_key rq) = Some (Inr key)"
    and c: "chat (noted_env env) rt schema rq (w, []) =
      Some (chat_in_session (noted_env env) rt schema rq aid agent model_id key (w, []))"
    by (auto simp: chat_def turn_log_def split: if_splits sum.splits option.splits prod.splits)
  obtain res w1 log where e: "chat_in_session (noted_env env) rt schema rq aid agent model_id key (w, []) =
      (res, (w1, log))" by (metis prod.exhaust)
  with c have log: "turn_log env rt schema rq w = log" by (simp add: turn_log_def)
  have "turn_log_ok env rq aid key w log"
    using chat_in_session_ok [of env rt schema rq aid agent model_id key w] e
    by (auto simp: leaves_def split: sum.splits)
  with False r log show ?thesis by (auto simp: turn_log_ok_def)
qed

text \<open>
  C9. Whatever the model, the tools and the store do, a turn asks the model at most five times and
  runs at most eight tools, subagents included.
\<close>

theorem turn_bounded:
  "asked_count (turn_log env rt schema rq w) \<le> 5 \<and> call_count (turn_log env rt schema rq w) \<le> 8"
  using turn_log_good [of env rt schema rq w]
  by (auto simp: bounded_log_def max_tool_rounds_def max_tool_calls_per_turn_def)

fun request_paired :: "turn_event \<Rightarrow> bool" where
  "request_paired (Asked rq) \<longleftrightarrow> tools_paired (rq_messages rq)"
| "request_paired ev \<longleftrightarrow> True"

lemma sound_weaken: "list_all sound_event log \<Longrightarrow> list_all request_paired log"
proof (erule list.pred_mono_strong)
  show "sound_event ev \<Longrightarrow> request_paired ev" for ev by (cases ev) simp_all
qed

lemma turn_log_sound: "list_all sound_event (turn_log env rt schema rq w)"
  using turn_log_good [of env rt schema rq w] by (auto simp: bounded_log_def log_ok_def)



fun output_scanned :: "turn_event \<Rightarrow> bool" where
  "output_scanned (Recorded e) \<longleftrightarrow> (if tn_role e = Tool then scanned_entry e else True)"
| "output_scanned ev \<longleftrightarrow> True"


definition continues_history ::
  "'w runtime_env \<Rightarrow> runtime \<Rightarrow> chat_request \<Rightarrow> 'w \<Rightarrow> transcript_entry list \<Rightarrow> bool" where
  "continues_history env rt rq w entries \<longleftrightarrow>
     (case resolve_agent (rt_config rt) (cq_agent_id rq) of
        Inl _ \<Rightarrow> False
      | Inr (aid, _) \<Rightarrow>
          (case resolve_session_key aid (cq_session_key rq) of
             Some (Inr key) \<Rightarrow>
               (case history_read env rq aid key w of
                  Inl _ \<Rightarrow> False
                | Inr h \<Rightarrow>
                    map tn_seq entries = map (\<lambda>i. next_seq_after h + of_nat i) [0..<length entries])
           | _ \<Rightarrow> False))"

text \<open>
  C17. The entries of a turn are numbered one after the other, from the number after the last stored
  entry on (the last 200 are read).
\<close>

theorem turn_transcript_consecutive:
  "recorded (turn_log env rt schema rq w) = [] \<or>
   continues_history env rt rq w (recorded (turn_log env rt schema rq w))"
  using turn_log_good [of env rt schema rq w]
  by (auto simp: continues_history_def bounded_log_def log_ok_def numbered_def)

end
