(* ===== verification/Plugins.thy ===== *)
theory Plugins
  imports Json Sanitize Channel_Types "HOL-Library.List_Lexorder" "HOL-Library.Char_ord"
begin

text \<open>
  The plugin SDK (\<open>frankclaw-plugin-sdk\<close>): the manifests of plugins and skills and their
  validation, the discovery in directories, and the manager that keeps which plugins are enabled.
  The file system and the JSON parser are arguments. A path is its text.
\<close>

section \<open>Manifests (manifest.rs)\<close>

definition max_plugin_id_len :: nat where
  "max_plugin_id_len = 128"

record plugin_manifest =
  pm_id :: string
  pm_name :: string
  pm_version :: string
  pm_description :: "string option"
  pm_channels :: "string list"
  pm_tools :: "string list"
  pm_config_schema :: "json option"

definition plugin_id_char :: "char \<Rightarrow> bool" where
  "plugin_id_char c \<longleftrightarrow>
     (let n = (of_char c :: nat) in 97 \<le> n \<and> n \<le> 122) \<or> is_digit c \<or> c = CHR ''-'' \<or> c = CHR ''_''"

definition validate_plugin_id :: "string \<Rightarrow> frank_error + unit" where
  "validate_plugin_id i =
     first_error
       [check (i \<noteq> [] \<and> length i \<le> max_plugin_id_len)
          (ConfigValidation (''plugin id must be 1-'' @ show_nat max_plugin_id_len @
             '' characters, got '' @ show_nat (length i))),
        check (list_all plugin_id_char i)
          (ConfigValidation (''plugin id '' @ squoted i @
             '' must contain only lowercase alphanumeric, hyphens, and underscores''))]"

definition validate_plugin_manifest :: "plugin_manifest \<Rightarrow> frank_error + unit" where
  "validate_plugin_manifest m =
     first_error
       [validate_plugin_id (pm_id m),
        check (trim (pm_name m) \<noteq> [])
          (ConfigValidation (''plugin '' @ squoted (pm_id m) @ '' manifest is missing name'')),
        check (trim (pm_version m) \<noteq> [])
          (ConfigValidation (''plugin '' @ squoted (pm_id m) @ '' manifest is missing version''))]"

text \<open>What the code sees of the disk; \<open>ps_read_dir\<close> lists the entries that could be read.\<close>

record plugin_files =
  ps_is_dir :: "string \<Rightarrow> bool"
  ps_is_file :: "string \<Rightarrow> bool"
  ps_read_dir :: "string \<Rightarrow> string + string list"
  ps_read :: "string \<Rightarrow> string + string"

definition load_plugin_manifest ::
  "plugin_files \<Rightarrow> (string \<Rightarrow> string + plugin_manifest) \<Rightarrow> string \<Rightarrow> frank_error + plugin_manifest" where
  "load_plugin_manifest fs parse path =
     (case ps_read fs path of
        Inl e \<Rightarrow> Inl (ConfigIo (''failed to read plugin manifest '' @ squoted path @ '': '' @ e))
      | Inr content \<Rightarrow>
          (case parse content of
             Inl e \<Rightarrow> Inl (ConfigValidation (''invalid plugin manifest '' @ squoted path @ '': '' @ e))
           | Inr m \<Rightarrow>
               (case validate_plugin_manifest m of Inl e \<Rightarrow> Inl e | Inr _ \<Rightarrow> Inr m)))"

section \<open>Discovery (discovery.rs)\<close>

datatype plugin_origin = UserPlugin | WorkspacePlugin

record discovered_plugin =
  dp_manifest :: plugin_manifest
  dp_path :: string
  dp_origin :: plugin_origin

text \<open>A name that is not valid UTF-8 is not looked at.\<close>

definition suspicious_name :: "string \<Rightarrow> bool" where
  "suspicious_name n \<longleftrightarrow>
     valid_utf8 n \<and> (CHR ''/'' \<in> set n \<or> CHR 0x5C \<in> set n \<or> starts_with n ''.'')"

definition plugin_entry ::
  "plugin_files \<Rightarrow> (string \<Rightarrow> string + plugin_manifest) \<Rightarrow> string \<Rightarrow> plugin_origin \<Rightarrow> string \<Rightarrow>
     discovered_plugin option" where
  "plugin_entry fs parse dir origin name =
     (let path = path_join dir name; manifest_path = path_join path ''plugin.json''
      in if \<not> ps_is_dir fs path \<or> \<not> ps_is_file fs manifest_path \<or> suspicious_name name then None
         else (case load_plugin_manifest fs parse manifest_path of
                 Inl _ \<Rightarrow> None
               | Inr m \<Rightarrow> Some \<lparr>dp_manifest = m, dp_path = path, dp_origin = origin\<rparr>))"

text \<open>The first plugin of an identifier is kept.\<close>

fun keep_first :: "discovered_plugin list \<Rightarrow> discovered_plugin list \<Rightarrow> discovered_plugin list" where
  "keep_first found [] = found"
| "keep_first found (d # ds) =
     (if pm_id (dp_manifest d) \<in> (pm_id \<circ> dp_manifest) ` set found then keep_first found ds
      else keep_first (found @ [d]) ds)"

definition scan_dir ::
  "plugin_files \<Rightarrow> (string \<Rightarrow> string + plugin_manifest) \<Rightarrow> string \<times> plugin_origin \<Rightarrow>
     discovered_plugin list" where
  "scan_dir fs parse = (\<lambda>(dir, origin).
     if \<not> ps_is_dir fs dir then []
     else (case ps_read_dir fs dir of
             Inl _ \<Rightarrow> []
           | Inr names \<Rightarrow> List.map_filter (plugin_entry fs parse dir origin) names))"

definition discover_plugins ::
  "plugin_files \<Rightarrow> (string \<Rightarrow> string + plugin_manifest) \<Rightarrow> (string \<times> plugin_origin) list \<Rightarrow>
     discovered_plugin list" where
  "discover_plugins fs parse dirs =
     foldl (\<lambda>found dir. keep_first found (scan_dir fs parse dir)) [] dirs"

definition default_plugin_dirs ::
  "string option \<Rightarrow> string option \<Rightarrow> (string \<times> plugin_origin) list" where
  "default_plugin_dirs data_dir workspace =
     (case workspace of Some ws \<Rightarrow> [(path_join ws ''.frankclaw/plugins'', WorkspacePlugin)] | None \<Rightarrow> []) @
     (case data_dir of Some d \<Rightarrow> [(path_join d ''frankclaw/plugins'', UserPlugin)] | None \<Rightarrow> [])"

section \<open>The manager (lifecycle.rs)\<close>

record plugin_state =
  pt_enabled :: bool

definition default_plugin_state :: plugin_state where
  "default_plugin_state = \<lparr>pt_enabled = True\<rparr>"

record plugin_record =
  pr_manifest :: plugin_manifest
  pr_path :: string
  pr_enabled :: bool
  pr_origin :: plugin_origin

type_synonym plugin_manager = "(string \<times> plugin_record) list"

definition record_of :: "(string \<rightharpoonup> plugin_state) \<Rightarrow> discovered_plugin \<Rightarrow> plugin_record" where
  "record_of state d =
     \<lparr>pr_manifest = dp_manifest d, pr_path = dp_path d,
      pr_enabled = (case state (pm_id (dp_manifest d)) of Some s \<Rightarrow> pt_enabled s | None \<Rightarrow> True),
      pr_origin = dp_origin d\<rparr>"

definition manager_new :: "discovered_plugin list \<Rightarrow> (string \<rightharpoonup> plugin_state) \<Rightarrow> plugin_manager" where
  "manager_new discovered state =
     foldl (\<lambda>m d. AList.update (pm_id (dp_manifest d)) (record_of state d) m) [] discovered"

definition list_plugins :: "plugin_manager \<Rightarrow> plugin_record list" where
  "list_plugins m = sort_key (pm_id \<circ> pr_manifest) (map snd m)"

definition get_plugin :: "plugin_manager \<Rightarrow> string \<Rightarrow> plugin_record option" where
  "get_plugin m i = map_of m i"

definition set_enabled :: "bool \<Rightarrow> string \<Rightarrow> plugin_manager \<Rightarrow> bool \<times> plugin_manager" where
  "set_enabled on i m =
     (case map_of m i of
        Some r \<Rightarrow> (True, AList.update i (r\<lparr>pr_enabled := on\<rparr>) m)
      | None \<Rightarrow> (False, m))"

definition enable_plugin :: "string \<Rightarrow> plugin_manager \<Rightarrow> bool \<times> plugin_manager" where
  "enable_plugin = set_enabled True"

definition disable_plugin :: "string \<Rightarrow> plugin_manager \<Rightarrow> bool \<times> plugin_manager" where
  "disable_plugin = set_enabled False"

definition export_state :: "plugin_manager \<Rightarrow> string \<rightharpoonup> plugin_state" where
  "export_state m = (\<lambda>i. map_option (\<lambda>r. \<lparr>pt_enabled = pr_enabled r\<rparr>) (map_of m i))"

definition plugin_count :: "plugin_manager \<Rightarrow> nat" where
  "plugin_count m = length m"

section \<open>Skills (lib.rs)\<close>

datatype skill_capability = PromptCapability | ReadSession

record skill_manifest =
  sm_id :: string
  sm_name :: string
  sm_description :: "string option"
  sm_prompt :: string
  sm_capabilities :: "skill_capability list"
  sm_tools :: "string list"

definition default_skill_manifest :: skill_manifest where
  "default_skill_manifest =
     \<lparr>sm_id = [], sm_name = [], sm_description = None, sm_prompt = [],
      sm_capabilities = [PromptCapability], sm_tools = []\<rparr>"

definition is_alnum :: "char \<Rightarrow> bool" where
  "is_alnum c \<longleftrightarrow>
     (let n = (of_char c :: nat) in (97 \<le> n \<and> n \<le> 122) \<or> (65 \<le> n \<and> n \<le> 90)) \<or> is_digit c"

definition skill_name_char :: "char \<Rightarrow> bool" where
  "skill_name_char c \<longleftrightarrow> is_alnum c \<or> c = CHR ''-'' \<or> c = CHR ''_''"

definition validate_skill_name :: "string \<Rightarrow> frank_error + unit" where
  "validate_skill_name name =
     check (trim name \<noteq> [] \<and> list_all skill_name_char name)
       (ConfigValidation (''invalid skill name '' @ squoted name))"

definition required_capabilities_for_tools :: "string list \<Rightarrow> skill_capability list" where
  "required_capabilities_for_tools tools =
     (if ''session_inspect'' \<in> set tools then [ReadSession] else [])"

primrec capability_name :: "skill_capability \<Rightarrow> string" where
  "capability_name PromptCapability = ''prompt''"
| "capability_name ReadSession = ''read_session''"

definition validate_skill :: "string \<Rightarrow> skill_manifest \<Rightarrow> frank_error + unit" where
  "validate_skill name m =
     (let invalid = (\<lambda>what. ConfigValidation (''skill '' @ squoted name @ what))
      in first_error
       ([check (trim (sm_id m) \<noteq> []) (invalid '' manifest is missing id''),
         check (sm_id m = name)
           (invalid ('' manifest id '' @ squoted (sm_id m) @ '' does not match requested skill name'')),
         check (trim (sm_name m) \<noteq> []) (invalid '' manifest is missing name''),
         check (trim (sm_prompt m) \<noteq> []) (invalid '' manifest is missing prompt''),
         check (sm_capabilities m \<noteq> []) (invalid '' manifest must declare at least one capability''),
         check (PromptCapability \<in> set (sm_capabilities m))
           (invalid ('' manifest must declare the '' @ squoted ''prompt'' @ '' capability''))] @
        map (\<lambda>t. check (trim t \<noteq> []) (invalid '' declares an empty tool name'')) (sm_tools m) @
        map (\<lambda>c. check (c \<in> set (sm_capabilities m))
                   (invalid ('' is missing required capability '' @ squoted (capability_name c))))
          (required_capabilities_for_tools (sm_tools m))))"

definition skill_dirs :: "string \<Rightarrow> string list" where
  "skill_dirs workspace = [path_join workspace ''.frankclaw/skills'', path_join workspace ''skills'']"

definition skill_path :: "string \<Rightarrow> string \<Rightarrow> string" where
  "skill_path name dir = path_join (path_join dir name) ''skill.json''"

definition resolve_skill_manifest_path ::
  "plugin_files \<Rightarrow> string \<Rightarrow> string \<Rightarrow> frank_error + string" where
  "resolve_skill_manifest_path fs workspace name =
     (case find (ps_is_file fs) (map (skill_path name) (skill_dirs workspace)) of
        Some p \<Rightarrow> Inr p
      | None \<Rightarrow> Inl (ConfigIo (''skill '' @ squoted name @ '' not found under '' @
          join '' or '' (map squoted (skill_dirs workspace)))))"

definition load_workspace_skill ::
  "plugin_files \<Rightarrow> (string \<Rightarrow> string + skill_manifest) \<Rightarrow> string \<Rightarrow> string \<Rightarrow>
     frank_error + skill_manifest" where
  "load_workspace_skill fs parse workspace name =
     (case validate_skill_name name of Inl e \<Rightarrow> Inl e | Inr _ \<Rightarrow>
     (case resolve_skill_manifest_path fs workspace name of Inl e \<Rightarrow> Inl e | Inr path \<Rightarrow>
     (case ps_read fs path of
        Inl e \<Rightarrow> Inl (ConfigIo (''failed to read skill manifest '' @ squoted path @ '': '' @ e))
      | Inr content \<Rightarrow>
     (case parse content of
        Inl e \<Rightarrow> Inl (ConfigValidation (''invalid skill manifest '' @ squoted path @ '': '' @ e))
      | Inr m \<Rightarrow>
     (case validate_skill name m of Inl e \<Rightarrow> Inl e | Inr _ \<Rightarrow> Inr m)))))"

text \<open>The first error is the result.\<close>

fun load_workspace_skills ::
  "plugin_files \<Rightarrow> (string \<Rightarrow> string + skill_manifest) \<Rightarrow> string \<Rightarrow> string list \<Rightarrow>
     frank_error + skill_manifest list" where
  "load_workspace_skills fs parse workspace [] = Inr []"
| "load_workspace_skills fs parse workspace (n # ns) =
     (case load_workspace_skill fs parse workspace n of
        Inl e \<Rightarrow> Inl e
      | Inr m \<Rightarrow>
          (case load_workspace_skills fs parse workspace ns of
             Inl e \<Rightarrow> Inl e
           | Inr ms \<Rightarrow> Inr (m # ms)))"

section \<open>The registry of channels (lib.rs)\<close>

text \<open>\<open>start_all_channels\<close> only starts a task for each.\<close>

type_synonym 'w plugin_registry = "'w channel_plugin list"

definition register_channel :: "'w channel_plugin \<Rightarrow> 'w plugin_registry \<Rightarrow> 'w plugin_registry" where
  "register_channel p r = r @ [p]"

definition get_channel :: "'w plugin_registry \<Rightarrow> channel_id \<Rightarrow> 'w channel_plugin option" where
  "get_channel r i = find (\<lambda>p. ch_id p = i) r"

definition list_channels :: "'w plugin_registry \<Rightarrow> 'w channel_plugin list" where
  "list_channels r = r"

section \<open>Discovery keeps the first valid plugin of an identifier\<close>

abbreviation plugin_id :: "discovered_plugin \<Rightarrow> string" where
  "plugin_id d \<equiv> pm_id (dp_manifest d)"

lemma keep_first_distinct: "distinct (map plugin_id found) \<Longrightarrow> distinct (map plugin_id (keep_first found ds))"
  by (induction found ds rule: keep_first.induct) auto

lemma keep_first_set: "set (keep_first found ds) \<subseteq> set found \<union> set ds"
  by (induction found ds rule: keep_first.induct) auto

lemma keep_first_find: "find (\<lambda>d. plugin_id d = i) (keep_first found ds) = find (\<lambda>d. plugin_id d = i) (found @ ds)"
proof (induction found ds rule: keep_first.induct)
  case (2 found d ds)
  show ?case
  proof (cases "plugin_id d \<in> plugin_id ` set found")
    case True
    then have "find (\<lambda>d. plugin_id d = i) found = None \<Longrightarrow> plugin_id d \<noteq> i"
      by (auto simp: find_None_iff)
    with 2 True show ?thesis by (auto simp: find_append split: option.split)
  next
    case False
    with 2 show ?thesis by (simp add: comp_def)
  qed
qed simp

lemma discover_fold:
  "find (\<lambda>d. plugin_id d = i) (foldl (\<lambda>found dir. keep_first found (scan_dir fs parse dir)) found dirs) =
     find (\<lambda>d. plugin_id d = i) (found @ concat (map (scan_dir fs parse) dirs))"
  by (induction dirs arbitrary: found) (auto simp: keep_first_find find_append split: option.split)

lemma discover_distinct: "distinct (map plugin_id (discover_plugins fs parse dirs))"
proof -
  have "distinct (map plugin_id found) \<Longrightarrow>
      distinct (map plugin_id (foldl (\<lambda>found dir. keep_first found (scan_dir fs parse dir)) found dirs))" for found
    by (induction dirs arbitrary: found) (auto intro: keep_first_distinct)
  then show ?thesis by (simp add: discover_plugins_def)
qed

lemma discover_find:
  "find (\<lambda>d. plugin_id d = i) (discover_plugins fs parse dirs) =
     find (\<lambda>d. plugin_id d = i) (concat (map (scan_dir fs parse) dirs))"
  by (simp add: discover_plugins_def discover_fold)

lemma discover_from_scan:
  "set (discover_plugins fs parse dirs) \<subseteq> set (concat (map (scan_dir fs parse) dirs))"
proof -
  have "set (foldl (\<lambda>found dir. keep_first found (scan_dir fs parse dir)) found dirs) \<subseteq>
      set found \<union> set (concat (map (scan_dir fs parse) dirs))" for found
  proof (induction dirs arbitrary: found)
    case (Cons dir dirs)
    from Cons [of "keep_first found (scan_dir fs parse dir)"] keep_first_set [of found "scan_dir fs parse dir"]
    show ?case by auto
  qed simp
  from this [of "[]"] show ?thesis by (simp add: discover_plugins_def)
qed

lemma set_map_filter: "y \<in> set (List.map_filter f xs) \<longleftrightarrow> (\<exists>x\<in>set xs. f x = Some y)"
  by (force simp: List.map_filter_def)

lemma plugin_entry_valid:
  "plugin_entry fs parse dir origin name = Some d \<Longrightarrow> validate_plugin_manifest (dp_manifest d) = Inr ()"
  by (auto simp: plugin_entry_def load_plugin_manifest_def Let_def split: sum.splits if_splits)

lemma scanned_valid:
  "d \<in> set (scan_dir fs parse dir) \<Longrightarrow> validate_plugin_manifest (dp_manifest d) = Inr ()"
  by (cases dir) (auto simp: scan_dir_def set_map_filter split: sum.splits if_splits
      intro: plugin_entry_valid)

lemma validate_plugin_manifest_ok:
  "validate_plugin_manifest m = Inr () \<longleftrightarrow>
     pm_id m \<noteq> [] \<and> length (pm_id m) \<le> max_plugin_id_len \<and> list_all plugin_id_char (pm_id m) \<and>
     trim (pm_name m) \<noteq> [] \<and> trim (pm_version m) \<noteq> []"
  by (auto simp: validate_plugin_manifest_def validate_plugin_id_def)

text \<open>
  What is discovered has distinct and valid identifiers, and for every identifier it is the first
  plugin of that identifier in the order of the directories.
\<close>

lemma discovery_keeps_first:
  "distinct (map plugin_id (discover_plugins fs parse dirs)) \<and>
   list_all (\<lambda>d. pm_id (dp_manifest d) \<noteq> [] \<and> list_all plugin_id_char (pm_id (dp_manifest d)))
     (discover_plugins fs parse dirs) \<and>
   find (\<lambda>d. plugin_id d = i) (discover_plugins fs parse dirs) =
     find (\<lambda>d. plugin_id d = i) (concat (map (scan_dir fs parse) dirs))"
  using discover_from_scan [of fs parse dirs]
  by (auto simp: discover_distinct discover_find list_all_iff subset_iff validate_plugin_manifest_ok
      dest!: scanned_valid)

section \<open>The state of a manager survives a restart\<close>

datatype plugin_op = Enable string | Disable string

primrec plugin_step :: "plugin_manager \<Rightarrow> plugin_op \<Rightarrow> plugin_manager" where
  "plugin_step m (Enable i) = snd (enable_plugin i m)"
| "plugin_step m (Disable i) = snd (disable_plugin i m)"

lemma manager_lookup:
  "distinct (map plugin_id ds) \<Longrightarrow>
     map_of (manager_new ds state) i = map_option (record_of state) (find (\<lambda>d. plugin_id d = i) ds)"
proof (induction ds rule: rev_induct)
  case (snoc d ds)
  have "plugin_id d \<notin> plugin_id ` set ds" using snoc.prems by simp
  then have "find (\<lambda>x. plugin_id x = plugin_id d) ds = None"
    unfolding find_None_iff by (metis image_eqI)
  with snoc show ?case
    by (auto simp: manager_new_def update_conv' find_append split: option.split)
qed (simp add: manager_new_def)

lemma set_enabled_lookup:
  "map_of (snd (set_enabled on i m)) j =
     (if j = i then map_option (\<lambda>r. r\<lparr>pr_enabled := on\<rparr>) (map_of m j) else map_of m j)"
  by (auto simp: set_enabled_def update_conv' split: option.split)

lemma steps_only_enable:
  "\<exists>f. \<forall>i. map_of (foldl plugin_step m ops) i = map_option (\<lambda>r. r\<lparr>pr_enabled := f i r\<rparr>) (map_of m i)"
proof (induction ops rule: rev_induct)
  case Nil
  have "map_of m i = map_option (\<lambda>r. r\<lparr>pr_enabled := pr_enabled r\<rparr>) (map_of m i)" for i
    by (cases "map_of m i") simp_all
  then show ?case by (auto intro!: exI [of _ "\<lambda>_. pr_enabled"])
next
  case (snoc op ops)
  then obtain f where f: "\<And>i. map_of (foldl plugin_step m ops) i =
      map_option (\<lambda>r. r\<lparr>pr_enabled := f i r\<rparr>) (map_of m i)" by blast
  obtain on j where op: "plugin_step (foldl plugin_step m ops) op = snd (set_enabled on j (foldl plugin_step m ops))"
    by (cases op) (auto simp: enable_plugin_def disable_plugin_def)
  show ?case
    by (rule exI [of _ "\<lambda>i r. if i = j then on else f i r"])
      (auto simp: op set_enabled_lookup f option.map_comp comp_def)
qed

text \<open>
  Whatever plugins were enabled and disabled, a manager that is built again from the same plugins
  and the exported state is the manager that was exported.
\<close>

lemma plugin_state_roundtrip:
  "get_plugin (manager_new (discover_plugins fs parse dirs)
       (export_state (foldl plugin_step (manager_new (discover_plugins fs parse dirs) state) ops))) i =
     get_plugin (foldl plugin_step (manager_new (discover_plugins fs parse dirs) state) ops) i"
proof -
  let ?ds = "discover_plugins fs parse dirs"
  let ?m = "manager_new ?ds state"
  obtain f where f: "\<And>i. map_of (foldl plugin_step ?m ops) i =
      map_option (\<lambda>r. r\<lparr>pr_enabled := f i r\<rparr>) (map_of ?m i)"
    using steps_only_enable [of ?m ops] by blast
  show ?thesis
  proof (cases "find (\<lambda>d. plugin_id d = i) ?ds")
    case None
    then show ?thesis by (simp add: get_plugin_def f manager_lookup [OF discover_distinct])
  next
    case (Some d)
    then have "plugin_id d = i" by (auto simp: find_Some_iff)
    with Some show ?thesis
      by (simp add: get_plugin_def f manager_lookup [OF discover_distinct] export_state_def record_of_def)
  qed
qed

text \<open>The list of plugins is sorted by identifier and complete.\<close>

lemma list_plugins_sorted:
  "sorted (map (pm_id \<circ> pr_manifest) (list_plugins m)) \<and> set (list_plugins m) = snd ` set m \<and>
     length (list_plugins m) = plugin_count m"
  by (simp add: list_plugins_def plugin_count_def)

lemma enable_found: "fst (enable_plugin i m) \<longleftrightarrow> get_plugin m i \<noteq> None"
  by (auto simp: enable_plugin_def set_enabled_def get_plugin_def split: option.split)

section \<open>Loaded skills\<close>

lemma validate_skill_ok:
  "validate_skill name m = Inr () \<longleftrightarrow>
     trim (sm_id m) \<noteq> [] \<and> sm_id m = name \<and> trim (sm_name m) \<noteq> [] \<and> trim (sm_prompt m) \<noteq> [] \<and>
     PromptCapability \<in> set (sm_capabilities m) \<and> (\<forall>t\<in>set (sm_tools m). trim t \<noteq> []) \<and>
     (''session_inspect'' \<in> set (sm_tools m) \<longrightarrow> ReadSession \<in> set (sm_capabilities m))"
  unfolding validate_skill_def Let_def first_error_ok set_append ball_Un set_map ball_simps
  by (auto simp: required_capabilities_for_tools_def)

definition skill_ok :: "string \<Rightarrow> skill_manifest \<Rightarrow> bool" where
  "skill_ok name m \<longleftrightarrow>
     sm_id m = name \<and> list_all skill_name_char name \<and> trim (sm_prompt m) \<noteq> [] \<and>
     PromptCapability \<in> set (sm_capabilities m) \<and>
     (''session_inspect'' \<in> set (sm_tools m) \<longrightarrow> ReadSession \<in> set (sm_capabilities m))"

text \<open>
  A skill that loads was read below one of the two skill directories of the workspace, from a
  directory whose name has letters, digits, hyphens and underscores only, and declares the
  capabilities its tools need.
\<close>

lemma loaded_skill_safe:
  assumes "load_workspace_skill fs parse workspace name = Inr m"
  shows "skill_ok name m \<and>
    (\<exists>dir\<in>set (skill_dirs workspace). \<exists>content.
       ps_read fs (skill_path name dir) = Inr content \<and> parse content = Inr m)"
proof -
  from assms have name: "list_all skill_name_char name"
    by (auto simp: load_workspace_skill_def validate_skill_name_def split: sum.splits)
  from assms obtain path content where p: "resolve_skill_manifest_path fs workspace name = Inr path"
    "ps_read fs path = Inr content" "parse content = Inr m" "validate_skill name m = Inr ()"
    by (auto simp: load_workspace_skill_def split: sum.splits)
  from p(1) have "path \<in> skill_path name ` set (skill_dirs workspace)"
    by (auto simp: resolve_skill_manifest_path_def find_Some_iff simp del: set_map
        simp flip: set_map split: option.splits intro: nth_mem)
  with p name show ?thesis by (auto simp: skill_ok_def validate_skill_ok)
qed

definition notes_skill :: skill_manifest where
  "notes_skill = default_skill_manifest\<lparr>sm_id := ''notes'', sm_name := ''Notes'', sm_prompt := ''Take notes.''\<rparr>"

definition notes_disk :: plugin_files where
  "notes_disk =
     \<lparr>ps_is_dir = (\<lambda>_. False), ps_is_file = (\<lambda>p. p = ''/w/skills/notes/skill.json''),
      ps_read_dir = (\<lambda>_. Inl ''none''), ps_read = (\<lambda>_. Inr ''{}'')\<rparr>"

lemma loaded_skill_safe_witness:
  "skill_ok ''notes'' notes_skill"
proof -
  have "load_workspace_skill notes_disk (\<lambda>_. Inr notes_skill) ''/w'' ''notes'' = Inr notes_skill"
    by code_simp
  from loaded_skill_safe [OF this] show ?thesis by simp
qed

end
