(* ===== verification/Runtime_Build.thy ===== *)
theory Runtime_Build
  imports Plugins Chat_Turn Failover
begin

text \<open>
  Building the runtime from a configuration (\<open>frankclaw-runtime/src/lib.rs\<close>): the providers with
  their secrets, the skills of the agents, and the checks of \<open>from_providers_with_models\<close>. The
  constructors of the provider clients, the environment variables and the disk are arguments. The
  theorem relates the validation of the configuration (\<open>Config\<close>) to the construction.
\<close>

section \<open>Secrets\<close>

definition resolve_secret ::
  "(string \<rightharpoonup> string) \<Rightarrow> provider_config \<Rightarrow> string \<Rightarrow> frank_error + string" where
  "resolve_secret env p default_env =
     (let env_key = trim (case pc_api_key_ref p of Some k \<Rightarrow> k | None \<Rightarrow> default_env);
          owner = ''provider '' @ squoted (pc_id p)
      in if env_key = [] then Inl (ConfigValidation (owner @ '' requires an api_key_ref''))
         else (case env env_key of
                 None \<Rightarrow> Inl (ConfigValidation (owner @ '' references missing environment variable '' @
                   squoted env_key))
               | Some v \<Rightarrow>
                   if trim v = []
                   then Inl (ConfigValidation (owner @ '' environment variable '' @ squoted env_key @
                     '' is empty''))
                   else Inr v))"

section \<open>Providers\<close>

text \<open>What a client is constructed from.\<close>

datatype client_spec =
    OpenAiClient string string string "string list"
  | AnthropicClient string string "string list"
  | OllamaClient string "string option"
  | CopilotClient string string "string list"

text \<open>The providers that speak the protocol of OpenAI: address and environment variable.\<close>

definition openai_like :: "(string \<times> string \<times> string) list" where
  "openai_like =
     [(''openai'', ''https://api.openai.com/v1'', ''OPENAI_API_KEY''),
      (''google'', ''https://generativelanguage.googleapis.com/v1beta/openai'', ''GOOGLE_API_KEY''),
      (''gemini'', ''https://generativelanguage.googleapis.com/v1beta/openai'', ''GOOGLE_API_KEY''),
      (''openrouter'', ''https://openrouter.ai/api/v1'', ''OPENROUTER_API_KEY''),
      (''groq'', ''https://api.groq.com/openai/v1'', ''GROQ_API_KEY''),
      (''together'', ''https://api.together.xyz/v1'', ''TOGETHER_API_KEY''),
      (''deepseek'', ''https://api.deepseek.com/v1'', ''DEEPSEEK_API_KEY'')]"

definition unsupported_api :: "string \<Rightarrow> frank_error" where
  "unsupported_api api =
     ConfigValidation (''unsupported model provider api '' @ squoted api @
       ''; expected openai, anthropic, ollama, google, openrouter, groq, together, deepseek, or github-copilot'')"

definition client_of ::
  "(string \<rightharpoonup> string) \<Rightarrow> (frank_error + string) \<Rightarrow> provider_config \<Rightarrow> frank_error + client_spec" where
  "client_of env token p =
     (case map_of openai_like (pc_api p) of
        Some (url, key) \<Rightarrow>
          map_sum id
            (\<lambda>secret. OpenAiClient (pc_id p)
               (case pc_base_url p of Some u \<Rightarrow> u | None \<Rightarrow> url) secret (pc_models p))
            (resolve_secret env p key)
      | None \<Rightarrow>
          if pc_api p = ''anthropic''
          then map_sum id (\<lambda>secret. AnthropicClient (pc_id p) secret (pc_models p))
                 (resolve_secret env p ''ANTHROPIC_API_KEY'')
          else if pc_api p = ''ollama'' then Inr (OllamaClient (pc_id p) (pc_base_url p))
          else if pc_api p = ''github-copilot'' \<or> pc_api p = ''copilot''
          then map_sum id (\<lambda>t. CopilotClient (pc_id p) t (pc_models p)) token
          else Inl (unsupported_api (pc_api p)))"

fun build_from ::
  "(string \<rightharpoonup> string) \<Rightarrow> (frank_error + string) \<Rightarrow> (client_spec \<Rightarrow> frank_error + 'p) \<Rightarrow> string set \<Rightarrow>
     provider_config list \<Rightarrow> frank_error + ('p \<times> string list) list" where
  "build_from env token mk seen [] = Inr []"
| "build_from env token mk seen (p # ps) =
     (if pc_id p \<in> seen
      then Inl (ConfigValidation (''duplicate model provider id '' @ squoted (pc_id p)))
      else (case client_of env token p of
              Inl e \<Rightarrow> Inl e
            | Inr spec \<Rightarrow>
                (case mk spec of
                   Inl e \<Rightarrow> Inl e
                 | Inr client \<Rightarrow>
                     map_sum id (\<lambda>cs. (client, pc_models p) # cs)
                       (build_from env token mk (insert (pc_id p) seen) ps))))"

definition build_providers ::
  "(string \<rightharpoonup> string) \<Rightarrow> (frank_error + string) \<Rightarrow> (client_spec \<Rightarrow> frank_error + 'p) \<Rightarrow>
     frankclaw_config \<Rightarrow> frank_error + ('p \<times> string list) list" where
  "build_providers env token mk cfg = build_from env token mk {} (fc_providers cfg)"

section \<open>Skills\<close>

definition missing_tool :: "agent_id \<Rightarrow> string \<Rightarrow> string \<Rightarrow> frank_error" where
  "missing_tool a skill_id tool =
     ConfigValidation (''agent '' @ squoted (agent_str a) @ '' skill '' @ squoted skill_id @
       '' requires tool '' @ squoted tool @ '' but the agent does not allow it'')"

definition skills_allowed :: "agent_id \<Rightarrow> agent_def \<Rightarrow> skill_manifest list \<Rightarrow> frank_error + unit" where
  "skills_allowed a agent skills =
     first_error
       (concat (map (\<lambda>s. map (\<lambda>t. check (t \<in> set (ag_tools agent)) (missing_tool a (sm_id s) t))
          (sm_tools s)) skills))"

definition agent_skills ::
  "plugin_files \<Rightarrow> (string \<Rightarrow> string + skill_manifest) \<Rightarrow> agent_id \<Rightarrow> agent_def \<Rightarrow>
     frank_error + skill_manifest list" where
  "agent_skills fs parse a agent =
     (if ag_skills agent = [] then Inr []
      else (case ag_workspace agent of
              None \<Rightarrow> Inl (ConfigValidation (''agent '' @ squoted (agent_str a) @
                '' declares skills but has no workspace''))
            | Some workspace \<Rightarrow>
                (case load_workspace_skills fs parse workspace (ag_skills agent) of
                   Inl e \<Rightarrow> Inl e
                 | Inr skills \<Rightarrow>
                     (case skills_allowed a agent skills of Inl e \<Rightarrow> Inl e | Inr _ \<Rightarrow> Inr skills))))"

fun load_agent_skills ::
  "plugin_files \<Rightarrow> (string \<Rightarrow> string + skill_manifest) \<Rightarrow> (agent_id \<times> agent_def) list \<Rightarrow>
     frank_error + (agent_id \<times> skill_manifest list) list" where
  "load_agent_skills fs parse [] = Inr []"
| "load_agent_skills fs parse ((a, agent) # agents) =
     (case agent_skills fs parse a agent of
        Inl e \<Rightarrow> Inl e
      | Inr skills \<Rightarrow> map_sum id (\<lambda>rest. (a, skills) # rest) (load_agent_skills fs parse agents))"

section \<open>The runtime\<close>

record ('p, 'w) built_runtime =
  bt_runtime :: runtime
  bt_chain :: "('p, breaker_state) provider_entry list \<times> breaker_config"
  bt_channel_ids :: "channel_id list"
  bt_tools :: "'w tool_registry"
  bt_skills :: "(agent_id \<times> skill_manifest list) list"

definition chain_cooldown :: "provider_config list \<Rightarrow> u64" where
  "chain_cooldown ps = max (if ps = [] then 30 else Max (set (map pc_cooldown_secs ps))) 1"

text \<open>Providers that fail to list their models are left out of the list.\<close>

definition listed_models ::
  "('p \<Rightarrow> frank_error + full_model_def list) \<Rightarrow> ('p, 'b) provider_entry list \<Rightarrow> full_model_def list" where
  "listed_models list_models entries =
     concat (map (\<lambda>e. case list_models (pe_provider e) of Inr ms \<Rightarrow> ms | Inl _ \<Rightarrow> []) entries)"

definition validate_agent_tools ::
  "'w tool_registry \<Rightarrow> (agent_id \<times> agent_def) list \<Rightarrow> frank_error + unit" where
  "validate_agent_tools tools agents =
     first_error (map (\<lambda>(a, agent).
       map_sum (\<lambda>e. ConfigValidation (''agent '' @ squoted (agent_str a) @
           '' has invalid tool config: '' @ error_text e)) id
         (validate_names tools (ag_tools agent))) agents)"

definition from_providers_with_models ::
  "('p \<Rightarrow> frank_error + full_model_def list) \<Rightarrow> 'w tool_registry \<Rightarrow> plugin_files \<Rightarrow>
     (string \<Rightarrow> string + skill_manifest) \<Rightarrow> session_scoping \<Rightarrow> frankclaw_config \<Rightarrow>
     ('p \<times> string list) list \<Rightarrow> frank_error + ('p, 'w) built_runtime" where
  "from_providers_with_models list_models tools fs parse scoping cfg providers =
     (let chain = with_model_routing providers (chain_cooldown (fc_providers cfg));
          agents = ac_agents (fc_agents cfg)
      in case validate_agent_tools tools agents of
           Inl e \<Rightarrow> Inl e
         | Inr _ \<Rightarrow>
             map_sum id
               (\<lambda>skills.
                 \<lparr>bt_runtime = \<lparr>rt_config = cfg, rt_scoping = scoping,
                    rt_model_defs = listed_models list_models (fst chain)\<rparr>,
                  bt_chain = chain,
                  bt_channel_ids = map fst (filter (\<lambda>(_, c). cc_enabled c) (fc_channels cfg)),
                  bt_tools = tools, bt_skills = skills\<rparr>)
               (load_agent_skills fs parse agents))"

text \<open>Every provider may be asked for every model.\<close>

definition from_providers ::
  "('p \<Rightarrow> frank_error + full_model_def list) \<Rightarrow> 'w tool_registry \<Rightarrow> plugin_files \<Rightarrow>
     (string \<Rightarrow> string + skill_manifest) \<Rightarrow> session_scoping \<Rightarrow> frankclaw_config \<Rightarrow> 'p list \<Rightarrow>
     frank_error + ('p, 'w) built_runtime" where
  "from_providers list_models tools fs parse scoping cfg providers =
     from_providers_with_models list_models tools fs parse scoping cfg (map (\<lambda>p. (p, [])) providers)"

definition from_config ::
  "(string \<rightharpoonup> string) \<Rightarrow> (frank_error + string) \<Rightarrow> (client_spec \<Rightarrow> frank_error + 'p) \<Rightarrow>
     ('p \<Rightarrow> frank_error + full_model_def list) \<Rightarrow> 'w tool_registry \<Rightarrow> plugin_files \<Rightarrow>
     (string \<Rightarrow> string + skill_manifest) \<Rightarrow> session_scoping \<Rightarrow> frankclaw_config \<Rightarrow>
     frank_error + ('p, 'w) built_runtime" where
  "from_config env token mk list_models tools fs parse scoping cfg =
     (case build_providers env token mk cfg of
        Inl e \<Rightarrow> Inl e
      | Inr providers \<Rightarrow>
          from_providers_with_models list_models tools fs parse scoping cfg providers)"

definition list_tools ::
  "'w tool_registry \<Rightarrow> frankclaw_config \<Rightarrow> agent_id option \<Rightarrow> frank_error + tool_def list" where
  "list_tools tools cfg requested =
     (case resolve_agent cfg requested of Inl e \<Rightarrow> Inl e | Inr (_, agent) \<Rightarrow> definitions tools (ag_tools agent))"

definition list_skills ::
  "(agent_id \<times> skill_manifest list) list \<Rightarrow> frankclaw_config \<Rightarrow> agent_id option \<Rightarrow>
     frank_error + skill_manifest list" where
  "list_skills skills cfg requested =
     (case resolve_agent cfg requested of
        Inl e \<Rightarrow> Inl e
      | Inr (a, _) \<Rightarrow> Inr (case map_of skills a of Some ms \<Rightarrow> ms | None \<Rightarrow> []))"

section \<open>An accepted configuration builds\<close>

lemma resolve_secret_ok:
  "resolve_secret env p d = Inr v \<longleftrightarrow>
     (let k = trim (case pc_api_key_ref p of Some k \<Rightarrow> k | None \<Rightarrow> d)
      in k \<noteq> [] \<and> env k = Some v \<and> trim v \<noteq> [])"
  by (auto simp: resolve_secret_def Let_def split: option.splits)

definition secret_present :: "(string \<rightharpoonup> string) \<Rightarrow> provider_config \<Rightarrow> bool" where
  "secret_present env p \<longleftrightarrow>
     pc_api p = ''ollama'' \<or>
     (\<exists>k v. pc_api_key_ref p = Some k \<and> env (trim k) = Some v \<and> trim v \<noteq> [])"

lemma accepted_client:
  assumes "pc_api p \<in> set provider_apis"
    and "pc_api p \<in> {''openai'', ''anthropic''} \<longrightarrow> \<not> blank_opt (pc_api_key_ref p)"
    and "secret_present env p"
  shows "\<exists>spec. client_of env token p = Inr spec"
proof (cases "pc_api p = ''ollama''")
  case True
  then show ?thesis by (simp add: client_of_def openai_like_def)
next
  case False
  with assms obtain k v where "pc_api_key_ref p = Some k" "env (trim k) = Some v" "trim v \<noteq> []"
    "trim k \<noteq> []"
    by (auto simp: secret_present_def provider_apis_def blank_opt_def blank_def)
  then have "resolve_secret env p d = Inr v" for d by (simp add: resolve_secret_ok)
  with False assms(1) show ?thesis by (auto simp: client_of_def openai_like_def provider_apis_def)
qed

lemma accepted_builds:
  assumes "validate_providers seen ps = Inr ()" "list_all (secret_present env) ps"
    and "\<And>spec. \<exists>c. mk spec = Inr c"
  shows "\<exists>cs. build_from env token mk seen ps = Inr cs \<and> map snd cs = map pc_models ps"
  using assms(1,2)
proof (induction ps arbitrary: seen)
  case (Cons p ps)
  then have p: "pc_id p \<notin> seen" "pc_api p \<in> set provider_apis"
      "pc_api p \<in> {''openai'', ''anthropic''} \<longrightarrow> \<not> blank_opt (pc_api_key_ref p)"
    and ps: "validate_providers (insert (pc_id p) seen) ps = Inr ()" "list_all (secret_present env) ps"
    by (auto split: if_splits)
  from accepted_client [OF p(2,3)] Cons.prems(2) obtain spec where "client_of env token p = Inr spec"
    by auto
  moreover obtain c where "mk spec = Inr c" using assms(3) by blast
  moreover note Cons.IH [OF ps]
  ultimately show ?case using p(1) by auto
qed simp

text \<open>
  C29. When the configuration is accepted and the environment has a value for every key it refers to,
  building the providers succeeds: one client for each, with its models, in order.
\<close>

theorem accepted_config_builds:
  assumes "validate parse_ip from_value cfg = Some (Inr ())"
    and "list_all (secret_present env) (fc_providers cfg)"
    and "\<And>spec. \<exists>c. mk spec = Inr c"
  shows "\<exists>cs. build_providers env token mk cfg = Inr cs \<and> map snd cs = map pc_models (fc_providers cfg)"
proof -
  from assms(1) have "validate_providers {} (fc_providers cfg) = Inr ()"
    by (auto simp: validate_def validate_static_def split: sum.splits)
  from accepted_builds [OF this assms(2,3)] show ?thesis by (simp add: build_providers_def)
qed

definition local_config :: frankclaw_config where
  "local_config = default_config\<lparr>fc_providers :=
     [\<lparr>pc_id = ''local'', pc_api = ''ollama'', pc_base_url = None, pc_api_key_ref = None,
       pc_models = [''llama3''], pc_cooldown_secs = 30\<rparr>]\<rparr>"

theorem accepted_config_builds_witness:
  "\<exists>cs. build_providers (\<lambda>_. None) (Inr []) (\<lambda>_. Inr ()) local_config = Inr cs \<and> map snd cs = [[''llama3'']]"
proof -
  have "validate (\<lambda>_. None :: nat option) (\<lambda>_. Inl []) local_config = Some (Inr ())"
    by (simp add: validate_def validate_static_def local_config_def default_config_def default_gateway_def
        default_agents_def parsed_mappings_def auth_validate_ok auth_ok_def blank_opt_def blank_def
        provider_apis_def trim_def trim_start_def trim_end_def is_ws_def check_def)
  moreover have "list_all (secret_present (\<lambda>_. None)) (fc_providers local_config)"
    by (simp add: local_config_def secret_present_def)
  moreover have "\<exists>c. (\<lambda>_ :: client_spec. Inr () :: frank_error + unit) spec = Inr c" for spec by simp
  ultimately show ?thesis
    using accepted_config_builds [of "\<lambda>_. None :: nat option" "\<lambda>_. Inl []" local_config "\<lambda>_. None"
      "\<lambda>_. Inr ()" "Inr []"] by (simp add: local_config_def)
qed

text \<open>
  The validation accepts three interfaces only: a configuration that uses one of the others, which
  \<open>build_providers\<close> supports, is rejected before it is built.
\<close>

definition google_provider :: provider_config where
  "google_provider =
     \<lparr>pc_id = ''g'', pc_api = ''google'', pc_base_url = None, pc_api_key_ref = None, pc_models = [],
      pc_cooldown_secs = 30\<rparr>"

lemma google_rejected:
  "client_of (\<lambda>_. Some ''k'') (Inr []) google_provider =
     Inr (OpenAiClient ''g'' ''https://generativelanguage.googleapis.com/v1beta/openai'' ''k'' [])"
  "validate_providers {} [google_provider] \<noteq> Inr ()"
proof -
  have "resolve_secret (\<lambda>_. Some ''k'') google_provider ''GOOGLE_API_KEY'' = Inr ''k''"
    by code_simp
  then show "client_of (\<lambda>_. Some ''k'') (Inr []) google_provider =
      Inr (OpenAiClient ''g'' ''https://generativelanguage.googleapis.com/v1beta/openai'' ''k'' [])"
    by (simp add: client_of_def openai_like_def google_provider_def)
  show "validate_providers {} [google_provider] \<noteq> Inr ()"
    by (simp add: google_provider_def provider_apis_def)
qed

section \<open>Skills of a built runtime\<close>

lemma skills_allowed_ok:
  "skills_allowed a agent skills = Inr () \<longleftrightarrow> (\<forall>s\<in>set skills. set (sm_tools s) \<subseteq> set (ag_tools agent))"
  by (auto simp: skills_allowed_def)

lemma load_skills_all:
  "load_workspace_skills fs parse ws names = Inr ms \<Longrightarrow>
     list_all2 (\<lambda>n m. load_workspace_skill fs parse ws n = Inr m) names ms"
  by (induction names arbitrary: ms) (auto split: sum.splits)

text \<open>A skill of an agent uses only tools that the agent may use.\<close>

lemma built_skills_allowed:
  assumes "load_agent_skills fs parse agents = Inr built" "(a, skills) \<in> set built"
  shows "\<exists>agent. (a, agent) \<in> set agents \<and> (\<forall>s\<in>set skills. set (sm_tools s) \<subseteq> set (ag_tools agent))"
  using assms
proof (induction fs parse agents arbitrary: built rule: load_agent_skills.induct)
  case (2 fs parse b agent agents)
  then obtain sks rest where r: "agent_skills fs parse b agent = Inr sks"
    "load_agent_skills fs parse agents = Inr rest" "built = (b, sks) # rest"
    by (auto split: sum.splits simp: map_sum_def) (metis id_apply)?
  then have "\<forall>s\<in>set sks. set (sm_tools s) \<subseteq> set (ag_tools agent)"
    by (auto simp: agent_skills_def skills_allowed_ok split: if_splits option.splits sum.splits)
  moreover have "\<exists>agent. (a, agent) \<in> set agents \<and> (\<forall>s\<in>set skills. set (sm_tools s) \<subseteq> set (ag_tools agent))"
    if "(a, skills) \<in> set rest"
    using "2.IH" [OF r(1,2) that] .
  ultimately show ?case using r(3) "2.prems"(2) by auto
qed simp

end
