(* ===== verification/Chat_Sessions.thy ===== *)
theory Chat_Sessions
  imports Chat_Safety
begin

text \<open>
  The other operations of the runtime on sessions (\<open>frankclaw-runtime/src/lib.rs\<close>): a tool invoked by
  a client, the activity of tools, the compaction of a transcript with a summary by the model, and the
  turn of a subagent.
\<close>

section \<open>Tools\<close>

record tool_request =
  tq_agent_id :: "agent_id option"
  tq_session_key :: "session_key option"
  tq_tool_name :: string
  tq_arguments :: json

definition invoke_tool ::
  "'w runtime_env \<Rightarrow> runtime \<Rightarrow> tool_request \<Rightarrow> ('w, tool_output) action" where
  "invoke_tool env rt rq =
     andthen (of_result (resolve_agent (rt_config rt) (tq_agent_id rq))) (\<lambda>(aid, agent).
     invoke_allowed (re_tools env) (ag_tools agent) (tq_tool_name rq) (tq_arguments rq)
       \<lparr>tx_agent_id = aid, tx_session_key = tq_session_key rq\<rparr>)"

record tool_activity_entry =
  tv_seq :: u64
  tv_tool_name :: string
  tv_tool_call_id :: "string option"
  tv_timestamp :: datetime
  tv_output_preview :: string

definition activity_of :: "(string \<Rightarrow> string) \<Rightarrow> transcript_entry \<Rightarrow> tool_activity_entry option" where
  "activity_of summarize e =
     (case tn_metadata e of
        None \<Rightarrow> None
      | Some m \<Rightarrow>
          (case get_str m ''tool_name'' of
             None \<Rightarrow> None
           | Some n \<Rightarrow>
               Some \<lparr>tv_seq = tn_seq e, tv_tool_name = n, tv_tool_call_id = get_str m ''tool_call_id'',
                     tv_timestamp = tn_timestamp e, tv_output_preview = summarize (tn_content e)\<rparr>))"

text \<open>The factor of four saturates.\<close>

definition last_activities :: "nat \<Rightarrow> (string \<Rightarrow> string) \<Rightarrow> transcript_entry list \<Rightarrow> tool_activity_entry list" where
  "last_activities limit summarize entries =
     (let activity = sort_key tv_seq
            (List.map_filter (activity_of summarize) (filter (\<lambda>e. tn_role e = Tool) entries))
      in drop (length activity - limit) activity)"

definition tool_activity ::
  "'w runtime_env \<Rightarrow> (string \<Rightarrow> string) \<Rightarrow> session_key \<Rightarrow> nat \<Rightarrow>
     ('w, tool_activity_entry list) action" where
  "tool_activity env summarize key limit =
     andthen (st_get_transcript (re_store env) key (max (min (limit * 4) (2 ^ 64 - 1)) 1) None) (\<lambda>entries.
     succeed (last_activities limit summarize entries))"

section \<open>Compaction\<close>

record compact_result =
  cp_pruned_count :: nat
  cp_summary :: "string option"
  cp_tokens_before :: u32
  cp_tokens_after :: u32

definition compaction_template :: string where
  "compaction_template = join [newline]
     [''You are summarizing a conversation to preserve context after compaction.'',
      ''Produce a concise summary that preserves:'', [],
      ''- The current task or topic being discussed'',
      ''- Any active work in progress (status, what'' @ [CHR 0x27] @ ''s done, what remains)'',
      ''- Key decisions and their rationale'',
      ''- Important names, identifiers, file paths, URLs mentioned'',
      ''- Open questions or unresolved issues'',
      ''- The user'' @ [CHR 0x27] @ ''s last request and what was being done about it'', [],
      ''Keep the summary under 2000 characters. Use bullet points. Do not add commentary '' @
        [CHR 0xE2, CHR 0x80, CHR 0x94] @ '' just summarize the facts.'', [],
      ''Conversation to summarize:'', ''{conversation}'', []]"

primrec role_label :: "role \<Rightarrow> string" where
  "role_label User = ''User''"
| "role_label Assistant = ''Assistant''"
| "role_label System = ''System''"
| "role_label Tool = ''Tool''"

definition conversation_limit :: nat where
  "conversation_limit = 80000"

fun conversation_text :: "string \<Rightarrow> completion_message list \<Rightarrow> string" where
  "conversation_text acc [] = acc"
| "conversation_text acc (m # ms) =
     (let acc1 = acc @ role_label (msg_role m) @ '': '' @ msg_content m @ [newline, newline]
      in if conversation_limit < length acc1
         then acc1 @ ''[... earlier messages omitted ...]'' @ [newline]
         else conversation_text acc1 ms)"

text \<open>The bits of \<open>0.3f32\<close>.\<close>

definition summary_temperature :: u32 where
  "summary_temperature = 0x3E99999A"

definition summary_request :: "completion_message list \<Rightarrow> string \<Rightarrow> completion_request" where
  "summary_request pruned model_id =
     \<lparr>rq_model_id = model_id,
      rq_messages = [message_text User ''Summarize the conversation above.''],
      rq_max_tokens = Some 1024, rq_temperature = Some summary_temperature,
      rq_system = Some (render compaction_template [(''conversation'', conversation_text [] pruned)]),
      rq_tools = [], rq_thinking_budget = None, rq_parallel_tool_calls = None, rq_seed = None,
      rq_response_format = None, rq_reasoning_effort = None\<rparr>"

definition cap_summary :: "string \<Rightarrow> string" where
  "cap_summary s = (if 4000 < length s then prefix_chars 4000 s else s)"

definition generate_compaction_summary ::
  "'w runtime_env \<Rightarrow> completion_message list \<Rightarrow> string \<Rightarrow> ('w, string) action" where
  "generate_compaction_summary env pruned model_id =
     andthen (re_complete env (summary_request pruned model_id) False) (\<lambda>response.
     succeed (cap_summary (trim (rs_content response))))"

text \<open>A summary that fails leaves the marker.\<close>

definition try_summary ::
  "'w runtime_env \<Rightarrow> completion_message list \<Rightarrow> string \<Rightarrow> ('w, string option) action" where
  "try_summary env pruned model_id =
     (if pruned = [] then succeed None
      else attempt (generate_compaction_summary env pruned model_id)
             (\<lambda>r. succeed (case r of Inr s \<Rightarrow> Some s | Inl _ \<Rightarrow> None)))"

definition summary_message :: "nat \<Rightarrow> string \<Rightarrow> completion_message" where
  "summary_message n s =
     message_text User (''[Conversation summary '' @ [CHR 0xE2, CHR 0x80, CHR 0x94] @ '' '' @ show_nat n @
       '' earlier messages compacted]'' @ [newline, newline] @ s)"

definition with_summary ::
  "nat \<Rightarrow> string option \<Rightarrow> completion_message list \<Rightarrow> completion_message list" where
  "with_summary n summary ms =
     (case (summary, ms) of
        (Some s, m # rest) \<Rightarrow> if msg_role m = User then summary_message n s # rest else ms
      | _ \<Rightarrow> ms)"

fun store_messages ::
  "'w runtime_env \<Rightarrow> session_key \<Rightarrow> u64 \<Rightarrow> completion_message list \<Rightarrow> ('w, unit) action" where
  "store_messages env key seq [] = succeed ()"
| "store_messages env key seq (m # ms) =
     andthen (append_entry env key seq (msg_role m) (msg_content m) None)
       (\<lambda>_. store_messages env key (seq + 1) ms)"

definition unchanged :: "u32 \<Rightarrow> compact_result" where
  "unchanged tokens =
     \<lparr>cp_pruned_count = 0, cp_summary = None, cp_tokens_before = tokens, cp_tokens_after = tokens\<rparr>"

definition compact_messages ::
  "'w runtime_env \<Rightarrow> session_key \<Rightarrow> string \<Rightarrow> model_def \<Rightarrow> string option \<Rightarrow> completion_message list \<Rightarrow>
     ('w, compact_result) action" where
  "compact_messages env key model_id mdl system messages =
     (let before = estimate_messages_tokens messages
      in if before \<le> available_input_budget mdl system then succeed (unchanged before)
         else (let window = optimize_context messages mdl system; n = cw_pruned_count window
               in andthen (try_summary env (take n messages) model_id) (\<lambda>summary.
                  let compacted = with_summary n summary (cw_messages window)
                  in andthen (st_clear_transcript (re_store env) key) (\<lambda>_.
                     andthen (store_messages env key 1 compacted) (\<lambda>_.
                     succeed \<lparr>cp_pruned_count = n, cp_summary = summary, cp_tokens_before = before,
                              cp_tokens_after = estimate_messages_tokens compacted\<rparr>)))))"

definition compact_session ::
  "'w runtime_env \<Rightarrow> runtime \<Rightarrow> session_key \<Rightarrow> agent_id option \<Rightarrow> ('w, compact_result) action" where
  "compact_session env rt key requested =
     andthen (of_result (resolve_agent (rt_config rt) requested)) (\<lambda>(aid, agent).
     andthen (of_result (resolve_model_id rt agent None)) (\<lambda>model_id.
     case find (\<lambda>m. md_id m = model_id) (rt_model_defs rt) of
       None \<Rightarrow> fail (AgentRuntime (''model '' @ model_id @ '' not found''))
     | Some full \<Rightarrow>
         andthen (st_get_transcript (re_store env) key 10000 None) (\<lambda>entries.
         if entries = [] then succeed (unchanged 0)
         else (\<lambda>w. compact_messages env key model_id (model_def.truncate full)
                (build_system_prompt (re_prompt_inputs env aid w) aid agent model_id
                   (case definitions (re_tools env) (ag_tools agent) of Inr ds \<Rightarrow> ds | Inl _ \<Rightarrow> []) None None)
                (map transcript_entry_to_message entries) w))))"

section \<open>Subagents\<close>

text \<open>
  The registry is part of the world. \<open>sv_chat\<close> is \<open>chat\<close>, whose outcome \<open>None\<close> is a panic;
  \<open>sv_timed_out\<close> says whether the timeout is over before the turn is, and the world then.
\<close>

record 'w spawn_env =
  sv_registry :: "'w \<Rightarrow> registry"
  sv_set_registry :: "registry \<Rightarrow> 'w \<Rightarrow> 'w"
  sv_fresh_id :: "'w \<Rightarrow> run_id"
  sv_now :: "'w \<Rightarrow> datetime"
  sv_chat :: "chat_request \<Rightarrow> 'w \<Rightarrow> ((frank_error + chat_response) \<times> 'w) option"
  sv_timed_out :: "chat_request \<Rightarrow> duration \<Rightarrow> 'w \<Rightarrow> 'w option"

definition subagent_request :: "agent_id \<Rightarrow> session_key \<Rightarrow> string \<Rightarrow> chat_request" where
  "subagent_request aid child task =
     \<lparr>cq_agent_id = Some aid, cq_session_key = Some child, cq_message = task, cq_attachments = [],
      cq_model_id = None, cq_max_tokens = None, cq_temperature = None, cq_streaming = False,
      cq_thinking_budget = None, cq_channel_id = None, cq_channel_capabilities = None,
      cq_cancellable = False, cq_approval = False\<rparr>"

definition spawn_request_of ::
  "json \<Rightarrow> agent_id \<Rightarrow> session_key \<Rightarrow> u32 \<Rightarrow> frank_error + spawn_request" where
  "spawn_request_of arguments aid pkey depth =
     (case get_str arguments ''task'' of
        None \<Rightarrow> Inl (AgentRuntime (''spawn_subagent requires a '' @ squoted ''task'' @ '' string''))
      | Some task \<Rightarrow>
          Inr \<lparr>sp_task = sanitize_for_prompt task,
               sp_label = map_option sanitize_for_prompt (get_str arguments ''label''),
               sp_agent_id = aid, sp_model_override = None, sp_timeout_secs = None,
               sp_parent_session_key = pkey, sp_parent_depth = depth\<rparr>)"

definition on_registry ::
  "'w spawn_env \<Rightarrow> (registry \<Rightarrow> (frank_error + 'a) \<times> registry) \<Rightarrow> ('w, 'a) action" where
  "on_registry sv f w =
     (case f (sv_registry sv w) of (r, rg) \<Rightarrow> (r, sv_set_registry sv rg w))"

definition end_run ::
  "'w spawn_env \<Rightarrow> run_id \<Rightarrow> run_state \<Rightarrow> string option \<Rightarrow> string option \<Rightarrow> ('w, nat option) action" where
  "end_run sv run_id state text err w =
     on_registry sv (complete_run (sv_now sv w)
       \<lparr>cn_run_id = run_id, cn_state = state, cn_result_text = text, cn_error = err\<rparr>) w"

definition finish_run ::
  "'w spawn_env \<Rightarrow> run_id \<Rightarrow> (frank_error + chat_response) option \<Rightarrow> ('w, string) action" where
  "finish_run sv run_id outcome =
     (case outcome of
        Some (Inr response) \<Rightarrow>
          andthen (end_run sv run_id RunCompleted (Some (cy_content response)) None)
            (\<lambda>_. succeed (cy_content response))
      | Some (Inl e) \<Rightarrow>
          andthen (end_run sv run_id RunFailed None (Some (error_text e))) (\<lambda>_. fail e)
      | None \<Rightarrow>
          andthen (end_run sv run_id RunTimedOut None (Some ''subagent timed out''))
            (\<lambda>_. fail (AgentRuntime ''subagent execution timed out'')))"

definition run_child ::
  "'w spawn_env \<Rightarrow> chat_request \<Rightarrow> duration \<Rightarrow> run_id \<Rightarrow> 'w \<Rightarrow> ((frank_error + string) \<times> 'w) option" where
  "run_child sv rq timeout run_id w =
     (case sv_timed_out sv rq timeout w of
        Some w1 \<Rightarrow> Some (finish_run sv run_id None w1)
      | None \<Rightarrow>
          (case sv_chat sv rq w of
             None \<Rightarrow> None
           | Some (r, w1) \<Rightarrow> Some (finish_run sv run_id (Some r) w1)))"

text \<open>\<open>None\<close> is a panic: of the session key of the child, or of its turn.\<close>

definition handle_spawn_subagent ::
  "'w spawn_env \<Rightarrow> json \<Rightarrow> agent_id \<Rightarrow> session_key \<Rightarrow> u32 \<Rightarrow> 'w \<Rightarrow>
     ((frank_error + string) \<times> 'w) option" where
  "handle_spawn_subagent sv arguments aid pkey depth w =
     (case spawn_request_of arguments aid pkey depth of
        Inl e \<Rightarrow> Some (Inl e, w)
      | Inr rq \<Rightarrow>
          (case register_spawn (sv_fresh_id sv w) (sv_now sv w) rq (sv_registry sv w) of
             None \<Rightarrow> None
           | Some (SpawnRejected reason, rg) \<Rightarrow>
               Some (Inl (AgentRuntime (''subagent spawn rejected: '' @ reason)), sv_set_registry sv rg w)
           | Some (SpawnAccepted run_id child, rg) \<Rightarrow>
               (let w1 = sv_set_registry sv rg w
                in case on_registry sv (mark_running (sv_now sv w1) run_id) w1 of
                     (Inl e, w2) \<Rightarrow> Some (Inl e, w2)
                   | (Inr _, w2) \<Rightarrow>
                       run_child sv (subagent_request aid child (sp_task rq))
                         (secs (case sp_timeout_secs rq of Some t \<Rightarrow> unat t | None \<Rightarrow> 300)) run_id w2)))"

section \<open>The activity is the newest, in order\<close>

text \<open>
  At most \<open>limit\<close> activities are returned, ordered by their number; they are the last ones of the
  transcript that was read.
\<close>

lemma tool_activity_newest:
  "sorted (map tv_seq (last_activities limit summarize entries)) \<and>
   length (last_activities limit summarize entries) \<le> limit \<and>
   set (last_activities limit summarize entries) \<subseteq>
     {a. \<exists>e\<in>set entries. tn_role e = Tool \<and> activity_of summarize e = Some a}"
proof -
  let ?all = "sort_key tv_seq (List.map_filter (activity_of summarize) (filter (\<lambda>e. tn_role e = Tool) entries))"
  have "sorted (map tv_seq (drop n ?all))" for n
    by (simp add: drop_map [symmetric] sorted_wrt_drop)
  moreover have "set ?all \<subseteq> {a. \<exists>e\<in>set entries. tn_role e = Tool \<and> activity_of summarize e = Some a}"
    by (force simp: List.map_filter_def)
  ultimately show ?thesis
    unfolding last_activities_def Let_def using set_drop_subset by fastforce
qed

section \<open>What a compaction does\<close>

definition compaction_log_ok :: "turn_event list \<Rightarrow> bool" where
  "compaction_log_ok log \<longleftrightarrow> asked_count log \<le> 1 \<and> call_count log = 0 \<and> numbered 1 log"

definition compaction_post :: "'w \<times> turn_event list \<Rightarrow> bool" where
  "compaction_post wl \<longleftrightarrow> compaction_log_ok (snd wl)"

lemma store_messages_ok:
  "compaction_log_ok log \<Longrightarrow> seq = 1 + of_nat (length (recorded log)) \<Longrightarrow>
     leaves (store_messages (noted_env env) key seq ms) compaction_post
       (\<lambda>_. compaction_post) (w, log)"
proof (induction ms arbitrary: seq w log)
  case (Cons m ms)
  show ?case unfolding store_messages.simps leaves_andthen
  proof (rule leaves_append, unfold Let_def, intro conjI)
    fix w1 :: 'a and t
    let ?log = "log @ [Recorded \<lparr>tn_seq = seq, tn_role = msg_role m, tn_content = msg_content m,
      tn_timestamp = t, tn_metadata = None\<rparr>]"
    have ok: "compaction_log_ok ?log"
      using Cons.prems by (simp add: compaction_log_ok_def numbered_snoc)
    then show "compaction_post (w1, ?log)" by (simp add: compaction_post_def)
    show "leaves (store_messages (noted_env env) key (seq + 1) ms) compaction_post
        (\<lambda>_. compaction_post) (w1, ?log)"
      by (rule Cons.IH [OF ok]) (simp add: Cons.prems(2))
  qed
qed (simp add: compaction_post_def)

lemma try_summary_ok:
  assumes "\<And>log w1. log = [] \<or> (\<exists>rq. log = [Asked rq]) \<Longrightarrow> P (w1, log) \<and> (\<forall>x. Q x (w1, log))"
  shows "leaves (try_summary (noted_env env) pruned model_id) P Q (w, [])"
  using assms
  by (auto simp: try_summary_def generate_compaction_summary_def leaves_def attempt_def andthen_def
      noted_def split: prod.split sum.split)

lemma clear_noted: "st_clear_transcript (re_store (noted_env env)) key = silent (st_clear_transcript (re_store env) key)"
  by (simp add: noted_store_def)

lemma compact_messages_ok:
  "leaves (compact_messages (noted_env env) key model_id mdl system messages) compaction_post
     (\<lambda>_. compaction_post) (w, [])"
proof -
  have ok: "compaction_log_ok log" "recorded log = []" if "log = [] \<or> (\<exists>rq. log = [Asked rq])" for log
    using that by (auto simp: compaction_log_ok_def numbered_def asked_count_def call_count_def)
  have store: "leaves (andthen (silent (st_clear_transcript (re_store env) key)) (\<lambda>_.
      andthen (store_messages (noted_env env) key 1 ms) (\<lambda>_. succeed r)))
      compaction_post (\<lambda>_. compaction_post) (w1, log)"
    if "log = [] \<or> (\<exists>rq. log = [Asked rq])" for w1 log ms and r :: compact_result
    unfolding leaves_andthen leaves_silent leaves_succeed_eta using ok [OF that]
    by (intro leavesI store_messages_ok) (simp_all add: compaction_post_def)
  show ?thesis
  proof (cases "estimate_messages_tokens messages \<le> available_input_budget mdl system")
    case True
    then show ?thesis by (simp add: compact_messages_def Let_def compaction_post_def ok)
  next
    case False
    then show ?thesis
      unfolding compact_messages_def Let_def clear_noted if_not_P [OF False]
      by (subst leaves_andthen, intro try_summary_ok conjI allI store)
        (auto simp: compaction_post_def ok)
  qed
qed

text \<open>
  A compaction asks the model at most once, runs no tool, and writes entries numbered from one.
\<close>

lemma compaction_bounded:
  "compaction_log_ok (snd (snd (compact_session (noted_env env) rt key requested (w, []))))"
proof -
  have none: "compaction_log_ok []" by (simp add: compaction_log_ok_def numbered_def)
  obtain r w1 where read: "st_get_transcript (re_store env) key 10000 None w = (r, w1)" by fastforce
  have read': "st_get_transcript (noted_store (re_store env)) key 10000 None (w, []) = (r, (w1, []))"
    using read by (simp add: noted_store_def silent_def)
  have ok: "compaction_log_ok (snd (snd (compact_messages (noted_env env) key i mdl system ms (w1, []))))"
    for i mdl system ms
    using compact_messages_ok [of env key i mdl system ms w1]
    by (auto simp: leaves_def compaction_post_def split: prod.splits sum.splits)
  show ?thesis
    unfolding compact_session_def andthen_def of_result_apply
    by (simp add: none read' ok split: sum.split option.split prod.split)
qed

section \<open>Subagents run to an end, without approval\<close>

text \<open>
  In the turn of a subagent no tool asks for approval: \<open>spawn_subagent\<close>, which itself needs none,
  runs what the user would have to approve.
\<close>

lemma subagent_runs_unapproved:
  "tu_request sc = subagent_request aid child task \<Longrightarrow>
     ask_approval env sc call arguments w = (Inr True, w)"
  by (simp add: ask_approval_def subagent_request_def)

lemma spawn_needs_no_approval:
  assumes "tc_name call = spawn_tool_name" "re_parse_json env (tc_arguments call) = Inr arguments"
    and "\<not> (cq_cancellable (tu_request sc) \<and> re_cancelled env w)"
    and "tracker_record (re_hash env) (tc_name call) (tc_arguments call) (tw_tracker st) = (Inr u, seen)"
  shows "handle_call env sc call st w = run_spawn env sc call arguments (st\<lparr>tw_tracker := seen\<rparr>) w"
  unfolding handle_call_def if_not_P [OF assms(3)] assms(4) using assms(1,2) by simp

abbreviation known_run :: "run_id \<Rightarrow> registry \<Rightarrow> bool" where
  "known_run i rg \<equiv> i \<in> fst ` set (rg_runs rg)"

definition run_over :: "run_id \<Rightarrow> registry \<Rightarrow> bool" where
  "run_over i rg \<longleftrightarrow> (\<exists>r. map_of (rg_runs rg) i = Some r \<and> \<not> is_active r)"

lemma on_run_known: "known_run i rg \<Longrightarrow> known_run i (snd (on_run i f rg))"
  by (force simp: on_run_def)

lemma map_of_on_run: "map_of (map (\<lambda>(k, r). (k, if k = i then f r else r)) runs) i = map_option f (map_of runs i)"
  by (induction runs) auto

lemma complete_run_over:
  assumes "known_run (cn_run_id notice) rg" "cn_state notice \<notin> {RunPending, RunRunning}"
  shows "run_over (cn_run_id notice) (snd (complete_run now notice rg))"
proof -
  from assms(1) obtain r where "map_of (rg_runs rg) (cn_run_id notice) = Some r"
    by (metis map_of_eq_None_iff option.exhaust)
  with assms show ?thesis
    by (simp add: run_over_def complete_run_def on_run_def map_of_on_run is_active_def)
qed

lemma finish_run_over:
  assumes "\<And>rg w. sv_registry sv (sv_set_registry sv rg w) = rg" "known_run i (sv_registry sv w)"
  shows "run_over i (sv_registry sv (snd (finish_run sv i outcome w)))"
proof -
  have "run_over i (sv_registry sv (snd (end_run sv i state tx er w)))"
    if "state \<notin> {RunPending, RunRunning}" for state tx er
    using complete_run_over [of "\<lparr>cn_run_id = i, cn_state = state, cn_result_text = tx, cn_error = er\<rparr>"
        "sv_registry sv w" "sv_now sv w"] assms that
    by (auto simp: end_run_def on_registry_def split: prod.split)
  note over = this
  have [simp]: "snd (andthen m (\<lambda>_. succeed x) w) = snd (m w)"
    "snd (andthen m (\<lambda>_. fail e) w) = snd (m w)"
    for m :: "('a, nat option) action" and x :: string and e
    by (simp_all add: andthen_def split: prod.split sum.split)
  show ?thesis
    unfolding finish_run_def by (cases outcome) (auto intro!: over split: sum.split)
qed

text \<open>
  C24. An accepted subagent ends: once \<open>handle_spawn_subagent\<close> returns, its run is completed, failed or
  timed out, provided that turns do not remove runs from the registry.
\<close>

theorem accepted_subagent_ends:
  assumes law: "\<And>rg w. sv_registry sv (sv_set_registry sv rg w) = rg"
    and chat: "\<And>rq w r w1 i. sv_chat sv rq w = Some (r, w1) \<Longrightarrow> known_run i (sv_registry sv w) \<Longrightarrow>
      known_run i (sv_registry sv w1)"
    and late: "\<And>rq d w w1 i. sv_timed_out sv rq d w = Some w1 \<Longrightarrow> known_run i (sv_registry sv w) \<Longrightarrow>
      known_run i (sv_registry sv w1)"
    and rq: "spawn_request_of arguments aid key depth = Inr rq"
    and accepted: "register_spawn (sv_fresh_id sv w) (sv_now sv w) rq (sv_registry sv w) =
      Some (SpawnAccepted run_id child, rg)"
    and ended: "handle_spawn_subagent sv arguments aid key depth w = Some (r, w1)"
  shows "run_over run_id (sv_registry sv w1)"
proof -
  have known: "known_run run_id rg"
    using accepted by (auto simp: register_spawn_def Let_def split: if_splits option.splits)
  let ?w1 = "sv_set_registry sv rg w"
  have run1: "mark_running t run_id rg = (Inr (), snd (mark_running t run_id rg))" for t
    using known by (simp add: mark_running_def on_run_def)
  define w2 where "w2 = sv_set_registry sv (snd (mark_running (sv_now sv ?w1) run_id rg)) ?w1"
  have w2: "on_registry sv (mark_running (sv_now sv ?w1) run_id) ?w1 = (Inr (), w2)"
    unfolding on_registry_def law w2_def using run1 [of "sv_now sv ?w1"] by (metis (mono_tags) case_prod_conv)
  have known2: "known_run run_id (sv_registry sv w2)"
    unfolding w2_def law mark_running_def by (rule on_run_known [OF known])
  obtain rq' d where run: "run_child sv rq' d run_id w2 = Some (r, w1)"
    using ended rq accepted w2 by (auto simp: handle_spawn_subagent_def Let_def)
  from run obtain w3 outcome where w3: "known_run run_id (sv_registry sv w3)"
    "finish_run sv run_id outcome w3 = (r, w1)"
    using chat [OF _ known2] late [OF _ known2]
    by (fastforce simp: run_child_def split: option.splits prod.splits)
  from finish_run_over [OF law w3(1), of outcome] w3(2) show ?thesis by simp
qed

definition demo_spawn_env :: "registry spawn_env" where
  "demo_spawn_env =
     \<lparr>sv_registry = id, sv_set_registry = (\<lambda>rg _. rg), sv_fresh_id = (\<lambda>_. ''r1''), sv_now = (\<lambda>_. 0),
      sv_chat = (\<lambda>rq rg. Some (Inl TurnCancelled, rg)), sv_timed_out = (\<lambda>_ _ _. None)\<rparr>"

theorem accepted_subagent_ends_witness:
  "\<exists>r w1. handle_spawn_subagent demo_spawn_env (JObject [(''task'', JString ''t'')]) (AgentId ''a'')
     (SessionKey ''k'') 0 registry_new = Some (r, w1) \<and> run_over ''r1'' w1"
proof -
  obtain rq where rq: "spawn_request_of (JObject [(''task'', JString ''t'')]) (AgentId ''a'') (SessionKey ''k'') 0 = Inr rq"
    and depth: "sp_parent_depth rq = 0" "sp_agent_id rq = AgentId ''a''"
    by (simp add: spawn_request_of_def get_str_def)
  have "\<exists>child rg. register_spawn ''r1'' 0 rq registry_new = Some (SpawnAccepted ''r1'' child, rg)"
    using depth by (simp add: register_spawn_def registry_new_def with_limits_def default_max_depth_def
        default_max_children_def active_children_def Let_def from_raw_def)
  then obtain child rg where acc: "register_spawn (sv_fresh_id demo_spawn_env registry_new)
      (sv_now demo_spawn_env registry_new) rq (sv_registry demo_spawn_env registry_new) =
      Some (SpawnAccepted ''r1'' child, rg)" by (auto simp: demo_spawn_env_def)
  then have "known_run ''r1'' rg" by (auto simp: register_spawn_def Let_def split: if_splits option.splits)
  then have "\<exists>r w1. handle_spawn_subagent demo_spawn_env (JObject [(''task'', JString ''t'')]) (AgentId ''a'')
     (SessionKey ''k'') 0 registry_new = Some (r, w1)"
    using acc rq by (auto simp: handle_spawn_subagent_def Let_def on_registry_def mark_running_def on_run_def
        run_child_def demo_spawn_env_def)
  then obtain r w1 where ret: "handle_spawn_subagent demo_spawn_env (JObject [(''task'', JString ''t'')])
      (AgentId ''a'') (SessionKey ''k'') 0 registry_new = Some (r, w1)" by blast
  have "run_over ''r1'' (sv_registry demo_spawn_env w1)"
    by (rule accepted_subagent_ends [OF _ _ _ rq acc ret]) (auto simp: demo_spawn_env_def)
  with ret show ?thesis by (auto simp: demo_spawn_env_def)
qed

end
