(* ===== verification/Cron_Service.thy ===== *)
theory Cron_Service
  imports Core_Types
begin

text \<open>
  The cron service (\<open>frankclaw-cron/src/service.rs\<close>, \<open>lib.rs\<close>): the table of jobs, the tick that
  starts those that are due, the end of a run, and the operations on the table with its file. The
  parser of schedules, the clock and the disk are arguments. A job table is an association list whose
  order stands for the unspecified one of the code's hash map.
\<close>

section \<open>Types\<close>

datatype run_status = CronRunning | CronSuccess | CronFailed | CronSkipped

record run_log =
  rl_job_id :: string
  rl_started_at :: datetime
  rl_finished_at :: "datetime option"
  rl_status :: run_status
  rl_error :: "string option"

record cron_job =
  cj_id :: string
  cj_schedule :: string
  cj_agent_id :: agent_id
  cj_session_key :: session_key
  cj_prompt :: string
  cj_enabled :: bool
  cj_created_at :: datetime
  cj_last_run :: "run_log option"

type_synonym job_table = "(string \<times> cron_job) list"

text \<open>The library of schedules: parsing, and the first time after a given one.\<close>

record 's scheduler =
  sh_parse :: "string \<Rightarrow> string + 's"
  sh_next_after :: "'s \<Rightarrow> datetime \<Rightarrow> datetime option"

definition job_timeout :: duration where
  "job_timeout = secs 600"

text \<open>A minute of the tick, in nanoseconds.\<close>

definition tick_window :: int where
  "tick_window = 60 * 1000000000"

section \<open>The tick\<close>

definition still_running :: "cron_job \<Rightarrow> bool" where
  "still_running j \<longleftrightarrow> (case cj_last_run j of Some r \<Rightarrow> rl_status r = CronRunning | None \<Rightarrow> False)"

definition already_started :: "cron_job \<Rightarrow> datetime \<Rightarrow> bool" where
  "already_started j next \<longleftrightarrow> (case cj_last_run j of Some r \<Rightarrow> next \<le> rl_started_at r | None \<Rightarrow> False)"

text \<open>The scheduled time for which the job is started at \<open>now\<close>.\<close>

definition due_at :: "'s scheduler \<Rightarrow> datetime \<Rightarrow> cron_job \<Rightarrow> datetime option" where
  "due_at sh now j =
     (if \<not> cj_enabled j then None
      else (case sh_parse sh (cj_schedule j) of
              Inl _ \<Rightarrow> None
            | Inr schedule \<Rightarrow>
                (case sh_next_after sh schedule (now - tick_window) of
                   None \<Rightarrow> None
                 | Some next \<Rightarrow>
                     if now < next \<or> still_running j \<or> already_started j next then None
                     else Some next)))"

definition start_run :: "datetime \<Rightarrow> cron_job \<Rightarrow> cron_job" where
  "start_run now j =
     j\<lparr>cj_last_run := Some \<lparr>rl_job_id = cj_id j, rl_started_at = now, rl_finished_at = None,
                            rl_status = CronRunning, rl_error = None\<rparr>\<rparr>"

definition cron_tick :: "'s scheduler \<Rightarrow> datetime \<Rightarrow> job_table \<Rightarrow> job_table \<times> cron_job list" where
  "cron_tick sh now jobs =
     (map (\<lambda>(k, j). (k, if due_at sh now j = None then j else start_run now j)) jobs,
      map (start_run now \<circ> snd) (filter (\<lambda>(_, j). due_at sh now j \<noteq> None) jobs))"

text \<open>The outcome of a run: \<open>None\<close> when the timeout passes first.\<close>

definition run_outcome :: "string \<Rightarrow> (frank_error + unit) option \<Rightarrow> frank_error + unit" where
  "run_outcome job_id r =
     (case r of
        Some res \<Rightarrow> res
      | None \<Rightarrow> Inl (AgentRuntime (''cron job '' @ squoted job_id @ '' timed out after '' @
          show_nat (as_secs job_timeout) @ ''s'')))"

definition finish_job ::
  "string \<Rightarrow> datetime \<Rightarrow> datetime \<Rightarrow> frank_error + unit \<Rightarrow> job_table \<Rightarrow> job_table" where
  "finish_job job_id started finished result jobs =
     (case map_of jobs job_id of
        None \<Rightarrow> jobs
      | Some j \<Rightarrow>
          AList.update job_id
            (j\<lparr>cj_last_run := Some
                \<lparr>rl_job_id = job_id, rl_started_at = started, rl_finished_at = Some finished,
                 rl_status = (case result of Inr _ \<Rightarrow> CronSuccess | Inl _ \<Rightarrow> CronFailed),
                 rl_error = (case result of Inr _ \<Rightarrow> None | Inl e \<Rightarrow> Some (error_text e))\<rparr>\<rparr>) jobs)"

section \<open>The operations on the table\<close>

record cron_service =
  cv_jobs :: job_table
  cv_has_path :: bool
  cv_cancelled :: bool

text \<open>What the service asks of the disk; errors of writing are ignored.\<close>

record 'w cron_disk =
  kd_prepare :: "'w \<Rightarrow> (string + unit) \<times> 'w"
  kd_exists :: "'w \<Rightarrow> bool"
  kd_read :: "'w \<Rightarrow> string + string"
  kd_write :: "string \<Rightarrow> 'w \<Rightarrow> 'w"
  kd_encode :: "job_table \<Rightarrow> string"
  kd_decode :: "string \<Rightarrow> string + job_table"

definition cron_new :: cron_service where
  "cron_new = \<lparr>cv_jobs = [], cv_has_path = False, cv_cancelled = False\<rparr>"

definition load_jobs :: "'w cron_disk \<Rightarrow> 'w \<Rightarrow> frank_error + job_table" where
  "load_jobs d w =
     (if \<not> kd_exists d w then Inr []
      else (case kd_read d w of
              Inl e \<Rightarrow> Inl (ConfigIo (''failed to read cron file: '' @ e))
            | Inr content \<Rightarrow>
                (case kd_decode d content of
                   Inl e \<Rightarrow> Inl (ConfigIo (''failed to parse cron file: '' @ e))
                 | Inr jobs \<Rightarrow> Inr jobs)))"

definition cron_open :: "'w cron_disk \<Rightarrow> 'w \<Rightarrow> (frank_error + cron_service) \<times> 'w" where
  "cron_open d w =
     (case kd_prepare d w of
        (Inl e, w1) \<Rightarrow> (Inl (ConfigIo (''failed to create cron directory: '' @ e)), w1)
      | (Inr _, w1) \<Rightarrow>
          (case load_jobs d w1 of
             Inl e \<Rightarrow> (Inl e, w1)
           | Inr jobs \<Rightarrow> (Inr \<lparr>cv_jobs = jobs, cv_has_path = True, cv_cancelled = False\<rparr>, w1)))"

definition save_jobs :: "'w cron_disk \<Rightarrow> cron_service \<Rightarrow> 'w \<Rightarrow> 'w" where
  "save_jobs d s w = (if cv_has_path s then kd_write d (kd_encode d (cv_jobs s)) w else w)"

definition invalid_schedule :: "cron_job \<Rightarrow> string \<Rightarrow> frank_error" where
  "invalid_schedule j e =
     ConfigValidation (''invalid cron schedule '' @ squoted (cj_schedule j) @ '': '' @ e)"

definition schedule_ok :: "'s scheduler \<Rightarrow> cron_job \<Rightarrow> frank_error + unit" where
  "schedule_ok sh j =
     (case sh_parse sh (cj_schedule j) of Inl e \<Rightarrow> Inl (invalid_schedule j e) | Inr _ \<Rightarrow> Inr ())"

definition cron_add_job ::
  "'s scheduler \<Rightarrow> 'w cron_disk \<Rightarrow> cron_job \<Rightarrow> cron_service \<Rightarrow> 'w \<Rightarrow>
     (frank_error + unit) \<times> cron_service \<times> 'w" where
  "cron_add_job sh d j s w =
     (case first_error
             [schedule_ok sh j,
              check (trim (cj_prompt j) \<noteq> []) (ConfigValidation ''cron job prompt must not be empty''),
              check (trim (cj_id j) \<noteq> []) (ConfigValidation ''cron job id must not be empty'')] of
        Inl e \<Rightarrow> (Inl e, s, w)
      | Inr _ \<Rightarrow>
          (let s1 = s\<lparr>cv_jobs := AList.update (cj_id j) j (cv_jobs s)\<rparr> in (Inr (), s1, save_jobs d s1 w)))"

definition cron_remove_job :: "'w cron_disk \<Rightarrow> string \<Rightarrow> cron_service \<Rightarrow> 'w \<Rightarrow> cron_service \<times> 'w" where
  "cron_remove_job d i s w =
     (let s1 = s\<lparr>cv_jobs := AList.delete i (cv_jobs s)\<rparr> in (s1, save_jobs d s1 w))"

definition cron_list :: "cron_service \<Rightarrow> cron_job list" where
  "cron_list s = map snd (cv_jobs s)"

text \<open>The jobs keep the last run of a stored job of the same identifier.\<close>

definition keep_last_run :: "job_table \<Rightarrow> cron_job \<Rightarrow> cron_job" where
  "keep_last_run existing j =
     (case Option.bind (map_of existing (cj_id j)) cj_last_run of
        Some r \<Rightarrow> j\<lparr>cj_last_run := Some r\<rparr>
      | None \<Rightarrow> j)"

fun next_table ::
  "'s scheduler \<Rightarrow> job_table \<Rightarrow> job_table \<Rightarrow> cron_job list \<Rightarrow> frank_error + job_table" where
  "next_table sh existing acc [] = Inr acc"
| "next_table sh existing acc (j # js) =
     (let j1 = keep_last_run existing j
      in case schedule_ok sh j1 of
           Inl e \<Rightarrow> Inl e
         | Inr _ \<Rightarrow> next_table sh existing (AList.update (cj_id j1) j1 acc) js)"

definition sync_jobs ::
  "'s scheduler \<Rightarrow> 'w cron_disk \<Rightarrow> cron_job list \<Rightarrow> cron_service \<Rightarrow> 'w \<Rightarrow>
     (frank_error + unit) \<times> cron_service \<times> 'w" where
  "sync_jobs sh d js s w =
     (case next_table sh (cv_jobs s) [] js of
        Inl e \<Rightarrow> (Inl e, s, w)
      | Inr jobs \<Rightarrow> (let s1 = s\<lparr>cv_jobs := jobs\<rparr> in (Inr (), s1, save_jobs d s1 w)))"

definition cron_stop :: "cron_service \<Rightarrow> cron_service" where
  "cron_stop s = s\<lparr>cv_cancelled := True\<rparr>"

text \<open>The interface of the tools: \<open>None\<close> is a panic of cutting an identifier.\<close>

definition manager_add_job ::
  "'s scheduler \<Rightarrow> 'w cron_disk \<Rightarrow> datetime \<Rightarrow> string \<Rightarrow> string \<Rightarrow> string \<Rightarrow> string \<Rightarrow> string \<Rightarrow> bool \<Rightarrow>
     cron_service \<Rightarrow> 'w \<Rightarrow> ((frank_error + unit) \<times> cron_service \<times> 'w) option" where
  "manager_add_job sh d now i schedule agent key prompt enabled s w =
     (case (agent_new agent, from_raw key) of
        (Some a, Some k) \<Rightarrow>
          Some (cron_add_job sh d
            \<lparr>cj_id = i, cj_schedule = schedule, cj_agent_id = a, cj_session_key = k, cj_prompt = prompt,
             cj_enabled = enabled, cj_created_at = now, cj_last_run = None\<rparr> s w)
      | _ \<Rightarrow> None)"

definition manager_remove_job ::
  "'w cron_disk \<Rightarrow> string \<Rightarrow> cron_service \<Rightarrow> 'w \<Rightarrow> bool \<times> cron_service \<times> 'w" where
  "manager_remove_job d i s w =
     (let existed = list_ex (\<lambda>j. cj_id j = i) (cron_list s)
      in case cron_remove_job d i s w of (s1, w1) \<Rightarrow> (existed, s1, w1))"

section \<open>An occurrence starts one run\<close>

text \<open>
  The runs that a tick starts: the job and the scheduled time. A service between two changes of its
  table by a client: ticks at any time, runs that end, jobs that are removed.
\<close>

definition tick_starts :: "'s scheduler \<Rightarrow> datetime \<Rightarrow> job_table \<Rightarrow> (string \<times> datetime) list" where
  "tick_starts sh now jobs = List.map_filter (\<lambda>(k, j). map_option (Pair k) (due_at sh now j)) jobs"

inductive cron_reach ::
  "'s scheduler \<Rightarrow> job_table \<Rightarrow> job_table \<Rightarrow> (string \<times> datetime) list \<Rightarrow> bool"
  for sh jobs0 where
  init: "cron_reach sh jobs0 jobs0 []"
| ticks: "cron_reach sh jobs0 jobs starts \<Longrightarrow>
    cron_reach sh jobs0 (fst (cron_tick sh now jobs)) (starts @ tick_starts sh now jobs)"
| finished: "cron_reach sh jobs0 jobs starts \<Longrightarrow> map_of jobs i = Some j \<Longrightarrow> cj_last_run j = Some r \<Longrightarrow>
    rl_status r = CronRunning \<Longrightarrow> rl_started_at r \<le> started \<Longrightarrow>
    cron_reach sh jobs0 (finish_job i started ended result jobs) starts"
| removed: "cron_reach sh jobs0 jobs starts \<Longrightarrow> cron_reach sh jobs0 (AList.delete i jobs) starts"

definition starts_of :: "string \<Rightarrow> (string \<times> datetime) list \<Rightarrow> datetime list" where
  "starts_of i starts = map snd (filter (\<lambda>(k, _). k = i) starts)"

lemma starts_of_append [simp]: "starts_of i (a @ b) = starts_of i a @ starts_of i b"
  by (simp add: starts_of_def)

lemma starts_of_absent: "i \<notin> fst ` set jobs \<Longrightarrow> starts_of i (tick_starts sh now jobs) = []"
  by (induction jobs) (auto simp: starts_of_def tick_starts_def List.map_filter_def split: option.split)

lemma starts_of_tick:
  "distinct (map fst jobs) \<Longrightarrow>
     starts_of i (tick_starts sh now jobs) =
       (case Option.bind (map_of jobs i) (due_at sh now) of Some t \<Rightarrow> [t] | None \<Rightarrow> [])"
proof (induction jobs)
  case (Cons kj jobs)
  obtain k j where kj: "kj = (k, j)" by fastforce
  have step: "starts_of i (tick_starts sh now ((k, j) # jobs)) =
      (if k = i then (case due_at sh now j of Some t \<Rightarrow> [t] | None \<Rightarrow> []) else []) @
      starts_of i (tick_starts sh now jobs)"
    by (auto simp: starts_of_def tick_starts_def List.map_filter_def split: option.split)
  show ?case
  proof (cases "k = i")
    case True
    with Cons.prems kj have "starts_of i (tick_starts sh now jobs) = []" by (intro starts_of_absent) auto
    with True show ?thesis unfolding kj step by (simp split: option.split)
  next
    case False
    with Cons show ?thesis unfolding kj step by simp
  qed
qed (simp add: starts_of_def tick_starts_def)

lemma tick_lookup:
  "map_of (fst (cron_tick sh now jobs)) i =
     map_option (\<lambda>j. if due_at sh now j = None then j else start_run now j) (map_of jobs i)"
  by (induction jobs) (auto simp: cron_tick_def)

lemma tick_keys: "map fst (fst (cron_tick sh now jobs)) = map fst jobs"
  by (induction jobs) (auto simp: cron_tick_def)

lemma due_at_Some:
  "due_at sh now j = Some t \<Longrightarrow>
     t \<le> now \<and> \<not> still_running j \<and> (\<forall>r. cj_last_run j = Some r \<longrightarrow> rl_started_at r < t)"
  by (auto simp: due_at_def already_started_def split: if_splits sum.splits option.splits)

definition starts_ok :: "job_table \<Rightarrow> (string \<times> datetime) list \<Rightarrow> bool" where
  "starts_ok jobs starts \<longleftrightarrow>
     distinct (map fst jobs) \<and>
     (\<forall>i. sorted_wrt (<) (starts_of i starts) \<and>
        (\<forall>j. map_of jobs i = Some j \<longrightarrow> starts_of i starts \<noteq> [] \<longrightarrow>
           (\<exists>r. cj_last_run j = Some r \<and> last (starts_of i starts) \<le> rl_started_at r)))"

lemma sorted_snoc: "sorted_wrt (<) xs \<Longrightarrow> xs = [] \<or> last xs < (t :: int) \<Longrightarrow> sorted_wrt (<) (xs @ [t])"
  by (cases xs rule: rev_cases) (force simp: sorted_wrt_append)+

lemma starts_ok_tick:
  assumes "starts_ok jobs starts"
  shows "starts_ok (fst (cron_tick sh now jobs)) (starts @ tick_starts sh now jobs)"
proof -
  from assms have dist: "distinct (map fst jobs)" by (simp add: starts_ok_def)
  have "sorted_wrt (<) (starts_of i (starts @ tick_starts sh now jobs)) \<and>
      (\<forall>j. map_of (fst (cron_tick sh now jobs)) i = Some j \<longrightarrow>
         starts_of i (starts @ tick_starts sh now jobs) \<noteq> [] \<longrightarrow>
         (\<exists>r. cj_last_run j = Some r \<and> last (starts_of i (starts @ tick_starts sh now jobs)) \<le> rl_started_at r))" for i
  proof (cases "Option.bind (map_of jobs i) (due_at sh now)")
    case None
    then have "starts_of i (tick_starts sh now jobs) = []" by (simp add: starts_of_tick [OF dist])
    with None assms show ?thesis
      by (auto simp: starts_ok_def tick_lookup simp del: map_of_eq_Some_iff split: if_splits)
  next
    case (Some t)
    then obtain j where j: "map_of jobs i = Some j" "due_at sh now j = Some t"
      by (cases "map_of jobs i") auto
    have t: "starts_of i (tick_starts sh now jobs) = [t]" by (simp add: starts_of_tick [OF dist] Some)
    from assms j(1) have "sorted_wrt (<) (starts_of i starts)"
      "starts_of i starts = [] \<or> (\<exists>r. cj_last_run j = Some r \<and> last (starts_of i starts) \<le> rl_started_at r)"
      by (auto simp: starts_ok_def simp del: map_of_eq_Some_iff)
    with due_at_Some [OF j(2)] have "sorted_wrt (<) (starts_of i starts @ [t])"
      by (intro sorted_snoc) force+
    with t j due_at_Some [OF j(2)] show ?thesis
      by (auto simp: tick_lookup start_run_def simp del: map_of_eq_Some_iff)
  qed
  with dist show ?thesis by (simp add: starts_ok_def tick_keys)
qed

lemma starts_ok_finish:
  assumes "starts_ok jobs starts" "map_of jobs i = Some j" "cj_last_run j = Some r"
    and "rl_started_at r \<le> started"
  shows "starts_ok (finish_job i started ended result jobs) starts"
  using assms
  by (fastforce simp: starts_ok_def finish_job_def update_conv' distinct_update intro: order_trans)

lemma starts_ok_remove: "starts_ok jobs starts \<Longrightarrow> starts_ok (AList.delete i jobs) starts"
  by (auto simp: starts_ok_def delete_conv' distinct_delete)


definition hourly :: "int scheduler" where
  "hourly = \<lparr>sh_parse = (\<lambda>_. Inr 3600), sh_next_after = (\<lambda>p t. Some ((t div (p * 1000000000) + 1) * (p * 1000000000)))\<rparr>"

definition report_job :: cron_job where
  "report_job =
     \<lparr>cj_id = ''r'', cj_schedule = ''0 0 * * * *'', cj_agent_id = AgentId ''a'', cj_session_key = SessionKey ''k'',
      cj_prompt = ''report'', cj_enabled = True, cj_created_at = 0, cj_last_run = None\<rparr>"


section \<open>What goes wrong\<close>

text \<open>
  A run that was active when the service stopped is stored as running, and loading does not change
  it: the job is never due again.
\<close>

lemma running_never_due: "still_running j \<Longrightarrow> due_at sh now j = None"
  by (auto simp: due_at_def split: sum.split option.split)

lemma loaded_run_never_due:
  "load_jobs d w = Inr jobs \<Longrightarrow> map_of jobs i = Some j \<Longrightarrow> still_running j \<Longrightarrow>
     starts_of i (tick_starts sh now jobs) = [] \<or> \<not> distinct (map fst jobs)"
  by (auto simp: starts_of_tick running_never_due)

text \<open>
  The window reaches back one minute from the tick and not to the tick before: between two ticks that
  are a little more than a minute apart an occurrence is lost.
\<close>

definition noon_only :: "unit scheduler" where
  "noon_only = \<lparr>sh_parse = (\<lambda>_. Inr ()), sh_next_after = (\<lambda>_ t. if t < 1000 then Some 1000 else None)\<rparr>"

lemma late_tick_misses:
  "tick_starts noon_only 999 [(''r'', report_job)] = [] \<and>
   tick_starts noon_only (1000 + tick_window) [(''r'', report_job)] = []"
  by (simp add: tick_starts_def List.map_filter_def due_at_def noon_only_def report_job_def tick_window_def)

section \<open>Changes of the table\<close>

definition table_ok :: "job_table \<Rightarrow> bool" where
  "table_ok jobs \<longleftrightarrow> distinct (map fst jobs) \<and> (\<forall>k j. map_of jobs k = Some j \<longrightarrow> cj_id j = k)"

lemma table_update: "table_ok jobs \<Longrightarrow> cj_id j = k \<Longrightarrow> table_ok (AList.update k j jobs)"
  by (auto simp: table_ok_def update_conv' distinct_update)

lemma table_next: "table_ok acc \<Longrightarrow> next_table sh existing acc js = Inr jobs \<Longrightarrow> table_ok jobs"
  by (induction sh existing acc js rule: next_table.induct)
    (auto simp: Let_def split: sum.splits intro: table_update)

lemma keep_last_run_id [simp]: "cj_id (keep_last_run existing j) = cj_id j"
  by (simp add: keep_last_run_def split: option.split)

lemma table_operations:
  "table_ok (cv_jobs s) \<Longrightarrow> table_ok (cv_jobs (fst (snd (cron_add_job sh d j s w))))"
  "table_ok (cv_jobs s) \<Longrightarrow> table_ok (cv_jobs (fst (cron_remove_job d i s w)))"
  "table_ok (cv_jobs s) \<Longrightarrow> table_ok (cv_jobs (fst (snd (sync_jobs sh d js s w))))"
  "table_ok jobs \<Longrightarrow> table_ok (fst (cron_tick sh now jobs))"
  "table_ok jobs \<Longrightarrow> table_ok (finish_job i a b r jobs)"
proof -
  show "table_ok (cv_jobs s) \<Longrightarrow> table_ok (cv_jobs (fst (snd (cron_add_job sh d j s w))))"
    by (auto simp: cron_add_job_def Let_def split: sum.split intro: table_update)
  show "table_ok (cv_jobs s) \<Longrightarrow> table_ok (cv_jobs (fst (cron_remove_job d i s w)))"
    by (auto simp: cron_remove_job_def Let_def table_ok_def delete_conv' distinct_delete split: if_splits)
  have "table_ok []" by (simp add: table_ok_def)
  then show "table_ok (cv_jobs s) \<Longrightarrow> table_ok (cv_jobs (fst (snd (sync_jobs sh d js s w))))"
    by (auto simp: sync_jobs_def Let_def split: sum.split intro: table_next)
  show "table_ok jobs \<Longrightarrow> table_ok (fst (cron_tick sh now jobs))"
    by (auto simp: table_ok_def tick_keys tick_lookup start_run_def)
  show "table_ok jobs \<Longrightarrow> table_ok (finish_job i a b r jobs)"
    by (auto simp: finish_job_def table_ok_def update_conv' distinct_update
        simp del: map_of_eq_Some_iff split: option.split)
qed

end
