(* ===== verification/Acp.thy ===== *)
theory Acp
  imports Chat_Sessions
begin

text \<open>
  The ACP server (\<open>frankclaw-gateway/src/acp.rs\<close>, \<open>acp_transport.rs\<close>): JSON-RPC requests over lines of
  JSON, the table of sessions with its eviction and its rate limit. The runtime behind it is an
  argument; the forwarding of a stream to the output is left out. Requests are handled one after the
  other, as the loop over the lines of the input does.
\<close>

section \<open>The transport (acp_transport.rs)\<close>

definition max_line_bytes :: nat where
  "max_line_bytes = 2 * 1024 * 1024"

record json_rpc_request =
  jq_jsonrpc :: string
  jq_id :: "json option"
  jq_method :: string
  jq_params :: json

record json_rpc_error =
  je_code :: int
  je_message :: string
  je_data :: "json option"

record json_rpc_response =
  jr_jsonrpc :: string
  jr_id :: "json option"
  jr_result :: "json option"
  jr_error :: "json_rpc_error option"

definition parse_error :: int where "parse_error = -32700"
definition invalid_request :: int where "invalid_request = -32600"
definition method_not_found :: int where "method_not_found = -32601"
definition invalid_params :: int where "invalid_params = -32602"
definition internal_error :: int where "internal_error = -32603"
definition rate_limited :: int where "rate_limited = -32000"
definition session_not_found :: int where "session_not_found = -32001"

definition rpc_success :: "json option \<Rightarrow> json \<Rightarrow> json_rpc_response" where
  "rpc_success i r = \<lparr>jr_jsonrpc = ''2.0'', jr_id = i, jr_result = Some r, jr_error = None\<rparr>"

definition rpc_error :: "json option \<Rightarrow> int \<Rightarrow> string \<Rightarrow> json_rpc_response" where
  "rpc_error i code msg =
     \<lparr>jr_jsonrpc = ''2.0'', jr_id = i, jr_result = None,
      jr_error = Some \<lparr>je_code = code, je_message = msg, je_data = None\<rparr>\<rparr>"

definition parse_request ::
  "(string \<Rightarrow> string + json_rpc_request) \<Rightarrow> string \<Rightarrow> json_rpc_response + json_rpc_request" where
  "parse_request from_str line =
     (case from_str line of
        Inl e \<Rightarrow> Inl (rpc_error None parse_error (''parse error: '' @ e))
      | Inr req \<Rightarrow>
          if jq_jsonrpc req \<noteq> ''2.0''
          then Inl (rpc_error (jq_id req) invalid_request (''jsonrpc must be '' @ dquoted ''2.0''))
          else if jq_method req = []
          then Inl (rpc_error (jq_id req) invalid_request ''method must not be empty'')
          else Inr req)"

text \<open>A line of the input, or the error of a line that is too long.\<close>

definition read_line :: "string \<Rightarrow> string + string" where
  "read_line line =
     (if max_line_bytes < length line
      then Inl (''line exceeds maximum size ('' @ show_nat max_line_bytes @ '' bytes)'')
      else Inr line)"

section \<open>The server (acp.rs)\<close>

record acp_options =
  ao_max_sessions :: nat
  ao_session_ttl :: duration
  ao_rate_limit_per_window :: u32

definition default_acp_options :: acp_options where
  "default_acp_options =
     \<lparr>ao_max_sessions = 5000, ao_session_ttl = secs (24 * 60 * 60), ao_rate_limit_per_window = 120\<rparr>"

record acp_session =
  as_session_id :: string
  as_session_key :: session_key
  as_created_at :: instant
  as_last_touched :: instant

record acp_server =
  av_sessions :: "(string \<times> acp_session) list"
  av_options :: acp_options
  av_window :: "instant \<times> u32"

definition acp_new :: "acp_options \<Rightarrow> instant \<Rightarrow> acp_server" where
  "acp_new options now = \<lparr>av_sessions = [], av_options = options, av_window = (now, 0)\<rparr>"

definition session_count :: "acp_server \<Rightarrow> nat" where
  "session_count s = length (av_sessions s)"

definition rate_window :: duration where
  "rate_window = secs 10"

definition check_rate_limit :: "instant \<Rightarrow> acp_server \<Rightarrow> bool \<times> acp_server" where
  "check_rate_limit now s =
     (case av_window s of (start, n) \<Rightarrow>
        if rate_window < duration_since now start then (True, s\<lparr>av_window := (now, 1)\<rparr>)
        else if n < ao_rate_limit_per_window (av_options s)
        then (True, s\<lparr>av_window := (start, n + 1)\<rparr>)
        else (False, s))"

definition evict_expired :: "instant \<Rightarrow> acp_server \<Rightarrow> acp_server" where
  "evict_expired now s =
     s\<lparr>av_sessions := filter (\<lambda>(_, x). duration_since now (as_last_touched x)
                                 < ao_session_ttl (av_options s)) (av_sessions s)\<rparr>"

text \<open>\<open>min_by_key\<close>: the first of the least.\<close>

fun least_touched :: "(string \<times> acp_session) list \<Rightarrow> (string \<times> acp_session) option" where
  "least_touched [] = None"
| "least_touched (x # xs) =
     (case least_touched xs of
        None \<Rightarrow> Some x
      | Some y \<Rightarrow> if as_last_touched (snd x) \<le> as_last_touched (snd y) then Some x else Some y)"

definition evict_lru :: "acp_server \<Rightarrow> acp_server" where
  "evict_lru s =
     (case least_touched (av_sessions s) of
        None \<Rightarrow> s
      | Some (k, _) \<Rightarrow> s\<lparr>av_sessions := AList.delete k (av_sessions s)\<rparr>)"

definition param_str :: "json_rpc_request \<Rightarrow> string \<Rightarrow> string" where
  "param_str req k = (case get_str (jq_params req) k of Some v \<Rightarrow> v | None \<Rightarrow> [])"

definition touch :: "string \<Rightarrow> instant \<Rightarrow> acp_server \<Rightarrow> acp_server" where
  "touch i now s =
     s\<lparr>av_sessions := AList.map_entry i (\<lambda>x. x\<lparr>as_last_touched := now\<rparr>) (av_sessions s)\<rparr>"

definition unknown_session :: "json_rpc_request \<Rightarrow> string \<Rightarrow> json_rpc_response" where
  "unknown_session req i =
     rpc_error (jq_id req) session_not_found (''session '' @ squoted i @ '' not found'')"

definition handle_initialize :: "string \<Rightarrow> json_rpc_request \<Rightarrow> json_rpc_response" where
  "handle_initialize version req =
     rpc_success (jq_id req)
       (JObject [(''name'', JString ''frankclaw''), (''version'', JString version),
          (''capabilities'',
             JObject [(''streaming'', JBool True), (''tools'', JBool True), (''sessions'', JBool True)])])"

text \<open>\<open>fresh_id\<close> is the new UUID, whose key is too short to be cut.\<close>

definition handle_new_session ::
  "string \<Rightarrow> instant \<Rightarrow> json_rpc_request \<Rightarrow> acp_server \<Rightarrow> json_rpc_response \<times> acp_server" where
  "handle_new_session fresh_id now req s =
     (case check_rate_limit now s of
        (False, s1) \<Rightarrow>
          (rpc_error (jq_id req) rate_limited ''session creation rate limit exceeded'', s1)
      | (True, s1) \<Rightarrow>
          (let s2 = evict_expired now s1;
               s3 = (if ao_max_sessions (av_options s2) \<le> session_count s2 then evict_lru s2 else s2);
               x = \<lparr>as_session_id = fresh_id, as_session_key = SessionKey (''acp:'' @ fresh_id),
                    as_created_at = now, as_last_touched = now\<rparr>
           in (rpc_success (jq_id req) (JObject [(''sessionId'', JString fresh_id)]),
               s3\<lparr>av_sessions := AList.update fresh_id x (av_sessions s3)\<rparr>)))"

definition handle_load_session ::
  "instant \<Rightarrow> json_rpc_request \<Rightarrow> acp_server \<Rightarrow> json_rpc_response \<times> acp_server" where
  "handle_load_session now req s =
     (let i = param_str req ''sessionId''
      in if i = [] then (rpc_error (jq_id req) invalid_params ''sessionId is required'', s)
         else if map_of (av_sessions s) i = None then (unknown_session req i, s)
         else (rpc_success (jq_id req) (JObject [(''sessionId'', JString i), (''loaded'', JBool True)]),
               touch i now s))"

text \<open>
  The runtime, and what the server prints of its values; \<open>ax_chat\<close> is \<open>None\<close> for a panic. The clock is
  read from the world.
\<close>

record 'w acp_runtime =
  ax_chat :: "chat_request \<Rightarrow> 'w \<Rightarrow> ((frank_error + chat_response) \<times> 'w) option"
  ax_invoke :: "tool_request \<Rightarrow> ('w, tool_output) action"
  ax_list_tools :: "frank_error + tool_def list"
  ax_clock :: "'w \<Rightarrow> instant"
  ax_temperature :: "json \<Rightarrow> u32 option"
  ax_usage_json :: "usage \<Rightarrow> json"
  ax_tool_json :: "tool_def \<Rightarrow> json"

definition prompt_request :: "'w acp_runtime \<Rightarrow> json_rpc_request \<Rightarrow> session_key option \<Rightarrow> chat_request" where
  "prompt_request ax req key =
     \<lparr>cq_agent_id = None, cq_session_key = key, cq_message = param_str req ''message'',
      cq_attachments = [], cq_model_id = get_str (jq_params req) ''model'',
      cq_max_tokens = map_option ucast (Option.bind (json_get (jq_params req) ''maxTokens'') as_u64),
      cq_temperature = Option.bind (json_get (jq_params req) ''temperature'') (ax_temperature ax),
      cq_streaming = True, cq_thinking_budget = None, cq_channel_id = None,
      cq_channel_capabilities = None, cq_cancellable = False, cq_approval = False\<rparr>"

definition prompt_response ::
  "'w acp_runtime \<Rightarrow> json_rpc_request \<Rightarrow> frank_error + chat_response \<Rightarrow> json_rpc_response" where
  "prompt_response ax req r =
     (case r of
        Inr resp \<Rightarrow>
          rpc_success (jq_id req)
            (JObject [(''content'', JString (cy_content resp)), (''model'', JString (cy_model_id resp)),
               (''sessionKey'', JString (key_str (cy_session_key resp))),
               (''usage'', ax_usage_json ax (cy_usage resp))])
      | Inl e \<Rightarrow> rpc_error (jq_id req) internal_error (error_text e))"

definition rekey :: "string \<Rightarrow> session_key \<Rightarrow> instant \<Rightarrow> acp_server \<Rightarrow> acp_server" where
  "rekey i key now s =
     s\<lparr>av_sessions := AList.map_entry i
        (\<lambda>x. x\<lparr>as_session_key := key, as_last_touched := now\<rparr>) (av_sessions s)\<rparr>"

text \<open>From the session on.\<close>

definition run_prompt ::
  "'w acp_runtime \<Rightarrow> json_rpc_request \<Rightarrow> string \<Rightarrow> session_key option \<Rightarrow> acp_server \<Rightarrow> 'w \<Rightarrow>
     (json_rpc_response \<times> acp_server \<times> 'w) option" where
  "run_prompt ax req i key s w =
     (case ax_chat ax (prompt_request ax req key) w of
        None \<Rightarrow> None
      | Some (r, w1) \<Rightarrow>
          Some (prompt_response ax req r,
                (case r of
                   Inr resp \<Rightarrow> if i = [] then s else rekey i (cy_session_key resp) (ax_clock ax w1) s
                 | Inl _ \<Rightarrow> s),
                w1))"

definition handle_prompt ::
  "'w acp_runtime \<Rightarrow> json_rpc_request \<Rightarrow> acp_server \<Rightarrow> 'w \<Rightarrow>
     (json_rpc_response \<times> acp_server \<times> 'w) option" where
  "handle_prompt ax req s w =
     (let i = param_str req ''sessionId''; message = param_str req ''message''
      in if message = [] then Some (rpc_error (jq_id req) invalid_params ''message is required'', s, w)
         else if 2 * 1024 * 1024 < length message
         then Some (rpc_error (jq_id req) invalid_params ''message exceeds 2MB limit'', s, w)
         else if i = [] then run_prompt ax req i None s w
         else (case map_of (av_sessions s) i of
                 None \<Rightarrow> Some (unknown_session req i, s, w)
               | Some x \<Rightarrow>
                   run_prompt ax req i (Some (as_session_key x)) (touch i (ax_clock ax w) s) w))"

definition handle_list_tools :: "'w acp_runtime \<Rightarrow> json_rpc_request \<Rightarrow> json_rpc_response" where
  "handle_list_tools ax req =
     (case ax_list_tools ax of
        Inr tools \<Rightarrow> rpc_success (jq_id req) (JObject [(''tools'', JArray (map (ax_tool_json ax) tools))])
      | Inl e \<Rightarrow> rpc_error (jq_id req) internal_error (error_text e))"

definition handle_call_tool ::
  "'w acp_runtime \<Rightarrow> json_rpc_request \<Rightarrow> acp_server \<Rightarrow> 'w \<Rightarrow> json_rpc_response \<times> 'w" where
  "handle_call_tool ax req s w =
     (let name = param_str req ''name''; i = param_str req ''sessionId''
      in if name = [] then (rpc_error (jq_id req) invalid_params ''tool name is required'', w)
         else (case ax_invoke ax
                 \<lparr>tq_agent_id = None,
                  tq_session_key = (if i = [] then None else map_option as_session_key (map_of (av_sessions s) i)),
                  tq_tool_name = name,
                  tq_arguments = (case json_get (jq_params req) ''arguments'' of Some a \<Rightarrow> a | None \<Rightarrow> JObject [])\<rparr> w of
                 (Inr out, w1) \<Rightarrow>
                   (rpc_success (jq_id req)
                      (JObject [(''name'', JString (ot_name out)), (''output'', ot_output out)]), w1)
               | (Inl e, w1) \<Rightarrow> (rpc_error (jq_id req) internal_error (error_text e), w1)))"

definition unknown_rpc_method :: "json_rpc_request \<Rightarrow> json_rpc_response" where
  "unknown_rpc_method req =
     rpc_error (jq_id req) method_not_found (''unknown method '' @ squoted (jq_method req))"

definition handle_request ::
  "string \<Rightarrow> string \<Rightarrow> 'w acp_runtime \<Rightarrow> json_rpc_request \<Rightarrow> acp_server \<Rightarrow> 'w \<Rightarrow>
     (json_rpc_response \<times> acp_server \<times> 'w) option" where
  "handle_request version fresh_id ax req s w =
     (let here = (\<lambda>r. Some (r, s, w)); now = ax_clock ax w; m = jq_method req
      in if m = ''initialize'' then here (handle_initialize version req)
         else if m = ''newSession''
         then (case handle_new_session fresh_id now req s of (r, s1) \<Rightarrow> Some (r, s1, w))
         else if m = ''loadSession''
         then (case handle_load_session now req s of (r, s1) \<Rightarrow> Some (r, s1, w))
         else if m = ''prompt'' then handle_prompt ax req s w
         else if m = ''listTools'' then here (handle_list_tools ax req)
         else if m = ''callTool''
         then (case handle_call_tool ax req s w of (r, w1) \<Rightarrow> Some (r, s, w1))
         else here (unknown_rpc_method req))"

section \<open>The sessions stay within their limit\<close>

definition sessions_ok :: "acp_server \<Rightarrow> bool" where
  "sessions_ok s \<longleftrightarrow> session_count s \<le> max 1 (ao_max_sessions (av_options s)) \<and>
     distinct (map fst (av_sessions s))"

lemma check_rate_sessions:
  "check_rate_limit now s = (b, s1) \<Longrightarrow> av_sessions s1 = av_sessions s \<and> av_options s1 = av_options s"
  by (auto simp: check_rate_limit_def split: prod.splits if_splits)

lemma least_touched_in: "least_touched xs = Some x \<Longrightarrow> x \<in> set xs"
  by (induction xs arbitrary: x) (auto split: option.splits if_splits)

lemma least_touched_None [simp]: "least_touched xs = None \<longleftrightarrow> xs = []"
  by (cases xs) (auto split: option.split)

lemma least_touched_le:
  "least_touched xs = Some x \<Longrightarrow> y \<in> set xs \<Longrightarrow> as_last_touched (snd x) \<le> as_last_touched (snd y)"
proof (induction xs arbitrary: x)
  case (Cons a xs)
  show ?case
  proof (cases "least_touched xs")
    case (Some z)
    have "y \<in> set xs \<Longrightarrow> as_last_touched (snd z) \<le> as_last_touched (snd y)"
      by (rule Cons.IH [OF Some])
    then show ?thesis
      using Cons.prems Some by (auto split: if_splits)
  qed (use Cons.prems in auto)
qed simp

lemma delete_absent: "k \<notin> fst ` set xs \<Longrightarrow> AList.delete k xs = xs"
  by (induction xs) auto

lemma length_forgotten:
  "distinct (map fst xs) \<Longrightarrow> k \<in> fst ` set xs \<Longrightarrow> Suc (length (AList.delete k xs)) = length xs"
  by (induction xs) (auto simp: delete_absent)

lemma length_renewed: "length (AList.update k v xs) \<le> Suc (length xs)"
  by (induction xs) auto

lemma evict_expired_ok: "sessions_ok s \<Longrightarrow> sessions_ok (evict_expired now s)"
  by (auto simp: sessions_ok_def evict_expired_def session_count_def distinct_map_filter
      intro: le_trans [OF length_filter_le])

lemma evict_lru_room:
  assumes "distinct (map fst (av_sessions s))"
  shows "distinct (map fst (av_sessions (evict_lru s)))" and
    "session_count (evict_lru s) = session_count s - 1" and
    "av_options (evict_lru s) = av_options s"
proof -
  show "distinct (map fst (av_sessions (evict_lru s)))"
    using assms by (auto simp: evict_lru_def distinct_delete split: option.split)
  show "session_count (evict_lru s) = session_count s - 1"
  proof (cases "least_touched (av_sessions s)")
    case (Some x)
    then have "fst x \<in> fst ` set (av_sessions s)"
      by (auto dest: least_touched_in)
    from length_forgotten [OF assms this] show ?thesis
      using Some by (cases x) (simp add: evict_lru_def session_count_def)
  qed (simp add: evict_lru_def session_count_def)
  show "av_options (evict_lru s) = av_options s"
    by (simp add: evict_lru_def split: option.split prod.split)
qed

lemma new_session_ok:
  assumes "sessions_ok s" and "handle_new_session i now req s = (r, t)"
  shows "sessions_ok t \<and> av_options t = av_options s"
proof (cases "check_rate_limit now s")
  case (Pair b s1)
  define s2 where "s2 = evict_expired now s1"
  define s3 where "s3 = (if ao_max_sessions (av_options s2) \<le> session_count s2 then evict_lru s2 else s2)"
  have s1: "sessions_ok s1" "av_options s1 = av_options s"
    using assms(1) check_rate_sessions [OF Pair] by (auto simp: sessions_ok_def session_count_def)
  have s2: "sessions_ok s2" "av_options s2 = av_options s"
    using evict_expired_ok [OF s1(1)] s1(2) by (simp_all add: s2_def evict_expired_def)
  have s3: "distinct (map fst (av_sessions s3))" "av_options s3 = av_options s"
      "Suc (session_count s3) \<le> max 1 (ao_max_sessions (av_options s))"
    using s2 evict_lru_room [of s2] by (auto simp: s3_def sessions_ok_def)
  show ?thesis
  proof (cases b)
    case False
    then show ?thesis using assms(2) Pair s1 by (simp add: handle_new_session_def)
  next
    case True
    then have "\<exists>x. t = s3\<lparr>av_sessions := AList.update i x (av_sessions s3)\<rparr>"
      using assms(2) Pair by (auto simp: handle_new_session_def s2_def s3_def Let_def)
    then show ?thesis
      using s3
      by (auto simp: sessions_ok_def session_count_def distinct_update
          intro: le_trans [OF length_renewed])
  qed
qed

lemma map_entry_sessions_ok:
  "sessions_ok (s\<lparr>av_sessions := AList.map_entry i f (av_sessions s)\<rparr>) \<longleftrightarrow> sessions_ok s"
proof -
  have "length (AList.map_entry i f xs) = length xs" "map fst (AList.map_entry i f xs) = map fst xs" for xs
    by (induction xs) auto
  then show ?thesis
    by (simp add: sessions_ok_def session_count_def)
qed

lemma touch_sessions_ok [simp]:
  "sessions_ok (touch i now s) \<longleftrightarrow> sessions_ok s" "av_options (touch i now s) = av_options s"
  by (simp_all add: touch_def map_entry_sessions_ok)

lemma rekey_sessions_ok [simp]:
  "sessions_ok (rekey i k now s) \<longleftrightarrow> sessions_ok s" "av_options (rekey i k now s) = av_options s"
  by (simp_all add: rekey_def map_entry_sessions_ok)

lemma prompt_sessions_ok:
  "handle_prompt ax req s w = Some (r, t, w1) \<Longrightarrow> sessions_ok s \<Longrightarrow>
     sessions_ok t \<and> av_options t = av_options s"
  by (auto simp: handle_prompt_def run_prompt_def Let_def split: if_splits option.splits sum.splits)

lemma load_sessions_ok:
  "handle_load_session now req s = (r, t) \<Longrightarrow> sessions_ok s \<Longrightarrow>
     sessions_ok t \<and> av_options t = av_options s"
  by (auto simp: handle_load_session_def Let_def split: if_splits)

text \<open>The states that a series of requests leads to.\<close>

inductive acp_reachable :: "'w acp_runtime \<Rightarrow> acp_options \<Rightarrow> acp_server \<Rightarrow> bool" for ax opts where
  acp_start: "acp_reachable ax opts (acp_new opts now)"
| acp_step: "acp_reachable ax opts s \<Longrightarrow> handle_request version i ax req s w = Some (r, t, w1) \<Longrightarrow>
     acp_reachable ax opts t"

lemma handle_request_ok:
  assumes "handle_request version i ax req s w = Some (r, t, w1)" and "sessions_ok s"
  shows "sessions_ok t \<and> av_options t = av_options s"
  using assms new_session_ok [OF assms(2)] load_sessions_ok [OF _ assms(2)]
  by (auto simp: handle_request_def Let_def dest: prompt_sessions_ok split: if_splits prod.splits)

text \<open>
  No series of requests leaves more sessions than the limit, or one when the limit is zero, and no
  session stands twice in the table.
\<close>
lemma acp_sessions_bounded:
  assumes "acp_reachable ax opts s"
  shows "session_count s \<le> max 1 (ao_max_sessions opts) \<and> distinct (map fst (av_sessions s))"
proof -
  have "sessions_ok s \<and> av_options s = opts"
    using assms
  proof (induction rule: acp_reachable.induct)
    case (acp_start now)
    show ?case by (simp add: acp_new_def sessions_ok_def session_count_def)
  next
    case (acp_step s version i req w r t w1)
    then show ?case
      using handle_request_ok by metis
  qed
  then show ?thesis by (auto simp: sessions_ok_def)
qed

definition quiet_runtime :: "unit acp_runtime" where
  "quiet_runtime =
     \<lparr>ax_chat = (\<lambda>_ _. None), ax_invoke = (\<lambda>_ w. (Inl (AgentNotFound (AgentId [])), w)), ax_list_tools = Inr [],
      ax_clock = (\<lambda>_. 0), ax_temperature = (\<lambda>_. None), ax_usage_json = (\<lambda>_. JNull),
      ax_tool_json = (\<lambda>_. JNull)\<rparr>"

definition new_session_request :: json_rpc_request where
  "new_session_request =
     \<lparr>jq_jsonrpc = ''2.0'', jq_id = None, jq_method = ''newSession'', jq_params = JNull\<rparr>"

text \<open>One session is stored even where none is allowed.\<close>
lemma acp_sessions_bounded_witness:
  "\<exists>s. acp_reachable quiet_runtime \<lparr>ao_max_sessions = 0, ao_session_ttl = secs 60,
           ao_rate_limit_per_window = 5\<rparr> s \<and> session_count s = 1 \<and> session_count s \<le> max 1 0"
proof -
  let ?o = "\<lparr>ao_max_sessions = 0, ao_session_ttl = secs 60, ao_rate_limit_per_window = 5\<rparr>"
  obtain r t w where h: "handle_request [] ''a'' quiet_runtime new_session_request (acp_new ?o 0) ()
        = Some (r, t, w)" and c: "session_count t = 1"
    by (simp add: handle_request_def handle_new_session_def check_rate_limit_def acp_new_def
        new_session_request_def quiet_runtime_def evict_expired_def evict_lru_def session_count_def
        duration_since_def rate_window_def secs_def)
  have "acp_reachable quiet_runtime ?o t"
    by (rule acp_step [OF acp_start h])
  from acp_sessions_bounded [OF this] c this show ?thesis by auto
qed

text \<open>A session just made can be loaded, and a prompt finds its key.\<close>

lemma new_session_loads:
  assumes "check_rate_limit now s = (True, s1)" and "i \<noteq> []"
    and "handle_new_session i now req s = (r, t)" and "param_str req2 ''sessionId'' = i"
  shows "jr_error r = None \<and> jr_error (fst (handle_load_session now2 req2 t)) = None"
  using assms
  by (auto simp: handle_new_session_def handle_load_session_def Let_def rpc_success_def
      update_conv')

text \<open>Nothing looks at the age of a session when it is loaded: only a new session removes the old ones.\<close>

lemma expired_session_loads:
  assumes "map_of (av_sessions s) i = Some x" and "i \<noteq> []" and "param_str req ''sessionId'' = i"
    and "ao_session_ttl (av_options s) < duration_since now (as_last_touched x)"
  shows "jr_error (fst (handle_load_session now req s)) = None"
  using assms by (simp add: handle_load_session_def Let_def rpc_success_def)

text \<open>The first request of a window passes whatever the limit.\<close>

lemma window_admits_first:
  "rate_window < duration_since now start \<Longrightarrow> fst (check_rate_limit now (s\<lparr>av_window := (start, n)\<rparr>))"
  by (simp add: check_rate_limit_def)

text \<open>A request without an id, which JSON-RPC calls a notification, is answered all the same.\<close>

lemma notification_answered:
  "\<exists>r t. handle_request version i ax (req\<lparr>jq_id := None, jq_method := ''initialize''\<rparr>) s w = Some (r, t, w)"
  by (simp add: handle_request_def)

end
