(* ===== verification/Gateway_Rpc.thy ===== *)
theory Gateway_Rpc
  imports Chat_Sessions Cron_Service Canvas Webhooks
begin

text \<open>
  The RPC interface of the gateway: the frames (\<open>frankclaw-core/src/protocol.rs\<close>), the state shared by
  the connections (\<open>frankclaw-gateway/src/state.rs\<close>, \<open>broadcast.rs\<close>), the dispatch with its check of
  roles (\<open>ws.rs\<close>) and every handler (\<open>methods.rs\<close>). The turn of an agent, the session store and the
  serializers are parameters; while a turn runs, the other connections may change the shared state
  in any way. \<open>None\<close> is a panic of cutting an identifier.
\<close>

section \<open>Frames (protocol.rs)\<close>

datatype request_id = NumberId u64 | TextId string

datatype (plugins only: size code) rpc_method =
    AgentIdentity | AgentList
  | ChatSend | ChatHistory | ChatCancel
  | ChannelsStatus | ChannelsList
  | ConfigGet | ConfigPatch | ConfigApply | ConfigSchema
  | CronList | CronAdd | CronUpdate | CronRemove | CronRun
  | SessionsList | SessionsGet | SessionsPatch | SessionsReset | SessionsDelete | SessionsCompact
  | ModelsList
  | CanvasGet | CanvasExport | CanvasSet | CanvasPatch | CanvasClear
  | WebhooksAdd | WebhooksRemove | WebhooksTest
  | LogsTail | LogsQuery
  | NodesList | NodesPairRequest | NodesPairApprove | NodesPairReject
  | UsageGet
  | ToolApprovalResolve
  | HealthProbe
  | Ping

record request_frame =
  qf_id :: request_id
  qf_method :: rpc_method
  qf_params :: json

record protocol_error =
  pe_code :: u16
  pe_message :: string

record response_frame =
  sf_id :: request_id
  sf_result :: "json option"
  sf_error :: "protocol_error option"

datatype event_type =
    EvChatDelta | EvChatComplete | EvChatError | EvChatAborted | EvPresenceUpdate | EvChannelHealth
  | EvConfigChanged | EvSessionUpdated | EvCanvasUpdated | EvCronRun | EvLogEntry | EvNodePairRequest
  | EvToolApprovalRequested | EvToolApprovalResolved

record event_frame =
  ef_event :: event_type
  ef_payload :: json

definition frame_ok :: "request_id \<Rightarrow> json \<Rightarrow> response_frame" where
  "frame_ok i r = \<lparr>sf_id = i, sf_result = Some r, sf_error = None\<rparr>"

definition frame_err :: "request_id \<Rightarrow> u16 \<Rightarrow> string \<Rightarrow> response_frame" where
  "frame_err i code msg =
     \<lparr>sf_id = i, sf_result = None, sf_error = Some \<lparr>pe_code = code, pe_message = msg\<rparr>\<rparr>"

definition min_role :: "rpc_method \<Rightarrow> auth_role" where
  "min_role m =
     (case m of
        ConfigPatch \<Rightarrow> Admin | ConfigApply \<Rightarrow> Admin
      | ChatSend \<Rightarrow> Editor | ChatCancel \<Rightarrow> Editor
      | SessionsPatch \<Rightarrow> Editor | SessionsReset \<Rightarrow> Editor
      | SessionsDelete \<Rightarrow> Editor | SessionsCompact \<Rightarrow> Editor
      | CronAdd \<Rightarrow> Editor | CronUpdate \<Rightarrow> Editor | CronRemove \<Rightarrow> Editor | CronRun \<Rightarrow> Editor
      | CanvasSet \<Rightarrow> Editor | CanvasPatch \<Rightarrow> Editor | CanvasClear \<Rightarrow> Editor
      | WebhooksAdd \<Rightarrow> Editor | WebhooksRemove \<Rightarrow> Editor | WebhooksTest \<Rightarrow> Editor
      | NodesPairApprove \<Rightarrow> Editor | NodesPairReject \<Rightarrow> Editor
      | ToolApprovalResolve \<Rightarrow> Editor
      | _ \<Rightarrow> Viewer)"

section \<open>The shared state (state.rs, broadcast.rs)\<close>

text \<open>
  Cancellation tokens and the senders of decisions are numbers; \<open>gs_dropped\<close> holds the senders whose
  turn no longer waits, \<open>gs_tasks\<close> the jobs that \<open>cron.run\<close> has spawned.
\<close>

record 'w gateway =
  gs_config :: frankclaw_config
  gs_clients :: "u64 \<rightharpoonup> auth_role"
  gs_canvas :: documents
  gs_cron :: "cron_service option"
  gs_next_conn_id :: u64
  gs_broadcasts :: "event_frame list"
  gs_active_runs :: "string \<rightharpoonup> nat"
  gs_next_token :: nat
  gs_cancelled :: "nat set"
  gs_pending :: "string \<rightharpoonup> nat"
  gs_dropped :: "nat set"
  gs_decisions :: "nat \<rightharpoonup> approval_decision"
  gs_tasks :: "cron_job list"
  gs_world :: 'w

definition gateway_new :: "frankclaw_config \<Rightarrow> cron_service option \<Rightarrow> 'w \<Rightarrow> 'w gateway" where
  "gateway_new cfg cron w =
     \<lparr>gs_config = cfg, gs_clients = Map.empty, gs_canvas = Map.empty, gs_cron = cron, gs_next_conn_id = 1,
      gs_broadcasts = [], gs_active_runs = Map.empty, gs_next_token = 0, gs_cancelled = {},
      gs_pending = Map.empty, gs_dropped = {}, gs_decisions = Map.empty, gs_tasks = [], gs_world = w\<rparr>"

definition alloc_conn_id :: "'w gateway \<Rightarrow> u64 \<times> 'w gateway" where
  "alloc_conn_id gs = (gs_next_conn_id gs, gs\<lparr>gs_next_conn_id := gs_next_conn_id gs + 1\<rparr>)"

definition reload_config :: "frankclaw_config \<Rightarrow> 'w gateway \<Rightarrow> 'w gateway" where
  "reload_config cfg gs = gs\<lparr>gs_config := cfg\<rparr>"

definition broadcast :: "event_type \<Rightarrow> json \<Rightarrow> 'w gateway \<Rightarrow> 'w gateway" where
  "broadcast ev payload gs =
     gs\<lparr>gs_broadcasts := gs_broadcasts gs @ [\<lparr>ef_event = ev, ef_payload = payload\<rparr>]\<rparr>"

text \<open>What the handlers use of the rest of the program. \<open>ge_chat\<close> is \<open>chat\<close> with its token.\<close>

record ('w, 's) gateway_env =
  ge_chat :: "chat_request \<Rightarrow> nat option \<Rightarrow> 'w gateway \<Rightarrow> ((frank_error + chat_response) \<times> 'w gateway) option"
  ge_compact :: "session_key \<Rightarrow> agent_id option \<Rightarrow> ('w, compact_result) action"
  ge_store :: "'w session_store"
  ge_models :: json
  ge_channels :: "'w \<Rightarrow> (channel_id \<times> string \<times> json) list"
  ge_now :: "'w \<Rightarrow> datetime"
  ge_scheduler :: "'s scheduler"
  ge_disk :: "'w cron_disk"
  ge_max_message_bytes :: nat
  ge_temperature :: "json \<Rightarrow> u32 option"
  ge_show_method :: "rpc_method \<Rightarrow> string"
  ge_show_json :: "json \<Rightarrow> string"
  ge_show_millis :: "datetime \<Rightarrow> string"
  ge_cost :: "json option \<Rightarrow> json"
  ge_add_costs :: "json option list \<Rightarrow> json"
  ge_config_json :: "frankclaw_config \<Rightarrow> json"
  ge_session_json :: "session_entry \<Rightarrow> json"
  ge_entry_json :: "transcript_entry \<Rightarrow> json"
  ge_usage_json :: "usage \<Rightarrow> json"
  ge_document_json :: "canvas_document \<Rightarrow> json"
  ge_job_json :: "cron_job \<Rightarrow> json"
  ge_time_json :: "datetime option \<Rightarrow> json"
  ge_approval_json :: "approval_request \<Rightarrow> json"
  ge_blocks_of :: "json \<Rightarrow> canvas_block list option"
  ge_mapping_of :: "json \<Rightarrow> string + webhook_mapping"
  ge_export :: "canvas_document \<Rightarrow> export_format \<Rightarrow> string"

type_synonym 'w reply = "(response_frame \<times> 'w gateway) option"

text \<open>An action of the session store within the shared state.\<close>

definition on_world :: "('w, 'a) action \<Rightarrow> 'w gateway \<Rightarrow> (frank_error + 'a) \<times> 'w gateway" where
  "on_world m gs = (case m (gs_world gs) of (r, w) \<Rightarrow> (r, gs\<lparr>gs_world := w\<rparr>))"

section \<open>Parameters\<close>

definition str_param :: "request_frame \<Rightarrow> string \<Rightarrow> string option" where
  "str_param req k = get_str (qf_params req) k"

definition u64_param :: "request_frame \<Rightarrow> string \<Rightarrow> u64 option" where
  "u64_param req k = Option.bind (json_get (qf_params req) k) as_u64"

definition non_empty_param :: "request_frame \<Rightarrow> string \<Rightarrow> string option" where
  "non_empty_param req k =
     (case str_param req k of Some v \<Rightarrow> if trim v = [] then None else Some v | None \<Rightarrow> None)"

definition agent_param :: "request_frame \<Rightarrow> agent_id option option" where
  "agent_param req =
     (case str_param req ''agent_id'' of None \<Rightarrow> Some None | Some a \<Rightarrow> map_option Some (agent_new a))"

definition key_param :: "request_frame \<Rightarrow> session_key option option" where
  "key_param req =
     (case str_param req ''session_key'' of None \<Rightarrow> Some None | Some k \<Rightarrow> map_option Some (from_raw k))"

definition with_session_key :: "request_frame \<Rightarrow> (session_key \<Rightarrow> 'w reply) \<Rightarrow> 'w gateway \<Rightarrow> 'w reply" where
  "with_session_key req f gs =
     (case key_param req of
        None \<Rightarrow> None
      | Some None \<Rightarrow> Some (frame_err (qf_id req) 400 ''session_key is required'', gs)
      | Some (Some key) \<Rightarrow> f key)"

definition session_event :: "session_key \<Rightarrow> string \<Rightarrow> 'w gateway \<Rightarrow> 'w gateway" where
  "session_event key act =
     broadcast EvSessionUpdated
       (JObject [(''session_key'', JString (key_str key)), (''action'', JString act)])"

definition key_status :: "session_key \<Rightarrow> string \<Rightarrow> json" where
  "key_status key status =
     JObject [(''session_key'', JString (key_str key)), (''status'', JString status)]"

section \<open>Sessions (methods.rs)\<close>

definition agent_or_default :: "agent_id option \<Rightarrow> agent_id" where
  "agent_or_default a = (case a of Some x \<Rightarrow> x | None \<Rightarrow> default_agent)"

definition sessions_list :: "('w, 's) gateway_env \<Rightarrow> request_frame \<Rightarrow> 'w gateway \<Rightarrow> 'w reply" where
  "sessions_list env req gs =
     (case agent_param req of
        None \<Rightarrow> None
      | Some agent \<Rightarrow>
          (let limit = (case u64_param req ''limit'' of Some n \<Rightarrow> n | None \<Rightarrow> 50);
               offset = (case u64_param req ''offset'' of Some n \<Rightarrow> n | None \<Rightarrow> 0)
           in case on_world (st_list (ge_store env) (agent_or_default agent) (unat limit) (unat offset)) gs of
                (Inr sessions, gs1) \<Rightarrow>
                  Some (frame_ok (qf_id req)
                    (JObject [(''sessions'', JArray (map (ge_session_json env) sessions))]), gs1)
              | (Inl e, gs1) \<Rightarrow> Some (frame_err (qf_id req) 500 (error_text e), gs1)))"

definition chat_history :: "('w, 's) gateway_env \<Rightarrow> request_frame \<Rightarrow> 'w gateway \<Rightarrow> 'w reply" where
  "chat_history env req gs =
     with_session_key req (\<lambda>key.
       let limit = (case u64_param req ''limit'' of Some n \<Rightarrow> n | None \<Rightarrow> 100)
       in case on_world (st_get_transcript (ge_store env) key (unat limit) (u64_param req ''before_seq'')) gs of
            (Inr entries, gs1) \<Rightarrow>
              Some (frame_ok (qf_id req) (JObject [(''entries'', JArray (map (ge_entry_json env) entries))]), gs1)
          | (Inl e, gs1) \<Rightarrow> Some (frame_err (qf_id req) 500 (error_text e), gs1)) gs"

definition sessions_get :: "('w, 's) gateway_env \<Rightarrow> request_frame \<Rightarrow> 'w gateway \<Rightarrow> 'w reply" where
  "sessions_get env req gs =
     with_session_key req (\<lambda>key.
       case on_world (st_get (ge_store env) key) gs of
         (Inr (Some session), gs1) \<Rightarrow>
           Some (frame_ok (qf_id req) (JObject [(''session'', ge_session_json env session)]), gs1)
       | (Inr None, gs1) \<Rightarrow> Some (frame_err (qf_id req) 404 ''session not found'', gs1)
       | (Inl e, gs1) \<Rightarrow> Some (frame_err (qf_id req) 500 (error_text e), gs1)) gs"

definition sessions_reset :: "('w, 's) gateway_env \<Rightarrow> request_frame \<Rightarrow> 'w gateway \<Rightarrow> 'w reply" where
  "sessions_reset env req gs =
     with_session_key req (\<lambda>key.
       case on_world (st_clear_transcript (ge_store env) key) gs of
         (Inr _, gs1) \<Rightarrow> Some (frame_ok (qf_id req) (key_status key ''reset''), session_event key ''reset'' gs1)
       | (Inl e, gs1) \<Rightarrow> Some (frame_err (qf_id req) 500 (error_text e), gs1)) gs"

definition cancel_run :: "string \<Rightarrow> 'w gateway \<Rightarrow> bool \<times> 'w gateway" where
  "cancel_run k gs =
     (case gs_active_runs gs k of
        None \<Rightarrow> (False, gs)
      | Some token \<Rightarrow>
          (True, gs\<lparr>gs_active_runs := (gs_active_runs gs)(k := None),
                     gs_cancelled := insert token (gs_cancelled gs)\<rparr>))"

definition sessions_delete :: "('w, 's) gateway_env \<Rightarrow> request_frame \<Rightarrow> 'w gateway \<Rightarrow> 'w reply" where
  "sessions_delete env req gs =
     with_session_key req (\<lambda>key.
       case on_world (st_delete (ge_store env) key) (snd (cancel_run (key_str key) gs)) of
         (Inr _, gs1) \<Rightarrow>
           Some (frame_ok (qf_id req) (key_status key ''deleted''), session_event key ''deleted'' gs1)
       | (Inl e, gs1) \<Rightarrow> Some (frame_err (qf_id req) 500 (error_text e), gs1)) gs"

fun merge_metadata :: "json \<Rightarrow> json \<Rightarrow> json" where
  "merge_metadata (JObject existing) (JObject incoming) =
     JObject (fold (\<lambda>(k, v). AList.update k v) incoming existing)"
| "merge_metadata _ patch = patch"

fun is_object :: "json \<Rightarrow> bool" where
  "is_object (JObject _) = True"
| "is_object _ = False"

definition sessions_patch :: "('w, 's) gateway_env \<Rightarrow> request_frame \<Rightarrow> 'w gateway \<Rightarrow> 'w reply" where
  "sessions_patch env req gs =
     with_session_key req (\<lambda>key.
       case on_world (st_get (ge_store env) key) gs of
         (Inl e, gs1) \<Rightarrow> Some (frame_err (qf_id req) 500 (error_text e), gs1)
       | (Inr None, gs1) \<Rightarrow> Some (frame_err (qf_id req) 404 ''session not found'', gs1)
       | (Inr (Some session), gs1) \<Rightarrow>
           (case json_get (qf_params req) ''patch'' of
              Some patch \<Rightarrow>
                if \<not> is_object patch
                then Some (frame_err (qf_id req) 400 ''patch object is required'', gs1)
                else (let patched = session\<lparr>se_metadata := merge_metadata (se_metadata session) patch\<rparr>
                      in case on_world (st_upsert (ge_store env) patched) gs1 of
                           (Inr _, gs2) \<Rightarrow>
                             Some (frame_ok (qf_id req) (JObject [(''session'', ge_session_json env patched)]),
                                   session_event key ''patched'' gs2)
                         | (Inl e, gs2) \<Rightarrow> Some (frame_err (qf_id req) 500 (error_text e), gs2))
            | None \<Rightarrow> Some (frame_err (qf_id req) 400 ''patch object is required'', gs1))) gs"

definition compaction_json :: "compact_result \<Rightarrow> json" where
  "compaction_json r =
     JObject [(''status'', JString ''ok''), (''pruned_count'', JUInt (of_nat (cp_pruned_count r))),
       (''has_summary'', JBool (cp_summary r \<noteq> None)),
       (''estimated_tokens_before'', JUInt (ucast (cp_tokens_before r))),
       (''estimated_tokens_after'', JUInt (ucast (cp_tokens_after r)))]"

definition sessions_compact :: "('w, 's) gateway_env \<Rightarrow> request_frame \<Rightarrow> 'w gateway \<Rightarrow> 'w reply" where
  "sessions_compact env req gs =
     with_session_key req (\<lambda>key.
       case agent_param req of
         None \<Rightarrow> None
       | Some agent \<Rightarrow>
           (case on_world (ge_compact env key agent) gs of
              (Inr r, gs1) \<Rightarrow> Some (frame_ok (qf_id req) (compaction_json r), session_event key ''compacted'' gs1)
            | (Inl e, gs1) \<Rightarrow>
                Some (frame_err (qf_id req) 500 (''compaction failed: '' @ error_text e), gs1))) gs"

section \<open>The usage of sessions\<close>

definition meta_u64 :: "session_entry \<Rightarrow> string \<Rightarrow> u64" where
  "meta_u64 s k = (case Option.bind (json_get (se_metadata s) k) as_u64 of Some n \<Rightarrow> n | None \<Rightarrow> 0)"

definition session_usage_json :: "('w, 's) gateway_env \<Rightarrow> session_entry \<Rightarrow> json" where
  "session_usage_json env s =
     (let input = meta_u64 s ''total_input_tokens''; output = meta_u64 s ''total_output_tokens''
      in JObject
           [(''session_key'', JString (key_str (se_key s))), (''channel'', JString (channel_str (se_channel s))),
            (''created_at'', ge_time_json env (Some (se_created_at s))),
            (''last_message_at'', ge_time_json env (se_last_message_at s)),
            (''input_tokens'', JUInt input), (''output_tokens'', JUInt output),
            (''total_tokens'', JUInt (input + output)), (''turns'', JUInt (meta_u64 s ''total_turns'')),
            (''cost_usd'', ge_cost env (json_get (se_metadata s) ''total_cost_usd'')),
            (''last_model'', JString (case get_str (se_metadata s) ''last_model'' of Some m \<Rightarrow> m | None \<Rightarrow> []))])"

definition usage_totals_json :: "('w, 's) gateway_env \<Rightarrow> session_entry list \<Rightarrow> json" where
  "usage_totals_json env ss =
     (let input = (\<Sum>s\<leftarrow>ss. meta_u64 s ''total_input_tokens'');
          output = (\<Sum>s\<leftarrow>ss. meta_u64 s ''total_output_tokens'')
      in JObject
           [(''input_tokens'', JUInt input), (''output_tokens'', JUInt output),
            (''total_tokens'', JUInt (input + output)),
            (''turns'', JUInt (\<Sum>s\<leftarrow>ss. meta_u64 s ''total_turns'')),
            (''cost_usd'', ge_add_costs env (map (\<lambda>s. json_get (se_metadata s) ''total_cost_usd'') ss))])"

definition usage_get :: "('w, 's) gateway_env \<Rightarrow> request_frame \<Rightarrow> 'w gateway \<Rightarrow> 'w reply" where
  "usage_get env req gs =
     (case agent_param req of
        None \<Rightarrow> None
      | Some agent \<Rightarrow>
          (let limit = min (case u64_param req ''limit'' of Some n \<Rightarrow> n | None \<Rightarrow> 50) 200;
               offset = (case u64_param req ''offset'' of Some n \<Rightarrow> n | None \<Rightarrow> 0)
           in case on_world (st_list (ge_store env) (agent_or_default agent) (unat limit) (unat offset)) gs of
                (Inr sessions, gs1) \<Rightarrow>
                  Some (frame_ok (qf_id req)
                    (JObject [(''sessions'', JArray (map (session_usage_json env) sessions)),
                       (''totals'', usage_totals_json env sessions),
                       (''count'', JUInt (of_nat (length sessions)))]), gs1)
              | (Inl e, gs1) \<Rightarrow> Some (frame_err (qf_id req) 500 (error_text e), gs1)))"

section \<open>Chat\<close>

fun run_key :: "request_id \<Rightarrow> string" where
  "run_key (TextId s) = s"
| "run_key (NumberId n) = show_word n"

fun request_id_json :: "request_id \<Rightarrow> json" where
  "request_id_json (TextId s) = JString s"
| "request_id_json (NumberId n) = JUInt n"

text \<open>The request of a client; the deltas of its stream go to the client alone and are left out.\<close>

definition client_chat_request ::
  "('w, 's) gateway_env \<Rightarrow> u64 \<Rightarrow> request_frame \<Rightarrow> string \<Rightarrow> agent_id option \<Rightarrow> session_key option \<Rightarrow>
     'w gateway \<Rightarrow> chat_request" where
  "client_chat_request env conn req message agent key gs =
     \<lparr>cq_agent_id = agent, cq_session_key = key, cq_message = message, cq_attachments = [],
      cq_model_id = str_param req ''model_id'', cq_max_tokens = map_option ucast (u64_param req ''max_tokens''),
      cq_temperature = Option.bind (json_get (qf_params req) ''temperature'') (ge_temperature env),
      cq_streaming = ((case Option.bind (json_get (qf_params req) ''stream'') as_bool of Some b \<Rightarrow> b | None \<Rightarrow> True)
                        \<and> gs_clients gs conn \<noteq> None),
      cq_thinking_budget = None, cq_channel_id = None, cq_channel_capabilities = None,
      cq_cancellable = True, cq_approval = True\<rparr>"

definition register_run :: "string \<Rightarrow> 'w gateway \<Rightarrow> nat \<times> 'w gateway" where
  "register_run k gs =
     (gs_next_token gs,
      gs\<lparr>gs_next_token := Suc (gs_next_token gs), gs_active_runs := (gs_active_runs gs)(k \<mapsto> gs_next_token gs)\<rparr>)"

definition unregister_run :: "string \<Rightarrow> 'w gateway \<Rightarrow> 'w gateway" where
  "unregister_run k gs = gs\<lparr>gs_active_runs := (gs_active_runs gs)(k := None)\<rparr>"

definition chat_outcome ::
  "('w, 's) gateway_env \<Rightarrow> request_id \<Rightarrow> frank_error + chat_response \<Rightarrow> 'w gateway \<Rightarrow>
     response_frame \<times> 'w gateway" where
  "chat_outcome env i r gs =
     (case r of
        Inr resp \<Rightarrow>
          (frame_ok i
             (JObject [(''session_key'', JString (key_str (cy_session_key resp))),
                (''model_id'', JString (cy_model_id resp)), (''content'', JString (cy_content resp)),
                (''usage'', ge_usage_json env (cy_usage resp))]),
           broadcast EvChatComplete
             (JObject [(''request_id'', request_id_json i),
                (''session_key'', JString (key_str (cy_session_key resp))),
                (''model_id'', JString (cy_model_id resp)), (''content'', JString (cy_content resp))]) gs)
      | Inl e \<Rightarrow>
          (frame_err i (if e = TurnCancelled then 499 else status_code e) (error_text e),
           broadcast (if e = TurnCancelled then EvChatAborted else EvChatError)
             (JObject [(''request_id'', request_id_json i), (''message'', JString (error_text e))]) gs))"

definition run_chat ::
  "('w, 's) gateway_env \<Rightarrow> request_id \<Rightarrow> chat_request \<Rightarrow> 'w gateway \<Rightarrow> 'w reply" where
  "run_chat env i crq gs =
     (case register_run (run_key i) gs of (token, gs1) \<Rightarrow>
        (case ge_chat env crq (Some token) gs1 of
           None \<Rightarrow> None
         | Some (r, gs2) \<Rightarrow> Some (chat_outcome env i r (unregister_run (run_key i) gs2))))"

definition chat_send :: "('w, 's) gateway_env \<Rightarrow> u64 \<Rightarrow> request_frame \<Rightarrow> 'w gateway \<Rightarrow> 'w reply" where
  "chat_send env conn req gs =
     (case non_empty_param req ''message'' of
        None \<Rightarrow> Some (frame_err (qf_id req) 400 ''message is required'', gs)
      | Some message \<Rightarrow>
          if ge_max_message_bytes env < length message
          then Some (frame_err (qf_id req) 413
                 (''message exceeds maximum size ('' @ show_nat (ge_max_message_bytes env) @ '' bytes)''), gs)
          else (case (agent_param req, key_param req) of
                  (Some agent, Some key) \<Rightarrow>
                    run_chat env (qf_id req) (client_chat_request env conn req message agent key gs) gs
                | _ \<Rightarrow> None))"

definition chat_cancel :: "request_frame \<Rightarrow> 'w gateway \<Rightarrow> 'w reply" where
  "chat_cancel req gs =
     (case non_empty_param req ''request_id'' of
        None \<Rightarrow> Some (frame_err (qf_id req) 400 ''request_id is required'', gs)
      | Some raw \<Rightarrow>
          (let k = trim raw
           in case cancel_run k gs of
                (True, gs1) \<Rightarrow>
                  Some (frame_ok (qf_id req)
                    (JObject [(''request_id'', JString k), (''status'', JString ''cancelled'')]), gs1)
              | (False, gs1) \<Rightarrow>
                  Some (frame_err (qf_id req) 404 ''no active chat run with that request_id'', gs1)))"

section \<open>Approvals\<close>

text \<open>What the task that waits for the requests of a turn does with one.\<close>

definition announce_approval ::
  "('w, 's) gateway_env \<Rightarrow> approval_request \<Rightarrow> nat \<Rightarrow> 'w gateway \<Rightarrow> 'w gateway" where
  "announce_approval env req sender gs =
     broadcast EvToolApprovalRequested (ge_approval_json env req)
       (gs\<lparr>gs_pending := (gs_pending gs)(ar_approval_id req \<mapsto> sender)\<rparr>)"

definition parse_decision :: "string \<Rightarrow> approval_decision option" where
  "parse_decision d =
     (if d = ''allow_once'' then Some AllowOnce
      else if d = ''allow_always'' then Some AllowAlways
      else if d = ''deny'' then Some Deny
      else None)"

definition decision_json :: "string \<Rightarrow> string \<Rightarrow> json" where
  "decision_json i d = JObject [(''approval_id'', JString i), (''decision'', JString d)]"

definition send_decision ::
  "request_id \<Rightarrow> string \<Rightarrow> string \<Rightarrow> approval_decision \<Rightarrow> nat \<Rightarrow> 'w gateway \<Rightarrow> response_frame \<times> 'w gateway" where
  "send_decision i k d decision sender gs =
     (if sender \<in> gs_dropped gs then (frame_err i 410 ''approval request already expired'', gs)
      else (frame_ok i (decision_json k d),
            broadcast EvToolApprovalResolved (decision_json k d)
              (gs\<lparr>gs_decisions := (gs_decisions gs)(sender \<mapsto> decision)\<rparr>)))"

definition tool_approval_resolve :: "request_frame \<Rightarrow> 'w gateway \<Rightarrow> 'w reply" where
  "tool_approval_resolve req gs =
     (case non_empty_param req ''approval_id'' of
        None \<Rightarrow> Some (frame_err (qf_id req) 400 ''approval_id is required'', gs)
      | Some raw \<Rightarrow>
          (case str_param req ''decision'' of
             None \<Rightarrow> Some (frame_err (qf_id req) 400 ''decision is required'', gs)
           | Some d \<Rightarrow>
               (case parse_decision d of
                  None \<Rightarrow>
                    Some (frame_err (qf_id req) 400
                      (''decision must be '' @ squoted ''allow_once'' @ '', '' @ squoted ''allow_always'' @
                       '', or '' @ squoted ''deny''), gs)
                | Some decision \<Rightarrow>
                    (case gs_pending gs (trim raw) of
                       None \<Rightarrow> Some (frame_err (qf_id req) 404 ''no pending approval with that ID'', gs)
                     | Some sender \<Rightarrow>
                         Some (send_decision (qf_id req) (trim raw) d decision sender
                           (gs\<lparr>gs_pending := (gs_pending gs)(trim raw := None)\<rparr>))))))"

section \<open>Canvas\<close>

definition canvas_id_from_params :: "request_frame \<Rightarrow> string" where
  "canvas_id_from_params req = key_for (str_param req ''canvas_id'') (str_param req ''session_key'')"

definition parse_canvas_blocks :: "('w, 's) gateway_env \<Rightarrow> json option \<Rightarrow> string + canvas_block list" where
  "parse_canvas_blocks env v =
     (case v of
        None \<Rightarrow> Inr []
      | Some j \<Rightarrow>
          (case ge_blocks_of env j of Some bs \<Rightarrow> Inr bs | None \<Rightarrow> Inl ''invalid canvas blocks payload''))"

definition broadcast_canvas_update ::
  "('w, 's) gateway_env \<Rightarrow> string \<Rightarrow> canvas_document option \<Rightarrow> 'w gateway \<Rightarrow> 'w gateway" where
  "broadcast_canvas_update env i d =
     broadcast EvCanvasUpdated
       (JObject [(''canvas_id'', JString i),
          (''canvas'', case d of Some x \<Rightarrow> ge_document_json env x | None \<Rightarrow> JNull)])"

definition export_char :: "char \<Rightarrow> bool" where
  "export_char c \<longleftrightarrow> is_alnum c \<or> c = CHR ''-'' \<or> c = CHR ''_''"

definition trim_dashes :: "string \<Rightarrow> string" where
  "trim_dashes s = rev (dropWhile (\<lambda>c. c = CHR ''-'') (rev (dropWhile (\<lambda>c. c = CHR ''-'') s)))"

definition sanitize_canvas_export_name :: "string \<Rightarrow> string" where
  "sanitize_canvas_export_name v =
     (let sanitized = trim_dashes (map (\<lambda>c. if export_char c then c else CHR ''-'') v)
      in if sanitized = [] then ''canvas'' else sanitized)"

definition rpc_canvas_get :: "('w, 's) gateway_env \<Rightarrow> request_frame \<Rightarrow> 'w gateway \<Rightarrow> 'w reply" where
  "rpc_canvas_get env req gs =
     Some (frame_ok (qf_id req)
       (JObject [(''canvas'', case canvas_get (canvas_id_from_params req) (gs_canvas gs) of
                                Some d \<Rightarrow> ge_document_json env d | None \<Rightarrow> JNull)]), gs)"

definition canvas_export :: "('w, 's) gateway_env \<Rightarrow> request_frame \<Rightarrow> 'w gateway \<Rightarrow> 'w reply" where
  "canvas_export env req gs =
     (case canvas_get (canvas_id_from_params req) (gs_canvas gs) of
        None \<Rightarrow> Some (frame_err (qf_id req) 404 ''canvas not found'', gs)
      | Some d \<Rightarrow>
          (let fmt = parse_format (str_param req ''format'')
           in Some (frame_ok (qf_id req)
                (JObject [(''canvas_id'', JString (cd_id d)), (''format'', JString (format_label fmt)),
                   (''mime_type'', JString (mime_type fmt)),
                   (''filename'', JString (sanitize_canvas_export_name (cd_id d) @ ''.'' @ extension fmt)),
                   (''content'', JString (ge_export env d fmt))]), gs)))"

definition trimmed_param :: "request_frame \<Rightarrow> string \<Rightarrow> string option" where
  "trimmed_param req k = map_option trim (str_param req k)"

definition new_document :: "request_frame \<Rightarrow> canvas_block list \<Rightarrow> datetime \<Rightarrow> canvas_document" where
  "new_document req blocks now =
     \<lparr>cd_id = canvas_id_from_params req,
      cd_title = (case trimmed_param req ''title'' of Some t \<Rightarrow> t | None \<Rightarrow> []),
      cd_body = (case trimmed_param req ''body'' of Some b \<Rightarrow> b | None \<Rightarrow> []),
      cd_session_key = str_param req ''session_key'', cd_blocks = blocks, cd_revision = 0, cd_updated_at = now\<rparr>"

text \<open>The end of a change: the document is stored and announced, or the error reported.\<close>

definition canvas_result ::
  "('w, 's) gateway_env \<Rightarrow> request_id \<Rightarrow> u16 \<Rightarrow> documents \<times> (frank_error + canvas_document) \<Rightarrow> 'w gateway \<Rightarrow>
     response_frame \<times> 'w gateway" where
  "canvas_result env i code r gs =
     (case r of
        (docs, Inr d) \<Rightarrow>
          (frame_ok i (JObject [(''canvas'', ge_document_json env d)]),
           broadcast_canvas_update env (cd_id d) (Some d) (gs\<lparr>gs_canvas := docs\<rparr>))
      | (docs, Inl e) \<Rightarrow> (frame_err i code (error_text e), gs\<lparr>gs_canvas := docs\<rparr>))"

definition rpc_canvas_set :: "('w, 's) gateway_env \<Rightarrow> request_frame \<Rightarrow> 'w gateway \<Rightarrow> 'w reply" where
  "rpc_canvas_set env req gs =
     (case parse_canvas_blocks env (json_get (qf_params req) ''blocks'') of
        Inl msg \<Rightarrow> Some (frame_err (qf_id req) 400 msg, gs)
      | Inr blocks \<Rightarrow>
          (let d = new_document req blocks (ge_now env (gs_world gs))
           in if cd_title d = [] \<and> cd_body d = [] \<and> blocks = []
              then Some (frame_err (qf_id req) 400 ''canvas.set requires a non-empty title, body, or blocks'', gs)
              else Some (canvas_result env (qf_id req) 400 (canvas_set d (gs_canvas gs)) gs)))"

definition session_key_change :: "request_frame \<Rightarrow> string option option" where
  "session_key_change req =
     (case json_get (qf_params req) ''session_key'' of
        None \<Rightarrow> None
      | Some v \<Rightarrow> if v = JNull then Some None else map_option Some (as_str v))"

definition patch_of :: "request_frame \<Rightarrow> canvas_block list \<Rightarrow> canvas_patch" where
  "patch_of req blocks =
     \<lparr>cp_title = trimmed_param req ''title'', cp_body = trimmed_param req ''body'',
      cp_session_key = session_key_change req, cp_append_blocks = blocks,
      cp_expected_revision = u64_param req ''expected_revision''\<rparr>"

definition rpc_canvas_patch :: "('w, 's) gateway_env \<Rightarrow> request_frame \<Rightarrow> 'w gateway \<Rightarrow> 'w reply" where
  "rpc_canvas_patch env req gs =
     (case parse_canvas_blocks env (json_get (qf_params req) ''append_blocks'') of
        Inl msg \<Rightarrow> Some (frame_err (qf_id req) 400 msg, gs)
      | Inr blocks \<Rightarrow>
          (let p = patch_of req blocks
           in if cp_title p = None \<and> cp_body p = None \<and> cp_session_key p = None \<and> blocks = []
              then Some (frame_err (qf_id req) 400 ''canvas.patch requires at least one change'', gs)
              else Some (canvas_result env (qf_id req) 409
                     (canvas_patch_doc (ge_now env (gs_world gs)) (canvas_id_from_params req) p (gs_canvas gs)) gs)))"

definition rpc_canvas_clear :: "('w, 's) gateway_env \<Rightarrow> request_frame \<Rightarrow> 'w gateway \<Rightarrow> 'w reply" where
  "rpc_canvas_clear env req gs =
     (let i = canvas_id_from_params req
      in Some (frame_ok (qf_id req) (JObject [(''cleared'', JBool True), (''canvas_id'', JString i)]),
               broadcast_canvas_update env i None (gs\<lparr>gs_canvas := canvas_clear i (gs_canvas gs)\<rparr>)))"

section \<open>Webhooks and cron\<close>

definition webhook_chat_request :: "resolved_request \<Rightarrow> chat_request" where
  "webhook_chat_request r =
     \<lparr>cq_agent_id = wm_agent_id (rr_mapping r), cq_session_key = wm_session_key (rr_mapping r),
      cq_message = rr_message r, cq_attachments = [], cq_model_id = None, cq_max_tokens = None,
      cq_temperature = None, cq_streaming = False, cq_thinking_budget = None, cq_channel_id = None,
      cq_channel_capabilities = None, cq_cancellable = False, cq_approval = False\<rparr>"

definition execute_webhook ::
  "('w, 's) gateway_env \<Rightarrow> resolved_request \<Rightarrow> 'w gateway \<Rightarrow> ((frank_error + chat_response) \<times> 'w gateway) option" where
  "execute_webhook env r gs = ge_chat env (webhook_chat_request r) None gs"

definition webhooks_test :: "('w, 's) gateway_env \<Rightarrow> request_frame \<Rightarrow> 'w gateway \<Rightarrow> 'w reply" where
  "webhooks_test env req gs =
     (case non_empty_param req ''mapping_id'' of
        None \<Rightarrow> Some (frame_err (qf_id req) 400 ''mapping_id is required'', gs)
      | Some mapping_id \<Rightarrow>
          (case json_get (qf_params req) ''payload'' of
             None \<Rightarrow> Some (frame_err (qf_id req) 400 ''payload is required'', gs)
           | Some payload \<Rightarrow>
               (case resolve_request (ge_show_json env) (ge_mapping_of env) (gs_config gs) mapping_id payload of
                  None \<Rightarrow> None
                | Some (Inl e) \<Rightarrow> Some (frame_err (qf_id req) (status_code e) (error_text e), gs)
                | Some (Inr resolved) \<Rightarrow>
                    (case execute_webhook env resolved gs of
                       None \<Rightarrow> None
                     | Some (Inl e, gs1) \<Rightarrow> Some (frame_err (qf_id req) (status_code e) (error_text e), gs1)
                     | Some (Inr resp, gs1) \<Rightarrow>
                         Some (frame_ok (qf_id req)
                           (JObject [(''session_key'', JString (key_str (cy_session_key resp))),
                              (''model_id'', JString (cy_model_id resp)), (''content'', JString (cy_content resp)),
                              (''usage'', ge_usage_json env (cy_usage resp))]), gs1)))))"

definition no_cron :: "request_frame \<Rightarrow> response_frame" where
  "no_cron req = frame_err (qf_id req) 503 ''cron service not available''"

definition rpc_cron_list :: "('w, 's) gateway_env \<Rightarrow> request_frame \<Rightarrow> 'w gateway \<Rightarrow> 'w reply" where
  "rpc_cron_list env req gs =
     (case gs_cron gs of
        None \<Rightarrow> Some (no_cron req, gs)
      | Some cron \<Rightarrow>
          Some (frame_ok (qf_id req)
            (JObject [(''jobs'', JArray (map (ge_job_json env) (cron_list cron)))]), gs))"

definition new_job_id :: "('w, 's) gateway_env \<Rightarrow> request_frame \<Rightarrow> 'w \<Rightarrow> string" where
  "new_job_id env req w =
     (case str_param req ''id'' of Some i \<Rightarrow> i | None \<Rightarrow> ''job-'' @ ge_show_millis env (ge_now env w))"

definition job_session_key :: "string \<Rightarrow> string \<Rightarrow> string \<Rightarrow> string" where
  "job_session_key key agent i = (if key = [] then agent @ '':cron:'' @ i else key)"

definition or_str :: "string \<Rightarrow> string option \<Rightarrow> string" where
  "or_str d v = (case v of Some x \<Rightarrow> x | None \<Rightarrow> d)"

definition rpc_cron_add :: "('w, 's) gateway_env \<Rightarrow> request_frame \<Rightarrow> 'w gateway \<Rightarrow> 'w reply" where
  "rpc_cron_add env req gs =
     (case gs_cron gs of
        None \<Rightarrow> Some (no_cron req, gs)
      | Some cron \<Rightarrow>
          (case non_empty_param req ''schedule'' of
             None \<Rightarrow> Some (frame_err (qf_id req) 400 ''schedule is required'', gs)
           | Some schedule \<Rightarrow>
               (case non_empty_param req ''prompt'' of
                  None \<Rightarrow> Some (frame_err (qf_id req) 400 ''prompt is required'', gs)
                | Some prompt \<Rightarrow>
                    (let agent = or_str ''default'' (str_param req ''agent_id'');
                         i = new_job_id env req (gs_world gs);
                         key = job_session_key (or_str [] (str_param req ''session_key'')) agent i
                     in case manager_add_job (ge_scheduler env) (ge_disk env) (ge_now env (gs_world gs)) i
                               (trim schedule) agent key (trim prompt) True cron (gs_world gs) of
                          None \<Rightarrow> None
                        | Some (r, cron1, w1) \<Rightarrow>
                            Some (case r of
                                    Inr _ \<Rightarrow> frame_ok (qf_id req) (JObject [(''status'', JString ''ok''), (''id'', JString i)])
                                  | Inl e \<Rightarrow> frame_err (qf_id req) 400 (''failed to add job: '' @ error_text e),
                                  gs\<lparr>gs_cron := Some cron1, gs_world := w1\<rparr>)))))"

definition rpc_cron_remove :: "('w, 's) gateway_env \<Rightarrow> request_frame \<Rightarrow> 'w gateway \<Rightarrow> 'w reply" where
  "rpc_cron_remove env req gs =
     (case gs_cron gs of
        None \<Rightarrow> Some (no_cron req, gs)
      | Some cron \<Rightarrow>
          (case non_empty_param req ''id'' of
             None \<Rightarrow> Some (frame_err (qf_id req) 400 ''id is required'', gs)
           | Some i \<Rightarrow>
               (case manager_remove_job (ge_disk env) (trim i) cron (gs_world gs) of (existed, cron1, w1) \<Rightarrow>
                  Some (frame_ok (qf_id req) (JObject [(''status'', JString ''ok''), (''existed'', JBool existed)]),
                        gs\<lparr>gs_cron := Some cron1, gs_world := w1\<rparr>))))"

definition rpc_cron_run :: "request_frame \<Rightarrow> 'w gateway \<Rightarrow> 'w reply" where
  "rpc_cron_run req gs =
     (case gs_cron gs of
        None \<Rightarrow> Some (no_cron req, gs)
      | Some cron \<Rightarrow>
          (case non_empty_param req ''id'' of
             None \<Rightarrow> Some (frame_err (qf_id req) 400 ''id is required'', gs)
           | Some i \<Rightarrow>
               (case find (\<lambda>j. cj_id j = trim i) (cron_list cron) of
                  None \<Rightarrow> Some (frame_err (qf_id req) 404 ''job not found'', gs)
                | Some j \<Rightarrow>
                    Some (frame_ok (qf_id req)
                            (JObject [(''status'', JString ''triggered''), (''id'', JString (trim i))]),
                          gs\<lparr>gs_tasks := gs_tasks gs @ [j]\<rparr>))))"

text \<open>The task of a job that was started by hand.\<close>

definition job_chat_request :: "cron_job \<Rightarrow> chat_request" where
  "job_chat_request j =
     \<lparr>cq_agent_id = Some (cj_agent_id j), cq_session_key = Some (cj_session_key j), cq_message = cj_prompt j,
      cq_attachments = [], cq_model_id = None, cq_max_tokens = None, cq_temperature = None,
      cq_streaming = False, cq_thinking_budget = None, cq_channel_id = None, cq_channel_capabilities = None,
      cq_cancellable = False, cq_approval = False\<rparr>"

definition run_job_task :: "('w, 's) gateway_env \<Rightarrow> cron_job \<Rightarrow> 'w gateway \<Rightarrow> 'w gateway option" where
  "run_job_task env j gs =
     (case ge_chat env (job_chat_request j) None gs of
        None \<Rightarrow> None
      | Some (r, gs1) \<Rightarrow>
          Some (broadcast EvCronRun
            (JObject [(''job_id'', JString (cj_id j)),
               (''status'', JString (case r of Inr _ \<Rightarrow> ''success'' | Inl _ \<Rightarrow> ''failed''))]) gs1))"

section \<open>The configuration for clients (ws.rs)\<close>

text \<open>\<open>if let Some(v) = obj.get_mut(k)\<close>: a change of one field of an object.\<close>

fun json_update :: "string \<Rightarrow> (json \<Rightarrow> json) \<Rightarrow> json \<Rightarrow> json" where
  "json_update k f (JObject kvs) = JObject (AList.map_entry k f kvs)"
| "json_update k f j = j"

fun json_map_array :: "(json \<Rightarrow> json) \<Rightarrow> json \<Rightarrow> json" where
  "json_map_array f (JArray xs) = JArray (map f xs)"
| "json_map_array f j = j"

definition redacted :: json where
  "redacted = JString ''[REDACTED]''"

definition redact_field :: "string \<Rightarrow> json \<Rightarrow> json" where
  "redact_field k = json_update k (\<lambda>_. redacted)"

definition redact_config :: "json \<Rightarrow> json" where
  "redact_config c =
     json_update ''hooks'' (redact_field ''token'')
       (json_update ''models'' (json_update ''providers'' (json_map_array (redact_field ''api_key_ref'')))
         (json_update ''gateway'' (json_update ''auth'' (\<lambda>a. redact_field ''hash'' (redact_field ''token'' a))) c))"

section \<open>Dispatch (ws.rs)\<close>

definition channels_list_json :: "(channel_id \<times> string \<times> json) list \<Rightarrow> json" where
  "channels_list_json cs =
     JObject [(''channels'', JArray (map (\<lambda>(c, _). JString (channel_str c)) cs))]"

definition channels_status_json :: "(channel_id \<times> string \<times> json) list \<Rightarrow> json" where
  "channels_status_json cs =
     JObject [(''channels'',
       JArray (map (\<lambda>(c, label, health). JObject [(''id'', JString (channel_str c)), (''label'', JString label),
         (''health'', health)]) cs))]"

definition not_implemented :: "('w, 's) gateway_env \<Rightarrow> request_frame \<Rightarrow> response_frame" where
  "not_implemented env req =
     frame_err (qf_id req) 501 (ge_show_method env (qf_method req) @ '' not yet implemented'')"

definition route :: "('w, 's) gateway_env \<Rightarrow> u64 \<Rightarrow> request_frame \<Rightarrow> 'w gateway \<Rightarrow> 'w reply" where
  "route env conn req gs =
     (let answer = (\<lambda>j. Some (frame_ok (qf_id req) j, gs))
      in case qf_method req of
           Ping \<Rightarrow> answer (JObject [(''status'', JString ''ok'')])
         | HealthProbe \<Rightarrow> answer (JObject [(''status'', JString ''ok'')])
         | ConfigGet \<Rightarrow> answer (redact_config (ge_config_json env (gs_config gs)))
         | ChatSend \<Rightarrow> chat_send env conn req gs
         | ChatCancel \<Rightarrow> chat_cancel req gs
         | SessionsList \<Rightarrow> sessions_list env req gs
         | SessionsGet \<Rightarrow> sessions_get env req gs
         | SessionsReset \<Rightarrow> sessions_reset env req gs
         | ChatHistory \<Rightarrow> chat_history env req gs
         | ChannelsList \<Rightarrow> answer (channels_list_json (ge_channels env (gs_world gs)))
         | ChannelsStatus \<Rightarrow> answer (channels_status_json (ge_channels env (gs_world gs)))
         | ModelsList \<Rightarrow> answer (JObject [(''models'', ge_models env)])
         | CanvasGet \<Rightarrow> rpc_canvas_get env req gs
         | CanvasExport \<Rightarrow> canvas_export env req gs
         | CanvasSet \<Rightarrow> rpc_canvas_set env req gs
         | CanvasPatch \<Rightarrow> rpc_canvas_patch env req gs
         | CanvasClear \<Rightarrow> rpc_canvas_clear env req gs
         | WebhooksTest \<Rightarrow> webhooks_test env req gs
         | SessionsDelete \<Rightarrow> sessions_delete env req gs
         | UsageGet \<Rightarrow> usage_get env req gs
         | ToolApprovalResolve \<Rightarrow> tool_approval_resolve req gs
         | SessionsPatch \<Rightarrow> sessions_patch env req gs
         | SessionsCompact \<Rightarrow> sessions_compact env req gs
         | CronList \<Rightarrow> rpc_cron_list env req gs
         | CronAdd \<Rightarrow> rpc_cron_add env req gs
         | CronRemove \<Rightarrow> rpc_cron_remove env req gs
         | CronRun \<Rightarrow> rpc_cron_run req gs
         | _ \<Rightarrow> Some (not_implemented env req, gs))"

definition dispatch_method ::
  "('w, 's) gateway_env \<Rightarrow> u64 \<Rightarrow> auth_role \<Rightarrow> request_frame \<Rightarrow> 'w gateway \<Rightarrow> 'w reply" where
  "dispatch_method env conn role req gs =
     (if role < min_role (qf_method req)
      then Some (frame_err (qf_id req) 403
             (''insufficient permissions for '' @ ge_show_method env (qf_method req)), gs)
      else route env conn req gs)"

text \<open>
  A connection: it is registered, answers its messages one after the other and is removed. A message
  is a request or the error of reading it.
\<close>

definition invalid_frame :: "string \<Rightarrow> json" where
  "invalid_frame e =
     JObject [(''type'', JString ''response''), (''id'', JNull),
       (''error'', JObject [(''code'', JUInt 400), (''message'', JString (''invalid request: '' @ e))])]"

fun serve_messages ::
  "('w, 's) gateway_env \<Rightarrow> u64 \<Rightarrow> auth_role \<Rightarrow> (string + request_frame) list \<Rightarrow> 'w gateway \<Rightarrow>
     ((json + response_frame) list \<times> 'w gateway) option" where
  "serve_messages env conn role [] gs = Some ([], gs)"
| "serve_messages env conn role (Inl e # ms) gs =
     (case serve_messages env conn role ms gs of
        None \<Rightarrow> None | Some (rs, gs1) \<Rightarrow> Some (Inl (invalid_frame e) # rs, gs1))"
| "serve_messages env conn role (Inr req # ms) gs =
     (case dispatch_method env conn role req gs of
        None \<Rightarrow> None
      | Some (r, gs1) \<Rightarrow>
          (case serve_messages env conn role ms gs1 of
             None \<Rightarrow> None | Some (rs, gs2) \<Rightarrow> Some (Inr r # rs, gs2)))"

definition handle_ws_connection ::
  "('w, 's) gateway_env \<Rightarrow> u64 \<Rightarrow> auth_role \<Rightarrow> (string + request_frame) list \<Rightarrow> 'w gateway \<Rightarrow>
     ((json + response_frame) list \<times> 'w gateway) option" where
  "handle_ws_connection env conn role ms gs =
     (case serve_messages env conn role ms (gs\<lparr>gs_clients := (gs_clients gs)(conn \<mapsto> role)\<rparr>) of
        None \<Rightarrow> None
      | Some (rs, gs1) \<Rightarrow> Some (rs, gs1\<lparr>gs_clients := (gs_clients gs1)(conn := None)\<rparr>))"

section \<open>Who may do what\<close>

text \<open>Queries of the session store leave it as it is.\<close>

definition reads_only :: "('w, 'a) action \<Rightarrow> bool" where
  "reads_only m \<longleftrightarrow> (\<forall>w. snd (m w) = w)"

definition queries_only :: "('w, 's) gateway_env \<Rightarrow> bool" where
  "queries_only env \<longleftrightarrow>
     (\<forall>k. reads_only (st_get (ge_store env) k)) \<and>
     (\<forall>a n m. reads_only (st_list (ge_store env) a n m)) \<and>
     (\<forall>k n b. reads_only (st_get_transcript (ge_store env) k n b))"

lemma gateway_world_id: "gs\<lparr>gs_world := gs_world gs\<rparr> = gs"
  by simp

lemma on_world_reads: "reads_only m \<Longrightarrow> on_world m gs = (r, gs1) \<Longrightarrow> gs1 = gs"
  by (auto simp: on_world_def reads_only_def split: prod.splits) (metis gateway_world_id snd_conv)

lemma sessions_list_reads:
  "queries_only env \<Longrightarrow> sessions_list env req gs = Some (r, gs1) \<Longrightarrow> gs1 = gs"
  by (auto simp: sessions_list_def queries_only_def Let_def dest: on_world_reads [rotated]
      split: option.splits prod.splits sum.splits)

lemma usage_get_reads:
  "queries_only env \<Longrightarrow> usage_get env req gs = Some (r, gs1) \<Longrightarrow> gs1 = gs"
  by (auto simp: usage_get_def queries_only_def Let_def dest: on_world_reads [rotated]
      split: option.splits prod.splits sum.splits)

lemma sessions_get_reads:
  "queries_only env \<Longrightarrow> sessions_get env req gs = Some (r, gs1) \<Longrightarrow> gs1 = gs"
  by (auto simp: sessions_get_def with_session_key_def queries_only_def dest: on_world_reads [rotated]
      split: option.splits prod.splits sum.splits)

lemma chat_history_reads:
  "queries_only env \<Longrightarrow> chat_history env req gs = Some (r, gs1) \<Longrightarrow> gs1 = gs"
  by (auto simp: chat_history_def with_session_key_def queries_only_def Let_def
      dest: on_world_reads [rotated] split: option.splits prod.splits sum.splits)

lemma below_editor: "r < Editor \<longleftrightarrow> r = Viewer"
  by (cases r) (simp_all add: less_auth_role_def)

lemma viewer_least: "\<not> Viewer < Viewer" "Viewer < Editor" "Viewer < Admin" "\<not> r < Viewer"
  by (cases r; simp add: less_auth_role_def)+

lemma rpc_queries_read:
  "rpc_canvas_get env req gs = Some (r, gs1) \<Longrightarrow> gs1 = gs"
  "canvas_export env req gs = Some (r, gs1) \<Longrightarrow> gs1 = gs"
  "rpc_cron_list env req gs = Some (r, gs1) \<Longrightarrow> gs1 = gs"
  by (auto simp: rpc_canvas_get_def canvas_export_def rpc_cron_list_def Let_def split: option.splits)

lemmas query_facts =
  sessions_list_reads usage_get_reads sessions_get_reads chat_history_reads rpc_queries_read

lemma route_reads:
  assumes "queries_only env" and "route env conn req gs = Some (r, gs1)"
    and "min_role (qf_method req) = Viewer"
  shows "gs1 = gs"
proof -
  note q = query_facts(1-4) [OF assms(1)] rpc_queries_read
  show ?thesis
    using assms(2,3)
    by (cases "qf_method req") (simp_all add: route_def min_role_def Let_def q)
qed

text \<open>
  C14. A request below the least role of its method is answered 403 and changes nothing, and whatever a
  viewer asks for, the shared state, the store and the canvas stay as they are.
\<close>

theorem viewer_changes_nothing:
  assumes "queries_only env" and "dispatch_method env conn role req gs = Some (r, gs1)"
    and "role < min_role (qf_method req) \<or> role = Viewer"
  shows "gs1 = gs \<and> (role < min_role (qf_method req) \<longrightarrow> map_option pe_code (sf_error r) = Some 403)"
proof (cases "role < min_role (qf_method req)")
  case True
  then show ?thesis using assms(2) by (auto simp: dispatch_method_def frame_err_def)
next
  case False
  then have "role = Viewer" "min_role (qf_method req) = Viewer"
    using assms(3) by (auto simp: min_role_def viewer_least split: rpc_method.splits)
  then have "gs1 = gs"
    using assms(2) False route_reads [OF assms(1)] by (simp add: dispatch_method_def)
  then show ?thesis using False by simp
qed

definition idle_store :: "unit session_store" where
  "idle_store =
     \<lparr>st_get = (\<lambda>_. succeed None), st_upsert = (\<lambda>_. succeed ()), st_delete = (\<lambda>_. succeed ()),
      st_list = (\<lambda>_ _ _. succeed []), st_append_transcript = (\<lambda>_ _. succeed ()),
      st_get_transcript = (\<lambda>_ _ _. succeed []), st_clear_transcript = (\<lambda>_. succeed ()),
      st_maintenance = (\<lambda>_. succeed 0)\<rparr>"

definition idle_env :: "(unit, unit) gateway_env" where
  "idle_env =
     \<lparr>ge_chat = (\<lambda>_ _ gs. Some (Inl TurnCancelled, gs)),
      ge_compact = (\<lambda>_ _. fail TurnCancelled), ge_store = idle_store, ge_models = JArray [],
      ge_channels = (\<lambda>_. []), ge_now = (\<lambda>_. 0),
      ge_scheduler = \<lparr>sh_parse = (\<lambda>_. Inr ()), sh_next_after = (\<lambda>_ _. None)\<rparr>,
      ge_disk = \<lparr>kd_prepare = (\<lambda>w. (Inr (), w)), kd_exists = (\<lambda>_. False), kd_read = (\<lambda>_. Inl []),
                 kd_write = (\<lambda>_ w. w), kd_encode = (\<lambda>_. []), kd_decode = (\<lambda>_. Inr [])\<rparr>,
      ge_max_message_bytes = 1000, ge_temperature = (\<lambda>_. None), ge_show_method = (\<lambda>_. []),
      ge_show_json = (\<lambda>_. []), ge_show_millis = (\<lambda>_. ''0''), ge_cost = (\<lambda>_. JNull),
      ge_add_costs = (\<lambda>_. JNull), ge_config_json = (\<lambda>_. JNull), ge_session_json = (\<lambda>_. JNull),
      ge_entry_json = (\<lambda>_. JNull), ge_usage_json = (\<lambda>_. JNull), ge_document_json = (\<lambda>_. JNull),
      ge_job_json = (\<lambda>_. JNull), ge_time_json = (\<lambda>_. JNull), ge_approval_json = (\<lambda>_. JNull),
      ge_blocks_of = (\<lambda>_. None), ge_mapping_of = (\<lambda>_. Inl []), ge_export = (\<lambda>_ _. [])\<rparr>"

lemma idle_queries: "queries_only idle_env"
  by (simp add: queries_only_def reads_only_def idle_env_def idle_store_def)

definition clear_request :: request_frame where
  "clear_request = \<lparr>qf_id = NumberId 1, qf_method = CanvasClear, qf_params = JNull\<rparr>"

definition idle_gateway :: "unit gateway" where
  "idle_gateway = gateway_new default_config None ()"

theorem viewer_changes_nothing_witness:
  "\<exists>r. dispatch_method idle_env 1 Viewer clear_request idle_gateway = Some (r, idle_gateway) \<and>
     map_option pe_code (sf_error r) = Some 403"
proof -
  have low: "Viewer < min_role (qf_method clear_request)"
    by (simp add: clear_request_def min_role_def viewer_least)
  then obtain r where d: "dispatch_method idle_env 1 Viewer clear_request idle_gateway = Some (r, idle_gateway)"
    by (auto simp: dispatch_method_def)
  from viewer_changes_nothing [OF idle_queries d] low d show ?thesis by auto
qed

text \<open>The roles for programs and devices rank above the administrator: no method is refused to them.\<close>

lemma devices_outrank_admin: "r = AiOnly \<or> r = Node \<Longrightarrow> Admin < r \<and> \<not> r < min_role m"
  by (cases m) (auto simp: less_auth_role_def min_role_def)

section \<open>Secrets of the configuration\<close>

lemma json_get_update:
  "json_get (json_update k f j) k' = (if k' = k then map_option f (json_get j k') else json_get j k')"
  by (cases j) (auto simp: map_of_map_entry split: option.split)

lemma redact_field_get:
  "json_get (redact_field k j) k' = (if k' = k then map_option (\<lambda>_. redacted) (json_get j k') else json_get j k')"
  by (simp add: redact_field_def json_get_update)

fun json_path :: "json \<Rightarrow> string list \<Rightarrow> json option" where
  "json_path j [] = Some j"
| "json_path j (k # ks) = Option.bind (json_get j k) (\<lambda>v. json_path v ks)"

lemma bind_map_option: "Option.bind (map_option f m) g = Option.bind m (g \<circ> f)"
  by (cases m) auto

text \<open>
  A client sees the word REDACTED in place of the token, the password hash, the secret of the
  webhooks and every reference to a key of a provider, exactly where the configuration has them.
\<close>
lemma config_get_redacts:
  "json_path (redact_config c) [''gateway'', ''auth'', ''token''] =
     map_option (\<lambda>_. redacted) (json_path c [''gateway'', ''auth'', ''token'']) \<and>
   json_path (redact_config c) [''gateway'', ''auth'', ''hash''] =
     map_option (\<lambda>_. redacted) (json_path c [''gateway'', ''auth'', ''hash'']) \<and>
   json_path (redact_config c) [''hooks'', ''token''] =
     map_option (\<lambda>_. redacted) (json_path c [''hooks'', ''token'']) \<and>
   json_path (redact_config c) [''models'', ''providers''] =
     map_option (json_map_array (redact_field ''api_key_ref'')) (json_path c [''models'', ''providers''])"
  by (auto simp: redact_config_def json_get_update redact_field_get bind_map_option map_option_bind
      comp_def Option.map_conv_bind_option split: option.splits intro!: arg_cong [of _ _ "Option.bind _"])

text \<open>The accounts of the channels with their tokens are sent as they are.\<close>

lemma channel_tokens_unredacted: "json_get (redact_config c) ''channels'' = json_get c ''channels''"
  by (simp add: redact_config_def json_get_update)

section \<open>Runs and their cancellation\<close>

lemma broadcast_state [simp]:
  "gs_active_runs (broadcast ev p gs) = gs_active_runs gs" "gs_cancelled (broadcast ev p gs) = gs_cancelled gs"
  "gs_decisions (broadcast ev p gs) = gs_decisions gs" "gs_pending (broadcast ev p gs) = gs_pending gs"
  by (simp_all add: broadcast_def)

lemma run_chat_unregisters:
  "run_chat env i crq gs = Some (r, gs1) \<Longrightarrow> gs_active_runs gs1 (run_key i) = None"
  by (auto simp: run_chat_def chat_outcome_def unregister_run_def split: prod.splits option.splits sum.splits)

lemma chat_send_unregisters:
  assumes "chat_send env conn req gs = Some (r, gs1)"
    and "non_empty_param req ''message'' = Some m" and "length m \<le> ge_max_message_bytes env"
  shows "gs_active_runs gs1 (run_key (qf_id req)) = None"
  using assms by (auto simp: chat_send_def split: option.splits dest: run_chat_unregisters)

definition sends_chat :: "('w, 's) gateway_env \<Rightarrow> request_frame \<Rightarrow> bool" where
  "sends_chat env req \<longleftrightarrow> qf_method req = ChatSend \<and>
     (case non_empty_param req ''message'' of Some m \<Rightarrow> length m \<le> ge_max_message_bytes env | None \<Rightarrow> False)"

definition cancels :: "request_id \<Rightarrow> request_frame \<Rightarrow> bool" where
  "cancels i req \<longleftrightarrow> qf_method req = ChatCancel \<and>
     (case non_empty_param req ''request_id'' of Some k \<Rightarrow> trim k = run_key i | None \<Rightarrow> False)"

text \<open>
  A connection answers its messages one after the other, and a run is registered no longer than its
  answer takes: the cancellation that a client sends after its own request always finds no run.
\<close>
lemma own_cancel_finds_nothing:
  assumes "sends_chat env req" and "cancels (qf_id req) req2"
    and "serve_messages env conn role [Inr req, Inr req2] gs = Some ([Inr r, Inr r2], gs2)"
    and "\<not> role < Editor"
  shows "map_option pe_code (sf_error r2) = Some 404"
proof -
  have roles: "\<not> role < min_role (qf_method req)" "\<not> role < min_role (qf_method req2)"
    using assms(1,2,4) by (auto simp: sends_chat_def cancels_def min_role_def)
  obtain gs1 where s: "chat_send env conn req gs = Some (r, gs1)" and c: "chat_cancel req2 gs1 = Some (r2, gs2)"
    using assms(1-3) roles
    by (auto simp: sends_chat_def cancels_def dispatch_method_def route_def Let_def split: option.splits)
  have "gs_active_runs gs1 (run_key (qf_id req)) = None"
    using assms(1) chat_send_unregisters [OF s] by (auto simp: sends_chat_def split: option.splits)
  then show ?thesis
    using c assms(2) by (auto simp: cancels_def chat_cancel_def cancel_run_def frame_err_def Let_def split: option.splits)
qed

definition hello_request :: request_frame where
  "hello_request =
     \<lparr>qf_id = TextId ''a'', qf_method = ChatSend, qf_params = JObject [(''message'', JString ''hi'')]\<rparr>"

definition cancel_request :: request_frame where
  "cancel_request =
     \<lparr>qf_id = TextId ''b'', qf_method = ChatCancel, qf_params = JObject [(''request_id'', JString ''a'')]\<rparr>"

lemma own_cancel_finds_nothing_witness:
  "\<exists>r r2 gs2. serve_messages idle_env 1 Admin [Inr hello_request, Inr cancel_request] idle_gateway =
       Some ([Inr r, Inr r2], gs2) \<and> map_option pe_code (sf_error r2) = Some 404"
proof -
  have h: "sends_chat idle_env hello_request" "cancels (qf_id hello_request) cancel_request"
    by code_simp+
  obtain r r2 gs2 where s: "serve_messages idle_env 1 Admin [Inr hello_request, Inr cancel_request] idle_gateway =
       Some ([Inr r, Inr r2], gs2)"
    by (auto simp: dispatch_method_def route_def hello_request_def cancel_request_def min_role_def
        less_auth_role_def chat_send_def chat_cancel_def non_empty_param_def str_param_def get_str_def
        idle_env_def run_chat_def register_run_def agent_param_def key_param_def Let_def
        trim_def trim_start_def trim_end_def is_ws_def chat_outcome_def unregister_run_def cancel_run_def
        idle_gateway_def gateway_new_def broadcast_def)
  from own_cancel_finds_nothing [OF h s] s show ?thesis
    by (auto simp: less_auth_role_def)
qed

text \<open>The deletion of a session looks for a run under the key of the session, where no run is registered.\<close>

lemma register_run_key: "gs_active_runs (snd (register_run k gs)) j \<noteq> gs_active_runs gs j \<Longrightarrow> j = k"
  by (auto simp: register_run_def split: if_splits)

lemma delete_cancels_nothing:
  assumes "gs_active_runs gs (key_str key) = None" and "key_param req = Some (Some key)"
    and "sessions_delete env req gs = Some (r, gs1)"
  shows "gs_cancelled gs1 = gs_cancelled gs"
  using assms
  by (auto simp: sessions_delete_def with_session_key_def cancel_run_def on_world_def session_event_def
      split: prod.splits sum.splits)

section \<open>Decisions of the user\<close>

text \<open>
  A decision that is accepted reaches the turn that asked, is the one that the client named, and
  cannot be given a second time.
\<close>
lemma approval_resolved_once:
  assumes "tool_approval_resolve req gs = Some (r, gs1)" and "sf_error r = None"
  shows "\<exists>raw d sender. non_empty_param req ''approval_id'' = Some raw \<and>
     gs_pending gs (trim raw) = Some sender \<and> sender \<notin> gs_dropped gs \<and>
     Option.bind (str_param req ''decision'') parse_decision = Some d \<and>
     gs_decisions gs1 = (gs_decisions gs)(sender \<mapsto> d) \<and> gs_pending gs1 = (gs_pending gs)(trim raw := None) \<and>
     (\<exists>r2. tool_approval_resolve req gs1 = Some (r2, gs1) \<and> map_option pe_code (sf_error r2) = Some 404)"
  using assms
  by (auto simp: tool_approval_resolve_def send_decision_def frame_ok_def frame_err_def
      split: option.splits if_splits)

definition allow_request :: request_frame where
  "allow_request =
     \<lparr>qf_id = NumberId 2, qf_method = ToolApprovalResolve,
      qf_params = JObject [(''approval_id'', JString ''x''), (''decision'', JString ''allow_once'')]\<rparr>"

lemma approval_resolved_once_witness:
  "\<exists>r gs1. tool_approval_resolve allow_request (idle_gateway\<lparr>gs_pending := [''x'' \<mapsto> 7]\<rparr>) = Some (r, gs1) \<and>
     gs_decisions gs1 7 = Some AllowOnce"
proof -
  let ?gs = "idle_gateway\<lparr>gs_pending := [''x'' \<mapsto> 7]\<rparr>"
  have p: "non_empty_param allow_request ''approval_id'' = Some ''x''" "trim ''x'' = ''x''"
      "str_param allow_request ''decision'' = Some ''allow_once''"
      "parse_decision ''allow_once'' = Some AllowOnce"
    by code_simp+
  obtain r gs1 where t: "tool_approval_resolve allow_request ?gs = Some (r, gs1)" and e: "sf_error r = None"
    by (simp add: tool_approval_resolve_def p send_decision_def frame_ok_def idle_gateway_def gateway_new_def)
  from approval_resolved_once [OF t e] t show ?thesis
    by (auto simp: p idle_gateway_def)
qed

section \<open>The name of an export\<close>

lemma set_trim_dashes: "set (trim_dashes s) \<subseteq> set s"
  by (auto simp: trim_dashes_def dest!: set_dropWhileD)

text \<open>The name of an exported file is never empty and has letters, digits, dashes and underscores only.\<close>

lemma export_name_safe:
  "sanitize_canvas_export_name v \<noteq> [] \<and> list_all export_char (sanitize_canvas_export_name v)"
proof -
  have "list_all export_char (trim_dashes (map (\<lambda>c. if export_char c then c else CHR ''-'') v))"
    using set_trim_dashes [of "map (\<lambda>c. if export_char c then c else CHR ''-'') v"]
    by (auto simp: list_all_iff export_char_def split: if_splits)
  moreover have "list_all export_char ''canvas''"
    by code_simp
  ultimately show ?thesis by (auto simp: sanitize_canvas_export_name_def Let_def)
qed

end
