(* ===== verification/Gateway_Server.thy ===== *)
theory Gateway_Server
  imports Gateway_Rpc Pairing Delivery Auth
begin

text \<open>
  The server of the gateway (\<open>frankclaw-gateway/src/server.rs\<close>): the credentials of a request, the
  HTTP endpoints, the way of a message from a channel through the policy of its channel to the agent
  and back, and the reload of the configuration. The channels, the media store, the parsers and the
  clock are parameters. Outcomes \<open>None\<close> are panics.
\<close>

section \<open>State and parameters\<close>

record 'w server =
  vs_gateway :: "'w gateway"
  vs_pairing :: pairing_state
  vs_limiter :: "ip_addr limiter"
  vs_rate_config :: rate_limit_config
  vs_bind :: bind_mode \<comment> \<open>the address of the listener, fixed at the start\<close>
  vs_stopped :: bool

record whatsapp_endpoint =
  wa_verify_token :: "string \<Rightarrow> bool"
  wa_verify_signature :: "u8 list \<Rightarrow> string option \<Rightarrow> frank_error + unit"
  wa_parse_payload :: "json \<Rightarrow> inbound_message list"

record media_upload =
  mu_media_id :: string
  mu_filename :: string
  mu_mime_type :: string
  mu_size_bytes :: u64

record ('w, 's) server_env =
  vx_rpc :: "('w, 's) gateway_env"
  vx_runtime :: runtime
  vx_channel :: "channel_id \<Rightarrow> 'w channel_plugin option"
  vx_random :: "'w \<Rightarrow> u8 list"
  vx_save :: "pairing_state \<Rightarrow> frank_error + unit"
  vx_password :: "string \<Rightarrow> string \<Rightarrow> bool option"
  vx_instants :: "'w \<Rightarrow> instant \<times> instant \<times> instant"
  vx_unix_secs :: "'w \<Rightarrow> int"
  vx_sleep :: "u64 \<Rightarrow> 'w \<Rightarrow> 'w"
  vx_sleep_ms :: "u64 \<Rightarrow> 'w \<Rightarrow> 'w"
  vx_media_read :: "media_id \<Rightarrow> frank_error + stored_media option"
  vx_media_store :: "string \<Rightarrow> string \<Rightarrow> u8 list \<Rightarrow> ('w, media_upload) action"
  vx_parse_uuid :: "string \<Rightarrow> media_id option"
  vx_parse_json :: "u8 list \<Rightarrow> string + json"
  vx_hmac :: "string \<Rightarrow> u8 list \<Rightarrow> u8 list"
  vx_reply_json :: "stored_reply \<Rightarrow> json option"
  vx_pending_json :: "pending_pairing \<Rightarrow> json"
  vx_drain_web :: "(string \<Rightarrow> string \<Rightarrow> 'w \<Rightarrow> json list \<times> 'w) option"
  vx_whatsapp :: "whatsapp_endpoint option"

definition in_gateway :: "('w gateway \<Rightarrow> 'a \<times> 'w gateway) \<Rightarrow> 'w server \<Rightarrow> 'a \<times> 'w server" where
  "in_gateway f sv = (case f (vs_gateway sv) of (x, gs) \<Rightarrow> (x, sv\<lparr>vs_gateway := gs\<rparr>))"

text \<open>An operation on the world whose error is dropped.\<close>

definition try_world :: "('w, 'a) action \<Rightarrow> 'w server \<Rightarrow> 'w server" where
  "try_world m sv = snd (in_gateway (on_world m) sv)"

section \<open>Messages from channels\<close>

definition sender_allowed :: "channel_security_policy \<Rightarrow> pairing_state \<Rightarrow> inbound_message \<Rightarrow> bool" where
  "sender_allowed p pr m \<longleftrightarrow>
     list_ex (\<lambda>e. e = ''*'' \<or> e = im_sender_id m) (sp_allow_from p) \<or>
     is_approved (channel_str (im_channel m)) (im_account_id m) (im_sender_id m) pr"

definition group_allowed :: "channel_security_policy \<Rightarrow> inbound_message \<Rightarrow> bool" where
  "group_allowed p m =
     (case sp_allowed_groups p of
        None \<Rightarrow> True
      | Some groups \<Rightarrow>
          list_ex (\<lambda>e. e = ''*'') groups \<or>
          (case im_thread_id m of Some t \<Rightarrow> list_ex (\<lambda>e. e = t) groups | None \<Rightarrow> False))"

definition inbound_policy :: "frankclaw_config \<Rightarrow> inbound_message \<Rightarrow> frank_error + channel_security_policy" where
  "inbound_policy cfg m =
     (case map_of (fc_channels cfg) (im_channel m) of
        Some c \<Rightarrow> security_policy c
      | None \<Rightarrow> Inr (default_security_policy\<lparr>sp_dm_policy := DmDisabled\<rparr>))"

definition inbound_limit :: "nat \<Rightarrow> channel_security_policy \<Rightarrow> nat" where
  "inbound_limit max_body p = min (case sp_max_message_bytes p of Some n \<Rightarrow> n | None \<Rightarrow> max_body) max_body"

text \<open>What becomes of a message before the agent sees it.\<close>

datatype admission = Refused frank_error | Dropped | NeedsPairing | Admitted string

definition admit_direct ::
  "channel_security_policy \<Rightarrow> pairing_state \<Rightarrow> inbound_message \<Rightarrow> string \<Rightarrow> admission" where
  "admit_direct p pr m msg =
     (case sp_dm_policy p of
        DmDisabled \<Rightarrow> Dropped
      | DmOpen \<Rightarrow> Admitted msg
      | DmAllowlist \<Rightarrow> if sender_allowed p pr m then Admitted msg else Dropped
      | DmPairing \<Rightarrow> if sender_allowed p pr m then Admitted msg else NeedsPairing)"

definition admit :: "frankclaw_config \<Rightarrow> nat \<Rightarrow> pairing_state \<Rightarrow> inbound_message \<Rightarrow> admission" where
  "admit cfg max_body pr m =
     (case inbound_policy cfg m of
        Inl e \<Rightarrow> Refused e
      | Inr p \<Rightarrow>
          (case map_option trim (im_text m) of
             None \<Rightarrow> Refused (InvalidRequest ''inbound message text is required'')
           | Some msg \<Rightarrow>
               if msg = [] then Refused (InvalidRequest ''inbound message text is required'')
               else if inbound_limit max_body p < length msg
               then Refused (RequestTooLarge (inbound_limit max_body p))
               else if im_is_group m \<and> sp_require_mention_for_groups p \<and> \<not> im_is_mention m then Dropped
               else if im_is_group m \<and> \<not> group_allowed p m then Dropped
               else if im_is_group m then Admitted msg
               else admit_direct p pr m msg))"

text \<open>A message back to where an inbound message came from.\<close>

definition reply_to :: "inbound_message \<Rightarrow> string \<Rightarrow> outbound_message" where
  "reply_to m msg =
     \<lparr>om_channel = im_channel m, om_account_id = im_account_id m, om_to = im_sender_id m,
      om_thread_id = im_thread_id m, om_text = msg, om_attachments = [],
      om_reply_to = im_platform_message_id m\<rparr>"

definition pairing_text :: "channel_id \<Rightarrow> pending_pairing \<Rightarrow> string" where
  "pairing_text c p =
     ''Pairing required. Approve with: frankclaw pairing approve '' @ channel_str c @ '' '' @ pp_code p"

definition request_pairing ::
  "('w, 's) server_env \<Rightarrow> inbound_message \<Rightarrow> 'w server \<Rightarrow> (frank_error + session_key option) \<times> 'w server" where
  "request_pairing env m sv =
     (let w = gs_world (vs_gateway sv)
      in case ensure_pending (vx_random env w) (ge_now (vx_rpc env) w) (vx_save env)
                (channel_str (im_channel m)) (im_account_id m) (im_sender_id m) (vs_pairing sv) of
           (Inl e, pr) \<Rightarrow> (Inl e, sv\<lparr>vs_pairing := pr\<rparr>)
         | (Inr pending, pr) \<Rightarrow>
             (let sv1 = sv\<lparr>vs_pairing := pr\<rparr>
              in (Inr None,
                  case vx_channel env (im_channel m) of
                    None \<Rightarrow> sv1
                  | Some ch \<Rightarrow> try_world (ch_send ch (reply_to m (pairing_text (im_channel m) pending))) sv1)))"

definition inbound_chat_request ::
  "inbound_message \<Rightarrow> string \<Rightarrow> agent_id option \<Rightarrow> session_key \<Rightarrow> 'w channel_plugin option \<Rightarrow> chat_request" where
  "inbound_chat_request m msg agent key ch =
     \<lparr>cq_agent_id = agent, cq_session_key = Some key, cq_message = msg, cq_attachments = im_attachments m,
      cq_model_id = None, cq_max_tokens = None, cq_temperature = None,
      cq_streaming = (case ch of Some c \<Rightarrow> cap_edit (ch_capabilities c) | None \<Rightarrow> False),
      cq_thinking_budget = None, cq_channel_id = Some (im_channel m),
      cq_channel_capabilities = map_option ch_capabilities ch, cq_cancellable = False, cq_approval = False\<rparr>"

text \<open>
  The draft of a channel that can edit its messages: sent before the turn, replaced by the answer
  after it. The edits in between are left out.
\<close>

definition send_draft ::
  "'w channel_plugin \<Rightarrow> inbound_message \<Rightarrow> 'w server \<Rightarrow> string option \<times> 'w server" where
  "send_draft ch m sv =
     (case in_gateway (on_world (ch_send ch (reply_to m ''...''))) sv of
        (Inr (Sent i), sv1) \<Rightarrow> (Some i, sv1)
      | (_, sv1) \<Rightarrow> (None, sv1))"

definition finish_draft ::
  "'w channel_plugin \<Rightarrow> inbound_message \<Rightarrow> string option \<Rightarrow> string \<Rightarrow> 'w server \<Rightarrow> 'w server" where
  "finish_draft ch m draft content sv =
     (case draft of
        None \<Rightarrow> sv
      | Some i \<Rightarrow>
          try_world (ch_edit_message ch
            \<lparr>et_account_id = im_account_id m, et_to = im_sender_id m, et_thread_id = im_thread_id m,
             et_platform_message_id = i\<rparr> content) sv)"

section \<open>The record of a delivery\<close>

definition reply_chunk :: "chunk_record \<Rightarrow> stored_reply_chunk" where
  "reply_chunk k =
     \<lparr>rc_content = kr_text k, rc_platform_message_id = kr_platform_message_id k, rc_status = kr_status k,
      rc_attempts = kr_attempts k, rc_retry_after_secs = kr_retry_after_secs k, rc_error = kr_error k\<rparr>"

definition reply_record :: "inbound_message \<Rightarrow> string \<Rightarrow> delivery_record \<Rightarrow> datetime \<Rightarrow> stored_reply" where
  "reply_record m content d now =
     \<lparr>sr_channel = channel_str (im_channel m), sr_account_id = im_account_id m,
      sr_recipient_id = im_sender_id m, sr_thread_id = im_thread_id m,
      sr_reply_to = im_platform_message_id m, sr_content = content,
      sr_platform_message_id = dr_platform_message_id d, sr_status = dr_status d, sr_attempts = dr_attempts d,
      sr_retry_after_secs = dr_retry_after_secs d, sr_error = dr_error d,
      sr_chunks = map reply_chunk (dr_chunks d), sr_recorded_at = now\<rparr>"

definition persist_delivery_metadata ::
  "('w, 's) server_env \<Rightarrow> session_key \<Rightarrow> inbound_message \<Rightarrow> string \<Rightarrow> delivery_record \<Rightarrow> ('w, unit) action" where
  "persist_delivery_metadata env key m content d =
     andthen (st_get (ge_store (vx_rpc env)) key) (\<lambda>found.
     case found of
       None \<Rightarrow> succeed ()
     | Some entry \<Rightarrow> (\<lambda>w.
         let now = ge_now (vx_rpc env) w
         in (case set_last_reply_in_metadata (vx_reply_json env) (reply_record m content d now)
                    (se_metadata entry) of
               None \<Rightarrow> fail (SessionStorage ''failed to serialize delivery metadata'')
             | Some metadata \<Rightarrow>
                 st_upsert (ge_store (vx_rpc env))
                   (entry\<lparr>se_metadata := metadata, se_thread_id := im_thread_id m,
                          se_last_message_at := Some now\<rparr>)) w))"

definition deliver_answer ::
  "('w, 's) server_env \<Rightarrow> 'w channel_plugin \<Rightarrow> inbound_message \<Rightarrow> session_key \<Rightarrow> string \<Rightarrow> ('w, unit) action" where
  "deliver_answer env ch m key content =
     andthen (deliver_outbound_message ch (vx_sleep env) (vx_sleep_ms env) (Some (vx_media_read env))
                (reply_to m content)) (\<lambda>delivery.
     persist_delivery_metadata env key m content delivery)"

section \<open>The turn of a message\<close>

definition announce_answer :: "inbound_message \<Rightarrow> session_key \<Rightarrow> string \<Rightarrow> 'w gateway \<Rightarrow> 'w gateway" where
  "announce_answer m key content =
     broadcast EvChatComplete
       (JObject [(''channel'', JString (channel_str (im_channel m))), (''account_id'', JString (im_account_id m)),
          (''session_key'', JString (key_str key)), (''content'', JString content)])"

definition type_ahead :: "'w channel_plugin option \<Rightarrow> inbound_message \<Rightarrow> 'w server \<Rightarrow> 'w server" where
  "type_ahead ch m sv =
     (case ch of
        None \<Rightarrow> sv
      | Some c \<Rightarrow> try_world (ch_send_typing c (im_account_id m) (im_sender_id m) (im_thread_id m)) sv)"

text \<open>After the turn: the draft is replaced, or the answer delivered and recorded.\<close>

definition give_answer ::
  "('w, 's) server_env \<Rightarrow> inbound_message \<Rightarrow> session_key \<Rightarrow> 'w channel_plugin option \<Rightarrow> string option \<Rightarrow>
     string \<Rightarrow> 'w server \<Rightarrow> (frank_error + unit) \<times> 'w server" where
  "give_answer env m key ch draft content sv =
     (case ch of
        None \<Rightarrow> (Inr (), sv)
      | Some c \<Rightarrow>
          if cap_edit (ch_capabilities c) then (Inr (), finish_draft c m draft content sv)
          else in_gateway (on_world (deliver_answer env c m key content)) sv)"

definition run_inbound ::
  "('w, 's) server_env \<Rightarrow> inbound_message \<Rightarrow> string \<Rightarrow> agent_id option \<Rightarrow> session_key \<Rightarrow>
     'w channel_plugin option \<Rightarrow> 'w server \<Rightarrow> ((frank_error + chat_response) \<times> 'w server) option" where
  "run_inbound env m msg agent key ch sv =
     (case ge_chat (vx_rpc env) (inbound_chat_request m msg agent key ch) None (vs_gateway sv) of
        None \<Rightarrow> None
      | Some (r, gs) \<Rightarrow> Some (r, sv\<lparr>vs_gateway := gs\<rparr>))"

definition answer_inbound ::
  "('w, 's) server_env \<Rightarrow> inbound_message \<Rightarrow> string \<Rightarrow> agent_id option \<Rightarrow> session_key \<Rightarrow> 'w server \<Rightarrow>
     ((frank_error + session_key option) \<times> 'w server) option" where
  "answer_inbound env m msg agent key sv =
     (let ch = vx_channel env (im_channel m);
          edits = (case ch of Some c \<Rightarrow> cap_edit (ch_capabilities c) | None \<Rightarrow> False);
          (draft, sv1) = (case ch of Some c \<Rightarrow> if edits then send_draft c m sv else (None, sv) | None \<Rightarrow> (None, sv));
          sv2 = type_ahead ch m sv1
      in case run_inbound env m msg agent key ch sv2 of
           None \<Rightarrow> None
         | Some (Inl e, sv3) \<Rightarrow> Some (Inl e, sv3)
         | Some (Inr resp, sv3) \<Rightarrow>
             (case give_answer env m key ch draft (cy_content resp) sv3 of
                (Inl e, sv4) \<Rightarrow> Some (Inl e, sv4)
              | (Inr _, sv4) \<Rightarrow>
                  Some (Inr (Some key),
                        sv4\<lparr>vs_gateway := announce_answer m key (cy_content resp) (vs_gateway sv4)\<rparr>)))"

definition process_inbound_message_with_target ::
  "('w, 's) server_env \<Rightarrow> inbound_message \<Rightarrow> agent_id option \<Rightarrow> session_key option \<Rightarrow> 'w server \<Rightarrow>
     ((frank_error + session_key option) \<times> 'w server) option" where
  "process_inbound_message_with_target env m agent key sv =
     (case admit (gs_config (vs_gateway sv)) (ge_max_message_bytes (vx_rpc env)) (vs_pairing sv) m of
        Refused e \<Rightarrow> Some (Inl e, sv)
      | Dropped \<Rightarrow> Some (Inr None, sv)
      | NeedsPairing \<Rightarrow> Some (request_pairing env m sv)
      | Admitted msg \<Rightarrow>
          answer_inbound env m msg agent
            (case key of Some k \<Rightarrow> k | None \<Rightarrow> session_key_for_inbound (vx_runtime env) m) sv)"

definition error_reply_text :: "frank_error \<Rightarrow> string" where
  "error_reply_text e =
     (case e of
        RequestTooLarge _ \<Rightarrow> ''Your message is too long. Please shorten it and try again.''
      | RateLimited n \<Rightarrow> ''Too many requests. Please wait '' @ show_nat n @ '' seconds and try again.''
      | _ \<Rightarrow> ''Sorry, I encountered an error processing your message. Please try again later.'')"

definition send_error_reply :: "('w, 's) server_env \<Rightarrow> inbound_message \<Rightarrow> frank_error \<Rightarrow> 'w server \<Rightarrow> 'w server" where
  "send_error_reply env m e sv =
     (case vx_channel env (im_channel m) of
        None \<Rightarrow> sv
      | Some ch \<Rightarrow> try_world (ch_send ch (reply_to m (error_reply_text e))) sv)"

definition process_inbound_message ::
  "('w, 's) server_env \<Rightarrow> inbound_message \<Rightarrow> 'w server \<Rightarrow> ((frank_error + unit) \<times> 'w server) option" where
  "process_inbound_message env m sv =
     (case process_inbound_message_with_target env m None None sv of
        None \<Rightarrow> None
      | Some (Inl e, sv1) \<Rightarrow> Some (Inl e, send_error_reply env m e sv1)
      | Some (Inr _, sv1) \<Rightarrow> Some (Inr (), sv1))"

text \<open>The loop over the messages of all channels; errors are logged.\<close>

fun channel_loop :: "('w, 's) server_env \<Rightarrow> inbound_message list \<Rightarrow> 'w server \<Rightarrow> 'w server option" where
  "channel_loop env [] sv = Some sv"
| "channel_loop env (m # ms) sv =
     (case process_inbound_message env m sv of
        None \<Rightarrow> None
      | Some (_, sv1) \<Rightarrow> channel_loop env ms sv1)"

section \<open>Credentials\<close>

record auth_query =
  aq_token :: "string option"
  aq_password :: "string option"
  aq_identity :: "string option"

text \<open>The headers of a request by their lower-case names, as far as they are text.\<close>

type_synonym http_headers = "string \<Rightarrow> string option"

fun first_some :: "'a option list \<Rightarrow> 'a option" where
  "first_some [] = None"
| "first_some (Some x # xs) = Some x"
| "first_some (None # xs) = first_some xs"

definition auth_scheme :: "http_headers \<Rightarrow> string \<Rightarrow> string option" where
  "auth_scheme headers scheme = Option.bind (headers ''authorization'') (strip_prefix scheme)"

fun extract_credential :: "http_headers \<Rightarrow> auth_query \<Rightarrow> auth_mode \<Rightarrow> auth_credential" where
  "extract_credential headers query (AuthToken _) =
     (case first_some [aq_token query, auth_scheme headers ''Bearer ''] of
        Some t \<Rightarrow> BearerToken t | None \<Rightarrow> NoCredential)"
| "extract_credential headers query (AuthPassword _) =
     (case first_some [aq_password query, headers ''x-frankclaw-password'', auth_scheme headers ''Password ''] of
        Some p \<Rightarrow> Password p | None \<Rightarrow> NoCredential)"
| "extract_credential headers query (AuthTrustedProxy header) =
     (case first_some [aq_identity query, headers (to_lower header)] of
        Some i \<Rightarrow> ProxyIdentity i | None \<Rightarrow> NoCredential)"
| "extract_credential headers query AuthTailscale =
     (case first_some (map headers [''tailscale-user-login'', ''tailscale-user-name'', ''x-tailscale-user-login'']) of
        Some i \<Rightarrow> TailscaleIdentity i | None \<Rightarrow> NoCredential)"
| "extract_credential headers query AuthNone = NoCredential"

section \<open>HTTP\<close>

record http_request =
  hq_query :: auth_query
  hq_headers :: http_headers
  hq_remote :: ip_addr
  hq_body :: "u8 list"

record http_response =
  hr_status :: u16
  hr_headers :: "(string \<times> string) list"
  hr_body :: "json + u8 list"

definition json_response :: "u16 \<Rightarrow> json \<Rightarrow> http_response" where
  "json_response code j = \<lparr>hr_status = code, hr_headers = [], hr_body = Inl j\<rparr>"

definition text_response :: "u16 \<Rightarrow> string \<Rightarrow> http_response" where
  "text_response code t = \<lparr>hr_status = code, hr_headers = [], hr_body = Inr (bytes t)\<rparr>"

definition error_json :: "string \<Rightarrow> json" where
  "error_json e = JObject [(''error'', JString e)]"

definition error_response :: "frank_error \<Rightarrow> http_response" where
  "error_response e = json_response (status_code e) (error_json (error_text e))"

type_synonym 'w http_reply = "(http_response \<times> 'w server) option"

text \<open>The role of a client, and the limiter after the attempt.\<close>

definition authenticate_request ::
  "('w, 's) server_env \<Rightarrow> http_request \<Rightarrow> 'w server \<Rightarrow> (frank_error + auth_role) \<times> 'w server" where
  "authenticate_request env req sv =
     (let mode = gw_auth (fc_gateway (gs_config (vs_gateway sv)))
      in case gateway_authenticate (vs_rate_config sv) (vx_password env) mode
                (extract_credential (hq_headers req) (hq_query req) mode) (Some (hq_remote req))
                (vx_instants env (gs_world (vs_gateway sv))) (vs_limiter sv) of
           (r, limiter) \<Rightarrow> (r, sv\<lparr>vs_limiter := limiter\<rparr>))"

definition require_http_auth ::
  "('w, 's) server_env \<Rightarrow> http_request \<Rightarrow> ('w server \<Rightarrow> 'w http_reply) \<Rightarrow> 'w server \<Rightarrow> 'w http_reply" where
  "require_http_auth env req f sv =
     (case authenticate_request env req sv of
        (Inl e, sv1) \<Rightarrow> Some (text_response (status_code e) (error_text e), sv1)
      | (Inr _, sv1) \<Rightarrow> f sv1)"

text \<open>The upgrade of a connection: its number and role, or the refusal.\<close>

definition ws_handler ::
  "('w, 's) server_env \<Rightarrow> http_request \<Rightarrow> 'w server \<Rightarrow> (http_response + u64 \<times> auth_role) \<times> 'w server" where
  "ws_handler env req sv =
     (case authenticate_request env req sv of
        (Inl e, sv1) \<Rightarrow> (Inl (text_response (status_code e) (error_text e)), sv1)
      | (Inr role, sv1) \<Rightarrow>
          (case in_gateway alloc_conn_id sv1 of (i, sv2) \<Rightarrow> (Inr (i, role), sv2)))"

definition health_handler :: u16 where
  "health_handler = 200"

definition readiness_handler :: "'w server \<Rightarrow> u16" where
  "readiness_handler sv = (if vs_stopped sv then 503 else 200)"

section \<open>The web channel\<close>

record web_attachment =
  wt_media_id :: string
  wt_mime_type :: string
  wt_filename :: "string option"
  wt_size_bytes :: "u64 option"

record web_inbound =
  wi_sender_id :: string
  wi_message :: "string option"
  wi_agent_id :: "string option"
  wi_session_key :: "string option"
  wi_account_id :: string
  wi_sender_name :: "string option"
  wi_thread_id :: "string option"
  wi_is_group :: bool
  wi_is_mention :: bool
  wi_attachments :: "web_attachment list"

definition media_placeholder :: "string \<Rightarrow> string" where
  "media_placeholder mime =
     (if starts_with mime ''image/'' then ''<media:image>''
      else if starts_with mime ''audio/'' then ''<media:audio>''
      else if starts_with mime ''video/'' then ''<media:video>''
      else ''<media:attachment>'')"

definition web_inbound_text_or_placeholder :: "string option \<Rightarrow> web_attachment list \<Rightarrow> string option" where
  "web_inbound_text_or_placeholder message as =
     (case non_blank message of
        Some t \<Rightarrow> Some t
      | None \<Rightarrow>
          (case as of
             [] \<Rightarrow> None
           | [a] \<Rightarrow> Some (media_placeholder (wt_mime_type a))
           | _ \<Rightarrow> Some ''<media:attachments>''))"

definition web_attachment_in :: "(string \<Rightarrow> media_id option) \<Rightarrow> web_attachment \<Rightarrow> inbound_attachment option" where
  "web_attachment_in parse a =
     map_option (\<lambda>i. \<lparr>ia_media_id = Some i, ia_mime_type = wt_mime_type a, ia_filename = wt_filename a,
                      ia_size_bytes = wt_size_bytes a, ia_url = Some (''/api/media/'' @ wt_media_id a)\<rparr>)
       (parse (wt_media_id a))"

text \<open>\<open>None\<close>: the slice of a long identifier panics inside a character.\<close>

definition web_message ::
  "('w, 's) server_env \<Rightarrow> web_inbound \<Rightarrow> datetime \<Rightarrow> inbound_message option" where
  "web_message env b now =
     (case (clamp_id (wi_sender_id b), clamp_id (wi_account_id b)) of
        (Some sender, Some account) \<Rightarrow>
          Some \<lparr>im_channel = ChannelId ''web'', im_account_id = account, im_sender_id = sender,
                im_sender_name = wi_sender_name b, im_thread_id = wi_thread_id b, im_is_group = wi_is_group b,
                im_is_mention = wi_is_mention b,
                im_text = web_inbound_text_or_placeholder (wi_message b) (wi_attachments b),
                im_attachments = List.map_filter (web_attachment_in (vx_parse_uuid env)) (wi_attachments b),
                im_platform_message_id = None, im_timestamp = now\<rparr>
      | _ \<Rightarrow> None)"

definition accepted_json :: "session_key option \<Rightarrow> json" where
  "accepted_json key =
     JObject ((''status'', JString ''accepted'') #
       (case key of Some k \<Rightarrow> [(''session_key'', JString (key_str k))] | None \<Rightarrow> []))"

fun opt_new :: "('a \<Rightarrow> 'b option) \<Rightarrow> 'a option \<Rightarrow> 'b option option" where
  "opt_new f None = Some None"
| "opt_new f (Some x) = map_option Some (f x)"

definition web_inbound_handler ::
  "('w, 's) server_env \<Rightarrow> http_request \<Rightarrow> web_inbound \<Rightarrow> 'w server \<Rightarrow> 'w http_reply" where
  "web_inbound_handler env req b =
     require_http_auth env req (\<lambda>sv.
       case (web_message env b (ge_now (vx_rpc env) (gs_world (vs_gateway sv))),
             opt_new agent_new (wi_agent_id b), opt_new from_raw (wi_session_key b)) of
         (Some m, Some agent, Some key) \<Rightarrow>
           (case process_inbound_message_with_target env m agent key sv of
              None \<Rightarrow> None
            | Some (Inr k, sv1) \<Rightarrow> Some (json_response 202 (accepted_json k), sv1)
            | Some (Inl e, sv1) \<Rightarrow> Some (error_response e, sv1))
       | _ \<Rightarrow> None)"

definition or_default :: "string \<Rightarrow> string option \<Rightarrow> string" where
  "or_default d v = (case v of Some s \<Rightarrow> if trim s = [] then d else s | None \<Rightarrow> d)"

definition web_outbound_handler ::
  "('w, 's) server_env \<Rightarrow> http_request \<Rightarrow> string option \<Rightarrow> string option \<Rightarrow> 'w server \<Rightarrow> 'w http_reply" where
  "web_outbound_handler env req recipient account =
     require_http_auth env req (\<lambda>sv.
       case vx_drain_web env of
         None \<Rightarrow> Some (json_response 404 (error_json ''web channel not configured''), sv)
       | Some drain \<Rightarrow>
           (case drain (or_default ''default'' account) (or_default ''console-browser'' recipient)
                   (gs_world (vs_gateway sv)) of
              (messages, w) \<Rightarrow>
                Some (json_response 200 (JObject [(''messages'', JArray messages)]),
                      sv\<lparr>vs_gateway := vs_gateway sv\<lparr>gs_world := w\<rparr>\<rparr>)))"

section \<open>Media\<close>

definition header_or :: "http_headers \<Rightarrow> string \<Rightarrow> string \<Rightarrow> string" where
  "header_or headers k d = (case non_blank (headers k) of Some v \<Rightarrow> v | None \<Rightarrow> d)"

definition uploaded_json :: "media_upload \<Rightarrow> json" where
  "uploaded_json m =
     JObject [(''media_id'', JString (mu_media_id m)), (''filename'', JString (mu_filename m)),
       (''mime_type'', JString (mu_mime_type m)), (''size_bytes'', JUInt (mu_size_bytes m)),
       (''url'', JString (''/api/media/'' @ mu_media_id m))]"

definition media_upload_handler ::
  "('w, 's) server_env \<Rightarrow> http_request \<Rightarrow> 'w server \<Rightarrow> 'w http_reply" where
  "media_upload_handler env req =
     require_http_auth env req (\<lambda>sv.
       case in_gateway (on_world (vx_media_store env
              (header_or (hq_headers req) ''x-file-name'' ''upload.bin'')
              (header_or (hq_headers req) ''content-type'' ''application/octet-stream'') (hq_body req))) sv of
         (Inr m, sv1) \<Rightarrow> Some (json_response 201 (uploaded_json m), sv1)
       | (Inl e, sv1) \<Rightarrow> Some (error_response e, sv1))"

text \<open>A header value is dropped when it has a character that headers do not allow.\<close>

definition header_value :: "string \<Rightarrow> string \<Rightarrow> (string \<times> string) list" where
  "header_value k v =
     (if list_all (\<lambda>c. (32 \<le> (of_char c :: nat) \<and> (of_char c :: nat) \<noteq> 127) \<or> (of_char c :: nat) = 9) v
      then [(k, v)] else [])"

definition media_response :: "stored_media \<Rightarrow> http_response" where
  "media_response m =
     \<lparr>hr_status = 200,
      hr_headers = header_value ''content-type'' (sm_mime_type m) @
        header_value ''content-disposition'' (''inline; filename='' @ dquoted (sm_filename m)),
      hr_body = Inr (sm_bytes m)\<rparr>"

definition media_download_handler ::
  "('w, 's) server_env \<Rightarrow> http_request \<Rightarrow> string \<Rightarrow> 'w server \<Rightarrow> 'w http_reply" where
  "media_download_handler env req i =
     require_http_auth env req (\<lambda>sv.
       case vx_parse_uuid env i of
         None \<Rightarrow> Some (json_response 400 (error_json ''invalid media_id''), sv)
       | Some m \<Rightarrow>
           (case vx_media_read env m of
              Inr (Some stored) \<Rightarrow> Some (media_response stored, sv)
            | Inr None \<Rightarrow> Some (json_response 404 (error_json ''media not found''), sv)
            | Inl e \<Rightarrow> Some (error_response e, sv)))"

section \<open>Pairing\<close>

definition pairing_pending_handler ::
  "('w, 's) server_env \<Rightarrow> http_request \<Rightarrow> 'w server \<Rightarrow> 'w http_reply" where
  "pairing_pending_handler env req =
     require_http_auth env req (\<lambda>sv.
       Some (json_response 200
         (JObject [(''pending'', JArray (map (vx_pending_json env) (list_pending None (vs_pairing sv))))]), sv))"

definition pairing_approve_handler ::
  "('w, 's) server_env \<Rightarrow> http_request \<Rightarrow> string \<Rightarrow> string \<Rightarrow> string option \<Rightarrow> 'w server \<Rightarrow> 'w http_reply" where
  "pairing_approve_handler env req channel code account =
     require_http_auth env req (\<lambda>sv.
       case approve (vx_save env) (Some channel) account code (vs_pairing sv) of
         (Inr p, pr) \<Rightarrow>
           Some (json_response 200 (JObject [(''approved'', vx_pending_json env p)]), sv\<lparr>vs_pairing := pr\<rparr>)
       | (Inl e, pr) \<Rightarrow> Some (json_response 400 (error_json (error_text e)), sv\<lparr>vs_pairing := pr\<rparr>))"

section \<open>Webhooks\<close>

definition webhook_limit :: "('w, 's) server_env \<Rightarrow> frankclaw_config \<Rightarrow> nat" where
  "webhook_limit env cfg =
     min (case hk_max_body_bytes (fc_hooks cfg) of Some n \<Rightarrow> n | None \<Rightarrow> ge_max_message_bytes (vx_rpc env))
       (ge_max_message_bytes (vx_rpc env))"

definition too_large :: http_response where
  "too_large = json_response 413 (error_json ''webhook body too large'')"

text \<open>The checks before the body is read: the first that fails answers.\<close>

definition webhook_checks ::
  "('w, 's) server_env \<Rightarrow> http_request \<Rightarrow> 'w server \<Rightarrow> http_response + unit" where
  "webhook_checks env req sv =
     (let cfg = gs_config (vs_gateway sv)
      in if webhook_limit env cfg < length (hq_body req) then Inl too_large
         else (case verify_timestamp (vx_unix_secs env (gs_world (vs_gateway sv)))
                      (hq_headers req ''x-frankclaw-timestamp'') of
                 Inl e \<Rightarrow> Inl (json_response (status_code e) (error_json ''webhook timestamp expired or invalid''))
               | Inr _ \<Rightarrow>
                   (case verify_signature (vx_hmac env) cfg (hq_body req)
                           (hq_headers req ''x-frankclaw-signature'') of
                      Inl e \<Rightarrow> Inl (error_response e)
                    | Inr _ \<Rightarrow> Inr ())))"

definition webhook_answer :: "chat_response \<Rightarrow> http_response" where
  "webhook_answer r =
     json_response 200
       (JObject [(''session_key'', JString (key_str (cy_session_key r))), (''model_id'', JString (cy_model_id r)),
          (''content'', JString (cy_content r))])"

definition run_webhook ::
  "('w, 's) server_env \<Rightarrow> string \<Rightarrow> json \<Rightarrow> 'w server \<Rightarrow> 'w http_reply" where
  "run_webhook env mapping_id payload sv =
     (case resolve_request (ge_show_json (vx_rpc env)) (ge_mapping_of (vx_rpc env))
             (gs_config (vs_gateway sv)) mapping_id payload of
        None \<Rightarrow> None
      | Some (Inl e) \<Rightarrow> Some (error_response e, sv)
      | Some (Inr resolved) \<Rightarrow>
          (case execute_webhook (vx_rpc env) resolved (vs_gateway sv) of
             None \<Rightarrow> None
           | Some (Inr r, gs) \<Rightarrow> Some (webhook_answer r, sv\<lparr>vs_gateway := gs\<rparr>)
           | Some (Inl e, gs) \<Rightarrow> Some (error_response e, sv\<lparr>vs_gateway := gs\<rparr>)))"

definition webhook_handler ::
  "('w, 's) server_env \<Rightarrow> http_request \<Rightarrow> string \<Rightarrow> 'w server \<Rightarrow> 'w http_reply" where
  "webhook_handler env req mapping_id sv =
     (case webhook_checks env req sv of
        Inl r \<Rightarrow> Some (r, sv)
      | Inr _ \<Rightarrow>
          (case vx_parse_json env (hq_body req) of
             Inl e \<Rightarrow> Some (json_response 400 (error_json (''invalid webhook JSON: '' @ e)), sv)
           | Inr payload \<Rightarrow> run_webhook env mapping_id payload sv))"

definition whatsapp_webhook_verify_handler ::
  "('w, 's) server_env \<Rightarrow> string option \<Rightarrow> string option \<Rightarrow> string option \<Rightarrow> u16 \<times> string" where
  "whatsapp_webhook_verify_handler env hub_mode challenge token =
     (case vx_whatsapp env of
        None \<Rightarrow> (404, [])
      | Some wa \<Rightarrow>
          if hub_mode \<noteq> Some ''subscribe'' then (400, [])
          else (case token of
                  None \<Rightarrow> (401, [])
                | Some t \<Rightarrow>
                    if \<not> wa_verify_token wa t then (401, [])
                    else (200, case challenge of Some c \<Rightarrow> c | None \<Rightarrow> [])))"

fun process_all ::
  "('w, 's) server_env \<Rightarrow> inbound_message list \<Rightarrow> 'w server \<Rightarrow> ((frank_error + unit) \<times> 'w server) option" where
  "process_all env [] sv = Some (Inr (), sv)"
| "process_all env (m # ms) sv =
     (case process_inbound_message env m sv of
        None \<Rightarrow> None
      | Some (Inl e, sv1) \<Rightarrow> Some (Inl e, sv1)
      | Some (Inr _, sv1) \<Rightarrow> process_all env ms sv1)"

definition whatsapp_webhook_inbound_handler ::
  "('w, 's) server_env \<Rightarrow> http_request \<Rightarrow> 'w server \<Rightarrow> 'w http_reply" where
  "whatsapp_webhook_inbound_handler env req sv =
     (case vx_whatsapp env of
        None \<Rightarrow> Some (json_response 404 (error_json ''whatsapp channel not configured''), sv)
      | Some wa \<Rightarrow>
          if ge_max_message_bytes (vx_rpc env) < length (hq_body req) then Some (too_large, sv)
          else (case wa_verify_signature wa (hq_body req) (hq_headers req ''x-hub-signature-256'') of
                  Inl e \<Rightarrow> Some (error_response e, sv)
                | Inr _ \<Rightarrow>
                    (case vx_parse_json env (hq_body req) of
                       Inl e \<Rightarrow>
                         Some (json_response 400 (error_json (''invalid whatsapp webhook JSON: '' @ e)), sv)
                     | Inr payload \<Rightarrow>
                         (let ms = wa_parse_payload wa payload
                          in if ms = []
                             then Some (json_response 202 (JObject [(''status'', JString ''ignored'')]), sv)
                             else (case process_all env ms sv of
                                     None \<Rightarrow> None
                                   | Some (Inl e, sv1) \<Rightarrow> Some (error_response e, sv1)
                                   | Some (Inr _, sv1) \<Rightarrow>
                                       Some (json_response 202 (JObject [(''status'', JString ''accepted'')]), sv1))))))"

section \<open>The start and the reload of the configuration\<close>

definition resolve_bind_addr :: "bind_mode \<Rightarrow> u16 \<Rightarrow> string" where
  "resolve_bind_addr mode port =
     (case mode of Loopback \<Rightarrow> ''127.0.0.1'' | Lan \<Rightarrow> ''0.0.0.0'' | Address a \<Rightarrow> a) @ [colon] @ show_word port"

text \<open>The server that starts; the listener keeps its address and the limiter its limits.\<close>

definition server_run :: "frankclaw_config \<Rightarrow> cron_service \<Rightarrow> pairing_state \<Rightarrow> 'w \<Rightarrow> frank_error + 'w server" where
  "server_run cfg cron pr w =
     (case validate_bind_auth (gw_bind (fc_gateway cfg)) (gw_auth (fc_gateway cfg)) of
        Inl e \<Rightarrow> Inl e
      | Inr _ \<Rightarrow>
          Inr \<lparr>vs_gateway = gateway_new cfg (Some cron) w, vs_pairing = pr, vs_limiter = Map.empty,
               vs_rate_config = gw_rate_limit (fc_gateway cfg), vs_bind = gw_bind (fc_gateway cfg),
               vs_stopped = False\<rparr>)"

text \<open>The parts of the configuration that are modelled and that need a restart.\<close>

definition config_restart_fingerprint ::
  "frankclaw_config \<Rightarrow> agents_config \<times> (channel_id \<times> channel_config) list \<times> provider_config list \<times> string option" where
  "config_restart_fingerprint cfg = (fc_agents cfg, fc_channels cfg, fc_providers cfg, fc_default_model cfg)"

definition restart_sensitive_config_changed :: "frankclaw_config \<Rightarrow> frankclaw_config \<Rightarrow> bool" where
  "restart_sensitive_config_changed current next \<longleftrightarrow>
     config_restart_fingerprint current \<noteq> config_restart_fingerprint next"

definition merge_channel :: "frankclaw_config \<Rightarrow> channel_id \<times> channel_config \<Rightarrow> channel_id \<times> channel_config" where
  "merge_channel next = (\<lambda>(i, c).
     (i, case map_of (fc_channels next) i of Some n \<Rightarrow> c\<lparr>cc_extra := cc_extra n\<rparr> | None \<Rightarrow> c))"

definition merge_reloadable_config :: "frankclaw_config \<Rightarrow> frankclaw_config \<Rightarrow> frankclaw_config" where
  "merge_reloadable_config current next =
     current\<lparr>fc_gateway := fc_gateway next, fc_hooks := fc_hooks next,
             fc_channels := map (merge_channel next) (fc_channels current)\<rparr>"

text \<open>A change of the file that has been read: \<open>valid\<close> is the result of its validation.\<close>

definition config_changed ::
  "(frankclaw_config \<Rightarrow> frank_error + unit) \<Rightarrow> string \<Rightarrow> frank_error + frankclaw_config \<Rightarrow> 'w server \<Rightarrow> 'w server" where
  "config_changed valid path loaded sv =
     (case loaded of
        Inl e \<Rightarrow> sv
      | Inr next \<Rightarrow>
          (case valid next of
             Inl e \<Rightarrow> sv
           | Inr _ \<Rightarrow>
               (let gs = vs_gateway sv; current = gs_config gs
                in sv\<lparr>vs_gateway :=
                     broadcast EvConfigChanged
                       (JObject [(''path'', JString path),
                          (''restart_required'', JBool (restart_sensitive_config_changed current next))])
                       (reload_config (merge_reloadable_config current next) gs)\<rparr>)))"

definition config_tick ::
  "(frankclaw_config \<Rightarrow> frank_error + unit) \<Rightarrow> string \<Rightarrow> 'stamp option \<Rightarrow> 'stamp option \<Rightarrow>
     frank_error + frankclaw_config \<Rightarrow> 'w server \<Rightarrow> 'stamp option \<times> 'w server" where
  "config_tick valid path last_stamp next_stamp loaded sv =
     (if next_stamp = last_stamp then (last_stamp, sv)
      else (next_stamp, config_changed valid path loaded sv))"

definition validate_cron_job :: "cron_job \<Rightarrow> (frank_error + unit) option" where
  "validate_cron_job j =
     (if trim (cj_id j) = [] then Some (Inl (ConfigValidation ''cron job id cannot be empty''))
      else if trim (cj_prompt j) = []
      then Some (Inl (ConfigValidation (''cron job '' @ squoted (cj_id j) @ '' prompt cannot be empty'')))
      else (case session_key_parse (cj_session_key j) of
              None \<Rightarrow> None
            | Some None \<Rightarrow>
                Some (Inl (ConfigValidation (''cron job '' @ squoted (cj_id j) @ '' has an invalid session key'')))
            | Some (Some (a, _, _)) \<Rightarrow>
                Some (check (a = cj_agent_id j)
                  (ConfigValidation (''cron job '' @ squoted (cj_id j) @ '' session key agent '' @
                     squoted (agent_str a) @ '' does not match '' @ squoted (agent_str (cj_agent_id j)))))))"

fun parse_cron_jobs :: "(json \<Rightarrow> string + cron_job) \<Rightarrow> json list \<Rightarrow> (frank_error + cron_job list) option" where
  "parse_cron_jobs from_value [] = Some (Inr [])"
| "parse_cron_jobs from_value (v # vs) =
     (case from_value v of
        Inl e \<Rightarrow> Some (Inl (ConfigValidation (''invalid cron job configuration: '' @ e)))
      | Inr j \<Rightarrow>
          (case validate_cron_job j of
             None \<Rightarrow> None
           | Some (Inl e) \<Rightarrow> Some (Inl e)
           | Some (Inr _) \<Rightarrow> map_option (map_sum id ((#) j)) (parse_cron_jobs from_value vs)))"

text \<open>The runner that the cron service calls for a job.\<close>

definition cron_runner ::
  "('w, 's) gateway_env \<Rightarrow> cron_job \<Rightarrow> 'w gateway \<Rightarrow> ((frank_error + unit) \<times> 'w gateway) option" where
  "cron_runner env j gs =
     (case ge_chat env (job_chat_request j) None gs of
        None \<Rightarrow> None
      | Some (Inl e, gs1) \<Rightarrow> Some (Inl e, gs1)
      | Some (Inr r, gs1) \<Rightarrow>
          Some (Inr (), broadcast EvCronRun
            (JObject [(''job_id'', JString (cj_id j)), (''agent_id'', JString (agent_str (cj_agent_id j))),
               (''session_key'', JString (key_str (cy_session_key r))), (''model_id'', JString (cy_model_id r))]) gs1))"

section \<open>The router\<close>

datatype api_call =
    WebInboundCall web_inbound
  | WebOutboundCall "string option" "string option"
  | MediaUploadCall
  | MediaDownloadCall string
  | PairingPendingCall
  | PairingApproveCall string string "string option"
  | WhatsAppCall
  | HookCall string
  | HealthCall
  | ReadyCall

fun serve_api :: "('w, 's) server_env \<Rightarrow> http_request \<Rightarrow> api_call \<Rightarrow> 'w server \<Rightarrow> 'w http_reply" where
  "serve_api env req (WebInboundCall b) sv = web_inbound_handler env req b sv"
| "serve_api env req (WebOutboundCall r a) sv = web_outbound_handler env req r a sv"
| "serve_api env req MediaUploadCall sv = media_upload_handler env req sv"
| "serve_api env req (MediaDownloadCall i) sv = media_download_handler env req i sv"
| "serve_api env req PairingPendingCall sv = pairing_pending_handler env req sv"
| "serve_api env req (PairingApproveCall ch code a) sv = pairing_approve_handler env req ch code a sv"
| "serve_api env req WhatsAppCall sv = whatsapp_webhook_inbound_handler env req sv"
| "serve_api env req (HookCall i) sv = webhook_handler env req i sv"
| "serve_api env req HealthCall sv = Some (text_response health_handler [], sv)"
| "serve_api env req ReadyCall sv = Some (text_response (readiness_handler sv) [], sv)"

text \<open>The calls that a client must authenticate for.\<close>

fun guarded_call :: "api_call \<Rightarrow> bool" where
  "guarded_call WhatsAppCall = False"
| "guarded_call (HookCall i) = False"
| "guarded_call HealthCall = False"
| "guarded_call ReadyCall = False"
| "guarded_call _ = True"

section \<open>Nobody without a credential\<close>

definition request_credential :: "http_request \<Rightarrow> 'w server \<Rightarrow> auth_credential" where
  "request_credential req sv =
     extract_credential (hq_headers req) (hq_query req) (gw_auth (fc_gateway (gs_config (vs_gateway sv))))"

lemma auth_decision_errors:
  "auth_decision pw mode cred = Inl e \<Longrightarrow> e \<in> {AuthFailed, AuthRequired, InternalError ''auth misconfigured''}"
  by (auto simp: auth_decision_def split: auth_mode.splits auth_credential.splits option.splits bool.splits if_splits)

definition same_but_limiter :: "'w server \<Rightarrow> 'w server \<Rightarrow> bool" where
  "same_but_limiter sv sv1 \<longleftrightarrow> sv1\<lparr>vs_limiter := vs_limiter sv\<rparr> = sv"

definition refusal_codes :: "u16 set" where
  "refusal_codes = {401, 429, 500}"

lemma auth_decision_refusal:
  assumes "\<And>role. \<not> accepts pw mode cred role"
  obtains e where "auth_decision pw mode cred = Inl e" and "status_code e \<in> refusal_codes"
proof (cases "auth_decision pw mode cred")
  case (Inl e)
  then show ?thesis
    using that auth_decision_errors [OF Inl] by (auto simp: status_code_def refusal_codes_def)
next
  case (Inr role)
  then show ?thesis using assms auth_decision_ok by metis
qed

lemma authenticate_refuses:
  assumes "\<And>role. \<not> accepts (vx_password env) (gw_auth (fc_gateway (gs_config (vs_gateway sv))))
     (request_credential req sv) role"
  obtains e sv1 where "authenticate_request env req sv = (Inl e, sv1)" and "same_but_limiter sv sv1"
    and "status_code e \<in> refusal_codes"
proof -
  obtain e where d: "auth_decision (vx_password env) (gw_auth (fc_gateway (gs_config (vs_gateway sv))))
        (request_credential req sv) = Inl e" "status_code e \<in> refusal_codes"
    using auth_decision_refusal [OF assms] by blast
  obtain r sv1 where a: "authenticate_request env req sv = (r, sv1)"
    by (cases "authenticate_request env req sv")
  have same: "same_but_limiter sv sv1"
    using a by (auto simp: authenticate_request_def same_but_limiter_def Let_def split: prod.splits)
  have "r = Inl e \<or> (\<exists>n. r = Inl (RateLimited n))"
    using a d(1)
    by (auto simp: authenticate_request_def gateway_authenticate_def authenticate_def request_credential_def
        Let_def split: prod.splits option.splits)
  then show ?thesis
    using that a same d(2) by (auto simp: status_code_def refusal_codes_def)
qed

text \<open>
  C13. A call that needs a credential and has none that the mode accepts is refused with an error of the
  client or of the configuration, whatever it asks for, and changes nothing but the count of failures.
\<close>

theorem guarded_calls_need_credential:
  assumes "guarded_call call"
    and "\<And>role. \<not> accepts (vx_password env) (gw_auth (fc_gateway (gs_config (vs_gateway sv))))
           (request_credential req sv) role"
  shows "\<exists>r sv1. serve_api env req call sv = Some (r, sv1) \<and> same_but_limiter sv sv1 \<and>
     hr_status r \<in> refusal_codes"
proof -
  obtain e sv1 where a: "authenticate_request env req sv = (Inl e, sv1)" "same_but_limiter sv sv1"
      "status_code e \<in> refusal_codes"
    using authenticate_refuses [OF assms(2)] by blast
  then have "require_http_auth env req f sv = Some (text_response (status_code e) (error_text e), sv1)" for f
    by (simp add: require_http_auth_def)
  moreover have "hr_status (text_response (status_code e) (error_text e)) \<in> refusal_codes"
    using a(3) by (simp add: text_response_def)
  ultimately show ?thesis
    using assms(1) a(2)
    by (cases call)
      (simp_all add: web_inbound_handler_def web_outbound_handler_def media_upload_handler_def
        media_download_handler_def pairing_pending_handler_def pairing_approve_handler_def)
qed

text \<open>
  Behind a trusted proxy the identity is taken from the query of the URL before the header of the
  proxy: whoever writes it there is let in.
\<close>

lemma proxy_identity_from_query:
  "aq_identity query = Some i \<Longrightarrow> i \<noteq> [] \<Longrightarrow>
     auth_decision pw (AuthTrustedProxy header) (extract_credential headers query (AuthTrustedProxy header)) = Inr Editor"
  by (simp add: auth_decision_def)

section \<open>Which messages reach the agent\<close>

definition may_talk :: "frankclaw_config \<Rightarrow> nat \<Rightarrow> pairing_state \<Rightarrow> inbound_message \<Rightarrow> string \<Rightarrow> bool" where
  "may_talk cfg max_body pr m msg \<longleftrightarrow>
     map_option trim (im_text m) = Some msg \<and> msg \<noteq> [] \<and>
     (\<exists>p. inbound_policy cfg m = Inr p \<and> length msg \<le> inbound_limit max_body p \<and>
        (if im_is_group m
         then (sp_require_mention_for_groups p \<longrightarrow> im_is_mention m) \<and> group_allowed p m
         else sp_dm_policy p = DmOpen \<or>
              (sp_dm_policy p = DmAllowlist \<or> sp_dm_policy p = DmPairing) \<and> sender_allowed p pr m))"

lemma admit_iff: "admit cfg max_body pr m = Admitted msg \<longleftrightarrow> may_talk cfg max_body pr m msg"
  by (auto simp: admit_def admit_direct_def may_talk_def
      split: sum.splits option.splits if_splits channel_dm_policy.splits)

definition with_chat ::
  "(chat_request \<Rightarrow> nat option \<Rightarrow> 'w gateway \<Rightarrow> ((frank_error + chat_response) \<times> 'w gateway) option) \<Rightarrow>
     ('w, 's) server_env \<Rightarrow> ('w, 's) server_env" where
  "with_chat c env = env\<lparr>vx_rpc := (vx_rpc env)\<lparr>ge_chat := c\<rparr>\<rparr>"

lemma with_chat_fields [simp]:
  "vx_channel (with_chat c env) = vx_channel env" "vx_random (with_chat c env) = vx_random env"
  "vx_save (with_chat c env) = vx_save env" "vx_unix_secs (with_chat c env) = vx_unix_secs env"
  "vx_hmac (with_chat c env) = vx_hmac env"
  "ge_max_message_bytes (vx_rpc (with_chat c env)) = ge_max_message_bytes (vx_rpc env)"
  "ge_now (vx_rpc (with_chat c env)) = ge_now (vx_rpc env)"
  by (simp_all add: with_chat_def)

lemma with_chat_parts [simp]:
  "request_pairing (with_chat c env) m sv = request_pairing env m sv"
  "send_error_reply (with_chat c env) m e sv = send_error_reply env m e sv"
  unfolding request_pairing_def send_error_reply_def with_chat_fields by (rule refl)+

text \<open>What the gateway keeps of the rights of senders.\<close>

definition same_rights :: "'w server \<Rightarrow> 'w server \<Rightarrow> bool" where
  "same_rights sv sv1 \<longleftrightarrow>
     gs_config (vs_gateway sv1) = gs_config (vs_gateway sv) \<and> pr_approved (vs_pairing sv1) = pr_approved (vs_pairing sv)"

lemma try_world_rights:
  "gs_config (vs_gateway (try_world m sv)) = gs_config (vs_gateway sv)" "vs_pairing (try_world m sv) = vs_pairing sv"
  by (simp_all add: try_world_def in_gateway_def on_world_def split: prod.split)

lemma pending_keeps_approved:
  "ensure_pending random now save c a s pr = (r, pr1) \<Longrightarrow> pr_approved pr1 = pr_approved pr"
  by (auto simp: ensure_pending_def Let_def split: option.splits sum.splits)

lemma request_pairing_rights:
  "request_pairing env m sv = (r, sv1) \<Longrightarrow> same_rights sv sv1"
  by (auto simp: request_pairing_def same_rights_def Let_def try_world_rights pending_keeps_approved
      split: prod.splits sum.splits option.splits)

lemma send_error_reply_rights: "same_rights sv (send_error_reply env m e sv)"
  by (simp add: send_error_reply_def same_rights_def try_world_rights split: option.split)

lemma same_rights_trans: "same_rights a b \<Longrightarrow> same_rights b c \<Longrightarrow> same_rights a c"
  by (simp add: same_rights_def)

lemma same_rights_refl [simp]: "same_rights a a"
  by (simp add: same_rights_def)

definition shut_out :: "frankclaw_config \<Rightarrow> nat \<Rightarrow> pairing_state \<Rightarrow> inbound_message \<Rightarrow> bool" where
  "shut_out cfg max_body pr m \<longleftrightarrow> (\<forall>msg. \<not> may_talk cfg max_body pr m msg)"

lemma shut_out_rights:
  "same_rights sv sv1 \<Longrightarrow>
     shut_out (gs_config (vs_gateway sv1)) n (vs_pairing sv1) = shut_out (gs_config (vs_gateway sv)) n (vs_pairing sv)"
  by (simp add: fun_eq_iff shut_out_def may_talk_def sender_allowed_def is_approved_def same_rights_def)

lemma shut_out_message:
  assumes "shut_out (gs_config (vs_gateway sv)) (ge_max_message_bytes (vx_rpc env)) (vs_pairing sv) m"
  obtains r sv1 where "process_inbound_message env m sv = Some (r, sv1)"
    and "process_inbound_message (with_chat c env) m sv = Some (r, sv1)" and "same_rights sv sv1"
proof -
  define a where "a = admit (gs_config (vs_gateway sv)) (ge_max_message_bytes (vx_rpc env)) (vs_pairing sv) m"
  have no: "a \<noteq> Admitted msg" for msg
    using assms by (simp add: a_def shut_out_def admit_iff)
  obtain r sv1 where q: "request_pairing env m sv = (r, sv1)" by (cases "request_pairing env m sv")
  have rights: "same_rights sv sv1" "\<And>e. same_rights sv (send_error_reply env m e sv1)"
      "\<And>e. same_rights sv (send_error_reply env m e sv)"
    using request_pairing_rights [OF q] send_error_reply_rights same_rights_trans by blast+
  show ?thesis
  proof (cases a)
    case (Refused e)
    then have "process_inbound_message env m sv = Some (Inl e, send_error_reply env m e sv)"
        "process_inbound_message (with_chat c env) m sv = Some (Inl e, send_error_reply env m e sv)"
      by (simp_all add: a_def process_inbound_message_def process_inbound_message_with_target_def)
    then show ?thesis using that rights(3) by blast
  next
    case Dropped
    then have "process_inbound_message env m sv = Some (Inr (), sv)"
        "process_inbound_message (with_chat c env) m sv = Some (Inr (), sv)"
      by (simp_all add: a_def process_inbound_message_def process_inbound_message_with_target_def)
    then show ?thesis using that same_rights_refl by blast
  next
    case NeedsPairing
    let ?t = "case r of Inl e \<Rightarrow> (Inl e, send_error_reply env m e sv1) | Inr _ \<Rightarrow> (Inr (), sv1)"
    have "process_inbound_message env m sv = Some ?t" "process_inbound_message (with_chat c env) m sv = Some ?t"
      using NeedsPairing q
      by (simp_all add: a_def process_inbound_message_def process_inbound_message_with_target_def split: sum.split)
    then show ?thesis using that rights by (cases r) simp_all
  next
    case (Admitted msg)
    then show ?thesis using no by simp
  qed
qed


text \<open>
  A channel that can edit its messages gets its answers by an edit of the draft only: when the draft
  could not be sent, the answer is dropped without an error.
\<close>

lemma unsent_draft_loses_answer:
  "cap_edit (ch_capabilities c) \<Longrightarrow> give_answer env m key (Some c) None content sv = (Inr (), sv)"
  by (simp add: give_answer_def finish_draft_def)

text \<open>A group message on a channel that is not configured passes, although direct messages do not.\<close>

lemma unconfigured_group_admitted:
  assumes "map_of (fc_channels cfg) (im_channel m) = None" and "im_is_group m" and "im_is_mention m"
    and "map_option trim (im_text m) = Some msg" and "msg \<noteq> []" and "length msg \<le> max_body"
  shows "admit cfg max_body pr m = Admitted msg"
  using assms
  by (simp add: admit_iff may_talk_def inbound_policy_def inbound_limit_def default_security_policy_def
      group_allowed_def)

section \<open>Webhooks run only when signed\<close>

definition signed_hook :: "('w, 's) server_env \<Rightarrow> http_request \<Rightarrow> frankclaw_config \<Rightarrow> bool" where
  "signed_hook env req cfg \<longleftrightarrow>
     hk_enabled (fc_hooks cfg) \<and> length (hq_body req) \<le> webhook_limit env cfg \<and>
     (\<exists>secret header. hooks_secret (fc_hooks cfg) = Some secret \<and>
        hq_headers req ''x-frankclaw-signature'' = Some header \<and>
        decode_hex (case strip_prefix ''sha256='' header of Some r \<Rightarrow> r | None \<Rightarrow> header) =
          Some (vx_hmac env secret (hq_body req)))"

lemma webhook_checks_signed:
  "webhook_checks env req sv = Inr u \<Longrightarrow> signed_hook env req (gs_config (vs_gateway sv))"
  by (auto simp: webhook_checks_def signed_hook_def verify_signature_def Let_def
      split: if_splits sum.splits option.splits)

lemma with_chat_checks [simp]: "webhook_checks (with_chat c env) req sv = webhook_checks env req sv"
  unfolding webhook_checks_def webhook_limit_def with_chat_fields by (rule refl)


section \<open>The reload\<close>

text \<open>
  A reload replaces the part of the gateway, the webhooks and the policies of the channels that the
  server started with; agents, providers, the set of the channels and their accounts stay.
\<close>

lemma merge_keeps_restart_parts:
  "fc_agents (merge_reloadable_config cur new) = fc_agents cur"
  "fc_providers (merge_reloadable_config cur new) = fc_providers cur"
  "map fst (fc_channels (merge_reloadable_config cur new)) = map fst (fc_channels cur)"
  "map (cc_accounts \<circ> snd) (fc_channels (merge_reloadable_config cur new)) =
     map (cc_accounts \<circ> snd) (fc_channels cur)"
  "fc_gateway (merge_reloadable_config cur new) = fc_gateway new"
  "fc_hooks (merge_reloadable_config cur new) = fc_hooks new"
  by (auto simp: merge_reloadable_config_def merge_channel_def split: option.split)

text \<open>
  The listener keeps the address of the start. A server that listens on the whole network can be
  reloaded with a configuration for the loopback without authentication, and then lets everybody in.
\<close>

definition lan_server :: "string \<Rightarrow> 'w \<Rightarrow> frank_error + 'w server" where
  "lan_server token w =
     server_run (default_config\<lparr>fc_gateway := default_gateway\<lparr>gw_bind := Lan, gw_auth := AuthToken (Some token)\<rparr>\<rparr>)
       cron_new empty_pairing w"

lemma reload_opens_listener:
  assumes "lan_server token w = Inr sv" and "valid default_config = Inr ()"
    and "is_locked t1 t2 (hq_remote req) Map.empty = None" and "vx_instants env w = (t1, t2, t3)"
  shows "vs_bind (config_changed valid path (Inr default_config) sv) = Lan \<and>
     fst (authenticate_request env req (config_changed valid path (Inr default_config) sv)) = Inr Admin"
  using assms
  by (auto simp: lan_server_def server_run_def config_changed_def reload_config_def broadcast_def
      merge_reloadable_config_def default_config_def default_gateway_def authenticate_request_def
      gateway_authenticate_def authenticate_def auth_decision_def gateway_new_def Let_def split: prod.split)

text \<open>A change of the port or of the address is not reported as needing a restart.\<close>

lemma address_change_unreported:
  "\<not> restart_sensitive_config_changed cfg (cfg\<lparr>fc_gateway := g\<rparr>)"
  by (simp add: restart_sensitive_config_changed_def config_restart_fingerprint_def)

section \<open>Examples\<close>

definition idle_server_env :: "(unit, unit) server_env" where
  "idle_server_env =
     \<lparr>vx_rpc = idle_env,
      vx_runtime = \<lparr>rt_config = default_config, rt_scoping = default_scoping, rt_model_defs = []\<rparr>,
      vx_channel = (\<lambda>_. None), vx_random = (\<lambda>_. [1, 2, 3]), vx_save = (\<lambda>_. Inr ()),
      vx_password = (\<lambda>_ _. Some False), vx_instants = (\<lambda>_. (0, 0, 0)), vx_unix_secs = (\<lambda>_. 0),
      vx_sleep = (\<lambda>_ w. w), vx_sleep_ms = (\<lambda>_ w. w), vx_media_read = (\<lambda>_. Inr None),
      vx_media_store = (\<lambda>_ _ _. fail AuthFailed), vx_parse_uuid = (\<lambda>_. None),
      vx_parse_json = (\<lambda>_. Inr JNull), vx_hmac = (\<lambda>_ b. b), vx_reply_json = (\<lambda>_. None),
      vx_pending_json = (\<lambda>_. JNull), vx_drain_web = None, vx_whatsapp = None\<rparr>"

definition idle_server :: "auth_mode \<Rightarrow> unit server" where
  "idle_server mode =
     \<lparr>vs_gateway = gateway_new (default_config\<lparr>fc_gateway := default_gateway\<lparr>gw_auth := mode\<rparr>\<rparr>) None (),
      vs_pairing = empty_pairing, vs_limiter = Map.empty, vs_rate_config = default_rate_limit_config,
      vs_bind = Loopback, vs_stopped = False\<rparr>"

definition bare_request :: http_request where
  "bare_request =
     \<lparr>hq_query = \<lparr>aq_token = None, aq_password = None, aq_identity = None\<rparr>, hq_headers = (\<lambda>_. None),
      hq_remote = V4 10 0 0 1, hq_body = [1]\<rparr>"

theorem guarded_calls_need_credential_witness:
  "\<exists>r sv1. serve_api idle_server_env bare_request PairingPendingCall (idle_server (AuthToken (Some ''s''))) =
     Some (r, sv1) \<and> hr_status r \<in> refusal_codes"
proof -
  let ?sv = "idle_server (AuthToken (Some ''s''))"
  have "\<not> accepts (vx_password idle_server_env) (gw_auth (fc_gateway (gs_config (vs_gateway ?sv))))
      (request_credential bare_request ?sv) role" for role
    by (simp add: accepts_def request_credential_def idle_server_def bare_request_def gateway_new_def
        auth_scheme_def)
  from guarded_calls_need_credential [OF _ this, of PairingPendingCall] show ?thesis by auto
qed

definition knock :: inbound_message where
  "knock =
     \<lparr>im_channel = ChannelId ''telegram'', im_account_id = ''a'', im_sender_id = ''u'', im_sender_name = None,
      im_thread_id = None, im_is_group = False, im_is_mention = False, im_text = Some ''hi'',
      im_attachments = [], im_platform_message_id = None, im_timestamp = 0\<rparr>"

definition telegram_server :: "unit server" where
  "telegram_server =
     idle_server AuthNone\<lparr>vs_gateway :=
       gateway_new (default_config\<lparr>fc_channels :=
         [(ChannelId ''telegram'', \<lparr>cc_enabled = True, cc_accounts = [], cc_extra = JNull\<rparr>)]\<rparr>) None ()\<rparr>"



end
