(* ===== verification/Session_Store.thy ===== *)
theory Session_Store
  imports Session_Types Auth
begin

text \<open>
  The SQLite store of sessions (\<open>frankclaw-sessions/src/store.rs\<close>, \<open>migrations.rs\<close>) and the encryption
  of its transcripts (\<open>frankclaw-crypto/src/keys.rs\<close>, \<open>encryption.rs\<close>). A database is the list of the
  rows of its two tables; a statement is the function on them that its SQL describes, with the
  constraints of the schema. The JSON and time columns hold their values, the clock and the nonces
  are part of the database's world, and the primitives of the cryptographic library are parameters.
\<close>

section \<open>Cryptography\<close>

record encrypted_blob =
  bl_nonce :: "u8 list"
  bl_ciphertext :: "u8 list"

datatype crypto_error =
    EncryptionFailed | DecryptionFailed | KeyDerivationFailed | HashingFailed | VerificationFailed
  | InvalidKeyLength

fun crypto_text :: "crypto_error \<Rightarrow> string" where
  "crypto_text EncryptionFailed = ''encryption failed''"
| "crypto_text DecryptionFailed = ''decryption failed (wrong key or corrupted data)''"
| "crypto_text KeyDerivationFailed = ''key derivation failed''"
| "crypto_text HashingFailed = ''password hashing failed''"
| "crypto_text VerificationFailed = ''password verification failed''"
| "crypto_text InvalidKeyLength = ''invalid key length''"

text \<open>
  The library: the cipher by key and nonce, the keyed hash, the password hash with its parameters, the
  JSON of a blob and the check of UTF-8.
\<close>

record crypto =
  cx_seal :: "u8 list \<Rightarrow> u8 list \<Rightarrow> u8 list \<Rightarrow> u8 list option"
  cx_open :: "u8 list \<Rightarrow> u8 list \<Rightarrow> u8 list \<Rightarrow> u8 list option"
  cx_hmac :: "u8 list \<Rightarrow> u8 list \<Rightarrow> u8 list"
  cx_argon2 :: "nat \<Rightarrow> nat \<Rightarrow> nat \<Rightarrow> string \<Rightarrow> u8 list \<Rightarrow> u8 list option"
  cx_blob_json :: "encrypted_blob \<Rightarrow> u8 list"
  cx_json_blob :: "u8 list \<Rightarrow> string + encrypted_blob"
  cx_utf8 :: "u8 list \<Rightarrow> string + string"

definition encrypt :: "crypto \<Rightarrow> u8 list \<Rightarrow> u8 list \<Rightarrow> u8 list \<Rightarrow> crypto_error + encrypted_blob" where
  "encrypt cx key nonce plain =
     (if length key \<noteq> 32 then Inl InvalidKeyLength
      else (case cx_seal cx key nonce plain of
              None \<Rightarrow> Inl EncryptionFailed
            | Some c \<Rightarrow> Inr \<lparr>bl_nonce = nonce, bl_ciphertext = c\<rparr>))"

definition decrypt :: "crypto \<Rightarrow> u8 list \<Rightarrow> encrypted_blob \<Rightarrow> crypto_error + u8 list" where
  "decrypt cx key blob =
     (if length key \<noteq> 32 then Inl InvalidKeyLength
      else (case cx_open cx key (bl_nonce blob) (bl_ciphertext blob) of
              None \<Rightarrow> Inl DecryptionFailed
            | Some p \<Rightarrow> Inr p))"

text \<open>Argon2id with 64 MB, three passes and four lanes.\<close>

definition master_from_passphrase :: "crypto \<Rightarrow> string \<Rightarrow> u8 list \<Rightarrow> crypto_error + u8 list" where
  "master_from_passphrase cx passphrase salt =
     (case cx_argon2 cx (64 * 1024) 3 4 passphrase salt of
        None \<Rightarrow> Inl KeyDerivationFailed
      | Some k \<Rightarrow> Inr k)"

definition derive_subkey :: "crypto \<Rightarrow> u8 list \<Rightarrow> string \<Rightarrow> u8 list" where
  "derive_subkey cx master context_name =
     (let prk = cx_hmac cx master (bytes ''frankclaw-kdf'')
      in cx_hmac cx prk (bytes context_name @ [1]))"

section \<open>The database\<close>

definition max_transcript_entry_bytes :: nat where
  "max_transcript_entry_bytes = 1024 * 1024"

record transcript_row =
  tr_session_key :: string
  tr_seq :: int
  tr_role :: role
  tr_content :: "u8 list"
  tr_metadata :: "json option"
  tr_timestamp :: datetime

text \<open>The key of a session is the text of its \<open>session_key\<close>; \<open>db_nonces\<close> are the nonces still to come.\<close>

record database =
  db_sessions :: "session_entry list"
  db_transcript :: "transcript_row list"
  db_now :: datetime
  db_nonces :: "nat \<Rightarrow> u8 list"
  db_drawn :: nat

definition empty_database :: "datetime \<Rightarrow> (nat \<Rightarrow> u8 list) \<Rightarrow> database" where
  "empty_database now nonces =
     \<lparr>db_sessions = [], db_transcript = [], db_now = now, db_nonces = nonces, db_drawn = 0\<rparr>"

text \<open>\<open>u64 as i64\<close>.\<close>

definition as_i64 :: "u64 \<Rightarrow> int" where
  "as_i64 n = sint n"

text \<open>\<open>LIMIT\<close> and \<open>OFFSET\<close>: a negative limit is none, a negative offset is zero.\<close>

definition sql_limit :: "int \<Rightarrow> 'a list \<Rightarrow> 'a list" where
  "sql_limit n xs = (if n < 0 then xs else take (nat n) xs)"

definition sql_offset :: "int \<Rightarrow> 'a list \<Rightarrow> 'a list" where
  "sql_offset n xs = drop (nat n) xs"

definition nat_i64 :: "nat \<Rightarrow> int" where
  "nat_i64 n = as_i64 (of_nat n)"

record sqlite_store =
  ss_crypto :: crypto
  ss_key :: "u8 list option"

definition open_store :: "crypto \<Rightarrow> u8 list option \<Rightarrow> sqlite_store" where
  "open_store cx master =
     \<lparr>ss_crypto = cx, ss_key = map_option (\<lambda>mk. derive_subkey cx mk ''session'') master\<rparr>"

text \<open>The content of a row; a nonce is drawn when it is encrypted.\<close>

definition encrypt_content ::
  "sqlite_store \<Rightarrow> string \<Rightarrow> (database, u8 list) action" where
  "encrypt_content ss content db =
     (case ss_key ss of
        None \<Rightarrow> (Inr (bytes content), db)
      | Some key \<Rightarrow>
          (let db1 = db\<lparr>db_drawn := Suc (db_drawn db)\<rparr>
           in case encrypt (ss_crypto ss) key (db_nonces db (db_drawn db)) (bytes content) of
                Inl e \<Rightarrow> (Inl (Crypto (crypto_text e)), db1)
              | Inr blob \<Rightarrow> (Inr (cx_blob_json (ss_crypto ss) blob), db1)))"

definition utf8_content :: "sqlite_store \<Rightarrow> u8 list \<Rightarrow> frank_error + string" where
  "utf8_content ss data =
     (case cx_utf8 (ss_crypto ss) data of
        Inl e \<Rightarrow> Inl (SessionStorage (''invalid UTF-8 in transcript: '' @ e))
      | Inr s \<Rightarrow> Inr s)"

definition decrypt_content :: "sqlite_store \<Rightarrow> u8 list \<Rightarrow> frank_error + string" where
  "decrypt_content ss data =
     (case ss_key ss of
        None \<Rightarrow> utf8_content ss data
      | Some key \<Rightarrow>
          (case cx_json_blob (ss_crypto ss) data of
             Inl e \<Rightarrow>
               Inl (SessionStorage
                 (''transcript data is not valid encrypted blob (was it written without encryption?): '' @ e))
           | Inr blob \<Rightarrow>
               (case decrypt (ss_crypto ss) key blob of
                  Inl e \<Rightarrow>
                    Inl (SessionStorage (''transcript decryption failed (possible key rotation): '' @ crypto_text e))
                | Inr p \<Rightarrow> utf8_content ss p)))"

section \<open>Statements\<close>

text \<open>
  The row of a session as the entry it is read into: the identifiers are cut to their length, and the
  panic of a cut inside a character is the error of the task.
\<close>

definition read_row :: "session_entry \<Rightarrow> frank_error + session_entry" where
  "read_row s =
     (case (from_raw (key_str (se_key s)), agent_new (agent_str (se_agent_id s)),
            channel_new (channel_str (se_channel s))) of
        (Some k, Some a, Some c) \<Rightarrow> Inr (s\<lparr>se_key := k, se_agent_id := a, se_channel := c\<rparr>)
      | _ \<Rightarrow> Inl (SessionStorage ''task join error: task panicked''))"

definition row_of :: "session_key \<Rightarrow> database \<Rightarrow> session_entry option" where
  "row_of key db = find (\<lambda>s. se_key s = key) (db_sessions db)"

definition sql_get :: "session_key \<Rightarrow> (database, session_entry option) action" where
  "sql_get key db =
     (case row_of key db of
        None \<Rightarrow> (Inr None, db)
      | Some s \<Rightarrow> (map_sum id Some (read_row s), db))"

definition merge_row :: "session_entry \<Rightarrow> session_entry \<Rightarrow> session_entry" where
  "merge_row new old =
     old\<lparr>se_last_message_at := se_last_message_at new, se_metadata := se_metadata new,
         se_thread_id := se_thread_id new\<rparr>"

definition sql_upsert :: "session_entry \<Rightarrow> (database, unit) action" where
  "sql_upsert s db =
     (if key_str (se_key s) = [] then (Inl (SessionStorage ''CHECK constraint failed: length(key) > 0''), db)
      else (Inr (),
            db\<lparr>db_sessions :=
              (if row_of (se_key s) db = None then db_sessions db @ [s]
               else map (\<lambda>r. if se_key r = se_key s then merge_row s r else r) (db_sessions db))\<rparr>))"

definition rows_of :: "session_key \<Rightarrow> database \<Rightarrow> transcript_row list" where
  "rows_of key db = filter (\<lambda>r. tr_session_key r = key_str key) (db_transcript db)"

text \<open>Rows of the sessions that do not satisfy a condition go, and the transcripts of the others with them.\<close>

definition keep_sessions :: "(session_entry \<Rightarrow> bool) \<Rightarrow> database \<Rightarrow> database" where
  "keep_sessions p db =
     (let kept = filter p (db_sessions db)
      in db\<lparr>db_sessions := kept,
            db_transcript := filter (\<lambda>r. tr_session_key r \<in> (\<lambda>s. key_str (se_key s)) ` set kept) (db_transcript db)\<rparr>)"

definition sql_delete :: "session_key \<Rightarrow> (database, unit) action" where
  "sql_delete key db = (Inr (), keep_sessions (\<lambda>s. se_key s \<noteq> key) db)"

text \<open>The order of the list: the latest message first, those without a message last.\<close>

definition latest_first :: "session_entry list \<Rightarrow> session_entry list" where
  "latest_first ss =
     rev (sort_key (\<lambda>s. the (se_last_message_at s)) (rev (filter (\<lambda>s. se_last_message_at s \<noteq> None) ss))) @
     filter (\<lambda>s. se_last_message_at s = None) ss"

definition sql_list :: "agent_id \<Rightarrow> nat \<Rightarrow> nat \<Rightarrow> (database, session_entry list) action" where
  "sql_list agent limit offset db =
     (collect_results
        (map read_row (sql_limit (nat_i64 limit) (sql_offset (nat_i64 offset)
           (latest_first (filter (\<lambda>s. se_agent_id s = agent) (db_sessions db)))))), db)"

definition insert_row :: "transcript_row \<Rightarrow> (database, unit) action" where
  "insert_row r db =
     (if \<not> list_ex (\<lambda>s. key_str (se_key s) = tr_session_key r) (db_sessions db)
      then (Inl (SessionStorage ''FOREIGN KEY constraint failed''), db)
      else if list_ex (\<lambda>x. tr_session_key x = tr_session_key r \<and> tr_seq x = tr_seq r) (db_transcript db)
      then (Inl (SessionStorage ''UNIQUE constraint failed: transcript.session_key, transcript.seq''), db)
      else (Inr (), db\<lparr>db_transcript := db_transcript db @ [r]\<rparr>))"

definition touch_session :: "session_key \<Rightarrow> datetime \<Rightarrow> database \<Rightarrow> database" where
  "touch_session key t db =
     db\<lparr>db_sessions :=
       map (\<lambda>s. if se_key s = key then s\<lparr>se_last_message_at := Some t\<rparr> else s) (db_sessions db)\<rparr>"

definition sql_append ::
  "sqlite_store \<Rightarrow> session_key \<Rightarrow> transcript_entry \<Rightarrow> (database, unit) action" where
  "sql_append ss key e =
     (if max_transcript_entry_bytes < length (tn_content e)
      then fail (InvalidRequest (''transcript entry exceeds maximum size ('' @ show_nat (length (tn_content e)) @
             '' bytes > '' @ show_nat max_transcript_entry_bytes @ '' limit)''))
      else andthen (encrypt_content ss (tn_content e)) (\<lambda>content.
           andthen (insert_row \<lparr>tr_session_key = key_str key, tr_seq = as_i64 (tn_seq e), tr_role = tn_role e,
                     tr_content = content, tr_metadata = tn_metadata e, tr_timestamp = tn_timestamp e\<rparr>) (\<lambda>_.
           always (\<lambda>db. ((), touch_session key (tn_timestamp e) db)))))"

definition entry_of_row :: "sqlite_store \<Rightarrow> transcript_row \<Rightarrow> frank_error + transcript_entry" where
  "entry_of_row ss r =
     (case decrypt_content ss (tr_content r) of
        Inl e \<Rightarrow> Inl e
      | Inr content \<Rightarrow>
          Inr \<lparr>tn_seq = of_int (tr_seq r), tn_role = tr_role r, tn_content = content,
               tn_timestamp = tr_timestamp r, tn_metadata = tr_metadata r\<rparr>)"

definition select_rows :: "session_key \<Rightarrow> nat \<Rightarrow> u64 option \<Rightarrow> database \<Rightarrow> transcript_row list" where
  "select_rows key limit before db =
     sql_limit (nat_i64 limit)
       (rev (sort_key tr_seq
          (filter (\<lambda>r. case before of Some b \<Rightarrow> tr_seq r < as_i64 b | None \<Rightarrow> True) (rows_of key db))))"

definition sql_transcript ::
  "sqlite_store \<Rightarrow> session_key \<Rightarrow> nat \<Rightarrow> u64 option \<Rightarrow> (database, transcript_entry list) action" where
  "sql_transcript ss key limit before db =
     (map_sum id rev (collect_results (map (entry_of_row ss) (select_rows key limit before db))), db)"

definition sql_clear :: "session_key \<Rightarrow> (database, unit) action" where
  "sql_clear key db =
     (Inr (), db\<lparr>db_transcript := filter (\<lambda>r. tr_session_key r \<noteq> key_str key) (db_transcript db)\<rparr>)"

definition last_activity :: "session_entry \<Rightarrow> datetime" where
  "last_activity s = (case se_last_message_at s of Some t \<Rightarrow> t | None \<Rightarrow> se_created_at s)"

definition cutoff :: "pruning_config \<Rightarrow> database \<Rightarrow> datetime" where
  "cutoff cfg db = db_now db - int (unat (pn_max_age_days cfg)) * 86400 * 1000000000"

text \<open>The first instant of the calendar; the subtraction panics before it.\<close>

definition min_utc :: datetime where
  "min_utc = - 8334601228800 * 1000000000"

text \<open>The number of sessions of the same agent that are at least as recent.\<close>

definition rank_of :: "session_entry list \<Rightarrow> session_entry \<Rightarrow> nat" where
  "rank_of ss s =
     length (filter (\<lambda>s2. se_agent_id s2 = se_agent_id s \<and> last_activity s \<le> last_activity s2) ss)"

definition sql_maintenance :: "pruning_config \<Rightarrow> (database, u64) action" where
  "sql_maintenance cfg db =
     (if cutoff cfg db < min_utc then (Inl (SessionStorage ''task join error: task panicked''), db)
      else
      let db1 = keep_sessions (\<lambda>s. cutoff cfg db \<le> last_activity s) db;
          db2 = keep_sessions (\<lambda>s. int (rank_of (db_sessions db1) s) \<le> nat_i64 (pn_max_sessions_per_agent cfg)) db1
      in (Inr (of_nat (length (db_sessions db) - length (db_sessions db2))), db2))"

definition last_assistant_seq :: "session_key \<Rightarrow> database \<Rightarrow> int option" where
  "last_assistant_seq key db =
     (case filter (\<lambda>r. tr_role r = Assistant) (rows_of key db) of
        [] \<Rightarrow> None
      | rs \<Rightarrow> Some (Max (tr_seq ` set rs)))"

definition rewrite_last_assistant_message ::
  "sqlite_store \<Rightarrow> session_key \<Rightarrow> string \<Rightarrow> (database, bool) action" where
  "rewrite_last_assistant_message ss key content =
     andthen (encrypt_content ss content) (\<lambda>sealed.
     always (\<lambda>db.
       case last_assistant_seq key db of
         None \<Rightarrow> (False, db)
       | Some n \<Rightarrow>
           (True, db\<lparr>db_transcript :=
              map (\<lambda>r. if tr_session_key r = key_str key \<and> tr_seq r = n
                       then r\<lparr>tr_content := sealed, tr_timestamp := db_now db\<rparr> else r) (db_transcript db)\<rparr>)))"

text \<open>The store as the rest of the program sees it.\<close>

definition sqlite_sessions :: "sqlite_store \<Rightarrow> database session_store" where
  "sqlite_sessions ss =
     \<lparr>st_get = sql_get, st_upsert = sql_upsert, st_delete = sql_delete, st_list = sql_list,
      st_append_transcript = sql_append ss, st_get_transcript = sql_transcript ss,
      st_clear_transcript = sql_clear, st_maintenance = sql_maintenance\<rparr>"

section \<open>Integrity of the database\<close>

definition sessions_of :: "database \<Rightarrow> string set" where
  "sessions_of db = (\<lambda>s. key_str (se_key s)) ` set (db_sessions db)"

definition integrity :: "database \<Rightarrow> bool" where
  "integrity db \<longleftrightarrow>
     distinct (map se_key (db_sessions db)) \<and> [] \<notin> sessions_of db \<and>
     distinct (map (\<lambda>r. (tr_session_key r, tr_seq r)) (db_transcript db)) \<and>
     tr_session_key ` set (db_transcript db) \<subseteq> sessions_of db"

lemma key_str_inj [simp]: "key_str a = key_str b \<longleftrightarrow> a = b"
  by (cases a; cases b) simp

lemma row_of_None: "row_of k db = None \<longleftrightarrow> k \<notin> se_key ` set (db_sessions db)"
  by (auto simp: row_of_def find_None_iff)

lemma integrity_keep: "integrity db \<Longrightarrow> integrity (keep_sessions p db)"
  by (auto simp: integrity_def keep_sessions_def sessions_of_def Let_def distinct_map_filter)

lemma integrity_sessions_map:
  assumes "integrity db" and "\<And>s. se_key (f s) = se_key s"
  shows "integrity (db\<lparr>db_sessions := map f (db_sessions db)\<rparr>)"
proof -
  have "se_key \<circ> f = se_key" using assms(2) by (simp add: fun_eq_iff)
  moreover have "(\<lambda>s. key_str (se_key s)) ` f ` A = (\<lambda>s. key_str (se_key s)) ` A" for A
    using assms(2) by (simp add: image_image)
  ultimately show ?thesis
    using assms(1) by (simp add: integrity_def sessions_of_def)
qed

lemma integrity_upsert: "integrity db \<Longrightarrow> integrity (snd (sql_upsert s db))"
proof (cases "row_of (se_key s) db = None")
  case True
  assume "integrity db"
  then show ?thesis
    using True by (auto simp: sql_upsert_def integrity_def sessions_of_def row_of_None)
next
  case False
  assume "integrity db"
  then show ?thesis
    using False by (auto simp: sql_upsert_def merge_row_def intro!: integrity_sessions_map)
qed

lemma integrity_transcript_filter:
  "integrity db \<Longrightarrow> integrity (db\<lparr>db_transcript := filter p (db_transcript db)\<rparr>)"
  by (auto simp: integrity_def sessions_of_def distinct_map_filter)

lemma integrity_transcript_map:
  assumes "integrity db" and "\<And>r. tr_session_key (f r) = tr_session_key r" and "\<And>r. tr_seq (f r) = tr_seq r"
  shows "integrity (db\<lparr>db_transcript := map f (db_transcript db)\<rparr>)"
proof -
  have "(\<lambda>r. (tr_session_key r, tr_seq r)) \<circ> f = (\<lambda>r. (tr_session_key r, tr_seq r))"
    using assms(2,3) by (simp add: fun_eq_iff)
  moreover have "tr_session_key ` f ` A = tr_session_key ` A" for A
    using assms(2) by (simp add: image_image)
  ultimately show ?thesis
    using assms(1) by (simp add: integrity_def sessions_of_def)
qed

lemma integrity_insert: "integrity db \<Longrightarrow> integrity (snd (insert_row r db))"
  by (auto simp: insert_row_def integrity_def sessions_of_def list_ex_iff) (metis image_eqI)

lemma integrity_drawn [simp]: "integrity (db\<lparr>db_drawn := n\<rparr>) = integrity db"
  by (simp add: integrity_def sessions_of_def)

lemma integrity_encrypt: "integrity db \<Longrightarrow> encrypt_content ss c db = (r, db1) \<Longrightarrow> integrity db1"
  by (auto simp: encrypt_content_def Let_def split: option.splits sum.splits)

lemma integrity_touch: "integrity db \<Longrightarrow> integrity (touch_session k t db)"
  by (auto simp: touch_session_def intro!: integrity_sessions_map)

lemma integrity_append: "integrity db \<Longrightarrow> integrity (snd (sql_append ss k e db))"
proof -
  assume i: "integrity db"
  obtain r db1 where c: "encrypt_content ss (tn_content e) db = (r, db1)" by fastforce
  have "integrity db1" by (rule integrity_encrypt [OF i c])
  then have "integrity (snd (insert_row x db1))" for x by (rule integrity_insert)
  then show ?thesis
    using i \<open>integrity db1\<close> c integrity_touch
    by (auto simp: sql_append_def andthen_def always_def split: sum.split prod.split) (metis snd_conv)+
qed

lemma integrity_rewrite: "integrity db \<Longrightarrow> integrity (snd (rewrite_last_assistant_message ss k c db))"
  using integrity_encrypt
  by (auto simp: rewrite_last_assistant_message_def andthen_def always_def intro!: integrity_transcript_map
      split: sum.split prod.split option.split)

text \<open>The statements of a client.\<close>

datatype db_op =
    OpUpsert session_entry
  | OpDelete session_key
  | OpAppend session_key transcript_entry
  | OpClear session_key
  | OpRewrite session_key string
  | OpMaintenance pruning_config datetime
  | OpRead session_key nat "u64 option"

fun run_op :: "sqlite_store \<Rightarrow> db_op \<Rightarrow> database \<Rightarrow> database" where
  "run_op ss (OpUpsert s) db = snd (sql_upsert s db)"
| "run_op ss (OpDelete k) db = snd (sql_delete k db)"
| "run_op ss (OpAppend k e) db = snd (sql_append ss k e db)"
| "run_op ss (OpClear k) db = snd (sql_clear k db)"
| "run_op ss (OpRewrite k c) db = snd (rewrite_last_assistant_message ss k c db)"
| "run_op ss (OpMaintenance cfg now) db = snd (sql_maintenance cfg (db\<lparr>db_now := now\<rparr>))"
| "run_op ss (OpRead k n b) db = snd (sql_transcript ss k n b db)"

lemma integrity_now [simp]: "integrity (db\<lparr>db_now := t\<rparr>) = integrity db"
  by (simp add: integrity_def sessions_of_def)

lemma integrity_op: "integrity db \<Longrightarrow> integrity (run_op ss op db)"
  by (cases op)
    (auto simp: integrity_upsert sql_delete_def integrity_keep integrity_append sql_clear_def
      integrity_transcript_filter integrity_rewrite sql_maintenance_def Let_def sql_transcript_def)

text \<open>
  C16. In every state that statements of the program lead to, the keys of the sessions are distinct and not
  empty, no session has two entries with one number, and every entry belongs to a session.
\<close>

theorem database_integrity:
  "integrity (foldl (\<lambda>db op. run_op ss op db) (empty_database now nonces) ops)"
proof -
  have "integrity db \<Longrightarrow> integrity (foldl (\<lambda>db op. run_op ss op db) db ops)" for db
    by (induction ops arbitrary: db) (simp_all add: integrity_op)
  moreover have "integrity (empty_database now nonces)"
    by (simp add: integrity_def empty_database_def sessions_of_def)
  ultimately show ?thesis by blast
qed

section \<open>Maintenance\<close>

definition sample_database :: database where
  "sample_database =
     (empty_database 0 (\<lambda>_. []))\<lparr>db_sessions :=
       [\<lparr>se_key = SessionKey ''k'', se_agent_id = default_agent, se_channel = ChannelId ''web'',
         se_account_id = ''a'', se_scoping = PerChannelPeer, se_created_at = 0, se_last_message_at = None,
         se_thread_id = None, se_metadata = JNull\<rparr>]\<rparr>"

lemma length_filter_mono: "(\<And>x. x \<in> set xs \<Longrightarrow> p x \<Longrightarrow> q x) \<Longrightarrow> length (filter p xs) \<le> length (filter q xs)"
  by (induction xs) auto

lemma least_of_list: "xs \<noteq> [] \<Longrightarrow> \<exists>x\<in>set xs. \<forall>y\<in>set xs. (f x :: int) \<le> f y"
proof (induction xs)
  case (Cons a xs)
  show ?case
  proof (cases "xs = []")
    case False
    with Cons.IH obtain x where x: "x \<in> set xs" "\<forall>y\<in>set xs. f x \<le> f y" by blast
    show ?thesis
    proof (cases "f a \<le> f x")
      case True
      then have "\<forall>y\<in>set (a # xs). f a \<le> f y" using x(2) by auto
      then show ?thesis by auto
    next
      case False
      then have "\<forall>y\<in>set (a # xs). f x \<le> f y" using x(2) by auto
      then show ?thesis using x(1) by auto
    qed
  qed simp
qed simp

lemma rank_bound:
  "length (filter (\<lambda>s. se_agent_id s = a \<and> int (rank_of ss s) \<le> n) ss) \<le> nat n"
proof (cases "filter (\<lambda>s. se_agent_id s = a \<and> int (rank_of ss s) \<le> n) ss = []")
  case False
  then obtain s where s: "s \<in> set (filter (\<lambda>s. se_agent_id s = a \<and> int (rank_of ss s) \<le> n) ss)"
      "\<forall>y\<in>set (filter (\<lambda>s. se_agent_id s = a \<and> int (rank_of ss s) \<le> n) ss). last_activity s \<le> last_activity y"
    using least_of_list [OF False, of last_activity] by blast
  then have "length (filter (\<lambda>s. se_agent_id s = a \<and> int (rank_of ss s) \<le> n) ss) \<le> rank_of ss s"
    unfolding rank_of_def by (intro length_filter_mono) auto
  then show ?thesis using s(1) by auto
qed simp

lemma rank_antimono:
  "se_agent_id s2 = se_agent_id s \<Longrightarrow> last_activity s \<le> last_activity s2 \<Longrightarrow> rank_of ss s2 \<le> rank_of ss s"
  unfolding rank_of_def by (intro length_filter_mono) auto

lemma maintenance_sessions:
  "\<not> cutoff cfg db < min_utc \<Longrightarrow> db_sessions (snd (sql_maintenance cfg db)) =
     (let fresh = filter (\<lambda>s. cutoff cfg db \<le> last_activity s) (db_sessions db)
      in filter (\<lambda>s. int (rank_of fresh s) \<le> nat_i64 (pn_max_sessions_per_agent cfg)) fresh)"
  by (simp add: sql_maintenance_def keep_sessions_def Let_def)

text \<open>
  C20. After the maintenance no agent has more sessions than the limit and none is older than the age, and
  with a session every session of the same agent stays that is at least as recent.
\<close>

theorem maintenance_keeps_most_recent:
  assumes "sql_maintenance cfg db = (Inr n, db1)"
  shows "length (filter (\<lambda>s. se_agent_id s = a) (db_sessions db1)) \<le> nat (nat_i64 (pn_max_sessions_per_agent cfg)) \<and>
   set (db_sessions db1) \<subseteq> {s \<in> set (db_sessions db). cutoff cfg db \<le> last_activity s} \<and>
   {s2 \<in> set (db_sessions db). \<exists>s. s \<in> set (db_sessions db1) \<and>
      se_agent_id s2 = se_agent_id s \<and> last_activity s \<le> last_activity s2} \<subseteq> set (db_sessions db1)"
proof -
  define fresh where "fresh = filter (\<lambda>s. cutoff cfg db \<le> last_activity s) (db_sessions db)"
  define m where "m = nat_i64 (pn_max_sessions_per_agent cfg)"
  have "\<not> cutoff cfg db < min_utc" and "db1 = snd (sql_maintenance cfg db)"
    using assms by (auto simp: sql_maintenance_def Let_def split: if_splits)
  then have kept: "db_sessions db1 = filter (\<lambda>s. int (rank_of fresh s) \<le> m) fresh"
    using maintenance_sessions by (simp add: fresh_def m_def Let_def)
  have "length (filter (\<lambda>s. se_agent_id s = a) (filter (\<lambda>s. int (rank_of fresh s) \<le> m) fresh)) \<le> nat m"
    using rank_bound [of a fresh m] by (simp add: conj_commute)
  moreover have "s2 \<in> set (filter (\<lambda>s. int (rank_of fresh s) \<le> m) fresh)"
    if "s2 \<in> set (db_sessions db)" "s \<in> set (filter (\<lambda>s. int (rank_of fresh s) \<le> m) fresh)"
      "se_agent_id s2 = se_agent_id s" "last_activity s \<le> last_activity s2" for s s2
  proof -
    have "int (rank_of fresh s2) \<le> m" using rank_antimono [OF that(3,4), of fresh] that(2) by simp
    moreover have "s2 \<in> set fresh" using that(1,2,4) by (auto simp: fresh_def)
    ultimately show ?thesis by simp
  qed
  moreover have "set (filter (\<lambda>s. int (rank_of fresh s) \<le> m) fresh) \<subseteq>
      {s \<in> set (db_sessions db). cutoff cfg db \<le> last_activity s}"
    by (auto simp: fresh_def)
  ultimately show ?thesis
    unfolding kept m_def [symmetric] by blast
qed

theorem maintenance_keeps_most_recent_witness:
  "\<exists>n db1. sql_maintenance default_pruning sample_database = (Inr n, db1) \<and>
     length (filter (\<lambda>s. se_agent_id s = default_agent) (db_sessions db1)) \<le> 500"
proof -
  obtain n db1 where m: "sql_maintenance default_pruning sample_database = (Inr n, db1)"
    by (auto simp: sql_maintenance_def cutoff_def min_utc_def default_pruning_def sample_database_def
        empty_database_def Let_def)
  have "nat (nat_i64 (pn_max_sessions_per_agent default_pruning)) = 500"
    by (simp add: default_pruning_def nat_i64_def as_i64_def)
  then show ?thesis using maintenance_keeps_most_recent [OF m, of default_agent] m by auto
qed

text \<open>Sessions with the same time all count against each other: with a limit of one, two go together.\<close>

lemma tied_sessions_all_deleted:
  assumes "db_sessions db = [s, t]" and "se_agent_id s = se_agent_id t" and "last_activity s = last_activity t"
    and "pn_max_sessions_per_agent cfg = 1" and "\<not> cutoff cfg db < min_utc"
  shows "db_sessions (snd (sql_maintenance cfg db)) = []"
  using assms by (auto simp: maintenance_sessions rank_of_def nat_i64_def as_i64_def Let_def)

section \<open>A transcript is read as it was written\<close>

text \<open>
  What a user of the log of a session relies on: an entry that is accepted and comes after the others
  is the last of the log, other logs stay, and a cleared log is empty.
\<close>

locale entry_log =
  fixes log :: "'k \<Rightarrow> 's \<Rightarrow> 'e list"
    and append_to :: "'k \<Rightarrow> 'e \<Rightarrow> 's \<Rightarrow> 's option"
    and clear :: "'k \<Rightarrow> 's \<Rightarrow> 's"
    and follows :: "'k \<Rightarrow> 'e \<Rightarrow> 's \<Rightarrow> bool"
    and before :: "'e \<Rightarrow> 'e \<Rightarrow> bool"
  assumes log_append: "append_to k e s = Some t \<Longrightarrow> follows k e s \<Longrightarrow> log k t = log k s @ [e]"
    and log_append_other: "append_to k e s = Some t \<Longrightarrow> k' \<noteq> k \<Longrightarrow> log k' t = log k' s"
    and log_clear: "log k (clear k s) = []"
    and follows_next: "append_to k e s = Some t \<Longrightarrow> follows k e s \<Longrightarrow> before e e' \<Longrightarrow> follows k e' t"
begin

fun append_all :: "'k \<Rightarrow> 'e list \<Rightarrow> 's \<Rightarrow> 's option" where
  "append_all k [] s = Some s"
| "append_all k (e # es) s = Option.bind (append_to k e s) (append_all k es)"

lemma log_append_all:
  assumes "append_all k es s = Some t" and "successively before es"
    and "es \<noteq> [] \<Longrightarrow> follows k (hd es) s"
  shows "log k t = log k s @ es"
  using assms
proof (induction es arbitrary: s)
  case (Cons e es)
  then obtain u where u: "append_to k e s = Some u" "append_all k es u = Some t"
    by (auto simp: bind_eq_Some_conv)
  have "log k t = log k u @ es"
  proof (rule Cons.IH [OF u(2)])
    show "successively before es" using Cons.prems(2) by (cases es) auto
    show "es \<noteq> [] \<Longrightarrow> follows k (hd es) u"
      using Cons.prems(2,3) follows_next [OF u(1)] by (cases es) auto
  qed
  then show ?case using log_append [OF u(1)] Cons.prems(3) by simp
qed simp

lemma log_append_all_other:
  "append_all k es s = Some t \<Longrightarrow> k' \<noteq> k \<Longrightarrow> log k' t = log k' s"
  by (induction es arbitrary: s) (auto simp: bind_eq_Some_conv dest: log_append_other)

end

definition sealed :: "sqlite_store \<Rightarrow> string \<Rightarrow> bool" where
  "sealed ss content \<longleftrightarrow>
     (\<forall>db c db1. encrypt_content ss content db = (Inr c, db1) \<longrightarrow> decrypt_content ss c = Inr content)"

definition log_of :: "sqlite_store \<Rightarrow> session_key \<Rightarrow> database \<Rightarrow> (frank_error + transcript_entry) list" where
  "log_of ss key db = map (entry_of_row ss) (sort_key tr_seq (rows_of key db))"

fun log_to ::
  "sqlite_store \<Rightarrow> session_key \<Rightarrow> frank_error + transcript_entry \<Rightarrow> database \<Rightarrow> database option" where
  "log_to ss key (Inl e) db = None"
| "log_to ss key (Inr e) db = (case sql_append ss key e db of (Inr _, db1) \<Rightarrow> Some db1 | _ \<Rightarrow> None)"

fun entry_follows ::
  "sqlite_store \<Rightarrow> session_key \<Rightarrow> frank_error + transcript_entry \<Rightarrow> database \<Rightarrow> bool" where
  "entry_follows ss key (Inl e) db = False"
| "entry_follows ss key (Inr e) db \<longleftrightarrow>
     (\<forall>r\<in>set (rows_of key db). tr_seq r < as_i64 (tn_seq e)) \<and> sealed ss (tn_content e)"

fun entry_before ::
  "sqlite_store \<Rightarrow> frank_error + transcript_entry \<Rightarrow> frank_error + transcript_entry \<Rightarrow> bool" where
  "entry_before ss (Inr a) (Inr b) \<longleftrightarrow> as_i64 (tn_seq a) < as_i64 (tn_seq b) \<and> sealed ss (tn_content b)"
| "entry_before ss _ _ = False"

lemma insort_key_last: "f a \<le> f r \<Longrightarrow> insort_key f a (ys @ [r]) = insort_key f a ys @ [r]"
  by (induction ys) auto

lemma sort_key_last: "\<forall>x\<in>set xs. f x \<le> f r \<Longrightarrow> sort_key f (xs @ [r]) = sort_key f xs @ [r]"
  by (induction xs) (simp_all add: insort_key_last)

definition new_row :: "session_key \<Rightarrow> transcript_entry \<Rightarrow> u8 list \<Rightarrow> transcript_row" where
  "new_row key e c =
     \<lparr>tr_session_key = key_str key, tr_seq = as_i64 (tn_seq e), tr_role = tn_role e,
      tr_content = c, tr_metadata = tn_metadata e, tr_timestamp = tn_timestamp e\<rparr>"

lemma encrypt_keeps_rows: "encrypt_content ss s db = (r, db1) \<Longrightarrow> rows_of k db1 = rows_of k db"
  by (auto simp: encrypt_content_def rows_of_def Let_def split: option.splits sum.splits)

lemma insert_rows: "insert_row r db = (Inr u, db1) \<Longrightarrow> rows_of k db1 =
     rows_of k db @ (if tr_session_key r = key_str k then [r] else [])"
  by (auto simp: insert_row_def rows_of_def split: if_splits)

lemma touch_rows [simp]: "rows_of k (touch_session key t db) = rows_of k db"
  by (simp add: rows_of_def touch_session_def)

lemma log_to_rows:
  assumes "log_to ss key (Inr e) db = Some db1"
  shows "\<exists>c db0. encrypt_content ss (tn_content e) db = (Inr c, db0) \<and>
     (\<forall>k. rows_of k db1 = rows_of k db @ (if k = key then [new_row key e c] else []))"
proof -
  have "sql_append ss key e db = (Inr (), db1)"
    using assms by (auto split: prod.splits sum.splits)
  then obtain c db0 db2 where c: "encrypt_content ss (tn_content e) db = (Inr c, db0)"
      and i: "insert_row (new_row key e c) db0 = (Inr (), db2)"
      and t: "touch_session key (tn_timestamp e) db2 = db1"
    by (auto simp: sql_append_def andthen_Inr always_def new_row_def split: if_splits)
  have "rows_of k db1 = rows_of k db @ (if k = key then [new_row key e c] else [])" for k
    unfolding t [symmetric] touch_rows insert_rows [OF i] encrypt_keeps_rows [OF c]
    by (simp add: new_row_def eq_commute)
  with c show ?thesis by blast
qed

lemma of_int_as_i64 [simp]: "word_of_int (as_i64 n) = n"
  by (simp add: as_i64_def)

lemma new_row_entry:
  assumes "encrypt_content ss (tn_content e) db = (Inr c, db0)" and "sealed ss (tn_content e)"
  shows "entry_of_row ss (new_row key e c) = Inr e"
proof -
  have "decrypt_content ss c = Inr (tn_content e)" using assms unfolding sealed_def by blast
  then show ?thesis by (simp add: entry_of_row_def new_row_def)
qed

lemma log_to_follows:
  assumes "log_to ss k e s = Some t" and "entry_follows ss k e s"
  shows "log_of ss k t = log_of ss k s @ [e]"
proof (cases e)
  case (Inr x)
  obtain c db0 where c: "encrypt_content ss (tn_content x) s = (Inr c, db0)"
      "rows_of k t = rows_of k s @ [new_row k x c]"
    using log_to_rows [of ss k x s t] assms(1) Inr by auto
  have "\<forall>r\<in>set (rows_of k s). tr_seq r \<le> tr_seq (new_row k x c)"
    using assms(2) Inr by (auto simp: new_row_def less_imp_le)
  moreover have "entry_of_row ss (new_row k x c) = Inr x"
    using new_row_entry [OF c(1)] assms(2) Inr by simp
  ultimately show ?thesis
    using c(2) Inr by (simp add: log_of_def sort_key_last)
qed (use assms in simp)

lemma log_to_next:
  assumes "log_to ss k e s = Some t" and "entry_follows ss k e s" and "entry_before ss e e'"
  shows "entry_follows ss k e' t"
proof -
  obtain x y where e: "e = Inr x" "e' = Inr y"
    using assms(3) by (cases e; cases e') auto
  obtain c db0 where "rows_of k t = rows_of k s @ [new_row k x c]"
    using log_to_rows [of ss k x s t] assms(1) e by auto
  then show ?thesis
    using assms(2,3) e by (auto simp: new_row_def)
qed

lemma log_to_other:
  assumes "log_to ss k e s = Some t" and "k' \<noteq> k"
  shows "log_of ss k' t = log_of ss k' s"
proof (cases e)
  case (Inr x)
  then have "rows_of k' t = rows_of k' s"
    using log_to_rows [of ss k x s t] assms by auto
  then show ?thesis by (simp add: log_of_def)
qed (use assms in simp)

interpretation transcripts: entry_log "log_of ss" "log_to ss" "\<lambda>k db. snd (sql_clear k db)"
    "entry_follows ss" "entry_before ss" for ss
proof
  show "log_of ss k (snd (sql_clear k s)) = []" for k s
    by (simp add: log_of_def rows_of_def sql_clear_def)
qed (rule log_to_follows log_to_other log_to_next; assumption)+

definition faithful_crypto :: "crypto \<Rightarrow> bool" where
  "faithful_crypto cx \<longleftrightarrow>
     (\<forall>k n p c. cx_seal cx k n p = Some c \<longrightarrow> cx_open cx k n c = Some p) \<and>
     (\<forall>b. cx_json_blob cx (cx_blob_json cx b) = Inr b)"

definition is_text :: "crypto \<Rightarrow> string \<Rightarrow> bool" where
  "is_text cx s \<longleftrightarrow> cx_utf8 cx (bytes s) = Inr s"

fun write_all :: "sqlite_store \<Rightarrow> session_key \<Rightarrow> transcript_entry list \<Rightarrow> (database, unit) action" where
  "write_all ss key [] db = (Inr (), db)"
| "write_all ss key (e # es) db = andthen (sql_append ss key e) (\<lambda>_. write_all ss key es) db"

lemma faithful_sealed:
  "faithful_crypto (ss_crypto ss) \<Longrightarrow> is_text (ss_crypto ss) content \<Longrightarrow> sealed ss content"
  by (auto simp: sealed_def is_text_def faithful_crypto_def encrypt_content_def decrypt_content_def
      utf8_content_def encrypt_def decrypt_def Let_def split: option.splits sum.splits if_splits)

lemma write_all_log:
  "write_all ss key es db = (Inr (), db1) \<Longrightarrow> transcripts.append_all ss key (map Inr es) db = Some db1"
proof (induction es arbitrary: db)
  case Nil
  then show ?case by (simp add: transcripts.append_all.simps)
next
  case (Cons e es)
  then obtain u db0 where "sql_append ss key e db = (Inr u, db0)" "write_all ss key es db0 = (Inr (), db1)"
    by (auto simp: andthen_Inr)
  then show ?case using Cons.IH by (simp add: transcripts.append_all.simps)
qed

lemma log_written:
  assumes "write_all ss key es db = (Inr (), db1)" and "rows_of key db = []"
    and "successively (\<lambda>a b. as_i64 (tn_seq a) < as_i64 (tn_seq b)) es"
    and "\<forall>e\<in>set es. sealed ss (tn_content e)"
  shows "log_of ss key db1 = map Inr es"
proof -
  have "successively (entry_before ss) (map Inr es)"
    unfolding successively_map using assms(3)
    by (rule successively_mono) (use assms(4) in auto)
  moreover have "entry_follows ss key (hd (map Inr es)) db" if "es \<noteq> []"
    using that assms(2,4) by (simp add: hd_map)
  ultimately have "log_of ss key db1 = log_of ss key db @ map Inr es"
    by (intro transcripts.log_append_all [OF write_all_log [OF assms(1)]]) auto
  then show ?thesis using assms(2) by (simp add: log_of_def)
qed

text \<open>
  C15. The newest entries of a transcript, in the order in which they were written, are read back with
  their contents, encrypted or not.
\<close>

theorem transcript_read_back:
  assumes "faithful_crypto (ss_crypto ss)" and "\<forall>e\<in>set es. is_text (ss_crypto ss) (tn_content e)"
    and "successively (\<lambda>a b. as_i64 (tn_seq a) < as_i64 (tn_seq b)) es"
    and "rows_of key db = []" and "write_all ss key es db = (Inr (), db1)" and "n < 2 ^ 63"
  shows "fst (sql_transcript ss key n None db1) = Inr (drop (length es - n) es)"
proof -
  have log: "map (entry_of_row ss) (sort_key tr_seq (rows_of key db1)) = map Inr es"
    using log_written [OF assms(5,4,3)] assms(2) faithful_sealed [OF assms(1)] by (simp add: log_of_def)
  have n: "nat_i64 n = int n"
    using assms(6) unfolding nat_i64_def as_i64_def
    by (simp add: signed_of_nat signed_take_bit_int_eq_self)
  have "map (entry_of_row ss) (select_rows key n None db1) = map Inr (take n (rev es))"
    by (simp add: select_rows_def n sql_limit_def take_map [symmetric] rev_map [symmetric] log)
  then show ?thesis
    by (simp add: sql_transcript_def take_rev)
qed

text \<open>A cipher that reverses, a JSON that is a marked sequence, and two writes to one session.\<close>

fun unmark :: "u8 list \<Rightarrow> u8 list \<Rightarrow> string + encrypted_blob" where
  "unmark n [] = Inl ''EOF''"
| "unmark n (m # r) =
     (if m = 1 then Inr \<lparr>bl_nonce = n, bl_ciphertext = r\<rparr>
      else (case r of [] \<Rightarrow> Inl ''EOF'' | x # q \<Rightarrow> unmark (n @ [x]) q))"

definition reversing :: crypto where
  "reversing =
     \<lparr>cx_seal = \<lambda>_ _ p. Some (rev p), cx_open = \<lambda>_ _ c. Some (rev c), cx_hmac = \<lambda>_ _. replicate 32 7,
      cx_argon2 = \<lambda>_ _ _ _ _. None,
      cx_blob_json = \<lambda>b. concat (map (\<lambda>x. [0, x]) (bl_nonce b)) @ 1 # bl_ciphertext b,
      cx_json_blob = unmark [],
      cx_utf8 = \<lambda>b. Inr (map (\<lambda>x. char_of (unat x)) b)\<rparr>"

lemma unmark_marked: "unmark n (concat (map (\<lambda>x. [0, x]) xs) @ 1 # c) = Inr \<lparr>bl_nonce = n @ xs, bl_ciphertext = c\<rparr>"
  by (induction xs arbitrary: n) simp_all

lemma reversing_faithful: "faithful_crypto reversing"
  by (auto simp: faithful_crypto_def reversing_def unmark_marked [of "[]", simplified])

lemma reversing_text: "is_text reversing s"
proof -
  have "unat (of_nat (of_char c) :: u8) = of_char c" for c :: char
    by (rule unat_of_nat_small) simp
  then have "(\<lambda>x. char_of (unat x)) \<circ> (\<lambda>c. of_nat (of_char c) :: u8) = id"
    by (simp add: fun_eq_iff)
  then show ?thesis by (simp add: is_text_def reversing_def bytes_def)
qed

definition sample_entry :: "u64 \<Rightarrow> string \<Rightarrow> transcript_entry" where
  "sample_entry n s = \<lparr>tn_seq = n, tn_role = User, tn_content = s, tn_timestamp = 5, tn_metadata = None\<rparr>"

lemma sample_written:
  "\<exists>db1. write_all (open_store reversing (Some [])) (SessionKey ''k'')
     [sample_entry 1 ''a'', sample_entry 2 ''b''] sample_database = (Inr (), db1)"
  by (simp add: andthen_def always_def sql_append_def encrypt_content_def encrypt_def insert_row_def
      touch_session_def sample_entry_def sample_database_def empty_database_def open_store_def
      reversing_def derive_subkey_def max_transcript_entry_bytes_def as_i64_def Let_def)

theorem transcript_read_back_witness:
  "\<exists>db1. write_all (open_store reversing (Some [])) (SessionKey ''k'')
       [sample_entry 1 ''a'', sample_entry 2 ''b''] sample_database = (Inr (), db1) \<and>
     fst (sql_transcript (open_store reversing (Some [])) (SessionKey ''k'') 1 None db1) =
       Inr [sample_entry 2 ''b'']"
proof -
  obtain db1 where w: "write_all (open_store reversing (Some [])) (SessionKey ''k'')
      [sample_entry 1 ''a'', sample_entry 2 ''b''] sample_database = (Inr (), db1)"
    using sample_written by blast
  have c: "ss_crypto (open_store reversing (Some [])) = reversing"
    by (simp add: open_store_def)
  have "fst (sql_transcript (open_store reversing (Some [])) (SessionKey ''k'') 1 None db1) =
      Inr (drop (length [sample_entry 1 ''a'', sample_entry 2 ''b''] - 1) [sample_entry 1 ''a'', sample_entry 2 ''b''])"
    by (rule transcript_read_back [OF _ _ _ _ w])
      (simp_all add: c reversing_faithful reversing_text sample_entry_def as_i64_def
        sample_database_def empty_database_def rows_of_def)
  then show ?thesis using w by (auto simp: numeral_2_eq_2)
qed

text \<open>A key of more than 800 bytes is stored whole and read back cut: the session is not found under its key.\<close>

lemma long_key_misread:
  assumes "row_of (SessionKey k) db = Some s" and "se_key s = SessionKey k" and "800 < length k"
    and "fst (sql_get (SessionKey k) db) = Inr (Some s1)"
  shows "se_key s1 \<noteq> SessionKey k"
  using assms
  by (auto simp: sql_get_def read_row_def from_raw_def slice_to_def split: option.splits if_splits)

end
