(* ===== verification/Media_Store.thy ===== *)
theory Media_Store
  imports Sanitize Media_Types Delivery Effects
begin

text \<open>
  The store of media files (\<open>frankclaw-media/src/store.rs\<close>) and the scanner before it
  (\<open>virustotal.rs\<close>). The directory is the list of its files in the order \<open>read_dir\<close> gives them,
  with the clock and the fresh identifiers; every operation on the file system can fail by the parameter
  \<open>mv_fault\<close>. The JSON of the metadata, the alphanumeric characters beyond ASCII and the answers of
  the scanning service are parameters.
\<close>

section \<open>Names of files (store.rs)\<close>

definition max_filename_len :: nat where
  "max_filename_len = 60"

definition name_char :: "(nat \<Rightarrow> bool) \<Rightarrow> nat \<Rightarrow> bool" where
  "name_char alnum c \<longleftrightarrow>
     (if c < 128 then (48 \<le> c \<and> c \<le> 57) \<or> (65 \<le> c \<and> c \<le> 90) \<or> (97 \<le> c \<and> c \<le> 122) else alnum c) \<or>
     c = 46 \<or> c = 45 \<or> c = 95"

text \<open>\<open>rsplit(&['/', '\\']).next()\<close>\<close>

definition last_component :: "string \<Rightarrow> string" where
  "last_component name = rev (takeWhile (\<lambda>c. c \<noteq> CHR ''/'' \<and> c \<noteq> CHR 0x5C) (rev name))"

definition sanitize_filename :: "(nat \<Rightarrow> bool) \<Rightarrow> string \<Rightarrow> string" where
  "sanitize_filename alnum name =
     (let cleaned = take max_filename_len (filter (name_char alnum) (decode (last_component name)));
          kept = dropWhile (\<lambda>c. c = 46) cleaned
      in if kept = [] then ''unnamed'' else encode kept)"

text \<open>\<open>Path::file_stem\<close> and \<open>Path::extension\<close> of a name.\<close>

definition file_stem :: "string \<Rightarrow> string" where
  "file_stem n = (case rsplit_once dot n of Some (a, b) \<Rightarrow> if a = [] then n else a | None \<Rightarrow> n)"

definition path_extension :: "string \<Rightarrow> string option" where
  "path_extension n = (case rsplit_once dot n of Some (a, b) \<Rightarrow> if a = [] then None else Some b | None \<Rightarrow> None)"

definition metadata_path_for :: "string \<Rightarrow> string" where
  "metadata_path_for n = n @ ''.meta.json''"

definition is_metadata_path :: "string \<Rightarrow> bool" where
  "is_metadata_path n = ends_with n ''.meta.json''"

section \<open>The directory\<close>

record disk_file =
  df_name :: string
  df_bytes :: "u8 list"
  df_modified :: datetime
  df_private :: bool

record media_dir =
  md_files :: "disk_file list"
  md_now :: datetime
  md_ids :: "nat \<Rightarrow> media_id"
  md_drawn :: nat

record media_metadata =
  mm_original_name :: string
  mm_mime_type :: string

record media_env =
  mv_alnum :: "nat \<Rightarrow> bool"
  mv_meta_json :: "media_metadata \<Rightarrow> u8 list"
  mv_json_meta :: "u8 list \<Rightarrow> string + media_metadata"
  mv_fault :: "string \<Rightarrow> string \<Rightarrow> media_dir \<Rightarrow> string option"

record media_file =
  fi_id :: media_id
  fi_original_name :: string
  fi_mime_type :: string
  fi_size_bytes :: nat
  fi_path :: string
  fi_created_at :: datetime
  fi_expires_at :: datetime

record scan_verdict =
  sv_safe :: bool
  sv_malicious_count :: u32
  sv_total_engines :: u32
  sv_summary :: string
  sv_threat_names :: "string list"

type_synonym scanner = "string \<Rightarrow> u8 list \<Rightarrow> frank_error + scan_verdict"

record media_store =
  me_max_file_size :: u64
  me_ttl_hours :: u64
  me_scanner :: "scanner option"

definition file_named :: "string \<Rightarrow> media_dir \<Rightarrow> disk_file option" where
  "file_named n dir = find (\<lambda>f. df_name f = n) (md_files dir)"

definition remove_named :: "string \<Rightarrow> media_dir \<Rightarrow> media_dir" where
  "remove_named n dir = dir\<lparr>md_files := filter (\<lambda>f. df_name f \<noteq> n) (md_files dir)\<rparr>"

text \<open>\<open>std::fs::write\<close> makes the file or replaces its contents; its mode stays as it is.\<close>

definition write_file :: "media_env \<Rightarrow> string \<Rightarrow> string \<Rightarrow> u8 list \<Rightarrow> (media_dir, unit) action" where
  "write_file env what n data dir =
     (case mv_fault env ''write'' n dir of
        Some e \<Rightarrow> (Inl (InternalError (''failed to write media '' @ what @ '': '' @ e)), dir)
      | None \<Rightarrow>
          (Inr (), dir\<lparr>md_files :=
             (if file_named n dir = None
              then md_files dir @ [\<lparr>df_name = n, df_bytes = data, df_modified = md_now dir, df_private = False\<rparr>]
              else map (\<lambda>f. if df_name f = n then f\<lparr>df_bytes := data, df_modified := md_now dir\<rparr> else f)
                     (md_files dir))\<rparr>))"

definition make_private :: "string \<Rightarrow> media_dir \<Rightarrow> media_dir" where
  "make_private n dir =
     dir\<lparr>md_files := map (\<lambda>f. if df_name f = n then f\<lparr>df_private := True\<rparr> else f) (md_files dir)\<rparr>"

definition fresh_id :: "media_dir \<Rightarrow> media_id \<times> media_dir" where
  "fresh_id dir = (md_ids dir (md_drawn dir), dir\<lparr>md_drawn := Suc (md_drawn dir)\<rparr>)"

section \<open>Storing\<close>

definition store_unscanned ::
  "media_env \<Rightarrow> media_store \<Rightarrow> string \<Rightarrow> string \<Rightarrow> u8 list \<Rightarrow> (media_dir, media_file) action" where
  "store_unscanned env ms original_name mime data =
     (if unat (me_max_file_size ms) < length data then fail (MediaTooLarge (unat (me_max_file_size ms)))
      else andthen (always fresh_id) (\<lambda>i.
        let path = i @ ''.'' @ safe_extension_for_mime mime;
            sanitized = sanitize_filename (mv_alnum env) original_name
        in andthen (write_file env ''file'' path data) (\<lambda>_.
           andthen (write_file env ''metadata'' (metadata_path_for path)
             (mv_meta_json env \<lparr>mm_original_name = sanitized, mm_mime_type = mime\<rparr>)) (\<lambda>_.
           always (\<lambda>dir.
             (\<lparr>fi_id = i, fi_original_name = sanitized, fi_mime_type = mime, fi_size_bytes = length data,
               fi_path = path, fi_created_at = md_now dir,
               fi_expires_at = md_now dir + sint (me_ttl_hours ms) * 3600 * 1000000000\<rparr>,
              make_private (metadata_path_for path) (make_private path dir)))))))"

definition store_media ::
  "media_env \<Rightarrow> media_store \<Rightarrow> string \<Rightarrow> string \<Rightarrow> u8 list \<Rightarrow> (media_dir, media_file) action" where
  "store_media env ms original_name mime data =
     (case me_scanner ms of
        None \<Rightarrow> store_unscanned env ms original_name mime data
      | Some scan \<Rightarrow>
          (case scan original_name data of
             Inl e \<Rightarrow> fail e
           | Inr verdict \<Rightarrow>
               if \<not> sv_safe verdict then fail (MalwareDetected original_name (sv_summary verdict))
               else store_unscanned env ms original_name mime data))"

definition scan_file :: "media_store \<Rightarrow> string \<Rightarrow> u8 list \<Rightarrow> frank_error + scan_verdict option" where
  "scan_file ms filename data =
     (case me_scanner ms of None \<Rightarrow> Inr None | Some scan \<Rightarrow> map_sum id Some (scan filename data))"

definition has_scanner :: "media_store \<Rightarrow> bool" where
  "has_scanner ms \<longleftrightarrow> me_scanner ms \<noteq> None"

section \<open>Reading\<close>

definition read_dir :: "media_env \<Rightarrow> media_dir \<Rightarrow> frank_error + disk_file list" where
  "read_dir env dir =
     (case mv_fault env ''read_dir'' [] dir of
        Some e \<Rightarrow> Inl (InternalError (''failed to read media directory: '' @ e))
      | None \<Rightarrow> Inr (md_files dir))"

definition resolve_path :: "media_env \<Rightarrow> media_id \<Rightarrow> media_dir \<Rightarrow> frank_error + string option" where
  "resolve_path env i dir =
     map_sum id (\<lambda>fs. map_option df_name
       (find (\<lambda>f. \<not> is_metadata_path (df_name f) \<and> file_stem (df_name f) = i) fs)) (read_dir env dir)"

definition read_file :: "media_env \<Rightarrow> string \<Rightarrow> string \<Rightarrow> media_dir \<Rightarrow> frank_error + u8 list" where
  "read_file env what n dir =
     (case mv_fault env ''read'' n dir of
        Some e \<Rightarrow> Inl (InternalError (''failed to read media '' @ what @ '': '' @ e))
      | None \<Rightarrow>
          (case file_named n dir of
             None \<Rightarrow> Inl (InternalError (''failed to read media '' @ what @ '': No such file or directory (os error 2)''))
           | Some f \<Rightarrow> Inr (df_bytes f)))"

definition read_metadata :: "media_env \<Rightarrow> string \<Rightarrow> media_dir \<Rightarrow> frank_error + media_metadata option" where
  "read_metadata env n dir =
     (if file_named n dir = None then Inr None
      else (case read_file env ''metadata'' n dir of
              Inl e \<Rightarrow> Inl e
            | Inr data \<Rightarrow>
                (case mv_json_meta env data of
                   Inl e \<Rightarrow> Inl (InternalError (''failed to parse media metadata: '' @ e))
                 | Inr m \<Rightarrow> Inr (Some m))))"

definition not_blank :: "string option \<Rightarrow> string \<Rightarrow> string" where
  "not_blank v d = (case v of Some x \<Rightarrow> if trim x = [] then d else x | None \<Rightarrow> d)"

definition read_media :: "media_env \<Rightarrow> media_id \<Rightarrow> media_dir \<Rightarrow> frank_error + stored_media option" where
  "read_media env i dir =
     (case resolve_path env i dir of
        Inl e \<Rightarrow> Inl e
      | Inr None \<Rightarrow> Inr None
      | Inr (Some path) \<Rightarrow>
          (case read_file env ''file'' path dir of
             Inl e \<Rightarrow> Inl e
           | Inr data \<Rightarrow>
               (case read_metadata env (metadata_path_for path) dir of
                  Inl e \<Rightarrow> Inl e
                | Inr metadata \<Rightarrow>
                    Inr (Some
                      \<lparr>sm_bytes = data,
                       sm_filename = not_blank (map_option mm_original_name metadata) path,
                       sm_mime_type = not_blank (map_option mm_mime_type metadata)
                         (case path_extension path of
                            Some e \<Rightarrow> mime_for_safe_extension e | None \<Rightarrow> octet_stream)\<rparr>))))"

section \<open>Cleaning up\<close>

definition outlived :: "media_store \<Rightarrow> media_dir \<Rightarrow> disk_file \<Rightarrow> bool" where
  "outlived ms dir f \<longleftrightarrow>
     int (unat (me_ttl_hours ms * 3600)) * 1000000000 < max 0 (md_now dir - df_modified f)"

definition try_remove :: "media_env \<Rightarrow> string \<Rightarrow> media_dir \<Rightarrow> bool \<times> media_dir" where
  "try_remove env n dir =
     (if mv_fault env ''remove'' n dir \<noteq> None \<or> file_named n dir = None then (False, dir)
      else (True, remove_named n dir))"

fun cleanup_files :: "media_env \<Rightarrow> media_store \<Rightarrow> disk_file list \<Rightarrow> u64 \<Rightarrow> media_dir \<Rightarrow> u64 \<times> media_dir" where
  "cleanup_files env ms [] deleted dir = (deleted, dir)"
| "cleanup_files env ms (f # fs) deleted dir =
     (if is_metadata_path (df_name f) \<or> \<not> outlived ms dir f then cleanup_files env ms fs deleted dir
      else (case try_remove env (df_name f) dir of
              (False, dir1) \<Rightarrow> cleanup_files env ms fs deleted dir1
            | (True, dir1) \<Rightarrow>
                cleanup_files env ms fs (deleted + 1)
                  (snd (try_remove env (metadata_path_for (df_name f)) dir1))))"

definition cleanup_media :: "media_env \<Rightarrow> media_store \<Rightarrow> (media_dir, u64) action" where
  "cleanup_media env ms dir =
     (case read_dir env dir of
        Inl e \<Rightarrow> (Inl e, dir)
      | Inr fs \<Rightarrow> (case cleanup_files env ms fs 0 dir of (n, dir1) \<Rightarrow> (Inr n, dir1)))"

section \<open>The scanner (virustotal.rs)\<close>

definition malicious_threshold :: u32 where
  "malicious_threshold = 2"

definition analysis_timeout :: nat where
  "analysis_timeout = 120 * 1000"

definition poll_interval :: nat where
  "poll_interval = 5 * 1000"

definition max_vt_file_size :: nat where
  "max_vt_file_size = 32 * 1024 * 1024"

record vt_stats =
  vs_malicious :: "u32 option"
  vs_suspicious :: "u32 option"
  vs_undetected :: "u32 option"
  vs_harmless :: "u32 option"

record vt_engine_result =
  ve_category :: string
  ve_result :: "string option"

record vt_attributes =
  va_status :: string
  va_stats :: vt_stats
  va_results :: "(string \<times> vt_engine_result) list"

text \<open>An answer of the service: no answer, a status that is no success, a body that is not the JSON, or the value.\<close>

datatype 'a vt_reply = NoReply string | BadStatus string string | BadBody string | Reply 'a

text \<open>
  The service: the answer to an upload, and the answer to the \<open>k\<close>-th question about an analysis
  with the milliseconds it takes.
\<close>

record vt_service =
  vt_upload :: "string \<Rightarrow> u8 list \<Rightarrow> string vt_reply"
  vt_poll :: "string \<Rightarrow> nat \<Rightarrow> nat \<times> vt_attributes vt_reply"

definition vt_from_env :: "string option \<Rightarrow> string option" where
  "vt_from_env key =
     (case key of None \<Rightarrow> None | Some k \<Rightarrow> if trim k = [] then None else Some (trim k))"

fun reply_result :: "string \<Rightarrow> string \<Rightarrow> string \<Rightarrow> 'a vt_reply \<Rightarrow> frank_error + 'a" where
  "reply_result sending returning parsing (NoReply e) = Inl (InternalError (sending @ '' failed: '' @ e))"
| "reply_result sending returning parsing (BadStatus st body) =
     Inl (InternalError (returning @ '' returned '' @ st @ '': '' @ body))"
| "reply_result sending returning parsing (BadBody e) =
     Inl (InternalError (parsing @ '' response parse failed: '' @ e))"
| "reply_result sending returning parsing (Reply x) = Inr x"

definition upload_file :: "vt_service \<Rightarrow> string \<Rightarrow> u8 list \<Rightarrow> frank_error + string" where
  "upload_file vt filename data =
     reply_result ''VirusTotal upload'' ''VirusTotal upload'' ''VirusTotal upload'' (vt_upload vt filename data)"

definition poll_result :: "vt_attributes vt_reply \<Rightarrow> frank_error + vt_attributes" where
  "poll_result = reply_result ''VirusTotal poll'' ''VirusTotal analysis'' ''VirusTotal analysis''"

text \<open>The \<open>k\<close>-th turn of the loop at \<open>now\<close>; a turn that goes on sleeps for the interval.\<close>

function poll_from :: "(nat \<Rightarrow> nat \<times> vt_attributes vt_reply) \<Rightarrow> nat \<Rightarrow> nat \<Rightarrow> nat \<Rightarrow> frank_error + vt_attributes" where
  "poll_from reply deadline k now =
     (if deadline \<le> now then Inl (InternalError ''VirusTotal analysis timed out'')
      else (case poll_result (snd (reply k)) of
              Inl e \<Rightarrow> Inl e
            | Inr attrs \<Rightarrow>
                if va_status attrs = ''completed'' then Inr attrs
                else poll_from reply deadline (Suc k) (now + fst (reply k) + poll_interval)))"
  by pat_completeness auto
termination
  by (relation "measure (\<lambda>(_, deadline, _, now). deadline - now)") (auto simp: poll_interval_def)

declare poll_from.simps [simp del]

definition poll_analysis :: "vt_service \<Rightarrow> string \<Rightarrow> frank_error + vt_attributes" where
  "poll_analysis vt i = poll_from (vt_poll vt i) analysis_timeout 0 0"

definition or_0 :: "u32 option \<Rightarrow> u32" where
  "or_0 n = (case n of Some x \<Rightarrow> x | None \<Rightarrow> 0)"

definition flagged :: "vt_attributes \<Rightarrow> u32" where
  "flagged attrs = or_0 (vs_malicious (va_stats attrs)) + or_0 (vs_suspicious (va_stats attrs))"

definition vt_verdict :: "vt_attributes \<Rightarrow> scan_verdict" where
  "vt_verdict attrs =
     (let stats = va_stats attrs;
          total = or_0 (vs_malicious stats) + or_0 (vs_undetected stats) + or_0 (vs_harmless stats) +
            or_0 (vs_suspicious stats);
          n = flagged attrs
      in \<lparr>sv_safe = n < malicious_threshold, sv_malicious_count = n, sv_total_engines = total,
          sv_summary =
            (if n < malicious_threshold
             then show_word n @ ''/'' @ show_word total @ '' engines flagged (below threshold '' @
               show_word malicious_threshold @ '')''
             else show_word n @ ''/'' @ show_word total @ '' engines flagged as malicious/suspicious''),
          sv_threat_names =
            List.map_filter (\<lambda>(_, r). if ve_category r = ''malicious'' \<or> ve_category r = ''suspicious''
              then ve_result r else None) (va_results attrs)\<rparr>)"

definition vt_scan :: "vt_service \<Rightarrow> scanner" where
  "vt_scan vt filename data =
     (if max_vt_file_size < length data
      then Inr \<lparr>sv_safe = True, sv_malicious_count = 0, sv_total_engines = 0,
             sv_summary = ''file too large for VirusTotal scan, skipped'', sv_threat_names = []\<rparr>
      else (case upload_file vt filename data of
              Inl e \<Rightarrow> Inl e
            | Inr i \<Rightarrow> map_sum id vt_verdict (poll_analysis vt i)))"

section \<open>A sanitized name is safe\<close>

lemma encode_char_high:
  assumes "valid_char c" and "128 \<le> c" and "b \<in> set (encode_char c)"
  shows "(of_char b :: nat) \<ge> 128"
proof -
  have h: "of_char (byte n) = n" if "n < 256" for n :: nat using that by (rule of_char_byte)
  show ?thesis
    using assms by (auto simp: encode_char_def valid_char_def h split: if_splits)
qed

lemma encode_char_name:
  assumes "valid_char c" and "name_char alnum c" and "b \<in> set (encode_char c)"
  shows "(of_char b :: nat) \<ge> 128 \<or> name_char alnum (of_char b)"
proof (cases "c < 128")
  case True
  then have "b = byte c" using assms(3) by (simp add: encode_char_def)
  then have "(of_char b :: nat) = c" using of_char_byte [of c] True by simp
  then show ?thesis using assms(2) by simp
next
  case False
  then show ?thesis using encode_char_high [OF assms(1) _ assms(3)] by simp
qed

lemma encode_append [simp]: "encode (a @ b) = encode a @ encode b"
  by (simp add: encode_def)

lemma encode_char_separator:
  assumes "valid_char c" and "b \<in> set (encode_char c)" and "b = CHR ''/'' \<or> b = CHR 0x5C"
  shows "c = 47 \<or> c = 92"
proof (cases "c < 128")
  case True
  then have "b = byte c" using assms(2) by (simp add: encode_char_def)
  then have "(of_char b :: nat) = c" using of_char_byte [of c] True by simp
  then show ?thesis using assms(3) by auto
next
  case False
  then have "(of_char b :: nat) \<ge> 128" using encode_char_high [OF assms(1) _ assms(2)] by simp
  then show ?thesis using assms(3) by auto
qed

lemma separator_bytes: "encode_char 47 = ''/''" "encode_char 92 = [CHR 0x5C]"
  by code_simp+

lemma last_component_encode:
  "\<forall>c\<in>set cs. valid_char c \<Longrightarrow>
     last_component (encode cs) = encode (rev (takeWhile (\<lambda>c. c \<noteq> 47 \<and> c \<noteq> 92) (rev cs)))"
proof (induction cs rule: rev_induct)
  case (snoc c cs)
  have one: "encode [c] = encode_char c" by (simp add: encode_def)
  show ?case
  proof (cases "c = 47 \<or> c = 92")
    case True
    then show ?thesis
      by (auto simp: last_component_def one separator_bytes) (simp_all add: encode_def)
  next
    case False
    then have "\<forall>b\<in>set (rev (encode_char c)). b \<noteq> CHR ''/'' \<and> b \<noteq> CHR 0x5C"
      using encode_char_separator [of c] snoc.prems by auto
    then have "takeWhile (\<lambda>b. b \<noteq> CHR ''/'' \<and> b \<noteq> CHR 0x5C) (rev (encode_char c) @ rev (encode cs)) =
        rev (encode_char c) @ takeWhile (\<lambda>b. b \<noteq> CHR ''/'' \<and> b \<noteq> CHR 0x5C) (rev (encode cs))"
      by (intro takeWhile_append2) blast
    then show ?thesis
      using False snoc by (simp add: last_component_def one)
  qed
qed (simp add: last_component_def encode_def)

lemma kept_chars:
  assumes "\<forall>c\<in>set cs. valid_char c" and "name = encode cs"
  shows "\<exists>ks. sanitize_filename alnum name = (if ks = [] then ''unnamed'' else encode ks) \<and>
     (\<forall>c\<in>set ks. valid_char c \<and> name_char alnum c) \<and> length ks \<le> 60 \<and> (ks = [] \<or> hd ks \<noteq> 46)"
proof -
  define ds where "ds = rev (takeWhile (\<lambda>c. c \<noteq> 47 \<and> c \<noteq> 92) (rev cs))"
  have ds: "\<forall>c\<in>set ds. valid_char c"
    using assms(1) by (auto simp: ds_def dest: set_takeWhileD)
  define ks where "ks = dropWhile (\<lambda>c. c = 46) (take 60 (filter (name_char alnum) ds))"
  have "set ks \<subseteq> set (filter (name_char alnum) ds)"
    unfolding ks_def by (meson in_set_takeD set_dropWhileD subsetI)
  moreover have "length ks \<le> 60"
    unfolding ks_def by (rule order_trans [OF length_dropWhile_le]) simp
  moreover have "ks = [] \<or> hd ks \<noteq> 46"
    unfolding ks_def using hd_dropWhile by blast
  moreover have "decode (last_component name) = ds"
    using last_component_encode [OF assms(1)] decode_encode [OF ds] assms(2) by (simp add: ds_def)
  ultimately show ?thesis
    using ds by (intro exI [of _ ks]) (auto simp: sanitize_filename_def Let_def ks_def max_filename_len_def)
qed

text \<open>
  Whatever name a file comes with, the stored name is not empty, has at most sixty characters and no
  separator, and does not start with a dot.
\<close>
lemma filename_safe:
  assumes "valid_utf8 name"
  shows "sanitize_filename alnum name \<noteq> [] \<and>
     CHR ''/'' \<notin> set (sanitize_filename alnum name) \<and> CHR 0x5C \<notin> set (sanitize_filename alnum name) \<and>
     hd (sanitize_filename alnum name) \<noteq> dot \<and> length (decode (sanitize_filename alnum name)) \<le> 60"
proof -
  obtain cs where cs: "\<forall>c\<in>set cs. valid_char c" "name = encode cs"
    using assms unfolding valid_utf8_def by blast
  obtain ks where ks: "sanitize_filename alnum name = (if ks = [] then ''unnamed'' else encode ks)"
      "\<forall>c\<in>set ks. valid_char c \<and> name_char alnum c" "length ks \<le> 60" "ks = [] \<or> hd ks \<noteq> 46"
    using kept_chars [OF cs] by blast
  show ?thesis
  proof (cases ks)
    case Nil
    have "length (decode ''unnamed'') \<le> 60" by code_simp
    then show ?thesis using ks(1) Nil by simp
  next
    case (Cons k rest)
    have "\<forall>c\<in>set ks. c \<noteq> 47 \<and> c \<noteq> 92" using ks(2) by (auto simp: name_char_def)
    then have "b \<noteq> CHR ''/'' \<and> b \<noteq> CHR 0x5C" if "b \<in> set (encode ks)" for b
      using that encode_char_separator [of _ b] ks(2) by (fastforce simp: encode_def)
    moreover have "hd (encode ks) \<noteq> dot"
    proof
      assume d: "hd (encode ks) = dot"
      have "encode_char k \<noteq> []" by (simp add: encode_char_def)
      then have "dot \<in> set (encode_char k)"
        using d Cons by (metis encode_def hd_append2 hd_in_set list.simps(9) concat.simps(2))
      moreover have "(of_char dot :: nat) = 46" by simp
      ultimately have "k = 46"
        using encode_char_high [of k dot] ks(2) Cons
        by (cases "k < 128") (auto simp: encode_char_def byte_def)
      then show False using ks(4) Cons by simp
    qed
    moreover have "encode ks \<noteq> []" using Cons by (simp add: encode_def encode_char_def)
    moreover have "decode (encode ks) = ks" using ks(2) by (intro decode_encode) simp
    ultimately show ?thesis using ks(1,3) Cons by auto
  qed
qed

lemma filename_safe_witness:
  "sanitize_filename (\<lambda>_. True) ''../.env'' \<noteq> [] \<and> hd (sanitize_filename (\<lambda>_. True) ''../.env'') \<noteq> dot"
proof -
  have "encode [46, 46, 47, 46, 101, 110, 118] = ''../.env''" by code_simp
  moreover have "\<forall>c\<in>set [46, 46, 47, 46, 101, 110, 118 :: nat]. valid_char c" by (simp add: valid_char_def)
  ultimately have "valid_utf8 ''../.env''" unfolding valid_utf8_def by metis
  from filename_safe [OF this] show ?thesis by blast
qed

section \<open>A stored file is read as it was stored\<close>

lemma extensions_plain: "list_all (\<lambda>(m, e). dot \<notin> set e \<and> \<not> is_metadata_path (CHR ''.'' # e)) extension_table"
  by code_simp

lemma safe_extension_cases:
  "(\<exists>m. (m, safe_extension_for_mime mime) \<in> set extension_table) \<or> safe_extension_for_mime mime = ''bin''"
  unfolding safe_extension_for_mime_def by (auto split: option.split dest: map_of_SomeD)

lemma safe_extension_plain: "dot \<notin> set (safe_extension_for_mime mime)"
  using safe_extension_cases [of mime] extensions_plain by (auto simp: list_all_iff)

lemma rsplit_once_append: "c \<notin> set b \<Longrightarrow> rsplit_once c (a @ c # b) = Some (a, b)"
  unfolding rsplit_once_def by simp

lemma stem_of_stored: "i \<noteq> [] \<Longrightarrow> file_stem (i @ ''.'' @ safe_extension_for_mime mime) = i"
  by (simp add: file_stem_def rsplit_once_append safe_extension_plain)

lemma not_metadata: "dot \<notin> set i \<Longrightarrow> \<not> is_metadata_path (i @ ''.'' @ safe_extension_for_mime mime)"
proof
  assume i: "dot \<notin> set i" and m: "is_metadata_path (i @ ''.'' @ safe_extension_for_mime mime)"
  then obtain r where "i @ ''.'' @ safe_extension_for_mime mime = r @ ''.meta'' @ ''.json''"
    by (auto simp: is_metadata_path_def ends_with_iff)
  then have "filter ((=) dot) (i @ ''.'' @ safe_extension_for_mime mime) = filter ((=) dot) (r @ ''.meta'' @ ''.json'')"
    by (rule arg_cong)
  moreover have "filter ((=) dot) i = []" and "filter ((=) dot) (safe_extension_for_mime mime) = []"
    using i safe_extension_plain [of mime] by (auto simp: filter_empty_conv)
  ultimately have "[dot] = filter ((=) dot) r @ [dot, dot]" by simp
  then show False by (cases "filter ((=) dot) r") auto
qed

text \<open>No file of the directory has the identifier that is drawn next.\<close>

definition unused :: "media_id \<Rightarrow> media_dir \<Rightarrow> bool" where
  "unused i dir \<longleftrightarrow>
     (\<forall>f\<in>set (md_files dir). \<not> starts_with (df_name f) i)"

definition plain_disk :: "media_env \<Rightarrow> bool" where
  "plain_disk env \<longleftrightarrow> (\<forall>op n dir. mv_fault env op n dir = None) \<and>
     (\<forall>m. mv_json_meta env (mv_meta_json env m) = Inr m)"

lemma stem_prefix: "file_stem n = i \<Longrightarrow> starts_with n i"
proof -
  assume "file_stem n = i"
  then have "n = i \<or> (\<exists>b. rsplit_once dot n = Some (i, b))"
    by (auto simp: file_stem_def split: option.splits if_splits)
  moreover have "\<exists>r. n = i @ r" if once: "rsplit_once dot n = Some (i, b)" for b
  proof -
    obtain u v where "split_once dot (rev n) = Some (u, v)" "i = rev v"
      using once unfolding rsplit_once_def by auto
    then have "rev n = u @ dot # rev i" by (simp add: split_once_Some)
    then have "n = i @ dot # rev u" by (metis append.assoc append_Cons append_Nil rev.simps(2) rev_append rev_rev_ident)
    then show ?thesis by blast
  qed
  ultimately show ?thesis by (auto simp: starts_with_iff)
qed

lemma write_new:
  "plain_disk env \<Longrightarrow> file_named n dir = None \<Longrightarrow> write_file env what n data dir =
     (Inr (), dir\<lparr>md_files := md_files dir @
        [\<lparr>df_name = n, df_bytes = data, df_modified = md_now dir, df_private = False\<rparr>]\<rparr>)"
  by (simp add: write_file_def plain_disk_def)

lemma unused_names: "unused i dir \<Longrightarrow> file_named (i @ r) dir = None"
  by (auto simp: unused_def file_named_def find_None_iff)

text \<open>The directory after a file and its metadata are stored.\<close>

lemma store_unscanned_dir:
  assumes "plain_disk env" and "unused i dir" and "md_ids dir (md_drawn dir) = i"
    and "store_unscanned env ms name mime data dir = (Inr mf, dir1)"
  defines "path \<equiv> i @ ''.'' @ safe_extension_for_mime mime"
  shows "fi_id mf = i \<and> fi_path mf = path \<and> md_files dir1 = md_files dir @
     [\<lparr>df_name = path, df_bytes = data, df_modified = md_now dir, df_private = True\<rparr>,
      \<lparr>df_name = metadata_path_for path,
       df_bytes = mv_meta_json env \<lparr>mm_original_name = sanitize_filename (mv_alnum env) name, mm_mime_type = mime\<rparr>,
       df_modified = md_now dir, df_private = True\<rparr>]"
proof -
  have new: "file_named path (dir\<lparr>md_drawn := n\<rparr>) = None" "file_named (metadata_path_for path) (dir\<lparr>md_drawn := n\<rparr>) = None" for n
    using unused_names [OF assms(2)] by (simp_all add: path_def metadata_path_for_def file_named_def)
  have old: "map (\<lambda>f. if df_name f = n then f\<lparr>df_private := True\<rparr> else f) (md_files dir) = md_files dir"
    if "starts_with n i" for n
    using assms(2) that by (auto simp: unused_def intro!: map_idI)
  have start: "starts_with path i" "starts_with (metadata_path_for path) i"
    by (simp_all add: path_def metadata_path_for_def)
  have ne: "metadata_path_for path \<noteq> path" by (simp add: metadata_path_for_def)
  have p: "i @ dot # safe_extension_for_mime mime = path" by (simp add: path_def)
  show ?thesis
    using assms(4) new old [OF start(1)] old [OF start(2)] ne ne [symmetric]
    by (auto simp: store_unscanned_def andthen_def always_def fresh_id_def assms(3) p
        write_new [OF assms(1)] make_private_def file_named_def find_append Let_def simp del: map_map split: if_splits)
qed

lemma sanitized_visible:
  assumes "valid_utf8 name"
  shows "trim (sanitize_filename alnum name) \<noteq> []"
proof -
  obtain cs where cs: "\<forall>c\<in>set cs. valid_char c" "name = encode cs"
    using assms unfolding valid_utf8_def by blast
  obtain ks where ks: "sanitize_filename alnum name = (if ks = [] then ''unnamed'' else encode ks)"
      "\<forall>c\<in>set ks. valid_char c \<and> name_char alnum c"
    using kept_chars [OF cs] by blast
  have "\<not> is_ws b" if b: "b \<in> set (encode ks)" for b
  proof -
    obtain c where c: "c \<in> set ks" "b \<in> set (encode_char c)" using b by (auto simp: encode_def)
    have "(of_char b :: nat) \<ge> 128 \<or> name_char alnum (of_char b)"
      using encode_char_name [OF _ _ c(2)] ks(2) c(1) by blast
    then show ?thesis by (auto simp: is_ws_def name_char_def Let_def)
  qed
  moreover have "encode ks \<noteq> []" if "ks \<noteq> []"
    using that by (cases ks) (simp_all add: encode_def encode_char_def)
  ultimately show ?thesis
    unfolding ks(1) trim_Nil_iff by (auto simp: is_ws_def Let_def dest: hd_in_set)
qed

text \<open>
  C30. What is stored under a fresh identifier is read back under it: the bytes, the MIME type and the
  sanitized name.
\<close>

theorem media_read_back:
  assumes "plain_disk env" and "unused (md_ids dir (md_drawn dir)) dir"
    and "md_ids dir (md_drawn dir) \<noteq> []" and "dot \<notin> set (md_ids dir (md_drawn dir))"
    and "valid_utf8 name" and "trim mime \<noteq> []"
    and "store_media env ms name mime data dir = (Inr mf, dir1)"
  shows "read_media env (fi_id mf) dir1 =
     Inr (Some \<lparr>sm_bytes = data, sm_filename = sanitize_filename (mv_alnum env) name, sm_mime_type = mime\<rparr>)"
proof -
  define i where "i = md_ids dir (md_drawn dir)"
  define path where "path = i @ ''.'' @ safe_extension_for_mime mime"
  have "store_unscanned env ms name mime data dir = (Inr mf, dir1)"
    using assms(7) by (auto simp: store_media_def split: option.splits sum.splits if_splits)
  from store_unscanned_dir [OF assms(1,2) refl this]
  have mf: "fi_id mf = i" and files: "md_files dir1 = md_files dir @
     [\<lparr>df_name = path, df_bytes = data, df_modified = md_now dir, df_private = True\<rparr>,
      \<lparr>df_name = metadata_path_for path,
       df_bytes = mv_meta_json env \<lparr>mm_original_name = sanitize_filename (mv_alnum env) name, mm_mime_type = mime\<rparr>,
       df_modified = md_now dir, df_private = True\<rparr>]"
    by (simp_all add: i_def path_def)
  have "find (\<lambda>f. \<not> is_metadata_path (df_name f) \<and> file_stem (df_name f) = i) (md_files dir) = None"
    using assms(2) by (auto simp: find_None_iff unused_def i_def dest!: stem_prefix)
  moreover have "\<not> is_metadata_path path" "file_stem path = i"
    using not_metadata [of i mime] stem_of_stored [of i mime] assms(3,4) by (simp_all add: path_def i_def)
  moreover have "find (\<lambda>f. df_name f = i @ r) (md_files dir) = None" for r
    using unused_names [OF assms(2), of r] by (simp add: file_named_def i_def)
  then have "find (\<lambda>f. df_name f = path) (md_files dir) = None"
      "find (\<lambda>f. df_name f = metadata_path_for path) (md_files dir) = None"
    by (simp_all add: path_def metadata_path_for_def)
  moreover have "metadata_path_for path \<noteq> path" by (simp add: metadata_path_for_def)
  ultimately show ?thesis
    using assms(1,6) sanitized_visible [OF assms(5)] mf
    by (auto simp: read_media_def resolve_path_def read_dir_def read_file_def read_metadata_def plain_disk_def
        file_named_def files find_append not_blank_def)
qed

section \<open>What was scanned\<close>

lemma poll_from_completed:
  "poll_from reply deadline k now = Inr attrs \<Longrightarrow> va_status attrs = ''completed''"
proof (induction reply deadline k now rule: poll_from.induct)
  case (1 reply deadline k now)
  show ?case
    using 1(2) 1(1) by (subst (asm) poll_from.simps) (auto split: if_splits sum.splits)
qed

text \<open>
  A file that is stored through the scanner was analysed to the end with fewer than two findings,
  unless it was larger than what the service takes.
\<close>
lemma stored_file_scanned:
  assumes "me_scanner ms = Some (vt_scan vt)" and "store_media env ms name mime data dir = (Inr mf, dir1)"
  shows "max_vt_file_size < length data \<or>
     (\<exists>i attrs. upload_file vt name data = Inr i \<and> poll_analysis vt i = Inr attrs \<and>
        va_status attrs = ''completed'' \<and> flagged attrs < malicious_threshold)"
proof -
  have scanned: "\<exists>v. vt_scan vt name data = Inr v \<and> sv_safe v"
    using assms by (auto simp: store_media_def split: sum.splits if_splits)
  show ?thesis
  proof (cases "max_vt_file_size < length data")
    case False
    then obtain i where i: "upload_file vt name data = Inr i" and v: "\<exists>v. map_sum id vt_verdict (poll_analysis vt i) = Inr v \<and> sv_safe v"
      using scanned by (auto simp: vt_scan_def split: sum.splits)
    from v obtain attrs where "poll_analysis vt i = Inr attrs" "sv_safe (vt_verdict attrs)"
      by (cases "poll_analysis vt i") auto
    then show ?thesis
      using i poll_from_completed by (auto simp: vt_verdict_def poll_analysis_def Let_def)
  qed simp
qed

text \<open>A disk whose operations succeed, an identifier, and a service that finds nothing.\<close>

fun meta_from :: "string \<Rightarrow> u8 list \<Rightarrow> string + media_metadata" where
  "meta_from n [] = Inl ''EOF''"
| "meta_from n (m # r) =
     (if m \<noteq> 0 then Inr \<lparr>mm_original_name = n, mm_mime_type = map (\<lambda>x. char_of (unat x)) r\<rparr>
      else (case r of [] \<Rightarrow> Inl ''EOF'' | x # q \<Rightarrow> meta_from (n @ [char_of (unat x)]) q))"

definition sample_env :: media_env where
  "sample_env =
     \<lparr>mv_alnum = \<lambda>_. False,
      mv_meta_json = \<lambda>m. concat (map (\<lambda>c. [0, of_nat (of_char c)]) (mm_original_name m)) @
        1 # map (\<lambda>c. of_nat (of_char c)) (mm_mime_type m),
      mv_json_meta = meta_from [], mv_fault = \<lambda>_ _ _. None\<rparr>"

definition sample_dir :: media_dir where
  "sample_dir = \<lparr>md_files = [], md_now = 0, md_ids = \<lambda>_. ''id'', md_drawn = 0\<rparr>"

definition sample_service :: vt_service where
  "sample_service =
     \<lparr>vt_upload = \<lambda>_ _. Reply ''a'',
      vt_poll = \<lambda>_ k. (10, Reply \<lparr>va_status = if k = 0 then ''queued'' else ''completed'',
        va_stats = \<lparr>vs_malicious = Some 1, vs_suspicious = None, vs_undetected = Some 60, vs_harmless = None\<rparr>,
        va_results = []\<rparr>)\<rparr>"

definition sample_media :: media_store where
  "sample_media = \<lparr>me_max_file_size = 1000, me_ttl_hours = 2, me_scanner = Some (vt_scan sample_service)\<rparr>"

lemma byte_char: "char_of (unat (of_nat (of_char c) :: u8)) = c"
proof -
  have "unat (of_nat (of_char c) :: u8) = of_char c" by (rule unat_of_nat_small) simp
  then show ?thesis by simp
qed

lemma meta_from_json:
  "meta_from n (concat (map (\<lambda>c. [0, of_nat (of_char c)]) xs) @ 1 # map (\<lambda>c. of_nat (of_char c)) ms) =
     Inr \<lparr>mm_original_name = n @ xs, mm_mime_type = ms\<rparr>"
  by (induction xs arbitrary: n) (simp_all add: byte_char comp_def)

lemma sample_disk: "plain_disk sample_env"
  by (simp add: plain_disk_def sample_env_def meta_from_json)

lemma sample_poll: "\<exists>attrs. poll_analysis sample_service ''a'' = Inr attrs \<and> flagged attrs = 1"
  unfolding poll_analysis_def
  by (subst poll_from.simps, subst poll_from.simps)
    (simp add: sample_service_def poll_result_def analysis_timeout_def poll_interval_def flagged_def or_0_def)

lemma sample_stored:
  "\<exists>mf dir1. store_media sample_env sample_media ''a.png'' ''image/png'' [1, 2] sample_dir = (Inr mf, dir1)"
proof -
  obtain attrs where "poll_analysis sample_service ''a'' = Inr attrs" "flagged attrs = 1"
    using sample_poll by blast
  then have "sv_safe v" if "vt_scan sample_service ''a.png'' [1, 2] = Inr v" for v
    using that by (auto simp: vt_scan_def upload_file_def sample_service_def vt_verdict_def malicious_threshold_def Let_def split: if_splits)
  moreover have "\<exists>v. vt_scan sample_service ''a.png'' [1, 2] = Inr v"
    using \<open>poll_analysis sample_service ''a'' = Inr attrs\<close>
    by (simp add: vt_scan_def upload_file_def max_vt_file_size_def) (simp add: sample_service_def)
  ultimately obtain v where "vt_scan sample_service ''a.png'' [1, 2] = Inr v" "sv_safe v" by blast
  then show ?thesis
    by (simp add: store_media_def sample_media_def store_unscanned_def andthen_def always_def fresh_id_def
        write_file_def sample_env_def Let_def)
qed

lemma stored_file_scanned_witness:
  "\<exists>i attrs. upload_file sample_service ''a.png'' [1, 2] = Inr i \<and> poll_analysis sample_service i = Inr attrs \<and>
     flagged attrs < malicious_threshold"
proof -
  obtain mf dir1 where s: "store_media sample_env sample_media ''a.png'' ''image/png'' [1, 2] sample_dir = (Inr mf, dir1)"
    using sample_stored by blast
  have "me_scanner sample_media = Some (vt_scan sample_service)" by (simp add: sample_media_def)
  from stored_file_scanned [OF this s] show ?thesis by (auto simp: max_vt_file_size_def)
qed

theorem media_read_back_witness:
  "\<exists>mf dir1. store_media sample_env sample_media ''a.png'' ''image/png'' [1, 2] sample_dir = (Inr mf, dir1) \<and>
     read_media sample_env (fi_id mf) dir1 =
       Inr (Some \<lparr>sm_bytes = [1, 2], sm_filename = sanitize_filename (mv_alnum sample_env) ''a.png'',
                  sm_mime_type = ''image/png''\<rparr>)"
proof -
  obtain mf dir1 where s: "store_media sample_env sample_media ''a.png'' ''image/png'' [1, 2] sample_dir = (Inr mf, dir1)"
    using sample_stored by blast
  have "encode [97, 46, 112, 110, 103] = ''a.png''" by code_simp
  moreover have "\<forall>c\<in>set [97, 46, 112, 110, 103 :: nat]. valid_char c" by (simp add: valid_char_def)
  ultimately have v: "valid_utf8 ''a.png''" unfolding valid_utf8_def by metis
  have "trim ''image/png'' \<noteq> []" by code_simp
  then show ?thesis
    using media_read_back [OF sample_disk _ _ _ v _ s] s by (auto simp: sample_dir_def unused_def)
qed

text \<open>Nothing reaches the disk when the scan fails or finds something.\<close>

lemma rejected_file_not_stored:
  "me_scanner ms = Some scan \<Longrightarrow> (\<forall>v. scan name data = Inr v \<longrightarrow> \<not> sv_safe v) \<Longrightarrow>
     snd (store_media env ms name mime data dir) = dir"
  by (auto simp: store_media_def split: sum.splits)

text \<open>The loop asks at most twenty-four times: later answers do not matter.\<close>

lemma poll_from_bound:
  "\<forall>k < n. r1 k = r2 k \<Longrightarrow> deadline \<le> now + (n - k) * poll_interval \<Longrightarrow> k \<le> n \<Longrightarrow>
     poll_from r1 deadline k now = poll_from r2 deadline k now"
proof (induction r1 deadline k now rule: poll_from.induct)
  case (1 r1 deadline k now)
  show ?case
  proof (cases "deadline \<le> now")
    case False
    then have k: "k < n" using 1(3,4) by (cases "k = n") auto
    then have "n - k = Suc (n - Suc k)" by simp
    then have "deadline \<le> now + fst (r1 k) + poll_interval + (n - Suc k) * poll_interval"
      using 1(3) by (simp add: algebra_simps)
    then show ?thesis
      using 1(1) [OF False] 1(2) k False
      by (subst (1 2) poll_from.simps) (auto split: sum.split)
  qed (simp add: poll_from.simps)
qed

text \<open>The scan ends after at most twenty-four questions, whatever the service answers.\<close>
lemma scan_ends:
  assumes "\<forall>k < 24. vt_poll vt i k = vt_poll vt2 i k"
  shows "poll_analysis vt i = poll_analysis vt2 i"
  unfolding poll_analysis_def
  by (rule poll_from_bound [where n = 24]) (use assms in \<open>auto simp: analysis_timeout_def poll_interval_def\<close>)

lemma scan_ends_witness:
  "poll_analysis sample_service ''a'' =
     poll_analysis (sample_service\<lparr>vt_poll := \<lambda>i k. if k < 24 then vt_poll sample_service i k else (0, NoReply ''e'')\<rparr>) ''a''"
  by (rule scan_ends) simp

section \<open>Expired files\<close>

definition expired_media :: "media_store \<Rightarrow> media_dir \<Rightarrow> disk_file \<Rightarrow> bool" where
  "expired_media ms dir f \<longleftrightarrow> \<not> is_metadata_path (df_name f) \<and> outlived ms dir f"

lemma remove_named_parts [simp]:
  "md_now (remove_named n dir) = md_now dir" "md_files (remove_named n dir) = filter (\<lambda>f. df_name f \<noteq> n) (md_files dir)"
  by (simp_all add: remove_named_def)

lemma outlived_remove [simp]: "outlived ms (remove_named n dir) f = outlived ms dir f"
  by (simp add: outlived_def)

lemma try_remove_files:
  "plain_disk env \<Longrightarrow> md_files (snd (try_remove env n dir)) = filter (\<lambda>f. df_name f \<noteq> n) (md_files dir)"
  by (auto simp: try_remove_def plain_disk_def file_named_def find_None_iff filter_id_conv)

lemma try_remove_now [simp]: "md_now (snd (try_remove env n dir)) = md_now dir"
  by (simp add: try_remove_def)

lemma metadata_name: "is_metadata_path (metadata_path_for n)"
  by (auto simp: is_metadata_path_def metadata_path_for_def ends_with_iff)

lemma cleanup_files_set:
  assumes "plain_disk env" and "\<forall>f\<in>set fs. \<not> is_metadata_path (df_name f) \<longrightarrow> f \<in> set (md_files dir)"
    and "distinct (map df_name fs)"
  shows "set (md_files (snd (cleanup_files env ms fs n dir))) =
     {f \<in> set (md_files dir). \<forall>g\<in>set fs. expired_media ms dir g \<longrightarrow>
        df_name f \<noteq> df_name g \<and> df_name f \<noteq> metadata_path_for (df_name g)}"
  using assms(2,3)
proof (induction fs arbitrary: n dir)
  case (Cons g fs)
  show ?case
  proof (cases "expired_media ms dir g")
    case False
    then have "cleanup_files env ms (g # fs) n dir = cleanup_files env ms fs n dir"
      by (simp add: expired_media_def)
    then show ?thesis using Cons False by auto
  next
    case True
    then have g: "\<not> is_metadata_path (df_name g)" "outlived ms dir g" "g \<in> set (md_files dir)"
      using Cons.prems(1) by (auto simp: expired_media_def)
    define dir2 where "dir2 = snd (try_remove env (metadata_path_for (df_name g)) (remove_named (df_name g) dir))"
    have "file_named (df_name g) dir \<noteq> None" using g(3) by (auto simp: file_named_def find_None_iff)
    then have "try_remove env (df_name g) dir = (True, remove_named (df_name g) dir)"
      using assms(1) by (simp add: try_remove_def plain_disk_def)
    then have step: "cleanup_files env ms (g # fs) n dir = cleanup_files env ms fs (n + 1) dir2"
      using g(1,2) by (simp add: dir2_def)
    have files: "set (md_files dir2) =
        {f \<in> set (md_files dir). df_name f \<noteq> df_name g \<and> df_name f \<noteq> metadata_path_for (df_name g)}"
      using try_remove_files [OF assms(1)] by (auto simp: dir2_def)
    have same: "expired_media ms dir2 = expired_media ms dir"
      by (simp add: fun_eq_iff expired_media_def outlived_def dir2_def)
    have "set (md_files (snd (cleanup_files env ms fs (n + 1) dir2))) =
        {f \<in> set (md_files dir2). \<forall>g\<in>set fs. expired_media ms dir2 g \<longrightarrow>
           df_name f \<noteq> df_name g \<and> df_name f \<noteq> metadata_path_for (df_name g)}"
    proof (rule Cons.IH)
      show "\<forall>f\<in>set fs. \<not> is_metadata_path (df_name f) \<longrightarrow> f \<in> set (md_files dir2)"
      proof (intro ballI impI)
        fix f assume f: "f \<in> set fs" "\<not> is_metadata_path (df_name f)"
        then have "f \<in> set (md_files dir)" using Cons.prems(1) by simp
        moreover have "df_name g \<notin> df_name ` set fs" using Cons.prems(2) by simp
        then have "df_name f \<noteq> df_name g" using f(1) by (metis image_eqI)
        moreover have "df_name f \<noteq> metadata_path_for (df_name g)"
          using f(2) metadata_name [of "df_name g"] by metis
        ultimately show "f \<in> set (md_files dir2)" unfolding files by blast
      qed
      show "distinct (map df_name fs)" using Cons.prems(2) by simp
    qed
    then show ?thesis
      unfolding step same files by (simp only: list.set ball_simps mem_Collect_eq True) blast
  qed
qed simp

text \<open>The cleanup removes the expired files with their metadata and nothing else.\<close>
lemma cleanup_exact:
  assumes "plain_disk env" and "distinct (map df_name (md_files dir))"
  shows "set (md_files (snd (cleanup_media env ms dir))) =
     {f \<in> set (md_files dir). \<not> (\<exists>g\<in>set (md_files dir). expired_media ms dir g \<and>
        (df_name f = df_name g \<or> df_name f = metadata_path_for (df_name g)))}"
proof -
  have "set (md_files (snd (cleanup_media env ms dir))) =
      set (md_files (snd (cleanup_files env ms (md_files dir) 0 dir)))"
    using assms(1) by (simp add: cleanup_media_def read_dir_def plain_disk_def split: prod.split)
  also have "\<dots> = {f \<in> set (md_files dir). \<forall>g\<in>set (md_files dir). expired_media ms dir g \<longrightarrow>
        df_name f \<noteq> df_name g \<and> df_name f \<noteq> metadata_path_for (df_name g)}"
    by (rule cleanup_files_set) (use assms in simp_all)
  finally show ?thesis by blast
qed

lemma cleanup_exact_witness:
  "set (md_files (snd (cleanup_media sample_env sample_media sample_dir))) = {}"
proof -
  have "distinct (map df_name (md_files sample_dir))" by (simp add: sample_dir_def)
  from cleanup_exact [OF sample_disk this] show ?thesis by (simp add: sample_dir_def)
qed

text \<open>A file whose metadata cannot be written stays on the disk, without the restriction to its owner.\<close>

lemma failed_metadata_leaves_file:
  assumes "mv_fault env = (\<lambda>op n _. if op = ''write'' \<and> is_metadata_path n then Some e else None)"
    and "unused i dir" and "md_ids dir (md_drawn dir) = i" and "dot \<notin> set i"
    and "length data \<le> unat (me_max_file_size ms)"
  shows "\<lparr>df_name = i @ ''.'' @ safe_extension_for_mime mime, df_bytes = data, df_modified = md_now dir, df_private = False\<rparr>
     \<in> set (md_files (snd (store_unscanned env ms name mime data dir)))"
proof -
  have "file_named (i @ r) (dir\<lparr>md_drawn := n\<rparr>) = None" for r n
    using unused_names [OF assms(2), of r] by (simp add: file_named_def)
  then show ?thesis
    using assms(5) metadata_name not_metadata [OF assms(4), of mime]
    by (auto simp: store_unscanned_def andthen_def always_def fresh_id_def assms(1,3) write_file_def Let_def)
qed

end
