(* ===== verification/Model_Wire.thy ===== *)
theory Model_Wire
  imports Sse Json Retry Catalog
begin

text \<open>
  What the clients of the model providers share (\<open>frankclaw-models\<close>): the deltas of a stream, the
  access to JSON by index, the exchange over HTTP, the loop that feeds the events of a stream to a
  client, and the errors of a provider (\<open>anthropic.rs\<close>, \<open>classify_provider_error\<close>). The network, the
  JSON library and the text of numbers are parameters.
\<close>

section \<open>Values\<close>

datatype stream_delta =
    DeltaText string
  | ToolCallStart string string
  | ToolCallDelta string string
  | ToolCallEnd string
  | DeltaDone "usage option"
  | DeltaError string

text \<open>\<open>value["key"]\<close> and \<open>value[0]\<close>: what is missing is null.\<close>

definition json_at :: "json \<Rightarrow> string \<Rightarrow> json" where
  "json_at v k = (case json_get v k of Some x \<Rightarrow> x | None \<Rightarrow> JNull)"

fun json_nth :: "json \<Rightarrow> nat \<Rightarrow> json option" where
  "json_nth (JArray xs) n = (if n < length xs then Some (xs ! n) else None)"
| "json_nth _ n = None"

definition json_path :: "json \<Rightarrow> string list \<Rightarrow> json" where
  "json_path v ks = foldl json_at v ks"

definition str_or :: "string \<Rightarrow> json \<Rightarrow> string" where
  "str_or d v = (case as_str v of Some s \<Rightarrow> s | None \<Rightarrow> d)"

text \<open>\<open>as_u64().unwrap_or(0) as u32\<close> and \<open>as_u64().map(|v| v as u32)\<close>\<close>

definition u32_of :: "json \<Rightarrow> u32 option" where
  "u32_of v = map_option ucast (as_u64 v)"

definition u32_or_0 :: "json \<Rightarrow> u32" where
  "u32_or_0 v = (case u32_of v of Some n \<Rightarrow> n | None \<Rightarrow> 0)"

primrec role_text :: "role \<Rightarrow> string" where
  "role_text System = ''system''"
| "role_text User = ''user''"
| "role_text Assistant = ''assistant''"
| "role_text Tool = ''tool''"

definition no_usage :: usage where
  "no_usage =
     \<lparr>us_input_tokens = 0, us_output_tokens = 0, us_cache_read_tokens = None, us_cache_write_tokens = None\<rparr>"

text \<open>
  The libraries: the parser and printer of JSON, the JSON of an \<open>f32\<close> and of the serialized schema of a
  tool, and the conversion of the bytes of a chunk.
\<close>

record wire =
  wi_parse :: "string \<Rightarrow> string + json"
  wi_show :: "json \<Rightarrow> string"
  wi_float :: "u32 \<Rightarrow> json"
  wi_schema :: "string \<Rightarrow> json"
  wi_lossy :: "string \<Rightarrow> string"

text \<open>The entry of a \<open>BTreeMap\<close> by number, kept in order of the keys.\<close>

fun bt_upsert :: "nat \<Rightarrow> 'a \<Rightarrow> ('a \<Rightarrow> 'a) \<Rightarrow> (nat \<times> 'a) list \<Rightarrow> (nat \<times> 'a) list" where
  "bt_upsert k d f [] = [(k, f d)]"
| "bt_upsert k d f ((j, x) # r) =
     (if k = j then (j, f x) # r else if k < j then (k, f d) # (j, x) # r else (j, x) # bt_upsert k d f r)"

definition bt_modify :: "nat \<Rightarrow> ('a \<Rightarrow> 'a) \<Rightarrow> (nat \<times> 'a) list \<Rightarrow> (nat \<times> 'a) list" where
  "bt_modify k f m = map (\<lambda>(j, x). (j, if j = k then f x else x)) m"

section \<open>The exchange\<close>

record model_reply =
  mr_status :: nat
  mr_reason :: string
  mr_body :: string
  mr_json :: "string + json"
  mr_chunks :: "(string + string) list"

text \<open>A request of a client: the address, the headers and the body.\<close>

record model_post =
  mp_url :: string
  mp_headers :: "(string \<times> string) list"
  mp_body :: json

type_synonym network = "model_post \<Rightarrow> string + model_reply"

definition reply_success :: "model_reply \<Rightarrow> bool" where
  "reply_success r \<longleftrightarrow> 200 \<le> mr_status r \<and> mr_status r < 300"

definition status_text :: "model_reply \<Rightarrow> string" where
  "status_text r = show_nat (mr_status r) @ '' '' @ mr_reason r"

section \<open>Errors of a provider (anthropic.rs)\<close>

definition is_context_overflow :: "string \<Rightarrow> bool" where
  "is_context_overflow body \<longleftrightarrow>
     list_ex (contains body)
       [''context_length_exceeded'', ''prompt is too long'', ''maximum context length'', ''context window'',
        ''token limit'', ''too many tokens'']"

definition classify_provider_error :: "model_reply \<Rightarrow> frank_error" where
  "classify_provider_error r =
     (let body = mr_body r; lower = to_lower body
      in if is_context_overflow lower
         then ModelProvider (''context length exceeded (HTTP '' @ status_text r @ ''): '' @ body)
         else if mr_status r = 401 then ModelProvider (''authentication failed (invalid API key): '' @ body)
         else if mr_status r = 402 then
           (if contains lower ''rate_limit'' \<or> contains lower ''spend''
            then ModelProvider (''rate limit spend cap reached (retryable): '' @ body)
            else ModelProvider (''billing error (out of credits, non-retryable): '' @ body))
         else if mr_status r = 429 then ModelProvider (''rate limited (HTTP 429): '' @ body)
         else ModelProvider (''HTTP '' @ status_text r @ '': '' @ body))"

section \<open>The loop of a stream\<close>

text \<open>
  The events of a chunk: the deltas of each are sent before the next is looked at, and the client
  says when it is done. The result is the deltas that were sent with the state or the error.
\<close>

type_synonym 's event_handler = "sse_event \<Rightarrow> 's \<Rightarrow> frank_error + (stream_delta list \<times> 's)"

fun feed_events ::
  "'s event_handler \<Rightarrow> ('s \<Rightarrow> bool) \<Rightarrow> sse_event list \<Rightarrow> 's \<Rightarrow> stream_delta list \<times> (frank_error + 's)" where
  "feed_events handle is_done [] s = ([], Inr s)"
| "feed_events handle is_done (e # es) s =
     (case handle e s of
        Inl err \<Rightarrow> ([], Inl err)
      | Inr (ds, s1) \<Rightarrow>
          if is_done s1 then (ds, Inr s1)
          else (case feed_events handle is_done es s1 of (ds2, r) \<Rightarrow> (ds @ ds2, r)))"

fun feed_chunks ::
  "'s event_handler \<Rightarrow> ('s \<Rightarrow> bool) \<Rightarrow> (string \<Rightarrow> string) \<Rightarrow> string \<Rightarrow> (string + string) list \<Rightarrow>
    sse_decoder \<Rightarrow> 's \<Rightarrow> stream_delta list \<times> (frank_error + sse_decoder \<times> 's)" where
  "feed_chunks handle is_done lossy reading [] d s = ([], Inr (d, s))"
| "feed_chunks handle is_done lossy reading (Inl e # cs) d s =
     ([], Inl (ModelProvider (reading @ '': '' @ e)))"
| "feed_chunks handle is_done lossy reading (Inr c # cs) d s =
     (case sse_push lossy c d of (es, d1) \<Rightarrow>
        (case feed_events handle is_done es s of
           (ds, Inl err) \<Rightarrow> (ds, Inl err)
         | (ds, Inr s1) \<Rightarrow>
             if is_done s1 then (ds, Inr (d1, s1))
             else (case feed_chunks handle is_done lossy reading cs d1 s1 of (ds2, r) \<Rightarrow> (ds @ ds2, r))))"

text \<open>The end of the stream: what the decoder still holds, the response of the state, and the last delta.\<close>

definition read_stream ::
  "'s event_handler \<Rightarrow> ('s \<Rightarrow> bool) \<Rightarrow> ('s \<Rightarrow> frank_error + completion_response) \<Rightarrow> (string \<Rightarrow> string) \<Rightarrow>
    string \<Rightarrow> (string + string) list \<Rightarrow> 's \<Rightarrow> stream_delta list \<times> (frank_error + completion_response)" where
  "read_stream handle is_done finish lossy reading chunks s0 =
     (case feed_chunks handle is_done lossy reading chunks sse_new s0 of
        (ds, Inl e) \<Rightarrow> (ds, Inl e)
      | (ds, Inr (d, s)) \<Rightarrow>
          (case (if is_done s then ([], Inr s)
                 else (case fst (sse_finish d) of
                         None \<Rightarrow> ([], Inr s)
                       | Some e \<Rightarrow> (case handle e s of Inl err \<Rightarrow> ([], Inl err) | Inr (ds2, s2) \<Rightarrow> (ds2, Inr s2)))) of
             (ds2, Inl err) \<Rightarrow> (ds @ ds2, Inl err)
           | (ds2, Inr s2) \<Rightarrow>
               (case finish s2 of
                  Inl err \<Rightarrow> (ds @ ds2, Inl err)
                | Inr resp \<Rightarrow> (ds @ ds2 @ [DeltaDone (Some (rs_usage resp))], Inr resp))))"

text \<open>One call of a provider: the exchange, its errors, and the stream or the body.\<close>

definition exchange ::
  "network \<Rightarrow> string \<Rightarrow> model_post \<Rightarrow> (model_reply \<Rightarrow> stream_delta list \<times> (frank_error + 'a)) \<Rightarrow>
    stream_delta list \<times> (frank_error + 'a)" where
  "exchange net failing post read =
     (case net post of
        Inl e \<Rightarrow> ([], Inl (ModelProvider (failing @ '': '' @ e)))
      | Inr r \<Rightarrow> if \<not> reply_success r then ([], Inl (classify_provider_error r)) else read r)"

definition read_body ::
  "string \<Rightarrow> (json \<Rightarrow> frank_error + completion_response) \<Rightarrow> model_reply \<Rightarrow>
    stream_delta list \<times> (frank_error + completion_response)" where
  "read_body failing parse r =
     (case mr_json r of
        Inl e \<Rightarrow> ([], Inl (ModelProvider (failing @ '': '' @ e)))
      | Inr v \<Rightarrow> ([], parse v))"

section \<open>Chunks and events\<close>

lemma feed_events_append:
  assumes "\<not> is_done s"
  shows "feed_events handle is_done (es @ es2) s =
     (case feed_events handle is_done es s of
        (ds, Inl e) \<Rightarrow> (ds, Inl e)
      | (ds, Inr s1) \<Rightarrow>
          if is_done s1 then (ds, Inr s1)
          else (case feed_events handle is_done es2 s1 of (ds2, r) \<Rightarrow> (ds @ ds2, r)))"
  using assms by (induction es arbitrary: s) (auto split: sum.splits prod.splits)

text \<open>The chunks of a stream make one sequence of events.\<close>

lemma feed_chunks_events:
  assumes "feed_events handle is_done (fst (push_all lossy cs d)) s = (ds, Inr s1)" and "is_done s1" and "\<not> is_done s"
  shows "\<exists>d1. feed_chunks handle is_done lossy reading (map Inr cs) d s = (ds, Inr (d1, s1))"
  using assms
proof (induction cs arbitrary: d s ds)
  case (Cons c cs)
  obtain es d2 where push: "sse_push lossy c d = (es, d2)" by fastforce
  obtain ds2 r where first: "feed_events handle is_done es s = (ds2, r)" by fastforce
  have all: "fst (push_all lossy (c # cs) d) = es @ fst (push_all lossy cs d2)"
    using push by (simp split: prod.splits)
  obtain s2 where r: "r = Inr s2"
    using Cons.prems(1,3) unfolding all by (cases r) (simp_all add: feed_events_append first)
  show ?case
  proof (cases "is_done s2")
    case True
    then show ?thesis
      using Cons.prems(1,3) unfolding all by (auto simp: feed_events_append first r push)
  next
    case False
    then obtain ds3 where "feed_events handle is_done (fst (push_all lossy cs d2)) s2 = (ds3, Inr s1)" "ds = ds2 @ ds3"
      using Cons.prems(1,3) unfolding all by (auto simp: feed_events_append first r split: prod.splits)
    with Cons.IH [OF this(1) Cons.prems(2) False] show ?thesis
      using False by (auto simp: push first r)
  qed
qed simp

lemma read_stream_events:
  assumes "list_all event_ok es" and "concat chunks = concat (map encode_event es)"
    and "list_all (\<lambda>c. lossy c = c) chunks"
    and "feed_events handle is_done (map decoded es) s = (ds, Inr s1)" and "is_done s1" and "\<not> is_done s"
  shows "snd (read_stream handle is_done finish lossy reading (map Inr chunks) s) = finish s1"
proof -
  have "fst (push_all lossy chunks sse_new) = map decoded es"
    using push_all_concat [OF assms(3), of sse_new] drain_events [OF assms(1)] assms(2)
    by (simp add: sse_new_def)
  then obtain d1 where "feed_chunks handle is_done lossy reading (map Inr chunks) sse_new s = (ds, Inr (d1, s1))"
    using feed_chunks_events [of handle is_done lossy chunks sse_new s ds s1 reading] assms(4-6) by auto
  then show ?thesis using assms(5) by (simp add: read_stream_def split: sum.split)
qed

section \<open>Which errors are retried\<close>

lemma classified_text:
  "\<exists>m. classify_provider_error r = ModelProvider m"
  by (auto simp: classify_provider_error_def Let_def)

text \<open>
  The chain does not repeat a call that failed for its key or for the length of its context, whatever
  the provider writes; a call above the rate is repeated unless the body has a word that forbids it.
\<close>
lemma provider_errors_retried:
  "(mr_status r = 401 \<or> is_context_overflow (to_lower (mr_body r)) \<longrightarrow>
      \<not> is_retryable_error (error_text (classify_provider_error r))) \<and>
   (mr_status r = 429 \<and> \<not> is_context_overflow (to_lower (mr_body r)) \<and>
      \<not> list_ex (contains (to_lower (error_text (classify_provider_error r)))) non_retryable_patterns \<longrightarrow>
      is_retryable_error (error_text (classify_provider_error r)))"
proof (intro conjI impI)
  assume a: "mr_status r = 401 \<or> is_context_overflow (to_lower (mr_body r))"
  show "\<not> is_retryable_error (error_text (classify_provider_error r))"
  proof (cases "is_context_overflow (to_lower (mr_body r))")
    case True
    have "to_lower (error_text (classify_provider_error r)) =
        ''model provider error: '' @ ''context length'' @ to_lower ('' exceeded (HTTP '' @ status_text r @ ''): '' @ mr_body r)"
      using True by (simp add: classify_provider_error_def to_lower_def ascii_lower_def)
    then have "contains (to_lower (error_text (classify_provider_error r))) ''context length''"
      by (metis contains_mid)
    then show ?thesis by (rule not_retryable_pattern [rotated]) (simp add: non_retryable_patterns_def)
  next
    case False
    have "to_lower (error_text (classify_provider_error r)) =
        ''model provider error: '' @ ''auth'' @ to_lower (''entication failed (invalid API key): '' @ mr_body r)"
      using a False by (simp add: classify_provider_error_def to_lower_def ascii_lower_def)
    then have "contains (to_lower (error_text (classify_provider_error r))) ''auth''"
      by (metis contains_mid)
    then show ?thesis by (rule not_retryable_pattern [rotated]) (simp add: non_retryable_patterns_def)
  qed
next
  assume a: "mr_status r = 429 \<and> \<not> is_context_overflow (to_lower (mr_body r)) \<and>
      \<not> list_ex (contains (to_lower (error_text (classify_provider_error r)))) non_retryable_patterns"
  then have "classify_provider_error r = ModelProvider (''rate limited (HTTP 429): '' @ mr_body r)"
    by (simp add: classify_provider_error_def Let_def)
  then have "to_lower (error_text (classify_provider_error r)) =
      to_lower ''model provider error: rate limited (HTTP '' @ ''429'' @ to_lower (''): '' @ mr_body r)"
    by (simp add: to_lower_def ascii_lower_def)
  then have "contains (to_lower (error_text (classify_provider_error r))) ''429''"
    by (metis contains_mid)
  then show "is_retryable_error (error_text (classify_provider_error r))"
    using a by (simp add: is_retryable_error_def Let_def retryable_patterns_def)
qed

text \<open>An error that is called non-retryable is repeated when the body mentions a connection.\<close>

lemma billing_error_retried:
  "is_retryable_error (error_text (classify_provider_error
     \<lparr>mr_status = 402, mr_reason = ''Payment Required'', mr_body = ''close the connection'', mr_json = Inl [],
      mr_chunks = []\<rparr>))"
  by code_simp

lemma provider_errors_retried_witness:
  "\<not> is_retryable_error (error_text (classify_provider_error
     \<lparr>mr_status = 401, mr_reason = ''Unauthorized'', mr_body = ''429 try again'', mr_json = Inl [], mr_chunks = []\<rparr>))"
  using provider_errors_retried [of "\<lparr>mr_status = 401, mr_reason = ''Unauthorized'', mr_body = ''429 try again'',
     mr_json = Inl [], mr_chunks = []\<rparr>"] by simp

end
