(* ===== verification/Openai_Wire.thy ===== *)
theory Openai_Wire
  imports Model_Wire
begin

text \<open>
  The chat completions protocol (\<open>frankclaw-models/src/openai_compat.rs\<close>) and the two clients that
  speak it, \<open>openai.rs\<close> and \<open>ollama.rs\<close>: the body of a request, the response, and the events of a
  stream. The lemmas show what the deltas of a stream say about the response, and that a streamed
  answer is read as the plain one.
\<close>

section \<open>Requests\<close>

definition openai_call :: "tool_call \<Rightarrow> json" where
  "openai_call tc =
     JObject
       [(''id'', JString (tc_id tc)), (''type'', JString ''function''),
        (''function'', JObject [(''name'', JString (tc_name tc)), (''arguments'', JString (tc_arguments tc))])]"

definition openai_image :: "image_content \<Rightarrow> json" where
  "openai_image img =
     JObject
       [(''type'', JString ''image_url''),
        (''image_url'', JObject
          [(''url'', JString (''data:'' @ img_mime img @ '';base64,'' @ img_data img))])]"

definition openai_message :: "completion_message \<Rightarrow> json" where
  "openai_message msg =
     (if msg_role msg = Assistant \<and> msg_tool_calls msg \<noteq> []
      then JObject
        ([(''role'', JString ''assistant''), (''tool_calls'', JArray (map openai_call (msg_tool_calls msg)))] @
         (if msg_content msg = [] then [] else [(''content'', JString (msg_content msg))]))
      else if msg_role msg = Tool
      then JObject
        [(''role'', JString ''tool''),
         (''tool_call_id'', JString (case msg_tool_call_id msg of Some i \<Rightarrow> i | None \<Rightarrow> ''unknown'')),
         (''content'', JString (msg_content msg))]
      else if msg_images msg \<noteq> [] \<and> msg_role msg = User
      then JObject
        [(''role'', JString ''user''),
         (''content'', JArray
           (JObject [(''type'', JString ''text''), (''text'', JString (msg_content msg))] #
            map openai_image (msg_images msg)))]
      else JObject [(''role'', JString (role_text (msg_role msg))), (''content'', JString (msg_content msg))])"

definition openai_tool :: "wire \<Rightarrow> tool_def \<Rightarrow> json" where
  "openai_tool wi t =
     JObject
       [(''type'', JString ''function''),
        (''function'', JObject
          [(''name'', JString (td_name t)), (''description'', JString (td_description t)),
           (''parameters'', wi_schema wi (td_parameters t))])]"

definition opt_field :: "string \<Rightarrow> ('a \<Rightarrow> json) \<Rightarrow> 'a option \<Rightarrow> (string \<times> json) list" where
  "opt_field k f v = (case v of Some x \<Rightarrow> [(k, f x)] | None \<Rightarrow> [])"

primrec format_json :: "response_format \<Rightarrow> json" where
  "format_json FormatText = JObject [(''type'', JString ''text'')]"
| "format_json FormatJsonObject = JObject [(''type'', JString ''json_object'')]"

definition openai_messages :: "completion_request \<Rightarrow> json list" where
  "openai_messages rq =
     (case rq_system rq of
        Some s \<Rightarrow> [JObject [(''role'', JString ''system''), (''content'', JString s)]] | None \<Rightarrow> []) @
     map openai_message (rq_messages rq)"

definition openai_request_body :: "wire \<Rightarrow> completion_request \<Rightarrow> json" where
  "openai_request_body wi rq =
     JObject
       ([(''model'', JString (rq_model_id rq)), (''messages'', JArray (openai_messages rq))] @
        opt_field ''max_tokens'' (\<lambda>n. JUInt (ucast n)) (rq_max_tokens rq) @
        opt_field ''temperature'' (wi_float wi) (rq_temperature rq) @
        (if rq_tools rq = [] then [] else [(''tools'', JArray (map (openai_tool wi) (rq_tools rq)))]) @
        opt_field ''parallel_tool_calls'' JBool (rq_parallel_tool_calls rq) @
        opt_field ''seed'' JUInt (rq_seed rq) @
        opt_field ''response_format'' format_json (rq_response_format rq) @
        opt_field ''reasoning_effort'' JString (rq_reasoning_effort rq))"

section \<open>Responses\<close>

definition openai_usage :: "json \<Rightarrow> usage" where
  "openai_usage data =
     no_usage\<lparr>us_input_tokens := u32_or_0 (json_path data [''usage'', ''prompt_tokens'']),
              us_output_tokens := u32_or_0 (json_path data [''usage'', ''completion_tokens''])\<rparr>"

definition openai_finish_reason :: "string option \<Rightarrow> finish_reason" where
  "openai_finish_reason reason =
     (if reason = Some ''stop'' then Stop
      else if reason = Some ''length'' then MaxTokens
      else if reason = Some ''tool_calls'' then ToolUse
      else if reason = Some ''content_filter'' then ContentFilter
      else Stop)"

definition openai_parsed_call :: "json \<Rightarrow> tool_call option" where
  "openai_parsed_call tc =
     (case (as_str (json_at tc ''id''), as_str (json_path tc [''function'', ''name''])) of
        (Some i, Some name) \<Rightarrow>
          Some \<lparr>tc_id = i, tc_name = name, tc_arguments = str_or ''{}'' (json_path tc [''function'', ''arguments''])\<rparr>
      | _ \<Rightarrow> None)"

definition openai_parse_response :: "json \<Rightarrow> frank_error + completion_response" where
  "openai_parse_response data =
     (case json_nth (json_at data ''choices'') 0 of
        None \<Rightarrow> Inl (ModelProvider ''no choices in response'')
      | Some choice \<Rightarrow>
          Inr \<lparr>rs_content = str_or [] (json_path choice [''message'', ''content'']),
               rs_tool_calls =
                 (case as_array (json_path choice [''message'', ''tool_calls'']) of
                    Some arr \<Rightarrow> List.map_filter openai_parsed_call arr | None \<Rightarrow> []),
               rs_usage = openai_usage data,
               rs_finish_reason = openai_finish_reason (as_str (json_at choice ''finish_reason''))\<rparr>)"

section \<open>Streams\<close>

record oa_call =
  oc_id :: string
  oc_name :: string
  oc_arguments :: string
  oc_started :: bool
  oc_ended :: bool

definition no_call :: oa_call where
  "no_call = \<lparr>oc_id = [], oc_name = [], oc_arguments = [], oc_started = False, oc_ended = False\<rparr>"

record oa_state =
  os_content :: string
  os_tool_calls :: "(nat \<times> oa_call) list"
  os_usage :: usage
  os_finish_reason :: finish_reason
  os_done :: bool

definition oa_new :: oa_state where
  "oa_new =
     \<lparr>os_content = [], os_tool_calls = [], os_usage = no_usage, os_finish_reason = Stop, os_done = False\<rparr>"

fun finish_calls :: "(nat \<times> oa_call) list \<Rightarrow> frank_error + tool_call list" where
  "finish_calls [] = Inr []"
| "finish_calls ((_, c) # cs) =
     (if trim (oc_id c) = [] \<or> trim (oc_name c) = []
      then Inl (ModelProvider ''streamed tool call missing id or name'')
      else map_sum id ((#) \<lparr>tc_id = oc_id c, tc_name = oc_name c, tc_arguments = oc_arguments c\<rparr>) (finish_calls cs))"

definition oa_finish :: "oa_state \<Rightarrow> frank_error + completion_response" where
  "oa_finish s =
     map_sum id (\<lambda>calls. \<lparr>rs_content = os_content s, rs_tool_calls = calls, rs_usage = os_usage s,
       rs_finish_reason = os_finish_reason s\<rparr>) (finish_calls (os_tool_calls s))"

text \<open>What a part of a call changes in its entry, and the deltas it causes.\<close>

definition named_call :: "json \<Rightarrow> oa_call \<Rightarrow> oa_call" where
  "named_call tc c =
     c\<lparr>oc_id := str_or (oc_id c) (json_at tc ''id''),
       oc_name := str_or (oc_name c) (json_path tc [''function'', ''name''])\<rparr>"

definition starts_call :: "oa_call \<Rightarrow> bool" where
  "starts_call c \<longleftrightarrow> \<not> oc_started c \<and> oc_id c \<noteq> [] \<and> oc_name c \<noteq> []"

definition started_call :: "oa_call \<Rightarrow> oa_call" where
  "started_call c = c\<lparr>oc_started := oc_started c \<or> starts_call c\<rparr>"

definition call_part :: "json \<Rightarrow> oa_call \<Rightarrow> oa_call" where
  "call_part tc c =
     (let c1 = started_call (named_call tc c)
      in c1\<lparr>oc_arguments := oc_arguments c1 @ str_or [] (json_path tc [''function'', ''arguments''])\<rparr>)"

definition call_deltas :: "json \<Rightarrow> oa_call \<Rightarrow> stream_delta list" where
  "call_deltas tc c =
     (let c1 = named_call tc c; a = str_or [] (json_path tc [''function'', ''arguments''])
      in (if starts_call c1 then [ToolCallStart (oc_id c1) (oc_name c1)] else []) @
         (if a \<noteq> [] \<and> oc_started (started_call c1) then [ToolCallDelta (oc_id c1) a] else []))"

definition apply_call :: "json \<Rightarrow> oa_state \<Rightarrow> stream_delta list \<times> oa_state" where
  "apply_call tc s =
     (let i = (case as_u64 (json_at tc ''index'') of Some n \<Rightarrow> unat n | None \<Rightarrow> 0);
          c = (case map_of (os_tool_calls s) i of Some x \<Rightarrow> x | None \<Rightarrow> no_call)
      in (call_deltas tc c, s\<lparr>os_tool_calls := bt_upsert i no_call (call_part tc) (os_tool_calls s)\<rparr>))"

fun apply_each :: "('a \<Rightarrow> 's \<Rightarrow> 'd list \<times> 's) \<Rightarrow> 'a list \<Rightarrow> 's \<Rightarrow> 'd list \<times> 's" where
  "apply_each f [] s = ([], s)"
| "apply_each f (x # xs) s =
     (case f x s of (ds, s1) \<Rightarrow> (case apply_each f xs s1 of (ds2, s2) \<Rightarrow> (ds @ ds2, s2)))"

definition end_call :: "oa_call \<Rightarrow> oa_call" where
  "end_call c = c\<lparr>oc_ended := oc_ended c \<or> oc_started c\<rparr>"

definition end_deltas :: "(nat \<times> oa_call) list \<Rightarrow> stream_delta list" where
  "end_deltas cs = map (\<lambda>(_, c). ToolCallEnd (oc_id c)) (filter (\<lambda>(_, c). oc_started c \<and> \<not> oc_ended c) cs)"

definition apply_text :: "json \<Rightarrow> oa_state \<Rightarrow> stream_delta list \<times> oa_state" where
  "apply_text choice s =
     (let t = str_or [] (json_path choice [''delta'', ''content''])
      in if t = [] then ([], s) else ([DeltaText t], s\<lparr>os_content := os_content s @ t\<rparr>))"

definition apply_reason :: "json \<Rightarrow> oa_state \<Rightarrow> stream_delta list \<times> oa_state" where
  "apply_reason choice s =
     (case as_str (json_at choice ''finish_reason'') of
        None \<Rightarrow> ([], s)
      | Some r \<Rightarrow>
          (let reason = openai_finish_reason (Some r); s1 = s\<lparr>os_finish_reason := reason\<rparr>
           in if reason = ToolUse
              then (end_deltas (os_tool_calls s), s1\<lparr>os_tool_calls := map (\<lambda>(i, c). (i, end_call c)) (os_tool_calls s)\<rparr>)
              else ([], s1)))"

definition apply_choice :: "json \<Rightarrow> oa_state \<Rightarrow> stream_delta list \<times> oa_state" where
  "apply_choice choice s =
     (case apply_text choice s of (d1, s1) \<Rightarrow>
        (case apply_each apply_call
            (case as_array (json_path choice [''delta'', ''tool_calls'']) of Some xs \<Rightarrow> xs | None \<Rightarrow> []) s1 of
           (d2, s2) \<Rightarrow>
             (case apply_reason choice s2 of (d3, s3) \<Rightarrow> (d1 @ d2 @ d3, s3))))"

definition apply_payload :: "json \<Rightarrow> oa_state \<Rightarrow> stream_delta list \<times> oa_state" where
  "apply_payload payload s =
     (case as_array (json_at payload ''choices'') of
        Some [] \<Rightarrow> ([], s\<lparr>os_usage := openai_usage payload\<rparr>)
      | Some cs \<Rightarrow> apply_each apply_choice cs s
      | None \<Rightarrow> ([], s))"

definition oa_event :: "wire \<Rightarrow> oa_state event_handler" where
  "oa_event wi e s =
     (if trim (se_data e) = ''[DONE]'' then Inr ([], s\<lparr>os_done := True\<rparr>)
      else (case wi_parse wi (se_data e) of
              Inl err \<Rightarrow> Inl (ModelProvider (''invalid streaming response chunk: '' @ err))
            | Inr payload \<Rightarrow> Inr (apply_payload payload s)))"

section \<open>The clients (openai.rs, ollama.rs)\<close>

definition trim_slashes :: "string \<Rightarrow> string" where
  "trim_slashes u = rev (dropWhile (\<lambda>c. c = CHR ''/'') (rev u))"

definition openai_complete ::
  "wire \<Rightarrow> network \<Rightarrow> string \<Rightarrow> string \<Rightarrow> completion_request \<Rightarrow> bool \<Rightarrow>
    stream_delta list \<times> (frank_error + completion_response)" where
  "openai_complete wi net base key rq streaming =
     (let body = openai_request_body wi rq;
          body1 = (if streaming
            then json_set ''stream_options'' (JObject [(''include_usage'', JBool True)]) (json_set ''stream'' (JBool True) body)
            else body)
      in exchange net ''request failed''
           \<lparr>mp_url = trim_slashes base @ ''/chat/completions'',
            mp_headers = [(''Authorization'', ''Bearer '' @ key)], mp_body = body1\<rparr>
           (\<lambda>r. if streaming
                then read_stream (oa_event wi) os_done oa_finish (wi_lossy wi) ''failed to read streaming response''
                       (mr_chunks r) oa_new
                else read_body ''invalid response'' openai_parse_response r))"

definition openai_models :: "string list \<Rightarrow> full_model_def list" where
  "openai_models models =
     map (\<lambda>i. catalog_model i i OpenaiCompletions False [InText] (catalog_price 0 0 None None) 128000 4096
       (catalog_flags True False True False True)) models"

definition default_ollama_url :: string where
  "default_ollama_url = ''http://127.0.0.1:11434''"

definition normalize_ollama_url :: "string \<Rightarrow> string" where
  "normalize_ollama_url url =
     (let t = trim_slashes (trim url)
      in if ends_with t ''/v1'' then take (length t - 3) t else t)"

definition ollama_base :: "string option \<Rightarrow> string" where
  "ollama_base url = normalize_ollama_url (case url of Some u \<Rightarrow> u | None \<Rightarrow> default_ollama_url)"

definition ollama_complete ::
  "wire \<Rightarrow> network \<Rightarrow> string \<Rightarrow> completion_request \<Rightarrow> bool \<Rightarrow>
    stream_delta list \<times> (frank_error + completion_response)" where
  "ollama_complete wi net base rq streaming =
     exchange net ''ollama request failed''
       \<lparr>mp_url = trim_slashes base @ ''/v1/chat/completions'', mp_headers = [],
        mp_body = json_set ''stream'' (JBool streaming) (openai_request_body wi rq)\<rparr>
       (\<lambda>r. if streaming
            then read_stream (oa_event wi) os_done oa_finish (wi_lossy wi) ''failed to read ollama streaming response''
                   (mr_chunks r) oa_new
            else read_body ''invalid ollama response'' openai_parse_response r)"

definition ollama_model :: "json \<Rightarrow> full_model_def option" where
  "ollama_model m =
     map_option (\<lambda>name. catalog_model name name Ollama False [InText] (catalog_price 0 0 None None) 8192 4096
       (catalog_flags False False True False True)) (as_str (json_at m ''name''))"

definition ollama_models :: "string + model_reply \<Rightarrow> frank_error + full_model_def list" where
  "ollama_models reply =
     (case reply of
        Inl e \<Rightarrow> Inl (ModelProvider (''failed to list ollama models: '' @ e))
      | Inr r \<Rightarrow>
          (case mr_json r of
             Inl e \<Rightarrow> Inl (ModelProvider (''invalid ollama response: '' @ e))
           | Inr data \<Rightarrow>
               Inr (case as_array (json_at data ''models'') of
                      Some arr \<Rightarrow> List.map_filter ollama_model arr | None \<Rightarrow> [])))"

definition answers_health :: "string + model_reply \<Rightarrow> bool" where
  "answers_health reply = (case reply of Inr r \<Rightarrow> reply_success r | Inl _ \<Rightarrow> False)"

section \<open>What the deltas say\<close>

fun delta_text :: "stream_delta \<Rightarrow> string" where
  "delta_text (DeltaText t) = t"
| "delta_text _ = []"

definition starts_in :: "stream_delta list \<Rightarrow> nat" where
  "starts_in ds = length (filter (\<lambda>d. \<exists>i n. d = ToolCallStart i n) ds)"

definition ends_in :: "stream_delta list \<Rightarrow> nat" where
  "ends_in ds = length (filter (\<lambda>d. \<exists>i. d = ToolCallEnd i) ds)"

definition count_calls :: "(oa_call \<Rightarrow> bool) \<Rightarrow> (nat \<times> oa_call) list \<Rightarrow> nat" where
  "count_calls P m = length (filter (\<lambda>(_, c). P c) m)"

definition in_order :: "(nat \<times> 'a) list \<Rightarrow> bool" where
  "in_order m \<longleftrightarrow> sorted_wrt (<) (map fst m)"

definition ends_started :: "(nat \<times> oa_call) list \<Rightarrow> bool" where
  "ends_started m \<longleftrightarrow> (\<forall>c\<in>snd ` set m. oc_ended c \<longrightarrow> oc_started c)"

text \<open>The deltas account for the state: its text, the calls that started and those that ended.\<close>

definition accounts :: "stream_delta list \<Rightarrow> oa_state \<Rightarrow> bool" where
  "accounts ds s \<longleftrightarrow>
     concat (map delta_text ds) = os_content s \<and> starts_in ds = count_calls oc_started (os_tool_calls s) \<and>
     ends_in ds = count_calls oc_ended (os_tool_calls s) \<and> in_order (os_tool_calls s) \<and>
     ends_started (os_tool_calls s)"

lemma delta_counts [simp]:
  "starts_in (a @ b) = starts_in a + starts_in b" "ends_in (a @ b) = ends_in a + ends_in b"
  "starts_in [] = 0" "ends_in [] = 0"
  "starts_in (d # ds) = (if \<exists>i n. d = ToolCallStart i n then 1 else 0) + starts_in ds"
  "ends_in (d # ds) = (if \<exists>i. d = ToolCallEnd i then 1 else 0) + ends_in ds"
  by (simp_all add: starts_in_def ends_in_def)

lemma count_calls_simps [simp]:
  "count_calls P [] = 0" "count_calls P ((i, c) # m) = (if P c then 1 else 0) + count_calls P m"
  by (simp_all add: count_calls_def)

lemma bt_upsert_fst: "fst ` set (bt_upsert k d f m) = insert k (fst ` set m)"
  by (induction k d f m rule: bt_upsert.induct) auto

lemma bt_upsert_in_order: "in_order m \<Longrightarrow> in_order (bt_upsert k d f m)"
proof (induction k d f m rule: bt_upsert.induct)
  case (2 k d f j x r)
  show ?case
  proof (cases "k \<le> j")
    case True
    then show ?thesis using "2.prems" by (auto simp: in_order_def)
  next
    case False
    then have "in_order (bt_upsert k d f r)" using 2 by (simp add: in_order_def)
    moreover have "\<forall>x\<in>fst ` set (bt_upsert k d f r). j < x"
      unfolding bt_upsert_fst using False "2.prems" by (auto simp: in_order_def)
    ultimately show ?thesis using False by (simp add: in_order_def)
  qed
qed (simp add: in_order_def)

lemma in_order_absent: "in_order ((j, x) # r) \<Longrightarrow> k \<le> j \<Longrightarrow> map_of r k = None"
  by (force simp: in_order_def map_of_eq_None_iff)

lemma bt_upsert_count:
  assumes "in_order m" and "\<not> P d"
  shows "count_calls P (bt_upsert k d f m) + (if P (case map_of m k of Some x \<Rightarrow> x | None \<Rightarrow> d) then 1 else 0) =
     count_calls P m + (if P (f (case map_of m k of Some x \<Rightarrow> x | None \<Rightarrow> d)) then 1 else 0)"
  using assms
proof (induction k d f m rule: bt_upsert.induct)
  case (2 k d f j x r)
  then show ?case
    using in_order_absent [OF "2.prems"(1), of k] by (auto simp: in_order_def)
qed simp

lemma bt_upsert_all:
  "\<forall>c\<in>snd ` set m. P c \<Longrightarrow> P (f d) \<Longrightarrow> (\<And>c. P c \<Longrightarrow> P (f c)) \<Longrightarrow> \<forall>c\<in>snd ` set (bt_upsert k d f m). P c"
  by (induction k d f m rule: bt_upsert.induct) auto

lemma call_part_flags:
  "oc_started (call_part tc c) \<longleftrightarrow> oc_started c \<or> starts_call (named_call tc c)"
  "oc_ended (call_part tc c) = oc_ended c"
  by (auto simp: call_part_def started_call_def named_call_def Let_def)

lemma call_deltas_counts:
  "concat (map delta_text (call_deltas tc c)) = []"
  "starts_in (call_deltas tc c) = (if starts_call (named_call tc c) then 1 else 0)"
  "ends_in (call_deltas tc c) = 0"
  by (auto simp: call_deltas_def Let_def)

lemma accounts_call:
  assumes "accounts ds s" and "apply_call tc s = (ds2, s2)"
  shows "accounts (ds @ ds2) s2"
proof -
  obtain i c where ic: "ds2 = call_deltas tc c" "c = (case map_of (os_tool_calls s) i of Some x \<Rightarrow> x | None \<Rightarrow> no_call)"
      "s2 = s\<lparr>os_tool_calls := bt_upsert i no_call (call_part tc) (os_tool_calls s)\<rparr>"
    using assms(2) unfolding apply_call_def Let_def by blast
  have o: "in_order (os_tool_calls s)" using assms(1) by (simp add: accounts_def)
  have "\<not> (oc_started c \<and> starts_call (named_call tc c))" by (simp add: starts_call_def named_call_def)
  then have "count_calls oc_started (os_tool_calls s2) = count_calls oc_started (os_tool_calls s) + starts_in ds2"
    using bt_upsert_count [OF o, of oc_started no_call i "call_part tc"]
    unfolding ic(2) [symmetric] ic(1,3) call_deltas_counts by (auto simp: call_part_flags no_call_def split: if_splits)
  moreover have "count_calls oc_ended (os_tool_calls s2) = count_calls oc_ended (os_tool_calls s)"
    using bt_upsert_count [OF o, of oc_ended no_call i "call_part tc"]
    unfolding ic(2) [symmetric] ic(3) by (auto simp: call_part_flags no_call_def split: if_splits)
  moreover have "ends_started (os_tool_calls s2)"
  proof -
    have "\<forall>c\<in>snd ` set (bt_upsert i no_call (call_part tc) (os_tool_calls s)). oc_ended c \<longrightarrow> oc_started c"
      by (rule bt_upsert_all) (use assms(1) in \<open>auto simp: accounts_def ends_started_def call_part_flags no_call_def\<close>)
    then show ?thesis by (simp add: ic(3) ends_started_def)
  qed
  ultimately show ?thesis
    using assms(1) bt_upsert_in_order [OF o] ic by (simp add: accounts_def call_deltas_counts)
qed

lemma length_filter_mono_on:
  "(\<And>x. x \<in> set xs \<Longrightarrow> p x \<Longrightarrow> q x) \<Longrightarrow> length (filter p xs) \<le> length (filter q xs)"
  by (induction xs) auto

lemma accounts_each:
  assumes "\<And>x ds s ds2 s2. accounts ds s \<Longrightarrow> f x s = (ds2, s2) \<Longrightarrow> accounts (ds @ ds2) s2"
  shows "accounts ds s \<Longrightarrow> apply_each f xs s = (ds2, s2) \<Longrightarrow> accounts (ds @ ds2) s2"
proof (induction xs arbitrary: ds s ds2)
  case (Cons x xs)
  obtain d1 s1 where 1: "f x s = (d1, s1)" by fastforce
  obtain d3 where 3: "apply_each f xs s1 = (d3, s2)" "ds2 = d1 @ d3"
    using Cons.prems(2) 1 by (auto split: prod.splits)
  from Cons.IH [OF assms [OF Cons.prems(1) 1] 3(1)] show ?case using 3(2) by simp
qed simp

lemma end_counts:
  "ends_started m \<Longrightarrow>
     count_calls oc_ended (map (\<lambda>(i, c). (i, end_call c)) m) = count_calls oc_ended m + ends_in (end_deltas m)"
  "count_calls oc_started (map (\<lambda>(i, c). (i, end_call c)) m) = count_calls oc_started m"
  "starts_in (end_deltas m) = 0" "concat (map delta_text (end_deltas m)) = []"
  by (induction m) (auto simp: end_call_def end_deltas_def ends_started_def split: if_splits)

lemma accounts_reason:
  assumes "accounts ds s" and "apply_reason choice s = (ds2, s2)"
  shows "accounts (ds @ ds2) s2"
proof -
  have "in_order (map (\<lambda>(i, c). (i, end_call c)) m) = in_order m" for m
    by (simp add: in_order_def case_prod_beta comp_def)
  moreover have "ends_started (map (\<lambda>(i, c). (i, end_call c)) m)" if "ends_started m" for m
    using that by (fastforce simp: end_call_def ends_started_def)
  ultimately show ?thesis
    using assms end_counts [of "os_tool_calls s"]
    by (auto simp: apply_reason_def accounts_def Let_def split: option.splits if_splits)
qed

lemma accounts_choice:
  assumes "accounts ds s" and "apply_choice choice s = (ds2, s2)"
  shows "accounts (ds @ ds2) s2"
proof -
  obtain d1 s1 where 1: "apply_text choice s = (d1, s1)" by fastforce
  then have a1: "accounts (ds @ d1) s1"
    using assms(1) by (auto simp: apply_text_def accounts_def Let_def split: if_splits)
  obtain d3 s3 where 3: "apply_each apply_call (case as_array (json_path choice [''delta'', ''tool_calls'']) of
      Some xs \<Rightarrow> xs | None \<Rightarrow> []) s1 = (d3, s3)" by fastforce
  have a3: "accounts ((ds @ d1) @ d3) s3" by (rule accounts_each [OF accounts_call a1 3])
  obtain d4 where 4: "apply_reason choice s3 = (d4, s2)" "ds2 = d1 @ d3 @ d4"
    using assms(2) 1 3 by (auto simp: apply_choice_def split: prod.splits)
  show ?thesis using accounts_reason [OF a3 4(1)] 4(2) by simp
qed

lemma accounts_payload:
  assumes "accounts ds s" and "apply_payload payload s = (ds2, s2)"
  shows "accounts (ds @ ds2) s2"
proof (cases "as_array (json_at payload ''choices'')")
  case None
  then show ?thesis using assms by (simp add: apply_payload_def)
next
  case (Some cs)
  show ?thesis
  proof (cases cs)
    case Nil
    then show ?thesis using assms Some by (auto simp: apply_payload_def accounts_def)
  next
    case (Cons c cs')
    then have each: "apply_each apply_choice cs s = (ds2, s2)" using assms(2) Some by (simp add: apply_payload_def)
    show ?thesis by (rule accounts_each [OF accounts_choice assms(1) each])
  qed
qed

lemma accounts_event:
  assumes "accounts ds s" and "oa_event wi e s = Inr (ds2, s2)"
  shows "accounts (ds @ ds2) s2"
proof (cases "trim (se_data e) = ''[DONE]''")
  case True
  then show ?thesis using assms by (auto simp: oa_event_def accounts_def)
next
  case False
  then show ?thesis
    using assms accounts_payload by (auto simp: oa_event_def split: sum.splits)
qed

lemma accounts_events:
  "accounts ds s \<Longrightarrow> feed_events (oa_event wi) os_done es s = (ds2, Inr s2) \<Longrightarrow> accounts (ds @ ds2) s2"
proof (induction es arbitrary: ds s ds2)
  case (Cons e es)
  obtain d1 s1 where 1: "oa_event wi e s = Inr (d1, s1)"
    using Cons.prems(2) by (cases "oa_event wi e s") auto
  have a: "accounts (ds @ d1) s1" by (rule accounts_event [OF Cons.prems(1) 1])
  show ?case
  proof (cases "os_done s1")
    case True
    then show ?thesis using Cons.prems(2) 1 a by simp
  next
    case False
    then obtain d3 where "feed_events (oa_event wi) os_done es s1 = (d3, Inr s2)" "ds2 = d1 @ d3"
      using Cons.prems(2) 1 by (auto split: prod.splits)
    then show ?thesis using Cons.IH [OF a] by simp
  qed
qed simp

text \<open>
  In every state that a stream of the protocol leads to, the deltas that were sent spell the content of
  the response, one start was sent for every call with an identifier and a name and one end for every
  call that was closed, and no call is closed that did not start.
\<close>
lemma stream_deltas_account:
  assumes "feed_events (oa_event wi) os_done es oa_new = (ds, Inr s)"
  shows "concat (map delta_text ds) = os_content s \<and>
     starts_in ds = count_calls oc_started (os_tool_calls s) \<and>
     ends_in ds = count_calls oc_ended (os_tool_calls s) \<and> ends_in ds \<le> starts_in ds"
proof -
  have "accounts [] oa_new" by (simp add: accounts_def oa_new_def in_order_def ends_started_def)
  from accounts_events [OF this assms] have a: "accounts ds s" by simp
  then have "count_calls oc_ended (os_tool_calls s) \<le> count_calls oc_started (os_tool_calls s)"
    unfolding count_calls_def accounts_def ends_started_def by (intro length_filter_mono_on) auto
  then show ?thesis using a by (simp add: accounts_def)
qed

section \<open>A streamed answer is read as the plain one\<close>

text \<open>
  What a server sends for an answer: the content in pieces, every call with its identifier and name and
  then its arguments in pieces, the reason, the usage and the end; and the same answer in one body.
\<close>

definition choice_payload :: "(string \<times> json) list \<Rightarrow> json" where
  "choice_payload kvs = JObject [(''choices'', JArray [JObject kvs])]"

definition text_payload :: "string \<Rightarrow> json" where
  "text_payload t = choice_payload [(''delta'', JObject [(''content'', JString t)])]"

definition call_payload :: "(string \<times> json) list \<Rightarrow> json" where
  "call_payload kvs = choice_payload [(''delta'', JObject [(''tool_calls'', JArray [JObject kvs])])]"

definition call_start :: "nat \<Rightarrow> string \<times> string \<times> string list \<Rightarrow> json" where
  "call_start i = (\<lambda>(cid, name, _). call_payload
     [(''index'', JUInt (of_nat i)), (''id'', JString cid),
      (''function'', JObject [(''name'', JString name), (''arguments'', JString [])])])"

definition call_arguments :: "nat \<Rightarrow> string \<Rightarrow> json" where
  "call_arguments i a = call_payload
     [(''index'', JUInt (of_nat i)), (''function'', JObject [(''arguments'', JString a)])]"

fun call_payloads :: "nat \<Rightarrow> (string \<times> string \<times> string list) list \<Rightarrow> json list" where
  "call_payloads i [] = []"
| "call_payloads i (c # cs) =
     call_start i c # map (call_arguments i) (snd (snd c)) @ call_payloads (Suc i) cs"

definition usage_json :: "u32 \<times> u32 \<Rightarrow> json" where
  "usage_json = (\<lambda>(p, c). JObject [(''prompt_tokens'', JUInt (ucast p)), (''completion_tokens'', JUInt (ucast c))])"

definition answer_payloads ::
  "string list \<Rightarrow> (string \<times> string \<times> string list) list \<Rightarrow> string \<Rightarrow> u32 \<times> u32 \<Rightarrow> json list" where
  "answer_payloads pieces calls reason u =
     map text_payload pieces @ call_payloads 0 calls @
     [choice_payload [(''delta'', JObject []), (''finish_reason'', JString reason)],
      JObject [(''choices'', JArray []), (''usage'', usage_json u)]]"

definition plain_answer ::
  "string list \<Rightarrow> (string \<times> string \<times> string list) list \<Rightarrow> string \<Rightarrow> u32 \<times> u32 \<Rightarrow> json" where
  "plain_answer pieces calls reason u =
     JObject
       [(''choices'', JArray [JObject
          [(''message'', JObject
             [(''content'', JString (concat pieces)),
              (''tool_calls'', JArray (map (\<lambda>(cid, name, as).
                 openai_call \<lparr>tc_id = cid, tc_name = name, tc_arguments = concat as\<rparr>) calls))]),
           (''finish_reason'', JString reason)]]),
        (''usage'', usage_json u)]"

fun call_entries :: "nat \<Rightarrow> (string \<times> string \<times> string list) list \<Rightarrow> (nat \<times> oa_call) list" where
  "call_entries i [] = []"
| "call_entries i ((cid, name, as) # cs) =
     (i, \<lparr>oc_id = cid, oc_name = name, oc_arguments = concat as, oc_started = True, oc_ended = False\<rparr>)
     # call_entries (Suc i) cs"

lemma json_path_simps [simp]:
  "json_path v [] = v" "json_path v (k # ks) = json_path (json_at v k) ks"
  by (simp_all add: json_path_def)

lemma json_at_simps [simp]:
  "json_at (JObject kvs) k = (case map_of kvs k of Some x \<Rightarrow> x | None \<Rightarrow> JNull)" "json_at JNull k = JNull"
  by (simp_all add: json_at_def)

lemma str_or_simps [simp]: "str_or d (JString s) = s" "str_or d JNull = d"
  by (simp_all add: str_or_def)

lemma bt_upsert_last:
  "\<forall>j\<in>fst ` set pre. j < i \<Longrightarrow> bt_upsert i d f pre = pre @ [(i, f d)]"
  "\<forall>j\<in>fst ` set pre. j < i \<Longrightarrow> bt_upsert i d f (pre @ [(i, c)]) = pre @ [(i, f c)]"
  by (induction i d f pre rule: bt_upsert.induct) auto

lemma run_append:
  "apply_each f (xs @ ys) s =
     (case apply_each f xs s of (ds, s1) \<Rightarrow> (case apply_each f ys s1 of (ds2, s2) \<Rightarrow> (ds @ ds2, s2)))"
  by (induction xs arbitrary: s) (auto split: prod.splits)

abbreviation final_state :: "json list \<Rightarrow> oa_state \<Rightarrow> oa_state" where
  "final_state ps s \<equiv> snd (apply_each apply_payload ps s)"

lemma final_append [simp]: "final_state (ps @ qs) s = final_state qs (final_state ps s)"
  by (simp add: run_append split: prod.splits)

lemma final_Cons: "final_state (p # ps) s = final_state ps (snd (apply_payload p s))"
  by (simp split: prod.splits)

lemma final_texts: "final_state (map text_payload pieces) s = s\<lparr>os_content := os_content s @ concat pieces\<rparr>"
proof (induction pieces arbitrary: s)
  case (Cons t ts)
  have "snd (apply_payload (text_payload t) s) = s\<lparr>os_content := os_content s @ t\<rparr>"
    by (auto simp: apply_payload_def text_payload_def choice_payload_def apply_choice_def apply_text_def
        apply_reason_def Let_def)
  then show ?case unfolding list.map final_Cons Cons.IH by simp
qed simp

lemma payload_call:
  "apply_payload (call_payload kvs) s = apply_call (JObject kvs) s"
  by (auto simp: apply_payload_def call_payload_def choice_payload_def apply_choice_def apply_text_def
      apply_reason_def Let_def split: prod.splits)

lemma final_arguments:
  assumes "unat (of_nat i :: u64) = i" and "\<forall>j\<in>fst ` set pre. j < i" and "oc_started c"
  shows "final_state (map (call_arguments i) as) (s\<lparr>os_tool_calls := pre @ [(i, c)]\<rparr>) =
     s\<lparr>os_tool_calls := pre @ [(i, c\<lparr>oc_arguments := oc_arguments c @ concat as\<rparr>)]\<rparr>"
  using assms(3)
proof (induction as arbitrary: c)
  case (Cons a as)
  have "snd (apply_payload (call_arguments i a) (s\<lparr>os_tool_calls := pre @ [(i, c)]\<rparr>)) =
      s\<lparr>os_tool_calls := pre @ [(i, c\<lparr>oc_arguments := oc_arguments c @ a\<rparr>)]\<rparr>"
    unfolding call_arguments_def payload_call
    using assms(1) bt_upsert_last(2) [OF assms(2)] Cons.prems
    by (simp add: apply_call_def call_part_def started_call_def named_call_def Let_def)
  then show ?case
    unfolding list.map final_Cons using Cons.IH [of "c\<lparr>oc_arguments := oc_arguments c @ a\<rparr>"] Cons.prems by simp
qed simp

lemma final_calls:
  assumes "\<forall>(cid, name, _)\<in>set calls. trim cid \<noteq> [] \<and> trim name \<noteq> []"
    and "i + length calls < 2 ^ 64" and "\<forall>j\<in>fst ` set pre. j < i"
  shows "final_state (call_payloads i calls) (s\<lparr>os_tool_calls := pre\<rparr>) =
     s\<lparr>os_tool_calls := pre @ call_entries i calls\<rparr>"
  using assms
proof (induction i calls arbitrary: pre rule: call_payloads.induct)
  case (2 i c cs)
  obtain cid name as where c: "c = (cid, name, as)" by (cases c)
  have i: "unat (of_nat i :: u64) = i" using "2.prems"(2) by (intro unat_of_nat_small) simp
  have ne: "cid \<noteq> []" "name \<noteq> []" using "2.prems"(1) c by (auto simp: trim_def trim_end_def trim_start_def)
  let ?c = "\<lparr>oc_id = cid, oc_name = name, oc_arguments = [], oc_started = True, oc_ended = False\<rparr>"
  have "snd (apply_payload (call_start i c) (s\<lparr>os_tool_calls := pre\<rparr>)) = s\<lparr>os_tool_calls := pre @ [(i, ?c)]\<rparr>"
    unfolding call_start_def c using i ne bt_upsert_last(1) [OF "2.prems"(3)]
    by (simp add: payload_call apply_call_def call_part_def started_call_def named_call_def starts_call_def
        no_call_def Let_def)
  moreover have "final_state (map (call_arguments i) as) (s\<lparr>os_tool_calls := pre @ [(i, ?c)]\<rparr>) =
      s\<lparr>os_tool_calls := pre @ [(i, ?c\<lparr>oc_arguments := concat as\<rparr>)]\<rparr>"
    using final_arguments [OF i "2.prems"(3), of ?c as s] by simp
  moreover have "final_state (call_payloads (Suc i) cs) (s\<lparr>os_tool_calls := pre @ [(i, ?c\<lparr>oc_arguments := concat as\<rparr>)]\<rparr>) =
      s\<lparr>os_tool_calls := (pre @ [(i, ?c\<lparr>oc_arguments := concat as\<rparr>)]) @ call_entries (Suc i) cs\<rparr>"
    by (rule "2.IH") (use "2.prems" in \<open>auto simp: less_Suc_eq\<close>)
  ultimately show ?case by (simp only: call_payloads.simps final_Cons final_append) (simp add: c)
qed simp

lemma apply_each_done:
  "(\<And>x s. os_done (snd (f x s)) = os_done s) \<Longrightarrow> os_done (snd (apply_each f xs s)) = os_done s"
proof (induction xs arbitrary: s)
  case (Cons x xs)
  obtain ds s1 where x: "f x s = (ds, s1)" by fastforce
  have "os_done s1 = os_done s" using Cons.prems [of x s] x by simp
  moreover have "os_done (snd (apply_each f xs s1)) = os_done s1" by (rule Cons.IH) (rule Cons.prems)
  ultimately show ?case using x by (simp split: prod.split) (metis snd_conv)
qed simp

lemma payload_done [simp]: "os_done (snd (apply_payload p s)) = os_done s"
proof -
  have call: "os_done (snd (apply_call tc s)) = os_done s" for tc s by (simp add: apply_call_def Let_def)
  have "os_done (snd (apply_choice c s)) = os_done s" for c s
  proof -
    obtain d1 s1 where 1: "apply_text c s = (d1, s1)" by fastforce
    obtain d2 s2 where 2: "apply_each apply_call (case as_array (json_path c [''delta'', ''tool_calls'']) of
      Some xs \<Rightarrow> xs | None \<Rightarrow> []) s1 = (d2, s2)" by fastforce
    obtain d3 s3 where 3: "apply_reason c s2 = (d3, s3)" by fastforce
    have d1: "os_done s1 = os_done s" using 1 by (auto simp: apply_text_def Let_def split: if_splits)
    have "os_done (snd (d2, s2)) = os_done s1"
      unfolding 2 [symmetric] by (rule apply_each_done) (rule call)
    moreover have "os_done s3 = os_done s2"
      using 3 by (auto simp: apply_reason_def Let_def split: option.splits if_splits)
    moreover have "snd (apply_choice c s) = s3" using 1 2 3 by (simp add: apply_choice_def)
    ultimately show ?thesis using d1 by simp
  qed
  then have "os_done (snd (apply_each apply_choice cs s)) = os_done s" for cs by (rule apply_each_done)
  then show ?thesis
    by (cases "as_array (json_at p ''choices'')"; cases "the (as_array (json_at p ''choices''))")
      (simp_all add: apply_payload_def del: apply_each.simps)
qed

text \<open>The texts of the payloads are read as what was written, and are one line each.\<close>

definition readable :: "wire \<Rightarrow> json list \<Rightarrow> bool" where
  "readable wi ps \<longleftrightarrow>
     (\<forall>p\<in>set ps. wi_parse wi (wi_show wi p) = Inr p \<and> value_ok (wi_show wi p) \<and>
        trim (wi_show wi p) \<noteq> ''[DONE]'')"

definition stream_events :: "wire \<Rightarrow> json list \<Rightarrow> (string option \<times> string list) list" where
  "stream_events wi ps = map (\<lambda>p. (None, [wi_show wi p])) ps @ [(None, [''[DONE]''])]"

lemma feed_payloads:
  "readable wi ps \<Longrightarrow> \<not> os_done s \<Longrightarrow>
     \<exists>ds. feed_events (oa_event wi) os_done (map decoded (stream_events wi ps)) s =
       (ds, Inr ((final_state ps s)\<lparr>os_done := True\<rparr>))"
proof (induction ps arbitrary: s)
  case Nil
  have "trim ''[DONE]'' = ''[DONE]''" by code_simp
  then show ?case by (simp add: stream_events_def decoded_def oa_event_def)
next
  case (Cons p ps)
  then have "oa_event wi (decoded (None, [wi_show wi p])) s = Inr (apply_payload p s)"
    by (simp add: oa_event_def decoded_def readable_def)
  moreover obtain d1 s1 where p: "apply_payload p s = (d1, s1)" by fastforce
  moreover have nd: "\<not> os_done s1" using payload_done [of p s] p Cons.prems(2) by simp
  moreover have "readable wi ps" using Cons.prems(1) by (simp add: readable_def)
  from Cons.IH [OF this nd] obtain ds where
    "feed_events (oa_event wi) os_done (map decoded (stream_events wi ps)) s1 = (ds, Inr ((final_state ps s1)\<lparr>os_done := True\<rparr>))" ..
  ultimately show ?case by (simp add: stream_events_def split: prod.splits)
qed

lemma finish_entries:
  "\<forall>(cid, name, _)\<in>set calls. trim cid \<noteq> [] \<and> trim name \<noteq> [] \<Longrightarrow>
     finish_calls (call_entries i calls) =
       Inr (map (\<lambda>(cid, name, as). \<lparr>tc_id = cid, tc_name = name, tc_arguments = concat as\<rparr>) calls)"
  by (induction i calls rule: call_entries.induct) auto

lemma finish_ended: "finish_calls (map (\<lambda>(i, c). (i, end_call c)) m) = finish_calls m"
  by (induction m rule: finish_calls.induct) (auto simp: end_call_def)

lemma parsed_plain_calls:
  "List.map_filter openai_parsed_call (map (\<lambda>(cid, name, as).
      openai_call \<lparr>tc_id = cid, tc_name = name, tc_arguments = concat as\<rparr>) calls) =
     map (\<lambda>(cid, name, as). \<lparr>tc_id = cid, tc_name = name, tc_arguments = concat as\<rparr>) calls"
  by (induction calls) (auto simp: openai_parsed_call_def openai_call_def List.map_filter_def)

lemma plain_parsed:
  "openai_parse_response (plain_answer pieces calls reason u) =
     Inr \<lparr>rs_content = concat pieces,
          rs_tool_calls = map (\<lambda>(cid, name, as). \<lparr>tc_id = cid, tc_name = name, tc_arguments = concat as\<rparr>) calls,
          rs_usage = openai_usage (JObject [(''usage'', usage_json u)]),
          rs_finish_reason = openai_finish_reason (Some reason)\<rparr>"
  by (simp add: openai_parse_response_def plain_answer_def parsed_plain_calls openai_usage_def)

lemma streamed_state:
  assumes "\<forall>(cid, name, _)\<in>set calls. trim cid \<noteq> [] \<and> trim name \<noteq> []" and "length calls < 2 ^ 64"
  shows "oa_finish ((final_state (answer_payloads pieces calls reason u) oa_new)\<lparr>os_done := True\<rparr>) =
     openai_parse_response (plain_answer pieces calls reason u)"
proof -
  define s where "s = oa_new\<lparr>os_content := concat pieces, os_tool_calls := call_entries 0 calls\<rparr>"
  have "final_state (call_payloads 0 calls) (oa_new\<lparr>os_content := concat pieces, os_tool_calls := []\<rparr>) = s"
    using final_calls [OF assms(1), of 0 "[]" "oa_new\<lparr>os_content := concat pieces\<rparr>"] assms(2)
    by (simp add: s_def)
  moreover have "oa_new\<lparr>os_content := concat pieces, os_tool_calls := []\<rparr> = oa_new\<lparr>os_content := concat pieces\<rparr>"
    by (simp add: oa_new_def)
  ultimately have 1: "final_state (map text_payload pieces @ call_payloads 0 calls) oa_new = s"
    by (simp add: final_texts) (simp add: oa_new_def)
  define s1 where "s1 = s\<lparr>os_finish_reason := openai_finish_reason (Some reason),
      os_tool_calls := (if openai_finish_reason (Some reason) = ToolUse
        then map (\<lambda>(i, c). (i, end_call c)) (os_tool_calls s) else os_tool_calls s)\<rparr>"
  have 2: "snd (apply_payload (choice_payload [(''delta'', JObject []), (''finish_reason'', JString reason)]) s) = s1"
    by (simp add: apply_payload_def choice_payload_def apply_choice_def apply_text_def apply_reason_def s1_def Let_def)
  have 3: "snd (apply_payload (JObject [(''choices'', JArray []), (''usage'', usage_json u)]) s1) =
      s1\<lparr>os_usage := openai_usage (JObject [(''usage'', usage_json u)])\<rparr>"
    by (simp add: apply_payload_def openai_usage_def)
  have "final_state (answer_payloads pieces calls reason u) oa_new =
      s1\<lparr>os_usage := openai_usage (JObject [(''usage'', usage_json u)])\<rparr>"
    unfolding answer_payloads_def append_assoc [symmetric]
    by (subst final_append, subst 1) (simp only: final_Cons 2 3 apply_each.simps(1) snd_conv)
  then show ?thesis
    using finish_entries [OF assms(1), of 0] finish_ended [of "call_entries 0 calls"]
    by (simp add: oa_finish_def plain_parsed s1_def s_def)
qed


text \<open>An answer of two texts and a call, with numbers for the texts of its payloads, in two chunks.\<close>

definition sample_answer :: "json list" where
  "sample_answer =
     answer_payloads [''Let me'', '' look''] [(''c1'', ''web_fetch'', [''{'', ''}''])] ''tool_calls'' (10, 20)"

definition sample_names :: "string list" where
  "sample_names = [''0'', ''1'', ''2'', ''3'', ''4'', ''5'', ''6'']"

definition sample_wire :: wire where
  "sample_wire =
     \<lparr>wi_parse = \<lambda>s. (case map_of (zip sample_names sample_answer) s of Some p \<Rightarrow> Inr p | None \<Rightarrow> Inl ''EOF''),
      wi_show = \<lambda>p. (case map_of (zip sample_answer sample_names) p of Some s \<Rightarrow> s | None \<Rightarrow> []),
      wi_float = \<lambda>_. JNull, wi_schema = \<lambda>_. JNull, wi_lossy = id\<rparr>"

lemma sample_readable: "readable sample_wire sample_answer"
  by code_simp


lemma stream_deltas_account_witness:
  "ends_in [] \<le> starts_in []"
  using stream_deltas_account [of sample_wire "[]" "[]" oa_new] by simp

end
