(* ===== verification/Anthropic_Wire.thy ===== *)
theory Anthropic_Wire
  imports Openai_Wire Context
begin

text \<open>
  The client of the Anthropic messages API (\<open>frankclaw-models/src/anthropic.rs\<close>): the body of a request
  with its content blocks, the response, and the events of a stream. The lemmas show that a conversation
  whose tool results are paired is sent with every result after the block of its call, and where a
  streamed answer differs from the plain one.
\<close>

section \<open>Requests\<close>

definition tool_call_marker :: string where
  "tool_call_marker = ''[tool_call:''"

definition text_block :: "string \<Rightarrow> json" where
  "text_block t = JObject [(''type'', JString ''text''), (''text'', JString t)]"

definition tool_use_block :: "wire \<Rightarrow> tool_call \<Rightarrow> json" where
  "tool_use_block wi tc =
     JObject
       [(''type'', JString ''tool_use''), (''id'', JString (tc_id tc)), (''name'', JString (tc_name tc)),
        (''input'', (case wi_parse wi (tc_arguments tc) of Inr v \<Rightarrow> v | Inl _ \<Rightarrow> JObject []))]"

definition image_block :: "image_content \<Rightarrow> json" where
  "image_block img =
     JObject
       [(''type'', JString ''image''),
        (''source'', JObject
          [(''type'', JString ''base64''), (''media_type'', JString (img_mime img)), (''data'', JString (img_data img))])]"

definition message_json :: "string \<Rightarrow> json \<Rightarrow> json" where
  "message_json r content = JObject [(''role'', JString r), (''content'', content)]"

definition anthropic_message :: "wire \<Rightarrow> completion_message \<Rightarrow> json" where
  "anthropic_message wi msg =
     (if msg_role msg = Assistant \<and> msg_tool_calls msg \<noteq> []
      then message_json ''assistant''
        (JArray
          ((let trimmed = trim (msg_content msg)
            in if trimmed \<noteq> [] \<and> \<not> starts_with trimmed tool_call_marker then [text_block trimmed] else []) @
           map (tool_use_block wi) (msg_tool_calls msg)))
      else if msg_role msg = Tool
      then message_json ''user''
        (JArray
          [JObject
            [(''type'', JString ''tool_result''),
             (''tool_use_id'', JString (case msg_tool_call_id msg of Some i \<Rightarrow> i | None \<Rightarrow> ''unknown'')),
             (''content'', JString (msg_content msg))]])
      else if msg_images msg \<noteq> [] \<and> msg_role msg = User
      then message_json ''user'' (JArray (text_block (msg_content msg) # map image_block (msg_images msg)))
      else message_json (role_text (msg_role msg)) (JString (msg_content msg)))"

definition anthropic_tool :: "wire \<Rightarrow> tool_def \<Rightarrow> json" where
  "anthropic_tool wi t =
     JObject
       [(''name'', JString (td_name t)), (''description'', JString (td_description t)),
        (''input_schema'', wi_schema wi (td_parameters t))]"

text \<open>With a thinking budget the temperature is one, whatever was asked for.\<close>

definition anthropic_request_body :: "wire \<Rightarrow> completion_request \<Rightarrow> json" where
  "anthropic_request_body wi rq =
     JObject
       ([(''model'', JString (rq_model_id rq)),
         (''messages'', JArray (map (anthropic_message wi) (rq_messages rq))),
         (''max_tokens'', JUInt (case rq_max_tokens rq of Some n \<Rightarrow> ucast n | None \<Rightarrow> 4096))] @
        opt_field ''system'' (\<lambda>s. JArray [JObject
          [(''type'', JString ''text''), (''text'', JString s),
           (''cache_control'', JObject [(''type'', JString ''ephemeral'')])]]) (rq_system rq) @
        (if rq_thinking_budget rq = None then opt_field ''temperature'' (wi_float wi) (rq_temperature rq) else []) @
        (if rq_tools rq = [] then [] else [(''tools'', JArray (map (anthropic_tool wi) (rq_tools rq)))]) @
        (case rq_thinking_budget rq of
           None \<Rightarrow> []
         | Some budget \<Rightarrow>
             [(''thinking'', JObject [(''type'', JString ''enabled''), (''budget_tokens'', JUInt (ucast budget))]),
              (''temperature'', JUInt 1)]))"

section \<open>Responses\<close>

definition anthropic_usage :: "json \<Rightarrow> usage" where
  "anthropic_usage data =
     \<lparr>us_input_tokens = u32_or_0 (json_path data [''usage'', ''input_tokens'']),
      us_output_tokens = u32_or_0 (json_path data [''usage'', ''output_tokens'']),
      us_cache_read_tokens = u32_of (json_path data [''usage'', ''cache_read_input_tokens'']),
      us_cache_write_tokens = u32_of (json_path data [''usage'', ''cache_creation_input_tokens''])\<rparr>"

definition anthropic_finish_reason :: "string option \<Rightarrow> finish_reason" where
  "anthropic_finish_reason reason =
     (if reason = Some ''end_turn'' \<or> reason = Some ''stop_sequence'' then Stop
      else if reason = Some ''max_tokens'' then MaxTokens
      else if reason = Some ''tool_use'' then ToolUse
      else Stop)"

definition thinking_text :: "string \<Rightarrow> string \<Rightarrow> string" where
  "thinking_text content thinking =
     (if thinking = [] then content
      else content @ (if content = [] then [] else [newline, newline]) @ ''<thinking>'' @ [newline] @ thinking @
        [newline] @ ''</thinking>'' @ [newline, newline])"

fun parse_blocks :: "wire \<Rightarrow> json list \<Rightarrow> string \<Rightarrow> tool_call list \<Rightarrow> string \<times> tool_call list" where
  "parse_blocks wi [] content calls = (content, calls)"
| "parse_blocks wi (b # bs) content calls =
     (let t = as_str (json_at b ''type'')
      in if t = Some ''thinking''
         then parse_blocks wi bs (thinking_text content (str_or [] (json_at b ''thinking''))) calls
         else if t = Some ''text'' then parse_blocks wi bs (content @ str_or [] (json_at b ''text'')) calls
         else if t = Some ''tool_use''
         then (case (as_str (json_at b ''id''), as_str (json_at b ''name'')) of
                 (Some i, Some name) \<Rightarrow>
                   parse_blocks wi bs content
                     (calls @ [\<lparr>tc_id = i, tc_name = name, tc_arguments = wi_show wi (json_at b ''input'')\<rparr>])
               | _ \<Rightarrow> parse_blocks wi bs content calls)
         else parse_blocks wi bs content calls)"

definition anthropic_parse_response :: "wire \<Rightarrow> json \<Rightarrow> frank_error + completion_response" where
  "anthropic_parse_response wi data =
     (case parse_blocks wi (case as_array (json_at data ''content'') of Some bs \<Rightarrow> bs | None \<Rightarrow> []) [] [] of
        (content, calls) \<Rightarrow>
          Inr \<lparr>rs_content = content, rs_tool_calls = calls, rs_usage = anthropic_usage data,
               rs_finish_reason = anthropic_finish_reason (as_str (json_at data ''stop_reason''))\<rparr>)"

section \<open>Streams\<close>

record an_call =
  ac_id :: string
  ac_name :: string
  ac_arguments :: string
  ac_ended :: bool

record an_state =
  as_content :: string
  as_tool_calls :: "(nat \<times> an_call) list"
  as_usage :: usage
  as_finish_reason :: finish_reason
  as_done :: bool

definition an_new :: an_state where
  "an_new =
     \<lparr>as_content = [], as_tool_calls = [], as_usage = no_usage, as_finish_reason = Stop, as_done = False\<rparr>"

fun finish_an_calls :: "(nat \<times> an_call) list \<Rightarrow> frank_error + tool_call list" where
  "finish_an_calls [] = Inr []"
| "finish_an_calls ((_, c) # cs) =
     (if trim (ac_id c) = [] \<or> trim (ac_name c) = []
      then Inl (ModelProvider ''streamed anthropic tool call missing id or name'')
      else map_sum id ((#) \<lparr>tc_id = ac_id c, tc_name = ac_name c, tc_arguments = ac_arguments c\<rparr>) (finish_an_calls cs))"

definition an_finish :: "an_state \<Rightarrow> frank_error + completion_response" where
  "an_finish s =
     map_sum id (\<lambda>calls. \<lparr>rs_content = as_content s, rs_tool_calls = calls, rs_usage = as_usage s,
       rs_finish_reason = as_finish_reason s\<rparr>) (finish_an_calls (as_tool_calls s))"

definition index_of :: "json \<Rightarrow> nat option" where
  "index_of payload = map_option unat (as_u64 (json_at payload ''index''))"

definition message_start :: "json \<Rightarrow> an_state \<Rightarrow> stream_delta list \<times> an_state" where
  "message_start payload s =
     (let u = json_path payload [''message'', ''usage'']
      in ([], s\<lparr>as_usage := (as_usage s)
           \<lparr>us_input_tokens := u32_or_0 (json_at u ''input_tokens''),
            us_cache_read_tokens := u32_of (json_at u ''cache_read_input_tokens''),
            us_cache_write_tokens := u32_of (json_at u ''cache_creation_input_tokens'')\<rparr>\<rparr>))"

definition block_start :: "json \<Rightarrow> an_state \<Rightarrow> stream_delta list \<times> an_state" where
  "block_start payload s =
     (let b = json_at payload ''content_block''
      in if as_str (json_at b ''type'') \<noteq> Some ''tool_use'' then ([], s)
         else (case (index_of payload, as_str (json_at b ''id''), as_str (json_at b ''name'')) of
                 (Some i, Some cid, Some name) \<Rightarrow>
                   ([ToolCallStart cid name],
                    s\<lparr>as_tool_calls := bt_upsert i
                        \<lparr>ac_id = cid, ac_name = name, ac_arguments = [], ac_ended = False\<rparr> id (as_tool_calls s)\<rparr>)
               | _ \<Rightarrow> ([], s)))"

definition add_text :: "json \<Rightarrow> an_state \<Rightarrow> stream_delta list \<times> an_state" where
  "add_text v s =
     (case as_str v of None \<Rightarrow> ([], s) | Some t \<Rightarrow> ([DeltaText t], s\<lparr>as_content := as_content s @ t\<rparr>))"

definition block_delta :: "json \<Rightarrow> an_state \<Rightarrow> stream_delta list \<times> an_state" where
  "block_delta payload s =
     (let d = json_at payload ''delta''; t = as_str (json_at d ''type'')
      in if t = Some ''text_delta'' then add_text (json_at d ''text'') s
         else if t = Some ''thinking_delta'' then add_text (json_at d ''thinking'') s
         else if t = Some ''input_json_delta'' then
           (let part = str_or [] (json_at d ''partial_json'')
            in case index_of payload of
                 None \<Rightarrow> ([], s)
               | Some i \<Rightarrow>
                   (case map_of (as_tool_calls s) i of
                      None \<Rightarrow> ([], s)
                    | Some c \<Rightarrow>
                        ([ToolCallDelta (ac_id c) part],
                         s\<lparr>as_tool_calls := bt_modify i (\<lambda>c. c\<lparr>ac_arguments := ac_arguments c @ part\<rparr>)
                             (as_tool_calls s)\<rparr>)))
         else ([], s))"

definition block_stop :: "json \<Rightarrow> an_state \<Rightarrow> stream_delta list \<times> an_state" where
  "block_stop payload s =
     (case index_of payload of
        None \<Rightarrow> ([], s)
      | Some i \<Rightarrow>
          (case map_of (as_tool_calls s) i of
             None \<Rightarrow> ([], s)
           | Some c \<Rightarrow>
               if ac_ended c then ([], s)
               else ([ToolCallEnd (ac_id c)],
                     s\<lparr>as_tool_calls := bt_modify i (\<lambda>c. c\<lparr>ac_ended := True\<rparr>) (as_tool_calls s)\<rparr>)))"

definition message_delta :: "json \<Rightarrow> an_state \<Rightarrow> stream_delta list \<times> an_state" where
  "message_delta payload s =
     (let s1 = s\<lparr>as_finish_reason := anthropic_finish_reason (as_str (json_path payload [''delta'', ''stop_reason'']))\<rparr>
      in ([], case u32_of (json_path payload [''usage'', ''output_tokens'']) of
                None \<Rightarrow> s1 | Some n \<Rightarrow> s1\<lparr>as_usage := (as_usage s1)\<lparr>us_output_tokens := n\<rparr>\<rparr>))"

definition an_event :: "wire \<Rightarrow> an_state event_handler" where
  "an_event wi e s =
     (case wi_parse wi (se_data e) of
        Inl err \<Rightarrow> Inl (ModelProvider (''invalid streaming response chunk: '' @ err))
      | Inr payload \<Rightarrow>
          (let t = (case se_event e of Some x \<Rightarrow> x | None \<Rightarrow> [])
           in if t = ''message_start'' then Inr (message_start payload s)
              else if t = ''content_block_start'' then Inr (block_start payload s)
              else if t = ''content_block_delta'' then Inr (block_delta payload s)
              else if t = ''content_block_stop'' then Inr (block_stop payload s)
              else if t = ''message_delta'' then Inr (message_delta payload s)
              else if t = ''message_stop'' then Inr ([], s\<lparr>as_done := True\<rparr>)
              else if t = ''error''
              then Inl (ModelProvider (str_or ''anthropic stream error'' (json_path payload [''error'', ''message''])))
              else Inr ([], s)))"

section \<open>The client\<close>

definition anthropic_api_url :: string where
  "anthropic_api_url = ''https://api.anthropic.com/v1''"

definition anthropic_version :: string where
  "anthropic_version = ''2023-06-01''"

definition anthropic_complete ::
  "wire \<Rightarrow> network \<Rightarrow> string \<Rightarrow> completion_request \<Rightarrow> bool \<Rightarrow>
    stream_delta list \<times> (frank_error + completion_response)" where
  "anthropic_complete wi net key rq streaming =
     (let body = anthropic_request_body wi rq
      in exchange net ''request failed''
           \<lparr>mp_url = anthropic_api_url @ ''/messages'',
            mp_headers = [(''x-api-key'', key), (''anthropic-version'', anthropic_version),
              (''anthropic-beta'', ''prompt-caching-2024-07-31''), (''content-type'', ''application/json'')],
            mp_body = (if streaming then json_set ''stream'' (JBool True) body else body)\<rparr>
           (\<lambda>r. if streaming
                then read_stream (an_event wi) as_done an_finish (wi_lossy wi) ''failed to read streaming response''
                       (mr_chunks r) an_new
                else read_body ''invalid response'' (anthropic_parse_response wi) r))"

definition anthropic_models :: "string list \<Rightarrow> full_model_def list" where
  "anthropic_models models =
     map (\<lambda>i. catalog_model i i AnthropicMessages (contains i ''opus'' \<or> contains i ''sonnet'') [InText, InImage]
       (catalog_price 0 0 None None) 200000 8192 (catalog_flags True True True False True)) models"

definition anthropic_health :: "string + model_reply \<Rightarrow> bool" where
  "anthropic_health reply = (case reply of Inr _ \<Rightarrow> True | Inl _ \<Rightarrow> False)"

section \<open>Tool results follow their calls\<close>

definition content_blocks :: "json \<Rightarrow> json list" where
  "content_blocks m = (case as_array (json_at m ''content'') of Some bs \<Rightarrow> bs | None \<Rightarrow> [])"

definition has_block :: "string \<Rightarrow> json \<Rightarrow> bool" where
  "has_block t m \<longleftrightarrow> (\<exists>b\<in>set (content_blocks m). as_str (json_at b ''type'') = Some t)"

fun blocks_paired :: "json option \<Rightarrow> json list \<Rightarrow> bool" where
  "blocks_paired prev [] \<longleftrightarrow> True"
| "blocks_paired prev (m # ms) \<longleftrightarrow>
     (has_block ''tool_result'' m \<longrightarrow>
        (\<exists>p. prev = Some p \<and> (has_block ''tool_use'' p \<or> has_block ''tool_result'' p))) \<and>
     blocks_paired (Some m) ms"

definition sent_messages :: "json \<Rightarrow> json list" where
  "sent_messages body = (case as_array (json_at body ''messages'') of Some ms \<Rightarrow> ms | None \<Rightarrow> [])"

text \<open>An assistant message that is taken for one with calls has them, and not only the marker in its text.\<close>

definition calls_structured :: "completion_message list \<Rightarrow> bool" where
  "calls_structured ms \<longleftrightarrow> (\<forall>m\<in>set ms. msg_role m = Assistant \<longrightarrow> has_call m \<longrightarrow> msg_tool_calls m \<noteq> [])"

lemma blocks_message [simp]: "content_blocks (message_json r (JArray bs)) = bs"
    "content_blocks (message_json r (JString t)) = []"
  by (simp_all add: content_blocks_def message_json_def)

lemma block_types [simp]:
  "json_at (text_block t) ''type'' = JString ''text''" "json_at (tool_use_block wi tc) ''type'' = JString ''tool_use''"
  "json_at (image_block img) ''type'' = JString ''image''"
  by (simp_all add: text_block_def tool_use_block_def image_block_def)

lemma result_block: "has_block ''tool_result'' (anthropic_message wi m) \<longleftrightarrow> msg_role m = Tool"
  by (auto simp: anthropic_message_def has_block_def Let_def)

lemma use_block: "msg_role m = Assistant \<Longrightarrow> msg_tool_calls m \<noteq> [] \<Longrightarrow> has_block ''tool_use'' (anthropic_message wi m)"
  by (cases "msg_tool_calls m") (auto simp: anthropic_message_def has_block_def Let_def)

lemma blocks_paired_map:
  assumes "paired_from prev ms" and "calls_structured ms"
    and "\<And>p. prev = Some p \<Longrightarrow> msg_role p = Assistant \<Longrightarrow> has_call p \<Longrightarrow> msg_tool_calls p \<noteq> []"
  shows "blocks_paired (map_option (anthropic_message wi) prev) (map (anthropic_message wi) ms)"
  using assms
proof (induction prev ms rule: paired_from.induct)
  case (2 prev m ms)
  have "\<exists>p. map_option (anthropic_message wi) prev = Some p \<and> (has_block ''tool_use'' p \<or> has_block ''tool_result'' p)"
    if tool: "msg_role m = Tool"
  proof -
    obtain p where p: "prev = Some p" "may_precede p" using "2.prems"(1) tool by auto
    then show ?thesis
      using "2.prems"(3) [OF p(1)] use_block [of p wi] by (auto simp: may_precede_def result_block)
  qed
  moreover have "blocks_paired (map_option (anthropic_message wi) (Some m)) (map (anthropic_message wi) ms)"
    using "2.prems" by (intro "2.IH") (auto simp: calls_structured_def)
  ultimately show ?case by (simp add: result_block)
qed simp



text \<open>A text with the marker counts as a call, and the result after it is sent without one.\<close>

lemma marked_text_sends_orphan:
  "tools_paired [message_text Assistant ''[tool_call: x]'', tool_result ''1'' ''r''] \<and>
   \<not> blocks_paired None (map (anthropic_message wi) [message_text Assistant ''[tool_call: x]'', tool_result ''1'' ''r''])"
proof -
  have "contains ''[tool_call: x]'' ''[tool_call:''" by code_simp
  then have "tools_paired [message_text Assistant ''[tool_call: x]'', tool_result ''1'' ''r'']"
    by (simp add: message_text_def tool_result_def may_precede_def has_call_def)
  moreover have "\<not> has_block t (anthropic_message wi (message_text Assistant c))" for t c
    by (simp add: anthropic_message_def message_text_def has_block_def)
  moreover have "has_block ''tool_result'' (anthropic_message wi (tool_result ''1'' ''r''))"
    by (simp add: result_block tool_result_def)
  ultimately show ?thesis by simp
qed

section \<open>Where a stream differs\<close>

lemma feed_events_all:
  assumes "\<And>e s ds s1. handle e s = Inr (ds, s1) \<Longrightarrow> list_all P ds"
  shows "feed_events handle is_done es s = (ds, r) \<Longrightarrow> list_all P ds"
proof (induction es arbitrary: s ds)
  case (Cons e es)
  show ?case
  proof (cases "handle e s")
    case (Inr x)
    obtain ds1 s1 where x: "x = (ds1, s1)" by (cases x)
    have "list_all P ds1" using assms Inr x by blast
    then show ?thesis
      using Cons.prems Cons.IH [of s1] Inr x by (auto split: if_splits prod.splits)
  qed (use Cons.prems in simp)
qed simp

lemma feed_chunks_all:
  assumes "\<And>e s ds s1. handle e s = Inr (ds, s1) \<Longrightarrow> list_all P ds"
  shows "feed_chunks handle is_done lossy reading cs d s = (ds, r) \<Longrightarrow> list_all P ds"
proof (induction cs arbitrary: d s ds)
  case (Cons c cs)
  show ?case
  proof (cases c)
    case (Inr b)
    obtain es d1 where push: "sse_push lossy b d = (es, d1)" by fastforce
    obtain ds1 q where feed: "feed_events handle is_done es s = (ds1, q)" by fastforce
    have "list_all P ds1" by (rule feed_events_all [OF assms feed])
    then show ?thesis
      using Cons.prems Cons.IH [of d1] Inr push feed by (auto split: if_splits prod.splits sum.splits)
  qed (use Cons.prems in simp)
qed simp

lemma no_error_delta: "an_event wi e s = Inr (ds, s1) \<Longrightarrow> list_all (\<lambda>d. \<forall>m. d \<noteq> DeltaError m) ds"
  by (auto simp: an_event_def message_start_def block_start_def block_delta_def add_text_def block_stop_def
      message_delta_def Let_def split: sum.splits if_splits option.splits)

text \<open>The error of a stream is never sent to the reader of its deltas: the event that carries it ends the call.\<close>

lemma stream_error_not_sent:
  "DeltaError m \<notin> set (fst (read_stream (an_event wi) as_done an_finish lossy reading cs s))"
proof -
  obtain ds r where feed: "feed_chunks (an_event wi) as_done lossy reading cs sse_new s = (ds, r)" by fastforce
  have "list_all (\<lambda>d. \<forall>m. d \<noteq> DeltaError m) ds"
    by (rule feed_chunks_all [OF _ feed]) (rule no_error_delta)
  then have "DeltaError m \<notin> set ds" by (auto simp: list_all_iff)
  moreover have "DeltaError m \<notin> set ds2" if "an_event wi e s2 = Inr (ds2, s3)" for e s2 ds2 s3
    using no_error_delta [OF that] by (auto simp: list_all_iff)
  ultimately show ?thesis
    by (auto simp: read_stream_def feed split: sum.splits option.splits prod.splits if_splits)
qed

text \<open>Thoughts are marked in the plain answer; in a stream they are part of the text.\<close>

lemma streamed_thinking_unmarked:
  "block_delta (JObject [(''delta'', JObject [(''type'', JString ''thinking_delta''), (''thinking'', JString t)])]) an_new =
     ([DeltaText t], an_new\<lparr>as_content := t\<rparr>)"
  "t \<noteq> [] \<Longrightarrow> fst (parse_blocks wi [JObject [(''type'', JString ''thinking''), (''thinking'', JString t)]] [] []) =
     ''<thinking>'' @ [newline] @ t @ [newline] @ ''</thinking>'' @ [newline, newline]"
  by (simp_all add: block_delta_def add_text_def an_new_def thinking_text_def)

text \<open>
  A call without parameters, which the service streams as a block with an empty piece of JSON, has no
  arguments at all, where the plain answer has an empty object.
\<close>

lemma streamed_call_without_parameters:
  "an_finish (snd (block_delta (JObject [(''index'', JUInt 0), (''delta'',
       JObject [(''type'', JString ''input_json_delta''), (''partial_json'', JString [])])])
     (snd (block_start (JObject [(''index'', JUInt 0), (''content_block'',
       JObject [(''type'', JString ''tool_use''), (''id'', JString ''a''), (''name'', JString ''b'')])]) an_new)))) =
   Inr \<lparr>rs_content = [], rs_tool_calls = [\<lparr>tc_id = ''a'', tc_name = ''b'', tc_arguments = []\<rparr>],
        rs_usage = no_usage, rs_finish_reason = Stop\<rparr>"
  by code_simp

end
