(* ===== verification/Routing.thy ===== *)
theory Routing
  imports Complex_Main Prelude Rust_Text
begin

text \<open>
  The routing of a prompt to a model by its complexity (\<open>frankclaw-models/src/routing.rs\<close>). The regular
  expressions are the source's, run by the regex library, which is a parameter; an \<open>f32\<close> is a rational
  that \<open>fl32\<close> rounds to 24 bits, ties to even, as the hardware does below the overflow threshold. The
  lemmas show that tier and score of a breakdown agree, and that a hint decides alone.
\<close>

section \<open>Single-precision numbers\<close>

definition pow2 :: "int \<Rightarrow> rat" where
  "pow2 e = (if 0 \<le> e then 2 ^ nat e else 1 / 2 ^ nat (- e))"

fun bit_count :: "nat \<Rightarrow> nat" where
  "bit_count n = (if n = 0 then 0 else Suc (bit_count (n div 2)))"

declare bit_count.simps [simp del]

definition exponent_of :: "rat \<Rightarrow> int" where
  "exponent_of x =
     (case quotient_of x of (p, q) \<Rightarrow>
        let e = int (bit_count (nat p)) - int (bit_count (nat q))
        in if pow2 e \<le> x then e else e - 1)"

definition round_half_even :: "rat \<Rightarrow> int" where
  "round_half_even y =
     (let f = floor y; d = y - of_int f
      in if d < 1 / 2 then f else if 1 / 2 < d then f + 1 else if even f then f else f + 1)"

definition fl32 :: "rat \<Rightarrow> rat" where
  "fl32 x =
     (if x = 0 then 0
      else let u = pow2 (max (exponent_of \<bar>x\<bar>) (- 126) - 23) in of_int (round_half_even (x / u)) * u)"

text \<open>\<open>as u32\<close> of an \<open>f32\<close> saturates.\<close>

definition f32_to_u32 :: "rat \<Rightarrow> nat" where
  "f32_to_u32 x = min (nat (floor x)) (2 ^ 32 - 1)"

section \<open>Tiers\<close>

datatype tier = Flash | Standard | Pro | Frontier

datatype task_complexity = Simple | Moderate | Complex

definition tier_of_score :: "nat \<Rightarrow> tier" where
  "tier_of_score score =
     (if score \<le> 15 then Flash else if score \<le> 40 then Standard else if score \<le> 65 then Pro else Frontier)"

primrec task_of_tier :: "tier \<Rightarrow> task_complexity" where
  "task_of_tier Flash = Simple"
| "task_of_tier Standard = Simple"
| "task_of_tier Pro = Moderate"
| "task_of_tier Frontier = Complex"

primrec tier_text :: "tier \<Rightarrow> string" where
  "tier_text Flash = ''flash''"
| "tier_text Standard = ''standard''"
| "tier_text Pro = ''pro''"
| "tier_text Frontier = ''frontier''"

record scorer_weights =
  sw_reasoning_words :: rat
  sw_token_estimate :: rat
  sw_code_indicators :: rat
  sw_multi_step :: rat
  sw_domain_specific :: rat
  sw_ambiguity :: rat
  sw_creativity :: rat
  sw_precision :: rat
  sw_context_dependency :: rat
  sw_tool_likelihood :: rat
  sw_safety_sensitivity :: rat
  sw_question_complexity :: rat
  sw_sentence_complexity :: rat

definition default_weights :: scorer_weights where
  "default_weights =
     \<lparr>sw_reasoning_words = fl32 (14 / 100),
      sw_token_estimate = fl32 (12 / 100),
      sw_code_indicators = fl32 (10 / 100),
      sw_multi_step = fl32 (10 / 100),
      sw_domain_specific = fl32 (10 / 100),
      sw_ambiguity = fl32 (5 / 100),
      sw_creativity = fl32 (7 / 100),
      sw_precision = fl32 (6 / 100),
      sw_context_dependency = fl32 (5 / 100),
      sw_tool_likelihood = fl32 (5 / 100),
      sw_safety_sensitivity = fl32 (4 / 100),
      sw_question_complexity = fl32 (7 / 100),
      sw_sentence_complexity = fl32 (5 / 100)\<rparr>"

definition default_domain_keywords :: "string list" where
  "default_domain_keywords =
     [''kubernetes'', ''k8s'', ''docker'', ''terraform'', ''nginx'', ''apache'', ''linux'',
      ''unix'', ''bash'', ''shell'', ''solidity'', ''rust'', ''typescript'', ''react'', ''nextjs'',
      ''vue'', ''angular'', ''svelte'', ''postgresql'', ''postgres'', ''mysql'', ''mongodb'',
      ''redis'', ''graphql'', ''grpc'', ''protobuf'', ''websocket'', ''oauth'', ''jwt'', ''cors'',
      ''csrf'', ''xss'', ''sql.?injection'', ''api'', ''rest'', ''aws'', ''gcp'', ''azure'',
      ''vercel'', ''netlify'', ''cloudflare'', ''ci/cd'', ''devops'', ''git'', ''github'',
      ''gitlab'', ''blockchain'', ''web3'', ''defi'', ''nft'', ''smart.?contract'', ''ethereum'',
      ''evm'']"

record scorer_config =
  sc_weights :: scorer_weights
  sc_domain_keywords :: "string list option"

record score_breakdown =
  sb_total :: nat
  sb_tier :: tier
  sb_components :: "(string \<times> nat) list"
  sb_hints :: "string list"

section \<open>Patterns\<close>

text \<open>A raw string; \<open>~\<close> is written for the backslash, which the source's patterns use and \<open>~\<close> they do not.\<close>

definition raw :: "string \<Rightarrow> string" where
  "raw s = map (\<lambda>c. if c = CHR ''~'' then CHR 0x5C else c) s"

definition re_reasoning :: string where
  "re_reasoning =
     raw (''(?i)~b(why|how|explain|analyze|analyse|compare|contrast|evaluate|assess|reason|think'' @
       ''|consider|implications?|consequences?|trade-?offs?|pros?~s*(and|&)~s*cons?|advantage'' @
       ''s?|disadvantages?|benefits?|drawbacks?|differs?|difference|versus|vs~.?|better|worse'' @
       ''|optimal|best|worst)~b'')"

definition re_multi_step :: string where
  "re_multi_step =
     raw (''(?i)~b(first|then|next|after|before|finally|step|steps|phase|stages?|process|workflo'' @
       ''w|sequence|procedure|pipeline|chain|series|order|followed by)~b'')"

definition re_creativity :: string where
  "re_creativity =
     raw (''(?i)~b(write|create|generate|compose|design|imagine|brainstorm|ideate|draft|invent|s'' @
       ''tory|poem|essay|article|blog|content|narrative|script|summarize|summarise|rewrite|pa'' @
       ''raphrase|translate|adapt|tweet|post|thread|outline|structure|format|style|tone|voice'' @
       '')~b'')"

definition re_precision :: string where
  "re_precision =
     raw (''(?i)~b(~d{4}|~d+~.~d+|exactly|precisely|specific|accurate|correct|verify|confirm|dat'' @
       ''e|time|number|calculate|compute|measure|count)~b'')"

definition re_code :: string where
  "re_code =
     raw (''(?i)(`{1,3}|```|function|const|let|var|import|export|class|def |async|await|=>|~.ts|'' @
       ''~.js|~.py|~.rs|~.go|~.sol|~(~)|~[~]|~{~}|<[A-Z][a-z]+>|useState|useEffect|npm|yarn|p'' @
       ''npm|cargo|pip|implement|rebase|merge|commit|branch|PR|pull.?request|columns?|migrati'' @
       ''ons?|module|refactor|debug|fix|bug|error|schema|database|query)'')"

definition re_tool :: string where
  "re_tool =
     raw (''(?i)~b(file|read|write|search|fetch|run|execute|check|look up|find|open|save|send|po'' @
       ''st|get|download|upload|install|deploy|build|compile|test|add|update|remove|delete|mo'' @
       ''dify|change|edit|create|resolve|push|pull|clone)~b'')"

definition re_safety :: string where
  "re_safety =
     raw (''(?i)~b(password|secret|private|confidential|medical|legal|financial|personal|sensiti'' @
       ''ve|ssn|credit.?card|auth|token|key|encrypt|decrypt|hash|vulnerability|exploit|attack'' @
       ''|breach)~b'')"

definition re_context :: string where
  "re_context =
     raw (''(?i)~b(previous|earlier|above|before|last|that|those|it|they|we discussed|you said|m'' @
       ''entioned|remember|recall|as I said|like I mentioned)~b'')"

definition re_vague :: string where
  "re_vague =
     raw ''(?i)~b(it|this|that|something|stuff|thing|things)~b''"

definition re_open_ended :: string where
  "re_open_ended =
     raw ''(?i)~b(why|how|what if|explain|describe|elaborate|discuss)~b''"

definition re_conjunctions :: string where
  "re_conjunctions =
     raw (''(?i)~b(and|but|or|however|therefore|because|although|while|whereas|moreover|furtherm'' @
       ''ore)~b'')"

definition re_tier_hint :: string where
  "re_tier_hint =
     raw ''(?i)~[tier:(flash|standard|pro|frontier)~]''"

definition default_overrides :: "(string \<times> tier) list" where
  "default_overrides =
     [(raw ''(?i)^(hi|hello|hey|thanks|ok|sure|yes|no|yep|nope|cool|nice|great|got it)$'', Flash),
      (raw (''(?i)^what(?:'' @
       [CHR 0x27] @
       ''s|~s+is)?~s+(?:the~s+)?(time|date|day|weather)~b(?:~s+(?:is~s+it|today|now|in~s+~S+)'' @
       '')?[?.!]*$''), Flash),
      (raw ''(?i)security.*(audit|review|scan)'', Frontier),
      (raw ''(?i)vulnerabilit(y|ies).*(review|scan|check|audit)'', Frontier),
      (raw ''(?i)deploy.*(mainnet|production)'', Pro),
      (raw ''(?i)production.*(deploy|release|push)'', Pro)]"

text \<open>
  The regex library: whether a pattern compiles, the number of its matches that do not overlap, whether it
  matches, and the first group of its first match.
\<close>

record regex_library =
  rl_valid :: "string \<Rightarrow> bool"
  rl_count :: "string \<Rightarrow> string \<Rightarrow> nat"
  rl_match :: "string \<Rightarrow> string \<Rightarrow> bool"
  rl_group :: "string \<Rightarrow> string \<Rightarrow> string option"

definition word_pattern :: "string list \<Rightarrow> string" where
  "word_pattern keywords = raw ''(?i)~b('' @ join ''|'' keywords @ raw '')~b''"

definition build_domain_regex :: "regex_library \<Rightarrow> string list \<Rightarrow> string" where
  "build_domain_regex rl keywords =
     (let pattern = word_pattern (if keywords = [] then default_domain_keywords else keywords)
      in if rl_valid rl pattern then pattern else raw ''(?i)~b(api|code|deploy)~b'')"

section \<open>Scores\<close>

definition tier_of_hint :: "string \<Rightarrow> tier" where
  "tier_of_hint h =
     (let l = to_lower h
      in if l = ''flash'' then Flash else if l = ''standard'' then Standard
         else if l = ''pro'' then Pro else if l = ''frontier'' then Frontier else Standard)"

primrec hint_total :: "tier \<Rightarrow> nat" where
  "hint_total Flash = 8"
| "hint_total Standard = 28"
| "hint_total Pro = 52"
| "hint_total Frontier = 80"

text \<open>Fifty points a match, a hundred at most.\<close>

definition match_score :: "nat \<Rightarrow> nat" where
  "match_score n = min (n * 50) 100"

definition matches_hint :: "string \<Rightarrow> nat \<Rightarrow> string" where
  "matches_hint name n = name @ '': '' @ show_nat n @ '' matches''"

definition token_score :: "nat \<Rightarrow> nat" where
  "token_score char_count = f32_to_u32 (min (fl32 (fl32 (of_nat (char_count - 20)) / 5)) 100)"

definition count_char :: "char \<Rightarrow> string \<Rightarrow> nat" where
  "count_char c s = length (filter (\<lambda>d. d = c) s)"

definition question_score :: "nat \<Rightarrow> nat \<Rightarrow> nat" where
  "question_score marks open_ended = min (marks * 20 + open_ended * 25) 100"

definition dimension_scores :: "regex_library \<Rightarrow> string \<Rightarrow> string \<Rightarrow> (string \<times> nat) list" where
  "dimension_scores rl domain_regex prompt =
     (let n = (\<lambda>re. rl_count rl re prompt);
          clauses = count_char CHR '','' prompt + count_char CHR '';'' prompt * 2 + n re_conjunctions
      in [(''token_estimate'', token_score (length prompt)),
          (''reasoning_words'', match_score (n re_reasoning)),
          (''multi_step'', match_score (n re_multi_step)),
          (''creativity'', match_score (n re_creativity)),
          (''precision'', match_score (n re_precision)),
          (''code_indicators'', match_score (n re_code)),
          (''tool_likelihood'', match_score (n re_tool)),
          (''safety_sensitivity'', match_score (n re_safety)),
          (''context_dependency'', match_score (n re_context)),
          (''domain_specific'', match_score (n domain_regex)),
          (''ambiguity'', min (n re_vague * 25) 100),
          (''question_complexity'', question_score (count_char CHR ''?'' prompt) (n re_open_ended)),
          (''sentence_complexity'', min (clauses * 12) 100)])"

definition dimension_hints :: "regex_library \<Rightarrow> string \<Rightarrow> string \<Rightarrow> string list" where
  "dimension_hints rl domain_regex prompt =
     (let n = (\<lambda>re. rl_count rl re prompt);
          hint = (\<lambda>k name re. if k \<le> n re then [matches_hint name (n re)] else []);
          marks = count_char CHR ''?'' prompt;
          clauses = count_char CHR '','' prompt + count_char CHR '';'' prompt * 2 + n re_conjunctions
      in (if 200 < length prompt then [''Long prompt ('' @ show_nat (length prompt) @ '' chars)''] else []) @
         hint 2 ''reasoning_words'' re_reasoning @ hint 2 ''multi_step'' re_multi_step @
         hint 2 ''creativity'' re_creativity @ hint 2 ''code_indicators'' re_code @
         hint 1 ''safety_sensitivity'' re_safety @ hint 2 ''domain_specific'' domain_regex @
         (if 2 \<le> marks then [''Multiple questions: '' @ show_nat marks] else []) @
         (if 5 \<le> clauses then [''Complex structure: '' @ show_nat clauses @ '' clauses''] else []))"

definition weight_list :: "scorer_weights \<Rightarrow> (string \<times> rat) list" where
  "weight_list w =
     [(''reasoning_words'', sw_reasoning_words w),
      (''token_estimate'', sw_token_estimate w),
      (''code_indicators'', sw_code_indicators w),
      (''multi_step'', sw_multi_step w),
      (''domain_specific'', sw_domain_specific w),
      (''ambiguity'', sw_ambiguity w),
      (''creativity'', sw_creativity w),
      (''precision'', sw_precision w),
      (''context_dependency'', sw_context_dependency w),
      (''tool_likelihood'', sw_tool_likelihood w),
      (''safety_sensitivity'', sw_safety_sensitivity w),
      (''question_complexity'', sw_question_complexity w),
      (''sentence_complexity'', sw_sentence_complexity w)]"

text \<open>The sum is rounded after every product and every addition, in the order of the list.\<close>

definition weighted_total :: "scorer_weights \<Rightarrow> (string \<times> nat) list \<Rightarrow> rat" where
  "weighted_total w scores =
     foldl (\<lambda>acc (name, weight).
         fl32 (acc + fl32 (fl32 (of_nat (case map_of scores name of Some v \<Rightarrow> v | None \<Rightarrow> 0)) * weight)))
       0 (weight_list w)"

definition boost :: "nat \<Rightarrow> rat \<Rightarrow> rat" where
  "boost triggered x =
     (if 3 \<le> triggered then fl32 (x * fl32 (13 / 10))
      else if 2 \<le> triggered then fl32 (x * fl32 (115 / 100))
      else x)"

definition score_complexity_internal :: "regex_library \<Rightarrow> string \<Rightarrow> scorer_weights \<Rightarrow> string \<Rightarrow> score_breakdown" where
  "score_complexity_internal rl prompt w domain_regex =
     (case rl_group rl re_tier_hint prompt of
        Some h \<Rightarrow>
          \<lparr>sb_total = hint_total (tier_of_hint h), sb_tier = tier_of_hint h, sb_components = [],
           sb_hints = [''Explicit tier hint: '' @ tier_text (tier_of_hint h)]\<rparr>
      | None \<Rightarrow>
          (let scores = dimension_scores rl domain_regex prompt;
               triggered = length (filter (\<lambda>(_, v). 20 < v) scores);
               score = min (f32_to_u32 (boost triggered (weighted_total w scores))) 100
           in \<lparr>sb_total = score, sb_tier = tier_of_score score, sb_components = scores,
               sb_hints = dimension_hints rl domain_regex prompt @
                 (if 3 \<le> triggered
                  then [''Multi-dimensional ('' @ show_nat triggered @ '' triggers)''] else [])\<rparr>))"

definition score_complexity_with_config :: "regex_library \<Rightarrow> string \<Rightarrow> scorer_config \<Rightarrow> score_breakdown" where
  "score_complexity_with_config rl prompt config =
     score_complexity_internal rl prompt (sc_weights config)
       (case sc_domain_keywords config of
          Some custom \<Rightarrow> build_domain_regex rl custom
        | None \<Rightarrow> build_domain_regex rl default_domain_keywords)"

definition score_complexity :: "regex_library \<Rightarrow> string \<Rightarrow> score_breakdown" where
  "score_complexity rl prompt =
     score_complexity_with_config rl prompt \<lparr>sc_weights = default_weights, sc_domain_keywords = None\<rparr>"

definition classify_message :: "regex_library \<Rightarrow> string \<Rightarrow> task_complexity" where
  "classify_message rl raw_message =
     (let message = trim raw_message
      in case rl_group rl re_tier_hint message of
           Some h \<Rightarrow> task_of_tier (tier_of_hint h)
         | None \<Rightarrow>
             (case find (\<lambda>(re, _). rl_match rl re message) default_overrides of
                Some (_, t) \<Rightarrow> task_of_tier t
              | None \<Rightarrow> task_of_tier (sb_tier (score_complexity rl message))))"

definition uncertainty_patterns :: "string list" where
  "uncertainty_patterns =
     [''i'' @ [CHR 0x27] @ ''m not sure'',
      ''i am not sure'',
      ''i don'' @ [CHR 0x27] @ ''t know'',
      ''i do not know'',
      ''i'' @ [CHR 0x27] @ ''m unable to'',
      ''i am unable to'',
      ''i cannot'',
      ''i can'' @ [CHR 0x27] @ ''t'',
      ''beyond my capabilities'',
      ''beyond my ability'',
      ''i'' @ [CHR 0x27] @ ''m not able to'',
      ''i am not able to'',
      ''i don'' @ [CHR 0x27] @ ''t have enough'',
      ''i do not have enough'',
      ''i need more context'',
      ''i need more information'',
      ''could you clarify'',
      ''could you provide more'',
      ''i'' @ [CHR 0x27] @ ''m not confident'',
      ''i am not confident'']"

definition response_is_uncertain :: "string \<Rightarrow> bool" where
  "response_is_uncertain content \<longleftrightarrow>
     trim content = [] \<or> list_ex (contains (to_lower (trim content))) uncertainty_patterns"

section \<open>Lemmas\<close>

lemma dimension_scores_bounded: "(k, v) \<in> set (dimension_scores rl re prompt) \<Longrightarrow> v \<le> 100"
proof -
  have t: "token_score n \<le> 100" for n
  proof -
    have "nat \<lfloor>min x (100 :: rat)\<rfloor> \<le> 100" for x
      using floor_mono [of "min x 100" "100 :: rat"] by (simp only: floor_numeral min.cobounded2 nat_le_iff) simp
    then show ?thesis by (simp add: token_score_def f32_to_u32_def min.coboundedI1)
  qed
  assume "(k, v) \<in> set (dimension_scores rl re prompt)"
  then show ?thesis
    using t by (auto simp: dimension_scores_def Let_def match_score_def question_score_def)
qed

lemma hint_total_in_tier: "tier_of_score (hint_total t) = t"
  by (cases t) (simp_all add: tier_of_score_def)

lemma breakdown_agrees:
  "let b = score_complexity_internal rl prompt w re
   in sb_tier b = tier_of_score (sb_total b) \<and> sb_total b \<le> 100 \<and> (\<forall>v\<in>snd ` set (sb_components b). v \<le> 100)"
proof (cases "rl_group rl re_tier_hint prompt")
  case None
  then show ?thesis
    using dimension_scores_bounded [of _ _ rl re prompt]
    by (auto simp: score_complexity_internal_def Let_def)
next
  case (Some h)
  then show ?thesis
    by (cases "tier_of_hint h") (simp_all add: score_complexity_internal_def hint_total_in_tier [symmetric] tier_of_score_def)
qed

text \<open>A short prompt in which no pattern occurs scores nothing.\<close>

lemma fl32_0 [simp]: "fl32 0 = 0"
  by (simp add: fl32_def)

lemma f32_to_u32_0 [simp]: "f32_to_u32 0 = 0"
  by (simp add: f32_to_u32_def)

lemma zero_scores_total:
  assumes "\<And>k v. (k, v) \<in> set scores \<Longrightarrow> v = 0"
  shows "weighted_total w scores = 0"
proof -
  have m: "map_of scores k = None \<or> map_of scores k = Some 0" for k
    using assms by (cases "map_of scores k") (auto dest: map_of_SomeD)
  have "(case map_of scores k of Some v \<Rightarrow> v | None \<Rightarrow> 0) = (0 :: nat)" for k
    using m [of k] by auto
  then show ?thesis by (simp add: weighted_total_def weight_list_def)
qed

lemma count_char_0: "c \<notin> set s \<Longrightarrow> count_char c s = 0"
  by (auto simp: count_char_def filter_empty_conv)

lemma quiet_prompt_scores_nothing:
  assumes "length prompt \<le> 20" "\<And>re. rl_count rl re prompt = 0" "rl_group rl re_tier_hint prompt = None"
    "CHR '','' \<notin> set prompt" "CHR '';'' \<notin> set prompt" "CHR ''?'' \<notin> set prompt"
  shows "sb_total (score_complexity_internal rl prompt w re) = 0"
proof -
  have z: "(k, v) \<in> set (dimension_scores rl re prompt) \<Longrightarrow> v = 0" for k v
    using assms by (auto simp: dimension_scores_def Let_def match_score_def question_score_def count_char_0 token_score_def)
  have "length (filter (\<lambda>(_, v). 20 < v) (dimension_scores rl re prompt)) = 0"
    using z by (auto simp: filter_empty_conv)
  then show ?thesis
    using assms(3) zero_scores_total [OF z] by (simp add: score_complexity_internal_def boost_def)
qed

lemma hint_decides_class:
  assumes "rl_group rl re_tier_hint (trim m) = Some h"
  shows "classify_message rl m = task_of_tier (sb_tier (score_complexity rl (trim m)))"
  using assms
  by (simp add: classify_message_def score_complexity_def score_complexity_with_config_def score_complexity_internal_def)

end
