(* ===== verification/Links.thy ===== *)
theory Links
  imports Net_Safety Rust_Text
begin

text \<open>
  The links of a message (\<open>frankclaw-core/src/links.rs\<close>). The URL parser (scheme and host, an IPv6
  host in its brackets) and the parser of IP addresses are parameters. The lemmas show that what is returned
  is distinct, allowed, made of URL characters and at most as much as asked for; and that a host in brackets
  is not checked as an address.
\<close>

section \<open>Characters and Markdown\<close>

definition default_max_links :: nat where
  "default_max_links = 3"

definition is_url_char :: "char \<Rightarrow> bool" where
  "is_url_char c \<longleftrightarrow>
     \<not> is_ws c \<and> c \<noteq> CHR ''<'' \<and> c \<noteq> CHR ''>'' \<and> c \<noteq> CHR 0x22 \<and> c \<noteq> CHR 0x27 \<and> c \<noteq> CHR 0x60"

definition http_start :: "string \<Rightarrow> bool" where
  "http_start s \<longleftrightarrow> starts_with s ''http://'' \<or> starts_with s ''https://''"

text \<open>What follows the first occurrence of a character.\<close>

fun after_char :: "char \<Rightarrow> string \<Rightarrow> string option" where
  "after_char d [] = None"
| "after_char d (c # s) = (if c = d then Some s else after_char d s)"

text \<open>The text after a link, given the text after its opening bracket.\<close>

definition after_markdown_link :: "string \<Rightarrow> string option" where
  "after_markdown_link s =
     (case after_char CHR '']'' s of
        Some (p # rest) \<Rightarrow>
          if p = CHR ''('' \<and> http_start rest then after_char CHR '')'' rest else None
      | _ \<Rightarrow> None)"

lemma after_char_shorter: "after_char d s = Some r \<Longrightarrow> length r < length s"
  by (induction s) (auto split: if_splits)

lemma after_markdown_link_shorter: "after_markdown_link s = Some r \<Longrightarrow> length r < length s"
  by (auto simp: after_markdown_link_def split: option.splits list.splits if_splits dest!: after_char_shorter)

function strip_markdown_links :: "string \<Rightarrow> string" where
  "strip_markdown_links [] = []"
| "strip_markdown_links (c # s) =
     (case (if c = CHR ''['' then after_markdown_link s else None) of
        Some rest \<Rightarrow> CHR '' '' # strip_markdown_links rest
      | None \<Rightarrow> c # strip_markdown_links s)"
  by pat_completeness auto
termination
  by (relation "measure length") (auto split: if_splits dest: after_markdown_link_shorter)

section \<open>URLs\<close>

definition is_trailing :: "char \<Rightarrow> bool" where
  "is_trailing c \<longleftrightarrow> c \<in> set ''.,)]>;!?''"

definition extract_url_at :: "string \<Rightarrow> string option" where
  "extract_url_at s =
     (if \<not> http_start s then None
      else let whole = takeWhile is_url_char s
           in if length whole \<le> length ''https://'' then None
              else let trimmed = rev (dropWhile is_trailing (rev whole))
                   in if length trimmed \<le> length ''https://'' then None else Some trimmed)"

text \<open>The parsers of the libraries: a URL's scheme and host, and an address.\<close>

record link_env =
  lk_url :: "string \<Rightarrow> (string \<times> string option) option"
  lk_ip :: "string \<Rightarrow> ip_addr option"

definition is_allowed_url :: "link_env \<Rightarrow> string \<Rightarrow> bool" where
  "is_allowed_url le u =
     (case lk_url le u of
        None \<Rightarrow> False
      | Some (scheme, host) \<Rightarrow>
          if scheme \<noteq> ''http'' \<and> scheme \<noteq> ''https'' then False
          else (case host of
             None \<Rightarrow> False
           | Some h \<Rightarrow>
               (case lk_ip le h of
                  Some ip \<Rightarrow> is_safe_ip ip
                | None \<Rightarrow>
                    \<not> (h = ''localhost'' \<or> ends_with h ''.local'' \<or> ends_with h ''.internal'' \<or>
                      h = ''metadata.google.internal''))))"

fun next_http :: "string \<Rightarrow> string option" where
  "next_http [] = None"
| "next_http (c # s) = (if http_start (c # s) then Some (c # s) else next_http s)"

lemma next_http_suffix: "next_http s = Some u \<Longrightarrow> \<exists>v. s = v @ u \<and> u \<noteq> []"
  by (induction s) (auto split: if_splits intro: append_Cons [symmetric])

lemma extract_url_props:
  assumes "extract_url_at s = Some u"
  shows "length ''https://'' < length u" "list_all is_url_char u" "http_start u" "\<exists>r. s = u @ r"
proof -
  let ?w = "takeWhile is_url_char s"
  have u: "http_start s" "u = rev (dropWhile is_trailing (rev ?w))" "length ''https://'' < length u"
    using assms by (auto simp: extract_url_at_def Let_def split: if_splits)
  then show "length ''https://'' < length u" by simp
  have "rev ?w = takeWhile is_trailing (rev ?w) @ dropWhile is_trailing (rev ?w)" by simp
  then have p: "?w = u @ rev (takeWhile is_trailing (rev ?w))"
    using u(2) by (metis rev_append rev_rev_ident)
  then have "s = u @ rev (takeWhile is_trailing (rev ?w)) @ dropWhile is_url_char s"
    by (metis append.assoc takeWhile_dropWhile_id)
  then show "\<exists>r. s = u @ r" by blast
  have "set u \<subseteq> set ?w" using p by (metis Un_upper1 set_append)
  then show "list_all is_url_char u" by (auto simp: list_all_iff dest: set_takeWhileD)
  obtain r where s: "s = u @ r" using \<open>\<exists>r. s = u @ r\<close> by blast
  show "http_start u" using u(1,3) s by (auto simp: http_start_def starts_with_def)
qed

text \<open>The scan from a position on; the URLs found so far are also those seen.\<close>

function scan_links :: "link_env \<Rightarrow> nat \<Rightarrow> string \<Rightarrow> string list \<Rightarrow> string list" where
  "scan_links le m s found =
     (case next_http s of
        None \<Rightarrow> found
      | Some u \<Rightarrow>
          (case extract_url_at u of
             None \<Rightarrow> scan_links le m (drop 1 u) found
           | Some url \<Rightarrow>
               if is_allowed_url le url \<and> url \<notin> set found
               then (if m \<le> Suc (length found) then found @ [url]
                     else scan_links le m (drop (length url) u) (found @ [url]))
               else scan_links le m (drop (length url) u) found))"
  by pat_completeness auto
termination
  by (relation "measure (\<lambda>(_, _, s, _). length s)")
    (auto simp: neq_Nil_conv dest!: next_http_suffix extract_url_props(1))

declare scan_links.simps [simp del]

definition extract_links :: "link_env \<Rightarrow> string \<Rightarrow> nat option \<Rightarrow> string list" where
  "extract_links le raw_message max_links =
     (let message = trim raw_message
      in if message = [] then []
         else scan_links le (case max_links of Some m \<Rightarrow> m | None \<Rightarrow> default_max_links)
           (strip_markdown_links message) [])"

section \<open>What is returned\<close>

definition good_link :: "link_env \<Rightarrow> string \<Rightarrow> bool" where
  "good_link le u \<longleftrightarrow> is_allowed_url le u \<and> http_start u \<and> list_all is_url_char u"

lemma scan_links_good:
  assumes "distinct found" "list_all (good_link le) found" "length found < max 1 m"
  shows "distinct (scan_links le m s found) \<and> list_all (good_link le) (scan_links le m s found) \<and>
    length (scan_links le m s found) \<le> max 1 m"
  using assms
proof (induction le m s found rule: scan_links.induct)
  case (1 le m s found)
  show ?case
  proof (cases "next_http s")
    case None
    then show ?thesis using 1(4-6) by (subst (1 2 3) scan_links.simps) simp
  next
    case n: (Some u)
    show ?thesis
    proof (cases "extract_url_at u")
      case None
      then show ?thesis using n 1(1) [OF n None 1(4-6)] by (subst (1 2 3) scan_links.simps) simp
    next
      case e: (Some url)
      show ?thesis
      proof (cases "is_allowed_url le url \<and> url \<notin> set found")
        case False
        then show ?thesis using n e 1(3) [OF n e False 1(4-6)] by (subst (1 2 3) scan_links.simps) auto
      next
        case True
        have g: "distinct (found @ [url])" "list_all (good_link le) (found @ [url])"
          using True 1(4,5) extract_url_props [OF e] by (auto simp: good_link_def list_all_iff)
        show ?thesis
        proof (cases "m \<le> Suc (length found)")
          case True
          then show ?thesis
            using n e \<open>is_allowed_url le url \<and> url \<notin> set found\<close> g 1(6)
            by (subst (1 2 3) scan_links.simps) auto
        next
          case m: False
          then show ?thesis
            using n e True 1(2) [OF n e True m g] by (subst (1 2 3) scan_links.simps) auto
        qed
      qed
    qed
  qed
qed

lemma extracted_links_good:
  "distinct (extract_links le s max_links) \<and> list_all (good_link le) (extract_links le s max_links) \<and>
   length (extract_links le s max_links) \<le> max 1 (case max_links of Some m \<Rightarrow> m | None \<Rightarrow> 3)"
  using scan_links_good [of "[]" le 3 "strip_markdown_links (trim s)"]
    scan_links_good [of "[]" le "the max_links" "strip_markdown_links (trim s)"]
  by (cases max_links) (simp_all add: extract_links_def Let_def default_max_links_def)

text \<open>A limit of no links still gives one.\<close>

lemma no_links_gives_one:
  "extract_links \<lparr>lk_url = \<lambda>_. Some (''http'', Some ''a.example''), lk_ip = \<lambda>_. None\<rparr> ''http://a.example'' (Some 0) =
   [''http://a.example'']"
  by code_simp

text \<open>An IPv6 host keeps its brackets, which no address has, so that the loopback address passes.\<close>

lemma bracketed_host_allowed:
  assumes "lk_url le u = Some (''http'', Some ''[::1]'')" "lk_ip le ''[::1]'' = None"
  shows "is_allowed_url le u"
  using assms by (simp add: is_allowed_url_def ends_with_def)

text \<open>A link in Markdown and nothing else gives no URL.\<close>

lemma after_char_first: "d \<notin> set a \<Longrightarrow> after_char d (a @ d # r) = Some r"
  by (induction a) auto

lemma markdown_link_ignored:
  assumes "CHR '']'' \<notin> set label" "CHR '')'' \<notin> set target" "http_start target"
  shows "strip_markdown_links (CHR ''['' # label @ ''](''@ target @ '')'' @ rest) = CHR '' '' # strip_markdown_links rest"
proof -
  have "http_start (target @ CHR '')'' # rest)"
    using assms(3) by (auto simp: http_start_def starts_with_iff)
  then have "after_markdown_link (label @ CHR '']'' # CHR ''('' # target @ CHR '')'' # rest) = Some rest"
    using assms by (simp add: after_markdown_link_def after_char_first)
  then show ?thesis by simp
qed

end
