(* ===== verification/Channel_Wire.thy ===== *)
theory Channel_Wire
  imports Channel_Text Media_Types Model_Wire Webhooks Delivery
begin

text \<open>
  What the channel adapters share: the HTTP client as a parameter over a world, JSON numbers as \<open>i64\<close>,
  the attachments that go out (\<open>frankclaw-channels/src/outbound_media.rs\<close>) and the MIME types of those
  that come in (\<open>inbound_media.rs\<close>).
\<close>

section \<open>HTTP\<close>

datatype form_part = FormText string | FormFile string string "u8 list"

datatype http_body = NoBody | JsonBody json | BytesBody "u8 list" | FormBody "(string \<times> form_part) list"

record http_call =
  hc_method :: string
  hc_url :: string
  hc_headers :: "(string \<times> string) list"
  hc_body :: http_body

text \<open>The answer: its status, the text of the status, the headers that are text, and what \<open>json()\<close> and \<open>text()\<close> give.\<close>

record http_answer =
  ha_status :: nat
  ha_reason :: string
  ha_headers :: "(string \<times> string) list"
  ha_json :: "string + json"
  ha_text :: string

text \<open>\<open>hx_mime_error\<close> is the error of a text that is no MIME type.\<close>

record 'w http_env =
  hx_send :: "http_call \<Rightarrow> 'w \<Rightarrow> (string + http_answer) \<times> 'w"
  hx_mime_error :: "string \<Rightarrow> string option"
  hx_now :: "'w \<Rightarrow> datetime"

definition answer_success :: "http_answer \<Rightarrow> bool" where
  "answer_success a \<longleftrightarrow> 200 \<le> ha_status a \<and> ha_status a < 300"

definition answer_status :: "http_answer \<Rightarrow> string" where
  "answer_status a = show_nat (ha_status a) @ '' '' @ ha_reason a"

text \<open>A call whose answer is read as JSON, with the errors of a channel.\<close>

definition json_call ::
  "'w http_env \<Rightarrow> channel_id \<Rightarrow> string \<Rightarrow> http_call \<Rightarrow> 'w \<Rightarrow> (frank_error + json) \<times> 'w" where
  "json_call hx cid failing call w =
     (case hx_send hx call w of
        (Inl e, w1) \<Rightarrow> (Inl (channel_err cid (failing @ '': '' @ e)), w1)
      | (Inr a, w1) \<Rightarrow>
          (case ha_json a of
             Inl e \<Rightarrow> (Inl (channel_err cid (''invalid response: '' @ e)), w1)
           | Inr v \<Rightarrow> (Inr v, w1)))"

section \<open>Numbers\<close>

definition show_int :: "int \<Rightarrow> string" where
  "show_int n = (if n < 0 then CHR ''-'' # show_nat (nat (- n)) else show_nat (nat n))"

text \<open>\<open>as_i64\<close>: a negative number is kept as its text.\<close>

fun json_i64 :: "json \<Rightarrow> int option" where
  "json_i64 (JUInt n) = (if uint n < 2 ^ 63 then Some (uint n) else None)"
| "json_i64 (JNumber s) = parse_i64 s"
| "json_i64 _ = None"

definition json_of_i64 :: "int \<Rightarrow> json" where
  "json_of_i64 n = (if n < 0 then JNumber (show_int n) else JUInt (word_of_int n))"

lemma show_nat_Nil [simp]: "show_nat n \<noteq> []"
  by (subst show_nat.simps) simp

lemma digit_value: "d < 10 \<Longrightarrow> of_char (digit_char d) - 48 = (d :: nat)"
  by (simp add: digit_char_def)

lemma parse_digits_show: "parse_digits (show_nat n) = Some n"
proof -
  have "foldl (\<lambda>n c. 10 * n + (of_char c - 48)) 0 (show_nat n) = n"
  proof (induction n rule: show_nat.induct)
    case (1 n)
    then show ?case by (subst show_nat.simps) (simp add: digit_value)
  qed
  moreover have "list_all is_digit (show_nat n)" using show_nat_digits by (auto simp: list_all_iff)
  ultimately show ?thesis by (simp add: parse_digits_def)
qed

lemma hd_show_nat: "is_digit (hd (show_nat n))"
  using show_nat_digits [of "hd (show_nat n)" n] by simp

lemma parse_show_int: "- (2 ^ 63) \<le> n \<Longrightarrow> n < 2 ^ 63 \<Longrightarrow> parse_i64 (show_int n) = Some n"
proof (cases "n < 0")
  case True
  assume "- (2 ^ 63) \<le> n" "n < 2 ^ 63"
  then show ?thesis
    using True by (simp add: parse_i64_def show_int_def parse_digits_show starts_with_def)
next
  case False
  assume r: "- (2 ^ 63) \<le> n" "n < 2 ^ 63"
  obtain d ds where s: "show_nat (nat n) = d # ds" using show_nat_Nil by (cases "show_nat (nat n)") auto
  then have "is_digit d" using hd_show_nat [of "nat n"] by simp
  then have "d \<noteq> CHR ''-''" "d \<noteq> CHR ''+''" by (auto simp: is_digit_def)
  then have "\<not> starts_with (show_nat (nat n)) ''-''" "\<not> starts_with (show_nat (nat n)) ''+''"
    using s by (simp_all add: starts_with_def)
  then show ?thesis
    using False r by (simp add: parse_i64_def show_int_def parse_digits_show Let_def)
qed

lemma json_of_i64: "- (2 ^ 63) \<le> n \<Longrightarrow> n < 2 ^ 63 \<Longrightarrow> json_i64 (json_of_i64 n) = Some n"
  by (auto simp: json_of_i64_def parse_show_int uint_word_of_int take_bit_int_eq_self)

section \<open>Attachments (outbound_media.rs, inbound_media.rs)\<close>

datatype attachment_kind = KindImage | KindAudio | KindVideo | KindDocument

definition attachment_kind_of :: "string \<Rightarrow> attachment_kind" where
  "attachment_kind_of mime =
     (let m = to_lower (trim mime)
      in if starts_with m ''image/'' then KindImage
         else if starts_with m ''audio/'' then KindAudio
         else if starts_with m ''video/'' then KindVideo
         else KindDocument)"

fun require_single_attachment :: "channel_id \<Rightarrow> outbound_attachment list \<Rightarrow> frank_error + outbound_attachment" where
  "require_single_attachment cid [a] = Inr a"
| "require_single_attachment cid [] =
     Inl (channel_err cid ''attachment send requested without any attachments'')"
| "require_single_attachment cid _ =
     Inl (channel_err cid ''multiple attachments are not supported yet on this channel'')"

definition default_filename :: "string \<Rightarrow> string" where
  "default_filename mime = ''attachment.'' @ safe_extension_for_mime mime"

definition attachment_filename :: "outbound_attachment \<Rightarrow> string" where
  "attachment_filename a =
     (case oa_filename a of
        Some f \<Rightarrow> if trim f = [] then default_filename (oa_mime_type a) else f
      | None \<Rightarrow> default_filename (oa_mime_type a))"

definition attachment_bytes :: "channel_id \<Rightarrow> outbound_attachment \<Rightarrow> frank_error + u8 list" where
  "attachment_bytes cid a =
     (if oa_bytes a = []
      then Inl (channel_err cid (''attachment '' @ oa_media_id a @ '' is missing inline bytes''))
      else Inr (oa_bytes a))"

text \<open>A part of a form with the contents of an attachment.\<close>

definition file_part ::
  "'w http_env \<Rightarrow> channel_id \<Rightarrow> outbound_attachment \<Rightarrow> frank_error + form_part" where
  "file_part hx cid a =
     (case attachment_bytes cid a of
        Inl e \<Rightarrow> Inl e
      | Inr data \<Rightarrow>
          (case hx_mime_error hx (oa_mime_type a) of
             Some e \<Rightarrow> Inl (channel_err cid (''invalid attachment mime type: '' @ e))
           | None \<Rightarrow> Inr (FormFile (attachment_filename a) (oa_mime_type a) data)))"

definition infer_from_url :: "string option \<Rightarrow> string option" where
  "infer_from_url url =
     Option.bind url (\<lambda>u. infer_mime_from_name (last (split_all CHR ''/'' (hd (split_all CHR ''?'' (trim u))))))"

definition infer_inbound_mime_type :: "string option \<Rightarrow> string option \<Rightarrow> string option \<Rightarrow> string" where
  "infer_inbound_mime_type explicit filename url =
     (case non_blank_text explicit of
        Some m \<Rightarrow> m
      | None \<Rightarrow>
          (case Option.bind filename infer_mime_from_name of
             Some m \<Rightarrow> m
           | None \<Rightarrow> (case infer_from_url url of Some m \<Rightarrow> m | None \<Rightarrow> octet_stream)))"

section \<open>Times\<close>

text \<open>\<open>DateTime::from_timestamp(secs, 0)\<close>: an instant of the calendar, or nothing.\<close>

definition from_timestamp :: "int \<Rightarrow> datetime option" where
  "from_timestamp n =
     (if - 8334601228800 \<le> n \<and> n \<le> 8210266876799 then Some (n * 1000000000) else None)"

text \<open>The health of a channel by the answer to a call.\<close>

definition health_by_status :: "string + http_answer \<Rightarrow> health_status" where
  "health_by_status r =
     (case r of
        Inl e \<Rightarrow> Disconnected e
      | Inr a \<Rightarrow> if answer_success a then Connected else Degraded (''HTTP '' @ answer_status a))"

text \<open>What \<open>stream_start\<close> makes of the result of a send.\<close>

definition stream_handle_of :: "channel_id \<Rightarrow> outbound_message \<Rightarrow> send_result \<Rightarrow> frank_error + stream_handle" where
  "stream_handle_of cid msg r =
     (case r of
        Sent i \<Rightarrow>
          Inr \<lparr>sh_channel = cid, sh_account_id = om_account_id msg, sh_to = om_to msg,
               sh_thread_id = om_thread_id msg, sh_draft_message_id = i\<rparr>
      | RateLimitedFor n \<Rightarrow> Inl (RateLimited (case n of Some x \<Rightarrow> unat x | None \<Rightarrow> 1))
      | Failed reason \<Rightarrow> Inl (channel_err cid reason))"

definition edit_target :: "stream_handle \<Rightarrow> edit_message_target" where
  "edit_target h =
     \<lparr>et_account_id = sh_account_id h, et_to = sh_to h, et_thread_id = sh_thread_id h,
      et_platform_message_id = sh_draft_message_id h\<rparr>"

section \<open>Calls by status\<close>

definition call_answer ::
  "'w http_env \<Rightarrow> channel_id \<Rightarrow> string \<Rightarrow> http_call \<Rightarrow> 'w \<Rightarrow> (frank_error + http_answer) \<times> 'w" where
  "call_answer hx cid failing call w =
     (case hx_send hx call w of
        (Inl e, w1) \<Rightarrow> (Inl (channel_err cid (failing @ '': '' @ e)), w1)
      | (Inr a, w1) \<Rightarrow> (Inr a, w1))"

definition answer_json :: "channel_id \<Rightarrow> string \<Rightarrow> http_answer \<Rightarrow> frank_error + json" where
  "answer_json cid invalid a =
     (case ha_json a of Inl e \<Rightarrow> Inl (channel_err cid (invalid @ '': '' @ e)) | Inr v \<Rightarrow> Inr v)"

text \<open>Success by the status, and otherwise the text of an error in the body.\<close>

definition status_outcome ::
  "channel_id \<Rightarrow> string \<Rightarrow> string \<Rightarrow> string \<Rightarrow> http_answer \<Rightarrow> frank_error + unit" where
  "status_outcome cid invalid key unknown a =
     (if answer_success a then Inr ()
      else (case answer_json cid invalid a of
              Inl e \<Rightarrow> Inl e
            | Inr body \<Rightarrow> Inl (channel_err cid (str_or unknown (json_at body key)))))"

definition status_call ::
  "'w http_env \<Rightarrow> channel_id \<Rightarrow> string \<Rightarrow> string \<Rightarrow> string \<Rightarrow> string \<Rightarrow> http_call \<Rightarrow> ('w, unit) effect" where
  "status_call hx cid failing invalid key unknown call w =
     (case call_answer hx cid failing call w of
        (Inl e, w1) \<Rightarrow> (Inl e, w1)
      | (Inr a, w1) \<Rightarrow> (status_outcome cid invalid key unknown a, w1))"

text \<open>A streamed reply is a message that is edited.\<close>

definition streams_by_edits ::
  "channel_id \<Rightarrow> (outbound_message \<Rightarrow> ('w, send_result) effect) \<Rightarrow> (edit_message_target \<Rightarrow> string \<Rightarrow> ('w, unit) effect)
    \<Rightarrow> 'w channel_plugin \<Rightarrow> 'w channel_plugin" where
  "streams_by_edits cid send edit p =
     p\<lparr>ch_edit_message := edit,
       ch_stream_start := (\<lambda>msg w. (case send msg w of
         (Inl e, w1) \<Rightarrow> (Inl e, w1) | (Inr r, w1) \<Rightarrow> (stream_handle_of cid msg r, w1))),
       ch_stream_update := (\<lambda>h text. edit (edit_target h) text),
       ch_stream_end := (\<lambda>h text. edit (edit_target h) text)\<rparr>"

section \<open>Addresses with a marker\<close>

text \<open>\<open>str::split_once\<close> with a pattern of several characters.\<close>

fun split_at_marker :: "string \<Rightarrow> string \<Rightarrow> (string \<times> string) option" where
  "split_at_marker p s =
     (if starts_with s p then Some ([], drop (length p) s)
      else (case s of [] \<Rightarrow> None | c # r \<Rightarrow> map_option (\<lambda>(a, b). (c # a, b)) (split_at_marker p r)))"

declare split_at_marker.simps [simp del]

lemma split_at_marker_free:
  assumes "p \<noteq> [] \<and> hd p = d" "d \<notin> set a"
  shows "split_at_marker p (a @ p @ b) = Some (a, b)"
  using assms
proof (induction a)
  case Nil
  show ?case by (subst split_at_marker.simps) simp
next
  case (Cons c a)
  then have "\<not> starts_with ((c # a) @ p @ b) p" by (cases p) auto
  then show ?case using Cons by (subst split_at_marker.simps) simp
qed

lemma split_at_marker_none: "p \<noteq> [] \<and> hd p = d \<Longrightarrow> d \<notin> set a \<Longrightarrow> split_at_marker p a = None"
proof (induction a)
  case Nil
  then show ?case by (cases p) (auto simp: split_at_marker.simps)
next
  case (Cons c a)
  then have "\<not> starts_with (c # a) p" by (cases p) auto
  then show ?case using Cons by (subst split_at_marker.simps) simp
qed

section \<open>Frames of a socket\<close>

datatype socket_frame =
    TextFrame string
  | BinaryFrame "u8 list"
  | CloseFrame "(u16 \<times> string) option"
  | OtherFrame

text \<open>The parsers of JSON and UTF-8.\<close>

record frame_lib =
  fl_parse :: "string \<Rightarrow> string + json"
  fl_utf8 :: "u8 list \<Rightarrow> string + string"

definition frame_text :: "'a frame_lib_scheme \<Rightarrow> channel_id \<Rightarrow> string \<Rightarrow> string \<Rightarrow> frank_error + json" where
  "frame_text fl cid service s =
     (case fl_parse fl s of
        Inl e \<Rightarrow> Inl (channel_err cid (service @ '' sent invalid JSON: '' @ e))
      | Inr v \<Rightarrow> Inr v)"

definition frame_bytes :: "'a frame_lib_scheme \<Rightarrow> channel_id \<Rightarrow> string \<Rightarrow> u8 list \<Rightarrow> frank_error + json" where
  "frame_bytes fl cid service b =
     (case fl_utf8 fl b of
        Inl e \<Rightarrow> Inl (channel_err cid (service @ '' sent invalid UTF-8: '' @ e))
      | Inr s \<Rightarrow> frame_text fl cid service s)"

section \<open>Headers\<close>

text \<open>\<open>str::parse::<u64>\<close>\<close>

definition parse_u64 :: "string \<Rightarrow> u64 option" where
  "parse_u64 s =
     (case parse_digits (if starts_with s ''+'' then drop 1 s else s) of
        Some n \<Rightarrow> if n < 2 ^ 64 then Some (of_nat n) else None
      | None \<Rightarrow> None)"

definition header_value :: "http_answer \<Rightarrow> string \<Rightarrow> string option" where
  "header_value a k = map_of (ha_headers a) k"

definition retry_after :: "http_answer \<Rightarrow> u64 option" where
  "retry_after a = Option.bind (header_value a ''retry-after'') parse_u64"

end
