(* ===== verification/Telegram.thy ===== *)
theory Telegram
  imports Channel_Wire
begin

text \<open>
  The adapter of Telegram (\<open>frankclaw-channels/src/telegram.rs\<close>): the updates that come in, the messages
  and media that go out with their two fallbacks, edits and deletions. The lemmas show that a reply goes
  to the chat and topic a message came from, and how many requests a message costs.
\<close>

section \<open>Addresses\<close>

definition telegram_id :: channel_id where
  "telegram_id = ChannelId ''telegram''"

definition telegram_api_base :: string where
  "telegram_api_base = ''https://api.telegram.org''"

definition telegram_caption_limit :: nat where
  "telegram_caption_limit = 1024"

definition topic_marker :: string where
  "topic_marker = '':topic:''"

definition encode_thread_id :: "int \<Rightarrow> int option \<Rightarrow> string" where
  "encode_thread_id chat topic =
     (case topic of Some t \<Rightarrow> show_int chat @ topic_marker @ show_int t | None \<Rightarrow> show_int chat)"

definition parse_target_thread :: "string option \<Rightarrow> string \<Rightarrow> string \<times> int option" where
  "parse_target_thread thread fallback =
     (let raw = (case thread of Some t \<Rightarrow> t | None \<Rightarrow> fallback)
      in case split_at_marker topic_marker raw of
           Some (chat, topic) \<Rightarrow> (chat, parse_i64 topic)
         | None \<Rightarrow> (raw, None))"

definition is_dm_chat_id :: "string \<Rightarrow> bool" where
  "is_dm_chat_id raw = (case parse_i64 raw of Some i \<Rightarrow> 0 < i | None \<Rightarrow> False)"

definition is_parse_error :: "string \<Rightarrow> bool" where
  "is_parse_error d = contains d (''can'' @ [CHR 0x27] @ ''t parse entities'')"

definition is_message_not_modified :: "string \<Rightarrow> bool" where
  "is_message_not_modified d = contains d ''message is not modified''"

definition is_thread_not_found :: "string \<Rightarrow> bool" where
  "is_thread_not_found d = contains d ''message thread not found''"

section \<open>Messages that come in\<close>

definition media_attachment :: "string \<Rightarrow> json \<Rightarrow> inbound_attachment" where
  "media_attachment mime media =
     \<lparr>ia_media_id = None, ia_mime_type = str_or mime (json_at media ''mime_type''),
      ia_filename = as_str (json_at media ''file_name''), ia_size_bytes = as_u64 (json_at media ''file_size''),
      ia_url = None\<rparr>"

definition media_keys :: "(string \<times> string) list" where
  "media_keys =
     [(''document'', ''application/octet-stream''), (''video'', ''video/mp4''), (''audio'', ''audio/mpeg''),
      (''voice'', ''audio/ogg''), (''sticker'', ''image/webp''), (''animation'', ''video/mp4'')]"

definition telegram_attachments :: "json \<Rightarrow> inbound_attachment list" where
  "telegram_attachments msg =
     (case as_array (json_at msg ''photo'') of
        Some (p # ps) \<Rightarrow>
          [\<lparr>ia_media_id = None, ia_mime_type = ''image/jpeg'', ia_filename = None,
            ia_size_bytes = as_u64 (json_at (last (p # ps)) ''file_size''), ia_url = None\<rparr>]
      | _ \<Rightarrow> []) @
     map (\<lambda>(k, mime). media_attachment mime (json_at msg k)) (filter (\<lambda>(k, _). json_at msg k \<noteq> JNull) media_keys)"

definition telegram_message :: "datetime \<Rightarrow> json \<Rightarrow> inbound_message option" where
  "telegram_message now msg =
     (case (json_i64 (json_path msg [''chat'', ''id'']), json_i64 (json_path msg [''from'', ''id'']),
            json_i64 (json_at msg ''message_id'')) of
        (Some chat, Some sender, Some mid) \<Rightarrow>
          (let attachments = telegram_attachments msg;
               text = text_or_attachment_placeholder
                 (case as_str (json_at msg ''text'') of Some t \<Rightarrow> Some t | None \<Rightarrow> as_str (json_at msg ''caption''))
                 attachments;
               chat_type = as_str (json_path msg [''chat'', ''type''])
           in Some
             \<lparr>im_channel = telegram_id, im_account_id = ''default'', im_sender_id = show_int sender,
              im_sender_name = as_str (json_path msg [''from'', ''first_name'']),
              im_thread_id = Some (encode_thread_id chat (json_i64 (json_at msg ''message_thread_id''))),
              im_is_group = (chat_type = Some ''group'' \<or> chat_type = Some ''supergroup''),
              im_is_mention = (case text of Some t \<Rightarrow> contains t ''@'' | None \<Rightarrow> False),
              im_text = text, im_attachments = attachments, im_platform_message_id = Some (show_int mid),
              im_timestamp = (case json_i64 (json_at msg ''date'') of
                 Some ts \<Rightarrow> (case from_timestamp ts of Some t \<Rightarrow> t | None \<Rightarrow> now) | None \<Rightarrow> now)\<rparr>)
      | _ \<Rightarrow> None)"

definition i64_succ :: "int \<Rightarrow> int" where
  "i64_succ n = (if n = 2 ^ 63 - 1 then - (2 ^ 63) else n + 1)"

definition next_offset :: "json \<Rightarrow> int \<Rightarrow> int" where
  "next_offset update offset =
     (case json_i64 (json_at update ''update_id'') of Some i \<Rightarrow> i64_succ i | None \<Rightarrow> offset)"

definition update_message :: "datetime \<Rightarrow> json \<Rightarrow> inbound_message option" where
  "update_message now update =
     (case json_get update ''message'' of
        Some m \<Rightarrow> telegram_message now m
      | None \<Rightarrow> Option.bind (json_get update ''edited_message'') (telegram_message now))"

text \<open>The updates one after the other; the rest is dropped when nobody receives any more.\<close>

fun take_updates ::
  "datetime \<Rightarrow> (inbound_message \<Rightarrow> 'w \<Rightarrow> bool \<times> 'w) \<Rightarrow> json list \<Rightarrow> int \<Rightarrow> 'w \<Rightarrow> int \<times> 'w" where
  "take_updates now deliver [] offset w = (offset, w)"
| "take_updates now deliver (u # us) offset w =
     (let offset1 = next_offset u offset
      in case update_message now u of
           None \<Rightarrow> take_updates now deliver us offset1 w
         | Some m \<Rightarrow>
             (case deliver m w of
                (False, w1) \<Rightarrow> (offset1, w1)
              | (True, w1) \<Rightarrow> take_updates now deliver us offset1 w1))"

definition telegram_call :: "string \<Rightarrow> string \<Rightarrow> http_body \<Rightarrow> http_call" where
  "telegram_call token api_method body =
     \<lparr>hc_method = ''POST'', hc_url = telegram_api_base @ ''/bot'' @ token @ ''/'' @ api_method,
      hc_headers = [], hc_body = body\<rparr>"

definition poll_updates ::
  "'w http_env \<Rightarrow> string \<Rightarrow> (inbound_message \<Rightarrow> 'w \<Rightarrow> bool \<times> 'w) \<Rightarrow> int \<Rightarrow> 'w \<Rightarrow> (frank_error + unit) \<times> int \<times> 'w" where
  "poll_updates hx token deliver offset w =
     (case json_call hx telegram_id ''poll failed''
         (telegram_call token ''getUpdates''
            (JsonBody (JObject
               [(''offset'', json_of_i64 offset), (''timeout'', JUInt 30),
                (''allowed_updates'', JArray [JString ''message'', JString ''edited_message''])]))) w of
        (Inl e, w1) \<Rightarrow> (Inl e, offset, w1)
      | (Inr data, w1) \<Rightarrow>
          (case as_array (json_at data ''result'') of
             None \<Rightarrow> (Inr (), offset, w1)
           | Some us \<Rightarrow> (case take_updates (hx_now hx w1) deliver us offset w1 of (o2, w2) \<Rightarrow> (Inr (), o2, w2))))"

section \<open>Messages that go out\<close>

definition reply_number :: "outbound_message \<Rightarrow> int option" where
  "reply_number msg = Option.bind (om_reply_to msg) parse_i64"

definition opt_pair :: "string \<Rightarrow> ('a \<Rightarrow> 'b) \<Rightarrow> 'a option \<Rightarrow> (string \<times> 'b) list" where
  "opt_pair k f v = (case v of Some x \<Rightarrow> [(k, f x)] | None \<Rightarrow> [])"

definition build_send_body :: "bool \<Rightarrow> outbound_message \<Rightarrow> json" where
  "build_send_body parse_mode msg =
     (case parse_target_thread (om_thread_id msg) (om_to msg) of (chat, topic) \<Rightarrow>
        JObject
          ([(''chat_id'', JString chat), (''text'', JString (normalize_outbound_text (om_text msg) Plain))] @
           (if parse_mode then [(''parse_mode'', JString ''Markdown'')] else []) @
           opt_pair ''message_thread_id'' json_of_i64 topic @
           opt_pair ''reply_to_message_id'' json_of_i64 (reply_number msg)))"

primrec group_kind :: "attachment_kind \<Rightarrow> batch_kind" where
  "group_kind KindImage = Visual"
| "group_kind KindVideo = Visual"
| "group_kind KindAudio = Audio"
| "group_kind KindDocument = Document"

primrec media_item_type :: "attachment_kind \<Rightarrow> string" where
  "media_item_type KindImage = ''photo''"
| "media_item_type KindAudio = ''audio''"
| "media_item_type KindVideo = ''video''"
| "media_item_type KindDocument = ''document''"

primrec media_method :: "attachment_kind \<Rightarrow> string" where
  "media_method KindImage = ''sendPhoto''"
| "media_method KindAudio = ''sendAudio''"
| "media_method KindVideo = ''sendVideo''"
| "media_method KindDocument = ''sendDocument''"

definition file_field :: "nat \<Rightarrow> string" where
  "file_field i = ''file'' @ show_nat i"

definition media_item :: "bool \<Rightarrow> string \<Rightarrow> nat \<Rightarrow> outbound_attachment \<Rightarrow> json" where
  "media_item parse_mode text i a =
     JObject
       ([(''type'', JString (media_item_type (attachment_kind_of (oa_mime_type a)))),
         (''media'', JString (''attach://'' @ file_field i))] @
        (if i = 0 \<and> text \<noteq> []
         then (''caption'', JString text) # (if parse_mode then [(''parse_mode'', JString ''Markdown'')] else [])
         else []))"

definition attachment_group :: "outbound_attachment \<Rightarrow> batch_kind" where
  "attachment_group a = group_kind (attachment_kind_of (oa_mime_type a))"

definition media_group_items ::
  "outbound_attachment list \<Rightarrow> string \<Rightarrow> bool \<Rightarrow> frank_error + json list" where
  "media_group_items as text parse_mode =
     (if length as < 2 \<or> 10 < length as
      then Inl (channel_err telegram_id ''telegram media groups require between 2 and 10 attachments'')
      else if list_ex (\<lambda>a. attachment_group a \<noteq> attachment_group (hd as)) as
      then Inl (channel_err telegram_id
             ''telegram media groups must be all photos/videos, all audio, or all documents'')
      else Inr (map (\<lambda>(i, a). media_item parse_mode text i a) (enumerate 0 as)))"

text \<open>The end of a form: the topic and the message that is answered.\<close>

definition form_targets :: "outbound_message \<Rightarrow> (string \<times> form_part) list" where
  "form_targets msg =
     opt_pair ''message_thread_id'' (\<lambda>n. FormText (show_int n)) (snd (parse_target_thread (om_thread_id msg) (om_to msg))) @
     opt_pair ''reply_to_message_id'' (\<lambda>n. FormText (show_int n)) (reply_number msg)"

definition build_media_group_request ::
  "'w http_env \<Rightarrow> (json \<Rightarrow> string) \<Rightarrow> outbound_message \<Rightarrow> bool \<Rightarrow> frank_error + string \<times> (string \<times> form_part) list" where
  "build_media_group_request hx to_text msg parse_mode =
     (case media_group_items (om_attachments msg) (normalize_outbound_text (om_text msg) Plain) parse_mode of
        Inl e \<Rightarrow> Inl e
      | Inr items \<Rightarrow>
          (case collect_results (map (\<lambda>(i, a). map_sum id (Pair (file_field i)) (file_part hx telegram_id a))
                  (enumerate 0 (om_attachments msg))) of
             Inl e \<Rightarrow> Inl e
           | Inr files \<Rightarrow>
               Inr (''sendMediaGroup'',
                 [(''chat_id'', FormText (fst (parse_target_thread (om_thread_id msg) (om_to msg))))] @ files @
                 [(''media'', FormText (to_text (JArray items)))] @ form_targets msg)))"

definition build_media_send_request ::
  "'w http_env \<Rightarrow> (json \<Rightarrow> string) \<Rightarrow> outbound_message \<Rightarrow> bool \<Rightarrow> frank_error + string \<times> (string \<times> form_part) list" where
  "build_media_send_request hx to_text msg parse_mode =
     (if 1 < length (om_attachments msg) then build_media_group_request hx to_text msg parse_mode
      else (case require_single_attachment telegram_id (om_attachments msg) of
              Inl e \<Rightarrow> Inl e
            | Inr a \<Rightarrow>
                (case file_part hx telegram_id a of
                   Inl e \<Rightarrow> Inl e
                 | Inr part \<Rightarrow>
                     (let kind = attachment_kind_of (oa_mime_type a);
                          text = normalize_outbound_text (om_text msg) Plain
                      in Inr (media_method kind,
                           [(''chat_id'', FormText (fst (parse_target_thread (om_thread_id msg) (om_to msg)))),
                            (media_item_type kind, part)] @
                           (if text = [] then []
                            else (''caption'', FormText text) #
                              (if parse_mode then [(''parse_mode'', FormText ''Markdown'')] else [])) @
                           form_targets msg)))))"

text \<open>The request of an attempt: \<open>None\<close> of the second flag is a message without its thread.\<close>

definition attempt_request ::
  "'w http_env \<Rightarrow> (json \<Rightarrow> string) \<Rightarrow> string \<Rightarrow> outbound_message \<Rightarrow> bool \<Rightarrow> bool \<Rightarrow> frank_error + http_call" where
  "attempt_request hx to_text token msg parse_mode thread =
     (let m = (if thread then msg else msg\<lparr>om_thread_id := None\<rparr>)
      in if om_attachments m = [] then Inr (telegram_call token ''sendMessage'' (JsonBody (build_send_body parse_mode m)))
         else map_sum id (\<lambda>(api_method, form). telegram_call token api_method (FormBody form))
           (build_media_send_request hx to_text m parse_mode))"

definition is_ok :: "json \<Rightarrow> bool" where
  "is_ok data \<longleftrightarrow> as_bool (json_at data ''ok'') = Some True"

function send_with_retries ::
  "'w http_env \<Rightarrow> (json \<Rightarrow> string) \<Rightarrow> string \<Rightarrow> outbound_message \<Rightarrow> bool \<Rightarrow> bool \<Rightarrow> 'w \<Rightarrow>
    (frank_error + send_result) \<times> 'w" where
  "send_with_retries hx to_text token msg parse_mode thread w =
     (case attempt_request hx to_text token msg parse_mode thread of
        Inl e \<Rightarrow> (Inl e, w)
      | Inr call \<Rightarrow>
          (case json_call hx telegram_id ''send failed'' call w of
             (Inl e, w1) \<Rightarrow> (Inl e, w1)
           | (Inr data, w1) \<Rightarrow>
               if is_ok data
               then (Inr (Sent (show_int (case json_i64 (json_path data [''result'', ''message_id'']) of
                       Some i \<Rightarrow> i | None \<Rightarrow> 0))), w1)
               else
                 (let description = str_or ''unknown error'' (json_at data ''description'')
                  in if json_i64 (json_at data ''error_code'') = Some 429
                     then (Inr (RateLimitedFor (as_u64 (json_path data [''parameters'', ''retry_after'']))), w1)
                     else if is_parse_error description \<and> parse_mode
                     then send_with_retries hx to_text token msg False thread w1
                     else if is_thread_not_found description \<and> thread \<and>
                       is_dm_chat_id (fst (parse_target_thread (om_thread_id msg) (om_to msg)))
                     then send_with_retries hx to_text token msg parse_mode False w1
                     else (Inr (Failed description), w1))))"
  by pat_completeness auto
termination
  by (relation "measure (\<lambda>(_, _, _, _, p, t, _). (if p then 1 else 0) + (if t then 1 else 0))") auto

declare send_with_retries.simps [simp del]

text \<open>Media without a caption, and the text after it; the outcome of the text does not matter.\<close>

definition send_with_caption_overflow ::
  "'w http_env \<Rightarrow> (json \<Rightarrow> string) \<Rightarrow> string \<Rightarrow> outbound_message \<Rightarrow> 'w \<Rightarrow> (frank_error + send_result) \<times> 'w" where
  "send_with_caption_overflow hx to_text token msg w =
     (case send_with_retries hx to_text token (msg\<lparr>om_text := []\<rparr>) True True w of
        (Inl e, w1) \<Rightarrow> (Inl e, w1)
      | (Inr r, w1) \<Rightarrow>
          (Inr r,
           case r of
             Sent _ \<Rightarrow> snd (send_with_retries hx to_text token (msg\<lparr>om_attachments := []\<rparr>) True True w1)
           | _ \<Rightarrow> w1))"

definition telegram_send ::
  "'w http_env \<Rightarrow> (json \<Rightarrow> string) \<Rightarrow> string \<Rightarrow> outbound_message \<Rightarrow> ('w, send_result) effect" where
  "telegram_send hx to_text token msg w =
     (if om_attachments msg \<noteq> [] \<and> telegram_caption_limit < length (normalize_outbound_text (om_text msg) Plain)
      then send_with_caption_overflow hx to_text token msg w
      else send_with_retries hx to_text token msg True True w)"

section \<open>Edits, deletions, streams\<close>

definition build_edit_body :: "edit_message_target \<Rightarrow> string \<Rightarrow> frank_error + json" where
  "build_edit_body target new_text =
     (case parse_i64 (et_platform_message_id target) of
        None \<Rightarrow> Inl (channel_err telegram_id ''telegram edit requires a numeric platform message id'')
      | Some i \<Rightarrow>
          Inr (JObject
            [(''chat_id'', JString (fst (parse_target_thread (et_thread_id target) (et_to target)))),
             (''message_id'', json_of_i64 i), (''text'', JString (normalize_outbound_text new_text Plain)),
             (''parse_mode'', JString ''Markdown'')]))"

definition build_delete_body :: "delete_message_target \<Rightarrow> frank_error + json" where
  "build_delete_body target =
     (case parse_i64 (dt_platform_message_id target) of
        None \<Rightarrow> Inl (channel_err telegram_id ''telegram delete requires a numeric platform message id'')
      | Some i \<Rightarrow>
          Inr (JObject
            [(''chat_id'', JString (fst (parse_target_thread (dt_thread_id target) (dt_to target)))),
             (''message_id'', json_of_i64 i)]))"

definition telegram_edit :: "'w http_env \<Rightarrow> string \<Rightarrow> edit_message_target \<Rightarrow> string \<Rightarrow> ('w, unit) effect" where
  "telegram_edit hx token target new_text w =
     (case build_edit_body target new_text of
        Inl e \<Rightarrow> (Inl e, w)
      | Inr body \<Rightarrow>
          (case json_call hx telegram_id ''edit failed'' (telegram_call token ''editMessageText'' (JsonBody body)) w of
             (Inl e, w1) \<Rightarrow> (Inl e, w1)
           | (Inr data, w1) \<Rightarrow>
               (let description = str_or ''unknown telegram edit error'' (json_at data ''description'')
                in if is_ok data \<or> is_message_not_modified description then (Inr (), w1)
                   else (Inl (channel_err telegram_id description), w1))))"

definition telegram_delete :: "'w http_env \<Rightarrow> string \<Rightarrow> delete_message_target \<Rightarrow> ('w, unit) effect" where
  "telegram_delete hx token target w =
     (case build_delete_body target of
        Inl e \<Rightarrow> (Inl e, w)
      | Inr body \<Rightarrow>
          (case json_call hx telegram_id ''delete failed'' (telegram_call token ''deleteMessage'' (JsonBody body)) w of
             (Inl e, w1) \<Rightarrow> (Inl e, w1)
           | (Inr data, w1) \<Rightarrow>
               if is_ok data then (Inr (), w1)
               else (Inl (channel_err telegram_id
                      (str_or ''unknown telegram delete error'' (json_at data ''description''))), w1)))"

definition telegram_capabilities :: channel_capabilities where
  "telegram_capabilities =
     no_capabilities\<lparr>cap_threads := True, cap_groups := True, cap_attachments := True, cap_edit := True,
       cap_delete := True, cap_reactions := True, cap_streaming := True, cap_inline_buttons := True\<rparr>"

definition telegram_health :: "'w http_env \<Rightarrow> string \<Rightarrow> 'w \<Rightarrow> health_status \<times> 'w" where
  "telegram_health hx token w =
     (case hx_send hx \<lparr>hc_method = ''GET'', hc_url = telegram_api_base @ ''/bot'' @ token @ ''/getMe'',
         hc_headers = [], hc_body = NoBody\<rparr> w of (r, w1) \<Rightarrow> (health_by_status r, w1))"

text \<open>The adapter; its loop of polls does not return, so that \<open>start\<close> is an argument.\<close>

definition telegram_plugin ::
  "'w http_env \<Rightarrow> (json \<Rightarrow> string) \<Rightarrow> string \<Rightarrow> ('w, unit) effect \<Rightarrow> 'w channel_plugin" where
  "telegram_plugin hx to_text token start =
     streams_by_edits telegram_id (telegram_send hx to_text token) (telegram_edit hx token)
       ((default_plugin telegram_id telegram_capabilities ''Telegram'' start (\<lambda>w. (Inr (), w))
          (telegram_health hx token) (telegram_send hx to_text token))
        \<lparr>ch_delete_message := telegram_delete hx token\<rparr>)"

section \<open>A reply goes where the message came from\<close>

lemma show_int_chars: "c \<in> set (show_int n) \<Longrightarrow> is_digit c \<or> c = CHR ''-''"
  using show_nat_digits by (auto simp: show_int_def split: if_splits)

lemma topic_marker_hd: "topic_marker \<noteq> [] \<and> hd topic_marker = CHR '':''"
  by (simp add: topic_marker_def)

lemmas split_topic = split_at_marker_free [of topic_marker "CHR '':''"] split_at_marker_none [of topic_marker "CHR '':''"]

lemma show_int_no_colon: "CHR '':'' \<notin> set (show_int n)"
  using show_int_chars [of "CHR '':''" n] by (auto simp: is_digit_def)

lemma thread_id_read_back:
  assumes "\<And>t. topic = Some t \<Longrightarrow> - (2 ^ 63) \<le> t \<and> t < 2 ^ 63"
  shows "parse_target_thread (Some (encode_thread_id chat topic)) to = (show_int chat, topic)"
proof (cases topic)
  case None
  then show ?thesis
    by (simp add: parse_target_thread_def encode_thread_id_def split_topic topic_marker_hd show_int_no_colon)
next
  case (Some t)
  then show ?thesis
    using assms [of t]
    by (simp add: parse_target_thread_def encode_thread_id_def split_topic topic_marker_hd show_int_no_colon parse_show_int)
qed

lemma json_i64_range: "json_i64 v = Some n \<Longrightarrow> - (2 ^ 63) \<le> n \<and> n < 2 ^ 63"
  by (cases v rule: json_i64.cases)
    (auto simp: parse_i64_range split: if_splits dest: parse_i64_range intro: order_trans [OF _ uint_ge_0])

lemma telegram_reply_returns:
  assumes "telegram_message now m = Some im" "om_thread_id reply = im_thread_id im"
  shows "\<exists>chat. json_i64 (json_path m [''chat'', ''id'']) = Some chat \<and>
    parse_target_thread (om_thread_id reply) (om_to reply) =
      (show_int chat, json_i64 (json_at m ''message_thread_id''))"
proof -
  obtain chat where c: "json_i64 (json_path m [''chat'', ''id'']) = Some chat"
    and t: "im_thread_id im = Some (encode_thread_id chat (json_i64 (json_at m ''message_thread_id'')))"
    using assms(1) by (auto simp: telegram_message_def Let_def split: option.splits)
  show ?thesis
    using c t assms(2) thread_id_read_back [OF json_i64_range] by auto
qed

lemma telegram_message_thread:
  assumes "json_i64 (json_path m [''chat'', ''id'']) = Some chat" "json_i64 (json_path m [''from'', ''id'']) = Some sender"
    "json_i64 (json_at m ''message_id'') = Some mid"
  shows "\<exists>im. telegram_message now m = Some im \<and>
    im_thread_id im = Some (encode_thread_id chat (json_i64 (json_at m ''message_thread_id'')))"
  using assms by (simp add: telegram_message_def Let_def)

definition topic_message :: json where
  "topic_message =
     JObject [(''message_id'', JUInt 99), (''message_thread_id'', JUInt 7), (''text'', JString ''hi''),
       (''chat'', JObject [(''id'', JNumber ''-12''), (''type'', JString ''supergroup'')]),
       (''from'', JObject [(''id'', JUInt 5)])]"

definition topic_reply :: outbound_message where
  "topic_reply =
     \<lparr>om_channel = telegram_id, om_account_id = ''default'', om_to = ''5'',
      om_thread_id = Some ''-12:topic:7'', om_text = ''ok'', om_attachments = [], om_reply_to = None\<rparr>"

lemma telegram_reply_returns_witness:
  "\<exists>im. telegram_message 0 topic_message = Some im \<and> om_thread_id topic_reply = im_thread_id im \<and>
     parse_target_thread (om_thread_id topic_reply) (om_to topic_reply) = (''-12'', Some 7)"
proof -
  have c: "json_i64 (json_path topic_message [''chat'', ''id'']) = Some (- 12)" by code_simp
  have c1: "json_i64 (json_path topic_message [''from'', ''id'']) = Some 5"
    "json_i64 (json_at topic_message ''message_id'') = Some 99" by code_simp+
  have c2: "json_i64 (json_at topic_message ''message_thread_id'') = Some 7" by code_simp
  have c3: "show_int (- 12) = ''-12''" "encode_thread_id (- 12) (Some 7) = ''-12:topic:7''"
    by code_simp+
  have r: "om_thread_id topic_reply = Some ''-12:topic:7''" by (simp add: topic_reply_def)
  obtain im where im: "telegram_message 0 topic_message = Some im" "om_thread_id topic_reply = im_thread_id im"
    using telegram_message_thread [OF c c1, of 0] c2 c3 r by auto
  show ?thesis
    using im telegram_reply_returns [OF im] c c2 c3(1) by (intro exI [of _ im]) (metis option.inject)
qed

section \<open>How many requests a message costs\<close>

lemma json_call_counts:
  assumes "\<And>c w. cnt (snd (hx_send hx c w)) \<le> cnt w + (1 :: nat)"
  shows "cnt (snd (json_call hx cid failing call w)) \<le> cnt w + 1"
  using assms [of call w] by (auto simp: json_call_def split: prod.splits sum.splits)

lemma retries_cost:
  assumes "\<And>c w. cnt (snd (hx_send hx c w)) \<le> cnt w + (1 :: nat)"
  shows "cnt (snd (send_with_retries hx to_text token msg parse_mode thread w))
    \<le> cnt w + 1 + of_bool parse_mode + of_bool thread"
  using assms
proof (induction hx to_text token msg parse_mode thread w rule: send_with_retries.induct)
  case (1 hx to_text token msg p t w)
  show ?case
  proof (cases "attempt_request hx to_text token msg p t")
    case Inl
    then show ?thesis by (subst send_with_retries.simps) simp
  next
    case a: (Inr call)
    obtain r w1 where j: "json_call hx telegram_id ''send failed'' call w = (r, w1)" by fastforce
    have n: "cnt w1 \<le> cnt w + 1" using json_call_counts [of cnt hx, OF 1(3)] j by (metis snd_conv)
    show ?thesis
    proof (cases r)
      case Inl
      then show ?thesis using a j n by (subst send_with_retries.simps) simp
    next
      case r: (Inr data)
      have "snd (send_with_retries hx to_text token msg p t w) = w1 \<or>
          p \<and> cnt (snd (send_with_retries hx to_text token msg p t w)) \<le> cnt w1 + 1 + of_bool t \<or>
          t \<and> cnt (snd (send_with_retries hx to_text token msg p t w)) \<le> cnt w1 + 1 + of_bool p"
        using a j r 1(1) [OF a, of r w1 data] 1(2) [OF a, of r w1 data] 1(3)
        by (subst (1 2 3) send_with_retries.simps) (auto simp: Let_def)
      then show ?thesis using n by auto
    qed
  qed
qed

lemma telegram_send_cost:
  assumes "\<And>c w. cnt (snd (hx_send hx c w)) \<le> cnt w + (1 :: nat)"
  shows "cnt (snd (telegram_send hx to_text token msg w)) \<le> cnt w + 6"
proof -
  note c = retries_cost [of cnt hx, OF assms, of to_text token _ True True]
  show ?thesis
    using c [of msg w] c [of "msg\<lparr>om_text := []\<rparr>" w]
    by (auto simp: telegram_send_def send_with_caption_overflow_def
        split: prod.splits sum.splits send_result.splits intro: order_trans [OF c])
qed

text \<open>The text after the media may fail: the send is still a success.\<close>

lemma overflow_text_unreported:
  assumes "send_with_retries hx to_text token (msg\<lparr>om_text := []\<rparr>) True True w = (Inr (Sent i), w1)"
    "send_with_retries hx to_text token (msg\<lparr>om_attachments := []\<rparr>) True True w1 = (Inr (Failed reason), w2)"
  shows "send_with_caption_overflow hx to_text token msg w = (Inr (Sent i), w2)"
  using assms by (simp add: send_with_caption_overflow_def)

end
