(* ===== verification/Discord.thy ===== *)
theory Discord
  imports Channel_Wire
begin

text \<open>
  The adapter of Discord (\<open>frankclaw-channels/src/discord.rs\<close>): the session with the gateway as a run over
  its events, the messages that come in, the requests that go out and the cut of long texts. The lemmas show
  that the cut loses nothing, what a heartbeat carries, and that a fatal close is not tried again.
\<close>

section \<open>Constants and libraries\<close>

definition discord_id :: channel_id where
  "discord_id = ChannelId ''discord''"

definition discord_api_base :: string where
  "discord_api_base = ''https://discord.com/api/v10''"

definition discord_gateway_version :: string where
  "discord_gateway_version = ''10''"

definition discord_intents :: u64 where
  "discord_intents = push_bit 0 1 + push_bit 9 1 + push_bit 12 1 + push_bit 15 1"

definition discord_message_limit :: nat where
  "discord_message_limit = 2000"

text \<open>
  Beside the parsers of frames: the parser of RFC 3339, the ceiling of a JSON number read as \<open>f64\<close>, and the
  name of the operating system.
\<close>

record discord_env = frame_lib +
  de_time :: "string \<Rightarrow> datetime option"
  de_ceil :: "json \<Rightarrow> u64 option"
  de_os :: string

definition discord_call :: "string \<Rightarrow> string \<Rightarrow> string \<Rightarrow> http_body \<Rightarrow> http_call" where
  "discord_call token verb path body =
     \<lparr>hc_method = verb, hc_url = discord_api_base @ path,
      hc_headers = [(''authorization'', ''Bot '' @ token)], hc_body = body\<rparr>"

section \<open>The gateway\<close>

definition gateway_url_of :: "json \<Rightarrow> frank_error + string" where
  "gateway_url_of body =
     (case as_str (json_at body ''url'') of
        None \<Rightarrow> Inl (channel_err discord_id ''discord gateway discovery did not return a url'')
      | Some u \<Rightarrow> Inr (u @ ''/?v='' @ discord_gateway_version @ ''&encoding=json''))"

definition gateway_url :: "'w http_env \<Rightarrow> string \<Rightarrow> 'w \<Rightarrow> (frank_error + string) \<times> 'w" where
  "gateway_url hx token w =
     (case call_answer hx discord_id ''gateway discovery failed''
         (discord_call token ''GET'' ''/gateway/bot'' NoBody) w of
        (Inl e, w1) \<Rightarrow> (Inl e, w1)
      | (Inr a, w1) \<Rightarrow>
          ((case answer_json discord_id ''invalid gateway discovery response'' a of
              Inl e \<Rightarrow> Inl e | Inr body \<Rightarrow> gateway_url_of body), w1))"

text \<open>What the loop waits for; a tick comes with the error of its send, if any.\<close>

datatype gateway_event =
    HeartbeatTick "string option"
  | FrameRead socket_frame
  | ReadFailed string
  | StreamEnded

primrec parse_gateway_message :: "discord_env \<Rightarrow> socket_frame \<Rightarrow> frank_error + json" where
  "parse_gateway_message de (TextFrame s) = frame_text de discord_id ''discord gateway'' s"
| "parse_gateway_message de (BinaryFrame b) = frame_bytes de discord_id ''discord gateway'' b"
| "parse_gateway_message de (CloseFrame c) =
     (case (case c of Some (code, reason) \<Rightarrow> (code, reason) | None \<Rightarrow> (0, [])) of (code, reason) \<Rightarrow>
        Inl (channel_err discord_id
          (''discord gateway closed (code='' @ show_nat (unat code) @ '', reason='' @ reason @ '')'')))"
| "parse_gateway_message de OtherFrame =
     Inl (channel_err discord_id ''discord gateway sent unexpected frame type'')"

text \<open>The first frame; \<open>None\<close> is the timeout of 30 seconds.\<close>

definition heartbeat_interval :: "discord_env \<Rightarrow> gateway_event option \<Rightarrow> frank_error + u64" where
  "heartbeat_interval de ev =
     (case (case ev of
              Some (FrameRead f) \<Rightarrow> parse_gateway_message de f
            | Some (ReadFailed e) \<Rightarrow> Inl (channel_err discord_id (''discord gateway read failed: '' @ e))
            | Some StreamEnded \<Rightarrow> Inl (channel_err discord_id ''discord gateway closed'')
            | _ \<Rightarrow> Inl (channel_err discord_id ''discord gateway HELLO timeout after 30s'')) of
        Inl e \<Rightarrow> Inl e
      | Inr hello \<Rightarrow>
          (case as_u64 (json_path hello [''d'', ''heartbeat_interval'']) of
             None \<Rightarrow> Inl (channel_err discord_id ''discord hello payload missing heartbeat interval'')
           | Some n \<Rightarrow> Inr n))"

definition identify_payload :: "discord_env \<Rightarrow> string \<Rightarrow> json" where
  "identify_payload de token =
     JObject
       [(''op'', JUInt 2),
        (''d'', JObject
          [(''token'', JString token), (''intents'', JUInt discord_intents),
           (''properties'', JObject
             [(''os'', JString (de_os de)), (''browser'', JString ''frankclaw''),
              (''device'', JString ''frankclaw'')])])]"

definition heartbeat_payload :: "int \<Rightarrow> json" where
  "heartbeat_payload n = JObject [(''op'', JUInt 1), (''d'', if 0 \<le> n then json_of_i64 n else JNull)]"

section \<open>Messages that come in\<close>

definition discord_attachment :: "json \<Rightarrow> inbound_attachment" where
  "discord_attachment a =
     \<lparr>ia_media_id = None,
      ia_mime_type = infer_inbound_mime_type (as_str (json_at a ''content_type'')) (as_str (json_at a ''filename''))
        (as_str (json_at a ''url'')),
      ia_filename = as_str (json_at a ''filename''), ia_size_bytes = as_u64 (json_at a ''size''),
      ia_url = as_str (json_at a ''url'')\<rparr>"

definition json_items :: "json \<Rightarrow> json list" where
  "json_items v = (case as_array v of Some xs \<Rightarrow> xs | None \<Rightarrow> [])"

definition mentions_user :: "json \<Rightarrow> string \<Rightarrow> bool" where
  "mentions_user payload user =
     list_ex (\<lambda>m. as_str (json_at m ''id'') = Some user) (json_items (json_at payload ''mentions''))"

definition parse_message_create ::
  "discord_env \<Rightarrow> datetime \<Rightarrow> json \<Rightarrow> string option \<Rightarrow> inbound_message option" where
  "parse_message_create de now payload me =
     (if as_bool (json_path payload [''author'', ''bot'']) = Some True then None
      else (case (as_str (json_at payload ''channel_id''), as_str (json_path payload [''author'', ''id''])) of
              (Some cid, Some sender) \<Rightarrow>
                Some
                  \<lparr>im_channel = discord_id, im_account_id = ''default'', im_sender_id = sender,
                   im_sender_name = as_str (json_path payload [''author'', ''username'']),
                   im_thread_id = Some cid, im_is_group = (json_get payload ''guild_id'' \<noteq> None),
                   im_is_mention = (case me of Some b \<Rightarrow> mentions_user payload b | None \<Rightarrow> False),
                   im_text = as_str (json_at payload ''content''),
                   im_attachments = map discord_attachment (json_items (json_at payload ''attachments'')),
                   im_platform_message_id = as_str (json_at payload ''id''),
                   im_timestamp = (case Option.bind (as_str (json_at payload ''timestamp'')) (de_time de) of
                     Some t \<Rightarrow> t | None \<Rightarrow> now)\<rparr>
            | _ \<Rightarrow> None))"

section \<open>The session\<close>

text \<open>The user of the bot outlives a session, the sequence number does not.\<close>

record discord_state =
  dg_seq :: int
  dg_bot :: "string option"
  dg_heartbeats :: "json list"
  dg_inbound :: "inbound_message list"

definition note_seq :: "json \<Rightarrow> discord_state \<Rightarrow> discord_state" where
  "note_seq payload st = (case json_i64 (json_at payload ''s'') of Some n \<Rightarrow> st\<lparr>dg_seq := n\<rparr> | None \<Rightarrow> st)"

definition dispatch ::
  "discord_env \<Rightarrow> datetime \<Rightarrow> (inbound_message \<Rightarrow> bool) \<Rightarrow> json \<Rightarrow> discord_state \<Rightarrow> bool \<times> discord_state" where
  "dispatch de now accepts payload st =
     (let d = json_at payload ''d'';
          kind = as_str (json_at payload ''t'')
      in if kind = Some ''READY'' then (True, st\<lparr>dg_bot := as_str (json_path d [''user'', ''id''])\<rparr>)
         else if kind = Some ''MESSAGE_CREATE'' then
           (case parse_message_create de now d (dg_bot st) of
              None \<Rightarrow> (True, st)
            | Some m \<Rightarrow> if accepts m then (True, st\<lparr>dg_inbound := dg_inbound st @ [m]\<rparr>) else (False, st))
         else (True, st))"

text \<open>A step ends the session with a result, or goes on with a state.\<close>

definition gateway_payload ::
  "discord_env \<Rightarrow> datetime \<Rightarrow> (inbound_message \<Rightarrow> bool) \<Rightarrow> json \<Rightarrow> discord_state
    \<Rightarrow> (frank_error + unit) option \<times> discord_state" where
  "gateway_payload de now accepts payload st0 =
     (let st = note_seq payload st0; opcode = json_i64 (json_at payload ''op'')
      in if opcode = Some 0 then
           (case dispatch de now accepts payload st of
              (True, st1) \<Rightarrow> (None, st1) | (False, st1) \<Rightarrow> (Some (Inr ()), st1))
         else if opcode = Some 7 then (Some (Inl (channel_err discord_id ''discord requested reconnect'')), st)
         else if opcode = Some 9 then (Some (Inl (channel_err discord_id ''discord gateway session invalid'')), st)
         else (None, st))"

primrec gateway_step ::
  "discord_env \<Rightarrow> datetime \<Rightarrow> (inbound_message \<Rightarrow> bool) \<Rightarrow> gateway_event \<Rightarrow> discord_state
    \<Rightarrow> (frank_error + unit) option \<times> discord_state" where
  "gateway_step de now accepts (HeartbeatTick failure) st =
     (case failure of
        Some e \<Rightarrow> (Some (Inl (channel_err discord_id (''heartbeat failed: '' @ e))), st)
      | None \<Rightarrow> (None, st\<lparr>dg_heartbeats := dg_heartbeats st @ [heartbeat_payload (dg_seq st)]\<rparr>))"
| "gateway_step de now accepts (FrameRead f) st =
     (case parse_gateway_message de f of
        Inl e \<Rightarrow> (Some (Inl e), st)
      | Inr payload \<Rightarrow> gateway_payload de now accepts payload st)"
| "gateway_step de now accepts (ReadFailed e) st =
     (Some (Inl (channel_err discord_id (''discord gateway read failed: '' @ e))), st)"
| "gateway_step de now accepts StreamEnded st =
     (Some (Inl (channel_err discord_id ''discord gateway closed'')), st)"

text \<open>The loop over the events that came so far; \<open>None\<close>: the session still runs.\<close>

fun gateway_loop ::
  "discord_env \<Rightarrow> datetime \<Rightarrow> (inbound_message \<Rightarrow> bool) \<Rightarrow> gateway_event list \<Rightarrow> discord_state
    \<Rightarrow> (frank_error + unit) option \<times> discord_state" where
  "gateway_loop de now accepts [] st = (None, st)"
| "gateway_loop de now accepts (e # es) st =
     (case gateway_step de now accepts e st of
        (Some r, st1) \<Rightarrow> (Some r, st1)
      | (None, st1) \<Rightarrow> gateway_loop de now accepts es st1)"

text \<open>A session after the connection: the first event, the outcome of the identification, the events.\<close>

definition run_gateway ::
  "discord_env \<Rightarrow> datetime \<Rightarrow> (inbound_message \<Rightarrow> bool) \<Rightarrow> gateway_event option \<Rightarrow> string option \<Rightarrow> gateway_event list
    \<Rightarrow> string option \<Rightarrow> (frank_error + unit) option \<times> discord_state" where
  "run_gateway de now accepts hello identify_failure events me =
     (let st = \<lparr>dg_seq = -1, dg_bot = me, dg_heartbeats = [], dg_inbound = []\<rparr>
      in case heartbeat_interval de hello of
           Inl e \<Rightarrow> (Some (Inl e), st)
         | Inr _ \<Rightarrow>
             (case identify_failure of
                Some e \<Rightarrow> (Some (Inl (channel_err discord_id (''identify failed: '' @ e))), st)
              | None \<Rightarrow> gateway_loop de now accepts events st))"

definition fatal_codes :: "string list" where
  "fatal_codes = [''4004'', ''4010'', ''4011'', ''4012'', ''4013'', ''4014'']"

definition is_fatal_gateway_error :: "frank_error \<Rightarrow> bool" where
  "is_fatal_gateway_error e = list_ex (\<lambda>c. contains (error_text e) (''code='' @ c)) fatal_codes"

text \<open>What \<open>start\<close> does after a session: it returns, or tries again in five seconds (\<open>None\<close>).\<close>

fun after_session :: "frank_error + unit \<Rightarrow> (frank_error + unit) option" where
  "after_session (Inr ()) = Some (Inr ())"
| "after_session (Inl e) = (if is_fatal_gateway_error e then Some (Inl e) else None)"

fun discord_start :: "(frank_error + unit) list \<Rightarrow> (frank_error + unit) option" where
  "discord_start [] = None"
| "discord_start (r # rs) = (case after_session r of Some r1 \<Rightarrow> Some r1 | None \<Rightarrow> discord_start rs)"

section \<open>Messages that go out\<close>

definition discord_send_body :: "outbound_message \<Rightarrow> json" where
  "discord_send_body msg =
     JObject
       ([(''content'', JString (normalize_outbound_text (om_text msg) Plain)),
         (''allowed_mentions'', JObject [(''parse'', JArray [])])] @
        (case om_reply_to msg of
           Some r \<Rightarrow> [(''message_reference'', JObject [(''message_id'', JString r)])]
         | None \<Rightarrow> []))"

record attachment_spec =
  as_field_name :: string
  as_filename :: string
  as_mime_type :: string
  as_bytes :: "u8 list"

definition attachment_spec_of :: "nat \<times> outbound_attachment \<Rightarrow> frank_error + attachment_spec" where
  "attachment_spec_of p =
     (case attachment_bytes discord_id (snd p) of
        Inl e \<Rightarrow> Inl e
      | Inr data \<Rightarrow>
          Inr \<lparr>as_field_name = ''files['' @ show_nat (fst p) @ '']'', as_filename = attachment_filename (snd p),
               as_mime_type = oa_mime_type (snd p), as_bytes = data\<rparr>)"

definition build_send_attachment_payload :: "outbound_message \<Rightarrow> frank_error + json \<times> attachment_spec list" where
  "build_send_attachment_payload msg =
     (case collect_results (map attachment_spec_of (enumerate 0 (om_attachments msg))) of
        Inl e \<Rightarrow> Inl e
      | Inr specs \<Rightarrow>
          Inr (json_set ''attachments''
                (JArray (map (\<lambda>(i, a). JObject
                   [(''id'', JUInt (of_nat i)), (''filename'', JString (attachment_filename a))])
                   (enumerate 0 (om_attachments msg))))
                (discord_send_body msg), specs))"

definition spec_part :: "'w http_env \<Rightarrow> attachment_spec \<Rightarrow> frank_error + string \<times> form_part" where
  "spec_part hx s =
     (case hx_mime_error hx (as_mime_type s) of
        Some e \<Rightarrow> Inl (channel_err discord_id (''invalid attachment mime type: '' @ e))
      | None \<Rightarrow> Inr (as_field_name s, FormFile (as_filename s) (as_mime_type s) (as_bytes s)))"

definition build_send_form ::
  "'w http_env \<Rightarrow> (json \<Rightarrow> string) \<Rightarrow> outbound_message \<Rightarrow> frank_error + (string \<times> form_part) list" where
  "build_send_form hx to_text msg =
     (case build_send_attachment_payload msg of
        Inl e \<Rightarrow> Inl e
      | Inr (payload, specs) \<Rightarrow>
          (case collect_results (map (spec_part hx) specs) of
             Inl e \<Rightarrow> Inl e
           | Inr parts \<Rightarrow> Inr ((''payload_json'', FormText (to_text payload)) # parts)))"

definition message_channel :: "string option \<Rightarrow> string \<Rightarrow> string" where
  "message_channel thread to = (case thread of Some t \<Rightarrow> t | None \<Rightarrow> to)"

definition discord_failure :: "json \<Rightarrow> string" where
  "discord_failure body =
     (let code = (case as_u64 (json_at body ''code'') of Some c \<Rightarrow> c | None \<Rightarrow> 0)
      in if code = 50007 then ''cannot send messages to this user (DM blocked)''
         else if code = 50013 then ''missing permissions to send messages in this channel''
         else str_or ''unknown discord send failure'' (json_at body ''message''))"

definition discord_outcome :: "discord_env \<Rightarrow> http_answer \<Rightarrow> frank_error + send_result" where
  "discord_outcome de a =
     (if ha_status a = 429
      then (case answer_json discord_id ''invalid rate limit response'' a of
              Inl e \<Rightarrow> Inl e
            | Inr body \<Rightarrow> Inr (RateLimitedFor (de_ceil de (json_at body ''retry_after''))))
      else (case answer_json discord_id ''invalid response'' a of
              Inl e \<Rightarrow> Inl e
            | Inr body \<Rightarrow>
                if answer_success a then Inr (Sent (str_or [] (json_at body ''id'')))
                else Inr (Failed (discord_failure body))))"

definition send_single ::
  "'w http_env \<Rightarrow> discord_env \<Rightarrow> (json \<Rightarrow> string) \<Rightarrow> string \<Rightarrow> outbound_message \<Rightarrow> ('w, send_result) effect" where
  "send_single hx de to_text token msg w =
     (case (if om_attachments msg = [] then Inr (JsonBody (discord_send_body msg))
            else map_sum id FormBody (build_send_form hx to_text msg)) of
        Inl e \<Rightarrow> (Inl e, w)
      | Inr body \<Rightarrow>
          (case call_answer hx discord_id ''send failed''
              (discord_call token ''POST''
                (''/channels/'' @ message_channel (om_thread_id msg) (om_to msg) @ ''/messages'') body) w of
             (Inl e, w1) \<Rightarrow> (Inl e, w1)
           | (Inr a, w1) \<Rightarrow> (discord_outcome de a, w1)))"

text \<open>The cut: at the last line end among the first 2000 characters, or after them.\<close>

definition discord_piece :: "string \<Rightarrow> string" where
  "discord_piece s =
     (let slice = prefix_chars discord_message_limit s
      in case last_position (\<lambda>c. c = newline) slice of Some i \<Rightarrow> take (Suc i) slice | None \<Rightarrow> slice)"

function chunk_discord_text :: "string \<Rightarrow> string list" where
  "chunk_discord_text s =
     (if char_count s \<le> discord_message_limit then [s]
      else discord_piece s # chunk_discord_text (drop (length (discord_piece s)) s))"
  by pat_completeness auto

lemma discord_piece_ne: "s \<noteq> [] \<Longrightarrow> discord_piece s \<noteq> []"
  using prefix_chars_ne [of s discord_message_limit]
  by (auto simp: discord_piece_def Let_def discord_message_limit_def split: option.splits)

termination chunk_discord_text
proof (relation "measure length", goal_cases)
  case (2 s)
  then have "s \<noteq> []" by auto
  then show ?case using discord_piece_ne [of s] by simp
qed simp

declare chunk_discord_text.simps [simp del]

fun send_chunks ::
  "(outbound_message \<Rightarrow> ('w, send_result) effect) \<Rightarrow> outbound_message \<Rightarrow> bool \<Rightarrow> string list \<Rightarrow> send_result option
    \<Rightarrow> ('w, send_result) effect" where
  "send_chunks send msg first [] result w =
     (Inr (case result of Some r \<Rightarrow> r | None \<Rightarrow> Failed ''no chunks to send''), w)"
| "send_chunks send msg first (c # cs) result w =
     (case send (if first then msg\<lparr>om_text := c\<rparr> else msg\<lparr>om_text := c, om_reply_to := None\<rparr>) w of
        (Inl e, w1) \<Rightarrow> (Inl e, w1)
      | (Inr (Sent i), w1) \<Rightarrow> send_chunks send msg False cs (Some (Sent i)) w1
      | (Inr r, w1) \<Rightarrow> (Inr r, w1))"

definition discord_send ::
  "'w http_env \<Rightarrow> discord_env \<Rightarrow> (json \<Rightarrow> string) \<Rightarrow> string \<Rightarrow> outbound_message \<Rightarrow> ('w, send_result) effect" where
  "discord_send hx de to_text token msg w =
     (let text = normalize_outbound_text (om_text msg) Plain
      in if om_attachments msg = [] \<and> discord_message_limit < char_count text
         then send_chunks (send_single hx de to_text token) msg True (chunk_discord_text text) None w
         else send_single hx de to_text token msg w)"

definition message_path :: "string option \<Rightarrow> string \<Rightarrow> string \<Rightarrow> string" where
  "message_path thread to mid = ''/channels/'' @ message_channel thread to @ ''/messages/'' @ mid"

definition discord_edit :: "'w http_env \<Rightarrow> string \<Rightarrow> edit_message_target \<Rightarrow> string \<Rightarrow> ('w, unit) effect" where
  "discord_edit hx token target new_text =
     status_call hx discord_id ''discord edit failed'' ''invalid discord edit response'' ''message''
       ''unknown discord edit failure''
       (discord_call token ''PATCH''
         (message_path (et_thread_id target) (et_to target) (et_platform_message_id target))
         (JsonBody (JObject [(''content'', JString (normalize_outbound_text new_text Plain))])))"

definition discord_delete :: "'w http_env \<Rightarrow> string \<Rightarrow> delete_message_target \<Rightarrow> ('w, unit) effect" where
  "discord_delete hx token target =
     status_call hx discord_id ''discord delete failed'' ''invalid discord delete response'' ''message''
       ''unknown discord delete failure''
       (discord_call token ''DELETE''
         (message_path (dt_thread_id target) (dt_to target) (dt_platform_message_id target)) NoBody)"

definition discord_capabilities :: channel_capabilities where
  "discord_capabilities =
     no_capabilities\<lparr>cap_threads := True, cap_groups := True, cap_attachments := True, cap_edit := True,
       cap_delete := True, cap_streaming := True\<rparr>"

definition discord_health :: "'w http_env \<Rightarrow> string \<Rightarrow> 'w \<Rightarrow> health_status \<times> 'w" where
  "discord_health hx token w =
     (case hx_send hx (discord_call token ''GET'' ''/users/@me'' NoBody) w of (r, w1) \<Rightarrow> (health_by_status r, w1))"

definition discord_plugin ::
  "'w http_env \<Rightarrow> discord_env \<Rightarrow> (json \<Rightarrow> string) \<Rightarrow> string \<Rightarrow> ('w, unit) effect \<Rightarrow> 'w channel_plugin" where
  "discord_plugin hx de to_text token start =
     streams_by_edits discord_id (discord_send hx de to_text token) (discord_edit hx token)
       ((default_plugin discord_id discord_capabilities ''Discord'' start (\<lambda>w. (Inr (), w))
          (discord_health hx token) (discord_send hx de to_text token))
        \<lparr>ch_delete_message := discord_delete hx token\<rparr>)"

section \<open>Lemmas\<close>

text \<open>The cut loses nothing, and no piece is longer than the limit.\<close>

lemma discord_piece_prefix: "\<exists>r. s = discord_piece s @ r"
proof -
  have t: "\<exists>r. s = take n (prefix_chars k s) @ r" for n k
    by (metis append_take_drop_id prefix_chars_take take_take append_assoc)
  have "discord_piece s = take (length (discord_piece s)) (prefix_chars discord_message_limit s)"
    by (auto simp: discord_piece_def Let_def min_def split: option.splits)
  then show ?thesis using t by metis
qed

lemma discord_piece_bounded: "char_count (discord_piece s) \<le> discord_message_limit"
  using char_count_take_le [of _ "prefix_chars discord_message_limit s"]
    char_count_prefix_chars [of discord_message_limit s]
  by (auto simp: discord_piece_def Let_def split: option.splits intro: order_trans)

lemma discord_chunks_exact:
  "concat (chunk_discord_text s) = s \<and> list_all (\<lambda>c. char_count c \<le> discord_message_limit) (chunk_discord_text s)"
proof (induction s rule: chunk_discord_text.induct)
  case (1 s)
  show ?case
  proof (cases "char_count s \<le> discord_message_limit")
    case True
    then show ?thesis by (simp add: chunk_discord_text.simps [of s])
  next
    case False
    obtain r where r: "s = discord_piece s @ r" using discord_piece_prefix by blast
    then have "discord_piece s @ drop (length (discord_piece s)) s = s"
      by (metis append_eq_conv_conj)
    then show ?thesis
      using False 1 [OF False] by (simp add: chunk_discord_text.simps [of s] discord_piece_bounded)
  qed
qed

text \<open>A chunk that is refused ends the send with its outcome, after the chunks before it have gone out.\<close>

lemma refused_chunk_decides:
  assumes "send (msg\<lparr>om_text := a\<rparr>) w = (Inr (Sent i), w1)"
    "send (msg\<lparr>om_text := b, om_reply_to := None\<rparr>) w1 = (Inr (RateLimitedFor n), w2)"
  shows "send_chunks send msg True (a # b # cs) None w = (Inr (RateLimitedFor n), w2)"
  using assms by simp

text \<open>Messages of bots are never delivered, whatever comes over the gateway.\<close>

lemma parse_message_create_fields:
  "parse_message_create de now payload me = Some m \<Longrightarrow>
   as_bool (json_path payload [''author'', ''bot'']) \<noteq> Some True \<and> im_channel m = discord_id"
  by (auto simp: parse_message_create_def split: if_splits option.splits)

definition heartbeat_of_seq :: "json \<Rightarrow> bool" where
  "heartbeat_of_seq j \<longleftrightarrow> (\<exists>n. j = heartbeat_payload n)"

lemma gateway_step_inbound:
  "gateway_step de now accepts e st = (r, st1) \<Longrightarrow> \<exists>ms. dg_inbound st1 = dg_inbound st @ ms \<and> list_all accepts ms"
  by (cases e)
    (auto simp: gateway_payload_def dispatch_def note_seq_def Let_def
      split: option.splits sum.splits prod.splits if_splits)

lemma gateway_loop_inbound:
  "gateway_loop de now accepts es st = (r, st1) \<Longrightarrow>
   \<exists>ms. dg_inbound st1 = dg_inbound st @ ms \<and> list_all accepts ms"
proof (induction es arbitrary: st)
  case Nil
  then show ?case by auto
next
  case (Cons e es)
  obtain r2 st2 where s: "gateway_step de now accepts e st = (r2, st2)" by fastforce
  obtain ms where ms: "dg_inbound st2 = dg_inbound st @ ms" "list_all accepts ms"
    using gateway_step_inbound [OF s] by blast
  show ?case
  proof (cases r2)
    case None
    then have "gateway_loop de now accepts es st2 = (r, st1)" using Cons.prems s by simp
    then obtain ms2 where "dg_inbound st1 = dg_inbound st2 @ ms2" "list_all accepts ms2" using Cons.IH by blast
    then show ?thesis using ms by (intro exI [of _ "ms @ ms2"]) simp
  next
    case (Some x)
    then show ?thesis using Cons.prems s ms by auto
  qed
qed

text \<open>A heartbeat carries the sequence number of the last frame that had one.\<close>

lemma heartbeat_carries_last:
  assumes "parse_gateway_message de f = Inr payload" "json_i64 (json_at payload ''s'') = Some n" "0 \<le> n"
    "json_i64 (json_at payload ''op'') \<notin> {Some 0, Some 7, Some 9}"
  shows "gateway_loop de now accepts [FrameRead f, HeartbeatTick None] st =
    (None, st\<lparr>dg_seq := n, dg_heartbeats := dg_heartbeats st @ [JObject [(''op'', JUInt 1), (''d'', json_of_i64 n)]]\<rparr>)"
  using assms by (simp add: gateway_payload_def note_seq_def heartbeat_payload_def Let_def)

text \<open>A close with a fatal code ends the adapter; the others, a lost connection too, are tried again.\<close>

lemma fatal_close_is_final:
  assumes "show_nat (unat code) \<in> set fatal_codes" "gateway_step de now accepts (FrameRead (CloseFrame (Some (code, reason)))) st = (Some r, st1)"
  shows "discord_start (r # rs) = Some r"
proof -
  obtain e where r: "r = Inl e"
    and e: "error_text e = error_text (channel_err discord_id []) @ ''discord gateway closed (code='' @
      show_nat (unat code) @ '', reason='' @ reason @ '')''"
    using assms(2) by (auto simp: channel_err_def)
  have "contains (error_text e) (''code='' @ show_nat (unat code))"
  proof -
    have "error_text e = (error_text (channel_err discord_id []) @ ''discord gateway closed ('') @
        (''code='' @ show_nat (unat code)) @ '', reason='' @ reason @ '')''"
      by (simp add: e)
    then show ?thesis unfolding contains_iff by blast
  qed
  then have "is_fatal_gateway_error e" using assms(1) by (auto simp: is_fatal_gateway_error_def list_ex_iff)
  then show ?thesis by (simp add: r)
qed

end
