(* ===== verification/Slack.thy ===== *)
theory Slack
  imports Channel_Wire
begin

text \<open>
  The adapter of Slack (\<open>frankclaw-channels/src/slack.rs\<close>): the socket-mode session as a run over its
  frames, the messages that come in, and the calls of the web API with the upload of files in three steps.
  The lemmas show that a thread target reads back, that an envelope is acknowledged before its message is
  delivered, and what a failed upload leaves.
\<close>

section \<open>Constants and calls\<close>

definition slack_id :: channel_id where
  "slack_id = ChannelId ''slack''"

definition slack_api_base :: string where
  "slack_api_base = ''https://slack.com/api''"

definition slack_fatal_errors :: "string list" where
  "slack_fatal_errors =
     [''account_inactive'', ''invalid_auth'', ''token_revoked'', ''org_login_required'', ''missing_scope'',
      ''not_allowed_token_type'', ''team_access_not_granted'']"

definition slack_call :: "string \<Rightarrow> string \<Rightarrow> http_body \<Rightarrow> http_call" where
  "slack_call token api_method body =
     \<lparr>hc_method = ''POST'', hc_url = slack_api_base @ ''/'' @ api_method,
      hc_headers = [(''authorization'', ''Bearer '' @ token)], hc_body = body\<rparr>"

definition slack_ok :: "json \<Rightarrow> bool" where
  "slack_ok v \<longleftrightarrow> as_bool (json_at v ''ok'') = Some True"

text \<open>A call that must be answered with \<open>ok\<close>: the texts are those of its three errors.\<close>

definition slack_request ::
  "'w http_env \<Rightarrow> http_call \<Rightarrow> string \<Rightarrow> string \<Rightarrow> string \<Rightarrow> ('w, json) effect" where
  "slack_request hx call failing invalid unknown w =
     (case call_answer hx slack_id failing call w of
        (Inl e, w1) \<Rightarrow> (Inl e, w1)
      | (Inr a, w1) \<Rightarrow>
          (case answer_json slack_id invalid a of
             Inl e \<Rightarrow> (Inl e, w1)
           | Inr body \<Rightarrow>
               if slack_ok body then (Inr body, w1)
               else (Inl (channel_err slack_id (str_or unknown (json_at body ''error''))), w1)))"

definition socket_mode_url :: "'w http_env \<Rightarrow> string \<Rightarrow> ('w, string) effect" where
  "socket_mode_url hx app_token w =
     (case slack_request hx (slack_call app_token ''apps.connections.open'' NoBody)
         ''socket mode connection open failed'' ''invalid socket mode response''
         ''slack socket mode request failed'' w of
        (Inl e, w1) \<Rightarrow> (Inl e, w1)
      | (Inr body, w1) \<Rightarrow>
          ((case as_str (json_at body ''url'') of
              Some u \<Rightarrow> Inr u
            | None \<Rightarrow> Inl (channel_err slack_id ''slack socket mode response missing url'')), w1))"

text \<open>The user of the bot, as the adapter remembers it.\<close>

definition populate_bot_user_id :: "'w http_env \<Rightarrow> string \<Rightarrow> ('w, string option) effect" where
  "populate_bot_user_id hx bot_token w =
     (case slack_request hx (slack_call bot_token ''auth.test'' NoBody)
         ''slack auth test failed'' ''invalid slack auth test response'' ''slack auth test failed'' w of
        (Inl e, w1) \<Rightarrow> (Inl e, w1)
      | (Inr body, w1) \<Rightarrow> (Inr (as_str (json_at body ''user_id'')), w1))"

section \<open>Addresses\<close>

definition thread_marker :: string where
  "thread_marker = '':thread:''"

definition encode_thread_target :: "string \<Rightarrow> string option \<Rightarrow> string" where
  "encode_thread_target cid thread_ts =
     (case thread_ts of Some ts \<Rightarrow> cid @ thread_marker @ ts | None \<Rightarrow> cid)"

definition parse_thread_target :: "string option \<Rightarrow> string \<Rightarrow> string \<times> string option" where
  "parse_thread_target thread fallback =
     (let raw = (case thread of Some t \<Rightarrow> t | None \<Rightarrow> fallback)
      in case split_at_marker thread_marker raw of
           Some (cid, ts) \<Rightarrow> (cid, Some ts)
         | None \<Rightarrow> (raw, None))"

definition parse_slack_timestamp :: "string \<Rightarrow> datetime option" where
  "parse_slack_timestamp value = Option.bind (parse_i64 (hd (split_all CHR ''.'' value))) from_timestamp"

section \<open>Messages that come in\<close>

primrec parse_socket_frame :: "frame_lib \<Rightarrow> socket_frame \<Rightarrow> frank_error + json" where
  "parse_socket_frame fl (TextFrame s) = frame_text fl slack_id ''slack socket mode'' s"
| "parse_socket_frame fl (BinaryFrame b) = frame_bytes fl slack_id ''slack socket mode'' b"
| "parse_socket_frame fl (CloseFrame c) = Inl (channel_err slack_id ''slack socket mode closed'')"
| "parse_socket_frame fl OtherFrame =
     Inl (channel_err slack_id ''slack socket mode sent unexpected frame type'')"

definition slack_file :: "json \<Rightarrow> inbound_attachment" where
  "slack_file f =
     \<lparr>ia_media_id = None,
      ia_mime_type = infer_inbound_mime_type (as_str (json_at f ''mimetype'')) (as_str (json_at f ''name''))
        (as_str (json_at f ''url_private'')),
      ia_filename = as_str (json_at f ''name''), ia_size_bytes = as_u64 (json_at f ''size''),
      ia_url = as_str (json_at f ''url_private'')\<rparr>"

definition is_string :: "json \<Rightarrow> bool" where
  "is_string v \<longleftrightarrow> as_str v \<noteq> None"

definition parse_event_message :: "datetime \<Rightarrow> json \<Rightarrow> string option \<Rightarrow> inbound_message option" where
  "parse_event_message now event me =
     (if as_str (json_at event ''type'') \<noteq> Some ''message'' then None
      else if is_string (json_at event ''subtype'') \<or> is_string (json_at event ''bot_id'') then None
      else (case (as_str (json_at event ''channel''), as_str (json_at event ''user'')) of
              (Some cid, Some sender) \<Rightarrow>
                (let attachments = (case as_array (json_at event ''files'') of
                        Some fs \<Rightarrow> map slack_file fs | None \<Rightarrow> []);
                     text = text_or_attachment_placeholder (as_str (json_at event ''text'')) attachments
                 in Some
                   \<lparr>im_channel = slack_id, im_account_id = ''default'', im_sender_id = sender,
                    im_sender_name = None,
                    im_thread_id = Some (encode_thread_target cid (as_str (json_at event ''thread_ts''))),
                    im_is_group = (str_or ''channel'' (json_at event ''channel_type'') \<noteq> ''im''),
                    im_is_mention = (case (me, text) of
                      (Some user, Some t) \<Rightarrow> contains t (''<@'' @ user @ ''>'') | _ \<Rightarrow> False),
                    im_text = text, im_attachments = attachments,
                    im_platform_message_id = as_str (json_at event ''ts''),
                    im_timestamp = (case Option.bind (as_str (json_at event ''ts'')) parse_slack_timestamp of
                      Some t \<Rightarrow> t | None \<Rightarrow> now)\<rparr>)
            | _ \<Rightarrow> None))"

section \<open>The session\<close>

text \<open>What the socket gives, a frame with the failure of its acknowledgement; and what the adapter does.\<close>

datatype socket_event = SocketFrame socket_frame "string option" | SocketError string

datatype slack_action = Acked string | Delivered inbound_message

text \<open>A frame: what is done, and the end of the session if it ends here.\<close>

definition socket_step ::
  "frame_lib \<Rightarrow> datetime \<Rightarrow> (inbound_message \<Rightarrow> bool) \<Rightarrow> string option \<Rightarrow> socket_event
    \<Rightarrow> slack_action list \<times> (frank_error + unit) option" where
  "socket_step fl now accepts me ev =
     (case ev of
        SocketError e \<Rightarrow> ([], Some (Inl (channel_err slack_id (''slack socket mode read failed: '' @ e))))
      | SocketFrame f ack_failure \<Rightarrow>
          (case parse_socket_frame fl f of
             Inl e \<Rightarrow> ([], Some (Inl e))
           | Inr payload \<Rightarrow>
               (let envelope = as_str (json_at payload ''envelope_id'');
                    acks = (case envelope of Some i \<Rightarrow> [Acked i] | None \<Rightarrow> [])
                in case (envelope, ack_failure) of
                     (Some i, Some e) \<Rightarrow> ([], Some (Inl (channel_err slack_id (''slack socket mode ack failed: '' @ e))))
                   | _ \<Rightarrow>
                       if as_str (json_at payload ''type'') \<noteq> Some ''events_api'' then (acks, None)
                       else (case parse_event_message now (json_path payload [''payload'', ''event'']) me of
                               None \<Rightarrow> (acks, None)
                             | Some m \<Rightarrow>
                                 if accepts m then (acks @ [Delivered m], None) else (acks, Some (Inr ()))))))"

text \<open>All the frames of a connection, which ends when there are no more.\<close>

fun socket_loop ::
  "frame_lib \<Rightarrow> datetime \<Rightarrow> (inbound_message \<Rightarrow> bool) \<Rightarrow> string option \<Rightarrow> socket_event list
    \<Rightarrow> slack_action list \<times> (frank_error + unit)" where
  "socket_loop fl now accepts me [] = ([], Inl (channel_err slack_id ''slack socket mode closed''))"
| "socket_loop fl now accepts me (ev # evs) =
     (case socket_step fl now accepts me ev of
        (acts, Some r) \<Rightarrow> (acts, r)
      | (acts, None) \<Rightarrow> (case socket_loop fl now accepts me evs of (acts2, r) \<Rightarrow> (acts @ acts2, r)))"

text \<open>A session; \<open>connect\<close> opens the socket and gives its events.\<close>

definition run_socket_mode ::
  "'w http_env \<Rightarrow> frame_lib \<Rightarrow> string \<Rightarrow> string \<Rightarrow> (string \<Rightarrow> 'w \<Rightarrow> (string + socket_event list) \<times> 'w)
    \<Rightarrow> (inbound_message \<Rightarrow> bool) \<Rightarrow> 'w \<Rightarrow> (slack_action list \<times> (frank_error + unit)) \<times> 'w" where
  "run_socket_mode hx fl app_token bot_token connect accepts w =
     (case populate_bot_user_id hx bot_token w of
        (Inl e, w1) \<Rightarrow> (([], Inl e), w1)
      | (Inr me, w1) \<Rightarrow>
          (case socket_mode_url hx app_token w1 of
             (Inl e, w2) \<Rightarrow> (([], Inl e), w2)
           | (Inr u, w2) \<Rightarrow>
               (case connect u w2 of
                  (Inl e, w3) \<Rightarrow> (([], Inl (channel_err slack_id (''slack socket mode connect failed: '' @ e))), w3)
                | (Inr evs, w3) \<Rightarrow> (socket_loop fl (hx_now hx w3) accepts me evs, w3))))"

definition is_fatal_slack_error :: "frank_error \<Rightarrow> bool" where
  "is_fatal_slack_error e = list_ex (contains (error_text e)) slack_fatal_errors"

fun slack_start :: "(frank_error + unit) list \<Rightarrow> (frank_error + unit) option" where
  "slack_start [] = None"
| "slack_start (Inr u # rs) = Some (Inr u)"
| "slack_start (Inl e # rs) = (if is_fatal_slack_error e then Some (Inl e) else slack_start rs)"

section \<open>Messages that go out\<close>

definition slack_thread :: "outbound_message \<Rightarrow> string option" where
  "slack_thread msg =
     (case snd (parse_thread_target (om_thread_id msg) (om_to msg)) of
        Some ts \<Rightarrow> Some ts | None \<Rightarrow> om_reply_to msg)"

definition slack_send_body :: "outbound_message \<Rightarrow> json" where
  "slack_send_body msg =
     JObject
       ([(''channel'', JString (fst (parse_thread_target (om_thread_id msg) (om_to msg)))),
         (''text'', JString (normalize_outbound_text (om_text msg) Plain)), (''reply_broadcast'', JBool False)] @
        (case slack_thread msg of Some ts \<Rightarrow> [(''thread_ts'', JString ts)] | None \<Rightarrow> []))"

definition build_upload_ticket_request :: "string \<Rightarrow> nat \<Rightarrow> json" where
  "build_upload_ticket_request filename n =
     JObject [(''filename'', JString filename), (''length'', JUInt (of_nat n))]"

definition build_complete_upload_request :: "json list \<Rightarrow> string \<Rightarrow> string option \<Rightarrow> string \<Rightarrow> json" where
  "build_complete_upload_request files cid thread_ts initial_comment =
     (let note = normalize_outbound_text initial_comment Plain
      in JObject
        ([(''files'', JArray files), (''channel_id'', JString cid)] @
         (if note = [] then [] else [(''initial_comment'', JString note)]) @
         (case thread_ts of Some ts \<Rightarrow> [(''thread_ts'', JString ts)] | None \<Rightarrow> [])))"

text \<open>A ticket, the bytes, and the entry of the file; its errors are texts.\<close>

definition upload_ticket :: "json \<Rightarrow> string + string \<times> string" where
  "upload_ticket ticket =
     (if \<not> slack_ok ticket then Inl (str_or ''unknown slack upload ticket failure'' (json_at ticket ''error''))
      else (case (as_str (json_at ticket ''upload_url''), as_str (json_at ticket ''file_id'')) of
              (None, _) \<Rightarrow> Inl ''slack upload ticket response missing upload_url''
            | (Some _, None) \<Rightarrow> Inl ''slack upload ticket response missing file_id''
            | (Some u, Some i) \<Rightarrow> Inr (u, i)))"

definition upload_bytes :: "'w http_env \<Rightarrow> string \<Rightarrow> u8 list \<Rightarrow> 'w \<Rightarrow> (string + unit) \<times> 'w" where
  "upload_bytes hx u data w =
     (case hx_send hx \<lparr>hc_method = ''POST'', hc_url = u,
         hc_headers = [(''content-type'', ''application/octet-stream'')], hc_body = BytesBody data\<rparr> w of
        (Inl e, w1) \<Rightarrow> (Inl (''slack external upload failed: '' @ e), w1)
      | (Inr a, w1) \<Rightarrow>
          (if answer_success a then (Inr (), w1)
           else (Inl (''slack external upload returned HTTP '' @ answer_status a), w1)))"

definition upload_single_file ::
  "'w http_env \<Rightarrow> string \<Rightarrow> string \<Rightarrow> u8 list \<Rightarrow> 'w \<Rightarrow> (string + json) \<times> 'w" where
  "upload_single_file hx bot_token filename data w =
     (case hx_send hx (slack_call bot_token ''files.getUploadURLExternal''
         (JsonBody (build_upload_ticket_request filename (length data)))) w of
        (Inl e, w1) \<Rightarrow> (Inl (''slack upload ticket request failed: '' @ e), w1)
      | (Inr a, w1) \<Rightarrow>
          (case ha_json a of
             Inl e \<Rightarrow> (Inl (''invalid slack upload ticket response: '' @ e), w1)
           | Inr ticket \<Rightarrow>
               (case upload_ticket ticket of
                  Inl e \<Rightarrow> (Inl e, w1)
                | Inr (u, i) \<Rightarrow>
                    (case upload_bytes hx u data w1 of
                       (Inl e, w2) \<Rightarrow> (Inl e, w2)
                     | (Inr _, w2) \<Rightarrow> (Inr (JObject [(''id'', JString i), (''title'', JString filename)]), w2)))))"

definition limited_or :: "http_answer \<Rightarrow> (json \<Rightarrow> send_result) \<Rightarrow> string \<Rightarrow> frank_error + send_result" where
  "limited_or a outcome invalid =
     (if ha_status a = 429 then Inr (RateLimitedFor (retry_after a))
      else map_sum id outcome (answer_json slack_id invalid a))"

definition upload_outcome :: "json \<Rightarrow> send_result" where
  "upload_outcome body =
     (if slack_ok body
      then Sent (case as_array (json_at body ''files'') of
             Some (f # _) \<Rightarrow> str_or ''file-upload'' (json_at f ''id'')
           | _ \<Rightarrow> ''file-upload'')
      else Failed (str_or ''unknown slack complete upload failure'' (json_at body ''error'')))"

definition complete_file_upload ::
  "'w http_env \<Rightarrow> string \<Rightarrow> json list \<Rightarrow> string \<Rightarrow> string option \<Rightarrow> string \<Rightarrow> ('w, send_result) effect" where
  "complete_file_upload hx bot_token files cid thread_ts text w =
     (case call_answer hx slack_id ''slack complete upload failed''
         (slack_call bot_token ''files.completeUploadExternal''
           (JsonBody (build_complete_upload_request files cid thread_ts text))) w of
        (Inl e, w1) \<Rightarrow> (Inl e, w1)
      | (Inr a, w1) \<Rightarrow> (limited_or a upload_outcome ''invalid slack complete upload response'', w1))"

text \<open>
  The uploads one after the other: the first failure ends them, with the reason alone when no file is up
  yet, and with the files so far otherwise.
\<close>

fun upload_all ::
  "'w http_env \<Rightarrow> string \<Rightarrow> outbound_attachment list \<Rightarrow> json list \<Rightarrow> 'w
    \<Rightarrow> (frank_error + (string + json list)) \<times> 'w" where
  "upload_all hx bot_token [] files w = (Inr (Inr files), w)"
| "upload_all hx bot_token (a # as) files w =
     (case attachment_bytes slack_id a of
        Inl e \<Rightarrow> (Inl e, w)
      | Inr data \<Rightarrow>
          (case upload_single_file hx bot_token (attachment_filename a) data w of
             (Inr entry, w1) \<Rightarrow> upload_all hx bot_token as (files @ [entry]) w1
           | (Inl reason, w1) \<Rightarrow> (Inr (if files = [] then Inl reason else Inr files), w1)))"

definition send_with_attachments :: "'w http_env \<Rightarrow> string \<Rightarrow> outbound_message \<Rightarrow> ('w, send_result) effect" where
  "send_with_attachments hx bot_token msg w =
     (case upload_all hx bot_token (om_attachments msg) [] w of
        (Inl e, w1) \<Rightarrow> (Inl e, w1)
      | (Inr (Inl reason), w1) \<Rightarrow> (Inr (Failed reason), w1)
      | (Inr (Inr files), w1) \<Rightarrow>
          complete_file_upload hx bot_token files (fst (parse_thread_target (om_thread_id msg) (om_to msg)))
            (slack_thread msg) (om_text msg) w1)"

definition classify_slack_send_error :: "string \<Rightarrow> string" where
  "classify_slack_send_error e =
     (if e = ''channel_not_found'' then ''channel not found (bot may not be invited)''
      else if e = ''not_in_channel'' then ''bot is not a member of this channel''
      else if e = ''is_archived'' then ''cannot send to an archived channel''
      else if e = ''msg_too_long'' then ''message exceeds Slack'' @ [CHR 0x27] @ ''s length limit''
      else if e = ''no_text'' then ''message text is empty''
      else if e = ''restricted_action'' then ''workspace policy restricts this action''
      else e)"

definition post_outcome :: "json \<Rightarrow> send_result" where
  "post_outcome body =
     (if slack_ok body then Sent (str_or [] (json_at body ''ts''))
      else Failed (classify_slack_send_error (str_or ''unknown slack send failure'' (json_at body ''error''))))"

definition slack_send :: "'w http_env \<Rightarrow> string \<Rightarrow> outbound_message \<Rightarrow> ('w, send_result) effect" where
  "slack_send hx bot_token msg w =
     (if om_attachments msg \<noteq> [] then send_with_attachments hx bot_token msg w
      else (case call_answer hx slack_id ''slack send failed''
              (slack_call bot_token ''chat.postMessage'' (JsonBody (slack_send_body msg))) w of
             (Inl e, w1) \<Rightarrow> (Inl e, w1)
           | (Inr a, w1) \<Rightarrow> (limited_or a post_outcome ''invalid slack send response'', w1)))"

definition ignore_value :: "('w, 'a) effect \<Rightarrow> ('w, unit) effect" where
  "ignore_value f w = (case f w of (Inl e, w1) \<Rightarrow> (Inl e, w1) | (Inr _, w1) \<Rightarrow> (Inr (), w1))"

definition slack_edit :: "'w http_env \<Rightarrow> string \<Rightarrow> edit_message_target \<Rightarrow> string \<Rightarrow> ('w, unit) effect" where
  "slack_edit hx bot_token target new_text =
     ignore_value (slack_request hx
       (slack_call bot_token ''chat.update''
         (JsonBody (JObject
           [(''channel'', JString (fst (parse_thread_target (et_thread_id target) (et_to target)))),
            (''ts'', JString (et_platform_message_id target)),
            (''text'', JString (normalize_outbound_text new_text Plain))])))
       ''slack edit failed'' ''invalid slack edit response'' ''unknown slack edit failure'')"

definition slack_delete :: "'w http_env \<Rightarrow> string \<Rightarrow> delete_message_target \<Rightarrow> ('w, unit) effect" where
  "slack_delete hx bot_token target =
     ignore_value (slack_request hx
       (slack_call bot_token ''chat.delete''
         (JsonBody (JObject
           [(''channel'', JString (fst (parse_thread_target (dt_thread_id target) (dt_to target)))),
            (''ts'', JString (dt_platform_message_id target))])))
       ''slack delete failed'' ''invalid slack delete response'' ''unknown slack delete failure'')"

definition slack_capabilities :: channel_capabilities where
  "slack_capabilities =
     no_capabilities\<lparr>cap_threads := True, cap_groups := True, cap_attachments := True, cap_edit := True,
       cap_delete := True, cap_streaming := True\<rparr>"

definition slack_health :: "'w http_env \<Rightarrow> string \<Rightarrow> 'w \<Rightarrow> health_status \<times> 'w" where
  "slack_health hx bot_token w =
     (case hx_send hx (slack_call bot_token ''auth.test'' NoBody) w of (r, w1) \<Rightarrow> (health_by_status r, w1))"

definition slack_plugin :: "'w http_env \<Rightarrow> string \<Rightarrow> ('w, unit) effect \<Rightarrow> 'w channel_plugin" where
  "slack_plugin hx bot_token start =
     streams_by_edits slack_id (slack_send hx bot_token) (slack_edit hx bot_token)
       ((default_plugin slack_id slack_capabilities ''Slack'' start (\<lambda>w. (Inr (), w))
          (slack_health hx bot_token) (slack_send hx bot_token))
        \<lparr>ch_delete_message := slack_delete hx bot_token\<rparr>)"

section \<open>Lemmas\<close>

lemma thread_target_read_back:
  assumes "CHR '':'' \<notin> set cid"
  shows "parse_thread_target (Some (encode_thread_target cid ts)) to = (cid, ts)"
proof -
  have m: "thread_marker \<noteq> [] \<and> hd thread_marker = CHR '':''" by (simp add: thread_marker_def)
  show ?thesis
    using split_at_marker_free [OF m assms] split_at_marker_none [OF m assms]
    by (cases ts) (simp_all add: parse_thread_target_def encode_thread_target_def)
qed

text \<open>A message is delivered only after the envelope it came in, if it had one, was acknowledged.\<close>

lemma delivery_follows_ack:
  assumes "socket_step fl now accepts me (SocketFrame f af) = (acts, r)" "Delivered m \<in> set acts"
    "parse_socket_frame fl f = Inr payload" "as_str (json_at payload ''envelope_id'') = Some i"
  shows "acts = [Acked i, Delivered m] \<and> r = None"
  using assms by (auto simp: socket_step_def Let_def split: option.splits if_splits)

text \<open>
  A message that nobody receives any more, and an event that is not understood, are acknowledged all the
  same: Slack does not send them again.
\<close>

lemma unreceived_message_acked:
  assumes "parse_socket_frame fl f = Inr payload" "as_str (json_at payload ''envelope_id'') = Some i"
    "\<And>m. \<not> accepts m"
  shows "fst (socket_step fl now accepts me (SocketFrame f None)) = [Acked i]"
  using assms by (auto simp: socket_step_def Let_def split: option.splits)

lemma socket_loop_all_accepted:
  "socket_loop fl now accepts me evs = (acts, r) \<Longrightarrow> Delivered m \<in> set acts \<Longrightarrow> accepts m"
proof (induction evs arbitrary: acts r)
  case Nil
  then show ?case by auto
next
  case (Cons ev evs)
  have "Delivered m \<in> set (fst (socket_step fl now accepts me ev)) \<Longrightarrow> accepts m"
    by (auto simp: socket_step_def Let_def split: socket_event.splits sum.splits option.splits if_splits)
  then show ?case using Cons by (auto split: prod.splits option.splits)
qed

text \<open>Every event with a subtype is dropped, that of a message with files (\<open>file_share\<close>) too.\<close>

lemma shared_file_dropped:
  "as_str (json_at event ''subtype'') = Some s \<Longrightarrow> parse_event_message now event me = None"
  by (simp add: parse_event_message_def is_string_def)

text \<open>An upload that fails after another has succeeded leaves out its file and those after it.\<close>

lemma upload_all_prefix:
  assumes "upload_all hx bot_token as files w = (Inr (Inr out), w1)"
  shows "\<exists>new. out = files @ new \<and> length new \<le> length as"
  using assms
proof (induction as arbitrary: files w)
  case Nil
  then show ?case by simp
next
  case (Cons a as)
  show ?case
  proof (cases "attachment_bytes slack_id a")
    case Inl
    then show ?thesis using Cons.prems by simp
  next
    case b: (Inr data)
    obtain r w2 where u: "upload_single_file hx bot_token (attachment_filename a) data w = (r, w2)" by fastforce
    show ?thesis
    proof (cases r)
      case Inl
      then show ?thesis using Cons.prems b u by (auto split: if_splits)
    next
      case (Inr entry)
      then have "upload_all hx bot_token as (files @ [entry]) w2 = (Inr (Inr out), w1)"
        using Cons.prems b u by simp
      then show ?thesis using Cons.IH by fastforce
    qed
  qed
qed

lemma failed_upload_reported_sent:
  assumes "attachment_bytes slack_id a = Inr d1" "attachment_bytes slack_id b = Inr d2"
    "upload_single_file hx bot_token (attachment_filename a) d1 w = (Inr entry, w1)"
    "upload_single_file hx bot_token (attachment_filename b) d2 w1 = (Inl reason, w2)"
  shows "upload_all hx bot_token (a # b # as) [] w = (Inr (Inr [entry]), w2)"
  using assms by simp

text \<open>An answer that lacks a permission, or an authentication that is refused, ends the adapter.\<close>

lemma refused_authentication_is_final:
  assumes "hx_send hx (slack_call bot_token ''auth.test'' NoBody) w = (Inr a, w1)" "ha_json a = Inr body"
    "\<not> slack_ok body" "as_str (json_at body ''error'') = Some c" "c \<in> set slack_fatal_errors"
  shows "\<exists>e. fst (populate_bot_user_id hx bot_token w) = Inl e \<and> slack_start (Inl e # rs) = Some (Inl e)"
proof -
  let ?e = "channel_err slack_id c"
  have "error_text ?e = (''channel '' @ channel_str slack_id @ '' error: '') @ c @ []"
    by (simp add: channel_err_def)
  then have "contains (error_text ?e) c" unfolding contains_iff by blast
  then have "is_fatal_slack_error ?e" using assms(5) by (auto simp: is_fatal_slack_error_def list_ex_iff)
  moreover have "fst (populate_bot_user_id hx bot_token w) = Inl ?e"
    using assms by (simp add: populate_bot_user_id_def slack_request_def call_answer_def answer_json_def str_or_def)
  ultimately show ?thesis by auto
qed

end
