(* ===== verification/Signal.thy ===== *)
theory Signal
  imports Channel_Wire
begin

text \<open>
  The adapter of Signal (\<open>frankclaw-channels/src/signal.rs\<close>): the parser of the event stream, the typed
  payload of an event, the identities of accounts, and the requests that go out. Structs are read from JSON
  objects. The lemmas show that the parser does not depend on how the stream is cut, what it loses at the
  end, that an own message is never delivered, and when two identities are confused.
\<close>

section \<open>The channel\<close>

definition signal_id :: channel_id where
  "signal_id = ChannelId ''signal''"

record signal_channel =
  sg_base_url :: string
  sg_account :: "string option"

text \<open>
  UTF-8 (\<open>Some\<close>: the error of a chunk), JSON, the URL of the events with its account, base 64, a fresh
  identifier, and the error of a JSON value that is not of the expected type.
\<close>

record signal_lib =
  sl_utf8 :: "string \<Rightarrow> string option"
  sl_parse :: "string \<Rightarrow> json option"
  sl_events_url :: "string \<Rightarrow> string option \<Rightarrow> string + string"
  sl_base64 :: "u8 list \<Rightarrow> string"
  sl_uuid :: string
  sl_type_error :: "json \<Rightarrow> string"

definition normalize_base_url :: "string \<Rightarrow> string" where
  "normalize_base_url value =
     (let t = trim value;
          u = (if starts_with t ''http://'' \<or> starts_with t ''https://'' then t else ''http://'' @ t)
      in rev (dropWhile (\<lambda>c. c = CHR ''/'') (rev u)))"

definition signal_new :: "string \<Rightarrow> string option \<Rightarrow> signal_channel" where
  "signal_new base_url account = \<lparr>sg_base_url = normalize_base_url base_url, sg_account = non_blank_text account\<rparr>"

section \<open>The event stream\<close>

record signal_event =
  se_event :: "string option"
  se_data :: "string option"
  se_id :: "string option"

definition no_event :: signal_event where
  "no_event = \<lparr>se_event = None, se_data = None, se_id = None\<rparr>"

record signal_parser =
  sp_buffer :: string
  sp_current :: signal_event

definition parser_new :: signal_parser where
  "parser_new = \<lparr>sp_buffer = [], sp_current = no_event\<rparr>"

definition take_current :: "signal_event \<Rightarrow> signal_event option" where
  "take_current e = (if se_event e = None \<and> se_data e = None \<and> se_id e = None then None else Some e)"

definition event_field :: "string \<Rightarrow> string \<Rightarrow> signal_event \<Rightarrow> signal_event" where
  "event_field field v e =
     (if field = ''event'' then e\<lparr>se_event := Some v\<rparr>
      else if field = ''data'' then
        e\<lparr>se_data := Some (case se_data e of Some d \<Rightarrow> d @ [newline] @ v | None \<Rightarrow> v)\<rparr>
      else if field = ''id'' then e\<lparr>se_id := Some v\<rparr>
      else e)"

text \<open>A line without its end: the event it completes, if any, and the event under way.\<close>

definition event_line :: "string \<Rightarrow> signal_event \<Rightarrow> signal_event list \<times> signal_event" where
  "event_line raw e =
     (let line = strip_cr raw
      in if line = [] then (case take_current e of Some d \<Rightarrow> ([d], no_event) | None \<Rightarrow> ([], no_event))
         else if starts_with line [colon] then ([], e)
         else (case (case split_once colon line of Some (f, v) \<Rightarrow> (f, v) | None \<Rightarrow> (line, [])) of (f, v) \<Rightarrow>
           ([], event_field f (if starts_with v '' '' then drop 1 v else v) e)))"

fun event_lines :: "string list \<Rightarrow> signal_event \<Rightarrow> signal_event list \<times> signal_event" where
  "event_lines [] e = ([], e)"
| "event_lines (l # ls) e =
     (case event_line l e of (ds, e1) \<Rightarrow> (case event_lines ls e1 of (ds2, e2) \<Rightarrow> (ds @ ds2, e2)))"

text \<open>The complete lines of the buffer are taken, what follows the last line end stays.\<close>

definition signal_push :: "string \<Rightarrow> signal_parser \<Rightarrow> signal_event list \<times> signal_parser" where
  "signal_push chunk p =
     (let pieces = split_all newline (sp_buffer p @ chunk)
      in case event_lines (butlast pieces) (sp_current p) of
           (ds, e) \<Rightarrow> (ds, \<lparr>sp_buffer = last pieces, sp_current = e\<rparr>))"

definition signal_finish :: "signal_parser \<Rightarrow> signal_event option" where
  "signal_finish p =
     (let p1 = (if trim (sp_buffer p) = [] then p else snd (signal_push [newline, newline] p))
      in take_current (sp_current p1))"

section \<open>The payload\<close>

record signal_attachment =
  sa_content_type :: "string option"
  sa_filename :: "string option"
  sa_size :: "u64 option"

record signal_mention =
  sm_name :: "string option"
  sm_number :: "string option"
  sm_uuid :: "string option"

record signal_data_message =
  dm_timestamp :: "int option"
  dm_message :: "string option"
  dm_attachments :: "signal_attachment list option"
  dm_mentions :: "signal_mention list option"
  dm_group_id :: "string option option" \<comment> \<open>the group, and its identifier\<close>
  dm_quote :: "string option option" \<comment> \<open>the quote, and its text\<close>
  dm_reaction :: "json option"

record signal_envelope =
  ev_source_number :: "string option"
  ev_source_uuid :: "string option"
  ev_source_name :: "string option"
  ev_timestamp :: "int option"
  ev_data_message :: "signal_data_message option"
  ev_edit_message :: "signal_data_message option option"
  ev_sync_message :: "json option"

text \<open>An optional field: absent or null, or a value that must have its type (\<open>None\<close>: it has not).\<close>

definition opt_field :: "(json \<Rightarrow> 'a option) \<Rightarrow> string \<Rightarrow> json \<Rightarrow> 'a option option" where
  "opt_field dec k v =
     (case json_get v k of
        None \<Rightarrow> Some None
      | Some JNull \<Rightarrow> Some None
      | Some x \<Rightarrow> map_option Some (dec x))"

fun all_some :: "'a option list \<Rightarrow> 'a list option" where
  "all_some [] = Some []"
| "all_some (None # xs) = None"
| "all_some (Some x # xs) = map_option ((#) x) (all_some xs)"

definition list_of :: "(json \<Rightarrow> 'a option) \<Rightarrow> json \<Rightarrow> 'a list option" where
  "list_of dec v = Option.bind (as_array v) (\<lambda>xs. all_some (map dec xs))"

fun is_object :: "json \<Rightarrow> bool" where
  "is_object (JObject _) \<longleftrightarrow> True"
| "is_object _ \<longleftrightarrow> False"

definition decode_attachment :: "json \<Rightarrow> signal_attachment option" where
  "decode_attachment v =
     (if \<not> is_object v then None
      else case (opt_field as_str ''contentType'' v, opt_field as_str ''filename'' v, opt_field as_u64 ''size'' v) of
        (Some c, Some f, Some s) \<Rightarrow> Some \<lparr>sa_content_type = c, sa_filename = f, sa_size = s\<rparr>
      | _ \<Rightarrow> None)"

definition decode_mention :: "json \<Rightarrow> signal_mention option" where
  "decode_mention v =
     (if \<not> is_object v then None
      else case (opt_field as_str ''name'' v, opt_field as_str ''number'' v, opt_field as_str ''uuid'' v) of
        (Some n, Some m, Some u) \<Rightarrow> Some \<lparr>sm_name = n, sm_number = m, sm_uuid = u\<rparr>
      | _ \<Rightarrow> None)"

text \<open>A struct with a single optional text.\<close>

definition decode_text :: "string \<Rightarrow> json \<Rightarrow> string option option" where
  "decode_text k v = (if is_object v then opt_field as_str k v else None)"

definition decode_data_message :: "json \<Rightarrow> signal_data_message option" where
  "decode_data_message v =
     (if \<not> is_object v then None
      else case (opt_field json_i64 ''timestamp'' v, opt_field as_str ''message'' v,
          opt_field (list_of decode_attachment) ''attachments'' v, opt_field (list_of decode_mention) ''mentions'' v,
          opt_field (decode_text ''groupId'') ''groupInfo'' v, opt_field (decode_text ''text'') ''quote'' v,
          opt_field Some ''reaction'' v) of
        (Some ts, Some m, Some as, Some ms, Some g, Some q, Some r) \<Rightarrow>
          Some \<lparr>dm_timestamp = ts, dm_message = m, dm_attachments = as, dm_mentions = ms, dm_group_id = g,
                dm_quote = q, dm_reaction = r\<rparr>
      | _ \<Rightarrow> None)"

definition decode_edit :: "json \<Rightarrow> signal_data_message option option" where
  "decode_edit v = (if is_object v then opt_field decode_data_message ''dataMessage'' v else None)"

definition decode_envelope :: "json \<Rightarrow> signal_envelope option" where
  "decode_envelope v =
     (if \<not> is_object v then None
      else case (opt_field as_str ''sourceNumber'' v, opt_field as_str ''sourceUuid'' v,
          opt_field as_str ''sourceName'' v, opt_field json_i64 ''timestamp'' v,
          opt_field decode_data_message ''dataMessage'' v, opt_field decode_edit ''editMessage'' v,
          opt_field Some ''syncMessage'' v) of
        (Some n, Some u, Some nm, Some ts, Some d, Some e, Some s) \<Rightarrow>
          Some \<lparr>ev_source_number = n, ev_source_uuid = u, ev_source_name = nm, ev_timestamp = ts,
                ev_data_message = d, ev_edit_message = e, ev_sync_message = s\<rparr>
      | _ \<Rightarrow> None)"

definition decode_payload :: "json \<Rightarrow> signal_envelope option" where
  "decode_payload v =
     (if is_object v then Option.bind (opt_field decode_envelope ''envelope'' v) id else None)"

section \<open>Identities\<close>

definition normalize_e164 :: "string \<Rightarrow> string" where
  "normalize_e164 value =
     (let digits = filter is_digit value in if digits = [] then [] else CHR ''+'' # digits)"

function strip_all_prefix :: "string \<Rightarrow> string \<Rightarrow> string" where
  "strip_all_prefix p s = (if p \<noteq> [] \<and> starts_with s p then strip_all_prefix p (drop (length p) s) else s)"
  by pat_completeness auto
termination
  by (relation "measure (length \<circ> snd)") (auto simp: starts_with_iff)

declare strip_all_prefix.simps [simp del]

definition normalize_signal_identity :: "string \<Rightarrow> string" where
  "normalize_signal_identity value =
     (let s = trim (strip_all_prefix ''signal:'' (trim value))
      in if starts_with s ''+'' \<or> (s \<noteq> [] \<and> is_digit (hd s)) then normalize_e164 s else to_lower s)"

text \<open>Whether an identity is present and is that of the account.\<close>

definition same_identity :: "string option \<Rightarrow> string \<Rightarrow> bool" where
  "same_identity v account =
     (case v of Some s \<Rightarrow> (let n = normalize_signal_identity s in n \<noteq> [] \<and> n = account) | None \<Rightarrow> False)"

definition is_self_message :: "string option \<Rightarrow> string option \<Rightarrow> string option \<Rightarrow> bool" where
  "is_self_message number uuid account =
     (case account of
        None \<Rightarrow> False
      | Some a \<Rightarrow>
          (let n = normalize_signal_identity a
           in n \<noteq> [] \<and> (same_identity number n \<or> same_identity uuid n)))"

definition detect_group_mention :: "signal_mention list option \<Rightarrow> string option \<Rightarrow> bool" where
  "detect_group_mention mentions account =
     (case mentions of
        None \<Rightarrow> False
      | Some ms \<Rightarrow>
          if ms = [] then False
          else (case map_option normalize_signal_identity account of
                  None \<Rightarrow> True
                | Some a \<Rightarrow>
                    list_ex (\<lambda>m. same_identity (sm_number m) a \<or> same_identity (sm_uuid m) a \<or>
                      non_blank_text (sm_name m) = Some a) ms))"

text \<open>The object replacement character, in UTF-8.\<close>

definition orc :: string where
  "orc = [CHR 0xEF, CHR 0xBF, CHR 0xBC]"

definition mention_text :: "signal_mention \<Rightarrow> string" where
  "mention_text m =
     CHR ''@'' # (case sm_name m of Some n \<Rightarrow> n
       | None \<Rightarrow> (case sm_number m of Some n \<Rightarrow> n | None \<Rightarrow> ''someone''))"

function put_mentions :: "string \<Rightarrow> signal_mention list \<Rightarrow> string" where
  "put_mentions s ms =
     (if starts_with s orc
      then (case ms of
              m # r \<Rightarrow> mention_text m @ put_mentions (drop 3 s) r
            | [] \<Rightarrow> orc @ put_mentions (drop 3 s) [])
      else (case s of [] \<Rightarrow> [] | c # r \<Rightarrow> c # put_mentions r ms))"
  by pat_completeness auto
termination
  by (relation "measure (length \<circ> fst)") (auto simp: starts_with_iff orc_def)

declare put_mentions.simps [simp del]

definition replace_mention_orc :: "string \<Rightarrow> signal_mention list option \<Rightarrow> string" where
  "replace_mention_orc text mentions =
     (let ms = (case mentions of Some xs \<Rightarrow> xs | None \<Rightarrow> [])
      in if ms = [] \<or> \<not> contains text orc then text else put_mentions text ms)"

section \<open>Messages that come in\<close>

definition signal_attachments :: "signal_attachment list option \<Rightarrow> inbound_attachment list" where
  "signal_attachments as =
     map (\<lambda>a. \<lparr>ia_media_id = None,
           ia_mime_type = infer_inbound_mime_type (sa_content_type a) (sa_filename a) None,
           ia_filename = sa_filename a, ia_size_bytes = sa_size a, ia_url = None\<rparr>)
       (case as of Some xs \<Rightarrow> xs | None \<Rightarrow> [])"

definition from_timestamp_millis :: "int \<Rightarrow> datetime option" where
  "from_timestamp_millis n = (case from_timestamp (n div 1000) of Some _ \<Rightarrow> Some (n * 1000000) | None \<Rightarrow> None)"

definition or_opt :: "'a option \<Rightarrow> 'a option \<Rightarrow> 'a option" where
  "or_opt a b = (case a of Some x \<Rightarrow> Some x | None \<Rightarrow> b)"

definition only_reaction :: "signal_data_message \<Rightarrow> bool" where
  "only_reaction d \<longleftrightarrow>
     dm_reaction d \<noteq> None \<and> non_blank_text (dm_message d) = None \<and>
     (case dm_attachments d of Some as \<Rightarrow> as = [] | None \<Rightarrow> True)"

definition signal_message ::
  "datetime \<Rightarrow> string option \<Rightarrow> signal_envelope \<Rightarrow> signal_data_message \<Rightarrow> inbound_message option" where
  "signal_message now account ev d =
     (case or_opt (ev_source_number ev) (ev_source_uuid ev) of
        None \<Rightarrow> None
      | Some sender \<Rightarrow>
          (let gid = Option.bind (dm_group_id d) id;
               attachments = signal_attachments (dm_attachments d)
           in case text_quote_or_attachment_placeholder
                (map_option (\<lambda>t. replace_mention_orc t (dm_mentions d)) (dm_message d))
                (Option.bind (dm_quote d) id) attachments of
                None \<Rightarrow> None
              | Some text \<Rightarrow>
                  Some
                    \<lparr>im_channel = signal_id, im_account_id = ''default'', im_sender_id = sender,
                     im_sender_name = ev_source_name ev,
                     im_thread_id = map_option (\<lambda>g. ''group:'' @ g) gid, im_is_group = (gid \<noteq> None),
                     im_is_mention = detect_group_mention (dm_mentions d) account,
                     im_text = Some text, im_attachments = attachments,
                     im_platform_message_id = map_option show_int (ev_timestamp ev),
                     im_timestamp = (case Option.bind (or_opt (ev_timestamp ev) (dm_timestamp d)) from_timestamp_millis of
                       Some t \<Rightarrow> t | None \<Rightarrow> now)\<rparr>))"

definition envelope_message :: "datetime \<Rightarrow> string option \<Rightarrow> signal_envelope \<Rightarrow> inbound_message option" where
  "envelope_message now account ev =
     (if ev_sync_message ev \<noteq> None then None
      else if is_self_message (ev_source_number ev) (ev_source_uuid ev) account then None
      else (case or_opt (ev_data_message ev) (Option.bind (ev_edit_message ev) id) of
              None \<Rightarrow> None
            | Some d \<Rightarrow> if only_reaction d then None else signal_message now account ev d))"

definition parse_receive_event ::
  "signal_lib \<Rightarrow> datetime \<Rightarrow> signal_event \<Rightarrow> string option \<Rightarrow> inbound_message option" where
  "parse_receive_event sl now e account =
     (case Option.bind (Option.bind (se_data e) (sl_parse sl)) decode_payload of
        Some ev \<Rightarrow> envelope_message now account ev
      | None \<Rightarrow> None)"

section \<open>The session\<close>

text \<open>The events of a chunk; \<open>False\<close>: nobody receives any more.\<close>

fun deliver_events ::
  "(signal_event \<Rightarrow> inbound_message option) \<Rightarrow> (inbound_message \<Rightarrow> bool) \<Rightarrow> signal_event list \<Rightarrow> inbound_message list
    \<Rightarrow> bool \<times> inbound_message list" where
  "deliver_events parse accepts [] out = (True, out)"
| "deliver_events parse accepts (e # es) out =
     (case parse e of
        None \<Rightarrow> deliver_events parse accepts es out
      | Some m \<Rightarrow> if accepts m then deliver_events parse accepts es (out @ [m]) else (False, out))"

definition signal_error :: "string \<Rightarrow> frank_error + 'a" where
  "signal_error msg = Inl (channel_err signal_id msg)"

fun read_stream ::
  "signal_lib \<Rightarrow> (signal_event \<Rightarrow> inbound_message option) \<Rightarrow> (inbound_message \<Rightarrow> bool) \<Rightarrow> (string + string) list
    \<Rightarrow> signal_parser \<Rightarrow> inbound_message list \<Rightarrow> (frank_error + unit) \<times> inbound_message list" where
  "read_stream sl parse accepts [] p out =
     (case deliver_events parse accepts (case signal_finish p of Some e \<Rightarrow> [e] | None \<Rightarrow> []) out of
        (False, out1) \<Rightarrow> (Inr (), out1)
      | (True, out1) \<Rightarrow> (signal_error ''signal event stream closed'', out1))"
| "read_stream sl parse accepts (Inl e # cs) p out =
     (signal_error (''signal event stream read failed: '' @ e), out)"
| "read_stream sl parse accepts (Inr chunk # cs) p out =
     (case sl_utf8 sl chunk of
        Some e \<Rightarrow> (signal_error (''signal event stream sent invalid UTF-8: '' @ e), out)
      | None \<Rightarrow>
          (case signal_push chunk p of (es, p1) \<Rightarrow>
             (case deliver_events parse accepts es out of
                (False, out1) \<Rightarrow> (Inr (), out1)
              | (True, out1) \<Rightarrow> read_stream sl parse accepts cs p1 out1)))"

definition signal_get :: "string \<Rightarrow> (string \<times> string) list \<Rightarrow> http_call" where
  "signal_get u headers = \<lparr>hc_method = ''GET'', hc_url = u, hc_headers = headers, hc_body = NoBody\<rparr>"

text \<open>A session; \<open>chunks\<close> is the body of an answer.\<close>

definition run_event_stream ::
  "'w http_env \<Rightarrow> signal_lib \<Rightarrow> (http_answer \<Rightarrow> (string + string) list) \<Rightarrow> (inbound_message \<Rightarrow> bool) \<Rightarrow> signal_channel
    \<Rightarrow> 'w \<Rightarrow> ((frank_error + unit) \<times> inbound_message list) \<times> 'w" where
  "run_event_stream hx sl chunks accepts ch w =
     (case sl_events_url sl (sg_base_url ch @ ''/api/v1/events'') (sg_account ch) of
        Inl e \<Rightarrow> ((signal_error (''invalid signal events url: '' @ e), []), w)
      | Inr u \<Rightarrow>
          (case call_answer hx signal_id ''signal event stream connect failed''
              (signal_get u [(''accept'', ''text/event-stream'')]) w of
             (Inl e, w1) \<Rightarrow> ((Inl e, []), w1)
           | (Inr a, w1) \<Rightarrow>
               (if answer_success a
                then read_stream sl (\<lambda>e. parse_receive_event sl (hx_now hx w1) e (sg_account ch)) accepts
                  (chunks a) parser_new []
                else (signal_error (''signal event stream returned HTTP '' @ answer_status a), []), w1)))"

section \<open>Messages that go out\<close>

datatype signal_target = Recipient string | Group string | Username string

definition resolve_signal_target :: "string option \<Rightarrow> string \<Rightarrow> signal_target" where
  "resolve_signal_target thread to =
     (let raw0 = trim (case thread of Some t \<Rightarrow> t | None \<Rightarrow> to);
          raw = (case strip_prefix_opt ''signal:'' raw0 of Some r \<Rightarrow> r | None \<Rightarrow> raw0)
      in case strip_prefix_opt ''group:'' raw of
           Some g \<Rightarrow> Group (trim g)
         | None \<Rightarrow>
             (case strip_prefix_opt ''username:'' raw of
                Some u \<Rightarrow> Username (trim u)
              | None \<Rightarrow>
                  (case strip_prefix_opt ''u:'' raw of Some u \<Rightarrow> Username (trim u) | None \<Rightarrow> Recipient raw)))"

primrec target_param :: "signal_target \<Rightarrow> string \<times> json" where
  "target_param (Recipient r) = (''recipient'', JArray [JString r])"
| "target_param (Group g) = (''groupId'', JString g)"
| "target_param (Username u) = (''username'', JArray [JString u])"

definition signal_send_request :: "signal_lib \<Rightarrow> outbound_message \<Rightarrow> string option \<Rightarrow> json" where
  "signal_send_request sl msg account =
     JObject
       [(''jsonrpc'', JString ''2.0''), (''method'', JString ''send''),
        (''params'', JObject
          ([(''message'', JString (normalize_outbound_text (om_text msg) Plain))] @
           (case account of Some a \<Rightarrow> [(''account'', JString a)] | None \<Rightarrow> []) @
           [target_param (resolve_signal_target (om_thread_id msg) (om_to msg))])),
        (''id'', JString (sl_uuid sl))]"

definition attachment_recipient :: "signal_target \<Rightarrow> frank_error + string" where
  "attachment_recipient t =
     (case t of
        Recipient r \<Rightarrow> Inr r
      | Group g \<Rightarrow> Inr (''group.'' @ g)
      | Username u \<Rightarrow>
          Inl (channel_err signal_id
            (''signal attachment sends do not support username target '' @ [CHR 0x27] @ u @ [CHR 0x27])))"

definition signal_attachment_request :: "signal_lib \<Rightarrow> outbound_message \<Rightarrow> string option \<Rightarrow> frank_error + json" where
  "signal_attachment_request sl msg account =
     (case account of
        None \<Rightarrow> Inl (channel_err signal_id ''signal attachment sends require a configured account number'')
      | Some number \<Rightarrow>
          (case collect_results (map (\<lambda>a. map_sum id (sl_base64 sl) (attachment_bytes signal_id a)) (om_attachments msg)) of
             Inl e \<Rightarrow> Inl e
           | Inr as \<Rightarrow>
               (case attachment_recipient (resolve_signal_target (om_thread_id msg) (om_to msg)) of
                  Inl e \<Rightarrow> Inl e
                | Inr r \<Rightarrow>
                    Inr (JObject
                      [(''message'', JString (normalize_outbound_text (om_text msg) Plain)),
                       (''number'', JString number), (''base64_attachments'', JArray (map JString as)),
                       (''recipients'', JArray [JString r])]))))"

definition signal_endpoint :: "outbound_message \<Rightarrow> string" where
  "signal_endpoint msg = (if om_attachments msg = [] then ''/api/v1/rpc'' else ''/v2/send'')"

definition signal_request :: "signal_lib \<Rightarrow> outbound_message \<Rightarrow> string option \<Rightarrow> frank_error + json" where
  "signal_request sl msg account =
     (if om_attachments msg = [] then Inr (signal_send_request sl msg account)
      else signal_attachment_request sl msg account)"

text \<open>The typed answer of the RPC: the time of a sent message, and the code and text of an error.\<close>

record signal_rpc =
  rpc_result :: "int option option"
  rpc_error :: "(int option \<times> string option) option"

definition decode_rpc_error :: "json \<Rightarrow> (int option \<times> string option) option" where
  "decode_rpc_error v =
     (if \<not> is_object v then None
      else case (opt_field json_i64 ''code'' v, opt_field as_str ''message'' v) of
        (Some c, Some m) \<Rightarrow> Some (c, m) | _ \<Rightarrow> None)"

definition decode_rpc :: "json \<Rightarrow> signal_rpc option" where
  "decode_rpc v =
     (if \<not> is_object v then None
      else case (opt_field (\<lambda>r. if is_object r then opt_field json_i64 ''timestamp'' r else None) ''result'' v,
                 opt_field decode_rpc_error ''error'' v) of
        (Some r, Some e) \<Rightarrow> Some \<lparr>rpc_result = r, rpc_error = e\<rparr> | _ \<Rightarrow> None)"

definition rpc_outcome :: "http_answer \<Rightarrow> signal_rpc \<Rightarrow> send_result" where
  "rpc_outcome a r =
     (case rpc_error r of
        Some (code, message) \<Rightarrow>
          Failed (case message of Some m \<Rightarrow> m
            | None \<Rightarrow> ''Signal RPC error '' @ show_int (case code of Some c \<Rightarrow> c | None \<Rightarrow> 0))
      | None \<Rightarrow>
          if \<not> answer_success a then Failed (''HTTP '' @ answer_status a)
          else Sent (case Option.bind (rpc_result r) id of Some t \<Rightarrow> show_int t | None \<Rightarrow> ''unknown''))"

definition signal_outcome :: "signal_lib \<Rightarrow> http_answer \<Rightarrow> frank_error + send_result" where
  "signal_outcome sl a =
     (if ha_status a = 429 then Inr (RateLimitedFor (retry_after a))
      else if ha_status a = 201 then Inr (Sent ''unknown'')
      else (case answer_json signal_id ''invalid signal send response'' a of
              Inl e \<Rightarrow> Inl e
            | Inr v \<Rightarrow>
                (case decode_rpc v of
                   None \<Rightarrow> signal_error (''invalid signal send response: '' @ sl_type_error sl v)
                 | Some r \<Rightarrow> Inr (rpc_outcome a r))))"

definition signal_send :: "'w http_env \<Rightarrow> signal_lib \<Rightarrow> signal_channel \<Rightarrow> outbound_message \<Rightarrow> ('w, send_result) effect" where
  "signal_send hx sl ch msg w =
     (case signal_request sl msg (sg_account ch) of
        Inl e \<Rightarrow> (Inl e, w)
      | Inr body \<Rightarrow>
          (case call_answer hx signal_id ''signal send failed''
              \<lparr>hc_method = ''POST'', hc_url = sg_base_url ch @ signal_endpoint msg, hc_headers = [],
               hc_body = JsonBody body\<rparr> w of
             (Inl e, w1) \<Rightarrow> (Inl e, w1)
           | (Inr a, w1) \<Rightarrow> (signal_outcome sl a, w1)))"

definition signal_health :: "'w http_env \<Rightarrow> signal_channel \<Rightarrow> 'w \<Rightarrow> health_status \<times> 'w" where
  "signal_health hx ch w =
     (case hx_send hx (signal_get (sg_base_url ch @ ''/api/v1/check'') []) w of (r, w1) \<Rightarrow> (health_by_status r, w1))"

definition signal_plugin ::
  "'w http_env \<Rightarrow> signal_lib \<Rightarrow> signal_channel \<Rightarrow> ('w, unit) effect \<Rightarrow> 'w channel_plugin" where
  "signal_plugin hx sl ch start =
     default_plugin signal_id
       (no_capabilities\<lparr>cap_threads := True, cap_groups := True, cap_attachments := True\<rparr>) ''Signal'' start
       (\<lambda>w. (Inr (), w)) (signal_health hx ch) (signal_send hx sl ch)"

section \<open>Lemmas on the stream\<close>

lemma split_all_join:
  "split_all c (a @ b) = butlast (split_all c a) @ split_all c (last (split_all c a) @ b)"
proof (induction a)
  case Nil
  then show ?case by simp
next
  case (Cons d a)
  show ?case
  proof (cases "d = c")
    case True
    then show ?thesis using Cons by simp
  next
    case False
    obtain p ps where s: "split_all c a = p # ps" using split_all_ne by (cases "split_all c a") auto
    show ?thesis
    proof (cases ps)
      case Nil
      then show ?thesis using False Cons s by simp
    next
      case (Cons q qs)
      then show ?thesis using False Cons.IH s \<open>split_all c (a @ b) = _\<close> by simp
    qed
  qed
qed

lemma event_lines_append:
  "event_lines (as @ bs) e =
   (case event_lines as e of (d1, e1) \<Rightarrow> (case event_lines bs e1 of (d2, e2) \<Rightarrow> (d1 @ d2, e2)))"
  by (induction as arbitrary: e) (auto split: prod.splits)

text \<open>Two chunks give the events, and leave the parser, that one chunk of both texts does.\<close>

lemma signal_push_append:
  "signal_push (a @ b) p =
   (case signal_push a p of (d1, p1) \<Rightarrow> (case signal_push b p1 of (d2, p2) \<Rightarrow> (d1 @ d2, p2)))"
proof -
  let ?a = "split_all newline (sp_buffer p @ a)"
  have s: "split_all newline (sp_buffer p @ a @ b) = butlast ?a @ split_all newline (last ?a @ b)"
    using split_all_join [of newline "sp_buffer p @ a" b] by simp
  have b: "butlast (xs @ split_all newline t) = xs @ butlast (split_all newline t)"
    "last (xs @ split_all newline t) = last (split_all newline t)" for xs t
    by (simp_all add: butlast_append)
  show ?thesis
    by (simp add: signal_push_def s b event_lines_append Let_def split: prod.splits)
qed

fun push_all :: "string list \<Rightarrow> signal_parser \<Rightarrow> signal_event list \<times> signal_parser" where
  "push_all [] p = ([], p)"
| "push_all (c # cs) p =
     (case signal_push c p of (d1, p1) \<Rightarrow> (case push_all cs p1 of (d2, p2) \<Rightarrow> (d1 @ d2, p2)))"

lemma signal_push_Nil:
  assumes "newline \<notin> set (sp_buffer p)"
  shows "signal_push [] p = ([], p)"
  using assms by (simp add: signal_push_def split_all_notin)

lemma signal_push_buffer: "newline \<notin> set (sp_buffer (snd (signal_push c p)))"
  using split_all_no_sep [of "last (split_all newline (sp_buffer p @ c))" newline "sp_buffer p @ c"]
  by (auto simp: signal_push_def Let_def split: prod.splits)

text \<open>However the stream is cut into chunks, its events are the same.\<close>

lemma signal_chunks_joined:
  "newline \<notin> set (sp_buffer p) \<Longrightarrow> push_all cs p = signal_push (concat cs) p"
proof (induction cs arbitrary: p)
  case Nil
  then show ?case by (simp add: signal_push_Nil)
next
  case (Cons c cs)
  obtain d1 p1 where c: "signal_push c p = (d1, p1)" by fastforce
  then have "newline \<notin> set (sp_buffer p1)" using signal_push_buffer [of c p] by simp
  then show ?case using Cons.IH [of p1] c by (simp add: signal_push_append)
qed

text \<open>An event at the end of the stream that lacks its last line end is read, and then thrown away.\<close>

lemma unterminated_event_lost:
  "signal_push ''data: x'' parser_new = ([], \<lparr>sp_buffer = ''data: x'', sp_current = no_event\<rparr>) \<and>
   signal_finish \<lparr>sp_buffer = ''data: x'', sp_current = no_event\<rparr> = None"
  by code_simp

text \<open>With the line end, and without the blank line after it, the event is kept.\<close>

lemma terminated_event_kept:
  "signal_finish (snd (signal_push (''data: x'' @ [newline]) parser_new)) =
   Some \<lparr>se_event = None, se_data = Some ''x'', se_id = None\<rparr>"
  by code_simp

text \<open>A chunk that is cut inside a character ends the session.\<close>

lemma cut_character_ends_session:
  "sl_utf8 sl chunk = Some e \<Longrightarrow>
   read_stream sl parse accepts (Inr chunk # cs) p out =
     (signal_error (''signal event stream sent invalid UTF-8: '' @ e), out)"
  by simp

section \<open>Lemmas on identities\<close>

text \<open>A message of the account itself is not delivered.\<close>

lemma own_message_not_delivered:
  assumes "parse_receive_event sl now e account = Some m"
  shows "\<exists>ev. decode_payload (the (sl_parse sl (the (se_data e)))) = Some ev \<and>
    \<not> is_self_message (ev_source_number ev) (ev_source_uuid ev) account \<and>
    or_opt (ev_source_number ev) (ev_source_uuid ev) = Some (im_sender_id m)"
  using assms
  by (auto simp: parse_receive_event_def envelope_message_def signal_message_def Let_def bind_eq_Some_conv
      split: option.splits if_splits)

text \<open>Identifiers that begin with a digit are compared by their digits only.\<close>

lemma digit_uuids_confused:
  "normalize_signal_identity ''1a2b'' = normalize_signal_identity ''1c2d''"
  by code_simp

lemma foreign_message_dropped:
  "is_self_message None (Some ''1a2b'') (Some ''1c2d'')"
  by code_simp

text \<open>Without an account every mention in a group counts as one of the bot.\<close>

lemma any_mention_without_account: "detect_group_mention (Some (m # ms)) None"
  by (simp add: detect_group_mention_def)

text \<open>A reply to a message of a group goes to that group.\<close>

lemma group_reply_returns:
  assumes "signal_message now account ev d = Some m" "Option.bind (dm_group_id d) id = Some g"
    "g \<noteq> []" "\<not> is_ws (last g)" "\<not> is_ws (hd g)"
  shows "resolve_signal_target (im_thread_id m) to = Group g"
proof -
  have t: "im_thread_id m = Some (''group:'' @ g)"
    using assms(1,2) by (auto simp: signal_message_def Let_def split: option.splits)
  have g: "trim g = g" using assms(3-5) by (simp add: trim_id)
  have w: "trim (''group:'' @ g) = ''group:'' @ g"
    using assms(3,4) by (intro trim_id disjI2) (simp add: is_ws_def Let_def)
  show ?thesis using g w by (simp add: t resolve_signal_target_def strip_prefix_opt_def starts_with_def Let_def)
qed

end
