(* ===== verification/Whatsapp.thy ===== *)
theory Whatsapp
  imports Gateway_Server Channel_Wire
begin

text \<open>
  The adapter of WhatsApp (\<open>frankclaw-channels/src/whatsapp.rs\<close>): the signature of a webhook and the
  messages in it, the messages and media that go out; and the endpoint that the gateway's server calls,
  made of them. The lemmas show which signatures are accepted, what becomes of an unsigned webhook in the
  server, and what the adapter drops.
\<close>

section \<open>The channel\<close>

definition whatsapp_id :: channel_id where
  "whatsapp_id = ChannelId ''whatsapp''"

definition whatsapp_graph_base :: string where
  "whatsapp_graph_base = ''https://graph.facebook.com/v19.0''"

record whatsapp_channel =
  wc_access_token :: string
  wc_phone_number_id :: string
  wc_verify_token :: string
  wc_app_secret :: "string option"

definition whatsapp_new :: "string \<Rightarrow> string \<Rightarrow> string \<Rightarrow> string option \<Rightarrow> whatsapp_channel" where
  "whatsapp_new access_token phone_number_id verify_token app_secret =
     \<lparr>wc_access_token = access_token, wc_phone_number_id = trim phone_number_id,
      wc_verify_token = verify_token, wc_app_secret = app_secret\<rparr>"

definition verify_token_matches :: "whatsapp_channel \<Rightarrow> string \<Rightarrow> bool" where
  "verify_token_matches ch candidate = verify_token_eq (trim candidate) (wc_verify_token ch)"

text \<open>HMAC-SHA256 is a parameter; the hexadecimal digits are read as by the webhooks of the gateway.\<close>

definition whatsapp_verify_signature ::
  "(string \<Rightarrow> u8 list \<Rightarrow> u8 list) \<Rightarrow> whatsapp_channel \<Rightarrow> u8 list \<Rightarrow> string option \<Rightarrow> frank_error + unit" where
  "whatsapp_verify_signature hmac ch body header =
     (case wc_app_secret ch of
        None \<Rightarrow> Inr ()
      | Some secret \<Rightarrow>
          (case header of
             None \<Rightarrow> Inl AuthRequired
           | Some h \<Rightarrow>
               (case decode_hex (case strip_prefix ''sha256='' h of Some r \<Rightarrow> r | None \<Rightarrow> h) of
                  None \<Rightarrow> Inl AuthFailed
                | Some provided \<Rightarrow> if hmac secret body = provided then Inr () else Inl AuthFailed)))"

definition whatsapp_url :: "whatsapp_channel \<Rightarrow> string \<Rightarrow> string" where
  "whatsapp_url ch path = whatsapp_graph_base @ ''/'' @ wc_phone_number_id ch @ path"

definition whatsapp_call :: "whatsapp_channel \<Rightarrow> string \<Rightarrow> string \<Rightarrow> http_body \<Rightarrow> http_call" where
  "whatsapp_call ch verb path body =
     \<lparr>hc_method = verb, hc_url = whatsapp_url ch path,
      hc_headers = [(''authorization'', ''Bearer '' @ wc_access_token ch)], hc_body = body\<rparr>"

section \<open>Messages that come in\<close>

definition is_processable_message_type :: "string \<Rightarrow> bool" where
  "is_processable_message_type t \<longleftrightarrow>
     t \<in> set [''text'', ''image'', ''video'', ''audio'', ''document'', ''sticker'', ''interactive'', ''button'',
       ''contacts'', ''location'']"

definition whatsapp_media_keys :: "(string \<times> string) list" where
  "whatsapp_media_keys =
     [(''image'', ''image/jpeg''), (''audio'', ''audio/ogg''), (''video'', ''video/mp4''),
      (''document'', ''application/octet-stream''), (''sticker'', ''image/webp'')]"

definition whatsapp_attachments :: "json \<Rightarrow> inbound_attachment list" where
  "whatsapp_attachments message =
     map (\<lambda>(k, mime).
         \<lparr>ia_media_id = None,
          ia_mime_type = normalize_mime_type (str_or mime (json_path message [k, ''mime_type''])),
          ia_filename = as_str (json_path message [k, ''filename'']), ia_size_bytes = None, ia_url = None\<rparr>)
       (filter (\<lambda>(k, _). json_at message k \<noteq> JNull) whatsapp_media_keys)"

definition text_paths :: "string list list" where
  "text_paths =
     [[''text'', ''body''], [''image'', ''caption''], [''video'', ''caption''], [''document'', ''caption''],
      [''button'', ''text''], [''interactive'', ''button_reply'', ''title''],
      [''interactive'', ''list_reply'', ''title''], [''interactive'', ''list_reply'', ''description'']]"

text \<open>The first of the paths at which there is a text.\<close>

fun first_text :: "json \<Rightarrow> string list list \<Rightarrow> string option" where
  "first_text message [] = None"
| "first_text message (p # ps) =
     (case as_str (json_path message p) of Some s \<Rightarrow> Some s | None \<Rightarrow> first_text message ps)"

definition extract_message_text :: "json \<Rightarrow> string option" where
  "extract_message_text message = first_text message text_paths"

definition parse_unix_timestamp :: "string \<Rightarrow> datetime option" where
  "parse_unix_timestamp value = Option.bind (parse_i64 value) from_timestamp"

definition contact_names :: "json \<Rightarrow> (string \<times> string option) list" where
  "contact_names value =
     List.map_filter (\<lambda>c. map_option (\<lambda>i. (i, as_str (json_path c [''profile'', ''name'']))) (as_str (json_at c ''wa_id'')))
       (case as_array (json_at value ''contacts'') of Some cs \<Rightarrow> cs | None \<Rightarrow> [])"

text \<open>The map keeps the last entry of a contact.\<close>

definition contact_name :: "json \<Rightarrow> string \<Rightarrow> string option" where
  "contact_name value sender =
     (case map_of (rev (contact_names value)) sender of Some n \<Rightarrow> n | None \<Rightarrow> None)"

definition whatsapp_message :: "datetime \<Rightarrow> json \<Rightarrow> json \<Rightarrow> inbound_message option" where
  "whatsapp_message now value message =
     (case as_str (json_at message ''from'') of
        None \<Rightarrow> None
      | Some sender \<Rightarrow>
          if (case as_str (json_at message ''type'') of
                Some t \<Rightarrow> \<not> is_processable_message_type t | None \<Rightarrow> False) then None
          else (let attachments = whatsapp_attachments message
                in case text_or_attachment_placeholder (extract_message_text message) attachments of
                     None \<Rightarrow> None
                   | Some text \<Rightarrow>
                       Some
                         \<lparr>im_channel = whatsapp_id,
                          im_account_id = str_or ''default'' (json_path value [''metadata'', ''phone_number_id'']),
                          im_sender_id = sender, im_sender_name = contact_name value sender,
                          im_thread_id = None, im_is_group = False, im_is_mention = False,
                          im_text = Some text, im_attachments = attachments,
                          im_platform_message_id = as_str (json_at message ''id''),
                          im_timestamp = (case Option.bind (as_str (json_at message ''timestamp'')) parse_unix_timestamp of
                            Some t \<Rightarrow> t | None \<Rightarrow> now)\<rparr>))"

definition items_at :: "json \<Rightarrow> string \<Rightarrow> json list" where
  "items_at v k = (case Option.bind (json_get v k) as_array of Some xs \<Rightarrow> xs | None \<Rightarrow> [])"

definition change_messages :: "datetime \<Rightarrow> json \<Rightarrow> inbound_message list" where
  "change_messages now change =
     (let value = json_at change ''value''
      in List.map_filter (whatsapp_message now value) (items_at value ''messages''))"

definition parse_webhook_payload :: "datetime \<Rightarrow> json \<Rightarrow> inbound_message list" where
  "parse_webhook_payload now payload =
     concat (map (\<lambda>entry. concat (map (change_messages now) (items_at entry ''changes''))) (items_at payload ''entry''))"

section \<open>Messages that go out\<close>

definition reply_context :: "outbound_message \<Rightarrow> (string \<times> json) list" where
  "reply_context msg =
     (case om_reply_to msg of
        Some r \<Rightarrow> [(''context'', JObject [(''message_id'', JString r)])] | None \<Rightarrow> [])"

definition whatsapp_send_body :: "outbound_message \<Rightarrow> json" where
  "whatsapp_send_body msg =
     JObject
       ([(''messaging_product'', JString ''whatsapp''), (''recipient_type'', JString ''individual''),
         (''to'', JString (om_to msg)), (''type'', JString ''text''),
         (''text'', JObject
           [(''body'', JString (normalize_outbound_text (om_text msg) WhatsApp)), (''preview_url'', JBool False)])] @
        reply_context msg)"

primrec whatsapp_media_type :: "attachment_kind \<Rightarrow> string" where
  "whatsapp_media_type KindImage = ''image''"
| "whatsapp_media_type KindVideo = ''video''"
| "whatsapp_media_type KindAudio = ''audio''"
| "whatsapp_media_type KindDocument = ''document''"

definition media_object :: "outbound_attachment \<Rightarrow> string \<Rightarrow> string \<Rightarrow> json" where
  "media_object a uploaded_id text =
     (let kind = attachment_kind_of (oa_mime_type a)
      in JObject
        ([(''id'', JString uploaded_id)] @
         (if kind = KindDocument then [(''filename'', JString (attachment_filename a))] else []) @
         (if kind \<noteq> KindAudio \<and> text \<noteq> [] then [(''caption'', JString text)] else [])))"

definition whatsapp_media_body :: "outbound_message \<Rightarrow> outbound_attachment \<Rightarrow> string \<Rightarrow> json" where
  "whatsapp_media_body msg a uploaded_id =
     (let kind = whatsapp_media_type (attachment_kind_of (oa_mime_type a))
      in JObject
        ([(''messaging_product'', JString ''whatsapp''), (''recipient_type'', JString ''individual''),
          (''to'', JString (om_to msg)), (''type'', JString kind),
          (kind, media_object a uploaded_id (normalize_outbound_text (om_text msg) WhatsApp))] @
         reply_context msg))"

definition uploaded_id :: "http_answer \<Rightarrow> frank_error + string" where
  "uploaded_id a =
     (case answer_json whatsapp_id ''invalid whatsapp media upload response'' a of
        Inl e \<Rightarrow> Inl e
      | Inr body \<Rightarrow>
          if \<not> answer_success a
          then Inl (channel_err whatsapp_id
                 (str_or ''unknown whatsapp media upload failure'' (json_path body [''error'', ''message''])))
          else (case as_str (json_at body ''id'') of
                  Some i \<Rightarrow> Inr i
                | None \<Rightarrow> Inl (channel_err whatsapp_id ''whatsapp media upload response missing id'')))"

definition upload_media :: "'w http_env \<Rightarrow> whatsapp_channel \<Rightarrow> outbound_attachment \<Rightarrow> ('w, string) effect" where
  "upload_media hx ch a w =
     (case file_part hx whatsapp_id a of
        Inl e \<Rightarrow> (Inl e, w)
      | Inr part \<Rightarrow>
          (case call_answer hx whatsapp_id ''whatsapp media upload failed''
              (whatsapp_call ch ''POST'' ''/media''
                (FormBody [(''messaging_product'', FormText ''whatsapp''), (''file'', part)])) w of
             (Inl e, w1) \<Rightarrow> (Inl e, w1)
           | (Inr r, w1) \<Rightarrow> (uploaded_id r, w1)))"

definition classify_whatsapp_send_error :: "u64 \<Rightarrow> string \<Rightarrow> string" where
  "classify_whatsapp_send_error code message =
     (if code = 131030 then ''recipient phone number is not a WhatsApp user''
      else if code = 131031 then ''recipient cannot receive messages (blocked or opt-out)''
      else if code = 131047 then ''message failed to send (re-engagement required)''
      else if code = 131051 then ''unsupported message type for this recipient''
      else if code = 130429 then ''rate limit reached for this phone number''
      else message)"

definition whatsapp_outcome :: "http_answer \<Rightarrow> frank_error + send_result" where
  "whatsapp_outcome a =
     (if ha_status a = 429 then Inr (RateLimitedFor (retry_after a))
      else (case answer_json whatsapp_id ''invalid whatsapp send response'' a of
              Inl e \<Rightarrow> Inl e
            | Inr body \<Rightarrow>
                if answer_success a
                then Inr (Sent (case as_array (json_at body ''messages'') of
                       Some (m # _) \<Rightarrow> str_or [] (json_at m ''id'') | _ \<Rightarrow> []))
                else Inr (send_result.Failed (classify_whatsapp_send_error
                       (case as_u64 (json_path body [''error'', ''code'']) of Some c \<Rightarrow> c | None \<Rightarrow> 0)
                       (str_or ''unknown whatsapp send failure'' (json_path body [''error'', ''message'']))))))"

text \<open>The body of a message; one with media uploads them first.\<close>

definition whatsapp_body :: "'w http_env \<Rightarrow> whatsapp_channel \<Rightarrow> outbound_message \<Rightarrow> ('w, json) effect" where
  "whatsapp_body hx ch msg w =
     (if om_attachments msg = [] then (Inr (whatsapp_send_body msg), w)
      else (case require_single_attachment whatsapp_id (om_attachments msg) of
              Inl e \<Rightarrow> (Inl e, w)
            | Inr a \<Rightarrow>
                (case upload_media hx ch a w of
                   (Inl e, w1) \<Rightarrow> (Inl e, w1)
                 | (Inr i, w1) \<Rightarrow> (Inr (whatsapp_media_body msg a i), w1))))"

definition whatsapp_send :: "'w http_env \<Rightarrow> whatsapp_channel \<Rightarrow> outbound_message \<Rightarrow> ('w, send_result) effect" where
  "whatsapp_send hx ch msg w =
     (case whatsapp_body hx ch msg w of
        (Inl e, w1) \<Rightarrow> (Inl e, w1)
      | (Inr body, w1) \<Rightarrow>
          (case call_answer hx whatsapp_id ''whatsapp send failed''
              (whatsapp_call ch ''POST'' ''/messages'' (JsonBody body)) w1 of
             (Inl e, w2) \<Rightarrow> (Inl e, w2)
           | (Inr a, w2) \<Rightarrow> (whatsapp_outcome a, w2)))"

definition whatsapp_health :: "'w http_env \<Rightarrow> whatsapp_channel \<Rightarrow> 'w \<Rightarrow> health_status \<times> 'w" where
  "whatsapp_health hx ch w =
     (case hx_send hx (whatsapp_call ch ''GET'' [] NoBody) w of (r, w1) \<Rightarrow> (health_by_status r, w1))"

definition whatsapp_plugin :: "'w http_env \<Rightarrow> whatsapp_channel \<Rightarrow> 'w channel_plugin" where
  "whatsapp_plugin hx ch =
     default_plugin whatsapp_id (no_capabilities\<lparr>cap_groups := True, cap_attachments := True\<rparr>) ''WhatsApp''
       (\<lambda>w. (Inr (), w)) (\<lambda>w. (Inr (), w)) (whatsapp_health hx ch) (whatsapp_send hx ch)"

text \<open>What the server calls.\<close>

definition whatsapp_endpoint_of ::
  "(string \<Rightarrow> u8 list \<Rightarrow> u8 list) \<Rightarrow> datetime \<Rightarrow> whatsapp_channel \<Rightarrow> whatsapp_endpoint" where
  "whatsapp_endpoint_of hmac now ch =
     \<lparr>wa_verify_token = verify_token_matches ch, wa_verify_signature = whatsapp_verify_signature hmac ch,
      wa_parse_payload = parse_webhook_payload now\<rparr>"

section \<open>Signatures\<close>

lemma byte_bound: "unat (b :: u8) < 256"
  using unsigned_less [of b, where 'a = nat] by simp

lemma hex_not_ws: "c \<in> set (concat (map hex_byte bs)) \<Longrightarrow> \<not> is_ws c"
proof -
  have "unat b div 16 < 16" for b :: u8 using byte_bound [of b] by simp
  then show "c \<in> set (concat (map hex_byte bs)) \<Longrightarrow> \<not> is_ws c"
    by (auto simp: hex_byte_def hex_digit_not_ws)
qed

lemma trim_no_ws: "(\<And>c. c \<in> set s \<Longrightarrow> \<not> is_ws c) \<Longrightarrow> trim s = s"
proof -
  assume n: "\<And>c. c \<in> set s \<Longrightarrow> \<not> is_ws c"
  have d: "(\<And>c. c \<in> set t \<Longrightarrow> \<not> is_ws c) \<Longrightarrow> dropWhile is_ws t = t" for t by (cases t) auto
  have "dropWhile is_ws s = s" "dropWhile is_ws (rev s) = rev s" by (rule d; simp add: n)+
  then show ?thesis by (simp add: trim_def trim_start_def trim_end_def)
qed

lemma hex_read_back: "decode_hex (concat (map hex_byte bs)) = Some bs"
proof -
  have "length (concat (map hex_byte bs)) mod 2 = 0" by (induction bs) (auto simp: hex_byte_def)
  then show ?thesis
    using trim_no_ws [of "concat (map hex_byte bs)"] hex_not_ws by (simp add: decode_hex_def Let_def decode_pairs_hex)
qed

lemma whatsapp_signed_accepted:
  "whatsapp_verify_signature hmac ch body (Some (encode_signature hmac (the (wc_app_secret ch)) body)) = Inr ()"
proof -
  have "strip_prefix ''sha256='' (encode_signature hmac s body) = Some (concat (map hex_byte (hmac s body)))" for s
    by (simp add: strip_prefix_def encode_signature_def)
  then show ?thesis by (cases "wc_app_secret ch") (simp_all add: whatsapp_verify_signature_def hex_read_back)
qed

definition signed_by :: "(string \<Rightarrow> u8 list \<Rightarrow> u8 list) \<Rightarrow> string \<Rightarrow> u8 list \<Rightarrow> string option \<Rightarrow> bool" where
  "signed_by hmac secret body header \<longleftrightarrow>
     (case header of
        None \<Rightarrow> False
      | Some h \<Rightarrow>
          decode_hex (case strip_prefix ''sha256='' h of Some r \<Rightarrow> r | None \<Rightarrow> h) = Some (hmac secret body))"

lemma whatsapp_signature_iff:
  assumes "wc_app_secret ch = Some secret"
  shows "whatsapp_verify_signature hmac ch body header = Inr () \<longleftrightarrow> signed_by hmac secret body header"
  using assms by (auto simp: whatsapp_verify_signature_def signed_by_def split: option.splits)

lemma whatsapp_signature_error:
  "whatsapp_verify_signature hmac ch body header = Inl e \<Longrightarrow> e = AuthRequired \<or> e = AuthFailed"
  by (auto simp: whatsapp_verify_signature_def split: option.splits if_splits)

text \<open>
  In the server: when a secret is configured, a webhook that is not signed with it is refused, before its
  body is parsed, and changes nothing.
\<close>

lemma unsigned_whatsapp_refused:
  assumes "vx_whatsapp env = Some (whatsapp_endpoint_of hmac now ch)" "wc_app_secret ch = Some secret"
    "\<not> signed_by hmac secret (hq_body req) (hq_headers req ''x-hub-signature-256'')"
  shows "\<exists>r. whatsapp_webhook_inbound_handler env req sv = Some (r, sv) \<and> 400 \<le> hr_status r"
proof -
  let ?v = "whatsapp_verify_signature hmac ch (hq_body req) (hq_headers req ''x-hub-signature-256'')"
  have "?v \<noteq> Inr ()" using whatsapp_signature_iff [OF assms(2)] assms(3) by blast
  then obtain e where e: "?v = Inl e" by (cases ?v) auto
  then have "400 \<le> hr_status (error_response e :: http_response)"
    using whatsapp_signature_error [OF e] by (auto simp: error_response_def json_response_def status_code_def)
  then show ?thesis
    using assms(1) e
    by (auto simp: whatsapp_webhook_inbound_handler_def whatsapp_endpoint_of_def too_large_def json_response_def)
qed

text \<open>Without a secret every body is accepted.\<close>

lemma no_secret_accepts_all:
  "whatsapp_verify_signature hmac (whatsapp_new a p v None) body header = Inr ()"
  by (simp add: whatsapp_verify_signature_def whatsapp_new_def)

section \<open>Messages\<close>

lemma whatsapp_message_fields:
  "whatsapp_message now value message = Some m \<Longrightarrow>
   im_channel m = whatsapp_id \<and> im_text m \<noteq> None \<and> \<not> im_is_group m \<and> im_thread_id m = None"
  unfolding whatsapp_message_def Let_def by (auto split: option.split_asm if_split_asm)

lemma parsed_message_has_text:
  assumes "m \<in> set (parse_webhook_payload now payload)"
  shows "im_channel m = whatsapp_id \<and> im_text m \<noteq> None \<and> \<not> im_is_group m \<and> im_thread_id m = None"
proof -
  obtain v message where "whatsapp_message now v message = Some m"
    using assms
    by (auto simp: parse_webhook_payload_def change_messages_def Let_def List.map_filter_def)
  then show ?thesis by (rule whatsapp_message_fields)
qed

text \<open>The text of a message with audio is not sent: its body is that of a message without text.\<close>

lemma audio_text_lost:
  assumes "attachment_kind_of (oa_mime_type a) = KindAudio"
  shows "whatsapp_media_body msg a i = whatsapp_media_body (msg\<lparr>om_text := []\<rparr>) a i"
  using assms by (simp add: whatsapp_media_body_def media_object_def reply_context_def Let_def)

text \<open>A shared location or contact counts as processable, and is dropped for want of a text.\<close>

lemma location_dropped:
  "whatsapp_message now value (JObject
     [(''from'', JString s), (''type'', JString ''location''), (''location'', JObject l)]) = None"
proof -
  let ?m = "JObject [(''from'', JString s), (''type'', JString ''location''), (''location'', JObject l)]"
  have n: "json_at ?m k = JNull" if "k \<notin> {''from'', ''type'', ''location''}" for k
    using that by (simp add: json_at_def)
  have z1: "json_at JNull k = JNull" for k by (simp add: json_at_def)
  have z: "foldl json_at JNull p = JNull" for p by (induction p) (simp_all add: z1)
  have "extract_message_text ?m = None"
    by (simp add: extract_message_text_def text_paths_def json_path_def n z z1)
  moreover have "whatsapp_attachments ?m = []"
    by (simp add: whatsapp_attachments_def whatsapp_media_keys_def n)
  moreover have "json_at ?m ''from'' = JString s" "json_at ?m ''type'' = JString ''location''"
    by (simp_all add: json_at_def)
  moreover have "is_processable_message_type ''location''" by (simp add: is_processable_message_type_def)
  ultimately show ?thesis
    by (simp add: whatsapp_message_def text_or_attachment_placeholder_def non_blank_text_def)
qed

end
