(* ===== verification/Email.thy ===== *)
theory Email
  imports Channel_Wire
begin

text \<open>
  The adapter of e-mail (\<open>frankclaw-channels/src/email.rs\<close>): the senders it accepts, the mails of a poll, the
  text of a mail and the mail that goes out. IMAP, SMTP and the parsers of mails and addresses are
  parameters. The lemmas show what a poll delivers and marks as seen, and what the texts lack.
\<close>

section \<open>The channel\<close>

definition email_id :: channel_id where
  "email_id = ChannelId ''email''"

definition default_imap_port :: u16 where
  "default_imap_port = 993"

definition default_smtp_port :: u16 where
  "default_smtp_port = 587"

definition default_poll_interval_secs :: u64 where
  "default_poll_interval_secs = 30"

definition max_email_body_bytes :: nat where
  "max_email_body_bytes = 1048576"

record email_channel =
  ec_imap_server :: string
  ec_imap_port :: u16
  ec_imap_user :: string
  ec_imap_password :: string
  ec_smtp_server :: string
  ec_smtp_port :: u16
  ec_smtp_user :: string
  ec_smtp_password :: string
  ec_smtp_from :: string
  ec_poll_interval_secs :: u64
  ec_allowed_senders :: "string list"

definition email_new :: "email_channel \<Rightarrow> email_channel" where
  "email_new c =
     c\<lparr>ec_imap_port := (if ec_imap_port c = 0 then default_imap_port else ec_imap_port c),
       ec_smtp_port := (if ec_smtp_port c = 0 then default_smtp_port else ec_smtp_port c),
       ec_poll_interval_secs :=
         (if ec_poll_interval_secs c = 0 then default_poll_interval_secs else ec_poll_interval_secs c),
       ec_allowed_senders := map to_lower (ec_allowed_senders c)\<rparr>"

definition is_sender_allowed :: "email_channel \<Rightarrow> string \<Rightarrow> bool" where
  "is_sender_allowed ch sender \<longleftrightarrow>
     ec_allowed_senders ch = [] \<or> list_ex (\<lambda>a. a = to_lower sender) (ec_allowed_senders ch)"

section \<open>Mails that come in\<close>

text \<open>A mail as the parser gives it; the addresses of its sender with their names.\<close>

record parsed_mail =
  pm_from :: "(string option \<times> string option) list"
  pm_subject :: "string option"
  pm_message_id :: "string option"
  pm_body_text :: "string option"
  pm_body_html :: "string option"
  pm_date :: "int option"

fun strip_tags :: "bool \<Rightarrow> string \<Rightarrow> string" where
  "strip_tags in_tag [] = []"
| "strip_tags in_tag (c # s) =
     (if c = CHR ''<'' then strip_tags True s
      else if c = CHR ''>'' then strip_tags False s
      else if in_tag then strip_tags in_tag s
      else c # strip_tags in_tag s)"

definition strip_html_tags :: "string \<Rightarrow> string" where
  "strip_html_tags html = strip_tags False html"

definition extract_body_text :: "parsed_mail \<Rightarrow> string" where
  "extract_body_text m =
     (case pm_body_text m of
        Some t \<Rightarrow> t
      | None \<Rightarrow> (case pm_body_html m of Some h \<Rightarrow> strip_html_tags h | None \<Rightarrow> []))"

definition mail_sender :: "parsed_mail \<Rightarrow> (string option \<times> string) option" where
  "mail_sender m =
     (case pm_from m of
        (name, Some address) # _ \<Rightarrow> Some (name, address)
      | _ \<Rightarrow> None)"

definition mail_text :: "parsed_mail \<Rightarrow> string" where
  "mail_text m =
     (let subject = (case pm_subject m of Some s \<Rightarrow> s | None \<Rightarrow> []); body = extract_body_text m
      in if subject = [] then body else ''Subject: '' @ subject @ [newline, newline] @ body)"

definition parse_email :: "datetime \<Rightarrow> email_channel \<Rightarrow> parsed_mail option \<Rightarrow> inbound_message option" where
  "parse_email now ch parsed =
     (case parsed of
        None \<Rightarrow> None
      | Some m \<Rightarrow>
          (case mail_sender m of
             None \<Rightarrow> None
           | Some (name, address) \<Rightarrow>
               if \<not> is_sender_allowed ch address then None
               else if extract_body_text m = [] then None
               else Some
                 \<lparr>im_channel = email_id, im_account_id = ec_smtp_from ch, im_sender_id = address,
                  im_sender_name = name,
                  im_thread_id = Some (case pm_message_id m of Some i \<Rightarrow> i | None \<Rightarrow> []),
                  im_is_group = False, im_is_mention = False, im_text = Some (mail_text m),
                  im_attachments = [], im_platform_message_id = pm_message_id m,
                  im_timestamp = (case Option.bind (pm_date m) from_timestamp of Some t \<Rightarrow> t | None \<Rightarrow> now)\<rparr>))"

section \<open>A poll\<close>

text \<open>What the mail server answers: the error of a step, the unseen mails, and the mails that are fetched.\<close>

record imap_session =
  is_connect :: "frank_error option"
  is_select :: "string option"
  is_search :: "string + u32 list"
  is_fetch :: "string + (string + u32 \<times> u8 list option) list"

text \<open>The mails delivered, and those marked as seen.\<close>

fun fetch_loop ::
  "(u8 list \<Rightarrow> inbound_message option) \<Rightarrow> (inbound_message \<Rightarrow> bool) \<Rightarrow> (string + u32 \<times> u8 list option) list
    \<Rightarrow> inbound_message list \<times> u32 list" where
  "fetch_loop parse accepts [] = ([], [])"
| "fetch_loop parse accepts (Inl e # fs) = fetch_loop parse accepts fs"
| "fetch_loop parse accepts (Inr (i, None) # fs) = fetch_loop parse accepts fs"
| "fetch_loop parse accepts (Inr (i, Some body) # fs) =
     (if max_email_body_bytes < length body
      then (case fetch_loop parse accepts fs of (ms, seen) \<Rightarrow> (ms, i # seen))
      else (case parse body of
              None \<Rightarrow> (case fetch_loop parse accepts fs of (ms, seen) \<Rightarrow> (ms, i # seen))
            | Some m \<Rightarrow>
                if accepts m then (case fetch_loop parse accepts fs of (ms, seen) \<Rightarrow> (m # ms, i # seen))
                else ([], [])))"

definition email_error :: "string \<Rightarrow> frank_error" where
  "email_error msg = channel_err email_id msg"

definition poll_once ::
  "(u8 list \<Rightarrow> inbound_message option) \<Rightarrow> (inbound_message \<Rightarrow> bool) \<Rightarrow> imap_session
    \<Rightarrow> (frank_error + unit) \<times> inbound_message list \<times> u32 list" where
  "poll_once parse accepts s =
     (case is_connect s of
        Some e \<Rightarrow> (Inl e, [], [])
      | None \<Rightarrow>
          (case is_select s of
             Some e \<Rightarrow> (Inl (email_error (''IMAP select INBOX failed: '' @ e)), [], [])
           | None \<Rightarrow>
               (case is_search s of
                  Inl e \<Rightarrow> (Inl (email_error (''IMAP search UNSEEN failed: '' @ e)), [], [])
                | Inr ids \<Rightarrow>
                    if ids = [] then (Inr (), [], [])
                    else (case is_fetch s of
                            Inl e \<Rightarrow> (Inl (email_error (''IMAP fetch failed: '' @ e)), [], [])
                          | Inr fs \<Rightarrow> (Inr (), fetch_loop parse accepts fs)))))"

section \<open>Mails that go out\<close>

record mail_out =
  mo_from :: string
  mo_to :: string
  mo_subject :: string
  mo_in_reply_to :: "string option"
  mo_references :: "string option"
  mo_body :: string

text \<open>
  The errors of an address, of a mail that is built and of the relay, if any, and the transport, which
  answers with the lines of the server.
\<close>

record 'w smtp_env =
  sx_address_error :: "string \<Rightarrow> string option"
  sx_build_error :: "mail_out \<Rightarrow> string option"
  sx_relay_error :: "string \<Rightarrow> string option"
  sx_send :: "u16 \<Rightarrow> string \<times> string \<Rightarrow> mail_out \<Rightarrow> 'w \<Rightarrow> (string + string list) \<times> 'w"

definition reply_subject :: "string \<Rightarrow> string" where
  "reply_subject subject = (if starts_with subject ''Re: '' then subject else ''Re: '' @ subject)"

definition build_mail :: "email_channel \<Rightarrow> outbound_message \<Rightarrow> mail_out" where
  "build_mail ch msg =
     \<lparr>mo_from = ec_smtp_from ch, mo_to = om_to msg,
      mo_subject = reply_subject (case om_thread_id msg of Some _ \<Rightarrow> ''Re: '' | None \<Rightarrow> []),
      mo_in_reply_to = om_thread_id msg, mo_references = om_thread_id msg, mo_body = om_text msg\<rparr>"

definition email_send :: "'w smtp_env \<Rightarrow> email_channel \<Rightarrow> outbound_message \<Rightarrow> ('w, send_result) effect" where
  "email_send sx ch msg w =
     (case sx_address_error sx (ec_smtp_from ch) of
        Some e \<Rightarrow> (Inl (email_error (''invalid smtp_from address: '' @ e)), w)
      | None \<Rightarrow>
          (case sx_address_error sx (om_to msg) of
             Some e \<Rightarrow> (Inl (email_error (''invalid recipient address '' @ squoted (om_to msg) @ '': '' @ e)), w)
           | None \<Rightarrow>
               (case sx_build_error sx (build_mail ch msg) of
                  Some e \<Rightarrow> (Inl (email_error (''failed to build email: '' @ e)), w)
                | None \<Rightarrow>
                    (case sx_relay_error sx (ec_smtp_server ch) of
                       Some e \<Rightarrow> (Inl (email_error (''SMTP relay setup failed: '' @ e)), w)
                     | None \<Rightarrow>
                         (case sx_send sx (ec_smtp_port ch) (ec_smtp_user ch, ec_smtp_password ch) (build_mail ch msg) w of
                            (Inl e, w1) \<Rightarrow> (Inl (email_error (''SMTP send failed: '' @ e)), w1)
                          | (Inr ls, w1) \<Rightarrow> (Inr (Sent (join '' '' ls)), w1))))))"

text \<open>The start only prepares the cancellation; the polls are started by a function of its own.\<close>

definition email_plugin :: "'w smtp_env \<Rightarrow> email_channel \<Rightarrow> 'w channel_plugin" where
  "email_plugin sx ch =
     default_plugin email_id (no_capabilities\<lparr>cap_threads := True\<rparr>) ''Email'' (\<lambda>w. (Inr (), w)) (\<lambda>w. (Inr (), w))
       (\<lambda>w. (Connected, w)) (email_send sx ch)"

section \<open>Lemmas\<close>

lemma allowed_any_case: "is_sender_allowed ch (to_lower s) = is_sender_allowed ch s"
  by (simp add: is_sender_allowed_def)

lemma fetch_loop_parsed:
  "m \<in> set (fst (fetch_loop parse accepts fs)) \<Longrightarrow>
   accepts m \<and> (\<exists>i body. Inr (i, Some body) \<in> set fs \<and> parse body = Some m \<and> length body \<le> max_email_body_bytes)"
proof (induction parse accepts fs rule: fetch_loop.induct)
  case (4 parse accepts i body fs)
  obtain ms seen where r: "fetch_loop parse accepts fs = (ms, seen)" by fastforce
  have "m \<in> set ms \<or> parse body = Some m \<and> accepts m \<and> length body \<le> max_email_body_bytes"
    using "4.prems" r by (auto simp: not_less split: if_splits option.splits)
  moreover have ?case if "m \<in> set ms"
  proof -
    have "m \<in> set (fst (fetch_loop parse accepts fs))" using that r by simp
    moreover have "max_email_body_bytes < length body \<or> parse body = None \<or> (\<exists>m1. parse body = Some m1 \<and> accepts m1)"
      using "4.prems" r by (auto split: if_splits option.splits)
    ultimately have "accepts m \<and> (\<exists>i body. Inr (i, Some body) \<in> set fs \<and> parse body = Some m \<and> length body \<le> max_email_body_bytes)"
      using 4(1-3) not_less by blast
    then show ?case by auto
  qed
  ultimately show ?case by auto
qed auto

text \<open>With a list of senders, a poll delivers mails of these senders only.\<close>

lemma polled_senders_allowed:
  assumes "m \<in> set (fst (snd (poll_once (\<lambda>b. parse_email now ch (mp b)) accepts s)))" "ec_allowed_senders ch \<noteq> []"
  shows "to_lower (im_sender_id m) \<in> set (ec_allowed_senders ch)"
proof -
  have "\<exists>fs. m \<in> set (fst (fetch_loop (\<lambda>b. parse_email now ch (mp b)) accepts fs))"
    using assms(1) by (auto simp: poll_once_def split: option.splits sum.splits if_splits)
  then obtain body where "parse_email now ch (mp body) = Some m"
    using fetch_loop_parsed [of m "\<lambda>b. parse_email now ch (mp b)" accepts] by blast
  then show ?thesis
    using assms(2)
    by (auto simp: parse_email_def is_sender_allowed_def list_ex_iff split: option.splits prod.splits if_splits)
qed

text \<open>
  A mail is marked as seen when it is delivered, and also when it is too long or not to be read: while the
  messages are received, no fetched mail stays unseen.
\<close>

lemma fetch_loop_seen:
  assumes "Inr (i, Some body) \<in> set fs"
  shows "i \<in> set (snd (fetch_loop parse (\<lambda>_. True) fs)) \<and>
    (length body \<le> max_email_body_bytes \<longrightarrow> (\<forall>m. parse body = Some m \<longrightarrow> m \<in> set (fst (fetch_loop parse (\<lambda>_. True) fs))))"
  using assms
proof (induction fs)
  case Nil
  then show ?case by simp
next
  case (Cons f fs)
  obtain ms seen where r: "fetch_loop parse (\<lambda>_. True) fs = (ms, seen)" by fastforce
  show ?case
  proof (cases "f = Inr (i, Some body)")
    case True
    then show ?thesis using r by (auto split: option.splits)
  next
    case False
    then have ih: "i \<in> set seen \<and>
        (length body \<le> max_email_body_bytes \<longrightarrow> (\<forall>m. parse body = Some m \<longrightarrow> m \<in> set ms))"
      using Cons r by auto
    have "set seen \<subseteq> set (snd (fetch_loop parse (\<lambda>_. True) (f # fs))) \<and> set ms \<subseteq> set (fst (fetch_loop parse (\<lambda>_. True) (f # fs)))"
    proof (cases f)
      case (Inr p)
      then show ?thesis using r by (cases p; cases "snd p") (auto split: option.splits)
    qed (simp add: r)
    then show ?thesis using ih by blast
  qed
qed

text \<open>The subject of an answer is that of no thread, and every mail is an answer.\<close>

lemma every_subject_is_re: "mo_subject (build_mail ch msg) = ''Re: ''"
  by (cases "om_thread_id msg") (simp_all add: build_mail_def reply_subject_def starts_with_def)

text \<open>The text of a script is text of the mail: only the tags are taken out.\<close>

lemma script_text_stays: "strip_html_tags ''<script>x()</script>Hi'' = ''x()Hi''"
  by code_simp

lemma text_without_tags: "CHR ''<'' \<notin> set s \<Longrightarrow> CHR ''>'' \<notin> set s \<Longrightarrow> strip_html_tags s = s"
  unfolding strip_html_tags_def by (induction s) auto

lemma strip_tags_plain: "CHR ''<'' \<notin> set (strip_tags b s) \<and> CHR ''>'' \<notin> set (strip_tags b s)"
  by (induction b s rule: strip_tags.induct) auto

end
