(* ===== verification/Channels.thy ===== *)
theory Channels
  imports Telegram Discord Slack Signal Whatsapp Email
begin

text \<open>
  The web channel (\<open>frankclaw-channels/src/web.rs\<close>), the set of channels that a configuration enables, with
  the values their accounts name, and the sending of texts for the tools (\<open>frankclaw-channels/src/lib.rs\<close>). The
  lemmas show that the web queue gives each message once and in order, which configurations load, and what
  the tools do not learn.
\<close>

section \<open>The web channel\<close>

definition web_id :: channel_id where
  "web_id = ChannelId ''web''"

type_synonym web_queues = "string \<Rightarrow> outbound_message list option"

definition outbound_queue_key :: "string \<Rightarrow> string \<Rightarrow> string" where
  "outbound_queue_key account_id recipient_id = trim account_id @ [colon] @ trim recipient_id"

definition drain_outbound :: "string \<Rightarrow> string \<Rightarrow> web_queues \<Rightarrow> outbound_message list \<times> web_queues" where
  "drain_outbound account_id recipient_id q =
     (let k = outbound_queue_key account_id recipient_id
      in (case q k of Some ms \<Rightarrow> ms | None \<Rightarrow> [], q(k := None)))"

definition web_push :: "outbound_message \<Rightarrow> web_queues \<Rightarrow> web_queues" where
  "web_push msg q =
     (let k = outbound_queue_key (om_account_id msg) (om_to msg)
      in q(k \<mapsto> (case q k of Some ms \<Rightarrow> ms | None \<Rightarrow> []) @ [msg]))"

text \<open>A lens gives the queues of a world; \<open>uuid\<close> is a fresh identifier.\<close>

definition web_send ::
  "('w \<Rightarrow> web_queues) \<Rightarrow> (web_queues \<Rightarrow> 'w \<Rightarrow> 'w) \<Rightarrow> ('w \<Rightarrow> string) \<Rightarrow> outbound_message \<Rightarrow> ('w, send_result) effect" where
  "web_send get put uuid msg w = (Inr (Sent (uuid w)), put (web_push msg (get w)) w)"

definition web_capabilities :: channel_capabilities where
  "web_capabilities = no_capabilities\<lparr>cap_attachments := True, cap_streaming := True\<rparr>"

text \<open>The start waits until it is cancelled; \<open>pending\<close> stands for it.\<close>

definition web_plugin ::
  "('w \<Rightarrow> web_queues) \<Rightarrow> (web_queues \<Rightarrow> 'w \<Rightarrow> 'w) \<Rightarrow> ('w \<Rightarrow> string) \<Rightarrow> ('w, unit) effect \<Rightarrow> 'w channel_plugin" where
  "web_plugin get put uuid pending =
     default_plugin web_id web_capabilities ''Web Chat'' pending (\<lambda>w. (Inr (), w)) (\<lambda>w. (Connected, w))
       (web_send get put uuid)"

section \<open>Values of an account\<close>

definition resolve_inline_value :: "json \<Rightarrow> string list \<Rightarrow> string option" where
  "resolve_inline_value account ks =
     (case List.map_filter (\<lambda>k. non_blank_text (Option.bind (json_get account k) as_str)) ks of
        v # _ \<Rightarrow> Some v | [] \<Rightarrow> None)"

text \<open>The environment is a parameter: a variable that is not set, or not text, has no value.\<close>

definition resolve_env_value :: "(string \<Rightarrow> string option) \<Rightarrow> string \<Rightarrow> string \<Rightarrow> string \<Rightarrow> frank_error + string" where
  "resolve_env_value env raw_name ch label =
     (let name = trim raw_name
      in if name = []
         then Inl (ConfigValidation
                (''channel '' @ squoted ch @ '' references an empty environment variable for '' @ label))
         else (case env name of
                 None \<Rightarrow> Inl (ConfigValidation
                   (''channel '' @ squoted ch @ '' references missing environment variable '' @ squoted name))
               | Some v \<Rightarrow>
                   if trim v = []
                   then Inl (ConfigValidation
                          (''channel '' @ squoted ch @ '' environment variable '' @ squoted name @ '' is empty''))
                   else Inr v))"

text \<open>The name of the variable: the first of the keys that has a text.\<close>

definition first_text_key :: "json \<Rightarrow> string list \<Rightarrow> string option" where
  "first_text_key account ks =
     (case List.map_filter (\<lambda>k. Option.bind (json_get account k) as_str) ks of v # _ \<Rightarrow> Some v | [] \<Rightarrow> None)"

definition resolve_channel_value ::
  "(string \<Rightarrow> string option) \<Rightarrow> json \<Rightarrow> string list \<Rightarrow> string list \<Rightarrow> string option \<Rightarrow> string \<Rightarrow> string
    \<Rightarrow> frank_error + string" where
  "resolve_channel_value env account inline_keys env_keys default_env ch label =
     (case resolve_inline_value account inline_keys of
        Some v \<Rightarrow> Inr v
      | None \<Rightarrow>
          (case first_text_key account env_keys of
             Some name \<Rightarrow> resolve_env_value env name ch label
           | None \<Rightarrow>
               (case default_env of
                  Some name \<Rightarrow> resolve_env_value env name ch label
                | None \<Rightarrow>
                    Inl (ConfigValidation (''channel '' @ squoted ch @ '' requires a non-empty '' @ label)))))"

definition resolve_channel_secret ::
  "(string \<Rightarrow> string option) \<Rightarrow> json \<Rightarrow> string list \<Rightarrow> string list \<Rightarrow> string \<Rightarrow> string \<Rightarrow> frank_error + string" where
  "resolve_channel_secret env account inline_keys env_keys default_env ch =
     resolve_channel_value env account inline_keys env_keys (Some default_env) ch ''secret''"

definition resolve_optional_channel_value ::
  "(string \<Rightarrow> string option) \<Rightarrow> json \<Rightarrow> string list \<Rightarrow> string list \<Rightarrow> frank_error + string option" where
  "resolve_optional_channel_value env account inline_keys env_keys =
     (case resolve_inline_value account inline_keys of
        Some v \<Rightarrow> Inr (Some v)
      | None \<Rightarrow>
          (case first_text_key account env_keys of
             Some name \<Rightarrow> map_sum id Some (resolve_env_value env name ''signal'' ''value'')
           | None \<Rightarrow> Inr None))"

definition first_account :: "channel_id \<Rightarrow> channel_config \<Rightarrow> frank_error + json" where
  "first_account cid cc =
     (case cc_accounts cc of
        a # _ \<Rightarrow> Inr a
      | [] \<Rightarrow> Inl (ConfigValidation (channel_str cid @ '' channel requires at least one account'')))"

section \<open>The channels of a configuration\<close>

datatype loaded_channel =
    LoadedWeb
  | LoadedTelegram string
  | LoadedDiscord string
  | LoadedSignal signal_channel
  | LoadedWhatsApp whatsapp_channel
  | LoadedSlack string string
  | LoadedEmail email_channel

definition and_then :: "'e + 'a \<Rightarrow> ('a \<Rightarrow> 'e + 'b) \<Rightarrow> 'e + 'b" where
  "and_then r f = (case r of Inl e \<Rightarrow> Inl e | Inr x \<Rightarrow> f x)"

definition build_telegram :: "(string \<Rightarrow> string option) \<Rightarrow> json \<Rightarrow> frank_error + loaded_channel" where
  "build_telegram env a =
     map_sum id LoadedTelegram
       (resolve_channel_secret env a [''bot_token'', ''token''] [''bot_token_env'', ''token_env'']
         ''TELEGRAM_BOT_TOKEN'' ''telegram'')"

definition build_discord :: "(string \<Rightarrow> string option) \<Rightarrow> json \<Rightarrow> frank_error + loaded_channel" where
  "build_discord env a =
     map_sum id LoadedDiscord
       (resolve_channel_secret env a [''bot_token'', ''token''] [''bot_token_env'', ''token_env'']
         ''DISCORD_BOT_TOKEN'' ''discord'')"

definition build_signal :: "(string \<Rightarrow> string option) \<Rightarrow> json \<Rightarrow> frank_error + loaded_channel" where
  "build_signal env a =
     and_then (resolve_channel_value env a [''base_url'', ''http_url''] [''base_url_env'', ''http_url_env'']
         (Some ''SIGNAL_BASE_URL'') ''signal'' ''base URL'') (\<lambda>base_url.
     and_then (resolve_optional_channel_value env a [''account'', ''signal_number'']
         [''account_env'', ''signal_number_env'']) (\<lambda>account_id.
     Inr (LoadedSignal (signal_new base_url account_id))))"

definition build_whatsapp :: "(string \<Rightarrow> string option) \<Rightarrow> json \<Rightarrow> frank_error + loaded_channel" where
  "build_whatsapp env a =
     and_then (resolve_channel_secret env a [''access_token'', ''token''] [''access_token_env'', ''token_env'']
         ''WHATSAPP_ACCESS_TOKEN'' ''whatsapp'') (\<lambda>access_token.
     and_then (resolve_channel_value env a [''phone_number_id''] [''phone_number_id_env'']
         (Some ''WHATSAPP_PHONE_NUMBER_ID'') ''whatsapp'' ''phone number id'') (\<lambda>phone_number_id.
     and_then (resolve_channel_value env a [''verify_token''] [''verify_token_env'']
         (Some ''WHATSAPP_VERIFY_TOKEN'') ''whatsapp'' ''verify token'') (\<lambda>verify_token.
     and_then (resolve_optional_channel_value env a [''app_secret''] [''app_secret_env'']) (\<lambda>app_secret.
     Inr (LoadedWhatsApp (whatsapp_new access_token phone_number_id verify_token app_secret))))))"

definition build_slack :: "(string \<Rightarrow> string option) \<Rightarrow> json \<Rightarrow> frank_error + loaded_channel" where
  "build_slack env a =
     and_then (resolve_channel_secret env a [''app_token''] [''app_token_env''] ''SLACK_APP_TOKEN'' ''slack'') (\<lambda>app_token.
     and_then (resolve_channel_secret env a [''bot_token'', ''token''] [''bot_token_env'', ''token_env'']
         ''SLACK_BOT_TOKEN'' ''slack'') (\<lambda>bot_token.
     Inr (LoadedSlack app_token bot_token)))"

definition number_or :: "u64 \<Rightarrow> json \<Rightarrow> string \<Rightarrow> u64" where
  "number_or d a k = (case Option.bind (json_get a k) as_u64 of Some n \<Rightarrow> n | None \<Rightarrow> d)"

definition email_value ::
  "(string \<Rightarrow> string option) \<Rightarrow> json \<Rightarrow> string list \<Rightarrow> string \<Rightarrow> string \<Rightarrow> frank_error + string" where
  "email_value env a ks env_key label = resolve_channel_value env a ks [env_key] None ''email'' label"

definition text_items :: "json \<Rightarrow> string \<Rightarrow> string list" where
  "text_items a k =
     (case Option.bind (json_get a k) as_array of Some vs \<Rightarrow> List.map_filter as_str vs | None \<Rightarrow> [])"

definition build_email :: "(string \<Rightarrow> string option) \<Rightarrow> json \<Rightarrow> frank_error + loaded_channel" where
  "build_email env a =
     and_then (email_value env a [''imap_server''] ''imap_server_env'' ''IMAP server'') (\<lambda>imap_server.
     and_then (email_value env a [''imap_user'', ''user''] ''imap_user_env'' ''IMAP user'') (\<lambda>imap_user.
     and_then (resolve_channel_secret env a [''imap_password'', ''password''] [''imap_password_env'']
         ''EMAIL_PASSWORD'' ''email'') (\<lambda>imap_password.
     and_then (email_value env a [''smtp_server''] ''smtp_server_env'' ''SMTP server'') (\<lambda>smtp_server.
     and_then (email_value env a [''smtp_user'', ''user''] ''smtp_user_env'' ''SMTP user'') (\<lambda>smtp_user.
     and_then (resolve_channel_secret env a [''smtp_password'', ''password''] [''smtp_password_env'']
         ''EMAIL_PASSWORD'' ''email'') (\<lambda>smtp_password.
     and_then (email_value env a [''smtp_from'', ''from'', ''user''] ''smtp_from_env'' ''SMTP from address'') (\<lambda>smtp_from.
     Inr (LoadedEmail (email_new
       \<lparr>ec_imap_server = imap_server, ec_imap_port = ucast (number_or 993 a ''imap_port''),
        ec_imap_user = imap_user, ec_imap_password = imap_password, ec_smtp_server = smtp_server,
        ec_smtp_port = ucast (number_or 587 a ''smtp_port''), ec_smtp_user = smtp_user,
        ec_smtp_password = smtp_password, ec_smtp_from = smtp_from,
        ec_poll_interval_secs = number_or 30 a ''poll_interval_secs'',
        ec_allowed_senders = text_items a ''allowed_senders''\<rparr>)))))))))"

definition unsupported_channel :: "string \<Rightarrow> frank_error + 'a" where
  "unsupported_channel other =
     Inl (ConfigValidation (''unsupported enabled channel '' @ squoted other @
       ''; currently supported: web, telegram, discord, signal, slack, whatsapp, email''))"

definition account_builders ::
  "(string \<Rightarrow> string option) \<Rightarrow> (string \<times> (json \<Rightarrow> frank_error + loaded_channel)) list" where
  "account_builders env =
     [(''telegram'', build_telegram env), (''discord'', build_discord env), (''signal'', build_signal env),
      (''whatsapp'', build_whatsapp env), (''slack'', build_slack env), (''email'', build_email env)]"

definition build_channel :: "(string \<Rightarrow> string option) \<Rightarrow> channel_id \<Rightarrow> channel_config \<Rightarrow> frank_error + loaded_channel" where
  "build_channel env cid cc =
     (if channel_str cid = ''web'' then Inr LoadedWeb
      else (case map_of (account_builders env) (channel_str cid) of
              None \<Rightarrow> unsupported_channel (channel_str cid)
            | Some build \<Rightarrow> and_then (first_account cid cc) build))"

record channel_set =
  cs_channels :: "(channel_id \<times> loaded_channel) list"
  cs_web :: bool
  cs_whatsapp :: "whatsapp_channel option"

definition add_channel :: "channel_id \<Rightarrow> loaded_channel \<Rightarrow> channel_set \<Rightarrow> channel_set" where
  "add_channel cid c cs =
     cs\<lparr>cs_channels := AList.update cid c (cs_channels cs), cs_web := (cs_web cs \<or> c = LoadedWeb),
        cs_whatsapp := (case c of LoadedWhatsApp wa \<Rightarrow> Some wa | _ \<Rightarrow> cs_whatsapp cs)\<rparr>"

fun load_channels ::
  "(string \<Rightarrow> string option) \<Rightarrow> (channel_id \<times> channel_config) list \<Rightarrow> channel_set \<Rightarrow> frank_error + channel_set" where
  "load_channels env [] cs = Inr cs"
| "load_channels env ((cid, cc) # ccs) cs =
     (if cc_enabled cc
      then (case build_channel env cid cc of
              Inl e \<Rightarrow> Inl e
            | Inr c \<Rightarrow> load_channels env ccs (add_channel cid c cs))
      else load_channels env ccs cs)"

definition load_from_config :: "(string \<Rightarrow> string option) \<Rightarrow> frankclaw_config \<Rightarrow> frank_error + channel_set" where
  "load_from_config env cfg =
     load_channels env (fc_channels cfg) \<lparr>cs_channels = [], cs_web = False, cs_whatsapp = None\<rparr>"

section \<open>Sending for the tools\<close>

definition channel_not_found :: "string \<Rightarrow> frank_error" where
  "channel_not_found ch = InvalidRequest (''channel '' @ squoted ch @ '' not found or not enabled'')"

text \<open>\<open>debug\<close> is the \<open>Debug\<close> text of an outcome.\<close>

definition send_text ::
  "(send_result \<Rightarrow> string) \<Rightarrow> (channel_id \<Rightarrow> 'w channel_plugin option) \<Rightarrow> string \<Rightarrow> string \<Rightarrow> string \<Rightarrow> string
    \<Rightarrow> string option \<Rightarrow> string option \<Rightarrow> ('w, string) effect" where
  "send_text debug channels ch account_id to text thread_id answered w =
     (case channels (ChannelId ch) of
        None \<Rightarrow> (Inl (channel_not_found ch), w)
      | Some plugin \<Rightarrow>
          (case ch_send plugin
              \<lparr>om_channel = ChannelId ch, om_account_id = account_id, om_to = to, om_thread_id = thread_id,
               om_text = text, om_attachments = [], om_reply_to = answered\<rparr> w of
             (Inl e, w1) \<Rightarrow> (Inl e, w1)
           | (Inr (Sent i), w1) \<Rightarrow> (Inr i, w1)
           | (Inr other, w1) \<Rightarrow> (Inr (debug other), w1)))"

definition send_reaction ::
  "(channel_id \<Rightarrow> 'w channel_plugin option) \<Rightarrow> string \<Rightarrow> string \<Rightarrow> string \<Rightarrow> string option \<Rightarrow> string \<Rightarrow> string
    \<Rightarrow> ('w, unit) effect" where
  "send_reaction channels ch account_id to thread_id mid emoji w =
     (case channels (ChannelId ch) of
        None \<Rightarrow> (Inl (channel_not_found ch), w)
      | Some plugin \<Rightarrow> ch_send_reaction plugin account_id to thread_id mid emoji w)"

section \<open>Lemmas on the queues\<close>

lemma drained_twice: "drain_outbound a r (snd (drain_outbound a r q)) = ([], snd (drain_outbound a r q))"
  by (simp add: drain_outbound_def Let_def)

text \<open>What a recipient drains: the messages for its key, in the order they were sent, each once.\<close>

lemma queue_in_order:
  assumes "q (outbound_queue_key a r) = None"
  shows "fst (drain_outbound a r (fold web_push msgs q)) =
     filter (\<lambda>m. outbound_queue_key (om_account_id m) (om_to m) = outbound_queue_key a r) msgs"
proof -
  have "(case fold web_push msgs q k of Some ms \<Rightarrow> ms | None \<Rightarrow> []) =
      (case q k of Some ms \<Rightarrow> ms | None \<Rightarrow> []) @
      filter (\<lambda>m. outbound_queue_key (om_account_id m) (om_to m) = k) msgs" for k
    by (induction msgs arbitrary: q) (auto simp: web_push_def Let_def)
  then show ?thesis using assms by (simp add: drain_outbound_def Let_def)
qed

lemma other_queue_kept:
  "outbound_queue_key a r \<noteq> k \<Longrightarrow> snd (drain_outbound a r q) k = q k"
  by (simp add: drain_outbound_def Let_def)

text \<open>Recipients whose keys read alike share a queue.\<close>

lemma recipients_confused: "outbound_queue_key ''a:b'' ''c'' = outbound_queue_key ''a'' ''b:c''"
  by code_simp

section \<open>Lemmas on the configuration\<close>

lemma load_channels_iff:
  "(\<exists>cs1. load_channels env ccs cs = Inr cs1) \<longleftrightarrow>
   list_all (\<lambda>(cid, cc). cc_enabled cc \<longrightarrow> (\<exists>c. build_channel env cid cc = Inr c)) ccs"
proof (induction ccs arbitrary: cs)
  case Nil
  then show ?case by simp
next
  case (Cons p ccs)
  obtain cid cc where p: "p = (cid, cc)" by fastforce
  show ?case
    using Cons by (cases "build_channel env cid cc") (auto simp: p)
qed

lemma load_channels_dom:
  "load_channels env ccs cs = Inr cs1 \<Longrightarrow>
   fst ` set (cs_channels cs1) = fst ` set (cs_channels cs) \<union> {cid. \<exists>cc. (cid, cc) \<in> set ccs \<and> cc_enabled cc}"
proof (induction ccs arbitrary: cs)
  case Nil
  then show ?case by simp
next
  case (Cons p ccs)
  obtain cid cc where p: "p = (cid, cc)" by fastforce
  show ?case
  proof (cases "cc_enabled cc")
    case True
    then obtain c where c: "load_channels env ccs (add_channel cid c cs) = Inr cs1"
      using Cons.prems by (auto simp: p split: sum.splits)
    show ?thesis
      using Cons.IH [OF c] True by (auto simp: p add_channel_def dom_update)
  next
    case False
    then show ?thesis using Cons by (auto simp: p)
  qed
qed

text \<open>A configuration loads exactly when every enabled channel can be built; its channels are the enabled ones.\<close>

lemma loaded_channels_exact:
  "(\<exists>cs. load_from_config env cfg = Inr cs) \<longleftrightarrow>
     list_all (\<lambda>(cid, cc). cc_enabled cc \<longrightarrow> (\<exists>c. build_channel env cid cc = Inr c)) (fc_channels cfg)"
  by (simp add: load_from_config_def load_channels_iff)

lemma loaded_channels_enabled:
  assumes "load_from_config env cfg = Inr cs"
  shows "fst ` set (cs_channels cs) = {cid. \<exists>cc. (cid, cc) \<in> set (fc_channels cfg) \<and> cc_enabled cc}"
  using load_channels_dom [OF assms [unfolded load_from_config_def]] by simp

lemma non_blank_text_trimmed: "non_blank_text x = Some v \<Longrightarrow> trim v = v \<and> v \<noteq> []"
  by (auto simp: non_blank_text_def Let_def split: option.splits if_splits)

lemma inline_value_not_blank:
  assumes "resolve_inline_value a ks = Some v"
  shows "trim v \<noteq> []"
proof -
  obtain vs where "List.map_filter (\<lambda>k. non_blank_text (Option.bind (json_get a k) as_str)) ks = v # vs"
    using assms by (auto simp: resolve_inline_value_def split: list.splits)
  then have "v \<in> set (List.map_filter (\<lambda>k. non_blank_text (Option.bind (json_get a k) as_str)) ks)" by simp
  then obtain k where "non_blank_text (Option.bind (json_get a k) as_str) = Some v"
    by (auto simp: List.map_filter_def)
  then show ?thesis using non_blank_text_trimmed by metis
qed

lemma env_value_not_blank: "resolve_env_value env n ch label = Inr v \<Longrightarrow> trim v \<noteq> []"
  by (auto simp: resolve_env_value_def Let_def split: option.splits if_splits)

lemma resolved_value_not_blank:
  "resolve_channel_value env a ks eks d ch label = Inr v \<Longrightarrow> trim v \<noteq> []"
  by (auto simp: resolve_channel_value_def split: option.splits dest: inline_value_not_blank env_value_not_blank)

text \<open>An empty inline value falls through to the environment; an empty variable does not fall back further.\<close>

lemma blank_variable_is_error:
  assumes "resolve_inline_value a ks = None" "first_text_key a eks = Some n" "trim n \<noteq> []"
    "env (trim n) = Some v" "trim v = []"
  shows "\<exists>e. resolve_channel_value env a ks eks d ch label = Inl e"
  using assms by (simp add: resolve_channel_value_def resolve_env_value_def Let_def)

text \<open>A secret of WhatsApp that is not set is reported as one of Signal.\<close>

lemma app_secret_error_names_signal:
  assumes "env ''X'' = None"
  shows "resolve_optional_channel_value env (JObject [(''app_secret_env'', JString ''X'')]) [''app_secret''] [''app_secret_env''] =
    Inl (ConfigValidation (''channel '' @ squoted ''signal'' @ '' references missing environment variable '' @ squoted ''X''))"
proof -
  have "resolve_inline_value (JObject [(''app_secret_env'', JString ''X'')]) [''app_secret''] = None" by code_simp
  moreover have "first_text_key (JObject [(''app_secret_env'', JString ''X'')]) [''app_secret_env''] = Some ''X''"
    by code_simp
  moreover have "trim ''X'' = ''X''" by code_simp
  ultimately show ?thesis using assms by (simp add: resolve_optional_channel_value_def resolve_env_value_def)
qed

section \<open>Lemmas on the tools\<close>

text \<open>A send that fails, or is rate limited, is a success for the tool.\<close>

lemma failed_send_is_success:
  assumes "channels (ChannelId ch) = Some plugin"
    "ch_send plugin
       \<lparr>om_channel = ChannelId ch, om_account_id = a, om_to = to, om_thread_id = th, om_text = text,
        om_attachments = [], om_reply_to = r\<rparr> w = (Inr (send_result.Failed reason), w1)"
  shows "send_text debug channels ch a to text th r w = (Inr (debug (send_result.Failed reason)), w1)"
  using assms by (simp add: send_text_def)

end
