(* ===== verification/Openai_Api.thy ===== *)
theory Openai_Api
  imports Gateway_Server Model_Wire Catalog
begin

text \<open>
  The endpoints of the gateway for clients of OpenAI (\<open>frankclaw-gateway/src/openai_api.rs\<close>): the bearer
  token, a chat completion at once or as a stream, and the list of models. The turn of the agent and the
  printer of JSON are parameters. The lemmas show who is let in, what a client sends of its conversation,
  and what a stream holds back.
\<close>

section \<open>Requests and responses\<close>

record api_message =
  am_role :: string
  am_content :: string

record completion_body =
  cb_model :: string
  cb_messages :: "api_message list"
  cb_max_tokens :: "u32 option"
  cb_temperature :: "u32 option"
  cb_stream :: "bool option"

definition api_error :: "string \<Rightarrow> string \<Rightarrow> json" where
  "api_error error_type message =
     JObject [(''error'', JObject
       [(''message'', JString message), (''type'', JString error_type), (''code'', JNull)])]"

definition authenticate_bearer ::
  "(string \<Rightarrow> string \<Rightarrow> bool option) \<Rightarrow> frankclaw_config \<Rightarrow> http_headers \<Rightarrow> http_response + unit" where
  "authenticate_bearer pw cfg headers =
     (let mode = gw_auth (fc_gateway cfg);
          token = Option.bind (headers ''authorization'') (strip_prefix ''Bearer '')
      in if mode = AuthNone then Inr ()
         else (case token of
                 None \<Rightarrow>
                   Inl (json_response 401
                     (api_error ''invalid_api_key'' ''Missing Authorization: Bearer <token> header''))
               | Some t \<Rightarrow>
                   \<comment> \<open>a limiter of its own, made for this request, and no address\<close>
                   (case fst (gateway_authenticate default_rate_limit_config pw mode (BearerToken t)
                       (None :: ip_addr option) (0, 0, 0) Map.empty) of
                      Inr _ \<Rightarrow> Inr ()
                    | Inl _ \<Rightarrow> Inl (json_response 401 (api_error ''invalid_api_key'' ''Invalid API key'')))))"

definition last_user_message :: "api_message list \<Rightarrow> string" where
  "last_user_message ms =
     (case find (\<lambda>m. am_role m = ''user'') (rev ms) of Some m \<Rightarrow> am_content m | None \<Rightarrow> [])"

definition api_chat_request :: "completion_body \<Rightarrow> string \<Rightarrow> bool \<Rightarrow> chat_request" where
  "api_chat_request body message streaming =
     \<lparr>cq_agent_id = None, cq_session_key = None, cq_message = message, cq_attachments = [],
      cq_model_id = Some (cb_model body), cq_max_tokens = cb_max_tokens body,
      cq_temperature = cb_temperature body, cq_streaming = streaming, cq_thinking_budget = None,
      cq_channel_id = None, cq_channel_capabilities = None, cq_cancellable = True, cq_approval = False\<rparr>"

definition completion_json :: "string \<Rightarrow> int \<Rightarrow> chat_response \<Rightarrow> json" where
  "completion_json request_id created r =
     (let u = cy_usage r
      in JObject
        [(''id'', JString request_id), (''object'', JString ''chat.completion''),
         (''created'', JUInt (of_int created)), (''model'', JString (cy_model_id r)),
         (''choices'', JArray [JObject
           [(''index'', JUInt 0),
            (''message'', JObject [(''role'', JString ''assistant''), (''content'', JString (cy_content r))]),
            (''finish_reason'', JString ''stop'')]]),
         (''usage'', JObject
           [(''prompt_tokens'', JUInt (ucast (us_input_tokens u))),
            (''completion_tokens'', JUInt (ucast (us_output_tokens u))),
            (''total_tokens'', JUInt (ucast (us_input_tokens u + us_output_tokens u)))])])"

section \<open>A stream\<close>

text \<open>\<open>data: {json}\<close> and a blank line\<close>

definition sse_data :: "string \<Rightarrow> string" where
  "sse_data s = ''data: '' @ s @ [newline, newline]"

definition stream_chunk :: "string \<Rightarrow> int \<Rightarrow> string \<Rightarrow> (string \<times> json) list \<Rightarrow> string option \<Rightarrow> json" where
  "stream_chunk request_id created model_id delta reason =
     JObject
       [(''id'', JString request_id), (''object'', JString ''chat.completion.chunk''),
        (''created'', JUInt (of_int created)), (''model'', JString model_id),
        (''choices'', JArray [JObject
          [(''index'', JUInt 0), (''delta'', JObject delta),
           (''finish_reason'', case reason of Some r \<Rightarrow> JString r | None \<Rightarrow> JNull)]])]"

text \<open>
  What is sent for the deltas of a turn, until the first end or error. A client that is gone ends the
  sending too; its stream is not observed any more.
\<close>

fun send_deltas :: "(json \<Rightarrow> string) \<Rightarrow> ((string \<times> json) list \<Rightarrow> string option \<Rightarrow> json) \<Rightarrow> stream_delta list \<Rightarrow> string list" where
  "send_deltas show_json chunk [] = []"
| "send_deltas show_json chunk (DeltaText t # ds) =
     sse_data (show_json (chunk [(''content'', JString t)] None)) # send_deltas show_json chunk ds"
| "send_deltas show_json chunk (DeltaDone u # ds) =
     [sse_data (show_json (chunk [] (Some ''stop''))) @ sse_data ''[DONE]'']"
| "send_deltas show_json chunk (DeltaError m # ds) =
     [sse_data (show_json (JObject [(''error'', JObject
        [(''message'', JString m), (''type'', JString ''server_error'')])]))]"
| "send_deltas show_json chunk (_ # ds) = send_deltas show_json chunk ds"

definition stream_body :: "(json \<Rightarrow> string) \<Rightarrow> string \<Rightarrow> int \<Rightarrow> string \<Rightarrow> stream_delta list \<Rightarrow> string list" where
  "stream_body show_json request_id created model_id ds =
     (let chunk = stream_chunk request_id created model_id
      in sse_data (show_json (chunk [(''role'', JString ''assistant'')] None)) # send_deltas show_json chunk ds)"

section \<open>The handlers\<close>

text \<open>
  The turn of the agent is a function of the state of the gateway; with a stream it also gives the deltas
  it sent. \<open>None\<close> is a panic.
\<close>

record ('w, 'g) api_env =
  ap_password :: "string \<Rightarrow> string \<Rightarrow> bool option"
  ap_chat :: "chat_request \<Rightarrow> 'g \<Rightarrow> ((frank_error + chat_response) \<times> 'g) option"
  ap_chat_stream :: "chat_request \<Rightarrow> 'g \<Rightarrow> (stream_delta list \<times> 'g) option"
  ap_uuid :: "'g \<Rightarrow> string"
  ap_now :: "'g \<Rightarrow> int"
  ap_show :: "json \<Rightarrow> string"
  ap_models :: "full_model_def list"

datatype api_reply = PlainReply http_response | StreamReply "(string \<times> string) list" "string list"

definition handle_non_streaming ::
  "('w, 'g) api_env \<Rightarrow> completion_body \<Rightarrow> string \<Rightarrow> string \<Rightarrow> 'g \<Rightarrow> (api_reply \<times> 'g) option" where
  "handle_non_streaming ap body message request_id gs =
     (case ap_chat ap (api_chat_request body message False) gs of
        None \<Rightarrow> None
      | Some (Inr r, gs1) \<Rightarrow> Some (PlainReply (json_response 200 (completion_json request_id (ap_now ap gs1) r)), gs1)
      | Some (Inl e, gs1) \<Rightarrow>
          Some (PlainReply (json_response (status_code e) (api_error ''server_error'' (error_text e))), gs1))"

definition handle_streaming ::
  "('w, 'g) api_env \<Rightarrow> completion_body \<Rightarrow> string \<Rightarrow> string \<Rightarrow> 'g \<Rightarrow> (api_reply \<times> 'g) option" where
  "handle_streaming ap body message request_id gs =
     (case ap_chat_stream ap (api_chat_request body message True) gs of
        None \<Rightarrow> None
      | Some (ds, gs1) \<Rightarrow>
          Some (StreamReply
            [(''content-type'', ''text/event-stream''), (''cache-control'', ''no-cache''),
             (''connection'', ''keep-alive'')]
            (stream_body (ap_show ap) request_id (ap_now ap gs) (cb_model body) ds), gs1))"

definition chat_completions_handler ::
  "('w, 'g) api_env \<Rightarrow> frankclaw_config \<Rightarrow> http_headers \<Rightarrow> completion_body \<Rightarrow> 'g \<Rightarrow> (api_reply \<times> 'g) option" where
  "chat_completions_handler ap cfg headers body gs =
     (case authenticate_bearer (ap_password ap) cfg headers of
        Inl r \<Rightarrow> Some (PlainReply r, gs)
      | Inr _ \<Rightarrow>
          (let message = last_user_message (cb_messages body)
           in if trim message = []
              then Some (PlainReply (json_response 400
                     (api_error ''invalid_request_error'' ''No user message provided'')), gs)
              else if cb_stream body = Some True
              then handle_streaming ap body message (''chatcmpl-'' @ ap_uuid ap gs) gs
              else handle_non_streaming ap body message (''chatcmpl-'' @ ap_uuid ap gs) gs))"

primrec api_owner :: "model_api \<Rightarrow> string" where
  "api_owner OpenaiCompletions = ''openaicompletions''"
| "api_owner OpenaiResponses = ''openairesponses''"
| "api_owner AnthropicMessages = ''anthropicmessages''"
| "api_owner GoogleGenerativeAi = ''googlegenerativeai''"
| "api_owner Ollama = ''ollama''"
| "api_owner BedrockConverseStream = ''bedrockconversestream''"

definition models_handler :: "('w, 'g) api_env \<Rightarrow> frankclaw_config \<Rightarrow> http_headers \<Rightarrow> http_response" where
  "models_handler ap cfg headers =
     (case authenticate_bearer (ap_password ap) cfg headers of
        Inl r \<Rightarrow> r
      | Inr _ \<Rightarrow>
          json_response 200 (JObject
            [(''object'', JString ''list''),
             (''data'', JArray (map (\<lambda>m. JObject
               [(''id'', JString (md_id m)), (''object'', JString ''model''), (''created'', JUInt 0),
                (''owned_by'', JString (api_owner (md_api m)))]) (ap_models ap)))]))"

section \<open>Who is let in\<close>

definition bearer_of :: "http_headers \<Rightarrow> string option" where
  "bearer_of headers = Option.bind (headers ''authorization'') (strip_prefix ''Bearer '')"

lemma api_access_iff:
  "authenticate_bearer pw cfg headers = Inr () \<longleftrightarrow>
     gw_auth (fc_gateway cfg) = AuthNone \<or>
     (\<exists>t. gw_auth (fc_gateway cfg) = AuthToken (Some t) \<and> bearer_of headers = Some t)"
proof -
  have d: "fst (gateway_authenticate c pw mode cred (None :: ip_addr option) (0, 0, 0) Map.empty) =
      auth_decision pw mode cred" for c mode cred
    by (simp add: gateway_authenticate_def authenticate_def Let_def)
  have a: "(\<exists>r. auth_decision pw mode (BearerToken t) = Inr r) \<longleftrightarrow> mode = AuthNone \<or> mode = AuthToken (Some t)" for mode t
    by (auto simp: auth_decision_ok accepts_def)
  show ?thesis
  proof (cases "gw_auth (fc_gateway cfg) = AuthNone \<or> bearer_of headers = None")
    case True
    then show ?thesis by (auto simp: authenticate_bearer_def bearer_of_def Let_def)
  next
    case False
    then obtain t where m: "gw_auth (fc_gateway cfg) \<noteq> AuthNone" and t: "bearer_of headers = Some t" by auto
    then have "authenticate_bearer pw cfg headers = Inr () \<longleftrightarrow>
        (\<exists>r. auth_decision pw (gw_auth (fc_gateway cfg)) (BearerToken t) = Inr r)"
      by (simp add: authenticate_bearer_def bearer_of_def Let_def d split: sum.splits)
    then show ?thesis using m t a by auto
  qed
qed

text \<open>The wrong token is refused as often as it is tried: nothing is counted.\<close>

lemma api_guesses_unlimited:
  assumes "gw_auth (fc_gateway cfg) \<noteq> AuthNone"
    "\<And>t. gw_auth (fc_gateway cfg) = AuthToken (Some t) \<Longrightarrow> bearer_of headers \<noteq> Some t"
  shows "\<exists>r. hr_status r = 401 \<and> chat_completions_handler ap cfg headers body gs = Some (PlainReply r, gs)"
proof -
  have "authenticate_bearer (ap_password ap) cfg headers \<noteq> Inr ()"
    using api_access_iff assms by blast
  then obtain r where r: "authenticate_bearer (ap_password ap) cfg headers = Inl r"
    by (cases "authenticate_bearer (ap_password ap) cfg headers") auto
  then have "hr_status r = 401"
    by (auto simp: authenticate_bearer_def json_response_def Let_def split: if_splits option.splits sum.splits)
  then show ?thesis using r by (simp add: chat_completions_handler_def)
qed

text \<open>With a password, or behind a proxy, no request is let in.\<close>

lemma api_closed_by_password:
  "gw_auth (fc_gateway cfg) = AuthPassword h \<Longrightarrow> authenticate_bearer pw cfg headers \<noteq> Inr ()"
  by (simp add: api_access_iff)

section \<open>What is sent\<close>

text \<open>Only the last message of the user reaches the agent: the rest of the conversation does not matter.\<close>

lemma history_ignored:
  assumes "last_user_message (cb_messages a) = last_user_message (cb_messages b)"
    "b = a\<lparr>cb_messages := cb_messages b\<rparr>"
  shows "chat_completions_handler ap cfg headers a gs = chat_completions_handler ap cfg headers b gs"
proof -
  have f: "cb_model b = cb_model a" "cb_max_tokens b = cb_max_tokens a" "cb_temperature b = cb_temperature a"
    "cb_stream b = cb_stream a"
    by (subst assms(2); simp)+
  then have "api_chat_request b m s = api_chat_request a m s" for m s by (simp add: api_chat_request_def)
  then have h: "handle_streaming ap b m i gs = handle_streaming ap a m i gs"
    "handle_non_streaming ap b m i gs = handle_non_streaming ap a m i gs" for m i
    by (simp_all add: handle_streaming_def handle_non_streaming_def f split: option.split)
  show ?thesis
    by (simp add: chat_completions_handler_def Let_def h f assms(1) split: sum.split)
qed

lemma every_client_shares_session: "cq_session_key (api_chat_request body m s) = None"
  by (simp add: api_chat_request_def)

text \<open>Until the end, a stream carries the texts in order.\<close>

definition is_end :: "stream_delta \<Rightarrow> bool" where
  "is_end d \<longleftrightarrow> (case d of DeltaDone _ \<Rightarrow> True | DeltaError _ \<Rightarrow> True | _ \<Rightarrow> False)"

definition delta_texts :: "stream_delta list \<Rightarrow> string list" where
  "delta_texts ds = List.map_filter (\<lambda>d. case d of DeltaText t \<Rightarrow> Some t | _ \<Rightarrow> None) ds"

lemma send_deltas_texts:
  "list_all (\<lambda>d. \<not> is_end d) ds \<Longrightarrow>
   send_deltas sj chunk (ds @ es) =
     map (\<lambda>t. sse_data (sj (chunk [(''content'', JString t)] None))) (delta_texts ds) @ send_deltas sj chunk es"
  by (induction ds rule: list.induct)
    (auto simp: is_end_def delta_texts_def List.map_filter_simps split: stream_delta.splits)

text \<open>
  The providers end every completion with a \<open>Done\<close>, and a turn with tools has several: the stream ends with
  the first, so that the answer that follows the tools is not sent.
\<close>

lemma answer_after_tools_unsent:
  assumes "list_all (\<lambda>d. \<not> is_end d) first_round"
  shows "stream_body sj i c m (first_round @ DeltaDone u # second_round) =
    stream_body sj i c m (first_round @ [DeltaDone u])"
  using assms by (simp add: stream_body_def send_deltas_texts)

text \<open>A turn that fails without a delta of its error gives an answer 200 without content and without end.\<close>

lemma failed_turn_streams_nothing:
  "stream_body sj i c m [] = [sse_data (sj (stream_chunk i c m [(''role'', JString ''assistant'')] None))]"
  by (simp add: stream_body_def)

end
