(* ===== verification/Understanding.thy ===== *)
theory Understanding
  imports Chat_Turn Channel_Wire
begin

text \<open>
  The description of images and the transcription of audio (\<open>frankclaw-media/src/understanding.rs\<close>): the
  batch of the attachments of a message, the four services that are asked, the chain of fallbacks, and
  what the runtime makes of it (\<open>frankclaw-runtime/src/lib.rs\<close>). The locale \<open>describing\<close> is what the
  batch relies on; it is interpreted on the services. The lemmas show what is sent, in which order
  the descriptions come, and that the runtime sends no content.
\<close>

section \<open>Attachments and descriptions\<close>

definition max_image_bytes :: nat where
  "max_image_bytes = 5 * 1024 * 1024"

definition max_audio_bytes :: nat where
  "max_audio_bytes = 25 * 1024 * 1024"

record media_attachment =
  ma_data :: "u8 list"
  ma_mime :: string
  ma_filename :: "string option"
  ma_index :: nat

definition media_attachment_kind :: "media_attachment \<Rightarrow> media_kind" where
  "media_attachment_kind a =
     (if classify_mime (ma_mime a) \<noteq> MediaUnknown then classify_mime (ma_mime a)
      else (case ma_filename a of Some name \<Rightarrow> classify_extension name | None \<Rightarrow> MediaUnknown))"

datatype understanding_kind = ImageDescription | AudioTranscription

record understanding_output =
  uo_kind :: understanding_kind
  uo_attachment_index :: nat
  uo_text :: string

record 'w understanding_provider =
  up_id :: string
  up_handles :: media_kind
  up_process :: "media_attachment \<Rightarrow> 'w \<Rightarrow> (frank_error + understanding_output) \<times> 'w"

section \<open>A batch\<close>

definition max_understanding_bytes :: "media_kind \<Rightarrow> nat option" where
  "max_understanding_bytes k =
     (case k of MediaImage \<Rightarrow> Some max_image_bytes | MediaAudio \<Rightarrow> Some max_audio_bytes | _ \<Rightarrow> None)"

definition describe_one ::
  "'w understanding_provider list \<Rightarrow> media_attachment \<Rightarrow> 'w \<Rightarrow> understanding_output option \<times> 'w" where
  "describe_one ps a w =
     (let kind = media_attachment_kind a
      in case find (\<lambda>p. up_handles p = kind) ps of
           None \<Rightarrow> (None, w)
         | Some p \<Rightarrow>
             (case max_understanding_bytes kind of
                None \<Rightarrow> (None, w)
              | Some max_bytes \<Rightarrow>
                  if max_bytes < length (ma_data a) then (None, w)
                  else (case up_process p a w of
                          (Inr u, w1) \<Rightarrow> (Some u, w1)
                        | (Inl e, w1) \<Rightarrow> (None, w1))))"

fun describe_all ::
  "'w understanding_provider list \<Rightarrow> media_attachment list \<Rightarrow> 'w \<Rightarrow> understanding_output list \<times> 'w" where
  "describe_all ps [] w = ([], w)"
| "describe_all ps (a # as) w =
     (case describe_one ps a w of
        (u, w1) \<Rightarrow> (case describe_all ps as w1 of (us, w2) \<Rightarrow> (case u of Some x \<Rightarrow> (x # us, w2) | None \<Rightarrow> (us, w2))))"

definition process_attachments ::
  "media_attachment list \<Rightarrow> 'w understanding_provider list \<Rightarrow> 'w \<Rightarrow> understanding_output list \<times> 'w" where
  "process_attachments as ps w =
     (case describe_all ps as w of (us, w1) \<Rightarrow> (sort_key uo_attachment_index us, w1))"

primrec understanding_label :: "understanding_kind \<Rightarrow> string" where
  "understanding_label ImageDescription = ''Image description''"
| "understanding_label AudioTranscription = ''Audio transcription''"

definition format_as_context :: "understanding_output list \<Rightarrow> string" where
  "format_as_context us =
     join [newline, newline] (map (\<lambda>u. ''['' @ understanding_label (uo_kind u) @ '']: '' @ uo_text u) us)"

section \<open>The services\<close>

record 'w understanding_env = "'w http_env" +
  ux_base64 :: "u8 list \<Rightarrow> string"

definition describe_prompt :: string where
  "describe_prompt =
     ''Describe this image concisely. Focus on the key content, text visible, and any important details.''"

text \<open>A call whose answer is JSON, with the names of its errors.\<close>

definition understanding_call ::
  "('w, 'm) http_env_scheme \<Rightarrow> string \<Rightarrow> string \<Rightarrow> http_call \<Rightarrow> 'w \<Rightarrow> (frank_error + json) \<times> 'w" where
  "understanding_call hx pre service call w =
     (case hx_send hx call w of
        (Inl e, w1) \<Rightarrow> (Inl (ModelProvider (pre @ ''request failed: '' @ e)), w1)
      | (Inr a, w1) \<Rightarrow>
          if \<not> answer_success a
          then (Inl (ModelProvider (pre @ ''HTTP '' @ answer_status a @ '': '' @ ha_text a)), w1)
          else (case ha_json a of
                  Inl e \<Rightarrow> (Inl (ModelProvider (service @ '': invalid JSON response: '' @ e)), w1)
                | Inr v \<Rightarrow> (Inr v, w1)))"

definition json_item :: "json \<Rightarrow> nat \<Rightarrow> json" where
  "json_item v n = (case json_nth v n of Some x \<Rightarrow> x | None \<Rightarrow> JNull)"

definition image_described :: "media_attachment \<Rightarrow> string \<Rightarrow> understanding_output" where
  "image_described a text =
     \<lparr>uo_kind = ImageDescription, uo_attachment_index = ma_index a, uo_text = text\<rparr>"

definition bearer_header :: "string \<Rightarrow> string \<times> string" where
  "bearer_header key = (''Authorization'', ''Bearer '' @ key)"

subsection \<open>OpenAI\<close>

definition vision_request :: "'w understanding_env \<Rightarrow> string \<Rightarrow> media_attachment \<Rightarrow> json" where
  "vision_request ux model a =
     JObject
       [(''model'', JString model), (''max_tokens'', JUInt 512),
        (''messages'', JArray [JObject
          [(''role'', JString ''user''),
           (''content'', JArray
             [JObject [(''type'', JString ''text''), (''text'', JString describe_prompt)],
              JObject
                [(''type'', JString ''image_url''),
                 (''image_url'', JObject
                   [(''url'', JString (''data:'' @ ma_mime a @ '';base64,'' @ ux_base64 ux (ma_data a)))])]])]])]"

definition vision_provider ::
  "'w understanding_env \<Rightarrow> string \<Rightarrow> string \<Rightarrow> string \<Rightarrow> 'w understanding_provider" where
  "vision_provider ux api_base key model =
     \<lparr>up_id = ''vision'', up_handles = MediaImage,
      up_process = (\<lambda>a w.
        case understanding_call ux [] ''vision''
               \<lparr>hc_method = ''POST'', hc_url = api_base @ ''/chat/completions'', hc_headers = [bearer_header key],
                hc_body = JsonBody (vision_request ux model a)\<rparr> w of
          (Inl e, w1) \<Rightarrow> (Inl e, w1)
        | (Inr v, w1) \<Rightarrow>
            (Inr (image_described a (str_or ''(no description)''
               (json_path (json_item (json_at v ''choices'') 0) [''message'', ''content'']))), w1))\<rparr>"

subsection \<open>Whisper\<close>

definition whisper_filename :: "media_attachment \<Rightarrow> string" where
  "whisper_filename a =
     (case ma_filename a of Some f \<Rightarrow> f | None \<Rightarrow> ''audio.'' @ safe_extension_for_mime (ma_mime a))"

definition whisper_provider ::
  "'w understanding_env \<Rightarrow> string \<Rightarrow> string \<Rightarrow> string \<Rightarrow> 'w understanding_provider" where
  "whisper_provider ux api_base key model =
     \<lparr>up_id = ''whisper'', up_handles = MediaAudio,
      up_process = (\<lambda>a w.
        case hx_mime_error ux (ma_mime a) of
          Some e \<Rightarrow> (Inl (ModelProvider (''invalid MIME type: '' @ e)), w)
        | None \<Rightarrow>
            (case understanding_call ux [] ''whisper''
                    \<lparr>hc_method = ''POST'', hc_url = api_base @ ''/audio/transcriptions'',
                     hc_headers = [bearer_header key],
                     hc_body = FormBody
                       [(''model'', FormText model), (''response_format'', FormText ''json''),
                        (''file'', FormFile (whisper_filename a) (ma_mime a) (ma_data a))]\<rparr> w of
               (Inl e, w1) \<Rightarrow> (Inl e, w1)
             | (Inr v, w1) \<Rightarrow>
                 (let text = str_or [] (json_at v ''text'')
                  in if text = [] then (Inl (ModelProvider ''transcription returned empty text''), w1)
                     else (Inr \<lparr>uo_kind = AudioTranscription, uo_attachment_index = ma_index a,
                                uo_text = text\<rparr>, w1))))\<rparr>"

subsection \<open>Anthropic\<close>

definition anthropic_vision_request :: "'w understanding_env \<Rightarrow> string \<Rightarrow> media_attachment \<Rightarrow> json" where
  "anthropic_vision_request ux model a =
     JObject
       [(''model'', JString model), (''max_tokens'', JUInt 512),
        (''messages'', JArray [JObject
          [(''role'', JString ''user''),
           (''content'', JArray
             [JObject
                [(''type'', JString ''image''),
                 (''source'', JObject
                   [(''type'', JString ''base64''), (''media_type'', JString (ma_mime a)),
                    (''data'', JString (ux_base64 ux (ma_data a)))])],
              JObject [(''type'', JString ''text''), (''text'', JString describe_prompt)]])]])]"

definition anthropic_vision_provider ::
  "'w understanding_env \<Rightarrow> string \<Rightarrow> string \<Rightarrow> string \<Rightarrow> 'w understanding_provider" where
  "anthropic_vision_provider ux api_base key model =
     \<lparr>up_id = ''anthropic-vision'', up_handles = MediaImage,
      up_process = (\<lambda>a w.
        case understanding_call ux ''anthropic vision '' ''anthropic vision''
               \<lparr>hc_method = ''POST'', hc_url = api_base @ ''/v1/messages'',
                hc_headers = [(''x-api-key'', key), (''anthropic-version'', ''2023-06-01''),
                  (''content-type'', ''application/json'')],
                hc_body = JsonBody (anthropic_vision_request ux model a)\<rparr> w of
          (Inl e, w1) \<Rightarrow> (Inl e, w1)
        | (Inr v, w1) \<Rightarrow>
            (Inr (image_described a (str_or ''(no description)''
               (json_at (json_item (json_at v ''content'') 0) ''text''))), w1))\<rparr>"

subsection \<open>Ollama\<close>

definition ollama_vision_request :: "'w understanding_env \<Rightarrow> string \<Rightarrow> media_attachment \<Rightarrow> json" where
  "ollama_vision_request ux model a =
     JObject
       [(''model'', JString model), (''prompt'', JString describe_prompt),
        (''images'', JArray [JString (ux_base64 ux (ma_data a))]), (''stream'', JBool False)]"

definition ollama_vision_provider ::
  "'w understanding_env \<Rightarrow> string \<Rightarrow> string \<Rightarrow> 'w understanding_provider" where
  "ollama_vision_provider ux api_base model =
     \<lparr>up_id = ''ollama-vision'', up_handles = MediaImage,
      up_process = (\<lambda>a w.
        case understanding_call ux ''ollama vision '' ''ollama vision''
               \<lparr>hc_method = ''POST'', hc_url = api_base @ ''/api/generate'', hc_headers = [],
                hc_body = JsonBody (ollama_vision_request ux model a)\<rparr> w of
          (Inl e, w1) \<Rightarrow> (Inl e, w1)
        | (Inr v, w1) \<Rightarrow>
            (let text = trim (str_or ''(no description)'' (json_at v ''response''))
             in if text = [] then (Inl (ModelProvider ''ollama vision returned empty response''), w1)
                else (Inr (image_described a text), w1)))\<rparr>"

section \<open>The chain\<close>

primrec media_kind_text :: "media_kind \<Rightarrow> string" where
  "media_kind_text MediaImage = ''Image''"
| "media_kind_text MediaAudio = ''Audio''"
| "media_kind_text MediaVideo = ''Video''"
| "media_kind_text MediaDocument = ''Document''"
| "media_kind_text MediaUnknown = ''Unknown''"

fun try_providers ::
  "frank_error \<Rightarrow> 'w understanding_provider list \<Rightarrow> media_attachment \<Rightarrow> 'w \<Rightarrow>
     (frank_error + understanding_output) \<times> 'w" where
  "try_providers failed [] a w = (Inl failed, w)"
| "try_providers failed (p # ps) a w =
     (case up_process p a w of
        (Inr u, w1) \<Rightarrow> (Inr u, w1)
      | (Inl e, w1) \<Rightarrow> try_providers e ps a w1)"

definition chain_process ::
  "'w understanding_provider list \<Rightarrow> media_attachment \<Rightarrow> 'w \<Rightarrow> (frank_error + understanding_output) \<times> 'w" where
  "chain_process ps a w =
     (let kind = media_attachment_kind a; matching = filter (\<lambda>p. up_handles p = kind) ps
      in if matching = []
         then (Inl (ModelProvider (''no understanding provider for '' @ media_kind_text kind)), w)
         else try_providers (ModelProvider ''all understanding providers failed'') matching a w)"

record understanding_config =
  uc_enabled :: bool
  uc_vision_provider :: string
  uc_vision_model :: "string option"
  uc_vision_base_url :: "string option"
  uc_vision_api_key_ref :: "string option"
  uc_transcription_provider :: string
  uc_transcription_model :: "string option"
  uc_transcription_base_url :: "string option"
  uc_transcription_api_key_ref :: "string option"
  uc_auto_transcribe_voice :: bool

definition default_understanding :: understanding_config where
  "default_understanding =
     \<lparr>uc_enabled = False, uc_vision_provider = ''none'', uc_vision_model = None, uc_vision_base_url = None,
      uc_vision_api_key_ref = None, uc_transcription_provider = ''none'', uc_transcription_model = None,
      uc_transcription_base_url = None, uc_transcription_api_key_ref = None,
      uc_auto_transcribe_voice = False\<rparr>"

definition resolve_api_key :: "(string \<rightharpoonup> string) \<Rightarrow> string option \<Rightarrow> string option" where
  "resolve_api_key env r =
     Option.bind r (\<lambda>name. Option.bind (env name) (\<lambda>v. if trim v = [] then None else Some v))"

definition default_to :: "string \<Rightarrow> string option \<Rightarrow> string" where
  "default_to d v = (case v of Some x \<Rightarrow> x | None \<Rightarrow> d)"

text \<open>
  \<open>client\<close> says whether the HTTP library builds a client. Without one two of the services are left out, and
  the code expects one for the others: \<open>None\<close> is the panic.
\<close>

definition vision_from_config ::
  "'w understanding_env \<Rightarrow> (string \<rightharpoonup> string) \<Rightarrow> bool \<Rightarrow> understanding_config \<Rightarrow>
     'w understanding_provider list option" where
  "vision_from_config ux env client c =
     (let key = resolve_api_key env (uc_vision_api_key_ref c)
      in if uc_vision_provider c = ''openai''
         then Some (case key of
                None \<Rightarrow> []
              | Some k \<Rightarrow>
                  if client
                  then [vision_provider ux (default_to ''https://api.openai.com/v1'' (uc_vision_base_url c)) k
                          (default_to ''gpt-4o'' (uc_vision_model c))]
                  else [])
         else if uc_vision_provider c = ''anthropic''
         then (case key of
                 None \<Rightarrow> Some []
               | Some k \<Rightarrow>
                   if client
                   then Some [anthropic_vision_provider ux
                          (default_to ''https://api.anthropic.com'' (uc_vision_base_url c)) k
                          (default_to ''claude-sonnet-4-20250514'' (uc_vision_model c))]
                   else None)
         else if uc_vision_provider c = ''ollama''
         then (if client
               then Some [ollama_vision_provider ux
                      (default_to ''http://localhost:11434'' (uc_vision_base_url c))
                      (default_to ''llava'' (uc_vision_model c))]
               else None)
         else Some [])"

definition transcription_from_config ::
  "'w understanding_env \<Rightarrow> (string \<rightharpoonup> string) \<Rightarrow> bool \<Rightarrow> understanding_config \<Rightarrow>
     'w understanding_provider list" where
  "transcription_from_config ux env client c =
     (if uc_transcription_provider c = ''openai''
      then (case resolve_api_key env (uc_transcription_api_key_ref c) of
              None \<Rightarrow> []
            | Some k \<Rightarrow>
                if client
                then [whisper_provider ux
                        (default_to ''https://api.openai.com/v1'' (uc_transcription_base_url c)) k
                        (default_to ''whisper-1'' (uc_transcription_model c))]
                else [])
      else [])"

definition understanding_from_config ::
  "'w understanding_env \<Rightarrow> (string \<rightharpoonup> string) \<Rightarrow> bool \<Rightarrow> understanding_config \<Rightarrow>
     'w understanding_provider list option" where
  "understanding_from_config ux env client c =
     (if \<not> uc_enabled c then Some []
      else map_option (\<lambda>vs. vs @ transcription_from_config ux env client c)
             (vision_from_config ux env client c))"

section \<open>The turn of an agent (runtime/lib.rs)\<close>

text \<open>The attachments of a request that are described: those of a message with an address, without their content.\<close>

definition described_attachment :: "nat \<times> inbound_attachment \<Rightarrow> media_attachment option" where
  "described_attachment ia =
     (case ia of (i, a) \<Rightarrow>
        if starts_with (ia_mime_type a) ''image/'' \<or> starts_with (ia_mime_type a) ''audio/''
        then map_option (\<lambda>_. \<lparr>ma_data = [], ma_mime = ia_mime_type a, ma_filename = ia_filename a, ma_index = i\<rparr>)
               (ia_url a)
        else None)"

definition describe_request ::
  "'w understanding_provider list \<Rightarrow> inbound_attachment list \<Rightarrow> 'w \<Rightarrow> string \<times> 'w" where
  "describe_request ps attachments w =
     (if ps = [] then ([], w)
      else (let media = List.map_filter described_attachment (enumerate 0 attachments)
            in if media = [] then ([], w)
               else (case process_attachments media ps w of (us, w1) \<Rightarrow> (format_as_context us, w1))))"

section \<open>Descriptions keep the order of the message\<close>

lemma sorted_subseq: "subseq xs ys \<Longrightarrow> sorted ys \<Longrightarrow> sorted xs"
proof (induction rule: list_emb.induct)
  case (list_emb_Cons2 x y xs ys)
  then have "set xs \<subseteq> set ys" by (auto dest: list_emb_set)
  then show ?case using list_emb_Cons2 by auto
qed simp_all

lemma find_later: "(P q \<Longrightarrow> \<exists>p\<in>set ps. P p) \<Longrightarrow> find P (ps @ q # qs) = find P (ps @ qs)"
  by (induction ps) auto

lemma map_filter_map: "List.map_filter f xs = List.map_filter id (map f xs)"
  by (induction xs) (simp_all add: List.map_filter_simps split: option.split)

locale describing =
  fixes ps :: "'w understanding_provider list"
  assumes index_kept: "p \<in> set ps \<Longrightarrow> up_process p a w = (Inr u, w1) \<Longrightarrow> uo_attachment_index u = ma_index a"
begin

lemma one_index: "describe_one ps a w = (Some u, w1) \<Longrightarrow> uo_attachment_index u = ma_index a"
  by (auto simp: describe_one_def Let_def find_Some_iff split: option.splits if_splits prod.splits sum.splits
      intro: index_kept nth_mem)

lemma all_indices:
  "describe_all ps as w = (us, w1) \<Longrightarrow> subseq (map uo_attachment_index us) (map ma_index as)"
  by (induction as arbitrary: w us w1) (auto split: prod.splits option.splits dest: one_index)

text \<open>The descriptions are in the order of the message already; sorting them changes nothing.\<close>

lemma order_kept:
  assumes "sorted (map ma_index as)"
  shows "process_attachments as ps w = describe_all ps as w"
proof -
  obtain us w1 where d: "describe_all ps as w = (us, w1)" by fastforce
  have "sorted (map uo_attachment_index us)"
    using all_indices [OF d] assms by (rule sorted_subseq)
  then show ?thesis by (simp add: process_attachments_def d sort_key_id_if_sorted)
qed

end

lemma understanding_call_ok:
  "understanding_call hx pre service call w = (Inr v, w1) \<longleftrightarrow>
     (\<exists>a. hx_send hx call w = (Inr a, w1) \<and> answer_success a \<and> ha_json a = Inr v)"
  by (auto simp: understanding_call_def split: prod.splits sum.splits if_splits)

definition service :: "'w understanding_env \<Rightarrow> 'w understanding_provider \<Rightarrow> bool" where
  "service ux p \<longleftrightarrow>
     (\<exists>base key model. p = vision_provider ux base key model) \<or>
     (\<exists>base key model. p = whisper_provider ux base key model) \<or>
     (\<exists>base key model. p = anthropic_vision_provider ux base key model) \<or>
     (\<exists>base model. p = ollama_vision_provider ux base model)"

lemma services [simp]:
  "service ux (vision_provider ux base key model)" "service ux (whisper_provider ux base key model)"
  "service ux (anthropic_vision_provider ux base key model)" "service ux (ollama_vision_provider ux base model)"
  unfolding service_def by blast+

lemma vision_index:
  "up_process (vision_provider ux base key model) a w = (Inr u, w1) \<Longrightarrow> uo_attachment_index u = ma_index a"
  by (auto simp: vision_provider_def image_described_def split: prod.splits sum.splits)

lemma whisper_index:
  "up_process (whisper_provider ux base key model) a w = (Inr u, w1) \<Longrightarrow> uo_attachment_index u = ma_index a"
  by (auto simp: whisper_provider_def Let_def split: prod.splits sum.splits option.splits if_splits)

lemma anthropic_vision_index:
  "up_process (anthropic_vision_provider ux base key model) a w = (Inr u, w1) \<Longrightarrow>
   uo_attachment_index u = ma_index a"
  by (auto simp: anthropic_vision_provider_def image_described_def split: prod.splits sum.splits)

lemma ollama_vision_index:
  "up_process (ollama_vision_provider ux base model) a w = (Inr u, w1) \<Longrightarrow> uo_attachment_index u = ma_index a"
  by (auto simp: ollama_vision_provider_def image_described_def Let_def split: prod.splits sum.splits if_splits)

lemma service_index:
  "service ux p \<Longrightarrow> up_process p a w = (Inr u, w1) \<Longrightarrow> uo_attachment_index u = ma_index a"
  unfolding service_def
  by (elim disjE exE)
    (simp_all add: vision_index whisper_index anthropic_vision_index ollama_vision_index)

definition configured :: "'w understanding_provider list option \<Rightarrow> 'w understanding_provider list" where
  "configured ps = (case ps of Some xs \<Rightarrow> xs | None \<Rightarrow> [])"

lemma configured_services:
  "list_all (service ux) (configured (understanding_from_config ux env client c))"
  by (simp add: understanding_from_config_def vision_from_config_def transcription_from_config_def
      configured_def Let_def split: option.split)

interpretation services: describing "configured (understanding_from_config ux env client c)"
  using configured_services [of ux env client c]
  by unfold_locales (auto simp: list_all_iff intro: service_index)

section \<open>What is sent, and when\<close>

text \<open>Each batch describes images and audio within their limits only; nothing else is sent.\<close>

definition describable :: "'w understanding_provider list \<Rightarrow> media_attachment \<Rightarrow> bool" where
  "describable ps a \<longleftrightarrow>
     (\<exists>p\<in>set ps. up_handles p = media_attachment_kind a) \<and>
     (\<exists>n. max_understanding_bytes (media_attachment_kind a) = Some n \<and> length (ma_data a) \<le> n)"

lemma undescribable_not_sent: "\<not> describable ps a \<Longrightarrow> describe_one ps a w = (None, w)"
  by (auto simp: describable_def describe_one_def Let_def find_Some_iff not_le split: option.splits)

lemma undescribable_ignored:
  "describe_all ps (filter (describable ps) as) w = describe_all ps as w"
  by (induction as arbitrary: w) (auto simp: undescribable_not_sent split: prod.splits)

text \<open>The provider of a kind is the first: a failure is not followed by the next, as in the chain.\<close>

lemma second_provider_unused:
  assumes "p \<in> set ps" "up_handles q = up_handles p"
  shows "process_attachments as (ps @ q # qs) = process_attachments as (ps @ qs)"
proof -
  have "find (\<lambda>p. up_handles p = k) (ps @ q # qs) = find (\<lambda>p. up_handles p = k) (ps @ qs)" for k
    using assms by (intro find_later) auto
  then have "describe_one (ps @ q # qs) = describe_one (ps @ qs)" by (intro ext) (simp add: describe_one_def)
  then have "describe_all (ps @ q # qs) as w = describe_all (ps @ qs) as w" for w
    by (induction as arbitrary: w) simp_all
  then show ?thesis by (intro ext) (simp add: process_attachments_def)
qed

text \<open>The chain gives the first description, and the last error when every provider has failed.\<close>

lemma try_providers_first:
  "try_providers failed (failing @ p # ps) a w = (r, w2) \<Longrightarrow>
   list_all (\<lambda>q. \<forall>w. \<exists>e w1. up_process q a w = (Inl e, w1)) failing \<Longrightarrow>
   (\<And>w. \<exists>u w1. up_process p a w = (Inr u, w1)) \<Longrightarrow> \<exists>w1. up_process p a w1 = (r, w2)"
proof (induction failing arbitrary: failed w)
  case Nil
  obtain u w1 where "up_process p a w = (Inr u, w1)" using Nil(3) by blast
  then show ?case using Nil(1) by auto
next
  case (Cons q failing)
  obtain e w1 where "up_process q a w = (Inl e, w1)" using Cons.prems(2) by fastforce
  then show ?case using Cons by auto
qed

lemma chain_tries_all:
  assumes "\<exists>p\<in>set ps. up_handles p = media_attachment_kind a \<and> (\<forall>w. \<exists>u w1. up_process p a w = (Inr u, w1))"
  shows "\<exists>u w1. chain_process ps a w = (Inr u, w1)"
proof -
  have "\<exists>u w1. try_providers e qs a w = (Inr u, w1)"
    if "\<exists>p\<in>set qs. \<forall>w. \<exists>u w1. up_process p a w = (Inr u, w1)" for qs e w
    using that
  proof (induction qs arbitrary: e w)
    case (Cons q qs)
    obtain r w1 where q: "up_process q a w = (r, w1)" by fastforce
    show ?case
    proof (cases r)
      case (Inl e1)
      then have "\<not> (\<forall>w. \<exists>u w1. up_process q a w = (Inr u, w1))" using q by (metis Inl_Inr_False prod.inject)
      then have "\<exists>p\<in>set qs. \<forall>w. \<exists>u w1. up_process p a w = (Inr u, w1)"
        using Cons.prems unfolding list.set by blast
      then show ?thesis using Cons.IH [of e1 w1] q Inl by simp
    qed (simp add: q)
  qed simp
  note tried = this
  let ?ps = "filter (\<lambda>p. up_handles p = media_attachment_kind a) ps"
  have m: "\<exists>p\<in>set ?ps. \<forall>w. \<exists>u w1. up_process p a w = (Inr u, w1)" using assms unfolding set_filter by blast
  have "?ps \<noteq> []" using assms by (auto simp: filter_empty_conv)
  then show ?thesis using tried [OF m] by (simp add: chain_process_def Let_def)
qed

text \<open>The chain has no limit of size: what the batch skips is sent by the chain.\<close>

lemma chain_sends_oversize:
  assumes "media_attachment_kind a = MediaImage" "up_handles p = MediaImage"
    "max_image_bytes < length (ma_data a)"
  shows "chain_process [p] a w = try_providers (ModelProvider ''all understanding providers failed'') [p] a w"
    "process_attachments [a] [p] w = ([], w)"
  using assms
  by (simp_all add: chain_process_def process_attachments_def describe_one_def max_understanding_bytes_def Let_def)

section \<open>The runtime sends no content\<close>

lemma described_empty: "described_attachment ia = Some m \<Longrightarrow> ma_data m = []"
  by (auto simp: described_attachment_def split: prod.splits if_splits)

text \<open>
  Two requests whose attachments have the same types and names, and both have addresses, are described in
  the same way: neither the address nor the content reaches a provider.
\<close>

lemma content_never_described:
  assumes "map (\<lambda>a. (ia_mime_type a, ia_filename a, ia_url a = None)) as =
    map (\<lambda>a. (ia_mime_type a, ia_filename a, ia_url a = None)) bs"
  shows "describe_request ps as = describe_request ps bs"
proof -
  have "map described_attachment (enumerate n as) = map described_attachment (enumerate n bs)" for n
    using assms
  proof (induction as arbitrary: n bs)
    case (Cons a as)
    then obtain b bs' where b: "bs = b # bs'"
      "(ia_mime_type a, ia_filename a, ia_url a = None) = (ia_mime_type b, ia_filename b, ia_url b = None)"
      "map (\<lambda>a. (ia_mime_type a, ia_filename a, ia_url a = None)) as =
       map (\<lambda>a. (ia_mime_type a, ia_filename a, ia_url a = None)) bs'"
      by (cases bs) auto
    then have "described_attachment (n, a) = described_attachment (n, b)"
      by (cases "ia_url a"; cases "ia_url b") (auto simp: described_attachment_def)
    then show ?case using Cons.IH [OF b(3)] b(1) by simp
  qed simp
  then have "List.map_filter described_attachment (enumerate 0 as) = List.map_filter described_attachment (enumerate 0 bs)"
    by (subst (1 2) map_filter_map) simp
  then show ?thesis by (intro ext) (simp add: describe_request_def)
qed

end
