(* ===== verification/Aria.thy ===== *)
theory Aria
  imports Model_Wire "HOL-Library.Product_Lexorder" "HOL-Library.Multiset_Order"
begin

text \<open>
  The snapshot of an accessibility tree (\<open>frankclaw-tools/src/aria.rs\<close>). The recursion over the children is
  a function on the list of nodes still to be visited; whether it ends depends on the tree, so it is
  a partial function: \<open>None\<close> is a call that does not return, and \<open>Some None\<close> a panic of a slice. The
  lemmas show when it returns, and that the references name the printed elements one after the other.
\<close>

section \<open>Nodes and roles\<close>

abbreviation dquote :: char where
  "dquote \<equiv> CHR 0x22"

record role_ref =
  rr_role :: string
  rr_name :: string
  rr_nth :: "nat option"

record aria_options =
  ao_interactive_only :: bool
  ao_max_depth :: nat

definition default_aria_options :: aria_options where
  "default_aria_options = \<lparr>ao_interactive_only = False, ao_max_depth = 20\<rparr>"

definition interactive_roles :: "string list" where
  "interactive_roles =
     [''button'', ''link'', ''textbox'', ''checkbox'', ''radio'', ''combobox'', ''listbox'', ''menuitem'',
      ''menuitemcheckbox'', ''menuitemradio'', ''option'', ''searchbox'', ''slider'', ''spinbutton'',
      ''switch'', ''tab'', ''treeitem'']"

definition content_roles :: "string list" where
  "content_roles =
     [''heading'', ''cell'', ''columnheader'', ''rowheader'', ''listitem'', ''img'', ''figure'', ''status'',
      ''alert'', ''dialog'', ''tooltip'', ''banner'', ''navigation'', ''main'', ''complementary'',
      ''contentinfo'', ''form'', ''region'', ''article'', ''document'']"

definition structural_roles :: "string list" where
  "structural_roles =
     [''generic'', ''group'', ''list'', ''table'', ''row'', ''grid'', ''gridcell'', ''presentation'', ''none'',
      ''separator'', ''toolbar'', ''menu'', ''menubar'', ''tablist'', ''tabpanel'', ''tree'', ''treegrid'',
      ''directory'', ''feed'', ''log'', ''marquee'', ''timer'', ''application'', ''paragraph'',
      ''blockquote'', ''section'', ''WebArea'', ''RootWebArea'']"

definition is_interactive :: "string \<Rightarrow> bool" where
  "is_interactive role \<longleftrightarrow> role \<in> set interactive_roles"

definition is_content :: "string \<Rightarrow> bool" where
  "is_content role \<longleftrightarrow> role \<in> set content_roles"

definition is_structural :: "string \<Rightarrow> bool" where
  "is_structural role \<longleftrightarrow> role \<in> set structural_roles"

record ax_node =
  an_node_id :: string
  an_role :: string
  an_name :: string
  an_value :: string
  an_parent_id :: "string option"
  an_children_ids :: "string list"
  an_ignored :: bool

definition extract_ax_node :: "json \<Rightarrow> ax_node" where
  "extract_ax_node node =
     \<lparr>an_node_id = str_or [] (json_at node ''nodeId''),
      an_role = str_or ''generic'' (json_path node [''role'', ''value'']),
      an_name = str_or [] (json_path node [''name'', ''value'']),
      an_value = str_or [] (json_path node [''value'', ''value'']),
      an_parent_id = as_str (json_at node ''parentId''),
      an_children_ids =
        (case as_array (json_at node ''childIds'') of Some arr \<Rightarrow> List.map_filter as_str arr | None \<Rightarrow> []),
      an_ignored = (case as_bool (json_at node ''ignored'') of Some b \<Rightarrow> b | None \<Rightarrow> False)\<rparr>"

text \<open>The length counts bytes and so does the cut.\<close>

definition truncate_name :: "string \<Rightarrow> nat \<Rightarrow> string option" where
  "truncate_name name max_len =
     (if length name \<le> max_len then Some name
      else map_option (\<lambda>s. s @ ''...'') (slice_to name (max_len - 3)))"

section \<open>The text\<close>

record aria_state =
  at_output :: string
  at_refs :: "(string \<times> role_ref) list"
  at_counter :: nat

definition counted :: "ax_node \<Rightarrow> bool" where
  "counted n \<longleftrightarrow> \<not> an_ignored n \<and> an_name n \<noteq> [] \<and> (is_interactive (an_role n) \<or> is_content (an_role n))"

definition role_name_count :: "ax_node list \<Rightarrow> string \<Rightarrow> string \<Rightarrow> nat option" where
  "role_name_count ns role name =
     (let k = length (filter (\<lambda>n. counted n \<and> an_role n = role \<and> an_name n = name) ns)
      in if k = 0 then None else Some k)"

definition should_print :: "aria_options \<Rightarrow> ax_node \<Rightarrow> bool" where
  "should_print opts n \<longleftrightarrow>
     (if ao_interactive_only opts then is_interactive (an_role n)
      else is_interactive (an_role n) \<or> is_content (an_role n) \<or>
        (is_structural (an_role n) \<and> an_name n \<noteq> []))"

definition nth_of :: "(string \<Rightarrow> string \<Rightarrow> nat option) \<Rightarrow> ax_node \<Rightarrow> (string \<times> role_ref) list \<Rightarrow> nat option" where
  "nth_of counts n refs =
     (if an_name n \<noteq> [] \<and> 1 < (case counts (an_role n) (an_name n) of Some k \<Rightarrow> k | None \<Rightarrow> 1)
      then Some (length (filter (\<lambda>(_, r). rr_role r = an_role n \<and> rr_name r = an_name n) refs) + 1)
      else None)"

definition print_node ::
  "(string \<Rightarrow> string \<Rightarrow> nat option) \<Rightarrow> nat \<Rightarrow> ax_node \<Rightarrow> aria_state \<Rightarrow> aria_state option" where
  "print_node counts depth n st =
     (let counter = at_counter st + 1;
          ref_id = CHR ''e'' # show_nat counter;
          nth = nth_of counts n (at_refs st)
      in case (if an_name n = [] then Some []
               else map_option (\<lambda>t. [CHR '' '', dquote] @ t @ [dquote]) (truncate_name (an_name n) 80)) of
           None \<Rightarrow> None
         | Some name_part \<Rightarrow>
             (case (if an_value n = [] then Some []
                    else map_option (\<lambda>t. '' value='' @ [dquote] @ t @ [dquote]) (truncate_name (an_value n) 40)) of
                None \<Rightarrow> None
              | Some value_part \<Rightarrow>
                  Some
                    \<lparr>at_output = at_output st @ concat (replicate depth ''  '') @ ''- '' @ an_role n @ name_part @
                       value_part @ '' [ref='' @ ref_id @ '']'' @
                       (case nth of Some k \<Rightarrow> '' nth='' @ show_nat k | None \<Rightarrow> []) @ [newline],
                     at_refs = at_refs st @
                       [(ref_id, \<lparr>rr_role = an_role n, rr_name = an_name n, rr_nth = nth\<rparr>)],
                     at_counter = counter\<rparr>))"

definition visited :: "aria_options \<Rightarrow> (string \<rightharpoonup> ax_node) \<Rightarrow> string \<Rightarrow> nat \<Rightarrow> ax_node option" where
  "visited opts m i depth =
     (if ao_max_depth opts < depth then None
      else (case m i of Some n \<Rightarrow> if an_ignored n then None else Some n | None \<Rightarrow> None))"

partial_function (option) render_nodes ::
  "aria_options \<Rightarrow> (string \<rightharpoonup> ax_node) \<Rightarrow> (string \<Rightarrow> string \<Rightarrow> nat option) \<Rightarrow> (string \<times> nat) list \<Rightarrow>
     aria_state \<Rightarrow> aria_state option option" where
  "render_nodes opts m counts work st =
     (case work of
        [] \<Rightarrow> Some (Some st)
      | (i, depth) # rest \<Rightarrow>
          (case visited opts m i depth of
             None \<Rightarrow> render_nodes opts m counts rest st
           | Some n \<Rightarrow>
               if should_print opts n
               then (case print_node counts depth n st of
                       None \<Rightarrow> Some None
                     | Some st1 \<Rightarrow>
                         render_nodes opts m counts (map (\<lambda>c. (c, depth + 1)) (an_children_ids n) @ rest) st1)
               else render_nodes opts m counts (map (\<lambda>c. (c, depth)) (an_children_ids n) @ rest) st))"

declare render_nodes.simps [code]

definition node_map :: "ax_node list \<Rightarrow> string \<rightharpoonup> ax_node" where
  "node_map ns = map_of (rev (map (\<lambda>n. (an_node_id n, n)) ns))"

definition aria_roots :: "ax_node list \<Rightarrow> string list" where
  "aria_roots ns =
     map an_node_id
       (filter (\<lambda>n. case an_parent_id n of Some p \<Rightarrow> node_map ns p = None | None \<Rightarrow> True)
         (filter (\<lambda>n. \<not> an_ignored n) ns))"

definition build_role_snapshot ::
  "json list \<Rightarrow> aria_options \<Rightarrow> (string \<times> (string \<times> role_ref) list) option option" where
  "build_role_snapshot nodes opts =
     (if nodes = [] then Some (Some ([], []))
      else (let ns = map extract_ax_node nodes
            in map_option (map_option (\<lambda>st. (at_output st, at_refs st)))
                 (render_nodes opts (node_map ns) (role_name_count ns) (map (\<lambda>i. (i, 0)) (aria_roots ns))
                    \<lparr>at_output = [], at_refs = [], at_counter = 0\<rparr>)))"

section \<open>When the snapshot ends\<close>

text \<open>
  Printed nodes go deeper, and the depth is limited. It is enough that no cycle of nodes consists of nodes
  that are not printed.
\<close>

definition quiet_rank :: "aria_options \<Rightarrow> (string \<rightharpoonup> ax_node) \<Rightarrow> (string \<Rightarrow> nat) \<Rightarrow> bool" where
  "quiet_rank opts m rank \<longleftrightarrow>
     (\<forall>i n c. m i = Some n \<longrightarrow> \<not> should_print opts n \<longrightarrow> c \<in> set (an_children_ids n) \<longrightarrow> rank c < rank i)"

lemma mset_replace_less:
  assumes "\<forall>x\<in>set xs. (x :: 'a :: linorder) < y"
  shows "mset (xs @ zs) < mset (y # zs)"
proof -
  have "mset xs < {#y#}"
    by (rule ex_gt_imp_less_multiset) (use assms in auto)
  then show ?thesis by simp
qed

lemma render_nodes_returns:
  assumes "quiet_rank opts m rank"
  shows "\<exists>r. render_nodes opts m counts work st = Some r"
proof (induction work arbitrary: st rule: measure_induct_rule [where f = "\<lambda>w. mset (map (\<lambda>(i, d). (Suc (ao_max_depth opts) - d, rank i)) w)"])
  case (less work)
  show ?case
  proof (cases work)
    case Nil
    then show ?thesis by (simp add: render_nodes.simps)
  next
    case (Cons x rest)
    obtain i d where x: "x = (i, d)" by fastforce
    show ?thesis
    proof (cases "visited opts m i d")
      case None
      have "mset (map (\<lambda>(i, d). (Suc (ao_max_depth opts) - d, rank i)) rest) <
          mset (map (\<lambda>(i, d). (Suc (ao_max_depth opts) - d, rank i)) work)"
        by (simp add: Cons)
      then show ?thesis using less.IH None Cons x by (subst render_nodes.simps) simp
    next
      case (Some n)
      then have n: "d \<le> ao_max_depth opts" "m i = Some n"
        by (auto simp: visited_def split: if_splits option.splits)
      let ?w = "\<lambda>(i, d). (Suc (ao_max_depth opts) - d, rank i)"
      have deeper: "mset (map ?w (map (\<lambda>c. (c, d + 1)) (an_children_ids n) @ rest)) < mset (map ?w work)"
        unfolding Cons x map_append list.map(2)
        by (rule mset_replace_less) (use n in auto)
      have quiet: "mset (map ?w (map (\<lambda>c. (c, d)) (an_children_ids n) @ rest)) < mset (map ?w work)"
        if "\<not> should_print opts n"
        unfolding Cons x map_append list.map(2)
        by (rule mset_replace_less) (use assms n that in \<open>auto simp: quiet_rank_def\<close>)
      show ?thesis
        using less.IH [OF deeper] less.IH [OF quiet] Some Cons x
        by (subst render_nodes.simps) (auto split: option.split)
    qed
  qed
qed

text \<open>A node without a name that is its own child is enough for a snapshot that never ends.\<close>

lemma cycle_never_ends:
  assumes "m i = Some n" "\<not> an_ignored n" "\<not> should_print opts n" "an_children_ids n = [i]"
  shows "render_nodes opts m counts ((i, 0) # rest) st = None"
proof -
  have "oo = opts \<longrightarrow> mm = m \<longrightarrow> work \<noteq> (i, 0) # rest"
    if "render_nodes oo mm cc work s = Some r" for oo mm cc work s r
  proof (rule render_nodes.raw_induct [where P = "\<lambda>oo mm cc work s r. oo = opts \<longrightarrow> mm = m \<longrightarrow> work \<noteq> (i, 0) # rest", OF _ that])
    fix f oo mm cc work s r
    assume IH: "\<And>oo mm cc work s r. f oo mm cc work s = Some r \<Longrightarrow> oo = opts \<longrightarrow> mm = m \<longrightarrow> work \<noteq> (i, 0) # rest"
      and b: "(case work of [] \<Rightarrow> Some (Some s)
        | (i, depth) # rest \<Rightarrow>
            (case visited oo mm i depth of
               None \<Rightarrow> f oo mm cc rest s
             | Some n \<Rightarrow>
                 if should_print oo n
                 then (case print_node cc depth n s of
                         None \<Rightarrow> Some None
                       | Some st1 \<Rightarrow> f oo mm cc (map (\<lambda>c. (c, depth + 1)) (an_children_ids n) @ rest) st1)
                 else f oo mm cc (map (\<lambda>c. (c, depth)) (an_children_ids n) @ rest) s)) = Some r"
    show "oo = opts \<longrightarrow> mm = m \<longrightarrow> work \<noteq> (i, 0) # rest"
    proof (intro impI notI)
      assume "oo = opts" "mm = m" "work = (i, 0) # rest"
      then have "f opts m cc ((i, 0) # rest) s = Some r" using b assms by (simp add: visited_def)
      then show False using IH by blast
    qed
  qed
  then show ?thesis by fastforce
qed

section \<open>References\<close>

lemma render_invariant:
  assumes "render_nodes opts m counts work st = Some (Some st1)" "P st"
    and "\<And>d n s s1. print_node counts d n s = Some s1 \<Longrightarrow> P s \<Longrightarrow> P s1"
  shows "P st1"
proof -
  have "cc = counts \<longrightarrow> P s \<longrightarrow> (\<forall>s1. r = Some s1 \<longrightarrow> P s1)"
    if "render_nodes oo mm cc work s = Some r" for oo mm cc work s r
  proof (rule render_nodes.raw_induct [where P = "\<lambda>oo mm cc work s r. cc = counts \<longrightarrow> P s \<longrightarrow> (\<forall>s1. r = Some s1 \<longrightarrow> P s1)", OF _ that])
    fix f oo mm cc work s r
    assume IH: "\<And>oo mm cc work s r. f oo mm cc work s = Some r \<Longrightarrow> cc = counts \<longrightarrow> P s \<longrightarrow> (\<forall>s1. r = Some s1 \<longrightarrow> P s1)"
      and b: "(case work of [] \<Rightarrow> Some (Some s)
        | (i, depth) # rest \<Rightarrow>
            (case visited oo mm i depth of
               None \<Rightarrow> f oo mm cc rest s
             | Some n \<Rightarrow>
                 if should_print oo n
                 then (case print_node cc depth n s of
                         None \<Rightarrow> Some None
                       | Some st1 \<Rightarrow> f oo mm cc (map (\<lambda>c. (c, depth + 1)) (an_children_ids n) @ rest) st1)
                 else f oo mm cc (map (\<lambda>c. (c, depth)) (an_children_ids n) @ rest) s)) = Some r"
    show "cc = counts \<longrightarrow> P s \<longrightarrow> (\<forall>s1. r = Some s1 \<longrightarrow> P s1)"
    proof (intro impI allI)
      fix s1
      assume h: "cc = counts" "P s" "r = Some s1"
      show "P s1"
      proof (cases work)
        case Nil
        then show ?thesis using b h by simp
      next
        case (Cons x rest)
        obtain i d where x: "x = (i, d)" by fastforce
        show ?thesis
        proof (cases "visited oo mm i d")
          case None
          then show ?thesis using b h Cons x IH by auto
        next
          case (Some n)
          show ?thesis
          proof (cases "print_node cc d n s")
            case None
            then show ?thesis using b h Cons x Some IH by (auto split: if_splits)
          next
            case printed: (Some s2)
            then have "P s2" using assms(3) h by blast
            then show ?thesis using b h Cons x Some printed IH by (auto split: if_splits)
          qed
        qed
      qed
    qed
  qed
  then show ?thesis using assms by blast
qed

lemma print_node_refs:
  "print_node counts d n st = Some st1 \<Longrightarrow>
   at_counter st1 = at_counter st + 1 \<and>
   at_refs st1 = at_refs st @ [(CHR ''e'' # show_nat (at_counter st + 1),
     \<lparr>rr_role = an_role n, rr_name = an_name n, rr_nth = nth_of counts n (at_refs st)\<rparr>)]"
  by (auto simp: print_node_def Let_def split: option.splits if_splits)

text \<open>The references are \<open>e1\<close>, \<open>e2\<close> and so on, without a gap.\<close>

lemma refs_numbered:
  assumes "build_role_snapshot nodes opts = Some (Some (tree, refs))"
  shows "map fst refs = map (\<lambda>k. CHR ''e'' # show_nat k) [1..<Suc (length refs)]"
proof (cases "nodes = []")
  case True
  then show ?thesis using assms by (simp add: build_role_snapshot_def)
next
  case False
  then obtain st m counts work where r: "at_refs st = refs"
    "render_nodes opts m counts work \<lparr>at_output = [], at_refs = [], at_counter = 0\<rparr> = Some (Some st)"
    using assms by (auto simp: build_role_snapshot_def Let_def)
  have "at_counter st = length (at_refs st) \<and>
      map fst (at_refs st) = map (\<lambda>k. CHR ''e'' # show_nat k) [1..<Suc (length (at_refs st))]"
    by (rule render_invariant [OF r(2)]) (auto dest!: print_node_refs)
  then show ?thesis using r by simp
qed

text \<open>Elements that share role and name are numbered from one on, in the order of the text.\<close>

definition namesakes :: "string \<Rightarrow> string \<Rightarrow> (string \<times> role_ref) list \<Rightarrow> role_ref list" where
  "namesakes role name refs = filter (\<lambda>r. rr_role r = role \<and> rr_name r = name) (map snd refs)"

lemma namesakes_count:
  "length (filter (\<lambda>(_, r). rr_role r = role \<and> rr_name r = name) refs) = length (namesakes role name refs)"
  by (simp add: namesakes_def filter_map comp_def split_def)

lemma namesakes_numbered:
  assumes "render_nodes opts m counts work \<lparr>at_output = [], at_refs = [], at_counter = 0\<rparr> = Some (Some st)"
    and "name \<noteq> []" "1 < (case counts role name of Some k \<Rightarrow> k | None \<Rightarrow> 1)"
  shows "map rr_nth (namesakes role name (at_refs st)) =
    map Some [1..<Suc (length (namesakes role name (at_refs st)))]"
proof (rule render_invariant [OF assms(1)])
  fix d n s s1
  assume p: "print_node counts d n s = Some s1"
    and h: "map rr_nth (namesakes role name (at_refs s)) =
      map Some [1..<Suc (length (namesakes role name (at_refs s)))]"
  show "map rr_nth (namesakes role name (at_refs s1)) =
      map Some [1..<Suc (length (namesakes role name (at_refs s1)))]"
  proof (cases "an_role n = role \<and> an_name n = name")
    case True
    then have "nth_of counts n (at_refs s) = Some (Suc (length (namesakes role name (at_refs s))))"
      using assms(2,3) by (simp add: nth_of_def namesakes_count)
    then show ?thesis using h print_node_refs [OF p] True by (simp add: namesakes_def)
  next
    case False
    then show ?thesis using h print_node_refs [OF p] by (auto simp: namesakes_def)
  qed
qed (simp add: namesakes_def)

section \<open>What is lost\<close>

text \<open>The children of an ignored node are not visited, and they are not roots either.\<close>

lemma ignored_subtree_lost:
  assumes "m i = Some n" "an_ignored n"
  shows "render_nodes opts m counts ((i, d) # rest) st = render_nodes opts m counts rest st"
  using assms by (subst render_nodes.simps) (simp add: visited_def)

lemma child_of_ignored_no_root:
  assumes "c \<in> set ns" "an_parent_id c = Some p" "p \<in> an_node_id ` set ns"
    "\<And>c2. c2 \<in> set ns \<Longrightarrow> an_node_id c2 = an_node_id c \<Longrightarrow> c2 = c"
  shows "an_node_id c \<notin> set (aria_roots ns)"
proof -
  have "fst ` set (rev (map (\<lambda>n. (an_node_id n, n)) ns)) = an_node_id ` set ns" by force
  then have "node_map ns p \<noteq> None" using assms(3) by (simp add: node_map_def map_of_eq_None_iff)
  show ?thesis
  proof
    assume "an_node_id c \<in> set (aria_roots ns)"
    then obtain c2 where "c2 \<in> set ns" "an_node_id c2 = an_node_id c"
      "case an_parent_id c2 of Some p \<Rightarrow> node_map ns p = None | None \<Rightarrow> True"
      by (auto simp: aria_roots_def)
    then show False using assms(2,4) \<open>node_map ns p \<noteq> None\<close> by force
  qed
qed

text \<open>A name whose 77th byte is inside a character panics.\<close>

lemma long_name_panics:
  "truncate_name (replicate 76 CHR ''a'' @ [CHR 0xC3, CHR 0xA9] @ replicate 10 CHR ''b'') 80 = None"
  by (simp add: truncate_name_def slice_to_def is_char_boundary_def is_continuation_def nth_append)

lemma short_names_print:
  assumes "length (an_name n) \<le> 80" "length (an_value n) \<le> 40"
  shows "\<exists>st1. print_node counts d n st = Some st1"
  using assms by (auto simp: print_node_def truncate_name_def Let_def)

end
