(* ===== verification/Browser.thy ===== *)
theory Browser
  imports Tool_Registry Net_Safety Aria Channel_Wire
begin

text \<open>
  The browser tools (\<open>frankclaw-tools/src/lib.rs\<close>): the sessions of a Chromium that is driven over the
  DevTools protocol. The network, the parser of URLs, the sockets and the clocks are parameters over a
  world; a socket is given by the list of what arrives on it before the time of a command is up. The
  operations are actions on the sessions and the world. The lemmas show that only checked addresses are
  opened, that the number of sessions is bounded, what the answer of a command is, and that waiting ends.
\<close>

section \<open>State and environment\<close>

definition max_browser_sessions :: nat where
  "max_browser_sessions = 10"

record browser_session =
  bs_session_id :: string
  bs_target_id :: string
  bs_page_ws_url :: string
  bs_current_url :: string
  bs_title :: "string option"
  bs_last_updated_at :: datetime

record browser_snapshot =
  bn_session_id :: string
  bn_target_id :: string
  bn_url :: string
  bn_title :: "string option"
  bn_text :: string
  bn_html :: string
  bn_captured_at :: datetime

record devtools_target =
  dt_id :: string
  dt_url :: string
  dt_web_socket_debugger_url :: string

text \<open>The map of sessions, the number of the next command, and the world.\<close>

record 'w browser =
  bw_sessions :: "(string \<times> browser_session) list"
  bw_next_command_id :: u64
  bw_world :: 'w

text \<open>What arrives on a socket: text (its JSON, or the error of the parser), another frame, an error, the end.\<close>

datatype socket_event = TextFrame "string + json" | OtherFrame | ReadFailed string | SocketEnd

text \<open>
  \<open>bv_endpoint\<close> and \<open>bv_with_query\<close> are \<open>Url::join\<close> on the address of DevTools and \<open>set_query\<close>;
  \<open>bv_at_base\<close> sets host and port to those of that address. \<open>bv_take s (Some n)\<close> reads \<open>n\<close> events,
  \<open>bv_take s None\<close> all of them, and waits until the time is up.
\<close>

record ('u, 's, 'w) browser_env = "('u, 'w) net_env" +
  bv_parse_url :: "string \<Rightarrow> string + 'u"
  bv_url_text :: "'u \<Rightarrow> string"
  bv_at_base :: "'u \<Rightarrow> 'u"
  bv_base_port :: "u16 option"
  bv_endpoint :: "string \<Rightarrow> string + string"
  bv_with_query :: "string \<Rightarrow> string \<Rightarrow> string"
  bv_http :: "'w http_env"
  bv_bad_target :: "json \<Rightarrow> string"
  bv_bad_ws_url :: "string \<Rightarrow> string option"
  bv_connect :: "string \<Rightarrow> 'w \<Rightarrow> (string + 's) \<times> 'w"
  bv_send :: "'s \<Rightarrow> json \<Rightarrow> 'w \<Rightarrow> (string + unit) \<times> 'w"
  bv_arrivals :: "'s \<Rightarrow> 'w \<Rightarrow> socket_event list"
  bv_take :: "'s \<Rightarrow> nat option \<Rightarrow> 'w \<Rightarrow> 'w"
  bv_sleep :: "nat \<Rightarrow> 'w \<Rightarrow> 'w"
  bv_clock :: "'w \<Rightarrow> nat"
  bv_now :: "'w \<Rightarrow> datetime"
  bv_quote :: "string \<Rightarrow> string"
  bv_float :: "json \<Rightarrow> json option"
  bv_decode64 :: "string \<Rightarrow> string + u8 list"
  bv_encode64 :: "u8 list \<Rightarrow> string"
  bv_time :: "datetime \<Rightarrow> json"

type_synonym ('w, 'a) browser_action = "('w browser, 'a) action"

definition external :: "('w \<Rightarrow> (string + 'a) \<times> 'w) \<Rightarrow> (string \<Rightarrow> frank_error) \<Rightarrow> ('w, 'a) browser_action" where
  "external m err b =
     (case m (bw_world b) of (r, w1) \<Rightarrow> (map_sum err id r, b\<lparr>bw_world := w1\<rparr>))"

definition world_step :: "('w \<Rightarrow> 'w) \<Rightarrow> ('w, unit) browser_action" where
  "world_step f b = (Inr (), b\<lparr>bw_world := f (bw_world b)\<rparr>)"

definition reading :: "('w browser \<Rightarrow> 'a) \<Rightarrow> ('w, 'a) browser_action" where
  "reading f b = (Inr (f b), b)"

definition set_session :: "browser_session \<Rightarrow> ('w, unit) browser_action" where
  "set_session s b = (Inr (), b\<lparr>bw_sessions := AList.update (bs_session_id s) s (bw_sessions b)\<rparr>)"

definition remove_dead_session :: "string \<Rightarrow> ('w, unit) browser_action" where
  "remove_dead_session i b = (Inr (), b\<lparr>bw_sessions := AList.delete i (bw_sessions b)\<rparr>)"

definition sq :: "string \<Rightarrow> string" where
  "sq s = [CHR 0x27] @ s @ [CHR 0x27]"

section \<open>Addresses\<close>

text \<open>The first unsafe address decides.\<close>

fun check_navigation_addrs :: "(ip_addr \<Rightarrow> string) \<Rightarrow> string \<Rightarrow> ip_addr list \<Rightarrow> frank_error + unit" where
  "check_navigation_addrs shw host [] = Inr ()"
| "check_navigation_addrs shw host (a # as) =
     (if \<not> is_safe_ip a
      then Inl (InvalidRequest (''browser navigation blocked: '' @ sq host @
             '' resolves to private/internal IP '' @ shw a))
      else check_navigation_addrs shw host as)"

definition validate_navigation_url :: "('u, 's, 'w) browser_env \<Rightarrow> string \<Rightarrow> ('w, unit) browser_action" where
  "validate_navigation_url env raw_url =
     (case bv_parse_url env raw_url of
        Inl e \<Rightarrow> fail (InvalidRequest (''invalid browser navigation URL: '' @ e))
      | Inr u \<Rightarrow>
          if url_scheme env u \<noteq> ''http'' \<and> url_scheme env u \<noteq> ''https''
          then fail (InvalidRequest (''browser navigation only allows http/https URLs, got '' @
                 sq (url_scheme env u)))
          else (case url_host env u of
                  None \<Rightarrow> fail (InvalidRequest ''browser navigation URL has no host'')
                | Some host \<Rightarrow>
                    (let port = (case url_port env u of Some p \<Rightarrow> p | None \<Rightarrow> 80)
                     in andthen (external (dns_lookup env (host @ '':'' @ show_word port))
                          (\<lambda>e. AgentRuntime (''DNS lookup failed for browser navigation URL '' @ sq host @
                             '': '' @ e))) (\<lambda>addrs.
                        andthen (require (addrs \<noteq> [])
                          (AgentRuntime (''DNS lookup returned no addresses for '' @ sq host))) (\<lambda>_.
                        of_result (check_navigation_addrs (show_ip env) host addrs))))))"

definition resolve_session_id :: "string option \<Rightarrow> tool_context \<Rightarrow> frank_error + string" where
  "resolve_session_id requested ctx =
     (case Option.bind requested (\<lambda>r. if trim r = [] then None else Some (trim r)) of
        Some i \<Rightarrow> Inr i
      | None \<Rightarrow>
          (case tx_session_key ctx of
             Some key \<Rightarrow> Inr (''session:'' @ key_str key)
           | None \<Rightarrow> Inl (InvalidRequest ''browser tool requires session_id or session context'')))"

section \<open>Commands\<close>

text \<open>The answer to a command, and how many events were read; \<open>None\<close> when the time was up.\<close>

fun find_reply :: "string \<Rightarrow> u64 \<Rightarrow> socket_event list \<Rightarrow> nat \<Rightarrow> (frank_error + json) \<times> nat option" where
  "find_reply cmd i [] n =
     (Inl (AgentRuntime (''browser command '' @ sq cmd @ '' timed out after 15s'')), None)"
| "find_reply cmd i (SocketEnd # es) n =
     (Inl (AgentRuntime (''browser socket closed while waiting for '' @ sq cmd)), Some (Suc n))"
| "find_reply cmd i (ReadFailed e # es) n =
     (Inl (AgentRuntime (''browser socket read failed: '' @ e)), Some (Suc n))"
| "find_reply cmd i (OtherFrame # es) n = find_reply cmd i es (Suc n)"
| "find_reply cmd i (TextFrame (Inl e) # es) n =
     (Inl (AgentRuntime (''browser socket sent invalid JSON: '' @ e)), Some (Suc n))"
| "find_reply cmd i (TextFrame (Inr frame) # es) n =
     (if as_u64 (json_at frame ''id'') \<noteq> Some i then find_reply cmd i es (Suc n)
      else (case as_str (json_path frame [''error'', ''message'']) of
              Some m \<Rightarrow> (Inl (AgentRuntime (''browser command '' @ sq cmd @ '' failed: '' @ m)), Some (Suc n))
            | None \<Rightarrow> (Inr frame, Some (Suc n))))"

definition next_command_id :: "('w, u64) browser_action" where
  "next_command_id b =
     (Inr (bw_next_command_id b), b\<lparr>bw_next_command_id := bw_next_command_id b + 1\<rparr>)"

definition send_command ::
  "('u, 's, 'w) browser_env \<Rightarrow> 's \<Rightarrow> string \<Rightarrow> json \<Rightarrow> ('w, json) browser_action" where
  "send_command env s cmd params =
     andthen next_command_id (\<lambda>i.
     andthen (external (bv_send env s (JObject
         [(''id'', JUInt i), (''method'', JString cmd), (''params'', params)]))
       (\<lambda>e. AgentRuntime (''failed to send browser command '' @ sq cmd @ '': '' @ e))) (\<lambda>_.
     andthen (reading (\<lambda>b. find_reply cmd i (bv_arrivals env s (bw_world b)) 0)) (\<lambda>(r, n).
     andthen (world_step (bv_take env s n)) (\<lambda>_.
     of_result r))))"

definition evaluate_value :: "('u, 's, 'w) browser_env \<Rightarrow> 's \<Rightarrow> string \<Rightarrow> ('w, json) browser_action" where
  "evaluate_value env s expression =
     andthen (send_command env s ''Runtime.evaluate''
       (JObject [(''expression'', JString expression), (''returnByValue'', JBool True)])) (\<lambda>response.
     succeed (json_path response [''result'', ''result'', ''value'']))"

definition evaluate_string :: "('u, 's, 'w) browser_env \<Rightarrow> 's \<Rightarrow> string \<Rightarrow> ('w, string) browser_action" where
  "evaluate_string env s expression =
     andthen (evaluate_value env s expression) (\<lambda>v. succeed (str_or [] v))"

definition evaluate_bool :: "('u, 's, 'w) browser_env \<Rightarrow> 's \<Rightarrow> string \<Rightarrow> ('w, bool) browser_action" where
  "evaluate_bool env s expression =
     andthen (evaluate_value env s expression) (\<lambda>v.
     succeed (case as_bool v of Some x \<Rightarrow> x | None \<Rightarrow> False))"

text \<open>\<open>left\<close> rounds are left; an error counts as a page that is complete.\<close>

fun ready_loop :: "('u, 's, 'w) browser_env \<Rightarrow> 's \<Rightarrow> nat \<Rightarrow> ('w, unit) browser_action" where
  "ready_loop env s 0 = succeed ()"
| "ready_loop env s (Suc left) =
     attempt (evaluate_string env s ''document.readyState'') (\<lambda>r.
       (let state = (case r of Inr x \<Rightarrow> x | Inl _ \<Rightarrow> ''complete'')
        in if state = ''interactive'' \<or> state = ''complete'' then succeed ()
           else andthen (world_step (bv_sleep env 100)) (\<lambda>_. ready_loop env s left)))"

definition wait_for_ready :: "('u, 's, 'w) browser_env \<Rightarrow> 's \<Rightarrow> ('w, unit) browser_action" where
  "wait_for_ready env s = ready_loop env s 20"

definition connect_page_socket :: "('u, 's, 'w) browser_env \<Rightarrow> string \<Rightarrow> ('w, 's) browser_action" where
  "connect_page_socket env ws_url =
     (case bv_bad_ws_url env ws_url of
        Some e \<Rightarrow> fail (AgentRuntime (''failed to build browser websocket request: '' @ e))
      | None \<Rightarrow>
          external (bv_connect env ws_url)
            (\<lambda>e. AgentRuntime (''failed to connect to browser page socket: '' @ e)))"

section \<open>Targets\<close>

definition devtools_host_header :: "('u, 's, 'w) browser_env \<Rightarrow> string" where
  "devtools_host_header env =
     ''localhost:'' @ show_word (case bv_base_port env of Some p \<Rightarrow> p | None \<Rightarrow> 9222)"

definition devtools_call ::
  "('u, 's, 'w) browser_env \<Rightarrow> string \<Rightarrow> string \<Rightarrow> string \<Rightarrow> ('w, http_answer) browser_action" where
  "devtools_call env verb url failing =
     external (hx_send (bv_http env)
       \<lparr>hc_method = verb, hc_url = url, hc_headers = [(''Host'', devtools_host_header env)],
        hc_body = NoBody\<rparr>)
       (\<lambda>e. AgentRuntime (failing @ e))"

definition target_of_json :: "json \<Rightarrow> devtools_target option" where
  "target_of_json v =
     (case (get_str v ''id'', get_str v ''url'', get_str v ''webSocketDebuggerUrl'') of
        (Some i, Some u, Some ws) \<Rightarrow> Some \<lparr>dt_id = i, dt_url = u, dt_web_socket_debugger_url = ws\<rparr>
      | _ \<Rightarrow> None)"

definition rewrite_target :: "('u, 's, 'w) browser_env \<Rightarrow> devtools_target \<Rightarrow> devtools_target" where
  "rewrite_target env t =
     (case bv_parse_url env (dt_web_socket_debugger_url t) of
        Inl _ \<Rightarrow> t
      | Inr u \<Rightarrow> t\<lparr>dt_web_socket_debugger_url := bv_url_text env (bv_at_base env u)\<rparr>)"

definition create_target :: "('u, 's, 'w) browser_env \<Rightarrow> string \<Rightarrow> ('w, devtools_target) browser_action" where
  "create_target env url =
     (case bv_endpoint env ''json/new'' of
        Inl e \<Rightarrow> fail (InternalError (''invalid browser endpoint: '' @ e))
      | Inr endpoint \<Rightarrow>
          andthen (devtools_call env ''PUT'' (bv_with_query env endpoint url)
            ''failed to create browser target: '') (\<lambda>a.
          andthen (require (answer_success a)
            (AgentRuntime (''browser target creation failed with HTTP '' @ answer_status a))) (\<lambda>_.
          (case ha_json a of
             Inl e \<Rightarrow> fail (AgentRuntime (''invalid browser target response: '' @ e))
           | Inr v \<Rightarrow>
               (case target_of_json v of
                  None \<Rightarrow> fail (AgentRuntime (''invalid browser target response: '' @ bv_bad_target env v))
                | Some t \<Rightarrow> succeed (rewrite_target env t))))))"

definition navigate_target :: "('u, 's, 'w) browser_env \<Rightarrow> browser_session \<Rightarrow> string \<Rightarrow> ('w, unit) browser_action" where
  "navigate_target env session url =
     andthen (connect_page_socket env (bs_page_ws_url session)) (\<lambda>s.
     andthen (send_command env s ''Page.navigate'' (JObject [(''url'', JString url)])) (\<lambda>_.
     wait_for_ready env s))"

definition snapshot_session :: "('u, 's, 'w) browser_env \<Rightarrow> browser_session \<Rightarrow> ('w, browser_snapshot) browser_action" where
  "snapshot_session env session =
     andthen (connect_page_socket env (bs_page_ws_url session)) (\<lambda>s.
     andthen (wait_for_ready env s) (\<lambda>_.
     andthen (evaluate_string env s (''document.title || '' @ sq [])) (\<lambda>title.
     andthen (evaluate_string env s (''document.body ? document.body.innerText : '' @ sq [])) (\<lambda>text.
     andthen (evaluate_string env s
       (''document.documentElement ? document.documentElement.outerHTML : '' @ sq [])) (\<lambda>html.
     andthen (evaluate_string env s ''window.location.href'') (\<lambda>url.
     reading (\<lambda>b.
       \<lparr>bn_session_id = bs_session_id session, bn_target_id = bs_target_id session, bn_url = url,
        bn_title = (if trim title = [] then None else Some title), bn_text = text, bn_html = html,
        bn_captured_at = bv_now env (bw_world b)\<rparr>)))))))"

section \<open>Sessions\<close>

definition fresh_session :: "string \<Rightarrow> devtools_target \<Rightarrow> datetime \<Rightarrow> browser_session" where
  "fresh_session i t now =
     \<lparr>bs_session_id = i, bs_target_id = dt_id t, bs_page_ws_url = dt_web_socket_debugger_url t,
      bs_current_url = dt_url t, bs_title = None, bs_last_updated_at = now\<rparr>"

definition open_fresh ::
  "('u, 's, 'w) browser_env \<Rightarrow> string \<Rightarrow> string \<Rightarrow> ('w, browser_session) browser_action" where
  "open_fresh env i url =
     andthen (create_target env url) (\<lambda>t.
     andthen (reading (\<lambda>b. fresh_session i t (bv_now env (bw_world b)))) (\<lambda>session.
     andthen (set_session session) (\<lambda>_.
     succeed session)))"

definition reuse_session ::
  "('u, 's, 'w) browser_env \<Rightarrow> string \<Rightarrow> browser_session \<Rightarrow> string \<Rightarrow> ('w, browser_session) browser_action" where
  "reuse_session env i session url =
     attempt (navigate_target env session url) (\<lambda>r.
       case r of
         Inr _ \<Rightarrow>
           andthen (reading (\<lambda>b. session\<lparr>bs_current_url := url, bs_last_updated_at := bv_now env (bw_world b)\<rparr>)) (\<lambda>s1.
           andthen (set_session s1) (\<lambda>_. succeed s1))
       | Inl _ \<Rightarrow> andthen (remove_dead_session i) (\<lambda>_. open_fresh env i url))"

definition session_limit_reached :: frank_error where
  "session_limit_reached =
     AgentRuntime (''browser session limit reached ('' @ show_nat max_browser_sessions @
       ''). Close existing sessions first.'')"

definition note_snapshot :: "string \<Rightarrow> browser_snapshot \<Rightarrow> ('w, unit) browser_action" where
  "note_snapshot i n b =
     (Inr (), case map_of (bw_sessions b) i of
        None \<Rightarrow> b
      | Some s \<Rightarrow>
          b\<lparr>bw_sessions := AList.update i
             (s\<lparr>bs_title := bn_title n, bs_current_url := bn_url n, bs_last_updated_at := bn_captured_at n\<rparr>)
             (bw_sessions b)\<rparr>)"

definition open_session ::
  "('u, 's, 'w) browser_env \<Rightarrow> string \<Rightarrow> string \<Rightarrow> ('w, browser_snapshot) browser_action" where
  "open_session env i url =
     andthen (validate_navigation_url env url) (\<lambda>_.
     andthen (reading (\<lambda>b. map_of (bw_sessions b) i)) (\<lambda>existing.
     andthen
       (case existing of
          Some session \<Rightarrow> reuse_session env i session url
        | None \<Rightarrow>
            andthen (reading (\<lambda>b. length (bw_sessions b))) (\<lambda>n.
            andthen (require (n < max_browser_sessions) session_limit_reached) (\<lambda>_.
            open_fresh env i url))) (\<lambda>session.
     andthen (snapshot_session env session) (\<lambda>n.
     andthen (note_snapshot i n) (\<lambda>_.
     succeed n)))))"

definition not_opened :: "string \<Rightarrow> frank_error" where
  "not_opened i = InvalidRequest (''browser session '' @ sq i @ '' was not opened yet'')"

definition the_session :: "string \<Rightarrow> ('w, browser_session) browser_action" where
  "the_session i b =
     (case map_of (bw_sessions b) i of Some s \<Rightarrow> (Inr s, b) | None \<Rightarrow> (Inl (not_opened i), b))"

definition extract_session :: "('u, 's, 'w) browser_env \<Rightarrow> string \<Rightarrow> ('w, browser_snapshot) browser_action" where
  "extract_session env i = andthen (the_session i) (snapshot_session env)"

definition list_browser_sessions :: "('w, browser_session list) browser_action" where
  "list_browser_sessions = reading (\<lambda>b. map snd (bw_sessions b))"

definition close_session :: "('u, 's, 'w) browser_env \<Rightarrow> string \<Rightarrow> ('w, unit) browser_action" where
  "close_session env i =
     andthen (the_session i) (\<lambda>session.
     andthen (remove_dead_session i) (\<lambda>_.
     (case bv_endpoint env (''json/close/'' @ bs_target_id session) of
        Inl e \<Rightarrow> fail (InternalError (''invalid browser close endpoint: '' @ e))
      | Inr endpoint \<Rightarrow>
          andthen (devtools_call env ''GET'' endpoint ''failed to close browser target: '') (\<lambda>a.
          require (answer_success a)
            (AgentRuntime (''browser close failed with HTTP '' @ answer_status a))))))"

section \<open>Actions on a page\<close>

definition click_expression :: "('u, 's, 'w) browser_env \<Rightarrow> string \<Rightarrow> string" where
  "click_expression env selector =
     ''(function() { const el = document.querySelector('' @ bv_quote env selector @
     ''); if (!el) return false; el.click(); return true; })()''"

definition type_expression :: "('u, 's, 'w) browser_env \<Rightarrow> string \<Rightarrow> string \<Rightarrow> string" where
  "type_expression env selector text =
     ''(function() { const el = document.querySelector('' @ bv_quote env selector @
     ''); if (!el) return false; el.focus(); if ('' @ sq ''value'' @ '' in el) { el.value = '' @
     bv_quote env text @ ''; } else { el.textContent = '' @ bv_quote env text @
     ''; } el.dispatchEvent(new Event('' @ sq ''input'' @ '', { bubbles: true })); el.dispatchEvent(new Event('' @
     sq ''change'' @ '', { bubbles: true })); return true; })()''"

definition wait_expression :: "('u, 's, 'w) browser_env \<Rightarrow> string option \<Rightarrow> string option \<Rightarrow> string" where
  "wait_expression env selector text =
     ''(function() { const selector = '' @ (case selector of Some s \<Rightarrow> bv_quote env s | None \<Rightarrow> ''null'') @
     ''; const text = '' @ (case text of Some t \<Rightarrow> bv_quote env t | None \<Rightarrow> ''null'') @
     ''; const hasSelector = !selector || !!document.querySelector(selector); const bodyText = document.body ? document.body.innerText : '' @
     sq [] @
     ''; const hasText = !text || bodyText.includes(text); return hasSelector && hasText; })()''"

definition press_expression :: "('u, 's, 'w) browser_env \<Rightarrow> string \<Rightarrow> string \<Rightarrow> string" where
  "press_expression env selector key =
     ''(function() { const el = document.querySelector('' @ bv_quote env selector @
     ''); if (!el) return false; el.focus(); for (const type of ['' @ sq ''keydown'' @ '', '' @ sq ''keypress'' @
     '', '' @ sq ''keyup'' @ '']) { el.dispatchEvent(new KeyboardEvent(type, { key: '' @ bv_quote env key @
     '', bubbles: true })); } return true; })()''"

definition validate_press_key :: "string \<Rightarrow> frank_error + unit" where
  "validate_press_key key =
     (if key \<in> {''Enter'', ''Tab'', ''Escape'', ''ArrowDown'', ''ArrowUp''} then Inr ()
      else Inl (InvalidRequest
        (''browser.press only allows Enter, Tab, Escape, ArrowDown, and ArrowUp; got '' @ sq key)))"

text \<open>Click, type and press: an expression that says whether there was an element, then a snapshot.\<close>

definition act_on_page ::
  "('u, 's, 'w) browser_env \<Rightarrow> string \<Rightarrow> string \<Rightarrow> frank_error \<Rightarrow> ('w, browser_snapshot) browser_action" where
  "act_on_page env i expression missing =
     andthen (the_session i) (\<lambda>session.
     andthen (connect_page_socket env (bs_page_ws_url session)) (\<lambda>s.
     andthen (wait_for_ready env s) (\<lambda>_.
     andthen (evaluate_bool env s expression) (\<lambda>found.
     andthen (require found missing) (\<lambda>_.
     snapshot_session env session)))))"

definition click :: "('u, 's, 'w) browser_env \<Rightarrow> string \<Rightarrow> string \<Rightarrow> ('w, browser_snapshot) browser_action" where
  "click env i selector =
     act_on_page env i (click_expression env selector)
       (AgentRuntime (''browser.click could not find selector '' @ sq selector))"

definition type_text ::
  "('u, 's, 'w) browser_env \<Rightarrow> string \<Rightarrow> string \<Rightarrow> string \<Rightarrow> ('w, browser_snapshot) browser_action" where
  "type_text env i selector text =
     act_on_page env i (type_expression env selector text)
       (AgentRuntime (''browser.type could not find selector '' @ sq selector))"

definition press_key ::
  "('u, 's, 'w) browser_env \<Rightarrow> string \<Rightarrow> string \<Rightarrow> string \<Rightarrow> ('w, browser_snapshot) browser_action" where
  "press_key env i selector key =
     andthen (of_result (validate_press_key key)) (\<lambda>_.
     act_on_page env i (press_expression env selector key)
       (AgentRuntime (''browser.press could not find selector '' @ sq selector)))"

definition wait_target :: "string option \<Rightarrow> string option \<Rightarrow> string" where
  "wait_target selector text =
     (case selector of
        Some s \<Rightarrow> ''selector '' @ sq s
      | None \<Rightarrow> (case text of Some t \<Rightarrow> ''text '' @ sq t | None \<Rightarrow> ''condition''))"

text \<open>\<open>None\<close> is a loop that does not end.\<close>

partial_function (option) wait_loop ::
  "('u, 's, 'w) browser_env \<Rightarrow> 's \<Rightarrow> browser_session \<Rightarrow> string \<Rightarrow> nat \<Rightarrow> frank_error \<Rightarrow> 'w browser \<Rightarrow>
     ((frank_error + browser_snapshot) \<times> 'w browser) option" where
  "wait_loop env s session expression deadline late b =
     (case evaluate_bool env s expression b of
        (Inl e, b1) \<Rightarrow> Some (Inl e, b1)
      | (Inr found, b1) \<Rightarrow>
          if found then Some (snapshot_session env session b1)
          else if deadline \<le> bv_clock env (bw_world b1) then Some (Inl late, b1)
          else wait_loop env s session expression deadline late
                 (b1\<lparr>bw_world := bv_sleep env 100 (bw_world b1)\<rparr>))"

declare wait_loop.simps [code]

definition clamp_timeout :: "u64 \<Rightarrow> nat" where
  "clamp_timeout t = max 50 (min 30000 (unat t))"

definition wait_for ::
  "('u, 's, 'w) browser_env \<Rightarrow> string \<Rightarrow> string option \<Rightarrow> string option \<Rightarrow> u64 \<Rightarrow> 'w browser \<Rightarrow>
     ((frank_error + browser_snapshot) \<times> 'w browser) option" where
  "wait_for env i selector text timeout_ms b =
     (if selector = None \<and> text = None
      then Some (Inl (InvalidRequest ''browser.wait requires selector or text''), b)
      else (case andthen (the_session i) (\<lambda>session.
                 andthen (connect_page_socket env (bs_page_ws_url session)) (\<lambda>s.
                 andthen (wait_for_ready env s) (\<lambda>_. succeed (session, s)))) b of
              (Inl e, b1) \<Rightarrow> Some (Inl e, b1)
            | (Inr (session, s), b1) \<Rightarrow>
                wait_loop env s session (wait_expression env selector text)
                  (bv_clock env (bw_world b1) + clamp_timeout timeout_ms)
                  (AgentRuntime (''browser.wait timed out waiting for '' @ wait_target selector text)) b1))"

definition page_clip :: "('u, 's, 'w) browser_env \<Rightarrow> json \<Rightarrow> json" where
  "page_clip env metrics =
     (let content_size = json_path metrics [''result'', ''contentSize''];
          side = (\<lambda>k d. case bv_float env (json_at content_size k) of Some v \<Rightarrow> v | None \<Rightarrow> JNumber d)
      in JObject
        [(''x'', JUInt 0), (''y'', JUInt 0), (''width'', side ''width'' ''1280.0''),
         (''height'', side ''height'' ''800.0''), (''scale'', JUInt 1)])"

definition screenshot :: "('u, 's, 'w) browser_env \<Rightarrow> string \<Rightarrow> bool \<Rightarrow> ('w, u8 list) browser_action" where
  "screenshot env i full_page =
     andthen (the_session i) (\<lambda>session.
     andthen (connect_page_socket env (bs_page_ws_url session)) (\<lambda>s.
     andthen (wait_for_ready env s) (\<lambda>_.
     (let params = [(''format'', JString ''png''), (''fromSurface'', JBool True)]
      in andthen
           (if full_page
            then andthen (send_command env s ''Page.getLayoutMetrics'' (JObject [])) (\<lambda>metrics.
                 succeed (params @ [(''clip'', page_clip env metrics)]))
            else succeed params) (\<lambda>ps.
         andthen (send_command env s ''Page.captureScreenshot'' (JObject ps)) (\<lambda>response.
         (case as_str (json_path response [''result'', ''data'']) of
            None \<Rightarrow> fail (AgentRuntime ''screenshot response missing base64 data'')
          | Some d \<Rightarrow>
              of_result (map_sum (\<lambda>e. AgentRuntime (''failed to decode screenshot: '' @ e)) id
                (bv_decode64 env d)))))))))"

text \<open>The snapshot of the accessibility tree; the nodes of the answer, from which it is built.\<close>

definition aria_nodes :: "('u, 's, 'w) browser_env \<Rightarrow> string \<Rightarrow> ('w, json list) browser_action" where
  "aria_nodes env i =
     andthen (the_session i) (\<lambda>session.
     andthen (connect_page_socket env (bs_page_ws_url session)) (\<lambda>s.
     andthen (wait_for_ready env s) (\<lambda>_.
     andthen (send_command env s ''Accessibility.enable'' (JObject [])) (\<lambda>_.
     andthen (send_command env s ''Accessibility.getFullAXTree'' (JObject [])) (\<lambda>response.
     succeed (case as_array (json_path response [''result'', ''nodes'']) of Some ns \<Rightarrow> ns | None \<Rightarrow> []))))))"

definition aria_snapshot ::
  "('u, 's, 'w) browser_env \<Rightarrow> string \<Rightarrow> aria_options \<Rightarrow> 'w browser \<Rightarrow>
     ((frank_error + string \<times> (string \<times> role_ref) list) \<times> 'w browser) option option" where
  "aria_snapshot env i opts b =
     (case aria_nodes env i b of
        (Inl e, b1) \<Rightarrow> Some (Some (Inl e, b1))
      | (Inr nodes, b1) \<Rightarrow> map_option (map_option (\<lambda>r. (Inr r, b1))) (build_role_snapshot nodes opts))"

section \<open>Actions that leave the sessions alone\<close>

definition keeps :: "('w, 'a) browser_action \<Rightarrow> bool" where
  "keeps m \<longleftrightarrow> (\<forall>b. bw_sessions (snd (m b)) = bw_sessions b)"

named_theorems keeping

lemma keeps_basic [keeping]:
  "keeps (succeed x)" "keeps (fail e)" "keeps (of_result r)" "keeps (require c e)" "keeps (reading f)"
  "keeps (world_step g)" "keeps (external m err)" "keeps next_command_id" "keeps (the_session i)"
  by (simp_all add: keeps_def require_def reading_def world_step_def external_def next_command_id_def
      the_session_def split: prod.split option.split)

lemma keeps_Pair [simp]: "keeps (Pair r)"
  by (simp add: keeps_def)

lemma keeps_andthen [keeping]: "keeps m \<Longrightarrow> (\<And>x. keeps (f x)) \<Longrightarrow> keeps (andthen m f)"
  by (simp add: keeps_def andthen_def split: prod.split sum.split) (metis snd_conv)

lemma keeps_attempt [keeping]: "keeps m \<Longrightarrow> (\<And>x. keeps (f x)) \<Longrightarrow> keeps (attempt m f)"
  by (simp add: keeps_def attempt_def split: prod.split) (metis snd_conv)

lemma keeps_send_command [keeping]: "keeps (send_command env s cmd params)"
  unfolding send_command_def by (intro keeping) (auto intro!: keeping split: prod.split)

lemma keeps_evaluate [keeping]:
  "keeps (evaluate_value env s e)" "keeps (evaluate_string env s e)" "keeps (evaluate_bool env s e)"
  unfolding evaluate_string_def evaluate_bool_def evaluate_value_def by (intro keeping)+

lemma keeps_ready_loop [keeping]: "keeps (ready_loop env s n)"
  by (induction n) (auto intro!: keeping simp: Let_def)

lemma keeps_page [keeping]:
  "keeps (wait_for_ready env s)" "keeps (connect_page_socket env u)" "keeps (navigate_target env ss u)"
  "keeps (snapshot_session env ss)" "keeps (create_target env u)" "keeps (validate_navigation_url env u)"
  "keeps (act_on_page env i x e)" "keeps (extract_session env i)" "keeps (screenshot env i full)"
  "keeps (aria_nodes env i)"
  unfolding wait_for_ready_def connect_page_socket_def navigate_target_def snapshot_session_def create_target_def
    validate_navigation_url_def act_on_page_def extract_session_def screenshot_def aria_nodes_def devtools_call_def
    Let_def
  by (auto intro!: keeping split: option.split sum.split)

lemma keeps_run: "keeps m \<Longrightarrow> m b = (r, b1) \<Longrightarrow> bw_sessions b1 = bw_sessions b"
  unfolding keeps_def by (metis snd_conv)

lemma keeps_leaves:
  "keeps m \<Longrightarrow> (\<And>r b1. m b = (r, b1) \<Longrightarrow> bw_sessions b1 = bw_sessions b \<Longrightarrow> (case r of Inl e \<Rightarrow> P b1 | Inr x \<Rightarrow> Q x b1)) \<Longrightarrow>
   leaves m P Q b"
  by (auto simp: leaves_def keeps_run split: prod.split sum.split)

lemma leaves_step:
  "leaves m P R b \<Longrightarrow> (\<And>x b1. R x b1 \<Longrightarrow> leaves (f x) P Q b1) \<Longrightarrow> leaves (andthen m f) P Q b"
  unfolding leaves_andthen by (erule leaves_mono)

section \<open>The number of sessions is bounded\<close>

definition sessions_ok :: "(string \<times> browser_session) list \<Rightarrow> bool" where
  "sessions_ok ss \<longleftrightarrow>
     distinct (map fst ss) \<and> length ss \<le> max_browser_sessions \<and> list_all (\<lambda>(i, s). bs_session_id s = i) ss"

lemma length_session_update:
  "distinct (map fst ss) \<Longrightarrow>
   length (AList.update i s ss) = (if i \<in> fst ` set ss then length ss else Suc (length ss))"
  by (induction ss) auto

lemma list_all_session_update:
  "list_all (\<lambda>(i, s). bs_session_id s = i) ss \<Longrightarrow> bs_session_id s = i \<Longrightarrow>
   list_all (\<lambda>(i, s). bs_session_id s = i) (AList.update i s ss)"
  by (induction ss) auto

lemma sessions_ok_update:
  "sessions_ok ss \<Longrightarrow> bs_session_id s = i \<Longrightarrow> i \<in> fst ` set ss \<or> length ss < max_browser_sessions \<Longrightarrow>
   sessions_ok (AList.update i s ss)"
  by (auto simp: sessions_ok_def length_session_update distinct_update list_all_session_update)

lemma sessions_ok_delete:
  assumes "sessions_ok ss"
  shows "sessions_ok (AList.delete i ss)"
    "i \<in> fst ` set ss \<Longrightarrow> length (AList.delete i ss) < max_browser_sessions"
proof -
  have l: "length (AList.delete i ss) \<le> length ss" by (simp add: AList.delete_eq)
  show "sessions_ok (AList.delete i ss)"
    using assms l distinct_delete [of ss i]
    unfolding sessions_ok_def list_all_iff by (auto simp: AList.delete_eq intro: order_trans [OF length_filter_le])
  assume "i \<in> fst ` set ss"
  then obtain s where "(i, s) \<in> set ss" by auto
  then have "length (filter (\<lambda>(k, v). i \<noteq> k) ss) < length ss"
    by (intro length_filter_less [of "(i, s)"]) auto
  then show "length (AList.delete i ss) < max_browser_sessions"
    using assms by (simp add: sessions_ok_def AList.delete_eq)
qed

definition browser_ok :: "'w browser \<Rightarrow> bool" where
  "browser_ok b \<longleftrightarrow> sessions_ok (bw_sessions b)"

lemma keeps_ok: "keeps m \<Longrightarrow> browser_ok b \<Longrightarrow> browser_ok (snd (m b))"
  by (simp add: keeps_def browser_ok_def)

lemma keeps_ok_leaves: "keeps m \<Longrightarrow> browser_ok b \<Longrightarrow> leaves m browser_ok (\<lambda>_. browser_ok) b"
  by (rule keeps_leaves) (auto simp: browser_ok_def split: sum.split)

definition room :: "string \<Rightarrow> 'w browser \<Rightarrow> bool" where
  "room i b \<longleftrightarrow> browser_ok b \<and> (i \<in> fst ` set (bw_sessions b) \<or> length (bw_sessions b) < max_browser_sessions)"

lemma open_fresh_ok: "room i b \<Longrightarrow> leaves (open_fresh env i url) browser_ok (\<lambda>_. browser_ok) b"
  unfolding open_fresh_def leaves_andthen
  by (rule keeps_leaves [OF keeps_page(5)])
    (auto simp: leaves_def reading_def set_session_def fresh_session_def room_def browser_ok_def sessions_ok_update
      split: sum.split)

lemma reuse_ok:
  assumes "browser_ok b" "map_of (bw_sessions b) i = Some session"
  shows "leaves (reuse_session env i session url) browser_ok (\<lambda>_. browser_ok) b"
proof -
  have i: "i \<in> fst ` set (bw_sessions b)" using assms(2) by (metis domI dom_map_of_conv_image_fst)
  then have s: "bs_session_id session = i"
    using assms map_of_SomeD [OF assms(2)] by (auto simp: browser_ok_def sessions_ok_def list_all_iff)
  obtain r b1 where n: "navigate_target env session url b = (r, b1)" by fastforce
  have b1: "bw_sessions b1 = bw_sessions b" using keeps_run [OF keeps_page(3) n] .
  show ?thesis
  proof (cases r)
    case (Inl e)
    have "room i (b1\<lparr>bw_sessions := AList.delete i (bw_sessions b1)\<rparr>)"
      using assms(1) i sessions_ok_delete [of "bw_sessions b" i] by (simp add: room_def browser_ok_def b1)
    from open_fresh_ok [OF this] show ?thesis
      using n Inl by (simp add: reuse_session_def leaves_def attempt_def andthen_def remove_dead_session_def)
  next
    case (Inr u)
    then show ?thesis
      using n assms(1) i s
      by (auto simp: reuse_session_def leaves_def attempt_def andthen_def reading_def set_session_def browser_ok_def b1
          intro!: sessions_ok_update)
  qed
qed

lemma note_snapshot_ok: "browser_ok b \<Longrightarrow> browser_ok (snd (note_snapshot i n b))"
proof (cases "map_of (bw_sessions b) i")
  case (Some s)
  assume ok: "browser_ok b"
  have "i \<in> fst ` set (bw_sessions b)" using Some by (metis domI dom_map_of_conv_image_fst)
  moreover have "bs_session_id s = i"
    using ok map_of_SomeD [OF Some] by (auto simp: browser_ok_def sessions_ok_def list_all_iff)
  ultimately show ?thesis
    using ok Some by (auto simp: note_snapshot_def browser_ok_def intro!: sessions_ok_update)
qed (simp add: note_snapshot_def)

lemma open_session_ok:
  fixes b :: "'w browser"
  assumes "browser_ok b"
  shows "browser_ok (snd (open_session env i url b))"
proof -
  have mid: "leaves (case map_of (bw_sessions b1) i of
          Some session \<Rightarrow> reuse_session env i session url
        | None \<Rightarrow>
            andthen (reading (\<lambda>b. length (bw_sessions b))) (\<lambda>n.
            andthen (require (n < max_browser_sessions) session_limit_reached) (\<lambda>_.
            open_fresh env i url))) browser_ok (\<lambda>_. browser_ok) b1"
    if "browser_ok b1" for b1
  proof (cases "map_of (bw_sessions b1) i")
    case None
    then show ?thesis
      using that open_fresh_ok [of i b1 env url]
      by (auto simp: leaves_def andthen_def reading_def require_apply room_def)
  qed (simp add: reuse_ok that)
  have final: "leaves (andthen (snapshot_session env s) (\<lambda>n. andthen (note_snapshot i n) (\<lambda>_. succeed n)))
      browser_ok (\<lambda>_. browser_ok) b1" if "browser_ok b1" for s b1
  proof (intro leaves_step)
    show "leaves (snapshot_session env s) browser_ok (\<lambda>_. browser_ok) b1"
      by (rule keeps_ok_leaves [OF keeps_page(4) that])
    show "leaves (note_snapshot i n) browser_ok (\<lambda>_. browser_ok) b2" if "browser_ok b2" for n and b2 :: "'w browser"
      using note_snapshot_ok [OF that, of i n] by (simp add: leaves_def note_snapshot_def)
  qed simp
  have checked: "leaves (validate_navigation_url env url) browser_ok (\<lambda>_. browser_ok) b"
    by (rule keeps_ok_leaves [OF keeps_page(6) assms])
  have looked: "leaves (reading (\<lambda>b. map_of (bw_sessions b) i)) browser_ok
      (\<lambda>x b1. browser_ok b1 \<and> x = map_of (bw_sessions b1) i) b1" if "browser_ok b1" for b1 :: "'w browser"
    using that by (simp add: leaves_def reading_def)
  have "leaves (open_session env i url) browser_ok (\<lambda>_. browser_ok) b"
    unfolding open_session_def
    apply (rule leaves_step [OF checked])
    apply (rule leaves_step [OF looked], assumption)
    apply (elim conjE, hypsubst)
    apply (rule leaves_step [OF mid], assumption)
    apply (rule final, assumption)
    done
  then show ?thesis by (auto simp: leaves_def split: prod.splits sum.splits)
qed

lemma close_session_ok:
  assumes "browser_ok b"
  shows "browser_ok (snd (close_session env i b))"
proof (cases "map_of (bw_sessions b) i")
  case None
  then show ?thesis using assms by (simp add: close_session_def andthen_def the_session_def)
next
  case (Some session)
  let ?b = "b\<lparr>bw_sessions := AList.delete i (bw_sessions b)\<rparr>"
  have k: "keeps (case bv_endpoint env (''json/close/'' @ bs_target_id session) of
      Inl e \<Rightarrow> fail (InternalError (''invalid browser close endpoint: '' @ e))
    | Inr endpoint \<Rightarrow>
        andthen (devtools_call env ''GET'' endpoint ''failed to close browser target: '') (\<lambda>a.
        require (answer_success a)
          (AgentRuntime (''browser close failed with HTTP '' @ answer_status a))))"
    unfolding devtools_call_def by (auto intro!: keeping split: sum.split)
  have "browser_ok ?b" using assms by (simp add: browser_ok_def sessions_ok_delete)
  from keeps_ok [OF k this] show ?thesis
    using Some by (simp add: close_session_def andthen_def the_session_def remove_dead_session_def)
qed

text \<open>The operations of the tools; \<open>None\<close> when the operation does not return.\<close>

datatype browser_op =
    OpOpen string string | OpExtract string | OpClose string | OpClick string string
  | OpType string string string | OpPress string string string
  | OpWait string "string option" "string option" u64 | OpShot string bool | OpNodes string

fun run_browser :: "('u, 's, 'w) browser_env \<Rightarrow> browser_op \<Rightarrow> 'w browser \<Rightarrow> 'w browser option" where
  "run_browser env (OpOpen i url) b = Some (snd (open_session env i url b))"
| "run_browser env (OpExtract i) b = Some (snd (extract_session env i b))"
| "run_browser env (OpClose i) b = Some (snd (close_session env i b))"
| "run_browser env (OpClick i sel) b = Some (snd (click env i sel b))"
| "run_browser env (OpType i sel t) b = Some (snd (type_text env i sel t b))"
| "run_browser env (OpPress i sel k) b = Some (snd (press_key env i sel k b))"
| "run_browser env (OpWait i sel t ms) b = map_option snd (wait_for env i sel t ms b)"
| "run_browser env (OpShot i full) b = Some (snd (screenshot env i full b))"
| "run_browser env (OpNodes i) b = Some (snd (aria_nodes env i b))"

text \<open>Between two operations the world may change in any way.\<close>

inductive browser_reach :: "('u, 's, 'w) browser_env \<Rightarrow> 'w browser \<Rightarrow> bool" for env where
  browser_start: "bw_sessions b = [] \<Longrightarrow> browser_reach env b"
| browser_world: "browser_reach env b \<Longrightarrow> browser_reach env (b\<lparr>bw_world := w\<rparr>)"
| browser_op: "browser_reach env b \<Longrightarrow> run_browser env op b = Some b1 \<Longrightarrow> browser_reach env b1"

lemma wait_loop_keeps:
  assumes "wait_loop env s session x deadline late b = Some (r, b1)"
  shows "bw_sessions b1 = bw_sessions b"
proof -
  have "bw_sessions (snd q) = bw_sessions b" if "wait_loop env s session x deadline late b = Some q"
    for env :: "('u, 's, 'w) browser_env" and s session x deadline late b q
  proof (rule wait_loop.raw_induct [where P = "\<lambda>env s session x deadline late b q. bw_sessions (snd q) = bw_sessions b", OF _ that])
    fix f :: "('u, 's, 'w) browser_env \<Rightarrow> 's \<Rightarrow> browser_session \<Rightarrow> string \<Rightarrow> nat \<Rightarrow> frank_error \<Rightarrow> 'w browser \<Rightarrow>
        ((frank_error + browser_snapshot) \<times> 'w browser) option"
      and env s session x deadline late b q
    assume IH: "\<And>env s session x deadline late b q. f env s session x deadline late b = Some q \<Longrightarrow>
        bw_sessions (snd q) = bw_sessions b"
      and body: "(case evaluate_bool env s x b of
          (Inl e, b1) \<Rightarrow> Some (Inl e, b1)
        | (Inr found, b1) \<Rightarrow>
            if found then Some (snapshot_session env session b1)
            else if deadline \<le> bv_clock env (bw_world b1) then Some (Inl late, b1)
            else f env s session x deadline late (b1\<lparr>bw_world := bv_sleep env 100 (bw_world b1)\<rparr>)) = Some q"
    obtain r b1 where e: "evaluate_bool env s x b = (r, b1)" by fastforce
    have b1: "bw_sessions b1 = bw_sessions b" using keeps_run [OF keeps_evaluate(3) e] .
    have n: "bw_sessions (snd (snapshot_session env session b1)) = bw_sessions b1"
      using keeps_page(4) [of env session] by (simp add: keeps_def)
    show "bw_sessions (snd q) = bw_sessions b"
      using body e b1 n by (auto split: sum.splits if_splits dest: IH)
  qed
  from this [OF assms] show ?thesis by simp
qed

lemma wait_for_keeps: "wait_for env i sel t ms b = Some (r, b1) \<Longrightarrow> bw_sessions b1 = bw_sessions b"
proof -
  assume h: "wait_for env i sel t ms b = Some (r, b1)"
  have k: "keeps (andthen (the_session i) (\<lambda>session.
      andthen (connect_page_socket env (bs_page_ws_url session)) (\<lambda>s.
      andthen (wait_for_ready env s) (\<lambda>_. succeed (session, s)))))"
    by (intro keeping)
  show ?thesis
    using h by (auto simp: wait_for_def split: if_splits prod.splits sum.splits
        dest!: keeps_run [OF k] wait_loop_keeps)
qed

lemma browser_sessions_bounded:
  assumes "browser_reach env b"
  shows "length (bw_sessions b) \<le> 10 \<and> distinct (map fst (bw_sessions b))"
proof -
  from assms have "browser_ok b"
  proof induction
    case (browser_op b op b1)
    then show ?case
    proof (cases op)
      case (OpWait i sel t ms)
      then obtain r where "wait_for env i sel t ms b = Some (r, b1)" using browser_op(2) by auto
      from wait_for_keeps [OF this] show ?thesis using browser_op(3) by (simp add: browser_ok_def)
    next
      case (OpPress i sel k)
      have "keeps (press_key env i sel k)" unfolding press_key_def by (intro keeping)
      then show ?thesis using keeps_ok browser_op OpPress by (metis option.inject run_browser.simps(6))
    qed (auto simp: open_session_ok close_session_ok click_def type_text_def keeps_ok keeping)
  qed (simp_all add: browser_ok_def sessions_ok_def)
  then show ?thesis by (simp add: browser_ok_def sessions_ok_def max_browser_sessions_def)
qed

text \<open>
  The check and the insertion are under different locks: two calls that both pass the check before either
  inserts exceed the limit.
\<close>

lemma race_exceeds_limit:
  assumes "length (bw_sessions b) = 9" "distinct (map fst (bw_sessions b))" "i \<noteq> j"
    "i \<notin> fst ` set (bw_sessions b)" "j \<notin> fst ` set (bw_sessions b)"
    and "open_fresh env i url b = (Inr s, b1)" "open_fresh env j url2 b1 = (Inr t, b2)"
  shows "length (bw_sessions b) < max_browser_sessions \<and> length (bw_sessions b2) = 11"
proof -
  have f: "bw_sessions b1 = AList.update i s (bw_sessions b) \<and> bs_session_id s = i"
    if "open_fresh env i url b = (Inr s, b1)" for i url s and b b1 :: "'a browser"
    using that keeps_run [OF keeps_page(5)]
    by (fastforce simp: open_fresh_def andthen_Inr reading_def set_session_def fresh_session_def)
  have "length (AList.update i s (bw_sessions b)) = 10"
    using assms by (simp add: length_session_update)
  moreover have "j \<notin> fst ` set (AList.update i s (bw_sessions b))"
    using assms(3,5) by (metis dom_map_of_conv_image_fst dom_update insert_iff map_of_eq_None_iff update_conv fun_upd_other domIff)
  ultimately show ?thesis
    using f [OF assms(6)] f [OF assms(7)] assms(1,2) distinct_update [OF assms(2)]
    by (simp add: length_session_update max_browser_sessions_def)
qed

section \<open>Which addresses are opened\<close>

lemma check_navigation_addrs_ok: "check_navigation_addrs shw host as = Inr () \<longleftrightarrow> list_all is_safe_ip as"
  by (induction as) auto

lemma navigation_accepted:
  assumes "validate_navigation_url env url b = (Inr (), b1)"
  shows "\<exists>u host port addrs. bv_parse_url env url = Inr u \<and> url_scheme env u \<in> {''http'', ''https''} \<and>
     url_host env u = Some host \<and>
     dns_lookup env (host @ '':'' @ show_word (port :: u16)) (bw_world b) = (Inr addrs, bw_world b1) \<and>
     addrs \<noteq> [] \<and> list_all is_safe_ip addrs"
proof -
  obtain u host where u: "bv_parse_url env url = Inr u" "url_scheme env u \<in> {''http'', ''https''}"
    "url_host env u = Some host"
    using assms by (auto simp: validate_navigation_url_def split: sum.splits option.splits if_splits)
  let ?port = "case url_port env u of Some p \<Rightarrow> p | None \<Rightarrow> 80"
  obtain r w where d: "dns_lookup env (host @ '':'' @ show_word ?port) (bw_world b) = (r, w)" by fastforce
  then have "(\<exists>addrs. r = Inr addrs \<and> addrs \<noteq> [] \<and> list_all is_safe_ip addrs) \<and> bw_world b1 = w"
    using assms u
    by (cases r) (auto simp: validate_navigation_url_def Let_def external_def andthen_def require_apply
        check_navigation_addrs_ok split: if_splits)
  then show ?thesis using u d by blast
qed

lemma navigation_world:
  "validate_navigation_url env url b = (r, b1) \<Longrightarrow>
   b1 = b \<or> (\<exists>h. b1 = b\<lparr>bw_world := snd (dns_lookup env h (bw_world b))\<rparr>)"
  by (auto simp: validate_navigation_url_def Let_def external_def andthen_def require_def check_def
      split: sum.splits option.splits if_splits prod.splits) (metis snd_conv)+

text \<open>
  A session is opened or steered only after all addresses of its host were found safe; otherwise nothing
  happens but a resolution.
\<close>

lemma unsafe_url_not_opened:
  assumes "\<And>u host port addrs. bv_parse_url env url = Inr u \<Longrightarrow> url_scheme env u \<in> {''http'', ''https''} \<Longrightarrow>
      url_host env u = Some host \<Longrightarrow>
      fst (dns_lookup env (host @ '':'' @ show_word (port :: u16)) (bw_world b)) = Inr addrs \<Longrightarrow>
      list_ex (\<lambda>a. \<not> is_safe_ip a) addrs"
  shows "\<exists>e b1. open_session env i url b = (Inl e, b1) \<and>
    (b1 = b \<or> (\<exists>h. b1 = b\<lparr>bw_world := snd (dns_lookup env h (bw_world b))\<rparr>))"
proof -
  obtain r b1 where v: "validate_navigation_url env url b = (r, b1)" by fastforce
  have "r \<noteq> Inr ()"
  proof
    assume "r = Inr ()"
    then obtain u host port addrs where "bv_parse_url env url = Inr u" "url_scheme env u \<in> {''http'', ''https''}"
      "url_host env u = Some host"
      "dns_lookup env (host @ '':'' @ show_word (port :: u16)) (bw_world b) = (Inr addrs, bw_world b1)"
      "list_all is_safe_ip addrs"
      using navigation_accepted v by blast
    moreover from this have "list_ex (\<lambda>a. \<not> is_safe_ip a) addrs" using assms by (metis fst_conv)
    ultimately show False by (auto simp: list_all_iff list_ex_iff)
  qed
  then obtain e where "r = Inl e" by (cases r) auto
  then show ?thesis using v navigation_world [OF v] by (simp add: open_session_def andthen_def)
qed

text \<open>Nothing else is checked: the page that a click leads to may be anywhere.\<close>

lemma click_resolves_nothing: "click (env\<lparr>dns_lookup := l\<rparr>) i selector = click env i selector"
proof -
  have c: "send_command (env\<lparr>dns_lookup := l\<rparr>) = send_command env"
    by (intro ext) (simp add: send_command_def)
  have e: "evaluate_string (env\<lparr>dns_lookup := l\<rparr>) = evaluate_string env"
    "evaluate_bool (env\<lparr>dns_lookup := l\<rparr>) = evaluate_bool env"
    by (intro ext, simp add: evaluate_string_def evaluate_bool_def evaluate_value_def c)+
  have "ready_loop (env\<lparr>dns_lookup := l\<rparr>) s n = ready_loop env s n" for s n
    by (induction n) (simp_all add: e cong: if_cong)
  then have r: "wait_for_ready (env\<lparr>dns_lookup := l\<rparr>) = wait_for_ready env"
    by (intro ext) (simp add: wait_for_ready_def)
  have p: "connect_page_socket (env\<lparr>dns_lookup := l\<rparr>) = connect_page_socket env"
    by (intro ext) (simp add: connect_page_socket_def split: option.split)
  show ?thesis
    by (simp add: click_def act_on_page_def snapshot_session_def click_expression_def e r p)
qed

section \<open>Answers, keys and the end of waiting\<close>

text \<open>The answer of a command carries its number and no error; the answers to others are passed over.\<close>

lemma reply_matches:
  "find_reply cmd i es n = (Inr frame, m) \<Longrightarrow>
   TextFrame (Inr frame) \<in> set es \<and> as_u64 (json_at frame ''id'') = Some i \<and>
   as_str (json_path frame [''error'', ''message'']) = None"
  by (induction cmd i es n rule: find_reply.induct) (auto split: if_splits option.splits)

lemma other_replies_skipped:
  "list_all (\<lambda>e. case e of TextFrame (Inr f) \<Rightarrow> as_u64 (json_at f ''id'') \<noteq> Some i | OtherFrame \<Rightarrow> True | _ \<Rightarrow> False) es \<Longrightarrow>
   find_reply cmd i (es @ fs) n = find_reply cmd i fs (n + length es)"
proof (induction es arbitrary: n)
  case (Cons e es)
  then show ?case by (cases e) (auto split: sum.splits)
qed simp

lemma only_listed_keys:
  "press_key env i selector key b = (Inr x, b1) \<Longrightarrow>
   key \<in> {''Enter'', ''Tab'', ''Escape'', ''ArrowDown'', ''ArrowUp''}"
  by (auto simp: press_key_def andthen_Inr validate_press_key_def split: if_splits)

definition clock_law :: "('u, 's, 'w) browser_env \<Rightarrow> bool" where
  "clock_law env \<longleftrightarrow>
     (\<forall>s n w. bv_clock env w \<le> bv_clock env (bv_take env s n w)) \<and>
     (\<forall>s j w. bv_clock env w \<le> bv_clock env (snd (bv_send env s j w))) \<and>
     (\<forall>n w. bv_clock env w + n \<le> bv_clock env (bv_sleep env n w))"

lemma evaluate_bool_clock:
  assumes "clock_law env" "evaluate_bool env s x b = (r, b1)"
  shows "bv_clock env (bw_world b) \<le> bv_clock env (bw_world b1)"
proof -
  obtain r2 w2 where sent: "bv_send env s (JObject
      [(''id'', JUInt (bw_next_command_id b)), (''method'', JString ''Runtime.evaluate''),
       (''params'', JObject [(''expression'', JString x), (''returnByValue'', JBool True)])]) (bw_world b) = (r2, w2)"
    by fastforce
  have w2: "bv_clock env (bw_world b) \<le> bv_clock env w2"
    using assms(1) sent unfolding clock_law_def by (metis snd_conv)
  have "bw_world b1 = w2 \<or> (\<exists>n. bw_world b1 = bv_take env s n w2)"
    using assms(2) sent
    by (auto simp: evaluate_bool_def evaluate_value_def send_command_def andthen_def next_command_id_def
        external_def reading_def world_step_def split: sum.splits prod.splits)
  then show ?thesis using w2 assms(1) unfolding clock_law_def by (metis order_trans)
qed

lemma wait_loop_returns:
  assumes "clock_law env"
  shows "\<exists>q. wait_loop env s session x deadline late b = Some q"
proof (induction "deadline - bv_clock env (bw_world b)" arbitrary: b rule: less_induct)
  case less
  obtain r b1 where e: "evaluate_bool env s x b = (r, b1)" by fastforce
  let ?b = "b1\<lparr>bw_world := bv_sleep env 100 (bw_world b1)\<rparr>"
  have "bv_clock env (bw_world b) \<le> bv_clock env (bw_world b1)" by (rule evaluate_bool_clock [OF assms e])
  moreover have "bv_clock env (bw_world b1) + 100 \<le> bv_clock env (bw_world ?b)"
    using assms by (simp add: clock_law_def)
  ultimately have "\<exists>q. wait_loop env s session x deadline late ?b = Some q"
    if "\<not> deadline \<le> bv_clock env (bw_world b1)"
    using that by (intro less) linarith
  then show ?case by (subst wait_loop.simps) (auto simp: e split: sum.split)
qed

text \<open>Waiting for a page always returns, in the end with an error.\<close>

lemma wait_for_returns: "clock_law env \<Longrightarrow> \<exists>q. wait_for env i sel t ms b = Some q"
  by (auto simp: wait_for_def wait_loop_returns simp del: split_paired_Ex split: prod.split sum.split)

section \<open>Sessions that end\<close>

text \<open>A session that is closed is forgotten, even when its target could not be closed.\<close>

lemma closed_session_forgotten:
  assumes "sessions_ok (bw_sessions b)"
  shows "map_of (bw_sessions (snd (close_session env i b))) i = None"
proof (cases "map_of (bw_sessions b) i")
  case None
  then show ?thesis by (simp add: close_session_def andthen_def the_session_def)
next
  case (Some session)
  let ?b = "b\<lparr>bw_sessions := AList.delete i (bw_sessions b)\<rparr>"
  let ?m = "case bv_endpoint env (''json/close/'' @ bs_target_id session) of
      Inl e \<Rightarrow> fail (InternalError (''invalid browser close endpoint: '' @ e))
    | Inr endpoint \<Rightarrow>
        andthen (devtools_call env ''GET'' endpoint ''failed to close browser target: '') (\<lambda>a.
        require (answer_success a)
          (AgentRuntime (''browser close failed with HTTP '' @ answer_status a)))"
  have "keeps ?m" unfolding devtools_call_def by (auto intro!: keeping split: sum.split)
  then have "bw_sessions (snd (?m ?b)) = AList.delete i (bw_sessions b)" by (simp add: keeps_def)
  then show ?thesis
    using Some by (simp add: close_session_def andthen_def the_session_def remove_dead_session_def delete_conv')
qed

lemma closed_session_unusable:
  assumes "map_of (bw_sessions b) i = None"
  shows "extract_session env i b = (Inl (not_opened i), b)" "close_session env i b = (Inl (not_opened i), b)"
    "click env i sel b = (Inl (not_opened i), b)"
  using assms
  by (simp_all add: extract_session_def close_session_def click_def act_on_page_def andthen_def the_session_def)

text \<open>A tool may name any session, those of other chats included.\<close>

lemma any_session_named: "trim i = i \<Longrightarrow> i \<noteq> [] \<Longrightarrow> resolve_session_id (Some i) ctx = Inr i"
  by (simp add: resolve_session_id_def)

end
