(* ===== verification/Browser_Tools.thy ===== *)
theory Browser_Tools
  imports Browser Canvas Session_Types
begin

text \<open>
  The tools of \<open>frankclaw-tools/src/lib.rs\<close> as the model calls them: the browser, the canvas and the
  inspection of a session. Each has its definition, whose schema is printed by a parameter, and its
  invocation, which reads the arguments from JSON. The lemmas show what the arguments can reach.
\<close>

section \<open>Definitions\<close>

definition schema :: "string list \<Rightarrow> (string \<times> json) list \<Rightarrow> json" where
  "schema required props =
     JObject
       ([(''type'', JString ''object'')] @
        (if required = [] then [] else [(''required'', JArray (map JString required))]) @
        [(''properties'', JObject props)])"

definition arg_spec :: "string \<Rightarrow> string \<Rightarrow> string \<Rightarrow> string \<times> json" where
  "arg_spec name ty desc = (name, JObject [(''type'', JString ty), (''description'', JString desc)])"

definition range_spec :: "string \<Rightarrow> u64 \<Rightarrow> u64 option \<Rightarrow> string \<Rightarrow> string \<times> json" where
  "range_spec name lo hi desc =
     (name, JObject
       ([(''type'', JString ''integer''), (''minimum'', JUInt lo)] @
        (case hi of Some h \<Rightarrow> [(''maximum'', JUInt h)] | None \<Rightarrow> []) @
        [(''description'', JString desc)]))"

definition tool_spec ::
  "(json \<Rightarrow> string) \<Rightarrow> string \<Rightarrow> string \<Rightarrow> json \<Rightarrow> tool_risk_level \<Rightarrow> tool_def" where
  "tool_spec shw name desc params risk =
     \<lparr>td_name = name, td_description = desc, td_parameters = shw params, td_risk_level = risk\<rparr>"

definition browser_session_spec :: "string \<times> json" where
  "browser_session_spec =
     arg_spec ''session_id'' ''string''
       ''Optional browser session identifier. Defaults to the current chat session.''"

definition browser_open_tool :: "(json \<Rightarrow> string) \<Rightarrow> tool_def" where
  "browser_open_tool shw =
     tool_spec shw ''browser_open''
       ''Create or reuse a Chromium-backed browser session and navigate it to a URL over the DevTools protocol.''
       (schema [''url''] [arg_spec ''url'' ''string'' ''HTTP or HTTPS URL to open.'', browser_session_spec]) ReadOnly"

definition browser_extract_tool :: "(json \<Rightarrow> string) \<Rightarrow> tool_def" where
  "browser_extract_tool shw =
     tool_spec shw ''browser_extract''
       ''Extract visible text from an existing Chromium-backed browser session.''
       (schema [] [browser_session_spec,
          range_spec ''max_chars'' 1 (Some 8000) ''Maximum number of visible text characters to return.'']) ReadOnly"

definition browser_snapshot_tool :: "(json \<Rightarrow> string) \<Rightarrow> tool_def" where
  "browser_snapshot_tool shw =
     tool_spec shw ''browser_snapshot''
       ''Return stored HTML plus visible text from an existing Chromium-backed browser session.''
       (schema [] [browser_session_spec,
          range_spec ''max_chars'' 1 (Some 32000) ''Maximum number of HTML characters to return.'']) ReadOnly"

definition browser_click_tool :: "(json \<Rightarrow> string) \<Rightarrow> tool_def" where
  "browser_click_tool shw =
     tool_spec shw ''browser_click''
       ''Click a DOM element by CSS selector in an existing Chromium-backed browser session.''
       (schema [''selector'']
         [browser_session_spec, arg_spec ''selector'' ''string'' ''CSS selector for the target element.'']) Mutating"

definition browser_type_tool :: "(json \<Rightarrow> string) \<Rightarrow> tool_def" where
  "browser_type_tool shw =
     tool_spec shw ''browser_type''
       ''Set an input or textarea value by CSS selector in an existing Chromium-backed browser session.''
       (schema [''selector'', ''text'']
         [browser_session_spec, arg_spec ''selector'' ''string'' ''CSS selector for the target input or textarea.'',
          arg_spec ''text'' ''string'' ''Replacement text value.'']) Mutating"

definition browser_wait_tool :: "(json \<Rightarrow> string) \<Rightarrow> tool_def" where
  "browser_wait_tool shw =
     tool_spec shw ''browser_wait''
       ''Wait for a CSS selector or visible text to appear in an existing Chromium-backed browser session.''
       (schema []
         [browser_session_spec,
          arg_spec ''selector'' ''string'' ''CSS selector that must resolve before continuing.'',
          arg_spec ''text'' ''string'' ''Visible text snippet that must appear before continuing.'',
          range_spec ''timeout_ms'' 50 (Some 30000) ''Maximum time to wait before failing.'']) ReadOnly"

definition browser_press_tool :: "(json \<Rightarrow> string) \<Rightarrow> tool_def" where
  "browser_press_tool shw =
     tool_spec shw ''browser_press''
       ''Send one allowed keyboard key to a focused DOM element by CSS selector in an existing Chromium-backed browser session.''
       (schema [''selector'', ''key'']
         [browser_session_spec, arg_spec ''selector'' ''string'' ''CSS selector for the target element.'',
          arg_spec ''key'' ''string'' ''Allowed key: Enter, Tab, Escape, ArrowDown, ArrowUp.'']) Mutating"

definition browser_sessions_tool :: "(json \<Rightarrow> string) \<Rightarrow> tool_def" where
  "browser_sessions_tool shw =
     tool_spec shw ''browser_sessions''
       ''List active Chromium-backed browser sessions tracked by FrankClaw.'' (schema [] []) ReadOnly"

definition browser_close_tool :: "(json \<Rightarrow> string) \<Rightarrow> tool_def" where
  "browser_close_tool shw =
     tool_spec shw ''browser_close''
       ''Close a Chromium-backed browser session and its DevTools target.''
       (schema [] [browser_session_spec]) ReadOnly"

definition browser_screenshot_tool :: "(json \<Rightarrow> string) \<Rightarrow> tool_def" where
  "browser_screenshot_tool shw =
     tool_spec shw ''browser_screenshot''
       ''Capture a PNG screenshot of an existing Chromium-backed browser session. Returns base64-encoded PNG data.''
       (schema [] [browser_session_spec,
          arg_spec ''full_page'' ''boolean'' ''Capture entire page content (not just viewport). Default: false.'']) ReadOnly"

definition browser_aria_snapshot_tool :: "(json \<Rightarrow> string) \<Rightarrow> tool_def" where
  "browser_aria_snapshot_tool shw =
     tool_spec shw ''browser_aria_snapshot''
       ''Get an accessibility (ARIA) tree snapshot of an existing Chromium-backed browser session. Returns an indented text representation of interactive and content elements with [ref=eN] annotations for element targeting.''
       (schema [] [browser_session_spec,
          arg_spec ''interactive_only'' ''boolean'' ''Only include interactive elements (buttons, links, inputs). Default: false.'',
          range_spec ''max_depth'' 1 (Some 50) ''Maximum tree depth to traverse. Default: 20.'']) ReadOnly"

section \<open>Arguments\<close>

definition not_blank_arg :: "json \<Rightarrow> string \<Rightarrow> string option" where
  "not_blank_arg args k =
     Option.bind (get_str args k) (\<lambda>v. if trim v = [] then None else Some (trim v))"

definition needed :: "string option \<Rightarrow> string \<Rightarrow> frank_error + string" where
  "needed v msg = (case v of Some x \<Rightarrow> Inr x | None \<Rightarrow> Inl (InvalidRequest msg))"

definition clamped_arg :: "json \<Rightarrow> string \<Rightarrow> u64 \<Rightarrow> u64 \<Rightarrow> u64 \<Rightarrow> u64" where
  "clamped_arg args k d lo hi =
     (let v = (case Option.bind (json_get args k) as_u64 of Some n \<Rightarrow> n | None \<Rightarrow> d)
      in if v < lo then lo else if hi < v then hi else v)"

definition flag_arg :: "json \<Rightarrow> string \<Rightarrow> bool \<Rightarrow> bool" where
  "flag_arg args k d = (case Option.bind (json_get args k) as_bool of Some b \<Rightarrow> b | None \<Rightarrow> d)"

definition opt_json :: "string option \<Rightarrow> json" where
  "opt_json v = (case v of Some s \<Rightarrow> JString s | None \<Rightarrow> JNull)"

definition truncate_chars :: "string \<Rightarrow> nat \<Rightarrow> string" where
  "truncate_chars v max_chars =
     (if max_chars < char_count v then prefix_chars max_chars v @ ''...'' else prefix_chars max_chars v)"

definition snapshot_result ::
  "('u, 's, 'w) browser_env \<Rightarrow> browser_snapshot \<Rightarrow> bool \<Rightarrow> nat \<Rightarrow> json" where
  "snapshot_result env n include_html max_chars =
     JObject
       ([(''session_id'', JString (bn_session_id n)), (''target_id'', JString (bn_target_id n)),
         (''url'', JString (bn_url n)), (''title'', opt_json (bn_title n)),
         (''text'', JString (truncate_chars (bn_text n) max_chars)),
         (''captured_at'', bv_time env (bn_captured_at n))] @
        (if include_html then [(''html'', JString (truncate_chars (bn_html n) max_chars))] else []))"

section \<open>The browser\<close>

definition browser_session_arg :: "json \<Rightarrow> tool_context \<Rightarrow> ('w, string) browser_action" where
  "browser_session_arg args ctx = of_result (resolve_session_id (get_str args ''session_id'') ctx)"

definition browser_open_invoke ::
  "('u, 's, 'w) browser_env \<Rightarrow> json \<Rightarrow> tool_context \<Rightarrow> ('w, json) browser_action" where
  "browser_open_invoke env args ctx =
     andthen (of_result (needed (not_blank_arg args ''url'') ''browser.open requires a non-empty url'')) (\<lambda>url.
     andthen (browser_session_arg args ctx) (\<lambda>i.
     andthen (open_session env i url) (\<lambda>n.
     succeed (snapshot_result env n False 800))))"

definition browser_extract_invoke ::
  "('u, 's, 'w) browser_env \<Rightarrow> json \<Rightarrow> tool_context \<Rightarrow> ('w, json) browser_action" where
  "browser_extract_invoke env args ctx =
     andthen (browser_session_arg args ctx) (\<lambda>i.
     andthen (extract_session env i) (\<lambda>n.
     succeed (snapshot_result env n False (unat (clamped_arg args ''max_chars'' 2000 1 8000)))))"

definition browser_snapshot_invoke ::
  "('u, 's, 'w) browser_env \<Rightarrow> json \<Rightarrow> tool_context \<Rightarrow> ('w, json) browser_action" where
  "browser_snapshot_invoke env args ctx =
     andthen (browser_session_arg args ctx) (\<lambda>i.
     andthen (extract_session env i) (\<lambda>n.
     succeed (snapshot_result env n True (unat (clamped_arg args ''max_chars'' 8000 1 32000)))))"

definition browser_click_invoke ::
  "('u, 's, 'w) browser_env \<Rightarrow> json \<Rightarrow> tool_context \<Rightarrow> ('w, json) browser_action" where
  "browser_click_invoke env args ctx =
     andthen (browser_session_arg args ctx) (\<lambda>i.
     andthen (of_result (needed (not_blank_arg args ''selector'')
       ''browser.click requires a non-empty selector'')) (\<lambda>selector.
     andthen (click env i selector) (\<lambda>n.
     succeed (snapshot_result env n False 1000))))"

definition browser_type_invoke ::
  "('u, 's, 'w) browser_env \<Rightarrow> json \<Rightarrow> tool_context \<Rightarrow> ('w, json) browser_action" where
  "browser_type_invoke env args ctx =
     andthen (browser_session_arg args ctx) (\<lambda>i.
     andthen (of_result (needed (not_blank_arg args ''selector'')
       ''browser.type requires a non-empty selector'')) (\<lambda>selector.
     andthen (of_result (needed (get_str args ''text'') ''browser.type requires text'')) (\<lambda>text.
     andthen (type_text env i selector text) (\<lambda>n.
     succeed (snapshot_result env n False 1000)))))"

text \<open>\<open>None\<close> when the wait does not return.\<close>

definition browser_wait_invoke ::
  "('u, 's, 'w) browser_env \<Rightarrow> json \<Rightarrow> tool_context \<Rightarrow> 'w browser \<Rightarrow>
     ((frank_error + json) \<times> 'w browser) option" where
  "browser_wait_invoke env args ctx b =
     (case resolve_session_id (get_str args ''session_id'') ctx of
        Inl e \<Rightarrow> Some (Inl e, b)
      | Inr i \<Rightarrow>
          map_option (\<lambda>(r, b1). (map_sum id (\<lambda>n. snapshot_result env n False 1000) r, b1))
            (wait_for env i (not_blank_arg args ''selector'') (not_blank_arg args ''text'')
               (case Option.bind (json_get args ''timeout_ms'') as_u64 of Some n \<Rightarrow> n | None \<Rightarrow> 5000) b))"

definition browser_press_invoke ::
  "('u, 's, 'w) browser_env \<Rightarrow> json \<Rightarrow> tool_context \<Rightarrow> ('w, json) browser_action" where
  "browser_press_invoke env args ctx =
     andthen (browser_session_arg args ctx) (\<lambda>i.
     andthen (of_result (needed (not_blank_arg args ''selector'')
       ''browser.press requires a non-empty selector'')) (\<lambda>selector.
     andthen (of_result (needed (not_blank_arg args ''key'') ''browser.press requires an allowed key'')) (\<lambda>key.
     andthen (press_key env i selector key) (\<lambda>n.
     succeed (snapshot_result env n False 1000)))))"

definition browser_sessions_invoke :: "('u, 's, 'w) browser_env \<Rightarrow> ('w, json) browser_action" where
  "browser_sessions_invoke env =
     andthen list_browser_sessions (\<lambda>ss.
     succeed (JObject [(''sessions'', JArray (map (\<lambda>s. JObject
       [(''session_id'', JString (bs_session_id s)), (''target_id'', JString (bs_target_id s)),
        (''url'', JString (bs_current_url s)), (''title'', opt_json (bs_title s)),
        (''last_updated_at'', bv_time env (bs_last_updated_at s))]) ss))]))"

definition browser_close_invoke ::
  "('u, 's, 'w) browser_env \<Rightarrow> json \<Rightarrow> tool_context \<Rightarrow> ('w, json) browser_action" where
  "browser_close_invoke env args ctx =
     andthen (browser_session_arg args ctx) (\<lambda>i.
     andthen (close_session env i) (\<lambda>_.
     succeed (JObject [(''session_id'', JString i), (''closed'', JBool True)])))"

definition browser_screenshot_invoke ::
  "('u, 's, 'w) browser_env \<Rightarrow> json \<Rightarrow> tool_context \<Rightarrow> ('w, json) browser_action" where
  "browser_screenshot_invoke env args ctx =
     andthen (browser_session_arg args ctx) (\<lambda>i.
     andthen (screenshot env i (flag_arg args ''full_page'' False)) (\<lambda>png.
     succeed (JObject
       [(''session_id'', JString i), (''format'', JString ''png''), (''size_bytes'', JUInt (of_nat (length png))),
        (''_image_content'', JArray [JObject
          [(''mime_type'', JString ''image/png''), (''data'', JString (bv_encode64 env png))]])])))"

definition aria_options_arg :: "json \<Rightarrow> aria_options" where
  "aria_options_arg args =
     \<lparr>ao_interactive_only = flag_arg args ''interactive_only'' False,
      ao_max_depth = unat (clamped_arg args ''max_depth'' 20 1 50)\<rparr>"

text \<open>\<open>None\<close> when the snapshot does not return, \<open>Some None\<close> when it panics.\<close>

definition browser_aria_snapshot_invoke ::
  "('u, 's, 'w) browser_env \<Rightarrow> json \<Rightarrow> tool_context \<Rightarrow> 'w browser \<Rightarrow>
     ((frank_error + json) \<times> 'w browser) option option" where
  "browser_aria_snapshot_invoke env args ctx b =
     (case resolve_session_id (get_str args ''session_id'') ctx of
        Inl e \<Rightarrow> Some (Some (Inl e, b))
      | Inr i \<Rightarrow>
          map_option (map_option (\<lambda>(r, b1).
            (map_sum id (\<lambda>(tree, refs). JObject
               [(''session_id'', JString i), (''tree'', JString tree),
                (''ref_count'', JUInt (of_nat (length refs)))]) r, b1)))
            (aria_snapshot env i (aria_options_arg args) b))"

section \<open>The inspection of a session\<close>

definition session_inspect_tool :: "(json \<Rightarrow> string) \<Rightarrow> tool_def" where
  "session_inspect_tool shw =
     tool_spec shw ''session_inspect'' ''Inspect one session entry and recent transcript messages.''
       (schema []
         [arg_spec ''session_key'' ''string''
            ''Optional explicit session key. Defaults to the current tool context session.'',
          range_spec ''limit'' 1 (Some 100) ''Maximum transcript entries to return.'']) ReadOnly"

text \<open>The key that is asked for, or that of the chat; \<open>None\<close> is the panic of \<open>from_raw\<close>.\<close>

definition session_arg :: "json \<Rightarrow> tool_context \<Rightarrow> string \<Rightarrow> (frank_error + session_key) option" where
  "session_arg args ctx missing =
     (case get_str args ''session_key'' of
        Some s \<Rightarrow> map_option Inr (from_raw s)
      | None \<Rightarrow>
          (case tx_session_key ctx of
             Some k \<Rightarrow> Some (Inr k)
           | None \<Rightarrow> Some (Inl (InvalidRequest missing))))"

record 'w session_tools =
  sx_store :: "'w session_store"
  sx_session_json :: "session_entry \<Rightarrow> json"
  sx_entry_json :: "transcript_entry \<Rightarrow> json"
  sx_show :: "json \<Rightarrow> string"

definition session_inspect_invoke ::
  "'w session_tools \<Rightarrow> json \<Rightarrow> tool_context \<Rightarrow> ('w, json) action option" where
  "session_inspect_invoke sx args ctx =
     map_option (\<lambda>key.
       andthen (of_result key) (\<lambda>key.
       andthen (st_get (sx_store sx) key) (\<lambda>session.
       andthen (st_get_transcript (sx_store sx) key (unat (clamped_arg args ''limit'' 20 1 100)) None) (\<lambda>entries.
       succeed (JObject
         [(''session'', case session of Some s \<Rightarrow> sx_session_json sx s | None \<Rightarrow> JNull),
          (''entries'', JArray (map (sx_entry_json sx) entries))])))))
       (session_arg args ctx ''session.inspect requires a session_key'')"

section \<open>The canvas\<close>

definition canvas_id_spec :: "string \<times> json" where
  "canvas_id_spec = arg_spec ''canvas_id'' ''string'' ''Canvas ID. Defaults to the current session canvas.''"

definition blocks_spec :: "string \<Rightarrow> string \<times> json" where
  "blocks_spec desc =
     (''blocks'', JObject
       [(''type'', JString ''array''), (''description'', JString desc),
        (''items'', JObject
          [(''type'', JString ''object''), (''required'', JArray [JString ''kind'', JString ''text'']),
           (''properties'', JObject
             [(''kind'', JObject
                [(''type'', JString ''string''),
                 (''enum'', JArray (map JString
                   [''markdown'', ''code'', ''note'', ''checklist'', ''status'', ''metric'', ''action'']))]),
              (''text'', JObject [(''type'', JString ''string'')]),
              (''meta'', JObject [(''type'', JString ''object'')])])])])"

definition canvas_get_tool :: "(json \<Rightarrow> string) \<Rightarrow> tool_def" where
  "canvas_get_tool shw =
     tool_spec shw ''canvas_get''
       ''Read the current canvas document. Returns the title, body, and structured blocks.''
       (schema [] [canvas_id_spec]) ReadOnly"

definition canvas_set_tool :: "(json \<Rightarrow> string) \<Rightarrow> tool_def" where
  "canvas_set_tool shw =
     tool_spec shw ''canvas_set''
       (''Create or fully replace a canvas document visible in the user'' @ [CHR 0x27] @ ''s Canvas tab. Use this to write structured content like reports, notes, code, checklists, or drawings (as SVG/HTML in the body). Supports markdown in the body field and typed blocks.'')
       (schema [''title'', ''body'']
         [canvas_id_spec, arg_spec ''title'' ''string'' ''Document title.'',
          arg_spec ''body'' ''string'' ''Main document body (supports markdown).'',
          blocks_spec ''Optional structured blocks.'']) ReadOnly"

definition canvas_append_tool :: "(json \<Rightarrow> string) \<Rightarrow> tool_def" where
  "canvas_append_tool shw =
     tool_spec shw ''canvas_append''
       ''Append blocks to an existing canvas or update its title/body without replacing the whole document.''
       (schema []
         [canvas_id_spec, arg_spec ''title'' ''string'' ''New title (replaces existing).'',
          arg_spec ''body'' ''string'' ''New body (replaces existing).'', blocks_spec ''Blocks to append.'']) ReadOnly"

definition canvas_clear_tool :: "(json \<Rightarrow> string) \<Rightarrow> tool_def" where
  "canvas_clear_tool shw =
     tool_spec shw ''canvas_clear'' ''Delete a canvas document, removing all its content.''
       (schema [] [canvas_id_spec]) ReadOnly"

text \<open>The service is there or not; its documents are printed and its blocks read by parameters.\<close>

record canvas_tools =
  kx_now :: datetime
  kx_document_json :: "core_document \<Rightarrow> json"
  kx_blocks_of :: "json \<Rightarrow> core_block list option"

type_synonym 'a canvas_action = "(canvas_store option, 'a) action"

definition canvas_service :: "canvas_store canvas_action" where
  "canvas_service c =
     (case c of
        Some st \<Rightarrow> (Inr st, c)
      | None \<Rightarrow> (Inl (AgentRuntime ''canvas service not available''), c))"

definition canvas_id_from_args :: "json \<Rightarrow> tool_context \<Rightarrow> string" where
  "canvas_id_from_args args ctx =
     (case Option.bind (get_str args ''canvas_id'') (\<lambda>s. if s = [] then None else Some s) of
        Some i \<Rightarrow> i
      | None \<Rightarrow> (case tx_session_key ctx of Some k \<Rightarrow> ''session:'' @ key_str k | None \<Rightarrow> ''main''))"

definition blocks_arg :: "canvas_tools \<Rightarrow> json \<Rightarrow> core_block list" where
  "blocks_arg kx args =
     (case Option.bind (json_get args ''blocks'') (kx_blocks_of kx) of Some bs \<Rightarrow> bs | None \<Rightarrow> [])"

definition canvas_get_invoke :: "canvas_tools \<Rightarrow> json \<Rightarrow> tool_context \<Rightarrow> json canvas_action" where
  "canvas_get_invoke kx args ctx =
     andthen canvas_service (\<lambda>st.
     (let i = canvas_id_from_args args ctx
      in case service_get i st of
           Some doc \<Rightarrow> succeed (kx_document_json kx doc)
         | None \<Rightarrow> succeed (JObject
             [(''canvas_id'', JString i), (''status'', JString ''empty''),
              (''message'', JString ''No canvas document exists yet. Use canvas_set to create one.'')])))"

text \<open>The result of a change: its document, and the store it leaves.\<close>

definition canvas_change ::
  "canvas_tools \<Rightarrow> canvas_store \<times> (frank_error + core_document) \<Rightarrow> json canvas_action" where
  "canvas_change kx r c = (map_sum id (kx_document_json kx) (snd r), Some (fst r))"

definition canvas_set_invoke :: "canvas_tools \<Rightarrow> json \<Rightarrow> tool_context \<Rightarrow> json canvas_action" where
  "canvas_set_invoke kx args ctx =
     andthen canvas_service (\<lambda>st.
     canvas_change kx (service_set
       \<lparr>kd_id = canvas_id_from_args args ctx, kd_title = str_or [] (json_at args ''title''),
        kd_body = str_or [] (json_at args ''body''), kd_session_key = map_option key_str (tx_session_key ctx),
        kd_blocks = blocks_arg kx args, kd_revision = 0, kd_updated_at = kx_now kx\<rparr> st))"

definition canvas_append_invoke :: "canvas_tools \<Rightarrow> json \<Rightarrow> tool_context \<Rightarrow> json canvas_action" where
  "canvas_append_invoke kx args ctx =
     andthen canvas_service (\<lambda>st.
     (let title = get_str args ''title''; body = get_str args ''body''; blocks = blocks_arg kx args
      in andthen (require (title \<noteq> None \<or> body \<noteq> None \<or> blocks \<noteq> [])
           (InvalidRequest ''canvas_append requires at least one of: title, body, or blocks'')) (\<lambda>_.
         canvas_change kx (service_patch (kx_now kx) (canvas_id_from_args args ctx) title body blocks st))))"

definition canvas_clear_invoke :: "json \<Rightarrow> tool_context \<Rightarrow> json canvas_action" where
  "canvas_clear_invoke args ctx =
     andthen canvas_service (\<lambda>st c.
       (Inr (JObject [(''canvas_id'', JString (canvas_id_from_args args ctx)), (''status'', JString ''cleared'')]),
        Some (service_clear (canvas_id_from_args args ctx) st)))"

section \<open>Results are bounded, and what they are of\<close>

lemma clamped_arg_bounds: "lo \<le> hi \<Longrightarrow> lo \<le> clamped_arg args k d lo hi \<and> clamped_arg args k d lo hi \<le> hi"
  by (auto simp: clamped_arg_def Let_def)

lemma truncate_chars_bound: "char_count (truncate_chars v n) \<le> n + 3"
  by (simp add: truncate_chars_def char_count_prefix_chars is_continuation_def)

lemma truncate_chars_short: "char_count v \<le> n \<Longrightarrow> truncate_chars v n = v"
  by (simp add: truncate_chars_def prefix_chars_all)

text \<open>Without a session identifier the tools of different chats use different sessions.\<close>

lemma default_sessions_apart:
  assumes "tx_session_key c1 = Some k1" "tx_session_key c2 = Some k2" "k1 \<noteq> k2"
  shows "resolve_session_id None c1 \<noteq> resolve_session_id None c2"
  using assms by (cases k1; cases k2) (simp add: resolve_session_id_def)

text \<open>The inspection reads any session that is named: neither the agent nor the chat matters.\<close>

lemma any_session_inspected:
  assumes "get_str args ''session_key'' = Some s"
  shows "session_inspect_invoke sx args c1 = session_inspect_invoke sx args c2"
  using assms by (simp add: session_inspect_invoke_def session_arg_def)

text \<open>Blocks that cannot be read are dropped without an error: the document is stored without any.\<close>

lemma malformed_blocks_dropped:
  assumes "json_get args ''blocks'' = Some v" "kx_blocks_of kx v = None"
    and "canvas_set_invoke kx args ctx (Some st) = (Inr r, Some st1)"
  shows "\<exists>d. cs_documents st1 (canvas_id_from_args args ctx) = Some d \<and> cd_blocks d = []"
proof -
  let ?d = "core_doc_to_local
     \<lparr>kd_id = canvas_id_from_args args ctx, kd_title = str_or [] (json_at args ''title''),
      kd_body = str_or [] (json_at args ''body''), kd_session_key = map_option key_str (tx_session_key ctx),
      kd_blocks = [], kd_revision = 0, kd_updated_at = kx_now kx\<rparr>"
  have "blocks_arg kx args = []" using assms(1,2) by (simp add: blocks_arg_def)
  then have run: "canvas_change kx (service_result st (canvas_set ?d (cs_documents st))) (Some st)
      = (Inr r, Some st1)"
    using assms(3) by (simp add: canvas_set_invoke_def canvas_service_def service_set_def andthen_def)
  show ?thesis
  proof (cases rule: canvas_set_cases [of ?d "cs_documents st"])
    case (refused e)
    then show ?thesis using run by (simp add: canvas_change_def service_result_def Let_def)
  next
    case (stored d1)
    then show ?thesis
      using run by (auto simp: canvas_change_def service_result_def core_doc_to_local_def notify_def
          Let_def split: option.splits)
  qed
qed

text \<open>A canvas with blanks around its name is out of reach for the gateway, which trims the name.\<close>

lemma blank_canvas_unreachable:
  "canvas_id_from_args (JObject [(''canvas_id'', JString '' a'')]) ctx = '' a''"
  "key_for c k \<noteq> '' a''"
proof -
  show "canvas_id_from_args (JObject [(''canvas_id'', JString '' a'')]) ctx = '' a''"
    by (simp add: canvas_id_from_args_def get_str_def)
  have no_blank: "non_blank v \<noteq> Some '' a''" for v
    using trim_not_hd [of "the v"] by (auto simp: non_blank_def is_ws_def split: option.splits if_splits)
  then show "key_for c k \<noteq> '' a''"
    by (auto simp: key_for_def split: option.splits)
qed

end
