(* ===== verification/Spec2Isabelle.thy ===== *)
theory Spec2Isabelle
  imports
    Prelude Rust_Text Core_Types Circuit_Breaker Retry Failover Rate_Limit Media_Types Net_Safety
    Json Config Auth Webhook_Limiter Pairing Job Triggers Cost_Guard Cache Context Sanitize
    Bash_Policy Subagent Utf8_Text Canvas Channel_Types Channel_Text Delivery Health_Monitor Webhooks
    Hooks Api_Keys Commands File_Tools Leak_Detector Markdown Sse Chunking
    Effects Tool_Registry Catalog Session_Types Turn_Support Agent_Prompt Chat_Turn Chat_Safety
    Plugins Runtime_Build Chat_Sessions Cron_Service Acp Gateway_Rpc Gateway_Server Session_Store Media_Store
    Model_Wire Openai_Wire Anthropic_Wire Routing Links Channel_Wire Telegram Discord Slack Signal Whatsapp Email
    Channels Openai_Api Understanding Aria Browser Browser_Tools
begin

text \<open>
  FrankClaw is a gateway between messaging channels and language models, a workspace of Rust
  crates. This library models the parts that decide something: who may connect, what may be
  called and how often, what is sent to a model, which commands and addresses are allowed.

  \<^bold>\<open>Parts and how they interact.\<close> A client authenticates at the gateway
  (\<open>frankclaw-gateway\<close>: \<open>auth.rs\<close> over \<open>rate_limit.rs\<close>); unknown senders on a channel are
  paired (\<open>pairing.rs\<close>); webhooks pass a limiter (\<open>webhook_limiter.rs\<close>). The configuration of
  all this is validated by \<open>frankclaw-core/config.rs\<close>. A message is sanitized
  (\<open>core/sanitize.rs\<close>), put into the context of its session (\<open>core/session.rs\<close>,
  \<open>frankclaw-runtime/context.rs\<close>) and sent through the failover chain
  (\<open>frankclaw-models/failover.rs\<close> over \<open>circuit_breaker.rs\<close> and \<open>retry.rs\<close>), under a cost guard
  (\<open>cost_guard.rs\<close>, \<open>costs.rs\<close>) and a response cache (\<open>cache.rs\<close>). The runtime spawns subagents
  (\<open>subagent.rs\<close>); tools run shell commands (\<open>frankclaw-tools/bash.rs\<close>) and fetch media
  (\<open>frankclaw-media/fetch.rs\<close> with the address check of \<open>core/media.rs\<close>); background jobs and
  routines live in \<open>frankclaw-cron\<close> (\<open>job.rs\<close>, \<open>triggers.rs\<close>).

  \<^bold>\<open>Theories.\<close>
  \<^item> \<open>Prelude\<close>, \<open>Rust_Text\<close>, \<open>Json\<close>: machine integers, time, checks in sequence, vectors, the
    locales \<open>component\<close> and \<open>refined_component\<close>; \<open>str\<close>; \<open>serde_json::Value\<close>.
  \<^item> \<open>Core_Types\<close>: identifiers, session keys and scopes, messages, roles, errors. A session key
    parses back; the default scope separates peers.
  \<^item> \<open>Circuit_Breaker\<close>: the breaker and its three-state specification, related by a simulation;
    the locale \<open>breaker_contract\<close> is what the chain relies on.
  \<^item> \<open>Retry\<close>, \<open>Failover\<close>: backoff on words, classification of errors, the chain over an
    arbitrary environment of providers and any breaker that satisfies the contract.
  \<^item> \<open>Rate_Limit\<close>, \<open>Auth\<close>: the limiter, its contract \<open>rate_limiter_contract\<close>, and the
    authentication proved over the contract; the lockout of a guesser; the exposure report.
  \<^item> \<open>Config\<close>: the configuration and exactly which configurations are accepted.
  \<^item> \<open>Webhook_Limiter\<close>, \<open>Pairing\<close>: rate bound of the fixed windows; approvals only by codes.
  \<^item> \<open>Job\<close>, \<open>Triggers\<close>: the job state machine with its history; the guardrails of routines.
  \<^item> \<open>Cost_Guard\<close>, \<open>Cache\<close>: exact answers of the check, overspending and sliding-hour bounds;
    freshness and capacity of the cache.
  \<^item> \<open>Context\<close>: repair, merge and pruning of a conversation; the index loops are functions with
    a measure, proved equal to structural recursions.
  \<^item> \<open>Sanitize\<close>: UTF-8 with its round trip, the filter of characters, the size check.
  \<^item> \<open>Bash_Policy\<close>, \<open>Net_Safety\<close>, \<open>Media_Types\<close>: which commands reach a shell, which addresses
    a fetch reaches, the MIME tables.
  \<^item> \<open>Subagent\<close>: the registry with its limits.
  \<^item> \<open>Canvas\<close>, \<open>Health_Monitor\<close>, \<open>Webhooks\<close>: the canvas documents with their revisions, the
    restarts of channels, the signatures and transforms of webhooks.
  \<^item> \<open>Channel_Types\<close>, \<open>Channel_Text\<close>, \<open>Delivery\<close>: messages and adapters, the text of a reply, its
    splitting and the retries of its delivery.
  \<^item> \<open>Hooks\<close>, \<open>Api_Keys\<close>, \<open>Commands\<close>: the registry of handlers, the rotation of keys, the commands in
    a message.
  \<^item> \<open>File_Tools\<close>, \<open>Leak_Detector\<close>, \<open>Markdown\<close>, \<open>Sse\<close>, \<open>Chunking\<close>: the paths of the file tools,
    credentials in outputs, the renderer of the terminal, the event streams of providers, the chunks
    of memory files. \<open>Utf8_Text\<close> holds characters, byte offsets and slices.
  \<^item> \<open>Effects\<close>: fallible actions over a world, and the calculus \<open>leaves\<close> of what they leave behind.
  \<^item> \<open>Tool_Registry\<close>, \<open>Catalog\<close>, \<open>Session_Types\<close>, \<open>Turn_Support\<close>, \<open>Agent_Prompt\<close>: what a turn of an
    agent is made of (\<open>tools/lib.rs\<close>, \<open>models/catalog.rs\<close>, \<open>core/session.rs\<close>, \<open>runtime/lib.rs\<close>).
  \<^item> \<open>Chat_Turn\<close>: the turn, \<open>Runtime::chat\<close>, over an environment of store, models, tools, clock and
    approval channel; \<open>Chat_Safety\<close> observes it through a log and proves that every turn is bounded,
    sends paired requests, runs tools with approval, stores scanned output and numbers its entries.
  \<^item> \<open>Plugins\<close>, \<open>Runtime_Build\<close>, \<open>Chat_Sessions\<close>: the plugins and skills of a workspace, the providers
    and the runtime made of a configuration (every accepted one is built), what the runtime does with a
    session besides a turn: its list, its reset, its compaction, the subagents it spawns.
  \<^item> \<open>Cron_Service\<close>: the service with its store of jobs; an occurrence of a schedule starts one run.
  \<^item> \<open>Session_Store\<close>: the statements on the two tables of the database as functions on their rows, and the
    encryption of the transcripts. The locale \<open>entry_log\<close> is what a reader of a transcript relies on; it
    is interpreted on the store, and a written transcript is read back.
  \<^item> \<open>Media_Store\<close>: the directory of media files and the scanner: names, round trip, cleanup, polling.
  \<^item> \<open>Acp\<close>, \<open>Gateway_Rpc\<close>, \<open>Gateway_Server\<close>, \<open>Openai_Api\<close>: the agent protocol with its sessions; the methods
    of the gateway with the role each needs, its runs and approvals; the HTTP endpoints, the messages of the
    channels, the reload of the configuration; the endpoint for OpenAI clients. They show who can change what.
  \<^item> \<open>Model_Wire\<close>, \<open>Openai_Wire\<close>, \<open>Anthropic_Wire\<close>: the two protocols of the providers, bodies of requests,
    responses and streams of events; a streamed answer is read as the plain one, and the blocks of a request
    to Anthropic are paired.
  \<^item> \<open>Routing\<close>, \<open>Links\<close>: the score of a prompt and the model it selects; the links of a message.
  \<^item> \<open>Channel_Wire\<close> and the adapters \<open>Telegram\<close>, \<open>Discord\<close>, \<open>Slack\<close>, \<open>Signal\<close>, \<open>Whatsapp\<close>, \<open>Email\<close>
    (\<open>frankclaw-channels\<close>): what a message that comes in becomes, the calls of a message that goes out,
    editing and streaming, the sessions of the event streams; \<open>Channels\<close> holds the web channel and the
    set of adapters made of a configuration. They show that a reply goes back to the conversation of its
    message, that a split text is complete and that unsigned webhooks are refused.
  \<^item> \<open>Understanding\<close>: the descriptions of attachments, four services, the batch, the chain and what the
    runtime passes on (\<open>media/understanding.rs\<close>).
  \<^item> \<open>Aria\<close>: the snapshot of an accessibility tree (\<open>tools/aria.rs\<close>): when it returns, and that the
    references number the printed elements.
  \<^item> \<open>Browser\<close>, \<open>Browser_Tools\<close>: the browser sessions over DevTools and the tools for the browser, the
    canvas and a session (\<open>tools/lib.rs\<close>). The sessions are bounded when openings do not overlap, an
    unsafe address is not opened, waiting returns.

  \<^bold>\<open>Conventions.\<close> A struct is a record with prefixed fields, an enum a datatype; \<open>Result\<close> is a
  sum (\<open>Inl\<close> the error), a panic is \<open>None\<close> of an outer option. Operations that lock a state are
  functions on it, and a component runs any list of them one after the other
  (\<open>foldl\<close>), which is every interleaving of calls that hold the lock throughout. Clock reads,
  random numbers, hashes, regular expressions, name resolution, processes and providers are
  arguments. \<open>u32\<close> and \<open>u64\<close> fields are words, so that sums wrap as in the release build;
  lengths and indices are \<open>nat\<close>.

  \<^bold>\<open>Bounds and fuel.\<close> No definition uses fuel. Two loops of the code may run forever, they are partial
  functions with a value for not returning: \<open>Aria.render_nodes\<close> returns on every tree without a cycle of
  silent nodes (\<open>render_nodes_returns\<close>), \<open>Browser.wait_loop\<close> under a clock that advances
  (\<open>wait_for_returns\<close>). Every other recursion is structural or has a proved
  measure (the retry loop counts its remaining attempts, the redirect loop its remaining redirects, the
  pruning and eviction loops the length of their list). The backoff theorem is
  stated up to attempt 52, past which the code's signed sum can overflow; the chain makes four
  attempts at most.

  \<^bold>\<open>Not modelled.\<close> The command line and the terminal interface, the HTML of the web console, tunnels
  and the programs they start, the loops that hold sockets and timers: input and output around the
  operations that are modelled. The network, the SQL engine, ciphers, hashes, the JSON, HTML and MIME
  libraries and regular expressions are parameters, with what the code relies on as hypotheses of the
  lemmas that need it. The client of Copilot (it speaks the protocol of the OpenAI client after a device
  flow), the memory store with its embeddings, and the tools that are not
  named above (web, memory, messaging, PDF, image, audio, sessions, cron, configuration, MCP)
  remain outside. Money is exact instead of \<open>f64\<close>; the two quotients of the context engine are exact;
  await points inside one call of the failover chain or of the cost guard are not interleaved; logging
  is left out.
\<close>

section \<open>Configuration, exposure and authentication together\<close>

lemma exposed_mode:
  assumes "assess_exposure parse_ip cfg = Inr report"
  shows "gw_bind (fc_gateway cfg) = Loopback \<or> gw_auth (fc_gateway cfg) \<noteq> AuthNone"
proof -
  from assms have "validate_bind_auth (gw_bind (fc_gateway cfg)) (gw_auth (fc_gateway cfg)) = Inr ()"
    by (auto simp: assess_exposure_def Let_def split: sum.splits)
  then show ?thesis by (simp add: validate_bind_auth_ok)
qed

lemma accepted_auth:
  "validate parse_ip from_value cfg = Some (Inr ()) \<Longrightarrow> auth_ok (gw_auth (fc_gateway cfg))"
  by (auto simp: validate_def validate_static_def auth_validate_ok split: sum.splits option.splits)

text \<open>
  C6. A gateway whose configuration is accepted, both by the validation and by the exposure
  check, and that is bound to more than the loopback interface, never lets a client in that
  presents no credential or an empty token, whatever its limiter has recorded.
\<close>

theorem exposed_gateway_needs_credential:
  assumes "validate parse_ip0 from_value cfg = Some (Inr ())"
    and "assess_exposure parse_ip cfg = Inr report"
    and "gw_bind (fc_gateway cfg) \<noteq> Loopback"
    and "cred = NoCredential \<or> cred = BearerToken []"
  shows "\<exists>e. fst (gateway_authenticate limits pw (gw_auth (fc_gateway cfg)) cred (Some ip) (t1, t2, t3) m)
           = Inl e"
proof -
  have "gw_auth (fc_gateway cfg) \<noteq> AuthNone" using exposed_mode [OF assms(2)] assms(3) by simp
  with accepted_auth [OF assms(1)] assms(4)
  have "\<not> accepts pw (gw_auth (fc_gateway cfg)) cred role" for role
    by (auto simp: accepts_def auth_ok_def blank_opt_def blank_def)
  then have "fst (gateway_authenticate limits pw (gw_auth (fc_gateway cfg)) cred (Some ip) (t1, t2, t3) m)
      \<noteq> Inr role" for role
    unfolding gateway_authenticate_def limiter_ifc.granted by simp
  then show ?thesis
    by (cases "fst (gateway_authenticate limits pw (gw_auth (fc_gateway cfg)) cred (Some ip) (t1, t2, t3) m)") auto
qed

definition lan_config :: frankclaw_config where
  "lan_config = default_config\<lparr>fc_gateway := default_gateway\<lparr>gw_bind := Lan,
     gw_auth := AuthToken (Some ''secret'')\<rparr>\<rparr>"

theorem exposed_gateway_needs_credential_witness:
  "\<exists>e. fst (gateway_authenticate default_rate_limit_config (\<lambda>_ _. None) (gw_auth (fc_gateway lan_config))
     (BearerToken []) (Some (1 :: nat)) (0, 0, 0) (\<lambda>_. None)) = Inl e"
proof -
  have "validate (\<lambda>_. None :: nat option) (\<lambda>_. Inl []) lan_config = Some (Inr ())"
    by (simp add: validate_def validate_static_def lan_config_def default_config_def default_gateway_def
        default_agents_def parsed_mappings_def auth_validate_ok auth_ok_def blank_opt_def blank_def
        trim_def trim_start_def trim_end_def is_ws_def check_def)
  moreover obtain report where "assess_exposure (\<lambda>_. None) lan_config = Inr report"
    by (simp add: assess_exposure_def Let_def lan_config_def default_gateway_def)
  ultimately show ?thesis
    by (rule exposed_gateway_needs_credential) (simp_all add: lan_config_def)
qed

end
